(* ===== verification/Rust_Str.thy ===== *)
theory Rust_Str
  imports Prelude
begin

text \<open>
  The part of Rust's \<open>core::str\<close> that homeTier calls: UTF-8 validation, \<open>trim\<close>, \<open>lines\<close>,
  \<open>find\<close>/\<open>rfind\<close>/\<open>contains\<close>/\<open>starts_with\<close>/\<open>split\<close>, decimal formatting and the integer
  \<open>FromStr\<close> parsers. All of it works on the UTF-8 bytes of a string.
\<close>

section \<open>UTF-8 validation\<close>

abbreviation cont :: "nat \<Rightarrow> bool" where
  "cont b \<equiv> 128 \<le> b \<and> b \<le> 191"

text \<open>The well-formed byte sequences of the Unicode standard, which \<open>str::from_utf8\<close> accepts.\<close>

fun utf8_codes :: "nat list \<Rightarrow> bool" where
  "utf8_codes [] = True"
| "utf8_codes (b # bs) =
    (if b < 128 then utf8_codes bs
     else if 194 \<le> b \<and> b \<le> 223 then
       (case bs of c # bs1 \<Rightarrow> cont c \<and> utf8_codes bs1 | _ \<Rightarrow> False)
     else if 224 \<le> b \<and> b \<le> 239 then
       (case bs of c # d # bs2 \<Rightarrow>
          cont c \<and> (b = 224 \<longrightarrow> 160 \<le> c) \<and> (b = 237 \<longrightarrow> c \<le> 159) \<and> cont d \<and> utf8_codes bs2
        | _ \<Rightarrow> False)
     else if 240 \<le> b \<and> b \<le> 244 then
       (case bs of c # d # e # bs3 \<Rightarrow>
          cont c \<and> (b = 240 \<longrightarrow> 144 \<le> c) \<and> (b = 244 \<longrightarrow> c \<le> 143) \<and> cont d \<and> cont e \<and> utf8_codes bs3
        | _ \<Rightarrow> False)
     else False)"

definition is_utf8 :: "string \<Rightarrow> bool" where
  "is_utf8 s = utf8_codes (map of_char s)"

definition from_utf8 :: "bytes \<Rightarrow> string option" where
  "from_utf8 b = (if utf8_codes (map unat b) then Some (of_bytes b) else None)"

lemma unat_byte_of_char [simp]: "unat (byte_of_char c) = of_char c"
  by (simp add: byte_of_char_def unat_word8_of_nat)

lemma from_utf8_as_bytes [simp]: "is_utf8 s \<Longrightarrow> from_utf8 (as_bytes s) = Some s"
  by (simp add: from_utf8_def is_utf8_def as_bytes_def comp_def of_bytes_def)

lemma from_utf8_SomeD: "from_utf8 b = Some s \<Longrightarrow> is_utf8 s \<and> as_bytes s = b"
proof -
  assume a: "from_utf8 b = Some s"
  then have s: "s = of_bytes b" and u: "utf8_codes (map unat b)"
    by (auto simp: from_utf8_def split: if_splits)
  have "map of_char s = map unat b"
    by (simp add: s of_bytes_def comp_def flip: unat_byte_of_char)
  with u s show ?thesis
    by (simp add: is_utf8_def)
qed

lemma utf8_codes_append: "utf8_codes a \<Longrightarrow> utf8_codes (a @ b) = utf8_codes b"
  by (induction a rule: utf8_codes.induct) (auto split: if_splits list.splits)

lemma is_utf8_append: "is_utf8 a \<Longrightarrow> is_utf8 (a @ b) = is_utf8 b"
  by (simp add: is_utf8_def utf8_codes_append)

text \<open>A literal with non-ASCII characters, written as its UTF-8 bytes.\<close>

definition utf8_text :: "nat list \<Rightarrow> string" where
  "utf8_text bs = map char_of bs"

definition is_ascii :: "string \<Rightarrow> bool" where
  "is_ascii s = list_all (\<lambda>c. (of_char c :: nat) < 128) s"

lemma is_ascii_utf8 [simp]: "is_ascii s \<Longrightarrow> is_utf8 s"
  unfolding is_ascii_def is_utf8_def by (induction s) auto

section \<open>Searching\<close>

fun starts_with :: "string \<Rightarrow> string \<Rightarrow> bool" where
  "starts_with s [] = True"
| "starts_with [] (p # ps) = False"
| "starts_with (c # s) (p # ps) = (c = p \<and> starts_with s ps)"

lemma starts_with_iff: "starts_with s p \<longleftrightarrow> (\<exists>t. s = p @ t)"
  by (induction s p rule: starts_with.induct) auto

definition ends_with :: "string \<Rightarrow> string \<Rightarrow> bool" where
  "ends_with s p = starts_with (rev s) (rev p)"

fun contains_str :: "string \<Rightarrow> string \<Rightarrow> bool" where
  "contains_str [] p = (p = [])"
| "contains_str (c # s) p = (starts_with (c # s) p \<or> contains_str s p)"

lemma contains_str_iff: "contains_str s p \<longleftrightarrow> (\<exists>a b. s = a @ p @ b)"
proof (induction s)
  case Nil
  then show ?case by simp
next
  case (Cons c s)
  have "(\<exists>a b. c # s = a @ p @ b) \<longleftrightarrow> (\<exists>b. c # s = p @ b) \<or> (\<exists>a b. s = a @ p @ b)"
    by (metis append_Cons append_Nil list.exhaust list.inject)
  with Cons show ?case
    by (simp add: starts_with_iff)
qed

text \<open>\<open>str::find\<close> with a character and with a string pattern: the byte index of the first match.\<close>

fun find_char :: "char \<Rightarrow> string \<Rightarrow> nat option" where
  "find_char c [] = None"
| "find_char c (x # xs) = (if x = c then Some 0 else map_option Suc (find_char c xs))"

fun find_str :: "string \<Rightarrow> string \<Rightarrow> nat option" where
  "find_str p [] = (if p = [] then Some 0 else None)"
| "find_str p (x # xs) =
    (if starts_with (x # xs) p then Some 0 else map_option Suc (find_str p xs))"

definition rfind_char :: "char \<Rightarrow> string \<Rightarrow> nat option" where
  "rfind_char c s = map_option (\<lambda>i. length s - Suc i) (find_char c (rev s))"

lemma find_char_None [simp]: "find_char c s = None \<longleftrightarrow> c \<notin> set s"
  by (induction s) auto

lemma find_char_Some:
  "find_char c s = Some i \<Longrightarrow> i < length s \<and> s ! i = c \<and> c \<notin> set (take i s)"
  by (induction s arbitrary: i) (auto split: if_splits)

lemma find_char_append: "c \<notin> set a \<Longrightarrow> find_char c (a @ c # b) = Some (length a)"
  by (induction a) auto

lemma find_str_Some: "find_str p s = Some i \<Longrightarrow> \<exists>b. s = take i s @ p @ b \<and> i + length p \<le> length s"
proof (induction s arbitrary: i)
  case Nil
  then show ?case by (simp split: if_splits)
next
  case (Cons x xs)
  show ?case
  proof (cases "starts_with (x # xs) p")
    case True
    with Cons.prems have "i = 0"
      by simp
    moreover from True obtain t where t: "x # xs = p @ t"
      by (auto simp: starts_with_iff)
    moreover have "length p \<le> length (x # xs)"
      by (simp only: t length_append le_add1)
    ultimately show ?thesis by auto
  next
    case False
    with Cons show ?thesis by force
  qed
qed

text \<open>\<open>str::split\<close> on a non-empty pattern.\<close>

function split_str :: "string \<Rightarrow> string \<Rightarrow> string list" where
  "split_str sep s =
    (if sep = [] then [s]
     else (case find_str sep s of
             None \<Rightarrow> [s]
           | Some i \<Rightarrow> take i s # split_str sep (drop (i + length sep) s)))"
  by pat_completeness auto

termination split_str
proof (relation "measure (\<lambda>(sep, s). length s)", simp)
  fix sep s :: string and i
  assume "sep \<noteq> []" "find_str sep s = Some i"
  then have "i + length sep \<le> length s" "0 < length sep"
    using find_str_Some by blast+
  then show "((sep, drop (i + length sep) s), (sep, s)) \<in> measure (\<lambda>(sep, s). length s)"
    by (simp del: length_greater_0_conv)
qed

declare split_str.simps [simp del]

section \<open>Trimming white space\<close>

text \<open>
  The number of bytes of the white-space character at the front of a string, 0 if there is
  none: the \<open>White_Space\<close> code points of Unicode in their UTF-8 encoding.
\<close>

definition ws1 :: "nat \<Rightarrow> bool" where
  "ws1 b = (9 \<le> b \<and> b \<le> 13 \<or> b = 32)"

definition ws2 :: "nat \<Rightarrow> nat \<Rightarrow> bool" where
  "ws2 b c = (b = 194 \<and> (c = 133 \<or> c = 160))"

definition ws3 :: "nat \<Rightarrow> nat \<Rightarrow> nat \<Rightarrow> bool" where
  "ws3 b c d = (b = 225 \<and> c = 154 \<and> d = 128
     \<or> b = 226 \<and> c = 128 \<and> (128 \<le> d \<and> d \<le> 138 \<or> d = 168 \<or> d = 169 \<or> d = 175)
     \<or> b = 226 \<and> c = 129 \<and> d = 159
     \<or> b = 227 \<and> c = 128 \<and> d = 128)"

fun ws_codes :: "nat list \<Rightarrow> nat" where
  "ws_codes [] = 0"
| "ws_codes [b] = (if ws1 b then 1 else 0)"
| "ws_codes [b, c] = (if ws1 b then 1 else if ws2 b c then 2 else 0)"
| "ws_codes (b # c # d # _) = (if ws1 b then 1 else if ws2 b c then 2 else if ws3 b c d then 3 else 0)"

definition ws_front :: "string \<Rightarrow> nat" where
  "ws_front s = ws_codes (map of_char (take 3 s))"

definition ws_back :: "string \<Rightarrow> nat" where
  "ws_back s =
    (if ws_front (drop (length s - 1) s) = 1 then 1
     else if ws_front (drop (length s - 2) s) = 2 then 2
     else if ws_front (drop (length s - 3) s) = 3 then 3
     else 0)"

lemma ws_codes_append: "ws_codes bs \<noteq> 0 \<Longrightarrow> ws_codes (bs @ cs) = ws_codes bs"
proof (induction bs rule: ws_codes.induct)
  case (2 b)
  then show ?case by (cases cs rule: ws_codes.cases) (auto split: if_splits)
next
  case (3 b c)
  then show ?case by (cases cs) (auto split: if_splits)
qed auto

lemma ws_codes_length: "ws_codes bs \<le> length bs"
  by (induction bs rule: ws_codes.induct) auto

lemma ws_front_append: "ws_front s \<noteq> 0 \<Longrightarrow> ws_front (s @ t) = ws_front s"
proof -
  assume a: "ws_front s \<noteq> 0"
  have "take 3 (s @ t) = take 3 s @ take (3 - length s) t"
    by simp
  with a show ?thesis
    by (simp add: ws_front_def ws_codes_append)
qed

lemma ws_front_length: "ws_front s \<le> length s"
proof -
  have "ws_front s \<le> length (take 3 s)"
    unfolding ws_front_def using ws_codes_length [of "map of_char (take 3 s)"] by simp
  then show ?thesis by simp
qed

lemma ws_front_Nil [simp]: "ws_front [] = 0"
  by (simp add: ws_front_def)

lemma ws_back_length: "ws_back s \<le> length s"
  using ws_front_length [of "drop (length s - 1) s"] ws_front_length [of "drop (length s - 2) s"]
    ws_front_length [of "drop (length s - 3) s"]
  by (auto simp: ws_back_def split: if_splits)

lemma ws_back_Nil [simp]: "ws_back [] = 0"
  by (simp add: ws_back_def)

function trim_start :: "string \<Rightarrow> string" where
  "trim_start s = (if ws_front s = 0 then s else trim_start (drop (ws_front s) s))"
  by pat_completeness auto
termination
proof (relation "measure length")
  fix s assume "ws_front s \<noteq> 0"
  with ws_front_length [of s] show "(drop (ws_front s) s, s) \<in> measure length"
    by simp
qed simp

function trim_end :: "string \<Rightarrow> string" where
  "trim_end s = (if ws_back s = 0 then s else trim_end (take (length s - ws_back s) s))"
  by pat_completeness auto
termination
proof (relation "measure length")
  fix s assume "ws_back s \<noteq> 0"
  with ws_back_length [of s] show "(take (length s - ws_back s) s, s) \<in> measure length"
    by simp
qed simp

declare trim_start.simps [simp del] trim_end.simps [simp del]

definition trim :: "string \<Rightarrow> string" where
  "trim s = trim_end (trim_start s)"

text \<open>A string with no white space at either end, which \<open>trim\<close> leaves alone.\<close>

definition trimmed :: "string \<Rightarrow> bool" where
  "trimmed s = (ws_front s = 0 \<and> ws_back s = 0)"

lemma trim_start_id: "ws_front s = 0 \<Longrightarrow> trim_start s = s"
  by (subst trim_start.simps) simp

lemma trim_end_id: "ws_back s = 0 \<Longrightarrow> trim_end s = s"
  by (subst trim_end.simps) simp

lemma trim_id: "trimmed s \<Longrightarrow> trim s = s"
  by (simp add: trim_def trimmed_def trim_start_id trim_end_id)

lemma ws_front_trim_start [simp]: "ws_front (trim_start s) = 0"
proof (induction s rule: trim_start.induct)
  case (1 s)
  then show ?case by (subst trim_start.simps) simp
qed

lemma ws_back_trim_end [simp]: "ws_back (trim_end s) = 0"
proof (induction s rule: trim_end.induct)
  case (1 s)
  then show ?case by (subst trim_end.simps) simp
qed

lemma trim_end_prefix: "\<exists>t. s = trim_end s @ t"
proof (induction s rule: trim_end.induct)
  case (1 s)
  show ?case
  proof (cases "ws_back s = 0")
    case True
    then show ?thesis by (simp add: trim_end_id)
  next
    case False
    with 1 obtain t where "take (length s - ws_back s) s = trim_end (take (length s - ws_back s) s) @ t"
      by blast
    then have "s = trim_end (take (length s - ws_back s) s) @ t @ drop (length s - ws_back s) s"
      by (metis append_assoc append_take_drop_id)
    then show ?thesis
      using False by (metis trim_end.simps)
  qed
qed

lemma trim_start_suffix: "\<exists>t. s = t @ trim_start s"
proof (induction s rule: trim_start.induct)
  case (1 s)
  show ?case
  proof (cases "ws_front s = 0")
    case True
    then show ?thesis by (simp add: trim_start_id)
  next
    case False
    with 1 obtain t where "drop (ws_front s) s = t @ trim_start (drop (ws_front s) s)"
      by blast
    then have "s = (take (ws_front s) s @ t) @ trim_start (drop (ws_front s) s)"
      by (metis append_assoc append_take_drop_id)
    then show ?thesis
      using False by (metis trim_start.simps)
  qed
qed

lemma ws_front_prefix: "ws_front (s @ t) = 0 \<Longrightarrow> ws_front s = 0"
  using ws_front_append by fastforce

lemma trimmed_trim [simp]: "trimmed (trim s)"
proof -
  obtain t where "trim_start s = trim_end (trim_start s) @ t"
    using trim_end_prefix by blast
  then have "ws_front (trim_end (trim_start s)) = 0"
    by (metis ws_front_prefix ws_front_trim_start)
  then show ?thesis
    by (simp add: trimmed_def trim_def)
qed

lemma trim_idem [simp]: "trim (trim s) = trim s"
  by (rule trim_id) simp

lemma trim_Nil [simp]: "trim [] = []"
  by (rule trim_id) (simp add: trimmed_def)

lemma set_trim: "set (trim s) \<subseteq> set s"
proof -
  have "set (trim_end u) \<subseteq> set u" for u
    using trim_end_prefix [of u] by (metis Un_upper1 set_append)
  moreover have "set (trim_start s) \<subseteq> set s"
    using trim_start_suffix [of s] by (metis Un_upper2 set_append)
  ultimately show ?thesis
    unfolding trim_def by blast
qed

text \<open>
  A visible ASCII character, such as \<open>=\<close>, is never part of the encoding of a white-space
  character, so trimming stops at it from either side.
\<close>

definition visible :: "char \<Rightarrow> bool" where
  "visible c = (\<not> ws1 (of_char c) \<and> (of_char c :: nat) < 128)"

lemma visible_not_ws:
  assumes "visible c"
  shows "\<not> ws1 (of_char c)" "\<not> ws2 (of_char c) x" "\<not> ws2 x (of_char c)"
    "\<not> ws3 (of_char c) x y" "\<not> ws3 x (of_char c) y" "\<not> ws3 x y (of_char c)"
  using assms by (auto simp: visible_def ws2_def ws3_def)

lemma ws_front_visible_append: "visible c \<Longrightarrow> ws_front (a @ c # b) = ws_front a"
  unfolding ws_front_def
  by (cases a rule: remdups_adj.cases; cases "tl (tl a)"; cases b; cases "tl b")
    (auto simp: visible_not_ws numeral_3_eq_3 neq_Nil_conv)

lemma trim_start_visible: "visible c \<Longrightarrow> trim_start (a @ c # b) = trim_start a @ c # b"
proof (induction a rule: trim_start.induct)
  case (1 a)
  have w: "ws_front (a @ c # b) = ws_front a"
    using 1 by (simp add: ws_front_visible_append)
  show ?case
  proof (cases "ws_front a = 0")
    case True
    with w show ?thesis by (simp add: trim_start_id)
  next
    case False
    with 1 w ws_front_length [of a] show ?thesis
      by (simp add: trim_start.simps [of a] trim_start.simps [of "a @ c # b"])
  qed
qed

lemma ws_tail_visible:
  assumes "visible c" and "0 < n"
  shows "ws_front (drop (length (a @ c # b) - n) (a @ c # b)) = n \<longleftrightarrow>
         ws_front (drop (length b - n) b) = n"
proof (cases "n \<le> length b")
  case True
  then have "drop (length (a @ c # b) - n) (a @ c # b) = drop (length b - n) b"
    by (simp add: Suc_diff_le)
  then show ?thesis by (simp only:)
next
  case False
  let ?d = "length (a @ c # b) - n"
  have d: "?d \<le> length a"
    using False by simp
  then have "ws_front (drop ?d (a @ c # b)) = ws_front (drop ?d a)"
    using assms(1) by (simp add: ws_front_visible_append)
  moreover have "length (drop ?d a) < n"
    using assms(2) d False by simp
  ultimately have "ws_front (drop ?d (a @ c # b)) \<noteq> n"
    using ws_front_length [of "drop ?d a"] by linarith
  moreover have "ws_front (drop (length b - n) b) \<noteq> n"
    using ws_front_length [of b] False by simp
  ultimately show ?thesis by simp
qed

lemma ws_back_visible_append: "visible c \<Longrightarrow> ws_back (a @ c # b) = ws_back b"
  unfolding ws_back_def by (simp only: ws_tail_visible zero_less_numeral zero_less_one)

lemma trim_end_visible: "visible c \<Longrightarrow> trim_end (a @ c # b) = a @ c # trim_end b"
proof (induction b rule: trim_end.induct)
  case (1 b)
  have w: "ws_back (a @ c # b) = ws_back b"
    using 1 by (simp add: ws_back_visible_append)
  show ?case
  proof (cases "ws_back b = 0")
    case True
    with w show ?thesis by (simp add: trim_end_id)
  next
    case False
    have "take (length (a @ c # b) - ws_back b) (a @ c # b) = a @ c # take (length b - ws_back b) b"
      using ws_back_length [of b] by (simp add: Suc_diff_le)
    with False 1 w show ?thesis
      by (simp add: trim_end.simps [of b] trim_end.simps [of "a @ c # b"])
  qed
qed

lemma trim_visible: "visible c \<Longrightarrow> trim (a @ c # b) = trim_start a @ c # trim_end b"
  by (simp add: trim_def trim_start_visible trim_end_visible)

text \<open>An ASCII white-space character at the end of a string is trimmed away.\<close>

lemma ws_front_ascii_append:
  "(of_char c :: nat) < 128 \<Longrightarrow> a \<noteq> [] \<Longrightarrow> ws_front (a @ c # b) = ws_front a"
  unfolding ws_front_def
  by (cases a rule: remdups_adj.cases; cases "tl (tl a)"; cases b; cases "tl b")
    (auto simp: ws2_def ws3_def numeral_3_eq_3 neq_Nil_conv)

lemma ws_front_single: "ws_front [c] = (if ws1 (of_char c) then 1 else 0)"
  by (simp add: ws_front_def numeral_3_eq_3)

lemma trim_start_snoc_ws:
  assumes "ws1 (of_char c)"
  shows "trim_start (s @ [c]) = (if trim_start s = [] then [] else trim_start s @ [c])"
proof (induction s rule: trim_start.induct)
  case (1 s)
  have ascii: "(of_char c :: nat) < 128"
    using assms by (auto simp: ws1_def)
  show ?case
  proof (cases "s = []")
    case True
    then show ?thesis
      using assms by (simp add: trim_start.simps [of "[c]"] ws_front_single trim_start_id)
  next
    case False
    then have w: "ws_front (s @ [c]) = ws_front s"
      using ascii by (simp add: ws_front_ascii_append)
    show ?thesis
    proof (cases "ws_front s = 0")
      case True
      with w False show ?thesis by (simp add: trim_start_id)
    next
      case nz: False
      with 1 w ws_front_length [of s] show ?thesis
        by (simp add: trim_start.simps [of s] trim_start.simps [of "s @ [c]"])
    qed
  qed
qed

lemma trim_end_snoc_ws: "ws1 (of_char c) \<Longrightarrow> trim_end (s @ [c]) = trim_end s"
  by (subst trim_end.simps) (simp add: ws_back_def ws_front_single)

lemma trim_snoc_ws: "ws1 (of_char c) \<Longrightarrow> trim (s @ [c]) = trim s"
  by (simp add: trim_def trim_start_snoc_ws trim_end_snoc_ws)

lemma visible_trimmed: "list_all visible s \<Longrightarrow> trimmed s"
proof (cases s rule: rev_cases)
  case Nil
  then show ?thesis by (simp add: trimmed_def)
next
  case (snoc t c)
  assume v: "list_all visible s"
  obtain d u where s: "s = d # u"
    using snoc by (metis append_is_Nil_conv list.distinct(1) list.exhaust)
  have "ws_front ([] @ d # u) = ws_front []"
    using v s by (intro ws_front_visible_append) simp
  moreover have "ws_back (t @ c # []) = ws_back []"
    using v snoc by (intro ws_back_visible_append) simp
  ultimately show ?thesis
    using s snoc by (simp add: trimmed_def)
qed

lemma visible_trim: "list_all visible s \<Longrightarrow> trim s = s"
  by (intro trim_id visible_trimmed)

section \<open>Lines\<close>

abbreviation NL :: char where "NL \<equiv> CHR 0x0A"
abbreviation CR :: char where "CR \<equiv> CHR 0x0D"

text \<open>\<open>str::lines\<close>: \<open>split_inclusive('\\n')\<close> and removal of one \<open>\\n\<close> or \<open>\\r\\n\<close> from each piece.\<close>

fun split_nl :: "string \<Rightarrow> string list" where
  "split_nl [] = []"
| "split_nl (c # cs) =
    (if c = NL then [c] # split_nl cs
     else (case split_nl cs of [] \<Rightarrow> [[c]] | w # ws \<Rightarrow> (c # w) # ws))"

definition strip_cr :: "string \<Rightarrow> string" where
  "strip_cr l = (if l \<noteq> [] \<and> last l = CR then butlast l else l)"

definition strip_eol :: "string \<Rightarrow> string" where
  "strip_eol l = (if l \<noteq> [] \<and> last l = NL then strip_cr (butlast l) else l)"

definition lines :: "string \<Rightarrow> string list" where
  "lines s = map strip_eol (split_nl s)"

lemma trim_strip_cr [simp]: "trim (strip_cr l) = trim l"
  using trim_snoc_ws [of CR "butlast l"] by (simp add: strip_cr_def ws1_def) (metis append_butlast_last_id)

lemma split_nl_line: "NL \<notin> set l \<Longrightarrow> split_nl (l @ NL # rest) = (l @ [NL]) # split_nl rest"
  by (induction l) auto

lemma lines_line: "NL \<notin> set l \<Longrightarrow> lines (l @ NL # rest) = strip_cr l # lines rest"
  by (simp add: lines_def split_nl_line strip_eol_def)

lemma lines_Nil [simp]: "lines [] = []"
  by (simp add: lines_def)

lemma lines_concat:
  "list_all (\<lambda>l. NL \<notin> set l) ls \<Longrightarrow> lines (concat (map (\<lambda>l. l @ [NL]) ls) @ rest) = map strip_cr ls @ lines rest"
  by (induction ls) (auto simp: lines_line)

lemma split_nl_NL: "l \<in> set (split_nl s) \<Longrightarrow> l \<noteq> [] \<and> NL \<notin> set (butlast l)"
  by (induction s arbitrary: l) (auto split: if_splits list.splits)

lemma lines_no_NL: "l \<in> set (lines s) \<Longrightarrow> NL \<notin> set l"
proof -
  assume "l \<in> set (lines s)"
  then obtain w where w: "w \<in> set (split_nl s)" "l = strip_eol w"
    by (auto simp: lines_def)
  from split_nl_NL [OF w(1)] have nl: "w \<noteq> []" "NL \<notin> set (butlast w)"
    by auto
  then have "NL \<notin> set w" if "last w \<noteq> NL"
    using that by (metis UnE append_butlast_last_id empty_iff empty_set set_append set_ConsD)
  with nl w show ?thesis
    by (auto simp: strip_eol_def strip_cr_def dest: in_set_butlastD)
qed

section \<open>Numbers\<close>

definition digit_char :: "nat \<Rightarrow> char" where
  "digit_char n = char_of (48 + n)"

fun dec :: "nat \<Rightarrow> string" where
  "dec n = (if n < 10 then [digit_char n] else dec (n div 10) @ [digit_char (n mod 10)])"

declare dec.simps [simp del]

definition digit_val :: "char \<Rightarrow> nat option" where
  "digit_val c = (let n = of_char c in if 48 \<le> n \<and> n \<le> 57 then Some (n - 48) else None)"

fun digits_val :: "nat \<Rightarrow> string \<Rightarrow> nat option" where
  "digits_val v [] = Some v"
| "digits_val v (c # cs) =
    (case digit_val c of None \<Rightarrow> None | Some d \<Rightarrow> digits_val (v * 10 + d) cs)"

text \<open>\<open>FromStr\<close> of an unsigned type with the given maximum: an optional plus sign, at least one digit.\<close>

definition parse_uint :: "nat \<Rightarrow> string \<Rightarrow> nat option" where
  "parse_uint mx s =
    (let ds = (if starts_with s ''+'' then tl s else s) in
     if ds = [] then None
     else (case digits_val 0 ds of None \<Rightarrow> None | Some v \<Rightarrow> if v \<le> mx then Some v else None))"

lemma digit_val_char: "n < 10 \<Longrightarrow> digit_val (digit_char n) = Some n"
  by (simp add: digit_val_def digit_char_def Let_def of_char_of)

lemma digits_val_append:
  "digits_val v (xs @ ys) = (case digits_val v xs of None \<Rightarrow> None | Some w \<Rightarrow> digits_val w ys)"
  by (induction xs arbitrary: v) (auto split: option.splits)

lemma digits_val_dec: "digits_val 0 (dec n) = Some n"
proof (induction n rule: dec.induct)
  case (1 n)
  then show ?case
    by (cases "n < 10") (simp_all add: dec.simps [of n] digit_val_char digits_val_append)
qed

lemma dec_not_Nil [simp]: "dec n \<noteq> []"
  by (subst dec.simps) simp

lemma set_dec: "c \<in> set (dec n) \<Longrightarrow> \<exists>d<10. c = digit_char d"
proof (induction n rule: dec.induct)
  case (1 n)
  then show ?case
    by (cases "n < 10") (auto simp: dec.simps [of n] intro: exI [of _ "n mod 10"])
qed

lemma digit_char_plus: "d < 10 \<Longrightarrow> digit_char d \<noteq> CHR ''+''"
  using digit_val_char [of d] by (auto simp: digit_val_def)

lemma parse_uint_dec: "parse_uint mx (dec n) = (if n \<le> mx then Some n else None)"
proof -
  have "\<not> starts_with (dec n) ''+''"
  proof
    assume "starts_with (dec n) ''+''"
    then have "CHR ''+'' \<in> set (dec n)"
      by (auto simp: starts_with_iff)
    then show False
      using set_dec [of "CHR ''+''" n] digit_char_plus by metis
  qed
  then show ?thesis
    by (simp add: parse_uint_def digits_val_dec)
qed

lemma parse_uint_bound: "parse_uint mx s = Some v \<Longrightarrow> v \<le> mx"
  by (auto simp: parse_uint_def Let_def split: if_splits option.splits)

fun join :: "string \<Rightarrow> string list \<Rightarrow> string" where
  "join sep [] = []"
| "join sep [s] = s"
| "join sep (s # t # ts) = s @ sep @ join sep (t # ts)"

end
