(* ===== verification/Fs.thy ===== *)
theory Fs
  imports Rust_Str
begin

text \<open>
  The files a component owns, with the outcomes the operating system may give to \<open>std::fs\<close>
  calls. A path is its list of components after lexical normalisation. A failing write may leave
  the file as it was or truncated: \<open>fs_wfault\<close> says what the environment does, \<open>fs_rfault\<close> and
  \<open>fs_lfault\<close> do so for reads and for advisory locks.
\<close>

type_synonym path = "string list"

record fs =
  fs_data :: "path \<Rightarrow> bytes option"
  fs_mtime :: "path \<Rightarrow> nat option"
  fs_now :: nat
  fs_rfault :: "path \<Rightarrow> string option"
  fs_wfault :: "path \<Rightarrow> (string \<times> bytes option) option"
  fs_lfault :: "path \<Rightarrow> string option"

definition fs_exists :: "fs \<Rightarrow> path \<Rightarrow> bool" where
  "fs_exists fs p = (fs_data fs p \<noteq> None)"

text \<open>\<open>std::fs::read\<close>; the error of a missing file is the operating system's.\<close>

definition fs_read :: "fs \<Rightarrow> path \<Rightarrow> string + bytes" where
  "fs_read fs p =
    (case fs_rfault fs p of Some e \<Rightarrow> Inl e
     | None \<Rightarrow> (case fs_data fs p of None \<Rightarrow> Inl ''No such file or directory'' | Some b \<Rightarrow> Inr b))"

definition fs_read_to_string :: "fs \<Rightarrow> path \<Rightarrow> string option" where
  "fs_read_to_string fs p = (case fs_read fs p of Inl _ \<Rightarrow> None | Inr b \<Rightarrow> from_utf8 b)"

definition fs_write :: "path \<Rightarrow> bytes \<Rightarrow> fs \<Rightarrow> (string + unit) \<times> fs" where
  "fs_write p b fs =
    (case fs_wfault fs p of
       Some (e, left) \<Rightarrow>
         (Inl e, (case left of None \<Rightarrow> fs
                  | Some c \<Rightarrow> fs\<lparr>fs_data := (fs_data fs)(p \<mapsto> c), fs_mtime := (fs_mtime fs)(p \<mapsto> fs_now fs)\<rparr>))
     | None \<Rightarrow>
         (Inr (), fs\<lparr>fs_data := (fs_data fs)(p \<mapsto> b), fs_mtime := (fs_mtime fs)(p \<mapsto> fs_now fs)\<rparr>))"

definition fs_remove :: "path \<Rightarrow> fs \<Rightarrow> fs" where
  "fs_remove p fs = (if fs_wfault fs p = None then fs\<lparr>fs_data := (fs_data fs)(p := None)\<rparr> else fs)"

text \<open>\<open>remove_file\<close> with its result, and \<open>create_dir_all\<close>, which only the environment can make fail.\<close>

definition fs_remove_file :: "path \<Rightarrow> fs \<Rightarrow> (string + unit) \<times> fs" where
  "fs_remove_file p fs =
    (case fs_wfault fs p of
       Some (e, left) \<Rightarrow> (Inl e, fs)
     | None \<Rightarrow>
        (if fs_data fs p = None then (Inl ''No such file or directory'', fs)
         else (Inr (), fs\<lparr>fs_data := (fs_data fs)(p := None)\<rparr>)))"

definition fs_create_dir_all :: "path \<Rightarrow> fs \<Rightarrow> string + unit" where
  "fs_create_dir_all dir fs = (case fs_wfault fs dir of Some (e, left) \<Rightarrow> Inl e | None \<Rightarrow> Inr ())"

text \<open>
  \<open>read_dir\<close>: the names in a directory in the order the operating system lists them, the argument
  \<open>rd\<close> of the code that iterates. A listing names existing files, each once; \<open>lists_all\<close> says that
  one listing is complete.
\<close>

definition lists_dirs :: "(fs \<Rightarrow> path \<Rightarrow> string list) \<Rightarrow> bool" where
  "lists_dirs rd \<longleftrightarrow> (\<forall>fs dir. distinct (rd fs dir) \<and> (\<forall>n \<in> set (rd fs dir). fs_exists fs (dir @ [n])))"

definition lists_all :: "(fs \<Rightarrow> path \<Rightarrow> string list) \<Rightarrow> fs \<Rightarrow> path \<Rightarrow> bool" where
  "lists_all rd fs dir \<longleftrightarrow> (\<forall>n. fs_exists fs (dir @ [n]) \<longrightarrow> n \<in> set (rd fs dir))"

text \<open>\<open>OpenOptions::new().create(true).write(true).open(p)\<close>: an existing file is left as it is.\<close>

definition fs_open_create :: "path \<Rightarrow> fs \<Rightarrow> (string + unit) \<times> fs" where
  "fs_open_create p fs =
    (case fs_wfault fs p of
       Some (e, left) \<Rightarrow> (Inl e, fs)
     | None \<Rightarrow>
        (Inr (), (if fs_data fs p = None
                  then fs\<lparr>fs_data := (fs_data fs)(p \<mapsto> []), fs_mtime := (fs_mtime fs)(p \<mapsto> fs_now fs)\<rparr> else fs)))"

text \<open>
  \<open>OpenOptions::new().create(true).append(true).open(p)\<close> followed by \<open>write_all\<close>, and whether the
  file could be opened; a write fault that leaves contents behind lets the opening succeed.
\<close>

definition fs_append :: "path \<Rightarrow> bytes \<Rightarrow> fs \<Rightarrow> bool \<times> fs" where
  "fs_append p b fs =
    (case fs_wfault fs p of
       Some (e, None) \<Rightarrow> (False, fs)
     | Some (e, Some c) \<Rightarrow> (True, fs\<lparr>fs_data := (fs_data fs)(p \<mapsto> c), fs_mtime := (fs_mtime fs)(p \<mapsto> fs_now fs)\<rparr>)
     | None \<Rightarrow>
        (True, fs\<lparr>fs_data := (fs_data fs)(p \<mapsto> (case fs_data fs p of None \<Rightarrow> [] | Some c \<Rightarrow> c) @ b),
                  fs_mtime := (fs_mtime fs)(p \<mapsto> fs_now fs)\<rparr>))"

text \<open>\<open>rename\<close> replaces the target; a missing source or a fault leaves everything as it was.\<close>

definition fs_rename :: "path \<Rightarrow> path \<Rightarrow> fs \<Rightarrow> fs" where
  "fs_rename src dst fs =
    (if fs_wfault fs src = None \<and> fs_wfault fs dst = None
     then (case fs_data fs src of
             None \<Rightarrow> fs
           | Some b \<Rightarrow> fs\<lparr>fs_data := (fs_data fs)(src := None, dst := Some b),
                          fs_mtime := (fs_mtime fs)(dst := fs_mtime fs src)\<rparr>)
     else fs)"

text \<open>\<open>metadata(p).map(|m| m.len()).unwrap_or(0)\<close>\<close>

definition fs_len :: "fs \<Rightarrow> path \<Rightarrow> nat" where
  "fs_len fs p = (case fs_data fs p of None \<Rightarrow> 0 | Some b \<Rightarrow> length b)"

text \<open>\<open>remove_file\<close> on every entry of \<open>read_dir(dir)\<close>, each failure ignored.\<close>

definition fs_remove_entries :: "path \<Rightarrow> fs \<Rightarrow> fs" where
  "fs_remove_entries dir fs =
    (if fs_rfault fs dir = None
     then fs\<lparr>fs_data := \<lambda>p. if p \<noteq> [] \<and> butlast p = dir \<and> fs_wfault fs p = None then None else fs_data fs p\<rparr>
     else fs)"

text \<open>\<open>metadata(p)\<close> and \<open>modified()\<close>, both of which may fail.\<close>

definition fs_modified :: "fs \<Rightarrow> path \<Rightarrow> nat option" where
  "fs_modified fs p = (if fs_data fs p = None then None else fs_mtime fs p)"

text \<open>A file system on which no call fails.\<close>

definition fs_healthy :: "fs \<Rightarrow> bool" where
  "fs_healthy fs \<longleftrightarrow> (\<forall>p. fs_rfault fs p = None \<and> fs_wfault fs p = None \<and> fs_lfault fs p = None)"

definition fs_empty :: fs where
  "fs_empty = \<lparr>fs_data = \<lambda>_. None, fs_mtime = \<lambda>_. None, fs_now = 0, fs_rfault = \<lambda>_. None, fs_wfault = \<lambda>_. None,
     fs_lfault = \<lambda>_. None\<rparr>"

lemma fs_empty_healthy [simp]: "fs_healthy fs_empty"
  by (simp add: fs_healthy_def fs_empty_def)

lemma fs_write_healthy:
  "fs_healthy fs \<Longrightarrow> fs_write p b fs =
     (Inr (), fs\<lparr>fs_data := (fs_data fs)(p \<mapsto> b), fs_mtime := (fs_mtime fs)(p \<mapsto> fs_now fs)\<rparr>)"
  by (simp add: fs_write_def fs_healthy_def)

lemma fs_write_ok:
  "fs_write p b fs = (Inr (), fs') \<Longrightarrow>
     fs_wfault fs p = None \<and>
     fs' = fs\<lparr>fs_data := (fs_data fs)(p \<mapsto> b), fs_mtime := (fs_mtime fs)(p \<mapsto> fs_now fs)\<rparr>"
  by (auto simp: fs_write_def split: option.splits)

lemma fs_write_frame:
  "fs_write p b fs = (r, fs') \<Longrightarrow>
     fs_rfault fs' = fs_rfault fs \<and> fs_wfault fs' = fs_wfault fs \<and> fs_lfault fs' = fs_lfault fs \<and> fs_now fs' = fs_now fs \<and>
     (\<forall>q. q \<noteq> p \<longrightarrow> fs_data fs' q = fs_data fs q \<and> fs_mtime fs' q = fs_mtime fs q)"
  by (auto simp: fs_write_def split: option.splits)

lemma fs_write_fst_Inr: "fst (fs_write p b fs) = Inr u \<longleftrightarrow> fs_wfault fs p = None"
  by (auto simp: fs_write_def split: option.splits)

section \<open>Path components\<close>

text \<open>\<open>Path::join\<close> of a relative or absolute string, resolved lexically (\<open>.\<close> and \<open>..\<close>).\<close>

fun split_slash :: "string \<Rightarrow> string list" where
  "split_slash [] = [[]]"
| "split_slash (c # cs) =
    (if c = CHR ''/'' then [] # split_slash cs
     else (case split_slash cs of [] \<Rightarrow> [[c]] | w # ws \<Rightarrow> (c # w) # ws))"

fun walk :: "path \<Rightarrow> string list \<Rightarrow> path" where
  "walk p [] = p"
| "walk p (c # cs) =
    (if c = [] \<or> c = ''.'' then walk p cs
     else if c = ''..'' then walk (butlast p) cs
     else walk (p @ [c]) cs)"

definition path_join :: "path \<Rightarrow> string \<Rightarrow> path" where
  "path_join p s = walk (if starts_with s ''/'' then [] else p) (split_slash s)"

text \<open>A plain file name stays inside its directory.\<close>

definition plain_name :: "string \<Rightarrow> bool" where
  "plain_name s \<longleftrightarrow> CHR ''/'' \<notin> set s"

lemma split_slash_plain: "plain_name s \<Longrightarrow> split_slash s = [s]"
  unfolding plain_name_def by (induction s) auto

lemma path_join_plain:
  "plain_name s \<Longrightarrow> s \<notin> {[], ''.'', ''..''} \<Longrightarrow> path_join p s = p @ [s]"
  by (cases s) (auto simp: path_join_def split_slash_plain plain_name_def)

end
