(* ===== verification/Hash_Map.thy ===== *)
theory Hash_Map
  imports Prelude "HOL-Library.AList" "HOL-Library.Multiset"
begin

text \<open>
  \<open>std::collections::HashMap\<close> as an association list with distinct keys. Its iteration order is
  unspecified in Rust, so code that iterates takes the order as an argument, an arbitrary
  rearrangement of the entries (\<open>iter_order\<close>). The locale \<open>dictionary\<close> is the contract the
  clients use.
\<close>

type_synonym ('k, 'v) hmap = "('k \<times> 'v) list"

definition hm_get :: "('k, 'v) hmap \<Rightarrow> 'k \<Rightarrow> 'v option" where
  "hm_get m k = map_of m k"

definition hm_insert :: "'k \<Rightarrow> 'v \<Rightarrow> ('k, 'v) hmap \<Rightarrow> ('k, 'v) hmap" where
  "hm_insert k v m = AList.update k v m"

definition hm_remove :: "'k \<Rightarrow> ('k, 'v) hmap \<Rightarrow> ('k, 'v) hmap" where
  "hm_remove k m = AList.delete k m"

definition hm_ok :: "('k, 'v) hmap \<Rightarrow> bool" where
  "hm_ok m = distinct (map fst m)"

text \<open>\<open>extend\<close> or \<open>collect\<close> from an iterator of pairs: later pairs overwrite earlier ones.\<close>

definition hm_extend :: "('k, 'v) hmap \<Rightarrow> ('k \<times> 'v) list \<Rightarrow> ('k, 'v) hmap" where
  "hm_extend m kvs = fold (\<lambda>(k, v). hm_insert k v) kvs m"

definition iter_order :: "(('k, 'v) hmap \<Rightarrow> ('k \<times> 'v) list) \<Rightarrow> bool" where
  "iter_order ord \<longleftrightarrow> (\<forall>m. mset (ord m) = mset m)"

locale dictionary =
  fixes get :: "'m \<Rightarrow> 'k \<Rightarrow> 'v option"
    and put :: "'k \<Rightarrow> 'v \<Rightarrow> 'm \<Rightarrow> 'm"
    and del :: "'k \<Rightarrow> 'm \<Rightarrow> 'm"
    and nil :: 'm
    and ok :: "'m \<Rightarrow> bool"
  assumes get_nil: "get nil k = None"
    and ok_nil: "ok nil"
    and get_put: "ok m \<Longrightarrow> get (put k v m) k' = (if k' = k then Some v else get m k')"
    and ok_put: "ok m \<Longrightarrow> ok (put k v m)"
    and get_del: "ok m \<Longrightarrow> get (del k m) k' = (if k' = k then None else get m k')"
    and ok_del: "ok m \<Longrightarrow> ok (del k m)"
begin

lemma ok_fold: "ok m \<Longrightarrow> ok (fold (\<lambda>(k, v). put k v) kvs m)"
  by (induction kvs arbitrary: m) (auto simp: ok_put)

lemma get_fold:
  "ok m \<Longrightarrow> get (fold (\<lambda>(k, v). put k v) kvs m) k =
     (case map_of (rev kvs) k of Some v \<Rightarrow> Some v | None \<Rightarrow> get m k)"
proof (induction kvs arbitrary: m)
  case Nil
  then show ?case by simp
next
  case (Cons kv kvs)
  then show ?case
    by (cases kv) (auto simp: ok_put get_put map_add_def split: option.splits)
qed

lemma put_same: "ok m \<Longrightarrow> get (put k v (put k w m)) = get (put k v m)"
  by (rule ext) (simp add: get_put ok_put)

lemma put_commute: "ok m \<Longrightarrow> k \<noteq> k' \<Longrightarrow> get (put k v (put k' v' m)) = get (put k' v' (put k v m))"
  by (rule ext) (simp add: get_put ok_put)

end

interpretation hm: dictionary hm_get hm_insert hm_remove "[]" hm_ok
  by unfold_locales
    (auto simp: hm_get_def hm_insert_def hm_remove_def hm_ok_def update_conv' delete_conv'
      distinct_update distinct_delete)

lemma hm_get_extend:
  "hm_ok m \<Longrightarrow> hm_get (hm_extend m kvs) k =
     (case map_of (rev kvs) k of Some v \<Rightarrow> Some v | None \<Rightarrow> hm_get m k)"
  unfolding hm_extend_def by (rule hm.get_fold)

lemma hm_ok_extend: "hm_ok m \<Longrightarrow> hm_ok (hm_extend m kvs)"
  unfolding hm_extend_def by (rule hm.ok_fold)

lemma iter_order_set: "iter_order ord \<Longrightarrow> set (ord m) = set m"
  unfolding iter_order_def by (metis set_mset_mset)

lemma iter_order_distinct: "iter_order ord \<Longrightarrow> hm_ok m \<Longrightarrow> hm_ok (ord m)"
proof -
  assume "iter_order ord" "hm_ok m"
  then have "mset (map fst (ord m)) = mset (map fst m)"
    by (simp add: iter_order_def)
  with \<open>hm_ok m\<close> show ?thesis
    unfolding hm_ok_def by (metis mset_eq_imp_distinct_iff)
qed

lemma hm_get_in: "hm_ok m \<Longrightarrow> (k, v) \<in> set m \<longleftrightarrow> hm_get m k = Some v"
  unfolding hm_ok_def hm_get_def by (simp add: map_of_eq_Some_iff)

lemma iter_order_get: "iter_order ord \<Longrightarrow> hm_ok m \<Longrightarrow> map_of (ord m) k = hm_get m k"
proof -
  assume a: "iter_order ord" "hm_ok m"
  have "map_of (ord m) = map_of m"
    using iter_order_set [OF a(1), of m] iter_order_distinct [OF a] a(2)
    unfolding hm_ok_def by (metis map_of_inject_set)
  then show ?thesis
    by (simp add: hm_get_def)
qed

lemma iter_order_get_rev: "iter_order ord \<Longrightarrow> hm_ok m \<Longrightarrow> map_of (rev (ord m)) k = hm_get m k"
  by (metis iter_order_get iter_order_distinct hm_ok_def distinct_rev map_of_inject_set rev_map set_rev)

lemma iter_order_id: "iter_order (\<lambda>m. m)" "iter_order rev"
  by (simp_all add: iter_order_def)

end
