(* ===== verification/App_Config.thy ===== *)
theory App_Config
  imports Fs Hash_Map
begin

text \<open>
  The application configuration, \<open>src-tauri/src/config/mod.rs\<close> and \<open>config/template.rs\<close>: a
  \<open>KEY=VALUE\<close> file, a template that supplies defaults and the skeleton for saving, typed getters
  and the process-wide instance. The poisoning branches of the locks are not modelled (no code
  panics while it holds one), so every lock is taken.
\<close>

section \<open>Keys and defaults\<close>

definition KEY_DAEMON_IPC_PORT :: string where "KEY_DAEMON_IPC_PORT = ''DAEMON_IPC_PORT''"
definition KEY_EASYTIER_RPC_PORT :: string where "KEY_EASYTIER_RPC_PORT = ''EASYTIER_RPC_PORT''"
definition KEY_FILE_SERVER_PORT_BASE :: string where "KEY_FILE_SERVER_PORT_BASE = ''FILE_SERVER_PORT_BASE''"
definition KEY_DEFAULT_SPACE_IP :: string where "KEY_DEFAULT_SPACE_IP = ''DEFAULT_SPACE_IP''"
definition KEY_GITHUB_API :: string where "KEY_GITHUB_API = ''GITHUB_API''"
definition KEY_GITHUB_MIRROR :: string where "KEY_GITHUB_MIRROR = ''GITHUB_MIRROR''"
definition KEY_RELAY_NETWORK_PREFIX :: string where "KEY_RELAY_NETWORK_PREFIX = ''RELAY_NETWORK_PREFIX''"
definition KEY_LOG_ENABLED :: string where "KEY_LOG_ENABLED = ''LOG_ENABLED''"
definition KEY_SHARE_LINK_SECRET :: string where "KEY_SHARE_LINK_SECRET = ''SHARE_LINK_SECRET''"
definition DEFAULT_SPACE_IP :: string where "DEFAULT_SPACE_IP = ''10.144.144.10''"
definition DEFAULT_GITHUB_API :: string where "DEFAULT_GITHUB_API = ''https://api.github.com/repos/EasyTier/EasyTier/releases''"
definition DEFAULT_GITHUB_MIRROR :: string where "DEFAULT_GITHUB_MIRROR = ''https://ghproxy.top''"
definition DEFAULT_RELAY_NETWORK_PREFIX :: string where "DEFAULT_RELAY_NETWORK_PREFIX = ''homeTier_''"
definition DEFAULT_SHARE_LINK_SECRET :: string where "DEFAULT_SHARE_LINK_SECRET = ''homeTier-qr-v1''"
definition DEFAULT_FILE_SERVER_PORT_BASE :: nat where "DEFAULT_FILE_SERVER_PORT_BASE = 19000"
definition DEFAULT_LOG_ENABLED :: bool where "DEFAULT_LOG_ENABLED = True"

section \<open>The text format\<close>

text \<open>Removal of the optional quotes around a value.\<close>

definition unquote :: "string \<Rightarrow> string" where
  "unquote value =
    (if length value \<ge> 2 \<and>
        (hd value = CHR 0x22 \<and> last value = CHR 0x22 \<or> hd value = CHR 0x27 \<and> last value = CHR 0x27)
     then butlast (tl value) else value)"

text \<open>One pass of the loop of \<open>parse_env\<close>; \<open>None\<close> is its \<open>continue\<close>.\<close>

definition parse_env_line :: "string \<Rightarrow> (string \<times> string) option" where
  "parse_env_line l =
    (let line = trim l in
     if line = [] \<or> starts_with line ''#'' then None
     else (case find_char (CHR ''='') line of
             None \<Rightarrow> None
           | Some eq \<Rightarrow>
              (let key = trim (take eq line) in
               if key = [] then None
               else Some (key, unquote (trim (drop (eq + 1) line))))))"

definition parse_env :: "string \<Rightarrow> (string, string) hmap" where
  "parse_env content = hm_extend [] (List.map_filter parse_env_line (lines content))"

text \<open>The key of a template line, if it has one that \<open>render_from_template\<close> may replace.\<close>

definition template_key :: "string \<Rightarrow> string option" where
  "template_key line =
    (let trimmed = trim line in
     if trimmed \<noteq> [] \<and> \<not> starts_with trimmed ''#'' then
       (case find_char (CHR ''='') line of
          None \<Rightarrow> None
        | Some eq \<Rightarrow> (let key = trim (take eq line) in if key \<noteq> [] then Some key else None))
     else None)"

fun render_lines :: "(string, string) hmap \<Rightarrow> string set \<Rightarrow> string \<Rightarrow> string list \<Rightarrow> string set \<times> string" where
  "render_lines m seen out [] = (seen, out)"
| "render_lines m seen out (line # ls) =
    (case template_key line of
       None \<Rightarrow> render_lines m seen (out @ line @ [NL]) ls
     | Some key \<Rightarrow>
        (case hm_get m key of
           Some v \<Rightarrow> render_lines m (insert key seen) (out @ key @ ''='' @ v @ [NL]) ls
         | None \<Rightarrow> render_lines m (insert key seen) (out @ line @ [NL]) ls))"

definition render_from_template ::
  "((string, string) hmap \<Rightarrow> (string \<times> string) list) \<Rightarrow> string \<Rightarrow> (string, string) hmap \<Rightarrow> string" where
  "render_from_template ord template m =
    (let (seen, out) = render_lines m {} [] (lines template) in
     out @ concat (map (\<lambda>(k, v). k @ ''='' @ v @ [NL]) (filter (\<lambda>(k, v). k \<notin> seen) (ord m))))"

text \<open>The built-in template for a missing template file.\<close>

definition push_key ::
  "(string, string) hmap \<Rightarrow> string \<Rightarrow> string \<Rightarrow> string \<Rightarrow> string \<Rightarrow> string list" where
  "push_key m key desc default_v enum_note =
    [''# '' @ desc @ utf8_text [239, 188, 136, 233, 187, 152, 232, 174, 164, 229, 128, 188] @ '': '' @ default_v @ utf8_text [239, 188, 155] @ enum_note @ utf8_text [239, 188, 137],
     key @ ''='' @ (case hm_get m key of Some v \<Rightarrow> v | None \<Rightarrow> default_v),
     []]"

definition template_lines :: "(string, string) hmap \<Rightarrow> string list" where
  "template_lines m =
    ([''# homeTier '' @ utf8_text [229, 186, 148, 231, 148, 168, 233, 133, 141, 231, 189, 174, 230,
        150, 135, 228, 187, 182]] @
     [''# '' @ utf8_text [228, 191, 174, 230, 148, 185, 228, 191, 157, 229, 173, 152, 229, 144, 142,
        231, 131, 173, 230, 155, 180, 230, 150, 176, 231, 148, 159, 230, 149, 136, 239, 188,
        136, 232, 135, 170, 229, 138, 168, 230, 163, 128, 230, 181, 139, 239, 188, 140, 230,
        151, 160, 233, 156, 128, 233, 135, 141, 229, 144, 175, 239, 188, 137, 227, 128, 130]] @
     [''# '' @ utf8_text [228, 188, 152, 229, 133, 136, 231, 186, 167, 239, 188, 154, 233, 133, 141,
        231, 189, 174, 230, 150, 135, 228, 187, 182] @ '' > '' @ utf8_text [230, 149, 176, 230,
        141, 174, 229, 186, 147, 232, 174, 190, 231, 189, 174] @ '' > '' @ utf8_text [229, 134,
        133, 231, 189, 174, 233, 187, 152, 232, 174, 164, 229, 128, 188, 227, 128, 130]] @
     [[]] @
     [''# ===== '' @ utf8_text [231, 171, 175, 229, 143, 163, 231, 177, 187, 233, 133, 141, 231, 189,
        174] @ '' ====='' @ utf8_text [239, 188, 136, 228, 191, 174, 230, 148, 185, 229, 144,
        142, 228, 184, 139, 230, 172, 161] @ '' daemon '' @ utf8_text [229, 144, 175, 229, 138,
        168, 231, 148, 159, 230, 149, 136, 239, 188, 137]] @
     push_key m KEY_DAEMON_IPC_PORT (''homeTier daemon IPC '' @ utf8_text [231, 171, 175, 229, 143,
        163]) ''15889'' (utf8_text [230, 149, 180, 230, 149, 176, 239, 188, 140] @ ''1-65535'') @
     push_key m KEY_EASYTIER_RPC_PORT (''easytier-core RPC '' @ utf8_text [231, 171, 175, 229, 143,
        163]) ''15888'' (utf8_text [230, 149, 180, 230, 149, 176, 239, 188, 140] @ ''1-65535'') @
     [[]] @
     [''# ===== '' @ utf8_text [231, 189, 145, 231, 187, 156, 233, 133, 141, 231, 189, 174] @
        '' ====='' @ utf8_text [239, 188, 136, 228, 191, 174, 230, 148, 185, 229, 144, 142, 228,
        184, 139, 230, 172, 161, 228, 189, 191, 231, 148, 168, 231, 148, 159, 230, 149, 136,
        239, 188, 137]] @
     push_key m KEY_FILE_SERVER_PORT_BASE (utf8_text [230, 150, 135, 228, 187, 182, 230, 156, 141,
        229, 138, 161, 229, 153, 168, 231, 171, 175, 229, 143, 163, 229, 159, 186, 230, 149,
        176, 239, 188, 136, 229, 174, 158, 233, 153, 133, 231, 171, 175, 229, 143, 163] @
        '' = '' @ utf8_text [229, 159, 186, 230, 149, 176] @ '' + space_id % 1000'' @ utf8_text
        [239, 188, 137]) ''19000'' (utf8_text [230, 149, 180, 230, 149, 176, 239, 188, 140, 229,
        187, 186, 232, 174, 174] @ '' 1024-65535'') @
     push_key m KEY_DEFAULT_SPACE_IP (utf8_text [230, 150, 176, 229, 187, 186, 231, 169, 186, 233,
        151, 180, 231, 154, 132, 233, 187, 152, 232, 174, 164, 232, 153, 154, 230, 139, 159] @
        '' IPv4 '' @ utf8_text [229, 156, 176, 229, 157, 128]) ''10.144.144.10'' (''IPv4 '' @
        utf8_text [229, 156, 176, 229, 157, 128]) @
     [[]] @
     [''# ===== '' @ utf8_text [230, 155, 180, 230, 150, 176, 228, 184, 142, 228, 184, 139, 232, 189,
        189, 233, 133, 141, 231, 189, 174] @ '' ====='' @ utf8_text [239, 188, 136, 228, 191,
        174, 230, 148, 185, 229, 144, 142, 228, 184, 139, 230, 172, 161, 228, 189, 191, 231,
        148, 168, 231, 148, 159, 230, 149, 136, 239, 188, 137]] @
     push_key m KEY_GITHUB_API (''EasyTier GitHub Releases API '' @ utf8_text [229, 156, 176, 229,
        157, 128]) ''https://api.github.com/repos/EasyTier/EasyTier/releases'' ''URL'' @
     push_key m KEY_GITHUB_MIRROR (utf8_text [228, 184, 139, 232, 189, 189, 233, 149, 156, 229, 131,
        143, 229, 137, 141, 231, 188, 128, 239, 188, 136, 231, 149, 153, 231, 169, 186, 229,
        136, 153, 231, 155, 180, 232, 191, 158] @ '' GitHub'' @ utf8_text [239, 188, 137])
        ''https://ghproxy.top'' (''URL'' @ utf8_text [239, 188, 140, 229, 143, 175, 228, 184,
        186, 231, 169, 186]) @
     [[]] @
     [''# ===== '' @ utf8_text [228, 184, 154, 229, 138, 161, 233, 133, 141, 231, 189, 174] @
        '' ====='' @ utf8_text [239, 188, 136, 231, 171, 139, 229, 141, 179, 231, 148, 159, 230,
        149, 136, 239, 188, 137]] @
     push_key m ''RELAY_NETWORK_PREFIX'' (utf8_text [228, 184, 173, 231, 187, 167, 231, 189, 145,
        231, 187, 156, 229, 137, 141, 231, 188, 128, 239, 188, 136, 233, 133, 141, 229, 144,
        136] @ '' EasyTier '' @ utf8_text [232, 189, 172, 229, 143, 145, 231, 153, 189, 229,
        144, 141, 229, 141, 149, 239, 188, 137]) ''homeTier_'' (utf8_text [229, 173, 151, 231,
        172, 166, 228, 184, 178]) @
     push_key m KEY_SHARE_LINK_SECRET (utf8_text [229, 136, 134, 228, 186, 171, 233, 147, 190, 230,
        142, 165, 229, 138, 160, 229, 175, 134, 229, 175, 134, 233, 146, 165, 231, 167, 141,
        229, 173, 144, 239, 188, 136, 228, 191, 174, 230, 148, 185, 229, 144, 142, 230, 150,
        176, 231, 148, 159, 230, 136, 144, 233, 147, 190, 230, 142, 165, 231, 148, 159, 230,
        149, 136, 239, 188, 140, 230, 151, 167, 233, 147, 190, 230, 142, 165, 229, 176, 134,
        230, 151, 160, 230, 179, 149, 232, 167, 163, 230, 158, 144, 239, 188, 137])
        DEFAULT_SHARE_LINK_SECRET (utf8_text [229, 173, 151, 231, 172, 166, 228, 184, 178]) @
     push_key m KEY_LOG_ENABLED (utf8_text [230, 151, 165, 229, 191, 151, 229, 188, 128, 229, 133,
        179]) ''1'' (utf8_text [230, 158, 154, 228, 184, 190, 239, 188, 154] @ ''1='' @
        utf8_text [229, 188, 128, 229, 144, 175, 239, 188, 140] @ ''0='' @ utf8_text [229, 133,
        179, 233, 151, 173]))"

definition build_template :: "(string, string) hmap \<Rightarrow> string" where
  "build_template m = join [NL] (template_lines m @ [[]])"

section \<open>The configuration object\<close>

record app_config =
  ac_path :: path
  ac_inner :: "(string, string) hmap"
  ac_last_modified :: "nat option"
  ac_template :: "string option"
  ac_template_map :: "(string, string) hmap"
  ac_template_path :: "path option"

datatype config_error = ConfigWriteFailed string

definition ac_new :: "path \<Rightarrow> string option \<Rightarrow> path option \<Rightarrow> app_config" where
  "ac_new p template template_path =
    \<lparr>ac_path = p, ac_inner = [], ac_last_modified = None, ac_template = template,
     ac_template_map = (case template of None \<Rightarrow> [] | Some t \<Rightarrow> parse_env t),
     ac_template_path = template_path\<rparr>"

definition ac_note_mtime :: "fs \<Rightarrow> app_config \<Rightarrow> app_config" where
  "ac_note_mtime fs ac =
    (case fs_modified fs (ac_path ac) of None \<Rightarrow> ac | Some t \<Rightarrow> ac\<lparr>ac_last_modified := Some t\<rparr>)"

definition ac_load :: "fs \<Rightarrow> app_config \<Rightarrow> app_config" where
  "ac_load fs ac =
    (case fs_read_to_string fs (ac_path ac) of
       None \<Rightarrow> ac
     | Some content \<Rightarrow> ac_note_mtime fs (ac\<lparr>ac_inner := parse_env content\<rparr>))"

definition ac_reload :: "fs \<Rightarrow> app_config \<Rightarrow> app_config" where
  "ac_reload fs ac = ac_load fs ac"

definition has_external_change :: "fs \<Rightarrow> app_config \<Rightarrow> bool" where
  "has_external_change fs ac =
    (case fs_modified fs (ac_path ac) of
       None \<Rightarrow> False
     | Some m \<Rightarrow> (case ac_last_modified ac of Some l \<Rightarrow> m \<noteq> l | None \<Rightarrow> True))"

definition ac_get :: "app_config \<Rightarrow> string \<Rightarrow> string option" where
  "ac_get ac key =
    (case hm_get (ac_inner ac) key of
       Some v \<Rightarrow> Some v
     | None \<Rightarrow> hm_get (ac_template_map ac) key)"

definition ac_get_u16 :: "app_config \<Rightarrow> string \<Rightarrow> nat \<Rightarrow> nat" where
  "ac_get_u16 ac key default_v =
    (case Option.bind (ac_get ac key) (\<lambda>v. parse_uint 65535 (trim v)) of Some p \<Rightarrow> p | None \<Rightarrow> default_v)"

text \<open>\<open>lower\<close> is \<open>str::to_lowercase\<close>, whose Unicode tables are not reproduced here.\<close>

definition ac_get_bool :: "(string \<Rightarrow> string) \<Rightarrow> app_config \<Rightarrow> string \<Rightarrow> bool \<Rightarrow> bool" where
  "ac_get_bool lower ac key default_v =
    (case ac_get ac key of
       None \<Rightarrow> default_v
     | Some v \<Rightarrow>
        (let raw = lower (trim v) in
         if raw \<in> {''1'', ''true'', ''yes'', ''on''} then True
         else if raw \<in> {''0'', ''false'', ''no'', ''off''} then False
         else default_v))"

definition ac_get_str :: "app_config \<Rightarrow> string \<Rightarrow> string \<Rightarrow> string" where
  "ac_get_str ac key default_v = (case ac_get ac key of Some v \<Rightarrow> v | None \<Rightarrow> default_v)"

definition ac_render :: "((string, string) hmap \<Rightarrow> (string \<times> string) list) \<Rightarrow> app_config \<Rightarrow> string" where
  "ac_render ord ac =
    (case ac_template ac of
       Some raw \<Rightarrow> render_from_template ord raw (ac_inner ac)
     | None \<Rightarrow> build_template (ac_inner ac))"

definition ac_save ::
  "((string, string) hmap \<Rightarrow> (string \<times> string) list) \<Rightarrow> app_config \<Rightarrow> fs \<Rightarrow>
   (config_error + unit) \<times> app_config \<times> fs" where
  "ac_save ord ac fs =
    (case fs_write (ac_path ac) (as_bytes (ac_render ord ac)) fs of
       (Inl e, fs') \<Rightarrow> (Inl (ConfigWriteFailed e), ac, fs')
     | (Inr _, fs') \<Rightarrow> (Inr (), ac_note_mtime fs' ac, fs'))"

definition ac_set ::
  "((string, string) hmap \<Rightarrow> (string \<times> string) list) \<Rightarrow> string \<Rightarrow> string \<Rightarrow> app_config \<Rightarrow> fs \<Rightarrow>
   (config_error + unit) \<times> app_config \<times> fs" where
  "ac_set ord key value ac fs =
    ac_save ord (ac\<lparr>ac_inner := hm_insert key value (ac_inner ac)\<rparr>) fs"

definition ac_all ::
  "((string, string) hmap \<Rightarrow> (string \<times> string) list) \<Rightarrow> app_config \<Rightarrow> (string, string) hmap" where
  "ac_all ord ac = hm_extend (ac_template_map ac) (ord (ac_inner ac))"

section \<open>The global instance\<close>

text \<open>\<open>is_file\<close> on the candidate paths, in order; \<open>manifest_dir\<close> is a build-time constant.\<close>

definition locate_template :: "path \<Rightarrow> fs \<Rightarrow> path option \<Rightarrow> path option" where
  "locate_template manifest_dir fs resource_dir =
    (let candidates =
       (case resource_dir of None \<Rightarrow> [] | Some d \<Rightarrow> [path_join d ''homeTier.conf.example'']) @
       [path_join manifest_dir ''../homeTier.conf.example'']
     in List.find (fs_exists fs) candidates)"

definition read_template :: "fs \<Rightarrow> path \<Rightarrow> string option" where
  "read_template fs p = fs_read_to_string fs p"

text \<open>\<open>init\<close>: the flag it returns, the \<open>GLOBAL\<close> cell and the files afterwards.\<close>

definition config_init ::
  "((string, string) hmap \<Rightarrow> (string \<times> string) list) \<Rightarrow> path \<Rightarrow> path \<Rightarrow> path option \<Rightarrow>
   app_config option \<Rightarrow> fs \<Rightarrow> bool \<times> app_config option \<times> fs" where
  "config_init ord manifest_dir p resource_dir global fs =
    (if global \<noteq> None then (False, global, fs)
     else
       (let template_path = locate_template manifest_dir fs resource_dir;
            template = Option.bind template_path (read_template fs);
            created = (\<not> fs_exists fs p);
            config = ac_new p template template_path;
            (config, fs) = (if created then snd (ac_save ord config fs) else (config, fs));
            config = ac_load fs config
        in (created, Some config, fs)))"

definition cfg_get_str :: "app_config option \<Rightarrow> string \<Rightarrow> string \<Rightarrow> string" where
  "cfg_get_str global key default_v =
    (case global of Some c \<Rightarrow> ac_get_str c key default_v | None \<Rightarrow> default_v)"

definition cfg_get_u16 :: "app_config option \<Rightarrow> string \<Rightarrow> nat \<Rightarrow> nat" where
  "cfg_get_u16 global key default_v =
    (case global of Some c \<Rightarrow> ac_get_u16 c key default_v | None \<Rightarrow> default_v)"

definition cfg_get_bool :: "(string \<Rightarrow> string) \<Rightarrow> app_config option \<Rightarrow> string \<Rightarrow> bool \<Rightarrow> bool" where
  "cfg_get_bool lower global key default_v =
    (case global of Some c \<Rightarrow> ac_get_bool lower c key default_v | None \<Rightarrow> default_v)"

section \<open>Reading back what was written\<close>

text \<open>Keys and values that the format can carry.\<close>

definition clean_key :: "string \<Rightarrow> bool" where
  "clean_key k \<longleftrightarrow> k \<noteq> [] \<and> trimmed k \<and> CHR ''='' \<notin> set k \<and> NL \<notin> set k \<and> \<not> starts_with k ''#''"

definition clean_value :: "string \<Rightarrow> bool" where
  "clean_value v \<longleftrightarrow> trimmed v \<and> NL \<notin> set v \<and> unquote v = v"

definition clean_map :: "(string, string) hmap \<Rightarrow> bool" where
  "clean_map m \<longleftrightarrow> hm_ok m \<and> (\<forall>(k, v) \<in> set m. clean_key k \<and> clean_value v)"

lemma visible_eq [simp]: "visible (CHR ''='')" and visible_hash [simp]: "visible (CHR ''#'')"
  by (simp_all add: visible_def ws1_def)

lemma parse_env_line_strip_cr [simp]: "parse_env_line (strip_cr l) = parse_env_line l"
  by (simp add: parse_env_line_def)

lemma parse_env_line_comment: "parse_env_line (CHR ''#'' # l) = None"
proof -
  have "trim (CHR ''#'' # l) = CHR ''#'' # trim_end l"
    using trim_visible [of "CHR ''#''" "[]" l] by (simp add: trim_start_id)
  then show ?thesis
    by (simp add: parse_env_line_def)
qed

lemma parse_env_line_Nil [simp]: "parse_env_line [] = None"
  by (simp add: parse_env_line_def)

lemma parse_env_line_kv:
  assumes "clean_key k" and "clean_value v"
  shows "parse_env_line (k @ ''='' @ v) = Some (k, v)"
proof -
  have "trim (k @ CHR ''='' # v) = k @ CHR ''='' # v"
    using assms by (simp add: trim_visible trim_start_id trim_end_id clean_key_def clean_value_def trimmed_def)
  moreover have "\<not> starts_with (k @ CHR ''='' # v) ''#''"
    using assms(1) by (cases k) (auto simp: clean_key_def)
  ultimately show ?thesis
    using assms by (simp add: parse_env_line_def clean_key_def clean_value_def find_char_append trim_id)
qed

text \<open>The reader and the renderer agree on which lines carry a key, and on the key.\<close>

lemma template_key_parse: "template_key l = map_option fst (parse_env_line l)"
proof (cases "find_char (CHR ''='') l")
  case None
  then have "find_char (CHR ''='') (trim l) = None"
    using set_trim [of l] by auto
  then show ?thesis
    using None by (simp add: template_key_def parse_env_line_def Let_def del: find_char_None)
next
  case (Some i)
  from find_char_Some [OF this] have i: "i < length l" "l ! i = CHR ''=''" "CHR ''='' \<notin> set (take i l)"
    by auto
  then have l: "l = take i l @ CHR ''='' # drop (Suc i) l"
    by (metis id_take_nth_drop)
  have t: "trim l = trim_start (take i l) @ CHR ''='' # trim_end (drop (Suc i) l)"
    by (subst l) (simp only: trim_visible visible_eq)
  have "set (trim_start (take i l)) \<subseteq> set (take i l)"
    using trim_start_suffix [of "take i l"] by (metis Un_upper2 set_append)
  with i have "find_char (CHR ''='') (trim l) = Some (length (trim_start (take i l)))"
    unfolding t by (intro find_char_append) blast
  moreover have "trim (trim_start (take i l)) = trim (take i l)"
    by (simp add: trim_def trim_start_id)
  ultimately show ?thesis
    using Some t by (simp add: template_key_def parse_env_line_def Let_def)
qed

text \<open>What a save does to one entry of the template.\<close>

definition override :: "(string, string) hmap \<Rightarrow> string \<times> string \<Rightarrow> string \<times> string" where
  "override m = (\<lambda>(k, v). (k, case hm_get m k of Some w \<Rightarrow> w | None \<Rightarrow> v))"

definition render_line :: "(string, string) hmap \<Rightarrow> string \<Rightarrow> string" where
  "render_line m l =
    (case template_key l of
       None \<Rightarrow> l
     | Some k \<Rightarrow> (case hm_get m k of Some v \<Rightarrow> k @ ''='' @ v | None \<Rightarrow> l))"

lemma render_lines_eq:
  "render_lines m seen out ls =
     (seen \<union> set (List.map_filter template_key ls), out @ concat (map (\<lambda>l. render_line m l @ [NL]) ls))"
proof (induction ls arbitrary: seen out)
  case Nil
  then show ?case by (simp add: List.map_filter_def)
next
  case (Cons l ls)
  then show ?case
    by (auto simp: render_line_def List.map_filter_def split: option.splits)
qed

lemma parse_render_line:
  assumes "clean_map m"
  shows "parse_env_line (render_line m l) = map_option (override m) (parse_env_line l)"
proof (cases "template_key l")
  case None
  then show ?thesis
    by (simp add: render_line_def template_key_parse)
next
  case (Some k)
  then obtain v where p: "parse_env_line l = Some (k, v)"
    by (auto simp: template_key_parse)
  show ?thesis
  proof (cases "hm_get m k")
    case None
    with Some p show ?thesis
      by (simp add: render_line_def override_def)
  next
    case v: (Some w)
    then have "(k, w) \<in> set m"
      using assms by (simp add: clean_map_def hm_get_in)
    then have "clean_key k" "clean_value w"
      using assms by (auto simp: clean_map_def)
    with v Some p show ?thesis
      by (simp add: render_line_def override_def parse_env_line_kv del: append_Cons append_Nil)
  qed
qed

lemma clean_no_NL: "clean_map m \<Longrightarrow> (k, v) \<in> set m \<Longrightarrow> NL \<notin> set (k @ ''='' @ v)"
  by (auto simp: clean_map_def clean_key_def clean_value_def)

lemma render_line_no_NL: "clean_map m \<Longrightarrow> NL \<notin> set l \<Longrightarrow> NL \<notin> set (render_line m l)"
  using clean_no_NL [of m]
  by (fastforce simp: render_line_def clean_map_def simp flip: hm_get_in split: option.splits)

lemma map_filter_map_option:
  "List.map_filter (\<lambda>x. map_option g (f x)) xs = map g (List.map_filter f xs)"
  by (induction xs) (auto simp: List.map_filter_def)

lemma map_of_override: "map_of (map (override m) xs) k = map_option (\<lambda>v. case hm_get m k of Some w \<Rightarrow> w | None \<Rightarrow> v) (map_of xs k)"
  by (induction xs) (auto simp: override_def split: option.splits)

lemma hm_get_parse_env: "hm_get (parse_env c) k = map_of (rev (List.map_filter parse_env_line (lines c))) k"
  unfolding parse_env_def
  by (simp add: hm_get_extend hm.ok_nil hm.get_nil split: option.split)

lemma parse_env_ok: "hm_ok (parse_env c)"
  by (simp add: parse_env_def hm_ok_extend hm.ok_nil)

lemma map_filter_append: "List.map_filter f (xs @ ys) = List.map_filter f xs @ List.map_filter f ys"
  by (simp add: List.map_filter_def)

lemma map_filter_map: "List.map_filter f (map g xs) = List.map_filter (\<lambda>x. f (g x)) xs"
  by (induction xs) (simp_all add: List.map_filter_def)

lemma map_filter_strip_cr: "List.map_filter parse_env_line (map strip_cr ls) = List.map_filter parse_env_line ls"
  by (simp add: map_filter_map)

lemma map_of_filter_key: "map_of (filter (\<lambda>(k, v). P k) xs) k = (if P k then map_of xs k else None)"
  by (induction xs) auto

lemma parse_kv_lines:
  "(\<forall>(k, v) \<in> set kvs. clean_key k \<and> clean_value v) \<Longrightarrow>
     List.map_filter parse_env_line (map (\<lambda>(k, v). k @ ''='' @ v) kvs) = kvs"
proof (induction kvs)
  case (Cons kv kvs)
  then show ?case
    by (cases kv) (simp add: List.map_filter_def parse_env_line_kv del: append_Cons append_Nil)
qed (simp add: List.map_filter_def)

lemma parse_env_render:
  assumes ord: "iter_order ord" and m: "clean_map m"
  shows "hm_get (parse_env (render_from_template ord t m)) k =
    (case hm_get m k of Some v \<Rightarrow> Some v | None \<Rightarrow> hm_get (parse_env t) k)"
proof -
  let ?E = "List.map_filter parse_env_line (lines t)"
  let ?seen = "set (List.map_filter template_key (lines t))"
  let ?X = "filter (\<lambda>(k, v). k \<notin> ?seen) (ord m)"
  let ?ls = "map (render_line m) (lines t) @ map (\<lambda>(k, v). k @ ''='' @ v) ?X"
  have seen: "?seen = fst ` set ?E"
    by (simp add: template_key_parse [abs_def] map_filter_map_option)
  have r: "render_from_template ord t m = concat (map (\<lambda>l. l @ [NL]) ?ls) @ []"
    by (simp add: render_from_template_def render_lines_eq comp_def case_prod_unfold)
  have clean: "\<forall>(k, v) \<in> set ?X. clean_key k \<and> clean_value v"
    using m by (auto simp: clean_map_def iter_order_set [OF ord])
  have nl: "list_all (\<lambda>l. NL \<notin> set l) ?ls"
    using clean_no_NL [OF m] lines_no_NL render_line_no_NL [OF m]
    by (auto simp: list_all_iff iter_order_set [OF ord])
  have "List.map_filter parse_env_line (lines (render_from_template ord t m)) = map (override m) ?E @ ?X"
    unfolding r lines_concat [OF nl] using parse_kv_lines [OF clean]
    by (simp only: lines_Nil append_Nil2 map_filter_append map_append map_filter_strip_cr
        map_filter_map [of _ "render_line m"] parse_render_line [OF m] map_filter_map_option)
  then have g: "hm_get (parse_env (render_from_template ord t m)) k =
      (map_of (map (override m) (rev ?E)) ++ map_of (rev ?X)) k"
    by (simp add: hm_get_parse_env rev_map)
  have X: "map_of (rev ?X) k = (if k \<in> ?seen then None else hm_get m k)"
    using iter_order_get_rev [OF ord] m by (simp add: rev_filter map_of_filter_key clean_map_def)
  have E: "k \<in> ?seen \<Longrightarrow> \<exists>v. map_of (rev ?E) k = Some v"
    using seen map_of_eq_None_iff [of "rev ?E" k] by auto
  show ?thesis
    unfolding g map_add_def X map_of_override
    using E by (auto simp: hm_get_parse_env option.map_ident split: option.splits)
qed

text \<open>The built-in template carries the nine keys it knows, and no other.\<close>

definition builtin_defaults :: "(string \<times> string) list" where
  "builtin_defaults =
    [(KEY_DAEMON_IPC_PORT, ''15889''), (KEY_EASYTIER_RPC_PORT, ''15888''),
     (KEY_FILE_SERVER_PORT_BASE, ''19000''), (KEY_DEFAULT_SPACE_IP, ''10.144.144.10''),
     (KEY_GITHUB_API, ''https://api.github.com/repos/EasyTier/EasyTier/releases''),
     (KEY_GITHUB_MIRROR, ''https://ghproxy.top''), (''RELAY_NETWORK_PREFIX'', ''homeTier_''),
     (KEY_SHARE_LINK_SECRET, DEFAULT_SHARE_LINK_SECRET), (KEY_LOG_ENABLED, ''1'')]"

lemmas key_defs =
  KEY_DAEMON_IPC_PORT_def KEY_EASYTIER_RPC_PORT_def KEY_FILE_SERVER_PORT_BASE_def
  KEY_DEFAULT_SPACE_IP_def KEY_GITHUB_API_def KEY_GITHUB_MIRROR_def KEY_RELAY_NETWORK_PREFIX_def
  KEY_LOG_ENABLED_def KEY_SHARE_LINK_SECRET_def DEFAULT_SHARE_LINK_SECRET_def

lemma join_NL_last: "join [NL] (ls @ [[]]) = concat (map (\<lambda>l. l @ [NL]) ls)"
proof (induction ls)
  case (Cons l ls)
  then show ?case by (cases ls) auto
qed simp

lemma builtin_clean: "\<forall>(k, v) \<in> set builtin_defaults. clean_key k \<and> clean_value v"
  by (simp add: builtin_defaults_def key_defs clean_key_def clean_value_def trimmed_def ws_back_def
      ws_front_def ws1_def ws2_def ws3_def unquote_def numeral_3_eq_3 numeral_2_eq_2)

lemma clean_override:
  "clean_map m \<Longrightarrow> clean_key k \<Longrightarrow> clean_value d \<Longrightarrow>
     clean_value (case hm_get m k of Some v \<Rightarrow> v | None \<Rightarrow> d)"
  by (auto simp: clean_map_def simp flip: hm_get_in split: option.split)

lemma push_key_parse:
  assumes "clean_map m" and "clean_key k \<and> clean_value d"
  shows "List.map_filter parse_env_line (push_key m k desc d note) = [override m (k, d)]"
  using parse_env_line_kv [OF _ clean_override [OF assms(1)], of k k d] assms(2)
  by (simp add: push_key_def List.map_filter_def parse_env_line_comment override_def)

lemma utf8_text_NL: "list_all (\<lambda>b. 128 \<le> b \<and> b < 256) bs \<Longrightarrow> NL \<notin> set (utf8_text bs)"
  unfolding utf8_text_def
proof (induction bs)
  case (Cons b bs)
  have b: "of_char (char_of b :: char) = b"
    using Cons.prems by (simp add: of_char_of)
  have "char_of b \<noteq> NL"
  proof
    assume "char_of b = NL"
    with b have "b = 10" by simp
    with Cons.prems show False by simp
  qed
  with Cons show ?case by auto
qed simp

lemma push_key_NL:
  assumes "clean_map m" and "clean_key k \<and> clean_value d" and "NL \<notin> set desc" and "NL \<notin> set note"
  shows "list_all (\<lambda>l. NL \<notin> set l) (push_key m k desc d note)"
  using assms clean_override [OF assms(1), of k d]
  by (simp add: push_key_def utf8_text_NL clean_key_def clean_value_def)

lemmas builtin_cleanD = builtin_clean [unfolded builtin_defaults_def, simplified]

lemma template_lines_NL: "clean_map m \<Longrightarrow> list_all (\<lambda>l. NL \<notin> set l) (template_lines m)"
  by (simp add: template_lines_def push_key_NL builtin_cleanD utf8_text_NL)

lemma template_lines_parse:
  "clean_map m \<Longrightarrow> List.map_filter parse_env_line (template_lines m) = map (override m) builtin_defaults"
  by (simp add: template_lines_def map_filter_append push_key_parse builtin_cleanD builtin_defaults_def
      map_filter_simps parse_env_line_comment)

lemma parse_env_build:
  assumes "clean_map m"
  shows "hm_get (parse_env (build_template m)) k =
    (case map_of builtin_defaults k of
       None \<Rightarrow> None
     | Some d \<Rightarrow> Some (case hm_get m k of Some v \<Rightarrow> v | None \<Rightarrow> d))"
proof -
  have ls: "build_template m = concat (map (\<lambda>l. l @ [NL]) (template_lines m)) @ []"
    by (simp add: build_template_def join_NL_last)
  have d: "distinct (map fst (rev builtin_defaults))"
    by (simp add: builtin_defaults_def key_defs)
  then have "map_of (rev builtin_defaults) = map_of builtin_defaults"
    by (metis distinct_rev map_of_inject_set rev_map set_rev)
  then show ?thesis
    unfolding hm_get_parse_env ls lines_concat [OF template_lines_NL [OF assms]]
    by (simp add: map_filter_strip_cr template_lines_parse [OF assms] rev_map map_of_override split: option.split)
qed

section \<open>Saving and loading\<close>

definition ac_wf :: "app_config \<Rightarrow> bool" where
  "ac_wf ac \<longleftrightarrow> hm_ok (ac_inner ac) \<and>
     ac_template_map ac = (case ac_template ac of None \<Rightarrow> [] | Some t \<Rightarrow> parse_env t)"

lemma ac_new_wf: "ac_wf (ac_new p t tp)"
  by (simp add: ac_wf_def ac_new_def hm.ok_nil)

lemma ac_note_mtime_simps [simp]:
  "ac_path (ac_note_mtime fs ac) = ac_path ac" "ac_inner (ac_note_mtime fs ac) = ac_inner ac"
  "ac_template (ac_note_mtime fs ac) = ac_template ac"
  "ac_template_map (ac_note_mtime fs ac) = ac_template_map ac"
  by (simp_all add: ac_note_mtime_def split: option.split)

lemma ac_load_wf: "ac_wf ac \<Longrightarrow> ac_wf (ac_load fs ac)"
  by (simp add: ac_wf_def ac_load_def parse_env_ok split: option.split)

lemma ac_save_wf: "ac_wf ac \<Longrightarrow> ac_save ord ac fs = (r, ac', fs') \<Longrightarrow> ac_wf ac'"
  by (auto simp: ac_wf_def ac_save_def split: prod.splits sum.splits)

lemma ac_set_wf: "ac_wf ac \<Longrightarrow> ac_set ord k v ac fs = (r, ac', fs') \<Longrightarrow> ac_wf ac'"
  unfolding ac_set_def by (erule ac_save_wf [rotated]) (simp add: ac_wf_def hm.ok_put)

lemma ac_save_load:
  assumes "ac_save ord ac fs = (Inr (), ac', fs')" and "fs_rfault fs (ac_path ac) = None"
    and "is_utf8 (ac_render ord ac)"
  shows "ac_inner (ac_load fs' ac') = parse_env (ac_render ord ac)"
    and "ac_template_map (ac_load fs' ac') = ac_template_map ac"
    and "\<not> has_external_change fs' (ac_load fs' ac')"
proof -
  from assms(1) obtain u where w: "fs_write (ac_path ac) (as_bytes (ac_render ord ac)) fs = (Inr u, fs')"
    and ac': "ac' = ac_note_mtime fs' ac"
    by (auto simp: ac_save_def split: prod.splits sum.splits)
  from w have fs': "fs' = fs\<lparr>fs_data := (fs_data fs)(ac_path ac \<mapsto> as_bytes (ac_render ord ac)),
      fs_mtime := (fs_mtime fs)(ac_path ac \<mapsto> fs_now fs)\<rparr>"
    by (auto dest: fs_write_ok)
  then have r: "fs_read_to_string fs' (ac_path ac) = Some (ac_render ord ac)"
    using assms(2,3) by (simp add: fs_read_to_string_def fs_read_def)
  show "ac_inner (ac_load fs' ac') = parse_env (ac_render ord ac)"
    and "ac_template_map (ac_load fs' ac') = ac_template_map ac"
    by (simp_all add: ac' ac_load_def r)
  show "\<not> has_external_change fs' (ac_load fs' ac')"
    by (simp add: ac' ac_load_def r has_external_change_def) (simp add: ac_note_mtime_def fs' fs_modified_def)
qed

lemma ac_save_get:
  assumes "ac_save ord ac fs = (Inr (), ac', fs')" and "fs_rfault fs (ac_path ac) = None"
    and "is_utf8 (ac_render ord ac)" and "iter_order ord" and "ac_wf ac"
    and "clean_map (ac_inner ac)" and "ac_template ac = Some t"
  shows "ac_get (ac_load fs' ac') k = ac_get ac k"
proof -
  note l = ac_save_load [OF assms(1-3)]
  have "hm_get (parse_env (ac_render ord ac)) k =
      (case hm_get (ac_inner ac) k of Some v \<Rightarrow> Some v | None \<Rightarrow> hm_get (parse_env t) k)"
    using parse_env_render [OF assms(4,6)] assms(7) by (simp add: ac_render_def)
  then show ?thesis
    using assms(5,7) by (simp add: ac_get_def l ac_wf_def split: option.split)
qed

lemma clean_map_insert:
  assumes "clean_map m" and "clean_key k" and "clean_value v"
  shows "clean_map (hm_insert k v m)"
proof -
  have ok: "hm_ok m" "hm_ok (hm_insert k v m)"
    using assms(1) by (simp_all add: clean_map_def hm.ok_put)
  show ?thesis
    unfolding clean_map_def
  proof (intro conjI ok(2) ballI, clarify)
    fix a b
    assume "(a, b) \<in> set (hm_insert k v m)"
    then have "hm_get (hm_insert k v m) a = Some b"
      using ok by (simp add: hm_get_in)
    then have "a = k \<and> b = v \<or> (a, b) \<in> set m"
      using ok(1) by (auto simp: hm.get_put hm_get_in split: if_splits)
    then show "clean_key a \<and> clean_value b"
      using assms by (auto simp: clean_map_def)
  qed
qed

section \<open>Properties\<close>


definition sample_config :: app_config where
  "sample_config = ac_new [''c''] (Some (''A=1'' @ [NL])) None"


text \<open>
  Without a template file the saved configuration holds exactly the nine built-in keys: after
  a save and a reload each of them has its configured value or its built-in default, and every
  other key that was set is gone.
\<close>

theorem config_builtin_reload:
  assumes "ac_wf ac" and "clean_map (ac_inner ac)" and "ac_template ac = None"
    and "ac_save ord ac fs = (Inr (), ac', fs')" and "fs_rfault fs (ac_path ac) = None"
    and "is_utf8 (ac_render ord ac)"
  shows "ac_get (ac_load fs' ac') k =
    (case map_of builtin_defaults k of
       None \<Rightarrow> None
     | Some d \<Rightarrow> Some (case hm_get (ac_inner ac) k of Some v \<Rightarrow> v | None \<Rightarrow> d))"
  using assms(1,3) ac_save_load [OF assms(4-6)] parse_env_build [OF assms(2), of k]
  by (simp add: ac_get_def ac_wf_def ac_render_def hm.get_nil split: option.split)

definition builtin_config :: app_config where
  "builtin_config = (ac_new [''c''] None None)\<lparr>ac_inner := [(''FOO'', ''x'')]\<rparr>"

lemma is_utf8_text: "list_all (\<lambda>b. b < 256) bs \<Longrightarrow> is_utf8 (utf8_text bs) = utf8_codes bs"
proof -
  assume "list_all (\<lambda>b. b < 256) bs"
  then have "map of_char (utf8_text bs) = bs"
    by (induction bs) (simp_all add: utf8_text_def of_char_of)
  then show ?thesis
    by (simp add: is_utf8_def)
qed

lemma is_utf8_Cons: "(of_char c :: nat) < 128 \<Longrightarrow> is_utf8 (c # s) = is_utf8 s"
  by (simp add: is_utf8_def)

lemma is_utf8_app: "is_utf8 a \<Longrightarrow> is_utf8 b \<Longrightarrow> is_utf8 (a @ b)"
  by (simp add: is_utf8_append)

lemma is_utf8_Nil: "is_utf8 []"
  by (simp add: is_utf8_def)

lemma is_utf8_concat: "list_all is_utf8 ls \<Longrightarrow> is_utf8 (concat (map (\<lambda>l. l @ [NL]) ls))"
  by (induction ls) (auto simp: is_utf8_Nil is_utf8_Cons intro!: is_utf8_app)

lemma push_key_utf8:
  "is_utf8 key \<Longrightarrow> is_utf8 desc \<Longrightarrow> is_utf8 d \<Longrightarrow> is_utf8 note \<Longrightarrow> (\<forall>(k, v) \<in> set m. is_utf8 v) \<Longrightarrow>
     list_all is_utf8 (push_key m key desc d note)"
  by (auto simp: push_key_def is_utf8_Cons is_utf8_text is_utf8_Nil hm_get_def
      dest!: map_of_SomeD intro!: is_utf8_app split: option.split)

lemma template_lines_utf8: "(\<forall>(k, v) \<in> set m. is_utf8 v) \<Longrightarrow> is_utf8 (build_template m)"
  unfolding build_template_def join_NL_last
  by (intro is_utf8_concat)
    (simp add: template_lines_def push_key_utf8 key_defs is_utf8_Cons is_utf8_app is_utf8_text is_utf8_Nil)

theorem config_builtin_reload_witness:
  "let (r, ac', fs') = ac_save (\<lambda>m. m) builtin_config fs_empty
   in ac_get (ac_load fs' ac') ''FOO'' = None \<and> ac_get (ac_load fs' ac') ''LOG_ENABLED'' = Some ''1''"
proof -
  obtain ac' fs' where s: "ac_save (\<lambda>m. m) builtin_config fs_empty = (Inr (), ac', fs')"
    by (simp add: ac_save_def fs_write_def fs_empty_def)
  have "clean_key ''FOO''" "clean_value ''x''"
    by (simp_all add: clean_key_def clean_value_def trimmed_def ws_back_def ws_front_def ws1_def ws2_def
        ws3_def unquote_def numeral_3_eq_3 numeral_2_eq_2)
  then have c: "ac_wf builtin_config" "clean_map (ac_inner builtin_config)" "ac_template builtin_config = None"
    "fs_rfault fs_empty (ac_path builtin_config) = None" "is_utf8 (ac_render (\<lambda>m. m) builtin_config)"
    using template_lines_utf8 [of "[(''FOO'', ''x'')]"]
    by (simp_all add: is_utf8_Cons is_utf8_Nil builtin_config_def ac_wf_def ac_new_def clean_map_def hm_ok_def fs_empty_def ac_render_def)
  show ?thesis
    using config_builtin_reload [OF c(1-3) s c(4,5), of "''FOO''"]
      config_builtin_reload [OF c(1-3) s c(4,5), of "''LOG_ENABLED''"]
    unfolding s by (simp add: builtin_defaults_def key_defs builtin_config_def hm_get_def)
qed

text \<open>
  Values are not escaped. A value that contains a line break writes a second entry: after the
  reload the injected key has the injected value, for any key and value the format can carry.
\<close>

theorem config_set_injection:
  assumes "clean_key key" and "clean_value v" and "clean_key key'" and "clean_value v'" and "key \<noteq> key'"
    and "ac_set (\<lambda>m. m) key (v @ [NL] @ key' @ ''='' @ v') (ac_new p (Some []) tp) fs = (Inr (), ac', fs')"
    and "fs_rfault fs p = None" and "is_utf8 (key @ ''='' @ v @ [NL] @ key' @ ''='' @ v' @ [NL])"
  shows "ac_get (ac_load fs' ac') key' = Some v' \<and> ac_get (ac_load fs' ac') key = Some v"
proof -
  let ?ac = "(ac_new p (Some []) tp)\<lparr>ac_inner := [(key, v @ [NL] @ key' @ ''='' @ v')]\<rparr>"
  have s: "ac_save (\<lambda>m. m) ?ac fs = (Inr (), ac', fs')"
    using assms(6) by (simp add: ac_set_def ac_new_def hm_insert_def)
  let ?ls = "[key @ ''='' @ v, key' @ ''='' @ v']"
  have r: "ac_render (\<lambda>m. m) ?ac = concat (map (\<lambda>l. l @ [NL]) ?ls) @ []"
    by (simp add: ac_render_def ac_new_def render_from_template_def)
  have nl: "list_all (\<lambda>l. NL \<notin> set l) ?ls"
    using assms(1-4) by (simp add: clean_key_def clean_value_def)
  have p: "parse_env_line (key @ ''='' @ v) = Some (key, v)" "parse_env_line (key' @ ''='' @ v') = Some (key', v')"
    using assms(1-4) parse_env_line_kv by blast+
  have "List.map_filter parse_env_line (lines (ac_render (\<lambda>m. m) ?ac)) = [(key, v), (key', v')]"
    unfolding r lines_concat [OF nl] map_filter_append map_filter_strip_cr using p by simp
  moreover have "ac_inner (ac_load fs' ac') = parse_env (ac_render (\<lambda>m. m) ?ac)"
    by (rule ac_save_load(1) [OF s]) (use assms(7,8) r in \<open>simp_all add: ac_new_def\<close>)
  ultimately show ?thesis
    using assms(5) by (simp add: ac_get_def hm_get_parse_env)
qed

theorem config_set_injection_witness:
  "let (r, ac', fs') = ac_set (\<lambda>m. m) ''A'' (''x'' @ [NL] @ ''B'' @ ''='' @ ''y'') (ac_new [''c''] (Some []) None) fs_empty
   in ac_get (ac_load fs' ac') ''B'' = Some ''y''"
proof -
  obtain ac' fs' where s: "ac_set (\<lambda>m. m) ''A'' (''x'' @ [NL] @ ''B'' @ ''='' @ ''y'') (ac_new [''c''] (Some []) None) fs_empty
      = (Inr (), ac', fs')"
    by (simp add: ac_set_def ac_save_def fs_write_def fs_empty_def)
  have "clean_key ''A''" "clean_value ''x''" "clean_key ''B''" "clean_value ''y''"
    by (simp_all add: clean_key_def clean_value_def trimmed_def ws_back_def ws_front_def ws1_def unquote_def)
  then have "ac_get (ac_load fs' ac') ''B'' = Some ''y''"
    using config_set_injection [of "''A''" "''x''" "''B''" "''y''" "[''c'']" None fs_empty ac' fs'] s
    by (simp add: fs_empty_def is_utf8_def)
  then show ?thesis
    unfolding s by simp
qed

lemma clean_map_Nil: "clean_map []"
  by (simp add: clean_map_def hm.ok_nil)

text \<open>
  First start. When no configuration file exists and a template is found, \<open>init\<close> reports that
  it created the file, the file then exists, every key has its template value, no external change
  is pending, and a second \<open>init\<close> changes nothing.
\<close>

theorem config_first_start:
  assumes "iter_order ord" and "fs_healthy fs" and "\<not> fs_exists fs p"
    and "locate_template md fs rd = Some tp" and "read_template fs tp = Some t"
    and "is_utf8 (render_from_template ord t [])"
  shows "\<exists>c fs'. config_init ord md p rd None fs = (True, Some c, fs') \<and> fs_exists fs' p \<and>
    (\<forall>k. ac_get c k = hm_get (parse_env t) k) \<and> \<not> has_external_change fs' c \<and>
    config_init ord md p rd (Some c) fs' = (False, Some c, fs')"
proof -
  let ?c0 = "ac_new p (Some t) (Some tp)"
  have w: "fs_wfault fs p = None" and rf: "fs_rfault fs (ac_path ?c0) = None"
    using assms(2) by (simp_all add: fs_healthy_def)
  then obtain ac' fs' where s: "ac_save ord ?c0 fs = (Inr (), ac', fs')" and ex: "fs_exists fs' p"
    by (simp add: ac_save_def fs_write_def ac_new_def fs_exists_def)
  have u: "is_utf8 (ac_render ord ?c0)" and cm: "clean_map (ac_inner ?c0)" and t: "ac_template ?c0 = Some t"
    using assms(6) clean_map_Nil by (simp_all add: ac_render_def ac_new_def)
  have "config_init ord md p rd None fs = (True, Some (ac_load fs' ac'), fs')"
    using assms(3-5) s by (simp add: config_init_def Let_def)
  moreover have "ac_get (ac_load fs' ac') k = hm_get (parse_env t) k" for k
    using ac_save_get [OF s rf u assms(1) ac_new_wf cm t]
    by (simp add: ac_get_def ac_new_def hm.get_nil)
  ultimately show ?thesis
    using ex ac_save_load(3) [OF s rf u] by (auto simp: config_init_def)
qed

definition template_fs :: fs where
  "template_fs = fs_empty\<lparr>fs_data := [[''r'', ''homeTier.conf.example''] \<mapsto> as_bytes (''A=1'' @ [NL])]\<rparr>"

theorem config_first_start_witness:
  "\<exists>c fs'. config_init (\<lambda>m. m) [''m''] [''c''] (Some [''r'']) None template_fs = (True, Some c, fs') \<and>
     fs_exists fs' [''c''] \<and> (\<forall>k. ac_get c k = hm_get (parse_env (''A=1'' @ [NL])) k) \<and>
     \<not> has_external_change fs' c \<and>
     config_init (\<lambda>m. m) [''m''] [''c''] (Some [''r'']) (Some c) fs' = (False, Some c, fs')"
proof (rule config_first_start [where tp = "[''r'', ''homeTier.conf.example'']"])
  have u: "is_utf8 (''A=1'' @ [NL])"
    by (simp add: is_utf8_def)
  then show "read_template template_fs [''r'', ''homeTier.conf.example''] = Some (''A=1'' @ [NL])"
    by (simp add: read_template_def fs_read_to_string_def fs_read_def template_fs_def fs_empty_def)
  show "locate_template [''m''] template_fs (Some [''r'']) = Some [''r'', ''homeTier.conf.example'']"
    by (simp add: locate_template_def path_join_def template_fs_def fs_empty_def fs_exists_def)
  have "lines (''A=1'' @ [NL]) = [''A=1'']"
    by (simp add: lines_def strip_eol_def strip_cr_def)
  with u show "is_utf8 (render_from_template (\<lambda>m. m) (''A=1'' @ [NL]) [])"
    by (simp add: render_from_template_def render_lines_eq render_line_def hm.get_nil split: option.split)
qed (simp_all add: iter_order_id template_fs_def fs_empty_def fs_healthy_def fs_exists_def)

end
