(* ===== verification/Json.thy ===== *)
theory Json
  imports Rust_Str
begin

text \<open>
  \<open>serde_json\<close> is not part of the repository: for each type that the sources serialise, the codec
  is a \<open>json\<close> record passed as an argument. \<open>json_ok\<close> is what the users of the compact writer rely
  on: a value that is written reads back, also with the line feed of a line protocol behind it,
  and the text is UTF-8 without line feeds or carriage returns (JSON escapes control characters). \<open>nats_json\<close> builds concrete codecs from a flattening to
  lists of numbers.
\<close>

record 'a json =
  js_ser :: "'a \<Rightarrow> string + bytes"
  js_de :: "bytes \<Rightarrow> string + 'a"

definition json_ok :: "'a json \<Rightarrow> bool" where
  "json_ok J \<longleftrightarrow>
    (\<forall>x. \<exists>b. js_ser J x = Inr b \<and> b \<noteq> [] \<and> 10 \<notin> set b \<and> 13 \<notin> set b \<and> is_utf8 (of_bytes b) \<and>
       js_de J b = Inr x \<and> js_de J (b @ [10]) = Inr x)"

lemma json_okE:
  assumes "json_ok J"
  obtains b where "js_ser J x = Inr b" "b \<noteq> []" "10 \<notin> set b" "13 \<notin> set b" "is_utf8 (of_bytes b)"
    "js_de J b = Inr x" "js_de J (b @ [10]) = Inr x"
  using assms unfolding json_ok_def by blast

lemma json_ok_de: "json_ok J \<Longrightarrow> js_ser J x = Inr b \<Longrightarrow> js_de J b = Inr x"
  by (erule json_okE [of J x]) simp

section \<open>Concrete codecs\<close>

definition put_nats :: "nat list \<Rightarrow> bytes" where
  "put_nats ns = concat (map (\<lambda>n. replicate n 49 @ [44]) ns) @ [93]"

fun get_nats :: "nat \<Rightarrow> bytes \<Rightarrow> nat list" where
  "get_nats n [] = []"
| "get_nats n (b # bs) =
    (if b = 49 then get_nats (Suc n) bs else if b = 44 then n # get_nats 0 bs else [])"

lemma get_nats_replicate: "get_nats k (replicate n 49 @ 44 # bs) = (k + n) # get_nats 0 bs"
  by (induction n arbitrary: k) auto

lemma get_put_nats: "get_nats 0 (put_nats ns @ bs) = ns"
  by (induction ns) (simp_all add: put_nats_def get_nats_replicate)

lemma put_nats_ascii: "is_utf8 (of_bytes (put_nats ns))" "10 \<notin> set (put_nats ns)" "13 \<notin> set (put_nats ns)"
  "put_nats ns \<noteq> []"
proof -
  have s: "set (put_nats ns) \<subseteq> {44, 49, 93}"
    by (auto simp: put_nats_def)
  then have "is_ascii (of_bytes (put_nats ns))"
    unfolding is_ascii_def list_all_iff of_bytes_def set_map ball_simps
    by (intro ballI) (drule (1) subsetD, auto simp: char_of_byte_def of_char_of)
  then show "is_utf8 (of_bytes (put_nats ns))"
    by simp
  from s show "10 \<notin> set (put_nats ns)" "13 \<notin> set (put_nats ns)"
    by auto
  show "put_nats ns \<noteq> []"
    by (simp add: put_nats_def)
qed

definition nats_json :: "('a \<Rightarrow> nat list) \<Rightarrow> (nat list \<Rightarrow> 'a \<times> nat list) \<Rightarrow> 'a json" where
  "nats_json f g = \<lparr>js_ser = \<lambda>x. Inr (put_nats (f x)), js_de = \<lambda>b. Inr (fst (g (get_nats 0 b)))\<rparr>"

lemma nats_json_ok: "(\<And>x. g (f x @ []) = (x, [])) \<Longrightarrow> json_ok (nats_json f g)"
  using get_put_nats [where bs = "[]"] get_put_nats
  by (simp add: json_ok_def nats_json_def put_nats_ascii)

text \<open>Flattening of the field types, each with its reader.\<close>

definition fl_str :: "string \<Rightarrow> nat list" where "fl_str s = length s # map of_char s"
definition rd_str :: "nat list \<Rightarrow> string \<times> nat list" where
  "rd_str ns = (map char_of (take (hd ns) (tl ns)), drop (hd ns) (tl ns))"

definition fl_bytes :: "bytes \<Rightarrow> nat list" where "fl_bytes b = length b # map unat b"
definition rd_bytes :: "nat list \<Rightarrow> bytes \<times> nat list" where
  "rd_bytes ns = (map word_of_nat (take (hd ns) (tl ns)), drop (hd ns) (tl ns))"

definition fl_opt :: "('a \<Rightarrow> nat list) \<Rightarrow> 'a option \<Rightarrow> nat list" where
  "fl_opt f x = (case x of None \<Rightarrow> [0] | Some y \<Rightarrow> 1 # f y)"
definition rd_opt :: "(nat list \<Rightarrow> 'a \<times> nat list) \<Rightarrow> nat list \<Rightarrow> 'a option \<times> nat list" where
  "rd_opt g ns = (if hd ns = 0 then (None, tl ns) else (let (x, r) = g (tl ns) in (Some x, r)))"

definition fl_word :: "'n::len word \<Rightarrow> nat list" where "fl_word w = [unat w]"
definition rd_word :: "nat list \<Rightarrow> 'n::len word \<times> nat list" where
  "rd_word ns = (word_of_nat (hd ns), tl ns)"

definition fl_bool :: "bool \<Rightarrow> nat list" where "fl_bool b = [if b then 1 else 0]"
definition rd_bool :: "nat list \<Rightarrow> bool \<times> nat list" where "rd_bool ns = (hd ns = 1, tl ns)"

definition fl_list :: "('a \<Rightarrow> nat list) \<Rightarrow> 'a list \<Rightarrow> nat list" where
  "fl_list f xs = length xs # concat (map f xs)"

fun rd_n :: "(nat list \<Rightarrow> 'a \<times> nat list) \<Rightarrow> nat \<Rightarrow> nat list \<Rightarrow> 'a list \<times> nat list" where
  "rd_n g 0 ns = ([], ns)"
| "rd_n g (Suc n) ns = (let (x, r) = g ns; (xs, r') = rd_n g n r in (x # xs, r'))"

definition rd_list :: "(nat list \<Rightarrow> 'a \<times> nat list) \<Rightarrow> nat list \<Rightarrow> 'a list \<times> nat list" where
  "rd_list g ns = rd_n g (hd ns) (tl ns)"

lemma rd_str_fl [simp]: "rd_str (fl_str s @ r) = (s, r)"
  by (simp add: rd_str_def fl_str_def comp_def)

lemma rd_bytes_fl [simp]: "rd_bytes (fl_bytes b @ r) = (b, r)"
  by (simp add: rd_bytes_def fl_bytes_def comp_def)

lemma rd_word_fl [simp]: "rd_word (fl_word w @ r) = (w, r)"
  by (simp add: rd_word_def fl_word_def)

lemma rd_bool_fl [simp]: "rd_bool (fl_bool b @ r) = (b, r)"
  by (simp add: rd_bool_def fl_bool_def)

lemma rd_opt_fl [simp]: "(\<And>x r. g (f x @ r) = (x, r)) \<Longrightarrow> rd_opt g (fl_opt f x @ r) = (x, r)"
  by (cases x) (simp_all add: rd_opt_def fl_opt_def)

lemma rd_n_fl: "(\<And>x r. g (f x @ r) = (x, r)) \<Longrightarrow> rd_n g (length xs) (concat (map f xs) @ r) = (xs, r)"
  by (induction xs) simp_all

lemma rd_list_fl [simp]: "(\<And>x r. g (f x @ r) = (x, r)) \<Longrightarrow> rd_list g (fl_list f xs @ r) = (xs, r)"
  by (simp add: rd_list_def fl_list_def rd_n_fl)

end
