(* ===== verification/Config_Store.thy ===== *)
theory Config_Store
  imports Fs Hash_Map Json
begin

text \<open>
  The local configuration store, \<open>src-tauri/src/config_store/store.rs\<close>: one file per
  configuration under \<open>{root}/configs\<close>, an index \<open>{root}/versions.json\<close>, and a version check that
  refuses to go back. The state is the \<open>ConfigStore\<close> together with the file system. The values of
  the index map are iterated in an arbitrary order \<open>ord\<close>. A lock that the operating system
  grants is exclusive, so \<open>store\<close> runs to its end before another \<open>store\<close> of the same name; the
  branches of poisoned locks are not modelled (no code panics while it holds one).
\<close>

record config_file_meta =
  fm_name :: string
  fm_version :: u32
  fm_timestamp :: u64
  fm_checksum :: "string option"

record config_file =
  cf_name :: string
  cf_version :: u32
  cf_content :: bytes
  cf_timestamp :: u64
  cf_checksum :: "string option"

datatype store_error = VersionConflict | Io string

definition store_error_fmt :: "store_error \<Rightarrow> string" where
  "store_error_fmt e =
    (case e of
       VersionConflict \<Rightarrow> utf8_text [231, 137, 136, 230, 156, 172, 229, 134, 178, 231, 170, 129, 239, 188, 154, 231, 163, 129, 231, 155, 152, 231, 137, 136, 230, 156, 172, 228, 184, 141, 228, 189, 142, 228, 186, 142, 229, 190, 133, 229, 134, 153, 229, 133, 165, 231, 137, 136, 230, 156, 172]
     | Io m \<Rightarrow> ''IO '' @ utf8_text [233, 148, 153, 232, 175, 175] @ '': '' @ m)"

type_synonym versions = "(string, config_file_meta) hmap"
type_synonym versions_order = "versions \<Rightarrow> (string \<times> config_file_meta) list"

record config_store =
  cs_root :: path
  cs_configs_dir :: path
  cs_versions :: versions

section \<open>Operations\<close>

definition load_versions :: "config_file_meta list json \<Rightarrow> path \<Rightarrow> fs \<Rightarrow> versions" where
  "load_versions J root fs =
    (case fs_read_to_string fs (path_join root ''versions.json'') of
       None \<Rightarrow> []
     | Some s \<Rightarrow>
        (case js_de J (as_bytes s) of
           Inl _ \<Rightarrow> []
         | Inr v \<Rightarrow> hm_extend [] (map (\<lambda>m. (fm_name m, m)) v)))"

definition config_store_new :: "config_file_meta list json \<Rightarrow> path \<Rightarrow> fs \<Rightarrow> config_store" where
  "config_store_new J root fs =
    \<lparr>cs_root = root, cs_configs_dir = path_join root ''configs'', cs_versions = load_versions J root fs\<rparr>"

definition get_meta :: "config_store \<Rightarrow> string \<Rightarrow> config_file_meta option" where
  "get_meta cs name = hm_get (cs_versions cs) name"

definition list_meta :: "versions_order \<Rightarrow> config_store \<Rightarrow> config_file_meta list" where
  "list_meta ord cs = map snd (ord (cs_versions cs))"

definition config_path :: "config_store \<Rightarrow> string \<Rightarrow> string \<Rightarrow> path" where
  "config_path cs name ext = path_join (cs_configs_dir cs) (name @ ext)"

definition get_file :: "config_store \<Rightarrow> fs \<Rightarrow> string \<Rightarrow> store_error + config_file option" where
  "get_file cs fs name =
    (case get_meta cs name of
       None \<Rightarrow> Inr None
     | Some meta \<Rightarrow>
        (case fs_read fs (config_path cs name ''.json'') of
           Inl e \<Rightarrow> Inl (Io e)
         | Inr content \<Rightarrow>
            Inr (Some \<lparr>cf_name = name, cf_version = fm_version meta, cf_content = content,
                       cf_timestamp = fm_timestamp meta, cf_checksum = fm_checksum meta\<rparr>)))"

definition to_meta :: "config_file \<Rightarrow> config_file_meta" where
  "to_meta f = \<lparr>fm_name = cf_name f, fm_version = cf_version f, fm_timestamp = cf_timestamp f,
                fm_checksum = cf_checksum f\<rparr>"

definition persist_versions ::
  "versions_order \<Rightarrow> config_file_meta list json \<Rightarrow> config_store \<Rightarrow> fs \<Rightarrow> (store_error + unit) \<times> fs" where
  "persist_versions ord J cs fs =
    (case js_ser J (list_meta ord cs) of
       Inl e \<Rightarrow> (Inl (Io e), fs)
     | Inr js \<Rightarrow>
        (case fs_write (path_join (cs_root cs) ''versions.json'') js fs of
           (Inl e, fs') \<Rightarrow> (Inl (Io e), fs')
         | (Inr _, fs') \<Rightarrow> (Inr (), fs')))"

text \<open>What \<open>store\<close> does while it holds the lock.\<close>

definition store_locked ::
  "versions_order \<Rightarrow> config_file_meta list json \<Rightarrow> config_file \<Rightarrow> config_store \<Rightarrow> fs \<Rightarrow>
   (store_error + unit) \<times> config_store \<times> fs" where
  "store_locked ord J file cs fs =
    (if (case get_meta cs (cf_name file) of None \<Rightarrow> False | Some meta \<Rightarrow> fm_version meta \<ge> cf_version file)
     then (Inl VersionConflict, cs, fs)
     else
       (case fs_write (config_path cs (cf_name file) ''.json'') (cf_content file) fs of
          (Inl e, fs1) \<Rightarrow> (Inl (Io e), cs, fs1)
        | (Inr _, fs1) \<Rightarrow>
           (let cs' = cs\<lparr>cs_versions := hm_insert (cf_name file) (to_meta file) (cs_versions cs)\<rparr>;
                (r, fs2) = persist_versions ord J cs' fs1
            in (r, cs', fs2))))"

definition store ::
  "versions_order \<Rightarrow> config_file_meta list json \<Rightarrow> config_file \<Rightarrow> config_store \<Rightarrow> fs \<Rightarrow>
   (store_error + unit) \<times> config_store \<times> fs" where
  "store ord J file cs fs =
    (let lock_path = config_path cs (cf_name file) ''.lock'' in
     case fs_open_create lock_path fs of
       (Inl e, fs0) \<Rightarrow> (Inl (Io e), cs, fs0)
     | (Inr _, fs0) \<Rightarrow>
        (case fs_lfault fs0 lock_path of
           Some e \<Rightarrow> (Inl (Io e), cs, fs0)
         | None \<Rightarrow> store_locked ord J file cs fs0))"

definition clear_store :: "config_store \<Rightarrow> fs \<Rightarrow> (store_error + unit) \<times> config_store \<times> fs" where
  "clear_store cs fs =
    (let fs1 = fs_remove (path_join (cs_root cs) ''versions.json'') fs;
         fs2 = fs_remove_entries (cs_configs_dir cs) fs1
     in (Inr (), cs\<lparr>cs_versions := []\<rparr>, fs2))"

section \<open>Paths\<close>

lemma config_path_plain:
  "plain_name name \<Longrightarrow> plain_name ext \<Longrightarrow> 2 < length ext \<Longrightarrow> config_path cs name ext = cs_configs_dir cs @ [name @ ext]"
  unfolding config_path_def by (rule path_join_plain) (auto simp: plain_name_def append_eq_Cons_conv)

lemma versions_path: "path_join root ''versions.json'' = root @ [''versions.json'']"
  by (rule path_join_plain) (simp_all add: plain_name_def)

lemma configs_path: "path_join root ''configs'' = root @ [''configs'']"
  by (rule path_join_plain) (simp_all add: plain_name_def)

lemma ext_plain: "plain_name ''.json''" "plain_name ''.lock''"
  by (simp_all add: plain_name_def)

lemma json_path: "plain_name name \<Longrightarrow> config_path cs name ''.json'' = cs_configs_dir cs @ [name @ ''.json'']"
  by (rule config_path_plain) (simp_all add: plain_name_def)

lemma lock_path: "plain_name name \<Longrightarrow> config_path cs name ''.lock'' = cs_configs_dir cs @ [name @ ''.lock'']"
  by (rule config_path_plain) (simp_all add: plain_name_def)

lemma json_not_lock: "a @ ''.json'' \<noteq> b @ ''.lock''"
proof
  assume "a @ ''.json'' = b @ ''.lock''"
  then have "last (a @ ''.json'') = last (b @ ''.lock'')" by (rule arg_cong)
  then show False by simp
qed

section \<open>Invariant and effect of \<open>store\<close>\<close>

definition cs_ok :: "config_store \<Rightarrow> bool" where
  "cs_ok cs \<longleftrightarrow> hm_ok (cs_versions cs) \<and> list_all (\<lambda>(k, m). fm_name m = k) (cs_versions cs) \<and>
     cs_configs_dir cs = path_join (cs_root cs) ''configs''"

text \<open>The stored version as a number, 0 for a name that is not stored.\<close>

definition version_of :: "config_store \<Rightarrow> string \<Rightarrow> nat" where
  "version_of cs name = (case get_meta cs name of None \<Rightarrow> 0 | Some m \<Rightarrow> Suc (unat (fm_version m)))"

definition newer :: "config_file \<Rightarrow> config_store \<Rightarrow> bool" where
  "newer file cs \<longleftrightarrow> version_of cs (cf_name file) \<le> unat (cf_version file)"

definition indexed :: "config_file \<Rightarrow> config_store \<Rightarrow> config_store" where
  "indexed file cs = cs\<lparr>cs_versions := hm_insert (cf_name file) (to_meta file) (cs_versions cs)\<rparr>"

lemma newer_conflict:
  "(case get_meta cs (cf_name file) of None \<Rightarrow> False | Some meta \<Rightarrow> fm_version meta \<ge> cf_version file) \<longleftrightarrow> \<not> newer file cs"
  by (auto simp: newer_def version_of_def word_le_nat_alt split: option.split)

lemma names_extend:
  "list_all (\<lambda>(k, m). fm_name m = k) acc \<Longrightarrow>
   list_all (\<lambda>(k, m). fm_name m = k) (hm_extend acc (map (\<lambda>m. (fm_name m, m)) v))"
proof (induction v arbitrary: acc)
  case (Cons m v)
  have "list_all (\<lambda>(k, m). fm_name m = k) (hm_insert (fm_name m) m acc)"
    using Cons.prems by (induction acc) (auto simp: hm_insert_def)
  with Cons.IH show ?case by (simp add: hm_extend_def)
qed (simp add: hm_extend_def)

lemma config_store_new_ok: "cs_ok (config_store_new J root fs)"
  by (auto simp: cs_ok_def config_store_new_def load_versions_def hm_ok_extend hm.ok_nil names_extend
      split: option.split sum.split)

lemma indexed_ok: "cs_ok cs \<Longrightarrow> cs_ok (indexed file cs)"
proof -
  assume a: "cs_ok cs"
  have "list_all (\<lambda>(k, m). fm_name m = k) (hm_extend (cs_versions cs) (map (\<lambda>m. (fm_name m, m)) [to_meta file]))"
    using a by (intro names_extend) (simp add: cs_ok_def)
  with a show ?thesis
    by (simp add: cs_ok_def indexed_def hm.ok_put hm_extend_def to_meta_def)
qed

lemma get_meta_indexed:
  "cs_ok cs \<Longrightarrow> get_meta (indexed file cs) n = (if n = cf_name file then Some (to_meta file) else get_meta cs n)"
  by (simp add: get_meta_def indexed_def cs_ok_def hm.get_put)

lemma config_path_indexed [simp]: "config_path (indexed file cs) n e = config_path cs n e"
  by (simp add: indexed_def config_path_def)

lemma version_of_indexed:
  "cs_ok cs \<Longrightarrow> version_of (indexed file cs) n =
     (if n = cf_name file then Suc (unat (cf_version file)) else version_of cs n)"
  by (simp add: version_of_def get_meta_indexed to_meta_def)

lemma store_locked_cases:
  assumes "store_locked ord J file cs fs = (r, cs', fs')"
  obtains (conflict) "\<not> newer file cs" "r = Inl VersionConflict" "cs' = cs" "fs' = fs"
  | (content) e where "newer file cs" "r = Inl (Io e)" "cs' = cs"
  | (written) fs1 where "newer file cs" "fs_write (config_path cs (cf_name file) ''.json'') (cf_content file) fs = (Inr (), fs1)"
      "cs' = indexed file cs" "persist_versions ord J cs' fs1 = (r, fs')"
  using assms unfolding store_locked_def newer_conflict indexed_def [symmetric]
  by (auto simp: Let_def split: if_splits sum.splits prod.splits)

lemma store_cases:
  assumes "store ord J file cs fs = (r, cs', fs')"
  obtains (lock) e where "r = Inl (Io e)" "cs' = cs"
  | (locked) fs0 where "fs_open_create (config_path cs (cf_name file) ''.lock'') fs = (Inr (), fs0)"
      "store_locked ord J file cs fs0 = (r, cs', fs')"
  using assms unfolding store_def by (auto simp: Let_def split: sum.splits prod.splits option.splits)

lemma store_effect:
  assumes "store ord J file cs fs = (r, cs', fs')"
  shows "cs' = cs \<and> (\<exists>e. r = Inl e) \<or> newer file cs \<and> cs' = indexed file cs"
  using assms by (elim store_cases store_locked_cases) auto

lemma store_ok: "store ord J file cs fs = (r, cs', fs') \<Longrightarrow> cs_ok cs \<Longrightarrow> cs_ok cs'"
  using store_effect indexed_ok by metis

lemma store_success:
  assumes "store ord J file cs fs = (Inr (), cs', fs')"
  obtains fs0 fs1 js where "newer file cs" "cs' = indexed file cs"
    "fs_open_create (config_path cs (cf_name file) ''.lock'') fs = (Inr (), fs0)"
    "fs_write (config_path cs (cf_name file) ''.json'') (cf_content file) fs0 = (Inr (), fs1)"
    "js_ser J (list_meta ord cs') = Inr js"
    "fs_write (path_join (cs_root cs) ''versions.json'') js fs1 = (Inr (), fs')"
  using assms
  by (elim store_cases store_locked_cases)
    (auto simp: persist_versions_def indexed_def split: sum.splits prod.splits)

lemma fs_open_create_frame:
  "fs_open_create p fs = (r, fs') \<Longrightarrow>
     fs_rfault fs' = fs_rfault fs \<and> fs_wfault fs' = fs_wfault fs \<and> fs_lfault fs' = fs_lfault fs \<and>
     (\<forall>q. q \<noteq> p \<longrightarrow> fs_data fs' q = fs_data fs q)"
  by (auto simp: fs_open_create_def split: option.splits)

lemma store_success_data:
  assumes s: "store ord J file cs fs = (Inr (), cs', fs')" and cs: "cs_ok cs" and n: "plain_name (cf_name file)"
  obtains js where "js_ser J (list_meta ord cs') = Inr js"
    "fs_data fs' (path_join (cs_root cs) ''versions.json'') = Some js"
    "fs_data fs' (config_path cs (cf_name file) ''.json'') = Some (cf_content file)"
    "\<And>m. plain_name m \<Longrightarrow> m \<noteq> cf_name file \<Longrightarrow>
       fs_data fs' (config_path cs m ''.json'') = fs_data fs (config_path cs m ''.json'')"
    "fs_rfault fs' = fs_rfault fs"
proof -
  from s obtain fs0 fs1 js where o: "fs_open_create (config_path cs (cf_name file) ''.lock'') fs = (Inr (), fs0)"
    and w: "fs_write (config_path cs (cf_name file) ''.json'') (cf_content file) fs0 = (Inr (), fs1)"
    and js: "js_ser J (list_meta ord cs') = Inr js"
    and v: "fs_write (path_join (cs_root cs) ''versions.json'') js fs1 = (Inr (), fs')"
    by (elim store_success) blast
  have dir: "cs_configs_dir cs = cs_root cs @ [''configs'']"
    using cs by (simp add: cs_ok_def configs_path)
  have vne: "path_join (cs_root cs) ''versions.json'' \<noteq> config_path cs m ''.json''" if "plain_name m" for m
    using that by (simp add: versions_path json_path dir)
  show thesis
  proof
    show "js_ser J (list_meta ord cs') = Inr js" by (fact js)
    show "fs_data fs' (path_join (cs_root cs) ''versions.json'') = Some js"
      using fs_write_ok [OF v] by simp
    show "fs_data fs' (config_path cs (cf_name file) ''.json'') = Some (cf_content file)"
      using fs_write_ok [OF v] fs_write_ok [OF w] vne [OF n] by simp
    show "fs_data fs' (config_path cs m ''.json'') = fs_data fs (config_path cs m ''.json'')"
      if "plain_name m" "m \<noteq> cf_name file" for m
      using fs_write_ok [OF v] fs_write_ok [OF w] fs_open_create_frame [OF o] vne [OF that(1)] that n
      by (simp add: json_path lock_path json_not_lock)
    show "fs_rfault fs' = fs_rfault fs"
      using fs_write_ok [OF v] fs_write_ok [OF w] fs_open_create_frame [OF o] by simp
  qed
qed

lemma list_meta_extend:
  assumes "iter_order ord" and "cs_ok cs"
  shows "hm_get (hm_extend [] (map (\<lambda>m. (fm_name m, m)) (list_meta ord cs))) n = get_meta cs n"
proof -
  have "map (\<lambda>m. (fm_name m, m)) (list_meta ord cs) = ord (cs_versions cs)"
    unfolding list_meta_def map_map
    by (rule map_idI) (use assms iter_order_set in \<open>fastforce simp: cs_ok_def list_all_iff\<close>)
  then show ?thesis
    using assms by (simp add: hm_get_extend hm.ok_nil iter_order_get_rev get_meta_def cs_ok_def hm.get_nil split: option.split)
qed

lemma fs_open_create_healthy:
  "fs_healthy fs \<Longrightarrow> \<exists>fs'. fs_open_create p fs = (Inr (), fs') \<and> fs_healthy fs'"
  by (simp add: fs_open_create_def fs_healthy_def)

lemma fs_write_healthy_ex: "fs_healthy fs \<Longrightarrow> \<exists>fs'. fs_write p b fs = (Inr (), fs') \<and> fs_healthy fs'"
  by (simp add: fs_write_healthy) (simp add: fs_healthy_def)

text \<open>The behaviour of \<open>store\<close> on a file system without faults, which stays without faults.\<close>

lemma store_healthy:
  assumes "fs_healthy fs" and "json_ok J"
  shows "if newer file cs then \<exists>fs'. store ord J file cs fs = (Inr (), indexed file cs, fs') \<and> fs_healthy fs'
    else \<exists>fs'. store ord J file cs fs = (Inl VersionConflict, cs, fs') \<and> fs_healthy fs' \<and>
        (\<forall>p. p \<noteq> config_path cs (cf_name file) ''.lock'' \<longrightarrow> fs_data fs' p = fs_data fs p)"
proof -
  obtain fs0 where o: "fs_open_create (config_path cs (cf_name file) ''.lock'') fs = (Inr (), fs0)" and h: "fs_healthy fs0"
    using fs_open_create_healthy [OF assms(1)] by blast
  have st: "store ord J file cs fs = store_locked ord J file cs fs0"
    using h by (simp add: store_def o fs_healthy_def)
  obtain fs1 where w: "fs_write (config_path cs (cf_name file) ''.json'') (cf_content file) fs0 = (Inr (), fs1)" "fs_healthy fs1"
    using fs_write_healthy_ex [OF h] by blast
  obtain js where js: "js_ser J (list_meta ord (indexed file cs)) = Inr js"
    using assms(2) by (rule json_okE)
  obtain fs2 where v: "fs_write (path_join (cs_root (indexed file cs)) ''versions.json'') js fs1 = (Inr (), fs2)" "fs_healthy fs2"
    using fs_write_healthy_ex [OF w(2)] by blast
  have "store_locked ord J file cs fs0 =
      (if newer file cs then (Inr (), indexed file cs, fs2) else (Inl VersionConflict, cs, fs0))"
    unfolding store_locked_def newer_conflict indexed_def [symmetric] by (simp add: w persist_versions_def js v)
  then show ?thesis
    using h v(2) fs_open_create_frame [OF o] by (simp add: st)
qed

section \<open>The contract of a versioned store\<close>

locale versioned =
  fixes apply_op :: "'op \<Rightarrow> 's \<Rightarrow> 's"
    and ver :: "'s \<Rightarrow> 'k \<Rightarrow> nat"
    and ok :: "'s \<Rightarrow> bool"
  assumes apply_ok: "ok s \<Longrightarrow> ok (apply_op a s)"
    and apply_mono: "ok s \<Longrightarrow> ver s k \<le> ver (apply_op a s) k"
begin

lemma run_ok: "ok s \<Longrightarrow> ok (fold apply_op ops s)"
  by (induction ops arbitrary: s) (simp_all add: apply_ok)

lemma run_mono: "ok s \<Longrightarrow> ver s k \<le> ver (fold apply_op ops s) k"
proof (induction ops arbitrary: s)
  case (Cons a ops)
  from Cons.prems have "ver s k \<le> ver (apply_op a s) k" by (rule apply_mono)
  also have "\<dots> \<le> ver (fold apply_op ops (apply_op a s)) k"
    using Cons by (simp add: apply_ok)
  finally show ?case by simp
qed simp

lemma run_prefix_mono: "ok s \<Longrightarrow> i \<le> j \<Longrightarrow> ver (fold apply_op (take i ops) s) k \<le> ver (fold apply_op (take j ops) s) k"
proof -
  assume "ok s" "i \<le> j"
  then have "take j ops = take i ops @ take (j - i) (drop i ops)"
    by (metis add_diff_inverse_nat take_add not_le)
  then have "fold apply_op (take j ops) s = fold apply_op (take (j - i) (drop i ops)) (fold apply_op (take i ops) s)"
    by simp
  with run_mono [OF run_ok [OF \<open>ok s\<close>]] show ?thesis by metis
qed

end

definition store_run :: "versions_order \<Rightarrow> config_file_meta list json \<Rightarrow> config_file \<Rightarrow> config_store \<times> fs \<Rightarrow> config_store \<times> fs" where
  "store_run ord J file s = snd (store ord J file (fst s) (snd s))"

interpretation st: versioned "store_run ord J" "\<lambda>s. version_of (fst s)" "\<lambda>s. cs_ok (fst s)" for ord J
proof
  fix s :: "config_store \<times> fs" and f name
  assume ok: "cs_ok (fst s)"
  obtain r cs' fs' where s: "store ord J f (fst s) (snd s) = (r, cs', fs')"
    by (metis prod_cases3)
  show "cs_ok (fst (store_run ord J f s))"
    using store_ok [OF s ok] by (simp add: store_run_def s)
  show "version_of (fst s) name \<le> version_of (fst (store_run ord J f s)) name"
    using store_effect [OF s] ok by (auto simp: store_run_def s version_of_indexed newer_def)
qed

section \<open>Properties\<close>

text \<open>
  A store that succeeds is visible and isolated: reading the name back gives exactly the file
  that was stored, and every other name keeps its metadata and content.
\<close>

theorem store_get_file:
  assumes "cs_ok cs" and "plain_name (cf_name file)" and "fs_rfault fs (config_path cs (cf_name file) ''.json'') = None"
    and "store ord J file cs fs = (Inr (), cs', fs')" and "plain_name m" and "m \<noteq> cf_name file"
  shows "get_file cs' fs' (cf_name file) = Inr (Some file) \<and> get_file cs' fs' m = get_file cs fs m"
proof -
  have cs': "cs' = indexed file cs" using store_effect [OF assms(4)] by simp
  obtain js where "fs_data fs' (config_path cs (cf_name file) ''.json'') = Some (cf_content file)"
    "fs_data fs' (config_path cs m ''.json'') = fs_data fs (config_path cs m ''.json'')"
    "fs_rfault fs' = fs_rfault fs"
    using store_success_data [OF assms(4,1,2)] assms(5,6) by metis
  with assms show ?thesis
    by (auto simp: cs' get_file_def get_meta_indexed fs_read_def to_meta_def split: option.split)
qed

text \<open>
  C4: Versions never go back. Whatever files are stored, in whatever order and whichever of the
  calls fail, the version of every name after a longer prefix of the calls is at least its
  version after a shorter one.
\<close>

theorem store_versions_monotone:
  assumes "cs_ok cs" and "i \<le> j"
  shows "version_of (fst (fold (store_run ord J) (take i files) (cs, fs))) name
       \<le> version_of (fst (fold (store_run ord J) (take j files) (cs, fs))) name"
  using st.run_prefix_mono [of "(cs, fs)" i j] assms by simp

text \<open>
  On a working file system \<open>store\<close> succeeds exactly when the name is new or the version is
  strictly larger than the stored one; otherwise it reports \<open>VersionConflict\<close> and changes neither
  the index nor any file but the lock file.
\<close>

theorem store_accepts_iff_newer:
  assumes "fs_healthy fs" and "json_ok J"
  shows "if (\<forall>m. get_meta cs (cf_name file) = Some m \<longrightarrow> fm_version m < cf_version file)
    then \<exists>cs' fs'. store ord J file cs fs = (Inr (), cs', fs')
    else \<exists>fs'. store ord J file cs fs = (Inl VersionConflict, cs, fs') \<and>
        (\<forall>p. p \<noteq> config_path cs (cf_name file) ''.lock'' \<longrightarrow> fs_data fs' p = fs_data fs p)"
  using store_healthy [OF assms, of "file" cs ord] newer_conflict [of "file" cs]
  by (auto split: option.splits if_splits)

text \<open>
  The index survives a restart: after a successful \<open>store\<close>, a fresh \<open>ConfigStore::new\<close> on the same
  directory has the same metadata for every name, whatever order the index was written in.
\<close>

theorem store_survives_restart:
  assumes "iter_order ord" and "json_ok J" and "cs_ok cs" and "plain_name (cf_name file)"
    and "fs_rfault fs (path_join (cs_root cs) ''versions.json'') = None"
    and "store ord J file cs fs = (Inr (), cs', fs')"
  shows "get_meta (config_store_new J (cs_root cs) fs') n = get_meta cs' n"
proof -
  obtain js where js: "js_ser J (list_meta ord cs') = Inr js" and rf: "fs_rfault fs' = fs_rfault fs"
    and d: "fs_data fs' (path_join (cs_root cs) ''versions.json'') = Some js"
    using store_success_data [OF assms(6,3,4)] by metis
  from assms(2) js have "is_utf8 (of_bytes js)" "js_de J js = Inr (list_meta ord cs')"
    by (auto elim: json_okE [of J "list_meta ord cs'"])
  then have "load_versions J (cs_root cs) fs' = hm_extend [] (map (\<lambda>m. (fm_name m, m)) (list_meta ord cs'))"
    using from_utf8_as_bytes [of "of_bytes js"] assms(5)
    by (simp add: load_versions_def fs_read_to_string_def fs_read_def rf d)
  then show ?thesis
    using list_meta_extend [OF assms(1) store_ok [OF assms(6,3)]]
    by (simp add: get_meta_def config_store_new_def)
qed

section \<open>Concrete inputs\<close>

definition fl_meta :: "config_file_meta \<Rightarrow> nat list" where
  "fl_meta m = fl_str (fm_name m) @ fl_word (fm_version m) @ fl_word (fm_timestamp m) @ fl_opt fl_str (fm_checksum m)"

definition rd_meta :: "nat list \<Rightarrow> config_file_meta \<times> nat list" where
  "rd_meta ns =
    (let (n, r1) = rd_str ns; (v, r2) = rd_word r1; (t, r3) = rd_word r2; (c, r4) = rd_opt rd_str r3
     in (\<lparr>fm_name = n, fm_version = v, fm_timestamp = t, fm_checksum = c\<rparr>, r4))"

lemma rd_meta_fl: "rd_meta (fl_meta m @ r) = (m, r)"
  by (simp add: rd_meta_def fl_meta_def)

definition metas_json :: "config_file_meta list json" where
  "metas_json = nats_json (fl_list fl_meta) (rd_list rd_meta)"

lemma metas_json_ok: "json_ok metas_json"
  unfolding metas_json_def by (rule nats_json_ok) (rule rd_list_fl, rule rd_meta_fl)

definition cfg_v :: "string \<Rightarrow> u32 \<Rightarrow> config_file" where
  "cfg_v n v = \<lparr>cf_name = n, cf_version = v, cf_content = [word_of_nat (unat v)], cf_timestamp = 7, cf_checksum = None\<rparr>"

definition empty_store :: config_store where
  "empty_store = config_store_new metas_json [''r''] fs_empty"

lemma empty_store_ok [simp]: "cs_ok empty_store"
  by (simp add: empty_store_def config_store_new_ok)

lemma empty_store_meta [simp]: "get_meta empty_store n = None"
  by (simp add: empty_store_def config_store_new_def load_versions_def fs_read_to_string_def fs_read_def
      fs_empty_def get_meta_def hm.get_nil)

lemma first_store:
  "\<exists>cs' fs'. store (\<lambda>m. m) metas_json (cfg_v n v) empty_store fs_empty = (Inr (), cs', fs') \<and>
     cs' = indexed (cfg_v n v) empty_store"
  using store_healthy [OF fs_empty_healthy metas_json_ok, of "cfg_v n v" empty_store "\<lambda>m. m"]
  by (auto simp: newer_def version_of_def)

theorem store_get_file_witness:
  "\<exists>cs' fs'. store (\<lambda>m. m) metas_json (cfg_v ''cfg'' 2) empty_store fs_empty = (Inr (), cs', fs') \<and>
     get_file cs' fs' ''cfg'' = Inr (Some (cfg_v ''cfg'' 2)) \<and> get_file cs' fs' ''other'' = Inr None"
proof -
  obtain cs' fs' where s: "store (\<lambda>m. m) metas_json (cfg_v ''cfg'' 2) empty_store fs_empty = (Inr (), cs', fs')"
    using first_store by blast
  from store_get_file [OF empty_store_ok _ _ s, of "''other''"] s show ?thesis
    by (simp add: cfg_v_def plain_name_def fs_empty_def) (simp add: get_file_def)
qed

theorem store_versions_monotone_witness:
  "version_of (fst (fold (store_run (\<lambda>m. m) metas_json) (take 1 [cfg_v ''a'' 3, cfg_v ''a'' 1]) (empty_store, fs_empty))) ''a''
   \<le> version_of (fst (fold (store_run (\<lambda>m. m) metas_json) (take 2 [cfg_v ''a'' 3, cfg_v ''a'' 1]) (empty_store, fs_empty))) ''a''"
  by (rule store_versions_monotone) simp_all

theorem store_accepts_iff_newer_witness:
  "\<exists>cs' fs'. store (\<lambda>m. m) metas_json (cfg_v ''a'' 3) empty_store fs_empty = (Inr (), cs', fs')"
  using store_accepts_iff_newer [OF fs_empty_healthy metas_json_ok, of empty_store "cfg_v ''a'' 3" "\<lambda>m. m"] by simp

theorem store_survives_restart_witness:
  "\<exists>cs' fs'. store (\<lambda>m. m) metas_json (cfg_v ''cfg'' 2) empty_store fs_empty = (Inr (), cs', fs') \<and>
     get_meta (config_store_new metas_json [''r''] fs') ''cfg'' = Some (to_meta (cfg_v ''cfg'' 2))"
proof -
  obtain cs' fs' where s: "store (\<lambda>m. m) metas_json (cfg_v ''cfg'' 2) empty_store fs_empty = (Inr (), cs', fs')"
    and cs': "cs' = indexed (cfg_v ''cfg'' 2) empty_store"
    using first_store by blast
  have "cs_root empty_store = [''r'']"
    by (simp add: empty_store_def config_store_new_def)
  with store_survives_restart [OF iter_order_id(1) metas_json_ok empty_store_ok _ _ s, of "''cfg''"] s show ?thesis
    by (simp add: cfg_v_def plain_name_def fs_empty_def cs' get_meta_indexed)
qed

text \<open>
  The name of a configuration is not confined to the store's directory: storing under the name
  \<open>../versions\<close> reports success, but what \<open>get_file\<close> then returns for that name is the store's own
  index, which the call wrote over the content.
\<close>

theorem store_name_traversal:
  "\<exists>cs' fs'. store (\<lambda>m. m) metas_json (cfg_v ''../versions'' 1) empty_store fs_empty = (Inr (), cs', fs') \<and>
     get_file cs' fs' ''../versions'' =
       Inr (Some ((cfg_v ''../versions'' 1)\<lparr>cf_content := put_nats (fl_list fl_meta (list_meta (\<lambda>m. m) cs'))\<rparr>)) \<and>
     put_nats (fl_list fl_meta (list_meta (\<lambda>m. m) cs')) \<noteq> cf_content (cfg_v ''../versions'' 1)"
proof -
  obtain cs' fs' where s: "store (\<lambda>m. m) metas_json (cfg_v ''../versions'' 1) empty_store fs_empty = (Inr (), cs', fs')"
    and cs': "cs' = indexed (cfg_v ''../versions'' 1) empty_store"
    using first_store by blast
  from s obtain fs0 fs1 js where js: "js_ser metas_json (list_meta (\<lambda>m. m) cs') = Inr js"
    and v: "fs_write (path_join (cs_root empty_store) ''versions.json'') js fs1 = (Inr (), fs')"
    and o: "fs_open_create (config_path empty_store (cf_name (cfg_v ''../versions'' 1)) ''.lock'') fs_empty = (Inr (), fs0)"
    and w: "fs_write (config_path empty_store (cf_name (cfg_v ''../versions'' 1)) ''.json'')
        (cf_content (cfg_v ''../versions'' 1)) fs0 = (Inr (), fs1)"
    by (elim store_success) blast
  have rf: "fs_rfault fs1 = fs_rfault fs_empty"
    using fs_open_create_frame [OF o] fs_write_frame [OF w] by simp
  have r: "cs_root empty_store = [''r'']" "cs_configs_dir empty_store = [''r'', ''configs'']"
    by (simp_all add: empty_store_def config_store_new_def configs_path)
  have "config_path cs' ''../versions'' ''.json'' = path_join (cs_root empty_store) ''versions.json''"
    by (simp add: cs' indexed_def config_path_def r versions_path) (simp add: path_join_def)
  moreover have "js = put_nats (fl_list fl_meta (list_meta (\<lambda>m. m) cs'))"
    using js by (simp add: metas_json_def nats_json_def)
  moreover have "length (list_meta (\<lambda>m. m) cs') = 1"
    by (simp add: cs' indexed_def list_meta_def empty_store_def config_store_new_def load_versions_def
        fs_read_to_string_def fs_read_def fs_empty_def hm_insert_def)
  moreover have "get_meta cs' ''../versions'' = Some (to_meta (cfg_v ''../versions'' 1))"
    by (simp add: cs' get_meta_indexed) (simp add: cfg_v_def)
  ultimately show ?thesis
    using s fs_write_ok [OF v] rf
    by (auto simp: get_file_def fs_read_def fs_empty_def cfg_v_def to_meta_def put_nats_def fl_list_def)
qed

end
