(* ===== verification/Config_Service.thy ===== *)
theory Config_Service
  imports Config_Store
begin

text \<open>
  The peer-to-peer configuration service around the store: the de-duplicating queue
  (\<open>config_store/queue.rs\<close>), the message protocol and service object (\<open>config_store/mod.rs\<close>), the TCP
  server (\<open>config_store/server.rs\<close>) and the client (\<open>config_store/client.rs\<close>). The unbounded channel is
  a list, oldest element first; the consumer task is one function, run whenever the scheduler
  lets it; sockets, time-outs and write errors are arguments.
\<close>

section \<open>The queue\<close>

record store_queue =
  sq_pending :: "(string, config_file) hmap"
  sq_channel :: "config_file list"
  sq_receiver :: bool  (* the receiving half has not been dropped *)

record service =
  sv_store :: config_store
  sv_queue :: store_queue
  sv_fs :: fs
  sv_log :: "string list"

definition queue_new :: store_queue where
  "queue_new = \<lparr>sq_pending = [], sq_channel = [], sq_receiver = True\<rparr>"

definition submit :: "config_file \<Rightarrow> store_queue \<Rightarrow> store_queue" where
  "submit file q =
    (let q = q\<lparr>sq_pending := hm_insert (cf_name file) file (sq_pending q)\<rparr>
     in if sq_receiver q then q\<lparr>sq_channel := sq_channel q @ [file]\<rparr> else q)"

definition pending_len :: "store_queue \<Rightarrow> nat" where
  "pending_len q = length (sq_pending q)"

text \<open>One turn of the consumer's loop; without a message it waits.\<close>

definition consume :: "versions_order \<Rightarrow> config_file_meta list json \<Rightarrow> service \<Rightarrow> service" where
  "consume ord J sv =
    (case sq_channel (sv_queue sv) of
       [] \<Rightarrow> sv
     | task # rest \<Rightarrow>
        (let name = cf_name task;
             q = sv_queue sv;
             actual = hm_get (sq_pending q) name;
             sv1 = sv\<lparr>sv_queue := q\<lparr>sq_pending := hm_remove name (sq_pending q), sq_channel := rest\<rparr>\<rparr>
         in case actual of
              None \<Rightarrow> sv1
            | Some a \<Rightarrow>
               (case store ord J a (sv_store sv1) (sv_fs sv1) of
                  (r, cs', fs') \<Rightarrow>
                    let sv2 = sv1\<lparr>sv_store := cs', sv_fs := fs'\<rparr> in
                    (case r of
                       Inl e \<Rightarrow> sv2\<lparr>sv_log := sv_log sv2 @
                         [''[config_store] '' @ utf8_text [229, 173, 152, 229, 130, 168, 229, 164, 177, 232, 180, 165] @ '' '' @ name @ '': '' @ store_error_fmt e]\<rparr>
                     | Inr _ \<Rightarrow> sv2))))"

section \<open>The service and its messages\<close>

definition DEFAULT_PORT :: u16 where "DEFAULT_PORT = 9877"

definition service_new :: "config_file_meta list json \<Rightarrow> path \<Rightarrow> fs \<Rightarrow> service" where
  "service_new J root fs = \<lparr>sv_store = config_store_new J root fs, sv_queue = queue_new, sv_fs = fs, sv_log = []\<rparr>"

definition store_local :: "config_file \<Rightarrow> service \<Rightarrow> service" where
  "store_local file sv = sv\<lparr>sv_queue := submit file (sv_queue sv)\<rparr>"

datatype message =
  QueryVersion string
| VersionInfo string u32 u64 "string option"
| RequestFile string "u32 option"
| FileResponse string u32 bytes "string option"
| StoreFile string u32 bytes u64 "string option"
| StoreAck string bool "string option"

definition to_line :: "message json \<Rightarrow> message \<Rightarrow> bytes" where
  "to_line JM m = (case js_ser JM m of Inl _ \<Rightarrow> [] | Inr b \<Rightarrow> b) @ [10]"

definition from_line :: "message json \<Rightarrow> bytes \<Rightarrow> string + message" where
  "from_line JM l = js_de JM l"

section \<open>The server\<close>

fun dispatch :: "message \<Rightarrow> service \<Rightarrow> message \<times> service" where
  "dispatch (QueryVersion name) sv =
    (case get_meta (sv_store sv) name of
       Some meta \<Rightarrow> VersionInfo (fm_name meta) (fm_version meta) (fm_timestamp meta) (fm_checksum meta)
     | None \<Rightarrow> VersionInfo name 0 0 None, sv)"
| "dispatch (RequestFile name _) sv =
    (case get_file (sv_store sv) (sv_fs sv) name of
       Inr (Some f) \<Rightarrow> FileResponse (cf_name f) (cf_version f) (cf_content f) (cf_checksum f)
     | _ \<Rightarrow> FileResponse name 0 [] None, sv)"
| "dispatch (StoreFile name version content timestamp checksum) sv =
    (StoreAck name True None,
     store_local \<lparr>cf_name = name, cf_version = version, cf_content = content,
                  cf_timestamp = timestamp, cf_checksum = checksum\<rparr> sv)"
| "dispatch _ sv = (StoreAck [] False (Some (utf8_text [228, 184, 141, 230, 148, 175, 230, 140, 129, 231, 154, 132, 232, 175, 183, 230, 177, 130, 231, 177, 187, 229, 158, 139])), sv)"

text \<open>\<open>read_line\<close>: the bytes up to and including the first line feed, or all that is left at the end.\<close>

definition take_line :: "bytes \<Rightarrow> bytes \<times> bytes" where
  "take_line b =
    (case dropWhile (\<lambda>x. x \<noteq> 10) b of
       [] \<Rightarrow> (b, [])
     | nl # rest \<Rightarrow> (takeWhile (\<lambda>x. x \<noteq> 10) b @ [nl], rest))"

lemma take_line_shorter: "b \<noteq> [] \<Longrightarrow> length (snd (take_line b)) < length b"
proof -
  assume "b \<noteq> []"
  moreover have "length (dropWhile (\<lambda>x. x \<noteq> 10) b) \<le> length b" by (rule length_dropWhile_le)
  ultimately show ?thesis by (auto simp: take_line_def split: list.split)
qed

text \<open>
  The loop of a connection. \<open>sched k\<close> is the number of turns the consumer task gets before the
  \<open>k\<close>-th request is served, and \<open>wr k\<close> the error of writing the \<open>k\<close>-th response, if it fails.
\<close>

function handle_conn ::
  "versions_order \<Rightarrow> config_file_meta list json \<Rightarrow> message json \<Rightarrow> (nat \<Rightarrow> nat) \<Rightarrow> (nat \<Rightarrow> string option) \<Rightarrow>
   nat \<Rightarrow> bytes \<Rightarrow> service \<Rightarrow> (string + unit) \<times> bytes \<times> service" where
  "handle_conn ord J JM sched wr k input sv =
    (if input = [] then (Inr (), [], sv)
     else
       (let line = fst (take_line input);
            sv0 = (consume ord J ^^ sched k) sv
        in case from_utf8 line of
             None \<Rightarrow> (Inl ''stream did not contain valid UTF-8'', [], sv0)
           | Some s \<Rightarrow>
              (let (resp, sv1) =
                 (case from_line JM (as_bytes s) of
                    Inl e \<Rightarrow> (StoreAck [] False (Some (utf8_text [229, 141, 143, 232, 174, 174, 232, 167, 163, 230, 158, 144, 229, 164, 177, 232, 180, 165] @ '': '' @ e)), sv0)
                  | Inr msg \<Rightarrow> dispatch msg sv0)
               in case wr k of
                    Some e \<Rightarrow> (Inl e, [], sv1)
                  | None \<Rightarrow>
                     (let (r, out, sv2) = handle_conn ord J JM sched wr (Suc k) (snd (take_line input)) sv1
                      in (r, to_line JM resp @ out, sv2)))))"
  by pat_completeness auto
termination
  by (relation "measure (\<lambda>(ord, J, JM, sched, wr, k, input, sv). length input)")
    (use take_line_shorter in auto)

declare handle_conn.simps [simp del]

section \<open>The client\<close>

datatype connect_result = ConnectTimeout | ConnectFailed string | Connected

text \<open>
  A connection as the client sees it: the outcome of connecting to an address, of sending bytes,
  and the bytes that come back until the first line feed or the end of the stream.
\<close>

record transport =
  tr_connect :: "string \<Rightarrow> connect_result"
  tr_send :: "bytes \<Rightarrow> string option"
  tr_recv :: "bytes \<Rightarrow> string + bytes"

datatype client_error =
  ConnTimedOut string | ConnFailed string string | Transport string | RemoteClosed
| BadResponse string | UnexpectedResponse message | Rejected string

definition remote_store_new :: "string \<Rightarrow> u16 \<Rightarrow> string" where
  "remote_store_new ip port = ip @ '':'' @ dec (unat port)"

definition roundtrip :: "message json \<Rightarrow> transport \<Rightarrow> string \<Rightarrow> message \<Rightarrow> client_error + message" where
  "roundtrip JM T addr msg =
    (case tr_connect T addr of
       ConnectTimeout \<Rightarrow> Inl (ConnTimedOut addr)
     | ConnectFailed e \<Rightarrow> Inl (ConnFailed addr e)
     | Connected \<Rightarrow>
        (case tr_send T (to_line JM msg) of
           Some e \<Rightarrow> Inl (Transport e)
         | None \<Rightarrow>
            (case tr_recv T (to_line JM msg) of
               Inl e \<Rightarrow> Inl (Transport e)
             | Inr b \<Rightarrow>
                (case from_utf8 b of
                   None \<Rightarrow> Inl (Transport ''stream did not contain valid UTF-8'')
                 | Some line \<Rightarrow>
                    if line = [] then Inl RemoteClosed
                    else (case from_line JM (as_bytes line) of Inl e \<Rightarrow> Inl (BadResponse e) | Inr m \<Rightarrow> Inr m)))))"

definition query_version ::
  "message json \<Rightarrow> transport \<Rightarrow> string \<Rightarrow> string \<Rightarrow> client_error + config_file_meta option" where
  "query_version JM T addr name =
    res_bind (roundtrip JM T addr (QueryVersion name)) (\<lambda>m.
      case m of
        VersionInfo _ version timestamp checksum \<Rightarrow>
          if version = 0 \<and> timestamp = 0 then Inr None
          else Inr (Some \<lparr>fm_name = name, fm_version = version, fm_timestamp = timestamp, fm_checksum = checksum\<rparr>)
      | other \<Rightarrow> Inl (UnexpectedResponse other))"

definition request_file :: "message json \<Rightarrow> transport \<Rightarrow> string \<Rightarrow> string \<Rightarrow> client_error + config_file option" where
  "request_file JM T addr name =
    res_bind (roundtrip JM T addr (RequestFile name None)) (\<lambda>m.
      case m of
        FileResponse _ version content checksum \<Rightarrow>
          if version = 0 \<and> content = [] then Inr None
          else Inr (Some \<lparr>cf_name = name, cf_version = version, cf_content = content,
                          cf_timestamp = 0, cf_checksum = checksum\<rparr>)
      | other \<Rightarrow> Inl (UnexpectedResponse other))"

definition store_file :: "message json \<Rightarrow> transport \<Rightarrow> string \<Rightarrow> config_file \<Rightarrow> client_error + bool" where
  "store_file JM T addr f =
    res_bind (roundtrip JM T addr
        (StoreFile (cf_name f) (cf_version f) (cf_content f) (cf_timestamp f) (cf_checksum f))) (\<lambda>m.
      case m of
        StoreAck _ success error \<Rightarrow>
          if success then Inr True
          else Inl (Rejected (case error of Some e \<Rightarrow> e | None \<Rightarrow> utf8_text [229, 173, 152, 229, 130, 168, 229, 164, 177, 232, 180, 165]))
      | other \<Rightarrow> Inl (UnexpectedResponse other))"

section \<open>Interleavings of producers and the consumer\<close>

inductive svc_step :: "versions_order \<Rightarrow> config_file_meta list json \<Rightarrow> service \<Rightarrow> service \<Rightarrow> bool" for ord J where
  Submit: "svc_step ord J sv (store_local f sv)"
| Consume: "sq_channel (sv_queue sv) \<noteq> [] \<Longrightarrow> svc_step ord J sv (consume ord J sv)"

inductive svc_reach :: "versions_order \<Rightarrow> config_file_meta list json \<Rightarrow> service \<Rightarrow> service \<Rightarrow> bool" for ord J where
  Refl: "svc_reach ord J sv sv"
| Step: "svc_reach ord J sv sv' \<Longrightarrow> svc_step ord J sv' sv'' \<Longrightarrow> svc_reach ord J sv sv''"

inductive_cases svc_stepE: "svc_step ord J sv sv'"

definition queue_ok :: "store_queue \<Rightarrow> bool" where
  "queue_ok q \<longleftrightarrow> hm_ok (sq_pending q) \<and> sq_receiver q \<and>
     (\<forall>k f. hm_get (sq_pending q) k = Some f \<longrightarrow> cf_name f = k \<and> k \<in> cf_name ` set (sq_channel q))"

definition svc_ok :: "service \<Rightarrow> bool" where
  "svc_ok sv \<longleftrightarrow> cs_ok (sv_store sv) \<and> queue_ok (sv_queue sv)"

lemma service_new_ok: "svc_ok (service_new J root fs)"
  by (simp add: svc_ok_def service_new_def config_store_new_ok queue_ok_def queue_new_def hm.ok_nil hm.get_nil)

lemma submit_ok: "queue_ok q \<Longrightarrow> queue_ok (submit f q)"
  by (auto simp: queue_ok_def submit_def Let_def hm.ok_put hm.get_put)

lemma consume_queue:
  assumes "sq_channel (sv_queue sv) = task # rest"
  shows "sv_queue (consume ord J sv) =
    (sv_queue sv)\<lparr>sq_pending := hm_remove (cf_name task) (sq_pending (sv_queue sv)), sq_channel := rest\<rparr>"
  using assms by (simp add: consume_def Let_def split: option.split prod.split sum.split)

lemma consume_store:
  assumes "sq_channel (sv_queue sv) = task # rest"
  shows "(sv_store (consume ord J sv), sv_fs (consume ord J sv)) =
    (case hm_get (sq_pending (sv_queue sv)) (cf_name task) of
       None \<Rightarrow> (sv_store sv, sv_fs sv)
     | Some a \<Rightarrow> store_run ord J a (sv_store sv, sv_fs sv))"
  using assms by (simp add: consume_def store_run_def Let_def split: option.split prod.split sum.split)

lemma consume_ok: "svc_ok sv \<Longrightarrow> svc_ok (consume ord J sv)"
proof (cases "sq_channel (sv_queue sv)")
  case Nil
  then show "svc_ok sv \<Longrightarrow> ?thesis" by (simp add: consume_def)
next
  case (Cons task rest)
  assume ok: "svc_ok sv"
  have "queue_ok (sv_queue (consume ord J sv))"
    using ok Cons unfolding consume_queue [OF Cons]
    by (fastforce simp: svc_ok_def queue_ok_def hm.ok_del hm.get_del split: if_splits)
  moreover have "cs_ok (sv_store (consume ord J sv))"
    using ok consume_store [OF Cons, of ord J] st.apply_ok [of "(sv_store sv, sv_fs sv)" ord J]
    by (auto simp: svc_ok_def split: option.splits) (metis fst_conv)
  ultimately show ?thesis by (simp add: svc_ok_def)
qed

lemma consume_turns_ok: "svc_ok sv \<Longrightarrow> svc_ok ((consume ord J ^^ n) sv)"
  by (induction n) (simp_all add: consume_ok)

lemma consume_version: "svc_ok sv \<Longrightarrow> version_of (sv_store sv) n \<le> version_of (sv_store (consume ord J sv)) n"
proof (cases "sq_channel (sv_queue sv)")
  case (Cons task rest)
  assume "svc_ok sv"
  then show ?thesis
    using consume_store [OF Cons, of ord J] st.apply_mono [of "(sv_store sv, sv_fs sv)" n ord J]
    by (auto simp: svc_ok_def split: option.splits) (metis fst_conv)
qed (simp add: consume_def)

lemma svc_step_ok: "svc_step ord J sv sv' \<Longrightarrow> svc_ok sv \<Longrightarrow> svc_ok sv'"
  by (erule svc_stepE) (simp add: svc_ok_def store_local_def submit_ok, simp add: consume_ok)

lemma svc_reach_ok: "svc_reach ord J sv sv' \<Longrightarrow> svc_ok sv \<Longrightarrow> svc_ok sv'"
  by (induction rule: svc_reach.induct) (auto dest: svc_step_ok)

lemma svc_step_version:
  "svc_step ord J sv sv' \<Longrightarrow> svc_ok sv \<Longrightarrow> version_of (sv_store sv) n \<le> version_of (sv_store sv') n"
  by (erule svc_stepE) (auto simp: consume_version store_local_def)

text \<open>The tasks that the consumer will hand to \<open>store\<close> when it works off the channel.\<close>

fun work :: "config_file list \<Rightarrow> (string, config_file) hmap \<Rightarrow> config_file list" where
  "work [] p = []"
| "work (t # ts) p =
    (case hm_get p (cf_name t) of
       None \<Rightarrow> work ts p
     | Some a \<Rightarrow> a # work ts (hm_remove (cf_name t) p))"

definition named :: "(string, config_file) hmap \<Rightarrow> bool" where
  "named p \<longleftrightarrow> hm_ok p \<and> (\<forall>k f. hm_get p k = Some f \<longrightarrow> cf_name f = k)"

lemma named_remove: "named p \<Longrightarrow> named (hm_remove k p)"
  by (auto simp: named_def hm.ok_del hm.get_del)

lemma work_set:
  "named p \<Longrightarrow> set (work ts p) = {f. \<exists>t \<in> set ts. hm_get p (cf_name t) = Some f} \<and> distinct (map cf_name (work ts p))"
proof (induction ts arbitrary: p)
  case (Cons t ts)
  show ?case
  proof (cases "hm_get p (cf_name t)")
    case None
    with Cons show ?thesis by auto
  next
    case (Some a)
    let ?p = "hm_remove (cf_name t) p"
    have g: "hm_get ?p k = (if k = cf_name t then None else hm_get p k)" for k
      using Cons.prems by (simp add: named_def hm.get_del)
    have IH: "set (work ts ?p) = {f. \<exists>t \<in> set ts. hm_get ?p (cf_name t) = Some f}" "distinct (map cf_name (work ts ?p))"
      using Cons.IH [OF named_remove [OF Cons.prems]] by auto
    have "cf_name a = cf_name t" and "\<forall>f \<in> set (work ts ?p). cf_name f \<noteq> cf_name t"
      using Cons.prems Some IH(1) g by (auto simp: named_def split: if_splits)
    moreover have "set (work (t # ts) p) = {f. \<exists>t' \<in> set (t # ts). hm_get p (cf_name t') = Some f}"
    proof (intro equalityI subsetI)
      fix f
      assume "f \<in> {f. \<exists>t' \<in> set (t # ts). hm_get p (cf_name t') = Some f}"
      then obtain t' where t': "t' \<in> set (t # ts)" "hm_get p (cf_name t') = Some f" by blast
      then show "f \<in> set (work (t # ts) p)"
        using Some IH(1) g by (cases "cf_name t' = cf_name t") auto
    next
      fix f
      assume "f \<in> set (work (t # ts) p)"
      then have "f = a \<or> (\<exists>t' \<in> set ts. hm_get ?p (cf_name t') = Some f)"
        using Some IH(1) by auto
      then show "f \<in> {f. \<exists>t' \<in> set (t # ts). hm_get p (cf_name t') = Some f}"
        using Some by (auto simp: g split: if_splits)
    qed
    ultimately show ?thesis
      using Some IH(2) by auto
  qed
qed simp

lemma drain_work:
  "sq_channel (sv_queue sv) = ts \<Longrightarrow> sq_pending (sv_queue sv) = p \<Longrightarrow>
   (let sv' = (consume ord J ^^ length ts) sv in
     sq_channel (sv_queue sv') = [] \<and>
     (sv_store sv', sv_fs sv') = fold (store_run ord J) (work ts p) (sv_store sv, sv_fs sv))"
proof (induction ts arbitrary: sv p)
  case (Cons t ts)
  let ?sv = "consume ord J sv"
  have "sq_channel (sv_queue ?sv) = ts" "sq_pending (sv_queue ?sv) = hm_remove (cf_name t) p"
    using Cons.prems consume_queue [of sv t ts ord J] by simp_all
  note IH = Cons.IH [OF this]
  have "hm_get p (cf_name t) = None \<Longrightarrow> hm_remove (cf_name t) p = p"
    by (simp add: hm_get_def hm_remove_def delete_id map_of_eq_None_iff)
  with IH consume_store [of sv t ts ord J] Cons.prems show ?case
    by (auto simp: Let_def funpow_swap1 split: option.splits)
qed simp

section \<open>The line protocol\<close>

lemma to_line_ser:
  assumes "json_ok JM"
  obtains b where "to_line JM m = b @ [10]" "10 \<notin> set b" "from_utf8 (b @ [10]) = Some (of_bytes (b @ [10]))"
    "from_line JM (b @ [10]) = Inr m"
proof -
  from assms obtain b where b: "js_ser JM m = Inr b" "10 \<notin> set b" "is_utf8 (of_bytes b)" "js_de JM (b @ [10]) = Inr m"
    by (rule json_okE)
  have "is_utf8 (of_bytes b @ of_bytes [10])"
    using is_utf8_append [OF b(3), of "of_bytes [10]"] by (simp add: is_utf8_def of_bytes_def char_of_byte_def of_char_of)
  then have "is_utf8 (of_bytes (b @ [10]))"
    by (simp add: of_bytes_def)
  then have "from_utf8 (b @ [10]) = Some (of_bytes (b @ [10]))"
    by (metis from_utf8_as_bytes as_bytes_of_bytes)
  with b show thesis
    by (intro that) (simp_all add: to_line_def from_line_def)
qed

lemma take_line_append: "10 \<notin> set b \<Longrightarrow> take_line (b @ 10 # rest) = (b @ [10], rest)"
  by (induction b) (auto simp: take_line_def split: list.splits)

lemma take_line_to_line: "json_ok JM \<Longrightarrow> take_line (to_line JM m @ rest) = (to_line JM m, rest)"
  by (rule to_line_ser [of JM m]) (simp_all add: take_line_append)

lemma from_to_line: "json_ok JM \<Longrightarrow> from_line JM (to_line JM m) = Inr m"
  by (rule to_line_ser [of JM m]) simp_all

lemma to_line_utf8: "json_ok JM \<Longrightarrow> from_utf8 (to_line JM m) = Some (of_bytes (to_line JM m))"
  by (rule to_line_ser [of JM m]) simp_all

lemma handle_conn_request:
  assumes "json_ok JM" and "wr k = None"
  shows "handle_conn ord J JM sched wr k (to_line JM m @ rest) sv =
    (let (resp, sv1) = dispatch m ((consume ord J ^^ sched k) sv);
         (r, out, sv2) = handle_conn ord J JM sched wr (Suc k) rest sv1
     in (r, to_line JM resp @ out, sv2))"
proof -
  have "to_line JM m \<noteq> []" by (simp add: to_line_def)
  then show ?thesis
    by (subst handle_conn.simps)
      (simp add: take_line_to_line [OF assms(1)] to_line_utf8 [OF assms(1)] from_to_line [OF assms(1)] assms(2))
qed

text \<open>
  What a connection promises: requests are served in order, each on the state that the earlier
  requests and the consumer's turns have produced.
\<close>

fun serve_msgs ::
  "versions_order \<Rightarrow> config_file_meta list json \<Rightarrow> (nat \<Rightarrow> nat) \<Rightarrow> nat \<Rightarrow> message list \<Rightarrow> service \<Rightarrow> message list \<times> service" where
  "serve_msgs ord J sched k [] sv = ([], sv)"
| "serve_msgs ord J sched k (m # ms) sv =
    (let (resp, sv1) = dispatch m ((consume ord J ^^ sched k) sv);
         (resps, sv2) = serve_msgs ord J sched (Suc k) ms sv1
     in (resp # resps, sv2))"

lemma handle_conn_refines:
  assumes "json_ok JM"
  shows "handle_conn ord J JM sched (\<lambda>_. None) k (concat (map (to_line JM) ms)) sv =
    (Inr (), concat (map (to_line JM) (fst (serve_msgs ord J sched k ms sv))), snd (serve_msgs ord J sched k ms sv))"
proof (induction ms arbitrary: k sv)
  case Nil
  then show ?case by (simp add: handle_conn.simps)
next
  case (Cons m ms)
  then show ?case
    by (simp add: handle_conn_request [OF assms] case_prod_unfold Let_def)
qed

text \<open>A client connected to this server; the reply is the first line the server writes.\<close>

definition to_server ::
  "versions_order \<Rightarrow> config_file_meta list json \<Rightarrow> message json \<Rightarrow> service \<Rightarrow> transport" where
  "to_server ord J JM sv =
    \<lparr>tr_connect = \<lambda>_. Connected, tr_send = \<lambda>_. None,
     tr_recv = \<lambda>b. Inr (fst (take_line (fst (snd (handle_conn ord J JM (\<lambda>_. 0) (\<lambda>_. None) 0 b sv)))))\<rparr>"

lemma roundtrip_to_server:
  assumes "json_ok JM"
  shows "roundtrip JM (to_server ord J JM sv) addr m = Inr (fst (dispatch m sv))"
proof -
  have "handle_conn ord J JM (\<lambda>_. 0) (\<lambda>_. None) 0 (to_line JM m) sv = (Inr (), to_line JM (fst (dispatch m sv)), snd (dispatch m sv))"
    using handle_conn_refines [OF assms, of ord J "\<lambda>_. 0" 0 "[m]" sv] by (simp add: case_prod_unfold Let_def)
  moreover have "of_bytes (to_line JM (fst (dispatch m sv))) \<noteq> []"
    by (simp add: to_line_def of_bytes_def)
  ultimately show ?thesis
    using take_line_to_line [OF assms, of "fst (dispatch m sv)" "[]"]
    by (simp add: roundtrip_def to_server_def to_line_utf8 [OF assms] from_to_line [OF assms])
qed

section \<open>Properties\<close>


text \<open>
  However remote pushes, local submissions and the consumer interleave, no name's version ever
  goes back.
\<close>

theorem service_versions_monotone:
  assumes "svc_reach ord J sv sv'" and "svc_ok sv"
  shows "svc_ok sv' \<and> version_of (sv_store sv) n \<le> version_of (sv_store sv') n"
  using assms
proof (induction rule: svc_reach.induct)
  case (Step sv sv' sv'')
  then show ?case
    using svc_step_ok svc_step_version le_trans by blast
qed simp

text \<open>
  C22: The line protocol implements the request/response contract: a connection that sends the
  lines of any list of messages gets back, in order, the lines of the answers that serving the
  messages one after another gives, and leaves the service in the state that this produces.
\<close>

theorem server_line_protocol:
  assumes "json_ok JM"
  shows "handle_conn ord J JM sched (\<lambda>_. None) 0 (concat (map (to_line JM) ms)) sv =
    (Inr (), concat (map (to_line JM) (fst (serve_msgs ord J sched 0 ms sv))), snd (serve_msgs ord J sched 0 ms sv))"
  using assms by (rule handle_conn_refines)

text \<open>
  Push, then pull. A client that pushes a newer file to an idle server on a working file
  system is told that it succeeded; after one turn of the consumer, querying gives the pushed
  metadata and downloading gives the pushed file with its time stamp replaced by 0.
\<close>

theorem remote_push_pull:
  fixes ord :: versions_order
  assumes "json_ok JM" and "json_ok J" and "svc_ok sv" and "sv_queue sv = queue_new" and "fs_healthy (sv_fs sv)"
    and "newer f (sv_store sv)" and "plain_name (cf_name f)" and "cf_version f \<noteq> 0"
  defines "sv1 \<equiv> snd (dispatch (StoreFile (cf_name f) (cf_version f) (cf_content f) (cf_timestamp f) (cf_checksum f)) sv)"
  defines "sv2 \<equiv> consume ord J sv1"
  shows "store_file JM (to_server ord J JM sv) addr f = Inr True \<and>
    query_version JM (to_server ord J JM sv2) addr (cf_name f) = Inr (Some (to_meta f)) \<and>
    request_file JM (to_server ord J JM sv2) addr (cf_name f) = Inr (Some (f\<lparr>cf_timestamp := 0\<rparr>))"
proof -
  have sv1: "sv1 = store_local f sv" by (cases f) (simp add: sv1_def)
  obtain fs' where s: "store ord J f (sv_store sv) (sv_fs sv) = (Inr (), indexed f (sv_store sv), fs')"
    using store_healthy [OF assms(5,2), of f "sv_store sv" ord] assms(6) by auto
  have c: "sq_channel (sv_queue sv1) = [f]" "hm_get (sq_pending (sv_queue sv1)) (cf_name f) = Some f"
    by (simp_all add: sv1 store_local_def submit_def assms(4) queue_new_def hm.get_put hm.ok_nil)
  have sv2: "sv_store sv2 = indexed f (sv_store sv)" "sv_fs sv2 = fs'"
    using consume_store [OF c(1), of ord J] c(2) by (simp_all add: sv2_def sv1 store_local_def store_run_def s)
  have cs: "cs_ok (sv_store sv)" using assms(3) by (simp add: svc_ok_def)
  obtain js where "fs_data fs' (config_path (sv_store sv) (cf_name f) ''.json'') = Some (cf_content f)"
    "fs_rfault fs' = fs_rfault (sv_fs sv)"
    using store_success_data [OF s cs assms(7)] by metis
  then have g: "get_file (sv_store sv2) (sv_fs sv2) (cf_name f) = Inr (Some f)"
    using assms(5) by (simp add: get_file_def sv2 get_meta_indexed [OF cs] fs_read_def fs_healthy_def to_meta_def)
  show ?thesis
    using assms(8) g
    by (simp add: store_file_def query_version_def request_file_def roundtrip_to_server [OF assms(1)])
      (simp add: sv2 get_meta_indexed [OF cs] to_meta_def)
qed

text \<open>
  The queue keeps the file submitted last, not the file with the highest version: version 2
  submitted and then version 1 of the same name, before the consumer runs, leave version 1 stored
  and version 2 is never written.
\<close>

theorem queue_keeps_last_submitted:
  "version_of (sv_store ((consume (\<lambda>m. m) metas_json ^^ 2)
     (store_local (cfg_v ''a'' 1) (store_local (cfg_v ''a'' 2) (service_new metas_json [''r''] fs_empty))))) ''a'' = Suc 1"
proof -
  let ?sv = "store_local (cfg_v ''a'' 1) (store_local (cfg_v ''a'' 2) (service_new metas_json [''r''] fs_empty))"
  have c: "sq_channel (sv_queue ?sv) = [cfg_v ''a'' 2, cfg_v ''a'' 1]"
    "sq_pending (sv_queue ?sv) = [(''a'', cfg_v ''a'' 1)]" "sv_store ?sv = empty_store" "sv_fs ?sv = fs_empty"
    by (simp_all add: store_local_def submit_def service_new_def queue_new_def hm_insert_def cfg_v_def empty_store_def)
  obtain fs' where s: "store_run (\<lambda>m. m) metas_json (cfg_v ''a'' 1) (empty_store, fs_empty) = (indexed (cfg_v ''a'' 1) empty_store, fs')"
    using first_store [of "''a''" 1] by (auto simp: store_run_def)
  have "work [cfg_v ''a'' 2, cfg_v ''a'' 1] [(''a'', cfg_v ''a'' 1)] = [cfg_v ''a'' 1]"
    by (simp add: hm_get_def hm_remove_def cfg_v_def)
  then have "fst (sv_store ((consume (\<lambda>m. m) metas_json ^^ 2) ?sv), sv_fs ((consume (\<lambda>m. m) metas_json ^^ 2) ?sv))
      = indexed (cfg_v ''a'' 1) empty_store"
    using drain_work [OF c(1,2), of "\<lambda>m. m" metas_json] by (simp add: c(3,4) s Let_def numeral_2_eq_2)
  then show ?thesis
    by (simp add: version_of_indexed) (simp add: cfg_v_def)
qed

section \<open>Concrete inputs\<close>

fun fl_message :: "message \<Rightarrow> nat list" where
  "fl_message (QueryVersion n) = 0 # fl_str n"
| "fl_message (VersionInfo n v t c) = 1 # fl_str n @ fl_word v @ fl_word t @ fl_opt fl_str c"
| "fl_message (RequestFile n v) = 2 # fl_str n @ fl_opt fl_word v"
| "fl_message (FileResponse n v b c) = 3 # fl_str n @ fl_word v @ fl_bytes b @ fl_opt fl_str c"
| "fl_message (StoreFile n v b t c) = 4 # fl_str n @ fl_word v @ fl_bytes b @ fl_word t @ fl_opt fl_str c"
| "fl_message (StoreAck n s e) = 5 # fl_str n @ fl_bool s @ fl_opt fl_str e"

definition rd_message :: "nat list \<Rightarrow> message \<times> nat list" where
  "rd_message ns =
    (let tag = hd ns; (n, r) = rd_str (tl ns) in
     if tag = 0 then (QueryVersion n, r)
     else if tag = 1 then
       (let (v, r) = rd_word r; (t, r) = rd_word r; (c, r) = rd_opt rd_str r in (VersionInfo n v t c, r))
     else if tag = 2 then (let (v, r) = rd_opt rd_word r in (RequestFile n v, r))
     else if tag = 3 then
       (let (v, r) = rd_word r; (b, r) = rd_bytes r; (c, r) = rd_opt rd_str r in (FileResponse n v b c, r))
     else if tag = 4 then
       (let (v, r) = rd_word r; (b, r) = rd_bytes r; (t, r) = rd_word r; (c, r) = rd_opt rd_str r
        in (StoreFile n v b t c, r))
     else (let (s, r) = rd_bool r; (e, r) = rd_opt rd_str r in (StoreAck n s e, r)))"

definition message_json :: "message json" where
  "message_json = nats_json fl_message rd_message"

lemma rd_message_fl: "rd_message (fl_message m @ r) = (m, r)"
  by (cases m) (simp_all add: rd_message_def)

lemma message_json_ok: "json_ok message_json"
  unfolding message_json_def by (rule nats_json_ok) (rule rd_message_fl)

abbreviation idle_service :: service where
  "idle_service \<equiv> service_new metas_json [''r''] fs_empty"


theorem service_versions_monotone_witness:
  "version_of (sv_store idle_service) ''a'' \<le> version_of (sv_store (store_local (cfg_v ''a'' 1) idle_service)) ''a''"
  using service_versions_monotone [OF svc_reach.Step [OF svc_reach.Refl svc_step.Submit] service_new_ok] by blast

theorem server_line_protocol_witness:
  "fst (snd (handle_conn (\<lambda>m. m) metas_json message_json (\<lambda>_. 0) (\<lambda>_. None) 0
     (concat (map (to_line message_json) [QueryVersion ''a''])) idle_service)) = to_line message_json (VersionInfo ''a'' 0 0 None)"
  unfolding server_line_protocol [OF message_json_ok]
  using empty_store_meta [of "''a''"] by (simp add: service_new_def empty_store_def)

theorem remote_push_pull_witness:
  "store_file message_json (to_server (\<lambda>m. m) metas_json message_json idle_service) ''10.0.0.2:9877'' (cfg_v ''a'' 1) = Inr True"
proof -
  have "newer (cfg_v ''a'' 1) (sv_store idle_service)"
    using empty_store_meta [of "''a''"] by (simp add: newer_def version_of_def service_new_def empty_store_def cfg_v_def)
  moreover have "sv_queue idle_service = queue_new" "fs_healthy (sv_fs idle_service)"
    "plain_name (cf_name (cfg_v ''a'' 1))" "cf_version (cfg_v ''a'' 1) \<noteq> 0"
    by (simp_all add: service_new_def plain_name_def cfg_v_def)
  ultimately show ?thesis
    using remote_push_pull [OF message_json_ok metas_json_ok service_new_ok] by blast
qed

end
