(* ===== verification/Log_Backend.thy ===== *)
theory Log_Backend
  imports Fs Json
begin

text \<open>
  The log back ends, \<open>src-tauri/src/log/backend.rs\<close>: the record and its classification, the query
  filter, the in-memory ring buffer and the rolling file. \<open>str::to_lowercase\<close> (Unicode case mapping)
  and the clock's text are arguments. Standard output and \<open>logger\<close> processes are the list of lines
  and commands issued.
\<close>

section \<open>Records\<close>

datatype log_level = Debug | Info | Warning | Error

definition level_fmt :: "log_level \<Rightarrow> string" where
  "level_fmt l = (case l of Debug \<Rightarrow> ''debug'' | Info \<Rightarrow> ''info'' | Warning \<Rightarrow> ''warning'' | Error \<Rightarrow> ''error'')"

datatype log_category = System | Network | WebRTC | Data | Proxy | Daemon | Space | Server

definition category_fmt :: "log_category \<Rightarrow> string" where
  "category_fmt c =
    (case c of System \<Rightarrow> ''system'' | Network \<Rightarrow> ''network'' | WebRTC \<Rightarrow> ''webrtc'' | Data \<Rightarrow> ''data''
     | Proxy \<Rightarrow> ''proxy'' | Daemon \<Rightarrow> ''daemon'' | Space \<Rightarrow> ''space'' | Server \<Rightarrow> ''server'')"

record log_record =
  lr_seq :: u64
  lr_timestamp :: string
  lr_level :: log_level
  lr_target :: string
  lr_module :: string
  lr_category :: log_category
  lr_message :: string
  lr_space_id :: "string option"
  lr_trace_id :: "string option"

definition extract_module :: "string \<Rightarrow> string" where
  "extract_module target =
    (let parts = split_str ''::'' target in
     case List.find (\<lambda>part. part \<noteq> [] \<and> part \<noteq> ''crate'') (rev parts) of
       Some part \<Rightarrow> part
     | None \<Rightarrow> (if parts = [] then ''unknown'' else last parts))"

definition categorize_module :: "string \<Rightarrow> log_category" where
  "categorize_module m =
    (if starts_with m ''easytier'' \<or> contains_str m ''network'' \<or> contains_str m ''space'' then Network
     else if contains_str m ''voice'' \<or> contains_str m ''screen'' \<or> contains_str m ''webrtc'' then WebRTC
     else if contains_str m ''chat'' \<or> contains_str m ''file'' \<or> contains_str m ''data'' then Data
     else if contains_str m ''proxy'' then Proxy
     else if contains_str m ''daemon'' then Daemon
     else if contains_str m ''space'' then Space
     else if contains_str m ''server'' \<or> contains_str m ''http'' \<or> contains_str m ''ws'' then Server
     else System)"

definition log_record_new ::
  "string \<Rightarrow> log_level \<Rightarrow> string \<Rightarrow> string \<Rightarrow> string option \<Rightarrow> string option \<Rightarrow> log_record" where
  "log_record_new now level target message space_id trace_id =
    (let md = extract_module target; category = categorize_module md
     in \<lparr>lr_seq = 0, lr_timestamp = now, lr_level = level, lr_target = target, lr_module = md,
         lr_category = category, lr_message = message, lr_space_id = space_id, lr_trace_id = trace_id\<rparr>)"

section \<open>Filters\<close>

record log_filter =
  lf_level :: "log_level option"
  lf_space_id :: "string option"
  lf_module :: "string option"
  lf_category :: "log_category option"
  lf_keyword :: "string option"
  lf_since_seq :: "u64 option"
  lf_before_ts :: "string option"
  lf_after_ts :: "string option"
  lf_limit :: "nat option"

definition log_filter_default :: log_filter where
  "log_filter_default =
    \<lparr>lf_level = None, lf_space_id = None, lf_module = None, lf_category = None, lf_keyword = None,
     lf_since_seq = None, lf_before_ts = None, lf_after_ts = None, lf_limit = None\<rparr>"

text \<open>The order of \<open>str\<close>: lexicographic on bytes.\<close>

fun str_less :: "string \<Rightarrow> string \<Rightarrow> bool" where
  "str_less _ [] = False"
| "str_less [] (_ # _) = True"
| "str_less (a # as) (b # bs) = ((of_char a :: nat) < of_char b \<or> a = b \<and> str_less as bs)"

definition filter_matches :: "(string \<Rightarrow> string) \<Rightarrow> log_filter \<Rightarrow> log_record \<Rightarrow> bool" where
  "filter_matches lower f r =
    (if (case lf_level f of Some lv \<Rightarrow> lr_level r \<noteq> lv | None \<Rightarrow> False) then False
     else if (case lf_space_id f of Some sid \<Rightarrow> lr_space_id r \<noteq> Some sid | None \<Rightarrow> False) then False
     else if (case lf_module f of Some m \<Rightarrow> \<not> contains_str (lr_module r) m | None \<Rightarrow> False) then False
     else if (case lf_category f of Some cat \<Rightarrow> lr_category r \<noteq> cat | None \<Rightarrow> False) then False
     else if (case lf_keyword f of
                Some kw \<Rightarrow> (let kw_lower = lower kw in
                  \<not> contains_str (lower (lr_message r)) kw_lower \<and> \<not> contains_str (lower (lr_target r)) kw_lower)
              | None \<Rightarrow> False) then False
     else if (case lf_since_seq f of Some seq \<Rightarrow> lr_seq r \<le> seq | None \<Rightarrow> False) then False
     else if (case lf_before_ts f of Some ts \<Rightarrow> str_less ts (lr_timestamp r) | None \<Rightarrow> False) then False
     else if (case lf_after_ts f of Some ts \<Rightarrow> str_less (lr_timestamp r) ts | None \<Rightarrow> False) then False
     else True)"

section \<open>The memory back end\<close>

record mem_backend =
  mb_store :: "log_record list"
  mb_max :: nat
  mb_seq :: u64

definition mem_new :: "nat \<Rightarrow> mem_backend" where
  "mem_new max_entries = \<lparr>mb_store = [], mb_max = max_entries, mb_seq = 1\<rparr>"

text \<open>\<open>while logs.len() > max { pop_front }\<close>\<close>

fun pop_excess :: "nat \<Rightarrow> 'a list \<Rightarrow> 'a list" where
  "pop_excess mx [] = []"
| "pop_excess mx (x # xs) = (if length (x # xs) > mx then pop_excess mx xs else x # xs)"

definition mem_write :: "log_record \<Rightarrow> mem_backend \<Rightarrow> mem_backend" where
  "mem_write r b =
    (let entry = r\<lparr>lr_seq := mb_seq b\<rparr>
     in b\<lparr>mb_seq := mb_seq b + 1, mb_store := pop_excess (mb_max b) (mb_store b @ [entry])\<rparr>)"

definition mem_get_all :: "log_level option \<Rightarrow> mem_backend \<Rightarrow> log_record list" where
  "mem_get_all lf b =
    (case lf of Some lv \<Rightarrow> filter (\<lambda>e. lr_level e = lv) (mb_store b) | None \<Rightarrow> mb_store b)"

definition mem_get_by_space :: "string \<Rightarrow> log_level option \<Rightarrow> mem_backend \<Rightarrow> log_record list" where
  "mem_get_by_space space_id lf b =
    filter (\<lambda>e. case lf of Some lv \<Rightarrow> lr_level e = lv | None \<Rightarrow> True)
      (filter (\<lambda>e. lr_space_id e = Some space_id) (mb_store b))"

definition mem_query :: "(string \<Rightarrow> string) \<Rightarrow> log_filter \<Rightarrow> mem_backend \<Rightarrow> log_record list" where
  "mem_query lower f b =
    (let result = filter (filter_matches lower f) (mb_store b)
     in case lf_limit f of Some limit \<Rightarrow> take limit result | None \<Rightarrow> result)"

text \<open>The modules of a \<open>HashSet\<close>, in an order that is not specified.\<close>

definition mem_active_modules :: "(string list \<Rightarrow> string list) \<Rightarrow> mem_backend \<Rightarrow> string list" where
  "mem_active_modules ord b = ord (remdups (map lr_module (mb_store b)))"

definition mem_clear_filtered :: "(string \<Rightarrow> string) \<Rightarrow> log_filter \<Rightarrow> mem_backend \<Rightarrow> mem_backend" where
  "mem_clear_filtered lower f b =
    (if lf_level f = None \<and> lf_space_id f = None \<and> lf_module f = None \<and> lf_category f = None \<and> lf_keyword f = None
     then b\<lparr>mb_store := []\<rparr>
     else b\<lparr>mb_store := filter (\<lambda>e. \<not> filter_matches lower f e) (mb_store b)\<rparr>)"

definition mem_clear :: "mem_backend \<Rightarrow> mem_backend" where
  "mem_clear b = b\<lparr>mb_store := []\<rparr>"

definition mem_restore :: "log_record list \<Rightarrow> mem_backend \<Rightarrow> mem_backend" where
  "mem_restore records b =
    (if records = [] then b
     else
       (let sorted = sort_key lr_seq records;
            max_seq = lr_seq (last sorted);
            store = fold (\<lambda>r logs. pop_excess (mb_max b) (logs @ [r])) sorted (mb_store b)
        in b\<lparr>mb_store := store, mb_seq := max_seq + 1\<rparr>))"

section \<open>The file back end\<close>

record file_backend =
  fb_dir :: path
  fb_max_size_bytes :: u64
  fb_current_size :: u64
  fb_seq :: u64

definition log_path :: "path \<Rightarrow> path" where
  "log_path dir = dir @ [''hometier.log'']"

definition roll_file :: "path \<Rightarrow> nat \<Rightarrow> path" where
  "roll_file dir n = dir @ [''hometier.log.'' @ dec n]"

definition current_log_size :: "path \<Rightarrow> fs \<Rightarrow> u64" where
  "current_log_size dir fs = word_of_nat (fs_len fs (log_path dir))"

definition file_new :: "path \<Rightarrow> nat \<Rightarrow> nat \<Rightarrow> fs \<Rightarrow> file_backend" where
  "file_new dir retention_days max_size_mb fs =
    \<lparr>fb_dir = dir, fb_max_size_bytes = word_of_nat max_size_mb * 1024 * 1024,
     fb_current_size = current_log_size dir fs, fb_seq = 0\<rparr>"

definition record_line :: "log_record json \<Rightarrow> log_record \<Rightarrow> bytes" where
  "record_line J r = (case js_ser J r of Inl _ \<Rightarrow> [] | Inr b \<Rightarrow> b) @ [10]"

definition file_write :: "log_record json \<Rightarrow> log_record \<Rightarrow> file_backend \<Rightarrow> fs \<Rightarrow> file_backend \<times> fs" where
  "file_write J r fb fs =
    (let line = record_line J r;
         size = word_of_nat (length line);
         cur = fb_current_size fb;
         (fb1, fs1) =
           (if cur + size > fb_max_size_bytes fb
            then (fb\<lparr>fb_seq := fb_seq fb + 1, fb_current_size := 0\<rparr>,
                  fs_rename (log_path (fb_dir fb)) (roll_file (fb_dir fb) (unat (fb_seq fb))) fs)
            else (fb, fs));
         (opened, fs2) = fs_append (log_path (fb_dir fb1)) line fs1
     in if opened then (fb1\<lparr>fb_current_size := fb_current_size fb1 + size\<rparr>, fs2) else (fb1, fs2))"

text \<open>
  The loop that collects \<open>hometier.log.0\<close>, \<open>hometier.log.1\<close>, ... up to the first one that does not
  exist; it ends because a directory holds finitely many files, here at most \<open>fuel\<close> of them.
\<close>

fun roll_paths :: "nat \<Rightarrow> nat \<Rightarrow> path \<Rightarrow> fs \<Rightarrow> path list" where
  "roll_paths 0 i dir fs = []"
| "roll_paths (Suc fuel) i dir fs =
    (if fs_exists fs (roll_file dir i) then roll_file dir i # roll_paths fuel (Suc i) dir fs else [])"

definition log_files :: "nat \<Rightarrow> path \<Rightarrow> fs \<Rightarrow> path list" where
  "log_files fuel dir fs = log_path dir # roll_paths fuel 0 dir fs"

definition parse_records :: "log_record json \<Rightarrow> string \<Rightarrow> log_record list" where
  "parse_records J content =
    List.map_filter (\<lambda>l. case js_de J (as_bytes l) of Inl _ \<Rightarrow> None | Inr r \<Rightarrow> Some r) (lines content)"

definition load_recent :: "nat \<Rightarrow> log_record json \<Rightarrow> nat \<Rightarrow> file_backend \<Rightarrow> fs \<Rightarrow> log_record list" where
  "load_recent fuel J n fb fs =
    (let paths = log_files fuel (fb_dir fb) fs;
         records = concat (map (\<lambda>p. case fs_read_to_string fs p of
                                       None \<Rightarrow> [] | Some content \<Rightarrow> parse_records J content) paths);
         records = sort_key lr_seq records
     in if length records > n then drop (length records - n) records else records)"

definition delete_all :: "nat \<Rightarrow> file_backend \<Rightarrow> fs \<Rightarrow> fs" where
  "delete_all fuel fb fs = fold fs_remove (log_files fuel (fb_dir fb) fs) fs"

section \<open>The other back ends\<close>

record stdout_backend = so_json :: bool

definition stdout_line :: "log_record json \<Rightarrow> stdout_backend \<Rightarrow> log_record \<Rightarrow> bytes" where
  "stdout_line J so r =
    (if so_json so then record_line J r
     else as_bytes (lr_timestamp r @ '' ['' @ level_fmt (lr_level r) @ ''] '' @ lr_target r @ '': '' @ lr_message r @ [NL]))"

text \<open>The arguments of the \<open>logger\<close> process that \<open>SyslogBackend::write\<close> starts.\<close>

definition syslog_args :: "string \<Rightarrow> log_record \<Rightarrow> string list" where
  "syslog_args tag r =
    (let priority = (case lr_level r of Debug \<Rightarrow> ''debug'' | Info \<Rightarrow> ''info'' | Warning \<Rightarrow> ''warning'' | Error \<Rightarrow> ''err'');
         msg = ''['' @ lr_target r @ ''] '' @ level_fmt (lr_level r) @ '': '' @ lr_message r
     in [''-t'', ''homeTier['' @ tag @ '']'', ''-p'', ''user.'' @ priority, ''--'', msg])"

text \<open>The forwarding back end: the \<open>OnceLock\<close> cell with the channel, and what was sent on it.\<close>

record forward_backend =
  fw_tx :: "nat option"

definition forward_init :: "nat \<Rightarrow> forward_backend \<Rightarrow> forward_backend" where
  "forward_init tx fw = (case fw_tx fw of None \<Rightarrow> fw\<lparr>fw_tx := Some tx\<rparr> | Some _ \<Rightarrow> fw)"

section \<open>Bounded buffers\<close>

definition lastn :: "nat \<Rightarrow> 'a list \<Rightarrow> 'a list" where
  "lastn n xs = drop (length xs - n) xs"

lemma length_lastn [simp]: "length (lastn n xs) = min n (length xs)"
  by (simp add: lastn_def)

lemma lastn_short [simp]: "length xs \<le> n \<Longrightarrow> lastn n xs = xs"
  by (simp add: lastn_def)

lemma lastn_lastn_append: "lastn n (lastn n xs @ ys) = lastn n (xs @ ys)"
proof (cases "length xs \<le> n")
  case False
  then have "length xs - n + (length xs + length ys - (length xs - n) - n) = length xs + length ys - n" by simp
  with False show ?thesis by (simp add: lastn_def add.commute)
qed simp

lemma lastn_append_long: "n \<le> length ys \<Longrightarrow> lastn n (xs @ ys) = lastn n ys"
  by (simp add: lastn_def)

lemma lastn_append_short: "length ys \<le> n \<Longrightarrow> lastn n (xs @ ys) = lastn (n - length ys) xs @ ys"
  by (simp add: lastn_def)

lemma pop_excess_lastn: "pop_excess mx xs = lastn mx xs"
  by (induction xs) (auto simp: lastn_def Suc_diff_le not_less_eq_eq)

text \<open>
  A bounded buffer drops its oldest elements. \<open>stamp s x\<close> is the form in which the buffer in state
  \<open>s\<close> keeps \<open>x\<close>.
\<close>

locale ring_buffer =
  fixes push :: "'x \<Rightarrow> 's \<Rightarrow> 's"
    and items :: "'s \<Rightarrow> 'e list"
    and cap :: "'s \<Rightarrow> nat"
    and stamp :: "'s \<Rightarrow> 'x \<Rightarrow> 'e"
  assumes items_push: "items (push x s) = lastn (cap s) (items s @ [stamp s x])"
    and cap_push: "cap (push x s) = cap s"
begin

fun entries :: "'x list \<Rightarrow> 's \<Rightarrow> 'e list" where
  "entries [] s = []"
| "entries (x # xs) s = stamp s x # entries xs (push x s)"

lemma length_entries [simp]: "length (entries xs s) = length xs"
  by (induction xs arbitrary: s) simp_all

lemma cap_fold [simp]: "cap (fold push xs s) = cap s"
  by (induction xs arbitrary: s) (simp_all add: cap_push)

lemma items_fold:
  "length (items s) \<le> cap s \<Longrightarrow> items (fold push xs s) = lastn (cap s) (items s @ entries xs s)"
proof (induction xs arbitrary: s)
  case (Cons x xs)
  then have "items (fold push xs (push x s)) = lastn (cap s) (items (push x s) @ entries xs (push x s))"
    by (simp add: cap_push items_push)
  then show ?case
    by (simp add: items_push lastn_lastn_append)
qed simp

lemma items_bounded: "length (items s) \<le> cap s \<Longrightarrow> length (items (fold push xs s)) \<le> cap s"
  by (simp add: items_fold)

lemma items_recent:
  "length (items s) \<le> cap s \<Longrightarrow> length xs \<le> cap s \<Longrightarrow>
   items (fold push xs s) = lastn (cap s - length xs) (items s) @ entries xs s"
  by (simp add: items_fold lastn_append_short)

end

interpretation mb: ring_buffer mem_write mb_store mb_max "\<lambda>b r. r\<lparr>lr_seq := mb_seq b\<rparr>"
  by unfold_locales (simp_all add: mem_write_def Let_def pop_excess_lastn)

section \<open>Sequence numbers\<close>

fun stamped :: "u64 \<Rightarrow> log_record list \<Rightarrow> log_record list" where
  "stamped n [] = []"
| "stamped n (r # rs) = r\<lparr>lr_seq := n\<rparr> # stamped (n + 1) rs"

lemma mem_write_seq [simp]: "mb_seq (mem_write r b) = mb_seq b + 1"
  by (simp add: mem_write_def Let_def)

lemma mem_entries: "mb.entries rs b = stamped (mb_seq b) rs"
  by (induction rs arbitrary: b) simp_all

lemma mem_fold_seq: "mb_seq (fold mem_write rs b) = mb_seq b + word_of_nat (length rs)"
  by (induction rs arbitrary: b) simp_all

lemma length_stamped [simp]: "length (stamped n rs) = length rs"
  by (induction rs arbitrary: n) simp_all

text \<open>
  The state of a buffer that only ever saw writes and clears: bounded, sequence numbers strictly
  increasing and below the counter.
\<close>

definition mem_ok :: "mem_backend \<Rightarrow> bool" where
  "mem_ok b \<longleftrightarrow> length (mb_store b) \<le> mb_max b \<and> sorted_wrt (\<lambda>x y. lr_seq x < lr_seq y) (mb_store b) \<and>
     (\<forall>r \<in> set (mb_store b). lr_seq r < mb_seq b)"

lemma mem_new_ok [simp]: "mem_ok (mem_new n)"
  by (simp add: mem_ok_def mem_new_def)

lemma sorted_wrt_lastn: "sorted_wrt P xs \<Longrightarrow> sorted_wrt P (lastn n xs)"
  by (simp add: lastn_def sorted_wrt_drop)

lemma set_lastn: "set (lastn n xs) \<subseteq> set xs"
  by (simp add: lastn_def set_drop_subset)

lemma mem_write_ok:
  assumes "mem_ok b" and "mb_seq b < mb_seq b + 1"
  shows "mem_ok (mem_write r b)"
proof -
  have s: "mb_store (mem_write r b) = lastn (mb_max b) (mb_store b @ [r\<lparr>lr_seq := mb_seq b\<rparr>])"
    by (rule mb.items_push)
  have m: "mb_max (mem_write r b) = mb_max b" by (rule mb.cap_push)
  have "sorted_wrt (\<lambda>x y. lr_seq x < lr_seq y) (mb_store b @ [r\<lparr>lr_seq := mb_seq b\<rparr>])"
    using assms(1) by (simp add: mem_ok_def sorted_wrt_append)
  moreover have "lr_seq x < mb_seq b + 1" if "x \<in> set (mb_store b @ [r\<lparr>lr_seq := mb_seq b\<rparr>])" for x
    using that assms by (auto simp: mem_ok_def dest: less_trans)
  ultimately show ?thesis
    unfolding mem_ok_def s m mem_write_seq using set_lastn by (fastforce simp: sorted_wrt_lastn)
qed

lemma mem_clear_filtered_ok: "mem_ok b \<Longrightarrow> mem_ok (mem_clear_filtered lower f b)"
  by (auto simp: mem_ok_def mem_clear_filtered_def sorted_wrt_filter intro: order_trans [OF length_filter_le])

lemma mem_clear_ok: "mem_ok b \<Longrightarrow> mem_ok (mem_clear b)"
  by (simp add: mem_ok_def mem_clear_def)

lemma stamped_seq:
  assumes "unat n + length rs \<le> 2 ^ 64" and "r \<in> set (stamped n rs)"
  shows "n \<le> lr_seq r"
  using assms
proof (induction rs arbitrary: n)
  case (Cons x xs)
  show ?case
  proof (cases "r = x\<lparr>lr_seq := n\<rparr>")
    case False
    with Cons.prems have r: "r \<in> set (stamped (n + 1) xs)" by simp
    then have "xs \<noteq> []" by auto
    then have "unat n + 1 < 2 ^ 64" using Cons.prems(1) by (cases xs) simp_all
    then have u: "unat (n + 1) = unat n + 1"
      by (simp add: unat_word_ariths)
    then have "n + 1 \<le> lr_seq r"
      using Cons.prems(1) r by (intro Cons.IH) simp_all
    with u show ?thesis by (simp add: word_le_nat_alt)
  qed simp
qed simp

lemma mem_ok_fold:
  assumes "mem_ok b" and "unat (mb_seq b) + length rs < 2 ^ 64"
  shows "mem_ok (fold mem_write rs b)"
  using assms
proof (induction rs arbitrary: b)
  case (Cons r rs)
  then have u: "unat (mb_seq b + 1) = unat (mb_seq b) + 1"
    by (simp add: unat_word_ariths)
  then have "mb_seq b < mb_seq b + 1" by (simp add: word_less_nat_alt)
  with Cons.prems(1) have "mem_ok (mem_write r b)" by (rule mem_write_ok)
  with Cons u show ?case by simp
qed simp

section \<open>The log on disk\<close>

definition file_bytes :: "fs \<Rightarrow> path \<Rightarrow> bytes" where
  "file_bytes fs p = (case fs_data fs p of None \<Rightarrow> [] | Some b \<Rightarrow> b)"

text \<open>Everything that was logged: the rolled files in the order of their numbers, then the current file.\<close>

definition log_text :: "file_backend \<Rightarrow> fs \<Rightarrow> bytes" where
  "log_text fb fs =
    concat (map (\<lambda>i. file_bytes fs (roll_file (fb_dir fb) i)) [0..<unat (fb_seq fb)]) @ file_bytes fs (log_path (fb_dir fb))"

definition fb_ok :: "file_backend \<Rightarrow> fs \<Rightarrow> bool" where
  "fb_ok fb fs \<longleftrightarrow> fs_healthy fs \<and> (\<forall>i \<ge> unat (fb_seq fb). fs_data fs (roll_file (fb_dir fb) i) = None) \<and>
     unat (fb_current_size fb) = length (file_bytes fs (log_path (fb_dir fb)))"

lemma dec_inject: "dec a = dec b \<longleftrightarrow> a = b"
  by (metis digits_val_dec option.inject)

lemma roll_file_inject [simp]: "roll_file dir a = roll_file dir b \<longleftrightarrow> a = b"
  by (simp add: roll_file_def dec_inject)

lemma roll_not_log [simp]: "roll_file dir a \<noteq> log_path dir" "log_path dir \<noteq> roll_file dir a"
  by (auto simp: roll_file_def log_path_def)

lemma fs_healthy_frame [simp]: "fs_healthy (fs\<lparr>fs_data := d, fs_mtime := m\<rparr>) = fs_healthy fs"
  by (simp add: fs_healthy_def)

lemma fs_append_healthy:
  "fs_healthy fs \<Longrightarrow> fs_append p b fs =
     (True, fs\<lparr>fs_data := (fs_data fs)(p \<mapsto> file_bytes fs p @ b), fs_mtime := (fs_mtime fs)(p \<mapsto> fs_now fs)\<rparr>)"
  by (simp add: fs_append_def fs_healthy_def file_bytes_def)

lemma fs_rename_healthy:
  "fs_healthy fs \<Longrightarrow> fs_rename src dst fs =
    (case fs_data fs src of None \<Rightarrow> fs
     | Some b \<Rightarrow> fs\<lparr>fs_data := (fs_data fs)(src := None, dst := Some b), fs_mtime := (fs_mtime fs)(dst := fs_mtime fs src)\<rparr>)"
  by (simp add: fs_rename_def fs_healthy_def)

text \<open>Rolling moves the current file behind the rolled ones; the text of the log stays the same.\<close>

definition roll :: "file_backend \<Rightarrow> fs \<Rightarrow> file_backend \<times> fs" where
  "roll fb fs =
    (fb\<lparr>fb_seq := fb_seq fb + 1, fb_current_size := 0\<rparr>,
     fs_rename (log_path (fb_dir fb)) (roll_file (fb_dir fb) (unat (fb_seq fb))) fs)"

lemma roll_ok:
  assumes ok: "fb_ok fb fs" and n: "unat (fb_seq fb) + 1 < 2 ^ 64" and r: "roll fb fs = (fb1, fs1)"
  shows "fb_ok fb1 fs1" and "log_text fb1 fs1 = log_text fb fs" and "fb_dir fb1 = fb_dir fb"
    and "file_bytes fs1 (log_path (fb_dir fb)) = []" and "unat (fb_seq fb1) = unat (fb_seq fb) + 1"
    and "fb_max_size_bytes fb1 = fb_max_size_bytes fb"
proof -
  let ?d = "fb_dir fb" and ?k = "unat (fb_seq fb)"
  have fb1: "fb1 = fb\<lparr>fb_seq := fb_seq fb + 1, fb_current_size := 0\<rparr>"
    and fs1: "fs1 = fs_rename (log_path ?d) (roll_file ?d ?k) fs"
    using r by (auto simp: roll_def)
  show k: "unat (fb_seq fb1) = ?k + 1" using n by (simp add: fb1 unat_word_ariths)
  show d: "fb_dir fb1 = ?d" "fb_max_size_bytes fb1 = fb_max_size_bytes fb" by (simp_all add: fb1)
  have h: "fs_healthy fs" and free: "\<And>i. ?k \<le> i \<Longrightarrow> fs_data fs (roll_file ?d i) = None"
    using ok by (auto simp: fb_ok_def)
  have data: "file_bytes fs1 (roll_file ?d i) = (if i = ?k then file_bytes fs (log_path ?d) else file_bytes fs (roll_file ?d i))"
    and none: "?k < i \<Longrightarrow> fs_data fs1 (roll_file ?d i) = None" for i
    using free [of i] h by (auto simp: fs1 fs_rename_healthy file_bytes_def split: option.split)
  show cur: "file_bytes fs1 (log_path ?d) = []"
    using h by (auto simp: fs1 fs_rename_healthy file_bytes_def split: option.split)
  have "fs_healthy fs1" using h by (auto simp: fs1 fs_rename_healthy split: option.split)
  then show "fb_ok fb1 fs1"
    using none cur by (simp add: fb_ok_def k d) (simp add: fb1)
  have "concat (map (\<lambda>i. file_bytes fs1 (roll_file ?d i)) [0..<?k]) =
      concat (map (\<lambda>i. file_bytes fs (roll_file ?d i)) [0..<?k])"
    by (rule arg_cong [where f = concat], rule map_cong) (simp_all add: data)
  then show "log_text fb1 fs1 = log_text fb fs"
    using data [of ?k] by (simp add: log_text_def k d cur)
qed

lemma append_ok:
  assumes ok: "fb_ok fb fs" and s: "unat (fb_current_size fb) + length line < 2 ^ 64"
    and a: "fs_append (log_path (fb_dir fb)) line fs = (opened, fs2)"
    and fb2: "fb2 = fb\<lparr>fb_current_size := fb_current_size fb + word_of_nat (length line)\<rparr>"
  shows "opened" and "fb_ok fb2 fs2" and "log_text fb2 fs2 = log_text fb fs @ line"
    and "file_bytes fs2 (log_path (fb_dir fb)) = file_bytes fs (log_path (fb_dir fb)) @ line"
proof -
  let ?p = "log_path (fb_dir fb)"
  have h: "fs_healthy fs" using ok by (simp add: fb_ok_def)
  have o: "opened" and fs2: "fs2 = fs\<lparr>fs_data := (fs_data fs)(?p \<mapsto> file_bytes fs ?p @ line), fs_mtime := (fs_mtime fs)(?p \<mapsto> fs_now fs)\<rparr>"
    using a by (auto simp: fs_append_healthy [OF h])
  show "opened" by (fact o)
  have cur: "file_bytes fs2 ?p = file_bytes fs ?p @ line"
    and roll: "fs_data fs2 (roll_file (fb_dir fb) i) = fs_data fs (roll_file (fb_dir fb) i)" for i
    by (simp_all add: fs2 file_bytes_def)
  then have "file_bytes fs2 (roll_file (fb_dir fb) i) = file_bytes fs (roll_file (fb_dir fb) i)" for i
    by (simp add: file_bytes_def)
  then show "log_text fb2 fs2 = log_text fb fs @ line"
    by (simp add: log_text_def fb2 cur)
  show "file_bytes fs2 ?p = file_bytes fs ?p @ line" by (fact cur)
  have "unat (fb_current_size fb2) = unat (fb_current_size fb) + length line"
    using s by (simp add: fb2 unat_word_ariths unat_of_nat)
  then show "fb_ok fb2 fs2"
    using ok h roll cur by (simp add: fb_ok_def) (simp add: fb2 fs2)
qed

lemma file_write_eq:
  "file_write J r fb fs =
    (let line = record_line J r;
         (fb1, fs1) = (if fb_current_size fb + word_of_nat (length line) > fb_max_size_bytes fb then roll fb fs else (fb, fs));
         (opened, fs2) = fs_append (log_path (fb_dir fb1)) line fs1
     in if opened then (fb1\<lparr>fb_current_size := fb_current_size fb1 + word_of_nat (length line)\<rparr>, fs2) else (fb1, fs2))"
  by (simp add: file_write_def roll_def Let_def)

definition roomy :: "log_record json \<Rightarrow> file_backend \<Rightarrow> log_record list \<Rightarrow> bool" where
  "roomy J fb rs \<longleftrightarrow> unat (fb_seq fb) + length rs < 2 ^ 64 \<and>
     unat (fb_current_size fb) + length (concat (map (record_line J) rs)) < 2 ^ 64"

lemma file_write_ok:
  assumes ok: "fb_ok fb fs" and room: "roomy J fb (r # rs)" and w: "file_write J r fb fs = (fb', fs')"
  shows "fb_ok fb' fs'" and "log_text fb' fs' = log_text fb fs @ record_line J r" and "roomy J fb' rs"
    and "fb_dir fb' = fb_dir fb \<and> fb_max_size_bytes fb' = fb_max_size_bytes fb"
    and "length (file_bytes fs' (log_path (fb_dir fb))) \<le> max (unat (fb_max_size_bytes fb)) (length (record_line J r))"
proof -
  let ?l = "record_line J r" and ?p = "log_path (fb_dir fb)"
  let ?rolls = "fb_current_size fb + word_of_nat (length ?l) > fb_max_size_bytes fb"
  obtain fb1 fs1 where x: "(if ?rolls then roll fb fs else (fb, fs)) = (fb1, fs1)" by (metis surj_pair)
  have len: "unat (fb_current_size fb) + length ?l + length (concat (map (record_line J) rs)) < 2 ^ 64"
    and sq: "unat (fb_seq fb) + 1 + length rs < 2 ^ 64"
    using room by (simp_all add: roomy_def)
  have 1: "fb_ok fb1 fs1 \<and> log_text fb1 fs1 = log_text fb fs \<and> fb_dir fb1 = fb_dir fb \<and>
      fb_max_size_bytes fb1 = fb_max_size_bytes fb \<and> unat (fb_seq fb1) \<le> unat (fb_seq fb) + 1"
    using x ok roll_ok [OF ok, of fb1 fs1] sq by (cases ?rolls) auto
  have cur: "file_bytes fs1 ?p = (if ?rolls then [] else file_bytes fs ?p)"
    using x roll_ok(4) [OF ok, of fb1 fs1] sq by auto
  have sz: "unat (fb_current_size fb1) = length (file_bytes fs1 ?p)"
    using 1 by (metis fb_ok_def)
  have le: "unat (fb_current_size fb1) \<le> unat (fb_current_size fb)"
    using sz cur ok by (simp add: fb_ok_def)
  obtain opened fs2 where a: "fs_append (log_path (fb_dir fb1)) ?l fs1 = (opened, fs2)" by (metis surj_pair)
  have s1: "unat (fb_current_size fb1) + length ?l < 2 ^ 64" using le len by simp
  note A = append_ok [OF conjunct1 [OF 1] s1 a refl]
  from w A(1) have fb': "fb' = fb1\<lparr>fb_current_size := fb_current_size fb1 + word_of_nat (length ?l)\<rparr>" "fs' = fs2"
    by (simp_all add: file_write_eq x a)
  show "fb_ok fb' fs'" "log_text fb' fs' = log_text fb fs @ ?l" using A 1 by (simp_all add: fb')
  show "fb_dir fb' = fb_dir fb \<and> fb_max_size_bytes fb' = fb_max_size_bytes fb" using 1 by (simp add: fb')
  have "unat (fb_current_size fb') = unat (fb_current_size fb1) + length ?l"
    using s1 by (simp add: fb' unat_word_ariths unat_of_nat)
  then show "roomy J fb' rs"
    using le len sq 1 by (simp add: roomy_def) (simp add: fb')
  show "length (file_bytes fs' ?p) \<le> max (unat (fb_max_size_bytes fb)) (length ?l)"
  proof (cases ?rolls)
    case False
    have "unat (fb_current_size fb + word_of_nat (length ?l)) = unat (fb_current_size fb) + length ?l"
      using len by (simp add: unat_word_ariths unat_of_nat)
    with False have "unat (fb_current_size fb) + length ?l \<le> unat (fb_max_size_bytes fb)"
      by (simp add: word_less_nat_alt)
    with False show ?thesis
      using A(4) cur 1 ok by (simp add: fb' fb_ok_def)
  qed (use A(4) cur 1 in \<open>simp add: fb'\<close>)
qed

definition file_run :: "log_record json \<Rightarrow> log_record \<Rightarrow> file_backend \<times> fs \<Rightarrow> file_backend \<times> fs" where
  "file_run J r s = file_write J r (fst s) (snd s)"

lemma file_run_text:
  "fb_ok fb fs \<Longrightarrow> roomy J fb rs \<Longrightarrow> fold (file_run J) rs (fb, fs) = (fb', fs') \<Longrightarrow>
   fb_ok fb' fs' \<and> log_text fb' fs' = log_text fb fs @ concat (map (record_line J) rs) \<and> fb_dir fb' = fb_dir fb"
proof (induction rs arbitrary: fb fs)
  case (Cons r rs)
  obtain fb1 fs1 where w: "file_write J r fb fs = (fb1, fs1)" by (metis surj_pair)
  note s = file_write_ok [OF Cons.prems(1,2) w]
  have "fold (file_run J) rs (fb1, fs1) = (fb', fs')" using Cons.prems(3) by (simp add: file_run_def [of J r "(fb, fs)"] w)
  from Cons.IH [OF s(1,3) this] show ?case by (simp add: s)
qed simp

section \<open>Reading the log back\<close>

lemma record_line_ser:
  assumes "json_ok J"
  obtains b where "record_line J r = b @ [10]" "NL \<notin> set (of_bytes b)" "CR \<notin> set (of_bytes b)" "is_utf8 (of_bytes b)"
    "js_de J b = Inr r"
proof -
  from assms obtain b where b: "js_ser J r = Inr b" "10 \<notin> set b" "13 \<notin> set b" "is_utf8 (of_bytes b)" "js_de J b = Inr r"
    by (rule json_okE)
  have "byte_of_char NL = 10" "byte_of_char CR = 13" by (simp_all add: byte_of_char_def)
  then have "NL \<notin> set (of_bytes b)" "CR \<notin> set (of_bytes b)"
    using b(2,3) by (auto simp: of_bytes_def)
  with b show thesis by (intro that) (simp_all add: record_line_def)
qed

lemma lines_log:
  assumes "json_ok J"
  shows "is_utf8 (of_bytes (concat (map (record_line J) rs))) \<and>
    parse_records J (of_bytes (concat (map (record_line J) rs))) = rs"
proof (induction rs)
  case Nil
  then show ?case by (simp add: parse_records_def of_bytes_def is_utf8_def map_filter_def)
next
  case (Cons r rs)
  from assms obtain b where b: "record_line J r = b @ [10]" "NL \<notin> set (of_bytes b)" "CR \<notin> set (of_bytes b)"
    "is_utf8 (of_bytes b)" "js_de J b = Inr r"
    by (rule record_line_ser)
  have nl: "char_of_byte 10 = NL" by code_simp
  have s: "of_bytes (concat (map (record_line J) (r # rs))) = of_bytes b @ NL # of_bytes (concat (map (record_line J) rs))"
    by (simp add: b of_bytes_def nl)
  have "strip_cr (of_bytes b) = of_bytes b"
    using b(3) by (auto simp: strip_cr_def) (metis last_in_set)
  then have "lines (of_bytes b @ NL # of_bytes (concat (map (record_line J) rs))) =
      of_bytes b # lines (of_bytes (concat (map (record_line J) rs)))"
    using b(2) by (simp add: lines_line)
  moreover have "is_utf8 (of_bytes b @ NL # of_bytes (concat (map (record_line J) rs)))"
    using Cons unfolding is_utf8_append [OF b(4)] by (simp add: is_utf8_def)
  ultimately show ?case
    using Cons b(5) unfolding s by (simp add: parse_records_def map_filter_def)
qed

lemma read_log_file:
  assumes "json_ok J" and "fs_healthy fs" and "fs_data fs p = Some (concat (map (record_line J) rs))"
  shows "(case fs_read_to_string fs p of None \<Rightarrow> [] | Some content \<Rightarrow> parse_records J content) = rs"
proof -
  let ?b = "concat (map (record_line J) rs)"
  have "from_utf8 ?b = Some (of_bytes ?b)"
    using from_utf8_as_bytes [of "of_bytes ?b"] lines_log [OF assms(1), of rs] by simp
  then show ?thesis
    using assms lines_log [OF assms(1), of rs] by (simp add: fs_read_to_string_def fs_read_def fs_healthy_def)
qed

lemma sort_key_const: "\<forall>x \<in> set xs. f x = c \<Longrightarrow> sort_key f xs = xs"
  by (intro sort_key_id_if_sorted) (induction xs, auto)

text \<open>Enough fuel: the collecting loop does not depend on it once it covers the rolled files.\<close>

lemma roll_paths_enough:
  "\<not> fs_exists fs (roll_file dir (i + n)) \<Longrightarrow> (\<forall>k < n. fs_exists fs (roll_file dir (i + k))) \<Longrightarrow> n < fuel \<Longrightarrow>
   roll_paths fuel i dir fs = map (roll_file dir) [i..<i + n]"
proof (induction fuel arbitrary: i n)
  case (Suc fuel)
  show ?case
  proof (cases n)
    case 0
    with Suc.prems show ?thesis by simp
  next
    case (Suc m)
    have e: "\<forall>k < m. fs_exists fs (roll_file dir (Suc i + k))"
      using Suc Suc.prems(2) by (metis Suc_less_eq add_Suc_shift)
    have i: "fs_exists fs (roll_file dir i)"
      using Suc Suc.prems(2) by (metis add_0_right zero_less_Suc)
    have "roll_paths fuel (Suc i) dir fs = map (roll_file dir) [Suc i..<Suc i + m]"
      using Suc.prems e Suc by (intro Suc.IH) simp_all
    with i show ?thesis
      using Suc by (simp add: upt_rec [of i])
  qed
qed simp

section \<open>Properties\<close>

text \<open>
  The memory buffer holds exactly the newest records, numbered without gaps: after any writes
  it is the last \<open>max_entries\<close> of what it held followed by the written records, which carry
  consecutive sequence numbers from the counter on.
\<close>

theorem mem_keeps_newest:
  assumes "length (mb_store b) \<le> mb_max b"
  shows "mb_store (fold mem_write rs b) = lastn (mb_max b) (mb_store b @ stamped (mb_seq b) rs) \<and>
    mb_seq (fold mem_write rs b) = mb_seq b + word_of_nat (length rs)"
  using mb.items_fold [OF assms, of rs] by (simp add: mem_entries mem_fold_seq)

text \<open>
  Incremental polling loses nothing: a reader that has seen everything up to sequence number
  \<open>counter - 1\<close> and asks for records since that number gets exactly the records written since,
  in order, as long as they fit the buffer and the counter does not wrap.
\<close>

theorem log_polling_complete:
  assumes "mem_ok b" and "mb_seq b \<noteq> 0" and "length rs \<le> mb_max b" and "unat (mb_seq b) + length rs \<le> 2 ^ 64"
  shows "mem_query lower (log_filter_default\<lparr>lf_since_seq := Some (mb_seq b - 1)\<rparr>) (fold mem_write rs b) = stamped (mb_seq b) rs"
proof -
  let ?f = "log_filter_default\<lparr>lf_since_seq := Some (mb_seq b - 1)\<rparr>"
  have len: "length (mb_store b) \<le> mb_max b" using assms(1) by (simp add: mem_ok_def)
  have s: "mb_store (fold mem_write rs b) = lastn (mb_max b - length rs) (mb_store b) @ stamped (mb_seq b) rs"
    using mb.items_recent [OF len assms(3)] by (simp add: mem_entries)
  have m: "filter_matches lower ?f r \<longleftrightarrow> mb_seq b \<le> lr_seq r" for r
  proof -
    have "unat (mb_seq b - 1) = unat (mb_seq b) - 1" "0 < unat (mb_seq b)"
      using assms(2) by (simp_all add: unat_minus_one unat_gt_0)
    then show ?thesis
      by (simp add: filter_matches_def log_filter_default_def word_le_nat_alt not_le) linarith
  qed
  have "filter (filter_matches lower ?f) (lastn (mb_max b - length rs) (mb_store b)) = []"
    using assms(1) set_lastn by (fastforce simp: filter_empty_conv m mem_ok_def not_le)
  moreover have "filter (filter_matches lower ?f) (stamped (mb_seq b) rs) = stamped (mb_seq b) rs"
    using stamped_seq [OF assms(4)] by (simp add: m)
  ultimately show ?thesis
    by (simp add: mem_query_def s) (simp add: log_filter_default_def)
qed

text \<open>
  Clearing by filter is complete and, when a level, space, module, category or keyword is
  given, exact: a query with the same filter finds nothing afterwards, and a record survives
  exactly if it was there and does not match. The buffer's invariant is kept.
\<close>

theorem clear_filtered_exact:
  assumes "mem_ok b" and "lf_level f \<noteq> None \<or> lf_space_id f \<noteq> None \<or> lf_module f \<noteq> None \<or> lf_category f \<noteq> None \<or> lf_keyword f \<noteq> None"
  shows "mem_query lower f (mem_clear_filtered lower f b) = [] \<and>
    (\<forall>r. r \<in> set (mb_store (mem_clear_filtered lower f b)) \<longleftrightarrow> r \<in> set (mb_store b) \<and> r \<notin> set (filter (filter_matches lower f) (mb_store b))) \<and>
    mem_ok (mem_clear_filtered lower f b)"
proof (intro conjI)
  have c: "mb_store (mem_clear_filtered lower f b) = filter (\<lambda>e. \<not> filter_matches lower f e) (mb_store b)"
    using assms(2) by (auto simp: mem_clear_filtered_def)
  show "mem_query lower f (mem_clear_filtered lower f b) = []"
    by (simp add: mem_query_def c split: option.split)
  show "\<forall>r. r \<in> set (mb_store (mem_clear_filtered lower f b)) \<longleftrightarrow>
      r \<in> set (mb_store b) \<and> r \<notin> set (filter (filter_matches lower f) (mb_store b))"
    by (auto simp: c)
  show "mem_ok (mem_clear_filtered lower f b)" using assms(1) by (rule mem_clear_filtered_ok)
qed

text \<open>
  C30: Rolling loses no line. From a directory without old roll files beyond the counter, writing
  any records leaves the rolled files in order followed by the current file equal to what was
  there followed by exactly the lines of the records, whatever the size limit.
\<close>

theorem file_log_complete:
  assumes "fb_ok fb fs" and "roomy J fb rs" and "fold (file_run J) rs (fb, fs) = (fb', fs')"
  shows "log_text fb' fs' = log_text fb fs @ concat (map (record_line J) rs)"
  using file_run_text [OF assms] by simp

text \<open>
  The size limit: after a write the current file is no larger than the limit, or it holds just
  the one line that is itself larger.
\<close>

theorem file_size_bounded:
  assumes "fb_ok fb fs" and "roomy J fb [r]" and "file_write J r fb fs = (fb', fs')"
  shows "length (file_bytes fs' (log_path (fb_dir fb))) \<le> max (unat (fb_max_size_bytes fb)) (length (record_line J r))"
  by (rule file_write_ok(5) [OF assms])

text \<open>
  What was logged can be restored: with no roll file, loading the recent records gives the last
  \<open>n\<close> records written, in order. Records reach the file with sequence number 0.
\<close>

theorem load_recent_written:
  assumes "json_ok J" and "fs_healthy fs" and "fs_data fs (log_path (fb_dir fb)) = Some (concat (map (record_line J) rs))"
    and "fs_data fs (roll_file (fb_dir fb) 0) = None" and "\<forall>r \<in> set rs. lr_seq r = 0" and "0 < fuel"
  shows "load_recent fuel J n fb fs = lastn n rs"
proof -
  have "log_files fuel (fb_dir fb) fs = [log_path (fb_dir fb)]"
    using assms(4,6) by (cases fuel) (simp_all add: log_files_def fs_exists_def)
  then show ?thesis
    using sort_key_const [OF assms(5)] read_log_file [OF assms(1,2,3)]
    by (simp add: load_recent_def Let_def) (simp add: lastn_def)
qed

text \<open>
  With a roll file present, \<open>load_recent\<close> does not return the most recent records: all sequence
  numbers in the files are 0, so the sort keeps the order current file, then roll files, and the
  last \<open>n\<close> records of that order come from the older, rolled file whenever it has \<open>n\<close> of them.
\<close>

theorem load_recent_prefers_rolled:
  assumes "json_ok J" and "fs_healthy fs" and "fs_data fs (log_path (fb_dir fb)) = Some (concat (map (record_line J) new))"
    and "fs_data fs (roll_file (fb_dir fb) 0) = Some (concat (map (record_line J) old))"
    and "fs_data fs (roll_file (fb_dir fb) 1) = None" and "\<forall>r \<in> set (new @ old). lr_seq r = 0"
    and "n \<le> length old" and "1 < fuel"
  shows "load_recent fuel J n fb fs = lastn n old"
proof -
  have "roll_paths fuel 0 (fb_dir fb) fs = map (roll_file (fb_dir fb)) [0..<0 + 1]"
    using assms(4,5,8) by (intro roll_paths_enough) (simp_all add: fs_exists_def)
  then have "log_files fuel (fb_dir fb) fs = [log_path (fb_dir fb), roll_file (fb_dir fb) 0]"
    by (simp add: log_files_def)
  then show ?thesis
    using sort_key_const [OF assms(6)] read_log_file [OF assms(1,2,3)] read_log_file [OF assms(1,2,4)] assms(7)
    by (simp add: load_recent_def Let_def) (cases new, simp_all add: lastn_def)
qed

text \<open>
  A restart forgets the roll counter: the first roll after \<open>FileBackend::new\<close> replaces
  \<open>hometier.log.0\<close>, whatever an earlier process rolled into it.
\<close>

theorem file_restart_overwrites:
  assumes "fs_healthy fs" and "fs_data fs (log_path dir) = Some cur" and "fs_data fs (roll_file dir 0) = Some old"
    and "fb_current_size (file_new dir days mb fs) + word_of_nat (length (record_line J r)) > fb_max_size_bytes (file_new dir days mb fs)"
  shows "fs_data (snd (file_write J r (file_new dir days mb fs) fs)) (roll_file dir 0) = Some cur"
proof -
  have h: "fs_healthy (fs\<lparr>fs_data := d, fs_mtime := m\<rparr>)" for d m using assms(1) by simp
  have "fb_dir (file_new dir days mb fs) = dir" "fb_seq (file_new dir days mb fs) = 0"
    by (simp_all add: file_new_def)
  then show ?thesis
    using assms by (simp add: file_write_def Let_def fs_rename_healthy fs_append_healthy [OF h])
qed

section \<open>Concrete inputs\<close>

definition level_code :: "log_level \<Rightarrow> nat" where
  "level_code l = (case l of Debug \<Rightarrow> 0 | Info \<Rightarrow> 1 | Warning \<Rightarrow> 2 | Error \<Rightarrow> 3)"

definition code_level :: "nat \<Rightarrow> log_level" where
  "code_level n = (if n = 0 then Debug else if n = 1 then Info else if n = 2 then Warning else Error)"

definition cat_code :: "log_category \<Rightarrow> nat" where
  "cat_code c = (case c of System \<Rightarrow> 0 | Network \<Rightarrow> 1 | WebRTC \<Rightarrow> 2 | Data \<Rightarrow> 3 | Proxy \<Rightarrow> 4 | Daemon \<Rightarrow> 5 | Space \<Rightarrow> 6 | Server \<Rightarrow> 7)"

definition code_cat :: "nat \<Rightarrow> log_category" where
  "code_cat n = [System, Network, WebRTC, Data, Proxy, Daemon, Space, Server] ! n"

definition fl_record :: "log_record \<Rightarrow> nat list" where
  "fl_record r = level_code (lr_level r) # cat_code (lr_category r) # fl_word (lr_seq r) @ fl_str (lr_timestamp r) @
     fl_str (lr_target r) @ fl_str (lr_module r) @ fl_str (lr_message r) @ fl_opt fl_str (lr_space_id r) @ fl_opt fl_str (lr_trace_id r)"

definition rd_record :: "nat list \<Rightarrow> log_record \<times> nat list" where
  "rd_record ns =
    (let (sq, r) = rd_word (tl (tl ns)); (ts, r) = rd_str r; (tg, r) = rd_str r; (md, r) = rd_str r; (ms, r) = rd_str r;
         (sp, r) = rd_opt rd_str r; (tr, r) = rd_opt rd_str r
     in (\<lparr>lr_seq = sq, lr_timestamp = ts, lr_level = code_level (hd ns), lr_target = tg, lr_module = md,
          lr_category = code_cat (hd (tl ns)), lr_message = ms, lr_space_id = sp, lr_trace_id = tr\<rparr>, r))"

definition record_json :: "log_record json" where
  "record_json = nats_json fl_record rd_record"

lemma code_level_inv: "code_level (level_code l) = l"
  by (cases l) (simp_all add: code_level_def level_code_def)

lemma code_cat_inv: "code_cat (cat_code c) = c"
  by (cases c) (simp_all add: code_cat_def cat_code_def)

lemma rd_record_fl: "rd_record (fl_record x @ r) = (x, r)"
  by (simp add: rd_record_def fl_record_def code_level_inv code_cat_inv)

lemma record_json_ok: "json_ok record_json"
  unfolding record_json_def by (rule nats_json_ok) (rule rd_record_fl)

definition msg :: "string \<Rightarrow> log_record" where
  "msg m = log_record_new ''t'' Info ''a'' m None None"

lemma msg_seq [simp]: "lr_seq (msg m) = 0"
  by (simp add: msg_def log_record_new_def Let_def)

theorem mem_keeps_newest_witness:
  "mb_store (fold mem_write [msg ''a'', msg ''b'', msg ''c''] (mem_new 2)) = [(msg ''b'')\<lparr>lr_seq := 2\<rparr>, (msg ''c'')\<lparr>lr_seq := 3\<rparr>]"
proof -
  have "length (mb_store (mem_new 2)) \<le> mb_max (mem_new 2)" by (simp add: mem_new_def)
  from mem_keeps_newest [OF this, of "[msg ''a'', msg ''b'', msg ''c'']"] show ?thesis
    by (simp add: mem_new_def lastn_def)
qed

theorem log_polling_complete_witness:
  "mem_query (\<lambda>s. s) (log_filter_default\<lparr>lf_since_seq := Some 0\<rparr>) (fold mem_write [msg ''a''] (mem_new 2)) = [(msg ''a'')\<lparr>lr_seq := 1\<rparr>]"
  using log_polling_complete [OF mem_new_ok, of 2 "[msg ''a'']" "\<lambda>s. s"] by (simp add: mem_new_def)

theorem clear_filtered_exact_witness:
  "mem_query (\<lambda>s. s) (log_filter_default\<lparr>lf_level := Some Info\<rparr>)
     (mem_clear_filtered (\<lambda>s. s) (log_filter_default\<lparr>lf_level := Some Info\<rparr>) (mem_new 2)) = []"
  using clear_filtered_exact [OF mem_new_ok, of "log_filter_default\<lparr>lf_level := Some Info\<rparr>" "\<lambda>s. s" 2] by simp

lemma fresh_fb_ok: "fb_ok (file_new dir d mb fs_empty) fs_empty"
  by (simp add: fb_ok_def file_new_def current_log_size_def fs_len_def file_bytes_def) (simp add: fs_empty_def)

lemma fresh_roomy: "length (record_line J r) < 2 ^ 64 \<Longrightarrow> roomy J (file_new dir d mb fs_empty) [r]"
  by (simp add: roomy_def file_new_def current_log_size_def fs_len_def) (simp add: fs_empty_def)

definition no_json :: "log_record json" where
  "no_json = \<lparr>js_ser = \<lambda>r. Inl ''no'', js_de = \<lambda>b. Inl ''no''\<rparr>"

theorem file_log_complete_witness:
  "case fold (file_run no_json) [msg ''a''] (file_new [''l''] 7 100 fs_empty, fs_empty) of
     (fb', fs') \<Rightarrow> log_text fb' fs' = log_text (file_new [''l''] 7 100 fs_empty) fs_empty @ concat (map (record_line no_json) [msg ''a''])"
proof -
  obtain fb' fs' where f: "fold (file_run no_json) [msg ''a''] (file_new [''l''] 7 100 fs_empty, fs_empty) = (fb', fs')"
    by (metis surj_pair)
  have "roomy no_json (file_new [''l''] 7 100 fs_empty) [msg ''a'']"
    by (rule fresh_roomy) (simp add: record_line_def no_json_def)
  from file_log_complete [OF fresh_fb_ok this f] show ?thesis
    unfolding f by simp
qed

theorem file_size_bounded_witness:
  "case file_write no_json (msg ''a'') (file_new [''l''] 7 100 fs_empty) fs_empty of
     (fb', fs') \<Rightarrow> length (file_bytes fs' [''l'', ''hometier.log'']) \<le> 104857600"
proof -
  obtain fb' fs' where f: "file_write no_json (msg ''a'') (file_new [''l''] 7 100 fs_empty) fs_empty = (fb', fs')"
    by (metis surj_pair)
  have "roomy no_json (file_new [''l''] 7 100 fs_empty) [msg ''a'']"
    by (rule fresh_roomy) (simp add: record_line_def no_json_def)
  from file_size_bounded [OF fresh_fb_ok this f] show ?thesis
    unfolding f by (simp add: file_new_def log_path_def record_line_def no_json_def)
qed

definition disk :: "log_record list \<Rightarrow> log_record list option \<Rightarrow> fs" where
  "disk cur rolled = fs_empty\<lparr>fs_data :=
    (\<lambda>p. if p = log_path [''l''] then Some (concat (map (record_line record_json) cur))
         else if p = roll_file [''l''] 0 then map_option (\<lambda>rs. concat (map (record_line record_json) rs)) rolled
         else None)\<rparr>"

lemma disk_props:
  "fs_healthy (disk c r)" "fs_data (disk c r) (log_path [''l'']) = Some (concat (map (record_line record_json) c))"
  "fs_data (disk c r) (roll_file [''l''] 0) = map_option (\<lambda>rs. concat (map (record_line record_json) rs)) r"
  "fs_data (disk c r) (roll_file [''l''] 1) = None"
  by (simp_all add: disk_def) (simp add: fs_healthy_def fs_empty_def)

theorem load_recent_written_witness:
  "load_recent 5 record_json 1 (file_new [''l''] 7 100 fs_empty) (disk [msg ''a'', msg ''b''] None) = [msg ''b'']"
proof -
  have d: "fb_dir (file_new [''l''] 7 100 fs_empty) = [''l'']" by (simp add: file_new_def)
  show ?thesis
    using load_recent_written [OF record_json_ok disk_props(1), where fb = "file_new [''l''] 7 100 fs_empty"
        and rs = "[msg ''a'', msg ''b'']" and c1 = "[msg ''a'', msg ''b'']" and r1 = None and fuel = 5 and n = 1]
    by (simp add: d disk_props lastn_def)
qed

theorem load_recent_prefers_rolled_witness:
  "load_recent 5 record_json 1 (file_new [''l''] 7 100 fs_empty) (disk [msg ''new''] (Some [msg ''old''])) = [msg ''old'']"
proof -
  have d: "fb_dir (file_new [''l''] 7 100 fs_empty) = [''l'']" by (simp add: file_new_def)
  show ?thesis
    using load_recent_prefers_rolled [OF record_json_ok disk_props(1), where fb = "file_new [''l''] 7 100 fs_empty"
        and new = "[msg ''new'']" and old = "[msg ''old'']" and c1 = "[msg ''new'']" and r1 = "Some [msg ''old'']" and fuel = 5 and n = 1]
    by (simp add: d disk_props disk_props(4) [unfolded One_nat_def] lastn_def)
qed

theorem file_restart_overwrites_witness:
  "fs_data (snd (file_write no_json (msg ''x'') (file_new [''l''] 7 0 (disk [] (Some [msg ''old'']))) (disk [] (Some [msg ''old'']))))
     (roll_file [''l''] 0) = Some []"
  by (rule file_restart_overwrites [OF disk_props(1)])
    (simp_all add: disk_props file_new_def current_log_size_def fs_len_def record_line_def no_json_def)

end
