(* ===== verification/Log_Service.thy ===== *)
theory Log_Service
  imports Log_Backend Hash_Map
begin

text \<open>
  The dispatcher of \<open>log/backend.rs\<close> and the process-wide log interface, \<open>src-tauri/src/log/mod.rs\<close>.
  The state is the \<open>OnceLock\<close> with the back ends, the enabling flag, the thread's trace id, and what
  the back ends act on: the file system, standard output, the \<open>logger\<close> processes and the channels.
  Paths are valid UTF-8, so the fall-back directory of \<open>to_str\<close> is not reached.
\<close>

section \<open>The dispatcher\<close>

datatype backend =
  BMemory mem_backend | BForward forward_backend | BFile file_backend | BStdout stdout_backend | BSyslog string

record log_state =
  ls_global :: "backend list option"
  ls_enabled :: bool
  ls_trace :: "string option"
  ls_fs :: fs
  ls_out :: bytes
  ls_logger :: "string list list"
  ls_sent :: "(nat \<times> log_record) list"

definition backend_name :: "backend \<Rightarrow> string" where
  "backend_name b =
    (case b of BMemory _ \<Rightarrow> ''memory'' | BForward _ \<Rightarrow> ''forward'' | BFile _ \<Rightarrow> ''file''
     | BStdout _ \<Rightarrow> ''stdout'' | BSyslog _ \<Rightarrow> ''syslog'')"

fun backend_write :: "log_record json \<Rightarrow> log_record \<Rightarrow> backend \<Rightarrow> log_state \<Rightarrow> backend \<times> log_state" where
  "backend_write J r (BMemory b) st = (BMemory (mem_write r b), st)"
| "backend_write J r (BForward fw) st =
    (BForward fw, (case fw_tx fw of Some tx \<Rightarrow> st\<lparr>ls_sent := ls_sent st @ [(tx, r)]\<rparr> | None \<Rightarrow> st))"
| "backend_write J r (BFile fb) st =
    (let (fb', fs') = file_write J r fb (ls_fs st) in (BFile fb', st\<lparr>ls_fs := fs'\<rparr>))"
| "backend_write J r (BStdout so) st = (BStdout so, st\<lparr>ls_out := ls_out st @ stdout_line J so r\<rparr>)"
| "backend_write J r (BSyslog tag) st = (BSyslog tag, st\<lparr>ls_logger := ls_logger st @ [syslog_args tag r]\<rparr>)"

fun dispatch_write :: "log_record json \<Rightarrow> log_record \<Rightarrow> backend list \<Rightarrow> log_state \<Rightarrow> backend list \<times> log_state" where
  "dispatch_write J r [] st = ([], st)"
| "dispatch_write J r (b # bs) st =
    (let (b', st1) = backend_write J r b st; (bs', st2) = dispatch_write J r bs st1 in (b' # bs', st2))"

text \<open>\<open>OnceLock::set\<close> and \<open>get_or_init\<close>.\<close>

definition init_dispatch :: "backend list \<Rightarrow> log_state \<Rightarrow> log_state" where
  "init_dispatch d st = (case ls_global st of None \<Rightarrow> st\<lparr>ls_global := Some d\<rparr> | Some _ \<Rightarrow> st)"

definition default_dispatch :: "backend list" where
  "default_dispatch = [BMemory (mem_new 50000), BForward \<lparr>fw_tx = None\<rparr>]"

definition global_dispatch :: "log_state \<Rightarrow> backend list \<times> log_state" where
  "global_dispatch st =
    (case ls_global st of
       Some d \<Rightarrow> (d, st)
     | None \<Rightarrow> (default_dispatch, st\<lparr>ls_global := Some default_dispatch\<rparr>))"

definition dispatch_log ::
  "log_record json \<Rightarrow> string \<Rightarrow> log_level \<Rightarrow> string \<Rightarrow> string \<Rightarrow> string option \<Rightarrow> string option \<Rightarrow> log_state \<Rightarrow> log_state" where
  "dispatch_log J now level target message space_id trace_id st =
    (let record = log_record_new now level target message space_id trace_id;
         (d, st1) = global_dispatch st;
         (d', st2) = dispatch_write J record d st1
     in st2\<lparr>ls_global := Some d'\<rparr>)"

definition set_trace_id :: "string option \<Rightarrow> log_state \<Rightarrow> log_state" where
  "set_trace_id t st = st\<lparr>ls_trace := t\<rparr>"

definition get_trace_id :: "log_state \<Rightarrow> string option" where
  "get_trace_id st = ls_trace st"

section \<open>Set-up\<close>

record server_log_config =
  sl_level :: "string option"
  sl_targets :: "string option"
  sl_file_dir :: "string option"
  sl_file_retention_days :: "nat option"
  sl_file_max_size_mb :: "nat option"
  sl_json_output :: "bool option"
  sl_trace_header :: "string option"

definition server_log_config_default :: server_log_config where
  "server_log_config_default =
    \<lparr>sl_level = None, sl_targets = None, sl_file_dir = None, sl_file_retention_days = None,
     sl_file_max_size_mb = None, sl_json_output = None, sl_trace_header = None\<rparr>"

definition build_desktop_dispatch :: "path option \<Rightarrow> fs \<Rightarrow> backend list" where
  "build_desktop_dispatch log_dir fs =
    [BMemory (mem_new 50000), BForward \<lparr>fw_tx = None\<rparr>] @
    (case log_dir of Some dir \<Rightarrow> [BFile (file_new dir 7 100 fs)] | None \<Rightarrow> [])"

definition or_else :: "'a option \<Rightarrow> 'a \<Rightarrow> 'a" where
  "or_else x d = (case x of Some v \<Rightarrow> v | None \<Rightarrow> d)"

definition build_server_dispatch :: "path \<Rightarrow> server_log_config option \<Rightarrow> fs \<Rightarrow> backend list" where
  "build_server_dispatch cwd cfg fs =
    (let config = or_else cfg server_log_config_default;
         targets = or_else (sl_targets config) ''stdout,file,syslog'';
         file_dir = or_else (sl_file_dir config) ''/var/log/hometier'';
         retention_days = or_else (sl_file_retention_days config) 30;
         max_size_mb = or_else (sl_file_max_size_mb config) 100
     in (if contains_str targets ''stdout'' then [BStdout \<lparr>so_json = True\<rparr>] else []) @
        (if contains_str targets ''file'' then [BFile (file_new (path_join cwd file_dir) retention_days max_size_mb fs)] else []) @
        (if contains_str targets ''syslog'' then [BSyslog ''hometier''] else []))"

definition init_logger :: "path \<Rightarrow> string option \<Rightarrow> path option \<Rightarrow> server_log_config option \<Rightarrow> log_state \<Rightarrow> log_state" where
  "init_logger cwd mode log_dir server_config st =
    (let dispatch = (if or_else mode ''desktop'' = ''server'' then build_server_dispatch cwd server_config (ls_fs st)
                     else build_desktop_dispatch log_dir (ls_fs st))
     in init_dispatch dispatch st)"

text \<open>Updating the first back end of a kind, as the \<open>downcast_ref\<close> loops with \<open>break\<close> do.\<close>

fun on_forward :: "(forward_backend \<Rightarrow> forward_backend) \<Rightarrow> backend list \<Rightarrow> backend list" where
  "on_forward f [] = []"
| "on_forward f (BForward fw # bs) = BForward (f fw) # bs"
| "on_forward f (b # bs) = b # on_forward f bs"

fun on_memory :: "(mem_backend \<Rightarrow> mem_backend) \<Rightarrow> backend list \<Rightarrow> backend list" where
  "on_memory f [] = []"
| "on_memory f (BMemory b # bs) = BMemory (f b) # bs"
| "on_memory f (b # bs) = b # on_memory f bs"

fun first_memory :: "backend list \<Rightarrow> mem_backend option" where
  "first_memory [] = None"
| "first_memory (BMemory b # bs) = Some b"
| "first_memory (b # bs) = first_memory bs"

fun first_file :: "backend list \<Rightarrow> file_backend option" where
  "first_file [] = None"
| "first_file (BFile fb # bs) = Some fb"
| "first_file (b # bs) = first_file bs"

definition with_memory :: "(mem_backend \<Rightarrow> mem_backend) \<Rightarrow> log_state \<Rightarrow> log_state" where
  "with_memory f st = (let (d, st1) = global_dispatch st in st1\<lparr>ls_global := Some (on_memory f d)\<rparr>)"

definition from_memory :: "(mem_backend \<Rightarrow> 'a list) \<Rightarrow> log_state \<Rightarrow> 'a list \<times> log_state" where
  "from_memory f st =
    (let (d, st1) = global_dispatch st in (case first_memory d of Some b \<Rightarrow> f b | None \<Rightarrow> [], st1))"

definition init_forward :: "nat \<Rightarrow> log_state \<Rightarrow> log_state" where
  "init_forward tx st = (let (d, st1) = global_dispatch st in st1\<lparr>ls_global := Some (on_forward (forward_init tx) d)\<rparr>)"

definition set_log_enabled :: "bool \<Rightarrow> log_state \<Rightarrow> log_state" where
  "set_log_enabled e st = st\<lparr>ls_enabled := e\<rparr>"

definition is_log_enabled :: "log_state \<Rightarrow> bool" where
  "is_log_enabled st = ls_enabled st"

section \<open>Queries and maintenance\<close>

definition log_clear :: "log_state \<Rightarrow> log_state" where
  "log_clear st = with_memory mem_clear st"

definition log_get_all :: "log_level option \<Rightarrow> log_state \<Rightarrow> log_record list \<times> log_state" where
  "log_get_all lf st = from_memory (mem_get_all lf) st"

definition log_get_by_space :: "string \<Rightarrow> log_level option \<Rightarrow> log_state \<Rightarrow> log_record list \<times> log_state" where
  "log_get_by_space space_id lf st = from_memory (mem_get_by_space space_id lf) st"

definition log_query :: "(string \<Rightarrow> string) \<Rightarrow> log_filter \<Rightarrow> log_state \<Rightarrow> log_record list \<times> log_state" where
  "log_query lower f st = from_memory (mem_query lower f) st"

definition log_clear_filtered :: "(string \<Rightarrow> string) \<Rightarrow> log_filter \<Rightarrow> log_state \<Rightarrow> log_state" where
  "log_clear_filtered lower f st = with_memory (mem_clear_filtered lower f) st"

definition log_active_modules :: "(string list \<Rightarrow> string list) \<Rightarrow> log_state \<Rightarrow> string list \<times> log_state" where
  "log_active_modules ord st = from_memory (mem_active_modules ord) st"

definition restore_history :: "nat \<Rightarrow> log_record json \<Rightarrow> nat \<Rightarrow> log_state \<Rightarrow> log_state" where
  "restore_history fuel J n st =
    (let (d, st1) = global_dispatch st;
         records = (case first_file d of Some fb \<Rightarrow> load_recent fuel J n fb (ls_fs st1) | None \<Rightarrow> [])
     in if records = [] then st1 else st1\<lparr>ls_global := Some (on_memory (mem_restore records) d)\<rparr>)"

definition delete_log_files :: "nat \<Rightarrow> log_state \<Rightarrow> log_state" where
  "delete_log_files fuel st =
    (let (d, st1) = global_dispatch st
     in case first_file d of Some fb \<Rightarrow> st1\<lparr>ls_fs := delete_all fuel fb (ls_fs st1)\<rparr> | None \<Rightarrow> st1)"

definition export_line :: "log_record \<Rightarrow> string" where
  "export_line r =
    trim_end (lr_timestamp r @ '' ['' @ level_fmt (lr_level r) @ ''] ['' @ category_fmt (lr_category r) @ ''] ['' @
      lr_module r @ ''] '' @ or_else (lr_space_id r) [] @ '' '' @ lr_message r)"

text \<open>\<open>create_dir_all\<close> is the environment's answer \<open>mkdir\<close>; \<open>stamp\<close> is the formatted time of day.\<close>

definition export_to_dir ::
  "(log_record list \<Rightarrow> string + bytes) \<Rightarrow> (path \<Rightarrow> string option) \<Rightarrow> string \<Rightarrow> path \<Rightarrow> log_record list \<Rightarrow> string \<Rightarrow> fs \<Rightarrow>
   (string + path) \<times> fs" where
  "export_to_dir pretty mkdir stamp dir records format fs =
    (case (if format = ''json'' then pretty records else Inr (as_bytes (join [NL] (map export_line records)))) of
       Inl e \<Rightarrow> (Inl e, fs)
     | Inr body \<Rightarrow>
        (case mkdir dir of
           Some e \<Rightarrow> (Inl (utf8_text [229, 136, 155, 229, 187, 186, 229, 175, 188, 229, 135, 186, 231, 155, 174, 229, 189, 149, 229, 164, 177, 232, 180, 165] @ '': '' @ e), fs)
         | None \<Rightarrow>
            (let ext = (if format = ''json'' then ''json'' else ''txt'');
                 path = path_join dir (''logs_'' @ stamp @ ''.'' @ ext)
             in case fs_write path body fs of
                  (Inl e, fs') \<Rightarrow> (Inl (utf8_text [229, 134, 153, 229, 133, 165, 229, 175, 188, 229, 135, 186, 230, 150, 135, 228, 187, 182, 229, 164, 177, 232, 180, 165] @ '': '' @ e), fs')
                | (Inr _, fs') \<Rightarrow> (Inr path, fs'))))"

section \<open>Logging\<close>

definition log :: "log_record json \<Rightarrow> string \<Rightarrow> log_level \<Rightarrow> string \<Rightarrow> string \<Rightarrow> string option \<Rightarrow> log_state \<Rightarrow> log_state" where
  "log J now level md message space_id st =
    (if \<not> ls_enabled st then st
     else dispatch_log J now level md message space_id (get_trace_id st) st)"

text \<open>
  The macros \<open>log_info!\<close>, \<open>log_error!\<close>, \<open>log_warn!\<close> and \<open>log_debug!\<close> differ in the level only. Their third
  form, with a trace id, calls the dispatcher directly.
\<close>

datatype macro_args = Msg string | MsgSpace string string | MsgTrace string string string

fun log_macro :: "log_level \<Rightarrow> log_record json \<Rightarrow> string \<Rightarrow> string \<Rightarrow> macro_args \<Rightarrow> log_state \<Rightarrow> log_state" where
  "log_macro level J now module_path (Msg m) st = log J now level module_path m None st"
| "log_macro level J now module_path (MsgSpace m space) st = log J now level module_path m (Some space) st"
| "log_macro level J now module_path (MsgTrace m space trace) st =
    dispatch_log J now level module_path m (Some space) (Some trace) st"

text \<open>On Linux and macOS the message also goes to a \<open>logger\<close> process of its own.\<close>

definition log_system :: "log_record json \<Rightarrow> string \<Rightarrow> string \<Rightarrow> string \<Rightarrow> log_state \<Rightarrow> log_state" where
  "log_system J now tag message st =
    (let st1 = log_macro Error J now ''home_tier_lib::log'' (MsgSpace message tag) st
     in st1\<lparr>ls_logger := ls_logger st1 @ [[''-t'', ''homeTier['' @ tag @ '']'', ''-p'', ''user.err'', ''--'', message]]\<rparr>)"

definition init_file_logging :: "path \<Rightarrow> log_state \<Rightarrow> log_state" where
  "init_file_logging log_dir st =
    (let (d, st1) = global_dispatch st
     in if list_ex (\<lambda>b. backend_name b = ''file'') d then st1
        else init_dispatch [BMemory (mem_new 50000), BForward \<lparr>fw_tx = None\<rparr>, BFile (file_new log_dir 7 100 (ls_fs st1))] st1)"

section \<open>Lemmas\<close>

lemma dispatch_write_names: "map backend_name (fst (dispatch_write J r d st)) = map backend_name d"
proof (induction d arbitrary: st)
  case (Cons b d)
  then show ?case
    by (cases b) (simp_all add: case_prod_unfold Let_def backend_name_def)
qed simp

lemma dispatch_write_no_file:
  "''file'' \<notin> set (map backend_name d) \<Longrightarrow> ls_fs (snd (dispatch_write J r d st)) = ls_fs st"
proof (induction d arbitrary: st)
  case (Cons b d)
  then show ?case
    by (cases b) (simp_all add: case_prod_unfold Let_def backend_name_def split: option.split)
qed simp

lemma dispatch_write_memory:
  "first_memory (fst (dispatch_write J r d st)) = map_option (mem_write r) (first_memory d)"
proof (induction d arbitrary: st)
  case (Cons b d)
  then show ?case by (cases b) (simp_all add: case_prod_unfold Let_def)
qed simp

lemma dispatch_log_memory:
  assumes "ls_global st = Some d"
  shows "\<exists>d'. ls_global (dispatch_log J now lv tg m sp tr st) = Some d' \<and>
    first_memory d' = map_option (mem_write (log_record_new now lv tg m sp tr)) (first_memory d)"
  using assms by (simp add: dispatch_log_def global_dispatch_def case_prod_unfold Let_def dispatch_write_memory)

definition no_file :: "log_state \<Rightarrow> bool" where
  "no_file st \<longleftrightarrow> (\<exists>d. ls_global st = Some d \<and> ''file'' \<notin> set (map backend_name d))"

lemma log_no_file: "no_file st \<Longrightarrow> no_file (log J now lv md m sp st) \<and> ls_fs (log J now lv md m sp st) = ls_fs st"
proof -
  assume "no_file st"
  then obtain d where d: "ls_global st = Some d" "''file'' \<notin> set (map backend_name d)"
    unfolding no_file_def by blast
  have "''file'' \<notin> set (map backend_name (fst (dispatch_write J r d s)))" for r s
    using d(2) by (metis dispatch_write_names)
  with d show ?thesis
    using dispatch_write_no_file [OF d(2)]
    by (simp add: log_def dispatch_log_def global_dispatch_def no_file_def case_prod_unfold Let_def)
qed

definition log_call :: "log_record json \<Rightarrow> string \<times> log_level \<times> string \<times> string \<times> string option \<Rightarrow> log_state \<Rightarrow> log_state" where
  "log_call J c st = (case c of (now, lv, md, m, sp) \<Rightarrow> log J now lv md m sp st)"

lemma log_calls_no_file: "no_file st \<Longrightarrow> ls_fs (fold (log_call J) calls st) = ls_fs st"
  by (induction calls arbitrary: st) (simp_all add: log_call_def log_no_file case_prod_unfold)

section \<open>Properties\<close>

text \<open>
  What is logged can be queried: with logging enabled and a memory back end, a call of \<open>log\<close>
  appends the record with the thread's trace id and the next sequence number to what \<open>get_all\<close>
  returns, the oldest record giving way when the buffer is full.
\<close>

theorem log_then_get_all:
  assumes "ls_enabled st" and "ls_global st = Some d" and "first_memory d = Some b"
  shows "fst (log_get_all None (log J now lv md m sp st)) =
    lastn (mb_max b) (mb_store b @ [(log_record_new now lv md m sp (ls_trace st))\<lparr>lr_seq := mb_seq b\<rparr>])"
proof -
  obtain d' where "ls_global (dispatch_log J now lv md m sp (ls_trace st) st) = Some d'"
    "first_memory d' = Some (mem_write (log_record_new now lv md m sp (ls_trace st)) b)"
    using dispatch_log_memory [OF assms(2)] assms(3) by fastforce
  then show ?thesis
    using assms(1) by (simp add: log_def get_trace_id_def log_get_all_def from_memory_def global_dispatch_def mem_get_all_def mb.items_push)
qed

text \<open>
  \<open>init_file_logging\<close> never starts file logging. It asks for the global dispatcher first, which
  initialises it without a file back end, so its own \<open>init_dispatch\<close> comes too late and no later
  log call writes a file.
\<close>

theorem init_file_logging_inert:
  assumes "ls_global st = None"
  shows "ls_fs (fold (log_call J) calls (init_file_logging dir st)) = ls_fs st"
proof -
  have "init_file_logging dir st = st\<lparr>ls_global := Some default_dispatch\<rparr>"
    using assms by (simp add: init_file_logging_def global_dispatch_def init_dispatch_def default_dispatch_def backend_name_def)
  moreover have "no_file (st\<lparr>ls_global := Some default_dispatch\<rparr>)"
    by (simp add: no_file_def default_dispatch_def backend_name_def)
  ultimately show ?thesis
    using log_calls_no_file by fastforce
qed

text \<open>
  The switch does not stop every log call: while logging is disabled the plain macro forms
  change nothing, but the form with a trace id still appends its record.
\<close>

theorem log_switch_bypassed:
  assumes "\<not> ls_enabled st" and "ls_global st = Some d" and "first_memory d = Some b"
  shows "log_macro lv J now mp (Msg m) st = st \<and> log_macro lv J now mp (MsgSpace m sp) st = st \<and>
    (\<exists>d'. ls_global (log_macro lv J now mp (MsgTrace m sp tr) st) = Some d' \<and>
       first_memory d' = Some (mem_write (log_record_new now lv mp m (Some sp) (Some tr)) b))"
  using assms dispatch_log_memory [OF assms(2), of J now lv mp m "Some sp" "Some tr"] by (simp add: log_def)

text \<open>
  Restoring history resets the counter: the records of a log file all carry sequence number 0,
  so after \<open>restore\<close> the counter is 1 again and the next record written gets number 1, also when
  the buffer already holds records with that number.
\<close>

theorem restore_resets_counter:
  assumes "rs \<noteq> []" and "\<forall>r \<in> set rs. lr_seq r = 0" and "0 < mb_max b"
  shows "mb_seq (mem_restore rs b) = 1 \<and> lr_seq (last (mb_store (mem_write r (mem_restore rs b)))) = 1"
proof -
  have "sort_key lr_seq rs = rs" using assms(2) by (rule sort_key_const)
  then have s: "mb_seq (mem_restore rs b) = 1"
    using assms by (simp add: mem_restore_def Let_def)
  have "mb_max (mem_restore rs b) = mb_max b"
    by (simp add: mem_restore_def Let_def)
  then show ?thesis
    using s assms(3) by (simp add: mb.items_push lastn_append_short)
qed

section \<open>Concrete inputs\<close>

definition desktop :: log_state where
  "desktop = init_logger [] None None None
     \<lparr>ls_global = None, ls_enabled = True, ls_trace = Some ''t1'', ls_fs = fs_empty, ls_out = [], ls_logger = [], ls_sent = []\<rparr>"

lemma desktop_global: "ls_global desktop = Some default_dispatch" "ls_enabled desktop" "ls_trace desktop = Some ''t1''"
  by (simp_all add: desktop_def init_logger_def or_else_def init_dispatch_def build_desktop_dispatch_def default_dispatch_def)

lemma default_memory: "first_memory default_dispatch = Some (mem_new 50000)"
  by (simp add: default_dispatch_def)

theorem log_then_get_all_witness:
  "fst (log_get_all None (log record_json ''now'' Info ''crate::chat'' ''hi'' None desktop)) =
     [(log_record_new ''now'' Info ''crate::chat'' ''hi'' None (Some ''t1''))\<lparr>lr_seq := 1\<rparr>]"
  using log_then_get_all [OF desktop_global(2,1) default_memory, of record_json "''now''" Info "''crate::chat''" "''hi''" None]
  by (simp add: mem_new_def desktop_global)

theorem init_file_logging_inert_witness:
  "ls_fs (fold (log_call record_json) [(''now'', Error, ''m'', ''lost'', None)]
     (init_file_logging [''logs''] (desktop\<lparr>ls_global := None\<rparr>))) = fs_empty"
  using init_file_logging_inert [of "desktop\<lparr>ls_global := None\<rparr>" record_json "[(''now'', Error, ''m'', ''lost'', None)]" "[''logs'']"]
  by (simp add: desktop_def init_logger_def or_else_def init_dispatch_def)

theorem log_switch_bypassed_witness:
  "log_macro Info record_json ''now'' ''m'' (Msg ''x'') (set_log_enabled False desktop) = set_log_enabled False desktop \<and>
   (\<exists>d'. ls_global (log_macro Info record_json ''now'' ''m'' (MsgTrace ''x'' ''s'' ''t'') (set_log_enabled False desktop)) = Some d' \<and>
       first_memory d' = Some (mem_write (log_record_new ''now'' Info ''m'' ''x'' (Some ''s'') (Some ''t'')) (mem_new 50000)))"
  using log_switch_bypassed [of "set_log_enabled False desktop" default_dispatch "mem_new 50000"]
  by (simp add: set_log_enabled_def desktop_global default_memory)

theorem restore_resets_counter_witness:
  "map lr_seq (mb_store (mem_write (msg ''n'') (mem_restore [msg ''h''] (mem_write (msg ''a'') (mem_new 5))))) = [1, 0, 1]"
proof -
  have "mb_seq (mem_restore [msg ''h''] (mem_write (msg ''a'') (mem_new 5))) = 1"
    using restore_resets_counter [of "[msg ''h'']" "mem_write (msg ''a'') (mem_new 5)"] by (simp add: mem_write_def mem_new_def Let_def)
  then show ?thesis
    by (simp add: mem_write_def mem_restore_def mem_new_def Let_def pop_excess_lastn lastn_def)
qed

end
