(* ===== verification/Url_Rewriter.thy ===== *)
theory Url_Rewriter
  imports Rust_Str
begin

text \<open>
  The rewriting of sub-resource URLs in proxied pages, \<open>src-tauri/src/proxy/rewriter.rs\<close>. Regular
  expressions are matched by the crate \<open>regex\<close>: the argument \<open>rx\<close> cuts a text, for each rule, into
  literal pieces and matches with their capture groups, and \<open>replace_all\<close> puts it together again.
  A group that a rule unwraps takes part in every match of its expression. \<open>to_lowercase\<close>,
  \<open>urlencoding::encode\<close> and the character sets are arguments too.
\<close>

section \<open>Classification\<close>

datatype rewrite_target = Html | Css | Js | NoRewrite

definition classify_content :: "(string \<Rightarrow> string) \<Rightarrow> string \<Rightarrow> rewrite_target" where
  "classify_content lower content_type =
    (let ct = lower content_type in
     if contains_str ct ''text/html'' then Html
     else if contains_str ct ''text/css'' then Css
     else if contains_str ct ''javascript'' then Js
     else NoRewrite)"

text \<open>\<open>charset\<close> is the first capture of \<open>charset\\s*=\\s*([^\\s;]+)\<close>, \<open>for_label\<close> the label table.\<close>

definition detect_charset :: "(string \<Rightarrow> string option) \<Rightarrow> (string \<Rightarrow> 'enc option) \<Rightarrow> 'enc \<Rightarrow> string \<Rightarrow> 'enc" where
  "detect_charset charset for_label utf8 content_type =
    (case charset content_type of
       None \<Rightarrow> utf8
     | Some label \<Rightarrow> (case for_label label of None \<Rightarrow> utf8 | Some e \<Rightarrow> e))"

section \<open>URLs\<close>

definition extract_origin :: "string \<Rightarrow> string" where
  "extract_origin url =
    (case find_str ''://'' url of
       Some pos \<Rightarrow>
         (case find_char (CHR ''/'') (drop (pos + 3) url) of
            Some slash \<Rightarrow> take (pos + 3 + slash) url
          | None \<Rightarrow> url)
     | None \<Rightarrow> url)"

text \<open>\<open>trim_end_matches('/')\<close>\<close>

definition trim_end_slash :: "string \<Rightarrow> string" where
  "trim_end_slash s = rev (dropWhile (\<lambda>c. c = CHR ''/'') (rev s))"

definition base_origin :: "string \<Rightarrow> string" where
  "base_origin base_url =
    (case find_str ''://'' base_url of
       Some pos \<Rightarrow>
         (case find_char (CHR ''/'') (drop (pos + 3) base_url) of
            Some path_start \<Rightarrow> take (pos + 3 + path_start) base_url
          | None \<Rightarrow> base_url)
     | None \<Rightarrow> trim_end_slash base_url)"

record rewriter =
  rw_base_url :: string
  rw_prefix :: string
  rw_key :: string
  rw_urlenc :: "string \<Rightarrow> string"

definition encode_proxy :: "rewriter \<Rightarrow> string \<Rightarrow> string" where
  "encode_proxy W url =
    (if rw_key W = [] then rw_prefix W @ ''/proxy?url='' @ rw_urlenc W url
     else if extract_origin url = base_origin (rw_base_url W)
     then rw_prefix W @ ''/__proxy__'' @ rw_key W @ drop (length (base_origin (rw_base_url W))) url
     else rw_prefix W @ ''/__proxy__'' @ rw_key W @ ''?url='' @ rw_urlenc W url)"

definition is_absolute :: "string \<Rightarrow> bool" where
  "is_absolute url \<longleftrightarrow> starts_with url ''http://'' \<or> starts_with url ''https://'' \<or> starts_with url ''//''"

definition resolve_url :: "rewriter \<Rightarrow> string \<Rightarrow> string" where
  "resolve_url W url =
    (let base_url = rw_base_url W in
     if starts_with url ''http://'' \<or> starts_with url ''https://'' then url
     else if starts_with url ''//'' then (if starts_with base_url ''https'' then ''https:'' else ''http:'') @ url
     else if starts_with url ''/'' then base_origin base_url @ url
     else
       (let base_dir =
          (if ends_with base_url ''/'' then base_url
           else
             (let path_start = (case find_str ''://'' base_url of Some p \<Rightarrow> p + 3 | None \<Rightarrow> 0);
                  after_host = drop path_start base_url
              in case rfind_char (CHR ''/'') after_host of
                   Some pos \<Rightarrow> take (path_start + pos + 1) base_url
                 | None \<Rightarrow> base_url @ ''/''))
        in base_dir @ url))"

definition skip_proxied :: "rewriter \<Rightarrow> string \<Rightarrow> bool" where
  "skip_proxied W url \<longleftrightarrow>
     starts_with url (rw_prefix W) \<or> contains_str url ''/proxy?url='' \<or> contains_str url ''/__proxy__''"

section \<open>The decision for one URL\<close>

text \<open>The attribute and style sheet rules rewrite every reference without a foreign scheme.\<close>

definition markup_url :: "rewriter \<Rightarrow> string \<Rightarrow> string" where
  "markup_url W url =
    (if skip_proxied W url then url
     else if starts_with url ''http://'' \<or> starts_with url ''https://'' \<or> starts_with url ''//'' \<or> starts_with url ''/''
          \<or> \<not> contains_str url ''://''
     then (let absolute = resolve_url W url in if is_absolute absolute then encode_proxy W absolute else url)
     else url)"

text \<open>The script rules leave bare module names alone.\<close>

definition script_url :: "rewriter \<Rightarrow> string \<Rightarrow> string" where
  "script_url W url =
    (if skip_proxied W url then url
     else if starts_with url ''/'' \<or> starts_with url ''http://'' \<or> starts_with url ''https://'' \<or> starts_with url ''//''
          \<or> starts_with url ''./'' \<or> starts_with url ''../''
     then (let absolute = resolve_url W url in if is_absolute absolute then encode_proxy W absolute else url)
     else url)"

section \<open>The rules\<close>

datatype rule = Attr | Srcset | CssUrl | CssImport | MetaCharset | MetaHttpEquiv
| JsModule | JsFunc | JsWorker | JsXhr | DynamicImport

datatype piece = Lit string | Hit "string option list"

type_synonym matcher = "rule \<Rightarrow> string \<Rightarrow> piece list"

definition cap :: "string option list \<Rightarrow> nat \<Rightarrow> string" where
  "cap caps i = (case caps ! (i - 1) of Some s \<Rightarrow> s | None \<Rightarrow> [])"

definition replace_all :: "matcher \<Rightarrow> rule \<Rightarrow> (string option list \<Rightarrow> string) \<Rightarrow> string \<Rightarrow> string" where
  "replace_all rx r f s = concat (map (\<lambda>p. case p of Lit t \<Rightarrow> t | Hit caps \<Rightarrow> f caps) (rx r s))"

definition DQ :: string where "DQ = [CHR 0x22]"
definition SQ :: string where "SQ = [CHR 0x27]"

text \<open>A rule with two alternatives, double or single quotes: \<open>(prefix)"(value)"|(prefix)'(value)'\<close>.\<close>

definition quoted :: "(string \<Rightarrow> string) \<Rightarrow> string option list \<Rightarrow> string" where
  "quoted f caps =
    (let double_quoted = caps ! 1 \<noteq> None;
         (prefix, value, quote) = (if double_quoted then (cap caps 1, cap caps 2, DQ) else (cap caps 3, cap caps 4, SQ))
     in prefix @ quote @ f value @ quote)"

text \<open>\<open>splitn(2, char::is_whitespace)\<close>\<close>

fun splitn2_ws :: "string \<Rightarrow> string \<times> string option" where
  "splitn2_ws [] = ([], None)"
| "splitn2_ws (c # s) =
    (if ws_front (c # s) > 0 then ([], Some (drop (ws_front (c # s)) (c # s)))
     else (let (w, r) = splitn2_ws s in (c # w, r)))"

definition srcset_part :: "rewriter \<Rightarrow> string \<Rightarrow> string" where
  "srcset_part W part0 =
    (let part = trim part0;
         (first, rest) = splitn2_ws part;
         url = trim first;
         descriptor = (case rest of Some d \<Rightarrow> d | None \<Rightarrow> [])
     in if skip_proxied W url then part
        else if starts_with url ''http://'' \<or> starts_with url ''https://'' \<or> starts_with url ''//'' \<or> starts_with url ''/''
             \<or> \<not> contains_str url ''://''
        then (let absolute = resolve_url W url in
              if is_absolute absolute
              then (if descriptor = [] then encode_proxy W absolute else encode_proxy W absolute @ '' '' @ descriptor)
              else part)
        else part)"

definition srcset_value :: "rewriter \<Rightarrow> string \<Rightarrow> string" where
  "srcset_value W value = join '', '' (map (srcset_part W) (split_str '','' value))"

definition rewrite_attrs :: "matcher \<Rightarrow> rewriter \<Rightarrow> string \<Rightarrow> string" where
  "rewrite_attrs rx W s = replace_all rx Srcset (quoted (srcset_value W)) (replace_all rx Attr (quoted (markup_url W)) s)"

definition rewrite_css :: "matcher \<Rightarrow> rewriter \<Rightarrow> string \<Rightarrow> string" where
  "rewrite_css rx W s =
    replace_all rx CssImport (quoted (markup_url W))
      (replace_all rx CssUrl (\<lambda>caps. ''url('' @ markup_url W (trim (cap caps 1)) @ '')'') s)"

definition rewrite_meta :: "matcher \<Rightarrow> string \<Rightarrow> string" where
  "rewrite_meta rx s =
    replace_all rx MetaHttpEquiv (\<lambda>caps. cap caps 1 @ ''UTF-8'')
      (replace_all rx MetaCharset (\<lambda>caps. cap caps 1 @ ''UTF-8'' @ cap caps 3) s)"

definition script_hit :: "rewriter \<Rightarrow> string option list \<Rightarrow> string" where
  "script_hit W caps = cap caps 1 @ script_url W (cap caps 2) @ cap caps 3"

definition rewrite_scripts :: "matcher \<Rightarrow> rewriter \<Rightarrow> string \<Rightarrow> string" where
  "rewrite_scripts rx W s =
    fold (\<lambda>r. replace_all rx r (script_hit W)) [JsModule, JsFunc, JsWorker, JsXhr, DynamicImport] s"

text \<open>\<open>replacen(from, to, 1)\<close>\<close>

definition replace_first :: "string \<Rightarrow> string \<Rightarrow> string \<Rightarrow> string" where
  "replace_first from to s =
    (case find_str from s of Some i \<Rightarrow> take i s @ to @ drop (i + length from) s | None \<Rightarrow> s)"

definition inject_base :: "rewriter \<Rightarrow> string \<Rightarrow> string" where
  "inject_base W s =
    (let base_tag = ''<base href='' @ DQ @ rw_prefix W @ ''/__proxy__'' @ rw_key W @ ''/'' @ DQ @ ''>''
     in replace_first ''<head>'' (''<head>'' @ base_tag) s)"

definition rewrite_urls :: "matcher \<Rightarrow> rewriter \<Rightarrow> rewrite_target \<Rightarrow> string \<Rightarrow> string" where
  "rewrite_urls rx W target content =
    (let result = content;
         result = (if target = Html then rewrite_attrs rx W result else result);
         result = (if target = Html \<or> target = Css then rewrite_css rx W result else result);
         result = (if target = Html then rewrite_meta rx result else result);
         result = rewrite_scripts rx W result
     in if target = Html \<and> rw_key W \<noteq> [] then inject_base W result else result)"

section \<open>Stability\<close>

text \<open>A rewriting of URLs that leaves alone what it recognises as its own output.\<close>

locale url_rewriting =
  fixes rewrite :: "string \<Rightarrow> string"
    and own :: "string \<Rightarrow> bool"
  assumes own_fixed: "own u \<Longrightarrow> rewrite u = u"
    and own_or_same: "own (rewrite u) \<or> rewrite u = u"
begin

lemma idem: "rewrite (rewrite u) = rewrite u"
  using own_or_same [of u] own_fixed by auto

lemma idem_list: "map rewrite (map rewrite us) = map rewrite us"
  by (simp add: idem)

end

lemma starts_with_append [simp]: "starts_with (p @ s) p"
  by (simp add: starts_with_iff)

lemma encode_proxy_own: "skip_proxied W (encode_proxy W url)"
  by (simp add: skip_proxied_def encode_proxy_def)

interpretation markup: url_rewriting "markup_url W" "skip_proxied W" for W
  by unfold_locales (auto simp: markup_url_def Let_def encode_proxy_own)

interpretation script: url_rewriting "script_url W" "skip_proxied W" for W
  by unfold_locales (auto simp: script_url_def Let_def encode_proxy_own)

section \<open>Origins\<close>

definition http_base :: "string \<Rightarrow> bool" where
  "http_base b \<longleftrightarrow> starts_with b ''http://'' \<or> starts_with b ''https://''"

lemma http_baseE:
  assumes "http_base b"
  obtains sch r where "sch \<in> {''http://'', ''https://''}" "b = sch @ r"
  using assms unfolding http_base_def starts_with_iff by blast

lemma find_scheme: "sch \<in> {''http://'', ''https://''} \<Longrightarrow> find_str ''://'' (sch @ r) = Some (length sch - 3)"
  by auto

lemma find_char_take: "find_char c s = Some i \<Longrightarrow> \<exists>h t. s = h @ c # t \<and> c \<notin> set h \<and> i = length h"
proof -
  assume "find_char c s = Some i"
  note f = find_char_Some [OF this]
  then have "s = take i s @ c # drop (Suc i) s" by (metis id_take_nth_drop)
  with f show ?thesis by (metis length_take min.absorb4)
qed

lemma base_origin_split:
  assumes "sch \<in> {''http://'', ''https://''}" and "b = sch @ r"
  shows "\<exists>h t. r = h @ t \<and> base_origin b = sch @ h \<and> CHR ''/'' \<notin> set h \<and> (t = [] \<or> (\<exists>u. t = CHR ''/'' # u))"
proof -
  have l: "length sch - 3 + 3 = length sch" using assms(1) by auto
  show ?thesis
  proof (cases "find_char (CHR ''/'') r")
    case None
    have "base_origin b = sch @ r"
      using find_scheme [OF assms(1), of r] l by (simp add: base_origin_def assms(2) None)
    moreover have "CHR ''/'' \<notin> set r" using None by simp
    ultimately show ?thesis by (metis append_Nil2)
  next
    case (Some i)
    then obtain h t where r: "r = h @ CHR ''/'' # t" "CHR ''/'' \<notin> set h" "i = length h"
      using find_char_take by blast
    have "base_origin b = sch @ h"
      using find_scheme [OF assms(1), of r] l Some by (simp add: base_origin_def assms(2) r)
    with r show ?thesis by blast
  qed
qed

lemma extract_origin_root:
  assumes "sch \<in> {''http://'', ''https://''}" and "CHR ''/'' \<notin> set h"
  shows "extract_origin (sch @ h @ CHR ''/'' # t) = sch @ h"
proof -
  have "length sch - 3 + 3 = length sch" using assms(1) by auto
  then show ?thesis
    using find_scheme [OF assms(1), of "h @ CHR ''/'' # t"] find_char_append [OF assms(2), of t]
    by (simp add: extract_origin_def)
qed

lemma extract_origin_prefix: "\<exists>p. url = extract_origin url @ p"
  unfolding extract_origin_def by (auto split: option.split) (metis append_take_drop_id)+

section \<open>Properties\<close>

text \<open>
  Rewriting is stable: a URL that a rule has rewritten is recognised as proxied and left alone
  when the page, or a fragment of it, passes through the rewriter again.
\<close>

theorem rewriting_idempotent:
  "markup_url W (markup_url W url) = markup_url W url \<and> script_url W (script_url W url) = script_url W url"
  using markup.idem script.idem by simp

text \<open>
  Below an \<open>http\<close> or \<open>https\<close> page every reference resolves to an absolute URL, so nothing the
  rules select slips past the proxy.
\<close>

theorem references_resolve:
  assumes "http_base (rw_base_url W)"
  shows "is_absolute (resolve_url W url)"
proof -
  from assms obtain sch r where s: "sch \<in> {''http://'', ''https://''}" and b: "rw_base_url W = sch @ r"
    by (rule http_baseE)
  have abs: "is_absolute (sch @ x)" for x
    using s unfolding is_absolute_def by auto
  obtain h t where o: "base_origin (rw_base_url W) = sch @ h"
    using base_origin_split [OF s b] by blast
  have l: "length sch - 3 + 3 = length sch" using s by auto
  let ?dir = "case rfind_char (CHR ''/'') (drop (length sch) (rw_base_url W)) of
      Some pos \<Rightarrow> take (length sch + pos + 1) (rw_base_url W) | None \<Rightarrow> rw_base_url W @ ''/''"
  have dir: "is_absolute (?dir @ url)"
    using abs by (simp add: b split: option.split)
  have rel: "is_absolute (''https:'' @ url)" "is_absolute (''http:'' @ url)" if "starts_with url ''//''"
    using that by (auto simp: is_absolute_def starts_with_iff)
  have fs: "find_str ''://'' (rw_base_url W) = Some (length sch - 3)"
    using find_scheme [OF s, of r] by (simp add: b)
  have own: "is_absolute (base_origin (rw_base_url W) @ url)" "is_absolute (rw_base_url W @ url)"
    unfolding o using abs by (simp_all add: b)
  consider "starts_with url ''http://'' \<or> starts_with url ''https://''"
    | "\<not> (starts_with url ''http://'' \<or> starts_with url ''https://'')" "starts_with url ''//''"
    | "\<not> (starts_with url ''http://'' \<or> starts_with url ''https://'')" "\<not> starts_with url ''//''"
    by blast
  then show ?thesis
  proof cases
    case 1
    then show ?thesis unfolding resolve_url_def Let_def by (auto simp: is_absolute_def)
  next
    case 2
    then show ?thesis using rel [OF 2(2)] unfolding resolve_url_def Let_def by simp
  next
    case 3
    then show ?thesis using own dir unfolding resolve_url_def Let_def fs option.case(2) l by simp
  qed
qed

text \<open>
  A root-relative reference of a page goes through the page's own proxy path: it becomes the
  prefix, \<open>/__proxy__\<close> with the key, and the reference itself, from which the host's origin
  followed by the reference is recovered.
\<close>

theorem root_relative_rewritten:
  assumes "http_base (rw_base_url W)" and "rw_key W \<noteq> []" and "url = CHR ''/'' # p" and "\<not> starts_with p ''/''"
    and "\<not> skip_proxied W url"
  shows "markup_url W url = rw_prefix W @ ''/__proxy__'' @ rw_key W @ url \<and>
    resolve_url W url = base_origin (rw_base_url W) @ url"
proof -
  from assms(1) obtain sch r where s: "sch \<in> {''http://'', ''https://''}" and b: "rw_base_url W = sch @ r"
    by (rule http_baseE)
  obtain h where o: "base_origin (rw_base_url W) = sch @ h" and h: "CHR ''/'' \<notin> set h"
    using base_origin_split [OF s b] by blast
  have res: "resolve_url W url = base_origin (rw_base_url W) @ url"
    using assms(3,4) by (cases p) (simp_all add: resolve_url_def Let_def)
  have "extract_origin (resolve_url W url) = base_origin (rw_base_url W)"
    unfolding res unfolding o assms(3) using extract_origin_root [OF s h, of p] by simp
  moreover have "is_absolute (resolve_url W url)"
    using s unfolding res o is_absolute_def by auto
  ultimately show ?thesis
    using assms(2,3,5) res by (simp add: markup_url_def encode_proxy_def)
qed

definition fetch_text :: string where "fetch_text = ''fetch('' @ SQ @ ''/x'' @ SQ @ '')''"

definition fetch_matcher :: matcher where
  "fetch_matcher r s =
    (if r = JsFunc \<and> s = fetch_text
     then [Hit [Some (''fetch('' @ SQ), Some ''/x'', Some SQ], Lit '')''] else [Lit s])"

definition sample_rewriter :: rewriter where
  "sample_rewriter = \<lparr>rw_base_url = ''http://a.example/p/index.html'', rw_prefix = ''http://127.0.0.1:9'', rw_key = ''k1'', rw_urlenc = \<lambda>s. s\<rparr>"

text \<open>
  The documentation promises that content classified as \<open>None\<close> is not rewritten and that style
  sheets only get the CSS rules, but the script rules run for every target: \<open>fetch('/x')\<close> in a
  resource of any type is redirected through the proxy.
\<close>

theorem scripts_rewritten_for_every_target:
  "\<forall>target. target \<noteq> Html \<longrightarrow>
     rewrite_urls fetch_matcher sample_rewriter target fetch_text =
     ''fetch('' @ SQ @ ''http://127.0.0.1:9/__proxy__k1/x'' @ SQ @ '')''"
proof (intro allI impI)
  fix target :: rewrite_target
  assume t: "target \<noteq> Html"
  have none: "replace_all fetch_matcher r f s = s" if "r \<noteq> JsFunc" for r f s
    using that by (simp add: replace_all_def fetch_matcher_def)
  have u: "script_url sample_rewriter ''/x'' = ''http://127.0.0.1:9/__proxy__k1/x''"
    by (simp add: script_url_def sample_rewriter_def skip_proxied_def resolve_url_def base_origin_def is_absolute_def
        encode_proxy_def extract_origin_def)
  have hit: "replace_all fetch_matcher JsFunc (script_hit sample_rewriter) fetch_text =
      ''fetch('' @ SQ @ ''http://127.0.0.1:9/__proxy__k1/x'' @ SQ @ '')''"
    using u by (simp add: replace_all_def fetch_matcher_def script_hit_def cap_def)
  show "rewrite_urls fetch_matcher sample_rewriter target fetch_text = ''fetch('' @ SQ @ ''http://127.0.0.1:9/__proxy__k1/x'' @ SQ @ '')''"
    using t by (simp add: rewrite_urls_def rewrite_css_def rewrite_scripts_def none hit Let_def)
qed

section \<open>Concrete inputs\<close>

theorem references_resolve_witness: "is_absolute (resolve_url sample_rewriter ''img/a.png'')"
  by (rule references_resolve) (simp add: http_base_def sample_rewriter_def)

theorem root_relative_rewritten_witness:
  "markup_url sample_rewriter ''/img/a.png'' = ''http://127.0.0.1:9/__proxy__k1/img/a.png''"
  using root_relative_rewritten [of sample_rewriter "''/img/a.png''" "''img/a.png''"]
  by (simp add: http_base_def sample_rewriter_def skip_proxied_def)

theorem scripts_rewritten_for_every_target_witness:
  "rewrite_urls fetch_matcher sample_rewriter NoRewrite fetch_text =
   ''fetch('' @ SQ @ ''http://127.0.0.1:9/__proxy__k1/x'' @ SQ @ '')''"
  using scripts_rewritten_for_every_target by blast

end
