(* ===== verification/Network_Config.thy ===== *)
theory Network_Config
  imports Rust_Str Hash_Map
begin

text \<open>
  The network configuration of a space, \<open>src-tauri/src/easytier/config.rs\<close>: the record the front
  end edits, its defaults and parsing, the proxy subnets it advertises, and its translation into
  EasyTier's \<open>TomlConfigLoader\<close>. URLs and CIDRs are kept in the text form their parsers
  (the crates \<open>url\<close> and \<open>cidr\<close>) print; those parsers, address resolution and UUIDs are the
  \<open>net_lib\<close> argument. The ACL, an arbitrary JSON value, is kept as text.
\<close>

section \<open>The configuration record\<close>

record port_forward_config =
  pf_bind_ip :: string
  pf_bind_port :: u16
  pf_dst_ip :: string
  pf_dst_port :: u16
  pf_proto :: string

record peer_config =
  pc_uri :: string
  pc_peer_public_key :: "string option"

record proxy_network_config =
  pn_cidr :: string
  pn_mapped_cidr :: "string option"
  pn_allow :: "string list option"

record log_config =
  lc_level :: "string option"
  lc_file :: "string option"
  lc_dir :: "string option"
  lc_size_mb :: "u32 option"
  lc_count :: "u32 option"

record network_config =
  nc_instance_id :: string
  nc_instance_name :: "string option"
  nc_dhcp :: bool
  nc_virtual_ipv4 :: string
  nc_network_length :: u8
  nc_ipv4 :: "string option"
  nc_ipv6 :: "string option"
  nc_hostname :: "string option"
  nc_network_name :: string
  nc_network_secret :: string
  nc_credential_file :: "string option"
  nc_networking_method :: int
  nc_public_server_url :: string
  nc_peer_urls :: "string list"
  nc_proxy_cidrs :: "string list"
  nc_enable_vpn_portal :: bool
  nc_vpn_portal_listen_port :: u16
  nc_vpn_portal_client_network_addr :: string
  nc_vpn_portal_client_network_len :: u8
  nc_listener_urls :: "string list"
  nc_mapped_listeners :: "string list"
  nc_latency_first :: bool
  nc_dev_name :: string
  nc_use_smoltcp :: bool
  nc_disable_ipv6 :: bool
  nc_ipv6_public_addr_provider :: "bool option"
  nc_ipv6_public_addr_auto :: "bool option"
  nc_ipv6_public_addr_prefix :: "string option"
  nc_enable_kcp_proxy :: bool
  nc_disable_kcp_input :: bool
  nc_enable_quic_proxy :: bool
  nc_disable_quic_input :: bool
  nc_disable_p2p :: bool
  nc_p2p_only :: bool
  nc_lazy_p2p :: bool
  nc_bind_device :: bool
  nc_no_tun :: bool
  nc_enable_exit_node :: bool
  nc_relay_all_peer_rpc :: bool
  nc_need_p2p :: bool
  nc_multi_thread :: bool
  nc_proxy_forward_by_system :: bool
  nc_disable_encryption :: bool
  nc_disable_tcp_hole_punching :: bool
  nc_disable_udp_hole_punching :: bool
  nc_disable_upnp :: bool
  nc_enable_udp_broadcast_relay :: bool
  nc_disable_sym_hole_punching :: bool
  nc_enable_relay_network_whitelist :: bool
  nc_enable_magic_dns :: bool
  nc_enable_private_mode :: bool
  nc_enable_socks5 :: bool
  nc_relay_network_whitelist :: "string list"
  nc_enable_manual_routes :: bool
  nc_routes :: "string list"
  nc_exit_nodes :: "string list"
  nc_socks5_port :: u16
  nc_mtu :: "u32 option"
  nc_instance_recv_bps_limit :: "u64 option"
  nc_port_forwards :: "port_forward_config list"
  nc_acl :: "string option"
  nc_file_logger :: "log_config option"
  nc_console_logger :: "log_config option"
  nc_peers :: "peer_config list"
  nc_listeners :: "string list"
  nc_proxy_networks :: "proxy_network_config list"
  nc_proxy_networks_auto :: "bool option"
  nc_flags :: "(string, string) hmap"

definition network_config_default :: "string \<Rightarrow> network_config" where
  "network_config_default uuid =
    \<lparr>nc_instance_id = uuid, nc_instance_name = None, nc_dhcp = True, nc_virtual_ipv4 = [],
     nc_network_length = 24, nc_ipv4 = None, nc_ipv6 = None, nc_hostname = None,
     nc_network_name = ''easytier'', nc_network_secret = [], nc_credential_file = None,
     nc_networking_method = 1, nc_public_server_url = [], nc_peer_urls = [], nc_proxy_cidrs = [],
     nc_enable_vpn_portal = False, nc_vpn_portal_listen_port = 22022, nc_vpn_portal_client_network_addr = [],
     nc_vpn_portal_client_network_len = 24,
     nc_listener_urls = [''tcp://0.0.0.0:11010'', ''udp://0.0.0.0:11010'', ''wg://0.0.0.0:11011''],
     nc_mapped_listeners = [], nc_latency_first = False, nc_dev_name = [], nc_use_smoltcp = False,
     nc_disable_ipv6 = False, nc_ipv6_public_addr_provider = None, nc_ipv6_public_addr_auto = None,
     nc_ipv6_public_addr_prefix = None, nc_enable_kcp_proxy = False, nc_disable_kcp_input = False,
     nc_enable_quic_proxy = False, nc_disable_quic_input = False, nc_disable_p2p = False, nc_p2p_only = False,
     nc_lazy_p2p = False, nc_bind_device = True, nc_no_tun = False, nc_enable_exit_node = False,
     nc_relay_all_peer_rpc = False, nc_need_p2p = False, nc_multi_thread = True,
     nc_proxy_forward_by_system = False, nc_disable_encryption = False, nc_disable_tcp_hole_punching = False,
     nc_disable_udp_hole_punching = False, nc_disable_upnp = False, nc_enable_udp_broadcast_relay = False,
     nc_disable_sym_hole_punching = False, nc_enable_relay_network_whitelist = False,
     nc_enable_magic_dns = False, nc_enable_private_mode = False, nc_enable_socks5 = False,
     nc_relay_network_whitelist = [], nc_enable_manual_routes = False, nc_routes = [], nc_exit_nodes = [],
     nc_socks5_port = 1080, nc_mtu = None, nc_instance_recv_bps_limit = None, nc_port_forwards = [],
     nc_acl = None, nc_file_logger = None, nc_console_logger = None, nc_peers = [], nc_listeners = [],
     nc_proxy_networks = [], nc_proxy_networks_auto = None, nc_flags = []\<rparr>"

section \<open>Parsing\<close>

datatype net_config_error =
  NotValidJson string
| NotNetworkConfig string "string list" string
| SliceInsideChar nat

text \<open>\<open>&s[..i]\<close> panics when \<open>i\<close> is inside a character.\<close>

definition is_char_boundary :: "string \<Rightarrow> nat \<Rightarrow> bool" where
  "is_char_boundary s i \<longleftrightarrow> i = 0 \<or> i = length s \<or> i < length s \<and> (let b = of_char (s ! i) :: nat in \<not> (128 \<le> b \<and> b < 192))"

text \<open>\<open>serde_json\<close>: the text to a value, the keys of an object, and the value to the configuration.\<close>

record 'v json_values =
  jv_parse :: "string \<Rightarrow> string + 'v"
  jv_keys :: "'v \<Rightarrow> string list option"
  jv_config :: "'v \<Rightarrow> string + network_config"

definition from_config_json :: "'v json_values \<Rightarrow> string \<Rightarrow> string \<Rightarrow> net_config_error + network_config" where
  "from_config_json JV uuid json_str =
    (let trimmed = trim json_str in
     if trimmed = [] then Inr (network_config_default uuid)
     else
       (case jv_parse JV trimmed of
          Inl e \<Rightarrow> Inl (NotValidJson e)
        | Inr value \<Rightarrow>
           (let keys = (case jv_keys JV value of Some ks \<Rightarrow> ks | None \<Rightarrow> []) in
            case jv_config JV value of
              Inr cfg \<Rightarrow> Inr cfg
            | Inl e \<Rightarrow>
               (let n = min (length trimmed) 200 in
                if is_char_boundary trimmed n then Inl (NotNetworkConfig e keys (take n trimmed))
                else Inl (SliceInsideChar n)))))"

section \<open>Proxy subnets\<close>

record net_lib =
  nl_url :: "string \<Rightarrow> string + string"         (* url::Url *)
  nl_cidr :: "string \<Rightarrow> string option"          (* cidr::Ipv4Cidr *)
  nl_inet :: "string \<Rightarrow> string option"          (* cidr::Ipv4Inet *)
  nl_network :: "string \<Rightarrow> string option"       (* Ipv4Inet::network of it *)
  nl_ip :: "string \<Rightarrow> string option"            (* IpAddr *)
  nl_resolve :: "string \<Rightarrow> string option"       (* first of to_socket_addrs *)
  nl_uuid :: string
  nl_encryption :: string                       (* EncryptionAlgorithm::default *)

text \<open>\<open>HashSet::insert\<close> answers whether the value was new.\<close>

definition seen_insert :: "'a \<Rightarrow> 'a list \<Rightarrow> bool \<times> 'a list" where
  "seen_insert x seen = (if x \<in> set seen then (False, seen) else (True, x # seen))"

fun push_cidrs :: "string list \<Rightarrow> string list \<times> string list \<Rightarrow> string list \<times> string list" where
  "push_cidrs [] (seen, out) = (seen, out)"
| "push_cidrs (cidr # rest) (seen, out) =
    (let c = trim cidr in
     if c \<noteq> [] then
       (case seen_insert c seen of
          (True, seen') \<Rightarrow> push_cidrs rest (seen', out @ [c])
        | (False, seen') \<Rightarrow> push_cidrs rest (seen', out))
     else push_cidrs rest (seen, out))"

text \<open>The network of the node's own address, when it has a static one.\<close>

definition own_cidr :: "net_lib \<Rightarrow> network_config \<Rightarrow> string option" where
  "own_cidr L c =
    (if nc_virtual_ipv4 c \<noteq> [] \<and> nc_network_length c > 0 \<and> nc_network_length c \<le> 32
     then nl_network L (nc_virtual_ipv4 c @ ''/'' @ dec (unat (nc_network_length c)))
     else None)"

definition effective_proxy_cidrs :: "net_lib \<Rightarrow> network_config \<Rightarrow> string list" where
  "effective_proxy_cidrs L c =
    (let source = (if nc_proxy_cidrs c \<noteq> [] then nc_proxy_cidrs c else map pn_cidr (nc_proxy_networks c));
         (seen, out) = push_cidrs source ([], [])
     in case own_cidr L c of
          None \<Rightarrow> out
        | Some own \<Rightarrow> (case seen_insert own seen of (True, _) \<Rightarrow> out @ [own] | (False, _) \<Rightarrow> out))"

fun retain_new :: "string list \<Rightarrow> string list \<Rightarrow> string list" where
  "retain_new [] seen = []"
| "retain_new (c # cs) seen =
    (let t = trim c in
     if t \<noteq> [] then
       (case seen_insert t seen of (True, seen') \<Rightarrow> c # retain_new cs seen' | (False, seen') \<Rightarrow> retain_new cs seen')
     else retain_new cs seen)"

definition dedupe_proxy_cidrs :: "net_lib \<Rightarrow> network_config \<Rightarrow> network_config" where
  "dedupe_proxy_cidrs L c =
    (let cidrs = retain_new (nc_proxy_cidrs c) [] in
     case own_cidr L c of
       None \<Rightarrow> c\<lparr>nc_proxy_cidrs := cidrs\<rparr>
     | Some own \<Rightarrow> c\<lparr>nc_proxy_cidrs := own # filter (\<lambda>x. trim x \<noteq> own) cidrs\<rparr>)"

section \<open>EasyTier's loader\<close>

text \<open>The part of EasyTier's flags and loader that the translation reads or sets.\<close>

record et_flags =
  fl_default_protocol :: string
  fl_dev_name :: string
  fl_enable_encryption :: bool
  fl_enable_ipv6 :: bool
  fl_mtu :: u32
  fl_latency_first :: bool
  fl_enable_exit_node :: bool
  fl_proxy_forward_by_system :: bool
  fl_no_tun :: bool
  fl_use_smoltcp :: bool
  fl_relay_network_whitelist :: string
  fl_disable_p2p :: bool
  fl_p2p_only :: bool
  fl_lazy_p2p :: bool
  fl_relay_all_peer_rpc :: bool
  fl_disable_tcp_hole_punching :: bool
  fl_disable_udp_hole_punching :: bool
  fl_multi_thread :: bool
  fl_bind_device :: bool
  fl_enable_kcp_proxy :: bool
  fl_disable_kcp_input :: bool
  fl_accept_dns :: bool
  fl_private_mode :: bool
  fl_enable_quic_proxy :: bool
  fl_disable_quic_input :: bool
  fl_encryption_algorithm :: string
  fl_disable_sym_hole_punching :: bool
  fl_need_p2p :: bool
  fl_instance_recv_bps_limit :: u64
  fl_disable_upnp :: bool
  fl_enable_udp_broadcast_relay :: bool

definition gen_default_flags :: "string \<Rightarrow> et_flags" where
  "gen_default_flags encryption =
    \<lparr>fl_default_protocol = ''tcp'', fl_dev_name = [], fl_enable_encryption = True, fl_enable_ipv6 = True, fl_mtu = 1380,
     fl_latency_first = False, fl_enable_exit_node = False, fl_proxy_forward_by_system = False, fl_no_tun = False,
     fl_use_smoltcp = False, fl_relay_network_whitelist = ''*'', fl_disable_p2p = False, fl_p2p_only = False,
     fl_lazy_p2p = False, fl_relay_all_peer_rpc = False, fl_disable_tcp_hole_punching = False,
     fl_disable_udp_hole_punching = False, fl_multi_thread = True, fl_bind_device = True, fl_enable_kcp_proxy = False,
     fl_disable_kcp_input = False, fl_accept_dns = False, fl_private_mode = False, fl_enable_quic_proxy = False,
     fl_disable_quic_input = False, fl_encryption_algorithm = encryption, fl_disable_sym_hole_punching = False,
     fl_need_p2p = False, fl_instance_recv_bps_limit = - 1, fl_disable_upnp = False, fl_enable_udp_broadcast_relay = False\<rparr>"

record toml_config =
  tc_identity :: "string \<times> string"
  tc_inst_name :: "string option"
  tc_hostname :: "string option"
  tc_dhcp :: "bool option"
  tc_ipv4 :: "string option"
  tc_ipv6 :: "string option"
  tc_ipv6_public_addr_auto :: "bool option"
  tc_peers :: "(string \<times> string option) list option"
  tc_listeners :: "string list option"
  tc_mapped_listeners :: "string list option"
  tc_proxy :: "string list"
  tc_routes :: "string list option"
  tc_exit_nodes :: "string list option"
  tc_vpn_portal :: "(string \<times> string) option"
  tc_socks5 :: "string option"
  tc_port_forwards :: "(string \<times> string \<times> string) list option"
  tc_credential_file :: "string option"
  tc_flags :: et_flags

definition toml_default :: "string \<Rightarrow> toml_config" where
  "toml_default encryption =
    \<lparr>tc_identity = (''default'', []), tc_inst_name = None, tc_hostname = None, tc_dhcp = None, tc_ipv4 = None, tc_ipv6 = None,
     tc_ipv6_public_addr_auto = None, tc_peers = None, tc_listeners = None, tc_mapped_listeners = None, tc_proxy = [],
     tc_routes = None, tc_exit_nodes = None, tc_vpn_portal = None, tc_socks5 = None, tc_port_forwards = None,
     tc_credential_file = None, tc_flags = gen_default_flags encryption\<rparr>"

definition add_proxy_cidr :: "string \<Rightarrow> toml_config \<Rightarrow> toml_config" where
  "add_proxy_cidr cidr cfg = (if cidr \<in> set (tc_proxy cfg) then cfg else cfg\<lparr>tc_proxy := tc_proxy cfg @ [cidr]\<rparr>)"

section \<open>The translation\<close>

datatype translate_error = InvalidPeerUrl string string | InvalidPeerUri string string
| InvalidListener string string | InvalidMappedListener string string

definition conv_identity :: "net_lib \<Rightarrow> network_config \<Rightarrow> toml_config \<Rightarrow> toml_config" where
  "conv_identity L c cfg =
    (let cfg = cfg\<lparr>tc_identity := (nc_network_name c, nc_network_secret c)\<rparr>;
         inst_name = (if nc_instance_id c = [] then nl_uuid L else nc_instance_id c);
         cfg = cfg\<lparr>tc_inst_name := Some inst_name\<rparr>;
         cfg = (case nc_hostname c of Some h \<Rightarrow> cfg\<lparr>tc_hostname := Some h\<rparr> | None \<Rightarrow> cfg);
         effective_dhcp = (if nc_virtual_ipv4 c \<noteq> [] then False else nc_dhcp c);
         cfg = cfg\<lparr>tc_dhcp := Some effective_dhcp\<rparr>;
         cfg = (if nc_virtual_ipv4 c \<noteq> []
                then (case nl_inet L (nc_virtual_ipv4 c @ ''/'' @ dec (unat (nc_network_length c))) of
                        Some inet \<Rightarrow> cfg\<lparr>tc_ipv4 := Some inet\<rparr> | None \<Rightarrow> cfg)
                else cfg);
         cfg = cfg\<lparr>tc_ipv6 := None\<rparr>
     in cfg\<lparr>tc_ipv6_public_addr_auto := Some (case nc_ipv6_public_addr_auto c of Some b \<Rightarrow> b | None \<Rightarrow> False)\<rparr>)"

definition url_or :: "net_lib \<Rightarrow> (string \<Rightarrow> string \<Rightarrow> translate_error) \<Rightarrow> string \<Rightarrow> translate_error + string" where
  "url_or L err s = (case nl_url L s of Inl e \<Rightarrow> Inl (err s e) | Inr u \<Rightarrow> Inr u)"

definition conv_peers :: "net_lib \<Rightarrow> network_config \<Rightarrow> toml_config \<Rightarrow> translate_error + toml_config" where
  "conv_peers L c cfg =
    (if nc_peer_urls c \<noteq> [] then
       res_bind (res_map (\<lambda>u. res_bind (url_or L InvalidPeerUrl (trim u)) (\<lambda>url. Inr (url, None)))
           (filter (\<lambda>u. trim u \<noteq> []) (nc_peer_urls c))) (\<lambda>peers.
         Inr (if peers \<noteq> [] then cfg\<lparr>tc_peers := Some peers\<rparr> else cfg))
     else Inr cfg)"

definition conv_legacy_peers :: "net_lib \<Rightarrow> network_config \<Rightarrow> toml_config \<Rightarrow> translate_error + toml_config" where
  "conv_legacy_peers L c cfg =
    (if nc_peers c \<noteq> [] \<and> nc_peer_urls c = [] then
       res_bind (res_map (\<lambda>p. res_bind (url_or L InvalidPeerUri (pc_uri p)) (\<lambda>url. Inr (url, pc_peer_public_key p)))
           (filter (\<lambda>p. pc_uri p \<noteq> []) (nc_peers c))) (\<lambda>peers.
         Inr (if peers \<noteq> [] then cfg\<lparr>tc_peers := Some peers\<rparr> else cfg))
     else Inr cfg)"

text \<open>The non-empty URLs of a list, parsed and, if there are any, stored in the loader.\<close>

definition with_urls ::
  "net_lib \<Rightarrow> (string \<Rightarrow> string \<Rightarrow> translate_error) \<Rightarrow> string list \<Rightarrow> (string list \<Rightarrow> toml_config \<Rightarrow> toml_config) \<Rightarrow>
   toml_config \<Rightarrow> translate_error + toml_config" where
  "with_urls L err xs set_urls cfg =
    (if xs \<noteq> [] then
       res_bind (res_map (url_or L err) (filter (\<lambda>l. l \<noteq> []) xs)) (\<lambda>urls.
         Inr (if urls \<noteq> [] then set_urls urls cfg else cfg))
     else Inr cfg)"

definition conv_listeners :: "net_lib \<Rightarrow> network_config \<Rightarrow> toml_config \<Rightarrow> translate_error + toml_config" where
  "conv_listeners L c cfg =
    res_bind (with_urls L InvalidListener (nc_listener_urls c) (\<lambda>urls cfg. cfg\<lparr>tc_listeners := Some urls\<rparr>) cfg) (\<lambda>cfg.
    res_bind (if nc_listeners c \<noteq> [] \<and> nc_listener_urls c = []
              then with_urls L InvalidListener (nc_listeners c) (\<lambda>urls cfg. cfg\<lparr>tc_listeners := Some urls\<rparr>) cfg
              else Inr cfg) (\<lambda>cfg.
      with_urls L InvalidMappedListener (nc_mapped_listeners c) (\<lambda>urls cfg. cfg\<lparr>tc_mapped_listeners := Some urls\<rparr>) cfg))"

definition conv_routes :: "net_lib \<Rightarrow> network_config \<Rightarrow> toml_config \<Rightarrow> toml_config" where
  "conv_routes L c cfg =
    (let cfg = fold (\<lambda>s cfg. case nl_cidr L s of Some cidr \<Rightarrow> add_proxy_cidr cidr cfg | None \<Rightarrow> cfg)
                 (effective_proxy_cidrs L c) cfg;
         cfg = (if nc_enable_manual_routes c \<and> nc_routes c \<noteq> [] then
                  (let routes = List.map_filter (nl_cidr L) (nc_routes c)
                   in if routes \<noteq> [] then cfg\<lparr>tc_routes := Some routes\<rparr> else cfg)
                else cfg)
     in if nc_exit_nodes c \<noteq> [] then
          (let nodes = List.map_filter (nl_ip L) (nc_exit_nodes c)
           in if nodes \<noteq> [] then cfg\<lparr>tc_exit_nodes := Some nodes\<rparr> else cfg)
        else cfg)"

text \<open>The listening address text of the VPN portal needs no resolver; the default is the same address.\<close>

definition conv_portals :: "net_lib \<Rightarrow> network_config \<Rightarrow> toml_config \<Rightarrow> toml_config" where
  "conv_portals L c cfg =
    (let cfg = (if nc_enable_vpn_portal c then
                  (case nl_cidr L (nc_vpn_portal_client_network_addr c @ ''/'' @ dec (unat (nc_vpn_portal_client_network_len c))) of
                     Some client_cidr \<Rightarrow>
                       (let addr = ''0.0.0.0:'' @ dec (unat (nc_vpn_portal_listen_port c));
                            wireguard_listen = (case nl_resolve L addr of Some a \<Rightarrow> a | None \<Rightarrow> addr)
                        in cfg\<lparr>tc_vpn_portal := Some (client_cidr, wireguard_listen)\<rparr>)
                   | None \<Rightarrow> cfg)
                else cfg);
         cfg = (if nc_enable_socks5 c then
                  (case nl_url L (''socks5://0.0.0.0:'' @ dec (unat (nc_socks5_port c))) of
                     Inr url \<Rightarrow> cfg\<lparr>tc_socks5 := Some url\<rparr> | Inl _ \<Rightarrow> cfg)
                else cfg);
         cfg = (if nc_port_forwards c \<noteq> [] then
                  (let forwards = List.map_filter (\<lambda>pf.
                         case nl_resolve L (pf_bind_ip pf @ '':'' @ dec (unat (pf_bind_port pf))) of
                           None \<Rightarrow> None
                         | Some bind_addr \<Rightarrow>
                            (case nl_resolve L (pf_dst_ip pf @ '':'' @ dec (unat (pf_dst_port pf))) of
                               None \<Rightarrow> None
                             | Some dst_addr \<Rightarrow> Some (bind_addr, dst_addr, pf_proto pf))) (nc_port_forwards c)
                   in if forwards \<noteq> [] then cfg\<lparr>tc_port_forwards := Some forwards\<rparr> else cfg)
                else cfg)
     in case nc_credential_file c of
          Some path \<Rightarrow> (if path \<noteq> [] then cfg\<lparr>tc_credential_file := Some path\<rparr> else cfg)
        | None \<Rightarrow> cfg)"

definition conv_flags :: "network_config \<Rightarrow> et_flags \<Rightarrow> et_flags" where
  "conv_flags c f =
    f\<lparr>fl_latency_first := nc_latency_first c, fl_use_smoltcp := nc_use_smoltcp c, fl_enable_ipv6 := \<not> nc_disable_ipv6 c,
      fl_enable_kcp_proxy := nc_enable_kcp_proxy c, fl_disable_kcp_input := nc_disable_kcp_input c,
      fl_enable_quic_proxy := nc_enable_quic_proxy c, fl_disable_quic_input := nc_disable_quic_input c,
      fl_disable_p2p := nc_disable_p2p c, fl_p2p_only := nc_p2p_only c, fl_lazy_p2p := nc_lazy_p2p c,
      fl_bind_device := nc_bind_device c, fl_no_tun := nc_no_tun c, fl_enable_exit_node := nc_enable_exit_node c,
      fl_relay_all_peer_rpc := nc_relay_all_peer_rpc c, fl_need_p2p := nc_need_p2p c, fl_multi_thread := nc_multi_thread c,
      fl_proxy_forward_by_system := nc_proxy_forward_by_system c, fl_enable_encryption := \<not> nc_disable_encryption c,
      fl_disable_tcp_hole_punching := nc_disable_tcp_hole_punching c,
      fl_disable_udp_hole_punching := nc_disable_udp_hole_punching c, fl_disable_upnp := nc_disable_upnp c,
      fl_enable_udp_broadcast_relay := nc_enable_udp_broadcast_relay c,
      fl_disable_sym_hole_punching := nc_disable_sym_hole_punching c, fl_accept_dns := nc_enable_magic_dns c,
      fl_private_mode := nc_enable_private_mode c\<rparr>"

definition conv_flags_values :: "network_config \<Rightarrow> et_flags \<Rightarrow> et_flags" where
  "conv_flags_values c f =
    (let f = (if nc_enable_relay_network_whitelist c \<and> nc_relay_network_whitelist c \<noteq> []
              then f\<lparr>fl_relay_network_whitelist := join '','' (nc_relay_network_whitelist c)\<rparr>
              else f\<lparr>fl_relay_network_whitelist := ''*''\<rparr>);
         f = (if nc_dev_name c \<noteq> [] then f\<lparr>fl_dev_name := nc_dev_name c\<rparr> else f);
         f = (case nc_mtu c of Some mtu \<Rightarrow> f\<lparr>fl_mtu := mtu\<rparr> | None \<Rightarrow> f)
     in case nc_instance_recv_bps_limit c of Some l \<Rightarrow> f\<lparr>fl_instance_recv_bps_limit := l\<rparr> | None \<Rightarrow> f)"

definition conv_flags_legacy :: "network_config \<Rightarrow> et_flags \<Rightarrow> et_flags" where
  "conv_flags_legacy c f =
    (let get = hm_get (nc_flags c);
         f = (case get ''mtu'' of
                Some v \<Rightarrow> (case parse_uint (2 ^ 32 - 1) v of Some m \<Rightarrow> f\<lparr>fl_mtu := word_of_nat m\<rparr> | None \<Rightarrow> f)
              | None \<Rightarrow> f);
         f = (case get ''dev_name'' of Some s \<Rightarrow> if s \<noteq> [] then f\<lparr>fl_dev_name := s\<rparr> else f | None \<Rightarrow> f);
         f = (case get ''encryption_algorithm'' of Some a \<Rightarrow> f\<lparr>fl_encryption_algorithm := a\<rparr> | None \<Rightarrow> f);
         f = (case get ''default_protocol'' of Some s \<Rightarrow> if s \<noteq> [] then f\<lparr>fl_default_protocol := s\<rparr> else f | None \<Rightarrow> f);
         f = (case get ''enable_encryption'' of Some v \<Rightarrow> f\<lparr>fl_enable_encryption := (v = ''true'')\<rparr> | None \<Rightarrow> f)
     in case get ''enable_ipv6'' of Some v \<Rightarrow> f\<lparr>fl_enable_ipv6 := (v = ''true'')\<rparr> | None \<Rightarrow> f)"

definition to_easytier_config :: "net_lib \<Rightarrow> network_config \<Rightarrow> translate_error + toml_config" where
  "to_easytier_config L c =
    (let cfg = conv_identity L c (toml_default (nl_encryption L)) in
     res_bind (conv_peers L c cfg) (\<lambda>cfg.
     res_bind (conv_legacy_peers L c cfg) (\<lambda>cfg.
     res_bind (conv_listeners L c cfg) (\<lambda>cfg.
       let cfg = conv_portals L c (conv_routes L c cfg);
           flags = conv_flags_legacy c (conv_flags_values c (conv_flags c (tc_flags cfg)))
       in Inr (cfg\<lparr>tc_flags := flags\<rparr>)))))"

section \<open>De-duplication\<close>

definition dedup_first :: "'a list \<Rightarrow> 'a list" where
  "dedup_first xs = rev (remdups (rev xs))"

lemma dedup_first_Nil [simp]: "dedup_first [] = []"
  by (simp add: dedup_first_def)

lemma dedup_first_snoc: "dedup_first (xs @ [x]) = (if x \<in> set xs then dedup_first xs else dedup_first xs @ [x])"
  by (simp add: dedup_first_def)

lemma set_dedup_first [simp]: "set (dedup_first xs) = set xs"
  by (simp add: dedup_first_def)

lemma distinct_dedup_first [simp]: "distinct (dedup_first xs)"
  by (simp add: dedup_first_def)

lemma push_cidrs_spec:
  "set seen = set ys \<Longrightarrow> out = dedup_first ys \<Longrightarrow> push_cidrs xs (seen, out) = (seen', out') \<Longrightarrow>
   set seen' = set (ys @ filter (\<lambda>c. c \<noteq> []) (map trim xs)) \<and> out' = dedup_first (ys @ filter (\<lambda>c. c \<noteq> []) (map trim xs))"
proof (induction xs arbitrary: seen out ys)
  case (Cons x xs)
  show ?case
  proof (cases "trim x = []")
    case True
    with Cons.prems Cons.IH [of seen ys out] show ?thesis by simp
  next
    case False
    let ?seen = "if trim x \<in> set seen then seen else trim x # seen"
    let ?out = "if trim x \<in> set seen then out else out @ [trim x]"
    have "push_cidrs xs (?seen, ?out) = (seen', out')"
      using Cons.prems(3) False by (simp add: seen_insert_def Let_def split: if_splits)
    moreover have "set ?seen = set (ys @ [trim x])" "?out = dedup_first (ys @ [trim x])"
      using Cons.prems(1,2) by (auto simp: dedup_first_snoc)
    ultimately show ?thesis
      using Cons.IH [of ?seen "ys @ [trim x]" ?out] False by simp
  qed
qed simp

lemma insert_new:
  "y \<notin> A \<Longrightarrow> y \<noteq> [] \<Longrightarrow> insert y {t \<in> M. t \<noteq> [] \<and> t \<notin> insert y A} = {t \<in> insert y M. t \<noteq> [] \<and> t \<notin> A}"
  by auto

lemma retain_new_props:
  "distinct (map trim (retain_new xs seen)) \<and>
   set (map trim (retain_new xs seen)) = {t \<in> set (map trim xs). t \<noteq> [] \<and> t \<notin> set seen} \<and>
   set (retain_new xs seen) \<subseteq> set xs"
proof (induction xs arbitrary: seen)
  case (Cons x xs)
  show ?case
  proof (cases "trim x = [] \<or> trim x \<in> set seen")
    case True
    then have "retain_new (x # xs) seen = retain_new xs seen"
      by (auto simp: seen_insert_def Let_def)
    with True Cons [of seen] show ?thesis by auto
  next
    case False
    then have r: "retain_new (x # xs) seen = x # retain_new xs (trim x # seen)"
      by (simp add: seen_insert_def Let_def)
    note IH = Cons [of "trim x # seen"]
    define M where "M = set (map trim xs)"
    define R where "R = set (map trim (retain_new xs (trim x # seen)))"
    have R: "R = {t \<in> M. t \<noteq> [] \<and> t \<notin> insert (trim x) (set seen)}"
      using IH unfolding R_def M_def by (simp del: set_map)
    have "insert (trim x) R = {t \<in> insert (trim x) M. t \<noteq> [] \<and> t \<notin> set seen}"
      unfolding R using False by (intro insert_new) simp_all
    moreover have "trim x \<notin> R" unfolding R by simp
    moreover have "distinct (map trim (retain_new xs (trim x # seen)))"
      "set (retain_new xs (trim x # seen)) \<subseteq> set xs"
      using IH by (simp_all del: set_map)
    ultimately show ?thesis
      unfolding r R_def M_def by (simp add: subset_insertI2 del: set_map)
  qed
qed simp

lemma retain_new_id:
  "distinct (map trim xs) \<Longrightarrow> [] \<notin> set (map trim xs) \<Longrightarrow> set (map trim xs) \<inter> set seen = {} \<Longrightarrow> retain_new xs seen = xs"
proof (induction xs arbitrary: seen)
  case (Cons x xs)
  from Cons.prems have "retain_new xs (trim x # seen) = xs" by (intro Cons.IH) auto
  with Cons.prems show ?case by (auto simp: seen_insert_def Let_def)
qed simp

lemma effective_eq:
  "effective_proxy_cidrs L c =
     dedup_first (filter (\<lambda>s. s \<noteq> []) (map trim (if nc_proxy_cidrs c \<noteq> [] then nc_proxy_cidrs c else map pn_cidr (nc_proxy_networks c)))
       @ (case own_cidr L c of None \<Rightarrow> [] | Some own \<Rightarrow> [own]))"
proof -
  define src where "src = (if nc_proxy_cidrs c \<noteq> [] then nc_proxy_cidrs c else map pn_cidr (nc_proxy_networks c))"
  define xs where "xs = filter (\<lambda>c. c \<noteq> []) (map trim src)"
  obtain seen out where p: "push_cidrs src ([], []) = (seen, out)" by (metis surj_pair)
  from push_cidrs_spec [OF _ _ p, of "[]"] have "set seen = set xs" "out = dedup_first xs"
    by (simp_all add: xs_def)
  then have "effective_proxy_cidrs L c = dedup_first (xs @ (case own_cidr L c of None \<Rightarrow> [] | Some own \<Rightarrow> [own]))"
    unfolding effective_proxy_cidrs_def Let_def src_def [symmetric] p
    by (simp add: seen_insert_def dedup_first_snoc split: option.split)
  then show ?thesis
    unfolding xs_def src_def .
qed

definition trimmed_cidrs :: "network_config \<Rightarrow> string set" where
  "trimmed_cidrs c = {t \<in> trim ` set (nc_proxy_cidrs c). t \<noteq> []}"

lemma own_cidr_dedupe [simp]: "own_cidr L (dedupe_proxy_cidrs L c) = own_cidr L c"
  by (simp add: dedupe_proxy_cidrs_def own_cidr_def Let_def split: option.split)

lemma effective_set:
  "nc_proxy_cidrs c \<noteq> [] \<Longrightarrow>
   set (effective_proxy_cidrs L c) = trimmed_cidrs c \<union> (case own_cidr L c of None \<Rightarrow> {} | Some own \<Rightarrow> {own})"
  unfolding effective_eq set_dedup_first trimmed_cidrs_def
  by (simp split: option.split)

lemma filter_not_own: "trim ` {x \<in> A. trim x \<noteq> own} = trim ` A - {own}"
  by auto

lemma dedupe_cidrs:
  assumes "\<And>own. own_cidr L c = Some own \<Longrightarrow> trim own = own \<and> own \<noteq> []"
  shows "trimmed_cidrs (dedupe_proxy_cidrs L c) = trimmed_cidrs c \<union> (case own_cidr L c of None \<Rightarrow> {} | Some own \<Rightarrow> {own})"
    and "retain_new (nc_proxy_cidrs (dedupe_proxy_cidrs L c)) [] = nc_proxy_cidrs (dedupe_proxy_cidrs L c)"
proof -
  let ?r = "retain_new (nc_proxy_cidrs c) []"
  note p = retain_new_props [of "nc_proxy_cidrs c" "[]"]
  have t: "trim ` set ?r = trimmed_cidrs c" using p by (simp add: trimmed_cidrs_def)
  have ne: "\<And>x. x \<in> trimmed_cidrs c \<Longrightarrow> x \<noteq> []" by (simp add: trimmed_cidrs_def)
  have d: "distinct (map trim ?r)" using p by simp
  have both: "trimmed_cidrs (dedupe_proxy_cidrs L c) = trimmed_cidrs c \<union> (case own_cidr L c of None \<Rightarrow> {} | Some own \<Rightarrow> {own}) \<and>
    retain_new (nc_proxy_cidrs (dedupe_proxy_cidrs L c)) [] = nc_proxy_cidrs (dedupe_proxy_cidrs L c)"
  proof (cases "own_cidr L c")
    case None
    then have q: "nc_proxy_cidrs (dedupe_proxy_cidrs L c) = ?r" by (simp add: dedupe_proxy_cidrs_def Let_def)
    have "retain_new ?r [] = ?r" by (rule retain_new_id) (use d t ne in auto)
    moreover have "{x \<in> trimmed_cidrs c. x \<noteq> []} = trimmed_cidrs c" using ne by blast
    ultimately show ?thesis
      using None unfolding trimmed_cidrs_def [of "dedupe_proxy_cidrs L c"] q t by simp
  next
    case (Some own)
    note o = assms [OF Some]
    let ?q = "own # filter (\<lambda>x. trim x \<noteq> own) ?r"
    have q: "nc_proxy_cidrs (dedupe_proxy_cidrs L c) = ?q" using Some by (simp add: dedupe_proxy_cidrs_def Let_def)
    have s: "trim ` set ?q = insert own (trimmed_cidrs c - {own})"
      using o by (simp add: filter_not_own t)
    have "distinct (map trim (filter (\<lambda>x. trim x \<noteq> own) ?r))"
      using d by (rule distinct_map_filter)
    then have "distinct (map trim ?q)" using o by (auto simp: image_iff)
    then have "retain_new ?q [] = ?q"
      by (rule retain_new_id) (use s ne o in auto)
    moreover have "{x \<in> insert own (trimmed_cidrs c - {own}). x \<noteq> []} = trimmed_cidrs c \<union> {own}"
      using ne o by auto
    ultimately show ?thesis
      unfolding trimmed_cidrs_def [of "dedupe_proxy_cidrs L c"] q s Some by simp
  qed
  show "trimmed_cidrs (dedupe_proxy_cidrs L c) = trimmed_cidrs c \<union> (case own_cidr L c of None \<Rightarrow> {} | Some own \<Rightarrow> {own})"
    and "retain_new (nc_proxy_cidrs (dedupe_proxy_cidrs L c)) [] = nc_proxy_cidrs (dedupe_proxy_cidrs L c)"
    using both by simp_all
qed

section \<open>Properties\<close>

text \<open>
  The advertised subnets are the first occurrences, in order, of the trimmed non-empty entries
  of \<open>proxy_cidrs\<close> (or of the legacy \<open>proxy_networks\<close> when that is empty) followed by the node's own
  network; in particular there are no duplicates.
\<close>

theorem effective_proxy_cidrs_spec:
  "effective_proxy_cidrs L c =
     dedup_first (filter (\<lambda>s. s \<noteq> []) (map trim (if nc_proxy_cidrs c \<noteq> [] then nc_proxy_cidrs c else map pn_cidr (nc_proxy_networks c)))
       @ (case own_cidr L c of None \<Rightarrow> [] | Some own \<Rightarrow> [own]))
   \<and> distinct (effective_proxy_cidrs L c)"
  using effective_eq [of L c] by simp

text \<open>
  Normalising a configuration before it is stored is idempotent, puts the node's own network
  first, and does not change the set of advertised subnets of a configuration that uses
  \<open>proxy_cidrs\<close> and is not left empty. The own network's text is what the CIDR library prints:
  non-empty and without surrounding white space.
\<close>

theorem dedupe_proxy_cidrs_stable:
  assumes "\<And>own. own_cidr L c = Some own \<Longrightarrow> trim own = own \<and> own \<noteq> []"
    and "nc_proxy_cidrs c \<noteq> []" and "nc_proxy_cidrs (dedupe_proxy_cidrs L c) \<noteq> []"
  shows "dedupe_proxy_cidrs L (dedupe_proxy_cidrs L c) = dedupe_proxy_cidrs L c \<and>
    set (effective_proxy_cidrs L (dedupe_proxy_cidrs L c)) = set (effective_proxy_cidrs L c) \<and>
    (\<forall>own. own_cidr L c = Some own \<longrightarrow> hd (nc_proxy_cidrs (dedupe_proxy_cidrs L c)) = own)"
proof (intro conjI)
  have t: "trimmed_cidrs (dedupe_proxy_cidrs L c) = trimmed_cidrs c \<union> (case own_cidr L c of None \<Rightarrow> {} | Some own \<Rightarrow> {own})"
    by (rule dedupe_cidrs(1)) (rule assms(1))
  show "set (effective_proxy_cidrs L (dedupe_proxy_cidrs L c)) = set (effective_proxy_cidrs L c)"
    unfolding effective_set [OF assms(2)] effective_set [OF assms(3)] t by (simp split: option.split)
  show "\<forall>own. own_cidr L c = Some own \<longrightarrow> hd (nc_proxy_cidrs (dedupe_proxy_cidrs L c)) = own"
    by (simp add: dedupe_proxy_cidrs_def Let_def)
  show "dedupe_proxy_cidrs L (dedupe_proxy_cidrs L c) = dedupe_proxy_cidrs L c"
    using dedupe_cidrs(2) [OF assms(1)] assms(1)
    by (subst dedupe_proxy_cidrs_def) (simp add: Let_def, simp add: dedupe_proxy_cidrs_def Let_def split: option.split)
qed

text \<open>
  The same normalisation silently drops a legacy configuration's subnets: when the subnets are
  in \<open>proxy_networks\<close> only and the node has a static address, the normalised configuration
  advertises nothing but the node's own network.
\<close>

theorem dedupe_drops_legacy_networks:
  assumes "nc_proxy_cidrs c = []" and "own_cidr L c = Some own" and "trim own = own" and "own \<noteq> []"
  shows "effective_proxy_cidrs L (dedupe_proxy_cidrs L c) = [own] \<and>
    set (filter (\<lambda>t. t \<noteq> []) (map (\<lambda>n. trim (pn_cidr n)) (nc_proxy_networks c))) \<subseteq> set (effective_proxy_cidrs L c)"
proof
  have "nc_proxy_cidrs (dedupe_proxy_cidrs L c) = [own]"
    using assms by (simp add: dedupe_proxy_cidrs_def Let_def)
  then show "effective_proxy_cidrs L (dedupe_proxy_cidrs L c) = [own]"
    using assms by (simp add: effective_eq dedup_first_def)
  show "set (filter (\<lambda>t. t \<noteq> []) (map (\<lambda>n. trim (pn_cidr n)) (nc_proxy_networks c))) \<subseteq> set (effective_proxy_cidrs L c)"
    using assms(1) unfolding effective_eq set_dedup_first by (auto simp: image_iff)
qed

section \<open>The translation\<close>

definition core :: "toml_config \<Rightarrow> bool option \<times> string option \<times> string list \<times> et_flags" where
  "core cfg = (tc_dhcp cfg, tc_ipv4 cfg, tc_proxy cfg, tc_flags cfg)"

lemma conv_peers_core:
  "conv_peers L c cfg = Inr cfg' \<Longrightarrow> core cfg' = core cfg"
  "conv_legacy_peers L c cfg = Inr cfg' \<Longrightarrow> core cfg' = core cfg"
  by (auto simp: conv_peers_def conv_legacy_peers_def core_def split: if_splits)

lemma with_urls_core:
  "with_urls L err xs f cfg = Inr cfg' \<Longrightarrow> (\<And>u cfg. core (f u cfg) = core cfg) \<Longrightarrow> core cfg' = core cfg"
  by (auto simp: with_urls_def split: if_splits)

lemma conv_listeners_core:
  assumes "conv_listeners L c cfg = Inr cfg'"
  shows "core cfg' = core cfg"
proof -
  have u: "core (cfg\<lparr>tc_listeners := p\<rparr>) = core cfg" "core (cfg\<lparr>tc_mapped_listeners := p\<rparr>) = core cfg" for p cfg
    by (simp_all add: core_def)
  from assms obtain c1 c2 where
    1: "with_urls L InvalidListener (nc_listener_urls c) (\<lambda>urls cfg. cfg\<lparr>tc_listeners := Some urls\<rparr>) cfg = Inr c1"
    and 2: "(if nc_listeners c \<noteq> [] \<and> nc_listener_urls c = []
      then with_urls L InvalidListener (nc_listeners c) (\<lambda>urls cfg. cfg\<lparr>tc_listeners := Some urls\<rparr>) c1 else Inr c1) = Inr c2"
    and 3: "with_urls L InvalidMappedListener (nc_mapped_listeners c) (\<lambda>urls cfg. cfg\<lparr>tc_mapped_listeners := Some urls\<rparr>) c2 = Inr cfg'"
    unfolding conv_listeners_def res_bind_Inr_iff by blast
  have "core c2 = core c1"
    using 2 with_urls_core [of L InvalidListener "nc_listeners c" _ c1 c2, OF _ u(1)] by (simp split: if_splits)
  then show ?thesis
    using with_urls_core [OF 1 u(1)] with_urls_core [OF 3 u(2)] by simp
qed

lemma conv_portals_core: "core (conv_portals L c cfg) = core cfg"
  by (simp add: conv_portals_def core_def Let_def split: option.split sum.split)

lemma conv_routes_proxy:
  "tc_proxy cfg = dedup_first ys \<Longrightarrow>
   tc_proxy (fold (\<lambda>s cfg. case nl_cidr L s of Some cidr \<Rightarrow> add_proxy_cidr cidr cfg | None \<Rightarrow> cfg) xs cfg) =
     dedup_first (ys @ List.map_filter (nl_cidr L) xs)"
proof (induction xs arbitrary: cfg ys)
  case (Cons x xs)
  show ?case
  proof (cases "nl_cidr L x")
    case None
    with Cons show ?thesis by (simp add: map_filter_def)
  next
    case (Some cidr)
    have "tc_proxy (add_proxy_cidr cidr cfg) = dedup_first (ys @ [cidr])"
      using Cons.prems by (simp add: add_proxy_cidr_def dedup_first_snoc)
    from Cons.IH [OF this] Some show ?thesis by (simp add: map_filter_def)
  qed
qed (simp add: map_filter_def)

lemma conv_routes_fold_frame:
  "tc_dhcp (fold (\<lambda>s cfg. case nl_cidr L s of Some cidr \<Rightarrow> add_proxy_cidr cidr cfg | None \<Rightarrow> cfg) xs cfg) = tc_dhcp cfg"
  "tc_ipv4 (fold (\<lambda>s cfg. case nl_cidr L s of Some cidr \<Rightarrow> add_proxy_cidr cidr cfg | None \<Rightarrow> cfg) xs cfg) = tc_ipv4 cfg"
  "tc_flags (fold (\<lambda>s cfg. case nl_cidr L s of Some cidr \<Rightarrow> add_proxy_cidr cidr cfg | None \<Rightarrow> cfg) xs cfg) = tc_flags cfg"
  by (induction xs arbitrary: cfg) (simp_all add: add_proxy_cidr_def split: option.split)

lemma conv_routes_core:
  assumes "tc_proxy cfg = []"
  shows "core (conv_routes L c cfg) =
    (tc_dhcp cfg, tc_ipv4 cfg, dedup_first (List.map_filter (nl_cidr L) (effective_proxy_cidrs L c)), tc_flags cfg)"
  using conv_routes_proxy [of cfg "[]" L "effective_proxy_cidrs L c"] assms
  by (simp add: conv_routes_def core_def Let_def conv_routes_fold_frame)

lemma conv_identity_core:
  "core (conv_identity L c cfg) =
    (Some (nc_virtual_ipv4 c = [] \<and> nc_dhcp c),
     (if nc_virtual_ipv4 c \<noteq> [] then
        (case nl_inet L (nc_virtual_ipv4 c @ ''/'' @ dec (unat (nc_network_length c))) of Some i \<Rightarrow> Some i | None \<Rightarrow> tc_ipv4 cfg)
      else tc_ipv4 cfg), tc_proxy cfg, tc_flags cfg)"
  by (simp add: conv_identity_def core_def Let_def split: option.split)

lemma to_easytier_core:
  assumes "to_easytier_config L c = Inr cfg"
  shows "core cfg =
    (Some (nc_virtual_ipv4 c = [] \<and> nc_dhcp c),
     (if nc_virtual_ipv4 c \<noteq> [] then nl_inet L (nc_virtual_ipv4 c @ ''/'' @ dec (unat (nc_network_length c))) else None),
     dedup_first (List.map_filter (nl_cidr L) (effective_proxy_cidrs L c)),
     conv_flags_legacy c (conv_flags_values c (conv_flags c (gen_default_flags (nl_encryption L)))))"
proof -
  let ?d = "toml_default (nl_encryption L)"
  from assms obtain c1 c2 c3 where
    1: "conv_peers L c (conv_identity L c ?d) = Inr c1" and 2: "conv_legacy_peers L c c1 = Inr c2"
    and 3: "conv_listeners L c c2 = Inr c3"
    and cfg: "cfg = (conv_portals L c (conv_routes L c c3))
       \<lparr>tc_flags := conv_flags_legacy c (conv_flags_values c (conv_flags c (tc_flags (conv_portals L c (conv_routes L c c3)))))\<rparr>"
    by (auto simp: to_easytier_config_def Let_def)
  have k: "core c3 = core (conv_identity L c ?d)"
    using conv_peers_core(1) [OF 1] conv_peers_core(2) [OF 2] conv_listeners_core [OF 3] by simp
  have p: "tc_proxy ?d = []" "tc_ipv4 ?d = None" "tc_flags ?d = gen_default_flags (nl_encryption L)"
    by (simp_all add: toml_default_def)
  have c3: "tc_dhcp c3 = Some (nc_virtual_ipv4 c = [] \<and> nc_dhcp c)" "tc_proxy c3 = []" "tc_flags c3 = gen_default_flags (nl_encryption L)"
    "tc_ipv4 c3 = (if nc_virtual_ipv4 c \<noteq> [] then nl_inet L (nc_virtual_ipv4 c @ ''/'' @ dec (unat (nc_network_length c))) else None)"
    using k unfolding conv_identity_core p by (auto simp: core_def split: option.splits)
  have "core (conv_portals L c (conv_routes L c c3)) =
    (tc_dhcp c3, tc_ipv4 c3, dedup_first (List.map_filter (nl_cidr L) (effective_proxy_cidrs L c)), tc_flags c3)"
    using conv_portals_core conv_routes_core [OF c3(2)] by metis
  then show ?thesis
    by (simp add: cfg c3 core_def)
qed

text \<open>
  A static address and DHCP exclude each other in the translated configuration, the address is
  the one configured, and its proxy networks are exactly the advertised subnets that parse as
  CIDRs, once each and in order.
\<close>

theorem translation_addressing:
  assumes "to_easytier_config L c = Inr cfg"
  shows "tc_dhcp cfg = Some (nc_virtual_ipv4 c = [] \<and> nc_dhcp c) \<and>
    (tc_ipv4 cfg \<noteq> None \<longrightarrow> tc_dhcp cfg = Some False) \<and>
    (nc_virtual_ipv4 c \<noteq> [] \<longrightarrow> tc_ipv4 cfg = nl_inet L (nc_virtual_ipv4 c @ ''/'' @ dec (unat (nc_network_length c)))) \<and>
    tc_proxy cfg = dedup_first (List.map_filter (nl_cidr L) (effective_proxy_cidrs L c))"
  using to_easytier_core [OF assms] by (auto simp: core_def)

text \<open>
  The legacy \<open>flags\<close> map has the last word in the translation: its \<open>enable_encryption\<close> and
  \<open>enable_ipv6\<close> entries override the switches of the record, and its \<open>mtu\<close>, when it parses,
  overrides the record's \<open>mtu\<close>, which overrides EasyTier's 1380.
\<close>

theorem translation_flag_precedence:
  assumes "to_easytier_config L c = Inr cfg"
  shows "fl_enable_encryption (tc_flags cfg) =
      (case hm_get (nc_flags c) ''enable_encryption'' of Some v \<Rightarrow> v = ''true'' | None \<Rightarrow> \<not> nc_disable_encryption c) \<and>
    fl_enable_ipv6 (tc_flags cfg) =
      (case hm_get (nc_flags c) ''enable_ipv6'' of Some v \<Rightarrow> v = ''true'' | None \<Rightarrow> \<not> nc_disable_ipv6 c) \<and>
    fl_mtu (tc_flags cfg) =
      (case Option.bind (hm_get (nc_flags c) ''mtu'') (parse_uint (2 ^ 32 - 1)) of
         Some m \<Rightarrow> word_of_nat m | None \<Rightarrow> (case nc_mtu c of Some m \<Rightarrow> m | None \<Rightarrow> 1380))"
proof -
  have f: "tc_flags cfg = conv_flags_legacy c (conv_flags_values c (conv_flags c (gen_default_flags (nl_encryption L))))"
    using to_easytier_core [OF assms] by (simp add: core_def)
  have v: "fl_enable_encryption (conv_flags_values c g) = fl_enable_encryption g" "fl_enable_ipv6 (conv_flags_values c g) = fl_enable_ipv6 g"
    "fl_mtu (conv_flags_values c g) = (case nc_mtu c of Some m \<Rightarrow> m | None \<Rightarrow> fl_mtu g)" for g
    by (simp_all add: conv_flags_values_def Let_def split: option.split)
  have l: "fl_enable_encryption (conv_flags_legacy c g) = (case hm_get (nc_flags c) ''enable_encryption'' of Some v \<Rightarrow> v = ''true'' | None \<Rightarrow> fl_enable_encryption g)"
    "fl_enable_ipv6 (conv_flags_legacy c g) = (case hm_get (nc_flags c) ''enable_ipv6'' of Some v \<Rightarrow> v = ''true'' | None \<Rightarrow> fl_enable_ipv6 g)"
    "fl_mtu (conv_flags_legacy c g) = (case Option.bind (hm_get (nc_flags c) ''mtu'') (parse_uint (2 ^ 32 - 1)) of
         Some m \<Rightarrow> word_of_nat m | None \<Rightarrow> fl_mtu g)" for g
    by (simp_all add: conv_flags_legacy_def Let_def split: option.split)
  have k: "fl_enable_encryption (conv_flags c g) \<longleftrightarrow> \<not> nc_disable_encryption c" "fl_enable_ipv6 (conv_flags c g) \<longleftrightarrow> \<not> nc_disable_ipv6 c"
    "fl_mtu (conv_flags c g) = fl_mtu g" for g
    by (simp_all add: conv_flags_def)
  have m: "fl_mtu (gen_default_flags e) = 1380" for e by (simp add: gen_default_flags_def)
  show ?thesis
    unfolding f l v k m by simp
qed

text \<open>The URLs that the translation parses.\<close>

definition used_urls :: "network_config \<Rightarrow> string list" where
  "used_urls c =
    (if nc_peer_urls c \<noteq> [] then filter (\<lambda>u. u \<noteq> []) (map trim (nc_peer_urls c))
     else filter (\<lambda>u. u \<noteq> []) (map pc_uri (nc_peers c))) @
    (if nc_listener_urls c \<noteq> [] then filter (\<lambda>l. l \<noteq> []) (nc_listener_urls c)
     else filter (\<lambda>l. l \<noteq> []) (nc_listeners c)) @
    filter (\<lambda>l. l \<noteq> []) (nc_mapped_listeners c)"

definition url_valid :: "net_lib \<Rightarrow> string \<Rightarrow> bool" where
  "url_valid L u \<longleftrightarrow> (\<exists>x. nl_url L u = Inr x)"

lemma res_map_ex: "(\<exists>ys. res_map f xs = Inr ys) \<longleftrightarrow> (\<forall>x \<in> set xs. \<exists>y. f x = Inr y)"
  by (induction xs) auto

lemma url_or_ex: "(\<exists>y. url_or L err u = Inr y) \<longleftrightarrow> url_valid L u"
  by (auto simp: url_or_def url_valid_def split: sum.split)

lemma conv_peers_ex:
  "(\<exists>x. conv_peers L c cfg = Inr x) \<longleftrightarrow> (\<forall>u \<in> set (nc_peer_urls c). trim u \<noteq> [] \<longrightarrow> url_valid L (trim u))"
proof -
  have "(\<exists>ys. res_map (\<lambda>u. res_bind (url_or L InvalidPeerUrl (trim u)) (\<lambda>url. Inr (url, None)))
      (filter (\<lambda>u. trim u \<noteq> []) (nc_peer_urls c)) = Inr ys) \<longleftrightarrow> (\<forall>u \<in> set (nc_peer_urls c). trim u \<noteq> [] \<longrightarrow> url_valid L (trim u))"
    unfolding res_map_ex by (auto simp: url_or_ex)
  then show ?thesis unfolding conv_peers_def by auto
qed

lemma conv_legacy_peers_ex:
  "(\<exists>x. conv_legacy_peers L c cfg = Inr x) \<longleftrightarrow>
   (nc_peer_urls c = [] \<longrightarrow> (\<forall>p \<in> set (nc_peers c). pc_uri p \<noteq> [] \<longrightarrow> url_valid L (pc_uri p)))"
proof -
  have "(\<exists>ys. res_map (\<lambda>p. res_bind (url_or L InvalidPeerUri (pc_uri p)) (\<lambda>url. Inr (url, pc_peer_public_key p)))
      (filter (\<lambda>p. pc_uri p \<noteq> []) (nc_peers c)) = Inr ys) \<longleftrightarrow> (\<forall>p \<in> set (nc_peers c). pc_uri p \<noteq> [] \<longrightarrow> url_valid L (pc_uri p))"
    unfolding res_map_ex by (auto simp: url_or_ex)
  then show ?thesis unfolding conv_legacy_peers_def by auto
qed

lemma with_urls_ex: "(\<exists>x. with_urls L err xs f cfg = Inr x) \<longleftrightarrow> (\<forall>u \<in> set xs. u \<noteq> [] \<longrightarrow> url_valid L u)"
proof -
  have "(\<exists>ys. res_map (url_or L err) (filter (\<lambda>l. l \<noteq> []) xs) = Inr ys) \<longleftrightarrow> (\<forall>u \<in> set xs. u \<noteq> [] \<longrightarrow> url_valid L u)"
    unfolding res_map_ex url_or_ex by auto
  then show ?thesis unfolding with_urls_def by auto
qed

lemma res_bind_ex:
  "(\<exists>y. r = Inr y) \<longleftrightarrow> P \<Longrightarrow> (\<And>y. (\<exists>x. k y = Inr x) \<longleftrightarrow> Q) \<Longrightarrow> (\<exists>x. res_bind r k = Inr x) \<longleftrightarrow> P \<and> Q"
  by (cases r) auto

lemma conv_listeners_ex:
  "(\<exists>x. conv_listeners L c cfg = Inr x) \<longleftrightarrow>
   (\<forall>u \<in> set (if nc_listener_urls c \<noteq> [] then nc_listener_urls c else nc_listeners c). u \<noteq> [] \<longrightarrow> url_valid L u) \<and>
   (\<forall>u \<in> set (nc_mapped_listeners c). u \<noteq> [] \<longrightarrow> url_valid L u)"
proof -
  have i: "(\<exists>x. (if P then r else Inr d) = Inr x) \<longleftrightarrow> (P \<longrightarrow> (\<exists>x. r = Inr x))" for P and r :: "translate_error + toml_config" and d
    by simp
  have "(\<exists>x. conv_listeners L c cfg = Inr x) \<longleftrightarrow>
      (\<forall>u \<in> set (nc_listener_urls c). u \<noteq> [] \<longrightarrow> url_valid L u) \<and>
      (nc_listeners c \<noteq> [] \<and> nc_listener_urls c = [] \<longrightarrow> (\<forall>u \<in> set (nc_listeners c). u \<noteq> [] \<longrightarrow> url_valid L u)) \<and>
      (\<forall>u \<in> set (nc_mapped_listeners c). u \<noteq> [] \<longrightarrow> url_valid L u)"
    unfolding conv_listeners_def
    by (intro res_bind_ex) (simp_all only: i with_urls_ex)
  then show ?thesis by auto
qed

text \<open>
  C37: The translation fails exactly when one of the URLs it uses does not parse: peers (trimmed),
  or the legacy peers when there are no peer URLs, listeners (or the legacy ones) and mapped
  listeners; blank entries are skipped, and bad CIDRs, routes, exit nodes and port forwards never
  make it fail.
\<close>

theorem translation_succeeds_iff:
  "(\<exists>cfg. to_easytier_config L c = Inr cfg) \<longleftrightarrow> (\<forall>u \<in> set (used_urls c). url_valid L u)"
proof -
  have "(\<exists>cfg. to_easytier_config L c = Inr cfg) \<longleftrightarrow>
      (\<forall>u \<in> set (nc_peer_urls c). trim u \<noteq> [] \<longrightarrow> url_valid L (trim u)) \<and>
      (nc_peer_urls c = [] \<longrightarrow> (\<forall>p \<in> set (nc_peers c). pc_uri p \<noteq> [] \<longrightarrow> url_valid L (pc_uri p))) \<and>
      ((\<forall>u \<in> set (if nc_listener_urls c \<noteq> [] then nc_listener_urls c else nc_listeners c). u \<noteq> [] \<longrightarrow> url_valid L u) \<and>
       (\<forall>u \<in> set (nc_mapped_listeners c). u \<noteq> [] \<longrightarrow> url_valid L u)) \<and> True"
    unfolding to_easytier_config_def Let_def
    by (intro res_bind_ex conv_peers_ex conv_legacy_peers_ex conv_listeners_ex) simp
  then show ?thesis
    unfolding used_urls_def by (auto simp: image_iff)
qed

section \<open>Concrete inputs\<close>

definition net_toy :: net_lib where
  "net_toy =
    \<lparr>nl_url = \<lambda>s. if contains_str s ''://'' then Inr s else Inl ''relative URL without a base'',
     nl_cidr = \<lambda>s. if contains_str s ''/'' then Some s else None, nl_inet = Some,
     nl_network = \<lambda>s. Some ''10.0.0.0/24'', nl_ip = Some, nl_resolve = Some, nl_uuid = ''u'', nl_encryption = ''aes-gcm''\<rparr>"

definition static_config :: network_config where
  "static_config = (network_config_default ''id'')
     \<lparr>nc_virtual_ipv4 := ''10.0.0.5'', nc_proxy_cidrs := [''192.168.1.0/24'', ''192.168.1.0/24''], nc_flags := [(''mtu'', ''1400'')]\<rparr>"

lemma toy_own: "own_cidr net_toy static_config = Some ''10.0.0.0/24''" "trim ''10.0.0.0/24'' = ''10.0.0.0/24''"
  by (simp add: own_cidr_def static_config_def net_toy_def network_config_default_def)
    (rule visible_trim, simp add: visible_def ws1_def)

theorem dedupe_proxy_cidrs_stable_witness:
  "dedupe_proxy_cidrs net_toy (dedupe_proxy_cidrs net_toy static_config) = dedupe_proxy_cidrs net_toy static_config \<and>
   hd (nc_proxy_cidrs (dedupe_proxy_cidrs net_toy static_config)) = ''10.0.0.0/24''"
  using dedupe_proxy_cidrs_stable [of net_toy static_config] toy_own
  by (simp add: dedupe_proxy_cidrs_def [of net_toy static_config] Let_def) (simp add: static_config_def dedupe_proxy_cidrs_def Let_def)

theorem dedupe_drops_legacy_networks_witness:
  "let c = static_config\<lparr>nc_proxy_cidrs := [], nc_proxy_networks := [\<lparr>pn_cidr = ''172.16.0.0/16'', pn_mapped_cidr = None, pn_allow = None\<rparr>]\<rparr>
   in effective_proxy_cidrs net_toy (dedupe_proxy_cidrs net_toy c) = [''10.0.0.0/24'']"
proof -
  let ?c = "static_config\<lparr>nc_proxy_cidrs := [], nc_proxy_networks := [\<lparr>pn_cidr = ''172.16.0.0/16'', pn_mapped_cidr = None, pn_allow = None\<rparr>]\<rparr>"
  have "own_cidr net_toy ?c = Some ''10.0.0.0/24''" by (simp add: own_cidr_def static_config_def net_toy_def network_config_default_def)
  then show ?thesis
    using dedupe_drops_legacy_networks [of ?c net_toy "''10.0.0.0/24''"] toy_own(2) by simp
qed

lemma toy_urls: "used_urls static_config = [''tcp://0.0.0.0:11010'', ''udp://0.0.0.0:11010'', ''wg://0.0.0.0:11011'']"
  by (simp add: used_urls_def static_config_def network_config_default_def)

theorem translation_succeeds_iff_witness: "\<exists>cfg. to_easytier_config net_toy static_config = Inr cfg"
  unfolding translation_succeeds_iff toy_urls by (simp add: url_valid_def net_toy_def)

lemma toy_translation: "\<exists>cfg. to_easytier_config net_toy static_config = Inr cfg"
proof -
  have "\<forall>u \<in> set (nc_listener_urls static_config). u \<noteq> [] \<longrightarrow> url_valid net_toy u"
    by (simp add: static_config_def network_config_default_def url_valid_def net_toy_def)
  moreover have "nc_peer_urls static_config = []" "nc_peers static_config = []" "nc_mapped_listeners static_config = []"
    "nc_listener_urls static_config \<noteq> []"
    by (simp_all add: static_config_def network_config_default_def)
  ultimately show ?thesis
    using conv_listeners_ex [of net_toy static_config]
    by (auto simp: to_easytier_config_def Let_def conv_peers_def conv_legacy_peers_def)
qed

theorem translation_addressing_witness:
  "\<exists>cfg. to_easytier_config net_toy static_config = Inr cfg \<and> tc_dhcp cfg = Some False \<and> tc_ipv4 cfg \<noteq> None"
proof -
  obtain cfg where cfg: "to_easytier_config net_toy static_config = Inr cfg" using toy_translation by blast
  have "nc_virtual_ipv4 static_config \<noteq> []" "nl_inet net_toy s = Some s" for s
    by (simp_all add: static_config_def net_toy_def)
  with translation_addressing [OF cfg] cfg show ?thesis by auto
qed

theorem translation_flag_precedence_witness:
  "\<exists>cfg. to_easytier_config net_toy static_config = Inr cfg \<and> fl_mtu (tc_flags cfg) = 1400 \<and> fl_enable_encryption (tc_flags cfg)"
proof -
  obtain cfg where cfg: "to_easytier_config net_toy static_config = Inr cfg" using toy_translation by blast
  have "parse_uint (2 ^ 32 - 1) ''1400'' = Some 1400" by (simp add: parse_uint_def digit_val_def Let_def)
  moreover have "hm_get (nc_flags static_config) ''mtu'' = Some ''1400''" "hm_get (nc_flags static_config) ''enable_encryption'' = None"
    "\<not> nc_disable_encryption static_config"
    by (simp_all add: static_config_def hm_get_def network_config_default_def)
  ultimately show ?thesis
    using translation_flag_precedence [OF cfg] cfg by simp
qed

end
