(* ===== verification/Json_Value.thy ===== *)
theory Json_Value
  imports Rust_Str Hash_Map
begin

text \<open>
  \<open>serde_json::Value\<close> as the sources take it apart: \<open>get\<close> and the \<open>as_*\<close> accessors. A number is kept
  in one of the three forms the library distinguishes; the digits of a float are kept as text. An
  object is an association list with distinct keys. Reading and writing text is the library's and
  stays a parameter of the code that does it. Also \<open>uuid::Uuid\<close>, a 128-bit number with its printed
  form and parser as the parameter \<open>uuid_lib\<close>.
\<close>

section \<open>Values\<close>

datatype jnum = PosInt u64 | NegInt int | Float string

datatype jvalue = JNull | JBool bool | JNum jnum | JStr string | JArr "jvalue list" | JObj "(string \<times> jvalue) list"

definition jget :: "jvalue \<Rightarrow> string \<Rightarrow> jvalue option" where
  "jget v key = (case v of JObj m \<Rightarrow> hm_get m key | _ \<Rightarrow> None)"

definition as_str :: "jvalue \<Rightarrow> string option" where
  "as_str v = (case v of JStr s \<Rightarrow> Some s | _ \<Rightarrow> None)"

definition as_bool :: "jvalue \<Rightarrow> bool option" where
  "as_bool v = (case v of JBool b \<Rightarrow> Some b | _ \<Rightarrow> None)"

definition as_u64 :: "jvalue \<Rightarrow> u64 option" where
  "as_u64 v = (case v of JNum (PosInt n) \<Rightarrow> Some n | _ \<Rightarrow> None)"

definition as_i64 :: "jvalue \<Rightarrow> int option" where
  "as_i64 v =
    (case v of
       JNum (PosInt n) \<Rightarrow> (if unat n < 2 ^ 63 then Some (uint n) else None)
     | JNum (NegInt i) \<Rightarrow> Some i
     | _ \<Rightarrow> None)"

definition as_array :: "jvalue \<Rightarrow> jvalue list option" where
  "as_array v = (case v of JArr xs \<Rightarrow> Some xs | _ \<Rightarrow> None)"

definition as_object :: "jvalue \<Rightarrow> (string \<times> jvalue) list option" where
  "as_object v = (case v of JObj m \<Rightarrow> Some m | _ \<Rightarrow> None)"

text \<open>\<open>v.get(key).and_then(|v| v.as_str())\<close> and its kin.\<close>

definition get_str :: "jvalue \<Rightarrow> string \<Rightarrow> string option" where "get_str v key = Option.bind (jget v key) as_str"
definition get_bool :: "jvalue \<Rightarrow> string \<Rightarrow> bool option" where "get_bool v key = Option.bind (jget v key) as_bool"
definition get_u64 :: "jvalue \<Rightarrow> string \<Rightarrow> u64 option" where "get_u64 v key = Option.bind (jget v key) as_u64"
definition get_i64 :: "jvalue \<Rightarrow> string \<Rightarrow> int option" where "get_i64 v key = Option.bind (jget v key) as_i64"
definition get_array :: "jvalue \<Rightarrow> string \<Rightarrow> jvalue list option" where "get_array v key = Option.bind (jget v key) as_array"

lemmas json_get_defs = get_str_def get_bool_def get_u64_def get_i64_def get_array_def jget_def as_str_def as_bool_def
  as_u64_def as_i64_def as_array_def as_object_def hm_get_def

text \<open>\<open>i as i32\<close>: the low 32 bits, read as a signed number.\<close>

definition as_i32 :: "int \<Rightarrow> int" where
  "as_i32 i = (let m = i mod 2 ^ 32 in if m < 2 ^ 31 then m else m - 2 ^ 32)"

lemma as_i32_id: "- (2 ^ 31) \<le> i \<Longrightarrow> i < 2 ^ 31 \<Longrightarrow> as_i32 i = i"
proof (cases "i < 0")
  case True
  assume "- (2 ^ 31) \<le> i"
  then have "(i + 2 ^ 32) mod 2 ^ 32 = i + 2 ^ 32"
    using True by (intro mod_pos_pos_trivial) auto
  then have "i mod 2 ^ 32 = i + 2 ^ 32" by simp
  then show ?thesis using \<open>- (2 ^ 31) \<le> i\<close> by (simp add: as_i32_def)
qed (simp add: as_i32_def)

section \<open>UUIDs\<close>

type_synonym uuid = "128 word"

record uuid_lib =
  ul_string :: "uuid \<Rightarrow> string"
  ul_parse :: "string \<Rightarrow> string + uuid"

text \<open>The hyphenated form is read back, and it is a plain file name.\<close>

definition uuid_ok :: "uuid_lib \<Rightarrow> bool" where
  "uuid_ok U \<longleftrightarrow>
     (\<forall>u. ul_parse U (ul_string U u) = Inr u \<and> ul_string U u \<noteq> [] \<and> list_all (\<lambda>c. c \<in> set ''0123456789abcdef-'') (ul_string U u))"

lemma uuid_parse_string [simp]: "uuid_ok U \<Longrightarrow> ul_parse U (ul_string U u) = Inr u"
  by (simp add: uuid_ok_def)

lemma uuid_string_inj: "uuid_ok U \<Longrightarrow> ul_string U u = ul_string U v \<longleftrightarrow> u = v"
  by (metis uuid_parse_string sum.inject(2))

lemma uuid_string_chars: "uuid_ok U \<Longrightarrow> c \<in> set (ul_string U u) \<Longrightarrow> c \<in> set ''0123456789abcdef-''"
  unfolding uuid_ok_def list_all_iff by blast

text \<open>\<open>as_bytes\<close>: the sixteen bytes, most significant first.\<close>

definition uuid_bytes :: "uuid \<Rightarrow> u8 list" where
  "uuid_bytes u = map (\<lambda>i. ucast (drop_bit (8 * (15 - i)) u)) [0..<16]"

text \<open>A concrete syntax of identifiers, their decimal notation.\<close>

definition uuid_toy :: uuid_lib where
  "uuid_toy =
    \<lparr>ul_string = \<lambda>u. dec (unat u),
     ul_parse = \<lambda>s. case parse_uint (2 ^ 128 - 1) s of None \<Rightarrow> Inl ''invalid UUID'' | Some n \<Rightarrow> Inr (word_of_nat n)\<rparr>"

lemma uuid_toy_ok: "uuid_ok uuid_toy"
proof -
  have "ul_parse uuid_toy (ul_string uuid_toy u) = Inr u" for u
  proof -
    have "unat u \<le> 2 ^ 128 - 1" using unsigned_less [of u, where ?'a = nat] by simp
    then show ?thesis by (simp add: uuid_toy_def parse_uint_dec)
  qed
  moreover have "\<forall>d \<in> set [0..<10]. digit_char d \<in> set ''0123456789abcdef-''"
    by code_simp
  then have "list_all (\<lambda>c. c \<in> set ''0123456789abcdef-'') (dec n)" for n
    unfolding list_all_iff by (auto dest!: set_dec simp del: list.set)
  ultimately show ?thesis
    by (simp add: uuid_ok_def uuid_toy_def)
qed

end
