(* ===== verification/Easytier_Manager.thy ===== *)
theory Easytier_Manager
  imports Network_Config Json_Value Json Fs App_Config
begin

text \<open>
  The desktop \<open>EasyTierManager\<close>, \<open>src-tauri/src/easytier/mod.rs\<close>: starting, stopping and patching the
  network instances of the \<open>easytier-core\<close> process over its management RPC, and the configuration
  files the manager keeps beside it. The core process is a parameter, \<open>core_rpc\<close>: its calls act on
  a world of the core's own state and the file system it shares with the manager. The TOML writer,
  the JSON codec, the directory listing and the downloader are parameters too (\<open>et_env\<close>).
\<close>

section \<open>The environment\<close>

record proto_config =
  pb_instance_id :: "string option"
  pb_network_name :: "string option"
  pb_network_secret :: "string option"
  pb_dhcp :: "bool option"
  pb_virtual_ipv4 :: "string option"
  pb_hostname :: "string option"
  pb_listener_urls :: "string list"
  pb_peer_urls :: "string list"
  pb_proxy_cidrs :: "string list"
  pb_enable_manual_routes :: "bool option"
  pb_routes :: "string list"
  pb_exit_nodes :: "string list"
  pb_port_forwards :: "port_forward_config list"
  pb_dev_name :: "string option"
  pb_mtu :: "int option"
  pb_latency_first :: "bool option"
  pb_enable_kcp_proxy :: "bool option"
  pb_enable_quic_proxy :: "bool option"
  pb_no_tun :: "bool option"
  pb_disable_p2p :: "bool option"
  pb_multi_thread :: "bool option"
  pb_bind_device :: "bool option"
  pb_disable_encryption :: "bool option"
  pb_disable_ipv6 :: "bool option"
  pb_encryption_algorithm :: "string option"
  pb_networking_method :: "int option"
  pb_public_server_url :: "string option"

record 'c et_world =
  ew_fs :: fs
  ew_core :: 'c

type_synonym ('c, 'a) et_result = "(string + 'a) \<times> 'c et_world"

record 'c core_rpc =
  cr_connect :: "'c et_world \<Rightarrow> string option"
  cr_run :: "uuid \<Rightarrow> proto_config \<Rightarrow> 'c et_world \<Rightarrow> ('c, unit) et_result"
  cr_delete :: "uuid list \<Rightarrow> 'c et_world \<Rightarrow> ('c, unit) et_result"
  cr_retain :: "uuid list \<Rightarrow> 'c et_world \<Rightarrow> ('c, unit) et_result"

record et_env =
  ee_net :: net_lib
  ee_uuid :: uuid_lib
  ee_dump :: "toml_config \<Rightarrow> string"
  ee_json :: "network_config json"
  ee_value :: "string \<Rightarrow> jvalue option"
  ee_readdir :: "fs \<Rightarrow> path \<Rightarrow> string list"
  ee_binary :: "fs \<Rightarrow> string + path"
  ee_config :: "app_config option"

record et_manager =
  em_config_dir :: path

text \<open>\<open>config_dir.join(format!("{}.toml", id))\<close>\<close>

definition toml_path :: "et_env \<Rightarrow> et_manager \<Rightarrow> uuid \<Rightarrow> path" where
  "toml_path E M u = path_join (em_config_dir M) (ul_string (ee_uuid E) u @ ''.toml'')"

definition json_path :: "et_env \<Rightarrow> et_manager \<Rightarrow> uuid \<Rightarrow> path" where
  "json_path E M u = path_join (em_config_dir M) (ul_string (ee_uuid E) u @ ''.json'')"

text \<open>\<open>.map_err(|e| format!("ctx{}", e))\<close>\<close>

definition ctx_err :: "string \<Rightarrow> string + 'a \<Rightarrow> string + 'a" where
  "ctx_err ctx r = (case r of Inl e \<Rightarrow> Inl (ctx @ e) | Inr x \<Rightarrow> Inr x)"

definition quote1 :: "string \<Rightarrow> string" where "quote1 s = CHR 0x27 # s @ [CHR 0x27]"

fun translate_error_msg :: "translate_error \<Rightarrow> string" where
  "translate_error_msg (InvalidPeerUrl u e) = ''invalid peer URL '' @ quote1 u @ '': '' @ e"
| "translate_error_msg (InvalidPeerUri u e) = ''invalid peer URI '' @ quote1 u @ '': '' @ e"
| "translate_error_msg (InvalidListener u e) = ''invalid listener '' @ quote1 u @ '': '' @ e"
| "translate_error_msg (InvalidMappedListener u e) = ''invalid mapped listener '' @ quote1 u @ '': '' @ e"

section \<open>The configuration sent to the core\<close>

text \<open>\<open>str::parse::<i32>\<close>\<close>

definition parse_i32 :: "string \<Rightarrow> int option" where
  "parse_i32 s =
    (if starts_with s ''-'' then map_option (\<lambda>n. - int n) (if starts_with (tl s) ''+'' then None else parse_uint (2 ^ 31) (tl s))
     else map_option int (parse_uint (2 ^ 31 - 1) s))"

definition flag_true :: "network_config \<Rightarrow> string \<Rightarrow> bool option" where
  "flag_true c key = map_option (\<lambda>v. v = ''true'') (hm_get (nc_flags c) key)"

definition build_proto_config :: "et_env \<Rightarrow> network_config \<Rightarrow> uuid \<Rightarrow> proto_config" where
  "build_proto_config E c instance_id =
    (let (networking_method, public_server_url) =
           (if nc_networking_method c = 0
            then (Some 0, if nc_public_server_url c = [] then None else Some (nc_public_server_url c))
            else if nc_networking_method c = 1 then (Some 1, None)
            else if nc_networking_method c = 2 then (Some 2, None)
            else (None, None));
         effective_ipv4 =
           (if nc_virtual_ipv4 c \<noteq> [] then Some (nc_virtual_ipv4 c)
            else (case nc_ipv4 c of Some ipv4 \<Rightarrow> if ipv4 \<noteq> [] then Some ipv4 else None | None \<Rightarrow> None));
         default_space_ip = cfg_get_str (ee_config E) KEY_DEFAULT_SPACE_IP DEFAULT_SPACE_IP;
         effective_ipv4 =
           (case effective_ipv4 of Some a \<Rightarrow> Some a | None \<Rightarrow> if \<not> nc_dhcp c then Some default_space_ip else None)
     in \<lparr>pb_instance_id = Some (ul_string (ee_uuid E) instance_id),
         pb_network_name = (if nc_network_name c = [] then None else Some (nc_network_name c)),
         pb_network_secret = (if nc_network_secret c = [] then None else Some (nc_network_secret c)),
         pb_dhcp = Some (if effective_ipv4 \<noteq> None then False else nc_dhcp c),
         pb_virtual_ipv4 = effective_ipv4,
         pb_hostname = nc_hostname c,
         pb_listener_urls = nc_listener_urls c,
         pb_peer_urls = (if nc_peer_urls c \<noteq> [] then nc_peer_urls c else map pc_uri (nc_peers c)),
         pb_proxy_cidrs = effective_proxy_cidrs (ee_net E) c,
         pb_enable_manual_routes = Some (nc_enable_manual_routes c),
         pb_routes = nc_routes c,
         pb_exit_nodes = nc_exit_nodes c,
         pb_port_forwards = [],
         pb_dev_name = hm_get (nc_flags c) ''dev_name'',
         pb_mtu = Option.bind (hm_get (nc_flags c) ''mtu'') parse_i32,
         pb_latency_first = flag_true c ''latency_first'',
         pb_enable_kcp_proxy = flag_true c ''enable_kcp_proxy'',
         pb_enable_quic_proxy = flag_true c ''enable_quic_proxy'',
         pb_no_tun = flag_true c ''no_tun'',
         pb_disable_p2p = flag_true c ''disable_p2p'',
         pb_multi_thread = flag_true c ''multi_thread'',
         pb_bind_device = flag_true c ''bind_device'',
         pb_disable_encryption = None,
         pb_disable_ipv6 = None,
         pb_encryption_algorithm = hm_get (nc_flags c) ''encryption_algorithm'',
         pb_networking_method = networking_method,
         pb_public_server_url = public_server_url\<rparr>)"

section \<open>Run-time configuration\<close>

text \<open>\<open>Value::String\<close>, \<open>Bool\<close> and \<open>Number\<close> as text; anything else is skipped.\<close>

fun flag_text :: "jvalue \<Rightarrow> string option" where
  "flag_text (JStr s) = Some s"
| "flag_text (JBool b) = Some (if b then ''true'' else ''false'')"
| "flag_text (JNum (PosInt n)) = Some (dec (unat n))"
| "flag_text (JNum (NegInt i)) = Some (if i < 0 then CHR ''-'' # dec (nat (- i)) else dec (nat i))"
| "flag_text (JNum (Float s)) = Some s"
| "flag_text _ = None"

definition runtime_flag :: "string \<times> jvalue \<Rightarrow> et_flags \<Rightarrow> et_flags" where
  "runtime_flag kv f =
    (case flag_text (snd kv) of
       None \<Rightarrow> f
     | Some s \<Rightarrow>
        (let key = fst kv; on = (s = ''true'') in
         if key = ''mtu'' then (case parse_uint (2 ^ 32 - 1) s of Some m \<Rightarrow> f\<lparr>fl_mtu := word_of_nat m\<rparr> | None \<Rightarrow> f)
         else if key = ''latency_first'' then f\<lparr>fl_latency_first := on\<rparr>
         else if key = ''enable_kcp_proxy'' then f\<lparr>fl_enable_kcp_proxy := on\<rparr>
         else if key = ''enable_quic_proxy'' then f\<lparr>fl_enable_quic_proxy := on\<rparr>
         else if key = ''encryption_algorithm'' then f\<lparr>fl_encryption_algorithm := s\<rparr>
         else if key = ''no_tun'' then f\<lparr>fl_no_tun := on\<rparr>
         else if key = ''disable_p2p'' then f\<lparr>fl_disable_p2p := on\<rparr>
         else if key = ''multi_thread'' then f\<lparr>fl_multi_thread := on\<rparr>
         else if key = ''bind_device'' then f\<lparr>fl_bind_device := on\<rparr>
         else if key = ''default_protocol'' then f\<lparr>fl_default_protocol := s\<rparr>
         else if key = ''dev_name'' then f\<lparr>fl_dev_name := s\<rparr>
         else if key = ''enable_encryption'' then f\<lparr>fl_enable_encryption := on\<rparr>
         else if key = ''enable_ipv6'' then f\<lparr>fl_enable_ipv6 := on\<rparr>
         else f))"

definition runtime_peer :: "net_lib \<Rightarrow> jvalue \<Rightarrow> (string \<times> string option) option" where
  "runtime_peer L p =
    (case get_str p ''uri'' of
       None \<Rightarrow> None
     | Some uri \<Rightarrow>
        (if uri = [] then None
         else (case nl_url L uri of Inl _ \<Rightarrow> None | Inr url \<Rightarrow> Some (url, get_str p ''peer_public_key''))))"

definition non_empty :: "string option \<Rightarrow> string option" where
  "non_empty x = (case x of Some s \<Rightarrow> if s \<noteq> [] then Some s else None | None \<Rightarrow> None)"

definition apply_runtime_config :: "et_env \<Rightarrow> string \<Rightarrow> toml_config \<Rightarrow> toml_config" where
  "apply_runtime_config E config_str cfg =
    (case ee_value E config_str of
       None \<Rightarrow> cfg
     | Some v \<Rightarrow>
        (let cfg = (case Option.bind (jget v ''flags'') as_object of
                      Some flags \<Rightarrow> cfg\<lparr>tc_flags := fold runtime_flag flags (tc_flags cfg)\<rparr> | None \<Rightarrow> cfg);
             cfg = (case non_empty (get_str v ''hostname'') of Some h \<Rightarrow> cfg\<lparr>tc_hostname := Some h\<rparr> | None \<Rightarrow> cfg);
             cfg = (case non_empty (get_str v ''ipv4'') of
                      Some ip \<Rightarrow> (case nl_inet (ee_net E) (ip @ ''/24'') of Some i \<Rightarrow> cfg\<lparr>tc_ipv4 := Some i\<rparr> | None \<Rightarrow> cfg)
                    | None \<Rightarrow> cfg);
             cfg = (case get_bool v ''dhcp'' of Some d \<Rightarrow> cfg\<lparr>tc_dhcp := Some d\<rparr> | None \<Rightarrow> cfg);
             cfg = (case jget v ''network_identity'' of
                      Some ni \<Rightarrow>
                        (let nn = non_empty (get_str ni ''network_name''); ns = non_empty (get_str ni ''network_secret'')
                         in if nn \<noteq> None \<or> ns \<noteq> None
                            then cfg\<lparr>tc_identity := (case nn of Some s \<Rightarrow> s | None \<Rightarrow> [], case ns of Some s \<Rightarrow> s | None \<Rightarrow> [])\<rparr>
                            else cfg)
                    | None \<Rightarrow> cfg)
         in case get_array v ''peers'' of
              Some peers \<Rightarrow>
                (let easy_peers = List.map_filter (runtime_peer (ee_net E)) peers
                 in if easy_peers \<noteq> [] then cfg\<lparr>tc_peers := Some easy_peers\<rparr> else cfg)
            | None \<Rightarrow> cfg))"

section \<open>Files and calls\<close>

definition with_fs :: "(fs \<Rightarrow> (string + 'a) \<times> fs) \<Rightarrow> 'c et_world \<Rightarrow> ('c, 'a) et_result" where
  "with_fs f w = (let (r, fs) = f (ew_fs w) in (r, w\<lparr>ew_fs := fs\<rparr>))"

text \<open>The \<open>?\<close> operator on calls that act on the world.\<close>

definition et_bind :: "('c, 'a) et_result \<Rightarrow> ('a \<Rightarrow> 'c et_world \<Rightarrow> ('c, 'b) et_result) \<Rightarrow> ('c, 'b) et_result" where
  "et_bind r f = (case r of (Inl e, w) \<Rightarrow> (Inl e, w) | (Inr x, w) \<Rightarrow> f x w)"

text \<open>\<open>scoped_client(...)\<close> and then the call.\<close>

definition rpc_call :: "'c core_rpc \<Rightarrow> ('c et_world \<Rightarrow> ('c, 'a) et_result) \<Rightarrow> 'c et_world \<Rightarrow> ('c, 'a) et_result" where
  "rpc_call R call w =
    (case cr_connect R w of Some e \<Rightarrow> (Inl (utf8_text [232, 191, 158, 230, 142, 165] @ '' easytier-core RPC '' @ utf8_text [229, 164, 177, 232, 180, 165] @ '': '' @ e), w) | None \<Rightarrow> call w)"

definition rpc_run_network_instance :: "'c core_rpc \<Rightarrow> uuid \<Rightarrow> proto_config \<Rightarrow> 'c et_world \<Rightarrow> ('c, unit) et_result" where
  "rpc_run_network_instance R instance_id config =
    rpc_call R (\<lambda>w. case cr_run R instance_id config w of (r, w') \<Rightarrow> (ctx_err (''RPC run_network_instance '' @ utf8_text [229, 164, 177, 232, 180, 165] @ '': '') r, w'))"

text \<open>Up to three attempts at \<open>retain_network_instance([])\<close>; the last failure is only logged.\<close>

fun retain_attempts :: "nat \<Rightarrow> 'c core_rpc \<Rightarrow> 'c et_world \<Rightarrow> 'c et_world" where
  "retain_attempts 0 R w = w"
| "retain_attempts (Suc n) R w = (case cr_retain R [] w of (Inr _, w') \<Rightarrow> w' | (Inl _, w') \<Rightarrow> retain_attempts n R w')"

definition clear_all_instances :: "'c core_rpc \<Rightarrow> 'c et_world \<Rightarrow> ('c, unit) et_result" where
  "clear_all_instances R = rpc_call R (\<lambda>w. (Inr (), retain_attempts 3 R w))"

definition read_config :: "et_env \<Rightarrow> et_manager \<Rightarrow> uuid \<Rightarrow> fs \<Rightarrow> string option" where
  "read_config E M instance_id fs = fs_read_to_string fs (toml_path E M instance_id)"

definition stop_network :: "et_env \<Rightarrow> 'c core_rpc \<Rightarrow> et_manager \<Rightarrow> uuid \<Rightarrow> 'c et_world \<Rightarrow> ('c, string option) et_result" where
  "stop_network E R M instance_id w =
    (let config = read_config E M instance_id (ew_fs w) in
     rpc_call R (\<lambda>w.
       let w1 = snd (cr_delete R [instance_id] w);
           p = toml_path E M instance_id;
           w2 = (if fs_exists (ew_fs w1) p then w1\<lparr>ew_fs := snd (fs_remove_file p (ew_fs w1))\<rparr> else w1)
       in (Inr config, w2)) w)"

text \<open>\<open>if path.exists() { remove_file(path)? }\<close>\<close>

definition remove_if_exists :: "string \<Rightarrow> path \<Rightarrow> 'c et_world \<Rightarrow> ('c, unit) et_result" where
  "remove_if_exists ctx p w =
    (if fs_exists (ew_fs w) p then (case with_fs (fs_remove_file p) w of (r, w') \<Rightarrow> (ctx_err ctx r, w')) else (Inr (), w))"

definition write_file :: "string \<Rightarrow> path \<Rightarrow> bytes \<Rightarrow> 'c et_world \<Rightarrow> ('c, unit) et_result" where
  "write_file ctx p b w = (case with_fs (fs_write p b) w of (r, w') \<Rightarrow> (ctx_err ctx r, w'))"

definition generate_config ::
  "et_env \<Rightarrow> et_manager \<Rightarrow> network_config \<Rightarrow> uuid \<Rightarrow> string option \<Rightarrow> 'c et_world \<Rightarrow> ('c, path) et_result" where
  "generate_config E M c instance_id initial_config w =
    (case to_easytier_config (ee_net E) c of
       Inl e \<Rightarrow> (Inl (translate_error_msg e), w)
     | Inr easytier_cfg \<Rightarrow>
        (let easytier_cfg = (case initial_config of Some s \<Rightarrow> apply_runtime_config E s easytier_cfg | None \<Rightarrow> easytier_cfg);
             config_content = ee_dump E easytier_cfg;
             config_path = toml_path E M instance_id
         in case fs_create_dir_all (em_config_dir M) (ew_fs w) of
              Inl e \<Rightarrow> (Inl (utf8_text [229, 136, 155, 229, 187, 186, 233, 133, 141, 231, 189, 174, 231, 155, 174, 229, 189, 149, 229, 164, 177, 232, 180, 165] @ '': '' @ e), w)
            | Inr _ \<Rightarrow>
               et_bind (write_file (utf8_text [229, 134, 153, 229, 133, 165, 233, 133, 141, 231, 189, 174, 230, 150, 135, 228, 187, 182, 229, 164, 177, 232, 180, 165] @ '': '') config_path (as_bytes config_content) w) (\<lambda>_ w.
               et_bind (ctx_err (utf8_text [229, 186, 143, 229, 136, 151, 229, 140, 150] @ '' NetworkConfig '' @ utf8_text [229, 164, 177, 232, 180, 165] @ '': '') (js_ser (ee_json E) c), w) (\<lambda>json_content w.
               et_bind (write_file (utf8_text [229, 134, 153, 229, 133, 165] @ '' JSON '' @ utf8_text [233, 133, 141, 231, 189, 174, 229, 164, 177, 232, 180, 165] @ '': '') (json_path E M instance_id) json_content w) (\<lambda>_ w.
                 (Inr config_path, w))))))"

definition start_network ::
  "et_env \<Rightarrow> 'c core_rpc \<Rightarrow> et_manager \<Rightarrow> network_config \<Rightarrow> uuid \<Rightarrow> string option \<Rightarrow> 'c et_world \<Rightarrow> ('c, uuid) et_result" where
  "start_network E R M c instance_id initial_config w =
    et_bind (clear_all_instances R w) (\<lambda>_ w.
    et_bind (remove_if_exists (utf8_text [229, 136, 160, 233, 153, 164, 230, 151, 167] @ '' TOML '' @ utf8_text [233, 133, 141, 231, 189, 174, 230, 150, 135, 228, 187, 182, 229, 164, 177, 232, 180, 165] @ '': '') (toml_path E M instance_id) w) (\<lambda>_ w.
    et_bind (ee_binary E (ew_fs w), w) (\<lambda>_ w.
    et_bind (generate_config E M c instance_id initial_config w) (\<lambda>_ w.
    et_bind (rpc_run_network_instance R instance_id (build_proto_config E c instance_id) w) (\<lambda>_ w.
    et_bind (remove_if_exists (utf8_text [229, 136, 160, 233, 153, 164] @ '' RPC '' @ utf8_text [229, 134, 153, 229, 133, 165, 231, 154, 132] @ '' TOML '' @ utf8_text [230, 150, 135, 228, 187, 182, 229, 164, 177, 232, 180, 165] @ '': '') (toml_path E M instance_id) w) (\<lambda>_ w.
      (Inr instance_id, w)))))))"

section \<open>What is saved and what runs\<close>

text \<open>\<open>name.strip_suffix(".toml")\<close> of every entry that ends so.\<close>

definition list_saved :: "et_env \<Rightarrow> et_manager \<Rightarrow> fs \<Rightarrow> string list" where
  "list_saved E M fs =
    (if fs_rfault fs (em_config_dir M) \<noteq> None then []
     else map (\<lambda>n. take (length n - 5) n) (filter (\<lambda>n. ends_with n ''.toml'') (ee_readdir E fs (em_config_dir M))))"

definition is_running :: "et_env \<Rightarrow> et_manager \<Rightarrow> uuid \<Rightarrow> fs \<Rightarrow> bool" where
  "is_running E M instance_id fs = fs_exists fs (toml_path E M instance_id)"

definition list_running :: "et_env \<Rightarrow> et_manager \<Rightarrow> fs \<Rightarrow> uuid list" where
  "list_running E M fs =
    List.map_filter (\<lambda>s. case ul_parse (ee_uuid E) s of Inl _ \<Rightarrow> None | Inr u \<Rightarrow> Some u) (list_saved E M fs)"

section \<open>Reading a configuration back\<close>

text \<open>The last resort: the lines of the \<open>[network_identity]\<close> section of the TOML file.\<close>

definition trim_quotes :: "string \<Rightarrow> string" where
  "trim_quotes s = (let dq = (\<lambda>c. c = CHR 0x22) in rev (dropWhile dq (rev (dropWhile dq s))))"

definition split_once :: "char \<Rightarrow> string \<Rightarrow> (string \<times> string) option" where
  "split_once c s = (case find_char c s of Some i \<Rightarrow> Some (take i s, drop (Suc i) s) | None \<Rightarrow> None)"

definition identity_line :: "string \<Rightarrow> network_config \<Rightarrow> network_config" where
  "identity_line line c =
    (case split_once (CHR ''='') line of
       None \<Rightarrow> c
     | Some (key, value) \<Rightarrow>
        (let key = trim key; value = trim_quotes (trim value) in
         if key = ''network_name'' then c\<lparr>nc_network_name := value\<rparr>
         else if key = ''network_secret'' then c\<lparr>nc_network_secret := value\<rparr>
         else c))"

definition toml_identity :: "string \<Rightarrow> network_config \<Rightarrow> network_config" where
  "toml_identity toml_content c =
    (let ls = lines toml_content; header = (\<lambda>l. starts_with l ''[network_identity]'') in
     if List.find header ls \<noteq> None
     then fold identity_line (takeWhile (\<lambda>l. \<not> starts_with l ''['') (dropWhile (\<lambda>l. \<not> header l) ls)) c
     else c)"

definition read_network_config :: "et_env \<Rightarrow> et_manager \<Rightarrow> string \<Rightarrow> uuid \<Rightarrow> fs \<Rightarrow> string + network_config" where
  "read_network_config E M default_id instance_id fs =
    (let jp = json_path E M instance_id; config_path = toml_path E M instance_id in
     if fs_exists fs jp then
       (case fs_read_to_string fs jp of
          None \<Rightarrow> Inl (utf8_text [232, 175, 187, 229, 143, 150] @ '' JSON '' @ utf8_text [233, 133, 141, 231, 189, 174, 229, 164, 177, 232, 180, 165] @ '': '')
        | Some s \<Rightarrow> ctx_err (utf8_text [229, 143, 141, 229, 186, 143, 229, 136, 151, 229, 140, 150] @ '' NetworkConfig '' @ utf8_text [229, 164, 177, 232, 180, 165] @ '': '') (js_de (ee_json E) (as_bytes s)))
     else if \<not> fs_exists fs config_path then Inl (utf8_text [233, 133, 141, 231, 189, 174, 230, 150, 135, 228, 187, 182, 228, 184, 141, 229, 173, 152, 229, 156, 168] @ '': '' @ concat (map (\<lambda>p. ''/'' @ p) config_path))
     else
       (case fs_read_to_string fs config_path of
          None \<Rightarrow> Inl (utf8_text [232, 175, 187, 229, 143, 150, 233, 133, 141, 231, 189, 174, 230, 150, 135, 228, 187, 182, 229, 164, 177, 232, 180, 165] @ '': '')
        | Some s \<Rightarrow> Inr (toml_identity s (network_config_default default_id))))"

section \<open>Patching\<close>

definition on_str :: "string \<Rightarrow> (string \<Rightarrow> network_config \<Rightarrow> network_config) \<Rightarrow> jvalue \<Rightarrow> network_config \<Rightarrow> network_config" where
  "on_str key f patch c = (case get_str patch key of Some s \<Rightarrow> f s c | None \<Rightarrow> c)"

definition on_bool :: "string \<Rightarrow> (bool \<Rightarrow> network_config \<Rightarrow> network_config) \<Rightarrow> jvalue \<Rightarrow> network_config \<Rightarrow> network_config" where
  "on_bool key f patch c = (case get_bool patch key of Some b \<Rightarrow> f b c | None \<Rightarrow> c)"

definition on_u64 :: "string \<Rightarrow> (u64 \<Rightarrow> network_config \<Rightarrow> network_config) \<Rightarrow> jvalue \<Rightarrow> network_config \<Rightarrow> network_config" where
  "on_u64 key f patch c = (case get_u64 patch key of Some n \<Rightarrow> f n c | None \<Rightarrow> c)"

definition on_i64 :: "string \<Rightarrow> (int \<Rightarrow> network_config \<Rightarrow> network_config) \<Rightarrow> jvalue \<Rightarrow> network_config \<Rightarrow> network_config" where
  "on_i64 key f patch c = (case get_i64 patch key of Some i \<Rightarrow> f i c | None \<Rightarrow> c)"

text \<open>\<open>as_array\<close>, keeping the elements that are strings.\<close>

definition on_strs :: "string \<Rightarrow> (string list \<Rightarrow> network_config \<Rightarrow> network_config) \<Rightarrow> jvalue \<Rightarrow> network_config \<Rightarrow> network_config" where
  "on_strs key f patch c = (case get_array patch key of Some xs \<Rightarrow> f (List.map_filter as_str xs) c | None \<Rightarrow> c)"

definition patch_peers :: "jvalue \<Rightarrow> network_config \<Rightarrow> network_config" where
  "patch_peers patch c =
    (case get_array patch ''peers'' of
       Some ps \<Rightarrow>
         c\<lparr>nc_peers := List.map_filter (\<lambda>p.
             map_option (\<lambda>uri. \<lparr>pc_uri = uri, pc_peer_public_key = get_str p ''peer_public_key''\<rparr>) (get_str p ''uri'')) ps\<rparr>
     | None \<Rightarrow> c)"

definition patch_flags :: "jvalue \<Rightarrow> network_config \<Rightarrow> network_config" where
  "patch_flags patch c =
    (case Option.bind (jget patch ''flags'') as_object of
       Some flags \<Rightarrow>
         fold (\<lambda>(key, val) c. case as_str val of Some s \<Rightarrow> c\<lparr>nc_flags := hm_insert key s (nc_flags c)\<rparr> | None \<Rightarrow> c) flags c
     | None \<Rightarrow> c)"

definition patch_identity :: "jvalue \<Rightarrow> network_config \<Rightarrow> network_config" where
  "patch_identity patch c =
    fold (\<lambda>step. step)
      [on_str ''network_name'' (\<lambda>s c. c\<lparr>nc_network_name := s\<rparr>) patch,
       on_str ''network_secret'' (\<lambda>s c. c\<lparr>nc_network_secret := s\<rparr>) patch,
       on_bool ''dhcp'' (\<lambda>b c. c\<lparr>nc_dhcp := b\<rparr>) patch,
       on_str ''ipv4'' (\<lambda>s c. c\<lparr>nc_ipv4 := Some s\<rparr>) patch,
       on_str ''ipv6'' (\<lambda>s c. c\<lparr>nc_ipv6 := Some s\<rparr>) patch,
       on_str ''hostname'' (\<lambda>s c. c\<lparr>nc_hostname := Some s\<rparr>) patch,
       on_str ''virtual_ipv4'' (\<lambda>s c. c\<lparr>nc_virtual_ipv4 := s\<rparr>) patch,
       on_u64 ''network_length'' (\<lambda>n c. c\<lparr>nc_network_length := ucast n\<rparr>) patch,
       on_str ''credential_file'' (\<lambda>s c. c\<lparr>nc_credential_file := Some s\<rparr>) patch,
       on_i64 ''networking_method'' (\<lambda>i c. c\<lparr>nc_networking_method := as_i32 i\<rparr>) patch,
       on_str ''public_server_url'' (\<lambda>s c. c\<lparr>nc_public_server_url := s\<rparr>) patch,
       on_strs ''peer_urls'' (\<lambda>xs c. c\<lparr>nc_peer_urls := xs\<rparr>) patch,
       on_strs ''listener_urls'' (\<lambda>xs c. c\<lparr>nc_listener_urls := xs\<rparr>) patch,
       on_strs ''mapped_listeners'' (\<lambda>xs c. c\<lparr>nc_mapped_listeners := xs\<rparr>) patch,
       on_strs ''proxy_cidrs'' (\<lambda>xs c. c\<lparr>nc_proxy_cidrs := xs\<rparr>) patch,
       on_strs ''relay_network_whitelist'' (\<lambda>xs c. c\<lparr>nc_relay_network_whitelist := xs\<rparr>) patch,
       on_strs ''routes'' (\<lambda>xs c. c\<lparr>nc_routes := xs\<rparr>) patch,
       on_strs ''exit_nodes'' (\<lambda>xs c. c\<lparr>nc_exit_nodes := xs\<rparr>) patch,
       patch_peers patch,
       patch_flags patch] c"

definition patch_switches :: "jvalue \<Rightarrow> network_config \<Rightarrow> network_config" where
  "patch_switches patch c =
    fold (\<lambda>step. step)
      [on_bool ''enable_vpn_portal'' (\<lambda>b c. c\<lparr>nc_enable_vpn_portal := b\<rparr>) patch,
       on_bool ''disable_ipv6'' (\<lambda>b c. c\<lparr>nc_disable_ipv6 := b\<rparr>) patch,
       on_bool ''disable_p2p'' (\<lambda>b c. c\<lparr>nc_disable_p2p := b\<rparr>) patch,
       on_bool ''enable_kcp_proxy'' (\<lambda>b c. c\<lparr>nc_enable_kcp_proxy := b\<rparr>) patch,
       on_bool ''enable_quic_proxy'' (\<lambda>b c. c\<lparr>nc_enable_quic_proxy := b\<rparr>) patch,
       on_bool ''latency_first'' (\<lambda>b c. c\<lparr>nc_latency_first := b\<rparr>) patch,
       on_bool ''use_smoltcp'' (\<lambda>b c. c\<lparr>nc_use_smoltcp := b\<rparr>) patch,
       on_bool ''no_tun'' (\<lambda>b c. c\<lparr>nc_no_tun := b\<rparr>) patch,
       on_bool ''enable_exit_node'' (\<lambda>b c. c\<lparr>nc_enable_exit_node := b\<rparr>) patch,
       on_bool ''enable_socks5'' (\<lambda>b c. c\<lparr>nc_enable_socks5 := b\<rparr>) patch,
       on_bool ''enable_udp_broadcast_relay'' (\<lambda>b c. c\<lparr>nc_enable_udp_broadcast_relay := b\<rparr>) patch,
       on_bool ''enable_magic_dns'' (\<lambda>b c. c\<lparr>nc_enable_magic_dns := b\<rparr>) patch,
       on_bool ''enable_private_mode'' (\<lambda>b c. c\<lparr>nc_enable_private_mode := b\<rparr>) patch,
       on_bool ''enable_relay_network_whitelist'' (\<lambda>b c. c\<lparr>nc_enable_relay_network_whitelist := b\<rparr>) patch,
       on_bool ''enable_manual_routes'' (\<lambda>b c. c\<lparr>nc_enable_manual_routes := b\<rparr>) patch,
       on_bool ''bind_device'' (\<lambda>b c. c\<lparr>nc_bind_device := b\<rparr>) patch,
       on_bool ''p2p_only'' (\<lambda>b c. c\<lparr>nc_p2p_only := b\<rparr>) patch,
       on_bool ''lazy_p2p'' (\<lambda>b c. c\<lparr>nc_lazy_p2p := b\<rparr>) patch,
       on_bool ''multi_thread'' (\<lambda>b c. c\<lparr>nc_multi_thread := b\<rparr>) patch,
       on_bool ''proxy_forward_by_system'' (\<lambda>b c. c\<lparr>nc_proxy_forward_by_system := b\<rparr>) patch,
       on_bool ''disable_encryption'' (\<lambda>b c. c\<lparr>nc_disable_encryption := b\<rparr>) patch,
       on_bool ''disable_tcp_hole_punching'' (\<lambda>b c. c\<lparr>nc_disable_tcp_hole_punching := b\<rparr>) patch,
       on_bool ''disable_udp_hole_punching'' (\<lambda>b c. c\<lparr>nc_disable_udp_hole_punching := b\<rparr>) patch,
       on_bool ''disable_upnp'' (\<lambda>b c. c\<lparr>nc_disable_upnp := b\<rparr>) patch,
       on_bool ''disable_sym_hole_punching'' (\<lambda>b c. c\<lparr>nc_disable_sym_hole_punching := b\<rparr>) patch] c"

definition patch_numbers :: "jvalue \<Rightarrow> network_config \<Rightarrow> network_config" where
  "patch_numbers patch c =
    fold (\<lambda>step. step)
      [on_u64 ''vpn_portal_listen_port'' (\<lambda>n c. c\<lparr>nc_vpn_portal_listen_port := ucast n\<rparr>) patch,
       on_u64 ''vpn_portal_client_network_len'' (\<lambda>n c. c\<lparr>nc_vpn_portal_client_network_len := ucast n\<rparr>) patch,
       on_str ''vpn_portal_client_network_addr'' (\<lambda>s c. c\<lparr>nc_vpn_portal_client_network_addr := s\<rparr>) patch,
       on_u64 ''socks5_port'' (\<lambda>n c. c\<lparr>nc_socks5_port := ucast n\<rparr>) patch,
       on_u64 ''mtu'' (\<lambda>n c. c\<lparr>nc_mtu := Some (ucast n)\<rparr>) patch,
       on_u64 ''instance_recv_bps_limit'' (\<lambda>n c. c\<lparr>nc_instance_recv_bps_limit := Some n\<rparr>) patch,
       on_str ''dev_name'' (\<lambda>s c. c\<lparr>nc_dev_name := s\<rparr>) patch] c"

definition apply_patch :: "jvalue \<Rightarrow> network_config \<Rightarrow> network_config" where
  "apply_patch patch c = patch_numbers patch (patch_switches patch (patch_identity patch c))"

text \<open>The function ends with a new instance whether or not one was running before.\<close>

definition et_patch_config ::
  "et_env \<Rightarrow> 'c core_rpc \<Rightarrow> et_manager \<Rightarrow> string \<Rightarrow> uuid \<Rightarrow> jvalue \<Rightarrow> 'c et_world \<Rightarrow> ('c, unit) et_result" where
  "et_patch_config E R M default_id instance_id patch w =
    et_bind (read_network_config E M default_id instance_id (ew_fs w), w) (\<lambda>c w.
      let c = apply_patch patch c in
      et_bind (generate_config E M c instance_id None w) (\<lambda>_ w.
        rpc_run_network_instance R instance_id (build_proto_config E c instance_id) w))"

section \<open>Restarting\<close>

text \<open>Every failure of a single instance is ignored.\<close>

definition restart_instance :: "et_env \<Rightarrow> 'c core_rpc \<Rightarrow> et_manager \<Rightarrow> string \<Rightarrow> uuid \<Rightarrow> 'c et_world \<Rightarrow> 'c et_world" where
  "restart_instance E R M default_id space_id w =
    (if fs_exists (ew_fs w) (toml_path E M space_id) then
       (case read_network_config E M default_id space_id (ew_fs w) of
          Inl _ \<Rightarrow> w
        | Inr c \<Rightarrow> snd (rpc_run_network_instance R space_id (build_proto_config E c space_id) w))
     else w)"

definition restart_all_instances :: "et_env \<Rightarrow> 'c core_rpc \<Rightarrow> et_manager \<Rightarrow> string \<Rightarrow> 'c et_world \<Rightarrow> 'c et_world" where
  "restart_all_instances E R M default_id w = fold (restart_instance E R M default_id) (list_running E M (ew_fs w)) w"

text \<open>\<open>install\<close> is the downloader's work for the chosen source.\<close>

definition et_upgrade ::
  "et_env \<Rightarrow> 'c core_rpc \<Rightarrow> et_manager \<Rightarrow> string \<Rightarrow> ('c et_world \<Rightarrow> ('c, unit) et_result) \<Rightarrow> 'c et_world \<Rightarrow> ('c, unit) et_result" where
  "et_upgrade E R M default_id install w =
    et_bind (install w) (\<lambda>_ w. (Inr (), restart_all_instances E R M default_id w))"

section \<open>What the core process promises\<close>

text \<open>
  The documented behaviour of \<open>easytier-core\<close>'s management service when it is up: \<open>run\<close> with
  \<open>overwrite\<close> leaves the instance running with the given configuration, \<open>delete\<close> and \<open>retain\<close>
  remove instances, and none of them touches files other than the \<open>.toml\<close> files of the instances
  concerned. \<open>running\<close> reads the running instances off the core's state.
\<close>

definition same_faults :: "fs \<Rightarrow> fs \<Rightarrow> bool" where
  "same_faults fs fs' \<longleftrightarrow> fs_rfault fs' = fs_rfault fs \<and> fs_wfault fs' = fs_wfault fs \<and> fs_lfault fs' = fs_lfault fs"

definition tomls_only :: "et_env \<Rightarrow> et_manager \<Rightarrow> fs \<Rightarrow> fs \<Rightarrow> bool" where
  "tomls_only E M fs fs' \<longleftrightarrow> same_faults fs fs' \<and>
     (\<forall>p. p \<notin> range (toml_path E M) \<longrightarrow> fs_data fs' p = fs_data fs p)"

definition core_ok :: "et_env \<Rightarrow> et_manager \<Rightarrow> 'c core_rpc \<Rightarrow> ('c \<Rightarrow> uuid \<rightharpoonup> proto_config) \<Rightarrow> bool" where
  "core_ok E M R running \<longleftrightarrow>
    (\<forall>w. cr_connect R w = None) \<and>
    (\<forall>u pc w. \<exists>w'. cr_run R u pc w = (Inr (), w') \<and> running (ew_core w') = (running (ew_core w))(u \<mapsto> pc) \<and>
       tomls_only E M (ew_fs w) (ew_fs w')) \<and>
    (\<forall>us w. \<exists>w'. cr_delete R us w = (Inr (), w') \<and> running (ew_core w') = (running (ew_core w)) |` (- set us) \<and>
       tomls_only E M (ew_fs w) (ew_fs w')) \<and>
    (\<forall>us w. \<exists>w'. cr_retain R us w = (Inr (), w') \<and> running (ew_core w') = (running (ew_core w)) |` set us \<and>
       tomls_only E M (ew_fs w) (ew_fs w'))"

lemma core_ok_connect: "core_ok E M R running \<Longrightarrow> rpc_call R call w = call w"
  by (simp add: core_ok_def rpc_call_def)

lemma core_ok_run:
  assumes "core_ok E M R running"
  obtains w' where "rpc_run_network_instance R u pc w = (Inr (), w')" "running (ew_core w') = (running (ew_core w))(u \<mapsto> pc)"
    "tomls_only E M (ew_fs w) (ew_fs w')"
proof -
  from assms obtain w' where "cr_run R u pc w = (Inr (), w')" "running (ew_core w') = (running (ew_core w))(u \<mapsto> pc)"
      "tomls_only E M (ew_fs w) (ew_fs w')"
    unfolding core_ok_def by blast
  then show thesis
    by (intro that [of w']) (simp_all add: rpc_run_network_instance_def core_ok_connect [OF assms] ctx_err_def)
qed

lemma core_ok_clear:
  assumes "core_ok E M R running"
  obtains w' where "clear_all_instances R w = (Inr (), w')" "running (ew_core w') = Map.empty" "tomls_only E M (ew_fs w) (ew_fs w')"
proof -
  from assms obtain w' where "cr_retain R [] w = (Inr (), w')" "running (ew_core w') = (running (ew_core w)) |` set []"
      "tomls_only E M (ew_fs w) (ew_fs w')"
    unfolding core_ok_def by blast
  then show thesis
    by (intro that [of w']) (simp_all add: clear_all_instances_def core_ok_connect [OF assms] numeral_3_eq_3)
qed

lemma tomls_only_trans: "tomls_only E M a b \<Longrightarrow> tomls_only E M b c \<Longrightarrow> tomls_only E M a c"
  by (simp add: tomls_only_def same_faults_def)

lemma tomls_only_healthy: "tomls_only E M a b \<Longrightarrow> fs_healthy a \<Longrightarrow> fs_healthy b"
  by (simp add: tomls_only_def same_faults_def fs_healthy_def)

lemma plain_uuid_file:
  assumes "uuid_ok (ee_uuid E)" and "plain_name ext" and "2 \<le> length ext"
  shows "path_join dir (ul_string (ee_uuid E) u @ ext) = dir @ [ul_string (ee_uuid E) u @ ext]"
proof (rule path_join_plain)
  have "CHR ''/'' \<notin> set (ul_string (ee_uuid E) u)"
    using uuid_string_chars [OF assms(1)] by fastforce
  then show "plain_name (ul_string (ee_uuid E) u @ ext)" using assms(2) by (simp add: plain_name_def)
  have "ul_string (ee_uuid E) u \<noteq> []" using assms(1) by (simp add: uuid_ok_def)
  then have "3 \<le> length (ul_string (ee_uuid E) u @ ext)" using assms(3) by (cases "ul_string (ee_uuid E) u") auto
  then show "ul_string (ee_uuid E) u @ ext \<notin> {[], ''.'', ''..''}"
    by (auto dest!: arg_cong [where f = length])
qed

lemma instance_paths:
  assumes "uuid_ok (ee_uuid E)"
  shows "toml_path E M u = em_config_dir M @ [ul_string (ee_uuid E) u @ ''.toml'']"
    and "json_path E M u = em_config_dir M @ [ul_string (ee_uuid E) u @ ''.json'']"
  unfolding toml_path_def json_path_def by (rule plain_uuid_file; simp add: assms plain_name_def)+

lemma json_path_not_toml: "uuid_ok (ee_uuid E) \<Longrightarrow> json_path E M u \<notin> range (toml_path E M)"
proof
  assume ok: "uuid_ok (ee_uuid E)" and "json_path E M u \<in> range (toml_path E M)"
  then obtain v where "ul_string (ee_uuid E) u @ ''.json'' = ul_string (ee_uuid E) v @ ''.toml''"
    by (auto simp: instance_paths [OF ok])
  then have "rev (ul_string (ee_uuid E) u @ ''.json'') = rev (ul_string (ee_uuid E) v @ ''.toml'')" by simp
  then show False by simp
qed

lemma ends_with_iff: "ends_with n p \<longleftrightarrow> (\<exists>a. n = a @ p)"
  unfolding ends_with_def starts_with_iff by (metis append.assoc rev_append rev_rev_ident)

lemma saved_running:
  assumes "uuid_ok (ee_uuid E)" and "lists_dirs (ee_readdir E)" and "ul_string (ee_uuid E) u \<in> set (list_saved E M fs)"
  shows "is_running E M u fs"
proof -
  from assms(3) obtain n where n: "n \<in> set (ee_readdir E fs (em_config_dir M))" "ends_with n ''.toml''"
      "ul_string (ee_uuid E) u = take (length n - 5) n"
    by (auto simp: list_saved_def split: if_splits)
  then have "n = ul_string (ee_uuid E) u @ ''.toml''" by (auto simp: ends_with_iff)
  with n(1) assms(2) show ?thesis
    by (auto simp: is_running_def lists_dirs_def instance_paths [OF assms(1)])
qed

section \<open>Starting and stopping\<close>

lemma remove_if_exists_gone: "remove_if_exists ctx p w = (Inr u, w') \<Longrightarrow> \<not> fs_exists (ew_fs w') p"
  by (auto simp: remove_if_exists_def with_fs_def fs_remove_file_def ctx_err_def fs_exists_def
      split: if_splits sum.splits option.splits prod.splits)

lemma remove_if_exists_healthy:
  assumes "fs_healthy (ew_fs w)"
  obtains w' where "remove_if_exists ctx p w = (Inr (), w')" "ew_core w' = ew_core w" "fs_healthy (ew_fs w')"
    "fs_data (ew_fs w') = (fs_data (ew_fs w))(p := None)"
proof (cases "fs_exists (ew_fs w) p")
  case True
  with assms show thesis
    by (intro that [of "w\<lparr>ew_fs := (ew_fs w)\<lparr>fs_data := (fs_data (ew_fs w))(p := None)\<rparr>\<rparr>"])
      (simp_all add: remove_if_exists_def with_fs_def fs_remove_file_def fs_healthy_def fs_exists_def ctx_err_def)
next
  case False
  then have "(fs_data (ew_fs w))(p := None) = fs_data (ew_fs w)" by (auto simp: fs_exists_def)
  with False assms show thesis by (intro that [of w]) (simp_all add: remove_if_exists_def)
qed

lemma generate_config_healthy:
  assumes "fs_healthy (ew_fs w)" and "to_easytier_config (ee_net E) c = Inr t" and "js_ser (ee_json E) c = Inr j"
  obtains w' b where "generate_config E M c u None w = (Inr (toml_path E M u), w')" "ew_core w' = ew_core w" "fs_healthy (ew_fs w')"
    "fs_data (ew_fs w') = (fs_data (ew_fs w))(toml_path E M u \<mapsto> b, json_path E M u \<mapsto> j)"
proof -
  let ?fs = "(ew_fs w)\<lparr>fs_data := (fs_data (ew_fs w))(toml_path E M u \<mapsto> as_bytes (ee_dump E t), json_path E M u \<mapsto> j),
      fs_mtime := (fs_mtime (ew_fs w))(toml_path E M u \<mapsto> fs_now (ew_fs w), json_path E M u \<mapsto> fs_now (ew_fs w))\<rparr>"
  have "generate_config E M c u None w = (Inr (toml_path E M u), w\<lparr>ew_fs := ?fs\<rparr>)"
    using assms by (simp add: generate_config_def fs_create_dir_all_def et_bind_def write_file_def with_fs_def
        fs_write_def ctx_err_def fs_healthy_def Let_def)
  moreover have "fs_healthy ?fs" using assms(1) by (simp add: fs_healthy_def)
  ultimately show thesis by (intro that [of "w\<lparr>ew_fs := ?fs\<rparr>" "as_bytes (ee_dump E t)"]) simp_all
qed

lemma start_network_effect:
  assumes "core_ok E M R running" and "uuid_ok (ee_uuid E)" and "lists_dirs (ee_readdir E)"
    and "fs_healthy (ew_fs w)" and "\<And>fs. ee_binary E fs = Inr bin"
    and "to_easytier_config (ee_net E) c = Inr t" and "js_ser (ee_json E) c = Inr j"
  shows "\<exists>w'. start_network E R M c u None w = (Inr u, w') \<and>
    running (ew_core w') = [u \<mapsto> build_proto_config E c u] \<and>
    fs_data (ew_fs w') (json_path E M u) = Some j \<and> fs_healthy (ew_fs w') \<and>
    \<not> is_running E M u (ew_fs w') \<and> ul_string (ee_uuid E) u \<notin> set (list_saved E M (ew_fs w'))"
proof -
  obtain w1 where 1: "clear_all_instances R w = (Inr (), w1)" "running (ew_core w1) = Map.empty" "tomls_only E M (ew_fs w) (ew_fs w1)"
    by (rule core_ok_clear [OF assms(1)])
  note h1 = tomls_only_healthy [OF 1(3) assms(4)]
  obtain w2 where 2: "remove_if_exists (utf8_text [229, 136, 160, 233, 153, 164, 230, 151, 167] @ '' TOML '' @ utf8_text [233, 133, 141, 231, 189, 174, 230, 150, 135, 228, 187, 182, 229, 164, 177, 232, 180, 165] @ '': '') (toml_path E M u) w1 = (Inr (), w2)"
      "ew_core w2 = ew_core w1" "fs_healthy (ew_fs w2)"
    by (rule remove_if_exists_healthy [OF h1])
  obtain w3 b where 3: "generate_config E M c u None w2 = (Inr (toml_path E M u), w3)" "ew_core w3 = ew_core w2" "fs_healthy (ew_fs w3)"
      "fs_data (ew_fs w3) = (fs_data (ew_fs w2))(toml_path E M u \<mapsto> b, json_path E M u \<mapsto> j)"
    by (rule generate_config_healthy [OF 2(3) assms(6,7)])
  obtain w4 where 4: "rpc_run_network_instance R u (build_proto_config E c u) w3 = (Inr (), w4)"
      "running (ew_core w4) = (running (ew_core w3))(u \<mapsto> build_proto_config E c u)" "tomls_only E M (ew_fs w3) (ew_fs w4)"
    by (rule core_ok_run [OF assms(1)])
  note h4 = tomls_only_healthy [OF 4(3) 3(3)]
  obtain w5 where 5: "remove_if_exists (utf8_text [229, 136, 160, 233, 153, 164] @ '' RPC '' @ utf8_text [229, 134, 153, 229, 133, 165, 231, 154, 132] @ '' TOML '' @ utf8_text [230, 150, 135, 228, 187, 182, 229, 164, 177, 232, 180, 165] @ '': '') (toml_path E M u) w4 = (Inr (), w5)"
      "ew_core w5 = ew_core w4" "fs_healthy (ew_fs w5)" "fs_data (ew_fs w5) = (fs_data (ew_fs w4))(toml_path E M u := None)"
    by (rule remove_if_exists_healthy [OF h4])
  have "start_network E R M c u None w = (Inr u, w5)"
    unfolding start_network_def by (simp only: et_bind_def 1(1) 2(1) 3(1) 4(1) 5(1) assms(5) prod.case sum.case)
  moreover have jt: "json_path E M u \<noteq> toml_path E M u" using json_path_not_toml [OF assms(2)] by blast
  moreover have "fs_data (ew_fs w4) (json_path E M u) = Some j"
    using 4(3) json_path_not_toml [OF assms(2)] 3(4) by (simp add: tomls_only_def)
  moreover have "\<not> is_running E M u (ew_fs w5)" by (simp add: is_running_def fs_exists_def 5(4))
  moreover have "ul_string (ee_uuid E) u \<notin> set (list_saved E M (ew_fs w5))"
    using saved_running [OF assms(2,3)] \<open>\<not> is_running E M u (ew_fs w5)\<close> by blast
  ultimately show ?thesis
    using 1(2) 2(2) 3(2) 4(2) 5 by (intro exI [of _ w5]) simp
qed

text \<open>
  On a working file system and with the core up, starting a network whose configuration translates
  leaves exactly that instance running, with the configuration built for it, and its configuration
  stored as JSON for later patches; whatever ran before is gone. But the \<open>.toml\<close> file whose presence
  the manager takes for \<open>running\<close> has been removed again, so the manager neither lists the instance
  nor reports it as running.
\<close>

theorem start_network_runs_unlisted:
  assumes "core_ok E M R running" and "uuid_ok (ee_uuid E)" and "lists_dirs (ee_readdir E)"
    and "fs_healthy (ew_fs w)" and "\<And>fs. ee_binary E fs = Inr bin"
    and "to_easytier_config (ee_net E) c = Inr t" and "js_ser (ee_json E) c = Inr j"
  shows "\<exists>w'. start_network E R M c u None w = (Inr u, w') \<and>
    running (ew_core w') = [u \<mapsto> build_proto_config E c u] \<and>
    fs_data (ew_fs w') (json_path E M u) = Some j \<and> fs_healthy (ew_fs w') \<and>
    \<not> is_running E M u (ew_fs w') \<and> ul_string (ee_uuid E) u \<notin> set (list_saved E M (ew_fs w'))"
  by (rule start_network_effect [OF assms])

lemma stop_network_effect:
  assumes "core_ok E M R running" and "uuid_ok (ee_uuid E)" and "fs_healthy (ew_fs w)"
  shows "\<exists>r w'. stop_network E R M u w = (Inr r, w') \<and> running (ew_core w') = (running (ew_core w))(u := None) \<and>
    fs_healthy (ew_fs w') \<and> \<not> is_running E M u (ew_fs w') \<and>
    fs_data (ew_fs w') (json_path E M u) = fs_data (ew_fs w) (json_path E M u)"
proof -
  obtain w1 where 1: "cr_delete R [u] w = (Inr (), w1)" "running (ew_core w1) = (running (ew_core w)) |` (- set [u])"
      "tomls_only E M (ew_fs w) (ew_fs w1)"
    using assms(1) unfolding core_ok_def by blast
  have h: "fs_healthy (ew_fs w1)" by (rule tomls_only_healthy [OF 1(3) assms(3)])
  have j: "fs_data (ew_fs w1) (json_path E M u) = fs_data (ew_fs w) (json_path E M u)"
    "json_path E M u \<noteq> toml_path E M u"
    using 1(3) json_path_not_toml [OF assms(2), of M u] by (auto simp: tomls_only_def)
  have r: "running (ew_core w1) = (running (ew_core w))(u := None)"
    unfolding 1(2) by (auto simp: restrict_map_def)
  show ?thesis
    unfolding stop_network_def core_ok_connect [OF assms(1)] 1(1) Let_def
    using h j r by (auto simp: is_running_def fs_exists_def fs_remove_file_def fs_healthy_def)
qed

text \<open>
  Patching the configuration of a stopped network starts it again. Stopping removes the instance and
  its \<open>.toml\<close> file and keeps the JSON; a later patch reads that JSON, applies itself and runs the
  instance with the patched configuration, after which the manager does list it as running.
\<close>

theorem patch_restarts_stopped:
  assumes "core_ok E M R running" and "uuid_ok (ee_uuid E)"
    and "\<And>r u pc w w' p. cr_run R u pc w = (r, w') \<Longrightarrow> fs_exists (ew_fs w) p \<Longrightarrow> fs_exists (ew_fs w') p"
    and "fs_healthy (ew_fs w)" and "fs_data (ew_fs w) (json_path E M u) = Some (as_bytes s)" and "is_utf8 s"
    and "js_de (ee_json E) (as_bytes s) = Inr c"
    and "to_easytier_config (ee_net E) (apply_patch patch c) = Inr t" and "js_ser (ee_json E) (apply_patch patch c) = Inr j"
  shows "\<exists>r w1 w2. stop_network E R M u w = (Inr r, w1) \<and> u \<notin> dom (running (ew_core w1)) \<and>
    et_patch_config E R M default_id u patch w1 = (Inr (), w2) \<and>
    running (ew_core w2) u = Some (build_proto_config E (apply_patch patch c) u) \<and> is_running E M u (ew_fs w2)"
proof -
  obtain r w1 where 1: "stop_network E R M u w = (Inr r, w1)" "running (ew_core w1) = (running (ew_core w))(u := None)"
      "fs_healthy (ew_fs w1)" "fs_data (ew_fs w1) (json_path E M u) = fs_data (ew_fs w) (json_path E M u)"
    using stop_network_effect [OF assms(1,2,4), of u] by blast
  have "read_network_config E M default_id u (ew_fs w1) = Inr c"
    using 1(3,4) assms(5-7)
    by (simp add: read_network_config_def Let_def fs_exists_def fs_read_to_string_def fs_read_def fs_healthy_def ctx_err_def)
  moreover obtain w2 b where 2: "generate_config E M (apply_patch patch c) u None w1 = (Inr (toml_path E M u), w2)"
      "ew_core w2 = ew_core w1" "fs_data (ew_fs w2) = (fs_data (ew_fs w1))(toml_path E M u \<mapsto> b, json_path E M u \<mapsto> j)"
    by (rule generate_config_healthy [OF 1(3) assms(8,9)])
  moreover obtain w3 where 3: "cr_run R u (build_proto_config E (apply_patch patch c) u) w2 = (Inr (), w3)"
      "running (ew_core w3) = (running (ew_core w2))(u \<mapsto> build_proto_config E (apply_patch patch c) u)"
    using assms(1) unfolding core_ok_def by blast
  ultimately have "et_patch_config E R M default_id u patch w1 = (Inr (), w3)"
    by (simp add: et_patch_config_def et_bind_def Let_def rpc_run_network_instance_def core_ok_connect [OF assms(1)] ctx_err_def)
  moreover have "is_running E M u (ew_fs w3)"
    unfolding is_running_def by (rule assms(3) [OF 3(1)]) (simp add: fs_exists_def 2(3))
  ultimately show ?thesis
    using 1 3(2) by (intro exI [of _ r] exI [of _ w1] exI [of _ w3]) simp
qed

section \<open>What the core gets to see\<close>

text \<open>
  The configuration sent to the core ignores most switches of the record: whatever is set for
  encryption, IPv6, MTU, the network length, port forwards, ACLs, the VPN portal, SOCKS5 and the
  latency, KCP, QUIC, TUN and P2P switches, the core is started with the same configuration. Only
  the legacy \<open>flags\<close> map reaches some of them.
\<close>

theorem proto_ignores_switches:
  "build_proto_config E (c\<lparr>nc_network_length := v1, nc_enable_vpn_portal := b1, nc_latency_first := b2, nc_dev_name := v2,
     nc_use_smoltcp := b3, nc_disable_ipv6 := b4, nc_enable_kcp_proxy := b5, nc_enable_quic_proxy := b6, nc_disable_p2p := b7,
     nc_no_tun := b8, nc_enable_exit_node := b9, nc_multi_thread := b10, nc_disable_encryption := b11, nc_enable_magic_dns := b12,
     nc_enable_private_mode := b13, nc_enable_socks5 := b14, nc_mtu := v3, nc_port_forwards := v4, nc_acl := v5,
     nc_mapped_listeners := v6\<rparr>) u
   = (build_proto_config E c u)\<lparr>pb_proxy_cidrs := effective_proxy_cidrs (ee_net E) (c\<lparr>nc_network_length := v1\<rparr>)\<rparr>"
proof -
  have "effective_proxy_cidrs L (c\<lparr>nc_network_length := v1, nc_enable_vpn_portal := b1, nc_latency_first := b2, nc_dev_name := v2,
     nc_use_smoltcp := b3, nc_disable_ipv6 := b4, nc_enable_kcp_proxy := b5, nc_enable_quic_proxy := b6, nc_disable_p2p := b7,
     nc_no_tun := b8, nc_enable_exit_node := b9, nc_multi_thread := b10, nc_disable_encryption := b11, nc_enable_magic_dns := b12,
     nc_enable_private_mode := b13, nc_enable_socks5 := b14, nc_mtu := v3, nc_port_forwards := v4, nc_acl := v5,
     nc_mapped_listeners := v6\<rparr>) = effective_proxy_cidrs L (c\<lparr>nc_network_length := v1\<rparr>)" for L
    by (simp add: effective_proxy_cidrs_def own_cidr_def)
  then show ?thesis
    by (simp add: build_proto_config_def Let_def flag_true_def split: prod.split)
qed

lemma toml_identity_inert: "toml_identity s c = c"
proof (cases "dropWhile (\<lambda>l. \<not> starts_with l ''[network_identity]'') (lines s)")
  case (Cons l ls)
  then have "starts_with l ''[network_identity]''" by (metis hd_dropWhile list.sel(1) list.distinct(1))
  then have "starts_with l ''[''" by (auto simp: starts_with_iff)
  with Cons show ?thesis by (simp add: toml_identity_def Let_def)
next
  case Nil
  then show ?thesis by (simp only: toml_identity_def Let_def takeWhile.simps fold_simps if_cancel)
qed

text \<open>
  The fallback for configurations without a JSON file reads nothing: the section header it skips to
  starts with a bracket, which already ends the section, so the network name and secret in the
  \<open>.toml\<close> file are ignored and the default configuration is returned.
\<close>

theorem toml_fallback_is_default:
  assumes "\<not> fs_exists fs (json_path E M u)" and "fs_read_to_string fs (toml_path E M u) = Some s"
  shows "read_network_config E M default_id u fs = Inr (network_config_default default_id)"
proof -
  have "fs_exists fs (toml_path E M u)"
    using assms(2) by (auto simp: fs_read_to_string_def fs_read_def fs_exists_def split: option.splits sum.splits)
  with assms show ?thesis by (simp add: read_network_config_def Let_def toml_identity_inert)
qed

section \<open>Patched values\<close>

text \<open>A step that does not concern a field keeps it.\<close>

lemma on_frame:
  "(\<And>x c. g (f x c) = g c) \<Longrightarrow> g (on_str key f patch c) = g c"
  "(\<And>x c. g (f' x c) = g c) \<Longrightarrow> g (on_bool key f' patch c) = g c"
  "(\<And>x c. g (h x c) = g c) \<Longrightarrow> g (on_u64 key h patch c) = g c"
  "(\<And>x c. g (h' x c) = g c) \<Longrightarrow> g (on_i64 key h' patch c) = g c"
  "(\<And>x c. g (k x c) = g c) \<Longrightarrow> g (on_strs key k patch c) = g c"
  by (simp_all add: on_str_def on_bool_def on_u64_def on_i64_def on_strs_def split: option.split)

lemma fold_steps [simp]: "fold (\<lambda>step. step) (f # fs) c = fold (\<lambda>step. step) fs (f c)" "fold (\<lambda>step. step) [] c = c"
  by simp_all

lemma patch_flags_frame:
  assumes "\<And>c m. g (c\<lparr>nc_flags := m\<rparr>) = g c"
  shows "g (patch_flags patch c) = g c"
proof -
  have "g (fold (\<lambda>(key, val) c. case as_str val of Some s \<Rightarrow> c\<lparr>nc_flags := hm_insert key s (nc_flags c)\<rparr> | None \<Rightarrow> c) flags c) = g c" for flags
    by (induction flags arbitrary: c) (auto simp: assms split: option.split)
  then show ?thesis by (simp add: patch_flags_def split: option.split)
qed

lemma patch_peers_frame: "(\<And>c m. g (c\<lparr>nc_peers := m\<rparr>) = g c) \<Longrightarrow> g (patch_peers patch c) = g c"
  by (simp add: patch_peers_def split: option.split)

lemmas patch_frames = on_frame patch_flags_frame patch_peers_frame

text \<open>
  Numbers in a patch are cut to the width of their field instead of being checked: a port of 65536 + n
  is taken for n, a network length of 256 + n for n, and likewise the MTU and the portal's settings.
\<close>

theorem patch_numbers_wrap:
  "(\<forall>n. get_u64 patch ''socks5_port'' = Some n \<longrightarrow> unat (nc_socks5_port (apply_patch patch c)) = unat n mod 2 ^ 16) \<and>
   (\<forall>n. get_u64 patch ''vpn_portal_listen_port'' = Some n \<longrightarrow> unat (nc_vpn_portal_listen_port (apply_patch patch c)) = unat n mod 2 ^ 16) \<and>
   (\<forall>n. get_u64 patch ''network_length'' = Some n \<longrightarrow> unat (nc_network_length (apply_patch patch c)) = unat n mod 2 ^ 8) \<and>
   (\<forall>n. get_u64 patch ''mtu'' = Some n \<longrightarrow> map_option unat (nc_mtu (apply_patch patch c)) = Some (unat n mod 2 ^ 32))"
proof -
  have cut: "unat (ucast n :: 'b::len word) = unat n mod 2 ^ LENGTH('b)" for n :: u64
    by (simp add: unsigned_ucast_eq take_bit_eq_mod)
  note steps = apply_patch_def patch_identity_def patch_switches_def patch_numbers_def
  have "get_u64 patch ''socks5_port'' = Some n \<Longrightarrow> nc_socks5_port (apply_patch patch c) = ucast n" for n
    by (simp add: steps patch_frames [where g = nc_socks5_port]) (simp add: on_u64_def)
  moreover have "get_u64 patch ''vpn_portal_listen_port'' = Some n \<Longrightarrow> nc_vpn_portal_listen_port (apply_patch patch c) = ucast n" for n
    by (simp add: steps patch_frames [where g = nc_vpn_portal_listen_port]) (simp add: on_u64_def)
  moreover have "get_u64 patch ''network_length'' = Some n \<Longrightarrow> nc_network_length (apply_patch patch c) = ucast n" for n
    by (simp add: steps patch_frames [where g = nc_network_length]) (simp add: on_u64_def)
  moreover have "get_u64 patch ''mtu'' = Some n \<Longrightarrow> nc_mtu (apply_patch patch c) = Some (ucast n)" for n
    by (simp add: steps patch_frames [where g = nc_mtu]) (simp add: on_u64_def)
  ultimately show ?thesis
    by (simp add: cut)
qed

section \<open>A concrete core and environment\<close>

definition core_toy :: "(uuid \<times> proto_config) list core_rpc" where
  "core_toy =
    \<lparr>cr_connect = \<lambda>w. None,
     cr_run = \<lambda>u pc w. (Inr (), w\<lparr>ew_core := (u, pc) # ew_core w\<rparr>),
     cr_delete = \<lambda>us w. (Inr (), w\<lparr>ew_core := filter (\<lambda>(u, _). u \<notin> set us) (ew_core w)\<rparr>),
     cr_retain = \<lambda>us w. (Inr (), w\<lparr>ew_core := filter (\<lambda>(u, _). u \<in> set us) (ew_core w)\<rparr>)\<rparr>"

text \<open>A codec for configurations that carries the two fields the examples change.\<close>

definition config_json_toy :: "network_config json" where
  "config_json_toy =
    \<lparr>js_ser = \<lambda>c. Inr (as_bytes (nc_network_name c)),
     js_de = \<lambda>b. Inr ((network_config_default ''id'')\<lparr>nc_network_name := of_bytes b\<rparr>)\<rparr>"

definition env_toy :: et_env where
  "env_toy =
    \<lparr>ee_net = net_toy, ee_uuid = uuid_toy, ee_dump = \<lambda>t. fst (tc_identity t), ee_json = config_json_toy, ee_value = \<lambda>s. None,
     ee_readdir = \<lambda>fs dir. filter (\<lambda>n. fs_exists fs (dir @ [n])) [''1.toml'', ''1.json'', ''2.toml''], ee_binary = \<lambda>fs. Inr [''bin''],
     ee_config = None\<rparr>"

definition manager_toy :: et_manager where "manager_toy = \<lparr>em_config_dir = [''cfg'']\<rparr>"

definition world_toy :: "(uuid \<times> proto_config) list et_world" where
  "world_toy = \<lparr>ew_fs = fs_empty, ew_core = []\<rparr>"

lemma core_toy_ok: "core_ok E M core_toy map_of"
proof -
  have "map_of (filter (\<lambda>(u, _). u \<in> A) xs) = (map_of xs) |` A" for A :: "uuid set" and xs :: "(uuid \<times> proto_config) list"
    by (induction xs) (auto simp: restrict_map_def)
  moreover have "map_of (filter (\<lambda>(u, _). u \<notin> A) xs) = (map_of xs) |` (- A)" for A :: "uuid set" and xs :: "(uuid \<times> proto_config) list"
    by (induction xs) (auto simp: restrict_map_def)
  ultimately show ?thesis
    by (simp add: core_ok_def core_toy_def tomls_only_def same_faults_def)
qed

lemma env_toy_ok: "uuid_ok (ee_uuid env_toy)" "lists_dirs (ee_readdir env_toy)" "ee_binary env_toy fs = Inr [''bin'']"
  by (simp_all add: env_toy_def uuid_toy_ok lists_dirs_def)

lemma env_toy_json: "js_ser (ee_json env_toy) c = Inr (as_bytes (nc_network_name c))"
  "js_de (ee_json env_toy) b = Inr ((network_config_default ''id'')\<lparr>nc_network_name := of_bytes b\<rparr>)"
  by (simp_all add: env_toy_def config_json_toy_def)

lemma toy_paths: "toml_path env_toy manager_toy 1 = [''cfg'', ''1.toml'']" "json_path env_toy manager_toy 1 = [''cfg'', ''1.json'']"
proof -
  have "dec (Suc 0) = ''1''" by code_simp
  then have "ul_string (ee_uuid env_toy) 1 = ''1''" "em_config_dir manager_toy = [''cfg'']"
    by (simp_all add: env_toy_def uuid_toy_def manager_toy_def)
  then show "toml_path env_toy manager_toy 1 = [''cfg'', ''1.toml'']" "json_path env_toy manager_toy 1 = [''cfg'', ''1.json'']"
    by (simp_all add: instance_paths [OF env_toy_ok(1)])
qed

lemma default_translates:
  "\<exists>t. to_easytier_config (ee_net env_toy) ((network_config_default ''id'')\<lparr>nc_network_name := n\<rparr>) = Inr t"
proof -
  let ?c = "(network_config_default ''id'')\<lparr>nc_network_name := n\<rparr>"
  have "\<forall>u \<in> set (nc_listener_urls ?c). u \<noteq> [] \<longrightarrow> url_valid net_toy u"
    by (simp add: network_config_default_def url_valid_def net_toy_def)
  moreover have "nc_peer_urls ?c = []" "nc_peers ?c = []" "nc_mapped_listeners ?c = []" "nc_listener_urls ?c \<noteq> []" "ee_net env_toy = net_toy"
    by (simp_all add: network_config_default_def env_toy_def)
  ultimately show ?thesis
    using conv_listeners_ex [of net_toy ?c]
    by (auto simp: to_easytier_config_def Let_def conv_peers_def conv_legacy_peers_def)
qed

theorem start_network_runs_unlisted_witness:
  "\<exists>w'. start_network env_toy core_toy manager_toy ((network_config_default ''id'')\<lparr>nc_network_name := ''home''\<rparr>) 1 None world_toy = (Inr 1, w') \<and>
    dom (map_of (ew_core w')) = {1} \<and> \<not> is_running env_toy manager_toy 1 (ew_fs w')"
proof -
  obtain t where t: "to_easytier_config (ee_net env_toy) ((network_config_default ''id'')\<lparr>nc_network_name := ''home''\<rparr>) = Inr t"
    using default_translates by blast
  have "fs_healthy (ew_fs world_toy)" by (simp add: world_toy_def)
  from start_network_runs_unlisted [OF core_toy_ok env_toy_ok(1,2) this env_toy_ok(3) t env_toy_json(1), of manager_toy 1]
  show ?thesis by auto
qed

theorem patch_restarts_stopped_witness:
  "\<exists>r w1 w2. stop_network env_toy core_toy manager_toy 1
      \<lparr>ew_fs = fs_empty\<lparr>fs_data := [[''cfg'', ''1.json''] \<mapsto> as_bytes ''home'']\<rparr>, ew_core = []\<rparr> = (Inr r, w1) \<and>
    et_patch_config env_toy core_toy manager_toy ''id'' 1 (JObj []) w1 = (Inr (), w2) \<and> 1 \<in> dom (map_of (ew_core w2))"
proof -
  let ?w = "\<lparr>ew_fs = fs_empty\<lparr>fs_data := [[''cfg'', ''1.json''] \<mapsto> as_bytes ''home'']\<rparr>, ew_core = []\<rparr> :: (uuid \<times> proto_config) list et_world"
  have none: "on_str k f (JObj []) c = c" "on_bool k f' (JObj []) c = c" "on_u64 k h (JObj []) c = c" "on_i64 k h' (JObj []) c = c"
      "on_strs k g (JObj []) c = c" "patch_flags (JObj []) c = c" "patch_peers (JObj []) c = c" for k f f' h h' g c
    by (simp_all add: on_str_def on_bool_def on_u64_def on_i64_def on_strs_def patch_flags_def patch_peers_def json_get_defs)
  have p: "apply_patch (JObj []) c = c" for c
    by (simp add: apply_patch_def patch_identity_def patch_switches_def patch_numbers_def none)
  obtain t where t: "to_easytier_config (ee_net env_toy) ((network_config_default ''id'')\<lparr>nc_network_name := ''home''\<rparr>) = Inr t"
    using default_translates by blast
  have "fs_healthy (ew_fs ?w)" by (simp add: fs_healthy_def fs_empty_def)
  moreover have "fs_data (ew_fs ?w) (json_path env_toy manager_toy 1) = Some (as_bytes ''home'')" by (simp add: toy_paths)
  moreover have "is_utf8 ''home''" by (simp add: is_utf8_def)
  moreover have "js_de (ee_json env_toy) (as_bytes ''home'') = Inr ((network_config_default ''id'')\<lparr>nc_network_name := ''home''\<rparr>)"
    by (simp add: env_toy_json)
  moreover have "cr_run core_toy u pc w = (r, w') \<Longrightarrow> fs_exists (ew_fs w) q \<Longrightarrow> fs_exists (ew_fs w') q" for u pc w r w' q
    by (auto simp: core_toy_def)
  ultimately show ?thesis
    using patch_restarts_stopped [OF core_toy_ok env_toy_ok(1), where w = ?w and u = 1 and patch = "JObj []" and M = manager_toy
        and c = "(network_config_default ''id'')\<lparr>nc_network_name := ''home''\<rparr>" and s = "''home''" and t = t and default_id = "''id''"] t
    unfolding p env_toy_json by fast
qed

theorem toml_fallback_is_default_witness:
  "read_network_config env_toy manager_toy ''id'' 1
     (fs_empty\<lparr>fs_data := [[''cfg'', ''1.toml''] \<mapsto> as_bytes (''[network_identity]'' @ [NL] @ ''network_name = home'')]\<rparr>)
   = Inr (network_config_default ''id'')"
proof -
  have "is_utf8 (''[network_identity]'' @ [NL] @ ''network_name = home'')" by (simp add: is_utf8_def)
  then show ?thesis
    by (intro toml_fallback_is_default) (simp_all add: toy_paths fs_exists_def fs_read_to_string_def fs_read_def fs_empty_def)
qed

theorem patch_numbers_wrap_witness:
  "unat (nc_socks5_port (apply_patch (JObj [(''socks5_port'', JNum (PosInt 65558))]) (network_config_default ''id''))) = 22"
  using patch_numbers_wrap [of "JObj [(''socks5_port'', JNum (PosInt 65558))]" "network_config_default ''id''"]
  by (simp add: json_get_defs)

end
