(* ===== verification/Easytier_Status.thy ===== *)
theory Easytier_Status
  imports Easytier_Manager
begin

text \<open>
  What the desktop manager asks the core about a running network, \<open>src-tauri/src/easytier/mod.rs\<close>: the
  aggregated status, the list of peers and the routes of the mesh. The answers are the records of
  EasyTier's management interface, as far as they are read. Floating point numbers are a parameter,
  \<open>f64_ops\<close>. A call that panics has the outcome \<open>Panicked\<close>.
\<close>

section \<open>Answers of the core\<close>

datatype 'a outcome = Done 'a | Panicked

record 'f f64_ops =
  f_zero :: 'f
  f_nat :: "nat \<Rightarrow> 'f"
  f_int :: "int \<Rightarrow> 'f"
  f_add :: "'f \<Rightarrow> 'f \<Rightarrow> 'f"
  f_div :: "'f \<Rightarrow> 'f \<Rightarrow> 'f"
  f_min :: "'f \<Rightarrow> 'f \<Rightarrow> 'f"

record conn_stats =
  st_latency_us :: u64
  st_rx_bytes :: u64
  st_tx_bytes :: u64

record 'f peer_conn =
  pn_stats :: "conn_stats option"
  pn_loss_rate :: 'f
  pn_tunnel :: "string option"

text \<open>\<open>Ipv4Inet\<close> with its optional address.\<close>

type_synonym inet = "u32 option"

record route =
  rt_peer_id :: u32
  rt_ipv4_addr :: "inet option"
  rt_hostname :: string
  rt_version :: string
  rt_udp_nat_type :: "int option"
  rt_path_latency :: int
  rt_proxy_cidrs :: "string list"

record 'f route_pair =
  rp_route :: "route option"
  rp_peer :: "'f peer_conn list option"

record node_info =
  nd_peer_id :: u32
  nd_virtual_ipv4 :: "inet option"
  nd_hostname :: string
  nd_version :: string

record 'f running_info =
  ri_error_msg :: "string option"
  ri_my_node_info :: "node_info option"
  ri_peer_route_pairs :: "'f route_pair list"
  ri_routes :: "route list"

record 'f space_runtime_status =
  rs_space_id :: string
  rs_is_running :: bool
  rs_virtual_ip :: "string option"
  rs_connected_peers :: u32
  rs_rx_bytes :: u64
  rs_tx_bytes :: u64
  rs_avg_latency_ms :: 'f

record 'f peer_info =
  pi_peer_id :: u32
  pi_virtual_ip :: "string option"
  pi_hostname :: "string option"
  pi_latency_ms :: "'f option"
  pi_loss_rate :: "'f option"
  pi_rx_bytes :: "u64 option"
  pi_tx_bytes :: "u64 option"
  pi_connected :: bool
  pi_is_local :: bool
  pi_version :: "string option"
  pi_tunnel_proto :: "string option"
  pi_nat_type :: "string option"

section \<open>Addresses\<close>

definition dotted :: "u32 \<Rightarrow> string" where
  "dotted a =
    (let byte = (\<lambda>n. dec (unat (and (drop_bit n a) 0xFF)))
     in byte 24 @ ''.'' @ byte 16 @ ''.'' @ byte 8 @ ''.'' @ dec (unat (and a 0xFF)))"

definition format_ipv4_inet :: "inet option \<Rightarrow> string option" where
  "format_ipv4_inet i =
    (case Option.bind i (\<lambda>a. a) of
       None \<Rightarrow> None
     | Some a \<Rightarrow> (let s = dotted a in if s \<noteq> ''0.0.0.0'' then Some s else None))"

definition some_text :: "string \<Rightarrow> string option" where
  "some_text s = (if s = [] then None else Some s)"

section \<open>Status\<close>

text \<open>The sums over all connections that have statistics; the byte counters wrap as \<open>u64\<close> does in a release build.\<close>

definition add_stats :: "'f f64_ops \<Rightarrow> conn_stats \<Rightarrow> 'f \<times> u64 \<times> u64 \<times> u32 \<Rightarrow> 'f \<times> u64 \<times> u64 \<times> u32" where
  "add_stats F st acc =
    (case acc of (lat, rx, tx, n) \<Rightarrow> (f_add F lat (f_nat F (unat (st_latency_us st))), rx + st_rx_bytes st, tx + st_tx_bytes st, n + 1))"

text \<open>\<open>pair.peer.clone().unwrap()\<close> panics on a pair without a peer.\<close>

fun sum_pairs :: "'f f64_ops \<Rightarrow> 'f route_pair list \<Rightarrow> 'f \<times> u64 \<times> u64 \<times> u32 \<Rightarrow> ('f \<times> u64 \<times> u64 \<times> u32) outcome" where
  "sum_pairs F [] acc = Done acc"
| "sum_pairs F (p # ps) acc =
    (case rp_peer p of
       None \<Rightarrow> Panicked
     | Some conns \<Rightarrow> sum_pairs F ps (fold (\<lambda>c acc. case pn_stats c of Some st \<Rightarrow> add_stats F st acc | None \<Rightarrow> acc) conns acc))"

definition status_of :: "'f f64_ops \<Rightarrow> string \<Rightarrow> 'f running_info \<Rightarrow> 'f space_runtime_status outcome" where
  "status_of F ident info =
    (if ri_error_msg info \<noteq> None
     then Done \<lparr>rs_space_id = ident, rs_is_running = False, rs_virtual_ip = None, rs_connected_peers = 0, rs_rx_bytes = 0,
                rs_tx_bytes = 0, rs_avg_latency_ms = f_zero F\<rparr>
     else
       (let virtual_ip = (case ri_my_node_info info of
                            None \<Rightarrow> None
                          | Some node \<Rightarrow> map_option dotted (Option.bind (nd_virtual_ipv4 node) (\<lambda>a. a)))
        in case sum_pairs F (ri_peer_route_pairs info) (f_zero F, 0, 0, 0) of
             Panicked \<Rightarrow> Panicked
           | Done (lat, rx, tx, n) \<Rightarrow>
              Done \<lparr>rs_space_id = ident, rs_is_running = True, rs_virtual_ip = virtual_ip,
                    rs_connected_peers = word_of_nat (length (ri_peer_route_pairs info)), rs_rx_bytes = rx, rs_tx_bytes = tx,
                    rs_avg_latency_ms = (if n > 0 then f_div F (f_div F lat (f_nat F (unat n))) (f_nat F 1000) else f_zero F)\<rparr>))"

text \<open>\<open>collect_network_info\<close> for one instance: a transport error, or the entry of the instance if there is one.\<close>

type_synonym 'f collect = "string + 'f running_info option"

definition query_rpc_status_once :: "'f f64_ops \<Rightarrow> string \<Rightarrow> 'f collect \<Rightarrow> 'f space_runtime_status option outcome" where
  "query_rpc_status_once F ident answer =
    (case answer of
       Inl _ \<Rightarrow> Done None
     | Inr None \<Rightarrow> Done None
     | Inr (Some info) \<Rightarrow> (case status_of F ident info of Panicked \<Rightarrow> Panicked | Done s \<Rightarrow> Done (Some s)))"

section \<open>Peers\<close>

text \<open>\<open>nat_name\<close> prints the NAT type of the protocol, \<open>Unknown\<close> for a number it does not know.\<close>

definition peer_from_route :: "'f f64_ops \<Rightarrow> (int \<Rightarrow> string) \<Rightarrow> route \<Rightarrow> 'f peer_info" where
  "peer_from_route F nat_name r =
    \<lparr>pi_peer_id = rt_peer_id r, pi_virtual_ip = format_ipv4_inet (rt_ipv4_addr r), pi_hostname = some_text (rt_hostname r),
     pi_latency_ms = Some (f_int F (rt_path_latency r)), pi_loss_rate = None, pi_rx_bytes = None, pi_tx_bytes = None,
     pi_connected = True, pi_is_local = False, pi_version = some_text (rt_version r), pi_tunnel_proto = None,
     pi_nat_type = map_option nat_name (rt_udp_nat_type r)\<rparr>"

definition merge_conn :: "'f f64_ops \<Rightarrow> 'f peer_conn \<Rightarrow> 'f peer_info \<Rightarrow> 'f peer_info" where
  "merge_conn F conn info =
    (let info = (case pn_stats conn of
           None \<Rightarrow> info
         | Some st \<Rightarrow>
            (let conn_latency = f_div F (f_nat F (unat (st_latency_us st))) (f_nat F 1000) in
             info\<lparr>pi_rx_bytes := Some ((case pi_rx_bytes info of Some b \<Rightarrow> b | None \<Rightarrow> 0) + st_rx_bytes st),
                  pi_tx_bytes := Some ((case pi_tx_bytes info of Some b \<Rightarrow> b | None \<Rightarrow> 0) + st_tx_bytes st),
                  pi_latency_ms := Some (case pi_latency_ms info of Some cur \<Rightarrow> f_min F cur conn_latency | None \<Rightarrow> conn_latency)\<rparr>));
         info = info\<lparr>pi_loss_rate := Some (pn_loss_rate conn)\<rparr>
     in if pn_tunnel conn \<noteq> None then info\<lparr>pi_tunnel_proto := pn_tunnel conn\<rparr> else info)"

definition peer_from_route_peer_pair ::
  "'f f64_ops \<Rightarrow> (int \<Rightarrow> string) \<Rightarrow> route \<Rightarrow> 'f peer_conn list option \<Rightarrow> 'f peer_info" where
  "peer_from_route_peer_pair F nat_name r peer =
    (let info = peer_from_route F nat_name r;
         info = (case rt_udp_nat_type r of Some t \<Rightarrow> info\<lparr>pi_nat_type := Some (nat_name t)\<rparr> | None \<Rightarrow> info)
     in case peer of None \<Rightarrow> info | Some conns \<Rightarrow> fold (merge_conn F) conns info)"

definition local_peer :: "'f f64_ops \<Rightarrow> node_info \<Rightarrow> 'f peer_info" where
  "local_peer F n =
    \<lparr>pi_peer_id = nd_peer_id n, pi_virtual_ip = format_ipv4_inet (nd_virtual_ipv4 n), pi_hostname = some_text (nd_hostname n),
     pi_latency_ms = Some (f_zero F), pi_loss_rate = None, pi_rx_bytes = None, pi_tx_bytes = None, pi_connected = True,
     pi_is_local = True, pi_version = some_text (nd_version n), pi_tunnel_proto = None, pi_nat_type = None\<rparr>"

definition peers_of :: "'f f64_ops \<Rightarrow> (int \<Rightarrow> string) \<Rightarrow> 'f running_info \<Rightarrow> 'f peer_info list" where
  "peers_of F nat_name info =
    (let local_peer_id = map_option nd_peer_id (ri_my_node_info info);
         me = (case ri_my_node_info info of Some n \<Rightarrow> [local_peer F n] | None \<Rightarrow> [])
     in if ri_peer_route_pairs info \<noteq> [] then
          me @ List.map_filter (\<lambda>prp.
            case rp_route prp of
              None \<Rightarrow> None
            | Some r \<Rightarrow> (if local_peer_id = Some (rt_peer_id r) then None
                         else Some (peer_from_route_peer_pair F nat_name r (rp_peer prp)))) (ri_peer_route_pairs info)
        else
          me @ List.map_filter (\<lambda>r. if local_peer_id = Some (rt_peer_id r) then None
                                     else Some (peer_from_route F nat_name r)) (ri_routes info))"

text \<open>
  Three attempts, \<open>answers k\<close> being what the core says at the \<open>k\<close>-th: an error is final only on the last
  attempt, and so is a missing entry, which then counts as no peers.
\<close>

fun peer_attempts :: "'f f64_ops \<Rightarrow> (int \<Rightarrow> string) \<Rightarrow> (nat \<Rightarrow> 'f collect) \<Rightarrow> nat \<Rightarrow> nat \<Rightarrow> 'f peer_info list option" where
  "peer_attempts F nat_name answers attempt 0 = None"
| "peer_attempts F nat_name answers attempt (Suc left) =
    (case answers attempt of
       Inr (Some info) \<Rightarrow> Some (peers_of F nat_name info)
     | Inr None \<Rightarrow> (if left > 0 then peer_attempts F nat_name answers (Suc attempt) left else Some [])
     | Inl _ \<Rightarrow> (if left > 0 then peer_attempts F nat_name answers (Suc attempt) left else None))"

definition query_peer_list :: "'f f64_ops \<Rightarrow> (int \<Rightarrow> string) \<Rightarrow> (nat \<Rightarrow> 'f collect) \<Rightarrow> 'f peer_info list option" where
  "query_peer_list F nat_name answers = peer_attempts F nat_name answers 1 3"

definition et_get_peers :: "'f f64_ops \<Rightarrow> (int \<Rightarrow> string) \<Rightarrow> (nat \<Rightarrow> 'f collect) \<Rightarrow> string + 'f peer_info list" where
  "et_get_peers F nat_name answers =
    (case query_peer_list F nat_name answers of Some ps \<Rightarrow> Inr ps | None \<Rightarrow> Inl (utf8_text [230, 159, 165, 232, 175, 162] @ '' peer '' @ utf8_text [229, 136, 151, 232, 161, 168, 229, 164, 177, 232, 180, 165]))"

text \<open>The routes are collected in a hash set: \<open>ord\<close> is its order.\<close>

definition query_mesh_routes :: "(string list \<Rightarrow> string list) \<Rightarrow> 'f collect \<Rightarrow> string list option" where
  "query_mesh_routes ord answer =
    (case answer of
       Inr (Some info) \<Rightarrow> Some (ord (remdups (concat (map rt_proxy_cidrs (ri_routes info)))))
     | _ \<Rightarrow> None)"

section \<open>Properties\<close>

lemma sum_pairs_panics: "sum_pairs F ps acc = Panicked \<longleftrightarrow> (\<exists>p \<in> set ps. rp_peer p = None)"
  by (induction ps arbitrary: acc) (auto split: option.split)

text \<open>
  Asking for the status of a network panics exactly when the network is up and some route has no direct
  peer, that is, as soon as one member is reached through a relay only. The same query about a
  network that failed to start, is unknown or whose core is unreachable returns normally.
\<close>

theorem status_panics_iff_relayed:
  "query_rpc_status_once F ident answer = Panicked \<longleftrightarrow>
     (\<exists>info. answer = Inr (Some info) \<and> ri_error_msg info = None \<and> (\<exists>p \<in> set (ri_peer_route_pairs info). rp_peer p = None))"
proof (cases answer)
  case (Inr x)
  show ?thesis
  proof (cases x)
    case (Some info)
    have "status_of F ident info = Panicked \<longleftrightarrow> ri_error_msg info = None \<and> (\<exists>p \<in> set (ri_peer_route_pairs info). rp_peer p = None)"
      using sum_pairs_panics [of F "ri_peer_route_pairs info" "(f_zero F, 0, 0, 0)"]
      by (cases "sum_pairs F (ri_peer_route_pairs info) (f_zero F, 0, 0, 0)") (auto simp: status_of_def Let_def)
    with Inr Some show ?thesis
      by (cases "status_of F ident info") (simp_all add: query_rpc_status_once_def)
  qed (simp add: Inr query_rpc_status_once_def)
qed (simp add: query_rpc_status_once_def)

definition pair_stats :: "'f route_pair list \<Rightarrow> conn_stats list" where
  "pair_stats ps = concat (map (\<lambda>p. case rp_peer p of None \<Rightarrow> [] | Some conns \<Rightarrow> List.map_filter pn_stats conns) ps)"

lemma fold_conns:
  "fold (\<lambda>c acc. case pn_stats c of Some st \<Rightarrow> add_stats F st acc | None \<Rightarrow> acc) conns acc = fold (add_stats F) (List.map_filter pn_stats conns) acc"
  by (induction conns arbitrary: acc) (auto simp: map_filter_def split: option.split)

lemma sum_pairs_fold: "\<forall>p \<in> set ps. rp_peer p \<noteq> None \<Longrightarrow> sum_pairs F ps acc = Done (fold (add_stats F) (pair_stats ps) acc)"
proof (induction ps arbitrary: acc)
  case (Cons p ps)
  then obtain conns where "rp_peer p = Some conns" by auto
  with Cons show ?case by (simp add: pair_stats_def fold_conns)
qed (simp add: pair_stats_def)

lemma fold_add_stats:
  "fold (add_stats F) sts (lat, rx, tx, n) =
     (fold (\<lambda>st l. f_add F l (f_nat F (unat (st_latency_us st)))) sts lat,
      rx + sum_list (map st_rx_bytes sts), tx + sum_list (map st_tx_bytes sts), n + word_of_nat (length sts))"
  by (induction sts arbitrary: lat rx tx n) (simp_all add: add_stats_def add.assoc)

text \<open>
  When every member is connected directly, the status of a network that is up counts the routes and
  reports the sums, modulo \<open>2^64\<close>, of the bytes received and sent over all connections that have
  statistics.
\<close>

theorem status_totals:
  assumes "ri_error_msg info = None" and "\<forall>p \<in> set (ri_peer_route_pairs info). rp_peer p \<noteq> None"
  shows "\<exists>s. query_rpc_status_once F ident (Inr (Some info)) = Done (Some s) \<and> rs_is_running s \<and> rs_space_id s = ident \<and>
    rs_connected_peers s = word_of_nat (length (ri_peer_route_pairs info)) \<and>
    rs_rx_bytes s = sum_list (map st_rx_bytes (pair_stats (ri_peer_route_pairs info))) \<and>
    rs_tx_bytes s = sum_list (map st_tx_bytes (pair_stats (ri_peer_route_pairs info)))"
  using sum_pairs_fold [OF assms(2), of F "(f_zero F, 0, 0, 0)"] assms(1)
  by (simp add: query_rpc_status_once_def status_of_def fold_add_stats Let_def)

lemma merge_conn_identity:
  "pi_peer_id (merge_conn F c i) = pi_peer_id i" "pi_is_local (merge_conn F c i) = pi_is_local i" "pi_virtual_ip (merge_conn F c i) = pi_virtual_ip i"
  by (simp_all add: merge_conn_def Let_def split: option.split)

lemma fold_merge_identity:
  "pi_peer_id (fold (merge_conn F) cs i) = pi_peer_id i" "pi_is_local (fold (merge_conn F) cs i) = pi_is_local i"
  by (induction cs arbitrary: i) (simp_all add: merge_conn_identity)

lemma from_route_identity:
  "pi_peer_id (peer_from_route_peer_pair F n r p) = rt_peer_id r" "\<not> pi_is_local (peer_from_route_peer_pair F n r p)"
  "pi_peer_id (peer_from_route F n r) = rt_peer_id r" "\<not> pi_is_local (peer_from_route F n r)"
  by (simp_all add: peer_from_route_peer_pair_def peer_from_route_def fold_merge_identity Let_def split: option.split)

text \<open>
  The list of peers starts with this node when the core knows it, marks only that entry as local, and
  no other entry repeats this node's id.
\<close>

theorem peers_of_local_first:
  "\<exists>others. peers_of F nat_name info = (case ri_my_node_info info of Some n \<Rightarrow> [local_peer F n] | None \<Rightarrow> []) @ others \<and>
     list_all (\<lambda>p. \<not> pi_is_local p \<and> map_option nd_peer_id (ri_my_node_info info) \<noteq> Some (pi_peer_id p)) others"
  unfolding peers_of_def Let_def
  by (cases "ri_peer_route_pairs info = []")
    (auto simp: list_all_iff map_filter_def from_route_identity split: option.splits if_splits)

text \<open>
  The query for the peers gives up after three attempts and only if the last one fails outright; it
  returns the peers of the first attempt that finds the instance, and no peers when the last one
  answers without it.
\<close>

theorem query_peer_list_attempts:
  "query_peer_list F nat_name answers =
    (case List.find (\<lambda>k. \<exists>info. answers k = Inr (Some info)) [1, 2, 3] of
       Some k \<Rightarrow> Some (peers_of F nat_name (the (projr (answers k))))
     | None \<Rightarrow> (if isl (answers 3) then None else Some []))"
  by (simp add: query_peer_list_def numeral_3_eq_3 numeral_2_eq_2 split: sum.split option.split)

definition direct_info :: "nat running_info" where
  "direct_info = \<lparr>ri_error_msg = None, ri_my_node_info = None,
     ri_peer_route_pairs = [\<lparr>rp_route = None, rp_peer = Some [\<lparr>pn_stats = Some \<lparr>st_latency_us = 1, st_rx_bytes = 5, st_tx_bytes = 7\<rparr>,
        pn_loss_rate = 0, pn_tunnel = None\<rparr>]\<rparr>], ri_routes = []\<rparr>"

definition nat_ops :: "nat f64_ops" where
  "nat_ops = \<lparr>f_zero = 0, f_nat = (\<lambda>n. n), f_int = nat, f_add = (+), f_div = (div), f_min = min\<rparr>"

theorem status_totals_witness:
  "\<exists>s. query_rpc_status_once nat_ops ''s'' (Inr (Some direct_info)) = Done (Some s) \<and> rs_rx_bytes s = 5 \<and> rs_tx_bytes s = 7"
proof -
  have "ri_error_msg direct_info = None" "\<forall>p \<in> set (ri_peer_route_pairs direct_info). rp_peer p \<noteq> None"
    by (simp_all add: direct_info_def)
  from status_totals [OF this, of nat_ops "''s''"] show ?thesis
    by (auto simp: direct_info_def pair_stats_def map_filter_def)
qed

end
