(* ===== verification/Daemon_Ipc.thy ===== *)
theory Daemon_Ipc
  imports Easytier_Status Log_Service
begin

text \<open>
  The background daemon and its clients, \<open>src-tauri/src/daemon/ipc.rs\<close>, \<open>daemon/mod.rs\<close> and
  \<open>daemon/client.rs\<close>: the requests and responses, the length-prefixed framing over TCP, the handler of
  every request, the choice of the port and the shutdown, and the client with its persistent
  connection. What the daemon asks of the operating system and of libraries is \<open>daemon_env\<close>. The
  daemon's own log lines are left out; the requests that write or query the log are not.
\<close>

section \<open>Messages\<close>

definition DEFAULT_RPC_PORT :: nat where "DEFAULT_RPC_PORT = 15889"
definition EASYTIER_DAEMON_RPC_PORT :: nat where "EASYTIER_DAEMON_RPC_PORT = 15888"

definition default_rpc_port :: "app_config option \<Rightarrow> nat" where
  "default_rpc_port global = cfg_get_u16 global KEY_DAEMON_IPC_PORT DEFAULT_RPC_PORT"

definition easytier_daemon_rpc_port :: "app_config option \<Rightarrow> nat" where
  "easytier_daemon_rpc_port global = cfg_get_u16 global KEY_EASYTIER_RPC_PORT EASYTIER_DAEMON_RPC_PORT"

datatype ipc_request =
    Ping
  | GetStatus
  | ConnectSpace string jvalue
  | DisconnectSpace string
  | GetSpaceStatus string
  | ListPeers string
  | PatchConfig string jvalue
  | ListSpaces
  | GetVersion
  | UpgradeVersion string "string option"
  | SwitchBinary
  | GetLogs "string option" "u64 option" "string option"
  | WriteLog "log_record list"
  | ClearDaemonLogs
  | SetLogEnabled bool
  | CheckBinary
  | Shutdown

datatype ipc_response = IpcOk "jvalue option" | IpcError string

record daemon_status =
  ds_running :: bool
  ds_pid :: u32
  ds_connected_spaces :: "string list"
  ds_version :: string
  ds_rpc_port :: nat

text \<open>\<open>serde_json::to_value\<close> of the types with derived serialisers, which cannot fail.\<close>

definition jnat :: "nat \<Rightarrow> jvalue" where "jnat n = JNum (PosInt (word_of_nat n))"

definition jopt :: "('a \<Rightarrow> jvalue) \<Rightarrow> 'a option \<Rightarrow> jvalue" where
  "jopt f x = (case x of Some y \<Rightarrow> f y | None \<Rightarrow> JNull)"

definition daemon_status_value :: "daemon_status \<Rightarrow> jvalue" where
  "daemon_status_value s =
    JObj [(''running'', JBool (ds_running s)), (''pid'', jnat (unat (ds_pid s))),
      (''connected_spaces'', JArr (map JStr (ds_connected_spaces s))), (''version'', JStr (ds_version s)),
      (''rpc_port'', jnat (ds_rpc_port s))]"

definition runtime_status_value :: "('f \<Rightarrow> jvalue) \<Rightarrow> 'f space_runtime_status \<Rightarrow> jvalue" where
  "runtime_status_value jf s =
    JObj [(''space_id'', JStr (rs_space_id s)), (''is_running'', JBool (rs_is_running s)),
      (''virtual_ip'', jopt JStr (rs_virtual_ip s)), (''connected_peers'', jnat (unat (rs_connected_peers s))),
      (''rx_bytes'', jnat (unat (rs_rx_bytes s))), (''tx_bytes'', jnat (unat (rs_tx_bytes s))),
      (''avg_latency_ms'', jf (rs_avg_latency_ms s))]"

definition peer_info_value :: "('f \<Rightarrow> jvalue) \<Rightarrow> 'f peer_info \<Rightarrow> jvalue" where
  "peer_info_value jf p =
    JObj [(''peer_id'', jnat (unat (pi_peer_id p))), (''virtual_ip'', jopt JStr (pi_virtual_ip p)),
      (''hostname'', jopt JStr (pi_hostname p)), (''latency_ms'', jopt jf (pi_latency_ms p)), (''loss_rate'', jopt jf (pi_loss_rate p)),
      (''rx_bytes'', jopt (\<lambda>n. jnat (unat n)) (pi_rx_bytes p)), (''tx_bytes'', jopt (\<lambda>n. jnat (unat n)) (pi_tx_bytes p)),
      (''connected'', JBool (pi_connected p)), (''is_local'', JBool (pi_is_local p)), (''version'', jopt JStr (pi_version p)),
      (''tunnel_proto'', jopt JStr (pi_tunnel_proto p)), (''nat_type'', jopt JStr (pi_nat_type p))]"

section \<open>The daemon's state and environment\<close>

record 'c daemon =
  dm_status :: daemon_status
  dm_manager :: et_manager
  dm_world :: "'c et_world"
  dm_log :: log_state
  dm_shutdown :: bool

record ('c, 'f) daemon_env =
  de_et :: et_env
  de_rpc :: "'c core_rpc"
  de_collect :: "uuid \<Rightarrow> nat \<Rightarrow> 'c et_world \<Rightarrow> 'f collect"
  de_f64 :: "'f f64_ops"
  de_f64_json :: "'f \<Rightarrow> jvalue"
  de_nat_name :: "int \<Rightarrow> string"
  de_config :: "jvalue \<Rightarrow> string + network_config"
  de_fresh :: string
  de_lower :: "string \<Rightarrow> string"
  de_install :: "string \<Rightarrow> string option \<Rightarrow> 'c et_world \<Rightarrow> ('c, unit) et_result"
  de_version :: "'c et_world \<Rightarrow> string option"
  de_exec :: "path \<Rightarrow> string + (string \<times> string \<times> bool)"
  de_show_path :: "path \<Rightarrow> string"
  de_log_json :: "log_record json"
  de_log_value :: "log_record list \<Rightarrow> jvalue"
  de_now :: string

section \<open>Requests\<close>

abbreviation bad_space_id :: "string \<Rightarrow> ipc_response" where
  "bad_space_id e \<equiv> IpcError (utf8_text [230, 151, 160, 230, 149, 136, 231, 154, 132] @ '' space_id: '' @ e)"

definition push_space :: "string \<Rightarrow> 'c daemon \<Rightarrow> 'c daemon" where
  "push_space sid d =
    (let s = dm_status d in
     if sid \<in> set (ds_connected_spaces s) then d
     else d\<lparr>dm_status := s\<lparr>ds_connected_spaces := ds_connected_spaces s @ [sid]\<rparr>\<rparr>)"

definition handle_connect :: "('c, 'f) daemon_env \<Rightarrow> string \<Rightarrow> jvalue \<Rightarrow> 'c daemon \<Rightarrow> ipc_response \<times> 'c daemon" where
  "handle_connect E space_id config d =
    (case de_config E config of
       Inl e \<Rightarrow> (IpcError (utf8_text [232, 167, 163, 230, 158, 144, 233, 133, 141, 231, 189, 174, 229, 164, 177, 232, 180, 165] @ '': '' @ e), d)
     | Inr network_config \<Rightarrow>
        (case ul_parse (ee_uuid (de_et E)) space_id of
           Inl _ \<Rightarrow> (IpcError (utf8_text [230, 151, 160, 230, 149, 136, 231, 154, 132] @ '' space_id''), d)
         | Inr instance_id \<Rightarrow>
            (case start_network (de_et E) (de_rpc E) (dm_manager d) network_config instance_id None (dm_world d) of
               (Inl e, w) \<Rightarrow> (IpcError (utf8_text [232, 191, 158, 230, 142, 165, 231, 169, 186, 233, 151, 180, 229, 164, 177, 232, 180, 165] @ '': '' @ e), d\<lparr>dm_world := w\<rparr>)
             | (Inr i, w) \<Rightarrow>
                (IpcOk (Some (JObj [(''instance_id'', JStr (ul_string (ee_uuid (de_et E)) i))])), push_space space_id (d\<lparr>dm_world := w\<rparr>)))))"

definition handle_disconnect :: "('c, 'f) daemon_env \<Rightarrow> string \<Rightarrow> 'c daemon \<Rightarrow> ipc_response \<times> 'c daemon" where
  "handle_disconnect E space_id d =
    (case ul_parse (ee_uuid (de_et E)) space_id of
       Inl e \<Rightarrow> (bad_space_id e, d)
     | Inr u \<Rightarrow>
        (case stop_network (de_et E) (de_rpc E) (dm_manager d) u (dm_world d) of
           (Inl e, w) \<Rightarrow> (IpcError (utf8_text [230, 150, 173, 229, 188, 128, 231, 169, 186, 233, 151, 180, 229, 164, 177, 232, 180, 165] @ '': '' @ e), d\<lparr>dm_world := w\<rparr>)
         | (Inr _, w) \<Rightarrow>
            (IpcOk None, d\<lparr>dm_world := w, dm_status := (dm_status d)
               \<lparr>ds_connected_spaces := filter (\<lambda>i. i \<noteq> space_id) (ds_connected_spaces (dm_status d))\<rparr>\<rparr>)))"

definition stopped_status_value :: "('f \<Rightarrow> jvalue) \<Rightarrow> 'f f64_ops \<Rightarrow> string \<Rightarrow> jvalue" where
  "stopped_status_value jf F space_id =
    JObj [(''space_id'', JStr space_id), (''is_running'', JBool False), (''virtual_ip'', JNull), (''connected_peers'', jnat 0),
      (''rx_bytes'', jnat 0), (''tx_bytes'', jnat 0), (''avg_latency_ms'', jf (f_zero F))]"

definition handle_space_status :: "('c, 'f) daemon_env \<Rightarrow> string \<Rightarrow> 'c daemon \<Rightarrow> ipc_response outcome" where
  "handle_space_status E space_id d =
    (case ul_parse (ee_uuid (de_et E)) space_id of
       Inl e \<Rightarrow> Done (bad_space_id e)
     | Inr u \<Rightarrow>
        (case query_rpc_status_once (de_f64 E) (ul_string (ee_uuid (de_et E)) u) (de_collect E u 1 (dm_world d)) of
           Panicked \<Rightarrow> Panicked
         | Done (Some s) \<Rightarrow> Done (IpcOk (Some (runtime_status_value (de_f64_json E) s)))
         | Done None \<Rightarrow> Done (IpcOk (Some (stopped_status_value (de_f64_json E) (de_f64 E) space_id)))))"

definition handle_list_peers :: "('c, 'f) daemon_env \<Rightarrow> string \<Rightarrow> 'c daemon \<Rightarrow> ipc_response" where
  "handle_list_peers E space_id d =
    (case ul_parse (ee_uuid (de_et E)) space_id of
       Inl e \<Rightarrow> bad_space_id e
     | Inr u \<Rightarrow>
        (case et_get_peers (de_f64 E) (de_nat_name E) (\<lambda>k. de_collect E u k (dm_world d)) of
           Inl e \<Rightarrow> IpcError (utf8_text [230, 159, 165, 232, 175, 162] @ '' peer '' @ utf8_text [229, 136, 151, 232, 161, 168, 229, 164, 177, 232, 180, 165] @ '': '' @ e)
         | Inr ps \<Rightarrow> IpcOk (Some (JArr (map (peer_info_value (de_f64_json E)) ps)))))"

definition handle_patch :: "('c, 'f) daemon_env \<Rightarrow> string \<Rightarrow> jvalue \<Rightarrow> 'c daemon \<Rightarrow> ipc_response \<times> 'c daemon" where
  "handle_patch E space_id patch d =
    (case ul_parse (ee_uuid (de_et E)) space_id of
       Inl e \<Rightarrow> (bad_space_id e, d)
     | Inr u \<Rightarrow>
        (case et_patch_config (de_et E) (de_rpc E) (dm_manager d) (de_fresh E) u patch (dm_world d) of
           (Inl e, w) \<Rightarrow> (IpcError (utf8_text [228, 191, 174, 230, 148, 185, 233, 133, 141, 231, 189, 174, 229, 164, 177, 232, 180, 165] @ '': '' @ e), d\<lparr>dm_world := w\<rparr>)
         | (Inr _, w) \<Rightarrow> (IpcOk None, push_space space_id (d\<lparr>dm_world := w\<rparr>))))"

definition level_of :: "(string \<Rightarrow> string) \<Rightarrow> string \<Rightarrow> log_level option" where
  "level_of lower l =
    (let s = lower l in
     if s = ''debug'' then Some Debug else if s = ''info'' then Some Info
     else if s = ''warning'' then Some Warning else if s = ''error'' then Some Error else None)"

definition handle_get_logs ::
  "('c, 'f) daemon_env \<Rightarrow> string option \<Rightarrow> u64 option \<Rightarrow> string option \<Rightarrow> 'c daemon \<Rightarrow> ipc_response \<times> 'c daemon" where
  "handle_get_logs E level since_seq space_id d =
    (let level_filter = Option.bind level (level_of (de_lower E));
         (logs, st) = (case space_id of Some sid \<Rightarrow> log_get_by_space sid level_filter (dm_log d)
                       | None \<Rightarrow> log_get_all level_filter (dm_log d));
         filtered = (case since_seq of Some s \<Rightarrow> filter (\<lambda>e. lr_seq e > s) logs | None \<Rightarrow> logs)
     in (IpcOk (Some (de_log_value E filtered)), d\<lparr>dm_log := st\<rparr>))"

definition handle_write_log :: "('c, 'f) daemon_env \<Rightarrow> log_record list \<Rightarrow> 'c daemon \<Rightarrow> ipc_response \<times> 'c daemon" where
  "handle_write_log E entries d =
    (IpcOk None, d\<lparr>dm_log := fold (\<lambda>e. log (de_log_json E) (de_now E) (lr_level e) (lr_target e) (lr_message e) (lr_space_id e))
       entries (dm_log d)\<rparr>)"

definition handle_check_binary :: "('c, 'f) daemon_env \<Rightarrow> 'c daemon \<Rightarrow> ipc_response" where
  "handle_check_binary E d =
    (case ee_binary (de_et E) (ew_fs (dm_world d)) of
       Inl e \<Rightarrow> IpcError (utf8_text [232, 142, 183, 229, 143, 150, 228, 186, 140, 232, 191, 155, 229, 136, 182, 229, 164, 177, 232, 180, 165] @ '': '' @ e)
     | Inr p \<Rightarrow>
        (case de_exec E p of
           Inl e \<Rightarrow> IpcError (utf8_text [230, 137, 167, 232, 161, 140, 228, 186, 140, 232, 191, 155, 229, 136, 182, 229, 164, 177, 232, 180, 165] @ '': '' @ e)
         | Inr (stdout, stderr, success) \<Rightarrow>
            IpcOk (Some (JObj [(''binary'', JStr (de_show_path E p)), (''version'', JStr (trim stdout)),
              (''stderr'', JStr (trim stderr)), (''success'', JBool success)]))))"

definition handle_upgrade :: "('c, 'f) daemon_env \<Rightarrow> string \<Rightarrow> string option \<Rightarrow> 'c daemon \<Rightarrow> ipc_response \<times> 'c daemon" where
  "handle_upgrade E version source_path d =
    (case et_upgrade (de_et E) (de_rpc E) (dm_manager d) (de_fresh E) (de_install E version source_path) (dm_world d) of
       (Inl e, w) \<Rightarrow> (IpcError (utf8_text [229, 141, 135, 231, 186, 167, 229, 164, 177, 232, 180, 165] @ '': '' @ e), d\<lparr>dm_world := w\<rparr>)
     | (Inr _, w) \<Rightarrow> (IpcOk None, d\<lparr>dm_world := w\<rparr>))"

fun handle_request :: "('c, 'f) daemon_env \<Rightarrow> ipc_request \<Rightarrow> 'c daemon \<Rightarrow> ipc_response outcome \<times> 'c daemon" where
  "handle_request E Ping d = (Done (IpcOk None), d)"
| "handle_request E GetStatus d = (Done (IpcOk (Some (daemon_status_value (dm_status d)))), d)"
| "handle_request E (ConnectSpace space_id config) d = apfst Done (handle_connect E space_id config d)"
| "handle_request E (DisconnectSpace space_id) d = apfst Done (handle_disconnect E space_id d)"
| "handle_request E (GetSpaceStatus space_id) d = (handle_space_status E space_id d, d)"
| "handle_request E (ListPeers space_id) d = (Done (handle_list_peers E space_id d), d)"
| "handle_request E (PatchConfig space_id patch) d = apfst Done (handle_patch E space_id patch d)"
| "handle_request E ListSpaces d =
    (Done (IpcOk (Some (JArr (map JStr (list_saved (de_et E) (dm_manager d) (ew_fs (dm_world d))))))), d)"
| "handle_request E GetVersion d =
    (Done (case de_version E (dm_world d) of
        Some v \<Rightarrow> IpcOk (Some (JObj [(''version'', JStr v)])) | None \<Rightarrow> IpcError (''EasyTier '' @ utf8_text [230, 156, 170, 229, 174, 137, 232, 163, 133])), d)"
| "handle_request E (UpgradeVersion version source_path) d = apfst Done (handle_upgrade E version source_path d)"
| "handle_request E SwitchBinary d =
    (Done (IpcOk None), d\<lparr>dm_world := restart_all_instances (de_et E) (de_rpc E) (dm_manager d) (de_fresh E) (dm_world d)\<rparr>)"
| "handle_request E (GetLogs level since_seq space_id) d = apfst Done (handle_get_logs E level since_seq space_id d)"
| "handle_request E (WriteLog entries) d = apfst Done (handle_write_log E entries d)"
| "handle_request E ClearDaemonLogs d = (Done (IpcOk None), d\<lparr>dm_log := log_clear (dm_log d)\<rparr>)"
| "handle_request E (SetLogEnabled enabled) d = (Done (IpcOk None), d\<lparr>dm_log := set_log_enabled enabled (dm_log d)\<rparr>)"
| "handle_request E CheckBinary d = (Done (handle_check_binary E d), d)"
| "handle_request E Shutdown d = (Done (IpcOk None), d\<lparr>dm_shutdown := True\<rparr>)"

end
