(* ===== verification/Ipc_Transport.thy ===== *)
theory Ipc_Transport
  imports Daemon_Ipc
begin

text \<open>
  The wire between the GUI and the daemon: the length-prefixed frames of \<open>daemon/mod.rs\<close>
  (\<open>handle_connection\<close>, \<open>send_response\<close>) and \<open>daemon/client.rs\<close> (\<open>IpcClient::send\<close> and its
  persistent connection). The JSON codecs of requests and responses are parameters. A connection is
  the list of bytes one side has written and the other has not read; every failure the client's code
  tests for is a value of \<open>send_faults\<close>. The server reads and answers one frame at a time, and the
  requests of other clients may change the daemon between two calls.
\<close>

section \<open>Frames\<close>

text \<open>\<open>u32::to_le_bytes\<close> and \<open>u32::from_le_bytes(..) as usize\<close>.\<close>

definition to_le_bytes :: "u32 \<Rightarrow> bytes" where
  "to_le_bytes n = map (\<lambda>i. word_of_nat (unat n div 256 ^ i)) [0..<4]"

primrec from_le_bytes :: "bytes \<Rightarrow> nat" where
  "from_le_bytes [] = 0"
| "from_le_bytes (b # bs) = unat b + 256 * from_le_bytes bs"

text \<open>\<open>msg.len() as u32\<close> in front of the message.\<close>

definition frame :: "bytes \<Rightarrow> bytes" where
  "frame body = to_le_bytes (word_of_nat (length body)) @ body"

text \<open>\<open>read_exact\<close> into a buffer of \<open>n\<close> bytes: the bytes and what is left to read.\<close>

definition read_exact :: "nat \<Rightarrow> bytes \<Rightarrow> (bytes \<times> bytes) option" where
  "read_exact n inp = (if length inp < n then None else Some (take n inp, drop n inp))"

definition MAX_FRAME :: nat where "MAX_FRAME = 10 * 1024 * 1024"

lemma from_to_le_bytes [simp]: "from_le_bytes (to_le_bytes n) = unat n"
proof -
  define k where "k = unat n"
  have k: "k < 4294967296" using unsigned_less [of n, where ?'a = nat] by (simp add: k_def)
  have "from_le_bytes (to_le_bytes n) = k mod 256 + 256 * (k div 256 mod 256 + 256 * (k div 65536 mod 256 + 256 * (k div 16777216 mod 256)))"
    by (simp add: to_le_bytes_def upt_rec k_def unat_of_nat unsigned_ucast_eq take_bit_eq_mod)
  also have "\<dots> = k"
  proof -
    have "k div 65536 = k div 256 div 256" "k div 16777216 = k div 256 div 256 div 256"
      by (simp_all add: div_mult2_eq [symmetric])
    moreover have "k div 256 div 256 div 256 mod 256 = k div 256 div 256 div 256"
      using k by (simp add: div_mult2_eq [symmetric] less_mult_imp_div_less)
    ultimately show ?thesis by (simp only: mod_mult_div_eq)
  qed
  finally show ?thesis by (simp add: k_def)
qed

lemma length_to_le_bytes [simp]: "length (to_le_bytes n) = 4"
  by (simp add: to_le_bytes_def)

lemma read_exact_append [simp]: "length a = n \<Longrightarrow> read_exact n (a @ b) = Some (a, b)"
  by (simp add: read_exact_def)

lemma read_exact_all [simp]: "length a = n \<Longrightarrow> read_exact n a = Some (a, [])"
  by (simp add: read_exact_def)

lemma read_exact_Some: "read_exact n inp = Some (a, b) \<Longrightarrow> inp = a @ b \<and> length a = n"
  by (auto simp: read_exact_def split: if_splits)

lemma unat_len32: "n < 2 ^ 32 \<Longrightarrow> unat (word_of_nat n :: u32) = n"
  by (simp add: unat_of_nat)

section \<open>The server\<close>

text \<open>
  Why the server stops reading: the next frame is not complete (it waits with these bytes, and the
  connection ends when the peer closes it), the frame is too large, or the task died in a panic.
\<close>

datatype conn_end = NeedsMore bytes | TooLarge | Crashed

definition send_response :: "ipc_response json \<Rightarrow> ipc_response \<Rightarrow> bytes" where
  "send_response JR resp = (case js_ser JR resp of Inr body \<Rightarrow> frame body | Inl _ \<Rightarrow> [])"

function handle_connection ::
  "('c, 'f) daemon_env \<Rightarrow> ipc_request json \<Rightarrow> ipc_response json \<Rightarrow> bytes \<Rightarrow> 'c daemon \<Rightarrow> bytes \<times> conn_end \<times> 'c daemon" where
  "handle_connection E JQ JR inp d =
    (case read_exact 4 inp of
       None \<Rightarrow> ([], NeedsMore inp, d)
     | Some (len_buf, inp1) \<Rightarrow>
        if from_le_bytes len_buf > MAX_FRAME then ([], TooLarge, d)
        else (case read_exact (from_le_bytes len_buf) inp1 of
           None \<Rightarrow> ([], NeedsMore inp, d)
         | Some (req_buf, inp2) \<Rightarrow>
            (case js_de JQ req_buf of
               Inl e \<Rightarrow>
                 (let (out, r) = handle_connection E JQ JR inp2 d
                  in (send_response JR (IpcError (utf8_text [232, 167, 163, 230, 158, 144, 232, 175, 183, 230, 177, 130, 229, 164, 177, 232, 180, 165] @ '': '' @ e)) @ out, r))
             | Inr req \<Rightarrow>
                (case handle_request E req d of
                   (Panicked, d1) \<Rightarrow> ([], Crashed, d1)
                 | (Done resp, d1) \<Rightarrow>
                     (let (out, r) = handle_connection E JQ JR inp2 d1 in (send_response JR resp @ out, r))))))"
  by pat_completeness auto
termination
  by (relation "measure (\<lambda>(E, JQ, JR, inp, d). length inp)")
    (auto dest!: read_exact_Some)

declare handle_connection.simps [simp del]

section \<open>The client\<close>

datatype connect_fault = ConnOk | ConnTimeout | ConnErr string
datatype read_fault = ReadOk | ReadErr string | ReadTimeout

text \<open>
  What the network does during one call. A failed write has delivered some first bytes. \<open>sf_eof\<close> is the
  text of the error of a read from a connection that the daemon has closed.
\<close>

record send_faults =
  sf_connect :: connect_fault
  sf_write :: "(nat \<times> string) option"
  sf_len :: read_fault
  sf_body :: read_fault
  sf_eof :: string

definition no_faults :: send_faults where
  "no_faults = \<lparr>sf_connect = ConnOk, sf_write = None, sf_len = ReadOk, sf_body = ReadOk, sf_eof = ''early eof''\<rparr>"

text \<open>An open connection: bytes the client has not read and bytes the daemon has not used yet.\<close>

record ipc_stream =
  st_unread :: bytes
  st_pending :: bytes

record 'c ipc_link =
  il_stream :: "ipc_stream option"
  il_daemon :: "'c daemon"

text \<open>
  \<open>timeout(.., stream.read_exact(..))\<close>: \<open>Inl None\<close> is the timeout. Bytes that never come end in the
  timeout while the daemon keeps the connection, and in an error once it has closed it.
\<close>

definition read_reply :: "read_fault \<Rightarrow> conn_end \<Rightarrow> string \<Rightarrow> nat \<Rightarrow> bytes \<Rightarrow> string option + bytes \<times> bytes" where
  "read_reply fault fin eof n avail =
    (case fault of
       ReadErr e \<Rightarrow> Inl (Some e)
     | ReadTimeout \<Rightarrow> Inl None
     | ReadOk \<Rightarrow>
        (case read_exact n avail of
           Some r \<Rightarrow> Inr r
         | None \<Rightarrow> Inl (case fin of NeedsMore _ \<Rightarrow> None | _ \<Rightarrow> Some eof)))"

definition client_stream :: "connect_fault \<Rightarrow> ipc_stream option \<Rightarrow> string + ipc_stream" where
  "client_stream fault s =
    (case s of
       Some st \<Rightarrow> Inr st
     | None \<Rightarrow>
        (case fault of
           ConnTimeout \<Rightarrow> Inl (utf8_text [232, 191, 158, 230, 142, 165] @ '' daemon '' @ utf8_text [232, 182, 133, 230, 151, 182])
         | ConnErr e \<Rightarrow> Inl (utf8_text [232, 191, 158, 230, 142, 165] @ '' daemon '' @ utf8_text [229, 164, 177, 232, 180, 165] @ '': '' @ e)
         | ConnOk \<Rightarrow> Inr \<lparr>st_unread = [], st_pending = []\<rparr>))"

definition left_pending :: "conn_end \<Rightarrow> bytes" where
  "left_pending fin = (case fin of NeedsMore p \<Rightarrow> p | _ \<Rightarrow> [])"

definition client_receive ::
  "ipc_response json \<Rightarrow> send_faults \<Rightarrow> conn_end \<Rightarrow> bytes \<Rightarrow> (string + ipc_response) \<times> ipc_stream option" where
  "client_receive JR F fin avail =
    (case read_reply (sf_len F) fin (sf_eof F) 4 avail of
       Inl (Some e) \<Rightarrow> (Inl (utf8_text [232, 175, 187, 229, 143, 150, 229, 147, 141, 229, 186, 148, 233, 149, 191, 229, 186, 166, 229, 164, 177, 232, 180, 165] @ '': '' @ e), None)
     | Inl None \<Rightarrow> (Inl (utf8_text [232, 175, 187, 229, 143, 150, 229, 147, 141, 229, 186, 148, 233, 149, 191, 229, 186, 166, 232, 182, 133, 230, 151, 182]), None)
     | Inr (len_buf, rest) \<Rightarrow>
        if from_le_bytes len_buf > MAX_FRAME then (Inl (utf8_text [229, 147, 141, 229, 186, 148, 232, 191, 135, 229, 164, 167]), None)
        else (case read_reply (sf_body F) fin (sf_eof F) (from_le_bytes len_buf) rest of
           Inl (Some e) \<Rightarrow> (Inl (utf8_text [232, 175, 187, 229, 143, 150, 229, 147, 141, 229, 186, 148, 229, 134, 133, 229, 174, 185, 229, 164, 177, 232, 180, 165] @ '': '' @ e), None)
         | Inl None \<Rightarrow> (Inl (utf8_text [232, 175, 187, 229, 143, 150, 229, 147, 141, 229, 186, 148, 229, 134, 133, 229, 174, 185, 232, 182, 133, 230, 151, 182]), None)
         | Inr (resp_buf, rest1) \<Rightarrow>
            (ctx_err (utf8_text [229, 143, 141, 229, 186, 143, 229, 136, 151, 229, 140, 150, 229, 147, 141, 229, 186, 148, 229, 164, 177, 232, 180, 165] @ '': '') (js_de JR resp_buf),
             Some \<lparr>st_unread = rest1, st_pending = left_pending fin\<rparr>)))"

definition client_send ::
  "('c, 'f) daemon_env \<Rightarrow> ipc_request json \<Rightarrow> ipc_response json \<Rightarrow> send_faults \<Rightarrow> ipc_request \<Rightarrow> 'c ipc_link \<Rightarrow>
    (string + ipc_response) \<times> 'c ipc_link" where
  "client_send E JQ JR F request link =
    (case client_stream (sf_connect F) (il_stream link) of
       Inl e \<Rightarrow> (Inl e, link)
     | Inr st \<Rightarrow>
        (case js_ser JQ request of
           Inl e \<Rightarrow> (Inl (utf8_text [229, 186, 143, 229, 136, 151, 229, 140, 150, 232, 175, 183, 230, 177, 130, 229, 164, 177, 232, 180, 165] @ '': '' @ e), link\<lparr>il_stream := Some st\<rparr>)
         | Inr req_json \<Rightarrow>
            (case sf_write F of
               Some (n, e) \<Rightarrow>
                 (case handle_connection E JQ JR (st_pending st @ take n (frame req_json)) (il_daemon link) of
                    (out, fin, d) \<Rightarrow> (Inl (utf8_text [229, 143, 145, 233, 128, 129, 232, 175, 183, 230, 177, 130, 229, 164, 177, 232, 180, 165] @ '': '' @ e), \<lparr>il_stream = None, il_daemon = d\<rparr>))
             | None \<Rightarrow>
                (case handle_connection E JQ JR (st_pending st @ frame req_json) (il_daemon link) of
                   (out, fin, d) \<Rightarrow>
                     (case client_receive JR F fin (st_unread st @ out) of
                        (r, s) \<Rightarrow> (r, \<lparr>il_stream = s, il_daemon = d\<rparr>))))))"

text \<open>\<open>ping\<close>: any answer will do.\<close>

definition client_ping ::
  "('c, 'f) daemon_env \<Rightarrow> ipc_request json \<Rightarrow> ipc_response json \<Rightarrow> send_faults \<Rightarrow> 'c ipc_link \<Rightarrow> bool \<times> 'c ipc_link" where
  "client_ping E JQ JR F link = apfst (\<lambda>r. \<not> isl r) (client_send E JQ JR F Ping link)"

text \<open>
  \<open>send_sync\<close>: a connection of its own for one request. Setting the timeouts may fail too; the two
  writes and the two reads have messages of their own, and a timeout is an error like any other.
\<close>

record sync_faults =
  sy_connect :: "string option"
  sy_read_timeout :: "string option"
  sy_write_timeout :: "string option"
  sy_write_len :: "(nat \<times> string) option"
  sy_write_body :: "(nat \<times> string) option"
  sy_read_len :: "string option"
  sy_read_body :: "string option"
  sy_eof :: string

definition sync_read :: "string option \<Rightarrow> string \<Rightarrow> nat \<Rightarrow> bytes \<Rightarrow> string + bytes \<times> bytes" where
  "sync_read fault eof n avail =
    (case fault of Some e \<Rightarrow> Inl e
     | None \<Rightarrow> (case read_exact n avail of Some r \<Rightarrow> Inr r | None \<Rightarrow> Inl eof))"

definition sync_receive :: "ipc_response json \<Rightarrow> sync_faults \<Rightarrow> bytes \<Rightarrow> string + ipc_response" where
  "sync_receive JR F out =
    res_bind (ctx_err (utf8_text [232, 175, 187, 229, 143, 150, 229, 147, 141, 229, 186, 148, 233, 149, 191, 229, 186, 166, 229, 164, 177, 232, 180, 165] @ '': '') (sync_read (sy_read_len F) (sy_eof F) 4 out)) (\<lambda>(len_buf, rest).
    if from_le_bytes len_buf > MAX_FRAME then Inl (utf8_text [229, 147, 141, 229, 186, 148, 232, 191, 135, 229, 164, 167])
    else res_bind (ctx_err (utf8_text [232, 175, 187, 229, 143, 150, 229, 147, 141, 229, 186, 148, 229, 134, 133, 229, 174, 185, 229, 164, 177, 232, 180, 165] @ '': '') (sync_read (sy_read_body F) (sy_eof F) (from_le_bytes len_buf) rest)) (\<lambda>(resp_buf, _).
      ctx_err (utf8_text [229, 143, 141, 229, 186, 143, 229, 136, 151, 229, 140, 150, 229, 147, 141, 229, 186, 148, 229, 164, 177, 232, 180, 165] @ '': '') (js_de JR resp_buf)))"

definition client_send_sync ::
  "('c, 'f) daemon_env \<Rightarrow> ipc_request json \<Rightarrow> ipc_response json \<Rightarrow> sync_faults \<Rightarrow> ipc_request \<Rightarrow> 'c daemon \<Rightarrow>
    (string + ipc_response) \<times> 'c daemon" where
  "client_send_sync E JQ JR F request d =
    (case (sy_connect F, sy_read_timeout F, sy_write_timeout F) of
       (Some e, _) \<Rightarrow> (Inl (utf8_text [232, 191, 158, 230, 142, 165] @ '' daemon '' @ utf8_text [229, 164, 177, 232, 180, 165] @ '': '' @ e), d)
     | (None, Some e, _) \<Rightarrow> (Inl (utf8_text [232, 174, 190, 231, 189, 174, 232, 175, 187, 232, 182, 133, 230, 151, 182, 229, 164, 177, 232, 180, 165] @ '': '' @ e), d)
     | (None, None, Some e) \<Rightarrow> (Inl (utf8_text [232, 174, 190, 231, 189, 174, 229, 134, 153, 232, 182, 133, 230, 151, 182, 229, 164, 177, 232, 180, 165] @ '': '' @ e), d)
     | (None, None, None) \<Rightarrow>
        (case js_ser JQ request of
           Inl e \<Rightarrow> (Inl (utf8_text [229, 186, 143, 229, 136, 151, 229, 140, 150, 232, 175, 183, 230, 177, 130, 229, 164, 177, 232, 180, 165] @ '': '' @ e), d)
         | Inr req_json \<Rightarrow>
            (case (sy_write_len F, sy_write_body F) of
               (Some (n, e), _) \<Rightarrow>
                 (Inl (utf8_text [229, 143, 145, 233, 128, 129, 232, 175, 183, 230, 177, 130, 233, 149, 191, 229, 186, 166, 229, 164, 177, 232, 180, 165] @ '': '' @ e), snd (snd (handle_connection E JQ JR (take n (to_le_bytes (word_of_nat (length req_json)))) d)))
             | (None, Some (n, e)) \<Rightarrow>
                 (Inl (utf8_text [229, 143, 145, 233, 128, 129, 232, 175, 183, 230, 177, 130, 229, 134, 133, 229, 174, 185, 229, 164, 177, 232, 180, 165] @ '': '' @ e), snd (snd (handle_connection E JQ JR (to_le_bytes (word_of_nat (length req_json)) @ take n req_json) d)))
             | (None, None) \<Rightarrow>
                 (case handle_connection E JQ JR (frame req_json) d of (out, _, d1) \<Rightarrow> (sync_receive JR F out, d1)))))"

section \<open>Frames on the wire\<close>

text \<open>What the code relies on of a JSON codec: what is written fits a frame and reads back.\<close>

definition wire_json :: "'a json \<Rightarrow> bool" where
  "wire_json J \<longleftrightarrow> (\<forall>x b. js_ser J x = Inr b \<longrightarrow> length b < 2 ^ 32 \<and> js_de J b = Inr x)"

lemma wire_jsonD: "wire_json J \<Longrightarrow> js_ser J x = Inr b \<Longrightarrow> length b < 2 ^ 32 \<and> js_de J b = Inr x"
  by (simp add: wire_json_def)

lemma handle_connection_Nil [simp]: "handle_connection E JQ JR [] d = ([], NeedsMore [], d)"
  by (subst handle_connection.simps) (simp add: read_exact_def)

lemma MAX_FRAME_less: "n \<le> MAX_FRAME \<Longrightarrow> n < 2 ^ 32"
  by (simp add: MAX_FRAME_def)

lemma frame_read:
  "length b < 2 ^ 32 \<Longrightarrow>
    read_exact 4 (frame b @ rest) = Some (to_le_bytes (word_of_nat (length b)), b @ rest) \<and>
    from_le_bytes (to_le_bytes (word_of_nat (length b))) = length b"
  by (simp add: frame_def unat_len32)

lemma handle_connection_frame:
  assumes "length b \<le> MAX_FRAME"
  shows "handle_connection E JQ JR (frame b @ rest) d =
    (case js_de JQ b of
       Inl e \<Rightarrow> (let (out, r) = handle_connection E JQ JR rest d in (send_response JR (IpcError (utf8_text [232, 167, 163, 230, 158, 144, 232, 175, 183, 230, 177, 130, 229, 164, 177, 232, 180, 165] @ '': '' @ e)) @ out, r))
     | Inr req \<Rightarrow>
        (case handle_request E req d of
           (Panicked, d1) \<Rightarrow> ([], Crashed, d1)
         | (Done resp, d1) \<Rightarrow> (let (out, r) = handle_connection E JQ JR rest d1 in (send_response JR resp @ out, r))))"
  using frame_read [OF MAX_FRAME_less [OF assms], of rest] assms
  by (subst handle_connection.simps) simp

lemma handle_connection_large:
  "MAX_FRAME < length b \<Longrightarrow> length b < 2 ^ 32 \<Longrightarrow> handle_connection E JQ JR (frame b @ rest) d = ([], TooLarge, d)"
  using frame_read [of b rest] by (subst handle_connection.simps) simp

lemma handle_connection_one:
  assumes "js_ser JQ q = Inr b" and "wire_json JQ"
  shows "handle_connection E JQ JR (frame b) d =
    (if MAX_FRAME < length b then ([], TooLarge, d)
     else case handle_request E q d of
            (Panicked, d1) \<Rightarrow> ([], Crashed, d1)
          | (Done resp, d1) \<Rightarrow> (send_response JR resp, NeedsMore [], d1))"
  using wire_jsonD [OF assms(2,1)] handle_connection_frame [of b E JQ JR "[]" d] handle_connection_large [of b E JQ JR "[]" d]
  by (auto split: prod.split outcome.split)

lemma client_receive_Nil: "client_receive JR F fin [] = (r, s) \<Longrightarrow> isl r \<and> s = None"
  by (auto simp: client_receive_def read_reply_def read_exact_def split: read_fault.splits sum.splits option.splits)

lemma client_receive_frame:
  assumes "length m < 2 ^ 32" and "client_receive JR F fin (frame m) = (r, s)"
  shows "(s = None \<or> s = Some \<lparr>st_unread = [], st_pending = left_pending fin\<rparr>) \<and> (\<forall>x. r = Inr x \<longrightarrow> js_de JR m = Inr x)"
  using assms(2) frame_read [OF assms(1), of "[]"]
  by (auto simp: client_receive_def read_reply_def read_exact_def ctx_err_def
      split: read_fault.splits sum.splits option.splits if_splits)

section \<open>One client and the daemon\<close>

text \<open>
  The states a client and the daemon can reach from a client without a connection: a call with any
  request and any faults, or anything that changes the daemon between two calls (another client, the
  core, the clock). \<open>Es\<close> holds the environments the calls may meet.
\<close>

inductive ipc_reach ::
  "('c, 'f) daemon_env set \<Rightarrow> ipc_request json \<Rightarrow> ipc_response json \<Rightarrow> 'c ipc_link \<Rightarrow> bool" for Es JQ JR where
  ipc_init: "ipc_reach Es JQ JR \<lparr>il_stream = None, il_daemon = d\<rparr>"
| ipc_call: "ipc_reach Es JQ JR link \<Longrightarrow> E \<in> Es \<Longrightarrow> ipc_reach Es JQ JR (snd (client_send E JQ JR F request link))"
| ipc_other: "ipc_reach Es JQ JR link \<Longrightarrow> ipc_reach Es JQ JR (link\<lparr>il_daemon := d\<rparr>)"

definition link_clean :: "'c ipc_link \<Rightarrow> bool" where
  "link_clean link \<longleftrightarrow> (case il_stream link of None \<Rightarrow> True | Some st \<Rightarrow> st_unread st = [] \<and> st_pending st = [])"

lemma client_stream_clean:
  "link_clean link \<Longrightarrow> client_stream f (il_stream link) = Inr st \<Longrightarrow> st_unread st = [] \<and> st_pending st = []"
  by (auto simp: link_clean_def client_stream_def split: option.splits connect_fault.splits)

text \<open>What one call does on a clean connection: errors leave no connection or a clean one.\<close>

lemma client_send_clean:
  assumes "wire_json JQ" and "wire_json JR" and "link_clean link" and "client_send E JQ JR F q link = (r, link')"
  shows "link_clean link' \<and> (\<forall>x. r = Inr x \<longrightarrow> handle_request E q (il_daemon link) = (Done x, il_daemon link'))"
proof (cases "client_stream (sf_connect F) (il_stream link)")
  case (Inl e)
  then show ?thesis using assms(3,4) by (auto simp: client_send_def)
next
  case (Inr st)
  note st = client_stream_clean [OF assms(3) Inr]
  show ?thesis
  proof (cases "js_ser JQ q")
    case (Inl e)
    then show ?thesis using assms(4) Inr st by (auto simp: client_send_def link_clean_def)
  next
    case req: (Inr b)
    show ?thesis
    proof (cases "sf_write F")
      case (Some f)
      then show ?thesis using assms(4) Inr req by (auto simp: client_send_def link_clean_def split: prod.splits)
    next
      case None
      obtain out fin d where h: "handle_connection E JQ JR (frame b) (il_daemon link) = (out, fin, d)" by (metis prod_cases3)
      obtain r' s where c: "client_receive JR F fin out = (r', s)" by fastforce
      have eq: "r = r'" "link' = \<lparr>il_stream = s, il_daemon = d\<rparr>"
        using assms(4) Inr req None st h c by (auto simp: client_send_def)
      consider "out = []" | resp m where "handle_request E q (il_daemon link) = (Done resp, d)" "fin = NeedsMore []"
          "js_ser JR resp = Inr m" "out = frame m"
        using h unfolding handle_connection_one [OF req assms(1)]
        by (auto simp: send_response_def split: if_splits prod.splits outcome.splits sum.splits)
      then show ?thesis
      proof cases
        case 1
        then show ?thesis using client_receive_Nil [of JR F fin r' s] c eq by (auto simp: link_clean_def)
      next
        case 2
        from wire_jsonD [OF assms(2) 2(3)] show ?thesis
          using client_receive_frame [of m JR F fin r' s] c eq 2 by (auto simp: link_clean_def left_pending_def)
      qed
    qed
  qed
qed

lemma ipc_reach_clean: "ipc_reach Es JQ JR link \<Longrightarrow> wire_json JQ \<Longrightarrow> wire_json JR \<Longrightarrow> link_clean link"
proof (induction rule: ipc_reach.induct)
  case (ipc_call link E F request)
  then show ?case using client_send_clean [of JQ JR link E F request] by (metis prod.collapse)
qed (auto simp: link_clean_def)

text \<open>
  C3: Answers are never mixed up. After any sequence of calls, with connections refused, writes cut
  short, reads that fail or time out at any point, and with the daemon changing in between, a call that
  returns an answer returns the daemon's answer to this very request: a late answer to an earlier
  request that timed out is never taken for it.
\<close>

theorem client_answers_match:
  assumes "wire_json JQ" and "wire_json JR" and "ipc_reach Es JQ JR link"
    and "client_send E JQ JR F q link = (Inr x, link')"
  shows "handle_request E q (il_daemon link) = (Done x, il_daemon link')"
  using client_send_clean [OF assms(1,2) ipc_reach_clean [OF assms(3,1,2)] assms(4)] by blast

lemma client_send_ok:
  assumes "wire_json JQ" and "wire_json JR" and "link_clean link"
    and "js_ser JQ q = Inr b" and "length b \<le> MAX_FRAME"
    and "handle_request E q (il_daemon link) = (Done x, d)" and "js_ser JR x = Inr m" and "length m \<le> MAX_FRAME"
  shows "client_send E JQ JR no_faults q link =
    (Inr x, \<lparr>il_stream = Some \<lparr>st_unread = [], st_pending = []\<rparr>, il_daemon = d\<rparr>)"
proof -
  obtain st where st: "client_stream (sf_connect no_faults) (il_stream link) = Inr st"
    by (cases "il_stream link") (auto simp: client_stream_def no_faults_def)
  note clean = client_stream_clean [OF assms(3) st]
  have "handle_connection E JQ JR (frame b) (il_daemon link) = (frame m, NeedsMore [], d)"
    using assms(5-7) by (simp add: handle_connection_one [OF assms(4,1)] send_response_def)
  moreover have "client_receive JR no_faults (NeedsMore []) (frame m) = (Inr x, Some \<lparr>st_unread = [], st_pending = []\<rparr>)"
    using frame_read [OF MAX_FRAME_less [OF assms(8)], of "[]"] assms(8) wire_jsonD [OF assms(2,7)]
    by (simp add: client_receive_def read_reply_def no_faults_def ctx_err_def left_pending_def)
  ultimately show ?thesis using st clean assms(4) by (simp add: client_send_def) (simp add: no_faults_def)
qed

text \<open>
  C27: A call on a working network returns the answer of the daemon whenever request and answer fit in a
  frame and the handler does not panic, on a new connection as on a kept one, and keeps the connection.
\<close>

theorem client_send_succeeds:
  assumes "wire_json JQ" and "wire_json JR" and "ipc_reach Es JQ JR link"
    and "js_ser JQ q = Inr b" and "length b \<le> MAX_FRAME"
    and "handle_request E q (il_daemon link) = (Done x, d)" and "js_ser JR x = Inr m" and "length m \<le> MAX_FRAME"
  shows "client_send E JQ JR no_faults q link =
    (Inr x, \<lparr>il_stream = Some \<lparr>st_unread = [], st_pending = []\<rparr>, il_daemon = d\<rparr>)"
  by (rule client_send_ok [OF assms(1,2) ipc_reach_clean [OF assms(3,1,2)] assms(4-8)])

text \<open>The requests of a connection one after the other; \<open>None\<close> when a handler panics.\<close>

fun serve_all :: "('c, 'f) daemon_env \<Rightarrow> ipc_request list \<Rightarrow> 'c daemon \<Rightarrow> (ipc_response list \<times> 'c daemon) option" where
  "serve_all E [] d = Some ([], d)"
| "serve_all E (q # qs) d =
    (case handle_request E q d of
       (Panicked, _) \<Rightarrow> None
     | (Done r, d1) \<Rightarrow> map_option (apfst ((#) r)) (serve_all E qs d1))"

text \<open>
  The server answers every request of a connection, in order and one frame each, when the requests
  arrive back to back and none of them panics; then it waits for the next frame with nothing left over.
\<close>

theorem handle_connection_in_order:
  assumes "wire_json JQ" and "list_all2 (\<lambda>q b. js_ser JQ q = Inr b \<and> length b \<le> MAX_FRAME) qs bs"
    and "serve_all E qs d = Some (rs, d')"
  shows "handle_connection E JQ JR (concat (map frame bs)) d = (concat (map (send_response JR) rs), NeedsMore [], d')"
  using assms(2,3)
proof (induction qs bs arbitrary: d rs rule: list_all2_induct)
  case (Cons q qs b bs)
  then have "js_de JQ b = Inr q" using wire_jsonD [OF assms(1)] by blast
  with Cons show ?case
    by (auto simp: handle_connection_frame split: prod.splits outcome.splits)
qed simp

section \<open>Concrete runs\<close>

text \<open>Codecs that write pings and empty answers only.\<close>

definition request_toy :: "ipc_request json" where
  "request_toy = \<lparr>js_ser = \<lambda>q. case q of Ping \<Rightarrow> Inr [123] | _ \<Rightarrow> Inl ''unsupported'', js_de = \<lambda>b. if b = [123] then Inr Ping else Inl ''syntax''\<rparr>"

definition response_toy :: "ipc_response json" where
  "response_toy =
    \<lparr>js_ser = \<lambda>r. case r of IpcOk None \<Rightarrow> Inr [111] | _ \<Rightarrow> Inl ''unsupported'',
     js_de = \<lambda>b. if b = [111] then Inr (IpcOk None) else Inl ''syntax''\<rparr>"

lemma toy_codecs: "wire_json request_toy" "wire_json response_toy"
  by (auto simp: wire_json_def request_toy_def response_toy_def split: ipc_request.splits ipc_response.splits option.splits)

lemma toy_codec_ser: "js_ser request_toy Ping = Inr [123]" "js_ser response_toy (IpcOk None) = Inr [111]"
  by (simp_all add: request_toy_def response_toy_def)

text \<open>A first ping whose answer times out, then a second one.\<close>

definition lost_reply :: send_faults where "lost_reply = no_faults\<lparr>sf_len := ReadTimeout\<rparr>"

lemma toy_ping:
  "client_send E request_toy response_toy no_faults Ping \<lparr>il_stream = None, il_daemon = d\<rparr> =
    (Inr (IpcOk None), \<lparr>il_stream = Some \<lparr>st_unread = [], st_pending = []\<rparr>, il_daemon = d\<rparr>)"
  by (rule client_send_ok [OF toy_codecs _ toy_codec_ser(1) _ _ toy_codec_ser(2)]) (simp_all add: MAX_FRAME_def link_clean_def)

lemma toy_lost:
  "snd (client_send E request_toy response_toy lost_reply Ping \<lparr>il_stream = None, il_daemon = d\<rparr>) = \<lparr>il_stream = None, il_daemon = d\<rparr>"
  using handle_connection_one [OF toy_codec_ser(1) toy_codecs(1), of E response_toy d]
  by (simp add: client_send_def client_stream_def lost_reply_def no_faults_def toy_codec_ser(1) MAX_FRAME_def client_receive_def
      read_reply_def send_response_def toy_codec_ser(2))

theorem client_answers_match_witness:
  "\<forall>(E :: (nat, nat) daemon_env) d.
     handle_request E Ping (il_daemon (snd (client_send E request_toy response_toy lost_reply Ping \<lparr>il_stream = None, il_daemon = d\<rparr>)))
       = (Done (IpcOk None), d)"
proof (intro allI)
  fix E :: "(nat, nat) daemon_env" and d
  let ?link = "snd (client_send E request_toy response_toy lost_reply Ping \<lparr>il_stream = None, il_daemon = d\<rparr>)"
  have "ipc_reach (UNIV :: (nat, nat) daemon_env set) request_toy response_toy ?link" by (rule ipc_call [OF ipc_init]) simp
  moreover have "client_send E request_toy response_toy no_faults Ping ?link =
      (Inr (IpcOk None), \<lparr>il_stream = Some \<lparr>st_unread = [], st_pending = []\<rparr>, il_daemon = d\<rparr>)"
    unfolding toy_lost by (rule toy_ping)
  ultimately show "handle_request E Ping (il_daemon ?link) = (Done (IpcOk None), d)"
    using client_answers_match [OF toy_codecs] by fastforce
qed

theorem client_send_succeeds_witness:
  "\<forall>(E :: (nat, nat) daemon_env) d.
     fst (client_send E request_toy response_toy no_faults Ping \<lparr>il_stream = None, il_daemon = d\<rparr>) = Inr (IpcOk None)"
proof (intro allI)
  fix E :: "(nat, nat) daemon_env" and d
  show "fst (client_send E request_toy response_toy no_faults Ping \<lparr>il_stream = None, il_daemon = d\<rparr>) = Inr (IpcOk None)"
    using client_send_succeeds [OF toy_codecs ipc_init toy_codec_ser(1) _ _ toy_codec_ser(2), of E d d]
    by (simp add: MAX_FRAME_def)
qed

theorem handle_connection_in_order_witness:
  "\<forall>(E :: (nat, nat) daemon_env) d.
     handle_connection E request_toy response_toy [1, 0, 0, 0, 123, 1, 0, 0, 0, 123] d =
       ([1, 0, 0, 0, 111, 1, 0, 0, 0, 111], NeedsMore [], d)"
proof (intro allI)
  fix E :: "(nat, nat) daemon_env" and d
  have "list_all2 (\<lambda>q b. js_ser request_toy q = Inr b \<and> length b \<le> MAX_FRAME) [Ping, Ping] [[123], [123]]"
    by (simp add: toy_codec_ser MAX_FRAME_def)
  moreover have "serve_all E [Ping, Ping] d = Some ([IpcOk None, IpcOk None], d)" by simp
  moreover have "to_le_bytes 1 = [1, 0, 0, 0]" by (simp add: to_le_bytes_def upt_rec)
  ultimately show "handle_connection E request_toy response_toy [1, 0, 0, 0, 123, 1, 0, 0, 0, 123] d =
       ([1, 0, 0, 0, 111, 1, 0, 0, 0, 111], NeedsMore [], d)"
    using handle_connection_in_order [OF toy_codecs(1), of "[Ping, Ping]" "[[123], [123]]" E d _ d response_toy]
    by (simp add: frame_def send_response_def toy_codec_ser)
qed

end
