(* ===== verification/Cleanup.thy ===== *)
theory Cleanup
  imports Daemon_Ipc
begin

text \<open>
  The clean-up before start and at exit, \<open>src-tauri/src/cleanup.rs\<close>, on Linux: left-over temporary files,
  a left-over daemon and a left-over core. What \<open>ps\<close>, \<open>lsof\<close> and \<open>kill\<close> answer and what happens while the
  code sleeps is the parameter \<open>os\<close>; every signal that is sent is kept in \<open>ho_signals\<close>.
\<close>

section \<open>Processes\<close>

datatype signal = SIGTERM | SIGKILL

definition ESRCH :: nat where "ESRCH = 3"

record host =
  ho_fs :: fs
  ho_alive :: "u32 set"
  ho_signals :: "(u32 \<times> signal) list"

text \<open>
  \<open>os_probe\<close> is \<open>kill(pid, 0)\<close> with its error number; \<open>os_ps_comm\<close> and \<open>os_ps_command\<close> the output of \<open>ps\<close>
  when it could be run (with its success); \<open>os_lsof\<close> that of \<open>lsof\<close>; \<open>os_kill\<close> what a signal does and
  \<open>os_sleep\<close> what the other processes do meanwhile.
\<close>

record os =
  os_probe :: "u32 \<Rightarrow> host \<Rightarrow> nat option"
  os_ps_comm :: "u32 \<Rightarrow> host \<Rightarrow> string option"
  os_ps_command :: "u32 \<Rightarrow> host \<Rightarrow> (bool \<times> string) option"
  os_lsof :: "u16 \<Rightarrow> host \<Rightarrow> (bool \<times> string) option"
  os_kill :: "u32 \<Rightarrow> signal \<Rightarrow> host \<Rightarrow> host"
  os_sleep :: "host \<Rightarrow> host"
  os_readdir :: "fs \<Rightarrow> path \<Rightarrow> string list"
  os_temp_dir :: path
  os_lower :: "string \<Rightarrow> string"

definition parse_u32 :: "string \<Rightarrow> u32 option" where
  "parse_u32 s = map_option word_of_nat (parse_uint 4294967295 s)"

definition is_process_alive :: "os \<Rightarrow> u32 \<Rightarrow> host \<Rightarrow> bool" where
  "is_process_alive S pid h = (case os_probe S pid h of None \<Rightarrow> True | Some e \<Rightarrow> e \<noteq> ESRCH)"

definition is_easytier_process :: "os \<Rightarrow> u32 \<Rightarrow> host \<Rightarrow> bool" where
  "is_easytier_process S pid h =
    (case os_ps_comm S pid h of Some name \<Rightarrow> contains_str (trim name) ''easytier-core'' | None \<Rightarrow> False)"

definition process_command :: "os \<Rightarrow> u32 \<Rightarrow> host \<Rightarrow> string option" where
  "process_command S pid h =
    (case os_ps_command S pid h of
       None \<Rightarrow> None
     | Some (success, out) \<Rightarrow>
        if \<not> success then None else (let cmd = trim out in if cmd = [] then None else Some cmd))"

definition is_hometier_gui_process :: "os \<Rightarrow> u32 \<Rightarrow> host \<Rightarrow> bool" where
  "is_hometier_gui_process S pid h =
    (case process_command S pid h of
       Some cmd \<Rightarrow> contains_str (os_lower S cmd) ''hometier'' \<and> \<not> contains_str cmd ''--daemon''
     | None \<Rightarrow> False)"

definition is_hometier_daemon_process :: "os \<Rightarrow> u32 \<Rightarrow> host \<Rightarrow> bool" where
  "is_hometier_daemon_process S pid h =
    (case process_command S pid h of
       Some cmd \<Rightarrow> contains_str (os_lower S cmd) ''hometier'' \<and> contains_str cmd ''--daemon''
     | None \<Rightarrow> False)"

text \<open>\<open>lines().find_map(|l| l.trim().parse::<u32>().ok())\<close>\<close>

fun first_pid :: "string list \<Rightarrow> u32 option" where
  "first_pid [] = None"
| "first_pid (l # ls) = (case parse_u32 (trim l) of Some p \<Rightarrow> Some p | None \<Rightarrow> first_pid ls)"

definition find_listener_pid :: "os \<Rightarrow> u16 \<Rightarrow> host \<Rightarrow> u32 option" where
  "find_listener_pid S port h =
    (case os_lsof S port h of
       None \<Rightarrow> None
     | Some (success, out) \<Rightarrow> if \<not> success then None else first_pid (lines out))"

section \<open>Ending a process\<close>

definition send_signal :: "os \<Rightarrow> u32 \<Rightarrow> signal \<Rightarrow> host \<Rightarrow> host" where
  "send_signal S pid sig h = (os_kill S pid sig h)\<lparr>ho_signals := ho_signals h @ [(pid, sig)]\<rparr>"

text \<open>\<open>n\<close> rounds of sleeping and looking; \<open>ho_signals\<close> is ours, so sleeping does not touch it.\<close>

fun await_death :: "nat \<Rightarrow> os \<Rightarrow> u32 \<Rightarrow> host \<Rightarrow> bool \<times> host" where
  "await_death 0 S pid h = (False, h)"
| "await_death (Suc n) S pid h =
    (let h1 = (os_sleep S h)\<lparr>ho_signals := ho_signals h\<rparr>
     in if \<not> is_process_alive S pid h1 then (True, h1) else await_death n S pid h1)"

definition terminate_process :: "os \<Rightarrow> u32 \<Rightarrow> host \<Rightarrow> bool \<times> host" where
  "terminate_process S pid h =
    (case await_death 50 S pid (send_signal S pid SIGTERM h) of
       (True, h1) \<Rightarrow> (True, h1)
     | (False, h1) \<Rightarrow>
        (case await_death 10 S pid (send_signal S pid SIGKILL h1) of
           (True, h2) \<Rightarrow> (True, h2)
         | (False, h2) \<Rightarrow> (\<not> is_process_alive S pid h2, h2)))"

section \<open>The clean-ups\<close>

definition read_pid_file :: "path \<Rightarrow> host \<Rightarrow> u32 option" where
  "read_pid_file p h = Option.bind (fs_read_to_string (ho_fs h) p) (\<lambda>s. parse_u32 (trim s))"

definition drop_file :: "path \<Rightarrow> host \<Rightarrow> host" where
  "drop_file p h = h\<lparr>ho_fs := fs_remove p (ho_fs h)\<rparr>"

text \<open>The two steps of \<open>cleanup_orphan_daemon\<close>: by PID file, then by the IPC port.\<close>

definition orphan_by_pid_file :: "os \<Rightarrow> path \<Rightarrow> host \<Rightarrow> host" where
  "orphan_by_pid_file S data_dir h =
    (let pid_file = path_join data_dir ''daemon.pid''
     in case read_pid_file pid_file h of
          None \<Rightarrow> h
        | Some pid \<Rightarrow>
           if is_hometier_daemon_process S pid h then snd (terminate_process S pid h) else drop_file pid_file h)"

definition orphan_by_port :: "os \<Rightarrow> app_config option \<Rightarrow> host \<Rightarrow> host" where
  "orphan_by_port S global h =
    (case find_listener_pid S (word_of_nat (default_rpc_port global)) h of
       None \<Rightarrow> h
     | Some pid \<Rightarrow> if is_hometier_daemon_process S pid h then snd (terminate_process S pid h) else h)"

definition cleanup_orphan_daemon :: "os \<Rightarrow> app_config option \<Rightarrow> path \<Rightarrow> host \<Rightarrow> host" where
  "cleanup_orphan_daemon S global data_dir h = orphan_by_port S global (orphan_by_pid_file S data_dir h)"

definition cleanup_easytier_daemon :: "os \<Rightarrow> app_config option \<Rightarrow> path \<Rightarrow> host \<Rightarrow> host" where
  "cleanup_easytier_daemon S global config_dir h =
    (let pid_file = path_join config_dir ''easytier-core.pid''
     in case read_pid_file pid_file h of
          Some pid \<Rightarrow>
            if \<not> is_easytier_process S pid h then drop_file pid_file h
            else (case terminate_process S pid h of
                    (True, h1) \<Rightarrow> drop_file pid_file h1
                  | (False, h1) \<Rightarrow> h1)
        | None \<Rightarrow>
           (case find_listener_pid S (word_of_nat (easytier_daemon_rpc_port global)) h of
              None \<Rightarrow> h
            | Some pid \<Rightarrow> if is_easytier_process S pid h then snd (terminate_process S pid h) else h))"

text \<open>\<open>remove_dir_all\<close> or \<open>remove_file\<close>: everything at or below the entry that can be removed.\<close>

definition remove_tree :: "path \<Rightarrow> fs \<Rightarrow> fs" where
  "remove_tree p f =
    f\<lparr>fs_data := \<lambda>q. if length p \<le> length q \<and> take (length p) q = p \<and> fs_wfault f q = None then None else fs_data f q\<rparr>"

definition is_temp_name :: "string \<Rightarrow> bool" where
  "is_temp_name name \<longleftrightarrow> starts_with name ''easytier-dl-'' \<or> starts_with name ''easytier-extract-''"

definition cleanup_temp_files :: "os \<Rightarrow> host \<Rightarrow> host" where
  "cleanup_temp_files S h =
    h\<lparr>ho_fs := fold (\<lambda>n f. if is_temp_name n then remove_tree (os_temp_dir S @ [n]) f else f)
        (os_readdir S (ho_fs h) (os_temp_dir S)) (ho_fs h)\<rparr>"

definition cleanup_all :: "os \<Rightarrow> app_config option \<Rightarrow> path \<Rightarrow> path \<Rightarrow> host \<Rightarrow> host" where
  "cleanup_all S global data_dir easytier_config_dir h =
    cleanup_easytier_daemon S global easytier_config_dir (cleanup_orphan_daemon S global data_dir (cleanup_temp_files S h))"

section \<open>What is signalled\<close>

definition signals_only :: "(u32 \<Rightarrow> bool) \<Rightarrow> host \<Rightarrow> host \<Rightarrow> bool" where
  "signals_only P h h' \<longleftrightarrow> (\<exists>ss. ho_signals h' = ho_signals h @ ss \<and> (\<forall>(p, s) \<in> set ss. P p))"

lemma signals_only_refl [simp]: "signals_only P h h"
  by (simp add: signals_only_def)

lemma await_death_signals: "await_death n S pid h = (b, h') \<Longrightarrow> ho_signals h' = ho_signals h"
  by (induction n arbitrary: h) (auto simp: Let_def split: if_splits)

lemma await_death_dead: "await_death n S pid h = (True, h') \<Longrightarrow> \<not> is_process_alive S pid h'"
  by (induction n arbitrary: h) (auto simp: Let_def split: if_splits)

lemma terminate_signals: "P pid \<Longrightarrow> signals_only P h (snd (terminate_process S pid h))"
proof -
  assume P: "P pid"
  obtain b1 h1 where 1: "await_death 50 S pid (send_signal S pid SIGTERM h) = (b1, h1)" by fastforce
  obtain b2 h2 where 2: "await_death 10 S pid (send_signal S pid SIGKILL h1) = (b2, h2)" by fastforce
  have s1: "ho_signals h1 = ho_signals h @ [(pid, SIGTERM)]" using await_death_signals [OF 1] by (simp add: send_signal_def)
  have s2: "ho_signals h2 = ho_signals h @ [(pid, SIGTERM), (pid, SIGKILL)]"
    using await_death_signals [OF 2] s1 by (simp add: send_signal_def)
  have "snd (terminate_process S pid h) = (if b1 then h1 else h2)"
    unfolding terminate_process_def 1 prod.case using 2 by (auto split: bool.splits)
  then show ?thesis using s1 s2 P by (cases b1) (auto simp: signals_only_def)
qed

lemma terminate_dead: "terminate_process S pid h = (True, h') \<Longrightarrow> \<not> is_process_alive S pid h'"
  unfolding terminate_process_def by (auto split: prod.splits bool.splits dest: await_death_dead)

lemma drop_file_signals [simp]: "signals_only P h (drop_file p h')  \<longleftrightarrow> signals_only P h h'"
  by (simp add: drop_file_def signals_only_def)

text \<open>
  C39: The clean-up sends signals only to its own processes. By PID file or by port, the step against a
  left-over daemon signals only processes that \<open>ps\<close> shows as the homeTier daemon, never the GUI, and the
  step against a left-over core only processes named \<open>easytier-core\<close>: a reused process number or a
  foreign program on the port is spared. The removal of temporary files signals nobody.
\<close>

theorem cleanup_spares_others:
  "signals_only (\<lambda>p. is_hometier_daemon_process S p h \<and> \<not> is_hometier_gui_process S p h) h (orphan_by_pid_file S data_dir h) \<and>
   signals_only (\<lambda>p. is_hometier_daemon_process S p h \<and> \<not> is_hometier_gui_process S p h) h (orphan_by_port S global h) \<and>
   signals_only (\<lambda>p. is_easytier_process S p h) h (cleanup_easytier_daemon S global config_dir h) \<and>
   signals_only (\<lambda>p. False) h (cleanup_temp_files S h)"
proof (intro conjI)
  have ex: "is_hometier_daemon_process S p h \<Longrightarrow> \<not> is_hometier_gui_process S p h" for p
    by (auto simp: is_hometier_daemon_process_def is_hometier_gui_process_def split: option.splits)
  show "signals_only (\<lambda>p. is_hometier_daemon_process S p h \<and> \<not> is_hometier_gui_process S p h) h (orphan_by_pid_file S data_dir h)"
    "signals_only (\<lambda>p. is_hometier_daemon_process S p h \<and> \<not> is_hometier_gui_process S p h) h (orphan_by_port S global h)"
    unfolding orphan_by_pid_file_def orphan_by_port_def Let_def
    by (auto intro!: terminate_signals dest: ex split: option.splits)
  show "signals_only (\<lambda>p. is_easytier_process S p h) h (cleanup_easytier_daemon S global config_dir h)"
  proof -
    have "signals_only (\<lambda>p. is_easytier_process S p h) h (case terminate_process S pid h of (True, h1) \<Rightarrow> drop_file f h1 | (False, h1) \<Rightarrow> h1)"
      if "is_easytier_process S pid h" for pid f
      using terminate_signals [of "\<lambda>p. is_easytier_process S p h", OF that, of h S]
      by (auto split: prod.splits bool.splits)
    then show ?thesis
      unfolding cleanup_easytier_daemon_def Let_def
      by (auto intro!: terminate_signals split: option.splits)
  qed
qed (simp add: cleanup_temp_files_def signals_only_def)

text \<open>What the clean-up relies on of the operating system: signals and time do not touch its files.\<close>

definition os_ok :: "os \<Rightarrow> bool" where
  "os_ok S \<longleftrightarrow>
    (\<forall>h. ho_fs (os_sleep S h) = ho_fs h) \<and> (\<forall>p s h. ho_fs (os_kill S p s h) = ho_fs h) \<and>
    (\<forall>p h f. os_probe S p (h\<lparr>ho_fs := f\<rparr>) = os_probe S p h)"

lemma await_death_fs: "os_ok S \<Longrightarrow> await_death n S pid h = (b, h') \<Longrightarrow> ho_fs h' = ho_fs h"
  by (induction n arbitrary: h) (auto simp: Let_def os_ok_def split: if_splits)

lemma send_signal_fs: "os_ok S \<Longrightarrow> ho_fs (send_signal S pid sig h) = ho_fs h"
  by (simp add: send_signal_def os_ok_def)

lemma terminate_fs:
  assumes "os_ok S" and "terminate_process S pid h = (b, h')"
  shows "ho_fs h' = ho_fs h"
  using assms(2) unfolding terminate_process_def
  by (auto simp: send_signal_fs [OF assms(1)] dest!: await_death_fs [OF assms(1)] split: prod.splits bool.splits)

text \<open>
  The PID file of the core is not lost while the core runs: after the clean-up a process that is
  still alive has its PID file unchanged, so that the next clean-up finds it again.
\<close>

theorem cleanup_keeps_pid_file:
  assumes "os_ok S" and "read_pid_file (path_join config_dir ''easytier-core.pid'') h = Some pid" and "is_easytier_process S pid h"
    and "is_process_alive S pid (cleanup_easytier_daemon S global config_dir h)"
  shows "read_pid_file (path_join config_dir ''easytier-core.pid'') (cleanup_easytier_daemon S global config_dir h) = Some pid"
proof -
  obtain b h1 where t: "terminate_process S pid h = (b, h1)" by fastforce
  have alive: "is_process_alive S pid (drop_file p h1) = is_process_alive S pid h1" for p
    using assms(1) by (simp add: drop_file_def is_process_alive_def os_ok_def)
  have "\<not> b" using assms(2-4) t terminate_dead [of S pid h h1] alive by (cases b) (auto simp: cleanup_easytier_daemon_def Let_def)
  then show ?thesis using assms(2,3) t terminate_fs [OF assms(1) t]
    by (simp add: cleanup_easytier_daemon_def Let_def read_pid_file_def)
qed

text \<open>A core that ignores signals.\<close>

lemma trim_seven: "trim ''7'' = ''7''" by code_simp

lemma digit_seven: "digit_val (CHR ''7'') = Some 7" by code_simp

definition os_toy :: os where
  "os_toy = \<lparr>os_probe = \<lambda>_ _. None, os_ps_comm = \<lambda>_ _. Some ''easytier-core'', os_ps_command = \<lambda>_ _. None, os_lsof = \<lambda>_ _. None,
     os_kill = \<lambda>_ _ h. h, os_sleep = \<lambda>h. h, os_readdir = \<lambda>_ _. [], os_temp_dir = [], os_lower = \<lambda>s. s\<rparr>"

definition host_toy :: host where
  "host_toy = \<lparr>ho_fs = fs_empty\<lparr>fs_data := [[''cfg'', ''easytier-core.pid''] \<mapsto> as_bytes ''7'']\<rparr>, ho_alive = {7}, ho_signals = []\<rparr>"

theorem cleanup_keeps_pid_file_witness:
  "read_pid_file [''cfg'', ''easytier-core.pid''] (cleanup_easytier_daemon os_toy None [''cfg''] host_toy) = Some 7"
proof -
  have p: "path_join [''cfg''] ''easytier-core.pid'' = [''cfg'', ''easytier-core.pid'']" by code_simp
  have s: "parse_u32 (trim ''7'') = Some 7" by (simp add: parse_u32_def parse_uint_def trim_seven digit_seven)
  have "os_ok os_toy" "is_process_alive os_toy 7 h" for h by (simp_all add: os_ok_def os_toy_def is_process_alive_def)
  moreover have "trim ''easytier-core'' = ''easytier-core''" by code_simp
  then have "is_easytier_process os_toy 7 host_toy" by (simp add: is_easytier_process_def os_toy_def)
  moreover have "is_utf8 ''7''" by (simp add: is_utf8_def)
  then have "read_pid_file [''cfg'', ''easytier-core.pid''] host_toy = Some 7"
    using s by (simp add: read_pid_file_def host_toy_def fs_read_to_string_def fs_read_def fs_empty_def)
  ultimately show ?thesis using cleanup_keeps_pid_file [of os_toy "[''cfg'']" host_toy 7 None] by (simp add: p)
qed

end
