(* ===== verification/Daemon_Run.thy ===== *)
theory Daemon_Run
  imports Ipc_Transport Cleanup
begin

text \<open>
  The life of the daemon, \<open>daemon/mod.rs\<close> (\<open>new\<close>, \<open>run_inner\<close>, \<open>stop_all\<close>, \<open>stop_easytier\<close>), the
  process of the core, \<open>easytier/process.rs\<close>, and how the GUI finds the daemon's port,
  \<open>daemon/client.rs\<close> (\<open>from_data_dir\<close>). The port a bind succeeds on, the processes the operating
  system starts and the JSON text of the state file are parameters; the sleeps, the signal handlers
  and the watchdog only decide when the shutdown runs and are left out.
\<close>

section \<open>Ports\<close>

text \<open>
  \<open>for port in rpc_port..rpc_port + 10\<close>: both ends are \<open>u16\<close>, and in a release build the sum wraps.
  \<open>bind\<close> gives the error of binding a port, or \<open>None\<close>.
\<close>

definition port_range :: "u16 \<Rightarrow> u16 list" where
  "port_range rpc_port = map word_of_nat [unat rpc_port..<unat (rpc_port + 10)]"

definition bind_port :: "(u16 \<Rightarrow> string option) \<Rightarrow> u16 \<Rightarrow> string + u16" where
  "bind_port bind rpc_port =
    (case find (\<lambda>p. bind p = None) (port_range rpc_port) of
       Some p \<Rightarrow> Inr p
     | None \<Rightarrow> Inl (''[Daemon] '' @ utf8_text [230, 151, 160, 230, 179, 149, 231, 187, 145, 229, 174, 154, 231, 171, 175, 229, 143, 163] @ '' '' @ dec (unat rpc_port) @ ''-'' @ dec (unat (rpc_port + 9)) @ utf8_text [239, 188, 140, 232, 175, 183, 230, 163, 128, 230, 159, 165, 233, 152, 178, 231, 129, 171, 229, 162, 153] @ ''/'' @ utf8_text [230, 157, 128, 230, 175, 146, 232, 189, 175, 228, 187, 182]))"

section \<open>The process of the core\<close>

text \<open>
  The running processes are in the state of \<open>Cleanup\<close>. \<open>child.kill()\<close> of the asynchronous library is a future: it
  kills only when it is awaited, and \<open>start_daemon\<close> drops it.
\<close>

record et_process =
  ep_child :: "u32 option"
  ep_config_dir :: path
  ep_rpc_port :: "u16 option"

definition pid_file :: "path \<Rightarrow> path" where "pid_file config_dir = path_join config_dir ''easytier-core.pid''"

definition start_daemon ::
  "string + u32 \<Rightarrow> (nat \<Rightarrow> bool) \<Rightarrow> path \<Rightarrow> u16 \<Rightarrow> host \<Rightarrow> (string + et_process) \<times> host" where
  "start_daemon spawned ready config_dir rpc_port h =
    (case spawned of
       Inl e \<Rightarrow> (Inl (utf8_text [229, 144, 175, 229, 138, 168] @ '' easytier-core '' @ utf8_text [229, 174, 136, 230, 138, 164, 232, 191, 155, 231, 168, 139, 229, 164, 177, 232, 180, 165] @ '': '' @ e), h)
     | Inr pid \<Rightarrow>
        (let h1 = h\<lparr>ho_alive := insert pid (ho_alive h), ho_fs := snd (fs_write (pid_file config_dir) (as_bytes (dec (unat pid))) (ho_fs h))\<rparr>
         in if list_ex ready [0..<40]
            then (Inr \<lparr>ep_child = Some pid, ep_config_dir = config_dir, ep_rpc_port = Some rpc_port\<rparr>, h1)
            else (Inl (''easytier-core '' @ utf8_text [229, 174, 136, 230, 138, 164, 232, 191, 155, 231, 168, 139, 229, 144, 175, 229, 138, 168, 232, 182, 133, 230, 151, 182]), h1)))"

text \<open>\<open>stop\<close>; after a failed kill or wait the handle is not put back.\<close>

definition process_stop ::
  "string option \<Rightarrow> string option \<Rightarrow> et_process \<Rightarrow> host \<Rightarrow> (string + unit) \<times> et_process \<times> host" where
  "process_stop kill_fault wait_fault p h =
    (case ep_child p of
       None \<Rightarrow> (Inr (), p, h)
     | Some pid \<Rightarrow>
        (case kill_fault of
           Some e \<Rightarrow> (Inl (utf8_text [231, 187, 136, 230, 173, 162, 232, 191, 155, 231, 168, 139, 229, 164, 177, 232, 180, 165] @ '': '' @ e), p\<lparr>ep_child := None\<rparr>, h)
         | None \<Rightarrow>
            (let h1 = h\<lparr>ho_alive := ho_alive h - {pid}\<rparr>
             in case wait_fault of
                  Some e \<Rightarrow> (Inl (utf8_text [231, 173, 137, 229, 190, 133, 232, 191, 155, 231, 168, 139, 233, 128, 128, 229, 135, 186, 229, 164, 177, 232, 180, 165] @ '': '' @ e), p\<lparr>ep_child := None\<rparr>, h1)
                | None \<Rightarrow> (Inr (), p, h1\<lparr>ho_fs := snd (fs_remove_file (pid_file (ep_config_dir p)) (ho_fs h1))\<rparr>))))"

text \<open>
  A core that does not open its RPC port within the forty attempts is reported as failed but keeps
  running: the future that would kill it is dropped without being awaited. Its process number stays in
  the PID file for the clean-up at exit.
\<close>

theorem start_daemon_timeout_leaks:
  assumes "list_all (\<lambda>i. \<not> ready i) [0..<40]" and "fs_healthy (ho_fs h)"
  shows "\<exists>e h'. start_daemon (Inr pid) ready dir port h = (Inl e, h') \<and> pid \<in> ho_alive h' \<and>
    fs_data (ho_fs h') (pid_file dir) = Some (as_bytes (dec (unat pid)))"
proof -
  have "\<not> list_ex ready [0..<40]" using assms(1) by (auto simp: list_all_iff list_ex_iff simp del: upt_Suc)
  then show ?thesis unfolding start_daemon_def Let_def by (simp add: fs_write_healthy [OF assms(2)] del: upt_Suc)
qed

section \<open>Starting, announcing and stopping the daemon\<close>

record run_env =
  re_bind :: "u16 \<Rightarrow> string option"
  re_pid :: u32
  re_version :: string
  re_pretty :: "jvalue \<Rightarrow> string"
  re_parse :: "string \<Rightarrow> jvalue option"
  re_order :: "(string, string) hmap \<Rightarrow> (string \<times> string) list"

definition state_file :: "path \<Rightarrow> path" where "state_file data_dir = path_join data_dir ''daemon_state.json''"
definition signal_file :: "path \<Rightarrow> path" where "signal_file data_dir = path_join data_dir ''daemon_ready.signal''"

text \<open>\<open>new\<close>: the stale files go first. \<open>default_rpc_port()\<close> parses as a \<open>u16\<close>.\<close>

definition daemon_new :: "run_env \<Rightarrow> app_config option \<Rightarrow> path \<Rightarrow> path \<Rightarrow> log_state \<Rightarrow> 'c et_world \<Rightarrow> (string + 'c daemon) \<times> 'c et_world" where
  "daemon_new R global config_dir data_dir lg w =
    (let f = fs_remove (state_file data_dir) (fs_remove (signal_file data_dir) (ew_fs w));
         w1 = w\<lparr>ew_fs := f\<rparr>;
         easytier_dir = path_join config_dir ''easytier''
     in case fs_create_dir_all easytier_dir f of
          Inl e \<Rightarrow> (Inl (utf8_text [229, 136, 155, 229, 187, 186] @ '' EasyTier '' @ utf8_text [233, 133, 141, 231, 189, 174, 231, 155, 174, 229, 189, 149, 229, 164, 177, 232, 180, 165] @ '': '' @ e), w1)
        | Inr _ \<Rightarrow>
           (Inr \<lparr>dm_status = \<lparr>ds_running = True, ds_pid = re_pid R, ds_connected_spaces = [], ds_version = re_version R,
                     ds_rpc_port = default_rpc_port global\<rparr>,
                   dm_manager = \<lparr>em_config_dir = easytier_dir\<rparr>, dm_world = w1, dm_log = log_clear lg, dm_shutdown = False\<rparr>, w1))"

definition state_doc :: "u32 \<Rightarrow> u16 \<Rightarrow> jvalue" where
  "state_doc pid port = JObj [(''pid'', jnat (unat pid)), (''rpc_port'', jnat (unat port))]"

text \<open>
  The part of \<open>run_inner\<close> before the main loop that the GUI sees: the port goes into the status and the
  configuration when it has changed, then the state file and last the signal file.
\<close>

definition daemon_announce ::
  "run_env \<Rightarrow> path \<Rightarrow> u16 \<Rightarrow> u16 \<Rightarrow> app_config option \<Rightarrow> 'c daemon \<Rightarrow> app_config option \<times> 'c daemon" where
  "daemon_announce R data_dir rpc_port bound global d =
    (let (global1, d1) =
       (if bound = rpc_port then (global, d)
        else let d' = d\<lparr>dm_status := (dm_status d)\<lparr>ds_rpc_port := unat bound\<rparr>\<rparr>
             in case global of
                  None \<Rightarrow> (None, d')
                | Some cfg \<Rightarrow>
                   (case ac_set (re_order R) KEY_DAEMON_IPC_PORT (dec (unat bound)) cfg (ew_fs (dm_world d')) of
                      (_, cfg1, f) \<Rightarrow> (Some cfg1, d'\<lparr>dm_world := (dm_world d')\<lparr>ew_fs := f\<rparr>\<rparr>)));
         f0 = ew_fs (dm_world d1);
         text = re_pretty R (state_doc (re_pid R) bound);
         f1 = snd (fs_write (state_file data_dir) (as_bytes text) (fs_remove (state_file data_dir) f0));
         f2 = snd (fs_write (signal_file data_dir) (as_bytes (dec (unat (re_pid R)))) f1)
     in (global1, d1\<lparr>dm_world := (dm_world d1)\<lparr>ew_fs := f2\<rparr>\<rparr>))"

text \<open>\<open>path.extension()\<close> of a directory entry: what follows the last dot, unless the name starts with it.\<close>

definition extension :: "string \<Rightarrow> string option" where
  "extension name =
    (let ext = rev (takeWhile (\<lambda>c. c \<noteq> CHR ''.'') (rev name))
     in if CHR ''.'' \<in> set name \<and> name \<noteq> CHR ''.'' # ext \<and> name \<noteq> ''..'' then Some ext else None)"

text \<open>The left-over \<open>.toml\<close> files of an earlier session are removed before the core starts.\<close>

definition clear_old_tomls :: "et_env \<Rightarrow> et_manager \<Rightarrow> fs \<Rightarrow> fs" where
  "clear_old_tomls E M f =
    fold (\<lambda>n f. if extension n = Some ''toml'' then fs_remove (em_config_dir M @ [n]) f else f)
      (ee_readdir E f (em_config_dir M)) f"

definition stop_all :: "et_env \<Rightarrow> 'c core_rpc \<Rightarrow> 'c daemon \<Rightarrow> 'c daemon" where
  "stop_all E R d =
    d\<lparr>dm_world := fold (\<lambda>u w. snd (stop_network E R (dm_manager d) u w)) (list_running E (dm_manager d) (ew_fs (dm_world d))) (dm_world d),
      dm_status := (dm_status d)\<lparr>ds_connected_spaces := [], ds_running := False\<rparr>\<rparr>"

text \<open>\<open>stop_easytier\<close>: the handle is stopped, or without one the clean-up by PID file runs.\<close>

definition stop_easytier ::
  "os \<Rightarrow> app_config option \<Rightarrow> string option \<Rightarrow> string option \<Rightarrow> et_process option \<Rightarrow> path \<Rightarrow> host \<Rightarrow> host" where
  "stop_easytier S global kill_fault wait_fault handle config_dir h =
    (case handle of
       Some p \<Rightarrow> snd (snd (process_stop kill_fault wait_fault p h))
     | None \<Rightarrow> cleanup_easytier_daemon S global config_dir h)"

text \<open>The shutdown branch of the main loop, on the files that daemon and host share.\<close>

definition daemon_shutdown ::
  "et_env \<Rightarrow> 'c core_rpc \<Rightarrow> (path \<Rightarrow> host \<Rightarrow> host) \<Rightarrow> path \<Rightarrow> 'c daemon \<Rightarrow> host \<Rightarrow> 'c daemon \<times> host" where
  "daemon_shutdown E R stop_core data_dir d h =
    (let d1 = stop_all E R d;
         h1 = stop_core (em_config_dir (dm_manager d)) (h\<lparr>ho_fs := ew_fs (dm_world d1)\<rparr>);
         f = fs_remove (signal_file data_dir) (fs_remove (state_file data_dir) (ho_fs h1))
     in (d1\<lparr>dm_world := (dm_world d1)\<lparr>ew_fs := f\<rparr>\<rparr>, h1\<lparr>ho_fs := f\<rparr>))"

section \<open>The GUI finds the port\<close>

text \<open>\<open>from_data_dir\<close>: the state file, else the configuration; \<open>v as u16\<close> keeps the low bits.\<close>

definition client_port :: "run_env \<Rightarrow> app_config option \<Rightarrow> path \<Rightarrow> fs \<Rightarrow> nat" where
  "client_port R global data_dir f =
    (case Option.bind (fs_read_to_string f (state_file data_dir)) (re_parse R) of
       Some json \<Rightarrow> (case get_u64 json ''rpc_port'' of Some v \<Rightarrow> unat (ucast v :: u16) | None \<Rightarrow> default_rpc_port global)
     | None \<Rightarrow> default_rpc_port global)"

section \<open>Ports: properties\<close>

lemma port_range_plain: "unat p + 10 < 2 ^ 16 \<Longrightarrow> port_range p = map word_of_nat [unat p..<unat p + 10]"
  by (simp add: port_range_def unat_word_ariths(1))

lemma port_range_wrapped: "2 ^ 16 \<le> unat p + 10 \<Longrightarrow> port_range p = []"
proof -
  assume "2 ^ 16 \<le> unat p + 10"
  moreover have "unat p < 2 ^ 16" using unsigned_less [of p, where ?'a = nat] by simp
  ultimately have "unat (p + 10) = unat p + 10 - 2 ^ 16" by (simp add: unat_word_ariths(1) mod_if)
  then show ?thesis using \<open>unat p < 2 ^ 16\<close> by (simp add: port_range_def)
qed

text \<open>
  C40: The daemon takes the first free one of ten ports, and gives up exactly when all ten are taken, as
  long as the configured port is at most 65525. Above that the end of the range wraps around and the
  range is empty: then the daemon never starts, even if every port is free.
\<close>

theorem bind_port_spec:
  "if unat p \<le> 65525
   then (\<forall>q. bind_port bind p = Inr q \<longleftrightarrow>
           (\<exists>i < 10. q = p + word_of_nat i \<and> bind q = None \<and> (\<forall>j < i. bind (p + word_of_nat j) \<noteq> None))) \<and>
        (isl (bind_port bind p) \<longleftrightarrow> (\<forall>i < 10. bind (p + word_of_nat i) \<noteq> None))
   else isl (bind_port bind p)"
proof (cases "unat p \<le> 65525")
  case True
  let ?f = "\<lambda>q. bind q = None"
  have r: "port_range p = map (\<lambda>i. p + word_of_nat i) [0..<10]"
    using port_range_plain [of p] True
    by (intro nth_equalityI) (simp_all del: upt_Suc)
  have some: "find ?f (port_range p) = Some q \<longleftrightarrow>
      (\<exists>i < 10. q = p + word_of_nat i \<and> bind q = None \<and> (\<forall>j < i. bind (p + word_of_nat j) \<noteq> None))" for q
    unfolding r find_Some_iff by (auto simp del: upt_Suc)
  have none: "find ?f (port_range p) = None \<longleftrightarrow> (\<forall>i < 10. bind (p + word_of_nat i) \<noteq> None)"
    unfolding r find_None_iff by (auto simp del: upt_Suc)
  have "bind_port bind p = Inr q \<longleftrightarrow> find ?f (port_range p) = Some q" "isl (bind_port bind p) \<longleftrightarrow> find ?f (port_range p) = None" for q
    by (auto simp: bind_port_def split: option.splits)
  then show ?thesis using some none True by auto
next
  case False
  then show ?thesis using port_range_wrapped [of p] by (simp add: bind_port_def)
qed

theorem bind_port_spec_witness:
  "bind_port (\<lambda>p. if p = 15889 then Some ''in use'' else None) 15889 = Inr 15890 \<and> isl (bind_port (\<lambda>_. None) 65530)"
proof -
  have "\<exists>i < 10. (15890 :: u16) = 15889 + word_of_nat i \<and> (\<forall>j < i. (15889 :: u16) + word_of_nat j = 15889)"
    by (rule exI [of _ 1]) simp
  then show ?thesis
    using bind_port_spec [of 15889 "\<lambda>p. if p = 15889 then Some ''in use'' else None"] bind_port_spec [of 65530 "\<lambda>_. None"]
    by auto
qed

section \<open>Announcing the port\<close>

definition json_text_ok :: "run_env \<Rightarrow> bool" where
  "json_text_ok R \<longleftrightarrow>
    (\<forall>pid port. is_utf8 (re_pretty R (state_doc pid port)) \<and> re_parse R (re_pretty R (state_doc pid port)) = Some (state_doc pid port))"

lemma port_as_u64: "ucast (word_of_nat (unat p) :: u64) = (p :: u16)"
proof -
  have "(word_of_nat (unat p) :: u64) = ucast p" by simp
  moreover have "ucast (ucast p :: u64) = p" by transfer simp
  ultimately show ?thesis by simp
qed

lemma daemon_files:
  "state_file dir = dir @ [''daemon_state.json'']" "signal_file dir = dir @ [''daemon_ready.signal'']"
  by (simp_all add: state_file_def signal_file_def path_join_plain plain_name_def)

lemma ac_set_healthy:
  assumes "ac_set ord k v cfg f = (r, cfg1, f1)" and "fs_healthy f"
  shows "fs_healthy f1"
  using assms by (auto simp: ac_set_def ac_save_def fs_write_healthy fs_healthy_def Let_def split: prod.splits sum.splits option.splits)

text \<open>
  The GUI finds the port the daemon has bound, also when it is not the configured one: after the
  announcement on a working file system a client that reads the state file uses exactly that port, and
  the status reports it.
\<close>

theorem announced_port_found:
  assumes "json_text_ok R" and "fs_healthy (ew_fs (dm_world d))"
    and "daemon_announce R data_dir rpc_port bound global d = (global', d')"
  shows "client_port R any_config data_dir (ew_fs (dm_world d')) = unat bound \<and>
    (bound \<noteq> rpc_port \<longrightarrow> ds_rpc_port (dm_status d') = unat bound)"
proof -
  let ?doc = "state_doc (re_pid R) bound"
  obtain g d1 where s: "(if bound = rpc_port then (global, d)
        else let d' = d\<lparr>dm_status := (dm_status d)\<lparr>ds_rpc_port := unat bound\<rparr>\<rparr>
             in case global of
                  None \<Rightarrow> (None, d')
                | Some cfg \<Rightarrow>
                   (case ac_set (re_order R) KEY_DAEMON_IPC_PORT (dec (unat bound)) cfg (ew_fs (dm_world d')) of
                      (_, cfg1, f) \<Rightarrow> (Some cfg1, d'\<lparr>dm_world := (dm_world d')\<lparr>ew_fs := f\<rparr>\<rparr>))) = (g, d1)" by fastforce
  have h: "fs_healthy (ew_fs (dm_world d1))" "bound \<noteq> rpc_port \<Longrightarrow> ds_rpc_port (dm_status d1) = unat bound"
    using s assms(2) by (auto simp: Let_def split: if_splits option.splits prod.splits dest: ac_set_healthy)
  then have hr: "fs_healthy (fs_remove p (ew_fs (dm_world d1)))" for p by (simp add: fs_remove_def fs_healthy_def)
  have d': "d' = d1\<lparr>dm_world := (dm_world d1)\<lparr>ew_fs := snd (fs_write (signal_file data_dir) (as_bytes (dec (unat (re_pid R))))
      (snd (fs_write (state_file data_dir) (as_bytes (re_pretty R ?doc)) (fs_remove (state_file data_dir) (ew_fs (dm_world d1))))))\<rparr>\<rparr>"
    using assms(3) unfolding daemon_announce_def s by (simp add: Let_def)
  have "fs_data (ew_fs (dm_world d')) (state_file data_dir) = Some (as_bytes (re_pretty R ?doc))"
    "fs_rfault (ew_fs (dm_world d')) (state_file data_dir) = None"
    unfolding d' using hr [of "state_file data_dir"] by (simp_all add: fs_write_def daemon_files fs_healthy_def)
  moreover have "is_utf8 (re_pretty R ?doc)" "re_parse R (re_pretty R ?doc) = Some ?doc"
    using assms(1) by (simp_all add: json_text_ok_def)
  ultimately have "client_port R any_config data_dir (ew_fs (dm_world d')) = unat (ucast (word_of_nat (unat bound) :: u64) :: u16)"
    by (simp add: client_port_def fs_read_to_string_def fs_read_def json_get_defs jnat_def state_doc_def)
  moreover have "ucast (word_of_nat (unat bound) :: u64) = bound" by (rule port_as_u64)
  ultimately show ?thesis using h(2) d' by simp
qed


section \<open>Connected spaces\<close>

text \<open>The list the status reports never names a space twice.\<close>

lemma push_space_distinct: "distinct (ds_connected_spaces (dm_status d)) \<Longrightarrow> distinct (ds_connected_spaces (dm_status (push_space s d)))"
  by (simp add: push_space_def Let_def)

lemma push_space_member: "set (ds_connected_spaces (dm_status (push_space s d))) = insert s (set (ds_connected_spaces (dm_status d)))"
  by (auto simp: push_space_def Let_def)

lemma push_space_frame [simp]: "dm_world (push_space s d) = dm_world d" "dm_manager (push_space s d) = dm_manager d"
  by (simp_all add: push_space_def Let_def)


text \<open>One connect on a working system, as the daemon sees it.\<close>

lemma connect_effect:
  assumes "core_ok (de_et E) (dm_manager d) (de_rpc E) running" and "uuid_ok (ee_uuid (de_et E))" and "lists_dirs (ee_readdir (de_et E))"
    and "fs_healthy (ew_fs (dm_world d))" and "\<And>fs. ee_binary (de_et E) fs = Inr bin"
    and "de_config E j = Inr c" and "to_easytier_config (ee_net (de_et E)) c = Inr t" and "js_ser (ee_json (de_et E)) c = Inr b"
  obtains d' where "handle_connect E (ul_string (ee_uuid (de_et E)) u) j d =
        (IpcOk (Some (JObj [(''instance_id'', JStr (ul_string (ee_uuid (de_et E)) u))])), d')"
    and "running (ew_core (dm_world d')) = [u \<mapsto> build_proto_config (de_et E) c u]"
    and "fs_healthy (ew_fs (dm_world d'))" and "\<not> is_running (de_et E) (dm_manager d) u (ew_fs (dm_world d'))"
    and "dm_manager d' = dm_manager d"
    and "set (ds_connected_spaces (dm_status d')) = insert (ul_string (ee_uuid (de_et E)) u) (set (ds_connected_spaces (dm_status d)))"
proof -
  obtain w where w: "start_network (de_et E) (de_rpc E) (dm_manager d) c u None (dm_world d) = (Inr u, w)"
      "running (ew_core w) = [u \<mapsto> build_proto_config (de_et E) c u]" "fs_healthy (ew_fs w)"
      "\<not> is_running (de_et E) (dm_manager d) u (ew_fs w)"
    using start_network_effect [OF assms(1-5,7,8)] by blast
  then show thesis
    using assms(2,6) by (intro that [of "push_space (ul_string (ee_uuid (de_et E)) u) (d\<lparr>dm_world := w\<rparr>)"])
      (auto simp: handle_connect_def push_space_member)
qed

lemma stop_all_frame:
  assumes "core_ok E M R running" and "uuid_ok (ee_uuid E)" and "fs_healthy (ew_fs w)" and "v \<notin> set us"
  shows "running (ew_core (fold (\<lambda>u w. snd (stop_network E R M u w)) us w)) v = running (ew_core w) v"
  using assms(3,4)
proof (induction us arbitrary: w)
  case (Cons u us)
  obtain r w' where "stop_network E R M u w = (Inr r, w')" "running (ew_core w') = (running (ew_core w))(u := None)" "fs_healthy (ew_fs w')"
    using stop_network_effect [OF assms(1,2) Cons.prems(1)] by blast
  then show ?case using Cons by simp
qed simp


text \<open>
  Connecting a second space drops the first without saying so, and the shutdown then stops neither. On a
  working system both connects succeed; the core runs the second space only, but the daemon still reports
  the first as connected. When the daemon is told to stop, \<open>stop_all\<close> goes by the \<open>.toml\<close> files, finds
  none for the running space, and leaves it running in the core, while the status says nothing is connected.
\<close>

theorem connect_two_spaces:
  assumes "core_ok (de_et E) (dm_manager d) (de_rpc E) running" and "uuid_ok (ee_uuid (de_et E))" and "lists_dirs (ee_readdir (de_et E))"
    and "fs_healthy (ew_fs (dm_world d))" and "\<And>fs. ee_binary (de_et E) fs = Inr bin"
    and "de_config E j = Inr c" and "to_easytier_config (ee_net (de_et E)) c = Inr t" and "js_ser (ee_json (de_et E)) c = Inr b"
    and "\<And>s fs. s \<in> set (list_saved (de_et E) (dm_manager d) fs) \<Longrightarrow> ul_parse (ee_uuid (de_et E)) s = Inr v \<Longrightarrow> s = ul_string (ee_uuid (de_et E)) v"
    and "u \<noteq> v"
    and "handle_request E (ConnectSpace (ul_string (ee_uuid (de_et E)) u) j) d = (r1, d1)"
    and "handle_request E (ConnectSpace (ul_string (ee_uuid (de_et E)) v) j) d1 = (r2, d2)"
  shows "dom (running (ew_core (dm_world d1))) = {u} \<and> dom (running (ew_core (dm_world d2))) = {v} \<and>
    {ul_string (ee_uuid (de_et E)) u, ul_string (ee_uuid (de_et E)) v} \<subseteq> set (ds_connected_spaces (dm_status d2)) \<and>
    v \<in> dom (running (ew_core (dm_world (stop_all (de_et E) (de_rpc E) d2)))) \<and>
    ds_connected_spaces (dm_status (stop_all (de_et E) (de_rpc E) d2)) = []"
proof -
  obtain d1' where 1: "handle_connect E (ul_string (ee_uuid (de_et E)) u) j d =
        (IpcOk (Some (JObj [(''instance_id'', JStr (ul_string (ee_uuid (de_et E)) u))])), d1')"
      "running (ew_core (dm_world d1')) = [u \<mapsto> build_proto_config (de_et E) c u]" "fs_healthy (ew_fs (dm_world d1'))"
      "dm_manager d1' = dm_manager d"
      "set (ds_connected_spaces (dm_status d1')) = insert (ul_string (ee_uuid (de_et E)) u) (set (ds_connected_spaces (dm_status d)))"
    by (rule connect_effect [OF assms(1-8), of u]) blast
  have d1: "d1' = d1" using assms(11) 1(1) by simp
  note core = assms(1) [folded 1(4)]
  obtain d2' where 2: "handle_connect E (ul_string (ee_uuid (de_et E)) v) j d1' =
        (IpcOk (Some (JObj [(''instance_id'', JStr (ul_string (ee_uuid (de_et E)) v))])), d2')"
      "running (ew_core (dm_world d2')) = [v \<mapsto> build_proto_config (de_et E) c v]" "fs_healthy (ew_fs (dm_world d2'))"
      "\<not> is_running (de_et E) (dm_manager d1') v (ew_fs (dm_world d2'))" "dm_manager d2' = dm_manager d1'"
      "set (ds_connected_spaces (dm_status d2')) = insert (ul_string (ee_uuid (de_et E)) v) (set (ds_connected_spaces (dm_status d1')))"
    by (rule connect_effect [OF core assms(2,3) 1(3) assms(5-8), of v]) blast
  have d2: "d2' = d2" using assms(12) 2(1) d1 by simp
  have "v \<notin> set (list_running (de_et E) (dm_manager d2) (ew_fs (dm_world d2)))"
  proof
    assume "v \<in> set (list_running (de_et E) (dm_manager d2) (ew_fs (dm_world d2)))"
    then obtain s where "s \<in> set (list_saved (de_et E) (dm_manager d2) (ew_fs (dm_world d2)))" "ul_parse (ee_uuid (de_et E)) s = Inr v"
      by (auto simp: list_running_def List.map_filter_def split: sum.splits)
    moreover from this have "s = ul_string (ee_uuid (de_et E)) v" using assms(9) 1(4) 2(5) d2 by simp
    ultimately show False using saved_running [OF assms(2,3)] 2(4,5) d2 by metis
  qed
  moreover have "core_ok (de_et E) (dm_manager d2) (de_rpc E) running" using core 2(5) d2 by simp
  ultimately have "running (ew_core (dm_world (stop_all (de_et E) (de_rpc E) d2))) v = running (ew_core (dm_world d2)) v"
    using stop_all_frame [OF _ assms(2)] 2(3) d2 by (simp add: stop_all_def)
  then show ?thesis using 1(2,5) 2(2,6) d1 d2 by (auto simp: stop_all_def)
qed

section \<open>Concrete runs\<close>

definition run_toy :: run_env where
  "run_toy =
    \<lparr>re_bind = \<lambda>_. None, re_pid = 7, re_version = ''1'',
     re_pretty = \<lambda>v. case v of JObj [(_, JNum (PosInt a)), (_, JNum (PosInt b))] \<Rightarrow> of_bytes (put_nats [unat a, unat b]) | _ \<Rightarrow> [],
     re_parse = \<lambda>s. case get_nats 0 (as_bytes s) of [a, b] \<Rightarrow> Some (JObj [(''pid'', jnat a), (''rpc_port'', jnat b)]) | _ \<Rightarrow> None,
     re_order = \<lambda>m. m\<rparr>"

lemma run_toy_ok: "json_text_ok run_toy"
proof -
  have small: "unat (word_of_nat (unat p) :: u64) = unat p" "unat (word_of_nat (unat q) :: u64) = unat q" for p :: u16 and q :: u32
    using unsigned_less [of p, where ?'a = nat] unsigned_less [of q, where ?'a = nat] by (simp_all only: unat_of_nat) simp_all
  show ?thesis
    using get_put_nats [of _ "[]"] put_nats_ascii(1)
    by (simp add: json_text_ok_def run_toy_def state_doc_def jnat_def small)
qed

definition log_toy :: log_state where
  "log_toy = \<lparr>ls_global = None, ls_enabled = True, ls_trace = None, ls_fs = fs_empty, ls_out = [], ls_logger = [], ls_sent = []\<rparr>"

definition daemon_toy :: "(uuid \<times> proto_config) list daemon" where
  "daemon_toy =
    \<lparr>dm_status = \<lparr>ds_running = True, ds_pid = 7, ds_connected_spaces = [], ds_version = ''1'', ds_rpc_port = 15889\<rparr>,
     dm_manager = manager_toy, dm_world = world_toy, dm_log = log_toy, dm_shutdown = False\<rparr>"

definition f64_toy :: "nat f64_ops" where
  "f64_toy = \<lparr>f_zero = 0, f_nat = \<lambda>n. n, f_int = nat, f_add = (+), f_div = (div), f_min = min\<rparr>"

definition daemon_env_toy :: "((uuid \<times> proto_config) list, nat) daemon_env" where
  "daemon_env_toy =
    \<lparr>de_et = env_toy, de_rpc = core_toy, de_collect = \<lambda>_ _ _. Inr None, de_f64 = f64_toy, de_f64_json = jnat, de_nat_name = \<lambda>_. [],
     de_config = \<lambda>_. Inr ((network_config_default ''id'')\<lparr>nc_network_name := ''home''\<rparr>), de_fresh = ''id'', de_lower = \<lambda>s. s,
     de_install = \<lambda>_ _ w. (Inr (), w), de_version = \<lambda>_. None, de_exec = \<lambda>_. Inl [], de_show_path = \<lambda>_. [],
     de_log_json = \<lparr>js_ser = \<lambda>_. Inl [], js_de = \<lambda>_. Inl []\<rparr>, de_log_value = \<lambda>_. JNull, de_now = []\<rparr>"

lemma daemon_env_toy_fields: "de_et daemon_env_toy = env_toy" "de_rpc daemon_env_toy = core_toy"
  "de_config daemon_env_toy j = Inr ((network_config_default ''id'')\<lparr>nc_network_name := ''home''\<rparr>)"
  by (simp_all add: daemon_env_toy_def)

lemma daemon_toy_fields: "dm_manager daemon_toy = manager_toy" "fs_healthy (ew_fs (dm_world daemon_toy))"
  "ds_connected_spaces (dm_status daemon_toy) = []"
  by (simp_all add: daemon_toy_def world_toy_def)

lemma two_is_two: "ul_string (ee_uuid env_toy) 2 = ''2''" "ul_string (ee_uuid env_toy) 1 = ''1''"
proof -
  have "dec 2 = ''2''" "dec 1 = ''1''" by code_simp+
  then show "ul_string (ee_uuid env_toy) 2 = ''2''" "ul_string (ee_uuid env_toy) 1 = ''1''"
    by (simp_all add: env_toy_def uuid_toy_def)
qed

lemma toy_saved: "s \<in> set (list_saved env_toy M fs) \<Longrightarrow> ul_parse (ee_uuid env_toy) s = Inr 2 \<Longrightarrow> s = ul_string (ee_uuid env_toy) 2"
proof -
  assume a: "s \<in> set (list_saved env_toy M fs)" "ul_parse (ee_uuid env_toy) s = Inr 2"
  from a(1) have "s = ''1'' \<or> s = ''2''" by (auto simp: list_saved_def env_toy_def split: if_splits)
  moreover have "ul_parse (ee_uuid env_toy) ''1'' = Inr 1"
    using uuid_parse_string [OF env_toy_ok(1), of 1] by (simp add: two_is_two)
  ultimately show ?thesis using a(2) two_is_two by auto
qed

theorem announced_port_found_witness:
  "client_port run_toy None [''data''] (ew_fs (dm_world (snd (daemon_announce run_toy [''data''] 15889 15890 None daemon_toy)))) = 15890"
proof -
  obtain g d' where a: "daemon_announce run_toy [''data''] 15889 15890 None daemon_toy = (g, d')" by fastforce
  then show ?thesis using announced_port_found [OF run_toy_ok daemon_toy_fields(2) a, of None] by simp
qed


theorem connect_two_spaces_witness:
  "\<exists>r1 d1 r2 d2. handle_request daemon_env_toy (ConnectSpace ''1'' JNull) daemon_toy = (r1, d1) \<and>
     handle_request daemon_env_toy (ConnectSpace ''2'' JNull) d1 = (r2, d2) \<and>
     dom (map_of (ew_core (dm_world d2))) = {2} \<and> {''1'', ''2''} \<subseteq> set (ds_connected_spaces (dm_status d2)) \<and>
     2 \<in> dom (map_of (ew_core (dm_world (stop_all env_toy core_toy d2))))"
proof -
  obtain t where t: "to_easytier_config (ee_net env_toy) ((network_config_default ''id'')\<lparr>nc_network_name := ''home''\<rparr>) = Inr t"
    using default_translates by blast
  obtain r1 d1 where 1: "handle_request daemon_env_toy (ConnectSpace ''1'' JNull) daemon_toy = (r1, d1)" by fastforce
  obtain r2 d2 where 2: "handle_request daemon_env_toy (ConnectSpace ''2'' JNull) d1 = (r2, d2)" by fastforce
  show ?thesis
    using connect_two_spaces [of daemon_env_toy daemon_toy map_of "[''bin'']" JNull _ t _ 2 1 r1 d1 r2 d2, unfolded daemon_env_toy_fields,
        OF core_toy_ok env_toy_ok(1,2) daemon_toy_fields(2) env_toy_ok(3) refl t env_toy_json(1) toy_saved, unfolded two_is_two]
      1 2 by auto
qed

theorem start_daemon_timeout_leaks_witness:
  "\<exists>e h'. start_daemon (Inr 7) (\<lambda>i. 50 < i) [''cfg''] 15888 host_toy = (Inl e, h') \<and> 7 \<in> ho_alive h'"
proof -
  have "fs_healthy (ho_fs host_toy)" by (simp add: host_toy_def fs_healthy_def fs_empty_def)
  moreover have "list_all (\<lambda>i. \<not> (50 :: nat) < i) [0..<40]" by (simp add: list_all_iff)
  ultimately show ?thesis using start_daemon_timeout_leaks [of "\<lambda>i. 50 < i" host_toy 7 "[''cfg'']" 15888] by blast
qed

end
