(* ===== verification/Database.thy ===== *)
theory Database
  imports Rust_Str "HOL-Library.Char_ord" "HOL-Library.List_Lexorder" "HOL-Library.Product_Lexorder" "HOL-Library.Multiset"
begin

text \<open>
  The local database, \<open>src-tauri/src/db/mod.rs\<close>, \<open>db/models.rs\<close> and \<open>db/migrations.rs\<close>: one list of
  rows per table, in the order of insertion. The statements have SQLite's documented meaning:
  primary keys and \<open>CHECK\<close> constraints are enforced, foreign keys when the connection enforces them
  (\<open>db_fk\<close>; the bundled library does by default), \<open>OR REPLACE\<close> and \<open>OR IGNORE\<close> act on key conflicts
  only, and rows that compare equal under \<open>ORDER BY\<close> come in any order, the one that the scan \<open>ord\<close>
  gives. Each statement may also fail for reasons of the engine: \<open>db_faults\<close> lists what happens to
  the next ones. Columns no query reads (\<open>updated_at\<close> of users and cookies, \<open>is_favorite\<close>) are left out.
\<close>

section \<open>Rows\<close>

record user_row =
  us_id :: string
  us_name :: string
  us_config_json :: "string option"

record space_row =
  sp_id :: string
  sp_name :: string
  sp_owner_id :: "string option"
  sp_network_name :: string
  sp_network_secret :: string
  sp_description :: "string option"
  sp_created_at :: string
  sp_last_connected_at :: "string option"
  sp_is_auto_connect :: bool
  sp_config_json :: "string option"

record message_row =
  mg_id :: string
  mg_space_id :: string
  mg_sender_id :: string
  mg_sender_name :: string
  mg_msg_type :: string
  mg_content :: string
  mg_timestamp :: string
  mg_status :: string

record member_row =
  me_id :: string
  me_space_id :: string
  me_nickname :: string
  me_virtual_ip :: "string option"
  me_is_online :: bool
  me_is_owner :: bool
  me_joined_at :: string
  me_last_seen_at :: "string option"

record app_row =
  ap_id :: string
  ap_space_id :: string
  ap_name :: string
  ap_category :: "string option"
  ap_icon :: "string option"
  ap_protocol :: "string option"
  ap_hostname :: "string option"
  ap_port :: "string option"
  ap_pathname :: "string option"
  ap_sort_order :: int
  ap_created_by :: string
  ap_created_at :: string

record file_row =
  fi_id :: string
  fi_space_id :: string
  fi_sender_id :: string
  fi_file_name :: string
  fi_file_size :: int
  fi_file_hash :: "string option"
  fi_mime_type :: "string option"
  fi_is_compressed :: bool
  fi_is_password_protected :: bool
  fi_storage_path :: "string option"
  fi_created_at :: string

record acl_rule_row =
  al_id :: string
  al_space_id :: string
  al_action :: string
  al_source :: string
  al_dest :: string
  al_ports :: string
  al_description :: string
  al_created_at :: string
  al_updated_at :: string

record port_forward_rule_row =
  pr_id :: string
  pr_space_id :: string
  pr_name :: string
  pr_protocol :: string
  pr_source_ip :: string
  pr_source_port :: int
  pr_target_ip :: string
  pr_target_port :: int
  pr_description :: string
  pr_created_at :: string
  pr_updated_at :: string

record proxy_cookie_row =
  ck_host_key :: string
  ck_name :: string
  ck_value :: string
  ck_path :: string
  ck_domain :: "string option"
  ck_expires_at :: "int option"
  ck_http_only :: bool
  ck_secure :: bool
  ck_same_site :: "string option"

record database =
  db_users :: "user_row list"
  db_spaces :: "space_row list"
  db_members :: "member_row list"
  db_messages :: "message_row list"
  db_files :: "file_row list"
  db_settings :: "(string \<times> string) list"
  db_cookies :: "proxy_cookie_row list"
  db_apps :: "app_row list"
  db_acl :: "acl_rule_row list"
  db_forwards :: "port_forward_rule_row list"
  db_fk :: bool
  db_faults :: "string option list"

section \<open>Statements\<close>

type_synonym 'a db_result = "(string + 'a) \<times> database"

text \<open>\<open>prepare\<close>, \<open>execute\<close> or \<open>query\<close> with \<open>map_err(|e| format!("ctx{}", e))\<close>.\<close>

definition stmt :: "string \<Rightarrow> (database \<Rightarrow> 'a db_result) \<Rightarrow> database \<Rightarrow> 'a db_result" where
  "stmt ctx body db =
    (case db_faults db of
       Some e # fs \<Rightarrow> (Inl (ctx @ e), db\<lparr>db_faults := fs\<rparr>)
     | None # fs \<Rightarrow>
        (case body (db\<lparr>db_faults := fs\<rparr>) of (Inl e, db') \<Rightarrow> (Inl (ctx @ e), db') | (Inr x, db') \<Rightarrow> (Inr x, db'))
     | [] \<Rightarrow> (case body db of (Inl e, db') \<Rightarrow> (Inl (ctx @ e), db') | (Inr x, db') \<Rightarrow> (Inr x, db')))"

definition sql_insert :: "('r \<Rightarrow> 'k) \<Rightarrow> 'r \<Rightarrow> 'r list \<Rightarrow> string + 'r list" where
  "sql_insert key r t = (if key r \<in> key ` set t then Inl ''UNIQUE constraint failed'' else Inr (t @ [r]))"

definition sql_insert_or_ignore :: "('r \<Rightarrow> 'k) \<Rightarrow> 'r \<Rightarrow> 'r list \<Rightarrow> 'r list" where
  "sql_insert_or_ignore key r t = (if key r \<in> key ` set t then t else t @ [r])"

definition sql_insert_or_replace :: "('r \<Rightarrow> 'k) \<Rightarrow> 'r \<Rightarrow> 'r list \<Rightarrow> 'r list" where
  "sql_insert_or_replace key r t = filter (\<lambda>x. key x \<noteq> key r) t @ [r]"

definition sql_update :: "('r \<Rightarrow> bool) \<Rightarrow> ('r \<Rightarrow> 'r) \<Rightarrow> 'r list \<Rightarrow> 'r list" where
  "sql_update cond upd t = map (\<lambda>r. if cond r then upd r else r) t"

definition sql_delete :: "('r \<Rightarrow> bool) \<Rightarrow> 'r list \<Rightarrow> 'r list" where
  "sql_delete cond t = filter (\<lambda>r. \<not> cond r) t"

text \<open>\<open>REFERENCES spaces(id)\<close>\<close>

definition fk_ok :: "string \<Rightarrow> database \<Rightarrow> bool" where
  "fk_ok sid db \<longleftrightarrow> (db_fk db \<longrightarrow> sid \<in> sp_id ` set (db_spaces db))"

definition db_empty :: "bool \<Rightarrow> string option list \<Rightarrow> database" where
  "db_empty fk faults =
    \<lparr>db_users = [], db_spaces = [], db_members = [], db_messages = [], db_files = [], db_settings = [], db_cookies = [],
     db_apps = [], db_acl = [], db_forwards = [], db_fk = fk, db_faults = faults\<rparr>"

text \<open>\<open>CREATE TABLE IF NOT EXISTS\<close> leaves the tables of an existing database as they are.\<close>

definition database_new :: "string option \<Rightarrow> database \<Rightarrow> string + database" where
  "database_new open_error db =
    (case open_error of
       Some e \<Rightarrow> Inl (''DB open error: '' @ e)
     | None \<Rightarrow> (case stmt ''Migration error: '' (\<lambda>db. (Inr (), db)) db of (Inl e, _) \<Rightarrow> Inl e | (Inr _, db') \<Rightarrow> Inr db'))"

text \<open>Insertion into a table with a primary key, under a \<open>CHECK\<close> and a foreign key.\<close>

definition insert_row ::
  "string \<Rightarrow> ('r \<Rightarrow> bool) \<Rightarrow> ('r \<Rightarrow> 'k) \<Rightarrow> string option \<Rightarrow> (database \<Rightarrow> 'r list) \<Rightarrow> ('r list \<Rightarrow> database \<Rightarrow> database) \<Rightarrow>
   'r \<Rightarrow> database \<Rightarrow> unit db_result" where
  "insert_row ctx check key sid get put r =
    stmt ctx (\<lambda>db.
      if \<not> check r then (Inl ''CHECK constraint failed'', db)
      else (case sql_insert key r (get db) of
              Inl e \<Rightarrow> (Inl e, db)
            | Inr t \<Rightarrow>
               (if (case sid of None \<Rightarrow> True | Some s \<Rightarrow> fk_ok s db) then (Inr (), put t db)
                else (Inl ''FOREIGN KEY constraint failed'', db))))"

definition change_rows :: "string \<Rightarrow> (database \<Rightarrow> database) \<Rightarrow> database \<Rightarrow> unit db_result" where
  "change_rows ctx f = stmt ctx (\<lambda>db. (Inr (), f db))"

text \<open>
  A query is prepared, run and read; each of the three may fail with a message of its own. \<open>select\<close> is
  \<open>query_row\<close>, \<open>select_rows\<close> is \<open>query_map\<close> and the loop that collects its rows.
\<close>

definition select :: "string \<Rightarrow> string \<Rightarrow> (database \<Rightarrow> 'a) \<Rightarrow> database \<Rightarrow> 'a db_result" where
  "select prepare_ctx query_ctx q db =
    (case stmt prepare_ctx (\<lambda>db. (Inr (), db)) db of
       (Inl e, db1) \<Rightarrow> (Inl e, db1)
     | (Inr _, db1) \<Rightarrow> stmt query_ctx (\<lambda>db. (Inr (q db), db)) db1)"

definition query_row :: "(database \<Rightarrow> 'a) \<Rightarrow> database \<Rightarrow> 'a db_result" where
  "query_row = select ''Query error: '' ''Query error: ''"

definition select_rows :: "string \<Rightarrow> string \<Rightarrow> (database \<Rightarrow> 'a) \<Rightarrow> database \<Rightarrow> 'a db_result" where
  "select_rows prepare_ctx query_ctx q db =
    (case select prepare_ctx query_ctx q db of
       (Inl e, db1) \<Rightarrow> (Inl e, db1)
     | (Inr rows, db1) \<Rightarrow> stmt ''Row error: '' (\<lambda>db. (Inr rows, db)) db1)"

definition query_rows :: "(database \<Rightarrow> 'a) \<Rightarrow> database \<Rightarrow> 'a db_result" where
  "query_rows = select_rows ''Query error: '' ''Query error: ''"

section \<open>Spaces\<close>

definition insert_space :: "space_row \<Rightarrow> database \<Rightarrow> unit db_result" where
  "insert_space s =
    insert_row ''Insert space error: '' (\<lambda>_. True) sp_id None db_spaces (\<lambda>t db. db\<lparr>db_spaces := t\<rparr>)
      (s\<lparr>sp_last_connected_at := None\<rparr>)"

text \<open>\<open>ON DELETE CASCADE\<close> removes the rows of the space when foreign keys are enforced.\<close>

definition cascade :: "string \<Rightarrow> database \<Rightarrow> database" where
  "cascade ident db =
    (if db_fk db then
       db\<lparr>db_members := sql_delete (\<lambda>r. me_space_id r = ident) (db_members db),
          db_messages := sql_delete (\<lambda>r. mg_space_id r = ident) (db_messages db),
          db_files := sql_delete (\<lambda>r. fi_space_id r = ident) (db_files db),
          db_apps := sql_delete (\<lambda>r. ap_space_id r = ident) (db_apps db),
          db_acl := sql_delete (\<lambda>r. al_space_id r = ident) (db_acl db),
          db_forwards := sql_delete (\<lambda>r. pr_space_id r = ident) (db_forwards db)\<rparr>
     else db)"

definition delete_space :: "string \<Rightarrow> database \<Rightarrow> unit db_result" where
  "delete_space ident db =
    (case change_rows ''Delete space error: ''
        (\<lambda>db. (if ident \<in> sp_id ` set (db_spaces db) then cascade ident db else db)
               \<lparr>db_spaces := sql_delete (\<lambda>r. sp_id r = ident) (db_spaces db)\<rparr>) db of
       (Inl e, db1) \<Rightarrow> (Inl e, db1)
     | (Inr _, db1) \<Rightarrow>
        change_rows ''Delete members error: ''
          (\<lambda>db. db\<lparr>db_members := sql_delete (\<lambda>r. me_space_id r = ident) (db_members db)\<rparr>) db1)"

definition list_spaces :: "(space_row list \<Rightarrow> space_row list) \<Rightarrow> database \<Rightarrow> space_row list db_result" where
  "list_spaces ord = query_rows (\<lambda>db. rev (sort_key sp_created_at (ord (db_spaces db))))"

definition get_space_config :: "string \<Rightarrow> database \<Rightarrow> string option db_result" where
  "get_space_config space_id =
    query_row (\<lambda>db. case List.find (\<lambda>r. sp_id r = space_id) (db_spaces db) of Some r \<Rightarrow> sp_config_json r | None \<Rightarrow> None)"

definition update_space_config :: "string \<Rightarrow> string \<Rightarrow> database \<Rightarrow> unit db_result" where
  "update_space_config space_id config_json =
    change_rows ''Update config error: ''
      (\<lambda>db. db\<lparr>db_spaces := sql_update (\<lambda>r. sp_id r = space_id) (\<lambda>r. r\<lparr>sp_config_json := Some config_json\<rparr>) (db_spaces db)\<rparr>)"

section \<open>Messages\<close>

definition insert_message :: "message_row \<Rightarrow> database \<Rightarrow> unit db_result" where
  "insert_message m =
    insert_row ''Insert message error: '' (\<lambda>_. True) mg_id (Some (mg_space_id m)) db_messages (\<lambda>t db. db\<lparr>db_messages := t\<rparr>) m"

definition update_message_status :: "string \<Rightarrow> string \<Rightarrow> database \<Rightarrow> unit db_result" where
  "update_message_status ident status =
    change_rows ''Update message status error: ''
      (\<lambda>db. db\<lparr>db_messages := sql_update (\<lambda>r. mg_id r = ident) (\<lambda>r. r\<lparr>mg_status := status\<rparr>) (db_messages db)\<rparr>)"

definition get_messages :: "(message_row list \<Rightarrow> message_row list) \<Rightarrow> string \<Rightarrow> u32 \<Rightarrow> database \<Rightarrow> message_row list db_result" where
  "get_messages ord space_id limit =
    query_rows (\<lambda>db. take (unat limit) (rev (sort_key mg_timestamp (ord (filter (\<lambda>r. mg_space_id r = space_id) (db_messages db))))))"

section \<open>Settings and cookies\<close>

definition get_setting :: "string \<Rightarrow> database \<Rightarrow> string option db_result" where
  "get_setting key = query_row (\<lambda>db. map_of (db_settings db) key)"

definition set_setting :: "string \<Rightarrow> string \<Rightarrow> database \<Rightarrow> unit db_result" where
  "set_setting key value =
    change_rows ''Upsert error: '' (\<lambda>db. db\<lparr>db_settings := sql_insert_or_replace fst (key, value) (db_settings db)\<rparr>)"

definition cookie_key :: "proxy_cookie_row \<Rightarrow> string \<times> string \<times> string" where
  "cookie_key r = (ck_host_key r, ck_name r, ck_path r)"

definition list_proxy_cookies :: "(proxy_cookie_row list \<Rightarrow> proxy_cookie_row list) \<Rightarrow> database \<Rightarrow> proxy_cookie_row list db_result" where
  "list_proxy_cookies ord = query_rows (\<lambda>db. ord (db_cookies db))"

definition upsert_proxy_cookie :: "proxy_cookie_row \<Rightarrow> database \<Rightarrow> unit db_result" where
  "upsert_proxy_cookie row =
    change_rows ''Upsert proxy cookie error: '' (\<lambda>db. db\<lparr>db_cookies := sql_insert_or_replace cookie_key row (db_cookies db)\<rparr>)"

definition delete_proxy_cookie :: "string \<Rightarrow> string \<Rightarrow> string \<Rightarrow> database \<Rightarrow> unit db_result" where
  "delete_proxy_cookie host_key name path =
    change_rows ''Delete proxy cookie error: ''
      (\<lambda>db. db\<lparr>db_cookies := sql_delete (\<lambda>r. ck_host_key r = host_key \<and> ck_name r = name \<and> ck_path r = path) (db_cookies db)\<rparr>)"

definition delete_proxy_cookies :: "string \<Rightarrow> database \<Rightarrow> unit db_result" where
  "delete_proxy_cookies host_key =
    change_rows ''Delete proxy cookies error: ''
      (\<lambda>db. db\<lparr>db_cookies := sql_delete (\<lambda>r. ck_host_key r = host_key) (db_cookies db)\<rparr>)"

section \<open>Users\<close>

text \<open>\<open>LIMIT 1\<close> without \<open>ORDER BY\<close> takes the first row of whatever scan the planner chooses for the query.\<close>

definition first_row :: "('r list \<Rightarrow> 'r list) \<Rightarrow> 'r list \<Rightarrow> 'r option" where
  "first_row ord t = (case ord t of [] \<Rightarrow> None | r # _ \<Rightarrow> Some r)"

definition ensure_user :: "string \<Rightarrow> string \<Rightarrow> database \<Rightarrow> unit db_result" where
  "ensure_user user_id name =
    change_rows ''Ensure user error: ''
      (\<lambda>db. db\<lparr>db_users := sql_insert_or_ignore us_id \<lparr>us_id = user_id, us_name = name, us_config_json = None\<rparr> (db_users db)\<rparr>)"

definition get_user :: "(user_row list \<Rightarrow> user_row list) \<Rightarrow> database \<Rightarrow> user_row option db_result" where
  "get_user ord = query_row (\<lambda>db. first_row ord (db_users db))"

definition get_user_id :: "(user_row list \<Rightarrow> user_row list) \<Rightarrow> database \<Rightarrow> string option db_result" where
  "get_user_id ord = query_row (\<lambda>db. map_option us_id (first_row ord (db_users db)))"

definition get_user_config :: "(user_row list \<Rightarrow> user_row list) \<Rightarrow> database \<Rightarrow> string option db_result" where
  "get_user_config ord = query_row (\<lambda>db. Option.bind (first_row ord (db_users db)) us_config_json)"

definition update_user_config :: "string \<Rightarrow> database \<Rightarrow> unit db_result" where
  "update_user_config config_json =
    change_rows ''Update user config error: ''
      (\<lambda>db. db\<lparr>db_users := sql_update (\<lambda>_. True) (\<lambda>r. r\<lparr>us_config_json := Some config_json\<rparr>) (db_users db)\<rparr>)"

section \<open>Members\<close>

text \<open>\<open>OR IGNORE\<close> does not excuse a missing space.\<close>

definition add_member :: "string \<Rightarrow> string \<Rightarrow> string \<Rightarrow> string \<Rightarrow> bool \<Rightarrow> database \<Rightarrow> unit db_result" where
  "add_member now space_id member_id nickname is_owner =
    stmt ''Add member error: '' (\<lambda>db.
      let row = \<lparr>me_id = member_id, me_space_id = space_id, me_nickname = nickname, me_virtual_ip = None, me_is_online = False,
                 me_is_owner = is_owner, me_joined_at = now, me_last_seen_at = None\<rparr>
      in if member_id \<in> me_id ` set (db_members db) then (Inr (), db)
         else if fk_ok space_id db then (Inr (), db\<lparr>db_members := sql_insert_or_ignore me_id row (db_members db)\<rparr>)
         else (Inl ''FOREIGN KEY constraint failed'', db))"

definition list_members :: "(member_row list \<Rightarrow> member_row list) \<Rightarrow> string \<Rightarrow> database \<Rightarrow> member_row list db_result" where
  "list_members ord space_id =
    query_rows (\<lambda>db. sort_key (\<lambda>r. (\<not> me_is_owner r, me_joined_at r)) (ord (filter (\<lambda>r. me_space_id r = space_id) (db_members db))))"

section \<open>Applications\<close>

definition insert_app :: "app_row \<Rightarrow> database \<Rightarrow> unit db_result" where
  "insert_app a =
    insert_row ''Insert app error: '' (\<lambda>_. True) ap_id (Some (ap_space_id a)) db_apps (\<lambda>t db. db\<lparr>db_apps := t\<rparr>) a"

definition update_app :: "app_row \<Rightarrow> database \<Rightarrow> unit db_result" where
  "update_app a =
    change_rows ''Update app error: ''
      (\<lambda>db. db\<lparr>db_apps := sql_update (\<lambda>r. ap_id r = ap_id a)
        (\<lambda>r. r\<lparr>ap_name := ap_name a, ap_category := ap_category a, ap_icon := ap_icon a, ap_protocol := ap_protocol a,
               ap_hostname := ap_hostname a, ap_port := ap_port a, ap_pathname := ap_pathname a,
               ap_sort_order := ap_sort_order a\<rparr>) (db_apps db)\<rparr>)"

definition delete_app :: "string \<Rightarrow> string \<Rightarrow> database \<Rightarrow> unit db_result" where
  "delete_app ident caller_id db =
    (case stmt ''Delete app error: '' (\<lambda>db.
        let hit = (\<lambda>r. ap_id r = ident \<and> ap_created_by r = caller_id)
        in (Inr (length (filter hit (db_apps db))), db\<lparr>db_apps := sql_delete hit (db_apps db)\<rparr>)) db of
       (Inl e, db') \<Rightarrow> (Inl e, db')
     | (Inr affected, db') \<Rightarrow> (if affected = 0 then Inl (utf8_text [230, 151, 160, 230, 157, 131, 233, 153, 144, 229, 136, 160, 233, 153, 164, 230, 136, 150, 229, 186, 148, 231, 148, 168, 228, 184, 141, 229, 173, 152, 229, 156, 168]) else Inr (), db'))"

definition list_apps_by_created :: "(app_row list \<Rightarrow> app_row list) \<Rightarrow> string \<Rightarrow> string \<Rightarrow> database \<Rightarrow> app_row list db_result" where
  "list_apps_by_created ord app_id created_by =
    query_rows (\<lambda>db. ord (filter (\<lambda>r. ap_id r = app_id \<and> ap_created_by r = created_by) (db_apps db)))"

definition list_apps :: "(app_row list \<Rightarrow> app_row list) \<Rightarrow> string \<Rightarrow> database \<Rightarrow> app_row list db_result" where
  "list_apps ord space_id =
    query_rows (\<lambda>db. sort_key (\<lambda>r. (ap_sort_order r, ap_created_at r)) (ord (filter (\<lambda>r. ap_space_id r = space_id) (db_apps db))))"

section \<open>Files\<close>

definition insert_file :: "file_row \<Rightarrow> database \<Rightarrow> unit db_result" where
  "insert_file f =
    insert_row ''Insert file error: '' (\<lambda>_. True) fi_id (Some (fi_space_id f)) db_files (\<lambda>t db. db\<lparr>db_files := t\<rparr>) f"

definition list_files :: "(file_row list \<Rightarrow> file_row list) \<Rightarrow> string \<Rightarrow> u32 option \<Rightarrow> database \<Rightarrow> file_row list db_result" where
  "list_files ord space_id limit =
    query_rows (\<lambda>db. let rows = rev (sort_key fi_created_at (ord (filter (\<lambda>r. fi_space_id r = space_id) (db_files db))))
                  in case limit of Some l \<Rightarrow> take (unat l) rows | None \<Rightarrow> rows)"

definition db_get_file :: "string \<Rightarrow> string \<Rightarrow> database \<Rightarrow> file_row option db_result" where
  "db_get_file space_id file_id =
    query_rows (\<lambda>db. List.find (\<lambda>r. fi_space_id r = space_id \<and> fi_id r = file_id) (db_files db))"

definition delete_file :: "string \<Rightarrow> string \<Rightarrow> database \<Rightarrow> unit db_result" where
  "delete_file space_id file_id =
    change_rows ''Delete file error: ''
      (\<lambda>db. db\<lparr>db_files := sql_delete (\<lambda>r. fi_space_id r = space_id \<and> fi_id r = file_id) (db_files db)\<rparr>)"

section \<open>Rules\<close>

definition insert_acl_rule :: "acl_rule_row \<Rightarrow> database \<Rightarrow> unit db_result" where
  "insert_acl_rule r =
    insert_row ''Insert ACL rule error: '' (\<lambda>r. al_action r \<in> {''allow'', ''deny''}) al_id (Some (al_space_id r)) db_acl
      (\<lambda>t db. db\<lparr>db_acl := t\<rparr>) r"

definition get_acl_rules :: "(acl_rule_row list \<Rightarrow> acl_rule_row list) \<Rightarrow> string \<Rightarrow> database \<Rightarrow> acl_rule_row list db_result" where
  "get_acl_rules ord space_id =
    select_rows ''Prepare ACL rules error: '' ''Query ACL rules error: ''
      (\<lambda>db. rev (sort_key al_created_at (ord (filter (\<lambda>r. al_space_id r = space_id) (db_acl db)))))"

text \<open>An update that breaks a \<open>CHECK\<close> fails when it concerns some row.\<close>

definition update_acl_rule :: "acl_rule_row \<Rightarrow> database \<Rightarrow> unit db_result" where
  "update_acl_rule a =
    stmt ''Update ACL rule error: '' (\<lambda>db.
      if al_id a \<in> al_id ` set (db_acl db) \<and> al_action a \<notin> {''allow'', ''deny''} then (Inl ''CHECK constraint failed'', db)
      else (Inr (), db\<lparr>db_acl := sql_update (\<lambda>r. al_id r = al_id a)
        (\<lambda>r. r\<lparr>al_action := al_action a, al_source := al_source a, al_dest := al_dest a, al_ports := al_ports a,
               al_description := al_description a, al_updated_at := al_updated_at a\<rparr>) (db_acl db)\<rparr>))"

definition delete_acl_rule :: "string \<Rightarrow> database \<Rightarrow> unit db_result" where
  "delete_acl_rule rule_id =
    change_rows ''Delete ACL rule error: '' (\<lambda>db. db\<lparr>db_acl := sql_delete (\<lambda>r. al_id r = rule_id) (db_acl db)\<rparr>)"

definition insert_port_forward_rule :: "port_forward_rule_row \<Rightarrow> database \<Rightarrow> unit db_result" where
  "insert_port_forward_rule r =
    insert_row ''Insert port forward rule error: '' (\<lambda>r. pr_protocol r \<in> {''tcp'', ''udp''}) pr_id (Some (pr_space_id r)) db_forwards
      (\<lambda>t db. db\<lparr>db_forwards := t\<rparr>) r"

definition get_port_forward_rules ::
  "(port_forward_rule_row list \<Rightarrow> port_forward_rule_row list) \<Rightarrow> string \<Rightarrow> database \<Rightarrow> port_forward_rule_row list db_result" where
  "get_port_forward_rules ord space_id =
    select_rows ''Prepare port forward rules error: '' ''Query port forward rules error: ''
      (\<lambda>db. rev (sort_key pr_created_at (ord (filter (\<lambda>r. pr_space_id r = space_id) (db_forwards db)))))"

definition update_port_forward_rule :: "port_forward_rule_row \<Rightarrow> database \<Rightarrow> unit db_result" where
  "update_port_forward_rule a =
    stmt ''Update port forward rule error: '' (\<lambda>db.
      if pr_id a \<in> pr_id ` set (db_forwards db) \<and> pr_protocol a \<notin> {''tcp'', ''udp''} then (Inl ''CHECK constraint failed'', db)
      else (Inr (), db\<lparr>db_forwards := sql_update (\<lambda>r. pr_id r = pr_id a)
        (\<lambda>r. r\<lparr>pr_name := pr_name a, pr_protocol := pr_protocol a, pr_source_ip := pr_source_ip a, pr_source_port := pr_source_port a,
               pr_target_ip := pr_target_ip a, pr_target_port := pr_target_port a, pr_description := pr_description a,
               pr_updated_at := pr_updated_at a\<rparr>) (db_forwards db)\<rparr>))"

definition delete_port_forward_rule :: "string \<Rightarrow> database \<Rightarrow> unit db_result" where
  "delete_port_forward_rule rule_id =
    change_rows ''Delete port forward rule error: '' (\<lambda>db. db\<lparr>db_forwards := sql_delete (\<lambda>r. pr_id r = rule_id) (db_forwards db)\<rparr>)"

section \<open>Tables with keys\<close>

text \<open>What a table keeps under the statements that use its key, and under updates that leave it alone.\<close>

locale keyed_table =
  fixes key :: "'r \<Rightarrow> 'k"
    and edit :: "'a \<Rightarrow> 'r \<Rightarrow> 'r"
  assumes edit_key: "key (edit a r) = key r"
begin

lemma keys_update: "map key (sql_update cond (edit a) t) = map key t"
  by (simp add: sql_update_def edit_key)

lemma distinct_update: "distinct (map key t) \<Longrightarrow> distinct (map key (sql_update cond (edit a) t))"
  by (simp only: keys_update)

lemma update_other: "\<not> cond r \<Longrightarrow> r \<in> set t \<Longrightarrow> r \<in> set (sql_update cond (edit a) t)"
  by (force simp: sql_update_def)

end

lemma distinct_sql_insert: "sql_insert key r t = Inr t' \<Longrightarrow> distinct (map key t) \<Longrightarrow> distinct (map key t')"
  by (auto simp: sql_insert_def split: if_splits)

lemma distinct_sql_insert_or_ignore: "distinct (map key t) \<Longrightarrow> distinct (map key (sql_insert_or_ignore key r t))"
  by (auto simp: sql_insert_or_ignore_def)

lemma distinct_sql_insert_or_replace: "distinct (map key t) \<Longrightarrow> distinct (map key (sql_insert_or_replace key r t))"
  by (auto simp: sql_insert_or_replace_def distinct_map_filter)

lemma distinct_sql_delete: "distinct (map key t) \<Longrightarrow> distinct (map key (sql_delete cond t))"
  by (simp add: sql_delete_def distinct_map_filter)

lemma set_sql_delete [simp]: "set (sql_delete cond t) = {r \<in> set t. \<not> cond r}"
  by (auto simp: sql_delete_def)

interpretation space_config: keyed_table sp_id "\<lambda>c r. r\<lparr>sp_config_json := c\<rparr>"
  by unfold_locales simp

interpretation message_status: keyed_table mg_id "\<lambda>s r. r\<lparr>mg_status := s\<rparr>"
  by unfold_locales simp

interpretation user_config: keyed_table us_id "\<lambda>c r. r\<lparr>us_config_json := c\<rparr>"
  by unfold_locales simp

interpretation app_edit: keyed_table ap_id
  "\<lambda>a r. r\<lparr>ap_name := ap_name a, ap_category := ap_category a, ap_icon := ap_icon a, ap_protocol := ap_protocol a,
      ap_hostname := ap_hostname a, ap_port := ap_port a, ap_pathname := ap_pathname a, ap_sort_order := ap_sort_order a\<rparr>"
  by unfold_locales simp

interpretation acl_edit: keyed_table al_id
  "\<lambda>a r. r\<lparr>al_action := al_action a, al_source := al_source a, al_dest := al_dest a, al_ports := al_ports a,
      al_description := al_description a, al_updated_at := al_updated_at a\<rparr>"
  by unfold_locales simp

interpretation forward_edit: keyed_table pr_id
  "\<lambda>a r. r\<lparr>pr_name := pr_name a, pr_protocol := pr_protocol a, pr_source_ip := pr_source_ip a, pr_source_port := pr_source_port a,
      pr_target_ip := pr_target_ip a, pr_target_port := pr_target_port a, pr_description := pr_description a,
      pr_updated_at := pr_updated_at a\<rparr>"
  by unfold_locales simp

section \<open>Integrity\<close>

definition keys_ok :: "database \<Rightarrow> bool" where
  "keys_ok db \<longleftrightarrow> distinct (map us_id (db_users db)) \<and> distinct (map sp_id (db_spaces db)) \<and> distinct (map me_id (db_members db)) \<and>
     distinct (map mg_id (db_messages db)) \<and> distinct (map fi_id (db_files db)) \<and> distinct (map fst (db_settings db)) \<and>
     distinct (map cookie_key (db_cookies db)) \<and> distinct (map ap_id (db_apps db)) \<and> distinct (map al_id (db_acl db)) \<and>
     distinct (map pr_id (db_forwards db))"

definition checks_ok :: "database \<Rightarrow> bool" where
  "checks_ok db \<longleftrightarrow> (\<forall>r \<in> set (db_acl db). al_action r \<in> {''allow'', ''deny''}) \<and>
     (\<forall>r \<in> set (db_forwards db). pr_protocol r \<in> {''tcp'', ''udp''})"

text \<open>The spaces that the rows of the other tables belong to.\<close>

definition space_refs :: "database \<Rightarrow> string set" where
  "space_refs db = me_space_id ` set (db_members db) \<union> mg_space_id ` set (db_messages db) \<union> fi_space_id ` set (db_files db) \<union>
     ap_space_id ` set (db_apps db) \<union> al_space_id ` set (db_acl db) \<union> pr_space_id ` set (db_forwards db)"

definition refs_ok :: "database \<Rightarrow> bool" where
  "refs_ok db \<longleftrightarrow> (db_fk db \<longrightarrow> space_refs db \<subseteq> sp_id ` set (db_spaces db))"

definition db_ok :: "database \<Rightarrow> bool" where
  "db_ok db \<longleftrightarrow> keys_ok db \<and> checks_ok db \<and> refs_ok db"

lemmas db_ok_defs = db_ok_def keys_ok_def checks_ok_def refs_ok_def space_refs_def

lemma db_empty_ok: "db_ok (db_empty fk faults)"
  by (simp add: db_ok_defs db_empty_def)

lemma db_ok_faults [simp]: "db_ok (db\<lparr>db_faults := f\<rparr>) = db_ok db"
  by (simp add: db_ok_defs)

lemma stmt_ok:
  assumes "\<And>db. db_ok db \<Longrightarrow> db_ok (snd (body db))" and "db_ok db"
  shows "db_ok (snd (stmt ctx body db))"
  using assms(1) [of "db\<lparr>db_faults := tl (db_faults db)\<rparr>"] assms(1) [of db] assms(2)
  by (auto simp: stmt_def split: list.split option.split prod.split sum.split)

lemma change_rows_ok: "(\<And>db. db_ok db \<Longrightarrow> db_ok (f db)) \<Longrightarrow> db_ok db \<Longrightarrow> db_ok (snd (change_rows ctx f db))"
  unfolding change_rows_def by (rule stmt_ok) simp_all

lemma image_sql_update: "(\<And>r. f (upd r) = f r) \<Longrightarrow> f ` set (sql_update c upd t) = f ` set t"
proof -
  assume "\<And>r. f (upd r) = f r"
  then have "map f (sql_update c upd t) = map f t" by (simp add: sql_update_def)
  then have "set (map f (sql_update c upd t)) = set (map f t)" by (rule arg_cong)
  then show ?thesis by simp
qed

lemma insert_row_ok:
  assumes put: "\<And>db t. db_ok db \<Longrightarrow> check r \<Longrightarrow> sql_insert key r (get db) = Inr t \<Longrightarrow>
      (case sid of None \<Rightarrow> True | Some s \<Rightarrow> fk_ok s db) \<Longrightarrow> db_ok (put t db)"
    and "db_ok db"
  shows "db_ok (snd (insert_row ctx check key sid get put r db))"
  unfolding insert_row_def
  by (rule stmt_ok) (auto simp: assms split: sum.split option.split)

lemma sql_insert_rows: "sql_insert key r t = Inr t' \<Longrightarrow> t' = t @ [r]"
  by (simp add: sql_insert_def split: if_splits)

lemma insert_space_ok: "db_ok db \<Longrightarrow> db_ok (snd (insert_space s db))"
  unfolding insert_space_def
proof (rule insert_row_ok)
  fix db t
  assume ok: "db_ok db" and i: "sql_insert sp_id (s\<lparr>sp_last_connected_at := None\<rparr>) (db_spaces db) = Inr t"
  have "distinct (map sp_id t)" using ok by (intro distinct_sql_insert [OF i]) (simp add: db_ok_defs)
  then show "db_ok (db\<lparr>db_spaces := t\<rparr>)"
    using ok sql_insert_rows [OF i] by (auto simp: db_ok_defs)
qed

lemma insert_message_ok: "db_ok db \<Longrightarrow> db_ok (snd (insert_message m db))"
  unfolding insert_message_def
proof (rule insert_row_ok)
  fix db t
  assume ok: "db_ok db" and i: "sql_insert mg_id m (db_messages db) = Inr t"
    and k: "case Some (mg_space_id m) of None \<Rightarrow> True | Some s \<Rightarrow> fk_ok s db"
  have "distinct (map mg_id t)" using ok by (intro distinct_sql_insert [OF i]) (simp add: db_ok_defs)
  then show "db_ok (db\<lparr>db_messages := t\<rparr>)"
    using ok k sql_insert_rows [OF i] by (simp add: db_ok_defs fk_ok_def)
qed

lemma insert_app_ok: "db_ok db \<Longrightarrow> db_ok (snd (insert_app a db))"
  unfolding insert_app_def
proof (rule insert_row_ok)
  fix db t
  assume ok: "db_ok db" and i: "sql_insert ap_id a (db_apps db) = Inr t"
    and k: "case Some (ap_space_id a) of None \<Rightarrow> True | Some s \<Rightarrow> fk_ok s db"
  have "distinct (map ap_id t)" using ok by (intro distinct_sql_insert [OF i]) (simp add: db_ok_defs)
  then show "db_ok (db\<lparr>db_apps := t\<rparr>)"
    using ok k sql_insert_rows [OF i] by (simp add: db_ok_defs fk_ok_def)
qed

lemma insert_file_ok: "db_ok db \<Longrightarrow> db_ok (snd (insert_file f db))"
  unfolding insert_file_def
proof (rule insert_row_ok)
  fix db t
  assume ok: "db_ok db" and i: "sql_insert fi_id f (db_files db) = Inr t"
    and k: "case Some (fi_space_id f) of None \<Rightarrow> True | Some s \<Rightarrow> fk_ok s db"
  have "distinct (map fi_id t)" using ok by (intro distinct_sql_insert [OF i]) (simp add: db_ok_defs)
  then show "db_ok (db\<lparr>db_files := t\<rparr>)"
    using ok k sql_insert_rows [OF i] by (simp add: db_ok_defs fk_ok_def)
qed

lemma insert_acl_rule_ok: "db_ok db \<Longrightarrow> db_ok (snd (insert_acl_rule a db))"
  unfolding insert_acl_rule_def
proof (rule insert_row_ok)
  fix db t
  assume ok: "db_ok db" and i: "sql_insert al_id a (db_acl db) = Inr t" and c: "al_action a \<in> {''allow'', ''deny''}"
    and k: "case Some (al_space_id a) of None \<Rightarrow> True | Some s \<Rightarrow> fk_ok s db"
  have "distinct (map al_id t)" using ok by (intro distinct_sql_insert [OF i]) (simp add: db_ok_defs)
  then show "db_ok (db\<lparr>db_acl := t\<rparr>)"
    using ok k c sql_insert_rows [OF i] by (simp add: db_ok_defs fk_ok_def)
qed

lemma insert_port_forward_rule_ok: "db_ok db \<Longrightarrow> db_ok (snd (insert_port_forward_rule a db))"
  unfolding insert_port_forward_rule_def
proof (rule insert_row_ok)
  fix db t
  assume ok: "db_ok db" and i: "sql_insert pr_id a (db_forwards db) = Inr t" and c: "pr_protocol a \<in> {''tcp'', ''udp''}"
    and k: "case Some (pr_space_id a) of None \<Rightarrow> True | Some s \<Rightarrow> fk_ok s db"
  have "distinct (map pr_id t)" using ok by (intro distinct_sql_insert [OF i]) (simp add: db_ok_defs)
  then show "db_ok (db\<lparr>db_forwards := t\<rparr>)"
    using ok k c sql_insert_rows [OF i] by (simp add: db_ok_defs fk_ok_def)
qed

lemma add_member_ok: "db_ok db \<Longrightarrow> db_ok (snd (add_member now s m n o' db))"
  unfolding add_member_def
proof (rule stmt_ok)
  fix db
  assume ok: "db_ok db"
  show "db_ok (snd (let row = \<lparr>me_id = m, me_space_id = s, me_nickname = n, me_virtual_ip = None, me_is_online = False,
                 me_is_owner = o', me_joined_at = now, me_last_seen_at = None\<rparr>
      in if m \<in> me_id ` set (db_members db) then (Inr (), db)
         else if fk_ok s db then (Inr (), db\<lparr>db_members := sql_insert_or_ignore me_id row (db_members db)\<rparr>)
         else (Inl ''FOREIGN KEY constraint failed'', db)))"
    using ok by (auto simp: Let_def db_ok_defs fk_ok_def sql_insert_or_ignore_def)
qed

lemma image_without: "f ` {r \<in> A. f r \<noteq> s} = f ` A - {s}"
  by auto

lemma ok_if: "db_ok d \<Longrightarrow> (\<not> b \<Longrightarrow> db_ok d') \<Longrightarrow> db_ok (snd (if b then (x, d) else (y, d')))"
  by simp

lemma put_acl_ok:
  "db_ok d \<Longrightarrow> distinct (map al_id t) \<Longrightarrow> al_space_id ` set t = al_space_id ` set (db_acl d) \<Longrightarrow>
   \<forall>r \<in> set t. al_action r \<in> {''allow'', ''deny''} \<Longrightarrow> db_ok (d\<lparr>db_acl := t\<rparr>)"
  by (simp add: db_ok_defs)

lemma put_forwards_ok:
  "db_ok d \<Longrightarrow> distinct (map pr_id t) \<Longrightarrow> pr_space_id ` set t = pr_space_id ` set (db_forwards d) \<Longrightarrow>
   \<forall>r \<in> set t. pr_protocol r \<in> {''tcp'', ''udp''} \<Longrightarrow> db_ok (d\<lparr>db_forwards := t\<rparr>)"
  by (simp add: db_ok_defs)

lemma delete_space_ok: "db_ok db \<Longrightarrow> db_ok (snd (delete_space s db))"
proof -
  assume ok: "db_ok db"
  let ?f = "\<lambda>db. (if s \<in> sp_id ` set (db_spaces db) then cascade s db else db)
      \<lparr>db_spaces := sql_delete (\<lambda>r. sp_id r = s) (db_spaces db)\<rparr>"
  have 1: "db_ok (?f d)" if "db_ok d" for d
    using that by (auto simp: db_ok_defs cascade_def distinct_sql_delete image_without)
  have 2: "db_ok (d\<lparr>db_members := sql_delete (\<lambda>r. me_space_id r = s) (db_members d)\<rparr>)" if "db_ok d" for d
    using that by (auto simp: db_ok_defs distinct_sql_delete)
  have "db_ok (snd (change_rows ''Delete space error: '' ?f db))"
    by (rule change_rows_ok [OF 1 ok])
  then show ?thesis
    unfolding delete_space_def
    by (auto split: prod.split sum.split intro!: change_rows_ok 2)
qed

lemma delete_app_ok: "db_ok db \<Longrightarrow> db_ok (snd (delete_app i c db))"
proof -
  assume ok: "db_ok db"
  let ?body = "\<lambda>db. let hit = (\<lambda>r. ap_id r = i \<and> ap_created_by r = c)
        in (Inr (length (filter hit (db_apps db))), db\<lparr>db_apps := sql_delete hit (db_apps db)\<rparr>)"
  have "db_ok (snd (stmt ''Delete app error: '' ?body db))"
    by (rule stmt_ok) (use ok in \<open>auto simp: Let_def db_ok_defs distinct_sql_delete\<close>)
  then show ?thesis
    unfolding delete_app_def by (auto split: prod.split sum.split)
qed

lemma update_acl_rule_ok: "db_ok db \<Longrightarrow> db_ok (snd (update_acl_rule a db))"
  unfolding update_acl_rule_def
proof (rule stmt_ok)
  fix d :: database
  let ?upd = "\<lambda>r. r\<lparr>al_action := al_action a, al_source := al_source a, al_dest := al_dest a, al_ports := al_ports a,
               al_description := al_description a, al_updated_at := al_updated_at a\<rparr>"
  let ?t = "sql_update (\<lambda>r. al_id r = al_id a) ?upd (db_acl d)"
  let ?bad = "al_id a \<in> al_id ` set (db_acl d) \<and> al_action a \<notin> {''allow'', ''deny''}"
  assume ok: "db_ok d"
  have old: "al_action r \<in> {''allow'', ''deny''}" if "r \<in> set (db_acl d)" for r
    using ok that unfolding db_ok_def checks_ok_def by blast
  have new: "\<forall>r \<in> set ?t. al_action r \<in> {''allow'', ''deny''}" if "\<not> ?bad"
  proof
    fix r
    assume "r \<in> set ?t"
    then obtain q where q: "q \<in> set (db_acl d)" "r = (if al_id q = al_id a then ?upd q else q)"
      by (auto simp: sql_update_def)
    show "al_action r \<in> {''allow'', ''deny''}"
    proof (cases "al_id q = al_id a")
      case True
      then have "al_id a \<in> al_id ` set (db_acl d)" using q(1) by (metis imageI)
      with that True q(2) show ?thesis by simp
    next
      case False
      with q old show ?thesis by simp
    qed
  qed
  have "db_ok (d\<lparr>db_acl := ?t\<rparr>)" if "\<not> ?bad"
    using new [OF that] ok
    by (intro put_acl_ok acl_edit.distinct_update image_sql_update) (simp_all add: db_ok_def keys_ok_def)
  with ok show "db_ok (snd (if ?bad then (Inl ''CHECK constraint failed'', d) else (Inr (), d\<lparr>db_acl := ?t\<rparr>)))"
    by (rule ok_if)
qed

lemma update_port_forward_rule_ok: "db_ok db \<Longrightarrow> db_ok (snd (update_port_forward_rule a db))"
  unfolding update_port_forward_rule_def
proof (rule stmt_ok)
  fix d :: database
  let ?upd = "\<lambda>r. r\<lparr>pr_name := pr_name a, pr_protocol := pr_protocol a, pr_source_ip := pr_source_ip a, pr_source_port := pr_source_port a,
               pr_target_ip := pr_target_ip a, pr_target_port := pr_target_port a, pr_description := pr_description a,
               pr_updated_at := pr_updated_at a\<rparr>"
  let ?t = "sql_update (\<lambda>r. pr_id r = pr_id a) ?upd (db_forwards d)"
  let ?bad = "pr_id a \<in> pr_id ` set (db_forwards d) \<and> pr_protocol a \<notin> {''tcp'', ''udp''}"
  assume ok: "db_ok d"
  have old: "pr_protocol r \<in> {''tcp'', ''udp''}" if "r \<in> set (db_forwards d)" for r
    using ok that unfolding db_ok_def checks_ok_def by blast
  have new: "\<forall>r \<in> set ?t. pr_protocol r \<in> {''tcp'', ''udp''}" if "\<not> ?bad"
  proof
    fix r
    assume "r \<in> set ?t"
    then obtain q where q: "q \<in> set (db_forwards d)" "r = (if pr_id q = pr_id a then ?upd q else q)"
      by (auto simp: sql_update_def)
    show "pr_protocol r \<in> {''tcp'', ''udp''}"
    proof (cases "pr_id q = pr_id a")
      case True
      then have "pr_id a \<in> pr_id ` set (db_forwards d)" using q(1) by (metis imageI)
      with that True q(2) show ?thesis by simp
    next
      case False
      with q old show ?thesis by simp
    qed
  qed
  have "db_ok (d\<lparr>db_forwards := ?t\<rparr>)" if "\<not> ?bad"
    using new [OF that] ok
    by (intro put_forwards_ok forward_edit.distinct_update image_sql_update) (simp_all add: db_ok_def keys_ok_def)
  with ok show "db_ok (snd (if ?bad then (Inl ''CHECK constraint failed'', d) else (Inr (), d\<lparr>db_forwards := ?t\<rparr>)))"
    by (rule ok_if)
qed

lemma update_space_config_ok: "db_ok db \<Longrightarrow> db_ok (snd (update_space_config s c db))"
  unfolding update_space_config_def
  by (rule change_rows_ok) (simp_all add: db_ok_defs space_config.distinct_update image_sql_update)

lemma update_message_status_ok: "db_ok db \<Longrightarrow> db_ok (snd (update_message_status i s db))"
  unfolding update_message_status_def
  by (rule change_rows_ok) (simp_all add: db_ok_defs message_status.distinct_update image_sql_update)

lemma update_user_config_ok: "db_ok db \<Longrightarrow> db_ok (snd (update_user_config c db))"
  unfolding update_user_config_def
  by (rule change_rows_ok) (simp_all add: db_ok_defs user_config.distinct_update)

lemma update_app_ok: "db_ok db \<Longrightarrow> db_ok (snd (update_app a db))"
  unfolding update_app_def
  by (rule change_rows_ok) (simp_all add: db_ok_defs app_edit.distinct_update image_sql_update)

lemma set_setting_ok: "db_ok db \<Longrightarrow> db_ok (snd (set_setting k v db))"
  unfolding set_setting_def
  by (rule change_rows_ok) (simp_all add: db_ok_defs distinct_sql_insert_or_replace)

lemma cookies_ok:
  "db_ok db \<Longrightarrow> db_ok (snd (upsert_proxy_cookie row db))"
  "db_ok db \<Longrightarrow> db_ok (snd (delete_proxy_cookie h n p db))"
  "db_ok db \<Longrightarrow> db_ok (snd (delete_proxy_cookies h db))"
  unfolding upsert_proxy_cookie_def delete_proxy_cookie_def delete_proxy_cookies_def
  by (rule change_rows_ok; simp add: db_ok_defs distinct_sql_insert_or_replace distinct_sql_delete)+

lemma ensure_user_ok: "db_ok db \<Longrightarrow> db_ok (snd (ensure_user u n db))"
  unfolding ensure_user_def
  by (rule change_rows_ok) (simp_all add: db_ok_defs distinct_sql_insert_or_ignore)

lemma delete_rows_ok:
  "db_ok db \<Longrightarrow> db_ok (snd (delete_file s f db))"
  "db_ok db \<Longrightarrow> db_ok (snd (delete_acl_rule i db))"
  "db_ok db \<Longrightarrow> db_ok (snd (delete_port_forward_rule i db))"
  unfolding delete_file_def delete_acl_rule_def delete_port_forward_rule_def
  by (rule change_rows_ok; auto simp: db_ok_defs distinct_sql_delete)+

section \<open>Sequences of operations\<close>

text \<open>Every operation of \<open>Database\<close> that writes; the result is dropped, what stays is the database.\<close>

datatype db_op =
    InsertSpace space_row
  | DeleteSpace string
  | UpdateSpaceConfig string string
  | InsertMessage message_row
  | UpdateMessageStatus string string
  | SetSetting string string
  | UpsertProxyCookie proxy_cookie_row
  | DeleteProxyCookie string string string
  | DeleteProxyCookies string
  | EnsureUser string string
  | UpdateUserConfig string
  | AddMember string string string string bool
  | InsertApp app_row
  | UpdateApp app_row
  | DeleteApp string string
  | InsertFile file_row
  | DeleteFile string string
  | InsertAclRule acl_rule_row
  | UpdateAclRule acl_rule_row
  | DeleteAclRule string
  | InsertPortForwardRule port_forward_rule_row
  | UpdatePortForwardRule port_forward_rule_row
  | DeletePortForwardRule string

fun db_exec :: "db_op \<Rightarrow> database \<Rightarrow> unit db_result" where
  "db_exec (InsertSpace s) = insert_space s"
| "db_exec (DeleteSpace i) = delete_space i"
| "db_exec (UpdateSpaceConfig i c) = update_space_config i c"
| "db_exec (InsertMessage m) = insert_message m"
| "db_exec (UpdateMessageStatus i s) = update_message_status i s"
| "db_exec (SetSetting k v) = set_setting k v"
| "db_exec (UpsertProxyCookie r) = upsert_proxy_cookie r"
| "db_exec (DeleteProxyCookie h n p) = delete_proxy_cookie h n p"
| "db_exec (DeleteProxyCookies h) = delete_proxy_cookies h"
| "db_exec (EnsureUser u n) = ensure_user u n"
| "db_exec (UpdateUserConfig c) = update_user_config c"
| "db_exec (AddMember now s m n own) = add_member now s m n own"
| "db_exec (InsertApp a) = insert_app a"
| "db_exec (UpdateApp a) = update_app a"
| "db_exec (DeleteApp i c) = delete_app i c"
| "db_exec (InsertFile f) = insert_file f"
| "db_exec (DeleteFile s f) = delete_file s f"
| "db_exec (InsertAclRule r) = insert_acl_rule r"
| "db_exec (UpdateAclRule r) = update_acl_rule r"
| "db_exec (DeleteAclRule i) = delete_acl_rule i"
| "db_exec (InsertPortForwardRule r) = insert_port_forward_rule r"
| "db_exec (UpdatePortForwardRule r) = update_port_forward_rule r"
| "db_exec (DeletePortForwardRule i) = delete_port_forward_rule i"

fun db_run :: "db_op list \<Rightarrow> database \<Rightarrow> database" where
  "db_run [] db = db"
| "db_run (op # ops) db = db_run ops (snd (db_exec op db))"

lemmas db_ops_ok = insert_space_ok delete_space_ok update_space_config_ok insert_message_ok update_message_status_ok
  set_setting_ok cookies_ok ensure_user_ok update_user_config_ok add_member_ok insert_app_ok update_app_ok delete_app_ok
  insert_file_ok delete_rows_ok insert_acl_rule_ok update_acl_rule_ok insert_port_forward_rule_ok update_port_forward_rule_ok

lemma db_exec_ok: "db_ok db \<Longrightarrow> db_ok (snd (db_exec op db))"
  by (cases op) (simp_all add: db_ops_ok)

lemma db_run_ok: "db_ok db \<Longrightarrow> db_ok (db_run ops db)"
  by (induction ops db rule: db_run.induct) (simp_all add: db_exec_ok)

text \<open>
  C5: Whatever operations are performed on a fresh database, in whatever order and with whatever engine
  failures in between, the primary keys of all ten tables stay distinct, every ACL rule says \<open>allow\<close>
  or \<open>deny\<close>, every forwarding rule \<open>tcp\<close> or \<open>udp\<close>, and with foreign keys enforced every member,
  message, file, application and rule belongs to a space that exists.
\<close>

theorem db_integrity: "db_ok (db_run ops (db_empty fk faults))"
  by (intro db_run_ok db_empty_ok)

section \<open>Deleting a space\<close>

lemma faults_self: "db_faults db = fs \<Longrightarrow> db\<lparr>db_faults := fs\<rparr> = db"
  by (cases db) simp

lemma stmt_inr: "stmt ctx (\<lambda>db. (Inr (f db), g db)) db = (Inr x, db') \<Longrightarrow>
   \<exists>fs. x = f (db\<lparr>db_faults := fs\<rparr>) \<and> db' = g (db\<lparr>db_faults := fs\<rparr>)"
  by (rule exI [of _ "tl (db_faults db)"])
    (auto simp: stmt_def faults_self split: list.splits option.splits)

lemma change_rows_inr: "change_rows ctx f db = (Inr u, db') \<Longrightarrow> \<exists>fs. db' = f (db\<lparr>db_faults := fs\<rparr>)"
  unfolding change_rows_def by (drule stmt_inr) auto

lemma sql_delete_idem [simp]: "sql_delete c (sql_delete c t) = sql_delete c t"
  by (simp add: sql_delete_def)

lemma sql_delete_none: "ident \<notin> f ` set t \<Longrightarrow> sql_delete (\<lambda>r. f r = ident) t = t"
  by (auto simp: sql_delete_def image_iff intro!: filter_True)

lemma cascade_fields [simp]:
  "db_spaces (cascade ident db) = db_spaces db"
  "db_members (cascade ident db) = (if db_fk db then sql_delete (\<lambda>r. me_space_id r = ident) (db_members db) else db_members db)"
  "db_messages (cascade ident db) = (if db_fk db then sql_delete (\<lambda>r. mg_space_id r = ident) (db_messages db) else db_messages db)"
  "db_files (cascade ident db) = (if db_fk db then sql_delete (\<lambda>r. fi_space_id r = ident) (db_files db) else db_files db)"
  "db_apps (cascade ident db) = (if db_fk db then sql_delete (\<lambda>r. ap_space_id r = ident) (db_apps db) else db_apps db)"
  "db_acl (cascade ident db) = (if db_fk db then sql_delete (\<lambda>r. al_space_id r = ident) (db_acl db) else db_acl db)"
  "db_forwards (cascade ident db) = (if db_fk db then sql_delete (\<lambda>r. pr_space_id r = ident) (db_forwards db) else db_forwards db)"
  by (simp_all add: cascade_def)

lemma delete_space_inr:
  assumes "delete_space ident db = (Inr u, db')"
  obtains fs gs where "db' = (let d = (if ident \<in> sp_id ` set (db_spaces db) then cascade ident (db\<lparr>db_faults := fs\<rparr>) else db\<lparr>db_faults := fs\<rparr>)
        \<lparr>db_spaces := sql_delete (\<lambda>r. sp_id r = ident) (db_spaces db), db_faults := gs\<rparr>
      in d\<lparr>db_members := sql_delete (\<lambda>r. me_space_id r = ident) (db_members d)\<rparr>)"
  using assms unfolding delete_space_def
  by (auto split: prod.splits sum.splits dest!: change_rows_inr simp: Let_def)

lemma refs_absent: "db_ok db \<Longrightarrow> db_fk db \<Longrightarrow> ident \<notin> sp_id ` set (db_spaces db) \<Longrightarrow> ident \<notin> space_refs db"
  unfolding db_ok_def refs_ok_def by blast

text \<open>The rows a table keeps, whether the cascade ran or there was no row to delete.\<close>

lemma delete_space_tables:
  assumes ok: "db_ok db" and fk: "db_fk db" and del: "delete_space ident db = (Inr u, db')"
  shows "db_members db' = sql_delete (\<lambda>r. me_space_id r = ident) (db_members db)"
    "db_messages db' = sql_delete (\<lambda>r. mg_space_id r = ident) (db_messages db)"
    "db_files db' = sql_delete (\<lambda>r. fi_space_id r = ident) (db_files db)"
    "db_apps db' = sql_delete (\<lambda>r. ap_space_id r = ident) (db_apps db)"
    "db_acl db' = sql_delete (\<lambda>r. al_space_id r = ident) (db_acl db)"
    "db_forwards db' = sql_delete (\<lambda>r. pr_space_id r = ident) (db_forwards db)"
proof -
  obtain fs gs where db': "db' = (let d = (if ident \<in> sp_id ` set (db_spaces db) then cascade ident (db\<lparr>db_faults := fs\<rparr>) else db\<lparr>db_faults := fs\<rparr>)
        \<lparr>db_spaces := sql_delete (\<lambda>r. sp_id r = ident) (db_spaces db), db_faults := gs\<rparr>
      in d\<lparr>db_members := sql_delete (\<lambda>r. me_space_id r = ident) (db_members d)\<rparr>)"
    by (rule delete_space_inr [OF del])
  have absent: "ident \<notin> me_space_id ` set (db_members db)" "ident \<notin> mg_space_id ` set (db_messages db)"
      "ident \<notin> fi_space_id ` set (db_files db)" "ident \<notin> ap_space_id ` set (db_apps db)"
      "ident \<notin> al_space_id ` set (db_acl db)" "ident \<notin> pr_space_id ` set (db_forwards db)"
    if "ident \<notin> sp_id ` set (db_spaces db)"
    using refs_absent [OF ok fk that] unfolding space_refs_def by blast+
  show "db_members db' = sql_delete (\<lambda>r. me_space_id r = ident) (db_members db)"
    "db_messages db' = sql_delete (\<lambda>r. mg_space_id r = ident) (db_messages db)"
    "db_files db' = sql_delete (\<lambda>r. fi_space_id r = ident) (db_files db)"
    "db_apps db' = sql_delete (\<lambda>r. ap_space_id r = ident) (db_apps db)"
    "db_acl db' = sql_delete (\<lambda>r. al_space_id r = ident) (db_acl db)"
    "db_forwards db' = sql_delete (\<lambda>r. pr_space_id r = ident) (db_forwards db)"
    unfolding db' Let_def using fk
    by (cases "ident \<in> sp_id ` set (db_spaces db)"; simp only: if_True if_False simp_thms; simp add: absent sql_delete_none)+
qed

text \<open>
  With foreign keys enforced, a deletion that reports success leaves no trace of the space: it is
  gone from the table of spaces, no row of any other table belongs to it, and the rows of the other
  spaces are exactly the ones there were.
\<close>

theorem delete_space_complete:
  assumes "db_ok db" and "db_fk db" and "delete_space ident db = (Inr u, db')"
  shows "sp_id ` set (db_spaces db') = sp_id ` set (db_spaces db) - {ident} \<and> space_refs db' = space_refs db - {ident} \<and>
    db_messages db' = filter (\<lambda>r. mg_space_id r \<noteq> ident) (db_messages db) \<and>
    db_files db' = filter (\<lambda>r. fi_space_id r \<noteq> ident) (db_files db) \<and>
    db_apps db' = filter (\<lambda>r. ap_space_id r \<noteq> ident) (db_apps db) \<and>
    db_acl db' = filter (\<lambda>r. al_space_id r \<noteq> ident) (db_acl db) \<and>
    db_forwards db' = filter (\<lambda>r. pr_space_id r \<noteq> ident) (db_forwards db)"
proof -
  have "db_spaces db' = sql_delete (\<lambda>r. sp_id r = ident) (db_spaces db)"
    by (rule delete_space_inr [OF assms(3)]) (simp add: Let_def)
  moreover have "space_refs db' = space_refs db - {ident}"
    unfolding space_refs_def delete_space_tables [OF assms] set_sql_delete image_without by blast
  ultimately show ?thesis
    by (simp add: delete_space_tables [OF assms] image_without sql_delete_def)
qed

lemmas db_eval = insert_space_def insert_message_def insert_app_def delete_space_def delete_app_def insert_row_def change_rows_def
  stmt_def sql_insert_def sql_delete_def fk_ok_def cascade_def db_empty_def

text \<open>Two spaces with a message each.\<close>

definition sample_space :: "string \<Rightarrow> space_row" where
  "sample_space ident = \<lparr>sp_id = ident, sp_name = ''n'', sp_owner_id = None, sp_network_name = ''n'', sp_network_secret = ''s'',
     sp_description = None, sp_created_at = ''2024'', sp_last_connected_at = None, sp_is_auto_connect = False, sp_config_json = None\<rparr>"

definition sample_message :: "string \<Rightarrow> string \<Rightarrow> string \<Rightarrow> message_row" where
  "sample_message ident sid at = \<lparr>mg_id = ident, mg_space_id = sid, mg_sender_id = ''u'', mg_sender_name = ''u'', mg_msg_type = ''text'',
     mg_content = ''hi'', mg_timestamp = at, mg_status = ''sent''\<rparr>"

definition sample_app :: "string \<Rightarrow> string \<Rightarrow> string \<Rightarrow> app_row" where
  "sample_app ident sid by_user = \<lparr>ap_id = ident, ap_space_id = sid, ap_name = ''nas'', ap_category = None, ap_icon = None, ap_protocol = None,
     ap_hostname = None, ap_port = None, ap_pathname = None, ap_sort_order = 0, ap_created_by = by_user, ap_created_at = ''2024''\<rparr>"

definition sample_db :: "bool \<Rightarrow> database" where
  "sample_db fk = db_run [InsertSpace (sample_space ''a''), InsertSpace (sample_space ''b''),
     InsertMessage (sample_message ''1'' ''a'' ''10''), InsertMessage (sample_message ''2'' ''b'' ''11''),
     InsertMessage (sample_message ''3'' ''a'' ''12''), InsertApp (sample_app ''x'' ''a'' ''u'')] (db_empty fk [])"

lemma sample_db_eq: "sample_db fk =
  (db_empty fk [])\<lparr>db_spaces := [sample_space ''a'', sample_space ''b''],
     db_messages := [sample_message ''1'' ''a'' ''10'', sample_message ''2'' ''b'' ''11'', sample_message ''3'' ''a'' ''12''],
     db_apps := [sample_app ''x'' ''a'' ''u'']\<rparr>"
  by (simp add: sample_db_def db_eval sample_space_def sample_message_def sample_app_def)

lemma sample_db_ok: "db_ok (sample_db fk)"
  unfolding sample_db_def by (intro db_run_ok db_empty_ok)

theorem delete_space_complete_witness:
  "let db' = snd (delete_space ''a'' (sample_db True))
   in fst (delete_space ''a'' (sample_db True)) = Inr () \<and> sp_id ` set (db_spaces db') = {''b''} \<and> ''a'' \<notin> space_refs db' \<and>
      db_messages db' = [sample_message ''2'' ''b'' ''11''] \<and> db_apps db' = []"
proof -
  have fk: "db_fk (sample_db True)" and del: "fst (delete_space ''a'' (sample_db True)) = Inr ()"
    by (simp_all add: sample_db_eq db_eval sample_space_def sample_message_def sample_app_def)
  from del have "delete_space ''a'' (sample_db True) = (Inr (), snd (delete_space ''a'' (sample_db True)))"
    by (simp add: prod_eq_iff)
  from delete_space_complete [OF sample_db_ok fk this] del show ?thesis
    by (simp add: Let_def sample_db_eq sample_space_def sample_message_def sample_app_def db_empty_def)
qed

text \<open>
  On a connection that does not enforce foreign keys, deleting a space deletes its members and leaves
  its messages, files, applications and rules behind.
\<close>

theorem delete_space_orphans:
  assumes "\<not> db_fk db" and "delete_space ident db = (Inr u, db')"
  shows "ident \<notin> sp_id ` set (db_spaces db') \<and> ident \<notin> me_space_id ` set (db_members db') \<and>
    db_messages db' = db_messages db \<and> db_files db' = db_files db \<and> db_apps db' = db_apps db \<and>
    db_acl db' = db_acl db \<and> db_forwards db' = db_forwards db"
  by (rule delete_space_inr [OF assms(2)]) (use assms(1) in \<open>auto simp: Let_def\<close>)

theorem delete_space_orphans_witness:
  "let db' = snd (delete_space ''a'' (sample_db False))
   in ''a'' \<notin> sp_id ` set (db_spaces db') \<and> sample_message ''1'' ''a'' ''10'' \<in> set (db_messages db')"
proof -
  have fk: "\<not> db_fk (sample_db False)" and del: "fst (delete_space ''a'' (sample_db False)) = Inr ()"
    by (simp_all add: sample_db_eq db_eval sample_space_def sample_message_def sample_app_def)
  from del have "delete_space ''a'' (sample_db False) = (Inr (), snd (delete_space ''a'' (sample_db False)))"
    by (simp add: prod_eq_iff)
  from delete_space_orphans [OF fk this] show ?thesis
    by (simp add: Let_def sample_db_eq)
qed

section \<open>What the operations return\<close>

lemma stmt_no_fault: "db_faults db = [] \<Longrightarrow>
   stmt ctx body db = (case body db of (Inl e, db') \<Rightarrow> (Inl (ctx @ e), db') | (Inr x, db') \<Rightarrow> (Inr x, db'))"
  by (simp add: stmt_def)

lemma query_row_no_fault: "db_faults db = [] \<Longrightarrow> query_row q db = (Inr (q db), db)"
  by (simp add: query_row_def select_def stmt_no_fault)

lemma query_rows_no_fault: "db_faults db = [] \<Longrightarrow> query_rows q db = (Inr (q db), db)"
  by (simp add: query_rows_def select_rows_def select_def stmt_no_fault)

text \<open>
  Only the creator of an application can delete it. When the statement itself does not fail, the call succeeds
  exactly if the application exists and was created by the caller; it then removes that one row, and
  otherwise reports an error and changes nothing.
\<close>

theorem delete_app_creator_only:
  assumes "db_faults db = []"
  shows "(fst (delete_app ident caller_id db) = Inr () \<longleftrightarrow>
      (\<exists>a \<in> set (db_apps db). ap_id a = ident \<and> ap_created_by a = caller_id)) \<and>
    snd (delete_app ident caller_id db) =
      (if \<exists>a \<in> set (db_apps db). ap_id a = ident \<and> ap_created_by a = caller_id
       then db\<lparr>db_apps := filter (\<lambda>a. \<not> (ap_id a = ident \<and> ap_created_by a = caller_id)) (db_apps db)\<rparr> else db)"
proof -
  define hit where "hit = (\<lambda>a :: app_row. ap_id a = ident \<and> ap_created_by a = caller_id)"
  have "filter (\<lambda>a. \<not> hit a) (db_apps db) = db_apps db" if "\<not> (\<exists>a \<in> set (db_apps db). hit a)"
    using that by (auto intro!: filter_True)
  then have "db\<lparr>db_apps := sql_delete hit (db_apps db)\<rparr> = db" if "\<not> (\<exists>a \<in> set (db_apps db). hit a)"
    using that by (simp add: sql_delete_def)
  moreover have "length (filter hit (db_apps db)) = 0 \<longleftrightarrow> \<not> (\<exists>a \<in> set (db_apps db). hit a)"
    by (auto simp: filter_empty_conv)
  ultimately show ?thesis
    unfolding delete_app_def stmt_no_fault [OF assms(1)] by (simp add: Let_def sql_delete_def hit_def)
qed

theorem delete_app_creator_only_witness:
  "fst (delete_app ''x'' ''u'' (sample_db True)) = Inr () \<and> db_apps (snd (delete_app ''x'' ''u'' (sample_db True))) = [] \<and>
   fst (delete_app ''x'' ''v'' (sample_db True)) \<noteq> Inr () \<and> snd (delete_app ''x'' ''v'' (sample_db True)) = sample_db True"
proof -
  have "db_faults (sample_db True) = []" by (simp add: sample_db_eq db_empty_def)
  from delete_app_creator_only [OF this, of "''x''" "''u''"] delete_app_creator_only [OF this, of "''x''" "''v''"]
  show ?thesis by (simp add: sample_db_eq sample_app_def)
qed

text \<open>
  \<open>get_messages\<close> returns the newest messages of the space: the rows it leaves out come after the ones it
  returns in a listing of all the messages of the space from the newest to the oldest, and it returns
  as many as the limit allows. The order among equal timestamps is the scan's.
\<close>

theorem get_messages_newest:
  assumes "db_faults db = []" and "\<And>t. mset (ord t) = mset t"
  shows "\<exists>ms rest. get_messages ord space_id limit db = (Inr ms, db) \<and>
    mset (ms @ rest) = mset (filter (\<lambda>r. mg_space_id r = space_id) (db_messages db)) \<and>
    sorted_wrt (\<lambda>x y. mg_timestamp x \<ge> mg_timestamp y) (ms @ rest) \<and>
    length ms = min (unat limit) (length (filter (\<lambda>r. mg_space_id r = space_id) (db_messages db)))"
proof -
  let ?t = "filter (\<lambda>r. mg_space_id r = space_id) (db_messages db)"
  let ?s = "rev (sort_key mg_timestamp (ord ?t))"
  have m: "mset ?s = mset ?t" by (simp add: assms(2))
  then have "length ?s = length ?t" by (metis size_mset)
  moreover have "sorted_wrt (\<lambda>x y. mg_timestamp x \<ge> mg_timestamp y) ?s"
    using sorted_sort_key [of mg_timestamp "ord ?t"] by (simp add: sorted_wrt_rev sorted_map)
  moreover have "get_messages ord space_id limit db = (Inr (take (unat limit) ?s), db)"
    unfolding get_messages_def by (simp add: query_rows_no_fault assms(1))
  ultimately show ?thesis
    using m by (intro exI [of _ "take (unat limit) ?s"] exI [of _ "drop (unat limit) ?s"]) (simp add: min.commute)
qed

theorem get_messages_newest_witness:
  "\<exists>ms rest. get_messages (\<lambda>t. t) ''a'' 1 (sample_db True) = (Inr ms, sample_db True) \<and>
    mset (ms @ rest) = {#sample_message ''1'' ''a'' ''10'', sample_message ''3'' ''a'' ''12''#} \<and>
    sorted_wrt (\<lambda>x y. mg_timestamp x \<ge> mg_timestamp y) (ms @ rest) \<and> length ms = 1"
proof -
  have "db_faults (sample_db True) = []" by (simp add: sample_db_eq db_empty_def)
  from get_messages_newest [OF this, of "\<lambda>t. t" "''a''" 1] show ?thesis
    by (simp add: sample_db_eq sample_message_def)
qed

text \<open>
  A setting read back after it was stored has the stored value, and storing one leaves the others alone.
\<close>

theorem setting_roundtrip:
  assumes "set_setting key value db = (Inr u, db')" and "db_faults db' = []"
  shows "get_setting key db' = (Inr (Some value), db') \<and>
    (\<forall>j. j \<noteq> key \<longrightarrow> get_setting j db' = (Inr (map_of (db_settings db) j), db'))"
proof -
  obtain fs where db': "db' = db\<lparr>db_faults := fs, db_settings := sql_insert_or_replace fst (key, value) (db_settings db)\<rparr>"
    using change_rows_inr [OF assms(1) [unfolded set_setting_def]] by auto
  have "map_of (sql_insert_or_replace fst (key, value) t) j = (if j = key then Some value else map_of t j)" for t j
    by (induction t) (auto simp: sql_insert_or_replace_def)
  then show ?thesis
    unfolding get_setting_def query_row_no_fault [OF assms(2)] by (simp add: db')
qed

theorem setting_roundtrip_witness:
  "get_setting ''k'' (snd (set_setting ''k'' ''v'' (sample_db True))) = (Inr (Some ''v''), snd (set_setting ''k'' ''v'' (sample_db True)))"
proof -
  have "set_setting ''k'' ''v'' (sample_db True) = (Inr (), snd (set_setting ''k'' ''v'' (sample_db True)))"
      "db_faults (snd (set_setting ''k'' ''v'' (sample_db True))) = []"
    by (simp_all add: set_setting_def change_rows_def stmt_def sample_db_eq db_empty_def)
  from setting_roundtrip [OF this] show ?thesis by simp
qed

text \<open>
  The local user is created once: on a database without users, every later \<open>ensure_user\<close> of the same id leaves the row
  as it is, and every query returns it, whatever scan the planner chooses.
\<close>

theorem ensure_user_once:
  assumes "db_faults db = []" and "db_users db = []" and "\<And>t. mset (ord t) = mset t"
    and "ensure_user user_id name db = (Inr u, db1)"
  shows "ensure_user user_id name' db1 = (Inr (), db1) \<and>
    get_user ord db1 = (Inr (Some \<lparr>us_id = user_id, us_name = name, us_config_json = None\<rparr>), db1) \<and>
    get_user_id ord db1 = (Inr (Some user_id), db1) \<and>
    get_user_config ord (snd (update_user_config c db1)) = (Inr (Some c), snd (update_user_config c db1))"
proof -
  have one: "ord [x] = [x]" for x using assms(3) [of "[x]"] by simp
  have db1: "db1 = db\<lparr>db_users := [\<lparr>us_id = user_id, us_name = name, us_config_json = None\<rparr>]\<rparr>"
    using assms(4) by (simp add: ensure_user_def change_rows_def stmt_no_fault assms(1,2) sql_insert_or_ignore_def)
  have f: "db_faults db1 = []" by (simp add: db1 assms)
  have g: "db_faults (snd (update_user_config c db1)) = []"
    by (simp add: update_user_config_def change_rows_def stmt_no_fault f)
  show ?thesis
    unfolding get_user_def get_user_id_def get_user_config_def query_row_no_fault [OF f] query_row_no_fault [OF g]
    by (simp add: update_user_config_def ensure_user_def change_rows_def stmt_no_fault f)
       (simp add: db1 first_row_def one sql_insert_or_ignore_def sql_update_def)
qed

theorem ensure_user_once_witness:
  "let db1 = snd (ensure_user ''m'' ''me'' (sample_db True))
   in get_user rev db1 = (Inr (Some \<lparr>us_id = ''m'', us_name = ''me'', us_config_json = None\<rparr>), db1) \<and>
      ensure_user ''m'' ''other'' db1 = (Inr (), db1)"
proof -
  have "db_faults (sample_db True) = []" "db_users (sample_db True) = []"
    by (simp_all add: sample_db_eq db_empty_def)
  moreover have "ensure_user ''m'' ''me'' (sample_db True) = (Inr (), snd (ensure_user ''m'' ''me'' (sample_db True)))"
    by (simp add: ensure_user_def change_rows_def stmt_def sample_db_eq db_empty_def)
  ultimately show ?thesis using ensure_user_once [of "sample_db True" rev "''m''" "''me''"] by (simp add: Let_def)
qed

end
