(* ===== verification/Crypto_Box.thy ===== *)
theory Crypto_Box
  imports App_Config
begin

text \<open>
  Authenticated encryption, \<open>src-tauri/src/crypto/mod.rs\<close> and \<open>utils/encrypt.rs\<close>: the password box
  \<open>[salt][nonce][ciphertext]\<close>, the fixed-key box \<open>[nonce][ciphertext]\<close>, HMAC signatures and the
  cached key of the share links. The primitives come from crates outside the repository: they are
  the fields of a \<open>primitives\<close> record, and \<open>primitives_ok\<close> states what their documentation promises.
  Random salts and nonces are arguments, arrays of the stated lengths.
\<close>

section \<open>Primitives\<close>

record primitives =
  prim_sha256 :: "bytes \<Rightarrow> bytes"
  prim_pbkdf2 :: "bytes \<Rightarrow> bytes \<Rightarrow> nat \<Rightarrow> bytes"
  prim_gcm_encrypt :: "bytes \<Rightarrow> bytes \<Rightarrow> bytes \<Rightarrow> bytes option"
  prim_gcm_decrypt :: "bytes \<Rightarrow> bytes \<Rightarrow> bytes \<Rightarrow> bytes option"
  prim_hmac :: "bytes \<Rightarrow> bytes \<Rightarrow> bytes"
  prim_hex :: "bytes \<Rightarrow> string"

text \<open>
  Hashes and derived keys have 32 bytes; decrypting what was encrypted under the same key and
  nonce gives the plaintext back, and a ciphertext carries a 16-byte tag.
\<close>

definition primitives_ok :: "primitives \<Rightarrow> bool" where
  "primitives_ok P \<longleftrightarrow>
     (\<forall>d. length (prim_sha256 P d) = 32) \<and>
     (\<forall>p s i. length (prim_pbkdf2 P p s i) = 32) \<and>
     (\<forall>k n m c. prim_gcm_encrypt P k n m = Some c \<longrightarrow> prim_gcm_decrypt P k n c = Some m \<and> length c = length m + 16)"

datatype crypto_error =
    KeyInitError
  | EncryptError
  | InvalidEncryptedData
  | DecryptError

definition PBKDF2_ITERATIONS :: nat where "PBKDF2_ITERATIONS = 210000"
definition SALT_LEN :: nat where "SALT_LEN = 16"
definition NONCE_LEN :: nat where "NONCE_LEN = 12"
definition TAG_LEN :: nat where "TAG_LEN = 16"

text \<open>\<open>Aes256Gcm::new_from_slice\<close> accepts exactly the 32-byte keys.\<close>

definition new_from_slice :: "bytes \<Rightarrow> crypto_error + bytes" where
  "new_from_slice key = (if length key = 32 then Inr key else Inl KeyInitError)"

definition sha256 :: "primitives \<Rightarrow> bytes \<Rightarrow> bytes" where
  "sha256 P data = prim_sha256 P data"

definition sha256_hex :: "primitives \<Rightarrow> bytes \<Rightarrow> string" where
  "sha256_hex P data = prim_hex P (sha256 P data)"

definition derive_key :: "primitives \<Rightarrow> string \<Rightarrow> bytes \<Rightarrow> nat \<Rightarrow> bytes" where
  "derive_key P password salt iterations = prim_pbkdf2 P (as_bytes password) salt iterations"

section \<open>Password box\<close>

definition crypto_encrypt ::
  "primitives \<Rightarrow> bytes \<Rightarrow> bytes \<Rightarrow> bytes \<Rightarrow> string \<Rightarrow> crypto_error + bytes" where
  "crypto_encrypt P salt nonce data password =
    (let key = derive_key P password salt PBKDF2_ITERATIONS in
     res_bind (new_from_slice key) (\<lambda>cipher.
       case prim_gcm_encrypt P cipher nonce data of
         None \<Rightarrow> Inl EncryptError
       | Some ciphertext \<Rightarrow> Inr (salt @ nonce @ ciphertext)))"

definition crypto_decrypt :: "primitives \<Rightarrow> bytes \<Rightarrow> string \<Rightarrow> crypto_error + bytes" where
  "crypto_decrypt P data password =
    (if length data < SALT_LEN + NONCE_LEN then Inl InvalidEncryptedData
     else
       (let salt = take SALT_LEN data;
            key = derive_key P password salt PBKDF2_ITERATIONS in
        res_bind (new_from_slice key) (\<lambda>cipher.
          let nonce = take NONCE_LEN (drop SALT_LEN data);
              ciphertext = drop (SALT_LEN + NONCE_LEN) data in
          case prim_gcm_decrypt P cipher nonce ciphertext of
            None \<Rightarrow> Inl DecryptError
          | Some plaintext \<Rightarrow> Inr plaintext)))"

definition hmac_sha256 :: "primitives \<Rightarrow> string \<Rightarrow> bytes \<Rightarrow> string" where
  "hmac_sha256 P secret data = prim_hex P (prim_hmac P (as_bytes secret) data)"

definition verify_hmac :: "primitives \<Rightarrow> string \<Rightarrow> bytes \<Rightarrow> string \<Rightarrow> bool" where
  "verify_hmac P secret data signature = (let expected = hmac_sha256 P secret data in expected = signature)"

section \<open>Fixed-key box\<close>

record fixed_key_gcm =
  fk_key :: bytes

definition new_from_seed :: "primitives \<Rightarrow> bytes \<Rightarrow> fixed_key_gcm" where
  "new_from_seed P seed = \<lparr>fk_key = sha256 P seed\<rparr>"

definition fk_encrypt :: "primitives \<Rightarrow> fixed_key_gcm \<Rightarrow> bytes \<Rightarrow> bytes \<Rightarrow> crypto_error + bytes" where
  "fk_encrypt P k nonce plaintext =
    res_bind (new_from_slice (fk_key k)) (\<lambda>cipher.
      case prim_gcm_encrypt P cipher nonce plaintext of
        None \<Rightarrow> Inl EncryptError
      | Some ciphertext \<Rightarrow> Inr (nonce @ ciphertext))"

definition fk_decrypt :: "primitives \<Rightarrow> fixed_key_gcm \<Rightarrow> bytes \<Rightarrow> crypto_error + bytes" where
  "fk_decrypt P k blob =
    (if length blob < NONCE_LEN + TAG_LEN then Inl InvalidEncryptedData
     else res_bind (new_from_slice (fk_key k)) (\<lambda>cipher.
       let nonce = take NONCE_LEN blob in
       case prim_gcm_decrypt P cipher nonce (drop NONCE_LEN blob) of
         None \<Rightarrow> Inl DecryptError
       | Some m \<Rightarrow> Inr m))"

text \<open>
  \<open>qr_key\<close>: the first call derives the key from the configuration and stores it in a
  \<open>OnceLock\<close>; the second component is the cell afterwards.
\<close>

definition qr_key :: "primitives \<Rightarrow> app_config option \<Rightarrow> fixed_key_gcm option \<Rightarrow> fixed_key_gcm \<times> fixed_key_gcm option" where
  "qr_key P global cached =
    (case cached of
       Some k \<Rightarrow> (k, cached)
     | None \<Rightarrow>
        (let seed = (case global of
                       Some c \<Rightarrow> ac_get_str c KEY_SHARE_LINK_SECRET DEFAULT_SHARE_LINK_SECRET
                     | None \<Rightarrow> DEFAULT_SHARE_LINK_SECRET);
             k = new_from_seed P (as_bytes seed)
         in (k, Some k)))"

section \<open>Boxes\<close>

text \<open>
  What both boxes promise to the layers above: sealing under a nonce of the right length and
  opening is the identity, and a box too short for its header is refused before any
  cryptography is done.
\<close>

locale sealed_box =
  fixes seal :: "'n \<Rightarrow> bytes \<Rightarrow> 'e + bytes"
    and unseal :: "bytes \<Rightarrow> 'e + bytes"
    and header :: nat
    and short :: 'e
    and nonce_ok :: "'n \<Rightarrow> bool"
  assumes open_seal: "nonce_ok n \<Longrightarrow> seal n m = Inr b \<Longrightarrow> unseal b = Inr m"
    and seal_length: "nonce_ok n \<Longrightarrow> seal n m = Inr b \<Longrightarrow> header + length m \<le> length b"
    and open_short: "length b < header \<Longrightarrow> unseal b = Inl short"
begin

lemma seal_inj: "nonce_ok n \<Longrightarrow> nonce_ok n' \<Longrightarrow> seal n m = Inr b \<Longrightarrow> seal n' m' = Inr b \<Longrightarrow> m = m'"
  by (metis open_seal sum.inject(2))

lemma truncated_header:
  "k < header \<Longrightarrow> nonce_ok n \<Longrightarrow> seal n m = Inr b \<Longrightarrow> unseal (take k b) = Inl short"
  by (rule open_short) simp

end

definition primitives_toy :: primitives where
  "primitives_toy =
    \<lparr>prim_sha256 = \<lambda>d. replicate 32 (word_of_nat (length d)),
     prim_pbkdf2 = \<lambda>p s i. replicate 32 (word_of_nat (length p)),
     prim_gcm_encrypt = \<lambda>k n m. Some (m @ replicate 16 (hd k)),
     prim_gcm_decrypt = \<lambda>k n c. if drop (length c - 16) c = replicate 16 (hd k) then Some (take (length c - 16) c) else None,
     prim_hmac = \<lambda>k d. d, prim_hex = \<lambda>b. of_bytes b\<rparr>"

lemma primitives_toy_ok: "primitives_ok primitives_toy"
  by (simp add: primitives_ok_def primitives_toy_def)

lemma crypto_decrypt_encrypt:
  assumes "primitives_ok P" and "length salt = SALT_LEN" and "length nonce = NONCE_LEN"
    and "crypto_encrypt P salt nonce data password = Inr b"
  shows "crypto_decrypt P b password = Inr data"
proof -
  from assms(4) obtain c where
    c: "prim_gcm_encrypt P (derive_key P password salt PBKDF2_ITERATIONS) nonce data = Some c"
    and l: "length (derive_key P password salt PBKDF2_ITERATIONS) = 32"
    and b: "b = salt @ nonce @ c"
    by (auto simp: crypto_encrypt_def Let_def new_from_slice_def split: option.splits if_splits)
  from c assms(1) have "prim_gcm_decrypt P (derive_key P password salt PBKDF2_ITERATIONS) nonce c = Some data"
    unfolding primitives_ok_def by blast
  with l assms(2,3) show ?thesis
    by (simp add: b crypto_decrypt_def Let_def new_from_slice_def)
qed

lemma crypto_encrypt_length:
  assumes "primitives_ok P" and "crypto_encrypt P salt nonce data password = Inr b"
  shows "length b = length salt + length nonce + length data + 16"
  using assms unfolding primitives_ok_def
  by (auto simp: crypto_encrypt_def Let_def split: option.splits)

lemma fk_decrypt_encrypt:
  assumes "primitives_ok P" and "length nonce = NONCE_LEN" and "fk_encrypt P k nonce m = Inr b"
  shows "fk_decrypt P k b = Inr m" and "length b = NONCE_LEN + length m + TAG_LEN"
proof -
  from assms(3) obtain c where c: "prim_gcm_encrypt P (fk_key k) nonce m = Some c"
    and l: "length (fk_key k) = 32" and b: "b = nonce @ c"
    by (auto simp: fk_encrypt_def new_from_slice_def split: option.splits if_splits)
  from c assms(1) have d: "prim_gcm_decrypt P (fk_key k) nonce c = Some m" and lc: "length c = length m + 16"
    unfolding primitives_ok_def by blast+
  from d lc l assms(2) show "fk_decrypt P k b = Inr m"
    by (simp add: b fk_decrypt_def new_from_slice_def TAG_LEN_def)
  show "length b = NONCE_LEN + length m + TAG_LEN"
    by (simp add: b lc assms(2) TAG_LEN_def)
qed

lemma decrypt_short:
  "length b < SALT_LEN + NONCE_LEN \<Longrightarrow> crypto_decrypt P b password = Inl InvalidEncryptedData"
  "length b < NONCE_LEN + TAG_LEN \<Longrightarrow> fk_decrypt P k b = Inl InvalidEncryptedData"
  by (simp_all add: crypto_decrypt_def fk_decrypt_def)

text \<open>The contract holds under \<open>primitives_ok\<close>, which is part of what makes randomness acceptable.\<close>

interpretation pw: sealed_box
  "\<lambda>(salt, nonce) m. crypto_encrypt P salt nonce m password" "\<lambda>b. crypto_decrypt P b password"
  "SALT_LEN + NONCE_LEN" InvalidEncryptedData
  "\<lambda>(salt, nonce). primitives_ok P \<and> length salt = SALT_LEN \<and> length nonce = NONCE_LEN"
  for P password
  by unfold_locales
    (auto simp: crypto_decrypt_encrypt crypto_encrypt_length decrypt_short)

interpretation fk: sealed_box "fk_encrypt P k" "fk_decrypt P k" "NONCE_LEN + TAG_LEN" InvalidEncryptedData
  "\<lambda>nonce. primitives_ok P \<and> length nonce = NONCE_LEN"
  for P k
  by unfold_locales (auto simp: fk_decrypt_encrypt decrypt_short)

section \<open>Properties\<close>

text \<open>
  The password box: for a 16-byte salt and a 12-byte nonce, decrypting with the same password
  returns the data, the box is 44 bytes longer than the data, and anything shorter than the
  28-byte header is refused with \<open>Invalid encrypted data\<close>.
\<close>

theorem password_box:
  assumes "primitives_ok P" and "length salt = SALT_LEN" and "length nonce = NONCE_LEN"
    and "crypto_encrypt P salt nonce data password = Inr b"
  shows "crypto_decrypt P b password = Inr data \<and> length b = length data + 44 \<and>
    (n < 28 \<longrightarrow> crypto_decrypt P (take n b) password = Inl InvalidEncryptedData)"
  using pw.open_seal [where P = P and n = "(salt, nonce)" and m = data and b = b and password = password]
    pw.truncated_header [where k = n and P = P and n = "(salt, nonce)" and m = data and b = b and password = password]
    crypto_encrypt_length [OF assms(1,4)] assms
  by (simp add: SALT_LEN_def NONCE_LEN_def)

theorem password_box_witness:
  "crypto_decrypt primitives_toy
     (replicate 16 1 @ replicate 12 2 @ [5, 6] @ replicate 16 3) ''abc'' = Inr [5, 6]"
proof -
  have "crypto_encrypt primitives_toy (replicate 16 1) (replicate 12 2) [5, 6] ''abc'' =
      Inr (replicate 16 1 @ replicate 12 2 @ [5, 6] @ replicate 16 3)"
    by (simp add: crypto_encrypt_def new_from_slice_def derive_key_def primitives_toy_def)
  from password_box [OF primitives_toy_ok _ _ this, of 0] show ?thesis
    by (simp add: SALT_LEN_def NONCE_LEN_def)
qed

text \<open>
  The share-link key is fixed by its first use: once a key has been derived, a later change of
  \<open>SHARE_LINK_SECRET\<close> has no effect on links until the process restarts.
\<close>

theorem qr_key_cached:
  "fst (qr_key P cfg' (snd (qr_key P cfg cell))) = fst (qr_key P cfg cell) \<and>
   snd (qr_key P cfg' (snd (qr_key P cfg cell))) = snd (qr_key P cfg cell)"
  by (simp add: qr_key_def Let_def split: option.split)

end
