(* ===== verification/Compress.thy ===== *)
theory Compress
  imports Prelude
begin

text \<open>
  Compression, \<open>src-tauri/src/utils/compress.rs\<close>: the zstd codec with its purposes, and the
  adaptive format that falls back to the raw bytes when zstd does not make them smaller. The zstd
  crate is a parameter; \<open>zstd_ok\<close> is its documented round trip.
\<close>

record zstd_lib =
  zs_new :: "int \<Rightarrow> string option"
  zs_write :: "int \<Rightarrow> bytes \<Rightarrow> string option"
  zs_finish :: "int \<Rightarrow> bytes \<Rightarrow> string + bytes"
  zd_new :: "bytes \<Rightarrow> string option"
  zd_read :: "bytes \<Rightarrow> string + bytes"

definition zstd_ok :: "zstd_lib \<Rightarrow> bool" where
  "zstd_ok Z \<longleftrightarrow> (\<forall>l d c. zs_finish Z l d = Inr c \<longrightarrow> zd_new Z c = None \<and> zd_read Z c = Inr d)"

datatype compress_error =
    CompressInit string
  | CompressWrite string
  | CompressFinish string
  | DecompressInit string
  | DecompressRead string
  | CompressedEmpty
  | UnknownFormat u8

record zstd_codec =
  zc_level :: int

definition codec_id :: "zstd_codec \<Rightarrow> u8" where
  "codec_id c = 1"

text \<open>An encoder is created, fed and finished; each step may fail.\<close>

definition codec_compress :: "zstd_lib \<Rightarrow> zstd_codec \<Rightarrow> bytes \<Rightarrow> compress_error + bytes" where
  "codec_compress Z c data =
    (case zs_new Z (zc_level c) of
       Some e \<Rightarrow> Inl (CompressInit e)
     | None \<Rightarrow>
        (case zs_write Z (zc_level c) data of
           Some e \<Rightarrow> Inl (CompressWrite e)
         | None \<Rightarrow>
            (case zs_finish Z (zc_level c) data of
               Inl e \<Rightarrow> Inl (CompressFinish e)
             | Inr out \<Rightarrow> Inr out)))"

definition codec_decompress :: "zstd_lib \<Rightarrow> zstd_codec \<Rightarrow> bytes \<Rightarrow> compress_error + bytes" where
  "codec_decompress Z c data =
    (case zd_new Z data of
       Some e \<Rightarrow> Inl (DecompressInit e)
     | None \<Rightarrow> (case zd_read Z data of Inl e \<Rightarrow> Inl (DecompressRead e) | Inr out \<Rightarrow> Inr out))"

datatype compression_purpose = ShareLink | FileArchive

fun purpose_level :: "compression_purpose \<Rightarrow> int" where
  "purpose_level ShareLink = 3"
| "purpose_level FileArchive = 15"

definition purpose_codec :: "compression_purpose \<Rightarrow> zstd_codec" where
  "purpose_codec p = \<lparr>zc_level = purpose_level p\<rparr>"

definition FORMAT_ZSTD :: u8 where "FORMAT_ZSTD = 0"
definition FORMAT_RAW :: u8 where "FORMAT_RAW = 1"

definition adaptive_compress :: "zstd_lib \<Rightarrow> bytes \<Rightarrow> bytes" where
  "adaptive_compress Z data =
    (let z = \<lparr>zc_level = purpose_level ShareLink\<rparr> in
     case codec_compress Z z data of
       Inr compressed \<Rightarrow>
         if length compressed < length data then FORMAT_ZSTD # compressed else FORMAT_RAW # data
     | Inl _ \<Rightarrow> FORMAT_RAW # data)"

definition adaptive_decompress :: "zstd_lib \<Rightarrow> bytes \<Rightarrow> compress_error + bytes" where
  "adaptive_decompress Z data =
    (case data of
       [] \<Rightarrow> Inl CompressedEmpty
     | fmt # body \<Rightarrow>
        if fmt = FORMAT_ZSTD then
          (let z = \<lparr>zc_level = purpose_level ShareLink\<rparr> in codec_decompress Z z body)
        else if fmt = FORMAT_RAW then Inr body
        else Inl (UnknownFormat fmt))"

definition compress :: "zstd_lib \<Rightarrow> bytes \<Rightarrow> int \<Rightarrow> compress_error + bytes" where
  "compress Z data level = codec_compress Z \<lparr>zc_level = level\<rparr> data"

definition decompress :: "zstd_lib \<Rightarrow> bytes \<Rightarrow> compress_error + bytes" where
  "decompress Z data = codec_decompress Z \<lparr>zc_level = purpose_level ShareLink\<rparr> data"

section \<open>Properties\<close>

lemma codec_roundtrip:
  "zstd_ok Z \<Longrightarrow> codec_compress Z c d = Inr b \<Longrightarrow> codec_decompress Z c' b = Inr d"
  by (auto simp: zstd_ok_def codec_compress_def codec_decompress_def split: option.splits sum.splits)

lemma compress_roundtrip: "zstd_ok Z \<Longrightarrow> compress Z d l = Inr b \<Longrightarrow> decompress Z b = Inr d"
  unfolding compress_def decompress_def by (rule codec_roundtrip)

lemma adaptive_roundtrip: "zstd_ok Z \<Longrightarrow> adaptive_decompress Z (adaptive_compress Z d) = Inr d"
  by (auto simp: adaptive_compress_def adaptive_decompress_def FORMAT_ZSTD_def FORMAT_RAW_def
      codec_roundtrip split: sum.splits)

lemma adaptive_bound: "length (adaptive_compress Z d) \<le> length d + 1"
  by (auto simp: adaptive_compress_def Let_def split: sum.splits)

text \<open>
  The adaptive format is lossless whatever zstd does, it never costs more than its one format
  byte, and it uses zstd only when that makes the payload strictly smaller.
\<close>

theorem adaptive_compression:
  assumes "zstd_ok Z"
  shows "adaptive_decompress Z (adaptive_compress Z d) = Inr d \<and>
    length (adaptive_compress Z d) \<le> length d + 1 \<and>
    (hd (adaptive_compress Z d) = FORMAT_ZSTD \<longrightarrow> length (adaptive_compress Z d) \<le> length d)"
  using adaptive_roundtrip [OF assms] adaptive_bound
  by (auto simp: adaptive_compress_def Let_def FORMAT_ZSTD_def FORMAT_RAW_def split: sum.splits)

text \<open>A run-length stand-in for zstd on constant data, for concrete inputs.\<close>

definition zstd_toy :: zstd_lib where
  "zstd_toy =
    \<lparr>zs_new = \<lambda>l. None, zs_write = \<lambda>l d. None,
     zs_finish = \<lambda>l d. if d \<noteq> [] \<and> length d < 256 \<and> d = replicate (length d) (hd d)
        then Inr [word_of_nat (length d), hd d] else Inl ''no run'',
     zd_new = \<lambda>b. None,
     zd_read = \<lambda>b. case b of [n, x] \<Rightarrow> Inr (replicate (unat n) x) | _ \<Rightarrow> Inl ''bad''\<rparr>"

lemma zstd_toy_ok: "zstd_ok zstd_toy"
  by (auto simp: zstd_ok_def zstd_toy_def unat_word8_of_nat split: if_splits)

theorem adaptive_compression_witness:
  "adaptive_compress zstd_toy [7, 7, 7, 7] = [0, 4, 7] \<and>
   adaptive_decompress zstd_toy [0, 4, 7] = Inr [7, 7, 7, 7] \<and> length (adaptive_compress zstd_toy [7, 7, 7, 7]) \<le> 5"
proof -
  have e: "adaptive_compress zstd_toy [7, 7, 7, 7] = [0, 4, 7]"
    by (simp add: adaptive_compress_def codec_compress_def zstd_toy_def FORMAT_ZSTD_def)
  show ?thesis
    using adaptive_compression [OF zstd_toy_ok, of "[7, 7, 7, 7]"] by (simp add: e)
qed

end
