(* ===== verification/Qr_Link.thy ===== *)
theory Qr_Link
  imports Crypto_Box Compress
begin

text \<open>
  The encrypted link layer, \<open>src-tauri/src/qr/mod.rs\<close>: an event name and a payload are framed,
  compressed, encrypted, base64-encoded and put into a \<open>homeTier://qr\<close> URL, and back. The base64
  and url crates are parameters (\<open>link_lib\<close>); \<open>link_lib_ok\<close> is their documented behaviour on the
  links this module builds.
\<close>

record url =
  u_scheme :: string
  u_host :: "string option"
  u_query :: "(string \<times> string) list"

record link_lib =
  ll_b64 :: "bytes \<Rightarrow> string"
  ll_unb64 :: "string \<Rightarrow> bytes option"
  ll_url_parse :: "string \<Rightarrow> url option"
  ll_lower :: "string \<Rightarrow> string"

definition QR_LINK_PREFIX :: string where "QR_LINK_PREFIX = ''homeTier://qr''"
definition QR_VERSION :: nat where "QR_VERSION = 1"
definition QR_PAYLOAD_VERSION :: u8 where "QR_PAYLOAD_VERSION = 1"
definition PARAM_VERSION :: string where "PARAM_VERSION = ''v''"
definition PARAM_DATA :: string where "PARAM_DATA = ''d''"
definition EVENT_JOIN_SPACE :: string where "EVENT_JOIN_SPACE = ''j_s''"
definition EVENT_ADD_APP :: string where "EVENT_ADD_APP = ''a_a''"
definition MAX_EVENT_LEN :: nat where "MAX_EVENT_LEN = 255"

datatype qr_error =
    EventEmpty
  | EventTooLong
  | QrCrypto crypto_error
  | InvalidQrLink
  | InvalidQrLinkFormat
  | UnsupportedQrVersion
  | QrDataMissing
  | QrBase64Error
  | QrCompression compress_error
  | QrPayloadEmpty
  | UnsupportedPayload u8
  | MissingEventLen
  | EventTruncated
  | EventNotUtf8

definition lift_err :: "('e \<Rightarrow> 'f) \<Rightarrow> 'e + 'a \<Rightarrow> 'f + 'a" where
  "lift_err f r = (case r of Inl e \<Rightarrow> Inl (f e) | Inr x \<Rightarrow> Inr x)"

lemma lift_err_Inr [simp]: "lift_err f r = Inr x \<longleftrightarrow> r = Inr x"
  by (cases r) (auto simp: lift_err_def)

section \<open>Building and reading links\<close>

definition qr_payload :: "string \<Rightarrow> bytes \<Rightarrow> bytes" where
  "qr_payload event data =
    QR_PAYLOAD_VERSION # word_of_nat (length (as_bytes event)) # as_bytes event @ data"

definition qr_link :: "string \<Rightarrow> string" where
  "qr_link encoded =
    QR_LINK_PREFIX @ ''?'' @ PARAM_VERSION @ ''='' @ dec QR_VERSION @ ''&'' @ PARAM_DATA @ ''='' @ encoded"

text \<open>The second component of the results is the key cell of \<open>qr_key\<close>.\<close>

definition encrypt_qr ::
  "primitives \<Rightarrow> zstd_lib \<Rightarrow> link_lib \<Rightarrow> app_config option \<Rightarrow> fixed_key_gcm option \<Rightarrow> bytes \<Rightarrow>
   string \<Rightarrow> bytes \<Rightarrow> (qr_error + string) \<times> fixed_key_gcm option" where
  "encrypt_qr P Z L global cell nonce event data =
    (if as_bytes event = [] then (Inl EventEmpty, cell)
     else if length (as_bytes event) > MAX_EVENT_LEN then (Inl EventTooLong, cell)
     else
       (let compressed = adaptive_compress Z (qr_payload event data);
            (key, cell) = qr_key P global cell
        in (res_bind (lift_err QrCrypto (fk_encrypt P key nonce compressed)) (\<lambda>enc.
              Inr (qr_link (ll_b64 L enc))), cell)))"

definition find_param :: "string \<Rightarrow> (string \<times> string) list \<Rightarrow> string option" where
  "find_param name qs = map_option snd (List.find (\<lambda>(k, _). k = name) qs)"

text \<open>The frame inside the decrypted payload.\<close>

definition qr_unframe :: "bytes \<Rightarrow> qr_error + string \<times> bytes" where
  "qr_unframe payload =
    (case payload of
       [] \<Rightarrow> Inl QrPayloadEmpty
     | ver # cur \<Rightarrow>
        if ver \<noteq> QR_PAYLOAD_VERSION then Inl (UnsupportedPayload ver)
        else
          (case cur of
             [] \<Rightarrow> Inl MissingEventLen
           | l # cur \<Rightarrow>
              (let elen = unat l in
               if length cur < elen then Inl EventTruncated
               else
                 (case from_utf8 (take elen cur) of
                    None \<Rightarrow> Inl EventNotUtf8
                  | Some event \<Rightarrow> Inr (event, drop elen cur)))))"

definition decrypt_qr ::
  "primitives \<Rightarrow> zstd_lib \<Rightarrow> link_lib \<Rightarrow> app_config option \<Rightarrow> fixed_key_gcm option \<Rightarrow> string \<Rightarrow>
   (qr_error + string \<times> bytes) \<times> fixed_key_gcm option" where
  "decrypt_qr P Z L global cell link =
    (case ll_url_parse L (trim link) of
       None \<Rightarrow> (Inl InvalidQrLink, cell)
     | Some url \<Rightarrow>
        if ll_lower L (u_scheme url) \<noteq> ''hometier'' \<or> u_host url \<noteq> Some ''qr'' then (Inl InvalidQrLinkFormat, cell)
        else if find_param PARAM_VERSION (u_query url) \<noteq> Some (dec QR_VERSION) then (Inl UnsupportedQrVersion, cell)
        else
          (case find_param PARAM_DATA (u_query url) of
             None \<Rightarrow> (Inl QrDataMissing, cell)
           | Some data \<Rightarrow>
              (case ll_unb64 L data of
                 None \<Rightarrow> (Inl QrBase64Error, cell)
               | Some raw \<Rightarrow>
                  (let (key, cell) = qr_key P global cell in
                   (res_bind (lift_err QrCrypto (fk_decrypt P key raw)) (\<lambda>plaintext.
                    res_bind (lift_err QrCompression (adaptive_decompress Z plaintext)) qr_unframe), cell)))))"

section \<open>The libraries' behaviour on our links\<close>

definition url_safe :: "char \<Rightarrow> bool" where
  "url_safe c \<longleftrightarrow> c \<in> set ''ABCDEFGHIJKLMNOPQRSTUVWXYZabcdefghijklmnopqrstuvwxyz0123456789-_''"

text \<open>
  URL-safe base64 without padding decodes what it encodes and uses its 64 letters only; the URL
  parser lower-cases the scheme and splits the query of such a link into its two pairs; and
  \<open>to_lowercase\<close> leaves the lower-case scheme alone.
\<close>

definition link_lib_ok :: "link_lib \<Rightarrow> bool" where
  "link_lib_ok L \<longleftrightarrow>
     (\<forall>b. ll_unb64 L (ll_b64 L b) = Some b \<and> list_all url_safe (ll_b64 L b)) \<and>
     (\<forall>e. list_all url_safe e \<longrightarrow>
        ll_url_parse L (qr_link e) =
          Some \<lparr>u_scheme = ''hometier'', u_host = Some ''qr'', u_query = [(''v'', ''1''), (''d'', e)]\<rparr>) \<and>
     ll_lower L ''hometier'' = ''hometier''"

lemma url_safe_visible: "url_safe c \<Longrightarrow> visible c"
  unfolding url_safe_def by (auto simp: visible_def ws1_def)

lemma qr_link_trim: "list_all url_safe e \<Longrightarrow> trim (qr_link e) = qr_link e"
proof -
  assume e: "list_all url_safe e"
  have "list_all visible (qr_link e)"
    using e by (auto simp: qr_link_def QR_LINK_PREFIX_def PARAM_VERSION_def PARAM_DATA_def QR_VERSION_def
        dec.simps digit_char_def visible_def ws1_def list_all_iff dest!: url_safe_visible)
  then show ?thesis
    by (intro trim_id visible_trimmed)
qed

lemma qr_unframe_payload:
  "length event \<le> 255 \<Longrightarrow> is_utf8 event \<Longrightarrow> qr_unframe (qr_payload event data) = Inr (event, data)"
  by (simp add: qr_unframe_def qr_payload_def unat_word8_of_nat)

lemma decrypt_qr_link:
  assumes "link_lib_ok L"
  shows "fst (decrypt_qr P Z L cfg cell (qr_link (ll_b64 L raw))) =
    res_bind (lift_err QrCrypto (fk_decrypt P (fst (qr_key P cfg cell)) raw)) (\<lambda>plaintext.
    res_bind (lift_err QrCompression (adaptive_decompress Z plaintext)) qr_unframe)"
proof -
  have "list_all url_safe (ll_b64 L raw)" "ll_unb64 L (ll_b64 L raw) = Some raw"
    using assms by (simp_all add: link_lib_ok_def)
  moreover have "dec QR_VERSION = ''1''"
    by code_simp
  ultimately show ?thesis
    using assms
    by (simp add: decrypt_qr_def qr_link_trim link_lib_ok_def find_param_def PARAM_VERSION_def PARAM_DATA_def
        case_prod_unfold Let_def)
qed

lemma qr_decrypt_encrypt:
  assumes "primitives_ok P" and "zstd_ok Z" and "link_lib_ok L" and "length nonce = NONCE_LEN"
    and "is_utf8 event" and "encrypt_qr P Z L cfg cell nonce event data = (Inr link, cell')"
    and "fst (qr_key P cfg2 cell2) = fst (qr_key P cfg cell)"
  shows "fst (decrypt_qr P Z L cfg2 cell2 link) = Inr (event, data)"
proof -
  let ?k = "fst (qr_key P cfg cell)"
  from assms(6) obtain enc where enc: "fk_encrypt P ?k nonce (adaptive_compress Z (qr_payload event data)) = Inr enc"
    and link: "link = qr_link (ll_b64 L enc)" and len: "length event \<le> 255"
    by (auto simp: encrypt_qr_def MAX_EVENT_LEN_def Let_def case_prod_unfold split: if_splits)
  have "fk_decrypt P ?k enc = Inr (adaptive_compress Z (qr_payload event data))"
    using fk.open_seal [OF _ enc] assms(1,4) by simp
  then show ?thesis
    using assms(5,7) len adaptive_roundtrip [OF assms(2)]
    by (simp add: link decrypt_qr_link [OF assms(3)] qr_unframe_payload)
qed

section \<open>Properties\<close>

text \<open>
  A link made by \<open>encrypt_qr\<close> is read by \<open>decrypt_qr\<close> as the same event and data in every process
  that derives the same share-link key, whatever the nonce.
\<close>

theorem qr_link_roundtrip:
  assumes "primitives_ok P" and "zstd_ok Z" and "link_lib_ok L" and "length nonce = NONCE_LEN"
    and "is_utf8 event" and "encrypt_qr P Z L cfg cell nonce event data = (Inr link, cell')"
    and "fst (qr_key P cfg2 cell2) = fst (qr_key P cfg cell)"
  shows "fst (decrypt_qr P Z L cfg2 cell2 link) = Inr (event, data)"
  using assms by (rule qr_decrypt_encrypt)

text \<open>Concrete stand-ins for base64 and the URL parser.\<close>

definition nib :: "nat \<Rightarrow> char" where "nib n = ''ABCDEFGHIJKLMNOP'' ! n"

fun toy_unb64 :: "string \<Rightarrow> bytes option" where
  "toy_unb64 [] = Some []"
| "toy_unb64 [c] = None"
| "toy_unb64 (c # d # s) =
    map_option ((#) (word_of_nat (16 * (of_char c - 65) + (of_char d - 65)))) (toy_unb64 s)"

definition link_toy :: link_lib where
  "link_toy =
    \<lparr>ll_b64 = \<lambda>b. concat (map (\<lambda>x. [nib (unat x div 16), nib (unat x mod 16)]) b),
     ll_unb64 = toy_unb64,
     ll_url_parse = \<lambda>s. if starts_with s (qr_link [])
       then Some \<lparr>u_scheme = ''hometier'', u_host = Some ''qr'',
                  u_query = [(''v'', ''1''), (''d'', drop (length (qr_link [])) s)]\<rparr>
       else None,
     ll_lower = \<lambda>s. s\<rparr>"

lemma nib_props: "n < 16 \<Longrightarrow> url_safe (nib n) \<and> of_char (nib n) = 65 + n"
proof -
  assume "n < 16"
  then have "n \<in> {0, 1, 2, 3, 4, 5, 6, 7, 8, 9, 10, 11, 12, 13, 14, 15}"
    unfolding insert_iff empty_iff by presburger
  then show ?thesis
    by (auto simp: nib_def url_safe_def)
qed

lemma link_toy_ok: "link_lib_ok link_toy"
proof -
  have byte: "unat (x :: u8) div 16 < 16" "unat x mod 16 < 16" for x
    using unsigned_less [of x, where ?'a = nat] by (simp_all add: less_mult_imp_div_less)
  have safe: "url_safe (nib (unat (x :: u8) div 16))" "url_safe (nib (unat x mod 16))" for x
    using nib_props [OF byte(1)] nib_props [OF byte(2)] by blast+
  have "toy_unb64 (concat (map (\<lambda>x. [nib (unat x div 16), nib (unat x mod 16)]) b)) = Some b" for b
    by (induction b) (simp_all add: byte nib_props [THEN conjunct2])
  moreover have "list_all url_safe (concat (map (\<lambda>x. [nib (unat x div 16), nib (unat x mod 16)]) b))" for b :: bytes
    by (induction b) (simp_all add: safe)
  moreover have "ll_url_parse link_toy (qr_link e) =
      Some \<lparr>u_scheme = ''hometier'', u_host = Some ''qr'', u_query = [(''v'', ''1''), (''d'', e)]\<rparr>" for e
  proof -
    have q: "qr_link e = qr_link [] @ e"
      by (simp add: qr_link_def)
    have "starts_with (qr_link e) (qr_link [])" "drop (length (qr_link [])) (qr_link e) = e"
      unfolding q starts_with_iff by simp_all
    then show ?thesis
      by (simp add: link_toy_def)
  qed
  ultimately show ?thesis
    unfolding link_lib_ok_def by (simp add: link_toy_def)
qed

theorem qr_link_roundtrip_witness:
  "fst (decrypt_qr primitives_toy zstd_toy link_toy None None
     (qr_link (ll_b64 link_toy
        (replicate 12 9 @ adaptive_compress zstd_toy (qr_payload ''j_s'' [1, 2]) @ replicate 16 14)))) = Inr (''j_s'', [1, 2])"
proof -
  have s: "sha256 primitives_toy (as_bytes DEFAULT_SHARE_LINK_SECRET) = replicate 32 14"
    by (simp add: sha256_def primitives_toy_def DEFAULT_SHARE_LINK_SECRET_def)
  have f: "fk_encrypt primitives_toy \<lparr>fk_key = replicate 32 14\<rparr> n m = Inr (n @ m @ replicate 16 14)" for n m
    by (simp add: fk_encrypt_def new_from_slice_def primitives_toy_def)
  obtain cell where e: "encrypt_qr primitives_toy zstd_toy link_toy None None (replicate 12 9) ''j_s'' [1, 2] =
      (Inr (qr_link (ll_b64 link_toy
        (replicate 12 9 @ adaptive_compress zstd_toy (qr_payload ''j_s'' [1, 2]) @ replicate 16 14))), cell)"
    by (auto simp: encrypt_qr_def MAX_EVENT_LEN_def qr_key_def new_from_seed_def s f Let_def)
  show ?thesis
    by (rule qr_link_roundtrip [OF primitives_toy_ok zstd_toy_ok link_toy_ok _ _ e])
      (simp_all add: NONCE_LEN_def is_utf8_def)
qed

end
