(* ===== verification/Share_Codec.thy ===== *)
theory Share_Codec
  imports Rust_Str
begin

text \<open>
  The binary form of a space invitation, \<open>src-tauri/src/space/share.rs\<close>: \<open>ShareInfo\<close> is written
  as a version byte, a flag byte, one-byte length-prefixed strings and two counted string lists.
  The locale \<open>prefix_codec\<close> states what the field codec promises to the record codec, and the
  counted lists are verified once inside it.
\<close>

unbundle bit_operations_syntax

section \<open>Data\<close>

record share_info =
  si_name :: "string option"
  si_network_name :: string
  si_network_secret :: string
  si_host_hint :: "string option"
  si_virtual_ip :: "string option"
  si_dhcp :: "bool option"
  si_peer_urls :: "string list"
  si_listener_urls :: "string list"

text \<open>One constructor per error message of the source, with the values the message shows.\<close>

datatype share_error =
    StringTooLong string string
  | TooManyPeerUrls
  | TooManyListenerUrls
  | MissingLengthByte
  | StringTruncated
  | StringNotUtf8
  | ShareDataEmpty
  | UnsupportedVersion u8
  | MissingFlags
  | MissingDhcp
  | IllegalDhcp u8
  | MissingPeerCount
  | MissingListenerCount

definition PAYLOAD_VERSION :: u8 where "PAYLOAD_VERSION = 1"
definition FLAG_NAME :: u8 where "FLAG_NAME = 1"
definition FLAG_HOST_HINT :: u8 where "FLAG_HOST_HINT = 2"
definition FLAG_VIRTUAL_IP :: u8 where "FLAG_VIRTUAL_IP = 4"
definition FLAG_DHCP :: u8 where "FLAG_DHCP = 8"
definition MAX_STRING_LEN :: nat where "MAX_STRING_LEN = 255"

lemmas flag_defs = FLAG_NAME_def FLAG_HOST_HINT_def FLAG_VIRTUAL_IP_def FLAG_DHCP_def

section \<open>Field codec\<close>

text \<open>The output vector is passed along; every writer appends to it.\<close>

definition write_string :: "bytes \<Rightarrow> string \<Rightarrow> string \<Rightarrow> share_error + bytes" where
  "write_string out s field =
    (let b = as_bytes s in
     if length b > MAX_STRING_LEN then Inl (StringTooLong field s)
     else Inr (out @ word_of_nat (length b) # b))"

definition read_string :: "bytes \<Rightarrow> share_error + string \<times> bytes" where
  "read_string input =
    (case input of
       [] \<Rightarrow> Inl MissingLengthByte
     | l # input1 \<Rightarrow>
        (let len = unat l in
         if length input1 < len then Inl StringTruncated
         else (case from_utf8 (take len input1) of
                 None \<Rightarrow> Inl StringNotUtf8
               | Some s \<Rightarrow> Inr (s, drop len input1))))"

text \<open>The \<open>for\<close> loops over a list of values, and \<open>for _ in 0..count\<close> on the reading side.\<close>

fun write_all :: "(bytes \<Rightarrow> 'a \<Rightarrow> 'e + bytes) \<Rightarrow> bytes \<Rightarrow> 'a list \<Rightarrow> 'e + bytes" where
  "write_all wr out [] = Inr out"
| "write_all wr out (x # xs) = res_bind (wr out x) (\<lambda>out'. write_all wr out' xs)"

fun read_n :: "(bytes \<Rightarrow> 'e + 'a \<times> bytes) \<Rightarrow> nat \<Rightarrow> bytes \<Rightarrow> 'e + 'a list \<times> bytes" where
  "read_n rd 0 inp = Inr ([], inp)"
| "read_n rd (Suc n) inp =
    res_bind (rd inp) (\<lambda>(x, inp'). res_bind (read_n rd n inp') (\<lambda>(xs, inp''). Inr (x # xs, inp'')))"

definition write_opt :: "(bytes \<Rightarrow> 'a \<Rightarrow> 'e + bytes) \<Rightarrow> bytes \<Rightarrow> 'a option \<Rightarrow> 'e + bytes" where
  "write_opt wr out x = (case x of None \<Rightarrow> Inr out | Some v \<Rightarrow> wr out v)"

definition read_opt :: "(bytes \<Rightarrow> 'e + 'a \<times> bytes) \<Rightarrow> bool \<Rightarrow> bytes \<Rightarrow> 'e + 'a option \<times> bytes" where
  "read_opt rd present inp =
    (if present then res_bind (rd inp) (\<lambda>(x, inp'). Inr (Some x, inp')) else Inr (None, inp))"

section \<open>Record codec\<close>

definition write_dhcp :: "bytes \<Rightarrow> bool \<Rightarrow> share_error + bytes" where
  "write_dhcp out b = Inr (out @ [if b then 1 else 0])"

definition share_flags :: "share_info \<Rightarrow> u8" where
  "share_flags info =
    (let flags = 0;
         flags = (if si_name info \<noteq> None then flags OR FLAG_NAME else flags);
         flags = (if si_host_hint info \<noteq> None then flags OR FLAG_HOST_HINT else flags);
         flags = (if si_virtual_ip info \<noteq> None then flags OR FLAG_VIRTUAL_IP else flags);
         flags = (if si_dhcp info \<noteq> None then flags OR FLAG_DHCP else flags)
     in flags)"

definition write_count :: "share_error \<Rightarrow> bytes \<Rightarrow> string list \<Rightarrow> share_error + bytes" where
  "write_count err out xs =
    (if length xs > 255 then Inl err else Inr (out @ [word_of_nat (length xs)]))"

definition encode_share_binary :: "share_info \<Rightarrow> share_error + bytes" where
  "encode_share_binary info =
    res_bind (write_string [PAYLOAD_VERSION, share_flags info] (si_network_name info) ''network_name'') (\<lambda>out.
    res_bind (write_string out (si_network_secret info) ''network_secret'') (\<lambda>out.
    res_bind (write_opt (\<lambda>out s. write_string out s ''name'') out (si_name info)) (\<lambda>out.
    res_bind (write_opt (\<lambda>out s. write_string out s ''host_hint'') out (si_host_hint info)) (\<lambda>out.
    res_bind (write_opt (\<lambda>out s. write_string out s ''virtual_ip'') out (si_virtual_ip info)) (\<lambda>out.
    res_bind (write_opt write_dhcp out (si_dhcp info)) (\<lambda>out.
    res_bind (write_count TooManyPeerUrls out (si_peer_urls info)) (\<lambda>out.
    res_bind (write_all (\<lambda>out s. write_string out s ''peer_url'') out (si_peer_urls info)) (\<lambda>out.
    res_bind (write_count TooManyListenerUrls out (si_listener_urls info)) (\<lambda>out.
    write_all (\<lambda>out s. write_string out s ''listener_url'') out (si_listener_urls info))))))))))"

text \<open>\<open>if cur.is_empty() { return Err(..) }\<close> followed by taking the first byte.\<close>

definition next_byte :: "share_error \<Rightarrow> bytes \<Rightarrow> share_error + u8 \<times> bytes" where
  "next_byte err cur = (case cur of [] \<Rightarrow> Inl err | b # cur' \<Rightarrow> Inr (b, cur'))"

definition read_dhcp :: "bytes \<Rightarrow> share_error + bool \<times> bytes" where
  "read_dhcp cur =
    res_bind (next_byte MissingDhcp cur) (\<lambda>(b, cur).
      if b = 0 then Inr (False, cur) else if b = 1 then Inr (True, cur) else Inl (IllegalDhcp b))"

definition decode_share_binary :: "bytes \<Rightarrow> share_error + share_info" where
  "decode_share_binary data =
    res_bind (next_byte ShareDataEmpty data) (\<lambda>(version, cur).
    if version \<noteq> PAYLOAD_VERSION then Inl (UnsupportedVersion version) else
    res_bind (next_byte MissingFlags cur) (\<lambda>(flags, cur).
    res_bind (read_string cur) (\<lambda>(network_name, cur).
    res_bind (read_string cur) (\<lambda>(network_secret, cur).
    res_bind (read_opt read_string (flags AND FLAG_NAME \<noteq> 0) cur) (\<lambda>(name, cur).
    res_bind (read_opt read_string (flags AND FLAG_HOST_HINT \<noteq> 0) cur) (\<lambda>(host_hint, cur).
    res_bind (read_opt read_string (flags AND FLAG_VIRTUAL_IP \<noteq> 0) cur) (\<lambda>(virtual_ip, cur).
    res_bind (read_opt read_dhcp (flags AND FLAG_DHCP \<noteq> 0) cur) (\<lambda>(dhcp, cur).
    res_bind (next_byte MissingPeerCount cur) (\<lambda>(peer_count, cur).
    res_bind (read_n read_string (unat peer_count) cur) (\<lambda>(peer_urls, cur).
    res_bind (next_byte MissingListenerCount cur) (\<lambda>(listener_count, cur).
    res_bind (read_n read_string (unat listener_count) cur) (\<lambda>(listener_urls, cur).
      Inr \<lparr>si_name = name, si_network_name = network_name, si_network_secret = network_secret,
           si_host_hint = host_hint, si_virtual_ip = virtual_ip, si_dhcp = dhcp,
           si_peer_urls = peer_urls, si_listener_urls = listener_urls\<rparr>))))))))))))"

section \<open>What a field codec promises\<close>

text \<open>
  A writer \<open>wr\<close> and a reader \<open>rd\<close> of one field: \<open>enc\<close> is the layout they agree on, \<open>fits\<close> is
  what the writer accepts and \<open>valid\<close> is the type invariant of the values. The reader hands
  back the input that follows the field.
\<close>

locale prefix_codec =
  fixes wr :: "bytes \<Rightarrow> 'a \<Rightarrow> 'e + bytes"
    and rd :: "bytes \<Rightarrow> 'e + 'a \<times> bytes"
    and enc :: "'a \<Rightarrow> bytes"
    and fits :: "'a \<Rightarrow> bool"
    and valid :: "'a \<Rightarrow> bool"
  assumes wr_iff: "wr out x = Inr out' \<longleftrightarrow> fits x \<and> out' = out @ enc x"
    and rd_enc: "fits x \<Longrightarrow> valid x \<Longrightarrow> rd (enc x @ rest) = Inr (x, rest)"
    and rd_only: "rd inp = Inr (x, rest) \<Longrightarrow> fits x \<and> valid x \<and> inp = enc x @ rest"
begin

definition enc_opt :: "'a option \<Rightarrow> bytes" where
  "enc_opt x = (case x of None \<Rightarrow> [] | Some v \<Rightarrow> enc v)"

lemma write_opt_iff:
  "write_opt wr out x = Inr out' \<longleftrightarrow> pred_option fits x \<and> out' = out @ enc_opt x"
  by (cases x) (auto simp: write_opt_def enc_opt_def wr_iff)

lemma read_opt_enc:
  "p = (x \<noteq> None) \<Longrightarrow> pred_option fits x \<Longrightarrow> pred_option valid x \<Longrightarrow>
     read_opt rd p (enc_opt x @ rest) = Inr (x, rest)"
  by (cases x) (auto simp: read_opt_def enc_opt_def rd_enc)

lemma read_opt_only:
  "read_opt rd p inp = Inr (x, rest) \<Longrightarrow>
     pred_option fits x \<and> pred_option valid x \<and> (x \<noteq> None) = p \<and> inp = enc_opt x @ rest"
  by (auto simp: read_opt_def enc_opt_def split: if_splits dest: rd_only)

lemma write_all_iff:
  "write_all wr out xs = Inr out' \<longleftrightarrow> list_all fits xs \<and> out' = out @ concat (map enc xs)"
  by (induction xs arbitrary: out) (auto simp: wr_iff)

lemma read_n_enc:
  "list_all fits xs \<Longrightarrow> list_all valid xs \<Longrightarrow>
     read_n rd (length xs) (concat (map enc xs) @ rest) = Inr (xs, rest)"
  by (induction xs) (auto simp: rd_enc)

lemma read_n_only:
  "read_n rd n inp = Inr (xs, rest) \<Longrightarrow>
     length xs = n \<and> list_all fits xs \<and> list_all valid xs \<and> inp = concat (map enc xs) @ rest"
proof (induction n arbitrary: inp xs)
  case 0
  then show ?case by auto
next
  case (Suc n)
  then obtain x inp' ys where "rd inp = Inr (x, inp')" "read_n rd n inp' = Inr (ys, rest)" "xs = x # ys"
    by auto
  with rd_only Suc.IH show ?case by fastforce
qed

end

definition enc_string :: "string \<Rightarrow> bytes" where
  "enc_string s = word_of_nat (length s) # as_bytes s"

definition fits_string :: "string \<Rightarrow> bool" where
  "fits_string s = (length s \<le> MAX_STRING_LEN)"

lemma write_string_iff:
  "write_string out s field = Inr out' \<longleftrightarrow> fits_string s \<and> out' = out @ enc_string s"
  by (auto simp: write_string_def enc_string_def fits_string_def Let_def)

lemma read_string_enc:
  "fits_string s \<Longrightarrow> is_utf8 s \<Longrightarrow> read_string (enc_string s @ rest) = Inr (s, rest)"
  by (simp add: read_string_def enc_string_def fits_string_def MAX_STRING_LEN_def unat_word8_of_nat)

lemma read_string_only:
  assumes "read_string inp = Inr (s, rest)"
  shows "fits_string s \<and> is_utf8 s \<and> inp = enc_string s @ rest"
proof -
  from assms obtain l inp1 where inp: "inp = l # inp1" "unat l \<le> length inp1"
    and u: "from_utf8 (take (unat l) inp1) = Some s" and r: "rest = drop (unat l) inp1"
    by (auto simp: read_string_def Let_def split: list.splits if_splits option.splits)
  from u have s: "is_utf8 s" "as_bytes s = take (unat l) inp1"
    by (auto dest: from_utf8_SomeD)
  with inp have len: "length s = unat l"
    by (metis length_as_bytes length_take min.absorb2)
  moreover have "unat l < 256"
    using unsigned_less [of l, where ?'a = nat] by simp
  ultimately show ?thesis
    using inp r s by (simp add: fits_string_def enc_string_def MAX_STRING_LEN_def)
qed

interpretation str: prefix_codec "\<lambda>out s. write_string out s field" read_string enc_string fits_string is_utf8
  for field
  by unfold_locales (auto simp: write_string_iff read_string_enc dest: read_string_only)

definition enc_dhcp :: "bool \<Rightarrow> bytes" where
  "enc_dhcp b = [if b then 1 else 0]"

interpretation dhcp: prefix_codec write_dhcp read_dhcp enc_dhcp "\<lambda>_. True" "\<lambda>_. True"
  by unfold_locales
    (auto simp: write_dhcp_def enc_dhcp_def read_dhcp_def next_byte_def split: list.splits if_splits)

section \<open>The record layout\<close>

definition share_fits :: "share_info \<Rightarrow> bool" where
  "share_fits info \<longleftrightarrow>
     fits_string (si_network_name info) \<and> fits_string (si_network_secret info) \<and>
     pred_option fits_string (si_name info) \<and> pred_option fits_string (si_host_hint info) \<and>
     pred_option fits_string (si_virtual_ip info) \<and>
     length (si_peer_urls info) \<le> 255 \<and> list_all fits_string (si_peer_urls info) \<and>
     length (si_listener_urls info) \<le> 255 \<and> list_all fits_string (si_listener_urls info)"

text \<open>Every \<open>String\<close> of Rust is valid UTF-8.\<close>

definition share_utf8 :: "share_info \<Rightarrow> bool" where
  "share_utf8 info \<longleftrightarrow>
     is_utf8 (si_network_name info) \<and> is_utf8 (si_network_secret info) \<and>
     pred_option is_utf8 (si_name info) \<and> pred_option is_utf8 (si_host_hint info) \<and>
     pred_option is_utf8 (si_virtual_ip info) \<and>
     list_all is_utf8 (si_peer_urls info) \<and> list_all is_utf8 (si_listener_urls info)"

definition share_body :: "share_info \<Rightarrow> bytes" where
  "share_body info =
     enc_string (si_network_name info) @ enc_string (si_network_secret info) @
     str.enc_opt (si_name info) @ str.enc_opt (si_host_hint info) @ str.enc_opt (si_virtual_ip info) @
     dhcp.enc_opt (si_dhcp info) @
     word_of_nat (length (si_peer_urls info)) # concat (map enc_string (si_peer_urls info)) @
     word_of_nat (length (si_listener_urls info)) # concat (map enc_string (si_listener_urls info))"

lemma write_count_iff:
  "write_count err out xs = Inr out' \<longleftrightarrow> length xs \<le> 255 \<and> out' = out @ [word_of_nat (length xs)]"
  by (auto simp: write_count_def)

lemma encode_share_binary_iff:
  "encode_share_binary info = Inr b \<longleftrightarrow>
     share_fits info \<and> b = PAYLOAD_VERSION # share_flags info # share_body info"
  unfolding encode_share_binary_def
  by (auto simp: str.write_opt_iff dhcp.write_opt_iff str.write_all_iff write_string_iff
      write_count_iff share_fits_def share_body_def option.pred_True)

lemma share_flags_bits:
  "share_flags info AND FLAG_NAME \<noteq> 0 \<longleftrightarrow> si_name info \<noteq> None"
  "share_flags info AND FLAG_HOST_HINT \<noteq> 0 \<longleftrightarrow> si_host_hint info \<noteq> None"
  "share_flags info AND FLAG_VIRTUAL_IP \<noteq> 0 \<longleftrightarrow> si_virtual_ip info \<noteq> None"
  "share_flags info AND FLAG_DHCP \<noteq> 0 \<longleftrightarrow> si_dhcp info \<noteq> None"
  by (simp_all add: share_flags_def flag_defs Let_def)

lemma and_pow_eq: "(w :: u8) AND 2 ^ n \<noteq> 0 \<Longrightarrow> w AND 2 ^ n = 2 ^ n"
  by (intro bit_word_eqI) (auto simp: bit_and_iff bit_exp_iff and_exp_eq_0_iff_not_bit)

lemma share_flags_of_bits:
  assumes "(si_name info \<noteq> None) = (w AND FLAG_NAME \<noteq> 0)"
    and "(si_host_hint info \<noteq> None) = (w AND FLAG_HOST_HINT \<noteq> 0)"
    and "(si_virtual_ip info \<noteq> None) = (w AND FLAG_VIRTUAL_IP \<noteq> 0)"
    and "(si_dhcp info \<noteq> None) = (w AND FLAG_DHCP \<noteq> 0)"
  shows "share_flags info = w AND 15"
proof -
  have "w AND 15 = w AND (1 OR 2 OR 4 OR 8)"
    by simp
  also have "\<dots> = w AND 1 OR w AND 2 OR w AND 4 OR w AND 8"
    by (simp only: bit.conj_disj_distrib)
  also have "\<dots> = (if w AND 1 \<noteq> 0 then 1 else 0) OR (if w AND 2 \<noteq> 0 then 2 else 0) OR
      (if w AND 4 \<noteq> 0 then 4 else 0) OR (if w AND 8 \<noteq> 0 then 8 else 0)"
    using and_pow_eq [of w 0] and_pow_eq [of w 1] and_pow_eq [of w 2] and_pow_eq [of w 3]
    by (intro arg_cong2 [where f = "(OR)"]) (auto simp del: and_one_eq)
  finally have w: "w AND 15 = \<dots>" .
  show ?thesis
    unfolding w share_flags_def Let_def assms flag_defs
    by (cases "w AND 1 = 0"; cases "w AND 2 = 0"; cases "w AND 4 = 0"; cases "w AND 8 = 0")
      (simp_all del: and_one_eq)
qed

lemma decode_share_layout:
  assumes "share_fits info" and "share_utf8 info"
  shows "decode_share_binary (PAYLOAD_VERSION # share_flags info # share_body info @ rest) = Inr info"
  using assms
  by (simp add: decode_share_binary_def next_byte_def share_body_def share_fits_def share_utf8_def
      share_flags_bits str.rd_enc str.read_opt_enc dhcp.read_opt_enc str.read_n_enc unat_word8_of_nat
      option.pred_True)

lemma next_byte_Inr: "next_byte err cur = Inr (b, cur') \<longleftrightarrow> cur = b # cur'"
  by (auto simp: next_byte_def split: list.splits)

lemma decode_share_binary_only:
  assumes "decode_share_binary data = Inr info"
  shows "\<exists>flags rest. data = PAYLOAD_VERSION # flags # share_body info @ rest \<and>
           share_flags info = flags AND 15 \<and> share_fits info \<and> share_utf8 info"
proof -
  from assms obtain flags c1 c2 c3 c4 c5 c6 c7 pc c8 lc rest where
    data: "data = PAYLOAD_VERSION # flags # c1"
    and r: "read_string c1 = Inr (si_network_name info, c2)"
      "read_string c2 = Inr (si_network_secret info, c3)"
      "read_opt read_string (flags AND FLAG_NAME \<noteq> 0) c3 = Inr (si_name info, c4)"
      "read_opt read_string (flags AND FLAG_HOST_HINT \<noteq> 0) c4 = Inr (si_host_hint info, c5)"
      "read_opt read_string (flags AND FLAG_VIRTUAL_IP \<noteq> 0) c5 = Inr (si_virtual_ip info, c6)"
      "read_opt read_dhcp (flags AND FLAG_DHCP \<noteq> 0) c6 = Inr (si_dhcp info, pc # c7)"
      "read_n read_string (unat pc) c7 = Inr (si_peer_urls info, lc # c8)"
      "read_n read_string (unat lc) c8 = Inr (si_listener_urls info, rest)"
    by (auto simp: decode_share_binary_def next_byte_Inr split: if_splits)
  note only = str.rd_only [OF r(1)] str.rd_only [OF r(2)] str.read_opt_only [OF r(3)]
    str.read_opt_only [OF r(4)] str.read_opt_only [OF r(5)] dhcp.read_opt_only [OF r(6)]
    str.read_n_only [OF r(7)] str.read_n_only [OF r(8)]
  have small: "unat (w :: u8) \<le> 255" "word_of_nat (unat w) = w" for w :: u8
    using unsigned_less [of w, where ?'a = nat] by simp_all
  from only have "share_flags info = flags AND 15"
    by (intro share_flags_of_bits) simp_all
  moreover from only small have "share_fits info" "share_utf8 info"
    by (simp_all add: share_fits_def share_utf8_def)
  moreover from only small have "c1 = share_body info @ rest"
    by (simp add: share_body_def)
  ultimately show ?thesis
    using data by blast
qed

section \<open>Properties\<close>

text \<open>
  C2: Round trip. Whatever \<open>encode_share_binary\<close> produces for an invitation made of valid UTF-8
  strings, \<open>decode_share_binary\<close> reads back as the same invitation, whatever bytes follow it.
\<close>

theorem share_roundtrip:
  assumes "share_utf8 info" and "encode_share_binary info = Inr b"
  shows "decode_share_binary (b @ rest) = Inr info"
  using assms decode_share_layout by (simp add: encode_share_binary_iff)

definition sample_share :: share_info where
  "sample_share =
    \<lparr>si_name = Some ''net'', si_network_name = ''small'', si_network_secret = ''s'',
     si_host_hint = None, si_virtual_ip = Some ''10.0.0.1'', si_dhcp = Some False,
     si_peer_urls = [''tcp://a:1'', ''udp://b:2''], si_listener_urls = []\<rparr>"

lemma sample_share_ok: "share_utf8 sample_share" "share_fits sample_share"
  by (simp_all add: share_utf8_def share_fits_def sample_share_def is_utf8_def fits_string_def MAX_STRING_LEN_def)

theorem share_roundtrip_witness:
  "share_utf8 sample_share \<and>
   decode_share_binary (PAYLOAD_VERSION # share_flags sample_share # share_body sample_share @ [7]) = Inr sample_share"
  using share_roundtrip [OF sample_share_ok(1), of "PAYLOAD_VERSION # share_flags sample_share # share_body sample_share" "[7]"]
    sample_share_ok by (simp add: encode_share_binary_iff)

text \<open>
  The encoder fails exactly when a string is longer than 255 bytes or a list has more than
  255 entries, and a successful encoding has the documented layout: the version byte, the flag
  byte and the fields in order.
\<close>

theorem share_encode_spec:
  "case encode_share_binary info of
     Inl _ \<Rightarrow> \<not> share_fits info
   | Inr b \<Rightarrow> share_fits info \<and> b = PAYLOAD_VERSION # share_flags info # share_body info"
proof (cases "encode_share_binary info")
  case (Inl e)
  then have "encode_share_binary info \<noteq> Inr (PAYLOAD_VERSION # share_flags info # share_body info)"
    by simp
  then have "\<not> share_fits info"
    unfolding encode_share_binary_iff by simp
  with Inl show ?thesis by simp
next
  case (Inr b)
  moreover from Inr have "share_fits info \<and> b = PAYLOAD_VERSION # share_flags info # share_body info"
    unfolding encode_share_binary_iff .
  ultimately show ?thesis by simp
qed

text \<open>
  C8: The decoder accepts nothing but encodings: data it accepts is the encoding of the result,
  except that the four unused flag bits and any trailing bytes are ignored, and the result is
  made of valid UTF-8 strings that the encoder accepts again.
\<close>

theorem share_decode_canonical:
  assumes "decode_share_binary data = Inr info"
  shows "share_utf8 info \<and>
    (\<exists>flags body rest. data = PAYLOAD_VERSION # flags # body @ rest \<and>
       encode_share_binary info = Inr (PAYLOAD_VERSION # (flags AND 15) # body))"
  using decode_share_binary_only [OF assms] by (auto simp: encode_share_binary_iff)

theorem share_decode_canonical_witness:
  "share_utf8 sample_share \<and>
    (\<exists>flags body rest. PAYLOAD_VERSION # share_flags sample_share # share_body sample_share @ [9] =
       PAYLOAD_VERSION # flags # body @ rest \<and>
       encode_share_binary sample_share = Inr (PAYLOAD_VERSION # (flags AND 15) # body))"
  by (rule share_decode_canonical [OF decode_share_layout [OF sample_share_ok(2,1)]])

text \<open>
  A truncated invitation is rejected: no proper prefix of an encoding decodes, so a cut
  transmission can never be taken for another invitation.
\<close>

theorem share_truncated_rejected:
  assumes "share_utf8 info" and "encode_share_binary info = Inr b" and "n < length b"
  shows "\<exists>e. decode_share_binary (take n b) = Inl e"
proof (cases "decode_share_binary (take n b)")
  case (Inr info')
  from decode_share_binary_only [OF this] obtain flags rest where
    t: "take n b = PAYLOAD_VERSION # flags # share_body info' @ rest"
    and f: "share_flags info' = flags AND 15" "share_fits info'" "share_utf8 info'"
    by blast
  from assms(2) have b: "b = PAYLOAD_VERSION # share_flags info # share_body info" "share_fits info"
    by (simp_all add: encode_share_binary_iff)
  with t have "flags = share_flags info"
    by (cases n; cases "n - 1") auto
  then have "flags = flags AND 15"
    using decode_share_binary_only [OF decode_share_layout [OF b(2) assms(1), of "[]"]] by auto
  with f t have "take n b @ drop n b = PAYLOAD_VERSION # share_flags info' # share_body info' @ rest @ drop n b"
    by simp
  then have "decode_share_binary b = Inr info'"
    using decode_share_layout [OF f(2,3), of "rest @ drop n b"] by (simp only: append_take_drop_id)
  moreover have "decode_share_binary b = Inr info"
    using decode_share_layout [OF b(2) assms(1), of "[]"] b(1) by simp
  ultimately have "length b \<le> length (take n b)"
    using t b by simp
  with assms(3) show ?thesis by simp
qed simp

theorem share_truncated_rejected_witness:
  "\<exists>e. decode_share_binary (take 5 (PAYLOAD_VERSION # share_flags sample_share # share_body sample_share)) = Inl e"
  by (rule share_truncated_rejected [OF sample_share_ok(1)])
    (simp_all add: encode_share_binary_iff sample_share_ok, simp add: sample_share_def share_body_def enc_string_def)

end
