(* ===== verification/Space_Manager.thy ===== *)
theory Space_Manager
  imports Daemon_Run Database Qr_Link Share_Codec
begin

text \<open>
  The manager of spaces on the desktop, \<open>src-tauri/src/space/manager.rs\<close>: creating, joining, sharing,
  connecting, patching and deleting spaces. It works on the database, on the cached list of spaces, on the
  local servers of each space (chat, file, voice, screen), on the background task that looks for peers, and
  on the daemon, which it reaches through the IPC client only. The client is the function \<open>se_send\<close>, so
  that the manager can be put on top of the client of \<open>Ipc_Transport\<close>; the other fields of \<open>space_env\<close>
  stand for libraries (UUIDs, JSON, dates, cryptography), the configuration and the operating system.
\<close>

section \<open>Data\<close>

datatype space_status = Disconnected | Connecting | Connected

record 't space =
  sc_id :: uuid
  sc_name :: string
  sc_description :: "string option"
  sc_owner_id :: "string option"
  sc_network_name :: string
  sc_network_secret :: string
  sc_created_at :: 't
  sc_last_connected_at :: "'t option"
  sc_is_auto_connect :: bool
  sc_status :: space_status
  sc_virtual_ip :: "string option"
  sc_member_count :: u32
  sc_config_json :: "string option"

record 't member =
  mb_id :: uuid
  mb_space_id :: uuid
  mb_nickname :: string
  mb_virtual_ip :: "string option"
  mb_is_online :: bool
  mb_is_owner :: bool
  mb_joined_at :: 't
  mb_last_seen_at :: "'t option"

datatype space_service = ChatService | FileService | VoiceService | ScreenService

text \<open>
  The manager. \<open>sm_services s\<close> is the map of running servers of one kind with the port each listens on;
  \<open>sm_clients\<close> the peers of a space, by virtual IP.
\<close>

record ('w, 't) space_mgr =
  sm_db :: database
  sm_spaces :: "'t space list"
  sm_services :: "space_service \<Rightarrow> uuid \<rightharpoonup> u16"
  sm_clients :: "uuid \<rightharpoonup> (string \<times> string \<times> u16) list"
  sm_tokens :: "uuid set"
  sm_handles :: "uuid set"
  sm_ipc :: 'w

datatype space_error = SpErr string | SpShare share_error | SpQr qr_error | SpPanic

type_synonym ('w, 't, 'a) mgr_result = "(space_error + 'a) \<times> ('w, 't) space_mgr"

record ('w, 't, 'v, 'f) space_env =
  se_send :: "ipc_request \<Rightarrow> 'w \<Rightarrow> (string + ipc_response) \<times> 'w"
  se_uuid :: uuid_lib
  se_net :: net_lib
  se_config :: "network_config json"
  se_values :: "'v json_values"
  se_to_value :: "network_config \<Rightarrow> jvalue"
  se_peers :: "jvalue \<Rightarrow> string + 'f peer_info list"
  se_text :: "jvalue \<Rightarrow> string"
  se_value :: "string \<Rightarrow> jvalue option"
  se_global :: "app_config option"
  se_now :: 't
  se_rfc3339 :: "'t \<Rightarrow> string"
  se_parse_time :: "string \<Rightarrow> 't option"
  se_users :: "user_row list \<Rightarrow> user_row list"
  se_rows :: "space_row list \<Rightarrow> space_row list"
  se_member_rows :: "member_row list \<Rightarrow> member_row list"
  se_file_rows :: "file_row list \<Rightarrow> file_row list"
  se_start :: "space_service \<Rightarrow> u16 \<Rightarrow> string option"
  se_prims :: primitives
  se_zstd :: zstd_lib
  se_link :: link_lib
  se_cell :: "fixed_key_gcm option"
  se_nonce :: bytes

definition mgr_bind :: "('w, 't, 'a) mgr_result \<Rightarrow> ('a \<Rightarrow> ('w, 't) space_mgr \<Rightarrow> ('w, 't, 'b) mgr_result) \<Rightarrow> ('w, 't, 'b) mgr_result" where
  "mgr_bind r f = (case r of (Inl e, m) \<Rightarrow> (Inl e, m) | (Inr x, m) \<Rightarrow> f x m)"

text \<open>A statement on the database, and a request to the daemon.\<close>

definition on_db :: "(database \<Rightarrow> 'a db_result) \<Rightarrow> ('w, 't) space_mgr \<Rightarrow> ('w, 't, 'a) mgr_result" where
  "on_db f m = (case f (sm_db m) of (r, db) \<Rightarrow> (map_sum SpErr (\<lambda>x. x) r, m\<lparr>sm_db := db\<rparr>))"

definition ipc :: "('w, 't, 'v, 'f) space_env \<Rightarrow> ipc_request \<Rightarrow> ('w, 't) space_mgr \<Rightarrow> (string + ipc_response) \<times> ('w, 't) space_mgr" where
  "ipc E q m = (case se_send E q (sm_ipc m) of (r, w) \<Rightarrow> (r, m\<lparr>sm_ipc := w\<rparr>))"

text \<open>\<open>Ok(Ok { data }) => Ok(data), Ok(Error { message }) => Err(message), Err(e) => Err(e)\<close>\<close>

definition ipc_data :: "('w, 't, 'v, 'f) space_env \<Rightarrow> ipc_request \<Rightarrow> ('w, 't) space_mgr \<Rightarrow> ('w, 't, jvalue option) mgr_result" where
  "ipc_data E q m =
    (case ipc E q m of
       (Inr (IpcOk data), m) \<Rightarrow> (Inr data, m)
     | (Inr (IpcError message), m) \<Rightarrow> (Inl (SpErr message), m)
     | (Inl e, m) \<Rightarrow> (Inl (SpErr e), m))"

section \<open>Addresses and ports\<close>

definition canonical_host :: "uuid \<Rightarrow> nat" where
  "canonical_host space_id =
    unat (fold (\<lambda>b h. h * 31 + ucast b) (uuid_bytes space_id) (0 :: u64)) mod 250 + 2"

definition canonical_virtual_ipv4 :: "uuid \<Rightarrow> string" where
  "canonical_virtual_ipv4 space_id = ''10.144.144.'' @ dec (canonical_host space_id)"

definition service_base :: "('w, 't, 'v, 'f) space_env \<Rightarrow> space_service \<Rightarrow> u16" where
  "service_base E s =
    (case s of
       ChatService \<Rightarrow> 18000 | VoiceService \<Rightarrow> 18100 | ScreenService \<Rightarrow> 18200
     | FileService \<Rightarrow> word_of_nat (cfg_get_u16 (se_global E) KEY_FILE_SERVER_PORT_BASE DEFAULT_FILE_SERVER_PORT_BASE))"

text \<open>\<open>base + (space_id.as_u128() % 1000) as u16\<close>, which wraps in a release build.\<close>

definition service_port :: "('w, 't, 'v, 'f) space_env \<Rightarrow> space_service \<Rightarrow> uuid \<Rightarrow> u16" where
  "service_port E s space_id = service_base E s + word_of_nat (unat space_id mod 1000)"

section \<open>Creating and joining\<close>

text \<open>The row that is inserted for a space; the configuration comes later.\<close>

definition space_row_of :: "('w, 't, 'v, 'f) space_env \<Rightarrow> 't space \<Rightarrow> space_row" where
  "space_row_of E s =
    \<lparr>sp_id = ul_string (se_uuid E) (sc_id s), sp_name = sc_name s, sp_owner_id = sc_owner_id s,
     sp_network_name = sc_network_name s, sp_network_secret = sc_network_secret s, sp_description = sc_description s,
     sp_created_at = se_rfc3339 E (sc_created_at s), sp_last_connected_at = None, sp_is_auto_connect = False, sp_config_json = None\<rparr>"

definition new_space :: "('w, 't, 'v, 'f) space_env \<Rightarrow> uuid \<Rightarrow> string \<Rightarrow> string option \<Rightarrow> string \<Rightarrow> string \<Rightarrow> string \<Rightarrow> 't space" where
  "new_space E space_id name description owner network_name network_secret =
    \<lparr>sc_id = space_id, sc_name = name, sc_description = description, sc_owner_id = Some owner, sc_network_name = network_name,
     sc_network_secret = network_secret, sc_created_at = se_now E, sc_last_connected_at = None, sc_is_auto_connect = False,
     sc_status = Disconnected, sc_virtual_ip = None, sc_member_count = 1, sc_config_json = None\<rparr>"

definition owner_of :: "string option \<Rightarrow> string" where
  "owner_of u = (case u of Some i \<Rightarrow> i | None \<Rightarrow> ''local-user'')"

text \<open>The last steps of \<open>create\<close> and \<open>join\<close>: the configuration is stored and the space remembered.\<close>

definition store_config ::
  "('w, 't, 'v, 'f) space_env \<Rightarrow> network_config \<Rightarrow> 't space \<Rightarrow> ('w, 't) space_mgr \<Rightarrow> ('w, 't, 't space) mgr_result" where
  "store_config E config space m =
    (case js_ser (se_config E) config of
       Inl e \<Rightarrow> (Inl (SpErr (utf8_text [229, 186, 143, 229, 136, 151, 229, 140, 150, 233, 133, 141, 231, 189, 174, 229, 164, 177, 232, 180, 165] @ '': '' @ e)), m)
     | Inr b \<Rightarrow>
        mgr_bind (on_db (update_space_config (ul_string (se_uuid E) (sc_id space)) (of_bytes b)) m) (\<lambda>_ m.
          let space = space\<lparr>sc_config_json := Some (of_bytes b)\<rparr>
          in (Inr space, m\<lparr>sm_spaces := sm_spaces m @ [space]\<rparr>)))"

definition create_config :: "('w, 't, 'v, 'f) space_env \<Rightarrow> string \<Rightarrow> string option \<Rightarrow> 't space \<Rightarrow> network_config" where
  "create_config E default_id user_config space =
    (let base = (case Option.bind user_config (\<lambda>j. case js_de (se_config E) (as_bytes j) of Inr c \<Rightarrow> Some c | Inl _ \<Rightarrow> None) of
                   Some sc \<Rightarrow> sc | None \<Rightarrow> network_config_default default_id)
     in dedupe_proxy_cidrs (se_net E)
          (base\<lparr>nc_network_name := sc_network_name space, nc_network_secret := sc_network_secret space, nc_dhcp := False,
             nc_virtual_ipv4 := canonical_virtual_ipv4 (sc_id space)\<rparr>))"

definition space_create ::
  "('w, 't, 'v, 'f) space_env \<Rightarrow> uuid \<Rightarrow> string \<Rightarrow> string \<Rightarrow> string \<Rightarrow> string option \<Rightarrow> ('w, 't) space_mgr \<Rightarrow> ('w, 't, 't space) mgr_result" where
  "space_create E space_id default_id name network_secret description m =
    mgr_bind (on_db (get_user_id (se_users E)) m) (\<lambda>u m.
      let owner = owner_of u;
          prefix = cfg_get_str (se_global E) KEY_RELAY_NETWORK_PREFIX DEFAULT_RELAY_NETWORK_PREFIX;
          space = new_space E space_id name description owner (prefix @ name) network_secret;
          sid = ul_string (se_uuid E) space_id
      in mgr_bind (on_db (insert_space (space_row_of E space)) m) (\<lambda>_ m.
         mgr_bind (on_db (add_member (se_rfc3339 E (se_now E)) sid owner name True) m) (\<lambda>_ m.
         mgr_bind (on_db (get_user_config (se_users E)) m) (\<lambda>uc m.
           store_config E (create_config E default_id uc space) space m))))"

definition join_config :: "('w, 't, 'v, 'f) space_env \<Rightarrow> uuid \<Rightarrow> network_config \<Rightarrow> network_config" where
  "join_config E space_id config =
    (let c = config\<lparr>nc_dhcp := False\<rparr>;
         c = (if nc_virtual_ipv4 c = [] then c\<lparr>nc_virtual_ipv4 := canonical_virtual_ipv4 space_id\<rparr> else c)
     in dedupe_proxy_cidrs (se_net E) c)"

definition space_join ::
  "('w, 't, 'v, 'f) space_env \<Rightarrow> uuid \<Rightarrow> network_config \<Rightarrow> string option \<Rightarrow> ('w, 't) space_mgr \<Rightarrow> ('w, 't, 't space) mgr_result" where
  "space_join E space_id config name m =
    mgr_bind (on_db (get_user_id (se_users E)) m) (\<lambda>u m.
      let space = new_space E space_id (case name of Some n \<Rightarrow> n | None \<Rightarrow> nc_network_name config) None (owner_of u)
                    (nc_network_name config) (nc_network_secret config)
      in mgr_bind (on_db (insert_space (space_row_of E space)) m) (\<lambda>_ m.
           store_config E (join_config E space_id config) space m))"

section \<open>Looking up spaces\<close>

definition find_space :: "uuid \<Rightarrow> ('w, 't) space_mgr \<Rightarrow> ('w, 't, 't space) mgr_result" where
  "find_space space_id m =
    (case List.find (\<lambda>s. sc_id s = space_id) (sm_spaces m) of
       Some s \<Rightarrow> (Inr s, m) | None \<Rightarrow> (Inl (SpErr ''Space not found''), m))"

text \<open>\<open>from_value::<Vec<String>>(v).ok()\<close>\<close>

fun as_strs :: "jvalue list \<Rightarrow> string list option" where
  "as_strs [] = Some []"
| "as_strs (JStr s # vs) = map_option ((#) s) (as_strs vs)"
| "as_strs (_ # vs) = None"

definition running_spaces :: "('w, 't, 'v, 'f) space_env \<Rightarrow> ('w, 't) space_mgr \<Rightarrow> string list \<times> ('w, 't) space_mgr" where
  "running_spaces E m =
    (case ipc E ListSpaces m of
       (Inr (IpcOk data), m) \<Rightarrow>
         ((case Option.bind (Option.bind data as_array) as_strs of Some ss \<Rightarrow> ss | None \<Rightarrow> []), m)
     | (_, m) \<Rightarrow> ([], m))"

text \<open>\<open>row.id.parse().unwrap_or_default()\<close>: the nil UUID for a text that is none.\<close>

definition parse_or_nil :: "uuid_lib \<Rightarrow> string \<Rightarrow> uuid" where
  "parse_or_nil U s = (case ul_parse U s of Inr u \<Rightarrow> u | Inl _ \<Rightarrow> 0)"

definition parse_time :: "('w, 't, 'v, 'f) space_env \<Rightarrow> string \<Rightarrow> 't" where
  "parse_time E s = (case se_parse_time E s of Some t \<Rightarrow> t | None \<Rightarrow> se_now E)"

text \<open>The member count and address of a listed space; \<open>peer_count as u32 + 1\<close> wraps.\<close>

definition runtime_of :: "('w, 't, 'v, 'f) space_env \<Rightarrow> string \<Rightarrow> ('w, 't) space_mgr \<Rightarrow> (u32 \<times> string option) \<times> ('w, 't) space_mgr" where
  "runtime_of E sid m =
    (case ipc E (GetSpaceStatus sid) m of
       (Inr (IpcOk (Some v)), m) \<Rightarrow>
         ((ucast (case get_u64 v ''connected_peers'' of Some n \<Rightarrow> n | None \<Rightarrow> 0) + 1, get_str v ''virtual_ip''), m)
     | (_, m) \<Rightarrow> ((0, None), m))"

definition listed_space ::
  "('w, 't, 'v, 'f) space_env \<Rightarrow> string list \<Rightarrow> space_row \<Rightarrow> ('w, 't) space_mgr \<Rightarrow> 't space \<times> ('w, 't) space_mgr" where
  "listed_space E running row m =
    (let is_running = sp_id row \<in> set running;
         ((count, vip), m) = (if is_running then runtime_of E (sp_id row) m else ((0, None), m))
     in (\<lparr>sc_id = parse_or_nil (se_uuid E) (sp_id row), sc_name = sp_name row, sc_description = sp_description row,
          sc_owner_id = sp_owner_id row, sc_network_name = sp_network_name row, sc_network_secret = sp_network_secret row,
          sc_created_at = parse_time E (sp_created_at row), sc_last_connected_at = Option.bind (sp_last_connected_at row) (se_parse_time E),
          sc_is_auto_connect = sp_is_auto_connect row, sc_status = (if is_running then Connected else Disconnected),
          sc_virtual_ip = vip, sc_member_count = count, sc_config_json = sp_config_json row\<rparr>, m))"

fun listed_spaces ::
  "('w, 't, 'v, 'f) space_env \<Rightarrow> string list \<Rightarrow> space_row list \<Rightarrow> ('w, 't) space_mgr \<Rightarrow> 't space list \<times> ('w, 't) space_mgr" where
  "listed_spaces E running [] m = ([], m)"
| "listed_spaces E running (row # rows) m =
    (let (s, m) = listed_space E running row m; (ss, m) = listed_spaces E running rows m in (s # ss, m))"

definition space_list :: "('w, 't, 'v, 'f) space_env \<Rightarrow> ('w, 't) space_mgr \<Rightarrow> ('w, 't, 't space list) mgr_result" where
  "space_list E m =
    mgr_bind (on_db (list_spaces (se_rows E)) m) (\<lambda>rows m.
      let (running, m) = running_spaces E m;
          (spaces, m) = listed_spaces E running rows m
      in (Inr spaces, m\<lparr>sm_spaces := spaces\<rparr>))"

definition base_config :: "string \<Rightarrow> 't space \<Rightarrow> network_config" where
  "base_config default_id space =
    (network_config_default default_id)\<lparr>nc_network_name := sc_network_name space, nc_network_secret := sc_network_secret space, nc_dhcp := True\<rparr>"

text \<open>
  The configuration from the stored text. A panic of \<open>from_config_json\<close> stays one; its other errors fall
  back to the basic configuration.
\<close>

definition effective_of :: "('w, 't, 'v, 'f) space_env \<Rightarrow> string \<Rightarrow> 't space \<Rightarrow> string option \<Rightarrow> space_error + network_config" where
  "effective_of E default_id space stored =
    (case stored of
       None \<Rightarrow> Inr (base_config default_id space)
     | Some json \<Rightarrow>
        (case from_config_json (se_values E) default_id json of
           Inr cfg \<Rightarrow>
             Inr (let cfg = (if nc_network_name cfg = [] then cfg\<lparr>nc_network_name := sc_network_name space\<rparr> else cfg)
                  in if nc_network_secret cfg = [] then cfg\<lparr>nc_network_secret := sc_network_secret space\<rparr> else cfg)
         | Inl (SliceInsideChar _) \<Rightarrow> Inl SpPanic
         | Inl _ \<Rightarrow> Inr (base_config default_id space)))"

definition get_effective_config ::
  "('w, 't, 'v, 'f) space_env \<Rightarrow> string \<Rightarrow> uuid \<Rightarrow> ('w, 't) space_mgr \<Rightarrow> ('w, 't, network_config) mgr_result" where
  "get_effective_config E default_id space_id m =
    mgr_bind (find_space space_id m) (\<lambda>space m.
      case get_space_config (ul_string (se_uuid E) space_id) (sm_db m) of
        (Inl e, db) \<Rightarrow> (Inl (SpErr (utf8_text [232, 175, 187, 229, 143, 150, 231, 169, 186, 233, 151, 180, 233, 133, 141, 231, 189, 174, 229, 164, 177, 232, 180, 165] @ '': '' @ e)), m\<lparr>sm_db := db\<rparr>)
      | (Inr stored, db) \<Rightarrow> (effective_of E default_id space stored, m\<lparr>sm_db := db\<rparr>))"

section \<open>Sharing\<close>

definition share_info_of :: "'t space \<Rightarrow> network_config \<Rightarrow> string option \<Rightarrow> share_info" where
  "share_info_of space effective ip =
    (let virtual_ip = (case ip of Some s \<Rightarrow> (if trim s = [] then None else Some (trim s)) | None \<Rightarrow> None)
     in \<lparr>si_name = Some (sc_name space), si_network_name = sc_network_name space, si_network_secret = sc_network_secret space,
         si_host_hint = None, si_virtual_ip = virtual_ip, si_dhcp = Some (virtual_ip = None),
         si_peer_urls = nc_peer_urls effective, si_listener_urls = nc_listener_urls effective\<rparr>)"

definition generate_share_link ::
  "('w, 't, 'v, 'f) space_env \<Rightarrow> string \<Rightarrow> uuid \<Rightarrow> string option \<Rightarrow> ('w, 't) space_mgr \<Rightarrow> ('w, 't, string) mgr_result" where
  "generate_share_link E default_id space_id ip m =
    mgr_bind (find_space space_id m) (\<lambda>space m.
    mgr_bind (get_effective_config E default_id space_id m) (\<lambda>effective m.
      case encode_share_binary (share_info_of space effective ip) of
        Inl e \<Rightarrow> (Inl (SpShare e), m)
      | Inr data \<Rightarrow>
         (map_sum SpQr (\<lambda>x. x)
            (fst (encrypt_qr (se_prims E) (se_zstd E) (se_link E) (se_global E) (se_cell E) (se_nonce E) EVENT_JOIN_SPACE data)), m)))"

section \<open>Connecting and disconnecting\<close>

text \<open>Up to fifty pings, then the error.\<close>

fun wait_daemon_ready :: "nat \<Rightarrow> ('w, 't, 'v, 'f) space_env \<Rightarrow> ('w, 't) space_mgr \<Rightarrow> ('w, 't, unit) mgr_result" where
  "wait_daemon_ready 0 E m = (Inl (SpErr (''daemon '' @ utf8_text [229, 144, 175, 229, 138, 168, 232, 182, 133, 230, 151, 182, 239, 188, 136] @ ''10s'' @ utf8_text [239, 188, 137, 239, 188, 140, 230, 151, 160, 230, 179, 149, 229, 187, 186, 231, 171, 139] @ '' IPC '' @ utf8_text [232, 191, 158, 230, 142, 165])), m)"
| "wait_daemon_ready (Suc n) E m =
    (case ipc E Ping m of (Inr _, m) \<Rightarrow> (Inr (), m) | (Inl _, m) \<Rightarrow> wait_daemon_ready n E m)"

definition ensure_daemon :: "('w, 't, 'v, 'f) space_env \<Rightarrow> ('w, 't) space_mgr \<Rightarrow> ('w, 't, unit) mgr_result" where
  "ensure_daemon E m =
    (case ipc E Ping m of (Inr _, m) \<Rightarrow> (Inr (), m) | (Inl _, m) \<Rightarrow> wait_daemon_ready 50 E m)"

definition drop_service :: "uuid \<Rightarrow> space_service \<Rightarrow> ('w, 't) space_mgr \<Rightarrow> ('w, 't) space_mgr" where
  "drop_service space_id s m = m\<lparr>sm_services := (sm_services m)(s := (sm_services m s)(space_id := None))\<rparr>"

definition service_error :: "space_service \<Rightarrow> string \<Rightarrow> string" where
  "service_error s e =
    (case s of
       ChatService \<Rightarrow> utf8_text [229, 144, 175, 229, 138, 168, 232, 129, 138, 229, 164, 169, 230, 156, 141, 229, 138, 161, 229, 153, 168, 229, 164, 177, 232, 180, 165] @ '': '' @ e
     | FileService \<Rightarrow> utf8_text [229, 144, 175, 229, 138, 168, 230, 150, 135, 228, 187, 182, 230, 156, 141, 229, 138, 161, 229, 153, 168, 229, 164, 177, 232, 180, 165] @ '': '' @ e
     | VoiceService \<Rightarrow> utf8_text [229, 144, 175, 229, 138, 168, 232, 175, 173, 233, 159, 179, 230, 156, 141, 229, 138, 161, 229, 153, 168, 229, 164, 177, 232, 180, 165] @ '': '' @ e
     | ScreenService \<Rightarrow> utf8_text [229, 144, 175, 229, 138, 168, 229, 177, 143, 229, 185, 149, 229, 133, 177, 228, 186, 171, 230, 156, 141, 229, 138, 161, 229, 153, 168, 229, 164, 177, 232, 180, 165] @ '': '' @ e)"

definition start_service :: "('w, 't, 'v, 'f) space_env \<Rightarrow> uuid \<Rightarrow> space_service \<Rightarrow> ('w, 't) space_mgr \<Rightarrow> ('w, 't, unit) mgr_result" where
  "start_service E space_id s m =
    (let port = service_port E s space_id in
     case se_start E s port of
       Some e \<Rightarrow> (Inl (SpErr (service_error s e)), m)
     | None \<Rightarrow> (Inr (), m\<lparr>sm_services := (sm_services m)(s := (sm_services m s)(space_id \<mapsto> port))\<rparr>))"

definition start_services :: "('w, 't, 'v, 'f) space_env \<Rightarrow> uuid \<Rightarrow> ('w, 't) space_mgr \<Rightarrow> ('w, 't, unit) mgr_result" where
  "start_services E space_id m =
    mgr_bind (start_service E space_id ChatService m) (\<lambda>_ m.
    mgr_bind (start_service E space_id FileService m) (\<lambda>_ m.
    mgr_bind (start_service E space_id VoiceService m) (\<lambda>_ m.
      start_service E space_id ScreenService m)))"

definition drop_services :: "uuid \<Rightarrow> ('w, 't) space_mgr \<Rightarrow> ('w, 't) space_mgr" where
  "drop_services space_id m =
    drop_service space_id ScreenService (drop_service space_id VoiceService (drop_service space_id FileService (drop_service space_id ChatService m)))"

text \<open>The other listed spaces are disconnected in the daemon, each failure ignored.\<close>

fun disconnect_others :: "('w, 't, 'v, 'f) space_env \<Rightarrow> string \<Rightarrow> string list \<Rightarrow> ('w, 't) space_mgr \<Rightarrow> ('w, 't) space_mgr" where
  "disconnect_others E sid [] m = m"
| "disconnect_others E sid (r # rs) m =
    disconnect_others E sid rs (if r \<noteq> sid then snd (ipc E (DisconnectSpace r) m) else m)"

definition space_connect :: "('w, 't, 'v, 'f) space_env \<Rightarrow> string \<Rightarrow> uuid \<Rightarrow> ('w, 't) space_mgr \<Rightarrow> ('w, 't, unit) mgr_result" where
  "space_connect E default_id space_id m =
    mgr_bind (ensure_daemon E m) (\<lambda>_ m.
      let sid = ul_string (se_uuid E) space_id;
          (running, m) = running_spaces E m;
          m = disconnect_others E sid running m
      in mgr_bind (find_space space_id m) (\<lambda>space m.
           let m = snd (on_db (get_space_config sid) m)
           in mgr_bind (get_effective_config E default_id space_id m) (\<lambda>cfg m.
              mgr_bind (ipc_data E (ConnectSpace sid (se_to_value E cfg)) m) (\<lambda>_ m.
              mgr_bind (start_services E space_id (drop_services space_id m)) (\<lambda>_ m.
                (Inr (), m\<lparr>sm_tokens := insert space_id (sm_tokens m), sm_handles := insert space_id (sm_handles m)\<rparr>))))))"

definition space_disconnect :: "('w, 't, 'v, 'f) space_env \<Rightarrow> uuid \<Rightarrow> ('w, 't) space_mgr \<Rightarrow> ('w, 't, unit) mgr_result" where
  "space_disconnect E space_id m =
    (let m = drop_services space_id (m\<lparr>sm_tokens := sm_tokens m - {space_id}, sm_handles := sm_handles m - {space_id}\<rparr>);
         m = m\<lparr>sm_clients := (sm_clients m)(space_id := None)\<rparr>
     in mgr_bind (ipc_data E (DisconnectSpace (ul_string (se_uuid E) space_id)) m) (\<lambda>_ m. (Inr (), m)))"

definition space_leave :: "('w, 't, 'v, 'f) space_env \<Rightarrow> uuid \<Rightarrow> ('w, 't) space_mgr \<Rightarrow> ('w, 't, unit) mgr_result" where
  "space_leave E space_id m = space_disconnect E space_id m"

definition space_delete :: "('w, 't, 'v, 'f) space_env \<Rightarrow> uuid \<Rightarrow> ('w, 't) space_mgr \<Rightarrow> ('w, 't, unit) mgr_result" where
  "space_delete E space_id m =
    mgr_bind (on_db (get_user_id (se_users E)) m) (\<lambda>u m.
      let caller_id = (case u of Some i \<Rightarrow> i | None \<Rightarrow> [])
      in mgr_bind (find_space space_id m) (\<lambda>space m.
           if sc_owner_id space \<noteq> Some caller_id then (Inl (SpErr (utf8_text [229, 143, 170, 230, 156, 137, 231, 169, 186, 233, 151, 180, 230, 137, 128, 230, 156, 137, 232, 128, 133, 230, 137, 141, 232, 131, 189, 229, 136, 160, 233, 153, 164, 231, 169, 186, 233, 151, 180])), m)
           else mgr_bind (space_leave E space_id m) (\<lambda>_ m.
                mgr_bind (on_db (delete_space (ul_string (se_uuid E) space_id)) m) (\<lambda>_ m.
                  (Inr (), m\<lparr>sm_spaces := filter (\<lambda>s. sc_id s \<noteq> space_id) (sm_spaces m)\<rparr>)))))"

definition shutdown_all :: "('w, 't, 'v, 'f) space_env \<Rightarrow> ('w, 't) space_mgr \<Rightarrow> ('w, 't) space_mgr" where
  "shutdown_all E m =
    fold (\<lambda>s m. if sc_status s = Connected then snd (space_disconnect E (sc_id s) m) else m) (sm_spaces m) m"

section \<open>Status, peers and configuration at run time\<close>

definition get_space_status :: "('w, 't, 'v, 'f) space_env \<Rightarrow> string \<Rightarrow> ('w, 't) space_mgr \<Rightarrow> ('w, 't, jvalue option) mgr_result" where
  "get_space_status E sid m = ipc_data E (GetSpaceStatus sid) m"

text \<open>\<open>obj.insert(key, value)\<close> for every entry of the patch; nothing is merged into a value that is no object.\<close>

definition merge_patch :: "jvalue \<Rightarrow> jvalue \<Rightarrow> jvalue" where
  "merge_patch config patch =
    (case (config, patch) of
       (JObj obj, JObj patch_obj) \<Rightarrow> JObj (fold (\<lambda>(k, v). hm_insert k v) patch_obj obj)
     | _ \<Rightarrow> config)"

definition space_patch_config :: "('w, 't, 'v, 'f) space_env \<Rightarrow> string \<Rightarrow> jvalue \<Rightarrow> ('w, 't) space_mgr \<Rightarrow> ('w, 't, unit) mgr_result" where
  "space_patch_config E sid patch m =
    (let m = (case on_db (get_space_config sid) m of
                (Inr (Some existing), m) \<Rightarrow>
                  (case se_value E existing of
                     Some config \<Rightarrow> snd (on_db (update_space_config sid (se_text E (merge_patch config patch))) m)
                   | None \<Rightarrow> m)
              | (_, m) \<Rightarrow> m)
     in mgr_bind (ipc_data E (PatchConfig sid patch) m) (\<lambda>_ m. (Inr (), m)))"

definition get_peers :: "('w, 't, 'v, 'f) space_env \<Rightarrow> uuid \<Rightarrow> ('w, 't) space_mgr \<Rightarrow> ('w, 't, 'f peer_info list) mgr_result" where
  "get_peers E space_id m =
    mgr_bind (ipc_data E (ListPeers (ul_string (se_uuid E) space_id)) m) (\<lambda>data m.
      case data of
        None \<Rightarrow> (Inr [], m)
      | Some v \<Rightarrow> (case se_peers E v of Inl e \<Rightarrow> (Inl (SpErr (utf8_text [232, 167, 163, 230, 158, 144] @ '' peer '' @ utf8_text [229, 136, 151, 232, 161, 168, 229, 164, 177, 232, 180, 165] @ '': '' @ e)), m) | Inr ps \<Rightarrow> (Inr ps, m)))"

definition RETRY_DELAYS :: "nat list" where "RETRY_DELAYS = [1, 2, 3, 5, 7, 10, 10]"

definition ready_ip :: "jvalue option \<Rightarrow> string option" where
  "ready_ip status = Option.bind (Option.bind status (\<lambda>v. get_str v ''virtual_ip'')) (\<lambda>ip. if ip = [] then None else Some ip)"

text \<open>
  The loop that waits for the virtual IP. \<open>left\<close> is \<open>max_retries - retries\<close>; \<open>cancelled\<close> says what the token
  says at the head of a round and \<open>interrupted\<close> whether the sleep of a round was cut short by it, both by the
  number of rounds left. The result also counts the status queries.
\<close>

fun await_ip ::
  "('w, 't, 'v, 'f) space_env \<Rightarrow> string \<Rightarrow> (nat \<Rightarrow> bool) \<Rightarrow> (nat \<Rightarrow> bool) \<Rightarrow> nat \<Rightarrow> ('w, 't) space_mgr \<Rightarrow> ('w, 't, string) mgr_result \<times> nat" where
  "await_ip E sid cancelled interrupted 0 m = ((Inl (SpErr (utf8_text [230, 156, 170, 232, 142, 183, 229, 143, 150, 229, 136, 176, 232, 153, 154, 230, 139, 159] @ '' IP'')), m), 0)"
| "await_ip E sid cancelled interrupted (Suc left) m =
    (if cancelled (Suc left) then ((Inl (SpErr (utf8_text [232, 191, 158, 230, 142, 165, 229, 183, 178, 229, 143, 150, 230, 182, 136])), m), 0)
     else case get_space_status E sid m of
       (r, m1) \<Rightarrow>
        (case (case r of Inr status \<Rightarrow> ready_ip status | Inl _ \<Rightarrow> None) of
           Some ip \<Rightarrow> ((Inr ip, m1), 1)
         | None \<Rightarrow>
            if left = 0 then
              ((Inl (case r of
                       Inl (SpErr e) \<Rightarrow> SpErr (utf8_text [230, 159, 165, 232, 175, 162, 231, 169, 186, 233, 151, 180, 231, 138, 182, 230, 128, 129, 229, 164, 177, 232, 180, 165] @ ''('' @ utf8_text [229, 183, 178, 233, 135, 141, 232, 175, 149] @ dec (length RETRY_DELAYS) @ utf8_text [230, 172, 161] @ ''): '' @ e)
                     | Inl e \<Rightarrow> e
                     | Inr _ \<Rightarrow> SpErr (utf8_text [230, 156, 170, 232, 142, 183, 229, 143, 150, 229, 136, 176, 232, 153, 154, 230, 139, 159] @ '' IP'')), m1), 1)
            else if interrupted (Suc left) then ((Inl (SpErr (utf8_text [232, 191, 158, 230, 142, 165, 229, 183, 178, 229, 143, 150, 230, 182, 136])), m1), 1)
            else (case await_ip E sid cancelled interrupted left m1 of (res, n) \<Rightarrow> (res, Suc n))))"

definition peer_entry :: "u16 \<Rightarrow> 'f peer_info \<Rightarrow> (string \<times> string \<times> u16) option" where
  "peer_entry port p = (if pi_is_local p then None else map_option (\<lambda>ip. (ip, ip, port)) (pi_virtual_ip p))"

definition discover_and_connect_peers ::
  "('w, 't, 'v, 'f) space_env \<Rightarrow> (nat \<Rightarrow> bool) \<Rightarrow> (nat \<Rightarrow> bool) \<Rightarrow> uuid \<Rightarrow> ('w, 't) space_mgr \<Rightarrow> ('w, 't, unit) mgr_result" where
  "discover_and_connect_peers E cancelled interrupted space_id m =
    mgr_bind (fst (await_ip E (ul_string (se_uuid E) space_id) cancelled interrupted (length RETRY_DELAYS) m)) (\<lambda>_ m.
    mgr_bind (get_peers E space_id m) (\<lambda>peers m.
      let port = service_port E ChatService space_id;
          peers_map = fold (\<lambda>p acc. case peer_entry port p of Some (k, v) \<Rightarrow> hm_insert k v acc | None \<Rightarrow> acc) peers []
      in (Inr (), m\<lparr>sm_clients := (sm_clients m)(space_id \<mapsto> peers_map)\<rparr>)))"

definition chat_peer_count :: "uuid \<Rightarrow> ('w, 't) space_mgr \<Rightarrow> nat" where
  "chat_peer_count space_id m = (case sm_clients m space_id of Some c \<Rightarrow> length c | None \<Rightarrow> 0)"

text \<open>The local node is not left out here, unlike in \<open>discover_and_connect_peers\<close>.\<close>

definition get_peers_for_file_transfer ::
  "('w, 't, 'v, 'f) space_env \<Rightarrow> uuid \<Rightarrow> ('w, 't) space_mgr \<Rightarrow> ('w, 't, (string \<times> u16) list) mgr_result" where
  "get_peers_for_file_transfer E space_id m =
    mgr_bind (get_peers E space_id m) (\<lambda>peers m.
      (Inr (List.map_filter (\<lambda>p. map_option (\<lambda>ip. (ip, service_port E FileService space_id)) (pi_virtual_ip p)) peers), m))"

definition list_space_files ::
  "('w, 't, 'v, 'f) space_env \<Rightarrow> string \<Rightarrow> u32 option \<Rightarrow> ('w, 't) space_mgr \<Rightarrow> ('w, 't, file_row list) mgr_result" where
  "list_space_files E sid limit m = on_db (list_files (se_file_rows E) sid limit) m"

definition check_owner :: "('w, 't, 'v, 'f) space_env \<Rightarrow> string \<Rightarrow> ('w, 't) space_mgr \<Rightarrow> space_error + unit" where
  "check_owner E sid m =
    (case List.find (\<lambda>s. ul_string (se_uuid E) (sc_id s) = sid) (sm_spaces m) of
       Some _ \<Rightarrow> Inr () | None \<Rightarrow> Inl (SpErr (utf8_text [231, 169, 186, 233, 151, 180, 228, 184, 141, 229, 173, 152, 229, 156, 168])))"

definition member_of_row :: "('w, 't, 'v, 'f) space_env \<Rightarrow> member_row \<Rightarrow> 't member" where
  "member_of_row E r =
    \<lparr>mb_id = parse_or_nil (se_uuid E) (me_id r), mb_space_id = parse_or_nil (se_uuid E) (me_space_id r), mb_nickname = me_nickname r,
     mb_virtual_ip = me_virtual_ip r, mb_is_online = me_is_online r, mb_is_owner = me_is_owner r,
     mb_joined_at = parse_time E (me_joined_at r), mb_last_seen_at = Option.bind (me_last_seen_at r) (se_parse_time E)\<rparr>"

definition space_members :: "('w, 't, 'v, 'f) space_env \<Rightarrow> uuid \<Rightarrow> ('w, 't) space_mgr \<Rightarrow> ('w, 't, 't member list) mgr_result" where
  "space_members E space_id m =
    mgr_bind (on_db (list_members (se_member_rows E) (ul_string (se_uuid E) space_id)) m) (\<lambda>rows m. (Inr (map (member_of_row E) rows), m))"

definition set_tun_fd :: "uuid \<Rightarrow> int \<Rightarrow> string + unit" where
  "set_tun_fd space_id fd = Inl ''Desktop uses kernel TUN device directly, no fd injection needed''"

end
