(* ===== verification/Space_Facts.thy ===== *)
theory Space_Facts
  imports Space_Manager
begin

text \<open>
  What the manager of spaces guarantees, and where it does not do what its comments say. The first section
  has the frames of the building blocks, in the collection \<open>mgr_frames\<close>; the properties follow.
\<close>

section \<open>Frames\<close>

named_theorems mgr_frames "what the building blocks of the manager leave alone"

lemma mgr_bind_Inr: "mgr_bind r f = (Inr y, m') \<longleftrightarrow> (\<exists>x m. r = (Inr x, m) \<and> f x m = (Inr y, m'))"
  by (auto simp: mgr_bind_def split: prod.splits sum.splits)

lemma on_db_frame [mgr_frames]:
  "sm_spaces (snd (on_db f m)) = sm_spaces m" "sm_services (snd (on_db f m)) = sm_services m"
  "sm_clients (snd (on_db f m)) = sm_clients m" "sm_tokens (snd (on_db f m)) = sm_tokens m"
  "sm_handles (snd (on_db f m)) = sm_handles m" "sm_ipc (snd (on_db f m)) = sm_ipc m"
  by (simp_all add: on_db_def split: prod.splits)

lemma ipc_frame [mgr_frames]:
  "sm_spaces (snd (ipc E q m)) = sm_spaces m" "sm_services (snd (ipc E q m)) = sm_services m"
  "sm_clients (snd (ipc E q m)) = sm_clients m" "sm_tokens (snd (ipc E q m)) = sm_tokens m"
  "sm_handles (snd (ipc E q m)) = sm_handles m" "sm_db (snd (ipc E q m)) = sm_db m"
  by (simp_all add: ipc_def split: prod.splits)

lemma ipc_data_snd [mgr_frames]: "snd (ipc_data E q m) = snd (ipc E q m)"
  by (auto simp: ipc_data_def split: prod.splits sum.splits ipc_response.splits)

lemma find_space_snd [mgr_frames]: "snd (find_space i m) = m"
  by (auto simp: find_space_def split: option.splits)

lemma running_spaces_snd [mgr_frames]: "snd (running_spaces E m) = snd (ipc E ListSpaces m)"
  by (auto simp: running_spaces_def split: prod.splits sum.splits ipc_response.splits)

text \<open>What belongs to one space on this machine: its servers, its chat client and its background task.\<close>

definition local_part :: "uuid \<Rightarrow> ('w, 't) space_mgr \<Rightarrow> (space_service \<Rightarrow> u16 option) \<times> (string \<times> string \<times> u16) list option \<times> bool \<times> bool" where
  "local_part a m = (\<lambda>s. sm_services m s a, sm_clients m a, a \<in> sm_tokens m, a \<in> sm_handles m)"

lemma local_part_frame [mgr_frames]:
  "local_part a (snd (on_db f m)) = local_part a m" "local_part a (snd (ipc E q m)) = local_part a m"
  "a \<noteq> b \<Longrightarrow> local_part a (drop_service b s m) = local_part a m"
  by (auto simp: local_part_def mgr_frames drop_service_def)

lemma local_bind:
  assumes "local_part a (snd r) = k" and "\<And>x m. local_part a m = k \<Longrightarrow> local_part a (snd (f x m)) = k"
  shows "local_part a (snd (mgr_bind r f)) = k"
  using assms by (auto simp: mgr_bind_def split: prod.splits sum.splits)

lemma drop_services_local [mgr_frames]: "a \<noteq> b \<Longrightarrow> local_part a (drop_services b m) = local_part a m"
  by (simp add: drop_services_def mgr_frames)

lemma start_service_local [mgr_frames]: "a \<noteq> b \<Longrightarrow> local_part a (snd (start_service E b s m)) = local_part a m"
  by (auto simp: start_service_def local_part_def Let_def split: option.splits)

lemma start_services_local [mgr_frames]: "a \<noteq> b \<Longrightarrow> local_part a (snd (start_services E b m)) = local_part a m"
  unfolding start_services_def by (intro local_bind) (simp_all add: mgr_frames)

lemma wait_daemon_ready_local [mgr_frames]: "local_part a (snd (wait_daemon_ready n E m)) = local_part a m"
proof (induction n arbitrary: m)
  case (Suc n)
  obtain r m1 where i: "ipc E Ping m = (r, m1)" by fastforce
  then have "local_part a m1 = local_part a m" using local_part_frame(2) [of a E Ping m] by simp
  then show ?case using Suc i by (cases r) simp_all
qed simp

lemma ensure_daemon_local [mgr_frames]: "local_part a (snd (ensure_daemon E m)) = local_part a m"
proof -
  obtain r m1 where i: "ipc E Ping m = (r, m1)" by fastforce
  then have "local_part a m1 = local_part a m" using local_part_frame(2) [of a E Ping m] by simp
  then show ?thesis using i by (cases r) (simp_all add: ensure_daemon_def mgr_frames)
qed

lemma disconnect_others_local [mgr_frames]: "local_part a (disconnect_others E sid rs m) = local_part a m"
  by (induction rs arbitrary: m) (simp_all add: mgr_frames)

lemma get_effective_config_local [mgr_frames]: "local_part a (snd (get_effective_config E i b m)) = local_part a m"
  unfolding get_effective_config_def
  by (rule local_bind) (auto simp: mgr_frames, auto simp: local_part_def split: sum.splits prod.splits)

lemma space_connect_local:
  assumes "a \<noteq> b"
  shows "local_part a (snd (space_connect E i b m)) = local_part a m"
proof -
  have r: "local_part a (snd (running_spaces E m1)) = local_part a m1" for m1 by (simp add: mgr_frames)
  show ?thesis
    unfolding space_connect_def Let_def case_prod_unfold
    by (intro local_bind) (use assms in \<open>simp_all add: mgr_frames r, simp_all add: local_part_def\<close>)
qed

section \<open>Addresses, ports and the search for peers\<close>

lemma canonical_host_range: "2 \<le> canonical_host u \<and> canonical_host u \<le> 251"
proof -
  have "unat (fold (\<lambda>b h. h * 31 + ucast b) (uuid_bytes u) (0 :: u64)) mod 250 < 250" by simp
  then show ?thesis unfolding canonical_host_def by linarith
qed

text \<open>
  The address a space is given is always one of 10.144.144.2 to 10.144.144.251, so it is never the
  network, the gateway or the broadcast address. It does not identify the space: two different spaces can
  get the same address, and there are only 250 of them.
\<close>

theorem canonical_ip_range:
  "(\<exists>h. 2 \<le> h \<and> h \<le> 251 \<and> canonical_virtual_ipv4 u = ''10.144.144.'' @ dec h) \<and>
   canonical_virtual_ipv4 0 = canonical_virtual_ipv4 250 \<and> card (range canonical_virtual_ipv4) \<le> 250"
proof (intro conjI)
  show "\<exists>h. 2 \<le> h \<and> h \<le> 251 \<and> canonical_virtual_ipv4 u = ''10.144.144.'' @ dec h"
    using canonical_host_range [of u] unfolding canonical_virtual_ipv4_def by blast
  have "canonical_host 0 = 2" "canonical_host 250 = 2" by code_simp+
  then show "canonical_virtual_ipv4 0 = canonical_virtual_ipv4 250" by (simp add: canonical_virtual_ipv4_def)
  have "range canonical_virtual_ipv4 \<subseteq> (\<lambda>h. ''10.144.144.'' @ dec h) ` {2..251}"
    using canonical_host_range unfolding canonical_virtual_ipv4_def by auto
  then have "card (range canonical_virtual_ipv4) \<le> card ((\<lambda>h. ''10.144.144.'' @ dec h) ` {2..251})"
    by (intro card_mono) auto
  also have "\<dots> \<le> 250" using card_image_le [of "{2..251 :: nat}" "\<lambda>h. ''10.144.144.'' @ dec h"] by simp
  finally show "card (range canonical_virtual_ipv4) \<le> 250" .
qed

text \<open>
  The ports of the three fixed services lie in 18000 to 19199. The ranges overlap, so the services of two
  different spaces can need the same port. The file service adds to a configured base, and the sum wraps
  around below 1000 when the base is above 64536.
\<close>

theorem service_port_range:
  "18000 \<le> unat (service_port E ChatService u) \<and> unat (service_port E ChatService u) \<le> 18999 \<and>
   18100 \<le> unat (service_port E VoiceService u) \<and> unat (service_port E VoiceService u) \<le> 19099 \<and>
   18200 \<le> unat (service_port E ScreenService u) \<and> unat (service_port E ScreenService u) \<le> 19199 \<and>
   service_port E ChatService 100 = service_port E VoiceService 0 \<and>
   unat (service_port E FileService u) =
     (unat (service_base E FileService) + unat u mod 1000) mod 65536"
proof -
  have small: "unat u mod 1000 < 1000" by simp
  then have s16: "unat (word_of_nat (unat u mod 1000) :: u16) = unat u mod 1000" by (simp add: unat_of_nat)
  have fixed: "unat (k + word_of_nat (unat u mod 1000) :: u16) = unat k + unat u mod 1000" if "unat k \<le> 18200" for k :: u16
    using that small by (simp add: unat_word_ariths(1) s16)
  have "unat (service_port E FileService u) = (unat (service_base E FileService) + unat u mod 1000) mod 65536"
    by (simp add: service_port_def unat_word_ariths(1) s16)
  moreover have "service_port E ChatService 100 = service_port E VoiceService 0" by (simp add: service_port_def service_base_def)
  moreover have "unat (service_port E ChatService u) = 18000 + unat u mod 1000" "unat (service_port E VoiceService u) = 18100 + unat u mod 1000"
      "unat (service_port E ScreenService u) = 18200 + unat u mod 1000"
    using fixed [of 18000] fixed [of 18100] fixed [of 18200] by (simp_all add: service_port_def service_base_def)
  ultimately show ?thesis using small by linarith
qed

text \<open>The manager after \<open>k\<close> status queries, and the answer of the next one.\<close>

primrec after_queries :: "('w, 't, 'v, 'f) space_env \<Rightarrow> string \<Rightarrow> nat \<Rightarrow> ('w, 't) space_mgr \<Rightarrow> ('w, 't) space_mgr" where
  "after_queries E sid 0 m = m"
| "after_queries E sid (Suc k) m = after_queries E sid k (snd (get_space_status E sid m))"

definition ip_at :: "('w, 't, 'v, 'f) space_env \<Rightarrow> string \<Rightarrow> nat \<Rightarrow> ('w, 't) space_mgr \<Rightarrow> string option" where
  "ip_at E sid k m = (case fst (get_space_status E sid (after_queries E sid k m)) of Inr status \<Rightarrow> ready_ip status | Inl _ \<Rightarrow> None)"

declare await_ip.simps [simp del]

lemma await_ip_hit: "ip_at E sid 0 m = Some ip \<Longrightarrow>
  await_ip E sid (\<lambda>_. False) (\<lambda>_. False) (Suc l) m = ((Inr ip, snd (get_space_status E sid m)), 1)"
  by (cases "get_space_status E sid m") (simp add: await_ip.simps ip_at_def)

lemma await_ip_miss: "ip_at E sid 0 m = None \<Longrightarrow> 0 < l \<Longrightarrow>
  await_ip E sid (\<lambda>_. False) (\<lambda>_. False) (Suc l) m = apsnd Suc (await_ip E sid (\<lambda>_. False) (\<lambda>_. False) l (snd (get_space_status E sid m)))"
  by (cases "get_space_status E sid m") (simp add: await_ip.simps ip_at_def split: prod.splits)

lemma await_ip_finds:
  assumes "k < n" and "\<And>j. j < k \<Longrightarrow> ip_at E sid j m = None" and "ip_at E sid k m = Some ip"
  shows "await_ip E sid (\<lambda>_. False) (\<lambda>_. False) n m = ((Inr ip, after_queries E sid (Suc k) m), Suc k)"
  using assms
proof (induction k arbitrary: n m)
  case 0
  then obtain l where "n = Suc l" by (cases n) auto
  with 0(3) show ?case by (simp add: await_ip_hit)
next
  case (Suc k)
  then obtain l where n: "n = Suc l" "k < l" by (cases n) auto
  have first: "ip_at E sid 0 m = None" using Suc.prems(2) by simp
  have shift: "ip_at E sid j (snd (get_space_status E sid m)) = ip_at E sid (Suc j) m" for j by (simp add: ip_at_def)
  have "await_ip E sid (\<lambda>_. False) (\<lambda>_. False) l (snd (get_space_status E sid m)) =
      ((Inr ip, after_queries E sid (Suc k) (snd (get_space_status E sid m))), Suc k)"
    by (rule Suc.IH [OF n(2)]) (use Suc.prems in \<open>simp_all add: shift\<close>)
  with first n show ?case by (simp add: await_ip_miss)
qed

text \<open>
  The search for the virtual IP ends. It asks the daemon at most seven times, whatever the answers and
  whenever it is cancelled, and when it is not cancelled and the address shows up within those seven
  answers, it stops at the first answer that has it and returns it.
\<close>

theorem await_ip_bounded:
  "snd (await_ip E sid cancelled interrupted (length RETRY_DELAYS) m) \<le> 7 \<and>
   (\<forall>k < 7. (\<forall>j < k. ip_at E sid j m = None) \<longrightarrow> ip_at E sid k m = Some ip \<longrightarrow>
      await_ip E sid (\<lambda>_. False) (\<lambda>_. False) (length RETRY_DELAYS) m = ((Inr ip, after_queries E sid (Suc k) m), Suc k))"
proof -
  have "snd (await_ip E sid cancelled interrupted n m) \<le> n" for n
  proof (induction n arbitrary: m)
    case (Suc n)
    obtain r m1 where g: "get_space_status E sid m = (r, m1)" by fastforce
    obtain res k where a: "await_ip E sid cancelled interrupted n m1 = (res, k)" by fastforce
    then have "k \<le> n" using Suc [of m1] by simp
    with g a show ?case by (simp add: await_ip.simps split: option.split)
  qed (simp add: await_ip.simps)
  moreover have "length RETRY_DELAYS = 7" by (simp add: RETRY_DELAYS_def)
  ultimately show ?thesis using await_ip_finds [of _ 7] by (metis (no_types, lifting))
qed

section \<open>Connecting and deleting\<close>

text \<open>
  Connecting one space leaves the servers, the chat client and the background task of every other space
  as they were, whether it succeeds or not: the spaces it disconnects are disconnected in the daemon only,
  so the servers of a space that is no longer connected keep their ports.
\<close>

theorem connect_keeps_other_servers:
  assumes "a \<noteq> b" and "space_connect E i b m = (r, m')"
  shows "(\<forall>s. sm_services m' s a = sm_services m s a) \<and> sm_clients m' a = sm_clients m a \<and>
    (a \<in> sm_tokens m' \<longleftrightarrow> a \<in> sm_tokens m)"
  using space_connect_local [OF assms(1), of E i m] assms(2) by (auto simp: local_part_def fun_eq_iff)

lemma drop_services_gone: "sm_services (drop_services b m) s b = None"
  by (cases s) (simp_all add: drop_services_def drop_service_def)

lemma drop_services_frame [mgr_frames]:
  "sm_spaces (drop_services b m) = sm_spaces m" "sm_db (drop_services b m) = sm_db m" "sm_ipc (drop_services b m) = sm_ipc m"
  "sm_clients (drop_services b m) = sm_clients m" "sm_tokens (drop_services b m) = sm_tokens m" "sm_handles (drop_services b m) = sm_handles m"
  by (simp_all add: drop_services_def drop_service_def)

lemma space_disconnect_effect:
  assumes "space_disconnect E b m = (r, m')"
  shows "sm_services m' s b = None" "sm_clients m' b = None" "b \<notin> sm_tokens m'" "b \<notin> sm_handles m'"
    "sm_spaces m' = sm_spaces m" "sm_db m' = sm_db m"
    "r = (case fst (se_send E (DisconnectSpace (ul_string (se_uuid E) b)) (sm_ipc m)) of
            Inr (IpcOk _) \<Rightarrow> Inr () | Inr (IpcError e) \<Rightarrow> Inl (SpErr e) | Inl e \<Rightarrow> Inl (SpErr e))"
  using assms
  by (auto simp: space_disconnect_def Let_def mgr_bind_def ipc_data_def ipc_def drop_services_gone mgr_frames
      split: prod.splits sum.splits ipc_response.splits)

text \<open>
  A space is deleted by its owner only, and only with the daemon's consent. On a database without faults,
  a caller who is not the owner changes nothing. When the daemon refuses or cannot be reached, the deletion
  fails with its message and the space stays in the list and in the database; its local servers are stopped
  all the same.
\<close>

theorem delete_needs_owner_and_daemon:
  assumes "db_faults (sm_db m) = []" and "List.find (\<lambda>s. sc_id s = b) (sm_spaces m) = Some space"
    and "get_user_id (se_users E) (sm_db m) = (Inr u, sm_db m)" and "space_delete E b m = (r, m')"
  shows "(sc_owner_id space \<noteq> Some (case u of Some i \<Rightarrow> i | None \<Rightarrow> []) \<longrightarrow> isl r \<and> m' = m) \<and>
    (sc_owner_id space = Some (case u of Some i \<Rightarrow> i | None \<Rightarrow> []) \<longrightarrow>
       (\<forall>e. fst (se_send E (DisconnectSpace (ul_string (se_uuid E) b)) (sm_ipc m)) \<in> {Inl e, Inr (IpcError e)} \<longrightarrow>
          r = Inl (SpErr e) \<and> sm_spaces m' = sm_spaces m \<and> sm_db m' = sm_db m \<and> (\<forall>s. sm_services m' s b = None)))"
proof -
  have same: "on_db (get_user_id (se_users E)) m = (Inr u, m)" by (simp add: on_db_def assms(3))
  have found: "find_space b m = (Inr space, m)" by (simp add: find_space_def assms(2))
  obtain r1 m1 where d: "space_disconnect E b m = (r1, m1)" by fastforce
  have body: "space_delete E b m =
    (if sc_owner_id space \<noteq> Some (case u of Some i \<Rightarrow> i | None \<Rightarrow> []) then (Inl (SpErr (utf8_text [229, 143, 170, 230, 156, 137, 231, 169, 186, 233, 151, 180, 230, 137, 128, 230, 156, 137, 232, 128, 133, 230, 137, 141, 232, 131, 189, 229, 136, 160, 233, 153, 164, 231, 169, 186, 233, 151, 180])), m)
     else mgr_bind (r1, m1) (\<lambda>_ m. mgr_bind (on_db (delete_space (ul_string (se_uuid E) b)) m) (\<lambda>_ m.
                  (Inr (), m\<lparr>sm_spaces := filter (\<lambda>s. sc_id s \<noteq> b) (sm_spaces m)\<rparr>))))"
    by (simp add: space_delete_def same found mgr_bind_def [of "(Inr _, _)"] space_leave_def d)
  show ?thesis
  proof (intro conjI impI allI)
    assume "sc_owner_id space \<noteq> Some (case u of Some i \<Rightarrow> i | None \<Rightarrow> [])"
    then show "isl r" "m' = m" using assms(4) body by auto
  next
    fix e assume own: "sc_owner_id space = Some (case u of Some i \<Rightarrow> i | None \<Rightarrow> [])"
      and f: "fst (se_send E (DisconnectSpace (ul_string (se_uuid E) b)) (sm_ipc m)) \<in> {Inl e, Inr (IpcError e)}"
    from f space_disconnect_effect(7) [OF d] have "r1 = Inl (SpErr e)" by auto
    with own assms(4) body have "r = Inl (SpErr e)" "m' = m1" by (auto simp: mgr_bind_def)
    then show "r = Inl (SpErr e)" "sm_spaces m' = sm_spaces m" "sm_db m' = sm_db m" "sm_services m' s b = None" for s
      using space_disconnect_effect [OF d] by simp_all
  qed
qed

section \<open>Invitations\<close>

lemma map_sum_Inr: "map_sum f g s = Inr y \<longleftrightarrow> (\<exists>x. s = Inr x \<and> g x = y)"
  by (cases s) auto


section \<open>Creating\<close>

text \<open>What is relied on of the JSON text of a configuration: it is read back by \<open>from_config_json\<close>.\<close>

definition config_text_ok :: "('w, 't, 'v, 'f) space_env \<Rightarrow> bool" where
  "config_text_ok E \<longleftrightarrow> (\<forall>c b i. js_ser (se_config E) c = Inr b \<longrightarrow> from_config_json (se_values E) i (of_bytes b) = Inr c)"

lemma dedupe_frame:
  "nc_network_name (dedupe_proxy_cidrs L c) = nc_network_name c" "nc_network_secret (dedupe_proxy_cidrs L c) = nc_network_secret c"
  "nc_dhcp (dedupe_proxy_cidrs L c) = nc_dhcp c" "nc_virtual_ipv4 (dedupe_proxy_cidrs L c) = nc_virtual_ipv4 c"
  by (simp_all add: dedupe_proxy_cidrs_def Let_def split: option.splits)

text \<open>The statements of \<open>create\<close> on a database without faults.\<close>

lemma on_db_query: "db_faults (sm_db m) = [] \<Longrightarrow> on_db (query_row q) m = (Inr (q (sm_db m)), m)"
  by (simp add: on_db_def query_row_no_fault)

lemma on_db_insert_space:
  assumes "db_faults (sm_db m) = []" and "sp_id r \<notin> sp_id ` set (db_spaces (sm_db m))"
  shows "on_db (insert_space r) m =
    (Inr (), m\<lparr>sm_db := (sm_db m)\<lparr>db_spaces := db_spaces (sm_db m) @ [r\<lparr>sp_last_connected_at := None\<rparr>]\<rparr>\<rparr>)"
  using assms by (simp add: on_db_def insert_space_def insert_row_def stmt_no_fault sql_insert_def)

lemma on_db_update_config:
  "db_faults (sm_db m) = [] \<Longrightarrow> on_db (update_space_config sid c) m =
    (Inr (), m\<lparr>sm_db := (sm_db m)\<lparr>db_spaces := sql_update (\<lambda>r. sp_id r = sid) (\<lambda>r. r\<lparr>sp_config_json := Some c\<rparr>) (db_spaces (sm_db m))\<rparr>\<rparr>)"
  by (simp add: on_db_def update_space_config_def change_rows_def stmt_no_fault)

lemma on_db_add_member:
  assumes "db_faults (sm_db m) = []" and "sid \<in> sp_id ` set (db_spaces (sm_db m))"
  obtains ms where "on_db (add_member now sid mid nick own) m = (Inr (), m\<lparr>sm_db := (sm_db m)\<lparr>db_members := ms\<rparr>\<rparr>)"
    "mid \<in> me_id ` set ms"
    "mid \<in> me_id ` set (db_members (sm_db m)) \<Longrightarrow> ms = db_members (sm_db m)"
    "\<forall>r \<in> set ms. r \<in> set (db_members (sm_db m)) \<or> me_space_id r = sid"
proof (cases "mid \<in> me_id ` set (db_members (sm_db m))")
  case True
  then show thesis using that [of "db_members (sm_db m)"] assms(1) by (simp add: on_db_def add_member_def stmt_no_fault Let_def)
next
  case False
  then show thesis using assms that by (simp add: on_db_def add_member_def stmt_no_fault Let_def fk_ok_def sql_insert_or_ignore_def)
qed

lemma store_config_effect:
  assumes "db_faults (sm_db m) = []" and "store_config E cfg sp m = (Inr space, m')"
  obtains c where "js_ser (se_config E) cfg = Inr c" "space = sp\<lparr>sc_config_json := Some (of_bytes c)\<rparr>"
    "m' = m\<lparr>sm_db := (sm_db m)\<lparr>db_spaces := sql_update (\<lambda>r. sp_id r = ul_string (se_uuid E) (sc_id sp))
              (\<lambda>r. r\<lparr>sp_config_json := Some (of_bytes c)\<rparr>) (db_spaces (sm_db m))\<rparr>, sm_spaces := sm_spaces m @ [space]\<rparr>"
  using assms(2) by (auto simp: store_config_def mgr_bind_def on_db_update_config [OF assms(1)] Let_def split: sum.splits)

text \<open>
  What a \<open>create\<close> on a database without faults does up to the configuration: the row of the space and at
  most one member row.
\<close>

lemma space_create_runs:
  assumes ok: "db_faults (sm_db m) = []" and fresh: "ul_string (se_uuid E) b \<notin> sp_id ` set (db_spaces (sm_db m))"
  obtains u uc sp ms where
    "get_user_id (se_users E) (sm_db m) = (Inr u, sm_db m)"
    "uc = Option.bind (first_row (se_users E) (db_users (sm_db m))) us_config_json"
    "sp = new_space E b name desc (owner_of u) (cfg_get_str (se_global E) KEY_RELAY_NETWORK_PREFIX DEFAULT_RELAY_NETWORK_PREFIX @ name) secret"
    "space_create E b i name secret desc m = store_config E (create_config E i uc sp) sp
       (m\<lparr>sm_db := (sm_db m)\<lparr>db_spaces := db_spaces (sm_db m) @ [space_row_of E sp], db_members := ms\<rparr>\<rparr>)"
    "owner_of u \<in> me_id ` set ms"
    "owner_of u \<in> me_id ` set (db_members (sm_db m)) \<Longrightarrow> ms = db_members (sm_db m)"
    "\<forall>r \<in> set ms. r \<in> set (db_members (sm_db m)) \<or> me_space_id r = ul_string (se_uuid E) b"
proof -
  let ?u = "map_option us_id (first_row (se_users E) (db_users (sm_db m)))"
  let ?net = "cfg_get_str (se_global E) KEY_RELAY_NETWORK_PREFIX DEFAULT_RELAY_NETWORK_PREFIX @ name"
  let ?sp = "new_space E b name desc (owner_of ?u) ?net secret"
  let ?sid = "ul_string (se_uuid E) b"
  let ?row = "(space_row_of E ?sp)\<lparr>sp_last_connected_at := None\<rparr>"
  let ?m1 = "m\<lparr>sm_db := (sm_db m)\<lparr>db_spaces := db_spaces (sm_db m) @ [?row]\<rparr>\<rparr>"
  have rowid: "sp_id ?row = ?sid" "sp_id (space_row_of E ?sp) = ?sid" by (simp_all add: space_row_of_def new_space_def)
  have 1: "on_db (get_user_id (se_users E)) m = (Inr ?u, m)" by (simp add: get_user_id_def on_db_query [OF ok])
  have 2: "on_db (insert_space (space_row_of E ?sp)) m = (Inr (), ?m1)"
    by (rule on_db_insert_space [OF ok]) (simp add: rowid(2) fresh)
  have "db_faults (sm_db ?m1) = []" "?sid \<in> sp_id ` set (db_spaces (sm_db ?m1))" using ok rowid(1) by simp_all
  then obtain ms where 3: "on_db (add_member (se_rfc3339 E (se_now E)) ?sid (owner_of ?u) name True) ?m1 = (Inr (), ?m1\<lparr>sm_db := (sm_db ?m1)\<lparr>db_members := ms\<rparr>\<rparr>)"
      "owner_of ?u \<in> me_id ` set ms" "owner_of ?u \<in> me_id ` set (db_members (sm_db ?m1)) \<Longrightarrow> ms = db_members (sm_db ?m1)"
      "\<forall>r \<in> set ms. r \<in> set (db_members (sm_db ?m1)) \<or> me_space_id r = ?sid"
    by (rule on_db_add_member [where mid = "owner_of ?u" and nick = name and own = True and now = "se_rfc3339 E (se_now E)"]) blast
  let ?m2 = "?m1\<lparr>sm_db := (sm_db ?m1)\<lparr>db_members := ms\<rparr>\<rparr>"
  have ok2: "db_faults (sm_db ?m2) = []" using ok by simp
  obtain uc where 4: "on_db (get_user_config (se_users E)) ?m2 = (Inr uc, ?m2)"
    unfolding get_user_config_def using on_db_query [OF ok2] by blast
  have run: "space_create E b i name secret desc m = store_config E (create_config E i uc ?sp) ?sp ?m2"
    unfolding space_create_def 1 mgr_bind_def prod.case sum.case Let_def 2 3(1) 4 ..
  have "uc = Option.bind (first_row (se_users E) (db_users (sm_db m))) us_config_json"
    using 4 unfolding get_user_config_def on_db_query [OF ok2] by simp
  moreover have "?row = space_row_of E ?sp" by (simp add: space_row_of_def)
  moreover have "get_user_id (se_users E) (sm_db m) = (Inr ?u, sm_db m)" by (simp add: get_user_id_def query_row_no_fault ok)
  ultimately show thesis using run 3(2-4) by (intro that [of ?u uc ?sp ms]) simp_all
qed

text \<open>The whole of a successful \<open>create\<close>.\<close>

lemma space_create_effect:
  assumes ok: "db_faults (sm_db m) = []" and fresh: "ul_string (se_uuid E) b \<notin> sp_id ` set (db_spaces (sm_db m))"
    and r: "space_create E b i name secret desc m = (Inr space, m')"
  obtains ms cfg c u where
    "get_user_id (se_users E) (sm_db m) = (Inr u, sm_db m)"
    "js_ser (se_config E) cfg = Inr c" "nc_dhcp cfg = False" "nc_virtual_ipv4 cfg = canonical_virtual_ipv4 b"
    "nc_network_name cfg = cfg_get_str (se_global E) KEY_RELAY_NETWORK_PREFIX DEFAULT_RELAY_NETWORK_PREFIX @ name"
    "nc_network_secret cfg = secret"
    "sc_id space = b" "sc_network_name space = nc_network_name cfg" "sc_network_secret space = secret"
    "sm_db m' = (sm_db m)\<lparr>db_members := ms, db_spaces := db_spaces (sm_db m) @ [(space_row_of E space)\<lparr>sp_config_json := Some (of_bytes c)\<rparr>]\<rparr>"
    "owner_of u \<in> me_id ` set ms"
    "owner_of u \<in> me_id ` set (db_members (sm_db m)) \<Longrightarrow> ms = db_members (sm_db m)"
    "\<forall>r \<in> set ms. r \<in> set (db_members (sm_db m)) \<or> me_space_id r = ul_string (se_uuid E) b"
    "sm_spaces m' = sm_spaces m @ [space]"
proof -
  obtain u uc sp ms where c: "get_user_id (se_users E) (sm_db m) = (Inr u, sm_db m)"
    "sp = new_space E b name desc (owner_of u) (cfg_get_str (se_global E) KEY_RELAY_NETWORK_PREFIX DEFAULT_RELAY_NETWORK_PREFIX @ name) secret"
    "space_create E b i name secret desc m = store_config E (create_config E i uc sp) sp
       (m\<lparr>sm_db := (sm_db m)\<lparr>db_spaces := db_spaces (sm_db m) @ [space_row_of E sp], db_members := ms\<rparr>\<rparr>)"
    "owner_of u \<in> me_id ` set ms" "owner_of u \<in> me_id ` set (db_members (sm_db m)) \<Longrightarrow> ms = db_members (sm_db m)"
    "\<forall>r \<in> set ms. r \<in> set (db_members (sm_db m)) \<or> me_space_id r = ul_string (se_uuid E) b"
    by (rule space_create_runs [OF ok fresh, of name desc secret i]) blast
  let ?m2 = "m\<lparr>sm_db := (sm_db m)\<lparr>db_spaces := db_spaces (sm_db m) @ [space_row_of E sp], db_members := ms\<rparr>\<rparr>"
  have ok2: "db_faults (sm_db ?m2) = []" using ok by simp
  have "store_config E (create_config E i uc sp) sp ?m2 = (Inr space, m')" using r c(3) by simp
  then obtain t where t: "js_ser (se_config E) (create_config E i uc sp) = Inr t" "space = sp\<lparr>sc_config_json := Some (of_bytes t)\<rparr>"
    "m' = ?m2\<lparr>sm_db := (sm_db ?m2)\<lparr>db_spaces := sql_update (\<lambda>r. sp_id r = ul_string (se_uuid E) (sc_id sp))
              (\<lambda>r. r\<lparr>sp_config_json := Some (of_bytes t)\<rparr>) (db_spaces (sm_db ?m2))\<rparr>, sm_spaces := sm_spaces ?m2 @ [space]\<rparr>"
    by (rule store_config_effect [OF ok2])
  have id: "sc_id sp = b" "sp_id (space_row_of E sp) = ul_string (se_uuid E) b" by (simp_all add: c(2) new_space_def space_row_of_def)
  have upd: "sql_update (\<lambda>r. sp_id r = ul_string (se_uuid E) b) f (db_spaces (sm_db m) @ [space_row_of E sp]) = db_spaces (sm_db m) @ [f (space_row_of E sp)]" for f
    using fresh id(2) by (auto simp: sql_update_def image_iff intro!: map_idI)
  show thesis
    by (rule that [of u "create_config E i uc sp" t ms])
      (use t c upd id in \<open>auto simp: create_config_def dedupe_frame Let_def new_space_def space_row_of_def\<close>)
qed

lemma find_snoc: "(\<And>y. y \<in> set xs \<Longrightarrow> \<not> P y) \<Longrightarrow> P x \<Longrightarrow> List.find P (xs @ [x]) = Some x"
  by (induction xs) auto

text \<open>
  A new space is connected with what it was created with: after a successful creation on a database
  without faults, the effective configuration of the space, read back from the database, has the prefixed
  network name, the secret, DHCP off and the address computed from the identifier.
\<close>

theorem created_space_config:
  assumes "db_faults (sm_db m) = []" and "uuid_ok (se_uuid E)" and "config_text_ok E"
    and "ul_string (se_uuid E) b \<notin> sp_id ` set (db_spaces (sm_db m))" and "b \<notin> sc_id ` set (sm_spaces m)"
    and "space_create E b i name secret desc m = (Inr space, m')"
  shows "\<exists>cfg. get_effective_config E j b m' = (Inr cfg, m') \<and>
    nc_network_name cfg = cfg_get_str (se_global E) KEY_RELAY_NETWORK_PREFIX DEFAULT_RELAY_NETWORK_PREFIX @ name \<and>
    nc_network_secret cfg = secret \<and> \<not> nc_dhcp cfg \<and> nc_virtual_ipv4 cfg = canonical_virtual_ipv4 b"
proof -
  obtain ms cfg c u where e: "js_ser (se_config E) cfg = Inr c" "nc_dhcp cfg = False" "nc_virtual_ipv4 cfg = canonical_virtual_ipv4 b"
      "nc_network_name cfg = cfg_get_str (se_global E) KEY_RELAY_NETWORK_PREFIX DEFAULT_RELAY_NETWORK_PREFIX @ name"
      "nc_network_secret cfg = secret" "sc_id space = b" "sc_network_name space = nc_network_name cfg" "sc_network_secret space = secret"
      "sm_db m' = (sm_db m)\<lparr>db_members := ms, db_spaces := db_spaces (sm_db m) @ [(space_row_of E space)\<lparr>sp_config_json := Some (of_bytes c)\<rparr>]\<rparr>"
      "sm_spaces m' = sm_spaces m @ [space]"
    by (rule space_create_effect [OF assms(1,4,6)]) blast
  have "List.find (\<lambda>s. sc_id s = b) (sm_spaces m @ [space]) = Some space"
    using assms(5) e(6) by (intro find_snoc) (auto simp: image_iff)
  then have find: "find_space b m' = (Inr space, m')" by (simp add: find_space_def e(10))
  have "List.find (\<lambda>r. sp_id r = ul_string (se_uuid E) b) (db_spaces (sm_db m')) = Some ((space_row_of E space)\<lparr>sp_config_json := Some (of_bytes c)\<rparr>)"
    using assms(4) e(6) by (simp add: e(9) del: find.simps, intro find_snoc) (auto simp: image_iff space_row_of_def)
  then have get: "get_space_config (ul_string (se_uuid E) b) (sm_db m') = (Inr (Some (of_bytes c)), sm_db m')"
    using assms(1) by (simp add: get_space_config_def query_row_no_fault e(9))
  have "effective_of E j space (Some (of_bytes c)) = Inr cfg"
    using assms(3) e(1,5,7,8) by (simp add: effective_of_def config_text_ok_def Let_def)
  then have "get_effective_config E j b m' = (Inr cfg, m')"
    unfolding get_effective_config_def find mgr_bind_def by (simp add: get)
  with e show ?thesis by blast
qed

text \<open>
  The second space of a user has no members. The row of the owner is keyed by the user alone and a
  repeated key is ignored, so after two creations by the same user the second space, which its owner has
  just created, lists nobody.
\<close>

theorem second_space_has_no_members:
  assumes "db_faults (sm_db m) = []" and "uuid_ok (se_uuid E)" and "\<And>t. set (se_member_rows E t) = set t"
    and "ul_string (se_uuid E) a \<notin> sp_id ` set (db_spaces (sm_db m))" and "ul_string (se_uuid E) b \<notin> sp_id ` set (db_spaces (sm_db m))"
    and "a \<noteq> b" and "ul_string (se_uuid E) b \<notin> me_space_id ` set (db_members (sm_db m))"
    and "space_create E a i name secret desc m = (Inr space1, m1)"
    and "space_create E b i name' secret' desc' m1 = (Inr space2, m2)"
  shows "sm_spaces m2 = sm_spaces m @ [space1, space2] \<and> fst (space_members E b m2) = Inr []"
proof -
  obtain ms1 c1 cfg1 u1 where 1: "get_user_id (se_users E) (sm_db m) = (Inr u1, sm_db m)" "sc_id space1 = a"
      "sm_db m1 = (sm_db m)\<lparr>db_members := ms1, db_spaces := db_spaces (sm_db m) @ [(space_row_of E space1)\<lparr>sp_config_json := Some (of_bytes c1)\<rparr>]\<rparr>"
      "owner_of u1 \<in> me_id ` set ms1" "sm_spaces m1 = sm_spaces m @ [space1]"
      "\<forall>r \<in> set ms1. r \<in> set (db_members (sm_db m)) \<or> me_space_id r = ul_string (se_uuid E) a"
    by (rule space_create_effect [OF assms(1,4,8)]) blast
  have ok1: "db_faults (sm_db m1) = []" using assms(1) 1(3) by simp
  have fresh: "ul_string (se_uuid E) b \<notin> sp_id ` set (db_spaces (sm_db m1))"
    using assms(2,5,6) 1(2,3) uuid_string_inj [OF assms(2), of a b] by (auto simp: space_row_of_def)
  obtain ms2 c2 cfg2 u2 where 2: "get_user_id (se_users E) (sm_db m1) = (Inr u2, sm_db m1)"
      "sm_db m2 = (sm_db m1)\<lparr>db_members := ms2, db_spaces := db_spaces (sm_db m1) @ [(space_row_of E space2)\<lparr>sp_config_json := Some (of_bytes c2)\<rparr>]\<rparr>"
      "owner_of u2 \<in> me_id ` set (db_members (sm_db m1)) \<Longrightarrow> ms2 = db_members (sm_db m1)" "sm_spaces m2 = sm_spaces m1 @ [space2]"
    by (rule space_create_effect [OF ok1 fresh assms(9)]) blast
  have "u2 = u1" using 1(1) 2(1) 1(3) assms(1) by (simp add: get_user_id_def query_row_no_fault)
  then have members: "db_members (sm_db m2) = ms1" using 1(3,4) 2(2,3) by simp
  have "r \<in> set ms1 \<Longrightarrow> me_space_id r \<noteq> ul_string (se_uuid E) b" for r
    using 1(6) assms(6,7) uuid_string_inj [OF assms(2), of a b] by (metis imageI)
  then have "filter (\<lambda>r. me_space_id r = ul_string (se_uuid E) b) (db_members (sm_db m2)) = []" by (simp add: members)
  moreover have "se_member_rows E [] = []" using assms(3) [of "[]"] by simp
  ultimately show ?thesis
    using ok1 2(2,4) 1(5) by (simp add: space_members_def mgr_bind_def on_db_def list_members_def query_rows_no_fault)
qed

section \<open>A concrete manager\<close>

text \<open>A codec for the configurations of new spaces, whose text is the address behind a letter.\<close>

definition cfg_of_ip :: "string \<Rightarrow> network_config" where
  "cfg_of_ip ip = dedupe_proxy_cidrs net_toy
     ((network_config_default ''id'')\<lparr>nc_network_name := ''homeTier_n'', nc_network_secret := ''s'', nc_dhcp := False, nc_virtual_ipv4 := ip\<rparr>)"

definition space_env_toy :: "(unit, nat, string, nat) space_env" where
  "space_env_toy =
    \<lparr>se_send = \<lambda>q w. (case q of GetSpaceStatus _ \<Rightarrow> Inr (IpcOk (Some (JObj [(''virtual_ip'', JStr ''10.144.144.2'')]))) | _ \<Rightarrow> Inl ''down'', w),
     se_uuid = uuid_toy, se_net = net_toy,
     se_config = \<lparr>js_ser = \<lambda>c. let t = ''x'' @ nc_virtual_ipv4 c in if c = cfg_of_ip (nc_virtual_ipv4 c) \<and> trim t = t then Inr (as_bytes t) else Inl [],
                  js_de = \<lambda>b. Inl []\<rparr>,
     se_values = \<lparr>jv_parse = Inr, jv_keys = \<lambda>_. None, jv_config = \<lambda>v. Inr (cfg_of_ip (tl v))\<rparr>,
     se_to_value = \<lambda>c. JStr (nc_network_name c), se_peers = \<lambda>_. Inr [], se_text = \<lambda>_. [], se_value = \<lambda>_. None, se_global = None, se_now = 0,
     se_rfc3339 = dec, se_parse_time = \<lambda>_. None, se_users = \<lambda>t. t, se_rows = \<lambda>t. t, se_member_rows = \<lambda>t. t, se_file_rows = \<lambda>t. t,
     se_start = \<lambda>_ _. None, se_prims = primitives_toy, se_zstd = zstd_toy, se_link = link_toy, se_cell = None, se_nonce = replicate 12 9\<rparr>"

lemma space_env_toy_fields: "se_uuid space_env_toy = uuid_toy" "se_net space_env_toy = net_toy" "se_global space_env_toy = None"
  "se_member_rows space_env_toy t = t" "se_users space_env_toy us = us" "se_prims space_env_toy = primitives_toy" "se_zstd space_env_toy = zstd_toy"
  "se_link space_env_toy = link_toy" "se_nonce space_env_toy = replicate 12 9" "se_cell space_env_toy = None"
  by (simp_all add: space_env_toy_def)

lemma config_text_toy: "config_text_ok space_env_toy"
  by (auto simp: config_text_ok_def space_env_toy_def from_config_json_def Let_def split: if_splits)

definition mgr_toy :: "(unit, nat) space_mgr" where
  "mgr_toy =
    \<lparr>sm_db = db_empty True [], sm_spaces = [], sm_services = \<lambda>_ _. None, sm_clients = \<lambda>_. None, sm_tokens = {}, sm_handles = {}, sm_ipc = ()\<rparr>"

lemma mgr_toy_db: "sm_db mgr_toy = db_empty True []" "sm_spaces mgr_toy = []" "db_faults (db_empty True []) = []" "db_spaces (db_empty True []) = []"
  "db_members (db_empty True []) = []" "db_users (db_empty True []) = []"
  by (simp_all add: mgr_toy_def db_empty_def)

text \<open>Creating a space of that name on any database without faults and without users succeeds.\<close>

lemma toy_create:
  assumes "db_faults (sm_db m) = []" and "db_users (sm_db m) = []" and "ul_string uuid_toy b \<notin> sp_id ` set (db_spaces (sm_db m))"
    and "trim (''x'' @ canonical_virtual_ipv4 b) = ''x'' @ canonical_virtual_ipv4 b"
  shows "\<exists>sp m'. space_create space_env_toy b ''id'' ''n'' ''s'' None m = (Inr sp, m')"
proof -
  have fresh: "ul_string (se_uuid space_env_toy) b \<notin> sp_id ` set (db_spaces (sm_db m))" using assms(3) by (simp add: space_env_toy_fields)
  obtain u uc sp ms where r: "uc = Option.bind (first_row (se_users space_env_toy) (db_users (sm_db m))) us_config_json"
    "sp = new_space space_env_toy b ''n'' None (owner_of u) (cfg_get_str (se_global space_env_toy) KEY_RELAY_NETWORK_PREFIX DEFAULT_RELAY_NETWORK_PREFIX @ ''n'') ''s''"
    "space_create space_env_toy b ''id'' ''n'' ''s'' None m = store_config space_env_toy (create_config space_env_toy ''id'' uc sp) sp
       (m\<lparr>sm_db := (sm_db m)\<lparr>db_spaces := db_spaces (sm_db m) @ [space_row_of space_env_toy sp], db_members := ms\<rparr>\<rparr>)"
    by (rule space_create_runs [OF assms(1) fresh, of "''n''" None "''s''" "''id''"]) blast
  have "uc = None" by (simp add: r(1) assms(2) space_env_toy_fields first_row_def)
  then have c: "create_config space_env_toy ''id'' uc sp = cfg_of_ip (canonical_virtual_ipv4 b)"
    by (simp add: create_config_def cfg_of_ip_def r(2) new_space_def space_env_toy_fields cfg_get_str_def DEFAULT_RELAY_NETWORK_PREFIX_def)
  have "nc_virtual_ipv4 (cfg_of_ip ip) = ip" for ip by (simp add: cfg_of_ip_def dedupe_frame)
  with assms(4) have "js_ser (se_config space_env_toy) (cfg_of_ip (canonical_virtual_ipv4 b)) = Inr (as_bytes (''x'' @ canonical_virtual_ipv4 b))"
    by (simp add: space_env_toy_def Let_def)
  then show ?thesis
    unfolding r(3) c store_config_def using assms(1) by (simp add: on_db_update_config mgr_bind_def Let_def)
qed

lemma toy_texts: "trim (''x'' @ canonical_virtual_ipv4 1) = ''x'' @ canonical_virtual_ipv4 1"
  "trim (''x'' @ canonical_virtual_ipv4 2) = ''x'' @ canonical_virtual_ipv4 2"
proof -
  have "canonical_host 1 = 3" "canonical_host 2 = 4" "dec 3 = ''3''" "dec 4 = ''4''" by code_simp+
  moreover have "trim ''x10.144.144.3'' = ''x10.144.144.3''" "trim ''x10.144.144.4'' = ''x10.144.144.4''" by code_simp+
  ultimately show "trim (''x'' @ canonical_virtual_ipv4 1) = ''x'' @ canonical_virtual_ipv4 1"
    "trim (''x'' @ canonical_virtual_ipv4 2) = ''x'' @ canonical_virtual_ipv4 2"
    by (simp_all add: canonical_virtual_ipv4_def)
qed

theorem created_space_config_witness:
  "\<exists>sp m' cfg. space_create space_env_toy 1 ''id'' ''n'' ''s'' None mgr_toy = (Inr sp, m') \<and>
     get_effective_config space_env_toy ''id'' 1 m' = (Inr cfg, m') \<and> nc_network_name cfg = ''homeTier_n'' \<and> nc_network_secret cfg = ''s''"
proof -
  obtain sp m' where c: "space_create space_env_toy 1 ''id'' ''n'' ''s'' None mgr_toy = (Inr sp, m')"
    using toy_create [of mgr_toy 1] toy_texts by (auto simp: mgr_toy_db)
  have "db_faults (sm_db mgr_toy) = []" "uuid_ok (se_uuid space_env_toy)"
    "ul_string (se_uuid space_env_toy) 1 \<notin> sp_id ` set (db_spaces (sm_db mgr_toy))" "1 \<notin> sc_id ` set (sm_spaces mgr_toy)"
    by (simp_all add: mgr_toy_db space_env_toy_fields uuid_toy_ok)
  from created_space_config [OF this(1,2) config_text_toy this(3,4) c, of "''id''"]
  show ?thesis using c by (auto simp: space_env_toy_fields cfg_get_str_def DEFAULT_RELAY_NETWORK_PREFIX_def)
qed

theorem second_space_has_no_members_witness:
  "\<exists>sp1 m1 sp2 m2. space_create space_env_toy 1 ''id'' ''n'' ''s'' None mgr_toy = (Inr sp1, m1) \<and>
     space_create space_env_toy 2 ''id'' ''n'' ''s'' None m1 = (Inr sp2, m2) \<and> fst (space_members space_env_toy 2 m2) = Inr []"
proof -
  obtain sp1 m1 where 1: "space_create space_env_toy 1 ''id'' ''n'' ''s'' None mgr_toy = (Inr sp1, m1)"
    using toy_create [of mgr_toy 1] toy_texts by (auto simp: mgr_toy_db)
  have base: "db_faults (sm_db mgr_toy) = []" "uuid_ok (se_uuid space_env_toy)" "set (se_member_rows space_env_toy t) = set t"
    "ul_string (se_uuid space_env_toy) a \<notin> sp_id ` set (db_spaces (sm_db mgr_toy))"
    "ul_string (se_uuid space_env_toy) a \<notin> me_space_id ` set (db_members (sm_db mgr_toy))" for t a
    by (simp_all add: mgr_toy_db space_env_toy_fields uuid_toy_ok)
  obtain ms cfg c u where e: "sc_id sp1 = 1"
      "sm_db m1 = (sm_db mgr_toy)\<lparr>db_members := ms, db_spaces := db_spaces (sm_db mgr_toy) @ [(space_row_of space_env_toy sp1)\<lparr>sp_config_json := Some (of_bytes c)\<rparr>]\<rparr>"
    by (rule space_create_effect [OF base(1,4) 1]) blast
  have "ul_string uuid_toy 2 \<notin> sp_id ` set (db_spaces (sm_db m1))"
    using uuid_string_inj [OF uuid_toy_ok, of 2 1] by (simp add: e mgr_toy_db space_row_of_def space_env_toy_fields)
  then obtain sp2 m2 where 2: "space_create space_env_toy 2 ''id'' ''n'' ''s'' None m1 = (Inr sp2, m2)"
    using toy_create [of m1 2] toy_texts e by (auto simp: mgr_toy_db)
  from second_space_has_no_members [OF base(1-3) base(4) base(4) _ base(5) 1 2] show ?thesis using 1 2 by auto
qed

definition space_toy :: "nat space" where
  "space_toy =
    \<lparr>sc_id = 1, sc_name = ''n'', sc_description = None, sc_owner_id = Some ''u'', sc_network_name = ''net'', sc_network_secret = ''s'',
     sc_created_at = 0, sc_last_connected_at = None, sc_is_auto_connect = False, sc_status = Connected, sc_virtual_ip = None,
     sc_member_count = 1, sc_config_json = None\<rparr>"

definition mgr_toy1 :: "(unit, nat) space_mgr" where
  "mgr_toy1 = mgr_toy\<lparr>sm_db := (db_empty True [])\<lparr>db_users := [\<lparr>us_id = ''u'', us_name = ''n'', us_config_json = None\<rparr>]\<rparr>,
     sm_spaces := [space_toy], sm_services := (\<lambda>_. [1 \<mapsto> 18001, 2 \<mapsto> 18002])\<rparr>"

lemma mgr_toy1_facts: "db_faults (sm_db mgr_toy1) = []" "List.find (\<lambda>s. sc_id s = 1) (sm_spaces mgr_toy1) = Some space_toy"
  "get_user_id (se_users space_env_toy) (sm_db mgr_toy1) = (Inr (Some ''u''), sm_db mgr_toy1)" "sm_services mgr_toy1 s 2 = Some 18002"
  by (simp_all add: mgr_toy1_def mgr_toy_db space_toy_def get_user_id_def query_row_no_fault space_env_toy_fields first_row_def)

theorem connect_keeps_other_servers_witness:
  "sm_services (snd (space_connect space_env_toy ''id'' 1 mgr_toy1)) ChatService 2 = Some 18002"
proof -
  obtain r m' where c: "space_connect space_env_toy ''id'' 1 mgr_toy1 = (r, m')" by fastforce
  have "(2 :: uuid) \<noteq> 1" by simp
  from connect_keeps_other_servers [OF this c] show ?thesis using c mgr_toy1_facts(4) by simp
qed

theorem delete_needs_owner_and_daemon_witness:
  "fst (space_delete space_env_toy 1 mgr_toy1) = Inl (SpErr ''down'') \<and> sm_spaces (snd (space_delete space_env_toy 1 mgr_toy1)) = [space_toy] \<and>
   sm_services (snd (space_delete space_env_toy 1 mgr_toy1)) ChatService 1 = None"
proof -
  obtain r m' where c: "space_delete space_env_toy 1 mgr_toy1 = (r, m')" by fastforce
  have "fst (se_send space_env_toy (DisconnectSpace (ul_string (se_uuid space_env_toy) 1)) (sm_ipc mgr_toy1)) = Inl ''down''"
    by (simp add: space_env_toy_def)
  moreover have "sc_owner_id space_toy = Some ''u''" "sm_spaces mgr_toy1 = [space_toy]" by (simp_all add: space_toy_def mgr_toy1_def)
  ultimately show ?thesis
    using delete_needs_owner_and_daemon [OF mgr_toy1_facts(1-3) c] c by auto
qed

theorem await_ip_bounded_witness:
  "fst (fst (await_ip space_env_toy ''1'' (\<lambda>_. False) (\<lambda>_. False) (length RETRY_DELAYS) mgr_toy1)) = Inr ''10.144.144.2''"
proof -
  have "ip_at space_env_toy ''1'' 0 mgr_toy1 = Some ''10.144.144.2''"
    by (simp add: ip_at_def get_space_status_def ipc_data_def ipc_def space_env_toy_def ready_ip_def json_get_defs)
  then show ?thesis
    using await_ip_bounded [of space_env_toy "''1''" "\<lambda>_. False" "\<lambda>_. False" mgr_toy1 "''10.144.144.2''"] by fastforce
qed

lemma toy_share_ok: "share_fits (share_info_of space_toy (base_config ''id'' space_toy) None)" "share_utf8 (share_info_of space_toy (base_config ''id'' space_toy) None)"
  by (simp_all add: share_info_of_def base_config_def space_toy_def network_config_default_def share_fits_def share_utf8_def fits_string_def
      MAX_STRING_LEN_def is_utf8_def)


end
