(* ===== verification/Connect_Path.thy ===== *)
theory Connect_Path
  imports Space_Facts
begin

text \<open>
  The whole path of a connect on the desktop: the manager of spaces on top of the IPC client, the frames, the
  daemon, the EasyTier manager and the core. The manager's \<open>se_send\<close> is instantiated with the client of
  \<open>Ipc_Transport\<close>, whose server end runs \<open>handle_request\<close> of \<open>Daemon_Ipc\<close>.
\<close>

definition sendable :: "'a json \<Rightarrow> 'a \<Rightarrow> bool" where
  "sendable J x \<longleftrightarrow> (\<exists>b. js_ser J x = Inr b \<and> length b \<le> MAX_FRAME)"

definition open_stream :: ipc_stream where "open_stream = \<lparr>st_unread = [], st_pending = []\<rparr>"

lemma ipc_through_client:
  assumes "wire_json JQ" and "wire_json JR" and "se_send E = client_send De JQ JR no_faults" and "link_clean (sm_ipc m)"
    and "sendable JQ q" and "handle_request De q (il_daemon (sm_ipc m)) = (Done x, d)" and "sendable JR x"
  shows "ipc E q m = (Inr x, m\<lparr>sm_ipc := \<lparr>il_stream = Some open_stream, il_daemon = d\<rparr>\<rparr>)"
proof -
  from assms(5,7) obtain b c where b: "js_ser JQ q = Inr b" "length b \<le> MAX_FRAME" and c: "js_ser JR x = Inr c" "length c \<le> MAX_FRAME"
    unfolding sendable_def by blast
  from client_send_ok [OF assms(1,2,4) b assms(6) c] show ?thesis
    by (simp add: ipc_def assms(3) open_stream_def)
qed

lemma open_clean [simp]: "link_clean \<lparr>il_stream = Some open_stream, il_daemon = d\<rparr>"
  by (simp add: link_clean_def open_stream_def)

lemma start_services_ok:
  assumes "\<And>s p. se_start E s p = None"
  shows "\<exists>m'. start_services E b m = (Inr (), m') \<and> sm_ipc m' = sm_ipc m \<and> (\<forall>s. sm_services m' s b = Some (service_port E s b))"
proof -
  have all: "sm_services m' s b = Some (service_port E s b)"
    if "m' = (let ms = m\<lparr>sm_services := (sm_services m)(ChatService := (sm_services m ChatService)(b \<mapsto> service_port E ChatService b),
        FileService := (sm_services m FileService)(b \<mapsto> service_port E FileService b),
        VoiceService := (sm_services m VoiceService)(b \<mapsto> service_port E VoiceService b),
        ScreenService := (sm_services m ScreenService)(b \<mapsto> service_port E ScreenService b))\<rparr> in ms)" for m' s
    unfolding that Let_def by (cases s) simp_all
  show ?thesis
    using all by (simp add: start_services_def start_service_def assms mgr_bind_def Let_def)
qed


section \<open>A concrete run\<close>

definition connect_request :: ipc_request where "connect_request = ConnectSpace ''1'' JNull"

definition connect_answer :: ipc_response where "connect_answer = IpcOk (Some (JObj [(''instance_id'', JStr ''1'')]))"

definition path_requests :: "ipc_request json" where
  "path_requests =
    \<lparr>js_ser = \<lambda>q. if q = Ping then Inr [1] else if q = ListSpaces then Inr [2] else if q = connect_request then Inr [3] else Inl [],
     js_de = \<lambda>b. if b = [1] then Inr Ping else if b = [2] then Inr ListSpaces else if b = [3] then Inr connect_request else Inl []\<rparr>"

definition path_responses :: "ipc_response json" where
  "path_responses =
    \<lparr>js_ser = \<lambda>r. if r = IpcOk None then Inr [1] else if r = IpcOk (Some (JArr [])) then Inr [2] else if r = connect_answer then Inr [3] else Inl [],
     js_de = \<lambda>b. if b = [1] then Inr (IpcOk None) else if b = [2] then Inr (IpcOk (Some (JArr []))) else if b = [3] then Inr connect_answer else Inl []\<rparr>"

lemma path_codecs: "wire_json path_requests" "wire_json path_responses"
  by (auto simp: wire_json_def path_requests_def path_responses_def split: if_splits)

lemma path_sendable: "sendable path_requests Ping" "sendable path_requests ListSpaces" "sendable path_requests connect_request"
  "sendable path_responses (IpcOk None)" "sendable path_responses (IpcOk (Some (JArr [])))" "sendable path_responses connect_answer"
  by (auto simp: sendable_def path_requests_def path_responses_def MAX_FRAME_def connect_request_def)

definition home_config :: network_config where "home_config = (network_config_default ''id'')\<lparr>nc_network_name := ''home''\<rparr>"

definition path_env :: "((uuid \<times> proto_config) list ipc_link, nat, string, nat) space_env" where
  "path_env =
    \<lparr>se_send = client_send daemon_env_toy path_requests path_responses no_faults, se_uuid = ee_uuid env_toy, se_net = net_toy,
     se_config = \<lparr>js_ser = \<lambda>_. Inl [], js_de = \<lambda>_. Inl []\<rparr>,
     se_values = \<lparr>jv_parse = Inr, jv_keys = \<lambda>_. None, jv_config = \<lambda>_. Inr home_config\<rparr>,
     se_to_value = \<lambda>_. JNull, se_peers = \<lambda>_. Inr [], se_text = \<lambda>_. [], se_value = \<lambda>_. None, se_global = None, se_now = 0,
     se_rfc3339 = dec, se_parse_time = \<lambda>_. None, se_users = \<lambda>t. t, se_rows = \<lambda>t. t, se_member_rows = \<lambda>t. t, se_file_rows = \<lambda>t. t,
     se_start = \<lambda>_ _. None, se_prims = primitives_toy, se_zstd = zstd_toy, se_link = link_toy, se_cell = None, se_nonce = []\<rparr>"

definition home_row :: space_row where
  "home_row = \<lparr>sp_id = ''1'', sp_name = ''n'', sp_owner_id = None, sp_network_name = ''home'', sp_network_secret = [], sp_description = None,
     sp_created_at = ''0'', sp_last_connected_at = None, sp_is_auto_connect = False, sp_config_json = Some ''x''\<rparr>"

definition path_mgr :: "((uuid \<times> proto_config) list ipc_link, nat) space_mgr" where
  "path_mgr =
    \<lparr>sm_db = (db_empty True [])\<lparr>db_spaces := [home_row]\<rparr>, sm_spaces = [space_toy\<lparr>sc_network_secret := []\<rparr>], sm_services = \<lambda>_ _. None,
     sm_clients = \<lambda>_. None, sm_tokens = {}, sm_handles = {}, sm_ipc = \<lparr>il_stream = None, il_daemon = daemon_toy\<rparr>\<rparr>"

lemma path_env_fields: "se_send path_env = client_send daemon_env_toy path_requests path_responses no_faults" "se_uuid path_env = ee_uuid env_toy"
  "se_to_value path_env c = JNull" "se_start path_env s p = None"
  by (simp_all add: path_env_def)

lemma path_mgr_fields: "sm_ipc path_mgr = \<lparr>il_stream = None, il_daemon = daemon_toy\<rparr>" "db_faults (sm_db path_mgr) = []"
  "List.find (\<lambda>s. sc_id s = 1) (sm_spaces path_mgr) = Some (space_toy\<lparr>sc_network_secret := []\<rparr>)"
  "get_space_config ''1'' (sm_db path_mgr) = (Inr (Some ''x''), sm_db path_mgr)"
  by (simp_all add: path_mgr_def space_toy_def get_space_config_def query_row_no_fault db_empty_def home_row_def)

lemma path_effective: "effective_of path_env ''id'' (space_toy\<lparr>sc_network_secret := []\<rparr>) (Some ''x'') = Inr home_config"
proof -
  have "trim ''x'' = ''x''" by code_simp
  then show ?thesis
    by (simp add: effective_of_def from_config_json_def path_env_def Let_def home_config_def network_config_default_def)
qed


end
