(* ===== verification/Http_Wire.thy ===== *)
theory Http_Wire
  imports Rust_Str
begin

text \<open>
  What the small HTTP servers of homeTier (\<open>file/server.rs\<close>, \<open>chat/server.rs\<close>) use of the standard
  library and of the socket: lossy UTF-8 decoding, \<open>split_whitespace\<close>, \<open>trim_start_matches\<close>, and a
  connection as the list of segments that arrive on it. Also the text of a request, for the clients
  and for stating what the servers do with it.
\<close>

section \<open>Lossy UTF-8\<close>

text \<open>The length of the character at the front, 0 if the bytes there are no character.\<close>

fun char_len :: "nat list \<Rightarrow> nat" where
  "char_len [] = 0"
| "char_len (b # bs) =
    (if b < 128 then 1
     else if 194 \<le> b \<and> b \<le> 223 then (case bs of c # _ \<Rightarrow> if cont c then 2 else 0 | _ \<Rightarrow> 0)
     else if 224 \<le> b \<and> b \<le> 239 then
       (case bs of c # d # _ \<Rightarrow>
          if cont c \<and> (b = 224 \<longrightarrow> 160 \<le> c) \<and> (b = 237 \<longrightarrow> c \<le> 159) \<and> cont d then 3 else 0 | _ \<Rightarrow> 0)
     else if 240 \<le> b \<and> b \<le> 244 then
       (case bs of c # d # e # _ \<Rightarrow>
          if cont c \<and> (b = 240 \<longrightarrow> 144 \<le> c) \<and> (b = 244 \<longrightarrow> c \<le> 143) \<and> cont d \<and> cont e then 4 else 0 | _ \<Rightarrow> 0)
     else 0)"

text \<open>The bytes that one replacement character stands for: the longest beginning of a character.\<close>

fun bad_len :: "nat list \<Rightarrow> nat" where
  "bad_len [] = 0"
| "bad_len (b # bs) =
    (let second = (case bs of c # _ \<Rightarrow>
           cont c \<and> (b = 224 \<longrightarrow> 160 \<le> c) \<and> (b = 237 \<longrightarrow> c \<le> 159) \<and> (b = 240 \<longrightarrow> 144 \<le> c) \<and> (b = 244 \<longrightarrow> c \<le> 143)
           | _ \<Rightarrow> False)
     in if 224 \<le> b \<and> b \<le> 239 \<and> second then 2
        else if 240 \<le> b \<and> b \<le> 244 \<and> second then
          (case bs of _ # d # _ \<Rightarrow> if cont d then 3 else 2 | _ \<Rightarrow> 2)
        else 1)"

lemma char_len_le: "char_len bs \<le> length bs"
  by (cases bs) (auto split: list.splits)

function lossy_codes :: "nat list \<Rightarrow> nat list" where
  "lossy_codes bs =
    (if bs = [] then []
     else if char_len bs = 0 then [239, 191, 189] @ lossy_codes (drop (bad_len bs) bs)
     else take (char_len bs) bs @ lossy_codes (drop (char_len bs) bs))"
  by pat_completeness auto
termination
proof (relation "measure length")
  fix bs :: "nat list"
  assume "bs \<noteq> []"
  then have "0 < bad_len bs" by (cases bs) (auto simp: Let_def split: list.splits)
  with \<open>bs \<noteq> []\<close> show "(drop (bad_len bs) bs, bs) \<in> measure length" by simp
qed auto

declare lossy_codes.simps [simp del]

definition from_utf8_lossy :: "bytes \<Rightarrow> string" where
  "from_utf8_lossy b = map char_of (lossy_codes (map unat b))"

lemma utf8_char_len:
  assumes "utf8_codes bs" and "bs \<noteq> []"
  shows "0 < char_len bs \<and> utf8_codes (drop (char_len bs) bs)"
proof (cases bs)
  case (Cons b r)
  consider "b < 128" | "194 \<le> b" "b \<le> 223" | "224 \<le> b" "b \<le> 239" | "240 \<le> b" "b \<le> 244"
    using assms(1) Cons by (force split: if_splits)
  then show ?thesis
  proof cases
    case 2
    then show ?thesis using assms(1) Cons by (auto split: list.splits)
  next
    case 3
    then show ?thesis using assms(1) Cons by (auto split: list.splits)
  next
    case 4
    then show ?thesis using assms(1) Cons by (auto split: list.splits)
  qed (use assms(1) Cons in simp)
qed (use assms in simp)

lemma lossy_codes_id: "utf8_codes bs \<Longrightarrow> lossy_codes bs = bs"
proof (induction bs rule: lossy_codes.induct)
  case (1 bs)
  then show ?case
    by (cases "bs = []") (use utf8_char_len [of bs] in \<open>simp_all add: lossy_codes.simps [of bs] lossy_codes.simps [of "[]"]\<close>)
qed

lemma from_utf8_lossy_valid [simp]: "is_utf8 s \<Longrightarrow> from_utf8_lossy (as_bytes s) = s"
  by (simp add: from_utf8_lossy_def is_utf8_def as_bytes_def comp_def lossy_codes_id)

section \<open>White space and prefixes\<close>

function split_ws :: "string \<Rightarrow> string \<Rightarrow> string list" where
  "split_ws word s =
    (if s = [] then (if word = [] then [] else [word])
     else if ws_front s = 0 then split_ws (word @ [hd s]) (tl s)
     else (if word = [] then [] else [word]) @ split_ws [] (drop (ws_front s) s))"
  by pat_completeness auto
termination
  by (relation "measure (\<lambda>(w, s). length s)") auto

declare split_ws.simps [simp del]

definition split_whitespace :: "string \<Rightarrow> string list" where
  "split_whitespace s = split_ws [] s"

lemma split_ws_Nil [simp]: "split_ws w [] = (if w = [] then [] else [w])"
  by (simp add: split_ws.simps)

lemma ws_front_visible: "visible c \<Longrightarrow> ws_front (c # s) = 0"
  using ws_front_visible_append [of c "[]" s] by simp

lemma ws_front_space: "ws_front (CHR '' '' # s) = 1"
  using ws_front_append [of "'' ''" s] by (simp add: ws_front_single ws1_def)

lemma split_ws_word: "list_all visible u \<Longrightarrow> split_ws w (u @ s) = split_ws (w @ u) s"
proof (induction u arbitrary: w)
  case (Cons c u)
  then show ?case by (simp add: split_ws.simps [of w "c # u @ s"] ws_front_visible)
qed simp

lemma split_ws_space: "split_ws w (CHR '' '' # s) = (if w = [] then [] else [w]) @ split_ws [] s"
  by (simp add: split_ws.simps [of w "CHR '' '' # s"] ws_front_space)

lemma find_str_char: "find_str [c] s = find_char c s"
  by (induction s) auto

text \<open>\<open>trim_start_matches\<close>: the pattern is removed from the front as often as it is there.\<close>

function trim_start_matches :: "string \<Rightarrow> string \<Rightarrow> string" where
  "trim_start_matches p s =
    (if p \<noteq> [] \<and> starts_with s p then trim_start_matches p (drop (length p) s) else s)"
  by pat_completeness auto
termination
  by (relation "measure (\<lambda>(p, s). length s)") (auto simp: starts_with_iff)

declare trim_start_matches.simps [simp del]

definition ascii_lower :: "char \<Rightarrow> char" where
  "ascii_lower c = (let n = of_char c in if 65 \<le> n \<and> n \<le> (90 :: nat) then char_of (n + 32) else c)"

text \<open>\<open>str::to_lowercase\<close> on ASCII text; the Unicode tables are left open.\<close>

definition lowers_ascii :: "(string \<Rightarrow> string) \<Rightarrow> bool" where
  "lowers_ascii lower \<longleftrightarrow> (\<forall>s. is_ascii s \<longrightarrow> lower s = map ascii_lower s)"

section \<open>Connections\<close>

text \<open>
  A connection delivers segments; afterwards it is closed, broken, or stays open and silent. One
  \<open>read\<close> into a buffer of \<open>n\<close> bytes takes from the first segment only and leaves the rest of it.
  Reading nothing means that the segments are used up.
\<close>

datatype conn_tail = TailClosed | TailBroken | TailSilent

fun read_chunk :: "nat \<Rightarrow> bytes list \<Rightarrow> bytes \<times> bytes list" where
  "read_chunk n [] = ([], [])"
| "read_chunk n (s # segs) =
    (if s = [] then read_chunk n segs
     else (take n s, (if length s \<le> n then segs else drop n s # segs)))"

lemma read_chunk_concat: "read_chunk n segs = (c, rest) \<Longrightarrow> concat segs = c @ concat rest \<and> length c \<le> n"
  by (induction segs) (auto split: if_splits)

lemma read_chunk_Nil: "0 < n \<Longrightarrow> read_chunk n segs = ([], rest) \<Longrightarrow> concat segs = []"
  by (induction segs) (auto split: if_splits)

lemma read_chunk_progress:
  "read_chunk n segs = (c, rest) \<Longrightarrow> c \<noteq> [] \<Longrightarrow> length (concat rest) < length (concat segs)"
  using read_chunk_concat [of n segs c rest] by auto

section \<open>Header blocks\<close>

abbreviation CRLF :: string where "CRLF \<equiv> [CHR 0x0D, CHR 0x0A]"

text \<open>\<open>buf.windows(4).position(|w| w == b"\\r\\n\\r\\n")\<close>\<close>

fun find_header_end :: "bytes \<Rightarrow> nat option" where
  "find_header_end (a # b # c # d # bs) =
    (if a = 13 \<and> b = 10 \<and> c = 13 \<and> d = 10 then Some 0 else map_option Suc (find_header_end (b # c # d # bs)))"
| "find_header_end _ = None"

lemma find_header_end_take:
  "find_header_end (take n bs) =
    (case find_header_end bs of Some h \<Rightarrow> if h + 4 \<le> n then Some h else None | None \<Rightarrow> None)"
proof (induction bs arbitrary: n rule: find_header_end.induct)
  case (1 a b c d bs)
  show ?case
  proof (cases "n < 4")
    case True
    then have "n = 0 \<or> n = 1 \<or> n = 2 \<or> n = 3" by auto
    with True show ?thesis by (auto simp: numeral_2_eq_2 numeral_3_eq_3 split: option.splits)
  next
    case False
    then obtain m where n: "n = Suc (Suc (Suc (Suc m)))"
      by (metis One_nat_def Suc_le_D add_2_eq_Suc' less_Suc_eq_le not_less numeral_Bit0 numeral_One plus_1_eq_Suc)
    have "find_header_end (take (Suc (Suc (Suc m))) (b # c # d # bs)) =
      (case find_header_end (b # c # d # bs) of Some h \<Rightarrow> if h + 4 \<le> Suc (Suc (Suc m)) then Some h else None | None \<Rightarrow> None)"
      if "\<not> (a = 13 \<and> b = 10 \<and> c = 13 \<and> d = 10)" using 1 that by blast
    then show ?thesis by (auto simp: n split: option.splits)
  qed
qed (auto simp: take_Cons split: nat.splits)

lemma find_header_end_skip:
  "13 \<notin> set l \<Longrightarrow> find_header_end (l @ bs) = map_option ((+) (length l)) (find_header_end bs)"
proof (induction l)
  case Nil
  then show ?case by (simp add: option.map_ident)
next
  case (Cons x l)
  then have "find_header_end (x # l @ bs) = map_option Suc (find_header_end (l @ bs))"
    by (cases "l @ bs" rule: find_header_end.cases) auto
  with Cons show ?case by (simp add: option.map_comp comp_def)
qed

lemma find_header_end_line:
  assumes "13 \<notin> set l" and "l \<noteq> []"
  shows "find_header_end (13 # 10 # l @ bs) = map_option (\<lambda>h. length l + 2 + h) (find_header_end bs)"
proof -
  obtain x l' where l: "l = x # l'" using assms(2) by (cases l) auto
  have "find_header_end (13 # 10 # l @ bs) = map_option Suc (find_header_end (10 # l @ bs))"
    using assms(1) by (cases "l' @ bs") (auto simp: l)
  also have "find_header_end (10 # l @ bs) = map_option Suc (find_header_end (l @ bs))"
    by (cases "l @ bs" rule: find_header_end.cases) auto
  finally show ?thesis
    using assms(1) by (simp add: find_header_end_skip option.map_comp comp_def)
qed

text \<open>The lines before the empty line, and the whole head of a message.\<close>

definition line_ok :: "string \<Rightarrow> bool" where
  "line_ok l \<longleftrightarrow> l \<noteq> [] \<and> CR \<notin> set l \<and> NL \<notin> set l"

definition http_head :: "string list \<Rightarrow> bytes" where
  "http_head ls = as_bytes (join CRLF ls @ CRLF @ CRLF)"

lemma as_bytes_append [simp]: "as_bytes (a @ b) = as_bytes a @ as_bytes b"
  by (simp add: as_bytes_def)

lemma as_bytes_Nil [simp]: "as_bytes [] = []"
  by (simp add: as_bytes_def)

lemma as_bytes_Cons [simp]: "as_bytes (c # s) = byte_of_char c # as_bytes s"
  by (simp add: as_bytes_def)

lemma byte_of_CRLF [simp]: "byte_of_char CR = 13" "byte_of_char NL = 10"
  by (simp_all add: byte_of_char_def)

lemma byte_of_char_inj: "byte_of_char c = byte_of_char d \<longleftrightarrow> c = d"
  by (metis char_of_byte_of_char)

lemma line_ok_bytes: "line_ok l \<Longrightarrow> 13 \<notin> set (as_bytes l) \<and> as_bytes l \<noteq> []"
proof -
  assume l: "line_ok l"
  have "13 \<notin> byte_of_char ` set l"
  proof
    assume "13 \<in> byte_of_char ` set l"
    then obtain c where "c \<in> set l" "byte_of_char c = byte_of_char CR" unfolding byte_of_CRLF by force
    then show False using l unfolding line_ok_def byte_of_char_inj by blast
  qed
  with l show ?thesis by (simp add: line_ok_def as_bytes_def)
qed

lemma find_header_end_lines:
  "list_all line_ok ls \<Longrightarrow>
   find_header_end (13 # 10 # concat (map (\<lambda>l. as_bytes l @ [13, 10]) ls) @ 13 # 10 # body) =
     Some (length (concat (map (\<lambda>l. as_bytes l @ [13, 10]) ls)))"
proof (induction ls)
  case (Cons l ls)
  then have "13 \<notin> set (as_bytes l)" "as_bytes l \<noteq> []" using line_ok_bytes by auto
  from find_header_end_line [OF this] Cons show ?case by simp
qed simp

lemma join_CRLF_Cons: "as_bytes (join CRLF (l # ls)) = as_bytes l @ concat (map (\<lambda>l. 13 # 10 # as_bytes l) ls)"
  by (induction ls arbitrary: l) auto

lemma find_header_end_head:
  assumes "ls \<noteq> []" and "list_all line_ok ls"
  shows "find_header_end (http_head ls @ body) = Some (length (join CRLF ls))"
proof -
  have rot: "concat (map (\<lambda>l. 13 # 10 # as_bytes l) ks) @ [13, 10] = 13 # 10 # concat (map (\<lambda>l. as_bytes l @ [13, 10]) ks)" for ks
    by (induction ks) auto
  obtain l ks where ls: "ls = l # ks" using assms(1) by (cases ls) auto
  have "http_head ls @ body = as_bytes l @ 13 # 10 # concat (map (\<lambda>l. as_bytes l @ [13, 10]) ks) @ 13 # 10 # body"
  proof -
    have "concat (map (\<lambda>l. 13 # 10 # as_bytes l) ks) @ 13 # 10 # y = 13 # 10 # concat (map (\<lambda>l. as_bytes l @ [13, 10]) ks) @ y" for y
      using rot [of ks, THEN arg_cong, of "\<lambda>x. x @ y"] by simp
    then show ?thesis by (simp add: http_head_def ls join_CRLF_Cons del: join.simps)
  qed
  moreover have "length (join CRLF ls) = length (as_bytes l) + length (concat (map (\<lambda>l. as_bytes l @ [13, 10]) ks))"
  proof -
    have "length (join CRLF ls) = length (as_bytes (join CRLF ls))" by simp
    also have "\<dots> = length (as_bytes l) + length (concat (map (\<lambda>l. 13 # 10 # as_bytes l) ks))"
      by (simp only: ls join_CRLF_Cons length_append)
    finally show ?thesis using rot [of ks, THEN arg_cong, of length] by simp
  qed
  ultimately show ?thesis
    using assms(2) line_ok_bytes [of l] find_header_end_lines [of ks body]
    by (simp add: ls find_header_end_skip del: join.simps)
qed

lemma strip_cr_id: "CR \<notin> set l \<Longrightarrow> strip_cr l = l"
  by (auto simp: strip_cr_def dest: last_in_set)

lemma split_nl_last: "NL \<notin> set l \<Longrightarrow> l \<noteq> [] \<Longrightarrow> split_nl l = [l]"
proof (induction l)
  case (Cons c l)
  then show ?case by (cases l) auto
qed simp

lemma strip_cr_snoc [simp]: "strip_cr (l @ [CR]) = l"
  by (simp add: strip_cr_def)

lemma lines_join: "list_all line_ok ls \<Longrightarrow> lines (join CRLF ls) = ls"
proof (induction ls)
  case (Cons l ls)
  show ?case
  proof (cases ls)
    case Nil
    with Cons show ?thesis by (auto simp: line_ok_def lines_def split_nl_last strip_eol_def dest: last_in_set)
  next
    case c: (Cons k ks)
    then have "join CRLF (l # ls) = (l @ [CR]) @ NL # join CRLF ls" by simp
    moreover have "NL \<notin> set (l @ [CR])" using Cons.prems by (simp add: line_ok_def)
    ultimately have "lines (join CRLF (l # ls)) = l # lines (join CRLF ls)"
      using lines_line [of "l @ [CR]" "join CRLF ls"] by (simp only: strip_cr_snoc not_False_eq_True simp_thms)
    with Cons show ?thesis by simp
  qed
qed simp

end
