(* ===== verification/File_Server.thy ===== *)
theory File_Server
  imports Http_Wire Fs Json_Value
begin

text \<open>
  The file server of a space, \<open>src-tauri/src/file/server.rs\<close>: starting and stopping, the local
  operations on stored files, and \<open>handle_connection\<close>, which reads a request from the segments of a
  TCP connection and answers it. A connection on which the handler waits for bytes that do not come
  is the value \<open>Waiting\<close>. \<open>to_lowercase\<close> and the UUID syntax are parameters.
\<close>

section \<open>The server and its local operations\<close>

record file_server =
  fv_space_id :: uuid
  fv_port :: u16
  fv_running :: bool
  fv_storage_dir :: path

definition file_server_new :: "uuid \<Rightarrow> path \<Rightarrow> file_server" where
  "file_server_new space_id storage_dir =
    \<lparr>fv_space_id = space_id, fv_port = 0, fv_running = False, fv_storage_dir = storage_dir\<rparr>"

text \<open>The answers of the operating system to creating the socket, binding and listening.\<close>

record socket_os =
  so_socket :: "string option"
  so_bind :: "u16 \<Rightarrow> string option"
  so_listen :: "u16 \<Rightarrow> string option"

definition file_server_start :: "socket_os \<Rightarrow> u16 \<Rightarrow> file_server \<Rightarrow> (string + unit) \<times> file_server" where
  "file_server_start S port fv =
    (let fv = fv\<lparr>fv_port := port, fv_running := True\<rparr> in
     case so_socket S of
       Some e \<Rightarrow> (Inl (utf8_text [229, 136, 155, 229, 187, 186] @ '' socket '' @ utf8_text [229, 164, 177, 232, 180, 165] @ '': '' @ e), fv)
     | None \<Rightarrow>
        (case so_bind S port of
           Some e \<Rightarrow> (Inl (utf8_text [231, 187, 145, 229, 174, 154, 231, 171, 175, 229, 143, 163] @ '' '' @ dec (unat port) @ '' '' @ utf8_text [229, 164, 177, 232, 180, 165] @ '': '' @ e), fv)
         | None \<Rightarrow>
            (case so_listen S port of
               Some e \<Rightarrow> (Inl (utf8_text [231, 155, 145, 229, 144, 172, 231, 171, 175, 229, 143, 163] @ '' '' @ dec (unat port) @ '' '' @ utf8_text [229, 164, 177, 232, 180, 165] @ '': '' @ e), fv)
             | None \<Rightarrow> (Inr (), fv))))"

definition file_server_stop :: "file_server \<Rightarrow> file_server" where
  "file_server_stop fv = fv\<lparr>fv_running := False\<rparr>"

definition bin_path :: "uuid_lib \<Rightarrow> path \<Rightarrow> uuid \<Rightarrow> path" where
  "bin_path U storage_dir file_id = path_join storage_dir (ul_string U file_id @ ''.bin'')"

definition read_file :: "uuid_lib \<Rightarrow> file_server \<Rightarrow> uuid \<Rightarrow> fs \<Rightarrow> string + bytes" where
  "read_file U fv file_id fs =
    (case fs_read fs (bin_path U (fv_storage_dir fv) file_id) of
       Inl e \<Rightarrow> Inl (utf8_text [232, 175, 187, 229, 143, 150, 230, 150, 135, 228, 187, 182, 229, 164, 177, 232, 180, 165] @ '': '' @ e)
     | Inr b \<Rightarrow> Inr b)"

text \<open>The result of creating the parent directory is ignored.\<close>

definition stored_write :: "uuid_lib \<Rightarrow> file_server \<Rightarrow> uuid \<Rightarrow> bytes \<Rightarrow> fs \<Rightarrow> (string + unit) \<times> fs" where
  "stored_write U fv file_id data fs =
    (case fs_write (bin_path U (fv_storage_dir fv) file_id) data fs of
       (Inl e, fs') \<Rightarrow> (Inl (utf8_text [228, 191, 157, 229, 173, 152, 230, 150, 135, 228, 187, 182, 229, 164, 177, 232, 180, 165] @ '': '' @ e), fs')
     | (Inr _, fs') \<Rightarrow> (Inr (), fs'))"

definition stored_delete :: "uuid_lib \<Rightarrow> file_server \<Rightarrow> uuid \<Rightarrow> fs \<Rightarrow> (string + unit) \<times> fs" where
  "stored_delete U fv file_id fs =
    (let p = bin_path U (fv_storage_dir fv) file_id in
     case fs_remove_file p fs of
       (Inr _, fs') \<Rightarrow> (Inr (), fs')
     | (Inl e, fs') \<Rightarrow>
        (if fs_wfault fs p = None \<and> fs_data fs p = None then (Inr (), fs')
         else (Inl (utf8_text [229, 136, 160, 233, 153, 164, 230, 150, 135, 228, 187, 182, 229, 164, 177, 232, 180, 165] @ '': '' @ e), fs')))"

section \<open>Reading a request\<close>

definition HEADER_CHUNK :: nat where "HEADER_CHUNK = 4096"
definition BODY_CHUNK :: nat where "BODY_CHUNK = 16384"
definition MAX_HEADER :: nat where "MAX_HEADER = 64 * 1024"

datatype header_read = HeaderAt nat bytes "bytes list" | HeaderGone | HeaderWaiting

function read_header :: "bytes \<Rightarrow> bytes list \<Rightarrow> conn_tail \<Rightarrow> header_read" where
  "read_header header_buf segs e =
    (case read_chunk HEADER_CHUNK segs of (chunk, rest) \<Rightarrow>
     if chunk = [] then (if e = TailSilent then HeaderWaiting else HeaderGone)
     else
       let header_buf = header_buf @ chunk in
       case find_header_end header_buf of
         Some pos \<Rightarrow> HeaderAt pos header_buf rest
       | None \<Rightarrow> if length header_buf > MAX_HEADER then HeaderGone else read_header header_buf rest e)"
  by pat_completeness auto
termination
proof (relation "measure (\<lambda>(b, segs, e). length (concat segs))", goal_cases)
  case (2 b segs e chunk rest y)
  then have "read_chunk HEADER_CHUNK segs = (chunk, rest)" by simp
  from read_chunk_progress [OF this] 2 show ?case by simp
qed simp

declare read_header.simps [simp del]

text \<open>\<open>None\<close> while bytes are missing on a connection that stays open.\<close>

function read_body :: "nat \<Rightarrow> bytes \<Rightarrow> bytes list \<Rightarrow> conn_tail \<Rightarrow> bytes option" where
  "read_body content_length body segs e =
    (if length body < content_length then
       (case read_chunk BODY_CHUNK segs of (chunk, rest) \<Rightarrow>
        if chunk = [] then (if e = TailSilent then None else Some body)
        else read_body content_length (body @ chunk) rest e)
     else Some body)"
  by pat_completeness auto
termination
proof (relation "measure (\<lambda>(n, b, segs, e). length (concat segs))", goal_cases)
  case (2 n b segs e chunk rest)
  then have "read_chunk BODY_CHUNK segs = (chunk, rest)" by simp
  from read_chunk_progress [OF this] 2 show ?case by simp
qed simp

declare read_body.simps [simp del]

text \<open>\<open>split(':').nth(1)\<close>, trimmed and parsed as \<open>usize\<close>; the last such line counts.\<close>

definition length_of_line :: "string \<Rightarrow> nat" where
  "length_of_line line =
    (case drop 1 (split_str '':'' line) of
       v # _ \<Rightarrow> (case parse_uint (2 ^ 64 - 1) (trim v) of Some n \<Rightarrow> n | None \<Rightarrow> 0)
     | [] \<Rightarrow> 0)"

definition content_length_of :: "(string \<Rightarrow> string) \<Rightarrow> string list \<Rightarrow> nat" where
  "content_length_of lower ls =
    fold (\<lambda>line n. if starts_with (lower line) ''content-length:'' then length_of_line line else n) ls 0"

section \<open>Answering it\<close>

datatype served = Answered bytes | Dropped | Waiting

definition plain_response :: "string \<Rightarrow> string \<Rightarrow> bytes" where
  "plain_response status body =
    as_bytes (''HTTP/1.1 '' @ status @ CRLF @ ''Content-Length: '' @ dec (length body) @ CRLF @ CRLF @ body)"

definition octet_header :: "nat \<Rightarrow> bytes" where
  "octet_header n =
    as_bytes (''HTTP/1.1 200 OK'' @ CRLF @ ''Content-Type: application/octet-stream'' @ CRLF @ ''Content-Length: '' @ dec n @ CRLF @ CRLF)"

definition file_respond :: "uuid_lib \<Rightarrow> path \<Rightarrow> string \<Rightarrow> string \<Rightarrow> bytes \<Rightarrow> fs \<Rightarrow> bytes \<times> fs" where
  "file_respond U storage_dir method path body fs =
    (if method = ''PUT'' \<and> starts_with path ''/files/'' then
       (case ul_parse U (trim_start_matches ''/files/'' path) of
          Inr file_id \<Rightarrow>
            (case fs_write (bin_path U storage_dir file_id) body fs of
               (Inr _, fs') \<Rightarrow> (plain_response ''200 OK'' ''OK'', fs')
             | (Inl e, fs') \<Rightarrow> (plain_response ''500 Internal Server Error'' e, fs'))
        | Inl _ \<Rightarrow> (plain_response ''400 Bad Request'' ''Invalid file ID'', fs))
     else if method = ''GET'' \<and> starts_with path ''/files/'' then
       (case ul_parse U (trim_start_matches ''/files/'' path) of
          Inr file_id \<Rightarrow>
            (case fs_read fs (bin_path U storage_dir file_id) of
               Inr data \<Rightarrow> (octet_header (length data) @ data, fs)
             | Inl _ \<Rightarrow> (plain_response ''404 Not Found'' ''Not Found'', fs))
        | Inl _ \<Rightarrow> (plain_response ''400 Bad Request'' ''Invalid file ID'', fs))
     else (plain_response ''404 Not Found'' ''Not Found'', fs))"

text \<open>The bytes of an answer are those handed to the socket.\<close>

definition file_connection ::
  "uuid_lib \<Rightarrow> (string \<Rightarrow> string) \<Rightarrow> path \<Rightarrow> bytes list \<Rightarrow> conn_tail \<Rightarrow> fs \<Rightarrow> served \<times> fs" where
  "file_connection U lower storage_dir segs e fs =
    (case read_header [] segs e of
       HeaderGone \<Rightarrow> (Dropped, fs)
     | HeaderWaiting \<Rightarrow> (Waiting, fs)
     | HeaderAt header_end header_buf rest \<Rightarrow>
        (case lines (from_utf8_lossy (take header_end header_buf)) of
           [] \<Rightarrow> (Dropped, fs)
         | request_line # ls \<Rightarrow>
            (let parts = split_whitespace request_line;
                 method = (case parts of m # _ \<Rightarrow> m | [] \<Rightarrow> []);
                 path = (case parts of _ # p # _ \<Rightarrow> p | _ \<Rightarrow> ''/'')
             in case read_body (content_length_of lower ls) (drop (header_end + 4) header_buf) rest e of
                  None \<Rightarrow> (Waiting, fs)
                | Some body \<Rightarrow>
                   (case file_respond U storage_dir method path body fs of (r, fs') \<Rightarrow> (Answered r, fs')))))"

section \<open>Requests that arrive in pieces\<close>

lemma read_header_found:
  assumes "find_header_end (buf @ concat segs) = Some h" and "find_header_end buf = None" and "h + 3 \<le> MAX_HEADER"
  shows "\<exists>got rest. read_header buf segs e = HeaderAt h (buf @ got) rest \<and> got @ concat rest = concat segs \<and>
    h + 4 \<le> length (buf @ got)"
  using assms
proof (induction buf segs e rule: read_header.induct)
  case (1 buf segs e)
  obtain c rest where c: "read_chunk HEADER_CHUNK segs = (c, rest)" by fastforce
  have split: "concat segs = c @ concat rest" using read_chunk_concat [OF c] by simp
  have ne: "c \<noteq> []"
  proof
    assume "c = []"
    with c have "concat segs = []" using read_chunk_Nil [of HEADER_CHUNK segs rest] by (simp add: HEADER_CHUNK_def)
    with 1 show False by simp
  qed
  have pre: "find_header_end (buf @ c) = (if h + 4 \<le> length (buf @ c) then Some h else None)"
    using find_header_end_take [of "length (buf @ c)" "buf @ concat segs"] 1(2) by (simp add: split)
  show ?case
  proof (cases "h + 4 \<le> length (buf @ c)")
    case True
    with ne c pre split show ?thesis by (simp add: read_header.simps [of buf] Let_def)
  next
    case False
    with 1(4) have small: "\<not> length (buf @ c) > MAX_HEADER" by simp
    from False pre have none: "find_header_end (buf @ c) = None" by simp
    have "\<exists>got r. read_header (buf @ c) rest e = HeaderAt h ((buf @ c) @ got) r \<and> got @ concat r = concat rest \<and>
      h + 4 \<le> length ((buf @ c) @ got)"
      by (rule 1(1) [OF c [symmetric] ne refl none small]) (use 1(2,4) none split in simp_all)
    then obtain got r where "read_header (buf @ c) rest e = HeaderAt h (buf @ c @ got) r" "got @ concat r = concat rest"
      "h + 4 \<le> length (buf @ c @ got)" by (metis append_assoc)
    moreover have "read_header buf segs e = read_header (buf @ c) rest e"
      using ne c none small by (simp add: read_header.simps [of buf] Let_def)
    ultimately show ?thesis using split by (metis append_assoc)
  qed
qed

lemma read_body_exact:
  "length body + length (concat segs) = n \<Longrightarrow> read_body n body segs e = Some (body @ concat segs)"
proof (induction n body segs e rule: read_body.induct)
  case (1 n body segs e)
  obtain c rest where c: "read_chunk BODY_CHUNK segs = (c, rest)" by fastforce
  have split: "concat segs = c @ concat rest" using read_chunk_concat [OF c] by simp
  show ?case
  proof (cases "length body < n")
    case True
    with 1(2) have "concat segs \<noteq> []" by auto
    then have ne: "c \<noteq> []" using c read_chunk_Nil [of BODY_CHUNK segs rest] by (auto simp: BODY_CHUNK_def)
    with 1 True c split show ?thesis by (simp add: read_body.simps [of n body segs])
  next
    case False
    with 1 show ?thesis by (auto simp: read_body.simps [of n body segs])
  qed
qed

definition first_word :: "string \<Rightarrow> string" where
  "first_word l = (case split_whitespace l of m # _ \<Rightarrow> m | [] \<Rightarrow> [])"

definition second_word :: "string \<Rightarrow> string" where
  "second_word l = (case split_whitespace l of _ # p # _ \<Rightarrow> p | _ \<Rightarrow> ''/'')"

lemma head_text: "is_utf8 (join CRLF ls) \<Longrightarrow> from_utf8_lossy (take (length (join CRLF ls)) (http_head ls @ body)) = join CRLF ls"
  by (simp add: http_head_def)

lemma file_connection_request:
  assumes ls: "list_all line_ok (l # hs)" "is_utf8 (join CRLF (l # hs))" "length (join CRLF (l # hs)) + 3 \<le> MAX_HEADER"
    and segs: "concat segs = http_head (l # hs) @ body" and cl: "content_length_of lower hs = length body"
  shows "file_connection U lower dir segs e fs =
    (case file_respond U dir (first_word l) (second_word l) body fs of (r, fs') \<Rightarrow> (Answered r, fs'))"
proof -
  let ?h = "length (join CRLF (l # hs))"
  have "find_header_end ([] @ concat segs) = Some ?h" using find_header_end_head [OF _ ls(1)] segs by simp
  from read_header_found [OF this _ ls(3), of e] obtain got rest where
    r: "read_header [] segs e = HeaderAt ?h got rest" and g: "got @ concat rest = concat segs" "?h + 4 \<le> length got" by auto
  have len: "length (http_head (l # hs)) = ?h + 4" by (simp add: http_head_def del: join.simps)
  have "take ?h got = take ?h (got @ concat rest)" using g(2) by simp
  then have t: "from_utf8_lossy (take ?h got) = join CRLF (l # hs)"
    using head_text [OF ls(2), of body] g(1) segs by simp
  have d: "drop (?h + 4) got @ concat rest = body"
  proof -
    have "drop (?h + 4) (got @ concat rest) = body" using g(1) segs len by simp
    then show ?thesis using g(2) by simp
  qed
  then have "read_body (length body) (drop (?h + 4) got) rest e = Some body"
    using read_body_exact [of "drop (?h + 4) got" rest "length body" e] by (metis length_append)
  with t cl show ?thesis
    by (simp add: file_connection_def r lines_join [OF ls(1)] first_word_def second_word_def Let_def del: join.simps)
qed

section \<open>Request lines and the length header\<close>

lemma digit_visible: "d < 10 \<Longrightarrow> visible (digit_char d)"
proof -
  assume "d < 10"
  moreover have "\<forall>d \<in> set [0..<10]. visible (digit_char d)" by code_simp
  ultimately show ?thesis by simp
qed

lemma dec_visible: "list_all visible (dec n)"
  unfolding list_all_iff using set_dec digit_visible by blast

lemma dec_no_colon: "CHR '':'' \<notin> set (dec n)"
proof
  assume "CHR '':'' \<in> set (dec n)"
  then obtain d where "d < 10" "CHR '':'' = digit_char d" using set_dec by blast
  moreover have "\<forall>d \<in> set [0..<10]. CHR '':'' \<noteq> digit_char d" by code_simp
  ultimately show False by simp
qed

lemma trim_space_dec: "trim (CHR '' '' # dec n) = dec n"
proof (cases "dec n")
  case (Cons c b)
  have v: "visible c" "list_all visible b" using dec_visible [of n] by (simp_all add: Cons)
  have "trim_start '' '' = []" by (simp add: trim_start.simps [of "'' ''"] ws_front_single ws1_def trim_start_id)
  moreover have "trim_end b = b" using visible_trimmed [OF v(2)] by (simp add: trimmed_def trim_end_id)
  ultimately show ?thesis using trim_visible [OF v(1), of "'' ''" b] by (simp add: Cons)
qed simp

definition content_length_line :: "nat \<Rightarrow> string" where
  "content_length_line n = ''Content-Length: '' @ dec n"

lemma length_of_content_length_line: "n < 2 ^ 64 \<Longrightarrow> length_of_line (content_length_line n) = n"
proof -
  assume n: "n < 2 ^ 64"
  have "content_length_line n = ''Content-Length'' @ CHR '':'' # CHR '' '' # dec n" by (simp add: content_length_line_def)
  then have "find_str '':'' (content_length_line n) = Some 14"
    using find_char_append [of "CHR '':''" "''Content-Length''" "CHR '' '' # dec n"] by (simp add: find_str_char)
  moreover have "drop 15 (content_length_line n) = CHR '' '' # dec n" by (simp add: content_length_line_def)
  moreover have "find_str '':'' (CHR '' '' # dec n) = None" by (simp add: find_str_char dec_no_colon)
  ultimately have "drop 1 (split_str '':'' (content_length_line n)) = [CHR '' '' # dec n]"
    by (simp add: split_str.simps [of _ "content_length_line n"] split_str.simps [of _ "CHR '' '' # dec n"])
  with n show ?thesis by (simp add: length_of_line_def trim_space_dec parse_uint_dec)
qed

definition is_length_line :: "string \<Rightarrow> bool" where
  "is_length_line l = starts_with (map ascii_lower l) ''content-length:''"

lemma dec_ascii: "is_ascii (dec n)"
  using dec_visible [of n] by (simp add: is_ascii_def list_all_iff visible_def)

lemma content_length_line_facts: "is_length_line (content_length_line n)" "is_ascii (content_length_line n)" "line_ok (content_length_line n)"
proof -
  have "map ascii_lower ''Content-Length: '' = ''content-length: ''" by code_simp
  then show "is_length_line (content_length_line n)" by (simp add: is_length_line_def content_length_line_def starts_with_iff)
  show "is_ascii (content_length_line n)" using dec_ascii [of n] by (simp add: is_ascii_def content_length_line_def)
  have "\<not> visible CR" "\<not> visible NL" by code_simp+
  then show "line_ok (content_length_line n)"
    using dec_visible [of n] by (auto simp: line_ok_def content_length_line_def list_all_iff)
qed

lemma content_length_of_none:
  assumes "lowers_ascii lower" and "list_all is_ascii hs" and "list_all (\<lambda>l. \<not> is_length_line l) hs"
  shows "content_length_of lower hs = 0"
proof -
  have "fold (\<lambda>l n. if starts_with (lower l) ''content-length:'' then length_of_line l else n) hs n = n" for n
    using assms(2,3) by (induction hs) (use assms(1) in \<open>auto simp: lowers_ascii_def is_length_line_def\<close>)
  then show ?thesis by (simp add: content_length_of_def)
qed

lemma content_length_of_line:
  assumes "lowers_ascii lower" and "list_all is_ascii hs" and "list_all (\<lambda>l. \<not> is_length_line l) hs" and "n < 2 ^ 64"
  shows "content_length_of lower (gs @ content_length_line n # hs) = n"
proof -
  have "fold (\<lambda>l n. if starts_with (lower l) ''content-length:'' then length_of_line l else n) hs k = k" for k
    using assms(2,3) by (induction hs) (use assms(1) in \<open>auto simp: lowers_ascii_def is_length_line_def\<close>)
  moreover have "starts_with (lower (content_length_line n)) ''content-length:''"
    using assms(1) content_length_line_facts [of n] by (simp add: lowers_ascii_def is_length_line_def)
  ultimately show ?thesis by (simp add: content_length_of_def length_of_content_length_line [OF assms(4)])
qed

definition files_line :: "uuid_lib \<Rightarrow> string \<Rightarrow> uuid \<Rightarrow> string" where
  "files_line U method file_id = method @ '' /files/'' @ ul_string U file_id @ '' HTTP/1.1''"

lemma uuid_string_visible: "uuid_ok U \<Longrightarrow> list_all visible (ul_string U u) \<and> CHR ''/'' \<notin> set (ul_string U u) \<and> ul_string U u \<noteq> []"
proof -
  assume U: "uuid_ok U"
  have "\<forall>c \<in> set ''0123456789abcdef-''. visible c \<and> c \<noteq> CHR ''/''" by code_simp
  then have "\<forall>c \<in> set (ul_string U u). visible c \<and> c \<noteq> CHR ''/''" using uuid_string_chars [OF U] by blast
  moreover have "ul_string U u \<noteq> []" using U unfolding uuid_ok_def by blast
  ultimately show ?thesis unfolding list_all_iff by blast
qed

lemma files_line_words:
  assumes "uuid_ok U" and "list_all visible method" and "method \<noteq> []"
  shows "first_word (files_line U method u) = method" "second_word (files_line U method u) = ''/files/'' @ ul_string U u"
proof -
  have v: "list_all visible ''/files/''" "list_all visible ''HTTP/1.1''" by code_simp+
  let ?p = "''/files/'' @ ul_string U u"
  have p: "list_all visible ?p" using v uuid_string_visible [OF assms(1), of u] by simp
  have "split_whitespace (method @ CHR '' '' # ?p @ CHR '' '' # ''HTTP/1.1'' @ []) = [method, ?p, ''HTTP/1.1'']"
    unfolding split_whitespace_def using assms(3)
    by (simp only: split_ws_word [OF assms(2)] split_ws_word [OF p] split_ws_word [OF v(2)] split_ws_space append_Nil split_ws_Nil) simp
  then have "split_whitespace (files_line U method u) = [method, ?p, ''HTTP/1.1'']" by (simp add: files_line_def)
  then show "first_word (files_line U method u) = method" "second_word (files_line U method u) = ?p"
    by (simp_all add: first_word_def second_word_def)
qed

lemma trim_files: "CHR ''/'' \<notin> set s \<Longrightarrow> trim_start_matches ''/files/'' (''/files/'' @ s) = s"
proof -
  assume "CHR ''/'' \<notin> set s"
  then have "trim_start_matches ''/files/'' s = s"
    by (subst trim_start_matches.simps) (auto simp: starts_with_iff)
  then show ?thesis by (subst trim_start_matches.simps) (simp add: starts_with_iff)
qed

section \<open>Uploads and downloads\<close>

definition header_lines_ok :: "string list \<Rightarrow> bool" where
  "header_lines_ok ls \<longleftrightarrow> list_all line_ok ls \<and> list_all is_ascii ls"

lemma join_ascii: "list_all is_ascii ls \<Longrightarrow> is_ascii (join CRLF ls)"
  by (induction ls rule: induct_list012) (auto simp: is_ascii_def)

lemma files_line_ok:
  assumes "uuid_ok U" and "line_ok method" and "is_ascii method"
  shows "line_ok (files_line U method u)" "is_ascii (files_line U method u)"
proof -
  have "\<not> visible CR" "\<not> visible NL" by code_simp+
  then have "CR \<notin> set (ul_string U u)" "NL \<notin> set (ul_string U u)"
    using uuid_string_visible [OF assms(1), of u] unfolding list_all_iff by blast+
  then show "line_ok (files_line U method u)" using assms(2) by (auto simp: line_ok_def files_line_def)
  have "is_ascii (ul_string U u)"
    using uuid_string_visible [OF assms(1), of u] by (simp add: is_ascii_def list_all_iff visible_def)
  then show "is_ascii (files_line U method u)" using assms(3) by (simp add: is_ascii_def files_line_def)
qed

lemma methods_ok: "line_ok ''PUT''" "is_ascii ''PUT''" "list_all visible ''PUT''" "line_ok ''GET''" "is_ascii ''GET''" "list_all visible ''GET''"
  by code_simp+

lemma put_runs:
  assumes "uuid_ok U" and "fs_healthy fs" and "header_lines_ok hs" and "length (join CRLF (files_line U ''PUT'' file_id # hs)) + 3 \<le> MAX_HEADER"
    and "content_length_of lower hs = length body"
    and "concat segs = http_head (files_line U ''PUT'' file_id # hs) @ body"
  shows "file_connection U lower dir segs e fs =
    (Answered (plain_response ''200 OK'' ''OK''), snd (fs_write (bin_path U dir file_id) body fs))"
proof -
  let ?l = "files_line U ''PUT'' file_id"
  have "list_all line_ok (?l # hs)" "is_utf8 (join CRLF (?l # hs))"
    using assms(3) files_line_ok [OF assms(1) methods_ok(1,2), of file_id] join_ascii [of "?l # hs"]
    by (simp_all add: header_lines_ok_def del: join.simps)
  from file_connection_request [OF this assms(4,6,5), of U dir e fs] show ?thesis
    using assms(1,2) uuid_string_visible [OF assms(1), of file_id] files_line_words [OF assms(1) methods_ok(3), of file_id]
    by (simp add: file_respond_def trim_files starts_with_iff fs_write_healthy del: append.simps(2))
qed

lemma get_runs:
  assumes "uuid_ok U" and "fs_healthy fs" and "fs_data fs (bin_path U dir file_id) = Some body" and "header_lines_ok gs"
    and "length (join CRLF (files_line U ''GET'' file_id # gs)) + 3 \<le> MAX_HEADER" and "content_length_of lower gs = 0"
    and "concat segs = http_head (files_line U ''GET'' file_id # gs)"
  shows "file_connection U lower dir segs e fs = (Answered (octet_header (length body) @ body), fs)"
proof -
  let ?l = "files_line U ''GET'' file_id"
  have "list_all line_ok (?l # gs)" "is_utf8 (join CRLF (?l # gs))"
    using assms(4) files_line_ok [OF assms(1) methods_ok(4,5), of file_id] join_ascii [of "?l # gs"]
    by (simp_all add: header_lines_ok_def del: join.simps)
  from file_connection_request [OF this assms(5), of segs "[]" lower U dir e fs] show ?thesis
    using assms(1-3,6,7) uuid_string_visible [OF assms(1), of file_id] files_line_words [OF assms(1) methods_ok(6), of file_id]
    by (simp add: file_respond_def trim_files starts_with_iff fs_read_def fs_healthy_def del: append.simps(2))
qed

text \<open>
  C9: An upload with a \<open>Content-Length\<close> is stored byte for byte, however the network cuts the request into
  segments and whether or not the sender closes the connection: the server answers 200, the file holds
  the body, no other file changes, and a later download by the same identifier returns exactly the body.
\<close>

theorem upload_download:
  assumes "uuid_ok U" and "lowers_ascii lower" and "fs_healthy fs" and "length body < 2 ^ 64"
    and "header_lines_ok (hs1 @ hs2)" and "list_all (\<lambda>l. \<not> is_length_line l) hs2"
    and "length (join CRLF (files_line U ''PUT'' file_id # hs1 @ content_length_line (length body) # hs2)) + 3 \<le> MAX_HEADER"
    and "concat segs = http_head (files_line U ''PUT'' file_id # hs1 @ content_length_line (length body) # hs2) @ body"
    and "header_lines_ok gs" and "list_all (\<lambda>l. \<not> is_length_line l) gs"
    and "length (join CRLF (files_line U ''GET'' file_id # gs)) + 3 \<le> MAX_HEADER"
    and "concat segs2 = http_head (files_line U ''GET'' file_id # gs)"
  shows "\<exists>fs'. file_connection U lower dir segs e fs = (Answered (plain_response ''200 OK'' ''OK''), fs') \<and>
    fs_data fs' = (fs_data fs)(bin_path U dir file_id \<mapsto> body) \<and>
    file_connection U lower dir segs2 e2 fs' = (Answered (octet_header (length body) @ body), fs')"
proof -
  let ?hs = "hs1 @ content_length_line (length body) # hs2" and ?fs = "snd (fs_write (bin_path U dir file_id) body fs)"
  have ok: "header_lines_ok ?hs"
    using assms(5) content_length_line_facts [of "length body"] by (auto simp: header_lines_ok_def)
  have "list_all is_ascii hs2" using assms(5) by (simp add: header_lines_ok_def)
  from put_runs [OF assms(1,3) ok assms(7) content_length_of_line [OF assms(2) this assms(6,4)] assms(8)]
  have put: "file_connection U lower dir segs e fs = (Answered (plain_response ''200 OK'' ''OK''), ?fs)" by blast
  have fs': "fs_data ?fs = (fs_data fs)(bin_path U dir file_id \<mapsto> body)" "fs_healthy ?fs"
    using assms(3) by (simp_all add: fs_write_healthy) (simp add: fs_healthy_def)
  have "list_all is_ascii gs" using assms(9) by (simp add: header_lines_ok_def)
  from get_runs [OF assms(1) fs'(2) _ assms(9,11) content_length_of_none [OF assms(2) this assms(10)] assms(12)] put fs'
  show ?thesis by simp
qed

text \<open>A concrete upload, cut in the middle of the header and of the body.\<close>

lemma lowers_ascii_map: "lowers_ascii (map ascii_lower)"
  by (simp add: lowers_ascii_def)

theorem upload_download_witness:
  "\<exists>fs'. file_connection uuid_toy (map ascii_lower) [''d'']
      [take 20 (http_head [files_line uuid_toy ''PUT'' 7, content_length_line 3]), drop 20 (http_head [files_line uuid_toy ''PUT'' 7, content_length_line 3]) @ [1], [2, 3]] TailSilent fs_empty
      = (Answered (plain_response ''200 OK'' ''OK''), fs') \<and>
    fs_data fs' = (fs_data fs_empty)(bin_path uuid_toy [''d''] 7 \<mapsto> [1, 2, 3]) \<and>
    file_connection uuid_toy (map ascii_lower) [''d''] [http_head [files_line uuid_toy ''GET'' 7]] TailClosed fs'
      = (Answered (octet_header 3 @ [1, 2, 3]), fs')"
proof -
  have dec: "dec 3 = ''3''" "dec 7 = ''7''" by code_simp+
  then have n: "content_length_line 3 = ''Content-Length: 3''" "files_line uuid_toy ''PUT'' 7 = ''PUT /files/7 HTTP/1.1''"
    "files_line uuid_toy ''GET'' 7 = ''GET /files/7 HTTP/1.1''"
    by (simp_all add: content_length_line_def files_line_def uuid_toy_def)
  show ?thesis
    using upload_download [OF uuid_toy_ok lowers_ascii_map fs_empty_healthy, of "[1, 2, 3]" "[]" "[]" 7
        "[take 20 (http_head [files_line uuid_toy ''PUT'' 7, content_length_line 3]), drop 20 (http_head [files_line uuid_toy ''PUT'' 7, content_length_line 3]) @ [1], [2, 3]]"
        "[]" "[http_head [files_line uuid_toy ''GET'' 7]]" "[''d'']" TailSilent TailClosed]
    by (simp add: header_lines_ok_def n MAX_HEADER_def flip: numeral_3_eq_3 del: drop_append take_append)
qed

section \<open>Uploads without a length\<close>

text \<open>Without a \<open>Content-Length\<close> the body ends where the segment ends that completed the header.\<close>

lemma put_without_length:
  assumes "uuid_ok U" and "lowers_ascii lower" and "fs_healthy fs" and "header_lines_ok hs" and "list_all (\<lambda>l. \<not> is_length_line l) hs"
    and "length (join CRLF (files_line U ''PUT'' file_id # hs)) + 3 \<le> MAX_HEADER"
    and "concat segs = http_head (files_line U ''PUT'' file_id # hs) @ sent"
  shows "\<exists>n. file_connection U lower dir segs e fs =
    (Answered (plain_response ''200 OK'' ''OK''), snd (fs_write (bin_path U dir file_id) (take n sent) fs))"
proof -
  let ?l = "files_line U ''PUT'' file_id"
  let ?h = "length (join CRLF (?l # hs))"
  have ls: "list_all line_ok (?l # hs)" "is_utf8 (join CRLF (?l # hs))"
    using assms(4) files_line_ok [OF assms(1) methods_ok(1,2), of file_id] join_ascii [of "?l # hs"]
    by (simp_all add: header_lines_ok_def del: join.simps)
  have "find_header_end ([] @ concat segs) = Some ?h" using find_header_end_head [OF _ ls(1)] assms(7) by simp
  from read_header_found [OF this _ assms(6), of e] obtain got rest where
    r: "read_header [] segs e = HeaderAt ?h got rest" and g: "got @ concat rest = concat segs" "?h + 4 \<le> length got" by auto
  have len: "length (http_head (?l # hs)) = ?h + 4" by (simp add: http_head_def del: join.simps)
  have "take ?h got = take ?h (got @ concat rest)" using g(2) by simp
  then have t: "from_utf8_lossy (take ?h got) = join CRLF (?l # hs)"
    using head_text [OF ls(2), of sent] g(1) assms(7) by simp
  have "got = take (length got) (http_head (?l # hs) @ sent)" using g(1) assms(7) by (metis append_eq_conv_conj)
  then have d: "drop (?h + 4) got = take (length got - (?h + 4)) sent" using len g(2) by (metis append_eq_conv_conj drop_take)
  have "list_all is_ascii hs" using assms(4) by (simp add: header_lines_ok_def)
  from content_length_of_none [OF assms(2) this assms(5)]
  have "read_body (content_length_of lower hs) (drop (?h + 4) got) rest e = Some (take (length got - (?h + 4)) sent)"
    using d by (simp add: read_body.simps del: join.simps)
  moreover have "first_word ?l = ''PUT''" "second_word ?l = ''/files/'' @ ul_string U file_id"
    using files_line_words [OF assms(1) methods_ok(3), of file_id] by simp_all
  ultimately have "file_connection U lower dir segs e fs =
    (Answered (plain_response ''200 OK'' ''OK''), snd (fs_write (bin_path U dir file_id) (take (length got - (?h + 4)) sent) fs))"
    using t assms(1,3) uuid_string_visible [OF assms(1), of file_id]
    by (simp add: file_connection_def r lines_join [OF ls(1)] Let_def file_respond_def trim_files starts_with_iff fs_write_healthy
        flip: first_word_def second_word_def del: join.simps append.simps(2))
  then show ?thesis by blast
qed

end
