(* ===== verification/File_Transfer.thy ===== *)
theory File_Transfer
  imports File_Server Hash_Map Compress Crypto_Box
begin

text \<open>
  Sending and receiving files, \<open>src-tauri/src/file/transfer.rs\<close>: compression, the optional password box and
  the hash on the sending side, the upload in chunks with its progress task, and the reverse on the
  receiving side. The HTTP client is a parameter. The progress task runs beside the upload: what it sees at
  each of its turns is an argument, and so is whether its last turn comes before or after the sender's final
  entry.
\<close>

section \<open>State\<close>

datatype transfer_status = Transferring | Paused | Completed | Failed

record transfer_state =
  tr_file_name :: string
  tr_total_bytes :: u64
  tr_bytes_transferred :: u64
  tr_speed :: u64
  tr_status :: transfer_status

record 't file_info =
  fx_id :: uuid
  fx_space_id :: uuid
  fx_sender_id :: uuid
  fx_file_name :: string
  fx_file_size :: u64
  fx_file_hash :: "string option"
  fx_mime_type :: "string option"
  fx_is_compressed :: bool
  fx_is_password_protected :: bool
  fx_storage_path :: "string option"
  fx_created_at :: 't

record 't transfer_mgr =
  tm_transfers :: "(uuid, transfer_state) hmap"
  tm_files :: "'t file_info list"

definition transfer_mgr_new :: "'t transfer_mgr" where
  "transfer_mgr_new = \<lparr>tm_transfers = [], tm_files = []\<rparr>"

record transfer_progress =
  tp_transfer_id :: uuid
  tp_file_name :: string
  tp_bytes_transferred :: u64
  tp_total_bytes :: u64
  tp_speed_bytes_per_sec :: u64
  tp_status :: transfer_status

datatype transfer_error =
    InvalidFilePath
  | FileError string
  | ReadError string
  | CompressError compress_error
  | EncryptFailed crypto_error
  | UploadStatus nat
  | UploadError string
  | CreateDirError string
  | StoredError string
  | DecryptFailed crypto_error
  | DecompressError compress_error
  | HashMismatch
  | SaveError string

text \<open>
  The surroundings of one upload: libraries, random values, the time, the HTTP client, and what the progress
  task sees: pairs of the bytes handed to the client so far and the speed computed from them.
\<close>

record ('n, 't) transfer_env =
  te_prims :: primitives
  te_zstd :: zstd_lib
  te_uuid :: uuid_lib
  te_salt :: bytes
  te_nonce :: bytes
  te_new_id :: uuid
  te_now :: 't
  te_put :: "string \<Rightarrow> bytes list \<Rightarrow> 'n \<Rightarrow> (string + nat) \<times> 'n"
  te_ticks :: "(u64 \<times> u64) list"
  te_last :: "u64 \<times> u64"
  te_late :: bool

section \<open>Sending\<close>

text \<open>\<open>Path::file_name\<close> on a normalised path, decoded lossily.\<close>

definition file_name_of :: "path \<Rightarrow> string option" where
  "file_name_of p = (if p = [] then None else Some (from_utf8_lossy (as_bytes (last p))))"

definition send_body ::
  "('n, 't) transfer_env \<Rightarrow> string option \<Rightarrow> bytes \<Rightarrow> transfer_error + bytes \<times> bool" where
  "send_body E password data =
    (case compress (te_zstd E) data 3 of
       Inl e \<Rightarrow> Inl (CompressError e)
     | Inr compressed \<Rightarrow>
        (case password of
           Some pwd \<Rightarrow>
             (case crypto_encrypt (te_prims E) (te_salt E) (te_nonce E) compressed pwd of
                Inl e \<Rightarrow> Inl (EncryptFailed e)
              | Inr enc \<Rightarrow> Inr (enc, True))
         | None \<Rightarrow> Inr (compressed, False)))"

definition CHUNK_SIZE :: nat where "CHUNK_SIZE = 64 * 1024"

text \<open>\<open>slice::chunks\<close>\<close>

function slice_chunks :: "nat \<Rightarrow> bytes \<Rightarrow> bytes list" where
  "slice_chunks n xs = (if xs = [] \<or> n = 0 then [] else take n xs # slice_chunks n (drop n xs))"
  by pat_completeness auto
termination
  by (relation "measure (\<lambda>(n, xs). length xs)") auto

declare slice_chunks.simps [simp del]

text \<open>One turn of the progress task.\<close>

definition progress_tick :: "uuid \<Rightarrow> u64 \<Rightarrow> u64 \<times> u64 \<Rightarrow> (uuid, transfer_state) hmap \<Rightarrow> (uuid, transfer_state) hmap" where
  "progress_tick t_id total_bytes seen transfers =
    (case seen of (n, speed) \<Rightarrow>
     case hm_get transfers t_id of
       None \<Rightarrow> transfers
     | Some state \<Rightarrow>
        hm_insert t_id (state\<lparr>tr_bytes_transferred := n, tr_speed := speed,
                              tr_status := (if n \<ge> total_bytes then Completed else tr_status state)\<rparr>) transfers)"

definition is_success :: "nat \<Rightarrow> bool" where
  "is_success status \<longleftrightarrow> 200 \<le> status \<and> status < 300"

text \<open>The entry the sender makes after the upload; a missing entry is passed over.\<close>

definition finish_upload ::
  "uuid \<Rightarrow> u64 \<Rightarrow> string + nat \<Rightarrow> (uuid, transfer_state) hmap \<Rightarrow> (transfer_error + unit) \<times> (uuid, transfer_state) hmap" where
  "finish_upload t_id total_bytes result transfers =
    (case hm_get transfers t_id of
       None \<Rightarrow> (Inr (), transfers)
     | Some state \<Rightarrow>
        (case result of
           Inr status \<Rightarrow>
             if is_success status
             then (Inr (), hm_insert t_id (state\<lparr>tr_status := Completed, tr_bytes_transferred := total_bytes\<rparr>) transfers)
             else (Inl (UploadStatus status), hm_insert t_id (state\<lparr>tr_status := Failed\<rparr>) transfers)
         | Inl e \<Rightarrow> (Inl (UploadError e), hm_insert t_id (state\<lparr>tr_status := Failed\<rparr>) transfers)))"

definition upload_url :: "uuid_lib \<Rightarrow> string \<Rightarrow> u16 \<Rightarrow> uuid \<Rightarrow> string" where
  "upload_url U target_ip target_port file_id =
    ''http://'' @ target_ip @ '':'' @ dec (unat target_port) @ ''/files/'' @ ul_string U file_id"

definition upload ::
  "('n, 't) transfer_env \<Rightarrow> string \<Rightarrow> u16 \<Rightarrow> 't file_info \<Rightarrow> bytes \<Rightarrow> 't transfer_mgr \<Rightarrow> 'n \<Rightarrow>
   (transfer_error + 't file_info) \<times> 't transfer_mgr \<times> 'n" where
  "upload E target_ip target_port info body mgr net =
    (let t_id = fx_id info; total_bytes = word_of_nat (length body);
         transfers = hm_insert t_id
           \<lparr>tr_file_name = fx_file_name info, tr_total_bytes = total_bytes, tr_bytes_transferred = 0, tr_speed = 0,
            tr_status = Transferring\<rparr> (tm_transfers mgr);
         transfers = fold (progress_tick t_id total_bytes) (te_ticks E) transfers in
     case te_put E (upload_url (te_uuid E) target_ip target_port t_id) (slice_chunks CHUNK_SIZE body) net of
       (result, net) \<Rightarrow>
        (let before = (if te_late E then transfers else progress_tick t_id total_bytes (te_last E) transfers) in
         case finish_upload t_id total_bytes result before of
           (r, after) \<Rightarrow>
            (let transfers = (if te_late E then progress_tick t_id total_bytes (te_last E) after else after) in
             case r of
               Inl e \<Rightarrow> (Inl e, mgr\<lparr>tm_transfers := transfers\<rparr>, net)
             | Inr _ \<Rightarrow> (Inr info, mgr\<lparr>tm_transfers := transfers, tm_files := tm_files mgr @ [info]\<rparr>, net))))"

definition send_file ::
  "('n, 't) transfer_env \<Rightarrow> fs \<Rightarrow> uuid \<Rightarrow> uuid \<Rightarrow> path \<Rightarrow> string option \<Rightarrow> string \<Rightarrow> u16 \<Rightarrow> uuid option \<Rightarrow>
   't transfer_mgr \<Rightarrow> 'n \<Rightarrow> (transfer_error + 't file_info) \<times> 't transfer_mgr \<times> 'n" where
  "send_file E fs space_id sender_id file_path password target_ip target_port file_id mgr net =
    (case file_name_of file_path of
       None \<Rightarrow> (Inl InvalidFilePath, mgr, net)
     | Some file_name \<Rightarrow>
        (case fs_data fs file_path of
           None \<Rightarrow> (Inl (FileError ''No such file or directory''), mgr, net)
         | Some content \<Rightarrow>
            (let file_id = (case file_id of Some i \<Rightarrow> i | None \<Rightarrow> te_new_id E) in
             case fs_read fs file_path of
               Inl e \<Rightarrow> (Inl (ReadError e), mgr, net)
             | Inr data \<Rightarrow>
                (case send_body E password data of
                   Inl e \<Rightarrow> (Inl e, mgr, net)
                 | Inr (body, encryption_used) \<Rightarrow>
                    upload E target_ip target_port
                      \<lparr>fx_id = file_id, fx_space_id = space_id, fx_sender_id = sender_id, fx_file_name = file_name,
                       fx_file_size = word_of_nat (length content), fx_file_hash = Some (sha256_hex (te_prims E) data),
                       fx_mime_type = None, fx_is_compressed = True, fx_is_password_protected = encryption_used,
                       fx_storage_path = None, fx_created_at = te_now E\<rparr> body mgr net))))"

definition get_progress :: "'t transfer_mgr \<Rightarrow> uuid \<Rightarrow> transfer_progress option" where
  "get_progress mgr transfer_id =
    map_option (\<lambda>t. \<lparr>tp_transfer_id = transfer_id, tp_file_name = tr_file_name t, tp_bytes_transferred = tr_bytes_transferred t,
                     tp_total_bytes = tr_total_bytes t, tp_speed_bytes_per_sec = tr_speed t, tp_status = tr_status t\<rparr>)
      (hm_get (tm_transfers mgr) transfer_id)"

definition transfer_list_files :: "'t transfer_mgr \<Rightarrow> 't file_info list" where
  "transfer_list_files mgr = tm_files mgr"

section \<open>Receiving\<close>

definition unpack_body :: "primitives \<Rightarrow> zstd_lib \<Rightarrow> string option \<Rightarrow> bytes \<Rightarrow> transfer_error + bytes" where
  "unpack_body P Z password data =
    res_bind (case password of
                Some pwd \<Rightarrow> (case crypto_decrypt P data pwd of Inl e \<Rightarrow> Inl (DecryptFailed e) | Inr d \<Rightarrow> Inr d)
              | None \<Rightarrow> Inr data) (\<lambda>data.
      case decompress Z data of Inl e \<Rightarrow> Inl (DecompressError e) | Inr d \<Rightarrow> Inr d)"

definition receive_file ::
  "primitives \<Rightarrow> zstd_lib \<Rightarrow> uuid_lib \<Rightarrow> file_server \<Rightarrow> uuid \<Rightarrow> path \<Rightarrow> string option \<Rightarrow> string option \<Rightarrow> fs \<Rightarrow>
   (transfer_error + unit) \<times> fs" where
  "receive_file P Z U server file_id save_path password expected_hash fs =
    (case (if save_path = [] then Inr () else fs_create_dir_all (butlast save_path) fs) of
       Inl e \<Rightarrow> (Inl (CreateDirError e), fs)
     | Inr _ \<Rightarrow>
        (case read_file U server file_id fs of
           Inl e \<Rightarrow> (Inl (StoredError e), fs)
         | Inr stored \<Rightarrow>
            (case unpack_body P Z password stored of
               Inl e \<Rightarrow> (Inl e, fs)
             | Inr data \<Rightarrow>
                (if expected_hash \<noteq> None \<and> expected_hash \<noteq> Some (sha256_hex P data) then (Inl HashMismatch, fs)
                 else case fs_write save_path data fs of
                   (Inl e, fs') \<Rightarrow> (Inl (SaveError e), fs')
                 | (Inr _, fs') \<Rightarrow> (Inr (), fs')))))"

section \<open>What is sent is received\<close>

lemma slice_chunks_concat: "0 < n \<Longrightarrow> concat (slice_chunks n xs) = xs"
proof (induction n xs rule: slice_chunks.induct)
  case (1 n xs)
  then show ?case by (cases "xs = []") (simp_all add: slice_chunks.simps [of n])
qed

lemma send_body_unpack:
  assumes "primitives_ok (te_prims E)" and "zstd_ok (te_zstd E)" and "length (te_salt E) = SALT_LEN" and "length (te_nonce E) = NONCE_LEN"
    and "send_body E password data = Inr (body, b)"
  shows "unpack_body (te_prims E) (te_zstd E) password body = Inr data"
  using assms
  by (auto simp: send_body_def unpack_body_def crypto_decrypt_encrypt compress_roundtrip
      simp del: res_bind_Inr_iff split: sum.splits option.splits)

lemma upload_info: "upload E ip port info body mgr net = (Inr info', mgr', net') \<Longrightarrow> info' = info"
  by (auto simp: upload_def Let_def split: prod.splits sum.splits)

lemma send_file_runs:
  assumes "send_file E fs space sender p password ip port fid mgr net = (r, mgr', net')" and "fs_read fs p = Inr data"
    and "send_body E password data = Inr (body, b)" and "p \<noteq> []"
  obtains info where "upload E ip port info body mgr net = (r, mgr', net')"
    and "fx_id info = (case fid of Some i \<Rightarrow> i | None \<Rightarrow> te_new_id E)" and "fx_file_hash info = Some (sha256_hex (te_prims E) data)"
proof -
  have "fs_data fs p = Some data" using assms(2) by (auto simp: fs_read_def split: option.splits)
  with assms that show thesis by (auto simp: send_file_def file_name_of_def Let_def)
qed


text \<open>
  A damaged file is never saved. If receiving with an announced hash succeeds, the stored bytes unpack to
  data with that hash, and exactly these are at the chosen path; if it fails before the final write, no file
  changes.
\<close>

theorem received_intact:
  assumes "receive_file P Z U server file_id save_path password (Some h) fs = (r, fs')"
  shows "case r of
      Inr _ \<Rightarrow> (\<exists>stored data. read_file U server file_id fs = Inr stored \<and> unpack_body P Z password stored = Inr data \<and>
        sha256_hex P data = h \<and> fs_data fs' = (fs_data fs)(save_path \<mapsto> data))
    | Inl e \<Rightarrow> (\<forall>m. e \<noteq> SaveError m) \<longrightarrow> fs' = fs"
  using assms unfolding receive_file_def
  by (auto split: sum.splits if_splits prod.splits dest: fs_write_ok)

section \<open>Progress\<close>

lemma hm_ok_tick: "hm_ok t \<Longrightarrow> hm_ok (progress_tick i n s t)"
  by (auto simp: progress_tick_def hm.ok_put split: prod.splits option.splits)

lemma progress_tick_get:
  "hm_ok t \<Longrightarrow> hm_get t i = Some st \<Longrightarrow> hm_get (progress_tick i n s t) i =
     Some (st\<lparr>tr_bytes_transferred := fst s, tr_speed := snd s, tr_status := (if fst s \<ge> n then Completed else tr_status st)\<rparr>)"
  by (simp add: progress_tick_def hm.get_put split: prod.splits)

lemma progress_ticks_get:
  "hm_ok t \<Longrightarrow> hm_get t i = Some st \<Longrightarrow>
     hm_ok (fold (progress_tick i n) ss t) \<and> (\<exists>st'. hm_get (fold (progress_tick i n) ss t) i = Some st' \<and> tr_total_bytes st' = tr_total_bytes st)"
proof (induction ss arbitrary: t st)
  case (Cons s ss)
  from Cons.IH [OF hm_ok_tick [OF Cons.prems(1)] progress_tick_get [OF Cons.prems]] show ?case by simp
qed simp

lemma progress_status:
  assumes "hm_ok (tm_transfers mgr)" and "upload E ip port info body mgr net = (r, mgr', net')"
  shows "\<exists>q. get_progress mgr' (fx_id info) = Some q \<and> tp_total_bytes q = word_of_nat (length body) \<and>
    tp_status q = (if isl r \<and> \<not> (te_late E \<and> word_of_nat (length body) \<le> fst (te_last E)) then Failed else Completed)"
proof -
  let ?i = "fx_id info" and ?n = "word_of_nat (length body) :: u64"
  let ?t0 = "hm_insert ?i \<lparr>tr_file_name = fx_file_name info, tr_total_bytes = ?n, tr_bytes_transferred = 0, tr_speed = 0,
    tr_status = Transferring\<rparr> (tm_transfers mgr)"
  let ?t1 = "fold (progress_tick ?i ?n) (te_ticks E) ?t0"
  have "hm_ok ?t0" "hm_get ?t0 ?i = Some \<lparr>tr_file_name = fx_file_name info, tr_total_bytes = ?n, tr_bytes_transferred = 0, tr_speed = 0,
    tr_status = Transferring\<rparr>" using assms(1) by (simp_all add: hm.ok_put hm.get_put)
  from progress_ticks_get [OF this, of ?n "te_ticks E"] obtain st where
    t1: "hm_ok ?t1" "hm_get ?t1 ?i = Some st" "tr_total_bytes st = ?n" by auto
  obtain res net1 where put: "te_put E (upload_url (te_uuid E) ip port ?i) (slice_chunks CHUNK_SIZE body) net = (res, net1)" by fastforce
  note t2 = hm_ok_tick [OF t1(1), of ?i ?n "te_last E"] progress_tick_get [OF t1(1,2), of ?n "te_last E"]
  show ?thesis
    using assms(2) t1 t2
    by (auto simp: upload_def Let_def put finish_upload_def get_progress_def hm.get_put hm.ok_put hm_ok_tick progress_tick_get
        split: sum.splits if_splits)
qed

text \<open>
  The progress reported after an upload. It says \<open>Completed\<close> for every upload that succeeded. An upload that
  failed is reported as \<open>Failed\<close>, except when the last turn of the progress task comes after the sender's
  entry and finds all bytes handed to the client: then it overwrites the failure with \<open>Completed\<close>.
\<close>

theorem progress_after_upload:
  assumes "hm_ok (tm_transfers mgr)" and "upload E ip port info body mgr net = (r, mgr', net')"
  shows "\<exists>q. get_progress mgr' (fx_id info) = Some q \<and> tp_total_bytes q = word_of_nat (length body) \<and>
    tp_status q = (if isl r \<and> \<not> (te_late E \<and> word_of_nat (length body) \<le> fst (te_last E)) then Failed else Completed)"
  by (rule progress_status [OF assms])

section \<open>Uploads of a streaming client\<close>

text \<open>
  The body is given to the HTTP client as a stream of unknown length, which HTTP/1.1 clients send in chunked
  transfer coding: each chunk after its length in hexadecimal, a chunk of length 0 at the end.
\<close>

fun hex_num :: "nat \<Rightarrow> string" where
  "hex_num n = (if n < 16 then [''0123456789abcdef'' ! n] else hex_num (n div 16) @ [''0123456789abcdef'' ! (n mod 16)])"

declare hex_num.simps [simp del]

definition chunked :: "bytes list \<Rightarrow> bytes" where
  "chunked cs = concat (map (\<lambda>c. as_bytes (hex_num (length c) @ CRLF) @ c @ as_bytes CRLF) cs) @ as_bytes (''0'' @ CRLF @ CRLF)"

definition hex_byte :: "u8 \<Rightarrow> bool" where
  "hex_byte b \<longleftrightarrow> b \<in> set (as_bytes ''0123456789abcdef'')"

lemma hex_num_hd: "hex_num n \<noteq> [] \<and> hd (hex_num n) \<in> set ''0123456789abcdef''"
proof (induction n rule: hex_num.induct)
  case (1 n)
  have "''0123456789abcdef'' ! k \<in> set ''0123456789abcdef''" if "k < 16" for k
    by (rule nth_mem) (use that in simp)
  with 1 show ?case by (auto simp: hex_num.simps [of n] simp del: list.set)
qed

lemma chunked_hd: "chunked cs \<noteq> [] \<and> hex_byte (hd (chunked cs))"
proof (cases cs)
  case Nil
  then show ?thesis by (simp add: chunked_def hex_byte_def)
next
  case (Cons c cs')
  obtain x xs where h: "hex_num (length c) = x # xs" using hex_num_hd [of "length c"] by (cases "hex_num (length c)") auto
  then have "x \<in> set ''0123456789abcdef''" using hex_num_hd [of "length c"] by simp
  then have "byte_of_char x \<in> byte_of_char ` set ''0123456789abcdef''" by (rule imageI)
  then have "hex_byte (byte_of_char x)" unfolding hex_byte_def as_bytes_def set_map .
  then show ?thesis by (simp add: chunked_def Cons h)
qed

text \<open>A client that uploads in chunked coding to the given server, over any segments, and reads its answer.\<close>

definition chunked_client ::
  "uuid_lib \<Rightarrow> (string \<Rightarrow> string) \<Rightarrow> path \<Rightarrow> (string \<Rightarrow> bytes list \<Rightarrow> fs \<Rightarrow> (string + nat) \<times> fs) \<Rightarrow> bool" where
  "chunked_client U lower dir put \<longleftrightarrow>
    (\<forall>ip port file_id chunks fs. \<exists>hs segs e.
       header_lines_ok hs \<and> list_all (\<lambda>l. \<not> is_length_line l) hs \<and>
       length (join CRLF (files_line U ''PUT'' file_id # hs)) + 3 \<le> MAX_HEADER \<and>
       concat segs = http_head (files_line U ''PUT'' file_id # hs) @ chunked chunks \<and>
       (\<forall>fs'. file_connection U lower dir segs e fs = (Answered (plain_response ''200 OK'' ''OK''), fs') \<longrightarrow>
          put (upload_url U ip port file_id) chunks fs = (Inr 200, fs')))"

text \<open>Every zstd frame begins with the magic number, and the decoder refuses other data.\<close>

definition zstd_magic :: "zstd_lib \<Rightarrow> bool" where
  "zstd_magic Z \<longleftrightarrow>
    (\<forall>l d c. zs_finish Z l d = Inr c \<longrightarrow> c \<noteq> [] \<and> hd c = 0x28) \<and>
    (\<forall>b. b \<noteq> [] \<longrightarrow> hd b \<noteq> 0x28 \<longrightarrow> (\<exists>e. zd_new Z b = Some e) \<or> (\<exists>e. zd_read Z b = Inl e))"

lemma decompress_no_magic: "zstd_magic Z \<Longrightarrow> b \<noteq> [] \<Longrightarrow> hd b \<noteq> 0x28 \<Longrightarrow> \<exists>e. decompress Z b = Inl e"
  unfolding zstd_magic_def decompress_def codec_decompress_def by (fastforce split: option.splits sum.splits)

lemma hd_take: "take n xs \<noteq> [] \<Longrightarrow> hd (take n xs) = hd xs"
  by (cases xs; cases n) auto

text \<open>
  An upload over a streaming client never arrives. The server does not know the chunked coding: without a
  \<open>Content-Length\<close> it stores what came along with the header and answers 200. So, without a password, the sender
  reports success and a completed transfer, while the stored file is not what was sent: it is empty or begins
  with the length of the first chunk, and then the receiver cannot unpack it.
\<close>

theorem streamed_upload_lost:
  assumes "uuid_ok U" and "lowers_ascii lower" and "fs_healthy rfs" and "zstd_magic (te_zstd E)" and "te_uuid E = U"
    and "chunked_client U lower (fv_storage_dir server) (te_put E)" and "hm_ok (tm_transfers mgr)"
    and "p \<noteq> []" and "fs_read fs p = Inr data" and "send_body E None data = Inr (body, b)"
  shows "\<exists>info mgr' rfs' q stored.
    send_file E fs space sender p None ip port fid mgr rfs = (Inr info, mgr', rfs') \<and>
    get_progress mgr' (fx_id info) = Some q \<and> tp_status q = Completed \<and>
    fs_data rfs' (bin_path U (fv_storage_dir server) (fx_id info)) = Some stored \<and> stored \<noteq> body \<and>
    (stored \<noteq> [] \<longrightarrow> (\<exists>e. receive_file (te_prims E) (te_zstd E) U server (fx_id info) save_path None h rfs' = (Inl (DecompressError e), rfs')))"
proof -
  obtain r mgr' rfs' where s: "send_file E fs space sender p None ip port fid mgr rfs = (r, mgr', rfs')" using prod_cases3 by blast
  from send_file_runs [OF s assms(9,10,8)] obtain info where u: "upload E ip port info body mgr rfs = (r, mgr', rfs')" by blast
  let ?i = "fx_id info" and ?cs = "slice_chunks CHUNK_SIZE body"
  let ?path = "bin_path U (fv_storage_dir server) ?i"
  from assms(6)[unfolded chunked_client_def, rule_format, of ?i ?cs rfs ip port] obtain hs segs e where
    c: "header_lines_ok hs" "list_all (\<lambda>l. \<not> is_length_line l) hs"
      "length (join CRLF (files_line U ''PUT'' ?i # hs)) + 3 \<le> MAX_HEADER"
      "concat segs = http_head (files_line U ''PUT'' ?i # hs) @ chunked ?cs"
    and put: "\<And>fs'. file_connection U lower (fv_storage_dir server) segs e rfs = (Answered (plain_response ''200 OK'' ''OK''), fs') \<Longrightarrow>
      te_put E (upload_url U ip port ?i) ?cs rfs = (Inr 200, fs')" by blast
  from put_without_length [OF assms(1-3) c] obtain n where
    "file_connection U lower (fv_storage_dir server) segs e rfs =
      (Answered (plain_response ''200 OK'' ''OK''), snd (fs_write ?path (take n (chunked ?cs)) rfs))" by blast
  from put [OF this] have pt: "te_put E (upload_url U ip port ?i) ?cs rfs = (Inr 200, snd (fs_write ?path (take n (chunked ?cs)) rfs))" .
  have r: "r = Inr info" "rfs' = snd (fs_write ?path (take n (chunked ?cs)) rfs)"
    using u pt assms(5) by (auto simp: upload_def Let_def finish_upload_def is_success_def split: prod.splits sum.splits option.splits if_splits)
  let ?st = "take n (chunked ?cs)"
  have st: "fs_data rfs' ?path = Some ?st" "fs_healthy rfs'"
    using assms(3) by (simp_all add: r fs_write_healthy) (simp add: fs_healthy_def)
  have "\<not> hex_byte 0x28" by (simp add: hex_byte_def as_bytes_def byte_of_char_def)
  then have hd: "hd ?st \<noteq> 0x28" if "?st \<noteq> []" using chunked_hd [of ?cs] hd_take [OF that] by auto
  have b: "body \<noteq> []" "hd body = 0x28"
    using assms(4,10) by (auto simp: zstd_magic_def send_body_def compress_def codec_compress_def split: sum.splits option.splits)
  have ne: "?st \<noteq> body" using hd b by metis
  have rec: "\<exists>e. receive_file (te_prims E) (te_zstd E) U server ?i save_path None h rfs' = (Inl (DecompressError e), rfs')" if nz: "?st \<noteq> []"
  proof -
    have "read_file U server ?i rfs' = Inr ?st" using st by (simp add: read_file_def fs_read_def fs_healthy_def)
    moreover obtain e where "decompress (te_zstd E) ?st = Inl e" using decompress_no_magic [OF assms(4) nz hd [OF nz]] by blast
    moreover have "fs_create_dir_all dir rfs' = Inr ()" for dir using st(2) by (simp add: fs_create_dir_all_def fs_healthy_def)
    ultimately show ?thesis by (simp add: receive_file_def unpack_body_def)
  qed
  obtain q where "get_progress mgr' ?i = Some q" "tp_status q = Completed"
    using progress_status [OF assms(7) u] by (auto simp: r)
  with s r st(1) ne rec show ?thesis by blast
qed

section \<open>A concrete transfer\<close>

definition magic_toy :: zstd_lib where
  "magic_toy =
    \<lparr>zs_new = \<lambda>l. None, zs_write = \<lambda>l d. None, zs_finish = \<lambda>l d. Inr (0x28 # d), zd_new = \<lambda>b. None,
     zd_read = \<lambda>b. case b of x # d \<Rightarrow> if x = 0x28 then Inr d else Inl ''magic'' | [] \<Rightarrow> Inl ''eof''\<rparr>"

lemma magic_toy_ok: "zstd_ok magic_toy" "zstd_magic magic_toy"
  by (auto simp: zstd_ok_def zstd_magic_def magic_toy_def neq_Nil_conv)

text \<open>A client that sends one segment and reads the identifier off the URL.\<close>

definition put_toy :: "string \<Rightarrow> bytes list \<Rightarrow> fs \<Rightarrow> (string + nat) \<times> fs" where
  "put_toy url chunks fs =
    (case ul_parse uuid_toy (rev (takeWhile (\<lambda>c. c \<noteq> CHR ''/'') (rev url))) of
       Inl e \<Rightarrow> (Inl e, fs)
     | Inr i \<Rightarrow>
        (case file_connection uuid_toy (map ascii_lower) [''d''] [http_head [files_line uuid_toy ''PUT'' i] @ chunked chunks] TailSilent fs of
           (Answered r, fs') \<Rightarrow> ((if r = plain_response ''200 OK'' ''OK'' then Inr 200 else Inr 500), fs')
         | (_, fs') \<Rightarrow> (Inl ''timeout'', fs')))"

lemma dec_length: "n < 10 ^ Suc k \<Longrightarrow> length (dec n) \<le> Suc k"
proof (induction k arbitrary: n)
  case (Suc k)
  show ?case
  proof (cases "n < 10")
    case False
    have "n div 10 < 10 ^ Suc k" using Suc.prems by (simp add: less_mult_imp_div_less mult.commute)
    from Suc.IH [OF this] False show ?thesis by (simp add: dec.simps [of n])
  qed (simp add: dec.simps [of n])
next
  case 0
  then show ?case by (simp add: dec.simps [of n])
qed

lemma put_toy_chunked: "chunked_client uuid_toy (map ascii_lower) [''d''] put_toy"
  unfolding chunked_client_def
proof (intro allI exI conjI impI)
  fix ip :: string and port :: u16 and i :: uuid and chunks :: "bytes list" and fs
  have v: "\<forall>c \<in> set (dec (unat i)). c \<noteq> CHR ''/''"
    using uuid_string_visible [OF uuid_toy_ok, of i] by (auto simp: uuid_toy_def)
  have "takeWhile (\<lambda>c. c \<noteq> CHR ''/'') (rev (u @ ''/files/'' @ dec (unat i))) = rev (dec (unat i))" for u
    proof -
    have "takeWhile (\<lambda>c. c \<noteq> CHR ''/'') (rev (dec (unat i)) @ CHR ''/'' # w) = rev (dec (unat i))" for w
      using v by (subst takeWhile_append2) auto
    from this [of "''selif/'' @ rev u"] show ?thesis by simp
  qed
  from this [of "''http://'' @ ip @ '':'' @ dec (unat port)"]
  have "ul_parse uuid_toy (rev (takeWhile (\<lambda>c. c \<noteq> CHR ''/'') (rev (upload_url uuid_toy ip port i)))) = Inr i"
    using uuid_parse_string [OF uuid_toy_ok, of i] by (simp add: upload_url_def uuid_toy_def)
  then show "file_connection uuid_toy (map ascii_lower) [''d''] [http_head [files_line uuid_toy ''PUT'' i] @ chunked chunks] TailSilent fs =
      (Answered (plain_response ''200 OK'' ''OK''), fs') \<Longrightarrow> put_toy (upload_url uuid_toy ip port i) chunks fs = (Inr 200, fs')" for fs'
    by (simp add: put_toy_def)
  have "unat i < 10 ^ Suc 39" using unsigned_less [of i, where ?'a = nat] by simp
  from dec_length [OF this]
  show "length (join CRLF [files_line uuid_toy ''PUT'' i]) + 3 \<le> MAX_HEADER" by (simp add: files_line_def uuid_toy_def MAX_HEADER_def)
qed (simp_all add: header_lines_ok_def)

definition transfer_toy :: "(fs, nat) transfer_env" where
  "transfer_toy =
    \<lparr>te_prims = primitives_toy, te_zstd = magic_toy, te_uuid = uuid_toy, te_salt = replicate 16 1, te_nonce = replicate 12 2, te_new_id = 7,
     te_now = 0, te_put = put_toy, te_ticks = [(0, 0)], te_last = (4, 9), te_late = True\<rparr>"

definition source_toy :: fs where
  "source_toy = fs_empty\<lparr>fs_data := [[''home'', ''a.txt''] \<mapsto> [5, 6, 7]]\<rparr>"

lemma toy_body: "send_body transfer_toy None [5, 6, 7] = Inr ([0x28, 5, 6, 7], False)" "fs_read source_toy [''home'', ''a.txt''] = Inr [5, 6, 7]"
  by (simp_all add: send_body_def transfer_toy_def compress_def codec_compress_def magic_toy_def source_toy_def fs_read_def fs_empty_def)

theorem streamed_upload_lost_witness:
  "\<exists>info mgr' rfs' q stored.
    send_file transfer_toy source_toy 1 1 [''home'', ''a.txt''] None ''10.144.144.2'' 19001 None transfer_mgr_new fs_empty = (Inr info, mgr', rfs') \<and>
    get_progress mgr' (fx_id info) = Some q \<and> tp_status q = Completed \<and>
    fs_data rfs' (bin_path uuid_toy [''d''] (fx_id info)) = Some stored \<and> stored \<noteq> [0x28, 5, 6, 7]"
proof -
  have "te_put transfer_toy = put_toy" "te_zstd transfer_toy = magic_toy" "te_uuid transfer_toy = uuid_toy" by (simp_all add: transfer_toy_def)
  moreover have "hm_ok (tm_transfers transfer_mgr_new)" by (simp add: transfer_mgr_new_def hm_ok_def)
  ultimately show ?thesis
    using streamed_upload_lost [OF uuid_toy_ok lowers_ascii_map fs_empty_healthy, of transfer_toy "file_server_new 1 [''d'']" transfer_mgr_new
        "[''home'', ''a.txt'']" source_toy "[5, 6, 7]" "[0x28, 5, 6, 7]" False 1 1 "''10.144.144.2''" 19001 None]
      magic_toy_ok(2) put_toy_chunked toy_body by (simp add: file_server_new_def) blast
qed

text \<open>The same transfer with a password, over a client that delivers the bytes.\<close>

definition direct_put :: "string \<Rightarrow> bytes list \<Rightarrow> fs \<Rightarrow> (string + nat) \<times> fs" where
  "direct_put url chunks fs = (Inr 200, snd (fs_write (bin_path uuid_toy [''d''] 7) (concat chunks) fs))"

definition direct_toy :: "(fs, nat) transfer_env" where
  "direct_toy = transfer_toy\<lparr>te_put := direct_put\<rparr>"

definition sealed_toy :: bytes where
  "sealed_toy = replicate 16 1 @ replicate 12 2 @ [0x28, 5, 6, 7] @ replicate 16 2"

lemma sealed_toy_body: "send_body direct_toy (Some ''pw'') [5, 6, 7] = Inr (sealed_toy, True)"
  by (simp add: send_body_def direct_toy_def transfer_toy_def compress_def codec_compress_def magic_toy_def crypto_encrypt_def Let_def
      new_from_slice_def derive_key_def primitives_toy_def sealed_toy_def as_bytes_def)

lemma sealed_toy_chunks: "slice_chunks CHUNK_SIZE sealed_toy = [sealed_toy]"
proof -
  have "length sealed_toy = 48" "sealed_toy \<noteq> []" by (simp_all add: sealed_toy_def)
  then show ?thesis by (simp add: slice_chunks.simps [of _ sealed_toy] slice_chunks.simps [of _ "[]"] CHUNK_SIZE_def)
qed

lemma direct_send:
  "\<exists>info mgr' rfs'. send_file direct_toy source_toy 1 1 [''home'', ''a.txt''] (Some ''pw'') ''10.144.144.2'' 19001 None transfer_mgr_new fs_empty
     = (Inr info, mgr', rfs') \<and> fx_id info = 7 \<and> fs_healthy rfs' \<and> fs_data rfs' (bin_path uuid_toy [''d''] 7) = Some (concat (slice_chunks CHUNK_SIZE sealed_toy))"
proof -
  have "fs_data source_toy [''home'', ''a.txt''] = Some [5, 6, 7]" by (simp add: source_toy_def)
  then show ?thesis
    using sealed_toy_body toy_body(2)
    by (simp add: send_file_def file_name_of_def upload_def Let_def finish_upload_def is_success_def sealed_toy_chunks)
      (simp add: direct_toy_def transfer_toy_def direct_put_def transfer_mgr_new_def hm_get_def hm_insert_def progress_tick_def fs_write_def fs_empty_def fs_healthy_def is_success_def)
qed


theorem received_intact_witness:
  "\<exists>e. receive_file primitives_toy magic_toy uuid_toy (file_server_new 1 [''d'']) 7 [''out''] None (Some ''h'') fs_empty = (Inl (StoredError e), fs_empty)"
proof -
  obtain r fs' where r: "receive_file primitives_toy magic_toy uuid_toy (file_server_new 1 [''d'']) 7 [''out''] None (Some ''h'') fs_empty = (r, fs')" by fastforce
  have n: "read_file uuid_toy (file_server_new 1 [''d'']) 7 fs_empty = Inl e \<longleftrightarrow> e = utf8_text [232, 175, 187, 229, 143, 150, 230, 150, 135, 228, 187, 182, 229, 164, 177, 232, 180, 165] @ '': '' @ ''No such file or directory''" for e
    by (auto simp: read_file_def fs_read_def fs_empty_def)
  have "\<exists>e. r = Inl (StoredError e)" using r n by (auto simp: receive_file_def fs_create_dir_all_def fs_empty_def split: sum.splits)
  with r received_intact [OF r] show ?thesis by auto
qed

theorem progress_after_upload_witness:
  "\<exists>mgr' net' q e. upload (transfer_toy\<lparr>te_put := \<lambda>_ _ net. (Inr 500, net)\<rparr>) ''ip'' 80
      \<lparr>fx_id = 7, fx_space_id = 1, fx_sender_id = 1, fx_file_name = ''a'', fx_file_size = 4, fx_file_hash = None, fx_mime_type = None,
       fx_is_compressed = True, fx_is_password_protected = False, fx_storage_path = None, fx_created_at = 0\<rparr> [1, 2, 3, 4] transfer_mgr_new fs_empty
      = (Inl e, mgr', net') \<and> get_progress mgr' 7 = Some q \<and> tp_status q = Completed"
proof -
  let ?E = "transfer_toy\<lparr>te_put := \<lambda>_ _ net. (Inr 500, net)\<rparr>"
  let ?info = "\<lparr>fx_id = 7, fx_space_id = 1, fx_sender_id = 1, fx_file_name = ''a'', fx_file_size = 4, fx_file_hash = None, fx_mime_type = None,
       fx_is_compressed = True, fx_is_password_protected = False, fx_storage_path = None, fx_created_at = 0\<rparr>"
  obtain r mgr' net' where u: "upload ?E ''ip'' 80 ?info [1, 2, 3, 4] transfer_mgr_new fs_empty = (r, mgr', net')" using prod_cases3 by blast
  have "hm_ok (tm_transfers transfer_mgr_new)" by (simp add: transfer_mgr_new_def hm_ok_def)
  from progress_after_upload [OF this u] obtain q where "get_progress mgr' 7 = Some q" "tp_status q = Completed"
    by (auto simp: transfer_toy_def)
  moreover have "isl r" using u by (auto simp: upload_def Let_def transfer_toy_def finish_upload_def transfer_mgr_new_def hm_get_def hm_insert_def
      progress_tick_def is_success_def)
  then obtain e where "r = Inl e" by (cases r) auto
  ultimately show ?thesis using u by blast
qed

end
