(* ===== verification/File_Commands.thy ===== *)
theory File_Commands
  imports File_Transfer Space_Facts
begin

text \<open>
  File sharing as the application offers it: the registry of file servers, \<open>src-tauri/src/file/registry.rs\<close>, the
  Tauri commands \<open>commands/file.rs\<close>, and the routes of the web server that do the same, \<open>server/routes.rs\<close>.
  They tie together the space manager, the database, the transfer manager and the stored files.
\<close>

section \<open>The registry of servers\<close>

record file_registry =
  fr_servers :: "(uuid, file_server) hmap"
  fr_storage_dir :: path

definition registry_new :: "path \<Rightarrow> file_registry" where
  "registry_new dir = \<lparr>fr_servers = [], fr_storage_dir = dir\<rparr>"

definition port_for :: "app_config option \<Rightarrow> uuid \<Rightarrow> u16" where
  "port_for global space_id =
    word_of_nat (cfg_get_u16 global KEY_FILE_SERVER_PORT_BASE DEFAULT_FILE_SERVER_PORT_BASE) + word_of_nat (unat space_id mod 1000)"

definition get_or_start ::
  "socket_os \<Rightarrow> app_config option \<Rightarrow> uuid_lib \<Rightarrow> uuid \<Rightarrow> file_registry \<Rightarrow> (string + file_server) \<times> file_registry" where
  "get_or_start S global U space_id reg =
    (case hm_get (fr_servers reg) space_id of
       Some server \<Rightarrow> (Inr server, reg)
     | None \<Rightarrow>
        (case file_server_start S (port_for global space_id)
                (file_server_new space_id (path_join (fr_storage_dir reg) (ul_string U space_id))) of
           (Inl e, _) \<Rightarrow> (Inl e, reg)
         | (Inr _, server) \<Rightarrow> (Inr server, reg\<lparr>fr_servers := hm_insert space_id server (fr_servers reg)\<rparr>)))"

definition registry_get :: "uuid \<Rightarrow> file_registry \<Rightarrow> file_server option" where
  "registry_get space_id reg = hm_get (fr_servers reg) space_id"

definition registry_stop :: "uuid \<Rightarrow> file_registry \<Rightarrow> file_registry" where
  "registry_stop space_id reg = reg\<lparr>fr_servers := hm_remove space_id (fr_servers reg)\<rparr>"

text \<open>One space in \<open>sync\<close>; the operating system may answer differently each time.\<close>

definition sync_space ::
  "(uuid \<Rightarrow> socket_os) \<Rightarrow> app_config option \<Rightarrow> uuid_lib \<Rightarrow> 't space \<Rightarrow> file_registry \<Rightarrow> file_registry" where
  "sync_space S global U space reg =
    (if sc_status space = Connected then snd (get_or_start (S (sc_id space)) global U (sc_id space) reg)
     else registry_stop (sc_id space) reg)"

definition registry_sync ::
  "(uuid \<Rightarrow> socket_os) \<Rightarrow> ('w, 't, 'v, 'f) space_env \<Rightarrow> file_registry \<Rightarrow> ('w, 't) space_mgr \<Rightarrow> file_registry \<times> ('w, 't) space_mgr" where
  "registry_sync S E reg m =
    (case space_list E m of
       (Inl _, m) \<Rightarrow> (reg, m)
     | (Inr spaces, m) \<Rightarrow> (fold (sync_space S (se_global E) (se_uuid E)) spaces reg, m))"

section \<open>Commands\<close>

datatype command_error = CmdText string | CmdSpace space_error | CmdTransfer transfer_error

record ('w, 't, 'n) file_app =
  fa_spaces :: "('w, 't) space_mgr"
  fa_transfers :: "'t transfer_mgr"
  fa_registry :: file_registry
  fa_fs :: fs
  fa_net :: 'n

record ('w, 't, 'v, 'f, 'n) file_env =
  fe_space :: "('w, 't, 'v, 'f) space_env"
  fe_send :: "nat \<Rightarrow> ('n, 't) transfer_env"
  fe_socket :: socket_os
  fe_id :: uuid
  fe_prims :: primitives
  fe_zstd :: zstd_lib

definition file_row_of :: "('w, 't, 'v, 'f) space_env \<Rightarrow> 't file_info \<Rightarrow> file_row" where
  "file_row_of E i =
    \<lparr>fi_id = ul_string (se_uuid E) (fx_id i), fi_space_id = ul_string (se_uuid E) (fx_space_id i),
     fi_sender_id = ul_string (se_uuid E) (fx_sender_id i), fi_file_name = fx_file_name i, fi_file_size = sint (fx_file_size i),
     fi_file_hash = fx_file_hash i, fi_mime_type = fx_mime_type i, fi_is_compressed = fx_is_compressed i,
     fi_is_password_protected = fx_is_password_protected i, fi_storage_path = fx_storage_path i,
     fi_created_at = se_rfc3339 E (fx_created_at i)\<rparr>"

definition save_file_row ::
  "('w, 't, 'v, 'f, 'n) file_env \<Rightarrow> 't file_info \<Rightarrow> ('w, 't, 'n) file_app \<Rightarrow> (command_error + unit) \<times> ('w, 't, 'n) file_app" where
  "save_file_row F info a =
    (case on_db (insert_file (file_row_of (fe_space F) info)) (fa_spaces a) of
       (Inl e, m) \<Rightarrow> (Inl (CmdSpace e), a\<lparr>fa_spaces := m\<rparr>)
     | (Inr _, m) \<Rightarrow> (Inr (), a\<lparr>fa_spaces := m\<rparr>))"

text \<open>The loop over the peers; the identifier of the first upload is used for all.\<close>

fun send_to_peers ::
  "('w, 't, 'v, 'f, 'n) file_env \<Rightarrow> nat \<Rightarrow> uuid \<Rightarrow> path \<Rightarrow> string option \<Rightarrow> (string \<times> u16) list \<Rightarrow> uuid option \<Rightarrow> 't file_info option \<Rightarrow>
   ('w, 't, 'n) file_app \<Rightarrow> (transfer_error + 't file_info option) \<times> ('w, 't, 'n) file_app" where
  "send_to_peers F k space p password [] shared last_info a = (Inr last_info, a)"
| "send_to_peers F k space p password ((ip, port) # peers) shared last_info a =
    (case send_file (fe_send F k) (fa_fs a) space space p password ip port shared (fa_transfers a) (fa_net a) of
       (Inl e, t, n) \<Rightarrow> (Inl e, a\<lparr>fa_transfers := t, fa_net := n\<rparr>)
     | (Inr info, t, n) \<Rightarrow>
        send_to_peers F (Suc k) space p password peers (Some (fx_id info)) (Some info) (a\<lparr>fa_transfers := t, fa_net := n\<rparr>))"

definition offline_info :: "('w, 't, 'v, 'f, 'n) file_env \<Rightarrow> uuid \<Rightarrow> string \<Rightarrow> nat \<Rightarrow> string option \<Rightarrow> string option \<Rightarrow> 't file_info" where
  "offline_info F space file_name file_size hash password =
    \<lparr>fx_id = fe_id F, fx_space_id = space, fx_sender_id = space, fx_file_name = file_name, fx_file_size = word_of_nat file_size,
     fx_file_hash = hash, fx_mime_type = None, fx_is_compressed = False, fx_is_password_protected = password \<noteq> None,
     fx_storage_path = None, fx_created_at = se_now (fe_space F)\<rparr>"

definition send_file_command ::
  "('w, 't, 'v, 'f, 'n) file_env \<Rightarrow> string \<Rightarrow> path \<Rightarrow> string option \<Rightarrow> ('w, 't, 'n) file_app \<Rightarrow>
   (command_error + 't file_info) \<times> ('w, 't, 'n) file_app" where
  "send_file_command F space_id p password a =
    (case ul_parse (se_uuid (fe_space F)) space_id of
       Inl e \<Rightarrow> (Inl (CmdText e), a)
     | Inr space \<Rightarrow>
        (case get_peers_for_file_transfer (fe_space F) space (fa_spaces a) of
           (Inl e, m) \<Rightarrow> (Inl (CmdSpace e), a\<lparr>fa_spaces := m\<rparr>)
         | (Inr peers, m) \<Rightarrow>
            (let a = a\<lparr>fa_spaces := m\<rparr> in
             if peers = [] then
               (case fs_data (fa_fs a) p of
                  None \<Rightarrow> (Inl (CmdText (utf8_text [230, 151, 160, 230, 179, 149, 232, 175, 187, 229, 143, 150, 230, 150, 135, 228, 187, 182] @ '': '' @ ''No such file or directory'')), a)
                | Some content \<Rightarrow>
                   (let info = offline_info F space (case file_name_of p of Some n \<Rightarrow> n | None \<Rightarrow> []) (length content) None password in
                    case save_file_row F info a of (Inl e, a) \<Rightarrow> (Inl e, a) | (Inr _, a) \<Rightarrow> (Inr info, a)))
             else
               (case send_to_peers F 0 space p password peers None None a of
                  (Inl e, a) \<Rightarrow> (Inl (CmdTransfer e), a)
                | (Inr None, a) \<Rightarrow> (Inl (CmdText (utf8_text [230, 150, 135, 228, 187, 182, 229, 143, 145, 233, 128, 129, 229, 164, 177, 232, 180, 165])), a)
                | (Inr (Some info), a) \<Rightarrow>
                   (case save_file_row F info a of (Inl e, a) \<Rightarrow> (Inl e, a) | (Inr _, a) \<Rightarrow> (Inr info, a))))))"

definition receive_file_command ::
  "('w, 't, 'v, 'f, 'n) file_env \<Rightarrow> string \<Rightarrow> string \<Rightarrow> path \<Rightarrow> string option \<Rightarrow> ('w, 't, 'n) file_app \<Rightarrow>
   (command_error + unit) \<times> ('w, 't, 'n) file_app" where
  "receive_file_command F space_id file_id save_path password a =
    (let E = fe_space F in
     case ul_parse (se_uuid E) space_id of
       Inl e \<Rightarrow> (Inl (CmdText e), a)
     | Inr space \<Rightarrow>
        (case ul_parse (se_uuid E) file_id of
           Inl e \<Rightarrow> (Inl (CmdText e), a)
         | Inr i \<Rightarrow>
            (case get_or_start (fe_socket F) (se_global E) (se_uuid E) space (fa_registry a) of
               (Inl e, reg) \<Rightarrow> (Inl (CmdText e), a\<lparr>fa_registry := reg\<rparr>)
             | (Inr server, reg) \<Rightarrow>
                (let a = a\<lparr>fa_registry := reg\<rparr> in
                 case on_db (db_get_file space_id file_id) (fa_spaces a) of
                   (Inl e, m) \<Rightarrow> (Inl (CmdSpace e), a\<lparr>fa_spaces := m\<rparr>)
                 | (Inr row, m) \<Rightarrow>
                    (case receive_file (fe_prims F) (fe_zstd F) (se_uuid E) server i save_path password
                            (Option.bind row fi_file_hash) (fa_fs a) of
                       (Inl e, fs) \<Rightarrow> (Inl (CmdTransfer e), a\<lparr>fa_spaces := m, fa_fs := fs\<rparr>)
                     | (Inr _, fs) \<Rightarrow> (Inr (), a\<lparr>fa_spaces := m, fa_fs := fs\<rparr>))))))"

definition record_received_file ::
  "file_row \<Rightarrow> ('w, 't, 'n) file_app \<Rightarrow> (command_error + unit) \<times> ('w, 't, 'n) file_app" where
  "record_received_file row a =
    (case on_db (insert_file row) (fa_spaces a) of
       (Inl e, m) \<Rightarrow> (Inl (CmdSpace e), a\<lparr>fa_spaces := m\<rparr>)
     | (Inr _, m) \<Rightarrow> (Inr (), a\<lparr>fa_spaces := m\<rparr>))"

text \<open>An identifier that does not parse stands for the nil identifier in the last step.\<close>

definition delete_file_command ::
  "('w, 't, 'v, 'f, 'n) file_env \<Rightarrow> string \<Rightarrow> string \<Rightarrow> ('w, 't, 'n) file_app \<Rightarrow> (command_error + unit) \<times> ('w, 't, 'n) file_app" where
  "delete_file_command F space_id file_id a =
    (let U = se_uuid (fe_space F) in
     case on_db (delete_file space_id file_id) (fa_spaces a) of
       (Inl e, m) \<Rightarrow> (Inl (CmdSpace e), a\<lparr>fa_spaces := m\<rparr>)
     | (Inr _, m) \<Rightarrow>
        (let a = a\<lparr>fa_spaces := m\<rparr> in
         case ul_parse U space_id of
           Inl _ \<Rightarrow> (Inr (), a)
         | Inr space \<Rightarrow>
            (case registry_get space (fa_registry a) of
               None \<Rightarrow> (Inr (), a)
             | Some server \<Rightarrow> (Inr (), a\<lparr>fa_fs := snd (stored_delete U server (parse_or_nil U file_id) (fa_fs a))\<rparr>))))"

definition file_info_of_row :: "('w, 't, 'v, 'f) space_env \<Rightarrow> file_row \<Rightarrow> 't file_info" where
  "file_info_of_row E r =
    \<lparr>fx_id = parse_or_nil (se_uuid E) (fi_id r), fx_space_id = parse_or_nil (se_uuid E) (fi_space_id r),
     fx_sender_id = parse_or_nil (se_uuid E) (fi_sender_id r), fx_file_name = fi_file_name r, fx_file_size = word_of_int (fi_file_size r),
     fx_file_hash = fi_file_hash r, fx_mime_type = fi_mime_type r, fx_is_compressed = fi_is_compressed r,
     fx_is_password_protected = fi_is_password_protected r, fx_storage_path = fi_storage_path r,
     fx_created_at = parse_time E (fi_created_at r)\<rparr>"

definition list_files_command ::
  "('w, 't, 'v, 'f, 'n) file_env \<Rightarrow> string \<Rightarrow> u32 option \<Rightarrow> ('w, 't, 'n) file_app \<Rightarrow> (command_error + 't file_info list) \<times> ('w, 't, 'n) file_app" where
  "list_files_command F space_id limit a =
    (case list_space_files (fe_space F) space_id limit (fa_spaces a) of
       (Inl e, m) \<Rightarrow> (Inl (CmdSpace e), a\<lparr>fa_spaces := m\<rparr>)
     | (Inr rows, m) \<Rightarrow> (Inr (map (file_info_of_row (fe_space F)) rows), a\<lparr>fa_spaces := m\<rparr>))"

definition get_transfer_progress ::
  "('w, 't, 'v, 'f, 'n) file_env \<Rightarrow> string \<Rightarrow> ('w, 't, 'n) file_app \<Rightarrow> command_error + transfer_progress option" where
  "get_transfer_progress F transfer_id a =
    (case ul_parse (se_uuid (fe_space F)) transfer_id of
       Inl e \<Rightarrow> Inl (CmdText e)
     | Inr i \<Rightarrow> Inr (get_progress (fa_transfers a) i))"

section \<open>Listing what was sent\<close>

lemma get_peers_db: "sm_db (snd (get_peers_for_file_transfer E b m)) = sm_db m"
proof -
  obtain r m1 where i: "ipc_data E (ListPeers (ul_string (se_uuid E) b)) m = (r, m1)" by fastforce
  then have "sm_db m1 = sm_db m" using ipc_data_snd [of E "ListPeers (ul_string (se_uuid E) b)" m] by (metis ipc_frame(6) snd_conv)
  then have "sm_db (snd (get_peers E b m)) = sm_db m"
    by (simp add: get_peers_def mgr_bind_def i split: sum.splits option.splits)
  then show ?thesis by (cases "get_peers E b m") (simp add: get_peers_for_file_transfer_def mgr_bind_def split: sum.splits)
qed

lemma file_row_roundtrip:
  assumes "uuid_ok (se_uuid E)" and "\<And>t. se_parse_time E (se_rfc3339 E t) = Some t"
  shows "file_info_of_row E (file_row_of E i) = i"
  using assms by (simp add: file_info_of_row_def file_row_of_def parse_or_nil_def parse_time_def)

lemma on_db_insert_file:
  assumes "db_faults (sm_db m) = []" and "on_db (insert_file row) m = (Inr u, m')"
  shows "sm_db m' = (sm_db m)\<lparr>db_files := db_files (sm_db m) @ [row]\<rparr>"
  using assms by (auto simp: on_db_def insert_file_def insert_row_def stmt_def sql_insert_def split: if_splits)

lemma send_to_peers_frame:
  "send_to_peers F k space p password peers shared last_info a = (r, a') \<Longrightarrow> fa_spaces a' = fa_spaces a \<and> fa_registry a' = fa_registry a \<and> fa_fs a' = fa_fs a"
proof (induction peers arbitrary: k shared last_info a)
  case (Cons q peers)
  obtain ip port where q: "q = (ip, port)" by fastforce
  obtain x t n where s: "send_file (fe_send F k) (fa_fs a) space space p password ip port shared (fa_transfers a) (fa_net a) = (x, t, n)"
    using prod_cases3 by blast
  show ?case
  proof (cases x)
    case (Inr info)
    then show ?thesis using Cons.IH [of "Suc k" "Some (fx_id info)" "Some info" "a\<lparr>fa_transfers := t, fa_net := n\<rparr>"] Cons.prems s q by simp
  qed (use Cons.prems s q in auto)
qed simp

lemma send_command_row:
  assumes "db_faults (sm_db (fa_spaces a)) = []" and "send_file_command F space_id p password a = (Inr info, a')"
  shows "sm_db (fa_spaces a') = (sm_db (fa_spaces a))\<lparr>db_files := db_files (sm_db (fa_spaces a)) @ [file_row_of (fe_space F) info]\<rparr>"
proof -
  obtain space where sp: "ul_parse (se_uuid (fe_space F)) space_id = Inr space"
    using assms(2) by (auto simp: send_file_command_def split: sum.splits)
  obtain peers m where g: "get_peers_for_file_transfer (fe_space F) space (fa_spaces a) = (Inr peers, m)"
    using assms(2) sp by (auto simp: send_file_command_def split: sum.splits prod.splits)
  have db: "sm_db m = sm_db (fa_spaces a)" using get_peers_db [of "fe_space F" space "fa_spaces a"] g by simp
  have "\<exists>a1. sm_db (fa_spaces a1) = sm_db m \<and> save_file_row F info a1 = (Inr (), a')"
  proof (cases "peers = []")
    case True
    then have "save_file_row F info (a\<lparr>fa_spaces := m\<rparr>) = (Inr (), a')" using assms(2) sp g
      by (auto simp: send_file_command_def Let_def split: sum.splits prod.splits option.splits)
    then show ?thesis by force
  next
    case False
    then obtain a1 where "send_to_peers F 0 space p password peers None None (a\<lparr>fa_spaces := m\<rparr>) = (Inr (Some info), a1)"
        "save_file_row F info a1 = (Inr (), a')"
      using assms(2) sp g by (auto simp: send_file_command_def Let_def split: sum.splits prod.splits option.splits)
    with send_to_peers_frame [OF this(1)] show ?thesis by auto
  qed
  then obtain a1 where a1: "sm_db (fa_spaces a1) = sm_db m" "save_file_row F info a1 = (Inr (), a')" by blast
  then obtain m2 where "on_db (insert_file (file_row_of (fe_space F) info)) (fa_spaces a1) = (Inr (), m2)" "a' = a1\<lparr>fa_spaces := m2\<rparr>"
    by (auto simp: save_file_row_def split: sum.splits prod.splits)
  with on_db_insert_file [OF _ this(1)] a1 db assms(1) show ?thesis by simp
qed

lemma send_file_space:
  "send_file T fs s sender p pw ip port fid t n = (Inr info, t', n') \<Longrightarrow> fx_space_id info = s"
  by (auto simp: send_file_def Let_def dest!: upload_info split: option.splits sum.splits prod.splits)

lemma send_to_peers_space:
  "send_to_peers F k b p password peers sh li a = (Inr (Some i), a') \<Longrightarrow> (\<And>j. li = Some j \<Longrightarrow> fx_space_id j = b) \<Longrightarrow> fx_space_id i = b"
proof (induction peers arbitrary: k sh li a)
  case (Cons q peers)
  obtain ip port where q: "q = (ip, port)" by fastforce
  obtain x t n where s: "send_file (fe_send F k) (fa_fs a) b b p password ip port sh (fa_transfers a) (fa_net a) = (x, t, n)"
    using prod_cases3 by blast
  then obtain j where x: "x = Inr j" using Cons.prems(1) q by (cases x) auto
  have "fx_space_id j = b" using send_file_space [OF s [unfolded x]] .
  with Cons.IH [of "Suc k" "Some (fx_id j)" "Some j" "a\<lparr>fa_transfers := t, fa_net := n\<rparr>"] Cons.prems(1) q s x show ?case by simp
qed auto

lemma send_command_space:
  "send_file_command F space_id p password a = (Inr info, a') \<Longrightarrow> ul_parse (se_uuid (fe_space F)) space_id = Inr b \<Longrightarrow> fx_space_id info = b"
  by (auto simp: send_file_command_def Let_def offline_info_def split: sum.splits prod.splits option.splits if_splits
      dest: send_to_peers_space [where li = None, simplified])

text \<open>
  A file that was sent is listed. After a successful send on a database without faults, with or without
  peers online, the list of the files of the space contains exactly one more entry, and it is the record the
  command returned.
\<close>

theorem sent_file_listed:
  assumes "uuid_ok (se_uuid (fe_space F))" and "\<And>t. se_parse_time (fe_space F) (se_rfc3339 (fe_space F) t) = Some t"
    and "\<And>t. mset (se_file_rows (fe_space F) t) = mset t"
    and "db_faults (sm_db (fa_spaces a)) = []" and "send_file_command F (ul_string (se_uuid (fe_space F)) b) p password a = (Inr info, a')"
  shows "\<exists>before after a1 a2. list_files_command F (ul_string (se_uuid (fe_space F)) b) None a = (Inr before, a1) \<and>
    list_files_command F (ul_string (se_uuid (fe_space F)) b) None a' = (Inr after, a2) \<and> mset after = add_mset info (mset before)"
proof -
  let ?E = "fe_space F" and ?sid = "ul_string (se_uuid (fe_space F)) b" and ?db = "sm_db (fa_spaces a)"
  let ?rows = "\<lambda>db. rev (sort_key fi_created_at (se_file_rows ?E (filter (\<lambda>r. fi_space_id r = ?sid) (db_files db))))"
  have list: "list_files_command F ?sid None x = (Inr (map (file_info_of_row ?E) (?rows (sm_db (fa_spaces x)))), x)"
    if "db_faults (sm_db (fa_spaces x)) = []" for x :: "('a, 'b, 'e) file_app"
    using that by (simp add: list_files_command_def list_space_files_def on_db_def list_files_def query_rows_def select_rows_def select_def stmt_def)
  have row: "sm_db (fa_spaces a') = ?db\<lparr>db_files := db_files ?db @ [file_row_of ?E info]\<rparr>" by (rule send_command_row [OF assms(4,5)])
  have "fi_space_id (file_row_of ?E info) = ?sid"
    using send_command_space [OF assms(5) uuid_parse_string [OF assms(1)]] by (simp add: file_row_of_def)
  then have "mset (map (file_info_of_row ?E) (?rows (sm_db (fa_spaces a')))) = add_mset info (mset (map (file_info_of_row ?E) (?rows ?db)))"
    using file_row_roundtrip [OF assms(1,2), of info] by (simp add: row assms(3))
  with list [OF assms(4)] list [of a'] row assms(4) show ?thesis by auto
qed

section \<open>Two servers for one port\<close>

lemma port_for_service: "port_for (se_global E) b = service_port E FileService b"
  by (simp add: port_for_def service_port_def service_base_def)

lemma start_service_Inr:
  "start_service E b s m = (Inr u, m') \<Longrightarrow> m' = m\<lparr>sm_services := (sm_services m)(s := (sm_services m s)(b \<mapsto> service_port E s b))\<rparr>"
  by (auto simp: start_service_def Let_def split: option.splits)

lemma start_services_file: "start_services E b m = (Inr u, m') \<Longrightarrow> sm_services m' FileService b = Some (service_port E FileService b)"
  by (auto simp: start_services_def mgr_bind_Inr dest!: start_service_Inr)

lemma space_connect_file:
  assumes "space_connect E i b m = (Inr u, m')"
  shows "sm_services m' FileService b = Some (service_port E FileService b)"
proof -
  obtain md where d: "ensure_daemon E m = (Inr (), md)" using assms by (auto simp: space_connect_def mgr_bind_Inr)
  obtain rs mr where r: "running_spaces E md = (rs, mr)" by fastforce
  obtain m1 m2 where "start_services E b (drop_services b m1) = (Inr (), m2)" "sm_services m' = sm_services m2"
    using assms by (auto simp: space_connect_def mgr_bind_Inr Let_def d r)
  then show ?thesis using start_services_file by metis
qed

lemma get_or_start_busy:
  "hm_get (fr_servers reg) b = None \<Longrightarrow> so_bind S (port_for global b) \<noteq> None \<Longrightarrow> \<exists>e. get_or_start S global U b reg = (Inl e, reg)"
  by (auto simp: get_or_start_def file_server_start_def Let_def split: option.splits)

text \<open>
  While a space is connected, its files cannot be received. Connecting starts a file server on the port of
  the space; the registry that serves the receive command wants a server of its own on the same port. Unless it
  had one before, the operating system refuses it, and every attempt to receive a file of the space fails
  without touching the files.
\<close>

theorem receive_blocked_while_connected:
  assumes "uuid_ok (se_uuid (fe_space F))" and "space_connect (fe_space F) i b m = (Inr (), fa_spaces a)"
    and "registry_get b (fa_registry a) = None"
    and "\<And>s v p. sm_services (fa_spaces a) s v = Some p \<Longrightarrow> so_bind (fe_socket F) p \<noteq> None"
  shows "\<exists>e. receive_file_command F (ul_string (se_uuid (fe_space F)) b) (ul_string (se_uuid (fe_space F)) file_id) save_path password a = (Inl (CmdText e), a)"
proof -
  have "so_bind (fe_socket F) (port_for (se_global (fe_space F)) b) \<noteq> None"
    using assms(4) [OF space_connect_file [OF assms(2)]] by (simp add: port_for_service)
  from get_or_start_busy [OF _ this, of "fa_registry a" "se_uuid (fe_space F)"] assms(3) obtain e where
    "get_or_start (fe_socket F) (se_global (fe_space F)) (se_uuid (fe_space F)) b (fa_registry a) = (Inl e, fa_registry a)"
    by (auto simp: registry_get_def)
  then show ?thesis using assms(1) by (simp add: receive_file_command_def)
qed

section \<open>Synchronisation\<close>

lemma get_or_start_servers:
  assumes "hm_ok (fr_servers reg)" and "so_socket S = None" and "\<And>p. so_bind S p = None \<and> so_listen S p = None"
  shows "hm_ok (fr_servers (snd (get_or_start S global U b reg)))"
    and "registry_get c (snd (get_or_start S global U b reg)) \<noteq> None \<longleftrightarrow> c = b \<or> registry_get c reg \<noteq> None"
    and "c \<noteq> b \<Longrightarrow> registry_get c (snd (get_or_start S global U b reg)) = registry_get c reg"
  using assms by (auto simp: get_or_start_def file_server_start_def registry_get_def Let_def hm.get_put hm.ok_put split: option.splits)

lemma sync_space_servers:
  assumes "hm_ok (fr_servers reg)" and "\<And>u. so_socket (S u) = None" and "\<And>u p. so_bind (S u) p = None \<and> so_listen (S u) p = None"
  shows "hm_ok (fr_servers (sync_space S global U s reg))"
    and "registry_get (sc_id s) (sync_space S global U s reg) \<noteq> None \<longleftrightarrow> sc_status s = Connected"
    and "c \<noteq> sc_id s \<Longrightarrow> registry_get c (sync_space S global U s reg) = registry_get c reg"
  using assms get_or_start_servers [OF assms(1), of "S (sc_id s)"]
  by (auto simp: sync_space_def registry_stop_def registry_get_def hm.ok_del hm.get_del)

lemma sync_spaces_servers:
  assumes "\<And>u. so_socket (S u) = None" and "\<And>u p. so_bind (S u) p = None \<and> so_listen (S u) p = None"
  shows "hm_ok (fr_servers reg) \<Longrightarrow> distinct (map sc_id ss) \<Longrightarrow>
    (\<forall>s \<in> set ss. registry_get (sc_id s) (fold (sync_space S global U) ss reg) \<noteq> None \<longleftrightarrow> sc_status s = Connected) \<and>
    (\<forall>c. c \<notin> sc_id ` set ss \<longrightarrow> registry_get c (fold (sync_space S global U) ss reg) = registry_get c reg)"
proof (induction ss arbitrary: reg)
  case (Cons s ss)
  note step = sync_space_servers [OF Cons.prems(1), of S, OF assms, where global = global and U = U and s = s]
  from Cons.IH [OF step(1)] Cons.prems(2) have
    "\<forall>s' \<in> set ss. registry_get (sc_id s') (fold (sync_space S global U) (s # ss) reg) \<noteq> None \<longleftrightarrow> sc_status s' = Connected"
    "\<forall>c. c \<notin> sc_id ` set ss \<longrightarrow> registry_get c (fold (sync_space S global U) (s # ss) reg) = registry_get c (sync_space S global U s reg)"
    by simp_all
  moreover have "sc_id s \<notin> sc_id ` set ss" using Cons.prems(2) by simp
  ultimately show ?case using step(2,3) by auto
qed simp

text \<open>
  When every port is free, one round of synchronisation leaves a file server for each connected space and
  none for each disconnected one. It looks at the listed spaces only: the server of a space that has been
  deleted in the meantime is left as it is.
\<close>

theorem registry_sync_exact:
  assumes "hm_ok (fr_servers reg)" and "\<And>u. so_socket (S u) = None" and "\<And>u p. so_bind (S u) p = None \<and> so_listen (S u) p = None"
    and "space_list E m = (Inr spaces, m')" and "distinct (map sc_id spaces)" and "registry_sync S E reg m = (reg', m'')"
  shows "(\<forall>s \<in> set spaces. registry_get (sc_id s) reg' \<noteq> None \<longleftrightarrow> sc_status s = Connected) \<and>
    (\<forall>c. c \<notin> sc_id ` set spaces \<longrightarrow> registry_get c reg' = registry_get c reg)"
proof -
  have "reg' = fold (sync_space S (se_global E) (se_uuid E)) spaces reg" using assms(4,6) by (simp add: registry_sync_def)
  then show ?thesis using sync_spaces_servers [where S = S, OF assms(2,3,1,5), of "se_global E" "se_uuid E"] by simp
qed

section \<open>A concrete application\<close>

text \<open>A daemon that answers every request with an empty list, and an operating system with one port taken.\<close>

definition app_env_toy :: "(unit, nat, string, nat) space_env" where
  "app_env_toy = space_env_toy\<lparr>se_send := \<lambda>q w. (Inr (IpcOk (Some (JArr []))), w), se_parse_time := digits_val 0\<rparr>"

definition file_env_toy :: "(unit, nat, string, nat, fs) file_env" where
  "file_env_toy =
    \<lparr>fe_space = app_env_toy, fe_send = \<lambda>_. transfer_toy,
     fe_socket = \<lparr>so_socket = None, so_bind = \<lambda>p. if p \<in> {18002, service_port app_env_toy ChatService 1, service_port app_env_toy FileService 1,
         service_port app_env_toy VoiceService 1, service_port app_env_toy ScreenService 1} then Some ''Address already in use'' else None, so_listen = \<lambda>_. None\<rparr>,
     fe_id = 7, fe_prims = primitives_toy, fe_zstd = magic_toy\<rparr>"

definition file_app_toy :: "(unit, nat) space_mgr \<Rightarrow> (unit, nat, fs) file_app" where
  "file_app_toy m = \<lparr>fa_spaces = m, fa_transfers = transfer_mgr_new, fa_registry = registry_new [''files''], fa_fs = source_toy, fa_net = fs_empty\<rparr>"

lemma app_env_toy_fields: "se_uuid app_env_toy = uuid_toy" "se_send app_env_toy q w = (Inr (IpcOk (Some (JArr []))), w)" "se_start app_env_toy s p = None"
  "se_peers app_env_toy v = Inr []" "se_file_rows app_env_toy t = t" "se_rfc3339 app_env_toy = dec" "se_now app_env_toy = 0"
  "se_parse_time app_env_toy = digits_val 0"
  by (simp_all add: app_env_toy_def space_env_toy_def)

lemma toy_connects: "\<exists>m'. space_connect app_env_toy ''id'' 1 mgr_toy1 = (Inr (), m') \<and> (\<forall>s. sm_services m' s 1 = Some (service_port app_env_toy s 1)) \<and> (\<forall>s v. v \<noteq> 1 \<longrightarrow> sm_services m' s v = sm_services mgr_toy1 s v)"
proof -
  obtain m' where c: "space_connect app_env_toy ''id'' 1 mgr_toy1 = (Inr (), m')" "\<forall>s. sm_services m' s 1 = Some (service_port app_env_toy s 1)"
  proof -
    have ipc: "ipc app_env_toy q m = (Inr (IpcOk (Some (JArr []))), m)" for q m by (simp add: ipc_def app_env_toy_fields)
    have f: "find_space 1 mgr_toy1 = (Inr space_toy, mgr_toy1)" by (simp add: find_space_def mgr_toy1_facts)
    have cfg: "get_space_config sid (sm_db mgr_toy1) = (Inr None, sm_db mgr_toy1)" for sid
      by (simp add: get_space_config_def query_row_no_fault mgr_toy1_facts) (simp add: mgr_toy1_def mgr_toy_db)
    have sv: "sm_services m s b = Some (service_port app_env_toy s b)" if "start_services app_env_toy b m0 = (Inr (), m)" for m m0 s b
      using that by (cases s) (auto simp: start_services_def mgr_bind_Inr dest!: start_service_Inr)
    have st: "\<exists>m1. start_services app_env_toy 1 m0 = (Inr (), m1)" for m0
      by (simp add: start_services_def start_service_def app_env_toy_fields mgr_bind_def Let_def)
    obtain m1 where m1: "start_services app_env_toy 1 (drop_services 1 mgr_toy1) = (Inr (), m1)" using st by blast
    have self: "mgr_toy1\<lparr>sm_db := sm_db mgr_toy1\<rparr> = mgr_toy1" by simp
    have "space_connect app_env_toy ''id'' 1 mgr_toy1 = (Inr (), m1\<lparr>sm_tokens := insert 1 (sm_tokens m1), sm_handles := insert 1 (sm_handles m1)\<rparr>)"
      by (simp add: space_connect_def ensure_daemon_def ipc running_spaces_def as_array_def   mgr_bind_def f on_db_def cfg
          get_effective_config_def self effective_of_def ipc_data_def m1 Let_def)
    then show thesis using that sv [OF m1] by auto
  qed
  moreover have "v \<noteq> 1 \<Longrightarrow> sm_services m' s v = sm_services mgr_toy1 s v" for s v
    using space_connect_local [of v 1 app_env_toy "''id''" mgr_toy1] c(1) by (auto simp: local_part_def fun_eq_iff)
  ultimately show ?thesis by blast
qed

theorem receive_blocked_while_connected_witness:
  "\<exists>m' e. space_connect app_env_toy ''id'' 1 mgr_toy1 = (Inr (), m') \<and>
     receive_file_command file_env_toy (ul_string uuid_toy 1) (ul_string uuid_toy 7) [''out''] None (file_app_toy m') = (Inl (CmdText e), file_app_toy m')"
proof -
  obtain m' where c: "space_connect app_env_toy ''id'' 1 mgr_toy1 = (Inr (), m')" "\<forall>s. sm_services m' s 1 = Some (service_port app_env_toy s 1)"
      "\<forall>s v. v \<noteq> 1 \<longrightarrow> sm_services m' s v = sm_services mgr_toy1 s v" using toy_connects by blast
  have e: "fe_space file_env_toy = app_env_toy" "fa_spaces (file_app_toy m') = m'" by (simp_all add: file_env_toy_def file_app_toy_def)
  have busy: "so_bind (fe_socket file_env_toy) p \<noteq> None" if "sm_services m' s v = Some p" for s v p
  proof (cases "v = 1")
    case True
    then have "p = service_port app_env_toy s 1" using that c(2) by simp
    then show ?thesis by (cases s) (simp_all add: file_env_toy_def)
  next
    case False
    then have "sm_services mgr_toy1 s v = Some p" using that c(3) by simp
    then have "p = 18002" using False by (auto simp: mgr_toy1_def split: if_splits)
    then show ?thesis by (simp add: file_env_toy_def)
  qed
  have "registry_get 1 (fa_registry (file_app_toy m')) = None" by (simp add: registry_get_def file_app_toy_def registry_new_def hm_get_def)
  from receive_blocked_while_connected [of file_env_toy "''id''" 1 mgr_toy1 "file_app_toy m'" 7 "[''out'']" None, unfolded e, OF _ c(1) this busy] c(1)
  show ?thesis using uuid_toy_ok by (auto simp: app_env_toy_fields)
qed

theorem registry_sync_exact_witness:
  "registry_get 1 (fst (registry_sync (\<lambda>_. \<lparr>so_socket = None, so_bind = \<lambda>_. None, so_listen = \<lambda>_. None\<rparr>) app_env_toy
     (registry_new [''files'']\<lparr>fr_servers := [(5, file_server_new 5 [''x''])]\<rparr>) mgr_toy)) = None"
proof -
  let ?S = "\<lambda>_. \<lparr>so_socket = None, so_bind = \<lambda>_. None, so_listen = \<lambda>_. None\<rparr> :: socket_os"
  let ?reg = "registry_new [''files'']\<lparr>fr_servers := [(5, file_server_new 5 [''x''])]\<rparr>"
  obtain reg' m'' where s: "registry_sync ?S app_env_toy ?reg mgr_toy = (reg', m'')" by fastforce
  have r: "se_rows app_env_toy t = t" for t by (simp add: app_env_toy_def space_env_toy_def)
  have "\<exists>m'. space_list app_env_toy mgr_toy = (Inr [], m')"
    by (simp add: space_list_def mgr_bind_def on_db_def list_spaces_def query_rows_no_fault mgr_toy_db r ipc_def running_spaces_def
        app_env_toy_fields split: prod.splits)
  then obtain m' where l: "space_list app_env_toy mgr_toy = (Inr [], m')" by blast
  have "hm_ok (fr_servers ?reg)" by (simp add: registry_new_def hm_ok_def)
  from registry_sync_exact [OF this _ _ l _ s] show ?thesis using s by (simp add: registry_get_def registry_new_def hm_get_def)
qed

theorem sent_file_listed_witness:
  "\<exists>info a' before after a1 a2.
     send_file_command file_env_toy (ul_string uuid_toy 1) [''home'', ''a.txt''] None (file_app_toy (mgr_toy\<lparr>sm_db := db_empty False []\<rparr>)) = (Inr info, a') \<and>
     list_files_command file_env_toy (ul_string uuid_toy 1) None (file_app_toy (mgr_toy\<lparr>sm_db := db_empty False []\<rparr>)) = (Inr before, a1) \<and>
     list_files_command file_env_toy (ul_string uuid_toy 1) None a' = (Inr after, a2) \<and> mset after = add_mset info (mset before)"
proof -
  let ?a = "file_app_toy (mgr_toy\<lparr>sm_db := db_empty False []\<rparr>)"
  have e: "fe_space file_env_toy = app_env_toy" by (simp add: file_env_toy_def)
  have p: "get_peers_for_file_transfer app_env_toy 1 m = (Inr [], m)" for m
    by (simp add: get_peers_for_file_transfer_def get_peers_def ipc_data_def ipc_def mgr_bind_def app_env_toy_fields map_filter_def)
  have "\<exists>info a'. send_file_command file_env_toy (ul_string uuid_toy 1) [''home'', ''a.txt''] None ?a = (Inr info, a')"
    using uuid_parse_string [OF uuid_toy_ok, of 1]
    by (simp add: send_file_command_def e p app_env_toy_fields Let_def file_app_toy_def source_toy_def save_file_row_def on_db_def insert_file_def
        insert_row_def stmt_def db_empty_def sql_insert_def fk_ok_def)
  then obtain info a' where s: "send_file_command file_env_toy (ul_string uuid_toy 1) [''home'', ''a.txt''] None ?a = (Inr info, a')" by blast
  have "db_faults (sm_db (fa_spaces ?a)) = []" by (simp add: file_app_toy_def db_empty_def)
  from sent_file_listed [of file_env_toy, unfolded e, of ?a 1 "[''home'', ''a.txt'']" None info a'] this s show ?thesis
    using uuid_toy_ok by (auto simp: app_env_toy_fields digits_val_dec)
qed

end
