(* ===== verification/Web_Auth.thy ===== *)
theory Web_Auth
  imports Crypto_Box Http_Wire
begin

text \<open>
  Authentication of the web server, \<open>src-tauri/src/server/auth.rs\<close> and \<open>auth_layer\<close> in \<open>server/mod.rs\<close>: the
  fingerprint of a browser, the signed cookie, the paths that need none, and the middleware that puts them
  together. Base64 and the decoding of hexadecimal text are parameters; a header map gives the first value of
  a name in lower case.
\<close>

section \<open>Secrets and fingerprints\<close>

record auth_lib =
  au_b64 :: "bytes \<Rightarrow> string"
  au_unb64 :: "string \<Rightarrow> bytes option"
  au_unhex :: "string \<Rightarrow> bytes option"

definition b64_char :: "char \<Rightarrow> bool" where
  "b64_char c \<longleftrightarrow> c \<in> set ''ABCDEFGHIJKLMNOPQRSTUVWXYZabcdefghijklmnopqrstuvwxyz0123456789-_''"

text \<open>URL-safe base64 uses its 64 characters and is read back; so is hexadecimal text.\<close>

definition auth_lib_ok :: "primitives \<Rightarrow> auth_lib \<Rightarrow> bool" where
  "auth_lib_ok P A \<longleftrightarrow>
    (\<forall>b. au_unb64 A (au_b64 A b) = Some b \<and> list_all b64_char (au_b64 A b)) \<and> (\<forall>b. au_unhex A (prim_hex P b) = Some b)"

type_synonym headers = "string \<Rightarrow> bytes option"

text \<open>\<open>HeaderValue::to_str\<close> accepts visible ASCII, spaces and tabs.\<close>

definition to_str :: "bytes \<Rightarrow> string option" where
  "to_str b = (if list_all (\<lambda>x. x = 9 \<or> 32 \<le> unat x \<and> unat x \<le> 126) b then Some (of_bytes b) else None)"

definition header_str :: "headers \<Rightarrow> string \<Rightarrow> string option" where
  "header_str h name = Option.bind (h name) to_str"

definition generate_auth_secret :: "primitives \<Rightarrow> bytes \<Rightarrow> string" where
  "generate_auth_secret P random = prim_hex P random"

definition init_auth_secret ::
  "primitives \<Rightarrow> ((string, string) hmap \<Rightarrow> (string \<times> string) list) \<Rightarrow> bytes \<Rightarrow> app_config \<Rightarrow> fs \<Rightarrow> string \<times> app_config \<times> fs" where
  "init_auth_secret P ord random config fs =
    (let existing = ac_get_str config ''SERVER_AUTH_SECRET'' [] in
     if existing \<noteq> [] then (existing, config, fs)
     else (let new_secret = generate_auth_secret P random in
           case ac_set ord ''SERVER_AUTH_SECRET'' new_secret config fs of (_, config, fs) \<Rightarrow> (new_secret, config, fs)))"

definition or_empty :: "string option \<Rightarrow> string" where
  "or_empty s = (case s of Some t \<Rightarrow> t | None \<Rightarrow> [])"

definition extract_fingerprint :: "primitives \<Rightarrow> headers \<Rightarrow> string" where
  "extract_fingerprint P h =
    prim_hex P (prim_sha256 P (as_bytes (or_empty (header_str h ''host'') @ ''|'' @ or_empty (header_str h ''user-agent'') @ ''|'' @
      or_empty (header_str h ''referer''))))"

section \<open>Tokens\<close>

definition verify_token :: "primitives \<Rightarrow> auth_lib \<Rightarrow> string \<Rightarrow> string \<Rightarrow> string \<Rightarrow> bool" where
  "verify_token P A token fingerprint secret =
    (case au_unb64 A token of
       None \<Rightarrow> False
     | Some raw \<Rightarrow>
        if length raw < 12 then False
        else
          (let sig_bytes = drop 12 raw;
               expected_hex = hmac_sha256 P secret (as_bytes fingerprint);
               expected = (case au_unhex A expected_hex of Some b \<Rightarrow> b | None \<Rightarrow> [])
           in sig_bytes = expected))"

definition generate_cookie_value :: "primitives \<Rightarrow> auth_lib \<Rightarrow> bytes \<Rightarrow> string \<Rightarrow> string \<Rightarrow> string" where
  "generate_cookie_value P A nonce fingerprint secret =
    (let sig_hex = hmac_sha256 P secret (as_bytes fingerprint);
         sig_bytes = (case au_unhex A sig_hex of Some b \<Rightarrow> b | None \<Rightarrow> [])
     in au_b64 A (nonce @ sig_bytes))"

definition HOST_TOKEN :: string where "HOST_TOKEN = ''__Host-token=''"
definition PLAIN_TOKEN :: string where "PLAIN_TOKEN = ''hometier-token=''"

definition is_token_cookie :: "string \<Rightarrow> bool" where
  "is_token_cookie s \<longleftrightarrow> starts_with (trim s) HOST_TOKEN \<or> starts_with (trim s) PLAIN_TOKEN"

definition cookie_token :: "string \<Rightarrow> string" where
  "cookie_token s =
    (let s = trim s in if starts_with s HOST_TOKEN then drop (length HOST_TOKEN) s else drop (length PLAIN_TOKEN) s)"

definition verify_request :: "primitives \<Rightarrow> auth_lib \<Rightarrow> headers \<Rightarrow> string \<Rightarrow> bool" where
  "verify_request P A h secret =
    (case Option.bind (header_str h ''cookie'') (\<lambda>c. map_option cookie_token (List.find is_token_cookie (split_str '';'' c))) of
       Some token \<Rightarrow> verify_token P A token (extract_fingerprint P h) secret
     | None \<Rightarrow> False)"

section \<open>Paths without authentication\<close>

definition trim_end_char :: "char \<Rightarrow> string \<Rightarrow> string" where
  "trim_end_char c s = rev (dropWhile (\<lambda>x. x = c) (rev s))"

definition strip_public_base :: "string \<Rightarrow> string \<Rightarrow> string" where
  "strip_public_base path public_base =
    (if public_base = [] \<or> public_base = ''/'' then path
     else
       (let base = trim_end_char (CHR ''/'') public_base in
        if path = base then ''/''
        else if starts_with path base then
          (let rest = drop (length base) path in
           if rest = [] then ''/'' else if starts_with rest ''/'' then rest else path)
        else path))"

definition STATIC_EXTENSIONS :: "string list" where
  "STATIC_EXTENSIONS =
    [''.html'', ''.css'', ''.js'', ''.ico'', ''.svg'', ''.png'', ''.jpg'', ''.jpeg'', ''.gif'', ''.woff'', ''.woff2'', ''.ttf'', ''.eot'', ''.map'',
     ''.txt'', ''.xml'']"

definition SPECIAL_PREFIXES :: "string list" where
  "SPECIAL_PREFIXES = [''/assets/'', ''/favicon.'', ''/robots.'', ''/manifest.'']"

definition is_static_resource :: "string \<Rightarrow> string \<Rightarrow> bool" where
  "is_static_resource path public_base =
    (let path = strip_public_base path public_base in
     if path = ''/'' \<or> path = [] then True
     else if list_ex (\<lambda>p. starts_with path p) SPECIAL_PREFIXES then True
     else if list_ex (\<lambda>e. ends_with path e) STATIC_EXTENSIONS then True
     else CHR ''.'' \<notin> set path \<and> \<not> starts_with path ''/api/'' \<and> \<not> starts_with path ''/ws/'')"

section \<open>The middleware\<close>

definition set_cookie_header :: "bool \<Rightarrow> string \<Rightarrow> string" where
  "set_cookie_header secure cookie_value =
    (if secure then HOST_TOKEN @ cookie_value @ ''; Path=/; HttpOnly; SameSite=Lax; Secure''
     else PLAIN_TOKEN @ cookie_value @ ''; Path=/; HttpOnly; SameSite=Lax'')"

text \<open>A refused request is answered with 401 and a cookie; any other goes on to the inner layers.\<close>

datatype auth_answer = Forwarded | Unauthorized string

definition auth_layer ::
  "primitives \<Rightarrow> auth_lib \<Rightarrow> (string \<Rightarrow> string) \<Rightarrow> bytes \<Rightarrow> app_config \<Rightarrow> string \<Rightarrow> string \<Rightarrow> headers \<Rightarrow> auth_answer" where
  "auth_layer P A lower nonce config auth_secret path h =
    (let public_base = ac_get_str config ''SERVER_PUBLIC_BASE'' ''/'' in
     if is_static_resource path public_base then Forwarded
     else
       (let fingerprint = extract_fingerprint P h in
        if verify_request P A h auth_secret then Forwarded
        else Unauthorized (set_cookie_header (ac_get_bool lower config ''SERVER_TLS'' False)
               (generate_cookie_value P A nonce fingerprint auth_secret))))"

section \<open>Properties\<close>

lemma verify_generated:
  assumes "auth_lib_ok P A" and "length nonce = 12"
  shows "verify_token P A (generate_cookie_value P A nonce fingerprint secret) fingerprint secret"
  using assms by (simp add: auth_lib_ok_def verify_token_def generate_cookie_value_def hmac_sha256_def Let_def)

text \<open>
  C14: Only a signed cookie opens a protected path. A request for a path that is not static is forwarded exactly
  when its first token cookie decodes to twelve bytes followed by the HMAC of the browser's fingerprint under
  the server's secret; the twelve bytes are not looked at.
\<close>

theorem protected_path_needs_token:
  assumes "auth_lib_ok P A" and "\<not> is_static_resource path (ac_get_str config ''SERVER_PUBLIC_BASE'' ''/'')"
  shows "auth_layer P A lower nonce config secret path h = Forwarded \<longleftrightarrow>
    (\<exists>c s raw. header_str h ''cookie'' = Some c \<and> List.find is_token_cookie (split_str '';'' c) = Some s \<and>
       au_unb64 A (cookie_token s) = Some raw \<and> 12 \<le> length raw \<and>
       drop 12 raw = prim_hmac P (as_bytes secret) (as_bytes (extract_fingerprint P h)))"
  using assms
  by (auto simp: auth_layer_def verify_request_def verify_token_def hmac_sha256_def auth_lib_ok_def Let_def
      split: option.splits if_splits Option.bind_splits)

lemma split_char_found: "c \<notin> set a \<Longrightarrow> split_str [c] (a @ c # b) = a # split_str [c] b"
  by (subst split_str.simps) (simp add: find_str_char find_char_append)

lemma split_char_end: "c \<notin> set a \<Longrightarrow> split_str [c] a = [a]"
  using find_char_None [of c a] by (subst split_str.simps) (simp add: find_str_char del: find_char_None)

lemma split_cookies:
  "list_all (\<lambda>x. CHR '';'' \<notin> set x) (x # xs) \<Longrightarrow> split_str '';'' (join ''; '' (x # xs)) = x # map ((#) (CHR '' '')) xs"
proof (induction xs arbitrary: x)
  case (Cons y ys)
  have "join ''; '' (x # y # ys) = x @ CHR '';'' # CHR '' '' # join ''; '' (y # ys)" by simp
  moreover have "split_str '';'' (x @ CHR '';'' # CHR '' '' # join ''; '' (y # ys)) = x # split_str '';'' (CHR '' '' # join ''; '' (y # ys))"
    using Cons.prems by (simp add: split_char_found)
  moreover have "split_str '';'' (CHR '' '' # join ''; '' (y # ys)) = (CHR '' '' # y) # map ((#) (CHR '' '')) ys"
  proof (cases ys)
    case Nil
    then show ?thesis using Cons.prems by (simp add: split_char_end)
  next
    case c: (Cons z zs)
    have y: "CHR '';'' \<notin> set (CHR '' '' # y)" using Cons.prems by simp
    have "CHR '' '' # join ''; '' (y # ys) = (CHR '' '' # y) @ CHR '';'' # CHR '' '' # join ''; '' ys" by (simp add: c)
    then have s: "split_str '';'' (CHR '' '' # join ''; '' (y # ys)) = (CHR '' '' # y) # split_str '';'' (CHR '' '' # join ''; '' ys)"
      using split_char_found [OF y, of "CHR '' '' # join ''; '' ys"] by simp
    have "join ''; '' (y # ys) = y @ CHR '';'' # CHR '' '' # join ''; '' ys" by (simp add: c)
    then have "y # split_str '';'' (CHR '' '' # join ''; '' ys) = y # map ((#) (CHR '' '')) ys"
      using Cons.IH [of y] Cons.prems split_char_found [of "CHR '';''" y "CHR '' '' # join ''; '' ys"] by simp
    then show ?thesis using s by simp
  qed
  ultimately show ?case by simp
qed (simp add: split_char_end)

lemma trim_space [simp]: "trim (CHR '' '' # s) = trim s"
  by (simp add: trim_def trim_start.simps [of "CHR '' '' # s"] ws_front_space)

lemma is_token_space: "is_token_cookie (CHR '' '' # s) = is_token_cookie s" "cookie_token (CHR '' '' # s) = cookie_token s"
  by (simp_all add: is_token_cookie_def cookie_token_def)

lemma find_token:
  assumes "list_all (\<lambda>x. CHR '';'' \<notin> set x) (xs @ [own] @ ys)" and "list_all (\<lambda>x. \<not> is_token_cookie x) xs" and "is_token_cookie own"
  shows "map_option cookie_token (List.find is_token_cookie (split_str '';'' (join ''; '' (xs @ [own] @ ys)))) = Some (cookie_token own)"
proof (cases xs)
  case Nil
  then show ?thesis using assms split_cookies [of own ys] by simp
next
  case (Cons z zs)
  have "List.find is_token_cookie (map ((#) (CHR '' '')) (zs @ [own] @ ys)) = Some (CHR '' '' # own)"
    using assms(2,3) unfolding Cons by (induction zs) (auto simp: is_token_space)
  then show ?thesis using assms split_cookies [of z "zs @ [own] @ ys"] by (simp add: Cons is_token_space)
qed

lemma b64_visible: "b64_char c \<Longrightarrow> visible c \<and> c \<noteq> CHR '';''"
proof -
  assume "b64_char c"
  moreover have "list_all (\<lambda>c. visible c \<and> c \<noteq> CHR '';'') ''ABCDEFGHIJKLMNOPQRSTUVWXYZabcdefghijklmnopqrstuvwxyz0123456789-_''" by code_simp
  ultimately show ?thesis unfolding b64_char_def list_all_iff by blast
qed

text \<open>What a browser stores of a \<open>Set-Cookie\<close> value: the name and value before the attributes.\<close>

definition cookie_pair :: "string \<Rightarrow> string" where
  "cookie_pair set_cookie = takeWhile (\<lambda>c. c \<noteq> CHR '';'') set_cookie"

lemma own_cookie:
  assumes "list_all b64_char v"
  shows "is_token_cookie (cookie_pair (set_cookie_header secure v))" "cookie_token (cookie_pair (set_cookie_header secure v)) = v"
    "CHR '';'' \<notin> set (cookie_pair (set_cookie_header secure v))"
proof -
  let ?name = "if secure then HOST_TOKEN else PLAIN_TOKEN"
  have semi: "\<forall>c \<in> set (?name @ v). c \<noteq> CHR '';''"
    using assms b64_visible by (auto simp: list_all_iff HOST_TOKEN_def PLAIN_TOKEN_def)
  have "\<exists>rest. set_cookie_header secure v = (?name @ v) @ CHR '';'' # rest" by (simp add: set_cookie_header_def)
  then obtain rest where "set_cookie_header secure v = (?name @ v) @ CHR '';'' # rest" by blast
  then have pair: "cookie_pair (set_cookie_header secure v) = ?name @ v"
    unfolding cookie_pair_def using semi by (simp only:) (subst takeWhile_append2, auto)
  have "list_all visible HOST_TOKEN" "list_all visible PLAIN_TOKEN" by code_simp+
  then have "list_all visible (?name @ v)" using assms b64_visible by (auto simp: list_all_iff)
  then have t: "trim (?name @ v) = ?name @ v" by (rule visible_trim)
  have no: "\<not> starts_with (PLAIN_TOKEN @ v) HOST_TOKEN" by (simp add: PLAIN_TOKEN_def HOST_TOKEN_def)
  have pre: "starts_with (x @ y) x" for x y by (auto simp: starts_with_iff)
  show "is_token_cookie (cookie_pair (set_cookie_header secure v))"
    unfolding pair is_token_cookie_def t using pre by (cases secure) simp_all
  show "cookie_token (cookie_pair (set_cookie_header secure v)) = v"
    unfolding pair cookie_token_def Let_def t using pre no by (cases secure) simp_all
  show "CHR '';'' \<notin> set (cookie_pair (set_cookie_header secure v))" unfolding pair using semi by blast
qed

text \<open>
  The second request of anybody passes. A request that is refused is answered with a cookie that is valid
  for the same browser: sent again with this cookie among others, from the same host name, user agent and
  referrer, the request is forwarded, whatever its path. So the check tells browsers apart but keeps nobody out.
\<close>

theorem second_request_passes:
  assumes "auth_lib_ok P A" and "length nonce = 12"
    and "auth_layer P A lower nonce config secret path h = Unauthorized set_cookie"
    and "h2 ''host'' = h ''host''" and "h2 ''user-agent'' = h ''user-agent''" and "h2 ''referer'' = h ''referer''"
    and "header_str h2 ''cookie'' = Some (join ''; '' (xs @ [cookie_pair set_cookie] @ ys))"
    and "list_all (\<lambda>x. CHR '';'' \<notin> set x) (xs @ ys)" and "list_all (\<lambda>x. \<not> is_token_cookie x) xs"
  shows "auth_layer P A lower nonce2 config secret path2 h2 = Forwarded"
proof -
  let ?v = "generate_cookie_value P A nonce (extract_fingerprint P h) secret"
  have sc: "\<exists>secure. set_cookie = set_cookie_header secure ?v"
    using assms(3) by (auto simp: auth_layer_def Let_def split: if_splits)
  then obtain secure where sc: "set_cookie = set_cookie_header secure ?v" by blast
  have "list_all b64_char ?v" using assms(1) by (simp add: auth_lib_ok_def generate_cookie_value_def Let_def)
  note own = own_cookie [OF this, of secure, folded sc]
  have "extract_fingerprint P h2 = extract_fingerprint P h" using assms(4-6) by (simp add: extract_fingerprint_def header_str_def)
  then have "verify_request P A h2 secret"
    using find_token [OF _ assms(9) own(1), of ys] assms(7,8) own(2,3) verify_generated [OF assms(1,2)]
    by (auto simp: verify_request_def)
  then show ?thesis by (simp add: auth_layer_def Let_def)
qed

text \<open>
  Below \<open>/api/\<close> the check goes by the end of the path. Without a cookie a request for an API path is
  forwarded exactly when the path ends in one of the static extensions, so appending \<open>.js\<close> to a path
  parameter of a route is enough to reach its handler.
\<close>

theorem api_suffix_bypasses:
  assumes "ac_get_str config ''SERVER_PUBLIC_BASE'' ''/'' = ''/''" and "h ''cookie'' = None"
  shows "auth_layer P A lower nonce config secret (''/api/'' @ x) h = Forwarded \<longleftrightarrow> (\<exists>e \<in> set STATIC_EXTENSIONS. ends_with (''/api/'' @ x) e)"
proof -
  have "\<not> verify_request P A h secret" using assms(2) by (simp add: verify_request_def header_str_def)
  moreover have "is_static_resource (''/api/'' @ x) ''/'' \<longleftrightarrow> list_ex (\<lambda>e. ends_with (''/api/'' @ x) e) STATIC_EXTENSIONS"
    by (simp add: is_static_resource_def strip_public_base_def Let_def SPECIAL_PREFIXES_def)
  ultimately show ?thesis using assms(1) by (simp add: auth_layer_def Let_def list_ex_iff)
qed

section \<open>A concrete server\<close>

definition nibble :: "nat \<Rightarrow> char" where "nibble n = char_of (65 + n)"

fun unpairs :: "string \<Rightarrow> bytes option" where
  "unpairs [] = Some []"
| "unpairs (a # b # r) = map_option ((#) (word_of_nat ((of_char a - 65) * 16 + (of_char b - 65)))) (unpairs r)"
| "unpairs _ = None"

definition auth_toy :: auth_lib where
  "auth_toy =
    \<lparr>au_b64 = \<lambda>b. concat (map (\<lambda>x. [nibble (unat x div 16), nibble (unat x mod 16)]) b), au_unb64 = unpairs,
     au_unhex = \<lambda>s. Some (as_bytes s)\<rparr>"

lemma nibble_facts: "n < 16 \<Longrightarrow> of_char (nibble n) = 65 + n \<and> b64_char (nibble n)"
proof -
  assume n: "n < 16"
  have "\<forall>n \<in> set [0..<16]. b64_char (nibble n)" by code_simp
  with n show ?thesis by (simp add: nibble_def of_char_of)
qed

lemma auth_toy_ok: "auth_lib_ok primitives_toy auth_toy"
proof -
  have small: "unat x div 16 < 16" for x :: u8 using unsigned_less [of x, where ?'a = nat] by (simp add: less_mult_imp_div_less)
  have "unpairs (concat (map (\<lambda>x. [nibble (unat x div 16), nibble (unat x mod 16)]) b)) = Some b" for b
    by (induction b) (simp_all add: nibble_facts small)
  moreover have "list_all b64_char (concat (map (\<lambda>x. [nibble (unat x div 16), nibble (unat x mod 16)]) b))" for b :: bytes
    by (induction b) (simp_all add: nibble_facts small)
  ultimately show ?thesis by (simp add: auth_lib_ok_def auth_toy_def primitives_toy_def)
qed

definition server_toy :: app_config where
  "server_toy = ac_new [''server.conf''] None None"

definition anonymous :: headers where
  "anonymous = [''host'' \<mapsto> as_bytes ''h'']"

lemma server_toy_base: "ac_get_str server_toy k d = d"
  by (simp add: server_toy_def ac_new_def ac_get_str_def ac_get_def hm_get_def)

lemma space_list_protected: "\<not> is_static_resource ''/api/cmd/spaces'' ''/''"
  by code_simp

theorem protected_path_needs_token_witness:
  "auth_layer primitives_toy auth_toy (map ascii_lower) (replicate 12 0) server_toy ''s'' ''/api/cmd/spaces'' anonymous \<noteq> Forwarded"
  using protected_path_needs_token [OF auth_toy_ok, of "''/api/cmd/spaces''" server_toy "map ascii_lower" "replicate 12 0" "''s''" anonymous]
    space_list_protected by (simp add: server_toy_base anonymous_def header_str_def)

theorem second_request_passes_witness:
  "\<exists>c. auth_layer primitives_toy auth_toy (map ascii_lower) (replicate 12 0) server_toy ''s'' ''/api/cmd/spaces'' anonymous = Unauthorized c \<and>
    auth_layer primitives_toy auth_toy (map ascii_lower) (replicate 12 1) server_toy ''s'' ''/api/cmd/spaces''
      (anonymous(''cookie'' \<mapsto> as_bytes (''lang=en; '' @ cookie_pair c))) = Forwarded"
proof -
  let ?v = "generate_cookie_value primitives_toy auth_toy (replicate 12 0) (extract_fingerprint primitives_toy anonymous) ''s''"
  have v: "list_all b64_char ?v" using auth_toy_ok by (simp add: auth_lib_ok_def generate_cookie_value_def Let_def)
  let ?sc = "set_cookie_header (ac_get_bool (map ascii_lower) server_toy ''SERVER_TLS'' False) ?v"
  have r: "auth_layer primitives_toy auth_toy (map ascii_lower) (replicate 12 0) server_toy ''s'' ''/api/cmd/spaces'' anonymous = Unauthorized ?sc"
    using space_list_protected by (simp add: auth_layer_def Let_def server_toy_base verify_request_def header_str_def anonymous_def)
  have tls: "ac_get_bool (map ascii_lower) server_toy ''SERVER_TLS'' False = False"
    by (simp add: server_toy_def ac_new_def ac_get_bool_def ac_get_def hm_get_def)
  have printable: "b64_char c \<Longrightarrow> 32 \<le> (of_char c :: nat) \<and> (of_char c :: nat) \<le> 126" for c
  proof -
    assume "b64_char c"
    moreover have "list_all (\<lambda>c. 32 \<le> (of_char c :: nat) \<and> (of_char c :: nat) \<le> 126) ''ABCDEFGHIJKLMNOPQRSTUVWXYZabcdefghijklmnopqrstuvwxyz0123456789-_''" by code_simp
    ultimately show ?thesis unfolding b64_char_def list_all_iff by blast
  qed
  have pair: "cookie_pair ?sc = PLAIN_TOKEN @ ?v"
  proof -
    have "\<forall>c \<in> set (PLAIN_TOKEN @ ?v). c \<noteq> CHR '';''" using v b64_visible by (auto simp: list_all_iff PLAIN_TOKEN_def)
    then have "takeWhile (\<lambda>c. c \<noteq> CHR '';'') ((PLAIN_TOKEN @ ?v) @ CHR '';'' # rest) = PLAIN_TOKEN @ ?v" for rest
      by (subst takeWhile_append2) auto
    from this [of "'' Path=/; HttpOnly; SameSite=Lax''"] show ?thesis by (simp add: tls cookie_pair_def set_cookie_header_def)
  qed
  let ?h = "anonymous(''cookie'' \<mapsto> as_bytes (''lang=en; '' @ cookie_pair ?sc))"
  have "list_all (\<lambda>c. 32 \<le> (of_char c :: nat) \<and> (of_char c :: nat) \<le> 126) (''lang=en; '' @ PLAIN_TOKEN @ ?v)"
    using v printable by (auto simp: list_all_iff PLAIN_TOKEN_def)
  then have "list_all (\<lambda>x. x = 9 \<or> 32 \<le> unat x \<and> unat x \<le> 126) (as_bytes (''lang=en; '' @ cookie_pair ?sc))"
    unfolding pair by (auto simp: as_bytes_def list_all_iff)
  then have c: "header_str ?h ''cookie'' = Some (join ''; '' ([''lang=en''] @ [cookie_pair ?sc] @ []))"
    by (simp add: header_str_def to_str_def del: as_bytes_append as_bytes_Cons)
  have "trim ''lang=en'' = ''lang=en''" by code_simp
  then have "\<not> is_token_cookie ''lang=en''" by (simp add: is_token_cookie_def HOST_TOKEN_def PLAIN_TOKEN_def)
  from second_request_passes [OF auth_toy_ok _ r, of ?h, OF _ _ _ _ c, of "replicate 12 1" "''/api/cmd/spaces''"] this r show ?thesis by auto
qed

theorem api_suffix_bypasses_witness:
  "auth_layer primitives_toy auth_toy (map ascii_lower) (replicate 12 0) server_toy ''s'' ''/api/cmd/log/space/x.js'' anonymous = Forwarded"
proof -
  have "list_ex (\<lambda>e. ends_with ''/api/cmd/log/space/x.js'' e) STATIC_EXTENSIONS" by code_simp
  then have "\<exists>e \<in> set STATIC_EXTENSIONS. ends_with (''/api/'' @ ''cmd/log/space/x.js'') e" by (simp add: list_ex_iff)
  with api_suffix_bypasses [OF server_toy_base, of anonymous primitives_toy auth_toy "map ascii_lower" "replicate 12 0" "''s''" "''cmd/log/space/x.js''"]
  show ?thesis by (simp add: anonymous_def)
qed

end
