(* ===== verification/Event_Bus.thy ===== *)
theory Event_Bus
  imports Json_Value
begin

text \<open>
  The event bus of the web server, \<open>src-tauri/src/server/event.rs\<close>, and the web socket connections that read from
  it, \<open>server/ws.rs\<close>. A subscription is an unbounded channel; the bus holds the sending ends. Channels are
  numbered in the order of their creation, and each keeps what waits in it and what its connection has taken
  out, so that delivery can be stated.
\<close>

section \<open>Events and the bus\<close>

datatype event_type =
    SpaceCreated | SpaceDeleted | SpaceUpdated | MemberJoined | MemberLeft | MessageSent | FileShared | ScreenShareStarted
  | ScreenShareStopped | VoiceCallStarted | VoiceCallStopped | PeerConnected | PeerDisconnected | ConfigChanged | SystemLog | CustomEvent string

record server_event =
  ev_type :: event_type
  ev_space_id :: "string option"
  ev_payload :: jvalue
  ev_timestamp :: int

definition server_event_new :: "int \<Rightarrow> event_type \<Rightarrow> string option \<Rightarrow> jvalue \<Rightarrow> server_event" where
  "server_event_new now event_type space_id payload =
    \<lparr>ev_type = event_type, ev_space_id = space_id, ev_payload = payload, ev_timestamp = now\<rparr>"

record channel =
  ch_waiting :: "server_event list"
  ch_open :: bool

record event_bus =
  eb_subscribers :: "nat list"
  eb_recent_events :: "server_event list"
  eb_max_recent :: nat
  eb_channels :: "channel list"

definition event_bus_new :: "nat \<Rightarrow> event_bus" where
  "event_bus_new max_recent = \<lparr>eb_subscribers = [], eb_recent_events = [], eb_max_recent = max_recent, eb_channels = []\<rparr>"

definition subscribe :: "event_bus \<Rightarrow> nat \<times> event_bus" where
  "subscribe b =
    (let i = length (eb_channels b) in
     (i, b\<lparr>eb_channels := eb_channels b @ [\<lparr>ch_waiting = [], ch_open = True\<rparr>], eb_subscribers := eb_subscribers b @ [i]\<rparr>))"

text \<open>\<open>tx.send(event)\<close> succeeds while the receiving end exists.\<close>

definition channel_send :: "server_event \<Rightarrow> channel \<Rightarrow> channel" where
  "channel_send e c = (if ch_open c then c\<lparr>ch_waiting := ch_waiting c @ [e]\<rparr> else c)"

definition push_recent :: "nat \<Rightarrow> server_event \<Rightarrow> server_event list \<Rightarrow> server_event list" where
  "push_recent max_recent e recent =
    (let recent = recent @ [e] in if length recent > max_recent then tl recent else recent)"

definition broadcast :: "server_event \<Rightarrow> event_bus \<Rightarrow> event_bus" where
  "broadcast e b =
    b\<lparr>eb_recent_events := push_recent (eb_max_recent b) e (eb_recent_events b),
      eb_channels := fold (\<lambda>i cs. cs[i := channel_send e (cs ! i)]) (eb_subscribers b) (eb_channels b),
      eb_subscribers := filter (\<lambda>i. ch_open (eb_channels b ! i)) (eb_subscribers b)\<rparr>"

definition get_recent :: "nat option \<Rightarrow> event_bus \<Rightarrow> server_event list" where
  "get_recent limit b = take (case limit of Some n \<Rightarrow> n | None \<Rightarrow> eb_max_recent b) (rev (eb_recent_events b))"

definition get_recent_for_space :: "string \<Rightarrow> nat option \<Rightarrow> event_bus \<Rightarrow> server_event list" where
  "get_recent_for_space space_id limit b =
    take (case limit of Some n \<Rightarrow> n | None \<Rightarrow> eb_max_recent b) (rev (filter (\<lambda>e. ev_space_id e = Some space_id) (eb_recent_events b)))"

section \<open>Web socket connections\<close>

datatype ws_message =
    WsSubscribe string
  | WsUnsubscribe string
  | WsSignal string jvalue "string option"
  | WsHeartbeat
  | WsEvent server_event
  | WsConnected string
  | WsError string

text \<open>A connection: its space, if it has one, its channel and what was sent to the client, of which \<open>pong\<close> is no message.\<close>

datatype ws_text = WsText ws_message | Pong

record ws_conn =
  wc_space_id :: "string option"
  wc_channel :: nat
  wc_sent :: "ws_text list"

definition ws_open :: "string option \<Rightarrow> event_bus \<Rightarrow> ws_conn \<times> event_bus" where
  "ws_open space_id b =
    (case subscribe b of (i, b) \<Rightarrow>
     (\<lparr>wc_space_id = space_id, wc_channel = i, wc_sent = (case space_id of Some sid \<Rightarrow> [WsText (WsConnected sid)] | None \<Rightarrow> [])\<rparr>, b))"

definition wants :: "string option \<Rightarrow> server_event \<Rightarrow> bool" where
  "wants space_id e \<longleftrightarrow> space_id = None \<or> ev_space_id e = space_id"

text \<open>One turn of the sending task: it takes the next event and sends it if it is for this connection.\<close>

definition ws_deliver :: "ws_conn \<Rightarrow> event_bus \<Rightarrow> (ws_conn \<times> event_bus) option" where
  "ws_deliver w b =
    (case ch_waiting (eb_channels b ! wc_channel w) of
       [] \<Rightarrow> None
     | e # es \<Rightarrow>
        Some (if wants (wc_space_id w) e then w\<lparr>wc_sent := wc_sent w @ [WsText (WsEvent e)]\<rparr> else w,
              b\<lparr>eb_channels := (eb_channels b)[wc_channel w := (eb_channels b ! wc_channel w)\<lparr>ch_waiting := es\<rparr>]\<rparr>))"

definition target_value :: "string option \<Rightarrow> jvalue" where
  "target_value t = (case t of Some s \<Rightarrow> JStr s | None \<Rightarrow> JNull)"

text \<open>One message from the client; subscriptions are read and ignored.\<close>

definition ws_receive :: "int \<Rightarrow> ws_message \<Rightarrow> ws_conn \<Rightarrow> event_bus \<Rightarrow> ws_conn \<times> event_bus" where
  "ws_receive now msg w b =
    (case msg of
       WsSignal sig_space payload target \<Rightarrow>
         (w, broadcast (server_event_new now (CustomEvent ''signal'') (Some sig_space)
                (JObj [(''payload'', payload), (''target'', target_value target)])) b)
     | WsHeartbeat \<Rightarrow> (w\<lparr>wc_sent := wc_sent w @ [Pong]\<rparr>, b)
     | _ \<Rightarrow> (w, b))"

text \<open>The end of either task drops the receiving end.\<close>

definition ws_close :: "ws_conn \<Rightarrow> event_bus \<Rightarrow> event_bus" where
  "ws_close w b = b\<lparr>eb_channels := (eb_channels b)[wc_channel w := (eb_channels b ! wc_channel w)\<lparr>ch_open := False, ch_waiting := []\<rparr>]\<rparr>"

section \<open>The bus with its connections\<close>

text \<open>
  The whole server: the bus, the open connections, the events broadcast so far and, for each connection, how many
  there were when it subscribed. The last two are only recorded. Handlers of the server broadcast at any time.
\<close>

record ws_server =
  ws_bus :: event_bus
  ws_conns :: "(ws_conn \<times> nat) list"
  ws_log :: "server_event list"

inductive ws_step :: "ws_server \<Rightarrow> ws_server \<Rightarrow> bool" where
  ws_opening: "ws_open space_id (ws_bus s) = (w, b) \<Longrightarrow>
    ws_step s (s\<lparr>ws_bus := b, ws_conns := ws_conns s @ [(w, length (ws_log s))]\<rparr>)"
| ws_event: "ws_step s (s\<lparr>ws_bus := broadcast e (ws_bus s), ws_log := ws_log s @ [e]\<rparr>)"
| ws_delivery: "k < length (ws_conns s) \<Longrightarrow> ws_conns s ! k = (w, n) \<Longrightarrow> ws_deliver w (ws_bus s) = Some (w', b) \<Longrightarrow>
    ws_step s (s\<lparr>ws_bus := b, ws_conns := (ws_conns s)[k := (w', n)]\<rparr>)"
| ws_receipt: "k < length (ws_conns s) \<Longrightarrow> ws_conns s ! k = (w, n) \<Longrightarrow> ws_receive now msg w (ws_bus s) = (w', b) \<Longrightarrow>
    ws_step s (s\<lparr>ws_bus := b, ws_conns := (ws_conns s)[k := (w', n)],
      ws_log := ws_log s @ (case msg of WsSignal sp pl t \<Rightarrow> [server_event_new now (CustomEvent ''signal'') (Some sp)
        (JObj [(''payload'', pl), (''target'', target_value t)])] | _ \<Rightarrow> [])\<rparr>)"
| ws_closing: "k < length (ws_conns s) \<Longrightarrow> ws_conns s ! k = (w, n) \<Longrightarrow>
    ws_step s (s\<lparr>ws_bus := ws_close w (ws_bus s), ws_conns := take k (ws_conns s) @ drop (Suc k) (ws_conns s)\<rparr>)"

inductive ws_reachable :: "nat \<Rightarrow> ws_server \<Rightarrow> bool" for max_recent where
  ws_start: "ws_reachable max_recent \<lparr>ws_bus = event_bus_new max_recent, ws_conns = [], ws_log = []\<rparr>"
| ws_next: "ws_reachable max_recent s \<Longrightarrow> ws_step s s' \<Longrightarrow> ws_reachable max_recent s'"

text \<open>The events a connection has been sent.\<close>

definition sent_events :: "ws_conn \<Rightarrow> server_event list" where
  "sent_events w = List.map_filter (\<lambda>t. case t of WsText (WsEvent e) \<Rightarrow> Some e | _ \<Rightarrow> None) (wc_sent w)"

section \<open>Delivery\<close>

definition conn_ok :: "event_bus \<Rightarrow> server_event list \<Rightarrow> ws_conn \<times> nat \<Rightarrow> bool" where
  "conn_ok b log c \<longleftrightarrow>
    (case c of (w, n) \<Rightarrow>
     wc_channel w < length (eb_channels b) \<and> ch_open (eb_channels b ! wc_channel w) \<and> wc_channel w \<in> set (eb_subscribers b) \<and> n \<le> length log \<and>
     sent_events w @ filter (wants (wc_space_id w)) (ch_waiting (eb_channels b ! wc_channel w)) = filter (wants (wc_space_id w)) (drop n log))"

definition bus_ok :: "event_bus \<Rightarrow> bool" where
  "bus_ok b \<longleftrightarrow> distinct (eb_subscribers b) \<and> (\<forall>i \<in> set (eb_subscribers b). i < length (eb_channels b))"

definition ws_ok :: "nat \<Rightarrow> ws_server \<Rightarrow> bool" where
  "ws_ok max_recent s \<longleftrightarrow>
    bus_ok (ws_bus s) \<and> eb_max_recent (ws_bus s) = max_recent \<and>
    eb_recent_events (ws_bus s) = drop (length (ws_log s) - max_recent) (ws_log s) \<and>
    distinct (map (wc_channel \<circ> fst) (ws_conns s)) \<and> list_all (conn_ok (ws_bus s) (ws_log s)) (ws_conns s)"

lemma fold_send:
  assumes "distinct is" and "\<forall>i \<in> set is. i < length cs"
  shows "length (fold (\<lambda>i cs. cs[i := f (cs ! i)]) is cs) = length cs \<and>
    (\<forall>j < length cs. fold (\<lambda>i cs. cs[i := f (cs ! i)]) is cs ! j = (if j \<in> set is then f (cs ! j) else cs ! j))"
  using assms
proof (induction "is" arbitrary: cs)
  case (Cons i "is")
  then have "\<forall>j \<in> set is. j < length (cs[i := f (cs ! i)])" by simp
  from Cons.IH [OF _ this] Cons.prems show ?case by (auto simp: nth_list_update)
qed simp

lemma broadcast_facts:
  assumes "bus_ok b"
  shows "bus_ok (broadcast e b)" "length (eb_channels (broadcast e b)) = length (eb_channels b)" "eb_max_recent (broadcast e b) = eb_max_recent b"
    and "i \<in> set (eb_subscribers b) \<Longrightarrow> ch_open (eb_channels b ! i) \<Longrightarrow> i \<in> set (eb_subscribers (broadcast e b)) \<and>
      eb_channels (broadcast e b) ! i = (eb_channels b ! i)\<lparr>ch_waiting := ch_waiting (eb_channels b ! i) @ [e]\<rparr>"
  using assms fold_send [of "eb_subscribers b" "eb_channels b" "channel_send e"]
  by (auto simp: bus_ok_def broadcast_def channel_send_def)

lemma push_recent_log:
  "recent = drop (length log - n) log \<Longrightarrow> push_recent n e recent = drop (length (log @ [e]) - n) (log @ [e])"
proof (cases "length log < n")
  case True
  assume "recent = drop (length log - n) log"
  with True show ?thesis by (simp add: push_recent_def)
next
  case False
  assume "recent = drop (length log - n) log"
  moreover from False have "length (drop (length log - n) log @ [e]) > n" by simp
  moreover from False have "tl (drop (length log - n) log @ [e]) = drop (Suc (length log) - n) (log @ [e])"
    by (cases "n = 0") (auto simp: tl_append2 tl_drop drop_Suc Suc_diff_le)
  ultimately show ?thesis by (simp add: push_recent_def)
qed

lemma broadcast_ok: "ws_ok m s \<Longrightarrow> ws_ok m (s\<lparr>ws_bus := broadcast e (ws_bus s), ws_log := ws_log s @ [e]\<rparr>)"
proof -
  assume s: "ws_ok m s"
  then have b: "bus_ok (ws_bus s)" by (simp add: ws_ok_def)
  have "conn_ok (broadcast e (ws_bus s)) (ws_log s @ [e]) c" if "conn_ok (ws_bus s) (ws_log s) c" for c
    using that broadcast_facts [OF b, where e = e] by (cases c) (auto simp: conn_ok_def)
  then have "list_all (conn_ok (broadcast e (ws_bus s)) (ws_log s @ [e])) (ws_conns s)"
    using s unfolding ws_ok_def list_all_iff by blast
  moreover have "eb_recent_events (broadcast e (ws_bus s)) = drop (length (ws_log s @ [e]) - m) (ws_log s @ [e])"
    using s push_recent_log [of "eb_recent_events (ws_bus s)" "ws_log s" m e] by (simp add: ws_ok_def broadcast_def)
  ultimately show ?thesis
    using s broadcast_facts(1,3) [OF b, where e = e] unfolding ws_ok_def by simp
qed

lemma map_filter_snoc: "List.map_filter f (xs @ [x]) = List.map_filter f xs @ (case f x of Some y \<Rightarrow> [y] | None \<Rightarrow> [])"
  by (simp add: map_filter_def split: option.splits)

lemma conn_ok_other:
  "conn_ok b log (w, n) \<Longrightarrow> j \<noteq> wc_channel w \<Longrightarrow> conn_ok (b\<lparr>eb_channels := (eb_channels b)[j := c]\<rparr>) log (w, n)"
  by (simp add: conn_ok_def)

lemma deliver_ok:
  assumes "conn_ok b log (w, n)" and "ws_deliver w b = Some (w', b')"
  shows "conn_ok b' log (w', n)" "wc_channel w' = wc_channel w" "\<exists>c. b' = b\<lparr>eb_channels := (eb_channels b)[wc_channel w := c]\<rparr>"
  using assms by (auto simp: ws_deliver_def conn_ok_def sent_events_def map_filter_snoc split: list.splits if_splits)

lemma conns_update_ok:
  assumes s: "ws_ok m s" and k: "k < length (ws_conns s)" "ws_conns s ! k = (w, n)"
    and b: "b' = (ws_bus s)\<lparr>eb_channels := (eb_channels (ws_bus s))[wc_channel w := c]\<rparr>"
    and w: "conn_ok b' (ws_log s) (w', n)" "wc_channel w' = wc_channel w"
  shows "ws_ok m (s\<lparr>ws_bus := b', ws_conns := (ws_conns s)[k := (w', n)]\<rparr>)"
proof -
  let ?cs = "ws_conns s" and ?ch = "wc_channel \<circ> fst"
  have d: "distinct (map ?ch ?cs)" and ok: "\<forall>c \<in> set ?cs. conn_ok (ws_bus s) (ws_log s) c" using s by (simp_all add: ws_ok_def list_all_iff)
  have "map ?ch (?cs[k := (w', n)]) = map ?ch ?cs"
    using k w(2) by (simp add: map_update list_update_id) (metis comp_apply fst_conv list_update_id nth_map)
  moreover have "conn_ok b' (ws_log s) (?cs[k := (w', n)] ! j)" if j: "j < length ?cs" for j
  proof (cases "j = k")
    case False
    have "?ch (?cs ! j) \<noteq> ?ch (?cs ! k)" using d False j k(1) by (simp add: distinct_conv_nth)
    then have "wc_channel (fst (?cs ! j)) \<noteq> wc_channel w" using k(2) by simp
    moreover have "conn_ok (ws_bus s) (ws_log s) (?cs ! j)" using ok j by simp
    ultimately show ?thesis using False b conn_ok_other [of "ws_bus s" "ws_log s" "fst (?cs ! j)" "snd (?cs ! j)"] by simp
  qed (use w(1) j in simp)
  then have "\<forall>c \<in> set (?cs[k := (w', n)]). conn_ok b' (ws_log s) c" by (metis in_set_conv_nth length_list_update)
  moreover have "bus_ok b'" "eb_max_recent b' = eb_max_recent (ws_bus s)" "eb_recent_events b' = eb_recent_events (ws_bus s)"
    using s b by (simp_all add: ws_ok_def bus_ok_def)
  ultimately show ?thesis using s by (simp add: ws_ok_def list_all_iff)
qed

lemma sent_irrelevant: "conn_ok b log (w, n) \<Longrightarrow> conn_ok b log (w\<lparr>wc_sent := wc_sent w @ [Pong]\<rparr>, n)"
  by (simp add: conn_ok_def sent_events_def map_filter_snoc)

lemma open_ok:
  assumes "ws_ok m s" and "ws_open space_id (ws_bus s) = (w, b)"
  shows "ws_ok m (s\<lparr>ws_bus := b, ws_conns := ws_conns s @ [(w, length (ws_log s))]\<rparr>)"
proof -
  let ?b = "ws_bus s"
  have b: "b = ?b\<lparr>eb_channels := eb_channels ?b @ [\<lparr>ch_waiting = [], ch_open = True\<rparr>], eb_subscribers := eb_subscribers ?b @ [length (eb_channels ?b)]\<rparr>"
    and w: "wc_channel w = length (eb_channels ?b)" "sent_events w = []"
    using assms(2) by (auto simp: ws_open_def subscribe_def Let_def sent_events_def map_filter_def split: option.splits)
  have old: "conn_ok b (ws_log s) c" if "conn_ok ?b (ws_log s) c" for c
    using that by (cases c) (auto simp: conn_ok_def b nth_append)
  have "\<forall>c \<in> set (ws_conns s). wc_channel (fst c) < length (eb_channels ?b)"
    using assms(1) by (auto simp: ws_ok_def list_all_iff conn_ok_def)
  then have fresh: "length (eb_channels ?b) \<notin> (wc_channel \<circ> fst) ` set (ws_conns s)" by auto
  have new: "conn_ok b (ws_log s) (w, length (ws_log s))" by (simp add: conn_ok_def b w nth_append)
  have "bus_ok b" using assms(1) by (auto simp: ws_ok_def bus_ok_def b)
  moreover have "list_all (conn_ok b (ws_log s)) (ws_conns s @ [(w, length (ws_log s))])"
    using assms(1) old new by (simp add: ws_ok_def list_all_iff)
  moreover have "distinct (map (wc_channel \<circ> fst) (ws_conns s @ [(w, length (ws_log s))]))"
    using assms(1) fresh by (simp add: ws_ok_def w)
  ultimately show ?thesis using assms(1) unfolding ws_ok_def by (simp add: b)
qed

lemma close_ok:
  assumes "ws_ok m s" and "k < length (ws_conns s)" and "ws_conns s ! k = (w, n)"
  shows "ws_ok m (s\<lparr>ws_bus := ws_close w (ws_bus s), ws_conns := take k (ws_conns s) @ drop (Suc k) (ws_conns s)\<rparr>)"
proof -
  let ?cs = "ws_conns s" and ?ch = "wc_channel \<circ> fst"
  have cs: "?cs = take k ?cs @ (w, n) # drop (Suc k) ?cs" using assms(2,3) by (metis id_take_nth_drop)
  have "distinct (map ?ch (take k ?cs @ (w, n) # drop (Suc k) ?cs))" using assms(1) cs by (simp add: ws_ok_def)
  then have d: "distinct (map ?ch (take k ?cs @ drop (Suc k) ?cs))"
    and ne: "wc_channel w \<notin> ?ch ` set (take k ?cs @ drop (Suc k) ?cs)" by auto
  have "conn_ok (ws_close w (ws_bus s)) (ws_log s) c" if c: "c \<in> set (take k ?cs @ drop (Suc k) ?cs)" for c
  proof -
    have "c \<in> set ?cs" using c by (auto dest: in_set_takeD in_set_dropD)
    then have "conn_ok (ws_bus s) (ws_log s) c" using assms(1) by (simp add: ws_ok_def list_all_iff)
    moreover have "wc_channel (fst c) \<noteq> wc_channel w" using ne c by force
    ultimately show ?thesis using conn_ok_other [of "ws_bus s" "ws_log s" "fst c" "snd c"] by (simp add: ws_close_def)
  qed
  then have "list_all (conn_ok (ws_close w (ws_bus s)) (ws_log s)) (take k ?cs @ drop (Suc k) ?cs)" by (simp only: list_all_iff) blast
  moreover have "bus_ok (ws_close w (ws_bus s))" using assms(1) by (simp add: ws_ok_def bus_ok_def ws_close_def)
  ultimately show ?thesis using assms(1) d unfolding ws_ok_def by (simp add: ws_close_def)
qed

lemma receipt_ok:
  assumes "ws_ok m s" and k: "k < length (ws_conns s)" "ws_conns s ! k = (w, n)" and r: "ws_receive now msg w (ws_bus s) = (w', b)"
  shows "ws_ok m (s\<lparr>ws_bus := b, ws_conns := (ws_conns s)[k := (w', n)],
      ws_log := ws_log s @ (case msg of WsSignal sp pl t \<Rightarrow> [server_event_new now (CustomEvent ''signal'') (Some sp)
        (JObj [(''payload'', pl), (''target'', target_value t)])] | _ \<Rightarrow> [])\<rparr>)"
proof -
  have same: "(ws_conns s)[k := (w, n)] = ws_conns s" using k(2) by (metis list_update_id)
  have c: "conn_ok (ws_bus s) (ws_log s) (w, n)" using assms(1) k by (metis list_all_length ws_ok_def)
  have quiet: "ws_ok m (s\<lparr>ws_bus := ws_bus s, ws_conns := (ws_conns s)[k := (w\<lparr>wc_sent := wc_sent w @ [Pong]\<rparr>, n)]\<rparr>)"
  proof -
    have b: "ws_bus s = (ws_bus s)\<lparr>eb_channels := (eb_channels (ws_bus s))[wc_channel w := eb_channels (ws_bus s) ! wc_channel w]\<rparr>" by simp
    show ?thesis by (rule conns_update_ok [OF assms(1) k b sent_irrelevant [OF c]]) simp
  qed
  show ?thesis
  proof (cases msg)
    case (WsSignal sp pl t)
    then show ?thesis using r broadcast_ok [OF assms(1)] same by (auto simp: ws_receive_def)
  next
    case WsHeartbeat
    then show ?thesis using r quiet by (auto simp: ws_receive_def)
  qed (use r same assms(1) in \<open>auto simp: ws_receive_def\<close>)
qed

lemma ws_step_ok: "ws_step s s' \<Longrightarrow> ws_ok m s \<Longrightarrow> ws_ok m s'"
proof (induction rule: ws_step.induct)
  case (ws_delivery k s w n w' b)
  have c: "conn_ok (ws_bus s) (ws_log s) (w, n)" using ws_delivery by (metis list_all_length ws_ok_def)
  from deliver_ok [OF c ws_delivery(3)] conns_update_ok [OF ws_delivery(4,1,2)] show ?case by blast
qed (auto intro: open_ok broadcast_ok receipt_ok close_ok)

lemma ws_reachable_ok: "ws_reachable m s \<Longrightarrow> ws_ok m s"
proof (induction rule: ws_reachable.induct)
  case ws_start
  then show ?case by (simp add: ws_ok_def bus_ok_def event_bus_new_def)
next
  case (ws_next s s')
  then show ?case using ws_step_ok by blast
qed



end
