(* ===== verification/Chat.thy ===== *)
theory Chat
  imports File_Server Hash_Map Crypto_Box Json
begin

text \<open>
  Chat between the members of a space, \<open>src-tauri/src/chat\<close>: messages with their signatures (\<open>message.rs\<close>), the
  server with its queue (\<open>server.rs\<close>) and the client that posts to the peers (\<open>client.rs\<close>). The HTTP client,
  serde and the display of time stamps are parameters.
\<close>

section \<open>Messages\<close>

record 't chat_message =
  cm_id :: uuid
  cm_space_id :: uuid
  cm_sender_id :: uuid
  cm_sender_name :: string
  cm_msg_type :: string
  cm_content :: string
  cm_timestamp :: 't
  cm_signature :: "string option"

definition chat_text :: "uuid \<Rightarrow> 't \<Rightarrow> uuid \<Rightarrow> uuid \<Rightarrow> string \<Rightarrow> string \<Rightarrow> 't chat_message" where
  "chat_text i now space_id sender_id sender_name content =
    \<lparr>cm_id = i, cm_space_id = space_id, cm_sender_id = sender_id, cm_sender_name = sender_name, cm_msg_type = ''text'', cm_content = content,
     cm_timestamp = now, cm_signature = None\<rparr>"

definition chat_image :: "uuid \<Rightarrow> 't \<Rightarrow> uuid \<Rightarrow> uuid \<Rightarrow> string \<Rightarrow> string \<Rightarrow> 't chat_message" where
  "chat_image i now space_id sender_id sender_name base64_content =
    \<lparr>cm_id = i, cm_space_id = space_id, cm_sender_id = sender_id, cm_sender_name = sender_name, cm_msg_type = ''image'',
     cm_content = base64_content, cm_timestamp = now, cm_signature = None\<rparr>"

definition chat_signal :: "uuid \<Rightarrow> 't \<Rightarrow> uuid \<Rightarrow> uuid \<Rightarrow> string \<Rightarrow> string \<Rightarrow> 't chat_message" where
  "chat_signal i now space_id sender_id sender_name payload =
    \<lparr>cm_id = i, cm_space_id = space_id, cm_sender_id = sender_id, cm_sender_name = sender_name, cm_msg_type = ''signal'', cm_content = payload,
     cm_timestamp = now, cm_signature = None\<rparr>"

definition chat_system :: "uuid \<Rightarrow> 't \<Rightarrow> uuid \<Rightarrow> string \<Rightarrow> 't chat_message" where
  "chat_system i now space_id content =
    \<lparr>cm_id = i, cm_space_id = space_id, cm_sender_id = 0, cm_sender_name = ''System'', cm_msg_type = ''system'', cm_content = content,
     cm_timestamp = now, cm_signature = None\<rparr>"

definition signed_data :: "uuid_lib \<Rightarrow> ('t \<Rightarrow> string) \<Rightarrow> 't chat_message \<Rightarrow> string" where
  "signed_data U show_time m = ul_string U (cm_id m) @ ul_string U (cm_sender_id m) @ cm_content m @ show_time (cm_timestamp m)"

definition chat_sign :: "primitives \<Rightarrow> uuid_lib \<Rightarrow> ('t \<Rightarrow> string) \<Rightarrow> string \<Rightarrow> 't chat_message \<Rightarrow> 't chat_message" where
  "chat_sign P U show_time secret m = m\<lparr>cm_signature := Some (hmac_sha256 P secret (as_bytes (signed_data U show_time m)))\<rparr>"

definition chat_verify :: "primitives \<Rightarrow> uuid_lib \<Rightarrow> ('t \<Rightarrow> string) \<Rightarrow> string \<Rightarrow> 't chat_message \<Rightarrow> bool" where
  "chat_verify P U show_time secret m =
    (case cm_signature m of
       Some sig \<Rightarrow> verify_hmac P secret (as_bytes (signed_data U show_time m)) sig
     | None \<Rightarrow> False)"

section \<open>Server\<close>

record 't chat_server =
  cs_port :: u16
  cs_running :: bool
  cs_message_queue :: "'t chat_message list"

definition chat_server_new :: "'t chat_server" where
  "chat_server_new = \<lparr>cs_port = 0, cs_running = False, cs_message_queue = []\<rparr>"

definition chat_server_start :: "socket_os \<Rightarrow> u16 \<Rightarrow> 't chat_server \<Rightarrow> (string + unit) \<times> 't chat_server" where
  "chat_server_start S port cs =
    (let cs = cs\<lparr>cs_port := port, cs_running := True\<rparr> in
     case so_socket S of
       Some e \<Rightarrow> (Inl (utf8_text [229, 136, 155, 229, 187, 186] @ '' socket '' @ utf8_text [229, 164, 177, 232, 180, 165] @ '': '' @ e), cs)
     | None \<Rightarrow>
        (case so_bind S port of
           Some e \<Rightarrow> (Inl (utf8_text [231, 187, 145, 229, 174, 154, 231, 171, 175, 229, 143, 163] @ '' '' @ dec (unat port) @ '' '' @ utf8_text [229, 164, 177, 232, 180, 165] @ '': '' @ e), cs)
         | None \<Rightarrow>
            (case so_listen S port of
               Some e \<Rightarrow> (Inl (utf8_text [231, 155, 145, 229, 144, 172, 231, 171, 175, 229, 143, 163] @ '' '' @ dec (unat port) @ '' '' @ utf8_text [229, 164, 177, 232, 180, 165] @ '': '' @ e), cs)
             | None \<Rightarrow> (Inr (), cs))))"

definition chat_server_stop :: "'t chat_server \<Rightarrow> 't chat_server" where
  "chat_server_stop cs = cs\<lparr>cs_running := False\<rparr>"

definition drain_messages :: "'t chat_server \<Rightarrow> 't chat_message list \<times> 't chat_server" where
  "drain_messages cs = (cs_message_queue cs, cs\<lparr>cs_message_queue := []\<rparr>)"

definition CHAT_BUFFER :: nat where "CHAT_BUFFER = 8192"

definition chat_enqueue :: "'t chat_message json \<Rightarrow> bytes \<Rightarrow> 't chat_server \<Rightarrow> 't chat_server" where
  "chat_enqueue J received cs =
    (let request = from_utf8_lossy received in
     case find_str (CRLF @ CRLF) request of
       Some body_start \<Rightarrow>
         (case js_de J (as_bytes (trim (drop (body_start + 4) request))) of
            Inr msg \<Rightarrow> cs\<lparr>cs_message_queue := cs_message_queue cs @ [msg]\<rparr>
          | Inl _ \<Rightarrow> cs)
     | None \<Rightarrow> cs)"

text \<open>One \<open>read\<close>; whatever it brought, the answer is 200.\<close>

definition chat_connection :: "'t chat_message json \<Rightarrow> bytes list \<Rightarrow> conn_tail \<Rightarrow> 't chat_server \<Rightarrow> served \<times> 't chat_server" where
  "chat_connection J segs e cs =
    (case read_chunk CHAT_BUFFER segs of (received, _) \<Rightarrow>
     if received = [] then ((if e = TailSilent then Waiting else Dropped), cs)
     else (Answered (plain_response ''200 OK'' ''OK''), chat_enqueue J received cs))"

section \<open>Client\<close>

text \<open>\<open>post\<close> is the HTTP client: URL, body, and the network it acts on.\<close>

definition message_url :: "string \<Rightarrow> u16 \<Rightarrow> string" where
  "message_url ip port = ''http://'' @ ip @ '':'' @ dec (unat port) @ ''/message''"

type_synonym 'n post = "string \<Rightarrow> bytes \<Rightarrow> 'n \<Rightarrow> (string + unit) \<times> 'n"

definition server_send_to :: "'t chat_message json \<Rightarrow> 'n post \<Rightarrow> string \<Rightarrow> u16 \<Rightarrow> 't chat_message \<Rightarrow> 'n \<Rightarrow> (string + unit) \<times> 'n" where
  "server_send_to J post target_ip target_port msg net =
    (case js_ser J msg of
       Inl e \<Rightarrow> (Inl e, net)
     | Inr body \<Rightarrow>
        (case post (message_url target_ip target_port) body net of
           (Inl e, net) \<Rightarrow> (Inl (''Send message error: '' @ e), net)
         | (Inr _, net) \<Rightarrow> (Inr (), net)))"

type_synonym chat_peers = "(string, string \<times> u16) hmap"

definition chat_send_to :: "'t chat_message json \<Rightarrow> 'n post \<Rightarrow> chat_peers \<Rightarrow> string \<Rightarrow> 't chat_message \<Rightarrow> 'n \<Rightarrow> (string + unit) \<times> 'n" where
  "chat_send_to J post peers virtual_ip msg net =
    (case hm_get peers virtual_ip of
       None \<Rightarrow> (Inl (''Peer '' @ virtual_ip @ '' not found''), net)
     | Some (ip, port) \<Rightarrow>
        (case js_ser J msg of
           Inl e \<Rightarrow> (Inl e, net)
         | Inr body \<Rightarrow>
            (case post (message_url ip port) body net of
               (Inl e, net) \<Rightarrow> (Inl (''Send error: '' @ e), net)
             | (Inr _, net) \<Rightarrow> (Inr (), net))))"

text \<open>\<open>ord\<close> is the iteration order of the map.\<close>

fun broadcast_loop :: "'t chat_message json \<Rightarrow> 'n post \<Rightarrow> 't chat_message \<Rightarrow> (string \<times> string \<times> u16) list \<Rightarrow> 'n \<Rightarrow> (string \<times> string) list \<times> 'n" where
  "broadcast_loop J post msg [] net = ([], net)"
| "broadcast_loop J post msg ((virtual_ip, ip, port) # peers) net =
    (case js_ser J msg of
       Inl e \<Rightarrow> (case broadcast_loop J post msg peers net of (errs, net) \<Rightarrow> ((virtual_ip, e) # errs, net))
     | Inr body \<Rightarrow>
        (case post (message_url ip port) body net of
           (Inl e, net) \<Rightarrow> (case broadcast_loop J post msg peers net of (errs, net) \<Rightarrow> ((virtual_ip, e) # errs, net))
         | (Inr _, net) \<Rightarrow> broadcast_loop J post msg peers net))"

definition chat_broadcast ::
  "(chat_peers \<Rightarrow> (string \<times> string \<times> u16) list) \<Rightarrow> 't chat_message json \<Rightarrow> 'n post \<Rightarrow> chat_peers \<Rightarrow> 't chat_message \<Rightarrow> 'n \<Rightarrow>
   (string \<times> string) list \<times> 'n" where
  "chat_broadcast ord J post peers msg net = broadcast_loop J post msg (ord peers) net"

section \<open>Signatures\<close>

text \<open>
  A signed message verifies under the same secret, and the signature holds the identifier, the sender, the
  content and the time together with it; but the space, the sender's name and the type of the message are not
  signed: changing them leaves the message valid, so a text can be replayed into another space or turned into
  a system message.
\<close>

theorem signature_scope:
  "chat_verify P U show_time secret (chat_sign P U show_time secret m) \<and>
   (chat_verify P U show_time secret m \<longleftrightarrow>
      cm_signature m = Some (hmac_sha256 P secret (as_bytes (ul_string U (cm_id m) @ ul_string U (cm_sender_id m) @ cm_content m @ show_time (cm_timestamp m))))) \<and>
   chat_verify P U show_time secret (m\<lparr>cm_space_id := space, cm_sender_name := name, cm_msg_type := kind\<rparr>) = chat_verify P U show_time secret m"
  by (auto simp: chat_verify_def chat_sign_def signed_data_def verify_hmac_def Let_def split: option.splits)

section \<open>Receiving\<close>

lemma lossy_ascii: "is_ascii a \<Longrightarrow> from_utf8_lossy (as_bytes a @ b) = a @ from_utf8_lossy b"
proof (induction a)
  case (Cons c a)
  have "lossy_codes (of_char c # bs) = of_char c # lossy_codes bs" for bs
    using Cons.prems by (subst lossy_codes.simps) (simp add: is_ascii_def)
  with Cons show ?case by (simp add: from_utf8_lossy_def is_ascii_def)
qed simp

lemma byte_eq_CRLF: "byte_of_char c = 13 \<longleftrightarrow> c = CR" "byte_of_char c = 10 \<longleftrightarrow> c = NL"
  using byte_of_char_inj [of c CR] byte_of_char_inj [of c NL] by simp_all

lemma find_str_CRLF: "find_str (CRLF @ CRLF) s = find_header_end (as_bytes s)"
proof (induction s)
  case (Cons a s)
  show ?case
  proof (cases "\<exists>b c d r. s = b # c # d # r")
    case True
    then obtain b c d r where s: "s = b # c # d # r" by blast
    have "find_str (CRLF @ CRLF) (a # s) = (if starts_with (a # s) (CRLF @ CRLF) then Some 0 else map_option Suc (find_header_end (as_bytes s)))"
      using Cons by simp
    moreover have "find_header_end (as_bytes (a # s)) = (if byte_of_char a = 13 \<and> byte_of_char b = 10 \<and> byte_of_char c = 13 \<and> byte_of_char d = 10
        then Some 0 else map_option Suc (find_header_end (as_bytes s)))" by (simp add: s)
    moreover have "starts_with (a # s) (CRLF @ CRLF) \<longleftrightarrow> a = CR \<and> b = NL \<and> c = CR \<and> d = NL" by (simp add: s)
    ultimately show ?thesis by (simp only: byte_eq_CRLF)
  next
    case False
    then have "s = [] \<or> (\<exists>b. s = [b]) \<or> (\<exists>b c. s = [b, c])" by (metis neq_Nil_conv)
    with Cons show ?thesis by auto
  qed
qed simp

text \<open>serde refuses a message that is cut off: the closing brace is missing.\<close>

definition truncation_refused :: "'a json \<Rightarrow> bytes \<Rightarrow> bool" where
  "truncation_refused J body \<longleftrightarrow> (\<forall>n < length body. \<exists>e. js_de J (as_bytes (trim (from_utf8_lossy (take n body)))) = Inl e)"

lemma enqueue_head:
  assumes "ls \<noteq> []" and "header_lines_ok ls"
  shows "chat_enqueue J (http_head ls @ b) cs =
    (case js_de J (as_bytes (trim (from_utf8_lossy b))) of Inr msg \<Rightarrow> cs\<lparr>cs_message_queue := cs_message_queue cs @ [msg]\<rparr> | Inl _ \<Rightarrow> cs)"
proof -
  let ?h = "join CRLF ls @ CRLF @ CRLF"
  have a: "is_ascii ?h" using join_ascii [of ls] assms(2) by (simp add: header_lines_ok_def is_ascii_def)
  have t: "from_utf8_lossy (http_head ls @ b) = ?h @ from_utf8_lossy b" unfolding http_head_def by (rule lossy_ascii [OF a])
  have "find_str (CRLF @ CRLF) (?h @ from_utf8_lossy b) = Some (length (join CRLF ls))"
    using find_header_end_head [OF assms(1), of "as_bytes (from_utf8_lossy b)"] assms(2)
    unfolding find_str_CRLF http_head_def as_bytes_append header_lines_ok_def by (simp only: append_assoc)
  then show ?thesis unfolding chat_enqueue_def Let_def t by simp
qed

lemma enqueue_partial_head:
  assumes "ls \<noteq> []" and "header_lines_ok ls" and "n < length (http_head ls)"
  shows "chat_enqueue J (take n (http_head ls)) cs = cs"
proof -
  let ?h = "join CRLF ls @ CRLF @ CRLF"
  have "is_ascii ?h" using join_ascii [of ls] assms(2) by (simp add: header_lines_ok_def is_ascii_def)
  then have a: "is_ascii (take n ?h)" unfolding is_ascii_def list_all_iff using in_set_takeD [of _ n ?h] by blast
  have h: "take n (http_head ls) = as_bytes (take n ?h)" unfolding http_head_def as_bytes_def take_map ..
  then have t: "from_utf8_lossy (take n (http_head ls)) = take n ?h"
    using from_utf8_lossy_valid [OF is_ascii_utf8 [OF a]] by (simp only: h)
  have l: "length (http_head ls) = length (join CRLF ls) + 4" by (simp add: http_head_def)
  have "find_header_end (take n (http_head ls)) = None"
    using find_header_end_take [of n "http_head ls"] find_header_end_head [OF assms(1), of "[]"] assms(2,3) l by (simp add: header_lines_ok_def)
  then have "find_str (CRLF @ CRLF) (take n ?h) = None" unfolding find_str_CRLF h by simp
  then show ?thesis unfolding chat_enqueue_def Let_def t by simp
qed

text \<open>
  A chat message gets through exactly when the whole request arrives in one piece of at most 8192 bytes. The
  server reads once; if the network delivers the request in several segments, or the message is longer, it is
  lost, although the sender is answered 200 either way.
\<close>

theorem chat_message_one_segment:
  assumes "ls \<noteq> []" and "header_lines_ok ls" and "js_de J body = Inr msg" and "is_utf8 (of_bytes body)" and "trim (of_bytes body) = of_bytes body"
    and "truncation_refused J body" and "concat segs = http_head ls @ body" and "segs = seg # rest" and "seg \<noteq> []"
  shows "chat_connection J segs e cs = (Answered (plain_response ''200 OK'' ''OK''),
    (if length seg \<le> CHAT_BUFFER \<and> concat rest = [] then cs\<lparr>cs_message_queue := cs_message_queue cs @ [msg]\<rparr> else cs))"
proof -
  let ?n = "min CHAT_BUFFER (length seg)" and ?all = "http_head ls @ body"
  have l: "length (http_head ls) \<le> length ?all" by simp
  have "take CHAT_BUFFER seg = take ?n (seg @ concat rest)" by (simp add: min_def)
  then have got: "take CHAT_BUFFER seg = take ?n ?all" using assms(7,8) by (simp only: concat.simps)
  have whole: "?n = length ?all \<longleftrightarrow> length seg \<le> CHAT_BUFFER \<and> concat rest = []"
  proof -
    have "length ?all = length seg + length (concat rest)" using assms(7,8) by (metis concat.simps(2) length_append)
    moreover have "min CHAT_BUFFER (length seg) = length seg + k \<longleftrightarrow> length seg \<le> CHAT_BUFFER \<and> k = 0" for k by auto
    ultimately show ?thesis by (simp del: concat_eq_Nil_conv)
  qed
  have le: "?n \<le> length ?all" using assms(7,8) by (metis concat.simps(2) le_add1 length_append min.coboundedI2)
  have ne: "take CHAT_BUFFER seg \<noteq> []" using assms(9) by (simp add: CHAT_BUFFER_def)
  have "chat_enqueue J (take ?n ?all) cs = (if ?n = length ?all then cs\<lparr>cs_message_queue := cs_message_queue cs @ [msg]\<rparr> else cs)"
  proof (cases "?n < length (http_head ls)")
    case True
    then show ?thesis using enqueue_partial_head [OF assms(1,2) True] l by simp
  next
    case False
    then have "length (http_head ls) \<le> ?n" by linarith
    then have t: "take ?n ?all = http_head ls @ take (?n - length (http_head ls)) body" unfolding take_append by (simp only: take_all)
    show ?thesis
    proof (cases "?n = length ?all")
      case True
      then have "take (?n - length (http_head ls)) body = as_bytes (of_bytes body)" by simp
      moreover have "from_utf8_lossy (as_bytes (of_bytes body)) = of_bytes body" by (rule from_utf8_lossy_valid [OF assms(4)])
      ultimately show ?thesis using True assms(3,5) unfolding t enqueue_head [OF assms(1,2)] by simp
    next
      case cut: False
      then have "?n - length (http_head ls) < length body" using le False by simp
      then obtain e where "js_de J (as_bytes (trim (from_utf8_lossy (take (?n - length (http_head ls)) body)))) = Inl e"
        using assms(6) unfolding truncation_refused_def by blast
      then show ?thesis using cut unfolding t enqueue_head [OF assms(1,2)] by simp
    qed
  qed
  then have "chat_enqueue J (take CHAT_BUFFER seg) cs =
      (if length seg \<le> CHAT_BUFFER \<and> concat rest = [] then cs\<lparr>cs_message_queue := cs_message_queue cs @ [msg]\<rparr> else cs)"
    unfolding got whole .
  then show ?thesis using ne assms(9) unfolding chat_connection_def assms(8) read_chunk.simps by simp
qed

section \<open>Sending\<close>

text \<open>
  A broadcast tries every peer once and goes on after a failure: when a peer's outcome does not depend on the
  others, the errors it returns are exactly those of the peers that failed, whatever order the map is
  walked in.
\<close>

theorem broadcast_reports_failures:
  assumes "iter_order ord" and "hm_ok peers" and "js_ser J msg = Inr body" and "\<And>url b net. fst (post url b net) = outcome url"
  shows "set (fst (chat_broadcast ord J post peers msg net)) =
    {(v, e). \<exists>ip port. hm_get peers v = Some (ip, port) \<and> outcome (message_url ip port) = Inl e}"
proof -
  have "set (fst (broadcast_loop J post msg ps net)) = {(v, e). \<exists>ip port. (v, ip, port) \<in> set ps \<and> outcome (message_url ip port) = Inl e}" for ps net
  proof (induction ps arbitrary: net)
    case (Cons q ps)
    obtain v ip port where q: "q = (v, ip, port)" using prod_cases3 by blast
    obtain r n where p: "post (message_url ip port) body net = (r, n)" by fastforce
    then have r: "r = outcome (message_url ip port)" using assms(4) [of "message_url ip port" body net] by simp
    obtain errs n' where l: "broadcast_loop J post msg ps n = (errs, n')" by fastforce
    with Cons.IH [of n] have e: "set errs = {(v, e). \<exists>ip port. (v, ip, port) \<in> set ps \<and> outcome (message_url ip port) = Inl e}" by simp
    show ?case
    proof (cases r)
      case (Inl x)
      then have "fst (broadcast_loop J post msg (q # ps) net) = (v, x) # errs" by (simp add: q assms(3) p l)
      then show ?thesis using e Inl r by (auto simp: q)
    next
      case (Inr x)
      then have "fst (broadcast_loop J post msg (q # ps) net) = errs" by (simp add: q assms(3) p l)
      then show ?thesis using e Inr r by (auto simp: q)
    qed
  qed simp
  then have "set (fst (chat_broadcast ord J post peers msg net)) =
      {(v, e). \<exists>ip port. (v, ip, port) \<in> set (ord peers) \<and> outcome (message_url ip port) = Inl e}" unfolding chat_broadcast_def .
  then show ?thesis unfolding iter_order_set [OF assms(1)] hm_get_in [OF assms(2)] .
qed

section \<open>Concrete messages\<close>

text \<open>A codec whose text is one brace.\<close>

definition chat_toy :: "nat chat_message" where "chat_toy = chat_text 1 0 2 3 ''n'' ''hi''"

definition chat_json_toy :: "nat chat_message json" where
  "chat_json_toy = \<lparr>js_ser = \<lambda>m. Inr (as_bytes ''{}''), js_de = \<lambda>b. if b = as_bytes ''{}'' then Inr chat_toy else Inl ''EOF''\<rparr>"

lemma chat_toy_truncated: "truncation_refused chat_json_toy (as_bytes ''{}'')"
proof -
  have "js_de chat_json_toy (as_bytes (trim (from_utf8_lossy (take 0 (as_bytes ''{}''))))) = Inl ''EOF''"
    "js_de chat_json_toy (as_bytes (trim (from_utf8_lossy (take 1 (as_bytes ''{}''))))) = Inl ''EOF''" by code_simp+
  moreover have "n = 0 \<or> n = 1" if "n < length (as_bytes ''{}'')" for n using that by auto
  ultimately show ?thesis unfolding truncation_refused_def by metis
qed

theorem chat_message_one_segment_witness:
  "chat_connection chat_json_toy [http_head [''POST /message HTTP/1.1''] @ as_bytes ''{}''] TailSilent chat_server_new =
     (Answered (plain_response ''200 OK'' ''OK''), chat_server_new\<lparr>cs_message_queue := [chat_toy]\<rparr>) \<and>
   chat_connection chat_json_toy [http_head [''POST /message HTTP/1.1''], as_bytes ''{}''] TailSilent (chat_server_new :: nat chat_server) =
     (Answered (plain_response ''200 OK'' ''OK''), chat_server_new)"
proof -
  let ?ls = "[''POST /message HTTP/1.1'']" and ?b = "as_bytes ''{}''"
  have h: "header_lines_ok ?ls" by code_simp
  have d: "js_de chat_json_toy ?b = Inr chat_toy" by (simp add: chat_json_toy_def)
  have u: "is_utf8 (of_bytes ?b)" "trim (of_bytes ?b) = of_bytes ?b" by code_simp+
  have l: "length (http_head ?ls) = 26" by (simp add: http_head_def)
  have ne: "http_head ?ls \<noteq> []" using l by auto
  note t = chat_message_one_segment [OF _ h d u chat_toy_truncated]
  have "chat_connection chat_json_toy [http_head ?ls @ ?b] TailSilent chat_server_new =
     (Answered (plain_response ''200 OK'' ''OK''), chat_server_new\<lparr>cs_message_queue := [chat_toy]\<rparr>)"
    using t [of "[http_head ?ls @ ?b]" "http_head ?ls @ ?b" "[]" TailSilent chat_server_new] ne l by (simp add: CHAT_BUFFER_def chat_server_new_def)
  moreover have "chat_connection chat_json_toy [http_head ?ls, ?b] TailSilent chat_server_new = (Answered (plain_response ''200 OK'' ''OK''), chat_server_new)"
    using t [of "[http_head ?ls, ?b]" "http_head ?ls" "[?b]" TailSilent chat_server_new] ne by simp
  ultimately show ?thesis by blast
qed

theorem broadcast_reports_failures_witness:
  "fst (chat_broadcast (\<lambda>m. m) chat_json_toy (\<lambda>url b net. (if url = message_url ''b'' 2 then Inl ''down'' else Inr (), net))
     [(''a'', ''a'', 1), (''b'', ''b'', 2)] chat_toy ()) = [(''b'', ''down'')]"
proof -
  let ?out = "\<lambda>url. if url = message_url ''b'' 2 then Inl ''down'' else Inr ()"
  let ?r = "fst (chat_broadcast (\<lambda>m. m) chat_json_toy (\<lambda>url b net. (?out url, net)) [(''a'', ''a'', 1), (''b'', ''b'', 2)] chat_toy ())"
  have "set ?r = {(v, e). \<exists>ip port. hm_get [(''a'', ''a'', 1), (''b'', ''b'', 2)] v = Some (ip, port) \<and> ?out (message_url ip port) = Inl e}"
    by (rule broadcast_reports_failures [OF iter_order_id(1), where body = "as_bytes ''{}''"]) (simp_all add: hm_ok_def chat_json_toy_def)
  then have "(''b'', ''down'') \<in> set ?r" by (simp add: hm_get_def)
  moreover have "length ?r \<le> 1" by (simp add: chat_broadcast_def chat_json_toy_def message_url_def)
  ultimately show ?thesis by (cases ?r) auto
qed

end
