(* ===== verification/Cookie_Jar.thy ===== *)
theory Cookie_Jar
  imports Url_Rewriter Http_Wire Database Hash_Map
begin

text \<open>
  The process-wide state of the page proxy and its cookies, \<open>src-tauri/src/proxy/hometier_protocol.rs\<close>: the
  \<open>OnceLock\<close> globals as one record, the cookie jar of an upstream with the parsing of \<open>Set-Cookie\<close>, its mirror
  in the table \<open>proxy_cookies\<close>, the content security policy and the recognition of pages. The clock is an
  argument of every operation that reads it. Dates are parsed by the crate \<open>chrono\<close>, whose parsers are the
  fields of a record.
\<close>

section \<open>Globals\<close>

record stored_cookie =
  sc_name :: string
  sc_value :: string
  sc_path :: string
  sc_domain :: "string option"
  sc_expires_at :: "u64 option"
  sc_http_only :: bool
  sc_secure :: bool
  sc_same_site :: "string option"

type_synonym jar = "stored_cookie list"

record proxy_globals =
  pg_port :: "u16 option"
  pg_jars :: "(string, jar) hmap"
  pg_db :: "database option"
  pg_mode :: "string option"
  pg_download_dir :: "string option"
  pg_pending :: "string list"

definition proxy_globals_init :: proxy_globals where
  "proxy_globals_init =
    \<lparr>pg_port = None, pg_jars = [], pg_db = None, pg_mode = None, pg_download_dir = None, pg_pending = []\<rparr>"

text \<open>\<open>OnceLock::set\<close> keeps the first value.\<close>

definition set_proxy_port :: "u16 \<Rightarrow> proxy_globals \<Rightarrow> proxy_globals" where
  "set_proxy_port port g = (if pg_port g = None then g\<lparr>pg_port := Some port\<rparr> else g)"

definition proxy_port :: "proxy_globals \<Rightarrow> u16" where
  "proxy_port g = (case pg_port g of Some p \<Rightarrow> p | None \<Rightarrow> 1420)"

definition eq_ignore_ascii_case :: "string \<Rightarrow> string \<Rightarrow> bool" where
  "eq_ignore_ascii_case a b \<longleftrightarrow> map ascii_lower a = map ascii_lower b"

definition set_device_mode :: "string \<Rightarrow> proxy_globals \<Rightarrow> proxy_globals" where
  "set_device_mode mode g = g\<lparr>pg_mode := Some (if eq_ignore_ascii_case mode ''mobile'' then ''mobile'' else ''desktop'')\<rparr>"

definition device_mode :: "proxy_globals \<Rightarrow> string" where
  "device_mode g = (case pg_mode g of Some m \<Rightarrow> m | None \<Rightarrow> ''desktop'')"

definition set_download_dir :: "string \<Rightarrow> proxy_globals \<Rightarrow> proxy_globals" where
  "set_download_dir dir g = (if pg_download_dir g = None then g\<lparr>pg_download_dir := Some dir\<rparr> else g)"

section \<open>Dates\<close>

record chrono =
  ch_rfc2822 :: "string \<Rightarrow> int option"
  ch_naive :: "string \<Rightarrow> string \<Rightarrow> int option"

text \<open>\<open>timestamp().max(0) as u64\<close>\<close>

definition epoch_of :: "int \<Rightarrow> u64" where
  "epoch_of t = word_of_int (max t 0)"

definition parse_http_date :: "chrono \<Rightarrow> string \<Rightarrow> u64 option" where
  "parse_http_date C s0 =
    (let s = trim s0 in
     case ch_rfc2822 C s of
       Some t \<Rightarrow> Some (epoch_of t)
     | None \<Rightarrow>
        (case ch_naive C ''%A %d-%b-%y %H:%M:%S GMT'' (trim (replace_first '','' [] s)) of
           Some t \<Rightarrow> Some (epoch_of t)
         | None \<Rightarrow> map_option epoch_of (ch_naive C ''%a %b %e %H:%M:%S %Y'' s)))"

text \<open>\<open>parse::<i64>()\<close>\<close>

definition parse_i64 :: "string \<Rightarrow> int option" where
  "parse_i64 s =
    (if starts_with s ''-'' then
       (if tl s = [] then None
        else (case digits_val 0 (tl s) of Some n \<Rightarrow> if n \<le> 2 ^ 63 then Some (- int n) else None | None \<Rightarrow> None))
     else map_option int (parse_uint (2 ^ 63 - 1) s))"

section \<open>Set-Cookie\<close>

text \<open>\<open>trim_start_matches('.')\<close>\<close>

definition trim_start_dots :: "string \<Rightarrow> string" where
  "trim_start_dots s = dropWhile (\<lambda>c. c = CHR ''.'') s"

definition attribute_pair :: "string \<Rightarrow> string \<times> string" where
  "attribute_pair part0 =
    (let part = trim part0 in
     case find_char (CHR ''='') part of
       Some eq \<Rightarrow> (map ascii_lower (trim (take eq part)), trim (drop (eq + 1) part))
     | None \<Rightarrow> (map ascii_lower part, []))"

definition cookie_attribute :: "chrono \<Rightarrow> u64 \<Rightarrow> string \<Rightarrow> stored_cookie \<Rightarrow> stored_cookie" where
  "cookie_attribute C now part c =
    (let (key, val) = attribute_pair part in
     if key = ''path'' then (if val = [] then c else c\<lparr>sc_path := val\<rparr>)
     else if key = ''domain'' then (if val = [] then c else c\<lparr>sc_domain := Some (trim_start_dots val)\<rparr>)
     else if key = ''max-age'' then
       (case parse_i64 val of
          Some secs \<Rightarrow> c\<lparr>sc_expires_at := Some (if secs \<le> 0 then 0 else now + word_of_int secs)\<rparr>
        | None \<Rightarrow> c)
     else if key = ''expires'' then
       (case parse_http_date C val of Some ts \<Rightarrow> c\<lparr>sc_expires_at := Some ts\<rparr> | None \<Rightarrow> c)
     else if key = ''httponly'' then c\<lparr>sc_http_only := True\<rparr>
     else if key = ''secure'' then c\<lparr>sc_secure := True\<rparr>
     else if key = ''samesite'' then
       (let v = map ascii_lower val in
        if v = ''lax'' \<or> v = ''strict'' \<or> v = ''none'' then c\<lparr>sc_same_site := Some v\<rparr> else c)
     else c)"

definition parse_set_cookie :: "chrono \<Rightarrow> u64 \<Rightarrow> string \<Rightarrow> stored_cookie option" where
  "parse_set_cookie C now header =
    (case split_str '';'' header of
       [] \<Rightarrow> None
     | first # attrs \<Rightarrow>
        (case find_char (CHR ''='') first of
           None \<Rightarrow> None
         | Some first_eq \<Rightarrow>
            (let name = trim (take first_eq first) in
             if name = [] then None
             else Some (fold (cookie_attribute C now) attrs
                    \<lparr>sc_name = name, sc_value = trim (drop (first_eq + 1) first), sc_path = ''/'', sc_domain = None,
                     sc_expires_at = None, sc_http_only = False, sc_secure = False, sc_same_site = None\<rparr>))))"

section \<open>The jar of one upstream\<close>

definition identity :: "stored_cookie \<Rightarrow> string \<times> string \<times> string option" where
  "identity c = (sc_name c, sc_path c, sc_domain c)"

definition jar_insert :: "stored_cookie \<Rightarrow> jar \<Rightarrow> jar" where
  "jar_insert cookie j =
    filter (\<lambda>c. sc_name c \<noteq> sc_name cookie \<or> sc_path c \<noteq> sc_path cookie \<or> sc_domain c \<noteq> sc_domain cookie) j @ [cookie]"

definition jar_remove :: "string \<Rightarrow> string \<Rightarrow> jar \<Rightarrow> jar" where
  "jar_remove name path j = filter (\<lambda>c. sc_name c \<noteq> name \<or> sc_path c \<noteq> path) j"

text \<open>The clock is read once while parsing and once more to see whether the cookie is expired.\<close>

definition add_set_cookie :: "chrono \<Rightarrow> u64 \<Rightarrow> u64 \<Rightarrow> string \<Rightarrow> jar \<Rightarrow> stored_cookie option \<times> jar" where
  "add_set_cookie C now0 now header j =
    (case parse_set_cookie C now0 header of
       None \<Rightarrow> (None, j)
     | Some cookie \<Rightarrow>
        (if (case sc_expires_at cookie of Some e \<Rightarrow> e \<le> now | None \<Rightarrow> False)
         then (None, jar_remove (sc_name cookie) (sc_path cookie) j)
         else (Some cookie, jar_insert cookie j)))"

definition live :: "u64 \<Rightarrow> stored_cookie \<Rightarrow> bool" where
  "live now c = (case sc_expires_at c of Some e \<Rightarrow> now < e | None \<Rightarrow> True)"

definition domain_matches :: "string \<Rightarrow> stored_cookie \<Rightarrow> bool" where
  "domain_matches host c =
    (case sc_domain c of
       Some dom0 \<Rightarrow> (let dom = trim_start_dots dom0 in host = dom \<or> ends_with host (''.'' @ dom))
     | None \<Rightarrow> True)"

definition path_matches :: "string \<Rightarrow> stored_cookie \<Rightarrow> bool" where
  "path_matches request_path c =
    (let cp = trim_end_slash (sc_path c) in
     if cp = [] \<or> cp = ''/'' then True
     else if starts_with request_path cp
     then (let rest = drop (length cp) request_path in rest = [] \<or> starts_with rest ''/'')
     else False)"

definition jar_pair :: "stored_cookie \<Rightarrow> string" where
  "jar_pair c = sc_name c @ ''='' @ sc_value c"

definition build_cookie_header :: "u64 \<Rightarrow> string \<Rightarrow> string \<Rightarrow> jar \<Rightarrow> string option \<times> jar" where
  "build_cookie_header now host request_path j0 =
    (let j = filter (live now) j0;
         matched = map jar_pair (filter (\<lambda>c. domain_matches host c \<and> path_matches request_path c) j)
     in (if j = [] then None else if matched = [] then None else Some (join ''; '' matched), j))"

text \<open>\<open>entry(key).or_insert_with(PerHostCookieJar::new)\<close>, then the operation on the jar.\<close>

definition jar_of :: "(string, jar) hmap \<Rightarrow> string \<Rightarrow> jar" where
  "jar_of jars key = (case hm_get jars key of Some j \<Rightarrow> j | None \<Rightarrow> [])"

definition with_jar :: "string \<Rightarrow> (jar \<Rightarrow> 'a \<times> jar) \<Rightarrow> proxy_globals \<Rightarrow> 'a \<times> proxy_globals" where
  "with_jar key f g =
    (let (x, j) = f (jar_of (pg_jars g) key)
     in (x, g\<lparr>pg_jars := hm_insert key j (pg_jars g)\<rparr>))"

section \<open>The mirror in the database\<close>

text \<open>\<open>as i64\<close> and \<open>as u64\<close> reinterpret the bits.\<close>

definition row_of_cookie :: "string \<Rightarrow> stored_cookie \<Rightarrow> proxy_cookie_row" where
  "row_of_cookie host_key c =
    \<lparr>ck_host_key = host_key, ck_name = sc_name c, ck_value = sc_value c, ck_path = sc_path c, ck_domain = sc_domain c,
     ck_expires_at = map_option sint (sc_expires_at c), ck_http_only = sc_http_only c, ck_secure = sc_secure c,
     ck_same_site = sc_same_site c\<rparr>"

definition cookie_of_row :: "proxy_cookie_row \<Rightarrow> stored_cookie" where
  "cookie_of_row r =
    \<lparr>sc_name = ck_name r, sc_value = ck_value r, sc_path = ck_path r, sc_domain = ck_domain r,
     sc_expires_at = map_option word_of_int (ck_expires_at r), sc_http_only = ck_http_only r, sc_secure = ck_secure r,
     sc_same_site = ck_same_site r\<rparr>"

definition persist_cookie_to_db :: "string \<Rightarrow> stored_cookie \<Rightarrow> u64 \<Rightarrow> proxy_globals \<Rightarrow> proxy_globals" where
  "persist_cookie_to_db host_key cookie now_epoch g =
    (case pg_db g of
       None \<Rightarrow> g
     | Some db \<Rightarrow>
        (if (case sc_expires_at cookie of Some e \<Rightarrow> e \<le> now_epoch | None \<Rightarrow> False)
         then g\<lparr>pg_db := Some (snd (delete_proxy_cookie host_key (sc_name cookie) (sc_path cookie) db))\<rparr>
         else g\<lparr>pg_db := Some (snd (upsert_proxy_cookie (row_of_cookie host_key cookie) db))\<rparr>))"

definition seed_jar :: "proxy_cookie_row \<Rightarrow> (string, jar) hmap \<Rightarrow> (string, jar) hmap" where
  "seed_jar row jars =
    hm_insert (ck_host_key row) (jar_of jars (ck_host_key row) @ [cookie_of_row row]) jars"

definition seed_jars_from_db :: "(proxy_cookie_row list \<Rightarrow> proxy_cookie_row list) \<Rightarrow> proxy_globals \<Rightarrow> proxy_globals" where
  "seed_jars_from_db ord g =
    (case pg_db g of
       None \<Rightarrow> g
     | Some db \<Rightarrow>
        (case list_proxy_cookies ord db of
           (Inl e, db') \<Rightarrow> g\<lparr>pg_db := Some db'\<rparr>
         | (Inr rows, db') \<Rightarrow> g\<lparr>pg_db := Some db', pg_jars := fold seed_jar rows (pg_jars g)\<rparr>))"

definition set_cookie_db :: "(proxy_cookie_row list \<Rightarrow> proxy_cookie_row list) \<Rightarrow> database \<Rightarrow> proxy_globals \<Rightarrow> proxy_globals" where
  "set_cookie_db ord db g = (if pg_db g = None then seed_jars_from_db ord (g\<lparr>pg_db := Some db\<rparr>) else g)"

text \<open>One \<open>Set-Cookie\<close> header of an answer (\<open>plugins/http_forward.rs\<close>); the clock is read a third time for the database.\<close>

definition capture_cookie :: "chrono \<Rightarrow> u64 \<Rightarrow> u64 \<Rightarrow> u64 \<Rightarrow> string \<Rightarrow> string \<Rightarrow> proxy_globals \<Rightarrow> proxy_globals" where
  "capture_cookie C now0 now now_epoch origin val g =
    (case with_jar origin (add_set_cookie C now0 now val) g of
       (Some cookie, g1) \<Rightarrow> persist_cookie_to_db origin cookie now_epoch g1
     | (None, g1) \<Rightarrow> g1)"

section \<open>Jars\<close>

definition jar_ok :: "jar \<Rightarrow> bool" where
  "jar_ok j \<longleftrightarrow> distinct (map identity j)"

lemma jar_insert_replace: "jar_insert c j = sql_insert_or_replace identity c j"
  by (auto simp: jar_insert_def sql_insert_or_replace_def identity_def intro!: filter_cong)

lemma jar_ok_insert: "jar_ok j \<Longrightarrow> jar_ok (jar_insert c j)"
  by (simp add: jar_ok_def jar_insert_replace distinct_sql_insert_or_replace)

lemma jar_ok_filter: "jar_ok j \<Longrightarrow> jar_ok (filter P j)"
  by (simp add: jar_ok_def distinct_map_filter)

lemma jar_ok_remove: "jar_ok j \<Longrightarrow> jar_ok (jar_remove n p j)"
  by (simp add: jar_remove_def jar_ok_filter)

lemma jar_ok_add: "jar_ok j \<Longrightarrow> jar_ok (snd (add_set_cookie C now0 now h j))"
  by (auto simp: add_set_cookie_def jar_ok_insert jar_ok_remove split: option.split)

lemma jar_ok_build: "jar_ok j \<Longrightarrow> jar_ok (snd (build_cookie_header now host p j))"
  by (simp add: build_cookie_header_def Let_def jar_ok_filter)

lemma jar_of_Nil [simp]: "jar_of [] k = []"
  by (simp add: jar_of_def hm.get_nil)

lemma jar_of_insert: "hm_ok m \<Longrightarrow> jar_of (hm_insert k j m) k' = (if k' = k then j else jar_of m k')"
  by (simp add: jar_of_def hm.get_put)

lemma with_jar_jars:
  "hm_ok (pg_jars g) \<Longrightarrow>
   jar_of (pg_jars (snd (with_jar k f g))) k' = (if k' = k then snd (f (jar_of (pg_jars g) k)) else jar_of (pg_jars g) k')"
  by (simp add: with_jar_def Let_def jar_of_insert split: prod.split)

lemma with_jar_simps [simp]:
  "fst (with_jar k f g) = fst (f (jar_of (pg_jars g) k))"
  "pg_db (snd (with_jar k f g)) = pg_db g"
  "hm_ok (pg_jars g) \<Longrightarrow> hm_ok (pg_jars (snd (with_jar k f g)))"
  by (simp_all add: with_jar_def Let_def hm.ok_put split: prod.split)

lemma persist_jars [simp]: "pg_jars (persist_cookie_to_db h c now g) = pg_jars g"
  by (simp add: persist_cookie_to_db_def split: option.split)

lemma seed_jars:
  "hm_ok jars \<Longrightarrow> hm_ok (fold seed_jar rows jars) \<and>
   jar_of (fold seed_jar rows jars) h = jar_of jars h @ map cookie_of_row (filter (\<lambda>r. ck_host_key r = h) rows)"
proof (induction rows arbitrary: jars)
  case (Cons r rows)
  then have "hm_ok (seed_jar r jars)" by (simp add: seed_jar_def hm.ok_put)
  from Cons.IH [OF this] Cons.prems show ?case by (simp add: seed_jar_def jar_of_insert)
qed simp

lemma cookie_of_row_of_cookie [simp]: "cookie_of_row (row_of_cookie h c) = c"
  by (simp add: cookie_of_row_def row_of_cookie_def option.map_comp comp_def option.map_ident)

lemma set_cookie_db_fresh:
  assumes "db_faults db = []" and "pg_db g = None" and "pg_jars g = []"
  shows "jar_of (pg_jars (set_cookie_db ord db g)) h = map cookie_of_row (filter (\<lambda>r. ck_host_key r = h) (ord (db_cookies db)))"
    and "hm_ok (pg_jars (set_cookie_db ord db g))"
  using assms seed_jars [of "[]" "ord (db_cookies db)" h]
  by (simp_all add: set_cookie_db_def seed_jars_from_db_def list_proxy_cookies_def query_rows_no_fault hm.ok_nil)

section \<open>What a jar sends\<close>

definition rfc_path_match :: "string \<Rightarrow> string \<Rightarrow> bool" where
  "rfc_path_match cookie_path request_path \<longleftrightarrow>
    cookie_path = request_path
    \<or> starts_with request_path cookie_path \<and> (ends_with cookie_path ''/'' \<or> starts_with (drop (length cookie_path) request_path) ''/'')"

lemma trim_end_slash_not_slash: "trim_end_slash s \<noteq> [] \<Longrightarrow> \<not> ends_with (trim_end_slash s) ''/''"
  using hd_dropWhile [of "\<lambda>c. c = CHR ''/''" "rev s"] unfolding trim_end_slash_def ends_with_def
  by (cases "dropWhile (\<lambda>c. c = CHR ''/'') (rev s)") auto

lemma trim_end_slash_slash [simp]: "trim_end_slash s \<noteq> ''/''"
proof
  assume a: "trim_end_slash s = ''/''"
  with trim_end_slash_not_slash [of s] show False by (simp add: ends_with_def)
qed

lemma path_matches_rfc:
  assumes "starts_with request_path ''/''"
  shows "path_matches request_path c \<longleftrightarrow>
    rfc_path_match (if trim_end_slash (sc_path c) = [] then ''/'' else trim_end_slash (sc_path c)) request_path"
proof (cases "trim_end_slash (sc_path c) = []")
  case True
  with assms show ?thesis by (simp add: path_matches_def rfc_path_match_def ends_with_def)
next
  case False
  define cp where "cp = trim_end_slash (sc_path c)"
  have "\<not> ends_with cp ''/''" "cp \<noteq> []" "cp \<noteq> ''/''" using False trim_end_slash_not_slash by (simp_all add: cp_def)
  moreover have "starts_with request_path cp \<and> drop (length cp) request_path = [] \<longleftrightarrow> cp = request_path"
    by (auto simp: starts_with_iff)
  ultimately show ?thesis
    unfolding path_matches_def rfc_path_match_def Let_def cp_def [symmetric] by auto
qed

lemma build_cookie_header_fst:
  "fst (build_cookie_header now host p j) =
    (let m = map jar_pair (filter (\<lambda>c. domain_matches host c \<and> path_matches p c) (filter (live now) j))
     in if m = [] then None else Some (join ''; '' m))"
  by (auto simp: build_cookie_header_def Let_def filter_empty_conv)

lemma build_cookie_header_sends:
  assumes "c \<in> set j" and "live now c" and "domain_matches host c" and "path_matches p c"
  shows "\<exists>ps. fst (build_cookie_header now host p j) = Some (join ''; '' ps) \<and> jar_pair c \<in> set ps"
proof -
  let ?ps = "map jar_pair (filter (\<lambda>c. domain_matches host c \<and> path_matches p c) (filter (live now) j))"
  have "jar_pair c \<in> set ?ps" using assms by auto
  moreover have "filter (live now) j \<noteq> []" "?ps \<noteq> []"
    using assms by (auto simp: filter_empty_conv)
  ultimately show ?thesis by (auto simp: build_cookie_header_def Let_def intro!: exI [of _ ?ps])
qed

section \<open>Restarts\<close>

lemma capture_row:
  assumes "pg_db g = Some db" and "db_faults db = []"
    and "parse_set_cookie C now0 val = Some c" and "live now c" and "live now_epoch c"
  shows "pg_db (capture_cookie C now0 now now_epoch origin val g) =
    Some (db\<lparr>db_cookies := sql_insert_or_replace cookie_key (row_of_cookie origin c) (db_cookies db)\<rparr>)"
proof -
  have "fst (with_jar origin (add_set_cookie C now0 now val) g) = Some c"
    using assms(3,4) by (auto simp: add_set_cookie_def live_def split: option.splits)
  then obtain g1 where g1: "with_jar origin (add_set_cookie C now0 now val) g = (Some c, g1)" by (metis prod.collapse)
  then have "pg_db g1 = Some db" using with_jar_simps(2) [of origin "add_set_cookie C now0 now val" g] assms(1) by simp
  then show ?thesis
    using assms(2,5) g1
    by (auto simp: capture_cookie_def persist_cookie_to_db_def live_def upsert_proxy_cookie_def change_rows_def stmt_no_fault
        split: option.splits)
qed

lemma capture_expired:
  assumes "parse_set_cookie C now0 val = Some c" and "\<not> live now c"
  shows "capture_cookie C now0 now now_epoch origin val g =
    snd (with_jar origin (\<lambda>j. (None :: stored_cookie option, jar_remove (sc_name c) (sc_path c) j)) g)"
  using assms by (auto simp: capture_cookie_def with_jar_def add_set_cookie_def live_def Let_def split: option.splits)

lemma restart_sends:
  assumes "db_faults db = []" and "\<And>t. mset (ord t) = mset t" and "row_of_cookie origin c \<in> set (db_cookies db)"
    and "live now c" and "domain_matches origin c" and "path_matches p c"
  shows "\<exists>ps. fst (with_jar origin (build_cookie_header now origin p) (set_cookie_db ord db proxy_globals_init)) = Some (join ''; '' ps) \<and>
    jar_pair c \<in> set ps"
proof -
  have "row_of_cookie origin c \<in> set (ord (db_cookies db))" using assms(2,3) by (metis set_mset_mset)
  moreover have "ck_host_key (row_of_cookie origin c) = origin" by (simp add: row_of_cookie_def)
  ultimately have "c \<in> set (jar_of (pg_jars (set_cookie_db ord db proxy_globals_init)) origin)"
    using assms(1) by (auto simp: set_cookie_db_fresh proxy_globals_init_def image_iff intro!: bexI [of _ "row_of_cookie origin c"])
  with build_cookie_header_sends [OF _ assms(4-6)] show ?thesis by simp
qed


text \<open>
  A logout does not survive it. When the upstream clears the cookie, with \<open>Max-Age=0\<close> or a date in the past,
  the jar in memory drops it, but the row in the database stays: the deletion in \<open>persist_cookie_to_db\<close> is never
  reached, because an expired cookie is not handed to it. After a restart the old value is sent again.
\<close>

theorem logout_undone_by_restart:
  assumes "pg_db g = Some db" and "db_faults db = []" and "hm_ok (pg_jars g)" and "\<And>t. mset (ord t) = mset t"
    and "parse_set_cookie C now0 val = Some c" and "live now c" and "live now_epoch c"
    and "g1 = capture_cookie C now0 now now_epoch origin val g"
    and "parse_set_cookie C now1 clear = Some d" and "\<not> live now2 d" and "sc_name d = sc_name c" and "sc_path d = sc_path c"
    and "g2 = capture_cookie C now1 now2 now3 origin clear g1"
    and "live later c" and "domain_matches origin c" and "path_matches p c"
  shows "(\<forall>e \<in> set (jar_of (pg_jars g2) origin). sc_name e \<noteq> sc_name c \<or> sc_path e \<noteq> sc_path c) \<and>
    (\<exists>ps. fst (with_jar origin (build_cookie_header later origin p) (set_cookie_db ord (the (pg_db g2)) proxy_globals_init)) = Some (join ''; '' ps) \<and>
      jar_pair c \<in> set ps)"
proof
  have ok: "hm_ok (pg_jars g1)" using assms(3)
    by (auto simp: assms(8) capture_cookie_def with_jar_def Let_def hm.ok_put split: prod.splits option.splits)
  have g2: "g2 = snd (with_jar origin (\<lambda>j. (None :: stored_cookie option, jar_remove (sc_name d) (sc_path d) j)) g1)"
    using capture_expired [OF assms(9,10)] assms(13) by blast
  show "\<forall>e \<in> set (jar_of (pg_jars g2) origin). sc_name e \<noteq> sc_name c \<or> sc_path e \<noteq> sc_path c"
    unfolding g2 with_jar_jars [OF ok] by (simp add: jar_remove_def assms(11,12))
  have "pg_db g2 = Some (db\<lparr>db_cookies := sql_insert_or_replace cookie_key (row_of_cookie origin c) (db_cookies db)\<rparr>)"
    using capture_row [OF assms(1,2,5-7)] by (simp add: g2 assms(8))
  then show "\<exists>ps. fst (with_jar origin (build_cookie_header later origin p) (set_cookie_db ord (the (pg_db g2)) proxy_globals_init)) = Some (join ''; '' ps) \<and>
      jar_pair c \<in> set ps"
    using restart_sends [OF _ assms(4) _ assms(14-16)] assms(2) by (simp add: sql_insert_or_replace_def)
qed

lemma ends_with_split: "ends_with s p \<longleftrightarrow> (\<exists>t. s = t @ p)"
  unfolding ends_with_def starts_with_iff by (metis rev_append rev_rev_ident)

lemma suffix_without:
  assumes "a @ x # b = t @ s" and "x \<notin> set s"
  shows "\<exists>u. b = u @ s"
proof -
  from assms(1) consider u where "a = t @ u" "u @ x # b = s" | u where "a @ u = t" "x # b = u @ s"
    by (auto simp: append_eq_append_conv2)
  then show ?thesis
  proof cases
    case 2
    with assms(2) show ?thesis by (cases u) auto
  qed (use assms(2) in auto)
qed

lemma domain_port_mismatch:
  assumes "sc_domain c = Some d" and "CHR '':'' \<notin> set d" and "list_all (\<lambda>ch. digit_val ch \<noteq> None) port"
  shows "\<not> domain_matches (host @ '':'' @ port) c"
proof
  assume m: "domain_matches (host @ '':'' @ port) c"
  define e where "e = trim_start_dots d"
  have e: "CHR '':'' \<notin> set e" using assms(2) by (auto simp: e_def trim_start_dots_def dest: set_dropWhileD)
  from m consider "host @ '':'' @ port = e" | "ends_with (host @ '':'' @ port) (''.'' @ e)"
    by (auto simp: domain_matches_def assms(1) e_def Let_def)
  then show False
  proof cases
    case 1
    then show False using e by auto
  next
    case 2
    then obtain u where "port = u @ ''.'' @ e"
      using suffix_without [of host "CHR '':''" port _ "''.'' @ e"] e by (auto simp: ends_with_split)
    with assms(3) show False by (simp add: digit_val_def)
  qed
qed

text \<open>
  A cookie with a \<open>Domain\<close> attribute is lost when the address of the upstream names a port. The host that
  the forwarder hands over still carries the port, and neither the comparison nor the suffix test removes it.
\<close>

theorem domain_cookie_lost_with_port:
  assumes "sc_domain c = Some d" and "CHR '':'' \<notin> set d" and "list_all (\<lambda>ch. digit_val ch \<noteq> None) port"
  shows "fst (build_cookie_header now (host @ '':'' @ port) p j) =
    fst (build_cookie_header now (host @ '':'' @ port) p (filter (\<lambda>e. e \<noteq> c) j))"
proof -
  let ?P = "\<lambda>e. domain_matches (host @ '':'' @ port) e \<and> path_matches p e"
  have "filter ?P (filter (live now) (filter (\<lambda>e. e \<noteq> c) j)) = filter ?P (filter (live now) j)"
    using domain_port_mismatch [OF assms, of host] by (auto intro!: filter_cong simp: filter_filter)
  then show ?thesis unfolding build_cookie_header_fst by simp
qed

section \<open>Every jar stays well formed\<close>

text \<open>
  What the proxy does to its cookies while it runs: an upstream sets one, a request asks for the header. The
  process starts on a database whose tables satisfy the integrity constraints.
\<close>

inductive cookie_reach :: "(proxy_cookie_row list \<Rightarrow> proxy_cookie_row list) \<Rightarrow> chrono \<Rightarrow> proxy_globals \<Rightarrow> bool" for ord C where
  start: "db_ok db \<Longrightarrow> cookie_reach ord C (set_cookie_db ord db proxy_globals_init)"
| capture: "cookie_reach ord C g \<Longrightarrow> cookie_reach ord C (capture_cookie C now0 now now_epoch origin val g)"
| request: "cookie_reach ord C g \<Longrightarrow> cookie_reach ord C (snd (with_jar key (build_cookie_header now host p) g))"

definition jars_ok :: "proxy_globals \<Rightarrow> bool" where
  "jars_ok g \<longleftrightarrow> hm_ok (pg_jars g) \<and> (\<forall>k. jar_ok (jar_of (pg_jars g) k)) \<and> (case pg_db g of Some db \<Rightarrow> db_ok db | None \<Rightarrow> True)"

lemma with_jar_ok: "jars_ok g \<Longrightarrow> (\<And>j. jar_ok j \<Longrightarrow> jar_ok (snd (f j))) \<Longrightarrow> jars_ok (snd (with_jar k f g))"
  by (simp add: jars_ok_def with_jar_jars)

lemma persist_ok: "jars_ok g \<Longrightarrow> jars_ok (persist_cookie_to_db h c now g)"
  by (auto simp: jars_ok_def persist_cookie_to_db_def cookies_ok split: option.splits)

lemma rows_jar_ok:
  assumes "distinct (map cookie_key t)"
  shows "jar_ok (map cookie_of_row (filter (\<lambda>r. ck_host_key r = h) t))"
proof -
  let ?t = "filter (\<lambda>r. ck_host_key r = h) t"
  have "distinct (map cookie_key ?t)" using assms by (rule distinct_map_filter)
  then have "distinct ?t" "inj_on cookie_key (set ?t)" by (auto simp: distinct_map)
  moreover have "inj_on (identity \<circ> cookie_of_row) (set ?t)"
  proof (rule inj_onI)
    fix r s assume r: "r \<in> set ?t" and s: "s \<in> set ?t" and "(identity \<circ> cookie_of_row) r = (identity \<circ> cookie_of_row) s"
    then have "cookie_key r = cookie_key s" by (simp add: identity_def cookie_of_row_def cookie_key_def)
    with \<open>inj_on cookie_key (set ?t)\<close> r s show "r = s" by (simp add: inj_on_def)
  qed
  ultimately show ?thesis by (simp add: jar_ok_def distinct_map)
qed

lemma list_proxy_cookies_ok: "list_proxy_cookies ord db = (r, db') \<Longrightarrow> db_ok db \<Longrightarrow> db_ok db'"
  by (auto simp: list_proxy_cookies_def query_rows_def select_rows_def select_def stmt_def split: list.splits option.splits)

lemma list_proxy_cookies_rows: "list_proxy_cookies ord db = (Inr rows, db') \<Longrightarrow> rows = ord (db_cookies db)"
  by (auto simp: list_proxy_cookies_def query_rows_def select_rows_def select_def stmt_def split: list.splits option.splits)

lemma db_ok_cookies: "db_ok db \<Longrightarrow> distinct (map cookie_key (db_cookies db))"
  by (simp add: db_ok_def keys_ok_def)

lemma set_cookie_db_ok:
  assumes "db_ok db" and "\<And>t. mset (ord t) = mset t"
  shows "jars_ok (set_cookie_db ord db proxy_globals_init)"
proof -
  have d: "distinct (map cookie_key (ord (db_cookies db)))"
    using assms(1) assms(2) [of "db_cookies db"] by (metis db_ok_cookies mset_map mset_eq_imp_distinct_iff)
  show ?thesis
  proof (cases "list_proxy_cookies ord db")
    case (Pair r db')
    then have "db_ok db'" using list_proxy_cookies_ok assms(1) by blast
    then show ?thesis
      using Pair seed_jars [of "[]" "ord (db_cookies db)"] rows_jar_ok [OF d]
      by (cases r) (auto simp: jars_ok_def set_cookie_db_def seed_jars_from_db_def proxy_globals_init_def hm.ok_nil jar_ok_def
          dest: list_proxy_cookies_rows)
  qed
qed

text \<open>
  C25: In every state the proxy reaches, no jar holds two cookies of the same name, path and domain, every upstream
  has one jar, and the database keeps its integrity; a restart reconstructs such jars from the table.
\<close>

theorem cookie_jars_well_formed:
  assumes "cookie_reach ord C g" and "\<And>t. mset (ord t) = mset t"
  shows "jars_ok g"
  using assms(1)
proof induction
  case (start db)
  then show ?case using assms(2) by (rule set_cookie_db_ok)
next
  case (capture g now0 now now_epoch origin val)
  have "jars_ok (snd (with_jar origin (add_set_cookie C now0 now val) g))"
    using capture.IH jar_ok_add by (rule with_jar_ok)
  then show ?case by (auto simp: capture_cookie_def persist_ok split: prod.splits option.splits)
next
  case (request g key now host p)
  from request.IH jar_ok_build show ?case by (rule with_jar_ok)
qed

section \<open>An example\<close>

definition chrono_toy :: chrono where
  "chrono_toy = \<lparr>ch_rfc2822 = \<lambda>_. None, ch_naive = \<lambda>_ _. None\<rparr>"

definition sid_cookie :: stored_cookie where
  "sid_cookie = \<lparr>sc_name = ''sid'', sc_value = ''1'', sc_path = ''/'', sc_domain = None, sc_expires_at = None,
     sc_http_only = True, sc_secure = False, sc_same_site = None\<rparr>"

definition proxy_toy :: proxy_globals where
  "proxy_toy = proxy_globals_init\<lparr>pg_db := Some (db_empty True [])\<rparr>"

lemma sid_parsed: "parse_set_cookie chrono_toy 5 ''sid=1; HttpOnly'' = Some sid_cookie"
  by code_simp

lemma sid_cleared: "parse_set_cookie chrono_toy 5 ''sid=; Max-Age=0'' =
  Some (sid_cookie\<lparr>sc_value := [], sc_expires_at := Some 0, sc_http_only := False\<rparr>)"
proof -
  have "split_str '';'' ''sid=; Max-Age=0'' = [''sid='', '' Max-Age=0'']" by code_simp
  moreover have "attribute_pair '' Max-Age=0'' = (''max-age'', ''0'')" by code_simp
  moreover have "parse_i64 ''0'' = Some 0" by (simp add: parse_i64_def parse_uint_def digit_val_def)
  moreover have "trim ''sid'' = ''sid''" by code_simp
  ultimately show ?thesis by (simp add: parse_set_cookie_def cookie_attribute_def sid_cookie_def)
qed

lemma sid_sent: "live now sid_cookie" "domain_matches h sid_cookie" "path_matches p sid_cookie"
  by (simp_all add: live_def domain_matches_def path_matches_def sid_cookie_def trim_end_slash_def)

lemma proxy_toy_db: "pg_db proxy_toy = Some (db_empty True [])" "db_faults (db_empty True []) = []" "hm_ok (pg_jars proxy_toy)"
  by (simp_all add: proxy_toy_def proxy_globals_init_def db_empty_def hm.ok_nil)


theorem logout_undone_by_restart_witness:
  "\<exists>ps. fst (with_jar ''nas'' (build_cookie_header 9 ''nas'' ''/x'')
      (set_cookie_db (\<lambda>t. t) (the (pg_db (capture_cookie chrono_toy 5 5 5 ''nas'' ''sid=; Max-Age=0''
         (capture_cookie chrono_toy 5 5 5 ''nas'' ''sid=1; HttpOnly'' proxy_toy)))) proxy_globals_init)) = Some (join ''; '' ps) \<and>
    jar_pair sid_cookie \<in> set ps"
proof -
  let ?d = "sid_cookie\<lparr>sc_value := [], sc_expires_at := Some 0, sc_http_only := False\<rparr>"
  have "\<not> live 5 ?d" "sc_name ?d = sc_name sid_cookie" "sc_path ?d = sc_path sid_cookie" by (simp_all add: live_def)
  from logout_undone_by_restart [OF proxy_toy_db refl sid_parsed sid_sent(1) sid_sent(1) refl sid_cleared this refl sid_sent]
  show ?thesis by blast
qed

theorem domain_cookie_lost_with_port_witness:
  "fst (build_cookie_header 9 (''nas'' @ '':'' @ ''5000'') ''/'' [sid_cookie\<lparr>sc_domain := Some ''nas''\<rparr>]) =
   fst (build_cookie_header 9 (''nas'' @ '':'' @ ''5000'') ''/'' [])"
proof -
  let ?c = "sid_cookie\<lparr>sc_domain := Some ''nas''\<rparr>"
  have "list_all (\<lambda>ch. digit_val ch \<noteq> None) ''5000''" by code_simp
  from domain_cookie_lost_with_port [of ?c "''nas''" "''5000''" 9 "''nas''" "''/''" "[?c]", OF _ _ this] show ?thesis by simp
qed

theorem cookie_jars_well_formed_witness:
  "jars_ok (capture_cookie chrono_toy 5 5 5 ''nas'' ''sid=1; HttpOnly'' (set_cookie_db (\<lambda>t. t) (db_empty True []) proxy_globals_init))"
  by (rule cookie_jars_well_formed [of "\<lambda>t. t" chrono_toy]) (simp_all add: cookie_reach.capture cookie_reach.start db_empty_ok)

end
