(* ===== verification/Page_Inject.thy ===== *)
theory Page_Inject
  imports Cookie_Jar Crypto_Box Network_Config
begin

text \<open>
  What the proxy does to a page before it hands it to the web view, \<open>src-tauri/src/proxy/hometier_protocol.rs\<close>:
  the relaxed content security policy, the recognition of HTML and the insertion of the bridge script. The
  texts of the scripts are data, fields of a record; \<open>to_lowercase\<close> is an argument because it follows the Unicode
  tables. A slice or an insertion at an index that is no character boundary panics: \<open>None\<close>.
\<close>

section \<open>Content security policies\<close>

definition add_source :: "string \<Rightarrow> string \<Rightarrow> string \<times> bool \<Rightarrow> string \<times> bool" where
  "add_source tr src dm =
    (let dm1 = (if starts_with tr ''connect-src'' \<and> \<not> contains_str tr src then (tr @ '' '' @ src, True) else dm)
     in if starts_with tr ''default-src'' \<and> \<not> contains_str tr src then (tr @ '' '' @ src, True) else dm1)"

text \<open>One round of the loop: the new directive, whether it changed, whether it is the script directive.\<close>

definition relax_directive :: "string \<Rightarrow> string list \<Rightarrow> string \<Rightarrow> string \<times> bool \<times> bool" where
  "relax_directive script_hash added_sources directive =
    (let tr = trim directive in
     if starts_with tr ''frame-ancestors'' then ([], True, False)
     else
       (let script = starts_with tr ''script-src'';
            dm = (if script \<and> script_hash \<noteq> [] \<and> \<not> contains_str tr script_hash then (tr @ '' '' @ script_hash, True)
                  else (directive, False));
            (d, m) = fold (add_source tr) added_sources dm
        in (d, m, script)))"

definition relax_csp :: "string \<Rightarrow> string \<Rightarrow> string list \<Rightarrow> string option" where
  "relax_csp csp script_hash added_sources =
    (let rs = map (relax_directive script_hash added_sources) (map trim (split_str '';'' csp));
         has_script_src = (\<exists>r \<in> set rs. snd (snd r));
         synthesise = (\<not> has_script_src \<and> script_hash \<noteq> []);
         directives = map fst rs @ (if synthesise then [''script-src '' @ script_hash] else []);
         modified = ((\<exists>r \<in> set rs. fst (snd r)) \<or> synthesise)
     in if \<not> modified then None else Some (join ''; '' (filter (\<lambda>s. s \<noteq> []) directives)))"

section \<open>Recognising pages\<close>

definition byte_lower :: "u8 \<Rightarrow> u8" where
  "byte_lower b = byte_of_char (ascii_lower (char_of_byte b))"

definition starts_with_bytes :: "bytes \<Rightarrow> string \<Rightarrow> bool" where
  "starts_with_bytes bs p \<longleftrightarrow> take (length p) bs = as_bytes p"

definition looks_like_html_body :: "bytes \<Rightarrow> bool" where
  "looks_like_html_body body =
    (let start = (if length body > 15 then take 15 body else body);
         lower = map byte_lower start
     in starts_with_bytes lower ''<!doctype'' \<or> starts_with_bytes lower ''<html'')"

section \<open>Insertion of the script\<close>

text \<open>\<open>extract_origin\<close> of this module\<close>

definition page_origin :: "string \<Rightarrow> string" where
  "page_origin url =
    (case find_str ''://'' url of
       None \<Rightarrow> trim_end_slash url
     | Some pos \<Rightarrow>
        (case find_char (CHR ''/'') (drop (pos + 3) url) of
           Some slash \<Rightarrow> take (pos + 3 + slash) url
         | None \<Rightarrow> url))"

definition insert_str :: "nat \<Rightarrow> string \<Rightarrow> string \<Rightarrow> string option" where
  "insert_str at t s = (if is_char_boundary s at then Some (take at s @ t @ drop at s) else None)"

definition VIEWPORT_META :: string where
  "VIEWPORT_META = ''<meta name='' @ DQ @ ''viewport'' @ DQ @ '' content='' @ DQ @ ''width=device-width, initial-scale=1'' @ DQ @ ''>''"

text \<open>The index behind the opening \<open>head\<close> tag of the lower-case text.\<close>

definition after_head :: "string \<Rightarrow> nat option" where
  "after_head lower =
    (case find_str ''<head'' lower of
       None \<Rightarrow> None
     | Some pos \<Rightarrow> map_option (\<lambda>close. pos + 5 + close + 1) (find_char (CHR ''>'') (drop (pos + 5) lower)))"

definition inject_viewport_meta :: "(string \<Rightarrow> string) \<Rightarrow> string \<Rightarrow> string option" where
  "inject_viewport_meta to_lower html =
    (let lower = to_lower html in
     if contains_str lower ''viewport'' then Some html
     else (case after_head lower of Some at \<Rightarrow> insert_str at VIEWPORT_META html | None \<Rightarrow> Some html))"

text \<open>The texts of the injected scripts.\<close>

record page_scripts =
  js_local :: "string \<Rightarrow> string \<Rightarrow> string"
  js_emulation :: string
  js_nav :: string
  js_autofocus :: string
  js_touch :: string

definition script_text :: "page_scripts \<Rightarrow> bool \<Rightarrow> string \<Rightarrow> string \<Rightarrow> string" where
  "script_text J is_mobile proxy_key source_url =
    js_local J proxy_key (page_origin source_url) @ (if is_mobile then [NL] @ js_emulation J else []) @
    [NL] @ js_nav J @ [NL] @ js_autofocus J @ [NL] @ js_touch J"

definition place_script :: "(string \<Rightarrow> string) \<Rightarrow> string \<Rightarrow> string \<Rightarrow> string option" where
  "place_script to_lower tag html =
    (let lower = to_lower html in
     case after_head lower of
       Some at \<Rightarrow> insert_str at tag html
     | None \<Rightarrow>
        (case find_str ''</head>'' lower of
           Some pos \<Rightarrow> insert_str pos tag html
         | None \<Rightarrow>
            (case find_str ''<body'' lower of
               Some pos \<Rightarrow> insert_str pos tag html
             | None \<Rightarrow> insert_str 0 tag html)))"

definition script_tag :: "string \<Rightarrow> string" where
  "script_tag js = ''<script id='' @ DQ @ ''__ht'' @ DQ @ ''>'' @ js @ ''</script>''"

definition csp_hash_of :: "primitives \<Rightarrow> (bytes \<Rightarrow> string) \<Rightarrow> string \<Rightarrow> string" where
  "csp_hash_of P b64 js = SQ @ ''sha256-'' @ b64 (sha256 P (as_bytes js)) @ SQ"

definition inject_local_http_script ::
  "page_scripts \<Rightarrow> primitives \<Rightarrow> (bytes \<Rightarrow> string) \<Rightarrow> (string \<Rightarrow> string) \<Rightarrow> bytes \<Rightarrow> bool \<Rightarrow> string \<Rightarrow> string \<Rightarrow> (bytes \<times> string) option" where
  "inject_local_http_script J P b64 to_lower html_bytes is_mobile proxy_key source_url =
    (case from_utf8 html_bytes of
       None \<Rightarrow> Some (html_bytes, [])
     | Some html0 \<Rightarrow>
        (let js = script_text J is_mobile proxy_key source_url in
         case (if is_mobile then inject_viewport_meta to_lower html0 else Some html0) of
           None \<Rightarrow> None
         | Some html \<Rightarrow>
            map_option (\<lambda>out. (as_bytes out, csp_hash_of P b64 js)) (place_script to_lower (script_tag js) html)))"

section \<open>What the policy allows\<close>

text \<open>A directive stays as it is or gets a source behind it.\<close>

definition extends :: "string \<Rightarrow> string \<Rightarrow> bool" where
  "extends d d' \<longleftrightarrow> d' = d \<or> (\<exists>x. d' = trim d @ '' '' @ x)"

lemma add_sources_extends: "extends d (fst dm) \<Longrightarrow> extends d (fst (fold (add_source (trim d)) srcs dm))"
  by (induction srcs arbitrary: dm) (auto simp: add_source_def Let_def extends_def)

lemma add_sources_other:
  "\<not> starts_with tr ''connect-src'' \<Longrightarrow> \<not> starts_with tr ''default-src'' \<Longrightarrow> fold (add_source tr) srcs dm = dm"
  by (induction srcs arbitrary: dm) (simp_all add: add_source_def)

lemma starts_with_before_space: "starts_with (s @ '' '' @ t) p \<Longrightarrow> CHR '' '' \<notin> set p \<Longrightarrow> starts_with s p"
  by (induction s p rule: starts_with.induct) auto

lemma relax_directive_extends:
  "\<not> starts_with (trim d) ''frame-ancestors'' \<Longrightarrow> extends d (fst (relax_directive hash srcs d))"
  using add_sources_extends [of d "(d, False)" srcs] add_sources_extends [of d "(trim d @ '' '' @ hash, True)" srcs]
  by (auto simp: relax_directive_def extends_def Let_def split: prod.splits)

lemma relax_directive_frame: "\<not> starts_with (fst (relax_directive hash srcs (trim d))) ''frame-ancestors''"
proof (cases "starts_with (trim d) ''frame-ancestors''")
  case False
  with relax_directive_extends [of "trim d" hash srcs] show ?thesis
    using starts_with_before_space [of "trim d" _ "''frame-ancestors''"] by (auto simp: extends_def)
qed (simp add: relax_directive_def)

lemma relax_directive_script:
  assumes "hash \<noteq> []" and "snd (snd (relax_directive hash srcs d))"
  shows "starts_with (trim d) ''script-src'' \<and>
    fst (relax_directive hash srcs d) = (if contains_str (trim d) hash then d else trim d @ '' '' @ hash)"
proof -
  have s: "starts_with (trim d) ''script-src''" using assms(2) by (auto simp: relax_directive_def Let_def split: if_splits prod.splits)
  then have "\<not> starts_with (trim d) ''connect-src''" "\<not> starts_with (trim d) ''default-src''" "\<not> starts_with (trim d) ''frame-ancestors''"
    by (auto simp: starts_with_iff)
  with s assms(1) show ?thesis by (simp add: relax_directive_def add_sources_other)
qed

lemma contains_append: "contains_str (a @ b) b"
  unfolding contains_str_iff by (rule exI [of _ a]) simp

lemma starts_with_append_left: "starts_with s p \<Longrightarrow> starts_with (s @ t) p"
  by (auto simp: starts_with_iff)

text \<open>
  The relaxed policy of a page lets the page be framed and the injected script run: whenever a script was
  injected there is a result, none of its directives restricts the ancestors of the frame, and one of its script
  directives names the hash of the script.
\<close>

theorem relax_csp_allows_bridge:
  assumes "hash \<noteq> []" and "relax_csp csp hash srcs = Some out"
  shows "\<exists>ds. out = join ''; '' ds \<and> (\<forall>d \<in> set ds. \<not> starts_with d ''frame-ancestors'') \<and>
    (\<exists>d \<in> set ds. starts_with d ''script-src'' \<and> contains_str d hash)"
proof -
  let ?f = "relax_directive hash srcs"
  let ?ts = "map trim (split_str '';'' csp)"
  define has where "has \<longleftrightarrow> (\<exists>d \<in> set ?ts. snd (snd (?f d)))"
  define ds where "ds = filter (\<lambda>s. s \<noteq> []) (map (fst \<circ> ?f) ?ts @ (if has then [] else [''script-src '' @ hash]))"
  have "out = join ''; '' ds"
    using assms by (auto simp: relax_csp_def Let_def ds_def has_def comp_def image_iff split: if_splits)
  moreover have "\<not> starts_with d ''frame-ancestors''" if "d \<in> set ds" for d
    using that relax_directive_frame [of hash srcs] by (auto simp: ds_def split: if_splits)
  moreover have "\<exists>d \<in> set ds. starts_with d ''script-src'' \<and> contains_str d hash"
  proof (cases has)
    case True
    then obtain t where t: "t \<in> set ?ts" "snd (snd (?f t))" by (auto simp: has_def)
    then have "trim t = t" by auto
    with relax_directive_script [OF assms(1) t(2)] have "starts_with (fst (?f t)) ''script-src'' \<and> contains_str (fst (?f t)) hash"
      using contains_append [of "t @ '' ''" hash] by (auto simp: starts_with_append_left)
    moreover from this have "fst (?f t) \<noteq> []" by (cases "fst (?f t)") auto
    moreover from this t(1) have "fst (?f t) \<in> set ds" by (auto simp: ds_def)
    ultimately show ?thesis by blast
  next
    case False
    then have "''script-src '' @ hash \<in> set ds" by (simp add: ds_def)
    moreover have "starts_with (''script-src '' @ hash) ''script-src''" by simp
    ultimately show ?thesis using contains_append by blast
  qed
  ultimately show ?thesis by blast
qed

theorem relax_csp_allows_bridge_witness:
  "\<exists>ds. ''default-src a; script-src h'' = join ''; '' ds \<and> (\<forall>d \<in> set ds. \<not> starts_with d ''frame-ancestors'') \<and>
    (\<exists>d \<in> set ds. starts_with d ''script-src'' \<and> contains_str d ''h'')"
proof -
  have "relax_csp ''default-src a; frame-ancestors b'' ''h'' [] = Some ''default-src a; script-src h''" by code_simp
  from relax_csp_allows_bridge [OF _ this] show ?thesis by simp
qed

section \<open>What the insertion keeps\<close>

text \<open>One text with another one put into it somewhere.\<close>

definition inserted :: "string \<Rightarrow> string \<Rightarrow> string \<Rightarrow> bool" where
  "inserted t s s' \<longleftrightarrow> (\<exists>a b. s = a @ b \<and> s' = a @ t @ b)"

lemma ascii_boundary:
  assumes "is_ascii s" and "i \<le> length s"
  shows "is_char_boundary s i"
proof -
  have "(of_char (s ! i) :: nat) < 128" if "i < length s" using assms(1) that by (simp add: is_ascii_def list_all_length)
  with assms(2) show ?thesis by (auto simp: is_char_boundary_def Let_def)
qed

lemma insert_str_ascii: "is_ascii s \<Longrightarrow> i \<le> length s \<Longrightarrow> \<exists>s'. insert_str i t s = Some s' \<and> inserted t s s'"
  unfolding insert_str_def inserted_def by (metis ascii_boundary append_take_drop_id)

lemma is_ascii_lower_length: "lowers_ascii lower \<Longrightarrow> is_ascii s \<Longrightarrow> length (lower s) = length s"
  by (simp add: lowers_ascii_def)

lemma after_head_bound: "after_head s = Some i \<Longrightarrow> i \<le> length s"
proof -
  assume "after_head s = Some i"
  then obtain p c where p: "find_str ''<head'' s = Some p" and c: "find_char (CHR ''>'') (drop (p + 5) s) = Some c" and i: "i = p + 5 + c + 1"
    by (auto simp: after_head_def split: option.splits)
  from c have "c < length (drop (p + 5) s)" using find_char_Some by blast
  then show ?thesis by (simp add: i)
qed

lemma place_script_ascii:
  assumes "lowers_ascii lower" and "is_ascii html"
  shows "\<exists>out. place_script lower tag html = Some out \<and> inserted tag html out"
proof -
  have len: "length (lower html) = length html" using is_ascii_lower_length [OF assms] .
  have "i \<le> length html" if "find_str p (lower html) = Some i" for p i
    using find_str_Some [OF that] len by simp
  moreover have "i \<le> length html" if "after_head (lower html) = Some i" for i
    using after_head_bound [OF that] len by simp
  ultimately show ?thesis
    using insert_str_ascii [OF assms(2)] by (simp add: place_script_def Let_def split: option.split)
qed

lemma viewport_ascii:
  assumes "lowers_ascii lower" and "is_ascii html"
  shows "\<exists>out. inject_viewport_meta lower html = Some out \<and> (out = html \<or> inserted VIEWPORT_META html out)"
proof -
  have "i \<le> length html" if "after_head (lower html) = Some i" for i
    using after_head_bound [OF that] is_ascii_lower_length [OF assms] by simp
  then have "\<exists>out. insert_str i VIEWPORT_META html = Some out \<and> (out = html \<or> inserted VIEWPORT_META html out)"
    if "after_head (lower html) = Some i" for i
    using insert_str_ascii [OF assms(2)] that by blast
  then show ?thesis by (auto simp: inject_viewport_meta_def Let_def split: option.split)
qed

lemma inserted_ascii: "inserted t s s' \<Longrightarrow> is_ascii s \<Longrightarrow> is_ascii t \<Longrightarrow> is_ascii s'"
  by (auto simp: inserted_def is_ascii_def)

text \<open>
  The bridge script reaches every ASCII page, and nothing of the page is lost: the answer is the page with the
  script element put into it, after the viewport declaration was put into it for a mobile device if it had none,
  and the hash returned for the policy is the hash of exactly the script that was put in.
\<close>

theorem inject_keeps_page:
  assumes "lowers_ascii lower" and "is_ascii html"
  shows "\<exists>page out. inject_local_http_script J P b64 lower (as_bytes html) is_mobile key source_url =
      Some (as_bytes out, csp_hash_of P b64 (script_text J is_mobile key source_url)) \<and>
    inserted (script_tag (script_text J is_mobile key source_url)) page out \<and>
    (page = html \<or> is_mobile \<and> inserted VIEWPORT_META html page)"
proof -
  have m: "is_ascii VIEWPORT_META" by code_simp
  obtain page where page: "(if is_mobile then inject_viewport_meta lower html else Some html) = Some page"
      "page = html \<or> is_mobile \<and> inserted VIEWPORT_META html page"
    using viewport_ascii [OF assms] by (cases is_mobile) auto
  then have "is_ascii page" using inserted_ascii [OF _ assms(2) m] assms(2) by blast
  from place_script_ascii [OF assms(1) this] obtain out where
    "place_script lower (script_tag (script_text J is_mobile key source_url)) page = Some out"
    "inserted (script_tag (script_text J is_mobile key source_url)) page out" by blast
  with page assms(2) show ?thesis by (auto simp: inject_local_http_script_def Let_def)
qed

text \<open>
  Beyond ASCII the insertion may panic. The index is found in the lower-case copy, whose characters need not have
  the length of the originals: the Turkish capital \<open>I\<close> with a dot (two bytes) becomes three bytes, every later index
  is one too large, and here it falls into the middle of the letter that follows the head tag.
\<close>

definition dotted_page :: string where
  "dotted_page = ''<html>'' @ utf8_text [196, 176] @ ''<head>'' @ utf8_text [195, 169]"

definition dotted_page_lower :: string where
  "dotted_page_lower = ''<html>'' @ utf8_text [105, 204, 135] @ ''<head>'' @ utf8_text [195, 169]"

theorem inject_panics_after_lowercase:
  assumes "lower dotted_page = dotted_page_lower"
  shows "looks_like_html_body (as_bytes dotted_page) \<and>
    inject_local_http_script J P b64 lower (as_bytes dotted_page) False key source_url = None"
proof -
  have "is_utf8 dotted_page" "after_head dotted_page_lower = Some 15" "\<not> is_char_boundary dotted_page 15"
    "looks_like_html_body (as_bytes dotted_page)" by code_simp+
  with assms show ?thesis by (simp add: inject_local_http_script_def place_script_def insert_str_def)
qed

lemma lowers_ascii_ascii_lower: "lowers_ascii (map ascii_lower)"
  by (simp add: lowers_ascii_def)

definition scripts_toy :: page_scripts where
  "scripts_toy = \<lparr>js_local = \<lambda>k u. k @ u, js_emulation = ''e'', js_nav = ''n'', js_autofocus = ''a'', js_touch = ''t''\<rparr>"

theorem inject_keeps_page_witness:
  "\<exists>page out. inject_local_http_script scripts_toy primitives_toy (\<lambda>_. ''h'') (map ascii_lower) (as_bytes ''<html><head></head>'') True ''k'' ''http://a'' =
      Some (as_bytes out, csp_hash_of primitives_toy (\<lambda>_. ''h'') (script_text scripts_toy True ''k'' ''http://a'')) \<and>
    inserted (script_tag (script_text scripts_toy True ''k'' ''http://a'')) page out \<and>
    (page = ''<html><head></head>'' \<or> True \<and> inserted VIEWPORT_META ''<html><head></head>'' page)"
proof -
  have "is_ascii ''<html><head></head>''" by code_simp
  from inject_keeps_page [OF lowers_ascii_ascii_lower this] show ?thesis by blast
qed

theorem inject_panics_after_lowercase_witness:
  "inject_local_http_script scripts_toy primitives_toy (\<lambda>_. ''h'') (\<lambda>s. if s = dotted_page then dotted_page_lower else map ascii_lower s)
    (as_bytes dotted_page) False ''k'' ''http://a'' = None"
  using inject_panics_after_lowercase [of "\<lambda>s. if s = dotted_page then dotted_page_lower else map ascii_lower s"] by simp

end
