(* ===== verification/Http_Forward.thy ===== *)
theory Http_Forward
  imports Page_Inject
begin

text \<open>
  The forwarding engine of the page proxy, \<open>src-tauri/src/proxy/plugins/http_forward.rs\<close>: which upstream a
  request is meant for, the request that is sent there, the retries, and the answer the web view gets. The HTTP
  client is a function from the number of the attempt to its result; URL encoding, form decoding, regular
  expressions and character sets are parameters, fields of \<open>fwd_env\<close>. Header names arrive in lower case, and
  the path of a request never contains a question mark: hyper splits the query off.
\<close>

section \<open>URLs\<close>

definition strip_prefix :: "string \<Rightarrow> string \<Rightarrow> string option" where
  "strip_prefix p s = (if starts_with s p then Some (drop (length p) s) else None)"

text \<open>\<open>url.split("://").nth(1)\<close>\<close>

definition after_scheme :: "string \<Rightarrow> string option" where
  "after_scheme url = (case split_str ''://'' url of _ # rest # _ \<Rightarrow> Some rest | _ \<Rightarrow> None)"

definition first_part :: "string \<Rightarrow> string \<Rightarrow> string" where
  "first_part sep s = (case split_str sep s of p # _ \<Rightarrow> p | [] \<Rightarrow> [])"

definition build_proxy_prefix :: "string \<Rightarrow> string" where
  "build_proxy_prefix host = ''http://'' @ host"

definition resolve_relative_path :: "string \<Rightarrow> string \<Rightarrow> string" where
  "resolve_relative_path original_url request_path =
    (let clean_path = dropWhile (\<lambda>c. c = CHR ''/'') request_path in
     if starts_with request_path ''/'' then
       (let scheme = (if starts_with original_url ''https://'' then ''https'' else ''http'');
            origin = (case after_scheme original_url of
                        Some rest \<Rightarrow>
                          (case find_char (CHR ''/'') rest of
                             Some pos \<Rightarrow> scheme @ ''://'' @ take pos rest
                           | None \<Rightarrow> scheme @ ''://'' @ rest)
                      | None \<Rightarrow> original_url)
        in trim_end_slash origin @ ''/'' @ clean_path)
     else
       (let base_dir = (case rfind_char (CHR ''/'') original_url of
                          Some pos \<Rightarrow> take (pos + 1) original_url
                        | None \<Rightarrow> original_url @ ''/'')
        in base_dir @ clean_path))"

definition split_upstream :: "string \<Rightarrow> string \<times> string" where
  "split_upstream url =
    (let rest = (case after_scheme url of Some r \<Rightarrow> r | None \<Rightarrow> url) in
     case find_char (CHR ''/'') rest of
       Some pos \<Rightarrow> (take pos rest, first_part ''?'' (drop pos rest))
     | None \<Rightarrow> (rest, ''/''))"

definition rewrite_location :: "string \<Rightarrow> string \<Rightarrow> string \<Rightarrow> string \<Rightarrow> string option" where
  "rewrite_location loc forward_url key prefix =
    (if key = [] \<or> prefix = [] then None
     else if starts_with loc ''/'' then Some (prefix @ ''/__proxy__'' @ key @ loc)
     else
       (let origin = fst (split_upstream forward_url) in
        if origin = [] then None
        else
          (let scheme = (if starts_with forward_url ''https://'' then ''https'' else ''http'');
               base = scheme @ ''://'' @ origin
           in map_option (\<lambda>rest. prefix @ ''/__proxy__'' @ key @ rest) (strip_prefix base loc))))"

section \<open>Cookie headers\<close>

definition cookie_parts :: "string \<Rightarrow> (string \<times> string) list" where
  "cookie_parts h =
    List.map_filter (\<lambda>part. map_option (\<lambda>eq. (trim (take eq part), trim (drop (eq + 1) part))) (find_char (CHR ''='') part))
      (split_str '';'' h)"

text \<open>A pair of the jar replaces the pairs of its name.\<close>

definition put_pair :: "string \<times> string \<Rightarrow> (string \<times> string) list \<Rightarrow> (string \<times> string) list" where
  "put_pair kv pairs = filter (\<lambda>p. fst p \<noteq> fst kv) pairs @ [kv]"

definition merge_cookie_headers :: "string option \<Rightarrow> string \<Rightarrow> string" where
  "merge_cookie_headers native jar =
    (let pairs = (case native of Some n \<Rightarrow> cookie_parts n | None \<Rightarrow> []);
         merged = fold put_pair (cookie_parts jar) pairs
     in join ''; '' (map (\<lambda>(k, v). k @ ''='' @ v) merged))"

section \<open>Names of downloads\<close>

text \<open>\<open>trim_matches('"')\<close>\<close>

definition trim_dquotes :: "string \<Rightarrow> string" where
  "trim_dquotes s = rev (dropWhile (\<lambda>c. c = CHR 0x22) (rev (dropWhile (\<lambda>c. c = CHR 0x22) s)))"

definition disposition_value :: "string \<Rightarrow> string" where
  "disposition_value rest = trim_dquotes (trim (first_part '';'' rest))"

text \<open>\<open>cd\<close> is the text of a header, ASCII, so the indices of its lower-case copy are its own.\<close>

definition extract_filename :: "(string \<Rightarrow> string) \<Rightarrow> (string \<Rightarrow> string option) \<Rightarrow> string \<Rightarrow> string \<Rightarrow> string" where
  "extract_filename to_lower urldecode cd url =
    (let lower = to_lower cd;
         last_segment =
           (let tr = trim_end_slash url;
                seg = (case rfind_char (CHR ''/'') tr of Some pos \<Rightarrow> drop (pos + 1) tr | None \<Rightarrow> tr)
            in if seg = [] then ''download'' else seg)
     in case find_str ''filename*='' lower of
          Some pos \<Rightarrow>
            (let val = disposition_value (drop (pos + 10) cd);
                 decoded = (case urldecode val of Some s \<Rightarrow> s | None \<Rightarrow> val)
             in case find_str (SQ @ SQ) decoded of Some eq \<Rightarrow> drop (eq + 2) decoded | None \<Rightarrow> decoded)
        | None \<Rightarrow>
            (case find_str ''filename='' lower of
               Some pos \<Rightarrow>
                 (let val = disposition_value (drop (pos + 9) cd) in if val \<noteq> [] then val else last_segment)
             | None \<Rightarrow> last_segment))"

definition sanitize_filename :: "string \<Rightarrow> string" where
  "sanitize_filename name = map (\<lambda>c. if c = CHR ''/'' \<or> c = CHR 0x5C then CHR ''_'' else c) name"

section \<open>Requests\<close>

record http_request =
  hr_method :: string
  hr_path :: string
  hr_query :: "string option"
  hr_headers :: "(string \<times> string) list"
  hr_body :: "bytes option"

text \<open>\<open>HeaderValue::to_str\<close> accepts visible ASCII, spaces and tabs.\<close>

definition to_str :: "string \<Rightarrow> string option" where
  "to_str v = (if list_all (\<lambda>c. let n = of_char c :: nat in n = 9 \<or> 32 \<le> n \<and> n < 127) v then Some v else None)"

definition hdr_str :: "string \<Rightarrow> (string \<times> string) list \<Rightarrow> string option" where
  "hdr_str name hs = Option.bind (map_of hs name) to_str"

record 'enc fwd_env =
  fw_lower :: "string \<Rightarrow> string"
  fw_form :: "string \<Rightarrow> (string \<times> string) list"
  fw_urldecode :: "string \<Rightarrow> string option"
  fw_urlencode :: "string \<Rightarrow> string"
  fw_fix_charset :: "string \<Rightarrow> string"
  fw_charset :: "string \<Rightarrow> string option"
  fw_label :: "string \<Rightarrow> 'enc option"
  fw_utf8 :: 'enc
  fw_decode :: "'enc \<Rightarrow> bytes \<Rightarrow> string"
  fw_rx :: matcher
  fw_rewrite_panics :: "string \<Rightarrow> bool"
  fw_scripts :: page_scripts
  fw_prims :: primitives
  fw_b64 :: "bytes \<Rightarrow> string"
  fw_chrono :: chrono
  fw_app :: bool

text \<open>The pairs of a query collected into a \<open>HashMap\<close>: the last one of a name counts.\<close>

definition query_param :: "'enc fwd_env \<Rightarrow> string \<Rightarrow> string \<Rightarrow> string option" where
  "query_param E query name = map_of (rev (fw_form E query)) name"

definition forward_can_handle :: "'enc fwd_env \<Rightarrow> http_request \<Rightarrow> bool" where
  "forward_can_handle E req \<longleftrightarrow>
    starts_with (hr_path req) ''/__proxy__''
    \<or> query_param E (case hr_query req of Some q \<Rightarrow> q | None \<Rightarrow> []) ''url'' \<noteq> None
    \<or> hr_method req = ''GET'' \<and>
       ((case hdr_str ''referer'' (hr_headers req) of
           Some r \<Rightarrow> contains_str r ''/proxy?url='' \<or> contains_str r ''/__proxy__''
         | None \<Rightarrow> False)
        \<or> hr_path req \<noteq> ''/proxy'' \<and> hr_path req \<noteq> ''/'')"

section \<open>Targets\<close>

record forward_state =
  fs_keys :: "(string, string) hmap"
  fs_active :: "string option"

datatype fwd_target =
    ForwardTo (ft_url: string) (ft_source: string) (ft_key: string)
  | PassTo string
  | NoTarget string
  | UnknownKey string

definition key_end_of :: "string \<Rightarrow> nat" where
  "key_end_of rest =
    (case find_char (CHR ''/'') rest of
       Some i \<Rightarrow> i
     | None \<Rightarrow> (case find_char (CHR ''?'') rest of Some i \<Rightarrow> i | None \<Rightarrow> length rest))"

definition is_http :: "string \<Rightarrow> bool" where
  "is_http url \<longleftrightarrow> starts_with url ''http://'' \<or> starts_with url ''https://''"

definition full_path :: "http_request \<Rightarrow> string" where
  "full_path req = (case hr_query req of Some q \<Rightarrow> hr_path req @ ''?'' @ q | None \<Rightarrow> hr_path req)"

definition handle_proxy_request :: "'enc fwd_env \<Rightarrow> http_request \<Rightarrow> string \<Rightarrow> forward_state \<Rightarrow> fwd_target \<times> forward_state" where
  "handle_proxy_request E req rest st =
    (let key_end = key_end_of rest;
         key = take key_end rest
     in case hm_get (fs_keys st) key of
          None \<Rightarrow> (UnknownKey key, st)
        | Some source_url \<Rightarrow>
           (let tail = drop key_end rest;
                forward_url =
                  (if starts_with tail ''?''
                   then (case query_param E (drop 1 tail) ''url'' of Some v \<Rightarrow> v | None \<Rightarrow> source_url)
                   else (case find_char (CHR ''/'') tail of
                           Some spos \<Rightarrow>
                             trim_end_slash source_url @ first_part ''?'' (drop spos tail) @
                             (case hr_query req of Some q \<Rightarrow> ''?'' @ q | None \<Rightarrow> [])
                         | None \<Rightarrow> source_url))
            in (ForwardTo forward_url source_url key, st\<lparr>fs_active := Some source_url\<rparr>)))"

text \<open>The last resort is the active source; a source without a scheme is used as it is.\<close>

definition active_target :: "http_request \<Rightarrow> forward_state \<Rightarrow> string + string" where
  "active_target req st =
    (case fs_active st of
       Some origin \<Rightarrow>
         (let upstream = resolve_relative_path origin (full_path req) in Inr (if is_http upstream then upstream else origin))
     | None \<Rightarrow> Inl ''No target found (no Referer and no active origin)'')"

definition keyed_target :: "http_request \<Rightarrow> string \<Rightarrow> forward_state \<Rightarrow> string option" where
  "keyed_target req referer st =
    (case find_str ''/__proxy__'' referer of
       None \<Rightarrow> None
     | Some pos \<Rightarrow>
        (let rest = drop (pos + 10) referer in
         case hm_get (fs_keys st) (take (key_end_of rest) rest) of
           None \<Rightarrow> None
         | Some source \<Rightarrow>
            (let upstream = resolve_relative_path source (full_path req) in if is_http upstream then Some upstream else None)))"

definition resolve_target :: "'enc fwd_env \<Rightarrow> http_request \<Rightarrow> forward_state \<Rightarrow> string + string" where
  "resolve_target E req st =
    (case hdr_str ''referer'' (hr_headers req) of
       None \<Rightarrow> active_target req st
     | Some referer \<Rightarrow>
        (let next = (case keyed_target req referer st of Some u \<Rightarrow> Inr u | None \<Rightarrow> active_target req st) in
         case find_str ''/proxy?url='' referer of
           None \<Rightarrow> next
         | Some pos \<Rightarrow>
            (case fw_urldecode E (drop (pos + 11) referer) of
               None \<Rightarrow> Inl ''Failed to decode Referer URL''
             | Some decoded \<Rightarrow>
                (let upstream = resolve_relative_path decoded (full_path req) in if is_http upstream then Inr upstream else next))))"

definition forward_route :: "'enc fwd_env \<Rightarrow> http_request \<Rightarrow> forward_state \<Rightarrow> fwd_target \<times> forward_state" where
  "forward_route E req st =
    (case strip_prefix ''/__proxy__'' (hr_path req) of
       Some rest \<Rightarrow> handle_proxy_request E req rest st
     | None \<Rightarrow>
        (case query_param E (case hr_query req of Some q \<Rightarrow> q | None \<Rightarrow> []) ''url'' of
           Some target_url \<Rightarrow> (ForwardTo target_url target_url [], st\<lparr>fs_active := Some target_url\<rparr>)
         | None \<Rightarrow>
            (case resolve_target E req st of
               Inl e \<Rightarrow> (NoTarget e, st)
             | Inr target \<Rightarrow> (PassTo target, st\<lparr>fs_active := Some target\<rparr>))))"

section \<open>The upstream\<close>

record outgoing =
  og_method :: string
  og_url :: string
  og_headers :: "(string \<times> string) list"
  og_body :: "bytes option"

record upstream =
  up_status :: nat
  up_headers :: "(string \<times> string) list"
  up_bytes :: "bytes option"

record send_error =
  se_connect :: bool
  se_request :: bool
  se_timeout :: bool
  se_is_status :: bool
  se_text :: string

datatype body = FullBody bytes | StreamBody upstream

record proxy_response =
  ps_status :: nat
  ps_headers :: "(string \<times> string) list"
  ps_body :: body

definition text_response :: "nat \<Rightarrow> string \<Rightarrow> proxy_response" where
  "text_response status txt =
    \<lparr>ps_status = status, ps_headers = [(''content-type'', ''text/plain; charset=utf-8'')], ps_body = FullBody (as_bytes txt)\<rparr>"

definition hop_by_hop :: "string list" where
  "hop_by_hop = [''host'', ''connection'', ''keep-alive'', ''proxy-authenticate'', ''proxy-authorization'', ''te'', ''trailers'',
     ''transfer-encoding'', ''upgrade'']"

definition headers_to_forward :: "'enc fwd_env \<Rightarrow> http_request \<Rightarrow> (string \<times> string) list" where
  "headers_to_forward E req =
    List.map_filter (\<lambda>(key, value).
        let key_lower = fw_lower E key in
        if key_lower \<notin> set hop_by_hop \<and> key_lower \<noteq> ''content-length'' then map_option (Pair key) (to_str value) else None)
      (hr_headers req)"

definition request_body :: "http_request \<Rightarrow> bytes" where
  "request_body req = (case hr_body req of Some b \<Rightarrow> b | None \<Rightarrow> [])"

definition outgoing_request :: "http_request \<Rightarrow> string \<Rightarrow> (string \<times> string) list \<Rightarrow> outgoing" where
  "outgoing_request req url headers =
    (let m = hr_method req in
     if m \<in> {''POST'', ''PUT'', ''PATCH''} then \<lparr>og_method = m, og_url = url, og_headers = headers, og_body = Some (request_body req)\<rparr>
     else if m \<in> {''GET'', ''DELETE'', ''HEAD'', ''OPTIONS''} then \<lparr>og_method = m, og_url = url, og_headers = headers, og_body = None\<rparr>
     else \<lparr>og_method = ''GET'', og_url = url, og_headers = headers, og_body = None\<rparr>)"

definition MOBILE_UA :: string where
  "MOBILE_UA = ''Mozilla/5.0 (Linux; Android 14; Pixel 8) AppleWebKit/537.36 (KHTML, like Gecko) Chrome/126.0.0.0 Mobile Safari/537.36''"

definition emulate_ua :: "(string \<times> string) list \<Rightarrow> (string \<times> string) list" where
  "emulate_ua hs =
    (let replaced = (\<exists>h \<in> set hs. eq_ignore_ascii_case (fst h) ''user-agent'');
         hs' = map (\<lambda>(k, v). if eq_ignore_ascii_case k ''user-agent'' then (k, MOBILE_UA) else (k, v)) hs
     in if replaced then hs' else hs' @ [(''user-agent'', MOBILE_UA)])"

section \<open>Retries\<close>

definition MAX_RETRIES :: nat where "MAX_RETRIES = 2"
definition RETRY_BASE_MS :: nat where "RETRY_BASE_MS = 2000"

text \<open>
  The loop of both engines. \<open>send n\<close> is the outcome of the attempt after \<open>n\<close> retries, \<open>can_retry\<close> whether the request
  could be cloned; the result comes with the delays that were waited.
\<close>

function send_loop :: "(nat \<Rightarrow> send_error + upstream) \<Rightarrow> bool \<Rightarrow> nat \<Rightarrow> (send_error + upstream) \<times> nat list" where
  "send_loop send can_retry attempt =
    (case send attempt of
       Inr up \<Rightarrow> (Inr up, [])
     | Inl e \<Rightarrow>
        (if (se_connect e \<or> se_request e \<or> se_timeout e) \<and> can_retry \<and> attempt < MAX_RETRIES
         then (let (r, ds) = send_loop send can_retry (attempt + 1) in (r, RETRY_BASE_MS * 2 ^ attempt # ds))
         else (Inl e, [])))"
  by pat_completeness auto
termination
  by (relation "measure (\<lambda>(send, c, n). MAX_RETRIES - n)") auto

declare send_loop.simps [simp del]

section \<open>Passing through\<close>

definition static_suffixes :: "string list" where
  "static_suffixes = [''.css'', ''.js'', ''.mjs'', ''.woff'', ''.woff2'', ''.ttf'', ''.eot'', ''.svg'', ''.png'', ''.jpg'', ''.jpeg'', ''.gif'',
     ''.webp'', ''.ico'']"

definition passthrough_request :: "'enc fwd_env \<Rightarrow> http_request \<Rightarrow> string \<Rightarrow> proxy_globals \<Rightarrow> outgoing" where
  "passthrough_request E req target_url g =
    outgoing_request req target_url
      (headers_to_forward E req @ (if device_mode g = ''mobile'' then [(''user-agent'', MOBILE_UA)] else []))"

definition passthrough_answer :: "'enc fwd_env \<Rightarrow> http_request \<Rightarrow> upstream \<Rightarrow> proxy_response" where
  "passthrough_answer E req up =
    (let req_path = fw_lower E (hr_path req);
         headers = filter (\<lambda>(k, v). fw_lower E k \<notin> {''content-length'', ''transfer-encoding'', ''content-encoding''}) (up_headers up);
         html = (case hdr_str ''content-type'' (up_headers up) of Some ct \<Rightarrow> contains_str ct ''text/html'' | None \<Rightarrow> False)
     in if up_status up = 304 \<or> up_status up = 204
        then \<lparr>ps_status = up_status up, ps_headers = headers, ps_body = FullBody []\<rparr>
        else if (\<exists>s \<in> set static_suffixes. ends_with req_path s) \<and> html
        then text_response 502 (''Upstream returned HTML for static asset '' @ req_path @ '' (status '' @ dec (up_status up) @ '')'')
        else \<lparr>ps_status = up_status up, ps_headers = headers, ps_body = StreamBody up\<rparr>)"

definition passthrough ::
  "'enc fwd_env \<Rightarrow> (outgoing \<Rightarrow> nat \<Rightarrow> send_error + upstream) \<Rightarrow> bool \<Rightarrow> http_request \<Rightarrow> string \<Rightarrow> proxy_globals \<Rightarrow> proxy_response" where
  "passthrough E client clonable req target_url g =
    (case fst (send_loop (client (passthrough_request E req target_url g)) clonable 0) of
       Inr up \<Rightarrow> passthrough_answer E req up
     | Inl e \<Rightarrow> text_response 502 (''Passthrough request failed: '' @ se_text e))"

section \<open>Forwarding\<close>

text \<open>The request to the upstream: cookies of the jar are merged into those of the browser.\<close>

definition merge_jar_cookies :: "string option \<Rightarrow> (string \<times> string) list \<Rightarrow> (string \<times> string) list" where
  "merge_jar_cookies jar_cookie hs =
    (case jar_cookie of
       None \<Rightarrow> hs
     | Some jc \<Rightarrow>
        (let native = map_option snd (List.find (\<lambda>(k, v). eq_ignore_ascii_case k ''cookie'') hs)
         in filter (\<lambda>(k, v). \<not> eq_ignore_ascii_case k ''cookie'') hs @ [(''cookie'', merge_cookie_headers native jc)]))"

definition forward_request ::
  "'enc fwd_env \<Rightarrow> u64 \<Rightarrow> http_request \<Rightarrow> string \<Rightarrow> proxy_globals \<Rightarrow> outgoing \<times> proxy_globals" where
  "forward_request E now req forward_url g =
    (let hs0 = headers_to_forward E req;
         hs = (if device_mode g = ''mobile'' then emulate_ua hs0 else hs0);
         (upstream_origin, upstream_path) = split_upstream forward_url
     in if upstream_origin = [] then (outgoing_request req forward_url hs, g)
        else
          (let (jar_cookie, g1) = with_jar upstream_origin (build_cookie_header now upstream_origin upstream_path) g
           in (outgoing_request req forward_url (merge_jar_cookies jar_cookie hs), g1)))"

text \<open>The cookies an answer sets; the clock is read three times for each.\<close>

definition set_cookie_values :: "upstream \<Rightarrow> string list" where
  "set_cookie_values up = List.map_filter (\<lambda>(k, v). if k = ''set-cookie'' then to_str v else None) (up_headers up)"

fun capture_all :: "chrono \<Rightarrow> (nat \<Rightarrow> u64 \<times> u64 \<times> u64) \<Rightarrow> string \<Rightarrow> string list \<Rightarrow> proxy_globals \<Rightarrow> proxy_globals" where
  "capture_all C clock origin [] g = g"
| "capture_all C clock origin (v # vs) g =
    (let (now0, now, now_epoch) = clock (length vs) in capture_all C clock origin vs (capture_cookie C now0 now now_epoch origin v g))"

definition answer_header :: "'enc fwd_env \<Rightarrow> string \<Rightarrow> string \<Rightarrow> string \<Rightarrow> string \<times> string \<Rightarrow> (string \<times> string) option" where
  "answer_header E forward_url proxy_key prefix kv =
    (let (key, value) = kv; key_lower = fw_lower E key in
     if key_lower \<in> {''content-length'', ''transfer-encoding'', ''content-encoding'', ''x-content-type-options''} then None
     else if key_lower = ''content-type'' then Some (key, case to_str value of Some v \<Rightarrow> fw_fix_charset E v | None \<Rightarrow> value)
     else if key_lower = ''location'' then
       Some (key, case Option.bind (to_str value) (\<lambda>v. rewrite_location v forward_url proxy_key prefix) of Some new_loc \<Rightarrow> new_loc | None \<Rightarrow> value)
     else Some (key, value))"

definition displayable_types :: "string list" where
  "displayable_types = [''text/html'', ''text/css'', ''application/javascript'', ''application/json'', ''application/xml'', ''text/xml'', ''font/'',
     ''image/'', ''audio/'', ''video/'']"

definition download_types :: "string list" where
  "download_types = [''application/octet-stream'', ''application/zip'', ''application/x-zip'', ''application/pdf'', ''application/vnd.'',
     ''application/x-msdownload'', ''application/x-7z'', ''application/x-rar'', ''application/x-tar'', ''application/gzip'']"

definition is_download :: "'enc fwd_env \<Rightarrow> upstream \<Rightarrow> bool" where
  "is_download E up \<longleftrightarrow>
    (let content_type = fw_lower E (case hdr_str ''content-type'' (up_headers up) of Some c \<Rightarrow> c | None \<Rightarrow> []);
         cd_lower = (case hdr_str ''content-disposition'' (up_headers up) of Some cd \<Rightarrow> fw_lower E cd | None \<Rightarrow> [])
     in contains_str cd_lower ''attachment'' \<and> \<not> contains_str cd_lower ''inline'' \<and> \<not> (\<exists>t \<in> set displayable_types. contains_str content_type t)
        \<or> (\<exists>t \<in> set download_types. contains_str content_type t))"

definition needs_rewrite :: "'enc fwd_env \<Rightarrow> bool \<Rightarrow> string \<Rightarrow> upstream \<Rightarrow> bool" where
  "needs_rewrite E should_rewrite prefix up \<longleftrightarrow>
    (let content_type = fw_lower E (case hdr_str ''content-type'' (up_headers up) of Some c \<Rightarrow> c | None \<Rightarrow> [])
     in should_rewrite \<and> prefix \<noteq> [] \<and> classify_content (fw_lower E) content_type \<noteq> NoRewrite
        \<and> \<not> contains_str content_type ''text/event-stream'' \<and> up_status up \<noteq> 304 \<and> \<not> (300 \<le> up_status up \<and> up_status up < 400))"

text \<open>Where a download is saved.\<close>

definition download_path :: "'enc fwd_env \<Rightarrow> string \<Rightarrow> string \<Rightarrow> upstream \<Rightarrow> string" where
  "download_path E dir forward_url up =
    (let raw_name = (case hdr_str ''content-disposition'' (up_headers up) of
                       Some cd \<Rightarrow> extract_filename (fw_lower E) (fw_urldecode E) cd forward_url
                     | None \<Rightarrow> forward_url)
     in dir @ ''/'' @ sanitize_filename raw_name)"

definition upstream_bytes :: "upstream \<Rightarrow> bytes" where
  "upstream_bytes up = (case up_bytes up of Some b \<Rightarrow> b | None \<Rightarrow> [])"

text \<open>\<open>HeaderValue::from_str\<close>\<close>

definition header_value_ok :: "string \<Rightarrow> bool" where
  "header_value_ok v \<longleftrightarrow> list_all (\<lambda>c. let n = of_char c :: nat in n = 9 \<or> 32 \<le> n \<and> n \<noteq> 127) v"

definition override_csp :: "string option \<Rightarrow> (string \<times> string) list \<Rightarrow> (string \<times> string) list" where
  "override_csp csp hs =
    (case csp of
       None \<Rightarrow> hs
     | Some v \<Rightarrow>
        (if v = [] then filter (\<lambda>(k, w). k \<noteq> ''content-security-policy'') hs
         else if header_value_ok v then filter (\<lambda>(k, w). k \<noteq> ''content-security-policy'') hs @ [(''content-security-policy'', v)]
         else hs))"

text \<open>The body of a page, rewritten and with the script, its extra headers and the new policy; \<open>None\<close> when the insertion panics.\<close>

definition rewritten_page ::
  "'enc fwd_env \<Rightarrow> string \<Rightarrow> string \<Rightarrow> string \<Rightarrow> string \<Rightarrow> upstream \<Rightarrow> proxy_globals \<Rightarrow> ((string \<times> string) list \<times> bytes \<times> string option) option" where
  "rewritten_page E prefix forward_url source_url proxy_key up g =
    (let content_type = fw_lower E (case hdr_str ''content-type'' (up_headers up) of Some c \<Rightarrow> c | None \<Rightarrow> []);
         target = classify_content (fw_lower E) content_type;
         body_bytes = upstream_bytes up;
         url_lower = fw_lower E forward_url;
         mime = (if (contains_str url_lower ''.cgi'' \<or> contains_str url_lower ''.php'') \<and> contains_str content_type ''text/html''
                    \<and> \<not> starts_with_bytes body_bytes ''<''
                 then [(''content-type'', ''application/javascript; charset=utf-8'')] else []);
         body_str = fw_decode E (detect_charset (fw_charset E) (fw_label E) (fw_utf8 E) content_type) body_bytes;
         W = \<lparr>rw_base_url = forward_url, rw_prefix = prefix, rw_key = proxy_key, rw_urlenc = fw_urlencode E\<rparr>
     in if fw_rewrite_panics E body_str
        then Some (mime @ [(''content-length'', dec (length body_bytes))], body_bytes, None)
        else
          (let new_bytes = as_bytes (rewrite_urls (fw_rx E) W target body_str)
           in if target = Html \<and> looks_like_html_body new_bytes
              then (case inject_local_http_script (fw_scripts E) (fw_prims E) (fw_b64 E) (fw_lower E) new_bytes (device_mode g = ''mobile'') proxy_key source_url of
                      None \<Rightarrow> None
                    | Some (injected, hash) \<Rightarrow>
                        Some (mime @ [(''content-length'', dec (length injected))], injected,
                              if hash = [] then None
                              else Option.bind (hdr_str ''content-security-policy'' (up_headers up))
                                     (\<lambda>csp. relax_csp csp hash [''ws://127.0.0.1:'' @ dec (unat (proxy_port g))])))
              else Some (mime @ [(''content-length'', dec (length new_bytes))], new_bytes, None)))"

text \<open>The answer, the files whose writing was started, and the paths announced to the front end.\<close>

definition forward_answer ::
  "'enc fwd_env \<Rightarrow> bool \<Rightarrow> string \<Rightarrow> string \<Rightarrow> string \<Rightarrow> string \<Rightarrow> upstream \<Rightarrow> proxy_globals \<Rightarrow>
   proxy_response option \<times> (string \<times> bytes) list \<times> proxy_globals" where
  "forward_answer E should_rewrite prefix forward_url source_url proxy_key up g =
    (let headers = List.map_filter (answer_header E forward_url proxy_key prefix) (up_headers up) in
     if needs_rewrite E should_rewrite prefix up then
       (case rewritten_page E prefix forward_url source_url proxy_key up g of
          None \<Rightarrow> (None, [], g)
        | Some (extra, bytes, csp) \<Rightarrow>
           (Some \<lparr>ps_status = up_status up, ps_headers = override_csp csp (headers @ extra), ps_body = FullBody bytes\<rparr>, [], g))
     else if up_status up = 304 \<or> up_status up = 204 then
       (Some \<lparr>ps_status = up_status up, ps_headers = headers, ps_body = FullBody []\<rparr>, [], g)
     else if is_download E up then
       (let bytes = upstream_bytes up;
            resp = \<lparr>ps_status = up_status up, ps_headers = headers @ [(''content-length'', dec (length bytes))], ps_body = FullBody bytes\<rparr>
        in case pg_download_dir g of
             None \<Rightarrow> (Some resp, [], g)
           | Some dir \<Rightarrow>
              (let saved_path = download_path E dir forward_url up
               in (Some resp, [(saved_path, bytes)], g\<lparr>pg_pending := pg_pending g @ [saved_path]\<rparr>)))
     else (Some \<lparr>ps_status = up_status up, ps_headers = headers, ps_body = StreamBody up\<rparr>, [], g))"

definition forward_error :: "string \<Rightarrow> send_error \<Rightarrow> string" where
  "forward_error forward_url e =
    (if se_connect e then (if se_timeout e then ''connect_timeout to '' else ''connect_failed to '') @ forward_url
     else if se_request e then ''request_failed (possibly DNS) to '' @ forward_url
     else if se_is_status e then ''status_error to '' @ forward_url
     else ''unknown_error to '' @ forward_url @ '': '' @ se_text e)"

text \<open>Progress is reported for the document itself, not for its parts.\<close>

definition reports_progress :: "'enc fwd_env \<Rightarrow> http_request \<Rightarrow> string \<Rightarrow> bool" where
  "reports_progress E req proxy_key \<longleftrightarrow>
    (case hdr_str ''accept'' (hr_headers req) of Some a \<Rightarrow> contains_str a ''text/html'' | None \<Rightarrow> False) \<and> proxy_key \<noteq> [] \<and> fw_app E"

record forward_outcome =
  fo_response :: "proxy_response option"
  fo_writes :: "(string \<times> bytes) list"
  fo_progress :: "(string \<times> string option) list"
  fo_delays :: "nat list"

definition forward ::
  "'enc fwd_env \<Rightarrow> u64 \<Rightarrow> (nat \<Rightarrow> u64 \<times> u64 \<times> u64) \<Rightarrow> (outgoing \<Rightarrow> nat \<Rightarrow> send_error + upstream) \<Rightarrow> bool \<Rightarrow>
   http_request \<Rightarrow> string \<Rightarrow> string \<Rightarrow> string \<Rightarrow> bool \<Rightarrow> proxy_globals \<Rightarrow> forward_outcome \<times> proxy_globals" where
  "forward E now clock client clonable req forward_url source_url proxy_key should_rewrite g =
    (let emit = (\<lambda>es. if reports_progress E req proxy_key then es else []);
         prefix = (case hdr_str ''host'' (hr_headers req) of Some h \<Rightarrow> build_proxy_prefix h | None \<Rightarrow> []);
         (og, g1) = forward_request E now req forward_url g;
         (result, delays) = send_loop (client og) clonable 0
     in case result of
          Inl e \<Rightarrow>
            (let err = forward_error forward_url e
             in (\<lparr>fo_response = Some (text_response 502 (''Proxy request failed: '' @ err)), fo_writes = [],
                  fo_progress = emit [(''connecting'', None), (''fetching'', None), (''error'', Some err)], fo_delays = delays\<rparr>, g1))
        | Inr up \<Rightarrow>
            (let origin = fst (split_upstream forward_url);
                 g2 = (if origin = [] then g1 else capture_all (fw_chrono E) clock origin (set_cookie_values up) g1);
                 (resp, writes, g3) = forward_answer E should_rewrite prefix forward_url source_url proxy_key up g2
             in (\<lparr>fo_response = resp, fo_writes = writes,
                  fo_progress = emit ([(''connecting'', None), (''fetching'', None), (''processing'', None)] @ (if resp = None then [] else [(''ready'', None)])),
                  fo_delays = delays\<rparr>, g3)))"

text \<open>The whole handler: the handler error of an unknown key is turned into an answer by the plugin chain.\<close>

definition forward_handle ::
  "'enc fwd_env \<Rightarrow> u64 \<Rightarrow> (nat \<Rightarrow> u64 \<times> u64 \<times> u64) \<Rightarrow> (outgoing \<Rightarrow> nat \<Rightarrow> send_error + upstream) \<Rightarrow> bool \<Rightarrow>
   http_request \<Rightarrow> bool \<Rightarrow> forward_state \<times> proxy_globals \<Rightarrow> (string + forward_outcome) \<times> forward_state \<times> proxy_globals" where
  "forward_handle E now clock client clonable req should_rewrite sg =
    (let (st, g) = sg; (target, st') = forward_route E req st;
         plain = (\<lambda>r. \<lparr>fo_response = Some r, fo_writes = [], fo_progress = [], fo_delays = []\<rparr>)
     in case target of
          ForwardTo url source key \<Rightarrow>
            (let (out, g') = forward E now clock client clonable req url source key should_rewrite g in (Inr out, st', g'))
        | PassTo url \<Rightarrow> (Inr (plain (passthrough E client clonable req url g)), st', g)
        | NoTarget e \<Rightarrow> (Inr (plain (text_response 404 (''no upstream target: '' @ e))), st', g)
        | UnknownKey key \<Rightarrow> (Inl (''Proxy key not found: '' @ key), st', g))"

section \<open>Links of a page\<close>

text \<open>
  What a browser asks the proxy for when it follows a link to \<open>prefix @ r\<close>: the fragment stays in the browser, the
  text behind the first question mark is the query.
\<close>

definition proxy_get :: "string \<Rightarrow> http_request" where
  "proxy_get r =
    (let r' = takeWhile (\<lambda>c. c \<noteq> CHR ''#'') r in
     case find_char (CHR ''?'') r' of
       None \<Rightarrow> \<lparr>hr_method = ''GET'', hr_path = r', hr_query = None, hr_headers = [], hr_body = Some []\<rparr>
     | Some i \<Rightarrow> \<lparr>hr_method = ''GET'', hr_path = take i r', hr_query = Some (drop (i + 1) r'), hr_headers = [], hr_body = Some []\<rparr>)"

lemma find_char_notin [simp]: "c \<notin> set s \<Longrightarrow> find_char c s = None"
  by simp

lemma first_part_char: "c \<notin> set s \<Longrightarrow> first_part [c] s = s"
  by (simp add: first_part_def split_str.simps find_str_char)

lemma proxy_get_plain:
  "CHR ''#'' \<notin> set r \<Longrightarrow> CHR ''?'' \<notin> set r \<Longrightarrow> hr_path (proxy_get r) = r \<and> hr_query (proxy_get r) = None"
proof -
  assume a: "CHR ''#'' \<notin> set r" "CHR ''?'' \<notin> set r"
  then have "takeWhile (\<lambda>c. c \<noteq> CHR ''#'') r = r" by (auto simp only: takeWhile_eq_all_conv)
  with a(2) show ?thesis by (simp only: proxy_get_def Let_def find_char_notin) simp
qed

lemma proxy_get_query:
  assumes "CHR ''#'' \<notin> set a" and "CHR ''?'' \<notin> set a"
  shows "hr_path (proxy_get (a @ CHR ''?'' # b)) = a"
    and "hr_query (proxy_get (a @ CHR ''?'' # b)) = Some (takeWhile (\<lambda>c. c \<noteq> CHR ''#'') b)"
proof -
  have "takeWhile (\<lambda>c. c \<noteq> CHR ''#'') (a @ CHR ''?'' # b) = a @ CHR ''?'' # takeWhile (\<lambda>c. c \<noteq> CHR ''#'') b"
    using assms(1) by (induction a) auto
  then show "hr_path (proxy_get (a @ CHR ''?'' # b)) = a"
    "hr_query (proxy_get (a @ CHR ''?'' # b)) = Some (takeWhile (\<lambda>c. c \<noteq> CHR ''#'') b)"
    using find_char_append [OF assms(2)] by (simp_all add: proxy_get_def Let_def)
qed

text \<open>A key as \<open>register_proxy_key\<close> makes it: hexadecimal digits, so none of the delimiters of a URL.\<close>

definition key_ok :: "string \<Rightarrow> bool" where
  "key_ok key \<longleftrightarrow> key \<noteq> [] \<and> CHR ''/'' \<notin> set key \<and> CHR ''?'' \<notin> set key \<and> CHR ''#'' \<notin> set key"

lemma strip_prefix_append [simp]: "strip_prefix p (p @ s) = Some s"
  by (simp add: strip_prefix_def)

lemma key_end_of_path: "CHR ''/'' \<notin> set key \<Longrightarrow> key_end_of (key @ CHR ''/'' # s) = length key"
  by (simp add: key_end_of_def find_char_append)

lemma key_end_of_bare: "key_ok key \<Longrightarrow> key_end_of key = length key"
  by (simp add: key_end_of_def key_ok_def)

lemma route_keyed_path:
  assumes "hr_path req = ''/__proxy__'' @ key @ CHR ''/'' # a" and "key_ok key" and "CHR ''?'' \<notin> set a"
    and "hm_get (fs_keys st) key = Some source"
  shows "fst (forward_route E req st) =
    ForwardTo (trim_end_slash source @ CHR ''/'' # a @ (case hr_query req of Some q \<Rightarrow> ''?'' @ q | None \<Rightarrow> [])) source key"
proof -
  have "strip_prefix ''/__proxy__'' (hr_path req) = Some (key @ CHR ''/'' # a)"
    unfolding assms(1) by (rule strip_prefix_append)
  moreover have "first_part ''?'' (CHR ''/'' # a) = CHR ''/'' # a" using assms(3) by (intro first_part_char) simp
  ultimately show ?thesis using assms(2,4)
    by (simp add: forward_route_def handle_proxy_request_def Let_def key_end_of_path key_ok_def)
qed

lemma route_keyed_bare:
  assumes "hr_path req = ''/__proxy__'' @ key" and "key_ok key" and "hm_get (fs_keys st) key = Some source"
  shows "fst (forward_route E req st) = ForwardTo source source key"
proof -
  have "strip_prefix ''/__proxy__'' (hr_path req) = Some key"
    unfolding assms(1) by (rule strip_prefix_append)
  with assms(2,3) show ?thesis by (simp add: forward_route_def handle_proxy_request_def Let_def key_end_of_bare)
qed

text \<open>
  A link of a page to its own origin reaches the address it was written for exactly when the registered source
  of the page is an origin. The rewritten link, requested through the proxy, is forwarded to the source followed by
  the path and query of the link; a source with a path of its own is put in front of it once more.
\<close>

theorem same_origin_link_forwarded:
  assumes "key_ok (rw_key W)" and "hm_get (fs_keys st) (rw_key W) = Some source"
    and "extract_origin url = base_origin (rw_base_url W)" and "url = extract_origin url @ CHR ''/'' # p" and "CHR ''#'' \<notin> set p"
  shows "\<exists>r. encode_proxy W url = rw_prefix W @ r \<and>
    ft_url (fst (forward_route E (proxy_get r) st)) = trim_end_slash source @ CHR ''/'' # p \<and>
    (ft_url (fst (forward_route E (proxy_get r) st)) = url \<longleftrightarrow> trim_end_slash source = extract_origin url)"
proof -
  let ?r = "''/__proxy__'' @ rw_key W @ CHR ''/'' # p"
  have d: "drop (length (extract_origin url)) url = CHR ''/'' # p" by (metis assms(4) append_eq_conv_conj)
  have e: "encode_proxy W url = rw_prefix W @ ?r"
    using assms(1,3) d by (simp add: encode_proxy_def key_ok_def)
  have "ft_url (fst (forward_route E (proxy_get ?r) st)) = trim_end_slash source @ CHR ''/'' # p"
  proof (cases "CHR ''?'' \<in> set p")
    case False
    then have "CHR ''#'' \<notin> set ?r" "CHR ''?'' \<notin> set ?r" using assms(1,5) by (simp_all add: key_ok_def)
    note q = proxy_get_plain [OF this]
    with route_keyed_path [OF q [THEN conjunct1] assms(1) False assms(2), of E] show ?thesis by simp
  next
    case True
    then obtain a b where p: "p = a @ CHR ''?'' # b" "CHR ''?'' \<notin> set a" by (metis split_list_first)
    have r: "?r = (''/__proxy__'' @ rw_key W @ CHR ''/'' # a) @ CHR ''?'' # b" by (simp add: p(1))
    have "CHR ''#'' \<notin> set (''/__proxy__'' @ rw_key W @ CHR ''/'' # a)" "CHR ''?'' \<notin> set (''/__proxy__'' @ rw_key W @ CHR ''/'' # a)"
      using assms(1,5) p by (simp_all add: key_ok_def)
    note q = proxy_get_query [OF this, of b]
    have "takeWhile (\<lambda>c. c \<noteq> CHR ''#'') b = b" using assms(5) by (auto simp: p(1) takeWhile_eq_all_conv)
    with route_keyed_path [OF q(1) assms(1) p(2) assms(2), of E] q(2) show ?thesis unfolding r by (simp add: p(1))
  qed
  moreover from this have "(trim_end_slash source @ CHR ''/'' # p = url) \<longleftrightarrow> trim_end_slash source = extract_origin url"
    by (metis assms(4) append_same_eq)
  ultimately show ?thesis using e by metis
qed

text \<open>
  A link to another origin never gets there. The rewriter puts its address into the query, and the forwarder looks
  for it in the path, which has no query any more: whatever the link was, the source of the page is fetched again.
\<close>

theorem cross_origin_link_lost:
  assumes "key_ok (rw_key W)" and "hm_get (fs_keys st) (rw_key W) = Some source"
    and "extract_origin url \<noteq> base_origin (rw_base_url W)"
  shows "\<exists>r. encode_proxy W url = rw_prefix W @ r \<and> fst (forward_route E (proxy_get r) st) = ForwardTo source source (rw_key W)"
proof -
  let ?b = "''url='' @ rw_urlenc W url"
  let ?r = "(''/__proxy__'' @ rw_key W) @ CHR ''?'' # ?b"
  have "encode_proxy W url = rw_prefix W @ ?r"
    using assms(1,3) by (simp add: encode_proxy_def key_ok_def)
  moreover have "CHR ''#'' \<notin> set (''/__proxy__'' @ rw_key W)" "CHR ''?'' \<notin> set (''/__proxy__'' @ rw_key W)"
    using assms(1) by (simp_all add: key_ok_def)
  note proxy_get_query(1) [OF this, of ?b]
  ultimately show ?thesis using route_keyed_bare [OF _ assms(1,2)] by blast
qed

definition env_toy :: "unit fwd_env" where
  "env_toy = \<lparr>fw_lower = map ascii_lower, fw_form = \<lambda>q. if q = [] then [] else [(''q'', q)], fw_urldecode = Some, fw_urlencode = id,
     fw_fix_charset = id, fw_charset = \<lambda>_. None, fw_label = \<lambda>_. None, fw_utf8 = (), fw_decode = \<lambda>_. of_bytes,
     fw_rx = \<lambda>_ t. [Lit t], fw_rewrite_panics = \<lambda>_. False, fw_scripts = scripts_toy, fw_prims = primitives_toy,
     fw_b64 = \<lambda>_. ''h'', fw_chrono = chrono_toy, fw_app = True\<rparr>"

definition page_toy :: rewriter where
  "page_toy = \<lparr>rw_base_url = ''http://nas/app/'', rw_prefix = ''http://127.0.0.1:9'', rw_key = ''ab12'', rw_urlenc = id\<rparr>"

definition keys_toy :: forward_state where
  "keys_toy = \<lparr>fs_keys = [(''ab12'', ''http://nas/app/'')], fs_active = None\<rparr>"

lemma page_toy_simps:
  "key_ok (rw_key page_toy)" "hm_get (fs_keys keys_toy) (rw_key page_toy) = Some ''http://nas/app/''"
  "base_origin (rw_base_url page_toy) = ''http://nas''" "extract_origin ''http://nas/x?y=1'' = ''http://nas''"
  "extract_origin ''http://cdn/lib.js'' = ''http://cdn''"
  by code_simp+

theorem same_origin_link_forwarded_witness:
  "\<exists>r. encode_proxy page_toy ''http://nas/x?y=1'' = rw_prefix page_toy @ r \<and>
    ft_url (fst (forward_route env_toy (proxy_get r) keys_toy)) = ''http://nas/app/x?y=1'' \<and>
    ft_url (fst (forward_route env_toy (proxy_get r) keys_toy)) \<noteq> ''http://nas/x?y=1''"
proof -
  have "extract_origin ''http://nas/x?y=1'' = base_origin (rw_base_url page_toy)"
    "''http://nas/x?y=1'' = extract_origin ''http://nas/x?y=1'' @ CHR ''/'' # ''x?y=1''" "CHR ''#'' \<notin> set ''x?y=1''"
    by (simp_all add: page_toy_simps)
  from same_origin_link_forwarded [OF page_toy_simps(1,2) this, of env_toy]
  show ?thesis by (simp add: page_toy_simps trim_end_slash_def)
qed

theorem cross_origin_link_lost_witness:
  "\<exists>r. encode_proxy page_toy ''http://cdn/lib.js'' = rw_prefix page_toy @ r \<and>
    fst (forward_route env_toy (proxy_get r) keys_toy) = ForwardTo ''http://nas/app/'' ''http://nas/app/'' (rw_key page_toy)"
  by (rule cross_origin_link_lost [OF page_toy_simps(1,2)]) (simp add: page_toy_simps)

section \<open>Cookie headers read back\<close>

definition pair_ok :: "string \<times> string \<Rightarrow> bool" where
  "pair_ok kv \<longleftrightarrow> trimmed (fst kv) \<and> trimmed (snd kv) \<and> CHR '';'' \<notin> set (fst kv) \<and> CHR ''='' \<notin> set (fst kv) \<and> CHR '';'' \<notin> set (snd kv)"

definition pair_text :: "string \<times> string \<Rightarrow> string" where
  "pair_text kv = fst kv @ ''='' @ snd kv"

definition parse_pair :: "string \<Rightarrow> (string \<times> string) option" where
  "parse_pair part = map_option (\<lambda>eq. (trim (take eq part), trim (drop (eq + 1) part))) (find_char (CHR ''='') part)"

lemma cookie_parts_eq: "cookie_parts h = List.map_filter parse_pair (split_str '';'' h)"
  by (simp add: cookie_parts_def parse_pair_def [abs_def])

lemma split_char_last: "c \<notin> set s \<Longrightarrow> split_str [c] s = [s]"
  by (simp add: split_str.simps find_str_char)

lemma split_char_step: "c \<notin> set a \<Longrightarrow> split_str [c] (a @ c # b) = a # split_str [c] b"
  by (simp add: split_str.simps [of "[c]" "a @ c # b"] find_str_char find_char_append)

lemma split_char_notin: "p \<in> set (split_str [c] s) \<Longrightarrow> c \<notin> set p"
proof (induction "[c]" s rule: split_str.induct)
  case (1 s)
  show ?case
  proof (cases "find_char c s")
    case None
    with 1(2) show ?thesis by (simp add: split_str.simps [of "[c]" s] find_str_char)
  next
    case (Some i)
    with 1(2) consider "p = take i s" | "p \<in> set (split_str [c] (drop (i + length [c]) s))"
      by (auto simp: split_str.simps [of "[c]" s] find_str_char)
    then show ?thesis
    proof cases
      case 1
      with find_char_Some [OF Some] show ?thesis by simp
    qed (use 1(1) Some in \<open>simp add: find_str_char\<close>)
  qed
qed

lemma trim_front_space: "trim (CHR '' '' # s) = trim s"
proof -
  have "trim_start (CHR '' '' # s) = trim_start s" by (simp add: trim_start.simps [of "CHR '' '' # s"] ws_front_space)
  then show ?thesis by (simp add: trim_def)
qed

lemma parse_pair_text: "pair_ok kv \<Longrightarrow> parse_pair (pair_text kv) = Some kv"
  by (cases kv) (simp add: pair_ok_def pair_text_def parse_pair_def find_char_append trim_id)

lemma parse_pair_text_space: "pair_ok kv \<Longrightarrow> parse_pair (CHR '' '' # pair_text kv) = Some kv"
  by (cases kv) (simp add: pair_ok_def pair_text_def parse_pair_def find_char_append trim_id trim_front_space)

lemma parse_pair_ok: "parse_pair p = Some kv \<Longrightarrow> CHR '';'' \<notin> set p \<Longrightarrow> pair_ok kv"
proof -
  assume a: "parse_pair p = Some kv" and n: "CHR '';'' \<notin> set p"
  then obtain eq where eq: "find_char (CHR ''='') p = Some eq" "kv = (trim (take eq p), trim (drop (eq + 1) p))"
    by (auto simp: parse_pair_def)
  have "CHR ''='' \<notin> set (take eq p)" using find_char_Some [OF eq(1)] by simp
  then show ?thesis
    using n set_trim [of "take eq p"] set_trim [of "drop (eq + 1) p"] set_take_subset [of eq p] set_drop_subset [of "eq + 1" p]
    by (auto simp: pair_ok_def eq(2))
qed

lemma map_filter_set: "y \<in> set (List.map_filter f xs) \<longleftrightarrow> (\<exists>x \<in> set xs. f x = Some y)"
  by (force simp: List.map_filter_def)

lemma cookie_parts_ok: "kv \<in> set (cookie_parts h) \<Longrightarrow> pair_ok kv"
  unfolding cookie_parts_eq map_filter_set using parse_pair_ok split_char_notin by blast

text \<open>Reading a header that was written from well-formed pairs gives the pairs.\<close>

lemma cookie_parts_join: "kvs \<noteq> [] \<Longrightarrow> list_all pair_ok kvs \<Longrightarrow> cookie_parts (join ''; '' (map pair_text kvs)) = kvs"
proof -
  have n: "CHR '';'' \<notin> set (pair_text kv)" if "pair_ok kv" for kv using that by (auto simp: pair_ok_def pair_text_def)
  have "list_all pair_ok (kv # kvs) \<Longrightarrow>
    List.map_filter parse_pair (split_str '';'' (CHR '' '' # join ''; '' (map pair_text (kv # kvs)))) = kv # kvs" for kv kvs
  proof (induction kvs arbitrary: kv)
    case Nil
    then have "split_str '';'' (CHR '' '' # pair_text kv) = [CHR '' '' # pair_text kv]" using n by (intro split_char_last) auto
    with Nil show ?case by (simp add: parse_pair_text_space map_filter_simps)
  next
    case (Cons kv' kvs)
    then have "split_str '';'' ((CHR '' '' # pair_text kv) @ CHR '';'' # CHR '' '' # join ''; '' (map pair_text (kv' # kvs))) =
      (CHR '' '' # pair_text kv) # split_str '';'' (CHR '' '' # join ''; '' (map pair_text (kv' # kvs)))"
      using n by (intro split_char_step) auto
    with Cons show ?case by (simp add: parse_pair_text_space map_filter_simps)
  qed
  note rest = this
  assume "kvs \<noteq> []" "list_all pair_ok kvs"
  then obtain kv ks where k: "kvs = kv # ks" "pair_ok kv" "list_all pair_ok ks" by (cases kvs) auto
  show ?thesis
  proof (cases ks)
    case Nil
    then show ?thesis using k n [OF k(2)] by (simp add: cookie_parts_eq split_char_last parse_pair_text map_filter_simps)
  next
    case (Cons kv' ks')
    with split_char_step [OF n [OF k(2)], of "CHR '' '' # join ''; '' (map pair_text ks)"] rest [of kv' ks'] k
    show ?thesis by (simp add: cookie_parts_eq parse_pair_text map_filter_simps)
  qed
qed

section \<open>The cookies of a request\<close>

lemma put_pairs_ok: "list_all pair_ok ps \<Longrightarrow> list_all pair_ok js \<Longrightarrow> list_all pair_ok (fold put_pair js ps)"
proof (induction js arbitrary: ps)
  case (Cons kv js)
  from Cons.prems have "list_all pair_ok (put_pair kv ps)" by (simp add: put_pair_def list_all_iff)
  from Cons.IH [OF this] Cons.prems(2) show ?case by simp
qed simp

lemma put_pairs_last: "filter (\<lambda>p. fst p = fst kv) (fold put_pair (js @ [kv]) ps) = [kv]"
  by (auto simp: put_pair_def filter_empty_conv)

lemma merge_parts:
  assumes "js \<noteq> []" and "list_all pair_ok js"
  shows "cookie_parts (merge_cookie_headers native (join ''; '' (map pair_text js))) =
    fold put_pair js (case native of Some n \<Rightarrow> cookie_parts n | None \<Rightarrow> [])"
proof -
  let ?ps = "case native of Some n \<Rightarrow> cookie_parts n | None \<Rightarrow> []"
  have ps: "list_all pair_ok ?ps" using cookie_parts_ok by (auto simp: list_all_iff split: option.splits)
  have "fold put_pair js ?ps \<noteq> []" using assms(1) by (cases js rule: rev_cases) (auto simp: put_pair_def)
  moreover have "merge_cookie_headers native (join ''; '' (map pair_text js)) = join ''; '' (map pair_text (fold put_pair js ?ps))"
    unfolding merge_cookie_headers_def Let_def cookie_parts_join [OF assms] by (simp add: pair_text_def [abs_def] case_prod_unfold)
  ultimately show ?thesis using cookie_parts_join [OF _ put_pairs_ok [OF ps assms(2)]] by simp
qed

lemma cookie_attribute_pair: "sc_name (cookie_attribute C now a c) = sc_name c \<and> sc_value (cookie_attribute C now a c) = sc_value c"
  by (simp add: cookie_attribute_def Let_def split: prod.split option.split)

lemma cookie_attributes_pair:
  "sc_name (fold (cookie_attribute C now) as c) = sc_name c \<and> sc_value (fold (cookie_attribute C now) as c) = sc_value c"
  by (induction as arbitrary: c) (simp_all add: cookie_attribute_pair)

lemma parse_set_cookie_pair:
  assumes "parse_set_cookie C now h = Some c"
  shows "pair_ok (sc_name c, sc_value c)"
proof -
  from assms obtain a as eq where s: "split_str '';'' h = a # as" and eq: "find_char (CHR ''='') a = Some eq"
    and c: "sc_name c = trim (take eq a)" "sc_value c = trim (drop (eq + 1) a)"
    by (auto simp: parse_set_cookie_def Let_def cookie_attributes_pair split: list.splits option.splits if_splits)
  have "CHR '';'' \<notin> set a" using split_char_notin [of a "CHR '';''" h] s by simp
  with eq show ?thesis by (intro parse_pair_ok [of a]) (simp_all add: parse_pair_def c)
qed

lemma eq_ignore_self [simp]: "eq_ignore_ascii_case k k"
  by (simp add: eq_ignore_ascii_case_def)

text \<open>A cookie at the end of its jar has the last word in the header that is sent.\<close>

lemma request_cookie:
  assumes "jar_of (pg_jars g) origin = j @ [c]" and "list_all (\<lambda>e. pair_ok (sc_name e, sc_value e)) (j @ [c])"
    and "split_upstream url = (origin, p)" and "origin \<noteq> []"
    and "live now c" and "domain_matches origin c" and "path_matches p c"
  shows "\<exists>h. filter (\<lambda>(k, v). eq_ignore_ascii_case k ''cookie'') (og_headers (fst (forward_request E now req url g))) = [(''cookie'', h)] \<and>
    filter (\<lambda>kv. fst kv = sc_name c) (cookie_parts h) = [(sc_name c, sc_value c)]"
proof -
  define pair :: "stored_cookie \<Rightarrow> string \<times> string" where "pair = (\<lambda>e. (sc_name e, sc_value e))"
  define js where "js = map pair (filter (\<lambda>e. domain_matches origin e \<and> path_matches p e) (filter (live now) j))"
  have jc: "fst (build_cookie_header now origin p (j @ [c])) = Some (join ''; '' (map pair_text (js @ [pair c])))"
    using assms(5-7) by (simp add: build_cookie_header_fst Let_def js_def pair_def pair_text_def jar_pair_def comp_def cong: map_cong)
  have ok: "list_all pair_ok (js @ [pair c])" using assms(2) by (auto simp: js_def pair_def list_all_iff)
  define hs where "hs = (if device_mode g = ''mobile'' then emulate_ua (headers_to_forward E req) else headers_to_forward E req)"
  define native where "native = map_option snd (List.find (\<lambda>(k, v). eq_ignore_ascii_case k ''cookie'') hs)"
  define h where "h = merge_cookie_headers native (join ''; '' (map pair_text (js @ [pair c])))"
  have "og_headers (fst (forward_request E now req url g)) = filter (\<lambda>(k, v). \<not> eq_ignore_ascii_case k ''cookie'') hs @ [(''cookie'', h)]"
    using assms(4) jc
    by (auto simp: forward_request_def Let_def assms(1,3) with_jar_def merge_jar_cookies_def outgoing_request_def hs_def h_def native_def
        split: prod.splits)
  then have "filter (\<lambda>(k, v). eq_ignore_ascii_case k ''cookie'') (og_headers (fst (forward_request E now req url g))) = [(''cookie'', h)]"
    by (auto simp: filter_empty_conv)
  moreover have "filter (\<lambda>kv. fst kv = sc_name c) (cookie_parts h) = [pair c]"
    unfolding h_def merge_parts [OF snoc_eq_iff_butlast [THEN iffD1, THEN conjunct1, OF refl] ok]
    using put_pairs_last [of "pair c" js] by (simp add: pair_def)
  ultimately show ?thesis by (auto simp: pair_def)
qed

lemma forward_answer_jars: "forward_answer E sr pre url src key up g = (r, w, g') \<Longrightarrow> pg_jars g' = pg_jars g"
  by (auto simp: forward_answer_def Let_def split: option.splits if_splits)

lemma send_loop_first: "send 0 = Inr up \<Longrightarrow> send_loop send can 0 = (Inr up, [])"
  by (simp add: send_loop.simps)

lemma capture_jar:
  assumes "hm_ok (pg_jars g)" and "parse_set_cookie C now0 val = Some c" and "live now c"
  shows "jar_of (pg_jars (capture_cookie C now0 now now_epoch origin val g)) origin = jar_insert c (jar_of (pg_jars g) origin)"
proof -
  have a: "add_set_cookie C now0 now val j = (Some c, jar_insert c j)" for j
    using assms(2,3) by (auto simp: add_set_cookie_def live_def split: option.splits)
  have "fst (with_jar origin (add_set_cookie C now0 now val) g) = Some c" by (simp add: a)
  then obtain g1 where g1: "with_jar origin (add_set_cookie C now0 now val) g = (Some c, g1)" by (metis prod.collapse)
  with with_jar_jars [OF assms(1), of origin "add_set_cookie C now0 now val" origin]
  show ?thesis by (simp add: capture_cookie_def a)
qed

text \<open>
  C19: A login through the proxy holds. When the answer to a forwarded request sets a cookie, the next request that is
  forwarded to the same upstream, and that the cookie applies to, carries exactly one cookie header, and there the
  name of the cookie occurs once, with the value that was set, whatever the browser sent and the jar held before.
\<close>

theorem session_kept:
  assumes "hm_ok (pg_jars g)" and "list_all (\<lambda>e. pair_ok (sc_name e, sc_value e)) (jar_of (pg_jars g) origin)"
    and "split_upstream url = (origin, p)" and "origin \<noteq> []" and "client (fst (forward_request E now req url g)) 0 = Inr up"
    and "set_cookie_values up = [val]" and "clock 0 = (now0, now1, now2)"
    and "parse_set_cookie (fw_chrono E) now0 val = Some c" and "live now1 c"
    and "split_upstream url' = (origin, p')" and "live later c" and "domain_matches origin c" and "path_matches p' c"
  shows "\<exists>h. filter (\<lambda>(k, v). eq_ignore_ascii_case k ''cookie'')
      (og_headers (fst (forward_request E later req' url' (snd (forward E now clock client clonable req url src key sr g))))) = [(''cookie'', h)] \<and>
    filter (\<lambda>kv. fst kv = sc_name c) (cookie_parts h) = [(sc_name c, sc_value c)]"
proof -
  define g1 where "g1 = snd (forward_request E now req url g)"
  have g1': "g1 = snd (with_jar origin (build_cookie_header now origin p) g)"
    using assms(3,4) by (simp add: g1_def forward_request_def Let_def split: prod.split)
  have ok: "hm_ok (pg_jars g1)" using assms(1) by (simp add: g1')
  have j1: "jar_of (pg_jars g1) origin = filter (live now) (jar_of (pg_jars g) origin)"
    unfolding g1' with_jar_jars [OF assms(1)] by (simp add: build_cookie_header_def Let_def)
  have "pg_jars (snd (forward E now clock client clonable req url src key sr g)) =
    pg_jars (capture_cookie (fw_chrono E) now0 now1 now2 origin val g1)"
    using assms(3-7) send_loop_first [of "client (fst (forward_request E now req url g))" up clonable]
    by (auto simp: forward_def Let_def g1_def split: prod.splits dest: forward_answer_jars)
  with capture_jar [OF ok assms(8,9)] have "jar_of (pg_jars (snd (forward E now clock client clonable req url src key sr g))) origin =
    jar_insert c (filter (live now) (jar_of (pg_jars g) origin))" by (simp add: j1)
  moreover have "list_all (\<lambda>e. pair_ok (sc_name e, sc_value e)) (jar_insert c (filter (live now) (jar_of (pg_jars g) origin)))"
    using assms(2) parse_set_cookie_pair [OF assms(8)] by (auto simp: jar_insert_def list_all_iff)
  ultimately show ?thesis using request_cookie [OF _ _ assms(10,4,11-13)] unfolding jar_insert_def by blast
qed

section \<open>Downloads\<close>

lemma with_jar_fields [simp]:
  "pg_download_dir (snd (with_jar k f g)) = pg_download_dir g" "pg_pending (snd (with_jar k f g)) = pg_pending g"
  by (simp_all add: with_jar_def Let_def split: prod.split)

lemma capture_fields [simp]:
  "pg_download_dir (capture_cookie C n0 n n2 o' v g) = pg_download_dir g" "pg_pending (capture_cookie C n0 n n2 o' v g) = pg_pending g"
  by (simp_all add: capture_cookie_def with_jar_def persist_cookie_to_db_def Let_def split: prod.split option.split)

lemma capture_all_fields [simp]:
  "pg_download_dir (capture_all C clock o' vs g) = pg_download_dir g" "pg_pending (capture_all C clock o' vs g) = pg_pending g"
  by (induction vs arbitrary: g) (simp_all add: Let_def split: prod.split)

lemma forward_request_fields [simp]:
  "pg_download_dir (snd (forward_request E now req url g)) = pg_download_dir g" "pg_pending (snd (forward_request E now req url g)) = pg_pending g"
  by (auto simp: forward_request_def Let_def with_jar_def split: prod.split)

lemma sanitize_no_separator: "CHR ''/'' \<notin> set (sanitize_filename s) \<and> CHR 0x5C \<notin> set (sanitize_filename s)"
  by (auto simp: sanitize_filename_def)

lemma forward_answer_writes:
  assumes "forward_answer E sr pre url src key up g = (r, w, g')"
  shows "pg_pending g' = pg_pending g @ map fst w \<and>
    (w = [] \<or> (\<exists>dir. pg_download_dir g = Some dir \<and> w = [(download_path E dir url up, upstream_bytes up)] \<and>
       is_download E up \<and> (\<exists>resp. r = Some resp \<and> ps_body resp = FullBody (upstream_bytes up))))"
  using assms by (auto simp: forward_answer_def Let_def split: option.splits if_splits)


section \<open>Retries are bounded\<close>

lemma send_loop_delays: "\<exists>n. snd (send_loop send can 0) = take n [2000, 4000]"
proof -
  let ?s = "send_loop send can"
  have 2: "snd (?s (Suc (Suc 0))) = []"
    by (simp add: send_loop.simps [of send can "Suc (Suc 0)"] MAX_RETRIES_def split: sum.split)
  have "snd (?s (Suc 0)) = [] \<or> snd (?s (Suc 0)) = 4000 # snd (?s (Suc (Suc 0)))"
    by (simp add: send_loop.simps [of send can "Suc 0"] MAX_RETRIES_def RETRY_BASE_MS_def Let_def split: sum.split prod.split)
  moreover have "snd (?s 0) = [] \<or> snd (?s 0) = 2000 # snd (?s (Suc 0))"
    by (simp add: send_loop.simps [of send can 0] MAX_RETRIES_def RETRY_BASE_MS_def Let_def split: sum.split prod.split)
  ultimately consider "snd (?s 0) = take 0 [2000, 4000]" | "snd (?s 0) = take 1 [2000, 4000]" | "snd (?s 0) = take 2 [2000, 4000]"
    using 2 by auto
  then show ?thesis by cases blast+
qed

text \<open>The outcome is that of one of the three attempts.\<close>

lemma send_loop_result: "n \<le> MAX_RETRIES \<Longrightarrow> \<exists>m \<le> MAX_RETRIES. fst (send_loop send can n) = send m"
proof (induction send can n rule: send_loop.induct)
  case (1 send can n)
  show ?case
  proof (cases "\<exists>e. send n = Inl e \<and> (se_connect e \<or> se_request e \<or> se_timeout e) \<and> can \<and> n < MAX_RETRIES")
    case True
    then obtain e where e: "send n = Inl e" "(se_connect e \<or> se_request e \<or> se_timeout e) \<and> can \<and> n < MAX_RETRIES" by blast
    then have "fst (send_loop send can n) = fst (send_loop send can (n + 1))"
      by (subst send_loop.simps) (simp add: Let_def split: prod.split)
    with 1(1) [OF e] e(2) show ?thesis by simp
  next
    case False
    then have "fst (send_loop send can n) = send n" by (auto simp: send_loop.simps [of send can n] split: sum.split)
    with 1(2) show ?thesis by blast
  qed
qed


section \<open>An exchange\<close>

definition get_toy :: http_request where
  "get_toy = \<lparr>hr_method = ''GET'', hr_path = ''/__proxy__ab12/'', hr_query = None, hr_headers = [(''host'', ''127.0.0.1:9'')], hr_body = Some []\<rparr>"

definition login_answer :: upstream where
  "login_answer = \<lparr>up_status = 200, up_headers = [(''set-cookie'', ''sid=1; HttpOnly'')], up_bytes = Some []\<rparr>"

definition zip_answer :: upstream where
  "zip_answer = \<lparr>up_status = 200, up_headers = [(''content-type'', ''application/zip''), (''content-disposition'', ''attachment; filename=../x'')], up_bytes = Some [1]\<rparr>"

lemma nas_upstream: "split_upstream ''http://nas/'' = (''nas'', ''/'')"
  by code_simp

theorem session_kept_witness:
  "\<exists>h. filter (\<lambda>(k, v). eq_ignore_ascii_case k ''cookie'')
      (og_headers (fst (forward_request env_toy 9 get_toy ''http://nas/''
        (snd (forward env_toy 5 (\<lambda>_. (5, 5, 5)) (\<lambda>_ _. Inr login_answer) True get_toy ''http://nas/'' ''http://nas/'' ''ab12'' True proxy_toy))))) = [(''cookie'', h)] \<and>
    filter (\<lambda>kv. fst kv = sc_name sid_cookie) (cookie_parts h) = [(sc_name sid_cookie, sc_value sid_cookie)]"
proof (rule session_kept [OF proxy_toy_db(3) _ nas_upstream _ refl])
  show "set_cookie_values login_answer = [''sid=1; HttpOnly'']" by code_simp
  show "parse_set_cookie (fw_chrono env_toy) 5 ''sid=1; HttpOnly'' = Some sid_cookie" by (simp add: env_toy_def sid_parsed)
  show "split_upstream ''http://nas/'' = (''nas'', ''/'')" by (rule nas_upstream)
qed (simp_all add: sid_sent proxy_toy_def proxy_globals_init_def)


definition refusing :: "outgoing \<Rightarrow> nat \<Rightarrow> send_error + upstream" where
  "refusing og n = Inl \<lparr>se_connect = True, se_request = False, se_timeout = False, se_is_status = False, se_text = ''refused''\<rparr>"

lemma forward_refused: "\<exists>t. fo_response (fst (forward E now clock refusing clonable req url src key sr g)) = Some (text_response 502 t)"
proof -
  obtain m where "fst (send_loop (refusing (fst (forward_request E now req url g))) clonable 0) = refusing (fst (forward_request E now req url g)) m"
    using send_loop_result [of 0 "refusing (fst (forward_request E now req url g))" clonable] by auto
  then show ?thesis by (auto simp: forward_def refusing_def Let_def split: prod.splits)
qed


end
