(* ===== verification/Ws_Proxy.thy ===== *)
theory Ws_Proxy
  imports Http_Forward
begin

text \<open>
  WebSockets of proxied pages, \<open>src-tauri/src/proxy/ws_proxy.rs\<close>: recognising an upgrade in the first bytes of a
  connection, finding the upstream, the upgrade request sent there with its cookies, and the answer that is passed
  on together with the frames that came with it. \<open>to_lowercase\<close>, URL decoding and the test for an IP address are
  parameters; connecting is a function that may fail; what the upstream sends is a list of segments. The copying in
  both directions after the handshake is \<open>tokio\<close>'s.
\<close>

section \<open>Recognising upgrades\<close>

record ws_env =
  we_lower :: "string \<Rightarrow> string"
  we_urldecode :: "string \<Rightarrow> string option"
  we_is_ip :: "string \<Rightarrow> bool"

definition is_raw_ws_upgrade :: "ws_env \<Rightarrow> bytes \<Rightarrow> bool" where
  "is_raw_ws_upgrade E data =
    (case from_utf8 data of
       None \<Rightarrow> False
     | Some s \<Rightarrow>
        (if \<not> starts_with s ''GET'' \<and> \<not> starts_with s ''get'' then False
         else (let lower = we_lower E s in contains_str lower ''upgrade:'' \<and> contains_str lower ''websocket'')))"

definition is_ws_upgrade :: "ws_env \<Rightarrow> http_request \<Rightarrow> bool" where
  "is_ws_upgrade E req \<longleftrightarrow>
    hr_method req = ''GET''
    \<and> (case hdr_str ''upgrade'' (hr_headers req) of Some v \<Rightarrow> contains_str (we_lower E v) ''websocket'' | None \<Rightarrow> False)
    \<and> (case hdr_str ''connection'' (hr_headers req) of Some v \<Rightarrow> contains_str (we_lower E v) ''upgrade'' | None \<Rightarrow> False)"

text \<open>\<open>split_once(':')\<close>\<close>

definition split_colon :: "string \<Rightarrow> (string \<times> string) option" where
  "split_colon line = map_option (\<lambda>i. (take i line, drop (i + 1) line)) (find_char (CHR '':'') line)"

fun extract_header :: "ws_env \<Rightarrow> string list \<Rightarrow> string \<Rightarrow> string" where
  "extract_header E [] name = []"
| "extract_header E (line # ls) name =
    (case split_colon line of
       Some (k, v) \<Rightarrow> (if we_lower E (trim k) = name then trim v else extract_header E ls name)
     | None \<Rightarrow> extract_header E ls name)"

text \<open>The refusal the client gets; the connection is closed afterwards.\<close>

definition ws_error_text :: "string \<Rightarrow> string \<Rightarrow> string" where
  "ws_error_text status_line message =
    (let body = ''WebSocket proxy error: '' @ message @ [NL]
     in ''HTTP/1.1 '' @ status_line @ CRLF @ ''Content-Type: text/plain; charset=utf-8'' @ CRLF @
        ''Content-Length: '' @ dec (length body) @ CRLF @ ''Connection: close'' @ CRLF @ CRLF @ body)"

section \<open>The upstream of a request\<close>

record ws_headers =
  wh_key :: string
  wh_version :: string
  wh_extra :: "(string \<times> string) list"
  wh_cookie :: "string option"
  wh_origin :: "string option"

definition dropped_headers :: "string list" where
  "dropped_headers = [''sec-websocket-extensions'', ''referer'', ''pragma'', ''cache-control'', ''sec-fetch-site'', ''sec-fetch-mode'',
     ''sec-fetch-dest'', ''accept-encoding'']"

definition ws_header :: "ws_env \<Rightarrow> string \<Rightarrow> ws_headers \<Rightarrow> ws_headers" where
  "ws_header E line h =
    (case split_colon line of
       None \<Rightarrow> h
     | Some (k, v) \<Rightarrow>
        (let key = trim k; key_lower = we_lower E key; value = trim v in
         if key_lower = ''sec-websocket-key'' then h\<lparr>wh_key := value\<rparr>
         else if key_lower = ''sec-websocket-version'' then h\<lparr>wh_version := value\<rparr>
         else if key_lower = ''cookie'' then h\<lparr>wh_cookie := Some value\<rparr>
         else if key_lower = ''origin'' then h\<lparr>wh_origin := Some value\<rparr>
         else if key_lower \<in> set dropped_headers then h
         else if key_lower \<in> set hop_by_hop then h
         else h\<lparr>wh_extra := wh_extra h @ [(key, value)]\<rparr>))"

definition ws_headers_of :: "ws_env \<Rightarrow> string \<Rightarrow> ws_headers" where
  "ws_headers_of E header_str =
    fold (ws_header E) (drop 1 (lines header_str)) \<lparr>wh_key = [], wh_version = [], wh_extra = [], wh_cookie = None, wh_origin = None\<rparr>"

record ws_target =
  wt_scheme :: string
  wt_host :: string
  wt_port :: u16
  wt_path :: string

definition parse_u16 :: "string \<Rightarrow> u16 option" where
  "parse_u16 s = map_option word_of_nat (parse_uint 65535 s)"

definition key_origin :: "(string, string) hmap \<Rightarrow> string \<Rightarrow> string option" where
  "key_origin keys path =
    (case strip_prefix ''/__proxy__'' (first_part ''?'' path) of
       None \<Rightarrow> None
     | Some rest \<Rightarrow> (let key = first_part ''/'' rest in if key = [] then None else hm_get keys key))"

text \<open>\<open>?ws=target\<close> or \<open>?wss=target\<close>\<close>

definition ws_query :: "string \<Rightarrow> (string \<times> string) + (string \<times> string)" where
  "ws_query path =
    (case split_str ''?'' path of
       _ # qs # _ \<Rightarrow>
         (case strip_prefix ''ws='' qs of
            Some val \<Rightarrow> Inr (''ws'', val)
          | None \<Rightarrow>
             (case strip_prefix ''wss='' qs of
                Some val \<Rightarrow> Inr (''wss'', val)
              | None \<Rightarrow> Inl (''400 Bad Request'', ''unsupported query: '' @ path)))
     | _ \<Rightarrow> Inl (''400 Bad Request'', ''missing ?ws= query''))"

definition ws_target_of :: "string \<Rightarrow> string \<Rightarrow> ws_target" where
  "ws_target_of scheme target_str =
    (let (authority, tpath) = (case find_char (CHR ''/'') target_str of
                                 Some pos \<Rightarrow> (take pos target_str, drop pos target_str)
                               | None \<Rightarrow> (target_str, ''/''));
         default_port = (if scheme = ''wss'' then 443 else 80);
         (host, port) = (case rfind_char (CHR '':'') authority of
                           Some pos \<Rightarrow> (take pos authority, case parse_u16 (drop (pos + 1) authority) of Some p \<Rightarrow> p | None \<Rightarrow> default_port)
                         | None \<Rightarrow> (authority, default_port))
     in \<lparr>wt_scheme = scheme, wt_host = host, wt_port = port, wt_path = tpath\<rparr>)"

definition host_valid :: "ws_env \<Rightarrow> string \<Rightarrow> bool" where
  "host_valid E host \<longleftrightarrow> contains_str host ''.'' \<or> we_is_ip E host"

definition target_from_origin :: "string option \<Rightarrow> ws_target \<Rightarrow> ws_target" where
  "target_from_origin client_origin t =
    (case client_origin of
       None \<Rightarrow> t
     | Some origin \<Rightarrow>
        (let s = (case strip_prefix ''http://'' origin of
                    Some r \<Rightarrow> r
                  | None \<Rightarrow> (case strip_prefix ''https://'' origin of Some r \<Rightarrow> r | None \<Rightarrow> []))
         in case rfind_char (CHR '':'') s of
              None \<Rightarrow> t
            | Some colon \<Rightarrow>
               (case parse_u16 (drop (colon + 1) s) of
                  Some port \<Rightarrow> t\<lparr>wt_host := take colon s, wt_port := port\<rparr>
                | None \<Rightarrow> t)))"

definition is_self :: "u16 \<Rightarrow> ws_target \<Rightarrow> bool" where
  "is_self front_port t \<longleftrightarrow> wt_host t \<in> {''127.0.0.1'', ''localhost'', ''::1'', ''[::1]''} \<and> wt_port t = front_port"

definition target_from_key :: "string \<Rightarrow> ws_target \<Rightarrow> ws_target" where
  "target_from_key origin t =
    (let origin_rest = (case find_str ''://'' origin of Some i \<Rightarrow> drop (i + 3) origin | None \<Rightarrow> origin);
         authority = first_part ''/'' origin_rest;
         tls = starts_with origin ''https://''
     in case rfind_char (CHR '':'') authority of
          Some colon \<Rightarrow>
            (case parse_u16 (drop (colon + 1) authority) of
               Some port \<Rightarrow> t\<lparr>wt_host := take colon authority, wt_port := port, wt_scheme := if tls then ''wss'' else wt_scheme t\<rparr>
             | None \<Rightarrow> t)
        | None \<Rightarrow> t\<lparr>wt_host := authority, wt_port := if tls then 443 else 80, wt_scheme := if tls then ''wss'' else wt_scheme t\<rparr>)"

definition restore_target :: "ws_env \<Rightarrow> u16 \<Rightarrow> string option \<Rightarrow> string option \<Rightarrow> ws_target \<Rightarrow> ws_target" where
  "restore_target E front_port origin client_origin t0 =
    (let valid = host_valid E (wt_host t0);
         t1 = (if \<not> valid then target_from_origin client_origin t0 else t0)
     in case origin of
          Some o' \<Rightarrow> (if is_self front_port t1 \<or> \<not> valid then target_from_key o' t1 else t1)
        | None \<Rightarrow> t1)"

text \<open>The upstream and the headers of an upgrade request, or the refusal.\<close>

definition ws_plan :: "ws_env \<Rightarrow> (string, string) hmap \<Rightarrow> u16 \<Rightarrow> bytes \<Rightarrow> (string \<times> string) + (ws_target \<times> ws_headers)" where
  "ws_plan E keys front_port data =
    (case find_header_end data of
       None \<Rightarrow> Inl (''400 Bad Request'', ''incomplete request headers'')
     | Some eoh \<Rightarrow>
        (case from_utf8 (take eoh data) of
           None \<Rightarrow> Inl (''400 Bad Request'', ''request headers not utf-8'')
         | Some head \<Rightarrow>
            (case lines head of
               [] \<Rightarrow> Inl (''400 Bad Request'', ''empty request line'')
             | request_line # _ \<Rightarrow>
                (case split_whitespace request_line of
                   _ # path # _ \<Rightarrow>
                     res_bind (ws_query path) (\<lambda>(scheme, encoded).
                       case we_urldecode E encoded of
                         None \<Rightarrow> Inl (''400 Bad Request'', ''url decode failed'')
                       | Some target_str \<Rightarrow>
                          (let h = ws_headers_of E head;
                               t = restore_target E front_port (key_origin keys path) (wh_origin h) (ws_target_of scheme target_str)
                           in if is_self front_port t then Inl (''502 Bad Gateway'', ''self-connect blocked'') else Inr (t, h)))
                 | _ \<Rightarrow> Inl (''400 Bad Request'', ''malformed request line'')))))"

section \<open>The request to the upstream\<close>

definition host_header :: "ws_target \<Rightarrow> string" where
  "host_header t = wt_host t @ '':'' @ dec (unat (wt_port t))"

definition ws_request :: "ws_env \<Rightarrow> ws_target \<Rightarrow> ws_headers \<Rightarrow> string option \<Rightarrow> string" where
  "ws_request E t h cookie =
    (let origin = (case wh_origin h of
                     Some o' \<Rightarrow> o'
                   | None \<Rightarrow> (if wt_scheme t = ''wss'' then ''https'' else ''http'') @ ''://'' @ host_header t);
         extra = concat (map (\<lambda>(k, v). k @ '': '' @ v @ CRLF)
                   (filter (\<lambda>(k, v). we_lower E k \<notin> {''sec-websocket-key'', ''sec-websocket-version'', ''host''}) (wh_extra h)))
     in ''GET '' @ wt_path t @ '' HTTP/1.1'' @ CRLF @ ''Host: '' @ host_header t @ CRLF @ ''Upgrade: websocket'' @ CRLF @
        ''Connection: Upgrade'' @ CRLF @ ''Sec-WebSocket-Key: '' @ wh_key h @ CRLF @ ''Sec-WebSocket-Version: '' @ wh_version h @ CRLF @
        ''Origin: '' @ origin @ CRLF @ extra @
        (case cookie of Some c \<Rightarrow> ''Cookie: '' @ c @ CRLF | None \<Rightarrow> []) @ CRLF)"

text \<open>The jar under \<open>host:port\<close>, then what the client sent.\<close>

definition ws_cookie :: "u64 \<Rightarrow> ws_target \<Rightarrow> ws_headers \<Rightarrow> proxy_globals \<Rightarrow> string option \<times> proxy_globals" where
  "ws_cookie now t h g =
    (let (jar_cookie, g') = with_jar (host_header t) (build_cookie_header now (wt_host t) ''/'') g
     in (case jar_cookie of Some c \<Rightarrow> Some c | None \<Rightarrow> wh_cookie h, g'))"

section \<open>The answer of the upstream\<close>

definition RESP_BLOCK :: nat where "RESP_BLOCK = 4096"

text \<open>
  The loop that reads until the end of the header block. The buffer has \<open>room\<close> bytes, of which \<open>buf\<close> are in use;
  it is enlarged when it is full. Nothing more to read means that the upstream closed.
\<close>

function read_response :: "nat \<Rightarrow> bytes \<Rightarrow> bytes list \<Rightarrow> bytes \<times> bytes list" where
  "read_response room buf segs =
    (case read_chunk (room - length buf) segs of
       (chunk, rest) \<Rightarrow>
         (if chunk = [] then (buf, rest)
          else
            (let buf' = buf @ chunk in
             if find_header_end buf' \<noteq> None then (buf', rest)
             else read_response (if length buf' = room then room + RESP_BLOCK else room) buf' rest)))"
  by pat_completeness auto
termination
  by (relation "measure (\<lambda>(room, buf, segs). length (concat segs))") (auto dest!: sym [of _ "read_chunk _ _"] read_chunk_progress)

declare read_response.simps [simp del]

definition strip_resp_headers :: "string list" where
  "strip_resp_headers = [''content-encoding'', ''content-length'', ''transfer-encoding'', ''vary'', ''trailer'', ''trailers'']"

definition stripped_line :: "ws_env \<Rightarrow> string \<Rightarrow> bool" where
  "stripped_line E line \<longleftrightarrow> (\<exists>h \<in> set strip_resp_headers. starts_with (we_lower E line) (h @ '':''))"

text \<open>The bytes the client gets after a successful handshake.\<close>

definition ws_response :: "ws_env \<Rightarrow> bytes \<Rightarrow> (string \<times> string) + bytes" where
  "ws_response E resp_data =
    (case find_header_end resp_data of
       None \<Rightarrow> Inl (''502 Bad Gateway'', ''upstream response missing header terminator'')
     | Some eoh \<Rightarrow>
        (case from_utf8 (take eoh resp_data) of
           None \<Rightarrow> Inl (''502 Bad Gateway'', ''upstream response header not utf-8'')
         | Some resp_str \<Rightarrow>
            (if \<not> contains_str resp_str ''101''
             then Inl (''502 Bad Gateway'',
                    ''upstream rejected upgrade: '' @ (case lines resp_str of l # _ \<Rightarrow> l | [] \<Rightarrow> ''(empty)''))
             else
               (let leftover = drop (eoh + 4) resp_data;
                    filtered_head = join CRLF (filter (\<lambda>l. \<not> stripped_line E l) (lines resp_str))
                in Inr (as_bytes filtered_head @ as_bytes (CRLF @ CRLF) @ leftover)))))"

section \<open>The handler\<close>

text \<open>
  What the client sees, what the upstream was sent, and what is left of the upstream's segments for the copying
  phase. An upstream is what it answers, or the error of connecting, of sending or of reading.
\<close>

datatype ws_upstream =
    ConnectFailed string
  | SendFailed string
  | ReadFailed string
  | Answers "bytes list"

datatype ws_outcome =
    Refused string
  | Tunnel (tn_client: bytes) (tn_request: string) (tn_rest: "bytes list")

definition handle_raw_upgrade ::
  "ws_env \<Rightarrow> u64 \<Rightarrow> (ws_target \<Rightarrow> ws_upstream) \<Rightarrow> (string, string) hmap \<Rightarrow> u16 \<Rightarrow> bytes \<Rightarrow> proxy_globals \<Rightarrow> ws_outcome \<times> proxy_globals" where
  "handle_raw_upgrade E now net keys front_port data g =
    (case ws_plan E keys front_port data of
       Inl (s, e) \<Rightarrow> (Refused (ws_error_text s e), g)
     | Inr (t, h) \<Rightarrow>
        (case net t of
           ConnectFailed e \<Rightarrow> (Refused (ws_error_text ''502 Bad Gateway'' e), g)
         | up \<Rightarrow>
            (let (cookie, g1) = ws_cookie now t h g;
                 req = ws_request E t h cookie
             in case up of
                  SendFailed e \<Rightarrow> (Refused (ws_error_text ''502 Bad Gateway'' (''send upstream request failed: '' @ e)), g1)
                | ReadFailed e \<Rightarrow> (Refused (ws_error_text ''502 Bad Gateway'' (''read upstream response failed: '' @ e)), g1)
                | Answers segs \<Rightarrow>
                   (case read_response RESP_BLOCK [] segs of
                      (resp_data, rest) \<Rightarrow>
                        (case ws_response E resp_data of
                           Inl (s, e) \<Rightarrow> (Refused (ws_error_text s e), g1)
                         | Inr out \<Rightarrow> (Tunnel out req rest, g1)))
                | ConnectFailed e \<Rightarrow> (Refused (ws_error_text ''502 Bad Gateway'' e), g1))))"

section \<open>The proxy never connects to itself\<close>

lemma ws_plan_not_self: "ws_plan E keys front_port data = Inr (t, h) \<Longrightarrow> \<not> is_self front_port t"
  by (auto simp: ws_plan_def Let_def split: option.splits list.splits if_splits prod.splits)


section \<open>The handshake and the first frames\<close>

lemma read_response_complete:
  assumes "length buf < room" and "buf @ concat segs = D" and "find_header_end buf = None" and "find_header_end D = Some e"
  shows "\<exists>b rest. read_response room buf segs = (b, rest) \<and> b @ concat rest = D \<and> find_header_end b = Some e"
  using assms
proof (induction room buf segs rule: read_response.induct)
  case (1 room buf segs)
  obtain chunk rest where c: "read_chunk (room - length buf) segs = (chunk, rest)" by (rule prod.exhaust)
  have D: "(buf @ chunk) @ concat rest = D" "length chunk \<le> room - length buf"
    using read_chunk_concat [OF c] 1(3) by auto
  have pre: "find_header_end (buf @ chunk) \<in> {None, Some e}"
    using find_header_end_take [of "length (buf @ chunk)" D] D(1) 1(5) by (auto split: if_splits simp del: append_assoc)
  have "chunk \<noteq> []"
  proof
    assume "chunk = []"
    then have "concat segs = []" using read_chunk_Nil [of "room - length buf" segs rest] c 1(2) by simp
    with 1(3-5) show False by simp
  qed
  show ?case
  proof (cases "find_header_end (buf @ chunk) = None")
    case True
    let ?room = "if length (buf @ chunk) = room then room + RESP_BLOCK else room"
    have "read_response room buf segs = read_response ?room (buf @ chunk) rest"
      using c \<open>chunk \<noteq> []\<close> True by (simp add: read_response.simps [of room buf segs])
    moreover have "length (buf @ chunk) < ?room" using D(2) 1(2) by (auto simp: RESP_BLOCK_def)
    ultimately show ?thesis
      using 1(1) [OF c [symmetric] \<open>chunk \<noteq> []\<close> refl] True D(1) 1(5) by simp
  next
    case False
    then have "read_response room buf segs = (buf @ chunk, rest)"
      using c \<open>chunk \<noteq> []\<close> by (simp add: read_response.simps [of room buf segs])
    with False pre D(1) show ?thesis by auto
  qed
qed

lemma http_head_take: "take (length (join CRLF ls)) (http_head ls @ frames) = as_bytes (join CRLF ls)"
  by (simp add: http_head_def)

lemma http_head_drop: "drop (length (join CRLF ls) + 4) (http_head ls @ frames) = frames"
  by (simp add: http_head_def)

lemma take_app_prefix: "b @ c = D \<Longrightarrow> n \<le> length b \<Longrightarrow> take n b = take n D"
  by auto

text \<open>
  The handshake loses nothing. When the upstream accepts the upgrade, then however its answer arrives on the
  connection, the client gets the lines of the answer without those that describe an HTTP body, then the bytes that
  the upstream sent right behind it: what was read together with the answer, followed by what is still to be copied.
\<close>

theorem ws_frames_preserved:
  assumes "ws_plan E keys front_port data = Inr (t, h)" and "net t = Answers segs" and "concat segs = http_head ls @ frames"
    and "ls \<noteq> []" and "list_all line_ok ls" and "is_utf8 (join CRLF ls)" and "contains_str (join CRLF ls) ''101''"
  shows "\<exists>out req rest g'. handle_raw_upgrade E now net keys front_port data g = (Tunnel out req rest, g') \<and>
    out @ concat rest = http_head (filter (\<lambda>l. \<not> stripped_line E l) ls) @ frames"
proof -
  let ?n = "length (join CRLF ls)"
  let ?f = "filter (\<lambda>l. \<not> stripped_line E l) ls"
  have e: "find_header_end (http_head ls @ frames) = Some ?n" using assms(4,5) by (rule find_header_end_head)
  have "length ([] :: bytes) < RESP_BLOCK" "find_header_end [] = None" by (simp_all add: RESP_BLOCK_def)
  with read_response_complete [of "[]" RESP_BLOCK segs "http_head ls @ frames" ?n] assms(3) e obtain b rest where
    b: "read_response RESP_BLOCK [] segs = (b, rest)" "b @ concat rest = http_head ls @ frames" "find_header_end b = Some ?n" by auto
  have "find_header_end (take (length b) (http_head ls @ frames)) = Some ?n"
    using b(2,3) by (metis append_eq_conv_conj)
  then have len: "?n + 4 \<le> length b" unfolding find_header_end_take e by (simp split: if_splits)
  have "take ?n b = as_bytes (join CRLF ls)" using take_app_prefix [OF b(2), of ?n] len http_head_take by simp
  then have r: "ws_response E b = Inr (as_bytes (join CRLF ?f) @ as_bytes (CRLF @ CRLF) @ drop (?n + 4) b)"
    using b(3) assms(5-7) by (simp add: ws_response_def Let_def lines_join)
  have "drop (?n + 4) b @ concat rest = drop (?n + 4) (b @ concat rest)" using len by simp
  also have "\<dots> = frames" unfolding b(2) by (rule http_head_drop)
  finally have "(as_bytes (join CRLF ?f) @ as_bytes (CRLF @ CRLF) @ drop (?n + 4) b) @ concat rest = http_head ?f @ frames"
    by (simp add: http_head_def)
  moreover obtain cookie g1 where "ws_cookie now t h g = (cookie, g1)" by (rule prod.exhaust)
  then have "handle_raw_upgrade E now net keys front_port data g =
    (Tunnel (as_bytes (join CRLF ?f) @ as_bytes (CRLF @ CRLF) @ drop (?n + 4) b) (ws_request E t h cookie) rest, g1)"
    using assms(1,2) b(1) r by (simp add: handle_raw_upgrade_def Let_def)
  ultimately show ?thesis by blast
qed

section \<open>Links of a page to itself\<close>

lemma rfind_last_colon: "CHR '':'' \<notin> set p \<Longrightarrow> rfind_char (CHR '':'') (h @ '':'' @ p) = Some (length h)"
  using find_char_append [of "CHR '':''" "rev p" "rev h"] by (simp add: rfind_char_def)

lemma parse_u16_dec: "parse_u16 (dec (unat p)) = Some (p :: u16)"
proof -
  have "unat p < 2 ^ 16" using unsigned_less [of p, where 'a = nat] by simp
  then have "unat p \<le> 65535" by simp
  then show ?thesis by (simp add: parse_u16_def parse_uint_dec)
qed

lemma dec_no_char: "c \<notin> set (dec n)" if "digit_val c = None"
  using set_dec [of c n] digit_val_char that by fastforce

lemma dec_delims: "CHR '':'' \<notin> set (dec n)" "CHR ''/'' \<notin> set (dec n)"
  by (rule dec_no_char, simp add: digit_val_def)+

lemma find_scheme_end: "CHR '':'' \<notin> set s \<Longrightarrow> find_str ''://'' (s @ ''://'' @ r) = Some (length s)"
  by (induction s) auto

lemma first_part_slash: "CHR ''/'' \<notin> set a \<Longrightarrow> r = [] \<or> starts_with r ''/'' \<Longrightarrow> first_part ''/'' (a @ r) = a"
proof (cases r)
  case (Cons c r')
  assume "CHR ''/'' \<notin> set a" "r = [] \<or> starts_with r ''/''"
  with Cons show ?thesis using split_char_step [of "CHR ''/''" a r'] by (simp add: first_part_def)
qed (simp add: first_part_char)

lemma target_from_key_port:
  assumes "scheme = ''http'' \<or> scheme = ''https''" and "CHR ''/'' \<notin> set host" and "rest = [] \<or> starts_with rest ''/''"
  shows "target_from_key (scheme @ ''://'' @ host @ '':'' @ dec (unat port) @ rest) t =
    t\<lparr>wt_host := host, wt_port := port, wt_scheme := if scheme = ''https'' then ''wss'' else wt_scheme t\<rparr>"
proof -
  let ?o = "scheme @ ''://'' @ host @ '':'' @ dec (unat port) @ rest"
  have f: "find_str ''://'' ?o = Some (length scheme)" using assms(1) by (intro find_scheme_end) auto
  have d: "drop (length scheme + 3) ?o = (host @ '':'' @ dec (unat port)) @ rest" by simp
  have "first_part ''/'' ((host @ '':'' @ dec (unat port)) @ rest) = host @ '':'' @ dec (unat port)"
    using assms(2,3) dec_delims by (intro first_part_slash) auto
  moreover have "rfind_char (CHR '':'') (host @ '':'' @ dec (unat port)) = Some (length host)"
    using dec_delims(1) by (rule rfind_last_colon)
  moreover have "starts_with ?o ''https://'' \<longleftrightarrow> scheme = ''https''" using assms(1) by auto
  ultimately show ?thesis unfolding target_from_key_def Let_def f option.case d by (simp add: parse_u16_dec)
qed

lemma ws_target_of_port:
  assumes "CHR ''/'' \<notin> set host"
  shows "ws_target_of scheme (host @ '':'' @ dec (unat port) @ CHR ''/'' # path) =
    \<lparr>wt_scheme = scheme, wt_host = host, wt_port = port, wt_path = CHR ''/'' # path\<rparr>"
proof -
  have "CHR ''/'' \<notin> set (host @ '':'' @ dec (unat port))" using assms dec_delims by simp
  from find_char_append [OF this, of path] have
    "find_char (CHR ''/'') (host @ '':'' @ dec (unat port) @ CHR ''/'' # path) = Some (length (host @ '':'' @ dec (unat port)))" by simp
  moreover have "rfind_char (CHR '':'') (host @ '':'' @ dec (unat port)) = Some (length host)"
    using dec_delims(1) by (rule rfind_last_colon)
  ultimately show ?thesis by (simp add: ws_target_of_def Let_def parse_u16_dec)
qed

lemma request_line_words:
  "list_all visible path \<Longrightarrow> path \<noteq> [] \<Longrightarrow> split_whitespace (''GET '' @ path @ '' HTTP/1.1'') = [''GET'', path, ''HTTP/1.1'']"
proof -
  assume p: "list_all visible path" "path \<noteq> []"
  have v: "list_all visible ''GET''" "list_all visible ''HTTP/1.1''" by code_simp+
  have "split_ws [] (''GET'' @ CHR '' '' # path @ CHR '' '' # ''HTTP/1.1'' @ []) = [''GET'', path, ''HTTP/1.1'']"
    using p by (simp only: split_ws_word [OF v(1)] split_ws_word [OF v(2)] split_ws_word [OF p(1)] split_ws_space) simp
  then show ?thesis by (simp add: split_whitespace_def)
qed

text \<open>The plan for a request whose path has been read.\<close>

lemma ws_plan_request:
  assumes "list_all visible path" and "path \<noteq> []" and "list_all line_ok ((''GET '' @ path @ '' HTTP/1.1'') # hs)"
    and "is_utf8 (join CRLF ((''GET '' @ path @ '' HTTP/1.1'') # hs))" and "ws_query path = Inr (scheme, enc)"
    and "we_urldecode E enc = Some target_str"
  shows "\<exists>h. ws_plan E keys front_port (http_head ((''GET '' @ path @ '' HTTP/1.1'') # hs)) =
    (let t = restore_target E front_port (key_origin keys path) (wh_origin h) (ws_target_of scheme target_str)
     in if is_self front_port t then Inl (''502 Bad Gateway'', ''self-connect blocked'') else Inr (t, h))"
proof -
  let ?ls = "(''GET '' @ path @ '' HTTP/1.1'') # hs"
  have e: "find_header_end (http_head ?ls) = Some (length (join CRLF ?ls))"
    using find_header_end_head [OF _ assms(3), of "[]"] by (simp only: append_Nil2) simp
  have t: "take (length (join CRLF ?ls)) (http_head ?ls) = as_bytes (join CRLF ?ls)"
    using http_head_take [of ?ls "[]"] by (simp only: append_Nil2)
  show ?thesis
    unfolding ws_plan_def e t option.case from_utf8_as_bytes [OF assms(4)] lines_join [OF assms(3)] list.case
      request_line_words [OF assms(1,2)] assms(5) res_bind.simps prod.case assms(6) Let_def
    by blast
qed

text \<open>
  A page that opens a WebSocket to its own address reaches the upstream it came from. The script of such a page
  sees the proxy as its host; the key in the path tells which source the page belongs to, and when that source names
  host and port, the connection goes there, with the path the page asked for, encrypted exactly when the source is.
\<close>

theorem ws_self_link_restored:
  assumes "path = ''/__proxy__'' @ key @ ''?ws='' @ enc" and "key_ok key" and "CHR ''?'' \<notin> set enc" and "list_all visible path"
    and "list_all line_ok ((''GET '' @ path @ '' HTTP/1.1'') # hs)" and "is_utf8 (join CRLF ((''GET '' @ path @ '' HTTP/1.1'') # hs))"
    and "we_urldecode E enc = Some (''127.0.0.1:'' @ dec (unat front_port) @ CHR ''/'' # page_path)"
    and "hm_get keys key = Some (scheme @ ''://'' @ host @ '':'' @ dec (unat port) @ rest)"
    and "scheme = ''http'' \<or> scheme = ''https''" and "CHR ''/'' \<notin> set host" and "rest = [] \<or> starts_with rest ''/''"
    and "port \<noteq> front_port"
  shows "\<exists>h. ws_plan E keys front_port (http_head ((''GET '' @ path @ '' HTTP/1.1'') # hs)) =
    Inr (\<lparr>wt_scheme = if scheme = ''https'' then ''wss'' else ''ws'', wt_host = host, wt_port = port, wt_path = CHR ''/'' # page_path\<rparr>, h)"
proof -
  let ?k = "''/__proxy__'' @ key"
  have k: "CHR ''?'' \<notin> set ?k" using assms(2) by (simp add: key_ok_def)
  have q: "split_str ''?'' path = [?k, ''ws='' @ enc]"
    using split_char_step [OF k, of "''ws='' @ enc"] split_char_last [of "CHR ''?''" "''ws='' @ enc"] assms(3) by (simp add: assms(1))
  have "ws_query path = Inr (''ws'', enc)" unfolding ws_query_def q list.case strip_prefix_append by simp
  moreover have "first_part ''/'' key = key" using assms(2) by (intro first_part_char) (simp add: key_ok_def)
  then have ko: "key_origin keys path = Some (scheme @ ''://'' @ host @ '':'' @ dec (unat port) @ rest)"
    unfolding key_origin_def first_part_def [of "''?''"] q list.case strip_prefix_append option.case
    using assms(2,8) by (simp add: key_ok_def)
  moreover have "ws_target_of ''ws'' (''127.0.0.1:'' @ dec (unat front_port) @ CHR ''/'' # page_path) =
    \<lparr>wt_scheme = ''ws'', wt_host = ''127.0.0.1'', wt_port = front_port, wt_path = CHR ''/'' # page_path\<rparr>"
    using ws_target_of_port [of "''127.0.0.1''" "''ws''" front_port page_path] by simp
  moreover have "restore_target E front_port (Some (scheme @ ''://'' @ host @ '':'' @ dec (unat port) @ rest)) co
      \<lparr>wt_scheme = ''ws'', wt_host = ''127.0.0.1'', wt_port = front_port, wt_path = CHR ''/'' # page_path\<rparr> =
    \<lparr>wt_scheme = if scheme = ''https'' then ''wss'' else ''ws'', wt_host = host, wt_port = port, wt_path = CHR ''/'' # page_path\<rparr>" for co
    unfolding restore_target_def Let_def option.case target_from_key_port [OF assms(9-11)]
    by (simp add: host_valid_def is_self_def)
  moreover have "path \<noteq> []" by (simp add: assms(1))
  ultimately show ?thesis
    using ws_plan_request [OF assms(4) _ assms(5,6) _ assms(7), of "''ws''" keys front_port] assms(12)
    by (simp add: is_self_def)
qed

section \<open>Two gaps\<close>

lemma capture_other:
  assumes "hm_ok (pg_jars g)" and "k \<noteq> origin"
  shows "jar_of (pg_jars (capture_cookie C n0 n n2 origin val g)) k = jar_of (pg_jars g) k"
  using with_jar_jars [OF assms(1), of origin "add_set_cookie C n0 n val" k] assms(2)
  by (auto simp: capture_cookie_def split: prod.splits option.splits)

text \<open>
  The WebSockets of an upstream without a port in its address do not share its login. The forwarder keeps the
  cookies of \<open>http://host/\<close> under \<open>host\<close>, the WebSocket proxy looks under \<open>host:80\<close> or \<open>host:443\<close>: it finds none
  of the cookies that were set, and what the client sends by itself is all that reaches the upstream.
\<close>

theorem ws_misses_session:
  assumes "hm_ok (pg_jars g)" and "jar_of (pg_jars g) (host_header t) = []"
  shows "fst (ws_cookie later t h (capture_cookie C now0 now now_epoch (wt_host t) val g)) = wh_cookie h"
proof -
  have "host_header t \<noteq> wt_host t" by (simp add: host_header_def)
  from capture_other [OF assms(1) this] assms(2)
  have "jar_of (pg_jars (capture_cookie C now0 now now_epoch (wt_host t) val g)) (host_header t) = []" by simp
  then show ?thesis by (simp add: ws_cookie_def with_jar_def Let_def build_cookie_header_def)
qed

text \<open>
  A page can put header lines of its own into the upgrade request. The target is decoded before it is written into
  the request line and is not checked, so a target with encoded line breaks ends the request line early and
  continues with any line the page likes.
\<close>

theorem ws_header_injection:
  assumes "path = ''/?ws='' @ enc" and "CHR ''?'' \<notin> set enc" and "list_all visible path"
    and "list_all line_ok ((''GET '' @ path @ '' HTTP/1.1'') # hs)" and "is_utf8 (join CRLF ((''GET '' @ path @ '' HTTP/1.1'') # hs))"
    and "we_urldecode E enc = Some (host @ '':'' @ dec (unat port) @ ''/ HTTP/1.1'' @ CRLF @ l @ CRLF @ ''X:'')"
    and "CHR ''/'' \<notin> set host" and "host_valid E host" and "port \<noteq> front_port" and "line_ok l"
  shows "\<exists>t h. ws_plan E keys front_port (http_head ((''GET '' @ path @ '' HTTP/1.1'') # hs)) = Inr (t, h) \<and>
    take 2 (lines (ws_request E t h cookie)) = [''GET / HTTP/1.1'', l]"
proof -
  let ?t = "\<lparr>wt_scheme = ''ws'', wt_host = host, wt_port = port, wt_path = ''/ HTTP/1.1'' @ CRLF @ l @ CRLF @ ''X:''\<rparr>"
  have q: "split_str ''?'' path = [''/'', ''ws='' @ enc]"
    using split_char_step [of "CHR ''?''" "''/''" "''ws='' @ enc"] split_char_last [of "CHR ''?''" "''ws='' @ enc"] assms(2) by (simp add: assms(1))
  have "ws_query path = Inr (''ws'', enc)" unfolding ws_query_def q list.case strip_prefix_append by simp
  moreover have "key_origin keys path = None"
    unfolding key_origin_def first_part_def [of "''?''"] q list.case by (simp add: strip_prefix_def)
  moreover have "ws_target_of ''ws'' (host @ '':'' @ dec (unat port) @ ''/ HTTP/1.1'' @ CRLF @ l @ CRLF @ ''X:'') = ?t"
    using ws_target_of_port [OF assms(7), of "''ws''" port] by simp
  moreover have "restore_target E front_port None co ?t = ?t" for co using assms(8) by (simp add: restore_target_def)
  moreover have "\<not> is_self front_port ?t" using assms(9) by (simp add: is_self_def)
  ultimately obtain h where "ws_plan E keys front_port (http_head ((''GET '' @ path @ '' HTTP/1.1'') # hs)) = Inr (?t, h)"
    using ws_plan_request [OF assms(3) _ assms(4,5) _ assms(6), of "''ws''" keys front_port] assms(1) by auto
  moreover have "take 2 (lines (ws_request E ?t h cookie)) = [''GET / HTTP/1.1'', l]" for h
  proof -
    obtain rest where "ws_request E ?t h cookie = (''GET / HTTP/1.1'' @ [CR]) @ NL # (l @ [CR]) @ NL # rest"
      by (simp add: ws_request_def Let_def)
    moreover have "NL \<notin> set (''GET / HTTP/1.1'' @ [CR])" "NL \<notin> set (l @ [CR])" using assms(10) by (simp_all add: line_ok_def)
    ultimately have "lines (ws_request E ?t h cookie) = ''GET / HTTP/1.1'' # l # lines rest"
      by (simp only: lines_line strip_cr_snoc simp_thms)
    then show ?thesis by simp
  qed
  ultimately show ?thesis by blast
qed

section \<open>Examples\<close>

definition ws_toy :: "string \<Rightarrow> ws_env" where
  "ws_toy target = \<lparr>we_lower = map ascii_lower, we_urldecode = \<lambda>_. Some target, we_is_ip = \<lambda>_. False\<rparr>"

definition upgrade_toy :: "string \<Rightarrow> bytes" where
  "upgrade_toy path = http_head [''GET '' @ path @ '' HTTP/1.1'', ''Upgrade: websocket'']"

lemma upgrade_ok:
  "list_all line_ok [''GET '' @ ''/__proxy__ab12?ws=e'' @ '' HTTP/1.1'', ''Upgrade: websocket'']"
  "is_utf8 (join CRLF [''GET '' @ ''/__proxy__ab12?ws=e'' @ '' HTTP/1.1'', ''Upgrade: websocket''])"
  "list_all line_ok [''GET '' @ ''/?ws=e'' @ '' HTTP/1.1'', ''Upgrade: websocket'']"
  "is_utf8 (join CRLF [''GET '' @ ''/?ws=e'' @ '' HTTP/1.1'', ''Upgrade: websocket''])"
  "list_all visible ''/__proxy__ab12?ws=e''" "list_all visible ''/?ws=e''" "key_ok ''ab12''"
  by code_simp+


theorem ws_self_link_restored_witness:
  "\<exists>h. ws_plan (ws_toy (''127.0.0.1:'' @ dec (unat (9 :: u16)) @ ''/s'')) [(''ab12'', ''http://nas:'' @ dec (unat (5000 :: u16)) @ ''/app'')] 9
      (upgrade_toy ''/__proxy__ab12?ws=e'') =
    Inr (\<lparr>wt_scheme = if ''http'' = ''https'' then ''wss'' else ''ws'', wt_host = ''nas'', wt_port = 5000, wt_path = CHR ''/'' # ''s''\<rparr>, h)"
  unfolding upgrade_toy_def
  by (rule ws_self_link_restored [where key = "''ab12''" and enc = "''e''" and rest = "''/app''"])
    (simp_all add: upgrade_ok [simplified] ws_toy_def hm_get_def)

lemma nas_plan: "\<exists>h. ws_plan (ws_toy (''nas.local'' @ '':'' @ dec (unat (80 :: u16)) @ ''/'')) [] 9 (upgrade_toy ''/?ws=e'') =
    Inr (\<lparr>wt_scheme = ''ws'', wt_host = ''nas.local'', wt_port = 80, wt_path = ''/''\<rparr>, h)"
proof -
  let ?E = "ws_toy (''nas.local'' @ '':'' @ dec (unat (80 :: u16)) @ ''/'')"
  have q: "ws_query ''/?ws=e'' = Inr (''ws'', ''e'')" "key_origin [] ''/?ws=e'' = None" by code_simp+
  have "we_urldecode ?E ''e'' = Some (''nas.local'' @ '':'' @ dec (unat (80 :: u16)) @ ''/'')" by (simp add: ws_toy_def)
  from ws_plan_request [OF upgrade_ok(6) _ upgrade_ok(3,4) q(1) this, of "[]" 9] ws_target_of_port [of "''nas.local''" "''ws''" 80 "[]"]
  show ?thesis by (simp add: upgrade_toy_def q(2) restore_target_def host_valid_def is_self_def)
qed

theorem ws_frames_preserved_witness:
  "\<exists>out req rest g'. handle_raw_upgrade (ws_toy (''nas.local'' @ '':'' @ dec (unat (80 :: u16)) @ ''/'')) 5 (\<lambda>t. Answers [http_head [''HTTP/1.1 101 ok'', ''Vary: x''], [129, 0]])
      [] 9 (upgrade_toy ''/?ws=e'') proxy_toy = (Tunnel out req rest, g') \<and>
    out @ concat rest = http_head [''HTTP/1.1 101 ok''] @ [129, 0]"
proof -
  obtain h where h: "ws_plan (ws_toy (''nas.local'' @ '':'' @ dec (unat (80 :: u16)) @ ''/'')) [] 9 (upgrade_toy ''/?ws=e'') =
    Inr (\<lparr>wt_scheme = ''ws'', wt_host = ''nas.local'', wt_port = 80, wt_path = ''/''\<rparr>, h)" using nas_plan by blast
  have ok: "list_all line_ok [''HTTP/1.1 101 ok'', ''Vary: x'']" "is_utf8 (join CRLF [''HTTP/1.1 101 ok'', ''Vary: x''])"
    "contains_str (join CRLF [''HTTP/1.1 101 ok'', ''Vary: x'']) ''101''" by code_simp+
  have f: "filter (\<lambda>l. \<not> stripped_line (ws_toy x) l) [''HTTP/1.1 101 ok'', ''Vary: x''] = [''HTTP/1.1 101 ok'']" for x
  proof -
    have "map ascii_lower ''Vary: x'' = ''vary: x''" "map ascii_lower ''HTTP/1.1 101 ok'' = ''http/1.1 101 ok''" by code_simp+
    then show ?thesis by (simp add: stripped_line_def ws_toy_def strip_resp_headers_def del: list.map)
  qed
  show ?thesis
    using ws_frames_preserved [OF h _ _ _ ok, of "\<lambda>t. Answers [http_head [''HTTP/1.1 101 ok'', ''Vary: x''], [129, 0]]"
      "[http_head [''HTTP/1.1 101 ok'', ''Vary: x''], [129, 0]]" "[129, 0]" 5 proxy_toy] unfolding f by simp
qed

theorem ws_misses_session_witness:
  "fst (ws_cookie 9 \<lparr>wt_scheme = ''ws'', wt_host = ''nas'', wt_port = 80, wt_path = ''/''\<rparr>
      \<lparr>wh_key = [], wh_version = [], wh_extra = [], wh_cookie = None, wh_origin = None\<rparr>
      (capture_cookie chrono_toy 5 5 5 ''nas'' ''sid=1; HttpOnly'' proxy_toy)) = None"
  using ws_misses_session [OF proxy_toy_db(3), of "\<lparr>wt_scheme = ''ws'', wt_host = ''nas'', wt_port = 80, wt_path = ''/''\<rparr>" 9
    "\<lparr>wh_key = [], wh_version = [], wh_extra = [], wh_cookie = None, wh_origin = None\<rparr>" chrono_toy 5 5 5 "''sid=1; HttpOnly''"]
  by (simp add: proxy_toy_def proxy_globals_init_def)

theorem ws_header_injection_witness:
  "\<exists>t h. ws_plan (ws_toy (''nas.local'' @ '':'' @ dec (unat (80 :: u16)) @ ''/ HTTP/1.1'' @ CRLF @ ''Host: other'' @ CRLF @ ''X:'')) [] 9 (upgrade_toy ''/?ws=e'') = Inr (t, h) \<and>
    take 2 (lines (ws_request (ws_toy (''nas.local'' @ '':'' @ dec (unat (80 :: u16)) @ ''/ HTTP/1.1'' @ CRLF @ ''Host: other'' @ CRLF @ ''X:'')) t h None)) = [''GET / HTTP/1.1'', ''Host: other'']"
  unfolding upgrade_toy_def
  by (rule ws_header_injection [where enc = "''e''" and host = "''nas.local''" and port = 80])
    (simp_all add: upgrade_ok [simplified] ws_toy_def host_valid_def line_ok_def)

end
