(* ===== verification/Proxy_Server.thy ===== *)
theory Proxy_Server
  imports Ws_Proxy
begin

text \<open>
  The page proxy as a whole: \<open>src-tauri/src/proxy/server.rs\<close> (connections and the registry of keys),
  \<open>proxy/plugin.rs\<close> (the plugin chain and the reverse proxy handler), the plugins \<open>cors.rs\<close>, \<open>iframe_bypass.rs\<close> and
  \<open>https_tunnel.rs\<close>, and their composition in \<open>server/mod.rs\<close> and \<open>app/setup.rs\<close>. HTTP parsing is hyper's. A
  handler gives an answer, fails, or panics; the state behind the handlers is threaded through. The texts of
  transport errors are left out of the error messages.
\<close>

section \<open>The plugin chain\<close>

record request_context =
  rc_target_url :: "string option"
  rc_should_rewrite :: bool
  rc_plugin_data :: "(string, string) hmap"

definition request_context_new :: request_context where
  "request_context_new = \<lparr>rc_target_url = None, rc_should_rewrite = True, rc_plugin_data = []\<rparr>"

record plugin =
  pl_name :: string
  pl_priority :: int
  pl_pre :: "http_request \<times> request_context \<Rightarrow> (string + proxy_response option) \<times> http_request \<times> request_context"
  pl_post :: "request_context \<Rightarrow> proxy_response \<Rightarrow> string + proxy_response"

datatype handled = Answered proxy_response | HandlerFailed string | HandlerPanicked

record 's handler =
  ha_name :: string
  ha_can_handle :: "http_request \<Rightarrow> bool"
  ha_handle :: "http_request \<Rightarrow> request_context \<Rightarrow> 's \<Rightarrow> handled \<times> 's"

text \<open>The trait's default methods.\<close>

definition pre_default :: "http_request \<times> request_context \<Rightarrow> (string + proxy_response option) \<times> http_request \<times> request_context" where
  "pre_default rc = (Inr None, rc)"

record 's plugin_chain =
  pc_plugins :: "plugin list"
  pc_handlers :: "'s handler list"

definition plugin_chain_new :: "plugin list \<Rightarrow> 's handler list \<Rightarrow> 's plugin_chain" where
  "plugin_chain_new plugins handlers = \<lparr>pc_plugins = sort_key pl_priority plugins, pc_handlers = handlers\<rparr>"

definition find_handler :: "'s plugin_chain \<Rightarrow> http_request \<Rightarrow> 's handler option" where
  "find_handler c req = List.find (\<lambda>h. ha_can_handle h req) (pc_handlers c)"

text \<open>Phase 1: an answer or an error ends the request, otherwise the request goes on as the plugins left it.\<close>

fun pre_process :: "plugin list \<Rightarrow> http_request \<times> request_context \<Rightarrow> proxy_response + (http_request \<times> request_context)" where
  "pre_process [] rc = Inr rc"
| "pre_process (p # ps) rc =
    (case pl_pre p rc of
       (Inr (Some resp), _) \<Rightarrow> Inl resp
     | (Inr None, rc') \<Rightarrow> pre_process ps rc'
     | (Inl e, _) \<Rightarrow> Inl (text_response 502 (''['' @ pl_name p @ ''] pre_process error: '' @ e)))"

text \<open>Phase 3, for the plugins in the order given.\<close>

fun post_process :: "plugin list \<Rightarrow> request_context \<Rightarrow> proxy_response \<Rightarrow> proxy_response" where
  "post_process [] ctx resp = resp"
| "post_process (p # ps) ctx resp =
    (case pl_post p ctx resp of
       Inr r \<Rightarrow> post_process ps ctx r
     | Inl e \<Rightarrow> text_response 502 (''['' @ pl_name p @ ''] post_process error: '' @ e))"

definition process :: "'s plugin_chain \<Rightarrow> http_request \<Rightarrow> request_context \<Rightarrow> 's \<Rightarrow> proxy_response option \<times> 's" where
  "process c req0 ctx0 s =
    (case pre_process (pc_plugins c) (req0, ctx0) of
       Inl resp \<Rightarrow> (Some resp, s)
     | Inr (req, ctx) \<Rightarrow>
        (case find_handler c req of
           None \<Rightarrow> (Some (post_process (rev (pc_plugins c)) ctx (text_response 404 ''No handler for this request'')), s)
         | Some h \<Rightarrow>
            (case ha_handle h req ctx s of
               (Answered r, s') \<Rightarrow> (Some (post_process (rev (pc_plugins c)) ctx r), s')
             | (HandlerFailed e, s') \<Rightarrow> (Some (text_response 502 (''['' @ ha_name h @ ''] handler error: '' @ e)), s')
             | (HandlerPanicked, s') \<Rightarrow> (None, s'))))"

section \<open>The plugins\<close>

text \<open>\<open>HeaderMap\<close>: \<open>insert\<close> replaces every value of the name, \<open>remove\<close> deletes them.\<close>

definition hdr_remove :: "string \<Rightarrow> (string \<times> string) list \<Rightarrow> (string \<times> string) list" where
  "hdr_remove name hs = filter (\<lambda>(k, v). k \<noteq> name) hs"

definition hdr_insert :: "string \<Rightarrow> string \<Rightarrow> (string \<times> string) list \<Rightarrow> (string \<times> string) list" where
  "hdr_insert name v hs = hdr_remove name hs @ [(name, v)]"

definition hdr_default :: "string \<Rightarrow> string \<Rightarrow> (string \<times> string) list \<Rightarrow> (string \<times> string) list" where
  "hdr_default name v hs = (if map_of hs name = None then hdr_insert name v hs else hs)"

definition CORS_METHODS :: string where
  "CORS_METHODS = ''GET, POST, PUT, PATCH, DELETE, HEAD, OPTIONS''"

definition preflight_response :: proxy_response where
  "preflight_response =
    \<lparr>ps_status = 204,
     ps_headers = [(''access-control-allow-origin'', ''*''), (''access-control-allow-methods'', CORS_METHODS),
                   (''access-control-allow-headers'', ''*''), (''access-control-max-age'', ''86400'')],
     ps_body = FullBody []\<rparr>"

definition cors_pre :: "http_request \<times> request_context \<Rightarrow> (string + proxy_response option) \<times> http_request \<times> request_context" where
  "cors_pre rc =
    (if hr_method (fst rc) = ''OPTIONS''
     then (Inr (Some preflight_response), rc)
     else (Inr None, rc))"

definition cors_post :: "request_context \<Rightarrow> proxy_response \<Rightarrow> string + proxy_response" where
  "cors_post ctx resp =
    Inr (resp\<lparr>ps_headers := hdr_default ''access-control-allow-headers'' ''*'' (hdr_default ''access-control-allow-methods'' CORS_METHODS
      (hdr_default ''access-control-allow-origin'' ''*'' (ps_headers resp)))\<rparr>)"

definition cors_plugin :: plugin where
  "cors_plugin = \<lparr>pl_name = ''cors'', pl_priority = 10, pl_pre = cors_pre, pl_post = cors_post\<rparr>"

definition iframe_post :: "request_context \<Rightarrow> proxy_response \<Rightarrow> string + proxy_response" where
  "iframe_post ctx resp =
    (let hs = hdr_remove ''x-frame-options'' (ps_headers resp) in
     Inr (resp\<lparr>ps_headers :=
       (case hdr_str ''content-security-policy'' hs of
          None \<Rightarrow> hs
        | Some val \<Rightarrow>
           (let joined = join ''; '' (filter (\<lambda>s. \<not> starts_with s ''frame-ancestors'') (map trim (split_str '';'' val))) in
            if joined = [] then hdr_remove ''content-security-policy'' hs else hdr_insert ''content-security-policy'' joined hs))\<rparr>))"

definition iframe_plugin :: plugin where
  "iframe_plugin = \<lparr>pl_name = ''iframe_bypass'', pl_priority = 20, pl_pre = pre_default, pl_post = iframe_post\<rparr>"

section \<open>The handlers\<close>

text \<open>\<open>parse_host_port\<close>: \<open>rsplitn(2, ':')\<close>, then brackets around the host are removed.\<close>

definition trim_brackets :: "string \<Rightarrow> string" where
  "trim_brackets s = (let b = (\<lambda>c. c = CHR ''['' \<or> c = CHR '']'') in rev (dropWhile b (rev (dropWhile b s))))"

definition parse_host_port :: "string option \<Rightarrow> string option \<Rightarrow> (string \<times> u16) option" where
  "parse_host_port uri_authority host_hdr =
    (case (case uri_authority of Some a \<Rightarrow> Some a | None \<Rightarrow> host_hdr) of
       None \<Rightarrow> None
     | Some authority \<Rightarrow>
        (let (port_str, host) = (case rfind_char (CHR '':'') authority of
                                   Some i \<Rightarrow> (drop (i + 1) authority, take i authority)
                                 | None \<Rightarrow> (authority, authority));
             port = (if port_str = host then 443 else case parse_u16 port_str of Some p \<Rightarrow> p | None \<Rightarrow> 443);
             h = trim_brackets host
         in if h = [] then None else Some (h, port)))"

text \<open>The tunnel: \<open>authority\<close> reads the authority of the request target, \<open>connect\<close> opens the connection.\<close>

definition tunnel_handle ::
  "(http_request \<Rightarrow> string option) \<Rightarrow> (string \<times> u16 \<Rightarrow> bool) \<Rightarrow> http_request \<Rightarrow> request_context \<Rightarrow> 's \<Rightarrow> handled \<times> 's" where
  "tunnel_handle authority connect req ctx s =
    (case parse_host_port (authority req) (hdr_str ''host'' (hr_headers req)) of
       None \<Rightarrow> (Answered (text_response 400 ''Invalid CONNECT target''), s)
     | Some (host, port) \<Rightarrow>
        (if connect (host, port) then (Answered (text_response 200 []), s)
         else (Answered (text_response 502 (''Failed to connect to '' @ host @ '':'' @ dec (unat port))), s)))"

definition tunnel_handler :: "(http_request \<Rightarrow> string option) \<Rightarrow> (string \<times> u16 \<Rightarrow> bool) \<Rightarrow> 's handler" where
  "tunnel_handler authority connect =
    \<lparr>ha_name = ''https_tunnel'', ha_can_handle = \<lambda>req. hr_method req = ''CONNECT'', ha_handle = tunnel_handle authority connect\<rparr>"

text \<open>The forwarding engine as a handler.\<close>

record 'enc chain_env =
  ce_fwd :: "'enc fwd_env"
  ce_now :: u64
  ce_clock :: "nat \<Rightarrow> u64 \<times> u64 \<times> u64"
  ce_client :: "outgoing \<Rightarrow> nat \<Rightarrow> send_error + upstream"
  ce_clonable :: bool
  ce_authority :: "http_request \<Rightarrow> string option"
  ce_connect :: "string \<times> u16 \<Rightarrow> bool"
  ce_url_parse :: "string \<Rightarrow> (string \<times> string) option"

type_synonym proxy_state = "forward_state \<times> proxy_globals"

definition forward_handler :: "'enc chain_env \<Rightarrow> proxy_state handler" where
  "forward_handler E =
    \<lparr>ha_name = ''http_forward'', ha_can_handle = forward_can_handle (ce_fwd E),
     ha_handle = \<lambda>req ctx s.
       (case forward_handle (ce_fwd E) (ce_now E) (ce_clock E) (ce_client E) (ce_clonable E) req (rc_should_rewrite ctx) s of
          (Inl e, s') \<Rightarrow> (HandlerFailed e, s')
        | (Inr out, s') \<Rightarrow> ((case fo_response out of Some r \<Rightarrow> Answered r | None \<Rightarrow> HandlerPanicked), s'))\<rparr>"

text \<open>The older handler for \<open>/proxy?url=\<close>; \<open>url::Url::parse\<close> gives the scheme and the normalised URL.\<close>

definition reverse_hop_by_hop :: "string list" where
  "reverse_hop_by_hop = hop_by_hop @ [''content-length'']"

definition headers_to_strip :: "string list" where
  "headers_to_strip = [''content-security-policy'', ''x-frame-options'', ''x-content-type-options'', ''referrer-policy'', ''permissions-policy'',
     ''cross-origin-embedder-policy'', ''cross-origin-opener-policy'', ''cross-origin-resource-policy'']"

definition reverse_request :: "'enc chain_env \<Rightarrow> http_request \<Rightarrow> string \<Rightarrow> bytes \<Rightarrow> outgoing" where
  "reverse_request E req url body =
    \<lparr>og_method = hr_method req, og_url = url,
     og_headers = List.map_filter (\<lambda>(k, v). if fw_lower (ce_fwd E) k \<notin> set reverse_hop_by_hop then map_option (Pair k) (to_str v) else None) (hr_headers req),
     og_body = if body = [] then None else Some body\<rparr>"

definition reverse_answer :: "'enc chain_env \<Rightarrow> upstream \<Rightarrow> handled" where
  "reverse_answer E up =
    (case up_bytes up of
       None \<Rightarrow> HandlerFailed ''Failed to read upstream body''
     | Some b \<Rightarrow>
        Answered \<lparr>ps_status = up_status up,
          ps_headers = List.map_filter (\<lambda>(k, v). if fw_lower (ce_fwd E) k \<notin> set headers_to_strip then map_option (Pair k) (to_str v) else None) (up_headers up) @
            [(''access-control-allow-origin'', ''*''), (''access-control-allow-methods'', ''GET, POST, PUT, DELETE, OPTIONS''),
             (''access-control-allow-headers'', ''*''), (''x-frame-options'', ''ALLOWALL'')],
          ps_body = FullBody b\<rparr>)"

definition reverse_handle :: "'enc chain_env \<Rightarrow> http_request \<Rightarrow> handled" where
  "reverse_handle E req =
    (case map_of (fw_form (ce_fwd E) (case hr_query req of Some q \<Rightarrow> q | None \<Rightarrow> [])) ''url'' of
       None \<Rightarrow> Answered (text_response 400 (''Missing '' @ SQ @ ''url'' @ SQ @ '' query parameter''))
     | Some target \<Rightarrow>
        (case ce_url_parse E target of
           None \<Rightarrow> Answered (text_response 400 ''Invalid target URL'')
         | Some (scheme, url) \<Rightarrow>
            (if scheme \<noteq> ''http'' \<and> scheme \<noteq> ''https'' then Answered (text_response 400 ''Only http/https URLs are allowed'')
             else
               (case hr_body req of
                  None \<Rightarrow> HandlerFailed (utf8_text [232, 175, 187, 229, 143, 150, 232, 175, 183, 230, 177, 130, 228, 189, 147, 229, 164, 177, 232, 180, 165])
                | Some body \<Rightarrow>
                   (case ce_client E (reverse_request E req url body) 0 of
                      Inl e \<Rightarrow> HandlerFailed (''Upstream request failed: '' @ se_text e)
                    | Inr up \<Rightarrow> reverse_answer E up)))))"

definition reverse_handler :: "'enc chain_env \<Rightarrow> proxy_state handler" where
  "reverse_handler E =
    \<lparr>ha_name = ''http-reverse-proxy'', ha_can_handle = \<lambda>req. starts_with (hr_path req) ''/proxy'',
     ha_handle = \<lambda>req ctx s. (reverse_handle E req, s)\<rparr>"

text \<open>The chain of the application and of the web server.\<close>

definition init_proxy_server :: "'enc chain_env \<Rightarrow> proxy_state plugin_chain" where
  "init_proxy_server E =
    plugin_chain_new [cors_plugin, iframe_plugin]
      [tunnel_handler (ce_authority E) (ce_connect E), forward_handler E, reverse_handler E]"

definition serve_http :: "'enc chain_env \<Rightarrow> http_request \<Rightarrow> proxy_state \<Rightarrow> proxy_response option \<times> proxy_state" where
  "serve_http E req s = process (init_proxy_server E) req request_context_new s"

section \<open>Connections\<close>

text \<open>\<open>PrependStream\<close>: the bytes that were read to look at them, then the stream.\<close>

record prepend_stream =
  pp_stream :: "bytes list"
  pp_buf :: bytes
  pp_pos :: nat

definition prepend_new :: "bytes list \<Rightarrow> bytes \<Rightarrow> prepend_stream" where
  "prepend_new stream initial_data = \<lparr>pp_stream = stream, pp_buf = initial_data, pp_pos = 0\<rparr>"

definition poll_read :: "nat \<Rightarrow> prepend_stream \<Rightarrow> bytes \<times> prepend_stream" where
  "poll_read remaining p =
    (if pp_pos p < length (pp_buf p) then
       (let rest = drop (pp_pos p) (pp_buf p); to_copy = min (length rest) remaining
        in (take to_copy rest, p\<lparr>pp_pos := pp_pos p + to_copy\<rparr>))
     else (let (c, rest) = read_chunk remaining (pp_stream p) in (c, p\<lparr>pp_stream := rest\<rparr>)))"

definition PEEK_LEN :: nat where "PEEK_LEN = 8192"

datatype accepted =
    WsUpgrade bytes "bytes list"
  | HttpConn prepend_stream

text \<open>The first read of a connection decides who gets it.\<close>

definition accept_connection :: "ws_env \<Rightarrow> bytes list \<Rightarrow> accepted" where
  "accept_connection E segs =
    (let (peek_data, rest) = read_chunk PEEK_LEN segs
     in if is_raw_ws_upgrade E peek_data then WsUpgrade peek_data rest else HttpConn (prepend_new rest peek_data))"

section \<open>Keys\<close>

definition register_proxy_key :: "primitives \<Rightarrow> string \<Rightarrow> forward_state \<Rightarrow> string \<times> forward_state" where
  "register_proxy_key P url st =
    (let key = prim_hex P (take 6 (sha256 P (as_bytes url))) in (key, st\<lparr>fs_keys := hm_insert key url (fs_keys st)\<rparr>))"

definition set_proxy_source :: "string \<Rightarrow> forward_state \<Rightarrow> forward_state" where
  "set_proxy_source url st = st\<lparr>fs_active := Some url\<rparr>"

definition proxy_url :: "u16 \<Rightarrow> string" where
  "proxy_url port = ''http://127.0.0.1:'' @ dec (unat port)"

definition proxy_url_for :: "(string \<Rightarrow> string) \<Rightarrow> u16 \<Rightarrow> string \<Rightarrow> string" where
  "proxy_url_for urlencode port target_url = ''http://127.0.0.1:'' @ dec (unat port) @ ''/proxy?url='' @ urlencode target_url"

text \<open>\<open>std::mem::take\<close> of the pending downloads.\<close>

definition get_pending_downloads :: "proxy_globals \<Rightarrow> string list \<times> proxy_globals" where
  "get_pending_downloads g = (pg_pending g, g\<lparr>pg_pending := []\<rparr>)"

section \<open>What the plugins keep\<close>

text \<open>
  The contract of the plugins in use: they never fail, never change a request they let pass, and never change the
  status or the body of an answer.
\<close>

locale harmless_chain =
  fixes ps :: "plugin list"
  assumes pre_passes: "p \<in> set ps \<Longrightarrow> pl_pre p rc = (Inr None, rc) \<or> (\<exists>resp. pl_pre p rc = (Inr (Some resp), rc))"
    and post_passes: "p \<in> set ps \<Longrightarrow> \<exists>r. pl_post p ctx resp = Inr r \<and> ps_status r = ps_status resp \<and> ps_body r = ps_body resp"
begin

lemma pre_unchanged: "set qs \<subseteq> set ps \<Longrightarrow> pre_process qs rc = Inr rc' \<Longrightarrow> rc' = rc"
proof (induction qs)
  case (Cons q qs)
  then show ?case using pre_passes [of q rc] by auto
qed simp

lemma post_unchanged:
  "set qs \<subseteq> set ps \<Longrightarrow> ps_status (post_process qs ctx resp) = ps_status resp \<and> ps_body (post_process qs ctx resp) = ps_body resp"
proof (induction qs arbitrary: resp)
  case (Cons q qs)
  then obtain r where r: "pl_post q ctx resp = Inr r" "ps_status r = ps_status resp" "ps_body r = ps_body resp"
    using post_passes [of q ctx resp] by auto
  with Cons show ?case by simp
qed simp

end

lemma proxy_plugins: "pc_plugins (init_proxy_server E) = [cors_plugin, iframe_plugin]"
  by (simp add: init_proxy_server_def plugin_chain_new_def cors_plugin_def iframe_plugin_def)

lemma proxy_handlers:
  "pc_handlers (init_proxy_server E) = [tunnel_handler (ce_authority E) (ce_connect E), forward_handler E, reverse_handler E]"
  by (simp add: init_proxy_server_def plugin_chain_new_def)

interpretation page_chain: harmless_chain "[cors_plugin, iframe_plugin]"
proof
  show "pl_pre p rc = (Inr None, rc) \<or> (\<exists>resp. pl_pre p rc = (Inr (Some resp), rc))" if "p \<in> set [cors_plugin, iframe_plugin]" for p rc
    using that by (auto simp: cors_plugin_def iframe_plugin_def cors_pre_def pre_default_def)
  show "\<exists>r. pl_post p ctx resp = Inr r \<and> ps_status r = ps_status resp \<and> ps_body r = ps_body resp"
    if "p \<in> set [cors_plugin, iframe_plugin]" for p ctx resp
    using that by (auto simp: cors_plugin_def iframe_plugin_def cors_post_def iframe_post_def Let_def)
qed

lemma pre_process_page:
  "pre_process [cors_plugin, iframe_plugin] rc = (if hr_method (fst rc) = ''OPTIONS'' then Inl preflight_response else Inr rc)"
  by (simp add: cors_plugin_def iframe_plugin_def cors_pre_def pre_default_def)

text \<open>The service spelt out.\<close>

lemma process_page:
  assumes "pc_plugins c = [cors_plugin, iframe_plugin]"
  shows "process c req ctx s =
    (if hr_method req = ''OPTIONS'' then (Some preflight_response, s)
     else (case find_handler c req of
             None \<Rightarrow> (Some (post_process [iframe_plugin, cors_plugin] ctx (text_response 404 ''No handler for this request'')), s)
           | Some h \<Rightarrow>
              (case ha_handle h req ctx s of
                 (Answered r, s') \<Rightarrow> (Some (post_process [iframe_plugin, cors_plugin] ctx r), s')
               | (HandlerFailed e, s') \<Rightarrow> (Some (text_response 502 (''['' @ ha_name h @ ''] handler error: '' @ e)), s')
               | (HandlerPanicked, s') \<Rightarrow> (None, s'))))"
proof -
  have "rev [cors_plugin, iframe_plugin] = [iframe_plugin, cors_plugin]" by simp
  then show ?thesis unfolding process_def assms pre_process_page
    by (simp only: fst_conv sum.case prod.case if_distrib if_True if_False split: if_split) simp
qed

lemmas serve_http_eq = process_page [OF proxy_plugins, of _ _ request_context_new, folded serve_http_def]

text \<open>
  A preflight is answered by the proxy. For every \<open>OPTIONS\<close> request, whatever its path, the answer permits all
  origins, no handler runs, nothing is sent upstream and no state changes.
\<close>

theorem preflight_answered_locally:
  assumes "hr_method req = ''OPTIONS''"
  shows "\<exists>resp. serve_http E req s = (Some resp, s) \<and> ps_status resp = 204 \<and>
    map_of (ps_headers resp) ''access-control-allow-origin'' = Some ''*''"
  using assms by (simp add: serve_http_eq preflight_response_def)

section \<open>Every answer may be framed\<close>

definition frameable :: "(string \<times> string) list \<Rightarrow> bool" where
  "frameable hs \<longleftrightarrow> map_of hs ''x-frame-options'' = None \<and>
    (\<forall>v. hdr_str ''content-security-policy'' hs = Some v \<longrightarrow> (\<forall>d \<in> set (split_str '';'' v). \<not> starts_with (trim d) ''frame-ancestors''))"

lemma map_of_hdr_remove: "map_of (hdr_remove n hs) k = (if k = n then None else map_of hs k)"
  by (induction hs) (auto simp: hdr_remove_def)

lemma map_of_hdr_insert: "map_of (hdr_insert n v hs) k = (if k = n then Some v else map_of hs k)"
  unfolding hdr_insert_def hdr_remove_def by (induction hs) auto

lemma map_of_hdr_default: "map_of (hdr_default n v hs) k = (if k = n \<and> map_of hs k = None then Some v else map_of hs k)"
  by (auto simp: hdr_default_def map_of_hdr_insert)

lemma split_join_trim:
  "list_all (\<lambda>x. CHR '';'' \<notin> set x) ds \<Longrightarrow> ds \<noteq> [] \<Longrightarrow> d \<in> set (split_str '';'' (CHR '' '' # join ''; '' ds)) \<Longrightarrow> trim d \<in> trim ` set ds"
proof (induction ds)
  case (Cons x ds)
  show ?case
  proof (cases ds)
    case Nil
    with Cons.prems have "d = CHR '' '' # x" using split_char_last [of "CHR '';''" "CHR '' '' # x"] by simp
    with Nil show ?thesis by (simp add: trim_front_space)
  next
    case c: (Cons y ys)
    then have "split_str '';'' (CHR '' '' # join ''; '' (x # ds)) = (CHR '' '' # x) # split_str '';'' (CHR '' '' # join ''; '' ds)"
      using split_char_step [of "CHR '';''" "CHR '' '' # x" "CHR '' '' # join ''; '' ds"] Cons.prems(1) by simp
    with Cons.prems(3) consider "d = CHR '' '' # x" | "d \<in> set (split_str '';'' (CHR '' '' # join ''; '' ds))" by auto
    then show ?thesis
    proof cases
      case 2
      with Cons c show ?thesis by auto
    qed (simp add: trim_front_space)
  qed
qed simp

lemma split_join_directives:
  assumes "list_all (\<lambda>x. CHR '';'' \<notin> set x) ds" and "ds \<noteq> []" and "d \<in> set (split_str '';'' (join ''; '' ds))"
  shows "trim d \<in> trim ` set ds"
proof -
  obtain x xs where ds: "ds = x # xs" using assms(2) by (cases ds) auto
  show ?thesis
  proof (cases xs)
    case Nil
    with assms ds show ?thesis using split_char_last [of "CHR '';''" x] by simp
  next
    case (Cons y ys)
    then have "split_str '';'' (join ''; '' ds) = x # split_str '';'' (CHR '' '' # join ''; '' xs)"
      using split_char_step [of "CHR '';''" x "CHR '' '' # join ''; '' xs"] assms(1) ds by simp
    with assms split_join_trim [of xs d] ds Cons show ?thesis by auto
  qed
qed

lemma iframe_frameable:
  assumes "iframe_post ctx resp = Inr r"
  shows "frameable (ps_headers r)"
proof -
  define hs where "hs = hdr_remove ''x-frame-options'' (ps_headers resp)"
  have x: "map_of hs ''x-frame-options'' = None" by (simp add: hs_def map_of_hdr_remove)
  show ?thesis
  proof (cases "hdr_str ''content-security-policy'' hs")
    case None
    then have "ps_headers r = hs" using assms by (auto simp: iframe_post_def Let_def hs_def)
    with None x show ?thesis by (simp add: frameable_def)
  next
    case (Some val)
    define ds where "ds = filter (\<lambda>s. \<not> starts_with s ''frame-ancestors'') (map trim (split_str '';'' val))"
    define j where "j = join ''; '' ds"
    have r: "ps_headers r = (if j = [] then hdr_remove ''content-security-policy'' hs else hdr_insert ''content-security-policy'' j hs)"
      using assms Some by (auto simp: iframe_post_def Let_def hs_def j_def ds_def)
    have "list_all (\<lambda>x. CHR '';'' \<notin> set x) ds"
      using split_char_notin [of _ "CHR '';''" val] set_trim by (fastforce simp: ds_def list_all_iff)
    then have d: "\<not> starts_with (trim d) ''frame-ancestors''" if "d \<in> set (split_str '';'' j)" "j \<noteq> []" for d
    proof -
      have "ds \<noteq> []" using that(2) by (auto simp: j_def)
      with split_join_directives [of ds d] \<open>list_all _ ds\<close> that(1) obtain e where "e \<in> set ds" "trim d = trim e" by (auto simp: j_def)
      then show ?thesis by (auto simp: ds_def)
    qed
    show ?thesis unfolding frameable_def r
      using x d by (auto simp: map_of_hdr_remove map_of_hdr_insert hdr_str_def to_str_def bind_eq_Some_conv split: if_splits)
  qed
qed

lemma cors_frameable: "cors_post ctx resp = Inr r \<Longrightarrow> frameable (ps_headers resp) \<Longrightarrow> frameable (ps_headers r)"
  by (auto simp: cors_post_def frameable_def map_of_hdr_default hdr_str_def)

lemma post_frameable: "frameable (ps_headers (post_process [iframe_plugin, cors_plugin] ctx resp))"
proof -
  obtain r where r: "iframe_post ctx resp = Inr r" by (simp add: iframe_post_def Let_def)
  obtain r' where r': "cors_post ctx r = Inr r'" by (simp add: cors_post_def)
  from cors_frameable [OF r' iframe_frameable [OF r]] r r' show ?thesis by (simp add: iframe_plugin_def cors_plugin_def)
qed

lemma text_frameable: "frameable (ps_headers (text_response n t))"
  by (simp add: frameable_def text_response_def hdr_str_def)


section \<open>Which handler answers\<close>

lemma proxy_find_handler:
  "find_handler (init_proxy_server E) req =
    (if hr_method req = ''CONNECT'' then Some (tunnel_handler (ce_authority E) (ce_connect E))
     else if forward_can_handle (ce_fwd E) req then Some (forward_handler E)
     else if starts_with (hr_path req) ''/proxy'' then Some (reverse_handler E) else None)"
  by (simp add: find_handler_def proxy_handlers tunnel_handler_def forward_handler_def reverse_handler_def)

text \<open>
  The handler with the checks is never used. A request with a target in its query is taken by the forwarding
  engine, which does not look at the scheme; the reverse proxy handler, which would refuse anything but \<open>http\<close> and
  \<open>https\<close>, only ever sees requests without a target. Replacing it by one that always answers 400 changes nothing.
\<close>

theorem reverse_handler_inert:
  "serve_http E req s =
    process (plugin_chain_new [cors_plugin, iframe_plugin]
      [tunnel_handler (ce_authority E) (ce_connect E), forward_handler E,
       (reverse_handler E)\<lparr>ha_handle := \<lambda>req ctx s. (Answered (text_response 400 (''Missing '' @ SQ @ ''url'' @ SQ @ '' query parameter'')), s)\<rparr>])
      req request_context_new s"
proof -
  let ?r = "(reverse_handler E)\<lparr>ha_handle := \<lambda>req ctx s. (Answered (text_response 400 (''Missing '' @ SQ @ ''url'' @ SQ @ '' query parameter'')), s)\<rparr>"
  let ?c = "plugin_chain_new [cors_plugin, iframe_plugin] [tunnel_handler (ce_authority E) (ce_connect E), forward_handler E, ?r]"
  have plugins: "pc_plugins ?c = [cors_plugin, iframe_plugin]"
    by (simp add: plugin_chain_new_def cors_plugin_def iframe_plugin_def)
  have find: "find_handler ?c req =
    (if hr_method req = ''CONNECT'' then Some (tunnel_handler (ce_authority E) (ce_connect E))
     else if forward_can_handle (ce_fwd E) req then Some (forward_handler E)
     else if starts_with (hr_path req) ''/proxy'' then Some ?r else None)"
    by (simp add: find_handler_def plugin_chain_new_def tunnel_handler_def forward_handler_def reverse_handler_def)
  have same: "ha_handle (reverse_handler E) req ctx s = ha_handle ?r req ctx s" if "\<not> forward_can_handle (ce_fwd E) req" for ctx
  proof -
    let ?f = "fw_form (ce_fwd E) (case hr_query req of Some q \<Rightarrow> q | None \<Rightarrow> [])"
    have "map_of (rev ?f) ''url'' = None" using that by (auto simp: forward_can_handle_def query_param_def)
    then have "map_of ?f ''url'' = None" unfolding map_of_eq_None_iff by simp
    then show ?thesis by (simp add: reverse_handler_def reverse_handle_def)
  qed
  have "ha_name ?r = ha_name (reverse_handler E)" by (simp add: reverse_handler_def)
  with same show ?thesis
    unfolding serve_http_eq process_page [OF plugins] find proxy_find_handler
    by (cases "hr_method req = ''CONNECT''"; cases "forward_can_handle (ce_fwd E) req"; simp del: post_process.simps)
qed

section \<open>Looking at a connection does not disturb it\<close>

fun poll_reads :: "nat list \<Rightarrow> prepend_stream \<Rightarrow> bytes list \<times> prepend_stream" where
  "poll_reads [] p = ([], p)"
| "poll_reads (n # ns) p = (let (c, p') = poll_read n p; (cs, p'') = poll_reads ns p' in (c # cs, p''))"

definition unread :: "prepend_stream \<Rightarrow> bytes" where
  "unread p = drop (pp_pos p) (pp_buf p) @ concat (pp_stream p)"

lemma poll_read_unread:
  assumes "poll_read n p = (c, p')"
  shows "unread p = c @ unread p' \<and> length c \<le> n"
proof (cases "pp_pos p < length (pp_buf p)")
  case True
  let ?k = "min (length (pp_buf p) - pp_pos p) n"
  from assms True have "c = take ?k (drop (pp_pos p) (pp_buf p))" "p' = p\<lparr>pp_pos := pp_pos p + ?k\<rparr>"
    by (auto simp: poll_read_def Let_def)
  moreover have "drop (pp_pos p + ?k) (pp_buf p) = drop ?k (drop (pp_pos p) (pp_buf p))" by (simp add: add.commute)
  ultimately have "drop (pp_pos p) (pp_buf p) = c @ drop (pp_pos p') (pp_buf p')"
    using append_take_drop_id [of ?k "drop (pp_pos p) (pp_buf p)"] by simp
  moreover from \<open>c = _\<close> have "length c \<le> n" by simp
  ultimately show ?thesis using \<open>p' = _\<close> by (simp add: unread_def)
next
  case False
  obtain rest where r: "read_chunk n (pp_stream p) = (c, rest)" "p' = p\<lparr>pp_stream := rest\<rparr>"
    using assms False by (auto simp: poll_read_def Let_def split: prod.splits)
  with read_chunk_concat [OF r(1)] False show ?thesis by (simp add: unread_def)
qed

lemma poll_reads_unread: "poll_reads ns p = (cs, p') \<Longrightarrow> unread p = concat cs @ unread p'"
proof (induction ns arbitrary: p cs)
  case (Cons n ns)
  obtain c p1 where c: "poll_read n p = (c, p1)" by (rule prod.exhaust)
  obtain cs' p2 where cs: "poll_reads ns p1 = (cs', p2)" by (rule prod.exhaust)
  from Cons.prems c cs have "cs = c # cs'" "p' = p2" by auto
  with Cons.IH [of p1 cs'] cs poll_read_unread [OF c] show ?case by simp
qed auto

text \<open>
  Peeking at a connection does not disturb it. Whatever arrives and however it is cut into segments, a connection
  that is no WebSocket is handed on such that the reader, with buffers of any sizes, gets the bytes that were sent,
  all of them, in order and once.
\<close>

theorem http_connection_intact:
  assumes "accept_connection E segs = HttpConn p" and "poll_reads ns p = (cs, p')"
  shows "\<exists>rest. concat segs = concat cs @ rest \<and> rest = unread p'"
proof -
  obtain peek rest where r: "read_chunk PEEK_LEN segs = (peek, rest)" by (rule prod.exhaust)
  with assms(1) have p: "p = prepend_new rest peek" by (auto simp: accept_connection_def split: if_splits)
  have "unread p = concat segs" using read_chunk_concat [OF r] by (simp add: unread_def p prepend_new_def)
  with poll_reads_unread [OF assms(2)] show ?thesis by simp
qed

section \<open>Registered pages\<close>

text \<open>
  C28: A page that was registered is served from its source. The key that is handed out leads every path below it to the
  same path below the source, and the status and the body that the forwarding engine gives are those the browser gets.
\<close>

theorem registered_page_served:
  assumes "register_proxy_key P url st = (key, st')" and "hm_ok (fs_keys st)" and "key_ok key"
    and "hr_path req = ''/__proxy__'' @ key @ CHR ''/'' # p" and "CHR ''?'' \<notin> set p" and "hr_method req = ''GET''"
    and "forward (ce_fwd E) (ce_now E) (ce_clock E) (ce_client E) (ce_clonable E) req
      (trim_end_slash url @ CHR ''/'' # p @ (case hr_query req of Some q \<Rightarrow> ''?'' @ q | None \<Rightarrow> [])) url key True g = (out, g')"
    and "fo_response out = Some resp"
  shows "\<exists>answer st''. serve_http E req (st', g) = (Some answer, st'', g') \<and> ps_status answer = ps_status resp \<and> ps_body answer = ps_body resp"
proof -
  have "hm_get (fs_keys st') key = Some url"
    using assms(1,2) by (auto simp: register_proxy_key_def Let_def hm.get_put)
  from route_keyed_path [OF assms(4,3,5) this, of "ce_fwd E"] obtain st'' where
    r: "forward_route (ce_fwd E) req st' =
      (ForwardTo (trim_end_slash url @ CHR ''/'' # p @ (case hr_query req of Some q \<Rightarrow> ''?'' @ q | None \<Rightarrow> [])) url key, st'')"
    by (metis prod.collapse)
  have "starts_with (hr_path req) ''/__proxy__''" unfolding assms(4) by (rule starts_with_append)
  then have f: "find_handler (init_proxy_server E) req = Some (forward_handler E)"
    using assms(6) by (simp add: proxy_find_handler forward_can_handle_def)
  have h: "ha_handle (forward_handler E) req request_context_new (st', g) = (Answered resp, st'', g')"
    using assms(7,8) r by (simp add: forward_handler_def forward_handle_def request_context_new_def)
  have "serve_http E req (st', g) = (Some (post_process [iframe_plugin, cors_plugin] request_context_new resp), st'', g')"
    unfolding serve_http_eq f option.case h prod.case handled.case using assms(6) by simp
  moreover have "set [iframe_plugin, cors_plugin] \<subseteq> set [cors_plugin, iframe_plugin]" by auto
  ultimately show ?thesis using page_chain.post_unchanged by blast
qed

section \<open>Examples\<close>

definition chain_toy :: "unit chain_env" where
  "chain_toy = \<lparr>ce_fwd = env_toy, ce_now = 5, ce_clock = \<lambda>_. (5, 5, 5), ce_client = refusing, ce_clonable = True, ce_authority = \<lambda>_. None,
     ce_connect = \<lambda>_. False, ce_url_parse = \<lambda>_. None\<rparr>"

theorem preflight_answered_locally_witness:
  "\<exists>resp. serve_http chain_toy (get_toy\<lparr>hr_method := ''OPTIONS''\<rparr>) (keys_toy, proxy_toy) = (Some resp, keys_toy, proxy_toy) \<and> ps_status resp = 204 \<and>
    map_of (ps_headers resp) ''access-control-allow-origin'' = Some ''*''"
  by (rule preflight_answered_locally) simp


theorem http_connection_intact_witness:
  "\<exists>rest. [1, 2, 3] = concat (fst (poll_reads [1, 1] (prepend_new [[3]] [1, 2]))) @ rest \<and>
    rest = unread (snd (poll_reads [1, 1] (prepend_new [[3]] [1, 2])))"
proof -
  have "accept_connection (ws_toy []) [[1, 2], [3]] = HttpConn (prepend_new [[3]] [1, 2])"
    by (simp add: accept_connection_def PEEK_LEN_def is_raw_ws_upgrade_def from_utf8_def of_bytes_def char_of_byte_def split: option.split)
  from http_connection_intact [OF this, of "[1, 1]"] show ?thesis by (metis concat.simps append_Nil2 append.simps prod.collapse)
qed

theorem registered_page_served_witness:
  "\<exists>answer st'' g'. serve_http chain_toy get_toy
      (snd (register_proxy_key (primitives_toy\<lparr>prim_hex := \<lambda>_. ''ab12''\<rparr>) ''http://nas/app'' \<lparr>fs_keys = [], fs_active = None\<rparr>), proxy_toy) = (Some answer, st'', g') \<and>
    ps_status answer = 502"
proof -
  let ?P = "primitives_toy\<lparr>prim_hex := \<lambda>_. ''ab12''\<rparr>"
  let ?st = "\<lparr>fs_keys = [], fs_active = None\<rparr> :: forward_state"
  obtain st' where r: "register_proxy_key ?P ''http://nas/app'' ?st = (''ab12'', st')" by (simp add: register_proxy_key_def Let_def)
  let ?url = "trim_end_slash ''http://nas/app'' @ CHR ''/'' # [] @ (case hr_query get_toy of Some q \<Rightarrow> ''?'' @ q | None \<Rightarrow> [])"
  obtain out g' where f: "forward (ce_fwd chain_toy) (ce_now chain_toy) (ce_clock chain_toy) (ce_client chain_toy) (ce_clonable chain_toy) get_toy
    ?url ''http://nas/app'' ''ab12'' True proxy_toy = (out, g')" by (rule prod.exhaust)
  obtain t where t: "fo_response out = Some (text_response 502 t)"
    using forward_refused [of "ce_fwd chain_toy" "ce_now chain_toy" "ce_clock chain_toy" "ce_clonable chain_toy" get_toy ?url "''http://nas/app''" "''ab12''" True proxy_toy] f
    by (auto simp: chain_toy_def)
  have "hr_path get_toy = ''/__proxy__'' @ ''ab12'' @ CHR ''/'' # []" "hr_method get_toy = ''GET''" "key_ok ''ab12''"
    by (simp_all add: get_toy_def key_ok_def)
  from registered_page_served [OF r _ this(3,1) _ this(2) f t] r show ?thesis by (auto simp: hm.ok_nil text_response_def)
qed

end
