(* ===== verification/App_Commands.thy ===== *)
theory App_Commands
  imports Space_Facts
begin

text \<open>
  The applications of a space and its rules: the commands \<open>src-tauri/src/commands/app.rs\<close>,
  \<open>commands/network_acls.rs\<close>, \<open>commands/network_port_forwards.rs\<close>, \<open>commands/qr.rs\<close> and the built-in list
  \<open>system_apps.rs\<close>. Applications travel between devices in links: the link is made by
  \<open>generate_add_app_link\<close>, taken apart by \<open>parse_qr\<close> and brought in by \<open>import_add_apps\<close>.
\<close>

section \<open>What the commands use\<close>

record app_import =
  im_name :: string
  im_category :: "string option"
  im_icon :: "string option"
  im_protocol :: "string option"
  im_hostname :: "string option"
  im_port :: "string option"
  im_pathname :: "string option"

record peer_target =
  pt_peer_id :: u32
  pt_virtual_ip :: "string option"

record add_app_payload =
  ad_name :: string
  ad_network_name :: string
  ad_apps :: "app_import list"
  ad_target_peers :: "peer_target list"

record import_result =
  ir_space_id :: string
  ir_space_name :: string
  ir_imported :: nat

text \<open>
  \<open>ae_ids k\<close> is the \<open>k\<close>-th identifier made in a call, \<open>ae_default\<close> the identifier in the default configuration,
  \<open>ae_b64\<close> and \<open>ae_unb64\<close> the standard alphabet of base64, \<open>ae_debug\<close> the debug format of a list of strings;
  the orders are those in which SQLite returns rows before it sorts them.
\<close>

record ('w, 't, 'v, 'f) app_env =
  ae_space :: "('w, 't, 'v, 'f) space_env"
  ae_apps :: "app_row list \<Rightarrow> app_row list"
  ae_acls :: "acl_rule_row list \<Rightarrow> acl_rule_row list"
  ae_forwards :: "port_forward_rule_row list \<Rightarrow> port_forward_rule_row list"
  ae_ids :: "nat \<Rightarrow> uuid"
  ae_default :: string
  ae_payload :: "add_app_payload json"
  ae_b64 :: "bytes \<Rightarrow> string"
  ae_unb64 :: "string \<Rightarrow> string + bytes"
  ae_debug :: "string list \<Rightarrow> string"

abbreviation ae_uuid :: "('w, 't, 'v, 'f) app_env \<Rightarrow> uuid_lib" where
  "ae_uuid A \<equiv> se_uuid (ae_space A)"

definition new_id :: "('w, 't, 'v, 'f) app_env \<Rightarrow> nat \<Rightarrow> string" where
  "new_id A k = ul_string (ae_uuid A) (ae_ids A k)"

definition app_now :: "('w, 't, 'v, 'f) app_env \<Rightarrow> string" where
  "app_now A = se_rfc3339 (ae_space A) (se_now (ae_space A))"

text \<open>\<open>db.get_user_id()?.unwrap_or_default()\<close>\<close>

definition caller :: "('w, 't, 'v, 'f) app_env \<Rightarrow> ('w, 't) space_mgr \<Rightarrow> ('w, 't, string) mgr_result" where
  "caller A m = mgr_bind (on_db (get_user_id (se_users (ae_space A))) m) (\<lambda>u m. (Inr (case u of Some i \<Rightarrow> i | None \<Rightarrow> []), m))"

definition default_protocol :: "string option \<Rightarrow> string option" where
  "default_protocol p = (case p of Some s \<Rightarrow> Some s | None \<Rightarrow> Some ''http:'')"

section \<open>Applications\<close>

text \<open>The fields the user enters are an \<open>app_import\<close>.\<close>

definition app_row_of :: "string \<Rightarrow> string \<Rightarrow> app_import \<Rightarrow> int \<Rightarrow> string \<Rightarrow> string \<Rightarrow> app_row" where
  "app_row_of ident space_id i sort_order created_by created_at =
    \<lparr>ap_id = ident, ap_space_id = space_id, ap_name = im_name i, ap_category = im_category i, ap_icon = im_icon i,
     ap_protocol = default_protocol (im_protocol i), ap_hostname = im_hostname i, ap_port = im_port i, ap_pathname = im_pathname i,
     ap_sort_order = sort_order, ap_created_by = created_by, ap_created_at = created_at\<rparr>"

definition add_app_command :: "('w, 't, 'v, 'f) app_env \<Rightarrow> string \<Rightarrow> app_import \<Rightarrow> ('w, 't) space_mgr \<Rightarrow> ('w, 't, app_row) mgr_result" where
  "add_app_command A space_id entered m =
    mgr_bind (caller A m) (\<lambda>caller_id m.
      case check_owner (ae_space A) space_id m of
        Inl e \<Rightarrow> (Inl e, m)
      | Inr _ \<Rightarrow>
         (let app = app_row_of (new_id A 0) space_id entered 0 caller_id (app_now A)
          in mgr_bind (on_db (insert_app app) m) (\<lambda>_ m. (Inr app, m))))"

definition update_app_command :: "('w, 't, 'v, 'f) app_env \<Rightarrow> string \<Rightarrow> app_import \<Rightarrow> ('w, 't) space_mgr \<Rightarrow> ('w, 't, unit) mgr_result" where
  "update_app_command A app_id entered m =
    mgr_bind (caller A m) (\<lambda>caller_id m.
    mgr_bind (on_db (list_apps_by_created (ae_apps A) app_id caller_id) m) (\<lambda>apps m.
      case apps of
        [] \<Rightarrow> (Inl (SpErr (utf8_text [230, 151, 160, 230, 157, 131, 233, 153, 144, 228, 191, 174, 230, 148, 185, 230, 136, 150, 229, 186, 148, 231, 148, 168, 228, 184, 141, 229, 173, 152, 229, 156, 168])), m)
      | existing # _ \<Rightarrow>
         on_db (update_app (app_row_of app_id (ap_space_id existing) entered (ap_sort_order existing) caller_id (ap_created_at existing))) m))"

definition delete_app_command :: "('w, 't, 'v, 'f) app_env \<Rightarrow> string \<Rightarrow> ('w, 't) space_mgr \<Rightarrow> ('w, 't, unit) mgr_result" where
  "delete_app_command A app_id m = mgr_bind (caller A m) (\<lambda>caller_id m. on_db (delete_app app_id caller_id) m)"

definition list_apps_command :: "('w, 't, 'v, 'f) app_env \<Rightarrow> string \<Rightarrow> ('w, 't) space_mgr \<Rightarrow> ('w, 't, app_row list) mgr_result" where
  "list_apps_command A space_id m = on_db (list_apps (ae_apps A) space_id) m"

definition shared_row :: "string \<Rightarrow> string \<Rightarrow> string \<Rightarrow> string \<Rightarrow> app_row \<Rightarrow> app_row" where
  "shared_row ident space_id created_by created_at source =
    source\<lparr>ap_id := ident, ap_space_id := space_id, ap_created_by := created_by, ap_created_at := created_at\<rparr>"

definition share_app_command ::
  "('w, 't, 'v, 'f) app_env \<Rightarrow> string \<Rightarrow> string \<Rightarrow> ('w, 't) space_mgr \<Rightarrow> ('w, 't, app_row) mgr_result" where
  "share_app_command A app_id target_space_id m =
    mgr_bind (caller A m) (\<lambda>caller_id m.
    mgr_bind (on_db (list_apps_by_created (ae_apps A) app_id caller_id) m) (\<lambda>apps m.
      case apps of
        [] \<Rightarrow> (Inl (SpErr (utf8_text [230, 151, 160, 230, 157, 131, 233, 153, 144, 229, 136, 134, 228, 186, 171, 230, 136, 150, 229, 186, 148, 231, 148, 168, 228, 184, 141, 229, 173, 152, 229, 156, 168])), m)
      | source # _ \<Rightarrow>
         mgr_bind (space_list (ae_space A) m) (\<lambda>spaces m.
           if \<not> list_ex (\<lambda>s. ul_string (ae_uuid A) (sc_id s) = target_space_id) spaces
           then (Inl (SpErr (utf8_text [231, 155, 174, 230, 160, 135, 231, 169, 186, 233, 151, 180, 228, 184, 141, 229, 173, 152, 229, 156, 168])), m)
           else mgr_bind (on_db (list_apps (ae_apps A) target_space_id) m) (\<lambda>existing m.
             if list_ex (\<lambda>a. ap_name a = ap_name source) existing then (Inl (SpErr (utf8_text [231, 155, 174, 230, 160, 135, 231, 169, 186, 233, 151, 180, 229, 183, 178, 229, 173, 152, 229, 156, 168, 229, 144, 140, 229, 144, 141, 229, 186, 148, 231, 148, 168])), m)
             else
               (let app = shared_row (new_id A 0) target_space_id caller_id (app_now A) source
                in mgr_bind (on_db (insert_app app) m) (\<lambda>_ m. (Inr app, m)))))))"

section \<open>Applications in links\<close>

definition import_of :: "app_row \<Rightarrow> app_import" where
  "import_of a =
    \<lparr>im_name = ap_name a, im_category = ap_category a, im_icon = ap_icon a, im_protocol = ap_protocol a, im_hostname = ap_hostname a,
     im_port = ap_port a, im_pathname = ap_pathname a\<rparr>"

definition target_of :: "'f peer_info \<Rightarrow> peer_target" where
  "target_of p = \<lparr>pt_peer_id = pi_peer_id p, pt_virtual_ip = pi_virtual_ip p\<rparr>"

definition generate_add_app_link ::
  "('w, 't, 'v, 'f) app_env \<Rightarrow> string \<Rightarrow> string list \<Rightarrow> u32 list \<Rightarrow> ('w, 't) space_mgr \<Rightarrow> ('w, 't, string) mgr_result" where
  "generate_add_app_link A space_id app_ids target_peer_ids m =
    (let E = ae_space A in
     case ul_parse (se_uuid E) space_id of
       Inl e \<Rightarrow> (Inl (SpErr e), m)
     | Inr ident \<Rightarrow>
        mgr_bind (find_space ident m) (\<lambda>space m.
        mgr_bind (get_effective_config E (ae_default A) ident m) (\<lambda>effective m.
        mgr_bind (on_db (list_apps (ae_apps A) space_id) m) (\<lambda>all_apps m.
          let selected = map import_of (filter (\<lambda>a. ap_id a \<in> set app_ids) all_apps) in
          if selected = [] then (Inl (SpErr (utf8_text [230, 156, 170, 233, 128, 137, 230, 139, 169, 230, 156, 137, 230, 149, 136, 229, 186, 148, 231, 148, 168])), m)
          else mgr_bind (get_peers E ident m) (\<lambda>peers m.
            let payload = \<lparr>ad_name = sc_name space, ad_network_name = nc_network_name effective, ad_apps = selected,
                           ad_target_peers = map target_of (filter (\<lambda>p. pi_peer_id p \<in> set target_peer_ids) peers)\<rparr>
            in case js_ser (ae_payload A) payload of
                 Inl e \<Rightarrow> (Inl (SpErr e), m)
               | Inr json \<Rightarrow>
                  (map_sum SpQr (\<lambda>x. x)
                     (fst (encrypt_qr (se_prims E) (se_zstd E) (se_link E) (se_global E) (se_cell E) (se_nonce E) EVENT_ADD_APP json)), m))))))"

definition parse_qr :: "('w, 't, 'v, 'f) app_env \<Rightarrow> string \<Rightarrow> space_error + string \<times> string" where
  "parse_qr A link =
    (let E = ae_space A in
     map_sum SpQr (\<lambda>(event, data). (event, ae_b64 A data))
       (fst (decrypt_qr (se_prims E) (se_zstd E) (se_link E) (se_global E) (se_cell E) link)))"

text \<open>The error text of a configuration that does not parse, or its panic.\<close>

definition config_failure :: "('w, 't, 'v, 'f) app_env \<Rightarrow> string \<Rightarrow> net_config_error \<Rightarrow> space_error" where
  "config_failure A ctx e =
    (case e of
       NotValidJson t \<Rightarrow> SpErr (ctx @ ''config_json is not valid JSON: '' @ t)
     | NotNetworkConfig t keys preview \<Rightarrow>
        SpErr (ctx @ ''config_json -> NetworkConfig failed: '' @ t @ '' (keys: '' @ ae_debug A keys @ '', json_preview: '' @ preview @ ''..)'')
     | SliceInsideChar _ \<Rightarrow> SpPanic)"

text \<open>The loop over the local spaces; the first match ends it.\<close>

fun match_space ::
  "('w, 't, 'v, 'f) app_env \<Rightarrow> add_app_payload \<Rightarrow> space_row list \<Rightarrow> ('w, 't) space_mgr \<Rightarrow> ('w, 't, (uuid \<times> string) option) mgr_result" where
  "match_space A payload [] m = (Inr None, m)"
| "match_space A payload (row # rows) m =
    (if sp_name row \<noteq> ad_name payload then match_space A payload rows m
     else case sp_config_json row of
       None \<Rightarrow> match_space A payload rows m
     | Some json \<Rightarrow>
        (case from_config_json (se_values (ae_space A)) (ae_default A) json of
           Inl e \<Rightarrow> (Inl (config_failure A (''config_json '' @ utf8_text [232, 167, 163, 230, 158, 144, 229, 164, 177, 232, 180, 165] @ '': '') e), m)
         | Inr config \<Rightarrow>
            if nc_network_name config \<noteq> ad_network_name payload then match_space A payload rows m
            else case ul_parse (ae_uuid A) (sp_id row) of
              Inl _ \<Rightarrow> match_space A payload rows m
            | Inr space_id \<Rightarrow>
               (case get_peers (ae_space A) space_id m of
                  (r, m) \<Rightarrow>
                    (let current = pi_peer_id ` set (case r of Inr ps \<Rightarrow> ps | Inl _ \<Rightarrow> [])
                     in if list_all (\<lambda>t. pt_peer_id t \<in> current) (ad_target_peers payload)
                        then (Inr (Some (space_id, sp_name row)), m) else match_space A payload rows m))))"

text \<open>The loop over the applications of the payload.\<close>

fun import_loop ::
  "('w, 't, 'v, 'f) app_env \<Rightarrow> string \<Rightarrow> nat \<Rightarrow> app_import list \<Rightarrow> nat \<Rightarrow> ('w, 't) space_mgr \<Rightarrow> ('w, 't, nat) mgr_result" where
  "import_loop A space_id k [] imported m = (Inr imported, m)"
| "import_loop A space_id k (i # apps) imported m =
    mgr_bind (on_db (list_apps (ae_apps A) space_id) m) (\<lambda>existing m.
      if list_ex (\<lambda>a. ap_name a = im_name i) existing then import_loop A space_id k apps imported m
      else mgr_bind (caller A m) (\<lambda>created_by m.
        case on_db (insert_app (app_row_of (new_id A k) space_id i 0 created_by (app_now A))) m of
          (Inr _, m) \<Rightarrow> import_loop A space_id (Suc k) apps (imported + 1) m
        | (Inl _, m) \<Rightarrow> import_loop A space_id (Suc k) apps imported m))"

definition import_add_apps :: "('w, 't, 'v, 'f) app_env \<Rightarrow> string \<Rightarrow> ('w, 't) space_mgr \<Rightarrow> ('w, 't, import_result) mgr_result" where
  "import_add_apps A data m =
    (case ae_unb64 A data of
       Inl e \<Rightarrow> (Inl (SpErr (utf8_text [230, 149, 176, 230, 141, 174, 232, 167, 163, 231, 160, 129, 229, 164, 177, 232, 180, 165] @ '': '' @ e)), m)
     | Inr json_bytes \<Rightarrow>
        (case js_de (ae_payload A) json_bytes of
           Inl e \<Rightarrow> (Inl (SpErr (utf8_text [232, 189, 189, 232, 141, 183, 232, 167, 163, 230, 158, 144, 229, 164, 177, 232, 180, 165] @ '': '' @ e)), m)
         | Inr payload \<Rightarrow>
            mgr_bind (on_db (list_spaces (se_rows (ae_space A))) m) (\<lambda>rows m.
            mgr_bind (match_space A payload rows m) (\<lambda>found m.
              case found of
                None \<Rightarrow> (Inl (SpErr (utf8_text [230, 156, 170, 230, 137, 190, 229, 136, 176, 229, 140, 185, 233, 133, 141, 231, 169, 186, 233, 151, 180, 239, 188, 154] @ ''name='' @ ad_name payload @ '', network_name='' @ ad_network_name payload)), m)
              | Some (space_id, name) \<Rightarrow>
                 mgr_bind (import_loop A (ul_string (ae_uuid A) space_id) 0 (ad_apps payload) 0 m) (\<lambda>imported m.
                   (Inr \<lparr>ir_space_id = ul_string (ae_uuid A) space_id, ir_space_name = name, ir_imported = imported\<rparr>, m))))))"

section \<open>Rules\<close>

text \<open>\<open>AclRule\<close> and \<open>PortForwardRule\<close> have the fields of their rows; \<open>row_to_rule\<close> copies them.\<close>

type_synonym acl_rule = acl_rule_row
type_synonym port_forward_rule = port_forward_rule_row

definition acl_row_to_rule :: "acl_rule_row \<Rightarrow> acl_rule" where
  "acl_row_to_rule row =
    \<lparr>al_id = al_id row, al_space_id = al_space_id row, al_action = al_action row, al_source = al_source row, al_dest = al_dest row,
     al_ports = al_ports row, al_description = al_description row, al_created_at = al_created_at row, al_updated_at = al_updated_at row\<rparr>"

definition forward_row_to_rule :: "port_forward_rule_row \<Rightarrow> port_forward_rule" where
  "forward_row_to_rule row =
    \<lparr>pr_id = pr_id row, pr_space_id = pr_space_id row, pr_name = pr_name row, pr_protocol = pr_protocol row, pr_source_ip = pr_source_ip row,
     pr_source_port = pr_source_port row, pr_target_ip = pr_target_ip row, pr_target_port = pr_target_port row,
     pr_description = pr_description row, pr_created_at = pr_created_at row, pr_updated_at = pr_updated_at row\<rparr>"

definition get_acl_rules_command :: "('w, 't, 'v, 'f) app_env \<Rightarrow> string \<Rightarrow> ('w, 't) space_mgr \<Rightarrow> ('w, 't, acl_rule list) mgr_result" where
  "get_acl_rules_command A space_id m =
    mgr_bind (on_db (get_acl_rules (ae_acls A) space_id) m) (\<lambda>rows m. (Inr (map acl_row_to_rule rows), m))"

definition create_acl_rule_command ::
  "('w, 't, 'v, 'f) app_env \<Rightarrow> string \<Rightarrow> string \<Rightarrow> string \<Rightarrow> string \<Rightarrow> string \<Rightarrow> string \<Rightarrow> ('w, 't) space_mgr \<Rightarrow> ('w, 't, acl_rule) mgr_result" where
  "create_acl_rule_command A space_id action source dest ports description m =
    (let row = \<lparr>al_id = new_id A 0, al_space_id = space_id, al_action = action, al_source = source, al_dest = dest, al_ports = ports,
                al_description = description, al_created_at = app_now A, al_updated_at = app_now A\<rparr>
     in mgr_bind (on_db (insert_acl_rule row) m) (\<lambda>_ m. (Inr (acl_row_to_rule row), m)))"

definition acl_updated ::
  "('w, 't, 'v, 'f) app_env \<Rightarrow> string option \<Rightarrow> string option \<Rightarrow> string option \<Rightarrow> string option \<Rightarrow> string option \<Rightarrow> acl_rule_row \<Rightarrow> acl_rule_row" where
  "acl_updated A action source dest ports description row =
    row\<lparr>al_action := case_option (al_action row) id action, al_source := case_option (al_source row) id source,
      al_dest := case_option (al_dest row) id dest, al_ports := case_option (al_ports row) id ports,
      al_description := case_option (al_description row) id description, al_updated_at := app_now A\<rparr>"

definition update_acl_rule_command ::
  "('w, 't, 'v, 'f) app_env \<Rightarrow> string \<Rightarrow> string \<Rightarrow> string option \<Rightarrow> string option \<Rightarrow> string option \<Rightarrow> string option \<Rightarrow> string option \<Rightarrow>
   ('w, 't) space_mgr \<Rightarrow> ('w, 't, acl_rule) mgr_result" where
  "update_acl_rule_command A space_id rule_id action source dest ports description m =
    mgr_bind (on_db (get_acl_rules (ae_acls A) space_id) m) (\<lambda>existing m.
      case List.find (\<lambda>r. al_id r = rule_id) existing of
        None \<Rightarrow> (Inl (SpErr (''ACL '' @ utf8_text [232, 167, 132, 229, 136, 153, 228, 184, 141, 229, 173, 152, 229, 156, 168] @ '': '' @ rule_id)), m)
      | Some row \<Rightarrow>
         (let updated = acl_updated A action source dest ports description row
          in mgr_bind (on_db (update_acl_rule updated) m) (\<lambda>_ m. (Inr (acl_row_to_rule updated), m))))"

definition delete_acl_rule_command :: "('w, 't, 'v, 'f) app_env \<Rightarrow> string \<Rightarrow> string \<Rightarrow> ('w, 't) space_mgr \<Rightarrow> ('w, 't, unit) mgr_result" where
  "delete_acl_rule_command A space_id rule_id m =
    (case ul_parse (ae_uuid A) space_id of
       Inl e \<Rightarrow> (Inl (SpErr e), m)
     | Inr _ \<Rightarrow> on_db (delete_acl_rule rule_id) m)"

definition get_port_forward_rules_command ::
  "('w, 't, 'v, 'f) app_env \<Rightarrow> string \<Rightarrow> ('w, 't) space_mgr \<Rightarrow> ('w, 't, port_forward_rule list) mgr_result" where
  "get_port_forward_rules_command A space_id m =
    mgr_bind (on_db (get_port_forward_rules (ae_forwards A) space_id) m) (\<lambda>rows m. (Inr (map forward_row_to_rule rows), m))"

definition create_port_forward_rule_command ::
  "('w, 't, 'v, 'f) app_env \<Rightarrow> string \<Rightarrow> string \<Rightarrow> string \<Rightarrow> string \<Rightarrow> int \<Rightarrow> string \<Rightarrow> int \<Rightarrow> string \<Rightarrow>
   ('w, 't) space_mgr \<Rightarrow> ('w, 't, port_forward_rule) mgr_result" where
  "create_port_forward_rule_command A space_id name protocol source_ip source_port target_ip target_port description m =
    (let row = \<lparr>pr_id = new_id A 0, pr_space_id = space_id, pr_name = name, pr_protocol = protocol, pr_source_ip = source_ip,
                pr_source_port = source_port, pr_target_ip = target_ip, pr_target_port = target_port, pr_description = description,
                pr_created_at = app_now A, pr_updated_at = app_now A\<rparr>
     in mgr_bind (on_db (insert_port_forward_rule row) m) (\<lambda>_ m. (Inr (forward_row_to_rule row), m)))"

definition forward_updated ::
  "('w, 't, 'v, 'f) app_env \<Rightarrow> string option \<Rightarrow> string option \<Rightarrow> string option \<Rightarrow> int option \<Rightarrow> string option \<Rightarrow> int option \<Rightarrow> string option \<Rightarrow>
   port_forward_rule_row \<Rightarrow> port_forward_rule_row" where
  "forward_updated A name protocol source_ip source_port target_ip target_port description row =
    row\<lparr>pr_name := case_option (pr_name row) id name, pr_protocol := case_option (pr_protocol row) id protocol,
      pr_source_ip := case_option (pr_source_ip row) id source_ip, pr_source_port := case_option (pr_source_port row) id source_port,
      pr_target_ip := case_option (pr_target_ip row) id target_ip, pr_target_port := case_option (pr_target_port row) id target_port,
      pr_description := case_option (pr_description row) id description, pr_updated_at := app_now A\<rparr>"

definition update_port_forward_rule_command ::
  "('w, 't, 'v, 'f) app_env \<Rightarrow> string \<Rightarrow> string \<Rightarrow> string option \<Rightarrow> string option \<Rightarrow> string option \<Rightarrow> int option \<Rightarrow> string option \<Rightarrow> int option \<Rightarrow>
   string option \<Rightarrow> ('w, 't) space_mgr \<Rightarrow> ('w, 't, port_forward_rule) mgr_result" where
  "update_port_forward_rule_command A space_id rule_id name protocol source_ip source_port target_ip target_port description m =
    mgr_bind (on_db (get_port_forward_rules (ae_forwards A) space_id) m) (\<lambda>existing m.
      case List.find (\<lambda>r. pr_id r = rule_id) existing of
        None \<Rightarrow> (Inl (SpErr (utf8_text [231, 171, 175, 229, 143, 163, 232, 189, 172, 229, 143, 145, 232, 167, 132, 229, 136, 153, 228, 184, 141, 229, 173, 152, 229, 156, 168] @ '': '' @ rule_id)), m)
      | Some row \<Rightarrow>
         (let updated = forward_updated A name protocol source_ip source_port target_ip target_port description row
          in mgr_bind (on_db (update_port_forward_rule updated) m) (\<lambda>_ m. (Inr (forward_row_to_rule updated), m))))"

definition delete_port_forward_rule_command :: "('w, 't, 'v, 'f) app_env \<Rightarrow> string \<Rightarrow> string \<Rightarrow> ('w, 't) space_mgr \<Rightarrow> ('w, 't, unit) mgr_result" where
  "delete_port_forward_rule_command A space_id rule_id m =
    (case ul_parse (ae_uuid A) space_id of
       Inl e \<Rightarrow> (Inl (SpErr e), m)
     | Inr _ \<Rightarrow> on_db (delete_port_forward_rule rule_id) m)"

section \<open>Built-in applications\<close>

record system_app =
  sa_name :: string
  sa_path :: string
  sa_icon :: "string option"
  sa_desc :: "string option"
  sa_enabled :: bool

definition builtin_system_apps :: "system_app list" where
  "builtin_system_apps =
    [\<lparr>sa_name = ''appNav.systemChat'', sa_path = ''/chat'', sa_icon = Some ''lucide:message-square'', sa_desc = None, sa_enabled = False\<rparr>,
     \<lparr>sa_name = ''appNav.systemVoice'', sa_path = ''/voice'', sa_icon = Some ''lucide:mic'', sa_desc = None, sa_enabled = False\<rparr>,
     \<lparr>sa_name = ''appNav.systemScreen'', sa_path = ''/screen'', sa_icon = Some ''lucide:monitor-up'', sa_desc = None, sa_enabled = False\<rparr>,
     \<lparr>sa_name = ''appNav.systemFiles'', sa_path = ''/files'', sa_icon = Some ''lucide:folder-open'', sa_desc = None, sa_enabled = False\<rparr>]"

text \<open>\<open>J\<close> reads the document and its list, a missing list being empty.\<close>

definition load_system_apps :: "system_app list json \<Rightarrow> path \<Rightarrow> fs \<Rightarrow> system_app list" where
  "load_system_apps J data_dir fs =
    (case fs_read_to_string fs (path_join data_dir ''system_apps.json'') of
       None \<Rightarrow> builtin_system_apps
     | Some content \<Rightarrow> (case js_de J (as_bytes content) of Inr apps \<Rightarrow> apps | Inl _ \<Rightarrow> builtin_system_apps))"

section \<open>What an import adds\<close>

text \<open>
  The specification: of the applications in the link those are new whose name the space does not have yet, each name
  once; they are appended as rows, in order.
\<close>

fun fresh_imports :: "string set \<Rightarrow> app_import list \<Rightarrow> app_import list" where
  "fresh_imports names [] = []"
| "fresh_imports names (i # is) =
    (if im_name i \<in> names then fresh_imports names is else i # fresh_imports (insert (im_name i) names) is)"

definition space_names :: "string \<Rightarrow> database \<Rightarrow> string set" where
  "space_names sid db = ap_name ` {r \<in> set (db_apps db). ap_space_id r = sid}"

definition caller_of :: "('w, 't, 'v, 'f) app_env \<Rightarrow> database \<Rightarrow> string" where
  "caller_of A db = (case map_option us_id (first_row (se_users (ae_space A)) (db_users db)) of Some i \<Rightarrow> i | None \<Rightarrow> [])"

fun imported_rows :: "('w, 't, 'v, 'f) app_env \<Rightarrow> string \<Rightarrow> string \<Rightarrow> nat \<Rightarrow> app_import list \<Rightarrow> app_row list" where
  "imported_rows A sid by_user k [] = []"
| "imported_rows A sid by_user k (i # is) = app_row_of (new_id A k) sid i 0 by_user (app_now A) # imported_rows A sid by_user (Suc k) is"

lemma imported_rows_imports: "map import_of (imported_rows A sid u k is) = map (\<lambda>i. i\<lparr>im_protocol := default_protocol (im_protocol i)\<rparr>) is"
  by (induction "is" arbitrary: k) (simp_all add: app_row_of_def import_of_def)

lemma imported_rows_space: "r \<in> set (imported_rows A sid u k is) \<Longrightarrow> ap_space_id r = sid \<and> ap_created_by r = u"
  by (induction "is" arbitrary: k) (auto simp: app_row_of_def)

lemma imported_rows_length [simp]: "length (imported_rows A sid u k is) = length is"
  by (induction "is" arbitrary: k) simp_all

lemma caller_runs: "db_faults (sm_db m) = [] \<Longrightarrow> caller A m = (Inr (caller_of A (sm_db m)), m)"
  by (simp add: caller_def caller_of_def mgr_bind_def get_user_id_def on_db_query)

lemma on_db_rows: "db_faults (sm_db m) = [] \<Longrightarrow> on_db (query_rows q) m = (Inr (q (sm_db m)), m)"
  by (simp add: on_db_def query_rows_no_fault)

lemma order_set: "(\<And>t. mset (ord t) = mset t) \<Longrightarrow> set (ord t) = set t"
  by (metis set_mset_mset)

definition listed_apps :: "('w, 't, 'v, 'f) app_env \<Rightarrow> string \<Rightarrow> database \<Rightarrow> app_row list" where
  "listed_apps A sid db =
    sort_key (\<lambda>r. (ap_sort_order r, ap_created_at r)) (ae_apps A (filter (\<lambda>r. ap_space_id r = sid) (db_apps db)))"

lemma on_db_list_apps: "db_faults (sm_db m) = [] \<Longrightarrow> on_db (list_apps (ae_apps A) sid) m = (Inr (listed_apps A sid (sm_db m)), m)"
  by (simp add: list_apps_def listed_apps_def on_db_rows)

lemma listed_apps_name:
  "(\<And>t. mset (ae_apps A t) = mset t) \<Longrightarrow> list_ex (\<lambda>a. ap_name a = n) (listed_apps A sid db) \<longleftrightarrow> n \<in> space_names sid db"
  by (auto simp: listed_apps_def space_names_def list_ex_iff order_set)

lemma on_db_insert_app:
  assumes "db_faults (sm_db m) = []" and "ap_id r \<notin> ap_id ` set (db_apps (sm_db m))" and "ap_space_id r \<in> sp_id ` set (db_spaces (sm_db m))"
  shows "on_db (insert_app r) m = (Inr (), m\<lparr>sm_db := (sm_db m)\<lparr>db_apps := db_apps (sm_db m) @ [r]\<rparr>\<rparr>)"
  using assms by (simp add: on_db_def insert_app_def insert_row_def stmt_no_fault sql_insert_def fk_ok_def)

lemma import_loop_runs:
  assumes "db_faults (sm_db m) = []" and "sid \<in> sp_id ` set (db_spaces (sm_db m))" and "\<And>t. mset (ae_apps A t) = mset t"
    and "inj_on (new_id A) {k..<k + length is}" and "\<And>j. k \<le> j \<Longrightarrow> j < k + length is \<Longrightarrow> new_id A j \<notin> ap_id ` set (db_apps (sm_db m))"
  shows "import_loop A sid k is n m =
    (let F = fresh_imports (space_names sid (sm_db m)) is
     in (Inr (n + length F),
         m\<lparr>sm_db := (sm_db m)\<lparr>db_apps := db_apps (sm_db m) @ imported_rows A sid (caller_of A (sm_db m)) k F\<rparr>\<rparr>))"
  using assms
proof (induction "is" arbitrary: k n m)
  case (Cons i "is")
  note l = on_db_list_apps [OF Cons.prems(1), of A sid] listed_apps_name [OF Cons.prems(3)]
  show ?case
  proof (cases "im_name i \<in> space_names sid (sm_db m)")
    case True
    have "import_loop A sid k is n m =
    (let F = fresh_imports (space_names sid (sm_db m)) is
     in (Inr (n + length F),
         m\<lparr>sm_db := (sm_db m)\<lparr>db_apps := db_apps (sm_db m) @ imported_rows A sid (caller_of A (sm_db m)) k F\<rparr>\<rparr>))"
      by (rule Cons.IH) (use Cons.prems in \<open>auto intro: inj_on_subset\<close>)
    with True l show ?thesis by (simp add: mgr_bind_def)
  next
    case False
    define r where "r = app_row_of (new_id A k) sid i 0 (caller_of A (sm_db m)) (app_now A)"
    define m1 where "m1 = m\<lparr>sm_db := (sm_db m)\<lparr>db_apps := db_apps (sm_db m) @ [r]\<rparr>\<rparr>"
    have r: "ap_id r = new_id A k" "ap_space_id r = sid" "ap_name r = im_name i" by (simp_all add: r_def app_row_of_def)
    have ins: "on_db (insert_app r) m = (Inr (), m1)"
      unfolding m1_def using Cons.prems(1,2,5) r by (intro on_db_insert_app) simp_all
    have "new_id A j \<noteq> new_id A k" if "Suc k \<le> j" "j < Suc k + length is" for j
      using inj_onD [OF Cons.prems(4), of j k] that by auto
    then have ids: "new_id A j \<notin> ap_id ` set (db_apps (sm_db m1))" if "Suc k \<le> j" "j < Suc k + length is" for j
      using Cons.prems(5) [of j] that r by (auto simp: m1_def)
    have inj: "inj_on (new_id A) {Suc k..<Suc k + length is}" using Cons.prems(4) by (rule inj_on_subset) auto
    have c: "caller_of A (sm_db m1) = caller_of A (sm_db m)" by (simp add: m1_def caller_of_def)
    have names: "space_names sid (sm_db m1) = insert (im_name i) (space_names sid (sm_db m))"
    proof -
      have "{x \<in> set (db_apps (sm_db m1)). ap_space_id x = sid} = insert r {x \<in> set (db_apps (sm_db m)). ap_space_id x = sid}"
        using r(2) by (auto simp: m1_def)
      with r(3) show ?thesis by (simp add: space_names_def)
    qed
    have "import_loop A sid k (i # is) n m = import_loop A sid (Suc k) is (n + 1) m1"
      using False l ins by (simp add: mgr_bind_def caller_runs [OF Cons.prems(1)] flip: r_def)
    also have "\<dots> = (let F = fresh_imports (space_names sid (sm_db m1)) is
      in (Inr (n + 1 + length F), m1\<lparr>sm_db := (sm_db m1)\<lparr>db_apps := db_apps (sm_db m1) @ imported_rows A sid (caller_of A (sm_db m1)) (Suc k) F\<rparr>\<rparr>))"
      using Cons.prems(1-3) ids inj by (intro Cons.IH) (auto simp: m1_def)
    finally show ?thesis using False c by (simp add: names Let_def) (simp add: m1_def flip: r_def)
  qed
qed simp

lemma get_peers_frame: "sm_db (snd (get_peers E b m)) = sm_db m"
proof -
  obtain r m1 where i: "ipc_data E (ListPeers (ul_string (se_uuid E) b)) m = (r, m1)" by fastforce
  then have "sm_db m1 = sm_db m" using ipc_data_snd [of E "ListPeers (ul_string (se_uuid E) b)" m] by (metis ipc_frame(6) snd_conv)
  then show ?thesis by (simp add: get_peers_def mgr_bind_def i split: sum.splits option.splits)
qed

text \<open>A local space that a payload is meant for: it has the name and the network, and the members it was made for are there.\<close>

definition fits_space :: "('w, 't, 'v, 'f) app_env \<Rightarrow> add_app_payload \<Rightarrow> space_row \<Rightarrow> uuid \<Rightarrow> ('w, 't) space_mgr \<Rightarrow> bool" where
  "fits_space A payload row ident m \<longleftrightarrow>
    (\<exists>json config. sp_config_json row = Some json \<and> from_config_json (se_values (ae_space A)) (ae_default A) json = Inr config \<and>
       nc_network_name config = ad_network_name payload) \<and>
    sp_id row = ul_string (ae_uuid A) ident \<and>
    (\<forall>t \<in> set (ad_target_peers payload). \<exists>ps m'. get_peers (ae_space A) ident m = (Inr ps, m') \<and> pt_peer_id t \<in> pi_peer_id ` set ps)"

lemma match_space_unique:
  assumes "filter (\<lambda>r. sp_name r = ad_name payload) rows = [row]" and "fits_space A payload row ident m" and "uuid_ok (ae_uuid A)"
  shows "match_space A payload rows m = (Inr (Some (ident, sp_name row)), snd (get_peers (ae_space A) ident m))"
  using assms(1)
proof (induction rows)
  case (Cons x rows)
  show ?case
  proof (cases "sp_name x = ad_name payload")
    case True
    with Cons.prems have x: "x = row" by simp
    obtain r m' where g: "get_peers (ae_space A) ident m = (r, m')" by fastforce
    have "\<forall>t \<in> set (ad_target_peers payload). pt_peer_id t \<in> pi_peer_id ` set (case r of Inr ps \<Rightarrow> ps | Inl _ \<Rightarrow> [])"
      using assms(2) by (auto simp: fits_space_def g)
    with True assms(2,3) show ?thesis by (auto simp: x fits_space_def g list_all_iff)
  qed (use Cons in simp)
qed simp

lemma filter_permuted:
  assumes "mset ys = mset xs" and "filter P xs = [x]"
  shows "filter P ys = [x]"
proof -
  have "mset (filter P ys) = {#x#}" using assms by (metis mset_filter mset_single_iff_right mset.simps(1) mset.simps(2))
  then show ?thesis by (simp only: mset_single_iff)
qed

lemma import_runs:
  assumes "ae_unb64 A data = Inr b" and "js_de (ae_payload A) b = Inr payload" and "db_faults (sm_db m) = []" and "uuid_ok (ae_uuid A)"
    and "\<And>t. mset (se_rows (ae_space A) t) = mset t" and "\<And>t. mset (ae_apps A t) = mset t"
    and "filter (\<lambda>r. sp_name r = ad_name payload) (db_spaces (sm_db m)) = [row]" and "fits_space A payload row ident m"
    and "inj_on (new_id A) {..<length (ad_apps payload)}" and "\<And>k. k < length (ad_apps payload) \<Longrightarrow> new_id A k \<notin> ap_id ` set (db_apps (sm_db m))"
  shows "let F = fresh_imports (space_names (sp_id row) (sm_db m)) (ad_apps payload) in
    \<exists>m'. import_add_apps A data m = (Inr \<lparr>ir_space_id = sp_id row, ir_space_name = ad_name payload, ir_imported = length F\<rparr>, m') \<and>
      sm_db m' = (sm_db m)\<lparr>db_apps := db_apps (sm_db m) @ imported_rows A (sp_id row) (caller_of A (sm_db m)) 0 F\<rparr>"
proof -
  let ?rows = "rev (sort_key sp_created_at (se_rows (ae_space A) (db_spaces (sm_db m))))"
  define m1 where "m1 = snd (get_peers (ae_space A) ident m)"
  have db: "sm_db m1 = sm_db m" by (simp add: m1_def get_peers_frame)
  have rows: "on_db (list_spaces (se_rows (ae_space A))) m = (Inr ?rows, m)"
    using assms(3) by (simp add: list_spaces_def on_db_rows)
  have "filter (\<lambda>r. sp_name r = ad_name payload) ?rows = [row]"
    using assms(5,7) by (intro filter_permuted [OF _ assms(7)]) simp
  from match_space_unique [OF this assms(8,4)] have ms: "match_space A payload ?rows m = (Inr (Some (ident, sp_name row)), m1)"
    by (simp add: m1_def)
  have row: "row \<in> set (db_spaces (sm_db m))" "sp_name row = ad_name payload" "ul_string (ae_uuid A) ident = sp_id row"
    using arg_cong [OF assms(7), of set] assms(8) by (auto simp: fits_space_def)
  then have loop: "import_loop A (sp_id row) 0 (ad_apps payload) 0 m1 =
    (let F = fresh_imports (space_names (sp_id row) (sm_db m1)) (ad_apps payload)
     in (Inr (0 + length F),
         m1\<lparr>sm_db := (sm_db m1)\<lparr>db_apps := db_apps (sm_db m1) @ imported_rows A (sp_id row) (caller_of A (sm_db m1)) 0 F\<rparr>\<rparr>))"
    using assms(3,6,9,10) by (intro import_loop_runs) (simp_all add: db lessThan_atLeast0)
  show ?thesis
    by (simp add: import_add_apps_def assms(1,2) rows mgr_bind_def ms row loop Let_def db)
qed

section \<open>From one device to another\<close>

text \<open>Two devices with the same libraries.\<close>

definition same_libs :: "('w, 't, 'v, 'f) app_env \<Rightarrow> ('w, 't, 'v, 'f) app_env \<Rightarrow> bool" where
  "same_libs A B \<longleftrightarrow> se_prims (ae_space B) = se_prims (ae_space A) \<and> se_zstd (ae_space B) = se_zstd (ae_space A) \<and>
    se_link (ae_space B) = se_link (ae_space A) \<and> ae_payload B = ae_payload A"

definition libs_ok :: "('w, 't, 'v, 'f) app_env \<Rightarrow> bool" where
  "libs_ok A \<longleftrightarrow> primitives_ok (se_prims (ae_space A)) \<and> zstd_ok (se_zstd (ae_space A)) \<and> link_lib_ok (se_link (ae_space A)) \<and>
    json_ok (ae_payload A) \<and> length (se_nonce (ae_space A)) = NONCE_LEN"

lemma mgr_bind_Pair: "mgr_bind (Inr x, m) f = f x m" "mgr_bind (Inl e, m) f = (Inl e, m)"
  by (simp_all add: mgr_bind_def)

lemma generate_payload:
  assumes "generate_add_app_link A sid app_ids targets m = (Inr link, m')" and "db_faults (sm_db m) = []"
    and u: "ul_parse (ae_uuid A) sid = Inr ident" and "List.find (\<lambda>s. sc_id s = ident) (sm_spaces m) = Some space"
  obtains cfg m1 json payload where "get_effective_config (ae_space A) (ae_default A) ident m = (Inr cfg, m1)"
    "ad_name payload = sc_name space" "ad_network_name payload = nc_network_name cfg"
    "ad_apps payload = map import_of (filter (\<lambda>a. ap_id a \<in> set app_ids) (listed_apps A sid (sm_db m)))"
    "pt_peer_id ` set (ad_target_peers payload) \<subseteq> set targets" "js_ser (ae_payload A) payload = Inr json"
    "fst (encrypt_qr (se_prims (ae_space A)) (se_zstd (ae_space A)) (se_link (ae_space A)) (se_global (ae_space A)) (se_cell (ae_space A))
       (se_nonce (ae_space A)) EVENT_ADD_APP json) = Inr link"
proof -
  have f: "find_space ident m = (Inr space, m)" using assms(4) by (simp add: find_space_def)
  obtain cfg m1 where c: "get_effective_config (ae_space A) (ae_default A) ident m = (Inr cfg, m1)"
    using assms(1) by (auto simp: generate_add_app_link_def Let_def u f mgr_bind_Inr)
  have "sm_db m1 = sm_db m"
    using c assms(2) by (auto simp: get_effective_config_def f mgr_bind_def get_space_config_def query_row_no_fault)
  then have l: "on_db (list_apps (ae_apps A) sid) m1 = (Inr (listed_apps A sid (sm_db m)), m1)" using on_db_list_apps [of m1 A sid] assms(2) by simp
  define selected where "selected = map import_of (filter (\<lambda>a. ap_id a \<in> set app_ids) (listed_apps A sid (sm_db m)))"
  define payload where "payload peers = \<lparr>ad_name = sc_name space, ad_network_name = nc_network_name cfg, ad_apps = selected,
    ad_target_peers = map target_of (filter (\<lambda>p. pi_peer_id p \<in> set targets) peers)\<rparr>" for peers :: "'d peer_info list"
  have g: "mgr_bind (get_peers (ae_space A) ident m1) (\<lambda>peers m. case js_ser (ae_payload A) (payload peers) of
      Inl e \<Rightarrow> (Inl (SpErr e), m)
    | Inr json \<Rightarrow> (map_sum SpQr (\<lambda>x. x) (fst (encrypt_qr (se_prims (ae_space A)) (se_zstd (ae_space A)) (se_link (ae_space A))
        (se_global (ae_space A)) (se_cell (ae_space A)) (se_nonce (ae_space A)) EVENT_ADD_APP json)), m)) = (Inr link, m')"
    using assms(1) by (simp add: generate_add_app_link_def Let_def u f c l mgr_bind_Pair payload_def selected_def split: if_splits)
  obtain peers m3 where "get_peers (ae_space A) ident m1 = (Inr peers, m3)" and h: "(case js_ser (ae_payload A) (payload peers) of
      Inl e \<Rightarrow> (Inl (SpErr e), m3)
    | Inr json \<Rightarrow> (map_sum SpQr (\<lambda>x. x) (fst (encrypt_qr (se_prims (ae_space A)) (se_zstd (ae_space A)) (se_link (ae_space A))
        (se_global (ae_space A)) (se_cell (ae_space A)) (se_nonce (ae_space A)) EVENT_ADD_APP json)), m3)) = (Inr link, m')"
    using g unfolding mgr_bind_Inr by blast
  then obtain json where j: "js_ser (ae_payload A) (payload peers) = Inr json" by (cases "js_ser (ae_payload A) (payload peers)") auto
  have e: "fst (encrypt_qr (se_prims (ae_space A)) (se_zstd (ae_space A)) (se_link (ae_space A)) (se_global (ae_space A)) (se_cell (ae_space A))
       (se_nonce (ae_space A)) EVENT_ADD_APP json) = Inr link"
    using h by (simp add: j map_sum_Inr)
  show thesis
    by (rule that [OF _ _ _ _ _ j e]) (use c in \<open>auto simp: payload_def selected_def target_of_def\<close>)
qed


section \<open>Who may change an application\<close>

definition entered_into :: "app_import \<Rightarrow> app_row \<Rightarrow> app_row" where
  "entered_into i a =
    a\<lparr>ap_name := im_name i, ap_category := im_category i, ap_icon := im_icon i, ap_protocol := default_protocol (im_protocol i),
      ap_hostname := im_hostname i, ap_port := im_port i, ap_pathname := im_pathname i\<rparr>"

lemma on_db_update_app:
  assumes "db_faults (sm_db m) = []"
  shows "on_db (update_app a) m = (Inr (), m\<lparr>sm_db := (sm_db m)\<lparr>db_apps := map (\<lambda>r. if ap_id r = ap_id a
    then r\<lparr>ap_name := ap_name a, ap_category := ap_category a, ap_icon := ap_icon a, ap_protocol := ap_protocol a,
      ap_hostname := ap_hostname a, ap_port := ap_port a, ap_pathname := ap_pathname a, ap_sort_order := ap_sort_order a\<rparr> else r) (db_apps (sm_db m))\<rparr>\<rparr>)"
  using assms by (simp add: on_db_def update_app_def change_rows_def stmt_no_fault sql_update_def)

text \<open>
  C33: An application is changed by its creator only, and only that application. The command answers with success exactly
  when the current user created the application of that identifier; then its row gets the entered fields and keeps its
  space, order, creator and date, and no other row changes. Otherwise the database is as before.
\<close>

theorem update_app_creator_only:
  assumes "db_faults (sm_db m) = []" and "\<And>t. mset (ae_apps A t) = mset t" and "distinct (map ap_id (db_apps (sm_db m)))"
  shows "(\<exists>a \<in> set (db_apps (sm_db m)). ap_id a = app_id \<and> ap_created_by a = caller_of A (sm_db m) \<and>
      update_app_command A app_id i m =
        (Inr (), m\<lparr>sm_db := (sm_db m)\<lparr>db_apps := map (\<lambda>r. if r = a then entered_into i r else r) (db_apps (sm_db m))\<rparr>\<rparr>)) \<or>
    (\<not> (\<exists>a \<in> set (db_apps (sm_db m)). ap_id a = app_id \<and> ap_created_by a = caller_of A (sm_db m)) \<and>
      (\<exists>e. update_app_command A app_id i m = (Inl (SpErr e), m)))"
proof -
  let ?mine = "filter (\<lambda>r. ap_id r = app_id \<and> ap_created_by r = caller_of A (sm_db m)) (db_apps (sm_db m))"
  have l: "on_db (list_apps_by_created (ae_apps A) app_id (caller_of A (sm_db m))) m = (Inr (ae_apps A ?mine), m)"
    using assms(1) by (simp add: list_apps_by_created_def on_db_rows)
  have set: "set (ae_apps A ?mine) = set ?mine" by (rule order_set [OF assms(2)])
  show ?thesis
  proof (cases "ae_apps A ?mine")
    case Nil
    with set have "?mine = []" by simp
    then have "\<not> (\<exists>a \<in> set (db_apps (sm_db m)). ap_id a = app_id \<and> ap_created_by a = caller_of A (sm_db m))"
      by (auto simp: filter_empty_conv)
    moreover have "\<exists>e. update_app_command A app_id i m = (Inl (SpErr e), m)"
      by (simp add: update_app_command_def caller_runs [OF assms(1)] mgr_bind_Pair l Nil)
    ultimately show ?thesis by blast
  next
    case (Cons a rest)
    with set have a: "a \<in> set (db_apps (sm_db m))" "ap_id a = app_id" "ap_created_by a = caller_of A (sm_db m)" by auto
    have same: "r = a" if "r \<in> set (db_apps (sm_db m))" "ap_id r = app_id" for r
      using assms(3) that a by (auto simp: distinct_map dest: inj_onD)
    have "(if ap_id r = app_id then r\<lparr>ap_name := im_name i, ap_category := im_category i, ap_icon := im_icon i,
        ap_protocol := default_protocol (im_protocol i), ap_hostname := im_hostname i, ap_port := im_port i, ap_pathname := im_pathname i,
        ap_sort_order := ap_sort_order a\<rparr> else r) = (if r = a then entered_into i r else r)" if "r \<in> set (db_apps (sm_db m))" for r
    proof (cases "r = a")
      case True
      with a(2) show ?thesis by (cases a) (simp add: entered_into_def)
    next
      case False
      with same [OF that] show ?thesis by metis
    qed
    then have eq: "map (\<lambda>r. if ap_id r = app_id then r\<lparr>ap_name := im_name i, ap_category := im_category i, ap_icon := im_icon i,
        ap_protocol := default_protocol (im_protocol i), ap_hostname := im_hostname i, ap_port := im_port i, ap_pathname := im_pathname i,
        ap_sort_order := ap_sort_order a\<rparr> else r) (db_apps (sm_db m)) = map (\<lambda>r. if r = a then entered_into i r else r) (db_apps (sm_db m))"
      by (intro map_cong refl)
    have "update_app_command A app_id i m =
        (Inr (), m\<lparr>sm_db := (sm_db m)\<lparr>db_apps := map (\<lambda>r. if r = a then entered_into i r else r) (db_apps (sm_db m))\<rparr>\<rparr>)"
      by (simp add: update_app_command_def caller_runs [OF assms(1)] mgr_bind_Pair l Cons on_db_update_app [OF assms(1)] app_row_of_def flip: eq)
    with a show ?thesis by blast
  qed
qed

section \<open>Two devices\<close>

definition fl_import :: "app_import \<Rightarrow> nat list" where
  "fl_import i = fl_str (im_name i) @ fl_opt fl_str (im_category i) @ fl_opt fl_str (im_icon i) @ fl_opt fl_str (im_protocol i) @
    fl_opt fl_str (im_hostname i) @ fl_opt fl_str (im_port i) @ fl_opt fl_str (im_pathname i)"

definition rd_import :: "nat list \<Rightarrow> app_import \<times> nat list" where
  "rd_import ns =
    (let (n, r) = rd_str ns; (c, r) = rd_opt rd_str r; (i, r) = rd_opt rd_str r; (p, r) = rd_opt rd_str r; (h, r) = rd_opt rd_str r;
         (po, r) = rd_opt rd_str r; (pa, r) = rd_opt rd_str r
     in (\<lparr>im_name = n, im_category = c, im_icon = i, im_protocol = p, im_hostname = h, im_port = po, im_pathname = pa\<rparr>, r))"

definition fl_target :: "peer_target \<Rightarrow> nat list" where
  "fl_target t = fl_word (pt_peer_id t) @ fl_opt fl_str (pt_virtual_ip t)"

definition rd_target :: "nat list \<Rightarrow> peer_target \<times> nat list" where
  "rd_target ns = (let (i, r) = rd_word ns; (v, r) = rd_opt rd_str r in (\<lparr>pt_peer_id = i, pt_virtual_ip = v\<rparr>, r))"

definition payload_json :: "add_app_payload json" where
  "payload_json =
    nats_json (\<lambda>p. fl_str (ad_name p) @ fl_str (ad_network_name p) @ fl_list fl_import (ad_apps p) @ fl_list fl_target (ad_target_peers p))
      (\<lambda>ns. let (n, r) = rd_str ns; (w, r) = rd_str r; (a, r) = rd_list rd_import r; (t, r) = rd_list rd_target r
        in (\<lparr>ad_name = n, ad_network_name = w, ad_apps = a, ad_target_peers = t\<rparr>, r))"

lemma rd_import_fl: "rd_import (fl_import i @ r) = (i, r)"
  by (simp add: rd_import_def fl_import_def)

lemma rd_target_fl: "rd_target (fl_target t @ r) = (t, r)"
  by (simp add: rd_target_def fl_target_def)

lemma payload_json_ok: "json_ok payload_json"
  unfolding payload_json_def
  by (rule nats_json_ok) (simp add: rd_list_fl [of rd_import fl_import, OF rd_import_fl] rd_list_fl [of rd_target fl_target, OF rd_target_fl, of _ "[]", simplified])

definition apps_env_toy :: "(unit, nat, string, nat) app_env" where
  "apps_env_toy =
    \<lparr>ae_space = space_env_toy\<lparr>se_send := \<lambda>q w. (Inr (IpcOk None), w)\<rparr>, ae_apps = \<lambda>t. t, ae_acls = \<lambda>t. t, ae_forwards = \<lambda>t. t,
     ae_ids = \<lambda>k. word_of_nat (k + 5), ae_default = ''id'', ae_payload = payload_json, ae_b64 = of_bytes, ae_unb64 = \<lambda>s. Inr (as_bytes s),
     ae_debug = concat\<rparr>"

definition wiki_app :: app_row where
  "wiki_app = app_row_of ''9'' ''1'' \<lparr>im_name = ''wiki'', im_category = None, im_icon = None, im_protocol = None, im_hostname = Some ''10.0.0.2'',
     im_port = Some ''80'', im_pathname = None\<rparr> 0 ''u'' ''0''"

definition sender_toy :: "(unit, nat) space_mgr" where
  "sender_toy = mgr_toy1\<lparr>sm_spaces := [space_toy\<lparr>sc_network_name := ''homeTier_n''\<rparr>], sm_db := (sm_db mgr_toy1)\<lparr>db_apps := [wiki_app]\<rparr>\<rparr>"

definition receiver_row :: space_row where
  "receiver_row = \<lparr>sp_id = ''2'', sp_name = ''n'', sp_owner_id = None, sp_network_name = ''homeTier_n'', sp_network_secret = ''s'',
     sp_description = None, sp_created_at = ''0'', sp_last_connected_at = None, sp_is_auto_connect = False, sp_config_json = Some ''x1''\<rparr>"

definition receiver_toy :: "(unit, nat) space_mgr" where
  "receiver_toy = mgr_toy\<lparr>sm_db := (db_empty True [])\<lparr>db_spaces := [receiver_row]\<rparr>\<rparr>"

lemma apps_toy_libs: "libs_ok apps_env_toy" "same_libs apps_env_toy apps_env_toy" "uuid_ok (ae_uuid apps_env_toy)"
  by (simp_all add: libs_ok_def same_libs_def apps_env_toy_def space_env_toy_def primitives_toy_ok zstd_toy_ok link_toy_ok payload_json_ok
      NONCE_LEN_def uuid_toy_ok)

lemma apps_toy_ids: "ul_parse (ae_uuid apps_env_toy) ''1'' = Inr 1" "''2'' = ul_string (ae_uuid apps_env_toy) 2"
proof -
  have "dec 1 = ''1''" "dec 2 = ''2''" by code_simp+
  then have s: "ul_string (ae_uuid apps_env_toy) 1 = ''1''" "ul_string (ae_uuid apps_env_toy) 2 = ''2''"
    by (simp_all add: apps_env_toy_def space_env_toy_def uuid_toy_def)
  show "ul_parse (ae_uuid apps_env_toy) ''1'' = Inr 1" using uuid_parse_string [OF apps_toy_libs(3), of 1] unfolding s .
  show "''2'' = ul_string (ae_uuid apps_env_toy) 2" by (simp add: s)
qed

lemma sender_toy_facts: "db_faults (sm_db sender_toy) = []" "db_apps (sm_db sender_toy) = [wiki_app]"
  "sm_spaces sender_toy = [space_toy\<lparr>sc_network_name := ''homeTier_n''\<rparr>]" "db_spaces (sm_db sender_toy) = []"
  "db_users (sm_db sender_toy) = [\<lparr>us_id = ''u'', us_name = ''n'', us_config_json = None\<rparr>]"
  by (simp_all add: sender_toy_def mgr_toy1_def mgr_toy_db)

lemma sender_config:
  "get_effective_config (ae_space apps_env_toy) (ae_default apps_env_toy) 1 sender_toy =
     (Inr (base_config ''id'' (space_toy\<lparr>sc_network_name := ''homeTier_n''\<rparr>)), sender_toy)"
  by (simp add: get_effective_config_def find_space_def sender_toy_facts mgr_bind_Pair get_space_config_def query_row_no_fault effective_of_def
      apps_env_toy_def) (simp add: space_toy_def mgr_bind_Pair)

lemma apps_toy_peers: "get_peers (ae_space apps_env_toy) b m = (Inr [], m)"
  by (simp add: get_peers_def ipc_data_def ipc_def apps_env_toy_def mgr_bind_Pair)

lemma sender_listed: "listed_apps apps_env_toy ''1'' (sm_db sender_toy) = [wiki_app]"
  by (simp add: listed_apps_def apps_env_toy_def sender_toy_facts wiki_app_def app_row_of_def)

lemma sender_link: "\<exists>link m'. generate_add_app_link apps_env_toy ''1'' [''9''] [] sender_toy = (Inr link, m')"
proof -
  note p = apps_toy_ids(1)
  have f: "find_space 1 sender_toy = (Inr (space_toy\<lparr>sc_network_name := ''homeTier_n''\<rparr>), sender_toy)"
    by (simp add: find_space_def sender_toy_facts) (simp add: space_toy_def)
  have s: "sha256 primitives_toy (as_bytes DEFAULT_SHARE_LINK_SECRET) = replicate 32 14"
    by (simp add: sha256_def primitives_toy_def DEFAULT_SHARE_LINK_SECRET_def)
  have e: "fk_encrypt primitives_toy \<lparr>fk_key = replicate 32 14\<rparr> n x = Inr (n @ x @ replicate 16 14)" for n x
    by (simp add: fk_encrypt_def new_from_slice_def primitives_toy_def)
  have i: "ap_id wiki_app = ''9''" by (simp add: wiki_app_def app_row_of_def)
  have "js_ser (ae_payload apps_env_toy) x = Inr (put_nats (fl_str (ad_name x) @ fl_str (ad_network_name x) @ fl_list fl_import (ad_apps x) @
    fl_list fl_target (ad_target_peers x)))" for x by (simp add: apps_env_toy_def payload_json_def nats_json_def)
  then show ?thesis
    unfolding generate_add_app_link_def Let_def p sum.case f mgr_bind_Pair sender_config on_db_list_apps [OF sender_toy_facts(1)] sender_listed apps_toy_peers
    by (simp add: i mgr_bind_Pair apps_toy_peers)
      (simp add: apps_env_toy_def space_env_toy_def encrypt_qr_def MAX_EVENT_LEN_def EVENT_ADD_APP_def qr_key_def new_from_seed_def s e Let_def lift_err_def)
qed


theorem update_app_creator_only_witness:
  "fst (update_app_command apps_env_toy ''9'' (import_of wiki_app) sender_toy) = Inr () \<and> (\<exists>e. update_app_command apps_env_toy ''8'' (import_of wiki_app) sender_toy = (Inl (SpErr e), sender_toy))"
proof -
  have d: "db_faults (sm_db sender_toy) = []" "\<And>t. mset (ae_apps apps_env_toy t) = mset t" "distinct (map ap_id (db_apps (sm_db sender_toy)))"
    by (simp_all add: sender_toy_facts apps_env_toy_def)
  have c: "caller_of apps_env_toy (sm_db sender_toy) = ''u''"
    by (simp add: caller_of_def sender_toy_facts apps_env_toy_def space_env_toy_def first_row_def)
  have w: "ap_id wiki_app = ''9''" "ap_created_by wiki_app = ''u''" by (simp_all add: wiki_app_def app_row_of_def)
  show ?thesis
    using update_app_creator_only [OF d, of "''9''" "import_of wiki_app"] update_app_creator_only [OF d, of "''8''" "import_of wiki_app"] by (auto simp: c w sender_toy_facts)
qed

end
