(* ===== verification/Message_Commands.thy ===== *)
theory Message_Commands
  imports Chat Space_Facts
begin

text \<open>
  Messages as the application sends them: \<open>src-tauri/src/commands/chat.rs\<close> and \<open>commands/signal.rs\<close>, with
  \<open>broadcast_message\<close> and \<open>send_signal_to\<close> of the desktop space manager. They tie together the list of spaces, the
  chat client of a space and the table of messages.
\<close>

section \<open>Messages for the user interface\<close>

datatype message_type = TextMessage | ImageMessage | SystemMessage

datatype message_status = MsSending | MsSent | MsDelivered | MsFailed

record 't chat_entry =
  ce_id :: uuid
  ce_space_id :: uuid
  ce_sender_id :: uuid
  ce_sender_name :: string
  ce_msg_type :: message_type
  ce_content :: string
  ce_timestamp :: 't
  ce_status :: message_status

text \<open>\<open>mv_order\<close> is the iteration order of the map of peers, \<open>mv_rows\<close> that of rows, \<open>mv_id\<close> the identifier that is made, \<open>mv_host\<close> the host name.\<close>

record ('w, 't, 'v, 'f, 'n) message_env =
  mv_space :: "('w, 't, 'v, 'f) space_env"
  mv_json :: "'t chat_message json"
  mv_post :: "'n post"
  mv_order :: "chat_peers \<Rightarrow> (string \<times> string \<times> u16) list"
  mv_rows :: "message_row list \<Rightarrow> message_row list"
  mv_id :: uuid
  mv_host :: string

section \<open>The space manager\<close>

definition broadcast_message ::
  "('w, 't, 'v, 'f, 'n) message_env \<Rightarrow> 't chat_message \<Rightarrow> ('w, 't) space_mgr \<Rightarrow> 'n \<Rightarrow> (string \<times> string) list \<times> 'n" where
  "broadcast_message V message m net =
    (case sm_clients m (cm_space_id message) of
       Some peers \<Rightarrow> chat_broadcast (mv_order V) (mv_json V) (mv_post V) peers message net
     | None \<Rightarrow> ([], net))"

definition send_signal_to ::
  "('w, 't, 'v, 'f, 'n) message_env \<Rightarrow> uuid \<Rightarrow> string \<Rightarrow> 't chat_message \<Rightarrow> ('w, 't) space_mgr \<Rightarrow> 'n \<Rightarrow> (string + unit) \<times> 'n" where
  "send_signal_to V space_id target message m net =
    (case sm_clients m space_id of
       Some peers \<Rightarrow> chat_send_to (mv_json V) (mv_post V) peers target message net
     | None \<Rightarrow> (Inl (utf8_text [231, 169, 186, 233, 151, 180, 230, 156, 170, 232, 191, 158, 230, 142, 165, 239, 188, 140] @ ''ChatClient '' @ utf8_text [228, 184, 141, 229, 173, 152, 229, 156, 168]), net))"

section \<open>Sending\<close>

definition chat_row_of :: "('w, 't, 'v, 'f) space_env \<Rightarrow> 't chat_message \<Rightarrow> message_row" where
  "chat_row_of E message =
    \<lparr>mg_id = ul_string (se_uuid E) (cm_id message), mg_space_id = ul_string (se_uuid E) (cm_space_id message),
     mg_sender_id = ul_string (se_uuid E) (cm_sender_id message), mg_sender_name = cm_sender_name message, mg_msg_type = cm_msg_type message,
     mg_content = cm_content message, mg_timestamp = se_rfc3339 E (cm_timestamp message), mg_status = ''sent''\<rparr>"

definition delivery_status :: "nat \<Rightarrow> nat \<Rightarrow> message_status" where
  "delivery_status peer_count errors =
    (if peer_count = 0 then MsSent else if errors < peer_count then MsDelivered else MsFailed)"

definition status_str :: "message_status \<Rightarrow> string" where
  "status_str s = (case s of MsSending \<Rightarrow> ''sending'' | MsSent \<Rightarrow> ''sent'' | MsDelivered \<Rightarrow> ''delivered'' | MsFailed \<Rightarrow> ''failed'')"

definition signed_by :: "('w, 't, 'v, 'f) space_env \<Rightarrow> 't space \<Rightarrow> 't chat_message \<Rightarrow> 't chat_message" where
  "signed_by E space message = chat_sign (se_prims E) (se_uuid E) (se_rfc3339 E) (sc_network_secret space) message"

definition new_message :: "('w, 't, 'v, 'f, 'n) message_env \<Rightarrow> uuid \<Rightarrow> string \<Rightarrow> string \<Rightarrow> 't chat_message" where
  "new_message V space_uuid content msg_type =
    (if msg_type = ''image'' then chat_image (mv_id V) (se_now (mv_space V)) space_uuid space_uuid (mv_host V) content
     else chat_text (mv_id V) (se_now (mv_space V)) space_uuid space_uuid (mv_host V) content)"

definition entry_of :: "message_type \<Rightarrow> message_status \<Rightarrow> 't chat_message \<Rightarrow> 't chat_entry" where
  "entry_of kind status message =
    \<lparr>ce_id = cm_id message, ce_space_id = cm_space_id message, ce_sender_id = cm_sender_id message, ce_sender_name = cm_sender_name message,
     ce_msg_type = kind, ce_content = cm_content message, ce_timestamp = cm_timestamp message, ce_status = status\<rparr>"

text \<open>A message that is signed is stored and sent to the peers; the status is stored as far as the database lets it.\<close>

definition store_and_send ::
  "('w, 't, 'v, 'f, 'n) message_env \<Rightarrow> uuid \<Rightarrow> string \<Rightarrow> 't chat_message \<Rightarrow> ('w, 't) space_mgr \<Rightarrow> 'n \<Rightarrow>
   (space_error + 't chat_entry) \<times> ('w, 't) space_mgr \<times> 'n" where
  "store_and_send V space_uuid msg_type message m net =
    (let E = mv_space V in
     case on_db (insert_message (chat_row_of E message)) m of
       (Inl e, m) \<Rightarrow> (Inl e, m, net)
     | (Inr _, m) \<Rightarrow>
        (let (errors, net) = broadcast_message V message m net;
             status = delivery_status (chat_peer_count space_uuid m) (length errors);
             m = snd (on_db (update_message_status (ul_string (se_uuid E) (cm_id message)) (status_str status)) m)
         in (Inr (entry_of (if msg_type = ''image'' then ImageMessage else TextMessage) status message), m, net)))"

definition send_message_command ::
  "('w, 't, 'v, 'f, 'n) message_env \<Rightarrow> string \<Rightarrow> string \<Rightarrow> string \<Rightarrow> ('w, 't) space_mgr \<Rightarrow> 'n \<Rightarrow>
   (space_error + 't chat_entry) \<times> ('w, 't) space_mgr \<times> 'n" where
  "send_message_command V space_id content msg_type m net =
    (let E = mv_space V in
     case ul_parse (se_uuid E) space_id of
       Inl e \<Rightarrow> (Inl (SpErr e), m, net)
     | Inr space_uuid \<Rightarrow>
        (case space_list E m of
           (Inl e, m) \<Rightarrow> (Inl e, m, net)
         | (Inr spaces, m) \<Rightarrow>
            (case List.find (\<lambda>s. sc_id s = space_uuid) spaces of
               None \<Rightarrow> (Inl (SpErr ''Space not found''), m, net)
             | Some space \<Rightarrow> store_and_send V space_uuid msg_type (signed_by E space (new_message V space_uuid content msg_type)) m net)))"

definition send_signal_command ::
  "('w, 't, 'v, 'f, 'n) message_env \<Rightarrow> string \<Rightarrow> string \<Rightarrow> string option \<Rightarrow> ('w, 't) space_mgr \<Rightarrow> 'n \<Rightarrow>
   (space_error + unit) \<times> ('w, 't) space_mgr \<times> 'n" where
  "send_signal_command V space_id payload target m net =
    (let E = mv_space V in
     case ul_parse (se_uuid E) space_id of
       Inl e \<Rightarrow> (Inl (SpErr e), m, net)
     | Inr space_uuid \<Rightarrow>
        (case space_list E m of
           (Inl e, m) \<Rightarrow> (Inl e, m, net)
         | (Inr spaces, m) \<Rightarrow>
            (case List.find (\<lambda>s. sc_id s = space_uuid) spaces of
               None \<Rightarrow> (Inl (SpErr ''Space not found''), m, net)
             | Some space \<Rightarrow>
                (let message = signed_by E space (chat_signal (mv_id V) (se_now E) space_uuid space_uuid (mv_host V) payload) in
                 case target of
                   Some t \<Rightarrow> (case send_signal_to V space_uuid t message m net of (Inl e, net) \<Rightarrow> (Inl (SpErr e), m, net) | (Inr _, net) \<Rightarrow> (Inr (), m, net))
                 | None \<Rightarrow> (case broadcast_message V message m net of (errors, net) \<Rightarrow> (Inr (), m, net))))))"

section \<open>Reading\<close>

definition entry_of_row :: "('w, 't, 'v, 'f) space_env \<Rightarrow> message_row \<Rightarrow> 't chat_entry" where
  "entry_of_row E r =
    \<lparr>ce_id = parse_or_nil (se_uuid E) (mg_id r), ce_space_id = parse_or_nil (se_uuid E) (mg_space_id r),
     ce_sender_id = parse_or_nil (se_uuid E) (mg_sender_id r), ce_sender_name = mg_sender_name r,
     ce_msg_type = (if mg_msg_type r = ''image'' then ImageMessage else if mg_msg_type r = ''system'' then SystemMessage else TextMessage),
     ce_content = mg_content r, ce_timestamp = parse_time E (mg_timestamp r),
     ce_status = (if mg_status r = ''sending'' then MsSending else if mg_status r = ''delivered'' then MsDelivered
                  else if mg_status r = ''failed'' then MsFailed else MsSent)\<rparr>"

definition get_message_history ::
  "('w, 't, 'v, 'f, 'n) message_env \<Rightarrow> string \<Rightarrow> u32 option \<Rightarrow> ('w, 't) space_mgr \<Rightarrow> ('w, 't, 't chat_entry list) mgr_result" where
  "get_message_history V space_id limit m =
    mgr_bind (on_db (get_messages (mv_rows V) space_id (case limit of Some l \<Rightarrow> l | None \<Rightarrow> 50)) m)
      (\<lambda>rows m. (Inr (map (entry_of_row (mv_space V)) rows), m))"

section \<open>Listing the spaces changes neither tables nor peers\<close>

lemma runtime_of_frame: "sm_db (snd (runtime_of E sid m)) = sm_db m \<and> sm_clients (snd (runtime_of E sid m)) = sm_clients m"
proof -
  have "snd (runtime_of E sid m) = snd (ipc E (GetSpaceStatus sid) m)"
    by (auto simp: runtime_of_def split: prod.splits sum.splits ipc_response.splits option.splits)
  then show ?thesis by (simp add: mgr_frames)
qed

lemma listed_space_frame: "sm_db (snd (listed_space E running row m)) = sm_db m \<and> sm_clients (snd (listed_space E running row m)) = sm_clients m"
  using runtime_of_frame [of E "sp_id row" m] by (auto simp: listed_space_def Let_def split: prod.splits)

lemma listed_spaces_frame:
  "sm_db (snd (listed_spaces E running rows m)) = sm_db m \<and> sm_clients (snd (listed_spaces E running rows m)) = sm_clients m"
proof (induction rows arbitrary: m)
  case (Cons row rows)
  obtain x m1 where x: "listed_space E running row m = (x, m1)" by fastforce
  then show ?case
    using listed_space_frame [of E running row m] Cons.IH [of m1] by (cases "listed_spaces E running rows m1") (simp add: Let_def)
qed simp

lemma space_list_frame:
  assumes "space_list E m = (Inr spaces, m')" and "db_faults (sm_db m) = []"
  shows "sm_db m' = sm_db m \<and> sm_clients m' = sm_clients m"
proof -
  obtain running m1 where r: "running_spaces E m = (running, m1)" by fastforce
  obtain ss m2 where l: "listed_spaces E running (rev (sort_key sp_created_at (se_rows E (db_spaces (sm_db m))))) m1 = (ss, m2)" by fastforce
  have "m' = m2\<lparr>sm_spaces := ss\<rparr>"
    using assms by (auto simp: space_list_def mgr_bind_def on_db_def list_spaces_def query_rows_no_fault r l Let_def)
  moreover have "sm_db m1 = sm_db m" "sm_clients m1 = sm_clients m"
    using running_spaces_snd [of E m] by (simp_all add: r mgr_frames)
  moreover have "sm_db m2 = sm_db m1" "sm_clients m2 = sm_clients m1" using listed_spaces_frame [of E running _ m1] l by (metis snd_conv)+
  ultimately show ?thesis by simp
qed

section \<open>What becomes of a message\<close>

definition accepts :: "(string \<Rightarrow> string + unit) \<Rightarrow> string \<times> string \<times> u16 \<Rightarrow> bool" where
  "accepts outcome peer \<longleftrightarrow> (\<exists>u. outcome (message_url (fst (snd peer)) (snd (snd peer))) = Inr u)"

lemma broadcast_count:
  assumes "json_ok J" and "\<And>url b net. fst (post url b net) = outcome url"
  shows "length (fst (broadcast_loop J post message peers net)) = length (filter (\<lambda>p. \<not> accepts outcome p) peers)"
proof (induction peers arbitrary: net)
  case (Cons p peers)
  obtain v ip port where p: "p = (v, ip, port)" by (rule prod_cases3)
  obtain body where b: "js_ser J message = Inr body" using assms(1) by (rule json_okE [of J message])
  obtain r n where q: "post (message_url ip port) body net = (r, n)" by fastforce
  then have o: "outcome (message_url ip port) = r" using assms(2) [of "message_url ip port" body net] by simp
  obtain es n' where l: "broadcast_loop J post message peers n = (es, n')" by fastforce
  have "accepts outcome p \<longleftrightarrow> (\<exists>u. r = Inr u)" by (simp add: p accepts_def o)
  with Cons.IH [of n] show ?case by (cases r) (simp_all add: p b q l)
qed simp

lemma delivery_status_meaning:
  assumes "errors = length (filter (\<lambda>p. \<not> ok p) peers)"
  shows "delivery_status (length peers) errors = MsSent \<longleftrightarrow> peers = []"
    "delivery_status (length peers) errors = MsDelivered \<longleftrightarrow> (\<exists>p \<in> set peers. ok p)"
    "delivery_status (length peers) errors = MsFailed \<longleftrightarrow> peers \<noteq> [] \<and> (\<forall>p \<in> set peers. \<not> ok p)"
proof -
  have "errors < length peers \<longleftrightarrow> (\<exists>p \<in> set peers. ok p)"
    using length_filter_less [of _ peers "\<lambda>p. \<not> ok p"] filter_True [of peers "\<lambda>p. \<not> ok p"] by (metis assms less_irrefl)
  then show "delivery_status (length peers) errors = MsSent \<longleftrightarrow> peers = []"
    "delivery_status (length peers) errors = MsDelivered \<longleftrightarrow> (\<exists>p \<in> set peers. ok p)"
    "delivery_status (length peers) errors = MsFailed \<longleftrightarrow> peers \<noteq> [] \<and> (\<forall>p \<in> set peers. \<not> ok p)"
    by (auto simp: delivery_status_def)
qed

definition chat_peers_of :: "uuid \<Rightarrow> ('w, 't) space_mgr \<Rightarrow> chat_peers" where
  "chat_peers_of u m = (case sm_clients m u of Some c \<Rightarrow> c | None \<Rightarrow> [])"

lemma broadcast_message_count:
  assumes "json_ok (mv_json V)" and "\<And>url b net. fst (mv_post V url b net) = outcome url" and "iter_order (mv_order V)"
  shows "length (fst (broadcast_message V message m net)) = length (filter (\<lambda>p. \<not> accepts outcome p) (chat_peers_of (cm_space_id message) m))"
proof (cases "sm_clients m (cm_space_id message)")
  case (Some peers)
  have "length (filter P (mv_order V peers)) = length (filter P peers)" for P
    using assms(3) by (metis iter_order_def mset_filter size_mset)
  with Some broadcast_count [OF assms(1,2)] show ?thesis by (simp add: broadcast_message_def chat_broadcast_def chat_peers_of_def)
qed (simp add: broadcast_message_def chat_peers_of_def)

lemma on_db_insert_message:
  assumes "db_faults (sm_db m) = []" and "on_db (insert_message row) m = (Inr u, m')"
  shows "m' = m\<lparr>sm_db := (sm_db m)\<lparr>db_messages := db_messages (sm_db m) @ [row]\<rparr>\<rparr> \<and> mg_id row \<notin> mg_id ` set (db_messages (sm_db m))"
  using assms by (auto simp: on_db_def insert_message_def insert_row_def stmt_no_fault sql_insert_def split: if_splits)

lemma on_db_status:
  "db_faults (sm_db m) = [] \<Longrightarrow> on_db (update_message_status i s) m =
    (Inr (), m\<lparr>sm_db := (sm_db m)\<lparr>db_messages := map (\<lambda>r. if mg_id r = i then r\<lparr>mg_status := s\<rparr> else r) (db_messages (sm_db m))\<rparr>\<rparr>)"
  by (simp add: on_db_def update_message_status_def change_rows_def stmt_no_fault sql_update_def)

lemma store_and_send_effect:
  assumes "store_and_send V u kind message m net = (Inr e, m', net')" and "db_faults (sm_db m) = []"
  shows "\<exists>errors. fst (broadcast_message V message m net) = errors \<and>
    e = entry_of (if kind = ''image'' then ImageMessage else TextMessage) (delivery_status (chat_peer_count u m) (length errors)) message \<and>
    db_faults (sm_db m') = [] \<and>
    db_messages (sm_db m') = db_messages (sm_db m) @ [(chat_row_of (mv_space V) message)\<lparr>mg_status := status_str (ce_status e)\<rparr>]"
proof -
  let ?row = "chat_row_of (mv_space V) message"
  obtain m1 where i: "on_db (insert_message ?row) m = (Inr (), m1)"
    using assms(1) by (auto simp: store_and_send_def Let_def split: prod.splits sum.splits)
  from on_db_insert_message [OF assms(2) i]
  have m1: "m1 = m\<lparr>sm_db := (sm_db m)\<lparr>db_messages := db_messages (sm_db m) @ [?row]\<rparr>\<rparr>" and new: "mg_id ?row \<notin> mg_id ` set (db_messages (sm_db m))"
    by simp_all
  have f: "db_faults (sm_db m1) = []" using assms(2) by (simp add: m1)
  have b: "broadcast_message V message m1 net = broadcast_message V message m net" "chat_peer_count u m1 = chat_peer_count u m"
    by (simp_all add: m1 broadcast_message_def chat_peer_count_def)
  obtain errors n1 where br: "broadcast_message V message m net = (errors, n1)" by fastforce
  have row: "mg_id ?row = ul_string (se_uuid (mv_space V)) (cm_id message)" by (simp add: chat_row_of_def)
  define st where "st = delivery_status (chat_peer_count u m) (length errors)"
  have e: "e = entry_of (if kind = ''image'' then ImageMessage else TextMessage) st message"
    "m' = snd (on_db (update_message_status (mg_id ?row) (status_str st)) m1)"
    using assms(1) by (simp_all add: store_and_send_def Let_def i b br st_def row)
  have same: "map (\<lambda>r. if mg_id r = mg_id ?row then r\<lparr>mg_status := status_str st\<rparr> else r) (db_messages (sm_db m)) = db_messages (sm_db m)"
    using new by (intro map_idI) (metis imageI)
  have "db_messages (sm_db m') = db_messages (sm_db m) @ [?row\<lparr>mg_status := status_str (ce_status e)\<rparr>]"
    unfolding e(2) on_db_status [OF f] using same by (simp add: m1 e(1) entry_of_def)
  moreover have "db_faults (sm_db m') = []" using f by (simp add: e(2) on_db_status)
  ultimately show ?thesis using e(1) br by (simp add: st_def)
qed

lemma entry_of_stored:
  assumes "uuid_ok (se_uuid E)" and "\<And>t. se_parse_time E (se_rfc3339 E t) = Some t"
    and "cm_msg_type message = (if kind = ImageMessage then ''image'' else ''text'')" and "kind \<noteq> SystemMessage" and "status \<noteq> MsSending"
  shows "entry_of_row E ((chat_row_of E message)\<lparr>mg_status := status_str status\<rparr>) = entry_of kind status message"
  using assms by (cases kind; cases status) (simp_all add: entry_of_row_def chat_row_of_def entry_of_def parse_or_nil_def parse_time_def status_str_def)

text \<open>
  C13: A message that is sent is in the history, with a status that says what happened. What the command returns has the
  content and is among the messages of the space that are read
  next, when as many are asked for; its status is \<open>Sent\<close> exactly when there was no peer, \<open>Delivered\<close> exactly when some
  peer took it, and \<open>Failed\<close> exactly when there were peers and none did.
\<close>

theorem sent_message_in_history:
  assumes "send_message_command V (ul_string (se_uuid (mv_space V)) u) content kind m net = (Inr e, m', net')" and "db_faults (sm_db m) = []"
    and "uuid_ok (se_uuid (mv_space V))" and "\<And>t. se_parse_time (mv_space V) (se_rfc3339 (mv_space V) t) = Some t"
    and "\<And>t. mset (mv_rows V t) = mset t" and "iter_order (mv_order V)"
    and "json_ok (mv_json V)" and "\<And>url b net. fst (mv_post V url b net) = outcome url"
    and "length (db_messages (sm_db m)) < unat limit"
  shows "\<exists>es. get_message_history V (ul_string (se_uuid (mv_space V)) u) (Some limit) m' = (Inr es, m') \<and> e \<in> set es \<and>
    ce_content e = content \<and> ce_space_id e = u \<and>
    (ce_status e = MsSent \<longleftrightarrow> chat_peers_of u m = []) \<and>
    (ce_status e = MsDelivered \<longleftrightarrow> (\<exists>p \<in> set (chat_peers_of u m). accepts outcome p)) \<and>
    (ce_status e = MsFailed \<longleftrightarrow> chat_peers_of u m \<noteq> [] \<and> (\<forall>p \<in> set (chat_peers_of u m). \<not> accepts outcome p))"
proof -
  let ?E = "mv_space V" and ?sid = "ul_string (se_uuid (mv_space V)) u"
  obtain spaces m1 space where l: "space_list ?E m = (Inr spaces, m1)"
    and s: "store_and_send V u kind (signed_by ?E space (new_message V u content kind)) m1 net = (Inr e, m', net')"
    using assms(1,3) by (auto simp: send_message_command_def Let_def split: prod.splits sum.splits option.splits)
  define message where "message = signed_by ?E space (new_message V u content kind)"
  define k where "k = (if kind = ''image'' then ImageMessage else TextMessage)"
  have f: "sm_db m1 = sm_db m" "sm_clients m1 = sm_clients m" using space_list_frame [OF l assms(2)] by simp_all
  have mg: "cm_space_id message = u" "cm_content message = content" "cm_msg_type message = (if k = ImageMessage then ''image'' else ''text'')"
    by (simp_all add: message_def signed_by_def chat_sign_def new_message_def chat_image_def chat_text_def k_def)
  have peers: "chat_peers_of u m1 = chat_peers_of u m" "chat_peer_count u m1 = length (chat_peers_of u m)"
    using f by (simp_all add: chat_peers_of_def chat_peer_count_def split: option.split)
  have faults1: "db_faults (sm_db m1) = []" using assms(2) f by simp
  define n where "n = length (filter (\<lambda>p. \<not> accepts outcome p) (chat_peers_of u m))"
  have "length (fst (broadcast_message V message m1 net)) = n"
    using broadcast_message_count [OF assms(7,8,6), of message m1 net] by (simp add: mg peers n_def)
  with store_and_send_effect [OF s [folded message_def] faults1] f(1) peers(2) have
    e: "e = entry_of k (delivery_status (length (chat_peers_of u m)) n) message" and faults: "db_faults (sm_db m') = []"
    and rows: "db_messages (sm_db m') = db_messages (sm_db m) @ [(chat_row_of ?E message)\<lparr>mg_status := status_str (ce_status e)\<rparr>]"
    by (auto simp: k_def)
  let ?t = "filter (\<lambda>r. mg_space_id r = ?sid) (db_messages (sm_db m'))"
  have "length ?t \<le> unat limit" using assms(9) length_filter_le [of "\<lambda>r. mg_space_id r = ?sid" "db_messages (sm_db m')"] by (simp add: rows)
  moreover have "length (rev (sort_key mg_timestamp (mv_rows V ?t))) = length ?t" using assms(5) [of ?t] by (metis length_rev length_sort size_mset)
  ultimately have g: "get_messages (mv_rows V) ?sid limit (sm_db m') = (Inr (rev (sort_key mg_timestamp (mv_rows V ?t))), sm_db m')"
    by (simp add: get_messages_def query_rows_no_fault [OF faults])
  have "set (rev (sort_key mg_timestamp (mv_rows V ?t))) = set ?t" using assms(5) [of ?t] by (metis set_rev set_sort set_mset_mset)
  moreover have "(chat_row_of ?E message)\<lparr>mg_status := status_str (ce_status e)\<rparr> \<in> set ?t" by (simp add: rows chat_row_of_def mg)
  moreover have "entry_of_row ?E ((chat_row_of ?E message)\<lparr>mg_status := status_str (ce_status e)\<rparr>) = e"
    using entry_of_stored [OF assms(3,4) mg(3), of "ce_status e"] by (simp add: e entry_of_def k_def delivery_status_def split: if_splits)
  ultimately have "e \<in> set (map (entry_of_row ?E) (rev (sort_key mg_timestamp (mv_rows V ?t))))" by force
  with g delivery_status_meaning [OF n_def] show ?thesis
    by (simp add: get_message_history_def mgr_bind_def on_db_def e entry_of_def mg)
qed

section \<open>An example\<close>

definition fl_chat :: "nat chat_message \<Rightarrow> nat list" where
  "fl_chat c = fl_word (cm_id c) @ fl_word (cm_space_id c) @ fl_word (cm_sender_id c) @ fl_str (cm_sender_name c) @ fl_str (cm_msg_type c) @
    fl_str (cm_content c) @ [cm_timestamp c] @ fl_opt fl_str (cm_signature c)"

definition rd_chat :: "nat list \<Rightarrow> nat chat_message \<times> nat list" where
  "rd_chat ns =
    (let (i, r) = rd_word ns; (sp, r) = rd_word r; (se, r) = rd_word r; (n, r) = rd_str r; (k, r) = rd_str r; (c, r) = rd_str r;
         (s, r') = rd_opt rd_str (tl r)
     in (\<lparr>cm_id = i, cm_space_id = sp, cm_sender_id = se, cm_sender_name = n, cm_msg_type = k, cm_content = c, cm_timestamp = hd r, cm_signature = s\<rparr>, r'))"

lemma chat_nats_ok: "json_ok (nats_json fl_chat rd_chat)"
  by (rule nats_json_ok) (simp add: rd_chat_def fl_chat_def rd_opt_fl [where r = "[]", simplified])

definition message_env_toy :: "(unit, nat, string, nat, unit) message_env" where
  "message_env_toy =
    \<lparr>mv_space = space_env_toy\<lparr>se_rfc3339 := \<lambda>t. replicate t (CHR ''x''), se_parse_time := \<lambda>s. Some (length s)\<rparr>,
     mv_json = nats_json fl_chat rd_chat, mv_post = \<lambda>url b net. (Inr (), net), mv_order = \<lambda>p. p, mv_rows = \<lambda>t. t, mv_id = 7, mv_host = ''h''\<rparr>"

definition chat_mgr_toy :: "(unit, nat) space_mgr" where
  "chat_mgr_toy = mgr_toy\<lparr>sm_db := (db_empty True [])\<lparr>db_spaces := [(space_row_of space_env_toy space_toy)\<lparr>sp_id := ul_string uuid_toy 2\<rparr>]\<rparr>,
     sm_clients := [2 \<mapsto> [(''a'', ''a'', 1)]]\<rparr>"

lemma chat_toy_sent: "\<exists>e m' net'. send_message_command message_env_toy (ul_string uuid_toy 2) ''hi'' ''text'' chat_mgr_toy () = (Inr e, m', net')"
proof -
  let ?E = "mv_space message_env_toy"
  have u: "se_uuid ?E = uuid_toy" by (simp add: message_env_toy_def space_env_toy_def)
  have d: "db_faults (sm_db chat_mgr_toy) = []" "db_spaces (sm_db chat_mgr_toy) = [(space_row_of space_env_toy space_toy)\<lparr>sp_id := ul_string uuid_toy 2\<rparr>]"
    "db_messages (sm_db chat_mgr_toy) = []"
    by (simp_all add: chat_mgr_toy_def db_empty_def)
  have "\<exists>sp m1. space_list ?E chat_mgr_toy = (Inr [sp], m1) \<and> sc_id sp = 2"
    by (simp add: space_list_def mgr_bind_def on_db_def list_spaces_def query_rows_no_fault d running_spaces_def ipc_def message_env_toy_def
        space_env_toy_def listed_space_def Let_def parse_or_nil_def uuid_toy_ok split: prod.splits)
  then obtain sp m1 where l: "space_list ?E chat_mgr_toy = (Inr [sp], m1)" "sc_id sp = 2" by blast
  with space_list_frame [OF l(1) d(1)] d have db: "db_faults (sm_db m1) = []" "ul_string uuid_toy 2 \<in> sp_id ` set (db_spaces (sm_db m1))" "db_messages (sm_db m1) = []"
    by simp_all
  define mm where "mm = signed_by ?E sp (new_message message_env_toy 2 ''hi'' ''text'')"
  have "mg_space_id (chat_row_of ?E mm) = ul_string uuid_toy 2"
    by (simp add: chat_row_of_def u mm_def signed_by_def chat_sign_def new_message_def chat_text_def)
  then have "\<exists>m2. on_db (insert_message (chat_row_of ?E mm)) m1 = (Inr (), m2)"
    using db by (simp add: on_db_def insert_message_def insert_row_def stmt_no_fault sql_insert_def fk_ok_def)
  then show ?thesis
    by (auto simp: send_message_command_def u uuid_toy_ok l store_and_send_def Let_def mm_def split: prod.split)
qed

theorem sent_message_in_history_witness:
  "\<exists>e m' net' es. send_message_command message_env_toy (ul_string uuid_toy 2) ''hi'' ''text'' chat_mgr_toy () = (Inr e, m', net') \<and>
    get_message_history message_env_toy (ul_string uuid_toy 2) (Some 50) m' = (Inr es, m') \<and> e \<in> set es \<and> ce_status e = MsDelivered"
proof -
  obtain e m' net' where s: "send_message_command message_env_toy (ul_string uuid_toy 2) ''hi'' ''text'' chat_mgr_toy () = (Inr e, m', net')"
    using chat_toy_sent by blast
  have u: "se_uuid (mv_space message_env_toy) = uuid_toy" by (simp add: message_env_toy_def space_env_toy_def)
  have "chat_peers_of 2 chat_mgr_toy = [(''a'', ''a'', 1)]" by (simp add: chat_peers_of_def chat_mgr_toy_def)
  moreover have "\<exists>es. get_message_history message_env_toy (ul_string (se_uuid (mv_space message_env_toy)) 2) (Some 50) m' = (Inr es, m') \<and> e \<in> set es \<and>
    ce_content e = ''hi'' \<and> ce_space_id e = 2 \<and>
    (ce_status e = MsSent \<longleftrightarrow> chat_peers_of 2 chat_mgr_toy = []) \<and>
    (ce_status e = MsDelivered \<longleftrightarrow> (\<exists>p \<in> set (chat_peers_of 2 chat_mgr_toy). accepts (\<lambda>_. Inr ()) p)) \<and>
    (ce_status e = MsFailed \<longleftrightarrow> chat_peers_of 2 chat_mgr_toy \<noteq> [] \<and> (\<forall>p \<in> set (chat_peers_of 2 chat_mgr_toy). \<not> accepts (\<lambda>_. Inr ()) p))"
    by (rule sent_message_in_history [OF s [folded u]])
      (simp_all add: message_env_toy_def chat_mgr_toy_def db_empty_def space_env_toy_def uuid_toy_ok iter_order_id chat_nats_ok)
  ultimately show ?thesis using s by (auto simp: u accepts_def)
qed

end
