(* ===== verification/Web_Routes.thy ===== *)
theory Web_Routes
  imports Daemon_Run App_Commands Message_Commands File_Commands Event_Bus Config_Service Proxy_Server Log_Service
begin

text \<open>
  The handlers of the web server, \<open>src-tauri/src/server/routes.rs\<close>: spaces, messages and the network.
  A handler takes the parameters that the router extracted and the state of the server, the struct
  \<open>AppState\<close> of \<open>server/mod.rs\<close> with what its components keep, and gives the answer and the new state. A panic ends
  the task of the request without an answer. The files of the server, the exported logs and the configuration file are in the file system
  of the file transfers; the configuration store and the log files keep their own.
\<close>

section \<open>The state of the server\<close>

record ('w, 't, 'n) web_state =
  wb_app :: "('w, 't, 'n) file_app"
  wb_bus :: event_bus
  wb_log :: log_state
  wb_config :: app_config
  wb_store :: service
  wb_proxy :: forward_state
  wb_globals :: proxy_globals
  wb_proxy_port :: u16
  wb_proxy_running :: bool

abbreviation wb_mgr :: "('w, 't, 'n) web_state \<Rightarrow> ('w, 't) space_mgr" where
  "wb_mgr w \<equiv> fa_spaces (wb_app w)"

abbreviation wb_db :: "('w, 't, 'n) web_state \<Rightarrow> database" where
  "wb_db w \<equiv> sm_db (wb_mgr w)"

definition put_mgr :: "('w, 't) space_mgr \<Rightarrow> ('w, 't, 'n) web_state \<Rightarrow> ('w, 't, 'n) web_state" where
  "put_mgr m w = w\<lparr>wb_app := (wb_app w)\<lparr>fa_spaces := m\<rparr>\<rparr>"

definition put_net :: "'n \<Rightarrow> ('w, 't, 'n) web_state \<Rightarrow> ('w, 't, 'n) web_state" where
  "put_net n w = w\<lparr>wb_app := (wb_app w)\<lparr>fa_net := n\<rparr>\<rparr>"

text \<open>What the handlers take from outside: the environments of the components, the clock, the values that serde makes of a query and of a space.\<close>

record ('w, 't, 'v, 'f, 'n) web_env =
  wx_file :: "('w, 't, 'v, 'f, 'n) file_env"
  wx_apps :: "('w, 't, 'v, 'f) app_env"
  wx_chat :: "('w, 't, 'v, 'f, 'n) message_env"
  wx_clock :: int
  wx_query :: "(string \<times> string) list \<Rightarrow> jvalue"
  wx_space_value :: "'t space \<Rightarrow> jvalue"
  wx_new_space :: uuid
  wx_machine :: "string option"
  wx_floats :: "'f f64_ops"
  wx_collect :: "uuid \<Rightarrow> 'f collect"
  wx_set_order :: "string list \<Rightarrow> string list"
  wx_lower :: "string \<Rightarrow> string"
  wx_alnum :: "string \<Rightarrow> bool"
  wx_config_order :: "(string, string) hmap \<Rightarrow> (string \<times> string) list"
  wx_pretty :: "log_record list \<Rightarrow> string + bytes"
  wx_stamp :: string
  wx_system :: "system_app list json"
  wx_data_dir :: path
  wx_messages :: "message json"
  wx_transport :: transport
  wx_show_path :: "path \<Rightarrow> string"

abbreviation wx_space :: "('w, 't, 'v, 'f, 'n) web_env \<Rightarrow> ('w, 't, 'v, 'f) space_env" where
  "wx_space X \<equiv> fe_space (wx_file X)"

abbreviation wx_uuid :: "('w, 't, 'v, 'f, 'n) web_env \<Rightarrow> uuid_lib" where
  "wx_uuid X \<equiv> se_uuid (wx_space X)"

section \<open>Answers\<close>

record 'f network_stats =
  ns_rx_bytes :: u64
  ns_tx_bytes :: u64
  ns_rx_packets :: u64
  ns_tx_packets :: u64
  ns_loss_rate :: 'f
  ns_avg_latency_ms :: 'f

datatype ('t, 'f) web_json =
    JSpace "'t space" | JSpaces "'t space list" | JMembers "'t member list" | JValue jvalue | JOptional "string option"
  | JEntry "'t chat_entry" | JEntries "'t chat_entry list" | JShare share_info | JStats "'f network_stats" | JPeers "'f peer_info list"
  | JStrings "string list" | JRecords "log_record list" | JMap "(string, string) hmap" | JMeta config_file_meta | JConfig config_file
  | JApp app_row | JApps "app_row list" | JAcl acl_rule | JAcls "acl_rule_row list" | JForward port_forward_rule
  | JForwards "port_forward_rule_row list" | JSystem "system_app list" | JFile "'t file_info" | JFiles "file_row list"

datatype ('t, 'f) web_body =
    NoBody | TextBody string | ErrBody space_error | TransferBody transfer_error | ClientBody client_error | StoreBody store_error
  | ConfigBody config_error | BytesBody bytes | JsonBody "('t, 'f) web_json"

record ('t, 'f) web_answer =
  wa_status :: nat
  wa_headers :: "(string \<times> string) list"
  wa_body :: "('t, 'f) web_body"

type_synonym ('t, 'f, 's) handled_request = "('t, 'f) web_answer outcome \<times> 's"

definition reply :: "nat \<Rightarrow> ('t, 'f) web_body \<Rightarrow> ('t, 'f) web_answer outcome" where
  "reply status body = Done \<lparr>wa_status = status, wa_headers = [], wa_body = body\<rparr>"

definition ok_json :: "('t, 'f) web_json \<Rightarrow> ('t, 'f) web_answer outcome" where
  "ok_json j = reply 200 (JsonBody j)"

definition no_content :: "('t, 'f) web_answer outcome" where
  "no_content = reply 204 NoBody"

definition bad_request :: "string \<Rightarrow> ('t, 'f) web_answer outcome" where
  "bad_request text = reply 400 (TextBody text)"

definition not_found :: "string \<Rightarrow> ('t, 'f) web_answer outcome" where
  "not_found text = reply 404 (TextBody text)"

definition failed :: "space_error \<Rightarrow> ('t, 'f) web_answer outcome" where
  "failed e = (case e of SpPanic \<Rightarrow> Panicked | _ \<Rightarrow> reply 500 (ErrBody e))"

definition with_mgr ::
  "(('w, 't) space_mgr \<Rightarrow> ('w, 't, 'a) mgr_result) \<Rightarrow> ('a \<Rightarrow> ('w, 't, 'n) web_state \<Rightarrow> ('t, 'f, ('w, 't, 'n) web_state) handled_request) \<Rightarrow>
   ('w, 't, 'n) web_state \<Rightarrow> ('t, 'f, ('w, 't, 'n) web_state) handled_request" where
  "with_mgr f k w =
    (case f (wb_mgr w) of
       (Inl e, m) \<Rightarrow> (failed e, put_mgr m w)
     | (Inr x, m) \<Rightarrow> k x (put_mgr m w))"

definition web_uuid ::
  "('w, 't, 'v, 'f, 'n) web_env \<Rightarrow> string \<Rightarrow> (uuid \<Rightarrow> ('w, 't, 'n) web_state \<Rightarrow> ('t, 'f, ('w, 't, 'n) web_state) handled_request) \<Rightarrow>
   ('w, 't, 'n) web_state \<Rightarrow> ('t, 'f, ('w, 't, 'n) web_state) handled_request" where
  "web_uuid X s k w =
    (case ul_parse (wx_uuid X) s of
       Inl e \<Rightarrow> (bad_request (utf8_text [230, 151, 160, 230, 149, 136] @ '' UUID: '' @ e), w)
     | Inr u \<Rightarrow> k u w)"

definition announce ::
  "('w, 't, 'v, 'f, 'n) web_env \<Rightarrow> event_type \<Rightarrow> string option \<Rightarrow> jvalue \<Rightarrow> ('w, 't, 'n) web_state \<Rightarrow> ('w, 't, 'n) web_state" where
  "announce X kind space_id payload w = w\<lparr>wb_bus := broadcast (server_event_new (wx_clock X) kind space_id payload) (wb_bus w)\<rparr>"

text \<open>\<open>body[key].as_str().unwrap_or("")\<close>\<close>

definition str_or_empty :: "jvalue \<Rightarrow> string \<Rightarrow> string" where
  "str_or_empty body key = (case get_str body key of Some s \<Rightarrow> s | None \<Rightarrow> [])"

section \<open>Spaces\<close>

definition create_space_handler where
  "create_space_handler X body w =
    (let name = str_or_empty body ''network_name''; secret = str_or_empty body ''network_secret'' in
     if name = [] \<or> secret = [] then (bad_request (utf8_text [231, 188, 186, 229, 176, 145] @ '' network_name '' @ utf8_text [230, 136, 150] @ '' network_secret''), w)
     else with_mgr (space_create (wx_space X) (wx_new_space X) (ae_default (wx_apps X)) name secret (get_str body ''description''))
       (\<lambda>space w. (ok_json (JSpace space),
          announce X SpaceCreated (Some (ul_string (wx_uuid X) (sc_id space))) (JObj [(''space'', wx_space_value X space)]) w)) w)"

definition join_space_handler where
  "join_space_handler X body w =
    (let network_name = str_or_empty body ''network_name''; secret = str_or_empty body ''network_secret'' in
     if network_name = [] \<or> secret = [] then (bad_request (utf8_text [231, 188, 186, 229, 176, 145] @ '' network_name '' @ utf8_text [230, 136, 150] @ '' network_secret''), w)
     else
       (let config = (network_config_default (ae_default (wx_apps X)))\<lparr>nc_network_name := network_name, nc_network_secret := secret\<rparr>;
            config = (case get_str body ''virtual_ipv4'' of Some ip \<Rightarrow> config\<lparr>nc_virtual_ipv4 := ip\<rparr> | None \<Rightarrow> config);
            display_name = Option.bind (get_str body ''name'') (\<lambda>s. if s = [] then None else Some s)
        in with_mgr (space_join (wx_space X) (wx_new_space X) config display_name) (\<lambda>space w. (ok_json (JSpace space), w)) w))"

definition list_spaces_handler where
  "list_spaces_handler X w = with_mgr (space_list (wx_space X)) (\<lambda>spaces w. (ok_json (JSpaces spaces), w)) w"

definition get_space_handler where
  "get_space_handler X space_id w =
    with_mgr (space_list (wx_space X)) (\<lambda>spaces w.
      web_uuid X space_id (\<lambda>u w.
        case List.find (\<lambda>s. sc_id s = u) spaces of
          Some space \<Rightarrow> (ok_json (JSpace space), w)
        | None \<Rightarrow> (not_found (utf8_text [231, 169, 186, 233, 151, 180, 228, 184, 141, 229, 173, 152, 229, 156, 168]), w)) w) w"

definition delete_space_handler where
  "delete_space_handler X space_id w =
    web_uuid X space_id (\<lambda>u w.
      with_mgr (space_delete (wx_space X) u) (\<lambda>_ w.
        (no_content, announce X SpaceDeleted (Some space_id) (JObj [(''space_id'', JStr space_id)]) w)) w) w"

definition leave_space_handler where
  "leave_space_handler X space_id w =
    web_uuid X space_id (\<lambda>u w.
      with_mgr (space_leave (wx_space X) u) (\<lambda>_ w.
        (no_content, announce X MemberLeft (Some space_id) (JObj [(''space_id'', JStr space_id)]) w)) w) w"

definition connect_space_handler where
  "connect_space_handler X space_id w =
    web_uuid X space_id (\<lambda>u w.
      with_mgr (space_connect (wx_space X) (ae_default (wx_apps X)) u) (\<lambda>_ w.
        (no_content, announce X SpaceUpdated (Some space_id) (JObj [(''space_id'', JStr space_id), (''action'', JStr ''connect'')]) w)) w) w"

definition disconnect_space_handler where
  "disconnect_space_handler X space_id w =
    web_uuid X space_id (\<lambda>u w.
      with_mgr (space_disconnect (wx_space X) u) (\<lambda>_ w.
        (no_content, announce X SpaceUpdated (Some space_id) (JObj [(''space_id'', JStr space_id), (''action'', JStr ''disconnect'')]) w)) w) w"

definition space_status_handler where
  "space_status_handler X space_id w =
    with_mgr (get_space_status (wx_space X) space_id) (\<lambda>v w.
      (case v of Some v \<Rightarrow> ok_json (JValue v) | None \<Rightarrow> not_found (utf8_text [231, 169, 186, 233, 151, 180, 228, 184, 141, 229, 173, 152, 229, 156, 168]), w)) w"

definition list_members_handler where
  "list_members_handler X space_id w =
    web_uuid X space_id (\<lambda>u w. with_mgr (space_members (wx_space X) u) (\<lambda>ms w. (ok_json (JMembers ms), w)) w) w"

definition get_space_config_handler where
  "get_space_config_handler X space_id w =
    with_mgr (on_db (get_space_config space_id)) (\<lambda>c w. (ok_json (JOptional c), w)) w"

definition update_space_config_handler where
  "update_space_config_handler X space_id body w =
    (let config_json = str_or_empty body ''config_json'' in
     if config_json = [] then (bad_request (utf8_text [231, 188, 186, 229, 176, 145] @ '' config_json''), w)
     else case js_de (se_config (wx_space X)) (as_bytes config_json) of
       Inl e \<Rightarrow> (bad_request (utf8_text [233, 133, 141, 231, 189, 174] @ '' json '' @ utf8_text [232, 167, 163, 230, 158, 144, 229, 164, 177, 232, 180, 165] @ '': '' @ e), w)
     | Inr config \<Rightarrow>
        (case js_ser (se_config (wx_space X)) (dedupe_proxy_cidrs (se_net (wx_space X)) config) of
           Inl e \<Rightarrow> (reply 500 (TextBody (utf8_text [233, 133, 141, 231, 189, 174] @ '' json '' @ utf8_text [229, 186, 143, 229, 136, 151, 229, 140, 150, 229, 164, 177, 232, 180, 165] @ '': '' @ e)), w)
         | Inr text \<Rightarrow> with_mgr (on_db (update_space_config space_id (of_bytes text))) (\<lambda>_ w. (no_content, w)) w))"

definition patch_space_config_handler where
  "patch_space_config_handler X space_id patch w =
    with_mgr (space_patch_config (wx_space X) space_id patch) (\<lambda>_ w. (no_content, w)) w"

definition generate_share_link_handler where
  "generate_share_link_handler X space_id body w =
    web_uuid X space_id (\<lambda>u w.
      with_mgr (generate_share_link (wx_space X) (ae_default (wx_apps X)) u (get_str body ''ip''))
        (\<lambda>link w. (ok_json (JValue (JObj [(''link'', JStr link)])), w)) w) w"

definition parse_qr_handler where
  "parse_qr_handler X body w =
    (let link = str_or_empty body ''link'' in
     if link = [] then (bad_request (utf8_text [231, 188, 186, 229, 176, 145] @ '' link''), w)
     else case parse_qr (wx_apps X) link of
       Inr (event, data) \<Rightarrow> (ok_json (JValue (JObj [(''event'', JStr event), (''data'', JStr data)])), w)
     | Inl e \<Rightarrow> (reply 400 (ErrBody e), w))"

definition parse_share_data_handler where
  "parse_share_data_handler X body w =
    (let data = str_or_empty body ''data'' in
     if data = [] then (bad_request (utf8_text [231, 188, 186, 229, 176, 145] @ '' data''), w)
     else case ae_unb64 (wx_apps X) data of
       Inl e \<Rightarrow> (bad_request (utf8_text [229, 136, 134, 228, 186, 171, 230, 149, 176, 230, 141, 174, 232, 167, 163, 231, 160, 129, 229, 164, 177, 232, 180, 165] @ '': '' @ e), w)
     | Inr b \<Rightarrow> (case decode_share_binary b of Inr info \<Rightarrow> ok_json (JShare info) | Inl e \<Rightarrow> reply 400 (ErrBody (SpShare e)), w))"

section \<open>Messages\<close>

definition get_message_history_handler where
  "get_message_history_handler X space_id params w =
    with_mgr (get_message_history (wx_chat X) space_id (Some (case get_u64 params ''limit'' of Some v \<Rightarrow> ucast v | None \<Rightarrow> 50)))
      (\<lambda>es w. (ok_json (JEntries es), w)) w"

definition message_event_value :: "uuid_lib \<Rightarrow> ('t \<Rightarrow> string) \<Rightarrow> string \<Rightarrow> 't chat_entry \<Rightarrow> jvalue" where
  "message_event_value U show_time msg_type e =
    JObj [(''message'', JObj
      [(''id'', JStr (ul_string U (ce_id e))), (''space_id'', JStr (ul_string U (ce_space_id e))), (''sender_id'', JStr (ul_string U (ce_sender_id e))),
       (''sender_name'', JStr (ce_sender_name e)), (''msg_type'', JStr msg_type), (''content'', JStr (ce_content e)),
       (''timestamp'', JStr (show_time (ce_timestamp e))), (''status'', JStr (status_str (ce_status e)))])]"

definition send_message_handler where
  "send_message_handler X space_id body w =
    (let content = str_or_empty body ''content'';
         msg_type = (case get_str body ''msg_type'' of Some s \<Rightarrow> s | None \<Rightarrow> ''text'');
         E = wx_space X in
     if content = [] then (bad_request (utf8_text [231, 188, 186, 229, 176, 145] @ '' content''), w)
     else web_uuid X space_id (\<lambda>u w.
       with_mgr (space_list E) (\<lambda>spaces w.
         case List.find (\<lambda>s. sc_id s = u) spaces of
           None \<Rightarrow> (not_found (utf8_text [231, 169, 186, 233, 151, 180, 228, 184, 141, 229, 173, 152, 229, 156, 168]), w)
         | Some space \<Rightarrow>
            (let message = signed_by E space (new_message (wx_chat X) u content msg_type) in
             case store_and_send (wx_chat X) u msg_type message (wb_mgr w) (fa_net (wb_app w)) of
               (Inl e, m, net) \<Rightarrow> (failed e, put_net net (put_mgr m w))
             | (Inr entry, m, net) \<Rightarrow>
                (ok_json (JEntry entry),
                 announce X MessageSent (Some space_id) (message_event_value (wx_uuid X) (se_rfc3339 E) (cm_msg_type message) entry)
                   (put_net net (put_mgr m w))))) w) w)"

text \<open>\<open>spaces\<close> is read without refreshing it, and a missing target is the empty name.\<close>

definition send_signal_handler where
  "send_signal_handler X space_id body w =
    (let payload = str_or_empty body ''payload''; target = get_str body ''target''; E = wx_space X in
     if payload = [] then (bad_request (utf8_text [231, 188, 186, 229, 176, 145] @ '' payload''), w)
     else web_uuid X space_id (\<lambda>u w.
       let sender_id = (case wx_machine X of Some s \<Rightarrow> parse_or_nil (wx_uuid X) s | None \<Rightarrow> 0) in
       case List.find (\<lambda>s. sc_id s = u) (sm_spaces (wb_mgr w)) of
         None \<Rightarrow> (not_found ''Space not found'', w)
       | Some space \<Rightarrow>
          (let message = signed_by E space (chat_signal (mv_id (wx_chat X)) (se_now E) u sender_id (mv_host (wx_chat X)) payload) in
           case send_signal_to (wx_chat X) u (case target of Some t \<Rightarrow> t | None \<Rightarrow> []) message (wb_mgr w) (fa_net (wb_app w)) of
             (Inr _, net) \<Rightarrow> (no_content, put_net net w)
           | (Inl e, net) \<Rightarrow> (reply 500 (TextBody e), put_net net w))) w)"

section \<open>The network\<close>

definition get_network_stats_handler where
  "get_network_stats_handler X space_id w =
    web_uuid X space_id (\<lambda>u w.
      (case query_rpc_status_once (wx_floats X) (ul_string (wx_uuid X) u) (wx_collect X u) of
         Panicked \<Rightarrow> Panicked
       | Done (Some s) \<Rightarrow> ok_json (JStats \<lparr>ns_rx_bytes = rs_rx_bytes s, ns_tx_bytes = rs_tx_bytes s, ns_rx_packets = 0, ns_tx_packets = 0,
           ns_loss_rate = f_zero (wx_floats X), ns_avg_latency_ms = rs_avg_latency_ms s\<rparr>)
       | Done None \<Rightarrow> ok_json (JStats \<lparr>ns_rx_bytes = 0, ns_tx_bytes = 0, ns_rx_packets = 0, ns_tx_packets = 0,
           ns_loss_rate = f_zero (wx_floats X), ns_avg_latency_ms = f_zero (wx_floats X)\<rparr>), w)) w"

definition get_space_peers_handler where
  "get_space_peers_handler X space_id w =
    web_uuid X space_id (\<lambda>u w. with_mgr (get_peers (wx_space X) u) (\<lambda>ps w. (ok_json (JPeers ps), w)) w) w"

definition get_mesh_routes_handler where
  "get_mesh_routes_handler X space_id w =
    web_uuid X space_id (\<lambda>u w.
      (case query_mesh_routes (wx_set_order X) (wx_collect X u) of
         Some routes \<Rightarrow> ok_json (JStrings routes) | None \<Rightarrow> not_found ''Instance not found'', w)) w"

end
