(* ===== verification/Web_Data.thy ===== *)
theory Web_Data
  imports Web_Routes
begin

text \<open>
  The other handlers of \<open>src-tauri/src/server/routes.rs\<close>: logs, configuration, the page proxy, rules, applications, files and
  the configuration store; and the embedded front end, \<open>server/assets.rs\<close>.
\<close>

section \<open>Logs\<close>

definition parse_level_opt :: "(string \<Rightarrow> string) \<Rightarrow> string option \<Rightarrow> log_level option" where
  "parse_level_opt lower s =
    (case map_option lower s of
       None \<Rightarrow> None
     | Some l \<Rightarrow>
        if l = ''debug'' then Some Debug else if l = ''info'' then Some Info
        else if l = ''warning'' then Some Warning else if l = ''error'' then Some Error else None)"

definition parse_category_opt :: "(string \<Rightarrow> string) \<Rightarrow> string option \<Rightarrow> log_category option" where
  "parse_category_opt lower s =
    (case map_option lower s of
       None \<Rightarrow> None
     | Some c \<Rightarrow>
        map_of [(''system'', System), (''network'', Network), (''webrtc'', WebRTC), (''data'', Data), (''proxy'', Proxy), (''daemon'', Daemon),
                (''space'', Space), (''server'', Server)] c)"

text \<open>The handlers of the two lists spell the same filter of levels out.\<close>

definition get_logs_handler where
  "get_logs_handler X params w =
    (case log_get_all (parse_level_opt (wx_lower X) (get_str params ''level'')) (wb_log w) of
       (records, st) \<Rightarrow> (ok_json (JRecords records), w\<lparr>wb_log := st\<rparr>))"

definition get_space_logs_handler where
  "get_space_logs_handler X space_id params w =
    (case log_get_by_space space_id (parse_level_opt (wx_lower X) (get_str params ''level'')) (wb_log w) of
       (records, st) \<Rightarrow> (ok_json (JRecords records), w\<lparr>wb_log := st\<rparr>))"

definition clear_logs_handler where
  "clear_logs_handler w = (no_content, w\<lparr>wb_log := log_clear (wb_log w)\<rparr>)"

definition filter_of_params :: "('w, 't, 'v, 'f, 'n) web_env \<Rightarrow> jvalue \<Rightarrow> log_filter" where
  "filter_of_params X params =
    log_filter_default\<lparr>lf_level := parse_level_opt (wx_lower X) (get_str params ''level''), lf_space_id := get_str params ''space_id'',
      lf_module := get_str params ''module'', lf_category := parse_category_opt (wx_lower X) (get_str params ''category''),
      lf_keyword := get_str params ''keyword''\<rparr>"

definition query_logs_handler where
  "query_logs_handler X params w =
    (case log_query (wx_lower X) ((filter_of_params X params)\<lparr>lf_since_seq := get_u64 params ''since_seq'', lf_before_ts := get_str params ''before_ts'',
        lf_after_ts := get_str params ''after_ts'', lf_limit := map_option unat (get_u64 params ''limit'')\<rparr>) (wb_log w) of
       (records, st) \<Rightarrow> (ok_json (JRecords records), w\<lparr>wb_log := st\<rparr>))"

definition get_log_modules_handler where
  "get_log_modules_handler X w =
    (case log_active_modules (wx_set_order X) (wb_log w) of (names, st) \<Rightarrow> (ok_json (JStrings names), w\<lparr>wb_log := st\<rparr>))"

definition clear_logs_filtered_handler where
  "clear_logs_filtered_handler X params w =
    (no_content, w\<lparr>wb_log := log_clear_filtered (wx_lower X) (filter_of_params X params) (wb_log w)\<rparr>)"

definition put_fs :: "fs \<Rightarrow> ('w, 't, 'n) web_state \<Rightarrow> ('w, 't, 'n) web_state" where
  "put_fs fs w = w\<lparr>wb_app := (wb_app w)\<lparr>fa_fs := fs\<rparr>\<rparr>"

definition export_logs_handler where
  "export_logs_handler X params w =
    (case log_query (wx_lower X) ((filter_of_params X params)\<lparr>lf_before_ts := get_str params ''before_ts'', lf_after_ts := get_str params ''after_ts''\<rparr>) (wb_log w) of
       (records, st) \<Rightarrow>
         (let format = (case get_str params ''format'' of Some f \<Rightarrow> f | None \<Rightarrow> ''txt''); fs = fa_fs (wb_app w) in
          case export_to_dir (wx_pretty X) (\<lambda>d. case fs_create_dir_all d fs of Inl e \<Rightarrow> Some e | Inr _ \<Rightarrow> None) (wx_stamp X)
                 (path_join (wx_data_dir X) ''logs_export'') records format fs of
            (Inr p, fs) \<Rightarrow> (ok_json (JValue (JObj [(''path'', JStr (wx_show_path X p))])), put_fs fs (w\<lparr>wb_log := st\<rparr>))
          | (Inl e, fs) \<Rightarrow> (reply 500 (TextBody e), put_fs fs (w\<lparr>wb_log := st\<rparr>))))"

section \<open>Configuration\<close>

definition get_system_config_handler where
  "get_system_config_handler X w = with_mgr (on_db (get_user_config (se_users (wx_space X)))) (\<lambda>c w. (ok_json (JOptional c), w)) w"

definition set_system_config_handler where
  "set_system_config_handler body w =
    (let config = str_or_empty body ''config'' in
     if config = [] then (bad_request (utf8_text [231, 188, 186, 229, 176, 145] @ '' config''), w)
     else with_mgr (on_db (update_user_config config)) (\<lambda>_ w. (no_content, w)) w)"

definition get_app_config_handler where
  "get_app_config_handler X w = (ok_json (JMap (ac_all (wx_config_order X) (wb_config w))), w)"

definition config_updates :: "jvalue \<Rightarrow> (string \<times> string) list" where
  "config_updates body =
    (case as_object body of None \<Rightarrow> [] | Some m \<Rightarrow> List.map_filter (\<lambda>(k, v). map_option (\<lambda>s. (k, s)) (as_str v)) m)"

text \<open>Every assignment writes the file; the first that fails ends the loop.\<close>

fun apply_updates ::
  "((string, string) hmap \<Rightarrow> (string \<times> string) list) \<Rightarrow> (string \<times> string) list \<Rightarrow> app_config \<Rightarrow> fs \<Rightarrow> (config_error + unit) \<times> app_config \<times> fs" where
  "apply_updates ord [] ac fs = (Inr (), ac, fs)"
| "apply_updates ord ((k, v) # kvs) ac fs =
    (case ac_set ord k v ac fs of
       (Inl e, ac, fs) \<Rightarrow> (Inl e, ac, fs)
     | (Inr _, ac, fs) \<Rightarrow> apply_updates ord kvs ac fs)"

definition put_config :: "app_config \<Rightarrow> fs \<Rightarrow> ('w, 't, 'n) web_state \<Rightarrow> ('w, 't, 'n) web_state" where
  "put_config ac fs w = put_fs fs (w\<lparr>wb_config := ac\<rparr>)"

definition set_app_config_handler where
  "set_app_config_handler X body w =
    (let updates = config_updates body in
     case apply_updates (wx_config_order X) updates (wb_config w) (fa_fs (wb_app w)) of
       (Inl e, ac, fs) \<Rightarrow> (reply 500 (ConfigBody e), put_config ac fs w)
     | (Inr _, ac, fs) \<Rightarrow>
        (case ac_save (wx_config_order X) ac fs of
           (Inl e, ac, fs) \<Rightarrow> (reply 500 (ConfigBody e), put_config ac fs w)
         | (Inr _, ac, fs) \<Rightarrow>
            (let w = put_config ac fs w in
             case List.find (\<lambda>(k, _). k = KEY_LOG_ENABLED) updates of
               None \<Rightarrow> (no_content, w)
             | Some (_, v) \<Rightarrow>
                (let enabled = (v \<noteq> ''0''); w = w\<lparr>wb_log := set_log_enabled enabled (wb_log w)\<rparr> in
                 with_mgr (on_db (set_setting ''LOG_ENABLED'' (if enabled then ''1'' else ''0''))) (\<lambda>_ w. (no_content, w)) w))))"

definition get_config_path_handler where
  "get_config_path_handler X w =
    (case se_global (wx_space X) of
       Some cfg \<Rightarrow> (ok_json (JValue (JObj [(''path'', JStr (wx_show_path X (ac_path cfg)))])), w)
     | None \<Rightarrow> (reply 500 (TextBody (utf8_text [233, 133, 141, 231, 189, 174, 229, 176, 154, 230, 156, 170, 229, 136, 157, 229, 167, 139, 229, 140, 150])), w))"

definition get_config_template_path_handler where
  "get_config_template_path_handler X w =
    (case se_global (wx_space X) of
       Some cfg \<Rightarrow> (ok_json (JValue (JObj [(''path'', JStr (case ac_template_path cfg of Some p \<Rightarrow> wx_show_path X p | None \<Rightarrow> []))])), w)
     | None \<Rightarrow> (reply 500 (TextBody (utf8_text [233, 133, 141, 231, 189, 174, 229, 176, 154, 230, 156, 170, 229, 136, 157, 229, 167, 139, 229, 140, 150])), w))"

section \<open>The page proxy\<close>

definition get_proxy_url_handler where
  "get_proxy_url_handler w = (ok_json (JValue (JObj [(''proxy_url'', JStr (proxy_url (wb_proxy_port w)))])), w)"

definition get_proxy_status_handler where
  "get_proxy_status_handler w =
    (ok_json (JValue (JObj [(''running'', JBool (wb_proxy_running w)), (''port'', JNum (PosInt (ucast (wb_proxy_port w)))),
       (''proxy_url'', JStr (proxy_url (wb_proxy_port w)))])), w)"

definition register_proxy_key_handler where
  "register_proxy_key_handler X body w =
    (let url = str_or_empty body ''url'' in
     if url = [] then (bad_request (utf8_text [231, 188, 186, 229, 176, 145] @ '' url''), w)
     else case register_proxy_key (se_prims (wx_space X)) url (wb_proxy w) of
       (key, st) \<Rightarrow> (ok_json (JValue (JObj [(''key'', JStr key)])), w\<lparr>wb_proxy := st\<rparr>))"

definition set_proxy_source_handler where
  "set_proxy_source_handler body w =
    (let url = str_or_empty body ''url'' in
     if url = [] then (bad_request (utf8_text [231, 188, 186, 229, 176, 145] @ '' url''), w)
     else (no_content, w\<lparr>wb_proxy := set_proxy_source url (wb_proxy w)\<rparr>))"

definition set_device_mode_handler where
  "set_device_mode_handler body w =
    (no_content, w\<lparr>wb_globals := set_device_mode (case get_str body ''mode'' of Some s \<Rightarrow> s | None \<Rightarrow> ''desktop'') (wb_globals w)\<rparr>)"

definition get_pending_downloads_handler where
  "get_pending_downloads_handler w =
    (case get_pending_downloads (wb_globals w) of
       (items, g) \<Rightarrow> (ok_json (JValue (JObj [(''files'', JArr (map JStr items))])), w\<lparr>wb_globals := g\<rparr>))"

section \<open>Rules\<close>

definition get_acl_rules_handler where
  "get_acl_rules_handler X space_id w =
    with_mgr (on_db (get_acl_rules (ae_acls (wx_apps X)) space_id)) (\<lambda>rules w. (ok_json (JAcls rules), w)) w"

text \<open>After the checks a rule is made as the command of the application makes it.\<close>

definition create_acl_rule_handler where
  "create_acl_rule_handler X space_id body w =
    (let action = str_or_empty body ''action''; source = str_or_empty body ''source''; dest = str_or_empty body ''dest'';
         ports = str_or_empty body ''ports''; description = str_or_empty body ''description'' in
     if action = [] \<or> source = [] \<or> dest = [] \<or> ports = [] then (bad_request (utf8_text [231, 188, 186, 229, 176, 145, 229, 191, 133, 232, 166, 129, 229, 143, 130, 230, 149, 176]), w)
     else with_mgr (create_acl_rule_command (wx_apps X) space_id action source dest ports description) (\<lambda>rule w. (ok_json (JAcl rule), w)) w)"

definition update_acl_rule_handler where
  "update_acl_rule_handler X space_id body w =
    (let rule_id = str_or_empty body ''rule_id'' in
     if rule_id = [] then (bad_request (utf8_text [231, 188, 186, 229, 176, 145] @ '' rule_id''), w)
     else with_mgr (on_db (get_acl_rules (ae_acls (wx_apps X)) space_id)) (\<lambda>existing w.
       case List.find (\<lambda>r. al_id r = rule_id) existing of
         None \<Rightarrow> (not_found (''ACL '' @ utf8_text [232, 167, 132, 229, 136, 153, 228, 184, 141, 229, 173, 152, 229, 156, 168]), w)
       | Some row \<Rightarrow>
          (let updated = acl_updated (wx_apps X) (get_str body ''action'') (get_str body ''source'') (get_str body ''dest'')
                 (get_str body ''ports'') (get_str body ''description'') row
           in with_mgr (on_db (update_acl_rule updated)) (\<lambda>_ w. (ok_json (JAcl (acl_row_to_rule updated)), w)) w)) w)"

definition delete_acl_rule_handler where
  "delete_acl_rule_handler body w =
    (let rule_id = str_or_empty body ''rule_id'' in
     if rule_id = [] then (bad_request (utf8_text [231, 188, 186, 229, 176, 145] @ '' rule_id''), w)
     else with_mgr (on_db (delete_acl_rule rule_id)) (\<lambda>_ w. (no_content, w)) w)"

definition get_port_forward_rules_handler where
  "get_port_forward_rules_handler X space_id w =
    with_mgr (on_db (get_port_forward_rules (ae_forwards (wx_apps X)) space_id)) (\<lambda>rules w. (ok_json (JForwards rules), w)) w"

definition i32_or_zero :: "jvalue \<Rightarrow> string \<Rightarrow> int" where
  "i32_or_zero body key = as_i32 (case get_i64 body key of Some i \<Rightarrow> i | None \<Rightarrow> 0)"

definition create_port_forward_rule_handler where
  "create_port_forward_rule_handler X space_id body w =
    (let name = str_or_empty body ''name''; protocol = str_or_empty body ''protocol''; source_ip = str_or_empty body ''sourceIp'';
         source_port = i32_or_zero body ''sourcePort''; target_ip = str_or_empty body ''targetIp''; target_port = i32_or_zero body ''targetPort'';
         description = str_or_empty body ''description'' in
     if name = [] \<or> protocol = [] \<or> source_ip = [] \<or> source_port = 0 \<or> target_ip = [] \<or> target_port = 0 then (bad_request (utf8_text [231, 188, 186, 229, 176, 145, 229, 191, 133, 232, 166, 129, 229, 143, 130, 230, 149, 176]), w)
     else with_mgr (create_port_forward_rule_command (wx_apps X) space_id name protocol source_ip source_port target_ip target_port description)
       (\<lambda>rule w. (ok_json (JForward rule), w)) w)"

definition update_port_forward_rule_handler where
  "update_port_forward_rule_handler X space_id body w =
    (let rule_id = str_or_empty body ''rule_id'' in
     if rule_id = [] then (bad_request (utf8_text [231, 188, 186, 229, 176, 145] @ '' rule_id''), w)
     else with_mgr (on_db (get_port_forward_rules (ae_forwards (wx_apps X)) space_id)) (\<lambda>existing w.
       case List.find (\<lambda>r. pr_id r = rule_id) existing of
         None \<Rightarrow> (not_found (utf8_text [231, 171, 175, 229, 143, 163, 232, 189, 172, 229, 143, 145, 232, 167, 132, 229, 136, 153, 228, 184, 141, 229, 173, 152, 229, 156, 168]), w)
       | Some row \<Rightarrow>
          (let updated = forward_updated (wx_apps X) (get_str body ''name'') (get_str body ''protocol'') (get_str body ''sourceIp'')
                 (map_option as_i32 (get_i64 body ''sourcePort'')) (get_str body ''targetIp'')
                 (map_option as_i32 (get_i64 body ''targetPort'')) (get_str body ''description'') row
           in with_mgr (on_db (update_port_forward_rule updated)) (\<lambda>_ w. (ok_json (JForward (forward_row_to_rule updated)), w)) w)) w)"

definition delete_port_forward_rule_handler where
  "delete_port_forward_rule_handler body w =
    (let rule_id = str_or_empty body ''rule_id'' in
     if rule_id = [] then (bad_request (utf8_text [231, 188, 186, 229, 176, 145] @ '' rule_id''), w)
     else with_mgr (on_db (delete_port_forward_rule rule_id)) (\<lambda>_ w. (no_content, w)) w)"

section \<open>Applications\<close>

text \<open>\<open>get_user_id().ok().flatten().unwrap_or_else(|| "anonymous")\<close>: an error of the database is dropped.\<close>

definition with_caller ::
  "('w, 't, 'v, 'f, 'n) web_env \<Rightarrow> (string \<Rightarrow> ('w, 't, 'n) web_state \<Rightarrow> ('t, 'f, ('w, 't, 'n) web_state) handled_request) \<Rightarrow>
   ('w, 't, 'n) web_state \<Rightarrow> ('t, 'f, ('w, 't, 'n) web_state) handled_request" where
  "with_caller X k w =
    (case on_db (get_user_id (se_users (wx_space X))) (wb_mgr w) of
       (Inr (Some i), m) \<Rightarrow> k i (put_mgr m w)
     | (_, m) \<Rightarrow> k ''anonymous'' (put_mgr m w))"

definition entered :: "jvalue \<Rightarrow> app_import" where
  "entered body =
    \<lparr>im_name = str_or_empty body ''name'', im_category = get_str body ''category'', im_icon = get_str body ''icon'',
     im_protocol = get_str body ''protocol'', im_hostname = get_str body ''hostname'', im_port = get_str body ''port'',
     im_pathname = get_str body ''pathname''\<rparr>"

definition forbidden :: "string \<Rightarrow> ('t, 'f) web_answer outcome" where
  "forbidden text = reply 403 (TextBody text)"

definition add_app_handler where
  "add_app_handler X space_id body w =
    (if str_or_empty body ''name'' = [] then (bad_request (utf8_text [231, 188, 186, 229, 176, 145] @ '' name''), w)
     else case check_owner (wx_space X) space_id (wb_mgr w) of
       Inl _ \<Rightarrow> (forbidden (utf8_text [228, 187, 133, 231, 169, 186, 233, 151, 180, 229, 136, 155, 229, 187, 186, 232, 128, 133, 229, 143, 175, 230, 183, 187, 229, 138, 160, 229, 186, 148, 231, 148, 168]), w)
     | Inr _ \<Rightarrow> with_caller X (\<lambda>caller_id w.
         let app = app_row_of (new_id (wx_apps X) 0) space_id (entered body) 0 caller_id (app_now (wx_apps X))
         in with_mgr (on_db (insert_app app)) (\<lambda>_ w. (ok_json (JApp app), w)) w) w)"

definition update_app_handler where
  "update_app_handler X body w =
    (let app_id = str_or_empty body ''app_id'' in
     if app_id = [] \<or> str_or_empty body ''name'' = [] then (bad_request (utf8_text [231, 188, 186, 229, 176, 145] @ '' app_id '' @ utf8_text [230, 136, 150] @ '' name''), w)
     else with_caller X (\<lambda>caller_id.
       with_mgr (on_db (list_apps_by_created (ae_apps (wx_apps X)) app_id caller_id)) (\<lambda>apps w.
         case apps of
           [] \<Rightarrow> (forbidden (utf8_text [230, 151, 160, 230, 157, 131, 233, 153, 144, 228, 191, 174, 230, 148, 185, 230, 136, 150, 229, 186, 148, 231, 148, 168, 228, 184, 141, 229, 173, 152, 229, 156, 168]), w)
         | existing # _ \<Rightarrow>
            with_mgr (on_db (update_app (app_row_of app_id (ap_space_id existing) (entered body) (ap_sort_order existing) caller_id (ap_created_at existing))))
              (\<lambda>_ w. (no_content, w)) w)) w)"

definition delete_app_handler where
  "delete_app_handler X body w =
    (let app_id = str_or_empty body ''app_id'' in
     if app_id = [] then (bad_request (utf8_text [231, 188, 186, 229, 176, 145] @ '' app_id''), w)
     else with_caller X (\<lambda>caller_id. with_mgr (on_db (delete_app app_id caller_id)) (\<lambda>_ w. (no_content, w))) w)"

definition list_apps_handler where
  "list_apps_handler X space_id w = with_mgr (on_db (list_apps (ae_apps (wx_apps X)) space_id)) (\<lambda>apps w. (ok_json (JApps apps), w)) w"

definition get_system_apps_handler where
  "get_system_apps_handler X w = (ok_json (JSystem (load_system_apps (wx_system X) (wx_data_dir X) (fa_fs (wb_app w)))), w)"

text \<open>The check for an application of the same name is skipped when the list cannot be read.\<close>

definition share_app_handler where
  "share_app_handler X body w =
    (let app_id = str_or_empty body ''app_id''; target = str_or_empty body ''target_space_id''; A = wx_apps X in
     if app_id = [] \<or> target = [] then (bad_request (utf8_text [231, 188, 186, 229, 176, 145] @ '' app_id/target_space_id''), w)
     else with_caller X (\<lambda>caller_id.
       with_mgr (on_db (list_apps_by_created (ae_apps A) app_id caller_id)) (\<lambda>apps w.
         case apps of
           [] \<Rightarrow> (forbidden (utf8_text [230, 151, 160, 230, 157, 131, 233, 153, 144, 229, 136, 134, 228, 186, 171, 230, 136, 150, 229, 186, 148, 231, 148, 168, 228, 184, 141, 229, 173, 152, 229, 156, 168]), w)
         | source # _ \<Rightarrow>
            with_mgr (space_list (wx_space X)) (\<lambda>spaces w.
              if \<not> list_ex (\<lambda>s. ul_string (wx_uuid X) (sc_id s) = target) spaces then (not_found (utf8_text [231, 155, 174, 230, 160, 135, 231, 169, 186, 233, 151, 180, 228, 184, 141, 229, 173, 152, 229, 156, 168]), w)
              else case on_db (list_apps (ae_apps A) target) (wb_mgr w) of (r, m) \<Rightarrow>
                (let w = put_mgr m w in
                 if (case r of Inr existing \<Rightarrow> list_ex (\<lambda>a. ap_name a = ap_name source) existing | Inl _ \<Rightarrow> False)
                 then (reply 409 (TextBody (utf8_text [231, 155, 174, 230, 160, 135, 231, 169, 186, 233, 151, 180, 229, 183, 178, 229, 173, 152, 229, 156, 168, 229, 144, 140, 229, 144, 141, 229, 186, 148, 231, 148, 168])), w)
                 else
                   (let app = shared_row (new_id A 0) target caller_id (app_now A) source
                    in with_mgr (on_db (insert_app app)) (\<lambda>_ w. (ok_json (JApp app), w)) w))) w)) w)"

section \<open>Files\<close>

definition put_registry :: "file_registry \<Rightarrow> ('w, 't, 'n) web_state \<Rightarrow> ('w, 't, 'n) web_state" where
  "put_registry reg w = w\<lparr>wb_app := (wb_app w)\<lparr>fa_registry := reg\<rparr>\<rparr>"

definition put_app :: "('w, 't, 'n) file_app \<Rightarrow> ('w, 't, 'n) web_state \<Rightarrow> ('w, 't, 'n) web_state" where
  "put_app a w = w\<lparr>wb_app := a\<rparr>"

definition discard :: "path \<Rightarrow> ('w, 't, 'n) web_state \<Rightarrow> ('w, 't, 'n) web_state" where
  "discard p w = put_fs (fs_remove p (fa_fs (wb_app w))) w"

definition tmp_path :: "('w, 't, 'v, 'f, 'n) web_env \<Rightarrow> ('w, 't, 'n) web_state \<Rightarrow> path" where
  "tmp_path X w = path_join (fr_storage_dir (fa_registry (wb_app w))) (ul_string (wx_uuid X) (fe_id (wx_file X)) @ ''.tmp'')"

text \<open>The row of an upload and the answer, which shows the record of the file with its identifier.\<close>

definition record_upload where
  "record_upload X info w =
    with_mgr (on_db (insert_file (file_row_of (wx_space X) info))) (\<lambda>_ w. (ok_json (JFile info), w)) w"

text \<open>The part of the handler after the peers are known: a temporary file for the transfer, the copy for downloads, the transfers.\<close>

definition relay_upload where
  "relay_upload X space file_name password body peers w =
    (let F = wx_file X; tmp = tmp_path X w in
     case fs_write tmp body (fa_fs (wb_app w)) of
       (Inl e, fs) \<Rightarrow> (reply 500 (TextBody (utf8_text [229, 134, 153, 229, 133, 165, 228, 184, 180, 230, 151, 182, 230, 150, 135, 228, 187, 182, 229, 164, 177, 232, 180, 165] @ '': '' @ e)), put_fs fs w)
     | (Inr _, fs) \<Rightarrow>
        (let w = put_fs fs w in
         case get_or_start (fe_socket F) (se_global (wx_space X)) (wx_uuid X) space (fa_registry (wb_app w)) of
           (Inl e, reg) \<Rightarrow> (reply 500 (TextBody e), discard tmp (put_registry reg w))
         | (Inr server, reg) \<Rightarrow>
            (let w = put_registry reg w in
             case stored_write (wx_uuid X) server (fe_id F) body (fa_fs (wb_app w)) of
               (Inl e, fs) \<Rightarrow> (reply 500 (TextBody e), discard tmp (put_fs fs w))
             | (Inr _, fs) \<Rightarrow>
                (let w = put_fs fs w in
                 if peers = [] then
                   record_upload X (offline_info F space file_name (length body) (Some (sha256_hex (fe_prims F) body)) password) (discard tmp w)
                 else
                   case send_to_peers F 0 space tmp password peers (Some (fe_id F)) None (wb_app w) of
                     (Inl e, a) \<Rightarrow> (reply 500 (TransferBody e), discard tmp (put_app a w))
                   | (Inr None, a) \<Rightarrow> (reply 500 (TextBody (utf8_text [230, 150, 135, 228, 187, 182, 229, 143, 145, 233, 128, 129, 229, 164, 177, 232, 180, 165])), discard tmp (put_app a w))
                   | (Inr (Some info), a) \<Rightarrow> record_upload X info (discard tmp (put_app a w))))))"

definition send_file_handler where
  "send_file_handler X params body w =
    (let space_id = str_or_empty params ''space_id''; file_name = str_or_empty params ''file_name''; password = get_str params ''password'' in
     if space_id = [] \<or> file_name = [] then (bad_request (utf8_text [231, 188, 186, 229, 176, 145] @ '' space_id/file_name''), w)
     else case ul_parse (wx_uuid X) space_id of
       Inl _ \<Rightarrow> (bad_request (''space_id '' @ utf8_text [230, 160, 188, 229, 188, 143, 233, 148, 153, 232, 175, 175]), w)
     | Inr space \<Rightarrow>
        with_mgr (get_peers_for_file_transfer (wx_space X) space) (\<lambda>peers. relay_upload X space file_name password body peers) w)"

text \<open>\<open>chars()\<close> of a string: a byte that is no continuation byte starts a character.\<close>

definition continues :: "char \<Rightarrow> bool" where
  "continues c \<longleftrightarrow> 128 \<le> (of_char c :: nat) \<and> (of_char c :: nat) < 192"

function utf8_chars :: "string \<Rightarrow> string list" where
  "utf8_chars [] = []"
| "utf8_chars (c # s) = (c # takeWhile continues s) # utf8_chars (dropWhile continues s)"
  by pat_completeness auto
termination by (relation "measure length") (auto simp: le_imp_less_Suc length_dropWhile_le)

text \<open>\<open>wx_alnum\<close> is \<open>char::is_alphanumeric\<close>.\<close>

definition safe_name :: "(string \<Rightarrow> bool) \<Rightarrow> string \<Rightarrow> string" where
  "safe_name alnum file_name =
    concat (map (\<lambda>c. if alnum c \<or> c \<in> {''.'', ''-'', ''_''} then c else ''_'') (utf8_chars file_name))"

definition receive_file_handler where
  "receive_file_handler X space_id file_id w =
    (case ul_parse (wx_uuid X) space_id of
       Inl _ \<Rightarrow> (bad_request (''space_id '' @ utf8_text [230, 160, 188, 229, 188, 143, 233, 148, 153, 232, 175, 175]), w)
     | Inr space \<Rightarrow>
        (case ul_parse (wx_uuid X) file_id of
           Inl _ \<Rightarrow> (bad_request (''file_id '' @ utf8_text [230, 160, 188, 229, 188, 143, 233, 148, 153, 232, 175, 175]), w)
         | Inr i \<Rightarrow>
            (case on_db (db_get_file space_id file_id) (wb_mgr w) of (r, m) \<Rightarrow>
               (let w = put_mgr m w; file_name = (case r of Inr (Some row) \<Rightarrow> fi_file_name row | _ \<Rightarrow> file_id) in
                case get_or_start (fe_socket (wx_file X)) (se_global (wx_space X)) (wx_uuid X) space (fa_registry (wb_app w)) of
                  (Inl e, reg) \<Rightarrow> (reply 500 (TextBody e), put_registry reg w)
                | (Inr server, reg) \<Rightarrow>
                   (let w = put_registry reg w in
                    case read_file (wx_uuid X) server i (fa_fs (wb_app w)) of
                      Inl e \<Rightarrow> (not_found e, w)
                    | Inr content \<Rightarrow>
                       (Done \<lparr>wa_status = 200,
                          wa_headers = [(''content-type'', ''application/octet-stream''),
                            (''content-disposition'', ''attachment; filename='' @ [CHR 34] @ safe_name (wx_alnum X) file_name @ [CHR 34])],
                          wa_body = BytesBody content\<rparr>, w))))))"

definition bool_or_false :: "jvalue \<Rightarrow> string \<Rightarrow> bool" where
  "bool_or_false body key = (get_bool body key = Some True)"

definition row_of_body :: "jvalue \<Rightarrow> file_row" where
  "row_of_body body =
    \<lparr>fi_id = str_or_empty body ''id'', fi_space_id = str_or_empty body ''space_id'', fi_sender_id = str_or_empty body ''sender_id'',
     fi_file_name = str_or_empty body ''file_name'', fi_file_size = (case get_i64 body ''file_size'' of Some i \<Rightarrow> i | None \<Rightarrow> 0),
     fi_file_hash = get_str body ''file_hash'', fi_mime_type = get_str body ''mime_type'', fi_is_compressed = bool_or_false body ''is_compressed'',
     fi_is_password_protected = bool_or_false body ''is_password_protected'', fi_storage_path = get_str body ''storage_path'',
     fi_created_at = str_or_empty body ''created_at''\<rparr>"

definition record_received_file_handler where
  "record_received_file_handler body w =
    (let row = row_of_body body in
     if fi_id row = [] \<or> fi_space_id row = [] then (bad_request (utf8_text [231, 188, 186, 229, 176, 145] @ '' id/space_id''), w)
     else with_mgr (on_db (insert_file row)) (\<lambda>_ w. (no_content, w)) w)"

definition delete_file_handler where
  "delete_file_handler body w =
    (let space_id = str_or_empty body ''space_id''; file_id = str_or_empty body ''file_id'' in
     if space_id = [] \<or> file_id = [] then (bad_request (utf8_text [231, 188, 186, 229, 176, 145] @ '' space_id/file_id''), w)
     else with_mgr (on_db (delete_file space_id file_id)) (\<lambda>_ w. (no_content, w)) w)"

definition list_files_handler where
  "list_files_handler X space_id params w =
    with_mgr (list_space_files (wx_space X) space_id (map_option ucast (get_u64 params ''limit''))) (\<lambda>rows w. (ok_json (JFiles rows), w)) w"

definition get_transfer_progress_handler where
  "get_transfer_progress_handler w = (reply 501 (TextBody (''P2P '' @ utf8_text [228, 188, 160, 232, 190, 147, 232, 191, 155, 229, 186, 166, 230, 159, 165, 232, 175, 162, 239, 188, 140] @ ''Web '' @ utf8_text [230, 168, 161, 229, 188, 143, 230, 154, 130, 228, 184, 141, 230, 148, 175, 230, 140, 129])), w)"

section \<open>The configuration store\<close>

definition get_config_version_handler where
  "get_config_version_handler name w =
    (case get_meta (sv_store (wb_store w)) name of
       Some meta \<Rightarrow> (ok_json (JMeta meta), w)
     | None \<Rightarrow> (not_found (utf8_text [233, 133, 141, 231, 189, 174, 228, 184, 141, 229, 173, 152, 229, 156, 168]), w))"

definition download_config_handler where
  "download_config_handler name w =
    (case get_file (sv_store (wb_store w)) (sv_fs (wb_store w)) name of
       Inr (Some file) \<Rightarrow> (ok_json (JConfig file), w)
     | Inr None \<Rightarrow> (not_found (utf8_text [233, 133, 141, 231, 189, 174, 228, 184, 141, 229, 173, 152, 229, 156, 168]), w)
     | Inl e \<Rightarrow> (reply 500 (StoreBody e), w))"

definition upload_config_handler where
  "upload_config_handler body w =
    (let name = str_or_empty body ''name'' in
     if name = [] then (bad_request (utf8_text [231, 188, 186, 229, 176, 145] @ '' name''), w)
     else
       (let file = \<lparr>cf_name = name, cf_version = ucast (case get_u64 body ''version'' of Some v \<Rightarrow> v | None \<Rightarrow> 0),
                    cf_content = (case get_str body ''content'' of Some s \<Rightarrow> as_bytes s | None \<Rightarrow> []),
                    cf_timestamp = (case get_u64 body ''timestamp'' of Some t \<Rightarrow> t | None \<Rightarrow> 0), cf_checksum = None\<rparr>
        in (no_content, w\<lparr>wb_store := store_local file (wb_store w)\<rparr>)))"

text \<open>These two take a map of strings from the query.\<close>

definition param_or_empty :: "(string \<times> string) list \<Rightarrow> string \<Rightarrow> string" where
  "param_or_empty params key = (case map_of (rev params) key of Some v \<Rightarrow> v | None \<Rightarrow> [])"

definition get_remote_config_version_handler where
  "get_remote_config_version_handler X params w =
    (let ip = param_or_empty params ''ip''; name = param_or_empty params ''name'' in
     if ip = [] \<or> name = [] then (bad_request (utf8_text [231, 188, 186, 229, 176, 145] @ '' ip/name''), w)
     else case query_version (wx_messages X) (wx_transport X) (remote_store_new ip DEFAULT_PORT) name of
       Inr (Some meta) \<Rightarrow> (ok_json (JMeta meta), w)
     | Inr None \<Rightarrow> (not_found (utf8_text [232, 191, 156, 231, 171, 175, 233, 133, 141, 231, 189, 174, 228, 184, 141, 229, 173, 152, 229, 156, 168]), w)
     | Inl e \<Rightarrow> (reply 500 (ClientBody e), w))"

definition download_remote_config_handler where
  "download_remote_config_handler X params w =
    (let ip = param_or_empty params ''ip''; name = param_or_empty params ''name'' in
     if ip = [] \<or> name = [] then (bad_request (utf8_text [231, 188, 186, 229, 176, 145] @ '' ip/name''), w)
     else case request_file (wx_messages X) (wx_transport X) (remote_store_new ip DEFAULT_PORT) name of
       Inr (Some file) \<Rightarrow> (ok_json (JConfig file), w)
     | Inr None \<Rightarrow> (not_found (utf8_text [232, 191, 156, 231, 171, 175, 233, 133, 141, 231, 189, 174, 228, 184, 141, 229, 173, 152, 229, 156, 168]), w)
     | Inl e \<Rightarrow> (reply 500 (ClientBody e), w))"

section \<open>The embedded front end\<close>

definition mime_type :: "string \<Rightarrow> string" where
  "mime_type p =
    (case map_of
      [(''html'', ''text/html; charset=utf-8''), (''css'', ''text/css; charset=utf-8''), (''js'', ''application/javascript; charset=utf-8''),
       (''mjs'', ''application/javascript; charset=utf-8''), (''json'', ''application/json''), (''png'', ''image/png''), (''jpg'', ''image/jpeg''),
       (''jpeg'', ''image/jpeg''), (''gif'', ''image/gif''), (''svg'', ''image/svg+xml''), (''ico'', ''image/x-icon''), (''webp'', ''image/webp''),
       (''woff'', ''font/woff''), (''woff2'', ''font/woff2''), (''ttf'', ''font/ttf''), (''eot'', ''application/vnd.ms-fontobject''),
       (''wasm'', ''application/wasm''), (''txt'', ''text/plain; charset=utf-8''), (''xml'', ''application/xml'')] (last (split_str ''.'' p)) of
       Some t \<Rightarrow> t | None \<Rightarrow> ''application/octet-stream'')"

text \<open>\<open>dist\<close> is the directory compiled into the program.\<close>

definition serve_embedded :: "(string \<Rightarrow> bytes option) \<Rightarrow> string \<Rightarrow> ('t, 'f) web_answer" where
  "serve_embedded dist uri =
    (let p = dropWhile (\<lambda>c. c = CHR ''/'') uri; p = (if p = [] then ''index.html'' else p) in
     case dist p of
       Some content \<Rightarrow> \<lparr>wa_status = 200, wa_headers = [(''content-type'', mime_type p)], wa_body = BytesBody content\<rparr>
     | None \<Rightarrow>
        (case dist ''index.html'' of
           Some content \<Rightarrow> \<lparr>wa_status = 200, wa_headers = [(''content-type'', ''text/html; charset=utf-8'')], wa_body = BytesBody content\<rparr>
         | None \<Rightarrow> \<lparr>wa_status = 404, wa_headers = [], wa_body = TextBody ''Not Found''\<rparr>))"

section \<open>Uploads and downloads\<close>

lemma reply_status [simp]: "reply s b = Done a \<longleftrightarrow> a = \<lparr>wa_status = s, wa_headers = [], wa_body = b\<rparr>"
  by (auto simp: reply_def)

lemmas answer_defs = ok_json_def no_content_def bad_request_def not_found_def forbidden_def

lemma failed_status: "failed e = Done a \<Longrightarrow> wa_status a = 500"
  by (cases e) (auto simp: failed_def)

lemma with_mgr_Done:
  assumes "with_mgr f k w = (Done a, w')" and "wa_status a \<noteq> 500"
  obtains x m where "f (wb_mgr w) = (Inr x, m)" and "k x (put_mgr m w) = (Done a, w')"
proof -
  obtain r m where f: "f (wb_mgr w) = (r, m)" by fastforce
  show thesis
  proof (cases r)
    case (Inl e)
    then have "failed e = Done a" using assms(1) f by (simp add: with_mgr_def)
    then show thesis using failed_status assms(2) by blast
  next
    case (Inr x)
    then show thesis using that [of x m] assms(1) f by (simp add: with_mgr_def)
  qed
qed

lemma web_frame [simp]:
  "wb_app (put_mgr m w) = (wb_app w)\<lparr>fa_spaces := m\<rparr>" "wb_app (put_fs fs w) = (wb_app w)\<lparr>fa_fs := fs\<rparr>"
  "wb_app (put_registry reg w) = (wb_app w)\<lparr>fa_registry := reg\<rparr>" "wb_app (put_app a w) = a" "wb_app (put_net n w) = (wb_app w)\<lparr>fa_net := n\<rparr>"
  "wb_app (announce X kind sid payload w) = wb_app w"
  by (simp_all add: put_mgr_def put_fs_def put_registry_def put_app_def put_net_def announce_def)

lemma discard_app [simp]: "wb_app (discard p w) = (wb_app w)\<lparr>fa_fs := fs_remove p (fa_fs (wb_app w))\<rparr>"
  by (simp add: discard_def)

lemma record_upload_Done:
  assumes "record_upload X info w = (Done a, w')" and "wa_status a = 200"
  shows "wa_body a = JsonBody (JFile info) \<and> (\<exists>m. on_db (insert_file (file_row_of (wx_space X) info)) (wb_mgr w) = (Inr (), m) \<and> w' = put_mgr m w)"
proof -
  obtain x m where "on_db (insert_file (file_row_of (wx_space X) info)) (wb_mgr w) = (Inr x, m)"
      "(ok_json (JFile info), put_mgr m w) = (Done a, w')"
    by (rule with_mgr_Done [OF assms(1) [unfolded record_upload_def]]) (use assms(2) in simp)
  then show ?thesis by (auto simp: ok_json_def)
qed

lemma send_to_peers_id:
  "send_to_peers F k b p pw peers (Some i) li a = (Inr (Some info), a') \<Longrightarrow>
   (\<And>j. li = Some j \<Longrightarrow> fx_id j = i \<and> file_name_of p = Some (fx_file_name j)) \<Longrightarrow> fx_id info = i \<and> file_name_of p = Some (fx_file_name info)"
proof (induction peers arbitrary: k li a)
  case (Cons q peers)
  obtain ip port where q: "q = (ip, port)" by fastforce
  obtain x t n where s: "send_file (fe_send F k) (fa_fs a) b b p pw ip port (Some i) (fa_transfers a) (fa_net a) = (x, t, n)"
    using prod_cases3 by blast
  then obtain j where x: "x = Inr j" using Cons.prems(1) q by (cases x) auto
  have j: "fx_id j = i \<and> file_name_of p = Some (fx_file_name j)" using s x
    by (auto simp: send_file_def Let_def dest!: upload_info split: option.splits sum.splits prod.splits)
  with Cons.IH [of "Suc k" "Some j" "a\<lparr>fa_transfers := t, fa_net := n\<rparr>"] Cons.prems(1) q s x show ?case by simp
qed auto

text \<open>What an upload that succeeded has done: the content is stored under the new identifier and the file is recorded.\<close>

lemma upload_done:
  assumes "send_file_handler X params body w = (Done a, w')" and "wa_status a = 200"
  obtains space peers m fs1 server reg fs2 info wr where
    "ul_parse (wx_uuid X) (str_or_empty params ''space_id'') = Inr space"
    "get_peers_for_file_transfer (wx_space X) space (wb_mgr w) = (Inr peers, m)"
    "fs_write (tmp_path X w) body (fa_fs (wb_app w)) = (Inr (), fs1)"
    "get_or_start (fe_socket (wx_file X)) (se_global (wx_space X)) (wx_uuid X) space (fa_registry (wb_app w)) = (Inr server, reg)"
    "stored_write (wx_uuid X) server (fe_id (wx_file X)) body fs1 = (Inr (), fs2)"
    "fx_id info = fe_id (wx_file X)" "fx_space_id info = space"
    "peers = [] \<Longrightarrow> fx_file_name info = str_or_empty params ''file_name''" "peers \<noteq> [] \<Longrightarrow> file_name_of (tmp_path X w) = Some (fx_file_name info)"
    "fa_spaces (wb_app wr) = m" "fa_registry (wb_app wr) = reg" "fa_fs (wb_app wr) = fs_remove (tmp_path X w) fs2"
    "record_upload X info wr = (Done a, w')"
proof -
  obtain space where sp: "ul_parse (wx_uuid X) (str_or_empty params ''space_id'') = Inr space"
    using assms by (auto simp: send_file_handler_def answer_defs Let_def split: if_splits sum.splits)
  let ?F = "wx_file X" and ?name = "str_or_empty params ''file_name''" and ?pw = "get_str params ''password''"
  have "with_mgr (get_peers_for_file_transfer (wx_space X) space) (relay_upload X space ?name ?pw body) w = (Done a, w')"
    using assms sp by (auto simp: send_file_handler_def answer_defs Let_def split: if_splits)
  then obtain peers m where g: "get_peers_for_file_transfer (wx_space X) space (wb_mgr w) = (Inr peers, m)"
      and k: "relay_upload X space ?name ?pw body peers (put_mgr m w) = (Done a, w')"
    using assms(2) by (auto elim: with_mgr_Done)
  have t: "tmp_path X (put_mgr m w) = tmp_path X w" by (simp add: tmp_path_def)
  note k' = k [unfolded relay_upload_def Let_def t web_frame, simplified]
  obtain fs1 where f1: "fs_write (tmp_path X w) body (fa_fs (wb_app w)) = (Inr (), fs1)"
    using k' assms(2) by (auto split: sum.splits prod.splits)
  obtain server reg where r: "get_or_start (fe_socket ?F) (se_global (wx_space X)) (wx_uuid X) space (fa_registry (wb_app w)) = (Inr server, reg)"
    using k' assms(2) f1 by (auto split: sum.splits prod.splits)
  obtain fs2 where f2: "stored_write (wx_uuid X) server (fe_id ?F) body fs1 = (Inr (), fs2)"
    using k' assms(2) f1 r by (auto split: sum.splits prod.splits)
  let ?w = "put_fs fs2 (put_registry reg (put_fs fs1 (put_mgr m w)))"
  show thesis
  proof (cases "peers = []")
    case True
    then have "record_upload X (offline_info ?F space ?name (length body) (Some (sha256_hex (fe_prims ?F) body)) ?pw)
        (discard (tmp_path X w) ?w) = (Done a, w')" using k f1 r f2 by (simp add: relay_upload_def t Let_def)
    from that [OF sp g f1 r f2 _ _ _ _ _ _ _ this] True show thesis by (simp add: offline_info_def)
  next
    case False
    then obtain info b where s: "send_to_peers ?F 0 space (tmp_path X w) ?pw peers (Some (fe_id ?F)) None (wb_app ?w) = (Inr (Some info), b)"
      and u: "record_upload X info (discard (tmp_path X w) (put_app b ?w)) = (Done a, w')"
      using k f1 r f2 assms(2) by (auto simp: relay_upload_def t Let_def split: sum.splits prod.splits option.splits)
    from that [OF sp g f1 r f2 _ _ _ _ _ _ _ u] send_to_peers_id [OF s] send_to_peers_space [OF s] send_to_peers_frame [OF s] False show thesis by simp
  qed
qed

lemma remove_other: "q \<noteq> p \<Longrightarrow> fs_read (fs_remove p fs) q = fs_read fs q"
  by (simp add: fs_remove_def fs_read_def split: option.splits)

lemma tmp_not_bin: "uuid_ok U \<Longrightarrow> path_join d (ul_string U i @ ''.tmp'') \<noteq> bin_path U d' j"
proof -
  assume U: "uuid_ok U"
  have n: "plain_name (ul_string U i @ e)" if "e = ''.tmp'' \<or> e = ''.bin''" for i e
    using uuid_string_chars [OF U, of "CHR ''/''" i] that by (auto simp: plain_name_def)
  have "ul_string U i @ e \<notin> {[], ''.'', ''..''}" if "e = ''.tmp'' \<or> e = ''.bin''" for i e
    using that by (auto simp: append_eq_Cons_conv)
  with n have "path_join d (ul_string U i @ ''.tmp'') = d @ [ul_string U i @ ''.tmp'']" "bin_path U d' j = d' @ [ul_string U j @ ''.bin'']"
    by (simp_all add: path_join_plain bin_path_def)
  then show ?thesis by simp
qed

lemma find_inserted:
  "insert_file row db = (Inr (), db') \<Longrightarrow> db_faults db = [] \<Longrightarrow>
   List.find (\<lambda>r. fi_space_id r = fi_space_id row \<and> fi_id r = fi_id row) (db_files db') = Some row"
  by (auto simp: insert_file_def insert_row_def stmt_def sql_insert_def split: if_splits option.splits intro!: find_snoc) (metis imageI)

lemma get_or_start_again:
  assumes "hm_ok (fr_servers reg)" and "get_or_start S global U b reg = (Inr server, reg')"
  shows "get_or_start S' global U b reg' = (Inr server, reg')"
  using assms by (auto simp: get_or_start_def hm.get_put split: option.splits sum.splits prod.splits)

text \<open>
  C16: What the browser uploads it gets back. After an upload that was answered with success, whether members were online or
  not, a download with the identifiers of the answer returns exactly the uploaded bytes, offers them under the recorded name
  with its special characters replaced, and changes nothing.
\<close>

theorem web_upload_download:
  fixes X :: "('w, 't, 'v, 'f, 'n) web_env" and a :: "('t, 'f) web_answer"
  assumes "uuid_ok (wx_uuid X)" and "fs_healthy (fa_fs (wb_app w))" and "db_faults (wb_db w) = []"
    and "hm_ok (fr_servers (fa_registry (wb_app w)))" and "send_file_handler X params body w = (Done a, w')" and "wa_status a = 200"
  shows "\<exists>info. wa_body a = JsonBody (JFile info) \<and>
    receive_file_handler X (ul_string (wx_uuid X) (fx_space_id info)) (ul_string (wx_uuid X) (fx_id info)) w' =
      (Done (\<lparr>wa_status = 200,
         wa_headers = [(''content-type'', ''application/octet-stream''),
           (''content-disposition'', ''attachment; filename='' @ [CHR 34] @ safe_name (wx_alnum X) (fx_file_name info) @ [CHR 34])],
         wa_body = BytesBody body\<rparr> :: ('t, 'f) web_answer), w')"
proof -
  let ?U = "wx_uuid X"
  obtain space peers m fs1 server reg fs2 info wr where u:
    "get_peers_for_file_transfer (wx_space X) space (wb_mgr w) = (Inr peers, m)"
    "fs_write (tmp_path X w) body (fa_fs (wb_app w)) = (Inr (), fs1)"
    "get_or_start (fe_socket (wx_file X)) (se_global (wx_space X)) ?U space (fa_registry (wb_app w)) = (Inr server, reg)"
    "stored_write ?U server (fe_id (wx_file X)) body fs1 = (Inr (), fs2)"
    "fx_id info = fe_id (wx_file X)" "fx_space_id info = space"
    "fa_spaces (wb_app wr) = m" "fa_registry (wb_app wr) = reg" "fa_fs (wb_app wr) = fs_remove (tmp_path X w) fs2"
    "record_upload X info wr = (Done a, w')"
    by (rule upload_done [OF assms(5,6)])
  from record_upload_Done [OF u(10) assms(6)] obtain m' where
    b: "wa_body a = JsonBody (JFile info)" and i: "on_db (insert_file (file_row_of (wx_space X) info)) m = (Inr (), m')" and w': "w' = put_mgr m' wr"
    using u(7) by auto
  have m: "db_faults (sm_db m) = []" using get_peers_db [of "wx_space X" space "wb_mgr w"] u(1) assms(3) by simp
  have "insert_file (file_row_of (wx_space X) info) (sm_db m) = (Inr (), sm_db m')"
    using i by (cases "insert_file (file_row_of (wx_space X) info) (sm_db m)") (auto simp: on_db_def map_sum_def split: sum.splits)
  from find_inserted [OF this m] on_db_insert_file [OF m i] have
    "on_db (db_get_file (ul_string ?U space) (ul_string ?U (fx_id info))) m' = (Inr (Some (file_row_of (wx_space X) info)), m')"
    using m u(6) by (simp add: on_db_def db_get_file_def query_rows_no_fault file_row_of_def)
  moreover have "read_file ?U server (fx_id info) (fs_remove (tmp_path X w) fs2) = Inr body"
  proof -
    have "fs_healthy fs1" using assms(2) u(2) by (auto simp: fs_write_healthy fs_healthy_def)
    then have "fs_read fs2 (bin_path ?U (fv_storage_dir server) (fx_id info)) = Inr body"
      using u(4,5) by (auto simp: stored_write_def fs_write_healthy fs_read_def fs_healthy_def)
    then have "fs_read (fs_remove (tmp_path X w) fs2) (bin_path ?U (fv_storage_dir server) (fx_id info)) = Inr body"
      using tmp_not_bin [OF assms(1), symmetric] by (simp add: remove_other tmp_path_def)
    then show ?thesis by (simp add: read_file_def)
  qed
  moreover have "put_mgr m' w' = w'" "put_registry reg w' = w'" using u(8) by (simp_all add: w' put_mgr_def put_registry_def)
  ultimately have "receive_file_handler X (ul_string ?U space) (ul_string ?U (fx_id info)) w' =
      (Done (\<lparr>wa_status = 200,
         wa_headers = [(''content-type'', ''application/octet-stream''),
           (''content-disposition'', ''attachment; filename='' @ [CHR 34] @ safe_name (wx_alnum X) (fx_file_name info) @ [CHR 34])],
         wa_body = BytesBody body\<rparr> :: ('t, 'f) web_answer), w')"
    using assms(1) get_or_start_again [OF assms(4) u(3)] u(8,9) w' by (simp add: receive_file_handler_def Let_def file_row_of_def)
  with b u(6) show ?thesis by auto
qed

definition ascii_alnum :: "char set" where
  "ascii_alnum = set (''abcdefghijklmnopqrstuvwxyzABCDEFGHIJKLMNOPQRSTUVWXYZ0123456789'')"

lemma safe_name_chars:
  assumes "\<And>c s. alnum (c # s) \<Longrightarrow> (of_char c :: nat) < 128 \<Longrightarrow> s = [] \<and> c \<in> ascii_alnum"
  shows "c \<in> set (safe_name alnum n) \<Longrightarrow> c \<in> ascii_alnum \<or> c \<in> set ''.-_'' \<or> 128 \<le> (of_char c :: nat)"
proof (induction n rule: utf8_chars.induct)
  case (2 x s)
  have "c \<in> set (takeWhile continues s) \<Longrightarrow> 128 \<le> (of_char c :: nat)" by (auto dest: set_takeWhileD simp: continues_def)
  moreover have "c = x \<Longrightarrow> alnum (x # takeWhile continues s) \<Longrightarrow> c \<in> ascii_alnum \<or> 128 \<le> (of_char c :: nat)"
    using assms [of x "takeWhile continues s"] not_less by blast
  ultimately show ?case using 2 by (auto simp: safe_name_def split: if_splits)
qed (simp add: safe_name_def)

text \<open>
  C32: No file name breaks out of the header. Whatever name was recorded, the disposition of a download is one quoted name
  of letters, digits, dots, hyphens, underscores and bytes of characters outside ASCII: no quote, backslash, line break or
  separator of parameters.
\<close>

theorem download_name_quoted:
  fixes X :: "('w, 't, 'v, 'f, 'n) web_env" and a :: "('t, 'f) web_answer"
  assumes "\<And>c s. wx_alnum X (c # s) \<Longrightarrow> (of_char c :: nat) < 128 \<Longrightarrow> s = [] \<and> c \<in> ascii_alnum"
    and "receive_file_handler X space_id file_id w = (Done a, w')" and "wa_status a = 200"
  shows "\<exists>n. map_of (wa_headers a) ''content-disposition'' = Some (''attachment; filename='' @ [CHR 34] @ n @ [CHR 34]) \<and>
    (\<forall>c \<in> set n. c \<in> ascii_alnum \<or> c \<in> set ''.-_'' \<or> 128 \<le> (of_char c :: nat))"
proof -
  obtain name where "map_of (wa_headers a) ''content-disposition'' = Some (''attachment; filename='' @ [CHR 34] @ safe_name (wx_alnum X) name @ [CHR 34])"
    using assms(2,3) by (auto simp: receive_file_handler_def answer_defs Let_def split: sum.splits prod.splits)
  then show ?thesis using safe_name_chars [of "wx_alnum X", OF assms(1)] by blast
qed

text \<open>
  Deleting a file over the web removes its row only: a download that worked before still returns the same content.
\<close>

theorem web_delete_keeps_content:
  assumes "receive_file_handler X space_id file_id w = (Done a, w1)" and "wa_status a = 200" and "delete_file_handler body w = (r, wd)"
  shows "\<exists>a' w2. receive_file_handler X space_id file_id wd = (Done a', w2) \<and> wa_status a' = 200 \<and> wa_body a' = wa_body a"
proof -
  have d: "fa_registry (wb_app wd) = fa_registry (wb_app w)" "fa_fs (wb_app wd) = fa_fs (wb_app w)"
    using assms(3) by (auto simp: delete_file_handler_def with_mgr_def Let_def split: sum.splits prod.splits if_splits)
  obtain b i server reg content where p: "ul_parse (wx_uuid X) space_id = Inr b" "ul_parse (wx_uuid X) file_id = Inr i"
    "get_or_start (fe_socket (wx_file X)) (se_global (wx_space X)) (wx_uuid X) b (fa_registry (wb_app w)) = (Inr server, reg)"
    "read_file (wx_uuid X) server i (fa_fs (wb_app w)) = Inr content" "wa_body a = BytesBody content"
    using assms(1,2) by (auto simp: receive_file_handler_def answer_defs Let_def split: sum.splits prod.splits)
  obtain r m where "on_db (db_get_file space_id file_id) (wb_mgr wd) = (r, m)" by fastforce
  then show ?thesis using d p by (simp add: receive_file_handler_def Let_def)
qed

text \<open>
  An upload while members are online is recorded under the name of the temporary file, not under the name it was given.
\<close>

theorem web_upload_renamed:
  assumes "uuid_ok (wx_uuid X)" and "send_file_handler X params body w = (Done a, w')" and "wa_status a = 200"
    and "ul_parse (wx_uuid X) (str_or_empty params ''space_id'') = Inr b"
    and "get_peers_for_file_transfer (wx_space X) b (wb_mgr w) = (Inr (p # ps), m)"
  shows "\<exists>info. wa_body a = JsonBody (JFile info) \<and> fx_file_name info = ul_string (wx_uuid X) (fx_id info) @ ''.tmp''"
proof -
  obtain peers info wr where u: "fx_id info = fe_id (wx_file X)" "file_name_of (tmp_path X w) = Some (fx_file_name info)" "record_upload X info wr = (Done a, w')"
    by (rule upload_done [OF assms(2,3)]) (use assms(4,5) in auto)
  have "plain_name (ul_string (wx_uuid X) i @ ''.tmp'')" for i
    using uuid_string_chars [OF assms(1), of "CHR ''/''" i] by (auto simp: plain_name_def)
  then have "tmp_path X w = fr_storage_dir (fa_registry (wb_app w)) @ [ul_string (wx_uuid X) (fe_id (wx_file X)) @ ''.tmp'']"
    by (simp add: tmp_path_def path_join_plain append_eq_Cons_conv)
  moreover have "is_ascii (ul_string (wx_uuid X) i @ ''.tmp'')" for i
    using uuid_string_visible [OF assms(1), of i] by (auto simp: is_ascii_def list_all_iff visible_def)
  ultimately have "fx_file_name info = ul_string (wx_uuid X) (fe_id (wx_file X)) @ ''.tmp''"
    using u(2) from_utf8_lossy_valid [OF is_ascii_utf8] by (auto simp: file_name_of_def simp del: as_bytes_append)
  then show ?thesis using u(1) record_upload_Done [OF u(3) assms(3)] by auto
qed

text \<open>
  A query string gives only strings, so the numbers that the handlers look for in it are never there: the limit of the
  history and the position from which logs are wanted have no effect.
\<close>

lemma query_no_numbers:
  assumes "\<And>k v. jget q k = Some v \<Longrightarrow> \<exists>s. v = JStr s"
  shows "get_u64 q k = None"
proof (cases "jget q k")
  case (Some v)
  then obtain s where "v = JStr s" using assms by blast
  then show ?thesis using Some by (simp add: get_u64_def as_u64_def)
qed (simp add: get_u64_def)

theorem query_numbers_ignored:
  assumes "\<And>q k v. jget (wx_query X q) k = Some v \<Longrightarrow> \<exists>s. v = JStr s"
  shows "get_message_history_handler X space_id (wx_query X q) w = get_message_history_handler X space_id (wx_query X []) w"
    and "list_files_handler X space_id (wx_query X q) w = list_files_handler X space_id (wx_query X []) w"
    and "query_logs_handler X (wx_query X q) w =
      (case log_query (wx_lower X) ((filter_of_params X (wx_query X q))\<lparr>lf_before_ts := get_str (wx_query X q) ''before_ts'',
          lf_after_ts := get_str (wx_query X q) ''after_ts''\<rparr>) (wb_log w) of
         (records, st) \<Rightarrow> (ok_json (JRecords records), w\<lparr>wb_log := st\<rparr>))"
  using query_no_numbers [OF assms]
  by (simp_all add: get_message_history_handler_def list_files_handler_def query_logs_handler_def filter_of_params_def log_filter_default_def)

section \<open>A concrete server\<close>

definition web_toy :: "(unit, nat, string, nat, fs) web_env" where
  "web_toy =
    \<lparr>wx_file = file_env_toy\<lparr>fe_socket := \<lparr>so_socket = None, so_bind = \<lambda>_. None, so_listen = \<lambda>_. None\<rparr>\<rparr>,
     wx_apps = apps_env_toy\<lparr>ae_space := app_env_toy\<rparr>,
     wx_chat = \<lparr>mv_space = app_env_toy, mv_json = nats_json fl_chat rd_chat, mv_post = \<lambda>url b net. (Inr (), net), mv_order = \<lambda>p. p, mv_rows = \<lambda>t. t,
       mv_id = 7, mv_host = ''h''\<rparr>,
     wx_clock = 0, wx_query = \<lambda>q. JObj (map (\<lambda>(k, v). (k, JStr v)) q), wx_space_value = \<lambda>_. JNull, wx_new_space = 1, wx_machine = None,
     wx_floats = f64_toy, wx_collect = \<lambda>_. Inl ''down'', wx_set_order = \<lambda>xs. xs, wx_lower = map ascii_lower,
     wx_alnum = \<lambda>s. list_all (\<lambda>c. c \<in> ascii_alnum) s \<and> length s = 1, wx_config_order = \<lambda>m. m, wx_pretty = \<lambda>_. Inr [], wx_stamp = ''t'',
     wx_system = \<lparr>js_ser = \<lambda>_. Inl ''e'', js_de = \<lambda>_. Inl ''e''\<rparr>, wx_data_dir = [''data''], wx_messages = message_json,
     wx_transport = \<lparr>tr_connect = \<lambda>_. ConnectTimeout, tr_send = \<lambda>_. None, tr_recv = \<lambda>_. Inl ''e''\<rparr>, wx_show_path = concat\<rparr>"

definition web_state_toy :: "(unit, nat, fs) web_state" where
  "web_state_toy =
    \<lparr>wb_app = file_app_toy (mgr_toy\<lparr>sm_db := db_empty False []\<rparr>), wb_bus = event_bus_new 10, wb_log = log_toy,
     wb_config = \<lparr>ac_path = [''c''], ac_inner = [], ac_last_modified = None, ac_template = None, ac_template_map = [], ac_template_path = None\<rparr>,
     wb_store = service_new metas_json [''r''] fs_empty, wb_proxy = \<lparr>fs_keys = [], fs_active = None\<rparr>, wb_globals = proxy_globals_init,
     wb_proxy_port = 80, wb_proxy_running = True\<rparr>"

definition upload_toy :: jvalue where
  "upload_toy = JObj [(''space_id'', JStr (ul_string uuid_toy 1)), (''file_name'', JStr ''a b'')]"

lemma web_toy_fields: "wx_space web_toy = app_env_toy" "se_uuid app_env_toy = uuid_toy" "fe_id (wx_file web_toy) = 7"
  "fe_socket (wx_file web_toy) = \<lparr>so_socket = None, so_bind = \<lambda>_. None, so_listen = \<lambda>_. None\<rparr>"
  by (simp_all add: web_toy_def file_env_toy_def app_env_toy_fields)

lemma toy_upload: "\<exists>(a :: (nat, nat) web_answer) w'. send_file_handler web_toy upload_toy [1, 2] web_state_toy = (Done a, w') \<and> wa_status a = 200"
proof -
  have p: "get_peers_for_file_transfer app_env_toy 1 m = (Inr [], m)" for m
    by (simp add: get_peers_for_file_transfer_def get_peers_def ipc_data_def ipc_def mgr_bind_def app_env_toy_fields map_filter_def)
  have n: "str_or_empty upload_toy ''space_id'' = ul_string uuid_toy 1" "str_or_empty upload_toy ''file_name'' = ''a b''" "ul_string uuid_toy 1 \<noteq> []"
    using uuid_toy_ok by (simp_all add: upload_toy_def str_or_empty_def json_get_defs uuid_ok_def)
  let ?w = "put_mgr (wb_mgr web_state_toy) web_state_toy"
  have up: "(send_file_handler web_toy upload_toy [1, 2] web_state_toy :: (nat, nat, _) handled_request) = relay_upload web_toy 1 ''a b'' (get_str upload_toy ''password'') [1, 2] [] ?w"
    using n uuid_parse_string [OF uuid_toy_ok, of 1] by (simp add: send_file_handler_def web_toy_fields with_mgr_def p)
  have s: "fs_wfault (fa_fs (wb_app web_state_toy)) = (\<lambda>_. None)" "fa_registry (wb_app web_state_toy) = registry_new [''files'']"
      "sm_db (wb_mgr web_state_toy) = db_empty False []"
    by (simp_all add: web_state_toy_def file_app_toy_def source_toy_def fs_empty_def)
  have f: "\<exists>fs'. fs_write p b fs = (Inr (), fs') \<and> fs_wfault fs' = (\<lambda>_. None)" if "fs_wfault fs = (\<lambda>_. None)" for p b fs
    using that by (simp add: fs_write_def)
  obtain server reg where r: "get_or_start (fe_socket (wx_file web_toy)) (se_global app_env_toy) uuid_toy 1 (registry_new [''files'']) = (Inr server, reg)"
    by (simp add: get_or_start_def registry_new_def hm_get_def file_server_start_def web_toy_fields Let_def)
  have recorded: "\<exists>a :: (nat, nat) web_answer. (\<exists>w'. record_upload web_toy info x = (Done a, w')) \<and> wa_status a = 200" if "sm_db (wb_mgr x) = db_empty False []" for info x
    using that by (simp add: record_upload_def with_mgr_def on_db_def insert_file_def insert_row_def stmt_def db_empty_def sql_insert_def fk_ok_def ok_json_def)
  obtain fs1 where f1: "fs_write (tmp_path web_toy ?w) [1, 2] (fa_fs (wb_app web_state_toy)) = (Inr (), fs1)" "fs_wfault fs1 = (\<lambda>_. None)" using f [OF s(1)] by blast
  obtain fs2 where f2: "fs_write (bin_path uuid_toy (fv_storage_dir server) 7) [1, 2] fs1 = (Inr (), fs2)" using f [OF f1(2)] by blast
  show ?thesis unfolding up relay_upload_def Let_def web_frame
    by (simp add: s r f1 f2 stored_write_def web_toy_fields(1,2,3)) (rule recorded, simp add: s)
qed

lemma toy_ready: "fs_healthy (fa_fs (wb_app web_state_toy))" "db_faults (wb_db web_state_toy) = []" "hm_ok (fr_servers (fa_registry (wb_app web_state_toy)))"
  by (simp_all add: web_state_toy_def file_app_toy_def source_toy_def fs_healthy_def fs_empty_def db_empty_def registry_new_def hm_ok_def)

theorem web_upload_download_witness:
  "\<exists>(a :: (nat, nat) web_answer) w' info (ans :: (nat, nat) web_answer). send_file_handler web_toy upload_toy [1, 2] web_state_toy = (Done a, w') \<and> wa_body a = JsonBody (JFile info) \<and>
     receive_file_handler web_toy (ul_string uuid_toy (fx_space_id info)) (ul_string uuid_toy (fx_id info)) w' = (Done ans, w') \<and>
     wa_body ans = BytesBody [1, 2]"
proof -
  obtain a :: "(nat, nat) web_answer" and w' where u: "send_file_handler web_toy upload_toy [1, 2] web_state_toy = (Done a, w')" "wa_status a = 200" using toy_upload by blast
  from web_upload_download [OF _ toy_ready u, unfolded web_toy_fields, OF uuid_toy_ok] u(1) show ?thesis by fastforce
qed

lemma toy_download:
  "\<exists>(a :: (nat, nat) web_answer) w. receive_file_handler web_toy (ul_string uuid_toy 1) (ul_string uuid_toy 7)
     (put_fs (fs_empty\<lparr>fs_data := \<lambda>_. Some [5]\<rparr>) web_state_toy) = (Done a, w) \<and> wa_status a = 200"
proof -
  let ?w = "put_fs (fs_empty\<lparr>fs_data := \<lambda>_. Some [5]\<rparr>) web_state_toy"
  obtain server reg where r: "get_or_start (fe_socket (wx_file web_toy)) (se_global app_env_toy) uuid_toy 1 (registry_new [''files'']) = (Inr server, reg)"
    by (simp add: get_or_start_def registry_new_def hm_get_def file_server_start_def web_toy_fields Let_def)
  have s: "fa_registry (wb_app ?w) = registry_new [''files'']" by (simp add: web_state_toy_def file_app_toy_def)
  obtain q m where d: "on_db (db_get_file (ul_string uuid_toy 1) (ul_string uuid_toy 7)) (wb_mgr ?w) = (q, m)" by fastforce
  show ?thesis unfolding receive_file_handler_def web_toy_fields uuid_parse_string [OF uuid_toy_ok] sum.case d prod.case Let_def
    using s r by (simp add: web_toy_fields(3,4)) (simp add: read_file_def fs_read_def fs_empty_def)
qed

theorem download_name_quoted_witness:
  "\<exists>(a :: (nat, nat) web_answer) w' n. receive_file_handler web_toy (ul_string uuid_toy 1) (ul_string uuid_toy 7)
     (put_fs (fs_empty\<lparr>fs_data := \<lambda>_. Some [5]\<rparr>) web_state_toy) = (Done a, w') \<and>
     map_of (wa_headers a) ''content-disposition'' = Some (''attachment; filename='' @ [CHR 34] @ n @ [CHR 34]) \<and> CHR 34 \<notin> set n"
proof -
  obtain a :: "(nat, nat) web_answer" and w' where u: "receive_file_handler web_toy (ul_string uuid_toy 1) (ul_string uuid_toy 7)
     (put_fs (fs_empty\<lparr>fs_data := \<lambda>_. Some [5]\<rparr>) web_state_toy) = (Done a, w')" "wa_status a = 200" using toy_download by blast
  have al: "wx_alnum web_toy (c # s) \<Longrightarrow> (of_char c :: nat) < 128 \<Longrightarrow> s = [] \<and> c \<in> ascii_alnum" for c s by (simp add: web_toy_def)
  have "CHR 34 \<notin> ascii_alnum" "CHR 34 \<notin> set ''.-_''" "\<not> 128 \<le> (of_char (CHR 34) :: nat)" by (simp_all add: ascii_alnum_def)
  with download_name_quoted [OF al u] u(1) show ?thesis by blast
qed

end
