(* ===== verification/Web_Server.thy ===== *)
theory Web_Server
  imports Web_Data Web_Auth
begin

text \<open>
  The router of the web server, \<open>cmd_router\<close> of \<open>src-tauri/src/server/routes.rs\<close>, and how a request reaches a handler: the layer of
  authentication and the nesting of the router in \<open>server/mod.rs\<close>. The handlers that download EasyTier or the application, report versions or open web
  sockets are the parameter \<open>ext\<close>, by name; the other layers (compression, CORS, tracing) do not touch the state.
\<close>

section \<open>Requests\<close>

text \<open>\<open>rq_json\<close> is what the extractor \<open>Json\<close> makes of the body: a value, or the status and text of its rejection.\<close>

record web_request =
  rq_method :: string
  rq_path :: string
  rq_query :: "(string \<times> string) list"
  rq_json :: "(nat \<times> string) + jvalue"
  rq_bytes :: bytes

type_synonym ('t, 'f, 's) web_handler = "string list \<Rightarrow> web_request \<Rightarrow> 's \<Rightarrow> ('t, 'f, 's) handled_request"

definition json_body :: "(jvalue \<Rightarrow> 's \<Rightarrow> ('t, 'f, 's) handled_request) \<Rightarrow> web_request \<Rightarrow> 's \<Rightarrow> ('t, 'f, 's) handled_request" where
  "json_body k rq w = (case rq_json rq of Inl (status, text) \<Rightarrow> (reply status (TextBody text), w) | Inr body \<Rightarrow> k body w)"

definition nth0 :: "string list \<Rightarrow> string" where "nth0 ps = (case ps of p # _ \<Rightarrow> p | [] \<Rightarrow> [])"
definition nth1 :: "string list \<Rightarrow> string" where "nth1 ps = nth0 (drop 1 ps)"

section \<open>The routes\<close>

definition cmd_router ::
  "(string \<Rightarrow> ('t, 'f, ('w, 't, 'n) web_state) web_handler) \<Rightarrow> ('w, 't, 'v, 'f, 'n) web_env \<Rightarrow>
   (string \<times> (string \<times> ('t, 'f, ('w, 't, 'n) web_state) web_handler) list) list" where
  "cmd_router ext X =
    [(''/ping'', [(''GET'', \<lambda>ps rq w. (reply 200 (TextBody ''pong''), w))]),
     (''/space/create'', [(''POST'', \<lambda>ps rq. json_body (\<lambda>body. create_space_handler X body) rq)]),
     (''/space/join'', [(''POST'', \<lambda>ps rq. json_body (\<lambda>body. join_space_handler X body) rq)]),
     (''/space/list'', [(''GET'', \<lambda>ps rq. list_spaces_handler X)]),
     (''/space/{space_id}'', [(''GET'', \<lambda>ps rq. get_space_handler X (nth0 ps)),
        (''DELETE'', \<lambda>ps rq. delete_space_handler X (nth0 ps))]),
     (''/space/{space_id}/leave'', [(''POST'', \<lambda>ps rq. leave_space_handler X (nth0 ps))]),
     (''/space/{space_id}/connect'', [(''POST'', \<lambda>ps rq. connect_space_handler X (nth0 ps))]),
     (''/space/{space_id}/disconnect'', [(''POST'', \<lambda>ps rq. disconnect_space_handler X (nth0 ps))]),
     (''/space/{space_id}/status'', [(''GET'', \<lambda>ps rq. space_status_handler X (nth0 ps))]),
     (''/space/{space_id}/members'', [(''GET'', \<lambda>ps rq. list_members_handler X (nth0 ps))]),
     (''/space/{space_id}/config'', [(''GET'', \<lambda>ps rq. get_space_config_handler X (nth0 ps)),
        (''POST'', \<lambda>ps rq. json_body (\<lambda>body. update_space_config_handler X (nth0 ps) body) rq)]),
     (''/space/{space_id}/config/patch'', [(''POST'', \<lambda>ps rq. json_body (\<lambda>patch. patch_space_config_handler X (nth0 ps) patch) rq)]),
     (''/space/{space_id}/share'', [(''POST'', \<lambda>ps rq. json_body (\<lambda>body. generate_share_link_handler X (nth0 ps) body) rq)]),
     (''/qr/parse'', [(''POST'', \<lambda>ps rq. json_body (\<lambda>body. parse_qr_handler X body) rq)]),
     (''/space/share/parse-data'', [(''POST'', \<lambda>ps rq. json_body (\<lambda>body. parse_share_data_handler X body) rq)]),
     (''/space/{space_id}/signal'', [(''POST'', \<lambda>ps rq. json_body (\<lambda>body. send_signal_handler X (nth0 ps) body) rq)]),
     (''/space/{space_id}/acl'', [(''GET'', \<lambda>ps rq. get_acl_rules_handler X (nth0 ps)),
        (''POST'', \<lambda>ps rq. json_body (\<lambda>body. create_acl_rule_handler X (nth0 ps) body) rq)]),
     (''/space/{space_id}/acl/update'', [(''POST'', \<lambda>ps rq. json_body (\<lambda>body. update_acl_rule_handler X (nth0 ps) body) rq)]),
     (''/space/{space_id}/acl/delete'', [(''POST'', \<lambda>ps rq. json_body (\<lambda>body. delete_acl_rule_handler body) rq)]),
     (''/space/{space_id}/port-forwards'', [(''GET'', \<lambda>ps rq. get_port_forward_rules_handler X (nth0 ps)),
        (''POST'', \<lambda>ps rq. json_body (\<lambda>body. create_port_forward_rule_handler X (nth0 ps) body) rq)]),
     (''/space/{space_id}/port-forwards/update'', [(''POST'', \<lambda>ps rq. json_body (\<lambda>body. update_port_forward_rule_handler X (nth0 ps) body) rq)]),
     (''/space/{space_id}/port-forwards/delete'', [(''POST'', \<lambda>ps rq. json_body (\<lambda>body. delete_port_forward_rule_handler body) rq)]),
     (''/space/{space_id}/apps'', [(''GET'', \<lambda>ps rq. list_apps_handler X (nth0 ps)),
        (''POST'', \<lambda>ps rq. json_body (\<lambda>body. add_app_handler X (nth0 ps) body) rq)]),
     (''/space/{space_id}/apps/share'', [(''POST'', \<lambda>ps rq. json_body (\<lambda>body. share_app_handler X body) rq)]),
     (''/space/{space_id}/apps/update'', [(''POST'', \<lambda>ps rq. json_body (\<lambda>body. update_app_handler X body) rq)]),
     (''/space/{space_id}/apps/delete'', [(''POST'', \<lambda>ps rq. json_body (\<lambda>body. delete_app_handler X body) rq)]),
     (''/system/apps'', [(''GET'', \<lambda>ps rq. get_system_apps_handler X)]),
     (''/chat/{space_id}/history'', [(''GET'', \<lambda>ps rq. get_message_history_handler X (nth0 ps) (wx_query X (rq_query rq)))]),
     (''/chat/{space_id}/send'', [(''POST'', \<lambda>ps rq. json_body (\<lambda>body. send_message_handler X (nth0 ps) body) rq)]),
     (''/network/{space_id}/stats'', [(''GET'', \<lambda>ps rq. get_network_stats_handler X (nth0 ps))]),
     (''/network/{space_id}/peers'', [(''GET'', \<lambda>ps rq. get_space_peers_handler X (nth0 ps))]),
     (''/network/{space_id}/mesh_routes'', [(''GET'', \<lambda>ps rq. get_mesh_routes_handler X (nth0 ps))]),
     (''/log/list'', [(''GET'', \<lambda>ps rq. get_logs_handler X (wx_query X (rq_query rq)))]),
     (''/log/space/{space_id}'', [(''GET'', \<lambda>ps rq. get_space_logs_handler X (nth0 ps) (wx_query X (rq_query rq)))]),
     (''/log/clear'', [(''POST'', \<lambda>ps rq. clear_logs_handler)]),
     (''/log/query'', [(''GET'', \<lambda>ps rq. query_logs_handler X (wx_query X (rq_query rq)))]),
     (''/log/modules'', [(''GET'', \<lambda>ps rq. get_log_modules_handler X)]),
     (''/log/clear-filtered'', [(''POST'', \<lambda>ps rq. clear_logs_filtered_handler X (wx_query X (rq_query rq)))]),
     (''/log/export'', [(''GET'', \<lambda>ps rq. export_logs_handler X (wx_query X (rq_query rq)))]),
     (''/config/system'', [(''GET'', \<lambda>ps rq. get_system_config_handler X),
        (''POST'', \<lambda>ps rq. json_body (\<lambda>body. set_system_config_handler body) rq)]),
     (''/config/app'', [(''GET'', \<lambda>ps rq. get_app_config_handler X),
        (''POST'', \<lambda>ps rq. json_body (\<lambda>body. set_app_config_handler X body) rq)]),
     (''/config/path'', [(''GET'', \<lambda>ps rq. get_config_path_handler X)]),
     (''/config/template-path'', [(''GET'', \<lambda>ps rq. get_config_template_path_handler X)]),
     (''/config-store/{name}/version'', [(''GET'', \<lambda>ps rq. get_config_version_handler (nth0 ps))]),
     (''/config-store/{name}/download'', [(''GET'', \<lambda>ps rq. download_config_handler (nth0 ps))]),
     (''/config-store/upload'', [(''POST'', \<lambda>ps rq. json_body (\<lambda>body. upload_config_handler body) rq)]),
     (''/config-store/remote/version'', [(''GET'', \<lambda>ps rq. get_remote_config_version_handler X (rq_query rq))]),
     (''/config-store/remote/download'', [(''GET'', \<lambda>ps rq. download_remote_config_handler X (rq_query rq))]),
     (''/system/version'', [(''GET'', ext ''get_app_version_handler'')]),
     (''/system/binary-check'', [(''GET'', ext ''check_easytier_binary_handler'')]),
     (''/system/check-update'', [(''GET'', ext ''check_app_update_handler'')]),
     (''/system/upgrade-app'', [(''POST'', ext ''upgrade_app_handler'')]),
     (''/proxy/url'', [(''GET'', \<lambda>ps rq. get_proxy_url_handler)]),
     (''/proxy/status'', [(''GET'', \<lambda>ps rq. get_proxy_status_handler)]),
     (''/proxy/register'', [(''POST'', \<lambda>ps rq. json_body (\<lambda>body. register_proxy_key_handler X body) rq)]),
     (''/proxy/source'', [(''POST'', \<lambda>ps rq. json_body (\<lambda>body. set_proxy_source_handler body) rq)]),
     (''/proxy/device'', [(''POST'', \<lambda>ps rq. json_body (\<lambda>body. set_device_mode_handler body) rq)]),
     (''/proxy/downloads'', [(''GET'', \<lambda>ps rq. get_pending_downloads_handler)]),
     (''/easytier/check-update'', [(''GET'', ext ''check_easytier_update_handler'')]),
     (''/easytier/upgrade'', [(''POST'', ext ''upgrade_easytier_handler'')]),
     (''/file/send'', [(''POST'', \<lambda>ps rq. send_file_handler X (wx_query X (rq_query rq)) (rq_bytes rq))]),
     (''/file/{space_id}/download/{file_id}'', [(''GET'', \<lambda>ps rq. receive_file_handler X (nth0 ps) (nth1 ps))]),
     (''/file/record'', [(''POST'', \<lambda>ps rq. json_body (\<lambda>body. record_received_file_handler body) rq)]),
     (''/file/delete'', [(''POST'', \<lambda>ps rq. json_body (\<lambda>body. delete_file_handler body) rq)]),
     (''/space/{space_id}/file/list'', [(''GET'', \<lambda>ps rq. list_files_handler X (nth0 ps) (wx_query X (rq_query rq)))]),
     (''/file/progress'', [(''GET'', \<lambda>ps rq. get_transfer_progress_handler)]),
     (''/ws/signal/{space_id}'', [(''GET'', ext ''ws_handler'')]),
     (''/ws/events'', [(''GET'', ext ''ws_events_handler'')])]"


text \<open>
  Matching as the router does it: a segment in braces takes any segment that is not empty, and of the patterns that match the one with the first literal
  segment wins.
\<close>

definition segments :: "string \<Rightarrow> string list" where
  "segments p = split_str ''/'' p"

definition is_param :: "string \<Rightarrow> bool" where
  "is_param seg = starts_with seg ''{''"

fun match_segs :: "string list \<Rightarrow> string list \<Rightarrow> string list option" where
  "match_segs [] [] = Some []"
| "match_segs (p # ps) (s # ss) =
    (if is_param p then (if s = [] then None else map_option ((#) s) (match_segs ps ss))
     else if p = s then match_segs ps ss else None)"
| "match_segs _ _ = None"

fun more_static :: "string list \<Rightarrow> string list \<Rightarrow> bool" where
  "more_static (p # ps) (q # qs) = (if is_param p = is_param q then more_static ps qs else is_param q)"
| "more_static _ _ = False"

definition matching :: "string \<Rightarrow> (string \<times> 'h) list \<Rightarrow> (string \<times> 'h) list" where
  "matching p table = filter (\<lambda>(pat, _). match_segs (segments pat) (segments p) \<noteq> None) table"

definition best_route :: "(string \<times> 'h) list \<Rightarrow> (string \<times> 'h) option" where
  "best_route rs = (case rs of [] \<Rightarrow> None | r # rs \<Rightarrow> Some (fold (\<lambda>x y. if more_static (segments (fst x)) (segments (fst y)) then x else y) rs r))"

text \<open>A handler for \<open>GET\<close> also serves \<open>HEAD\<close>.\<close>

definition handler_for :: "string \<Rightarrow> (string \<times> 'h) list \<Rightarrow> 'h option" where
  "handler_for meth hs = (case map_of hs meth of Some h \<Rightarrow> Some h | None \<Rightarrow> if meth = ''HEAD'' then map_of hs ''GET'' else None)"

text \<open>\<open>decode\<close> undoes the percent encoding of a parameter; one that is no UTF-8 is refused.\<close>

definition handle_command ::
  "(string \<Rightarrow> string option) \<Rightarrow> (string \<Rightarrow> ('t, 'f, ('w, 't, 'n) web_state) web_handler) \<Rightarrow> ('w, 't, 'v, 'f, 'n) web_env \<Rightarrow> web_request \<Rightarrow> string \<Rightarrow>
   ('w, 't, 'n) web_state \<Rightarrow> ('t, 'f, ('w, 't, 'n) web_state) handled_request" where
  "handle_command decode ext X rq p w =
    (case best_route (matching p (cmd_router ext X)) of
       None \<Rightarrow> (reply 404 NoBody, w)
     | Some (pat, hs) \<Rightarrow>
        (case handler_for (rq_method rq) hs of
           None \<Rightarrow> (reply 405 NoBody, w)
         | Some h \<Rightarrow>
            (case those (map decode (the (match_segs (segments pat) (segments p)))) of
               None \<Rightarrow> (bad_request ''Invalid UTF-8 in URL'', w)
             | Some ps \<Rightarrow> h ps rq w)))"

text \<open>
  Everything outside \<open>/api/cmd\<close> is the front end: a directory, served by the parameter \<open>files\<close>, or the files compiled into the program; both may be
  moved below a public base.
\<close>

definition public_base_of :: "app_config \<Rightarrow> string" where
  "public_base_of config =
    (let b = trim (ac_get_str config ''SERVER_PUBLIC_BASE'' ''/'') in
     if b = [] \<or> b = ''/'' then []
     else trim_end_char (CHR ''/'') (CHR ''/'' # trim_end_char (CHR ''/'') (dropWhile (\<lambda>c. c = CHR ''/'') b) @ ''/''))"

definition static_file_handler ::
  "(string \<Rightarrow> ('t, 'f) web_answer) option \<Rightarrow> (string \<Rightarrow> bytes option) \<Rightarrow> string \<Rightarrow> string \<Rightarrow> ('t, 'f) web_answer" where
  "static_file_handler files dist public_base p =
    (let inner = (case files of Some serve \<Rightarrow> serve | None \<Rightarrow> serve_embedded dist) in
     if public_base = [] \<or> public_base = ''/'' then inner p
     else if p = public_base then inner ''/''
     else if starts_with p (public_base @ ''/'') then inner (drop (length public_base) p)
     else \<lparr>wa_status = 404, wa_headers = [], wa_body = NoBody\<rparr>)"

definition API :: string where "API = ''/api/cmd''"

definition serve_request ::
  "(string \<Rightarrow> string option) \<Rightarrow> (string \<Rightarrow> ('t, 'f, ('w, 't, 'n) web_state) web_handler) \<Rightarrow> (string \<Rightarrow> ('t, 'f) web_answer) \<Rightarrow> ('w, 't, 'v, 'f, 'n) web_env \<Rightarrow>
   web_request \<Rightarrow> ('w, 't, 'n) web_state \<Rightarrow> ('t, 'f, ('w, 't, 'n) web_state) handled_request" where
  "serve_request decode ext front X rq w =
    (if starts_with (rq_path rq) (API @ ''/'') then handle_command decode ext X rq (drop (length API) (rq_path rq)) w
     else (Done (front (rq_path rq)), w))"

definition web_request_step ::
  "auth_lib \<Rightarrow> string \<Rightarrow> bytes \<Rightarrow> headers \<Rightarrow> (string \<Rightarrow> string option) \<Rightarrow> (string \<Rightarrow> ('t, 'f, ('w, 't, 'n) web_state) web_handler) \<Rightarrow>
   (string \<Rightarrow> ('t, 'f) web_answer) \<Rightarrow> ('w, 't, 'v, 'f, 'n) web_env \<Rightarrow> web_request \<Rightarrow> ('w, 't, 'n) web_state \<Rightarrow>
   ('t, 'f, ('w, 't, 'n) web_state) handled_request" where
  "web_request_step A secret nonce h decode ext front X rq w =
    (case auth_layer (se_prims (wx_space X)) A (wx_lower X) nonce (wb_config w) secret (rq_path rq) h of
       Unauthorized cookie \<Rightarrow> (Done \<lparr>wa_status = 401, wa_headers = [(''set-cookie'', cookie)], wa_body = NoBody\<rparr>, w)
     | Forwarded \<Rightarrow> serve_request decode ext front X rq w)"

section \<open>What requests leave alone\<close>

text \<open>
  \<open>kept I w r\<close>: if the database of \<open>w\<close> satisfies \<open>I\<close> then so does the one after \<open>r\<close>; \<open>mkept\<close> is the same for the space manager.
  The rules follow the way handlers are put together.
\<close>

definition kept :: "(database \<Rightarrow> bool) \<Rightarrow> ('w, 't, 'n) web_state \<Rightarrow> 'r \<times> ('w, 't, 'n) web_state \<Rightarrow> bool" where
  "kept I w r \<longleftrightarrow> (I (wb_db w) \<longrightarrow> I (wb_db (snd r)))"

definition mkept :: "(database \<Rightarrow> bool) \<Rightarrow> ('w, 't) space_mgr \<Rightarrow> 'r \<times> ('w, 't) space_mgr \<Rightarrow> bool" where
  "mkept I m r \<longleftrightarrow> (I (sm_db m) \<longrightarrow> I (sm_db (snd r)))"

named_theorems kept_intros "how handlers are put together"

lemma mkept_bind [kept_intros]: "mkept I m r \<Longrightarrow> (\<And>x m'. mkept I m' (f x m')) \<Longrightarrow> mkept I m (mgr_bind r f)"
  by (auto simp: mkept_def mgr_bind_def split: prod.splits sum.splits)

lemma mkept_on_db: "(\<And>db. I db \<Longrightarrow> I (snd (f db))) \<Longrightarrow> mkept I m (on_db f m)"
proof -
  assume keeps: "\<And>db. I db \<Longrightarrow> I (snd (f db))"
  obtain r db where "f (sm_db m) = (r, db)" by fastforce
  with keeps [of "sm_db m"] show ?thesis by (simp add: mkept_def on_db_def)
qed

lemma mkept_same [kept_intros]: "sm_db m' = sm_db m \<Longrightarrow> mkept I m (r, m')"
  by (simp add: mkept_def)

lemma mkept_pair [kept_intros]: "sm_db (snd p) = sm_db m \<Longrightarrow> (\<And>x m'. mkept I m' (f x m')) \<Longrightarrow> mkept I m (case p of (x, m) \<Rightarrow> f x m)"
  by (auto simp: mkept_def split: prod.splits)

lemma mkept_pre: "sm_db m' = sm_db m \<Longrightarrow> mkept I m' r \<Longrightarrow> mkept I m r"
  by (simp add: mkept_def)

lemma mkept_frame: "sm_db (snd r) = sm_db m \<Longrightarrow> mkept I m r"
  by (simp add: mkept_def)

lemma mkept_cases [kept_intros]:
  "mkept I m r1 \<Longrightarrow> mkept I m r2 \<Longrightarrow> mkept I m (if b then r1 else r2)"
  "(\<And>y. mkept I m (f y)) \<Longrightarrow> (\<And>y. mkept I m (g y)) \<Longrightarrow> mkept I m (case s of Inl y \<Rightarrow> f y | Inr y \<Rightarrow> g y)"
  "mkept I m n \<Longrightarrow> (\<And>y. mkept I m (h y)) \<Longrightarrow> mkept I m (case p of None \<Rightarrow> n | Some y \<Rightarrow> h y)"
  "mkept I m n \<Longrightarrow> (\<And>y ys. mkept I m (c y ys)) \<Longrightarrow> mkept I m (case l of [] \<Rightarrow> n | y # ys \<Rightarrow> c y ys)"
  by (auto split: sum.split option.split list.split)

lemma kept_mgr [kept_intros]: "mkept I (wb_mgr w) (f (wb_mgr w)) \<Longrightarrow> (\<And>x w'. kept I w' (k x w')) \<Longrightarrow> kept I w (with_mgr f k w)"
  by (auto simp: kept_def mkept_def with_mgr_def split: prod.splits sum.splits)

lemma kept_uuid [kept_intros]: "(\<And>u. kept I w (k u w)) \<Longrightarrow> kept I w (web_uuid X s k w)"
  by (auto simp: kept_def web_uuid_def split: sum.splits)

lemma kept_json [kept_intros]: "(\<And>body. kept I w (k body w)) \<Longrightarrow> kept I w (json_body k rq w)"
  by (auto simp: kept_def json_body_def split: sum.splits)

lemma kept_same [kept_intros]: "wb_db w' = wb_db w \<Longrightarrow> kept I w (r, w')"
  by (simp add: kept_def)

lemma kept_pre: "wb_db w' = wb_db w \<Longrightarrow> kept I w' r \<Longrightarrow> kept I w r"
  by (simp add: kept_def)

lemma kept_cases [kept_intros]:
  "kept I w r1 \<Longrightarrow> kept I w r2 \<Longrightarrow> kept I w (if b then r1 else r2)"
  "(\<And>y. kept I w (f y)) \<Longrightarrow> (\<And>y. kept I w (g y)) \<Longrightarrow> kept I w (case s of Inl y \<Rightarrow> f y | Inr y \<Rightarrow> g y)"
  "kept I w n \<Longrightarrow> (\<And>y. kept I w (h y)) \<Longrightarrow> kept I w (case p of None \<Rightarrow> n | Some y \<Rightarrow> h y)"
  "kept I w n \<Longrightarrow> (\<And>y ys. kept I w (c y ys)) \<Longrightarrow> kept I w (case l of [] \<Rightarrow> n | y # ys \<Rightarrow> c y ys)"
  "(\<And>x y. kept I w (q x y)) \<Longrightarrow> kept I w (case z of (x, y) \<Rightarrow> q x y)"
  by (auto split: sum.split option.split list.split prod.split)

lemma web_db_frame [simp]:
  "wb_db (w\<lparr>wb_log := l\<rparr>) = wb_db w" "wb_db (put_fs fs w) = wb_db w" "wb_db (put_registry reg w) = wb_db w" "wb_db (put_net n w) = wb_db w"
  "wb_db (put_config ac fs w) = wb_db w" "wb_db (discard p w) = wb_db w" "wb_db (announce X kind sid payload w) = wb_db w"
  by (simp_all add: put_config_def)

text \<open>The parts of the space manager that only talk to the daemon.\<close>

lemma ipc_only:
  "sm_db (snd (ipc_data E q m)) = sm_db m" "sm_db (snd (find_space i m)) = sm_db m" "sm_db (snd (running_spaces E m)) = sm_db m"
  by (simp_all add: mgr_frames)

lemma bind_db: "sm_db (snd r) = d \<Longrightarrow> (\<And>x m. sm_db m = d \<Longrightarrow> sm_db (snd (f x m)) = d) \<Longrightarrow> sm_db (snd (mgr_bind r f)) = d"
  by (auto simp: mgr_bind_def split: prod.splits sum.splits)

lemma start_db: "sm_db (snd (start_service E b s m)) = sm_db m"
  by (simp add: start_service_def Let_def split: option.splits)

lemma services_db: "sm_db (drop_services b m) = sm_db m" "sm_db (snd (start_services E b m)) = sm_db m"
  unfolding start_services_def by (simp add: drop_services_def drop_service_def) (intro bind_db; simp add: start_db)

lemma wait_db: "sm_db (snd (wait_daemon_ready n E m)) = sm_db m"
proof (induction n arbitrary: m)
  case (Suc n)
  obtain r m1 where "ipc E Ping m = (r, m1)" by fastforce
  with Suc ipc_frame(6) [of E Ping m] show ?case by (cases r) auto
qed simp

lemma ensure_db: "sm_db (snd (ensure_daemon E m)) = sm_db m"
  using ipc_frame(6) [of E Ping m] by (auto simp: ensure_daemon_def wait_db split: prod.splits sum.splits)

lemma others_db: "sm_db (disconnect_others E sid rs m) = sm_db m"
  by (induction rs arbitrary: m) (simp_all add: mgr_frames)

lemma runtime_db: "sm_db (snd (runtime_of E sid m)) = sm_db m"
  using ipc_frame(6) [of E "GetSpaceStatus sid" m]
  by (auto simp: runtime_of_def split: prod.splits sum.splits option.splits ipc_response.splits)

lemma listed_db: "sm_db (snd (listed_spaces E running rows m)) = sm_db m"
proof (induction rows arbitrary: m)
  case (Cons row rows)
  have "sm_db (snd (listed_space E running row m)) = sm_db m"
    using runtime_db [of E "sp_id row" m] by (auto simp: listed_space_def Let_def split: prod.splits)
  with Cons.IH show ?case by (auto simp: Let_def split: prod.splits) (metis snd_conv)
qed simp

section \<open>Reading\<close>

text \<open>What the queries of the database promise to code that only reads: at most an answer of the engine is used up.\<close>

locale read_invariant =
  fixes I :: "database \<Rightarrow> bool"
  assumes answered: "I db \<Longrightarrow> I (db\<lparr>db_faults := fs\<rparr>)"
begin

lemma stmt_reads: "I db \<Longrightarrow> I (snd (stmt ctx (\<lambda>db. (r db, db)) db))"
  by (auto simp: stmt_def answered split: list.splits option.splits sum.splits prod.splits)

lemma select_keeps: "I db \<Longrightarrow> I (snd (select a b q db))"
  using stmt_reads [of db a "\<lambda>_. Inr ()"] stmt_reads [where r = "\<lambda>db. Inr (q db)" and ctx = b]
  by (cases "stmt a (\<lambda>db. (Inr (), db)) db") (auto simp: select_def split: sum.splits)

lemma query_row_keeps: "I db \<Longrightarrow> I (snd (query_row q db))"
  unfolding query_row_def by (rule select_keeps)

lemma select_rows_keeps: "I db \<Longrightarrow> I (snd (select_rows a b q db))"
proof -
  assume "I db"
  then have s: "I (snd (select a b q db))" by (rule select_keeps)
  obtain r db1 where e: "select a b q db = (r, db1)" by fastforce
  with s have "I db1" by simp
  then show ?thesis using stmt_reads [of db1 "''Row error: ''" "\<lambda>_. r"] e by (cases r) (simp_all add: select_rows_def)
qed

lemma query_rows_keeps: "I db \<Longrightarrow> I (snd (query_rows q db))"
  unfolding query_rows_def by (rule select_rows_keeps)

lemma reads:
  "I db \<Longrightarrow> I (snd (list_spaces ord db))" "I db \<Longrightarrow> I (snd (get_space_config sid db))" "I db \<Longrightarrow> I (snd (get_messages mord sid n db))"
  "I db \<Longrightarrow> I (snd (get_user_id uord db))" "I db \<Longrightarrow> I (snd (get_user_config uord db))" "I db \<Longrightarrow> I (snd (list_members bord sid db))"
  "I db \<Longrightarrow> I (snd (list_apps_by_created aord app_id by_user db))" "I db \<Longrightarrow> I (snd (list_apps aord sid db))"
  "I db \<Longrightarrow> I (snd (list_files ford sid limit db))" "I db \<Longrightarrow> I (snd (db_get_file sid fid db))" "I db \<Longrightarrow> I (snd (get_acl_rules cord sid db))"
  "I db \<Longrightarrow> I (snd (get_port_forward_rules pord sid db))"
  unfolding list_spaces_def get_space_config_def get_messages_def get_user_id_def get_user_config_def list_members_def list_apps_by_created_def
    list_apps_def list_files_def db_get_file_def get_acl_rules_def get_port_forward_rules_def
  by (intro query_row_keeps query_rows_keeps select_rows_keeps; assumption)+

lemma reading:
  "mkept I m (on_db (list_spaces ord) m)" "mkept I m (on_db (get_space_config sid) m)" "mkept I m (on_db (get_messages mord sid n) m)"
  "mkept I m (on_db (get_user_id uord) m)" "mkept I m (on_db (get_user_config uord) m)" "mkept I m (on_db (list_members bord sid) m)"
  "mkept I m (on_db (list_apps_by_created aord app_id by_user) m)" "mkept I m (on_db (list_apps aord sid) m)" "mkept I m (on_db (list_files ford sid limit) m)"
  "mkept I m (on_db (db_get_file sid fid) m)" "mkept I m (on_db (get_acl_rules cord sid) m)" "mkept I m (on_db (get_port_forward_rules pord sid) m)"
  by (rule mkept_on_db; erule reads)+

lemma space_list_kept: "mkept I m (space_list E m)"
  unfolding space_list_def Let_def
  by (intro mkept_bind reading mkept_pair mkept_same) (simp_all add: ipc_only listed_db)

lemma effective_kept: "mkept I m (get_effective_config E i b m)"
proof -
  have c: "mkept I m' (case get_space_config sid (sm_db m') of (Inl e, db) \<Rightarrow> (Inl (SpErr (f e)), m'\<lparr>sm_db := db\<rparr>) | (Inr x, db) \<Rightarrow> (g x, m'\<lparr>sm_db := db\<rparr>))" for m' sid f g
    using reads(2) [of "sm_db m'" sid] by (auto simp: mkept_def split: prod.splits sum.splits)
  show ?thesis unfolding get_effective_config_def by (rule mkept_bind [OF mkept_frame c]) (simp add: ipc_only)
qed

lemma space_status_kept: "mkept I m (get_space_status E sid m)"
  unfolding get_space_status_def by (rule mkept_frame) (simp add: ipc_only)

lemma space_members_kept: "mkept I m (space_members E b m)"
  unfolding space_members_def by (intro mkept_bind reading mkept_same) simp

lemma share_link_kept: "mkept I m (generate_share_link E i b ip m)"
  unfolding generate_share_link_def by (intro mkept_bind mkept_cases mkept_same effective_kept mkept_frame) (simp_all add: ipc_only)

lemma peers_kept: "mkept I m (get_peers E b m)" "mkept I m (get_peers_for_file_transfer E b m)"
  by (simp_all add: mkept_frame get_peers_frame get_peers_db)

lemma disconnect_kept: "mkept I m (space_disconnect E b m)" "mkept I m (space_leave E b m)"
  unfolding space_leave_def space_disconnect_def Let_def by (intro mkept_bind mkept_frame mkept_same; simp add: ipc_only services_db)+

lemma connect_kept: "mkept I m (space_connect E i b m)"
proof -
  have eff: "mkept I m' (mgr_bind (get_effective_config E i b (snd (on_db (get_space_config sid) m'))) f)" if "\<And>x m. mkept I m (f x m)" for m' sid f
  proof -
    have "mkept I m1 (mgr_bind (get_effective_config E i b m1) f)" for m1 by (rule mkept_bind [OF effective_kept that])
    then show ?thesis using reading(2) [of m' sid] by (simp add: mkept_def)
  qed
  have svc: "mkept I m' (mgr_bind (start_services E b (drop_services b m')) f)" if "\<And>x m. mkept I m (f x m)" for m' f
    by (rule mkept_bind [OF mkept_frame that]) (simp add: services_db)
  have fnd: "mkept I m' (mgr_bind (find_space b (disconnect_others E sid rs m')) f)" if "\<And>x m. mkept I m (f x m)" for m' sid rs f
    by (rule mkept_bind [OF mkept_frame that]) (simp add: ipc_only others_db)
  show ?thesis unfolding space_connect_def Let_def
    by (intro mkept_bind [OF mkept_frame [OF ensure_db]] mkept_pair fnd eff mkept_bind [OF mkept_frame [OF ipc_only(1)]] svc mkept_same) (simp_all add: ipc_only)
qed

lemma history_kept: "mkept I m (get_message_history V sid limit m)"
  unfolding get_message_history_def by (auto intro!: mkept_bind reading mkept_same)

lemma files_kept: "mkept I m (list_space_files E sid limit m)"
  unfolding list_space_files_def by (rule reading)

lemma get_space_kept: "kept I w (get_space_handler X sid w)"
  unfolding get_space_handler_def by (intro kept_intros space_list_kept) simp_all

lemma delete_unparsed: "ul_parse (wx_uuid X) sid = Inl e \<Longrightarrow> kept I w (delete_space_handler X sid w)"
  by (simp add: delete_space_handler_def web_uuid_def kept_def)

end

section \<open>Writing\<close>

locale table_invariant = read_invariant +
  assumes exec: "I db \<Longrightarrow> I (snd (db_exec op db))"
begin

lemma writes:
  "I db \<Longrightarrow> I (snd (insert_space s db))" "I db \<Longrightarrow> I (snd (delete_space i db))" "I db \<Longrightarrow> I (snd (update_space_config i c db))"
  "I db \<Longrightarrow> I (snd (insert_message msg_row db))" "I db \<Longrightarrow> I (snd (update_message_status i st db))" "I db \<Longrightarrow> I (snd (set_setting k v db))"
  "I db \<Longrightarrow> I (snd (update_user_config c db))" "I db \<Longrightarrow> I (snd (add_member now sid mid nick own db))" "I db \<Longrightarrow> I (snd (insert_app a db))"
  "I db \<Longrightarrow> I (snd (update_app a db))" "I db \<Longrightarrow> I (snd (delete_app i c db))" "I db \<Longrightarrow> I (snd (insert_file f db))"
  "I db \<Longrightarrow> I (snd (delete_file sid i db))" "I db \<Longrightarrow> I (snd (insert_acl_rule r db))" "I db \<Longrightarrow> I (snd (update_acl_rule r db))"
  "I db \<Longrightarrow> I (snd (delete_acl_rule i db))" "I db \<Longrightarrow> I (snd (insert_port_forward_rule q db))" "I db \<Longrightarrow> I (snd (update_port_forward_rule q db))"
  "I db \<Longrightarrow> I (snd (delete_port_forward_rule i db))"
  using exec [of db "InsertSpace s"] exec [of db "DeleteSpace i"] exec [of db "UpdateSpaceConfig i c"] exec [of db "InsertMessage msg_row"]
    exec [of db "UpdateMessageStatus i st"] exec [of db "SetSetting k v"] exec [of db "UpdateUserConfig c"] exec [of db "AddMember now sid mid nick own"]
    exec [of db "InsertApp a"] exec [of db "UpdateApp a"] exec [of db "DeleteApp i c"] exec [of db "InsertFile f"] exec [of db "DeleteFile sid i"]
    exec [of db "InsertAclRule r"] exec [of db "UpdateAclRule r"] exec [of db "DeleteAclRule i"] exec [of db "InsertPortForwardRule q"]
    exec [of db "UpdatePortForwardRule q"] exec [of db "DeletePortForwardRule i"]
  by simp_all

lemma writing: "(\<And>db. I db \<Longrightarrow> I (snd (f db))) \<Longrightarrow> mkept I m (on_db f m)"
  by (rule mkept_on_db)

lemma store_config_kept: "mkept I m (store_config E cfg s m)"
  unfolding store_config_def Let_def by (intro mkept_cases mkept_bind writing writes mkept_same) simp_all

lemma create_kept: "mkept I m (space_create E u i name secret desc m)"
  unfolding space_create_def Let_def by (intro mkept_bind reading writing writes store_config_kept)

lemma join_kept: "mkept I m (space_join E u cfg name m)"
  unfolding space_join_def Let_def by (intro mkept_bind reading writing writes store_config_kept)

lemma delete_kept: "mkept I m (space_delete E u m)"
  unfolding space_delete_def Let_def
  by (intro mkept_bind mkept_cases reading mkept_frame disconnect_kept mkept_same writing writes) (simp_all add: ipc_only)

lemma patch_kept: "mkept I m (space_patch_config E sid patch m)"
proof -
  obtain r m1 where c: "on_db (get_space_config sid) m = (r, m1)" by fastforce
  have "mkept I m1 ((), snd (on_db (update_space_config sid t) m1))" for t
    using writing [of "update_space_config sid t" m1] writes(3) by (simp add: mkept_def)
  with reading(2) [of m sid] c have "mkept I m ((), case on_db (get_space_config sid) m of
      (Inr (Some existing), m) \<Rightarrow>
        (case se_value E existing of
           Some config \<Rightarrow> snd (on_db (update_space_config sid (space_env.se_text E (merge_patch config patch))) m) | None \<Rightarrow> m)
    | (_, m) \<Rightarrow> m)" by (auto simp: mkept_def split: sum.splits option.splits)
  moreover have "sm_db (snd (mgr_bind (ipc_data E q m2) (\<lambda>_ m. (Inr (), m)))) = sm_db m2" for q m2 by (intro bind_db) (simp_all add: ipc_only)
  ultimately show ?thesis unfolding space_patch_config_def Let_def mkept_def by simp
qed

lemma rule_kept: "mkept I m (create_acl_rule_command A sid action source dest ports description m)"
  "mkept I m (create_port_forward_rule_command A sid name protocol sip sport tip tport description m)"
  unfolding create_acl_rule_command_def create_port_forward_rule_command_def Let_def by (intro mkept_bind writing writes mkept_same; simp)+

lemma store_and_send_kept: "store_and_send V u kind message (wb_mgr w) n = (r, m, n') \<Longrightarrow> kept I w (x, put_net n' (put_mgr m w))"
  using writing [of "insert_message (chat_row_of (mv_space V) message)" "wb_mgr w", OF writes(4)]
    writing [of "update_message_status i st" for i st, OF writes(5)]
  by (fastforce simp: store_and_send_def kept_def mkept_def Let_def split: prod.splits sum.splits)

lemma caller_kept: "(\<And>c w'. kept I w' (k c w')) \<Longrightarrow> kept I w (with_caller X k w)"
  using reading(4) [of "wb_mgr w" "se_users (wx_space X)"]
  by (auto simp: with_caller_def kept_def mkept_def split: prod.splits sum.splits option.splits)

end

lemma kept_trans: "kept I w (x, w1) \<Longrightarrow> kept I w1 r \<Longrightarrow> kept I w r"
  by (simp add: kept_def)

lemma kept_put: "mkept I (wb_mgr w) (r, m) \<Longrightarrow> kept I w (x, put_mgr m w)"
  by (simp add: kept_def mkept_def)

context table_invariant
begin

lemmas managing = create_kept join_kept delete_kept patch_kept rule_kept space_list_kept space_status_kept space_members_kept share_link_kept
  peers_kept disconnect_kept connect_kept history_kept files_kept reading

lemmas handling = kept_intros managing writing writes caller_kept

lemma space_handlers_kept:
  "kept I w (create_space_handler X body w)" "kept I w (join_space_handler X body w)" "kept I w (list_spaces_handler X w)"
  "kept I w (delete_space_handler X sid w)" "kept I w (leave_space_handler X sid w)" "kept I w (connect_space_handler X sid w)"
  "kept I w (disconnect_space_handler X sid w)" "kept I w (space_status_handler X sid w)" "kept I w (list_members_handler X sid w)"
  "kept I w (get_space_config_handler X sid w)" "kept I w (update_space_config_handler X sid body w)" "kept I w (patch_space_config_handler X sid body w)"
  "kept I w (generate_share_link_handler X sid body w)" "kept I w (parse_qr_handler X body w)" "kept I w (parse_share_data_handler X body w)"
  unfolding create_space_handler_def join_space_handler_def list_spaces_handler_def delete_space_handler_def leave_space_handler_def
    connect_space_handler_def disconnect_space_handler_def space_status_handler_def list_members_handler_def get_space_config_handler_def
    update_space_config_handler_def patch_space_config_handler_def generate_share_link_handler_def parse_qr_handler_def parse_share_data_handler_def Let_def
  by (intro handling; simp)+

lemma message_handlers_kept:
  "kept I w (get_message_history_handler X sid params w)" "kept I w (get_network_stats_handler X sid w)" "kept I w (get_space_peers_handler X sid w)"
  "kept I w (get_mesh_routes_handler X sid w)"
  unfolding get_message_history_handler_def get_network_stats_handler_def get_space_peers_handler_def get_mesh_routes_handler_def
  by (intro handling; simp)+

lemma send_message_kept: "kept I w (send_message_handler X sid body w)"
proof -
  have sent: "kept I w (case store_and_send V u kind message (wb_mgr w) (fa_net (wb_app w)) of
      (Inl e, m, net) \<Rightarrow> (failed e, put_net net (put_mgr m w))
    | (Inr entry, m, net) \<Rightarrow> (ok_json (f entry), announce X ev sid' (v entry) (put_net net (put_mgr m w))))" for V u kind message w f ev sid' v
    using store_and_send_kept [of V u kind message w "fa_net (wb_app w)"] by (auto simp: kept_def split: prod.splits sum.splits)
  show ?thesis unfolding send_message_handler_def Let_def
    by (intro sent kept_mgr kept_uuid space_list_kept kept_cases(1,3) kept_same) simp_all
qed

lemma send_signal_kept: "kept I w (send_signal_handler X sid body w)"
  unfolding send_signal_handler_def Let_def by (intro handling; simp add: kept_def split: prod.splits sum.splits)

lemma log_handlers_kept:
  "kept I w (get_logs_handler X params w)" "kept I w (get_space_logs_handler X sid params w)" "kept I w (clear_logs_handler w)"
  "kept I w (query_logs_handler X params w)" "kept I w (get_log_modules_handler X w)" "kept I w (clear_logs_filtered_handler X params w)"
  "kept I w (export_logs_handler X params w)"
  unfolding get_logs_handler_def get_space_logs_handler_def clear_logs_handler_def query_logs_handler_def get_log_modules_handler_def
    clear_logs_filtered_handler_def export_logs_handler_def Let_def
  by (intro handling; simp)+

lemma config_handlers_kept:
  "kept I w (get_system_config_handler X w)" "kept I w (set_system_config_handler body w)" "kept I w (get_app_config_handler X w)"
  "kept I w (get_config_path_handler X w)" "kept I w (get_config_template_path_handler X w)" "kept I w (get_proxy_url_handler w)"
  "kept I w (get_proxy_status_handler w)" "kept I w (register_proxy_key_handler X body w)" "kept I w (set_proxy_source_handler body w)"
  "kept I w (set_device_mode_handler body w)" "kept I w (get_pending_downloads_handler w)"
  unfolding get_system_config_handler_def set_system_config_handler_def get_app_config_handler_def get_config_path_handler_def
    get_config_template_path_handler_def get_proxy_url_handler_def get_proxy_status_handler_def register_proxy_key_handler_def
    set_proxy_source_handler_def set_device_mode_handler_def get_pending_downloads_handler_def Let_def
  by (intro handling; simp)+

lemma set_app_config_kept: "kept I w (set_app_config_handler X body w)"
proof -
  have set: "kept I w (with_mgr (on_db (set_setting k v)) (\<lambda>_ w. (no_content, w)) (put_config ac fs w\<lparr>wb_log := l\<rparr>))" for k v ac fs l
  proof (rule kept_pre [where w' = "put_config ac fs w\<lparr>wb_log := l\<rparr>"])
    show "wb_db (put_config ac fs w\<lparr>wb_log := l\<rparr>) = wb_db w" by simp
  qed (intro kept_mgr writing writes kept_same, simp_all)
  show ?thesis unfolding set_app_config_handler_def Let_def by (intro set kept_cases kept_same) simp_all
qed

lemma rule_handlers_kept:
  "kept I w (get_acl_rules_handler X sid w)" "kept I w (create_acl_rule_handler X sid body w)" "kept I w (update_acl_rule_handler X sid body w)"
  "kept I w (delete_acl_rule_handler body w)" "kept I w (get_port_forward_rules_handler X sid w)" "kept I w (create_port_forward_rule_handler X sid body w)"
  "kept I w (update_port_forward_rule_handler X sid body w)" "kept I w (delete_port_forward_rule_handler body w)"
  unfolding get_acl_rules_handler_def create_acl_rule_handler_def update_acl_rule_handler_def delete_acl_rule_handler_def
    get_port_forward_rules_handler_def create_port_forward_rule_handler_def update_port_forward_rule_handler_def delete_port_forward_rule_handler_def Let_def
  by (intro handling; simp)+

end

context table_invariant
begin

lemma app_handlers_kept:
  "kept I w (add_app_handler X sid body w)" "kept I w (update_app_handler X body w)" "kept I w (delete_app_handler X body w)"
  "kept I w (list_apps_handler X sid w)" "kept I w (get_system_apps_handler X w)"
  unfolding add_app_handler_def update_app_handler_def delete_app_handler_def list_apps_handler_def get_system_apps_handler_def Let_def
  by (intro handling; simp)+

lemma insert_app_kept: "kept I w (with_mgr (on_db (insert_app a)) (\<lambda>_ w. (r, w)) w)"
  by (intro handling; simp)

lemma share_app_kept: "kept I w (share_app_handler X body w)"
proof -
  have checked: "kept I w (case on_db (list_apps ord t) (wb_mgr w) of (r, m) \<Rightarrow>
      if P r then (c, put_mgr m w) else with_mgr (on_db (insert_app a)) (\<lambda>_ w. (j, w)) (put_mgr m w))" for w ord t P c a j
  proof -
    obtain r m where l: "on_db (list_apps ord t) (wb_mgr w) = (r, m)" by fastforce
    then have p: "kept I w (x, put_mgr m w)" for x using reading(8) [of "wb_mgr w" ord t] by (auto intro: kept_put)
    show ?thesis unfolding l prod.case by (intro kept_cases(1) p kept_trans [OF p insert_app_kept])
  qed
  show ?thesis unfolding share_app_handler_def Let_def
    by (intro checked caller_kept kept_mgr reading space_list_kept kept_cases(1,4) kept_same) simp_all
qed

lemma record_upload_kept: "wb_db w = wb_db w0 \<Longrightarrow> kept I w0 (record_upload X info w)"
  by (rule kept_pre [where w' = w], simp) (unfold record_upload_def, intro handling; simp)

lemma relay_upload_kept: "kept I w (relay_upload X b name pw body peers w)"
proof -
  have sent: "kept I w (case send_to_peers F k b p pw peers sh li a of
        (Inl e, a) \<Rightarrow> (x e, discard q (put_app a w1))
      | (Inr None, a) \<Rightarrow> (y, discard q (put_app a w1))
      | (Inr (Some info), a) \<Rightarrow> record_upload X info (discard q (put_app a w1)))" if "fa_spaces a = wb_mgr w" for F k p sh li a x q w1 y
  proof -
    obtain r a' where s: "send_to_peers F k b p pw peers sh li a = (r, a')" by fastforce
    then have "wb_db (discard q (put_app a' w1)) = wb_db w" using send_to_peers_frame [OF s] that by simp
    then show ?thesis using s by (auto simp: kept_def record_upload_kept [unfolded kept_def] split: sum.split option.split)
  qed
  show ?thesis unfolding relay_upload_def Let_def
    by (intro sent kept_cases record_upload_kept kept_same) simp_all
qed

lemma file_handlers_kept:
  "kept I w (send_file_handler X params body w)" "kept I w (record_received_file_handler v w)" "kept I w (delete_file_handler v w)"
  "kept I w (list_files_handler X sid params w)" "kept I w (get_transfer_progress_handler w)"
  unfolding send_file_handler_def record_received_file_handler_def delete_file_handler_def list_files_handler_def get_transfer_progress_handler_def Let_def
  by (intro handling relay_upload_kept; simp)+

lemma receive_file_kept: "kept I w (receive_file_handler X sid fid w)"
proof -
  obtain r m where g: "on_db (db_get_file sid fid) (wb_mgr w) = (r, m)" by fastforce
  then have p: "kept I w (x, put_mgr m w)" for x using reading(10) [of "wb_mgr w" sid fid] by (auto intro: kept_put)
  have q: "kept I w (x, put_registry reg (put_mgr m w))" for x reg using p by (simp add: kept_def)
  have same: "kept I w (x, w)" for x by (simp add: kept_def)
  show ?thesis unfolding receive_file_handler_def Let_def g prod.case by (intro kept_cases p q same)
qed

lemma store_handlers_kept:
  "kept I w (get_config_version_handler n w)" "kept I w (download_config_handler n w)" "kept I w (upload_config_handler body w)"
  "kept I w (get_remote_config_version_handler X q w)" "kept I w (download_remote_config_handler X q w)"
  unfolding get_config_version_handler_def download_config_handler_def upload_config_handler_def get_remote_config_version_handler_def
    download_remote_config_handler_def Let_def
  by (intro handling; simp)+

end

section \<open>Routing\<close>

lemma fold_pick: "fold (\<lambda>x y. if P x y then x else y) rs r \<in> insert r (set rs)"
proof (induction rs arbitrary: r)
  case (Cons x rs)
  from Cons [of x] Cons [of r] show ?case by auto
qed simp

lemma best_route_in: "best_route rs = Some r \<Longrightarrow> r \<in> set rs"
  using fold_pick [of "\<lambda>x y. more_static (segments (fst x)) (segments (fst y))" "tl rs" "hd rs"]
  by (cases rs) (auto simp: best_route_def)

lemma matching_in: "(pat, hs) \<in> set (matching p table) \<Longrightarrow> (pat, hs) \<in> set table \<and> match_segs (segments pat) (segments p) \<noteq> None"
  by (auto simp: matching_def)

lemma handler_for_in: "handler_for meth hs = Some h \<Longrightarrow> \<exists>n. (n, h) \<in> set hs"
  by (auto simp: handler_for_def dest: map_of_SomeD split: option.splits if_splits)

text \<open>What holds of the answers of all handlers in the table holds of the answer to a command.\<close>

lemma handle_command_cases:
  assumes "\<And>pat hs meth h ps. (pat, hs) \<in> set (cmd_router ext X) \<Longrightarrow> (meth, h) \<in> set hs \<Longrightarrow>
      match_segs (segments pat) (segments p) \<noteq> None \<Longrightarrow> those (map decode (the (match_segs (segments pat) (segments p)))) = Some ps \<Longrightarrow> P (h ps rq w)"
    and "\<And>r. P (r, w)"
  shows "P (handle_command decode ext X rq p w)"
proof (cases "best_route (matching p (cmd_router ext X))")
  case (Some r)
  obtain pat hs where r: "r = (pat, hs)" by fastforce
  then have t: "(pat, hs) \<in> set (cmd_router ext X)" "match_segs (segments pat) (segments p) \<noteq> None"
    using matching_in [of pat hs p "cmd_router ext X"] best_route_in [OF Some] by simp_all
  show ?thesis
  proof (cases "handler_for (rq_method rq) hs")
    case (Some h)
    from handler_for_in [OF this] obtain n where "(n, h) \<in> set hs" by (elim exE)
    then show ?thesis using assms(1) [OF t(1) _ t(2)] assms(2) \<open>best_route _ = _\<close> Some r
      by (auto simp: handle_command_def split: option.split)
  qed (use assms(2) Some r in \<open>simp add: handle_command_def\<close>)
qed (simp add: handle_command_def assms(2))

context table_invariant
begin

lemmas all_handlers_kept = space_handlers_kept message_handlers_kept send_message_kept send_signal_kept log_handlers_kept config_handlers_kept
  set_app_config_kept rule_handlers_kept app_handlers_kept share_app_kept file_handlers_kept receive_file_kept store_handlers_kept get_space_kept

lemma table_kept:
  assumes "\<And>n ps rq w. kept I w (ext n ps rq w)"
  shows "list_all (\<lambda>(pat, hs). list_all (\<lambda>(meth, h). \<forall>ps rq w. kept I w (h ps rq w)) hs) (cmd_router ext X)"
  by (simp add: cmd_router_def assms all_handlers_kept kept_json kept_same)

lemma request_kept:
  assumes "\<And>n ps rq w. kept I w (ext n ps rq w)"
  shows "kept I w (web_request_step A secret nonce h decode ext front X rq w)"
proof -
  have "kept I w (handle_command decode ext X rq p w)" for p
    by (rule handle_command_cases) (use table_kept [OF assms] in \<open>fastforce simp: list_all_iff\<close>, simp add: kept_same)
  then show ?thesis by (auto simp: web_request_step_def serve_request_def kept_same split: auth_answer.split)
qed

end

interpretation tables: table_invariant db_ok
  by unfold_locales (simp add: db_ok_defs, erule db_exec_ok)


section \<open>Requests without a token\<close>

lemma last_split: "c \<notin> set b \<Longrightarrow> last (split_str [c] (a @ c # b)) = b"
proof (induction "length a" arbitrary: a rule: less_induct)
  case less
  show ?case
  proof (cases "c \<in> set a")
    case True
    then obtain u v where a: "a = u @ c # v" "c \<notin> set u" by (meson split_list_first)
    have "split_str [c] (v @ c # b) \<noteq> []" by (subst split_str.simps) (auto split: option.splits)
    then show ?thesis using less.hyps [of v] less.prems a split_char_found [of c u "v @ c # b"] by simp
  qed (use less.prems in \<open>simp add: split_char_found split_char_end\<close>)
qed

lemma last_segment: "CHR ''/'' \<in> set p \<Longrightarrow> CHR ''/'' \<notin> set e \<Longrightarrow> ends_with (q @ p) e \<Longrightarrow> ends_with (last (segments p)) e"
proof -
  assume s: "CHR ''/'' \<in> set p" "CHR ''/'' \<notin> set e" "ends_with (q @ p) e"
  then obtain a b where p: "p = a @ CHR ''/'' # b" "CHR ''/'' \<notin> set b" by (meson split_list_last)
  obtain t where "q @ a @ CHR ''/'' # b = t @ e" using s(3) p(1) by (auto simp: ends_with_iff)
  then have "(q @ a @ [CHR ''/'']) @ b = t @ e" by simp
  then have "\<exists>u. b = u @ e"
    unfolding append_eq_append_conv2 using s(2) by (auto simp: append_eq_Cons_conv Cons_eq_append_conv append_eq_append_conv2)
  then show ?thesis using last_split [OF p(2), of a] by (simp add: p(1) segments_def ends_with_iff)
qed

lemma match_last:
  "match_segs ps ss = Some xs \<Longrightarrow> ps \<noteq> [] \<Longrightarrow> ss \<noteq> [] \<and> (if is_param (last ps) then xs \<noteq> [] \<and> last xs = last ss else last ss = last ps)"
proof (induction ps ss arbitrary: xs rule: match_segs.induct)
  case (2 p ps s ss)
  show ?case
  proof (cases "ps = []")
    case True
    then show ?thesis using 2(3) by (cases ss) (auto split: if_splits)
  next
    case False
    from 2(3) obtain ys where y: "match_segs ps ss = Some ys" "xs = (if is_param p then s # ys else ys)" by (auto split: if_splits)
    with 2 False have "ss \<noteq> [] \<and> (if is_param (last ps) then ys \<noteq> [] \<and> last ys = last ss else last ss = last ps)"
      by (cases "is_param p") (auto split: if_splits)
    then show ?thesis using False y by auto
  qed
qed auto

lemma match_length: "match_segs ps ss = Some xs \<Longrightarrow> length xs = length (filter is_param ps)"
  by (induction ps ss arbitrary: xs rule: match_segs.induct) (auto split: if_splits)

lemma those_last: "those (map f xs) = Some ys \<Longrightarrow> xs \<noteq> [] \<Longrightarrow> f (last xs) = Some (last ys) \<and> length ys = length xs"
proof (induction xs arbitrary: ys)
  case (Cons x xs)
  then obtain b bs where b: "f x = Some b" "those (map f xs) = Some bs" "ys = b # bs" by (auto split: option.splits)
  then show ?case using Cons.IH [OF b(2)] by (cases "xs = []") auto
qed simp

text \<open>The only routes that end in a parameter, and what they have in common: without a parsed identifier they read.\<close>

definition untouched :: "('w, 't, 'n) web_state \<Rightarrow> 'r \<times> ('w, 't, 'n) web_state \<Rightarrow> bool" where
  "untouched w r \<longleftrightarrow>
    (wb_db (snd r))\<lparr>db_faults := []\<rparr> = (wb_db w)\<lparr>db_faults := []\<rparr> \<and> fa_fs (wb_app (snd r)) = fa_fs (wb_app w) \<and>
    wb_config (snd r) = wb_config w \<and> wb_store (snd r) = wb_store w"

interpretation unread: read_invariant "\<lambda>db. db\<lparr>db_faults := []\<rparr> = d" for d
  by unfold_locales simp

lemma get_space_untouched: "untouched w (get_space_handler X sid w)"
proof -
  have "(wb_db (snd (get_space_handler X sid w)))\<lparr>db_faults := []\<rparr> = (wb_db w)\<lparr>db_faults := []\<rparr>"
    using unread.get_space_kept [of "(wb_db w)\<lparr>db_faults := []\<rparr>" w X sid] by (simp add: kept_def)
  then show ?thesis
    by (auto simp: untouched_def get_space_handler_def with_mgr_def web_uuid_def put_mgr_def split: prod.splits sum.splits option.splits)
qed

lemma logs_untouched: "untouched w (get_space_logs_handler X sid params w)"
  by (simp add: untouched_def get_space_logs_handler_def split: prod.split)

lemma unparsed_untouched:
  "ul_parse (wx_uuid X) sid = Inl e \<Longrightarrow> untouched w (delete_space_handler X sid w)"
  "ul_parse (wx_uuid X) fid = Inl e \<Longrightarrow> untouched w (receive_file_handler X sid fid w)"
  by (simp_all add: untouched_def delete_space_handler_def web_uuid_def receive_file_handler_def split: sum.split)

definition open_ends :: "string list" where
  "open_ends = [''/space/{space_id}'', ''/log/space/{space_id}'', ''/file/{space_id}/download/{file_id}'', ''/ws/signal/{space_id}'']"

definition route_paths :: "string list" where
  "route_paths =
    [''/ping'', ''/space/create'', ''/space/join'', ''/space/list'', ''/space/{space_id}'', ''/space/{space_id}/leave'',
     ''/space/{space_id}/connect'', ''/space/{space_id}/disconnect'', ''/space/{space_id}/status'', ''/space/{space_id}/members'',
     ''/space/{space_id}/config'', ''/space/{space_id}/config/patch'', ''/space/{space_id}/share'', ''/qr/parse'', ''/space/share/parse-data'',
     ''/space/{space_id}/signal'', ''/space/{space_id}/acl'', ''/space/{space_id}/acl/update'', ''/space/{space_id}/acl/delete'',
     ''/space/{space_id}/port-forwards'', ''/space/{space_id}/port-forwards/update'', ''/space/{space_id}/port-forwards/delete'',
     ''/space/{space_id}/apps'', ''/space/{space_id}/apps/share'', ''/space/{space_id}/apps/update'', ''/space/{space_id}/apps/delete'',
     ''/system/apps'', ''/chat/{space_id}/history'', ''/chat/{space_id}/send'', ''/network/{space_id}/stats'', ''/network/{space_id}/peers'',
     ''/network/{space_id}/mesh_routes'', ''/log/list'', ''/log/space/{space_id}'', ''/log/clear'', ''/log/query'', ''/log/modules'',
     ''/log/clear-filtered'', ''/log/export'', ''/config/system'', ''/config/app'', ''/config/path'', ''/config/template-path'',
     ''/config-store/{name}/version'', ''/config-store/{name}/download'', ''/config-store/upload'', ''/config-store/remote/version'',
     ''/config-store/remote/download'', ''/system/version'', ''/system/binary-check'', ''/system/check-update'', ''/system/upgrade-app'',
     ''/proxy/url'', ''/proxy/status'', ''/proxy/register'', ''/proxy/source'', ''/proxy/device'', ''/proxy/downloads'', ''/easytier/check-update'',
     ''/easytier/upgrade'', ''/file/send'', ''/file/{space_id}/download/{file_id}'', ''/file/record'', ''/file/delete'',
     ''/space/{space_id}/file/list'', ''/file/progress'', ''/ws/signal/{space_id}'', ''/ws/events'']"

lemma router_paths: "map fst (cmd_router ext X) = route_paths"
  by (simp add: cmd_router_def route_paths_def)

lemma route_ends:
  "(pat, hs) \<in> set (cmd_router ext X) \<Longrightarrow> pat \<in> set open_ends \<or>
     \<not> is_param (last (segments pat)) \<and> list_all (\<lambda>e. \<not> ends_with (last (segments pat)) e) STATIC_EXTENSIONS"
proof -
  assume "(pat, hs) \<in> set (cmd_router ext X)"
  then have "pat \<in> set route_paths" unfolding router_paths [of ext X, symmetric] by force
  moreover have "list_all (\<lambda>pat. pat \<in> set open_ends \<or>
      \<not> is_param (last (segments pat)) \<and> list_all (\<lambda>e. \<not> ends_with (last (segments pat)) e) STATIC_EXTENSIONS) route_paths" by code_simp
  ultimately show ?thesis by (auto simp: list_all_iff)
qed

lemma open_routes:
  "(''/space/{space_id}'', hs) \<in> set (cmd_router ext X) \<longleftrightarrow>
     hs = [(''GET'', \<lambda>ps rq. get_space_handler X (nth0 ps)), (''DELETE'', \<lambda>ps rq. delete_space_handler X (nth0 ps))]"
  "(''/log/space/{space_id}'', hs) \<in> set (cmd_router ext X) \<longleftrightarrow>
     hs = [(''GET'', \<lambda>ps rq. get_space_logs_handler X (nth0 ps) (wx_query X (rq_query rq)))]"
  "(''/file/{space_id}/download/{file_id}'', hs) \<in> set (cmd_router ext X) \<longleftrightarrow> hs = [(''GET'', \<lambda>ps rq. receive_file_handler X (nth0 ps) (nth1 ps))]"
  "(''/ws/signal/{space_id}'', hs) \<in> set (cmd_router ext X) \<longleftrightarrow> hs = [(''GET'', ext ''ws_handler'')]"
  by (simp_all add: cmd_router_def)

lemma open_params:
  "length (filter is_param (segments ''/space/{space_id}'')) = 1" "length (filter is_param (segments ''/log/space/{space_id}'')) = 1"
  "length (filter is_param (segments ''/file/{space_id}/download/{file_id}'')) = 2" "length (filter is_param (segments ''/ws/signal/{space_id}'')) = 1"
  by code_simp+

lemma four_cases: "x \<in> set [a, b, c, d] \<Longrightarrow> (x = a \<Longrightarrow> P) \<Longrightarrow> (x = b \<Longrightarrow> P) \<Longrightarrow> (x = c \<Longrightarrow> P) \<Longrightarrow> (x = d \<Longrightarrow> P) \<Longrightarrow> P"
  by auto

lemma open_untouched:
  assumes "(pat, hs) \<in> set (cmd_router ext X)" and "pat \<in> set open_ends" and "(meth, h) \<in> set hs"
    and "length ps = length (filter is_param (segments pat))" and "ul_parse (wx_uuid X) (last ps) = Inl e"
    and "\<And>ps. untouched w (ext ''ws_handler'' ps rq w)"
  shows "untouched w (h ps rq w)"
proof -
  have one: "length ps = 1 \<Longrightarrow> nth0 ps = last ps" by (cases ps) (auto simp: nth0_def)
  have two: "length ps = 2 \<Longrightarrow> nth1 ps = last ps" by (cases ps; cases "tl ps") (auto simp: nth1_def nth0_def)
  consider "pat = ''/space/{space_id}''" | "pat = ''/log/space/{space_id}''" | "pat = ''/file/{space_id}/download/{file_id}''" | "pat = ''/ws/signal/{space_id}''"
    by (rule four_cases [OF assms(2) [unfolded open_ends_def]])
  then show ?thesis
  proof cases
    case 1
    then have "nth0 ps = last ps" using one assms(4) open_params by simp
    then show ?thesis using assms(1,3,5) unfolding 1 open_routes by (auto simp: get_space_untouched unparsed_untouched)
  next
    case 2
    then show ?thesis using assms(1,3) unfolding 2 open_routes by (auto simp: logs_untouched)
  next
    case 3
    then have "nth1 ps = last ps" using two assms(4) open_params by simp
    then show ?thesis using assms(1,3,5) unfolding 3 open_routes by (auto simp: unparsed_untouched)
  next
    case 4
    then show ?thesis using assms(1,3,6) unfolding 4 open_routes by simp
  qed
qed

lemma static_api:
  assumes "starts_with p (API @ ''/'')" and "is_static_resource p base" and "strip_public_base p base = p"
  shows "\<exists>e \<in> set STATIC_EXTENSIONS. ends_with p e"
proof -
  obtain t where p: "p = ''/api/cmd/'' @ t" using assms(1) unfolding starts_with_iff by (auto simp: API_def)
  have "\<not> starts_with p q" if "q \<in> set SPECIAL_PREFIXES" for q using that unfolding p SPECIAL_PREFIXES_def by auto
  moreover have "p \<noteq> ''/''" "p \<noteq> []" "starts_with p ''/api/''" unfolding p by simp_all
  ultimately show ?thesis using assms(2) unfolding is_static_resource_def Let_def assms(3) list_ex_iff by (auto split: if_splits)
qed


section \<open>Web and desktop\<close>

lemma new_message_type: "cm_msg_type (signed_by E s (new_message V u c kind)) = (if kind = ''image'' then ''image'' else ''text'')"
  by (simp add: signed_by_def chat_sign_def new_message_def chat_image_def chat_text_def)


text \<open>
  A signal without a target goes to all peers on the desktop; over the web it goes to the peer with the empty name, and fails when there is none.
\<close>

theorem web_signal_needs_target:
  fixes X :: "('w, 't, 'v, 'f, 'n) web_env"
  assumes "get_str body ''target'' = None" and "\<And>u peers. sm_clients (wb_mgr w) u = Some peers \<Longrightarrow> hm_get peers [] = None"
    and "send_signal_handler X space_id body w = (Done a, w')"
  shows "400 \<le> wa_status a"
proof -
  have none: "\<exists>e. send_signal_to V u [] message (wb_mgr w) n = (Inl e, n)" for V :: "('w, 't, 'v, 'f, 'n) message_env" and u message n
    using assms(2) [of u] by (auto simp: send_signal_to_def chat_send_to_def split: option.split)
  note defs = send_signal_handler_def web_uuid_def answer_defs Let_def assms(1)
  consider "str_or_empty body ''payload'' = []" | e where "str_or_empty body ''payload'' \<noteq> []" "ul_parse (wx_uuid X) space_id = Inl e"
    | u where "str_or_empty body ''payload'' \<noteq> []" "ul_parse (wx_uuid X) space_id = Inr u" by (cases "ul_parse (wx_uuid X) space_id") auto
  then show ?thesis
  proof cases
    case (3 u)
    show ?thesis
    proof (cases "List.find (\<lambda>s. sc_id s = u) (sm_spaces (wb_mgr w))")
      case (Some space)
      define message where "message = signed_by (wx_space X) space (chat_signal (mv_id (wx_chat X)) (se_now (wx_space X)) u
        (case wx_machine X of Some s \<Rightarrow> parse_or_nil (wx_uuid X) s | None \<Rightarrow> 0) (mv_host (wx_chat X)) (str_or_empty body ''payload''))"
      obtain e where "send_signal_to (wx_chat X) u [] message (wb_mgr w) (fa_net (wb_app w)) = (Inl e, fa_net (wb_app w))" using none by blast
      with assms(3) 3 Some show ?thesis unfolding message_def by (auto simp: defs)
    qed (use assms(3) 3 in \<open>auto simp: defs\<close>)
  qed (use assms(3) in \<open>auto simp: defs\<close>)
qed

text \<open>
  The route for the remote store comes first: the version of a configuration that is stored under the name \<open>remote\<close> cannot be asked for.
\<close>

lemma matching_paths: "map fst (matching p table) = filter (\<lambda>pat. match_segs (segments pat) (segments p) \<noteq> None) (map fst table)"
  by (induction table) (auto simp: matching_def)

theorem config_named_remote_shadowed:
  assumes "rq_method rq = ''GET''"
  shows "handle_command decode ext X rq ''/config-store/remote/version'' w = get_remote_config_version_handler X (rq_query rq) w"
proof -
  let ?p = "''/config-store/remote/version''"
  have "filter (\<lambda>pat. match_segs (segments pat) (segments ?p) \<noteq> None) route_paths = [''/config-store/{name}/version'', ?p]" by code_simp
  then have "map fst (matching ?p (cmd_router ext X)) = [''/config-store/{name}/version'', ?p]" by (simp only: matching_paths router_paths)
  then obtain h1 h2 where m: "matching ?p (cmd_router ext X) = [(''/config-store/{name}/version'', h1), (?p, h2)]"
    by (auto simp: map_eq_Cons_conv)
  then have "(?p, h2) \<in> set (cmd_router ext X)" using matching_in [of ?p h2 ?p "cmd_router ext X"] by simp
  then have h2: "h2 = [(''GET'', \<lambda>ps rq. get_remote_config_version_handler X (rq_query rq))]" by (simp add: cmd_router_def)
  have "more_static (segments ?p) (segments ''/config-store/{name}/version'')" "match_segs (segments ?p) (segments ?p) = Some []" by code_simp+
  then show ?thesis using assms by (simp add: handle_command_def m best_route_def h2 handler_for_def)
qed

section \<open>Concrete requests\<close>

definition request_web_toy :: "string \<Rightarrow> string \<Rightarrow> web_request" where
  "request_web_toy meth p = \<lparr>rq_method = meth, rq_path = p, rq_query = [], rq_json = Inr (JObj []), rq_bytes = []\<rparr>"


lemma digits_val_dot: "CHR ''.'' \<in> set s \<Longrightarrow> digits_val v s = None"
  by (induction s arbitrary: v) (auto simp: digit_val_def split: option.split)

lemma toy_uuid_dot: "CHR ''.'' \<in> set s \<Longrightarrow> \<exists>m. ul_parse uuid_toy s = Inl m"
proof -
  assume "CHR ''.'' \<in> set s"
  then have "CHR ''.'' \<in> set (if starts_with s ''+'' then tl s else s)" by (cases s) auto
  then have "parse_uint (2 ^ 128 - 1) s = None" by (simp only: parse_uint_def Let_def digits_val_dot) auto
  then show ?thesis by (simp add: uuid_toy_def)
qed


definition hello_toy :: jvalue where
  "hello_toy = JObj [(''content'', JStr ''hi''), (''msg_type'', JStr ''text'')]"

definition chat_state_toy :: "(unit, nat, fs) web_state" where
  "chat_state_toy = put_mgr chat_mgr_toy web_state_toy"

lemma toy_chat_sent:
  "\<exists>entry m n. send_message_command (wx_chat web_toy) (ul_string uuid_toy 2) ''hi'' ''text'' (wb_mgr chat_state_toy) (fa_net (wb_app chat_state_toy)) = (Inr entry, m, n)"
proof -
  let ?V = "wx_chat web_toy" and ?m = "wb_mgr chat_state_toy"
  have v: "mv_space ?V = app_env_toy" by (simp add: web_toy_def)
  have m: "?m = chat_mgr_toy" by (simp add: chat_state_toy_def)
  have db: "db_faults (sm_db chat_mgr_toy) = []" "db_messages (sm_db chat_mgr_toy) = []"
      "db_spaces (sm_db chat_mgr_toy) = [(space_row_of space_env_toy space_toy)\<lparr>sp_id := ul_string uuid_toy 2\<rparr>]"
    by (simp_all add: chat_mgr_toy_def db_empty_def)
  have r: "se_rows app_env_toy t = t" for t by (simp add: app_env_toy_def space_env_toy_def)
  obtain sp m1 where l: "space_list app_env_toy chat_mgr_toy = (Inr [sp], m1)" "sc_id sp = 2"
    using uuid_parse_string [OF uuid_toy_ok, of 2] db(1)
    by (simp add: space_list_def mgr_bind_def on_db_def list_spaces_def query_rows_no_fault db r running_spaces_def ipc_def app_env_toy_fields listed_space_def
        parse_or_nil_def as_array_def Let_def)
  from space_list_frame [OF l(1) db(1)] have d1: "sm_db m1 = sm_db chat_mgr_toy" by simp
  define mm where "mm = signed_by app_env_toy sp (new_message ?V 2 ''hi'' ''text'')"
  have "mg_space_id (chat_row_of app_env_toy mm) = ul_string uuid_toy 2"
    by (simp add: chat_row_of_def mm_def signed_by_def chat_sign_def new_message_def chat_text_def app_env_toy_fields)
  then have "\<exists>m2. on_db (insert_message (chat_row_of app_env_toy mm)) m1 = (Inr (), m2)"
    using db d1 by (simp add: on_db_def insert_message_def insert_row_def stmt_no_fault sql_insert_def fk_ok_def)
  then show ?thesis using uuid_parse_string [OF uuid_toy_ok, of 2]
    by (auto simp: send_message_command_def m v app_env_toy_fields l store_and_send_def Let_def mm_def split: prod.split)
qed


end
