(* ===== verification/Downloads.thy ===== *)
theory Downloads
  imports Http_Wire App_Config
begin

text \<open>
  What the downloads of \<open>commands/update_app.rs\<close>, \<open>commands/easytier.rs\<close> and \<open>easytier/downloader.rs\<close> share: answers of the
  HTTP client, files that are written chunk by chunk and renamed, and the loop that tries two sources three times
  each with growing pauses. The client and its network are parameters: every request may be answered anew.
\<close>

section \<open>Answers\<close>

text \<open>
  A \<open>reqwest::Response\<close>: status, its display form, the announced length, and the chunks of the body, each of which may
  fail to arrive.
\<close>

record net_response =
  rs_status :: nat
  rs_display :: string
  rs_length :: "u64 option"
  rs_chunks :: "(string + bytes) list"

type_synonym 'n http_get = "string \<Rightarrow> 'n \<Rightarrow> (string + net_response) \<times> 'n"

definition status_ok :: "net_response \<Rightarrow> bool" where
  "status_ok resp \<longleftrightarrow> 200 \<le> rs_status resp \<and> rs_status resp \<le> 299"

text \<open>\<open>Response::bytes\<close>\<close>

definition body_bytes :: "net_response \<Rightarrow> string + bytes" where
  "body_bytes resp = res_bind (res_map id (rs_chunks resp)) (\<lambda>bs. Inr (concat bs))"

section \<open>The drive\<close>

text \<open>
  Files with their permissions, and the directories that exist; a fault of \<open>set_permissions\<close> is the
  environment's.
\<close>

record drive =
  dk_fs :: fs
  dk_modes :: "path \<Rightarrow> nat"
  dk_mfault :: "path \<Rightarrow> string option"
  dk_dirs :: "path list"

definition content :: "drive \<Rightarrow> path \<Rightarrow> bytes option" where
  "content dk p = fs_data (dk_fs dk) p"

definition path_exists :: "drive \<Rightarrow> path \<Rightarrow> bool" where
  "path_exists dk p \<longleftrightarrow> fs_exists (dk_fs dk) p \<or> p \<in> set (dk_dirs dk)"

definition put_content :: "path \<Rightarrow> bytes \<Rightarrow> drive \<Rightarrow> drive" where
  "put_content p b dk =
    dk\<lparr>dk_fs := (dk_fs dk)\<lparr>fs_data := (fs_data (dk_fs dk))(p \<mapsto> b), fs_mtime := (fs_mtime (dk_fs dk))(p \<mapsto> fs_now (dk_fs dk))\<rparr>,
       dk_modes := (if content dk p = None then (dk_modes dk)(p := 420) else dk_modes dk)\<rparr>"

text \<open>
  \<open>File::create\<close>, \<open>write_all\<close> and \<open>flush\<close> on a handle. A write fault that leaves contents behind lets the file be
  opened.
\<close>

definition file_create :: "path \<Rightarrow> drive \<Rightarrow> (string + unit) \<times> drive" where
  "file_create p dk =
    (case fs_wfault (dk_fs dk) p of Some (e, None) \<Rightarrow> (Inl e, dk) | _ \<Rightarrow> (Inr (), put_content p [] dk))"

definition file_write_all :: "path \<Rightarrow> bytes \<Rightarrow> drive \<Rightarrow> (string + unit) \<times> drive" where
  "file_write_all p b dk =
    (case fs_wfault (dk_fs dk) p of
       Some (e, None) \<Rightarrow> (Inl e, dk)
     | Some (e, Some c) \<Rightarrow> (Inl e, put_content p c dk)
     | None \<Rightarrow> (Inr (), put_content p ((case content dk p of None \<Rightarrow> [] | Some c \<Rightarrow> c) @ b) dk))"

definition file_flush :: "path \<Rightarrow> drive \<Rightarrow> string + unit" where
  "file_flush p dk = (case fs_wfault (dk_fs dk) p of Some (e, _) \<Rightarrow> Inl e | None \<Rightarrow> Inr ())"

text \<open>\<open>rename\<close>, \<open>remove_file\<close> and \<open>set_permissions\<close>.\<close>

definition rename_file :: "path \<Rightarrow> path \<Rightarrow> drive \<Rightarrow> (string + unit) \<times> drive" where
  "rename_file src dst dk =
    (case (fs_wfault (dk_fs dk) src, fs_wfault (dk_fs dk) dst) of
       (Some (e, _), _) \<Rightarrow> (Inl e, dk)
     | (None, Some (e, _)) \<Rightarrow> (Inl e, dk)
     | (None, None) \<Rightarrow>
        (if content dk src = None then (Inl ''No such file or directory'', dk)
         else (Inr (), dk\<lparr>dk_fs := fs_rename src dst (dk_fs dk), dk_modes := (dk_modes dk)(dst := dk_modes dk src)\<rparr>)))"

definition remove_at :: "path \<Rightarrow> drive \<Rightarrow> drive" where
  "remove_at p dk = dk\<lparr>dk_fs := fs_remove p (dk_fs dk)\<rparr>"

definition set_mode :: "path \<Rightarrow> nat \<Rightarrow> drive \<Rightarrow> (string + unit) \<times> drive" where
  "set_mode p mode dk =
    (case dk_mfault dk p of Some e \<Rightarrow> (Inl e, dk) | None \<Rightarrow> (Inr (), dk\<lparr>dk_modes := (dk_modes dk)(p := mode)\<rparr>))"

text \<open>
  \<open>create_dir_all\<close> and \<open>remove_dir_all\<close>: all directories on the way are made; removing takes away everything below that
  can be removed.
\<close>

definition below :: "path \<Rightarrow> path \<Rightarrow> bool" where
  "below dir p \<longleftrightarrow> take (length dir) p = dir"

definition ancestors :: "path \<Rightarrow> path list" where
  "ancestors p = map (\<lambda>n. take n p) [0..<Suc (length p)]"

definition make_dirs :: "path \<Rightarrow> drive \<Rightarrow> (string + unit) \<times> drive" where
  "make_dirs dir dk =
    (case fs_create_dir_all dir (dk_fs dk) of
       Inl e \<Rightarrow> (Inl e, dk)
     | Inr _ \<Rightarrow>
        (if list_ex (fs_exists (dk_fs dk)) (ancestors dir) then (Inl ''Not a directory'', dk)
         else (Inr (), dk\<lparr>dk_dirs := dk_dirs dk @ filter (\<lambda>d. d \<notin> set (dk_dirs dk)) (ancestors dir)\<rparr>)))"

definition remove_dirs :: "path \<Rightarrow> drive \<Rightarrow> (string + unit) \<times> drive" where
  "remove_dirs dir dk =
    (case fs_wfault (dk_fs dk) dir of
       Some (e, _) \<Rightarrow> (Inl e, dk)
     | None \<Rightarrow>
        (if dir \<notin> set (dk_dirs dk) then (Inl ''No such file or directory'', dk)
         else (Inr (), dk\<lparr>dk_fs := (dk_fs dk)\<lparr>fs_data := \<lambda>p. if below dir p \<and> fs_wfault (dk_fs dk) p = None then None else content dk p\<rparr>,
                          dk_dirs := filter (\<lambda>d. \<not> below dir d) (dk_dirs dk)\<rparr>)))"

section \<open>Downloads in progress\<close>

text \<open>
  The network, the drive, the addresses asked for so far, the milliseconds paused and the progress reported: pairs of the
  bytes received and the bytes announced, of which the receiver is shown the quotient.
\<close>

record 'n download =
  dl_net :: 'n
  dl_drive :: drive
  dl_asked :: "string list"
  dl_paused :: nat
  dl_progress :: "(u64 \<times> u64) list"

definition ask :: "'n http_get \<Rightarrow> string \<Rightarrow> 'n download \<Rightarrow> (string + net_response) \<times> 'n download" where
  "ask get url s = (let (r, n) = get url (dl_net s) in (r, s\<lparr>dl_net := n, dl_asked := dl_asked s @ [url]\<rparr>))"

definition on_drive :: "(drive \<Rightarrow> (string + 'a) \<times> drive) \<Rightarrow> 'n download \<Rightarrow> (string + 'a) \<times> 'n download" where
  "on_drive f s = (let (r, dk) = f (dl_drive s) in (r, s\<lparr>dl_drive := dk\<rparr>))"

definition report :: "u64 \<Rightarrow> u64 \<Rightarrow> 'n download \<Rightarrow> 'n download" where
  "report got announced s = s\<lparr>dl_progress := dl_progress s @ [(got, announced)]\<rparr>"

text \<open>\<open>MAX_RETRIES\<close> and \<open>BASE_DELAY_MS\<close> of the three functions, and the pause after a failed attempt.\<close>

definition DOWNLOAD_RETRIES :: nat where "DOWNLOAD_RETRIES = 3"
definition BASE_DELAY_MS :: nat where "BASE_DELAY_MS = 1000"

definition pause_after :: "nat \<Rightarrow> 'n download \<Rightarrow> 'n download" where
  "pause_after attempt s =
    (if attempt < DOWNLOAD_RETRIES then s\<lparr>dl_paused := dl_paused s + BASE_DELAY_MS * 2 ^ (attempt - 1)\<rparr> else s)"

text \<open>The body of a response into an open file, with its progress.\<close>

fun write_stream :: "path \<Rightarrow> u64 \<Rightarrow> u64 \<Rightarrow> (string + bytes) list \<Rightarrow> 'n download \<Rightarrow> (string + unit) \<times> 'n download" where
  "write_stream p announced downloaded [] s = (Inr (), s)"
| "write_stream p announced downloaded (Inl e # chunks) s = (Inl (utf8_text [232, 175, 187, 229, 143, 150, 228, 184, 139, 232, 189, 189, 230, 149, 176, 230, 141, 174, 229, 164, 177, 232, 180, 165] @ '': '' @ e), s)"
| "write_stream p announced downloaded (Inr chunk # chunks) s =
    (case on_drive (file_write_all p chunk) s of
       (Inl e, s) \<Rightarrow> (Inl (utf8_text [229, 134, 153, 229, 133, 165, 228, 184, 180, 230, 151, 182, 230, 150, 135, 228, 187, 182, 229, 164, 177, 232, 180, 165] @ '': '' @ e), s)
     | (Inr _, s) \<Rightarrow>
        (let downloaded = downloaded + word_of_nat (length chunk);
             s = (if announced > 0 then report downloaded announced s else s)
         in write_stream p announced downloaded chunks s))"

text \<open>
  The temporary file of one answer: created, filled, flushed and renamed. Both downloads with progress do this, and give
  up for good when a step fails.
\<close>

definition save_body :: "path \<Rightarrow> path \<Rightarrow> net_response \<Rightarrow> 'n download \<Rightarrow> (string + unit) \<times> 'n download" where
  "save_body tmp dest resp s =
    (case on_drive (file_create tmp) s of
       (Inl e, s) \<Rightarrow> (Inl (utf8_text [229, 136, 155, 229, 187, 186, 228, 184, 180, 230, 151, 182, 230, 150, 135, 228, 187, 182, 229, 164, 177, 232, 180, 165] @ '': '' @ e), s)
     | (Inr _, s) \<Rightarrow>
        (case write_stream tmp (case rs_length resp of Some n \<Rightarrow> n | None \<Rightarrow> 0) 0 (rs_chunks resp) s of
           (Inl e, s) \<Rightarrow> (Inl e, s)
         | (Inr _, s) \<Rightarrow>
            (case file_flush tmp (dl_drive s) of
               Inl e \<Rightarrow> (Inl (utf8_text [229, 136, 183, 230, 150, 176, 230, 150, 135, 228, 187, 182, 229, 164, 177, 232, 180, 165] @ '': '' @ e), s)
             | Inr _ \<Rightarrow>
                (case on_drive (rename_file tmp dest) s of
                   (Inl e, s) \<Rightarrow> (Inl (utf8_text [233, 135, 141, 229, 145, 189, 229, 144, 141, 228, 184, 180, 230, 151, 182, 230, 150, 135, 228, 187, 182, 229, 164, 177, 232, 180, 165] @ '': '' @ e), s)
                 | (Inr _, s) \<Rightarrow> (Inr (), s)))))"

section \<open>The loop over sources and attempts\<close>

text \<open>
  One turn either returns from the function, or leaves an error and goes on. The turns are the attempts 1 to 3 at each
  source.
\<close>

datatype 'r turn = Again string | Return "string + 'r"

definition turns :: "(string \<times> string) list \<Rightarrow> (string \<times> string \<times> nat) list" where
  "turns urls = concat (map (\<lambda>(url, label). map (\<lambda>k. (url, label, k)) [1..<Suc DOWNLOAD_RETRIES]) urls)"

definition gave_up :: "nat \<Rightarrow> string \<Rightarrow> string" where
  "gave_up sources last_err =
    utf8_text [228, 184, 139, 232, 189, 189, 229, 164, 177, 232, 180, 165] @ '' ('' @ utf8_text [233, 135, 141, 232, 175, 149] @ '' '' @ dec DOWNLOAD_RETRIES @ '' '' @ utf8_text [230, 172, 161] @ '', '' @ dec sources @ '' '' @ utf8_text [228, 184, 170, 230, 186, 144] @ ''): '' @ last_err"

fun retry_turns ::
  "(string \<times> string \<times> nat \<Rightarrow> 's \<Rightarrow> 'r turn \<times> 's) \<Rightarrow> nat \<Rightarrow> (string \<times> string \<times> nat) list \<Rightarrow> string \<Rightarrow> 's \<Rightarrow> (string + 'r) \<times> 's" where
  "retry_turns attempt sources [] last_err s = (Inl (gave_up sources last_err), s)"
| "retry_turns attempt sources (t # ts) last_err s =
    (case attempt t s of (Again e, s) \<Rightarrow> retry_turns attempt sources ts e s | (Return r, s) \<Rightarrow> (r, s))"

definition retry_sources :: "(string \<times> string \<times> nat \<Rightarrow> 's \<Rightarrow> 'r turn \<times> 's) \<Rightarrow> (string \<times> string) list \<Rightarrow> 's \<Rightarrow> (string + 'r) \<times> 's" where
  "retry_sources attempt urls s = retry_turns attempt (length urls) (turns urls) [] s"

section \<open>What every download keeps\<close>

named_theorems download_simps "unfolding rules of the download steps"

lemmas [download_simps] = ask_def on_drive_def report_def pause_after_def

lemma content_put [simp]: "content (put_content p b dk) q = (if q = p then Some b else content dk q)"
  by (simp add: content_def put_content_def)

lemma put_faults [simp]:
  "fs_wfault (dk_fs (put_content p b dk)) = fs_wfault (dk_fs dk)" "fs_rfault (dk_fs (put_content p b dk)) = fs_rfault (dk_fs dk)"
  "dk_mfault (put_content p b dk) = dk_mfault dk" "dk_dirs (put_content p b dk) = dk_dirs dk"
  by (simp_all add: put_content_def)

text \<open>Files outside a set of paths stay as they are, with their permissions.\<close>

definition same_outside :: "path set \<Rightarrow> drive \<Rightarrow> drive \<Rightarrow> bool" where
  "same_outside A dk dk' \<longleftrightarrow> (\<forall>p. p \<notin> A \<longrightarrow> content dk' p = content dk p \<and> (content dk p \<noteq> None \<longrightarrow> dk_modes dk' p = dk_modes dk p))"

lemma same_outside_refl [simp, intro]: "same_outside A dk dk"
  by (simp add: same_outside_def)

lemma same_outside_trans [trans]: "same_outside A a b \<Longrightarrow> same_outside A b c \<Longrightarrow> same_outside A a c"
  by (auto simp: same_outside_def)

lemma same_outside_put: "p \<in> A \<Longrightarrow> same_outside A dk (put_content p b dk)"
  by (auto simp: same_outside_def put_content_def content_def)

lemma same_outside_create: "p \<in> A \<Longrightarrow> same_outside A dk (snd (file_create p dk))"
  by (simp add: file_create_def same_outside_put split: option.split prod.split)

lemma same_outside_write: "p \<in> A \<Longrightarrow> same_outside A dk (snd (file_write_all p b dk))"
  by (simp add: file_write_all_def same_outside_put split: option.split prod.split)

lemma same_outside_rename: "src \<in> A \<Longrightarrow> dst \<in> A \<Longrightarrow> same_outside A dk (snd (rename_file src dst dk))"
  by (auto simp: same_outside_def rename_file_def content_def fs_rename_def split: option.split prod.split)

lemma same_outside_remove: "p \<in> A \<Longrightarrow> same_outside A dk (remove_at p dk)"
  by (auto simp: same_outside_def remove_at_def fs_remove_def content_def)

lemma same_outside_mode: "p \<in> A \<Longrightarrow> same_outside A dk (snd (set_mode p m dk))"
  by (auto simp: same_outside_def set_mode_def content_def split: option.split)

lemma same_outside_dirs: "same_outside A dk (snd (make_dirs dir dk))"
  by (auto simp: same_outside_def make_dirs_def content_def split: sum.split)

lemmas same_outside_intros = same_outside_create same_outside_write same_outside_rename same_outside_remove same_outside_mode same_outside_dirs

text \<open>Steps that ask nothing, do not pause and keep the files outside a set.\<close>

definition quiet :: "path set \<Rightarrow> 'n download \<Rightarrow> 'n download \<Rightarrow> bool" where
  "quiet A s s' \<longleftrightarrow> same_outside A (dl_drive s) (dl_drive s') \<and> dl_asked s' = dl_asked s \<and> dl_paused s' = dl_paused s"

lemma quiet_refl [simp, intro]: "quiet A s s"
  by (simp add: quiet_def)

lemma quiet_trans [trans]: "quiet A a b \<Longrightarrow> quiet A b c \<Longrightarrow> quiet A a c"
  by (auto simp: quiet_def intro: same_outside_trans)

lemma quiet_on_drive: "(\<And>dk. same_outside A dk (snd (f dk))) \<Longrightarrow> on_drive f s = (r, s') \<Longrightarrow> quiet A s s'"
  by (auto simp: on_drive_def quiet_def split: prod.splits) (metis snd_conv)

lemma quiet_report: "quiet A s (report a b s)"
  by (simp add: quiet_def report_def)

lemma quiet_stream: "p \<in> A \<Longrightarrow> write_stream p announced n chunks s = (r, s') \<Longrightarrow> quiet A s s'"
proof (induction p announced n chunks s arbitrary: r s' rule: write_stream.induct)
  case (3 p announced downloaded chunk chunks s)
  obtain x s1 where x: "on_drive (file_write_all p chunk) s = (x, s1)" by (cases "on_drive (file_write_all p chunk) s")
  have k: "quiet A s s1" by (rule quiet_on_drive [OF same_outside_write [OF 3(2)] x])
  show ?case
  proof (cases x)
    case (Inl e)
    then show ?thesis using 3(3) x k by simp
  next
    case (Inr u)
    let ?s2 = "if announced > 0 then report (downloaded + word_of_nat (length chunk)) announced s1 else s1"
    have "write_stream p announced (downloaded + word_of_nat (length chunk)) chunks ?s2 = (r, s')"
      using 3(3) x Inr by (simp add: Let_def)
    then have "quiet A ?s2 s'" by (rule 3(1) [OF x [symmetric] Inr refl refl 3(2)])
    moreover have "quiet A s1 ?s2" by (simp add: quiet_report)
    ultimately show ?thesis using k by (blast intro: quiet_trans)
  qed
qed auto

lemma quiet_save:
  assumes "tmp \<in> A" and "dest \<in> A" and "save_body tmp dest resp s = (r, s')"
  shows "quiet A s s'"
proof -
  note keep = quiet_on_drive [OF same_outside_create [OF assms(1)]] quiet_on_drive [OF same_outside_rename [OF assms(1,2)]]
    quiet_stream [OF assms(1)]
  show ?thesis using assms(3)
    by (auto simp: save_body_def split: prod.splits sum.splits dest!: keep intro: quiet_trans)
qed

lemma save_quiet: "save_body tmp dest resp s = (r, s') \<Longrightarrow> quiet {tmp, dest} s s'"
  by (rule quiet_save) auto

text \<open>A body that was saved is the whole body.\<close>

lemma write_stream_content:
  "write_stream p announced n chunks s = (Inr (), s') \<Longrightarrow> content (dl_drive s) p = Some b \<Longrightarrow>
    \<exists>bs. res_map id chunks = Inr bs \<and> content (dl_drive s') p = Some (b @ concat bs)"
proof (induction p announced n chunks s arbitrary: b rule: write_stream.induct)
  case (3 p announced downloaded chunk chunks s)
  obtain x s1 where x: "on_drive (file_write_all p chunk) s = (x, s1)" by (cases "on_drive (file_write_all p chunk) s")
  with 3(2) obtain u where Inr: "x = Inr u" by (cases x) auto
  let ?s2 = "if announced > 0 then report (downloaded + word_of_nat (length chunk)) announced s1 else s1"
  have w: "write_stream p announced (downloaded + word_of_nat (length chunk)) chunks ?s2 = (Inr (), s')"
    using 3(2) x Inr by (simp add: Let_def)
  have "content (dl_drive s1) p = Some (b @ chunk)"
    using x Inr 3(3) by (auto simp: on_drive_def file_write_all_def split: prod.splits option.splits)
  then have "content (dl_drive ?s2) p = Some (b @ chunk)" by (simp add: report_def)
  from 3(1) [OF x [symmetric] Inr refl refl w this] show ?case by auto
qed auto

lemma save_body_content:
  assumes "save_body tmp dest resp s = (Inr (), s')"
  shows "\<exists>b. body_bytes resp = Inr b \<and> content (dl_drive s') dest = Some b"
proof -
  let ?n = "case rs_length resp of Some n \<Rightarrow> n | None \<Rightarrow> 0"
  obtain s1 s2 where s: "on_drive (file_create tmp) s = (Inr (), s1)" "write_stream tmp ?n 0 (rs_chunks resp) s1 = (Inr (), s2)"
      "on_drive (rename_file tmp dest) s2 = (Inr (), s')"
    using assms by (auto simp: save_body_def split: prod.splits sum.splits)
  have "content (dl_drive s1) tmp = Some []"
    using s(1) by (auto simp: on_drive_def file_create_def split: prod.splits option.splits)
  from write_stream_content [OF s(2) this] obtain bs where "res_map id (rs_chunks resp) = Inr bs" "content (dl_drive s2) tmp = Some (concat bs)" by auto
  moreover from this(2) s(3) have "content (dl_drive s') dest = Some (concat bs)"
    by (auto simp: on_drive_def rename_file_def fs_rename_def content_def split: prod.splits option.splits)
  ultimately show ?thesis by (simp add: body_bytes_def)
qed

locale bounded_turns =
  fixes attempt :: "string \<times> string \<times> nat \<Rightarrow> 'n download \<Rightarrow> 'r turn \<times> 'n download"
  assumes one_request: "attempt (url, label, k) s = (t, s') \<Longrightarrow> \<exists>asked. dl_asked s' = dl_asked s @ asked \<and> asked \<in> {[], [url]}"
    and one_pause: "attempt (url, label, k) s = (t, s') \<Longrightarrow> dl_paused s' \<le> dl_paused s + (if k < DOWNLOAD_RETRIES then BASE_DELAY_MS * 2 ^ (k - 1) else 0)"
begin

lemma turns_bounded:
  "retry_turns attempt n ts e s = (r, s') \<Longrightarrow>
    (\<exists>asked. dl_asked s' = dl_asked s @ asked \<and> length asked \<le> length ts \<and> set asked \<subseteq> fst ` set ts) \<and>
    dl_paused s' \<le> dl_paused s + sum_list (map (\<lambda>(url, label, k). if k < DOWNLOAD_RETRIES then BASE_DELAY_MS * 2 ^ (k - 1) else 0) ts)"
proof (induction ts arbitrary: e s)
  case (Cons t ts)
  obtain url label k where t: "t = (url, label, k)" by (cases t)
  obtain a s1 where a: "attempt t s = (a, s1)" by (cases "attempt t s")
  from one_request [OF a [unfolded t]] obtain q where q: "dl_asked s1 = dl_asked s @ q" "q \<in> {[], [url]}" by blast
  have p: "dl_paused s1 \<le> dl_paused s + (if k < DOWNLOAD_RETRIES then BASE_DELAY_MS * 2 ^ (k - 1) else 0)" using one_pause [OF a [unfolded t]] .
  show ?case
  proof (cases a)
    case (Again e')
    with Cons.prems a have "retry_turns attempt n ts e' s1 = (r, s')" by simp
    from Cons.IH [OF this] obtain asked where "dl_asked s' = dl_asked s1 @ asked" "length asked \<le> length ts" "set asked \<subseteq> fst ` set ts"
      and "dl_paused s' \<le> dl_paused s1 + sum_list (map (\<lambda>(url, label, k). if k < DOWNLOAD_RETRIES then BASE_DELAY_MS * 2 ^ (k - 1) else 0) ts)" by blast
    with q p t show ?thesis by (intro conjI exI [of _ "q @ asked"]) auto
  next
    case (Return x)
    with Cons.prems a q p t show ?thesis by auto
  qed
qed auto

lemma turns_length: "length (turns urls) = 3 * length urls"
  by (induction urls) (auto simp: turns_def DOWNLOAD_RETRIES_def)

lemma turns_pauses:
  "sum_list (map (\<lambda>(url, label, k). if k < DOWNLOAD_RETRIES then BASE_DELAY_MS * 2 ^ (k - 1) else 0) (turns urls)) = 3000 * length urls"
  by (induction urls) (auto simp: turns_def DOWNLOAD_RETRIES_def BASE_DELAY_MS_def numeral_3_eq_3)

lemma turns_urls: "fst ` set (turns urls) = fst ` set urls"
  by (force simp: turns_def DOWNLOAD_RETRIES_def image_iff)

lemma retry_bounded:
  "retry_sources attempt urls s = (r, s') \<Longrightarrow>
    (\<exists>asked. dl_asked s' = dl_asked s @ asked \<and> length asked \<le> 3 * length urls \<and> set asked \<subseteq> fst ` set urls) \<and>
    dl_paused s' \<le> dl_paused s + 3000 * length urls"
  using turns_bounded [of "length urls" "turns urls" "[]" s r s'] by (simp add: retry_sources_def turns_length turns_pauses turns_urls)

end

locale framed_turns = bounded_turns attempt
  for attempt :: "string \<times> string \<times> nat \<Rightarrow> 'n download \<Rightarrow> 'r turn \<times> 'n download" +
  fixes A :: "path set"
  assumes framed: "attempt t s = (x, s') \<Longrightarrow> same_outside A (dl_drive s) (dl_drive s')"
begin

lemma turns_framed: "retry_turns attempt n ts e s = (r, s') \<Longrightarrow> same_outside A (dl_drive s) (dl_drive s')"
proof (induction ts arbitrary: e s)
  case (Cons t ts)
  obtain a s1 where "attempt t s = (a, s1)" by (cases "attempt t s")
  with Cons framed [of t s a s1] show ?case by (cases a) (auto intro: same_outside_trans)
qed simp

lemma retry_framed: "retry_sources attempt urls s = (r, s') \<Longrightarrow> same_outside A (dl_drive s) (dl_drive s')"
  unfolding retry_sources_def by (rule turns_framed)

end

end
