(* ===== verification/App_Update.thy ===== *)
theory App_Update
  imports Downloads Crypto_Box Easytier_Manager
begin

text \<open>
  Updates of the application itself, \<open>src-tauri/src/commands/update_app.rs\<close>: comparison of versions, the latest release,
  the checksum file, the download of the AppImage with its sources and attempts, and the replacement of the running
  file. The HTTP client, the JSON parser, \<open>to_lowercase\<close> and the hash are parameters, and so are the platform, the
  environment variable and the version the program was built with.
\<close>

section \<open>Data\<close>

record check_result =
  cu_current :: string
  cu_latest :: "string option"
  cu_has_update :: bool

record update_outcome =
  uo_action :: string

record github_asset =
  ga_name :: string
  ga_url :: string

record github_release =
  gr_tag_name :: string
  gr_assets :: "github_asset list"

definition RELEASE_LATEST_URL :: string where
  "RELEASE_LATEST_URL = ''https://api.github.com/repos/gmtfHomeHub/homeTier/releases/latest''"

record 'n update_env =
  ue_get :: "'n http_get"
  ue_client :: "string + unit"
  ue_text :: "bytes \<Rightarrow> string"
  ue_release :: "string \<Rightarrow> string + github_release"
  ue_lower :: "string \<Rightarrow> string"
  ue_prims :: primitives
  ue_config :: app_config
  ue_version :: string
  ue_linux :: bool
  ue_arch :: string
  ue_appimage :: "string option"
  ue_cwd :: path

section \<open>Versions\<close>

definition version_parts :: "string \<Rightarrow> int list" where
  "version_parts v =
    map (\<lambda>s. case parse_i32 s of Some n \<Rightarrow> n | None \<Rightarrow> 0) (split_str ''.'' (trim_start_matches ''v'' v))"

definition part_at :: "int list \<Rightarrow> nat \<Rightarrow> int" where
  "part_at ps i = (if i < length ps then ps ! i else 0)"

fun compare_from :: "nat list \<Rightarrow> int list \<Rightarrow> int list \<Rightarrow> int" where
  "compare_from [] pa pb = 0"
| "compare_from (i # is) pa pb =
    (if part_at pa i > part_at pb i then 1 else if part_at pa i < part_at pb i then - 1 else compare_from is pa pb)"

definition compare_versions :: "string \<Rightarrow> string \<Rightarrow> int" where
  "compare_versions a b =
    (let pa = version_parts a; pb = version_parts b in compare_from [0..<max (length pa) (length pb)] pa pb)"

section \<open>Asking for releases\<close>

definition mirror_of :: "app_config \<Rightarrow> string" where
  "mirror_of conf = ac_get_str conf ''GITHUB_MIRROR'' ''https://ghproxy.top''"

definition http_client :: "'n update_env \<Rightarrow> string + unit" where
  "http_client E = (case ue_client E of Inl e \<Rightarrow> Inl (utf8_text [229, 136, 155, 229, 187, 186] @ '' HTTP '' @ utf8_text [229, 174, 162, 230, 136, 183, 231, 171, 175, 229, 164, 177, 232, 180, 165] @ '': '' @ e) | Inr _ \<Rightarrow> Inr ())"

definition response_text :: "'n update_env \<Rightarrow> net_response \<Rightarrow> string + string" where
  "response_text E resp = (case body_bytes resp of Inl e \<Rightarrow> Inl e | Inr b \<Rightarrow> Inr (ue_text E b))"

definition fetch_latest_release :: "'n update_env \<Rightarrow> 'n download \<Rightarrow> (string + github_release) \<times> 'n download" where
  "fetch_latest_release E s =
    (case http_client E of
       Inl e \<Rightarrow> (Inl e, s)
     | Inr _ \<Rightarrow>
        (case ask (ue_get E) RELEASE_LATEST_URL s of
           (Inl e, s) \<Rightarrow> (Inl (utf8_text [232, 142, 183, 229, 143, 150, 230, 156, 128, 230, 150, 176, 231, 137, 136, 230, 156, 172, 229, 164, 177, 232, 180, 165] @ '': '' @ e), s)
         | (Inr resp, s) \<Rightarrow>
            (if \<not> status_ok resp then (Inl (''GitHub API '' @ utf8_text [232, 191, 148, 229, 155, 158, 233, 148, 153, 232, 175, 175] @ '': '' @ rs_display resp), s)
             else (case response_text E resp of
                     Inl e \<Rightarrow> (Inl (utf8_text [232, 175, 187, 229, 143, 150, 229, 147, 141, 229, 186, 148, 229, 164, 177, 232, 180, 165] @ '': '' @ e), s)
                   | Inr t \<Rightarrow> (case ue_release E t of
                                 Inl e \<Rightarrow> (Inl (utf8_text [232, 167, 163, 230, 158, 144, 229, 147, 141, 229, 186, 148, 229, 164, 177, 232, 180, 165] @ '': '' @ e), s)
                               | Inr release \<Rightarrow> (Inr release, s))))))"

definition check_app_update :: "'n update_env \<Rightarrow> 'n download \<Rightarrow> check_result \<times> 'n download" where
  "check_app_update E s =
    (case fetch_latest_release E s of
       (Inl _, s) \<Rightarrow> (\<lparr>cu_current = ue_version E, cu_latest = None, cu_has_update = False\<rparr>, s)
     | (Inr release, s) \<Rightarrow>
        (let latest = trim_start_matches ''v'' (gr_tag_name release) in
         (\<lparr>cu_current = ue_version E, cu_latest = Some latest, cu_has_update = compare_versions latest (ue_version E) > 0\<rparr>, s)))"

definition appimage_asset_keyword :: "'n update_env \<Rightarrow> string option" where
  "appimage_asset_keyword E =
    (if ue_arch E = ''x86_64'' then Some ''homeTier-linux-x86_64-''
     else if ue_arch E = ''aarch64'' then Some ''homeTier-linux-aarch64-'' else None)"

section \<open>Downloading\<close>

definition asset_attempt ::
  "'n update_env \<Rightarrow> path \<Rightarrow> path \<Rightarrow> string \<times> string \<times> nat \<Rightarrow> 'n download \<Rightarrow> path turn \<times> 'n download" where
  "asset_attempt E tmp_path dest_path = (\<lambda>(url, label, attempt) s.
    case ask (ue_get E) url s of
      (Inl e, s) \<Rightarrow> (Again (label @ '' '' @ utf8_text [228, 184, 139, 232, 189, 189, 229, 164, 177, 232, 180, 165] @ '': '' @ e), pause_after attempt s)
    | (Inr resp, s) \<Rightarrow>
       (if \<not> status_ok resp then (Again (label @ '' '' @ utf8_text [232, 191, 148, 229, 155, 158] @ '' HTTP '' @ rs_display resp), pause_after attempt s)
        else (case save_body tmp_path dest_path resp s of
                (Inl e, s) \<Rightarrow> (Return (Inl e), s)
              | (Inr _, s) \<Rightarrow> (Return (Inr dest_path), s))))"

definition asset_urls :: "'n update_env \<Rightarrow> string \<Rightarrow> bool \<Rightarrow> (string \<times> string) list" where
  "asset_urls E url use_proxy =
    (let direct = (url, utf8_text [231, 155, 180, 232, 191, 158]); proxy = (mirror_of (ue_config E) @ ''/'' @ url, utf8_text [228, 187, 163, 231, 144, 134]) in
     if use_proxy then [proxy, direct] else [direct, proxy])"

definition download_asset ::
  "'n update_env \<Rightarrow> string \<Rightarrow> string \<Rightarrow> path \<Rightarrow> bool \<Rightarrow> 'n download \<Rightarrow> (string + path) \<times> 'n download" where
  "download_asset E url asset_name dest_dir use_proxy s =
    (case http_client E of
       Inl e \<Rightarrow> (Inl e, s)
     | Inr _ \<Rightarrow>
        retry_sources (asset_attempt E (path_join dest_dir (asset_name @ ''.tmp'')) (path_join dest_dir asset_name))
          (asset_urls E url use_proxy) s)"

fun find_checksum_in :: "(string \<Rightarrow> string) \<Rightarrow> string \<Rightarrow> string list \<Rightarrow> string option" where
  "find_checksum_in lower asset_name [] = None"
| "find_checksum_in lower asset_name (line # ls) =
    (case split_whitespace line of
       hash # name # _ \<Rightarrow> if name = asset_name then Some (lower hash) else find_checksum_in lower asset_name ls
     | _ \<Rightarrow> find_checksum_in lower asset_name ls)"

definition find_checksum :: "(string \<Rightarrow> string) \<Rightarrow> string \<Rightarrow> string \<Rightarrow> string option" where
  "find_checksum lower text asset_name = find_checksum_in lower asset_name (lines text)"

definition fetch_checksum :: "'n update_env \<Rightarrow> github_asset list \<Rightarrow> string \<Rightarrow> 'n download \<Rightarrow> (string + string) \<times> 'n download" where
  "fetch_checksum E assets asset_name s =
    (case find (\<lambda>a. ga_name a = ''checksums.txt'') assets of
       None \<Rightarrow> (Inl (utf8_text [229, 143, 145, 229, 184, 131, 231, 188, 186, 229, 176, 145] @ '' checksums.txt '' @ utf8_text [230, 160, 161, 233, 170, 140, 230, 150, 135, 228, 187, 182]), s)
     | Some checksum_asset \<Rightarrow>
        (case http_client E of
           Inl e \<Rightarrow> (Inl e, s)
         | Inr _ \<Rightarrow>
            (case ask (ue_get E) (mirror_of (ue_config E) @ ''/'' @ ga_url checksum_asset) s of
               (Inl e, s) \<Rightarrow> (Inl (utf8_text [228, 184, 139, 232, 189, 189, 230, 160, 161, 233, 170, 140, 230, 150, 135, 228, 187, 182, 229, 164, 177, 232, 180, 165] @ '': '' @ e), s)
             | (Inr resp, s) \<Rightarrow>
                (if \<not> status_ok resp then (Inl (utf8_text [228, 184, 139, 232, 189, 189, 230, 160, 161, 233, 170, 140, 230, 150, 135, 228, 187, 182, 232, 191, 148, 229, 155, 158] @ '' HTTP '' @ rs_display resp), s)
                 else (case response_text E resp of
                         Inl e \<Rightarrow> (Inl (utf8_text [232, 175, 187, 229, 143, 150, 230, 160, 161, 233, 170, 140, 230, 150, 135, 228, 187, 182, 229, 164, 177, 232, 180, 165] @ '': '' @ e), s)
                       | Inr t \<Rightarrow> (case find_checksum (ue_lower E) t asset_name of
                                     None \<Rightarrow> (Inl (utf8_text [230, 160, 161, 233, 170, 140, 230, 150, 135, 228, 187, 182, 228, 184, 173, 230, 156, 170, 230, 137, 190, 229, 136, 176] @ '' '' @ asset_name @ '' '' @ utf8_text [231, 154, 132, 229, 147, 136, 229, 184, 140]), s)
                                   | Some hash \<Rightarrow> (Inr hash, s)))))))"

section \<open>Replacing the application\<close>

definition app_path :: "'n update_env \<Rightarrow> path" where
  "app_path E = path_join (ue_cwd E) (case ue_appimage E of Some v \<Rightarrow> v | None \<Rightarrow> [])"

definition open_release :: "string + update_outcome" where "open_release = Inr \<lparr>uo_action = ''open_release''\<rparr>"
definition installed :: "string + update_outcome" where "installed = Inr \<lparr>uo_action = ''installed''\<rparr>"

text \<open>The downloaded file is checked, made executable and put in the place of the running one.\<close>

definition replace_app :: "'n update_env \<Rightarrow> string \<Rightarrow> path \<Rightarrow> 'n download \<Rightarrow> (string + update_outcome) \<times> 'n download" where
  "replace_app E expected downloaded s =
    (case fs_read (dk_fs (dl_drive s)) downloaded of
       Inl e \<Rightarrow> (Inl (utf8_text [232, 175, 187, 229, 143, 150, 229, 174, 137, 232, 163, 133, 229, 140, 133, 229, 164, 177, 232, 180, 165] @ '': '' @ e), s)
     | Inr bytes \<Rightarrow>
        (let actual = sha256_hex (ue_prims E) bytes in
         if actual \<noteq> expected
         then (Inl (utf8_text [229, 174, 137, 232, 163, 133, 229, 140, 133, 230, 160, 161, 233, 170, 140, 229, 164, 177, 232, 180, 165] @ '' ('' @ utf8_text [230, 156, 159, 230, 156, 155] @ '' '' @ expected @ utf8_text [239, 188, 140, 229, 174, 158, 233, 153, 133] @ '' '' @ actual @ '')''), s\<lparr>dl_drive := remove_at downloaded (dl_drive s)\<rparr>)
         else (case on_drive (set_mode downloaded 493) s of
                 (Inl e, s) \<Rightarrow> (Inl (utf8_text [232, 174, 190, 231, 189, 174, 230, 137, 167, 232, 161, 140, 230, 157, 131, 233, 153, 144, 229, 164, 177, 232, 180, 165] @ '': '' @ e), s)
               | (Inr _, s) \<Rightarrow>
                  (case on_drive (rename_file downloaded (app_path E)) s of
                     (Inl e, s) \<Rightarrow> (Inl (utf8_text [230, 155, 191, 230, 141, 162, 229, 174, 137, 232, 163, 133, 229, 140, 133, 229, 164, 177, 232, 180, 165] @ '': '' @ e), s)
                   | (Inr _, s) \<Rightarrow> (installed, s)))))"

text \<open>Progress starts with the value 0.\<close>

definition upgrade_app_inner :: "'n update_env \<Rightarrow> bool \<Rightarrow> 'n download \<Rightarrow> (string + update_outcome) \<times> 'n download" where
  "upgrade_app_inner E use_proxy s =
    (if \<not> ue_linux E then (open_release, s)
     else if (case ue_appimage E of Some v \<Rightarrow> v = [] | None \<Rightarrow> True) \<or> \<not> path_exists (dl_drive s) (app_path E) then (open_release, s)
     else (case appimage_asset_keyword E of
             None \<Rightarrow> (open_release, s)
           | Some keyword \<Rightarrow>
              (case fetch_latest_release E s of
                 (Inl e, s) \<Rightarrow> (Inl e, s)
               | (Inr release, s) \<Rightarrow>
                  (case find (\<lambda>a. starts_with (ga_name a) keyword \<and> ends_with (ga_name a) ''.AppImage'') (gr_assets release) of
                     None \<Rightarrow> (Inl (utf8_text [230, 156, 128, 230, 150, 176, 231, 137, 136, 230, 156, 172, 230, 156, 170, 230, 137, 190, 229, 136, 176] @ '' '' @ keyword @ '' '' @ utf8_text [229, 185, 179, 229, 143, 176, 229, 174, 137, 232, 163, 133, 229, 140, 133]), s)
                   | Some asset \<Rightarrow>
                      (case fetch_checksum E (gr_assets release) (ga_name asset) (report 0 1 s) of
                         (Inl e, s) \<Rightarrow> (Inl e, s)
                       | (Inr expected, s) \<Rightarrow>
                          (if app_path E = [] then (Inl (utf8_text [230, 151, 160, 230, 179, 149, 231, 161, 174, 229, 174, 154, 229, 174, 137, 232, 163, 133, 231, 155, 174, 229, 189, 149]), s)
                           else (case on_drive (make_dirs (butlast (app_path E))) s of
                                   (Inl e, s) \<Rightarrow> (Inl (utf8_text [229, 136, 155, 229, 187, 186, 231, 155, 174, 229, 189, 149, 229, 164, 177, 232, 180, 165] @ '': '' @ e), s)
                                 | (Inr _, s) \<Rightarrow>
                                    (case download_asset E (ga_url asset) (ga_name asset) (butlast (app_path E)) use_proxy s of
                                       (Inl e, s) \<Rightarrow> (Inl e, s)
                                     | (Inr downloaded, s) \<Rightarrow> replace_app E expected downloaded s))))))))"

section \<open>Versions are compared by their numbers\<close>

text \<open>The order that is meant: the first number that differs decides, and missing numbers are 0.\<close>

definition newer :: "int list \<Rightarrow> int list \<Rightarrow> bool" where
  "newer pa pb \<longleftrightarrow> (\<exists>i. part_at pa i > part_at pb i \<and> (\<forall>j < i. part_at pa j = part_at pb j))"

lemma newer_asym: "newer pa pb \<Longrightarrow> \<not> newer pb pa"
  unfolding newer_def by (metis linorder_neqE_nat not_less_iff_gr_or_eq order_less_asym)

lemma newer_trans: "newer pa pb \<Longrightarrow> newer pb pc \<Longrightarrow> newer pa pc"
  unfolding newer_def by (metis linorder_neqE_nat order_less_trans)

lemma newer_total: "newer pa pb \<or> newer pb pa \<or> (\<forall>i. part_at pa i = part_at pb i)"
proof (cases "\<forall>i. part_at pa i = part_at pb i")
  case False
  define i where "i = (LEAST i. part_at pa i \<noteq> part_at pb i)"
  from False have "part_at pa i \<noteq> part_at pb i" unfolding i_def by (metis (mono_tags, lifting) LeastI)
  moreover have "part_at pa j = part_at pb j" if "j < i" for j using not_less_Least that unfolding i_def by blast
  ultimately show ?thesis unfolding newer_def by (metis linorder_neqE)
qed simp

lemma compare_from_spec:
  assumes "length pa \<le> n" and "length pb \<le> n" and "k \<le> n" and "\<And>j. j < k \<Longrightarrow> part_at pa j = part_at pb j"
  shows "compare_from [k..<n] pa pb = (if newer pa pb then 1 else if newer pb pa then - 1 else 0)"
  using assms(3,4)
proof (induction "n - k" arbitrary: k)
  case 0
  then have "part_at pa i = part_at pb i" for i using assms(1,2) by (cases "i < n") (auto simp: part_at_def)
  then have "\<not> newer pa pb" "\<not> newer pb pa" by (auto simp: newer_def)
  with 0 show ?case by simp
next
  case (Suc d)
  then have k: "k < n" by simp
  consider "part_at pa k > part_at pb k" | "part_at pa k < part_at pb k" | "part_at pa k = part_at pb k" by linarith
  then show ?case
  proof cases
    case 1
    then have "newer pa pb" using Suc.prems(2) by (auto simp: newer_def)
    with 1 k show ?thesis by (simp add: upt_conv_Cons)
  next
    case 2
    then have "newer pb pa" using Suc.prems(2) by (auto simp: newer_def intro!: exI [of _ k])
    with 2 k newer_asym show ?thesis by (auto simp: upt_conv_Cons)
  next
    case 3
    have "compare_from [Suc k..<n] pa pb = (if newer pa pb then 1 else if newer pb pa then - 1 else 0)"
      using Suc.hyps(2) Suc.prems 3 k by (intro Suc.hyps(1)) (auto simp: less_Suc_eq)
    with 3 k show ?thesis by (simp add: upt_conv_Cons)
  qed
qed

lemma compare_versions_spec:
  "compare_versions a b =
    (if newer (version_parts a) (version_parts b) then 1 else if newer (version_parts b) (version_parts a) then - 1 else 0)"
  unfolding compare_versions_def Let_def by (rule compare_from_spec) auto

lemma trim_start_matches_twice: "trim_start_matches p (trim_start_matches p s) = trim_start_matches p s"
proof (induction p s rule: trim_start_matches.induct)
  case (1 p s)
  then show ?case by (subst (2 3) trim_start_matches.simps) (auto simp: trim_start_matches.simps [of p s])
qed


section \<open>What is installed was published\<close>

interpretation asset: framed_turns "asset_attempt E tmp dest" "{tmp, dest}" for E :: "'n update_env" and tmp dest
proof
  fix url label k t and s s' :: "'n download"
  assume a: "asset_attempt E tmp dest (url, label, k) s = (t, s')"
  then show "\<exists>asked. dl_asked s' = dl_asked s @ asked \<and> asked \<in> {[], [url]}"
    and "dl_paused s' \<le> dl_paused s + (if k < DOWNLOAD_RETRIES then BASE_DELAY_MS * 2 ^ (k - 1) else 0)"
    by (auto simp: asset_attempt_def ask_def pause_after_def quiet_def split: prod.splits sum.splits if_splits
        dest!: save_quiet)
next
  fix t x and s s' :: "'n download"
  assume "asset_attempt E tmp dest t s = (x, s')"
  then show "same_outside {tmp, dest} (dl_drive s) (dl_drive s')"
    by (cases t) (auto simp: asset_attempt_def ask_def pause_after_def quiet_def split: prod.splits sum.splits if_splits
        dest!: save_quiet)
qed

lemma ask_drive: "ask get url s = (r, s') \<Longrightarrow> dl_drive s' = dl_drive s"
  by (auto simp: ask_def split: prod.splits)

lemma release_drive: "fetch_latest_release E s = (r, s') \<Longrightarrow> dl_drive s' = dl_drive s"
  by (auto simp: fetch_latest_release_def split: sum.splits prod.splits if_splits dest!: ask_drive)

text \<open>A checksum that was found stands in the published file, beside the name of the asset.\<close>

definition published :: "'n update_env \<Rightarrow> github_release \<Rightarrow> string \<Rightarrow> string \<Rightarrow> bool" where
  "published E release asset_name hash \<longleftrightarrow>
     (\<exists>sums n resp n' b. sums \<in> set (gr_assets release) \<and> ga_name sums = ''checksums.txt'' \<and>
        ue_get E (mirror_of (ue_config E) @ ''/'' @ ga_url sums) n = (Inr resp, n') \<and> status_ok resp \<and> body_bytes resp = Inr b \<and>
        find_checksum (ue_lower E) (ue_text E b) asset_name = Some hash)"

lemma checksum_published:
  "fetch_checksum E (gr_assets release) asset_name s = (Inr hash, s') \<Longrightarrow> published E release asset_name hash"
  unfolding published_def fetch_checksum_def
  by (auto simp: ask_def response_text_def find_Some_iff in_set_conv_nth split: option.splits sum.splits prod.splits if_splits)

lemma checksum_drive: "fetch_checksum E assets asset_name s = (r, s') \<Longrightarrow> dl_drive s' = dl_drive s"
  by (auto simp: fetch_checksum_def split: option.splits sum.splits prod.splits if_splits dest!: ask_drive)

lemma retry_return:
  "retry_turns (asset_attempt E tmp dest) n ts e s = (Inr p, s') \<Longrightarrow> p = dest"
proof (induction ts arbitrary: e s)
  case (Cons t ts)
  obtain a s1 where "asset_attempt E tmp dest t s = (a, s1)" by (cases "asset_attempt E tmp dest t s")
  with Cons show ?case
    by (cases t; cases a) (auto simp: asset_attempt_def split: prod.splits sum.splits if_splits)
qed simp

lemma download_asset_keeps:
  assumes "download_asset E url name dir use_proxy s = (r, s')"
  shows "same_outside {path_join dir (name @ ''.tmp''), path_join dir name} (dl_drive s) (dl_drive s')"
    and "r = Inr p \<Longrightarrow> p = path_join dir name"
  using assms asset.retry_framed retry_return
  by (auto simp: download_asset_def retry_sources_def split: sum.splits)

lemma replace_app_cases:
  assumes "replace_app E expected d s = (r, s')" and "d \<noteq> app_path E"
  obtains b where "r = installed" "content (dl_drive s') (app_path E) = Some b" "sha256_hex (ue_prims E) b = expected"
      "dk_modes (dl_drive s') (app_path E) = 493"
    | "r \<noteq> installed" "same_outside {d} (dl_drive s) (dl_drive s')"
  using assms
  by (auto simp: replace_app_def installed_def Let_def on_drive_def fs_read_def set_mode_def rename_file_def fs_rename_def remove_at_def
      fs_remove_def content_def same_outside_def split: sum.splits prod.splits if_splits option.splits)

text \<open>The ways through an upgrade.\<close>

lemma upgrade_steps:
  assumes "upgrade_app_inner E use_proxy s = (r, s')"
  obtains (early) "r \<noteq> installed" "dl_drive s' = dl_drive s"
    | (failed) s2 e where "dl_drive s2 = dl_drive s" "on_drive (make_dirs (butlast (app_path E))) s2 = (Inl e, s')" "r \<noteq> installed"
    | (run) release s1 a expected s2 s3 where "fetch_latest_release E s = (Inr release, s1)" "a \<in> set (gr_assets release)"
        "ends_with (ga_name a) ''.AppImage''" "fetch_checksum E (gr_assets release) (ga_name a) (report 0 1 s1) = (Inr expected, s2)"
        "on_drive (make_dirs (butlast (app_path E))) s2 = (Inr (), s3)"
        "(case download_asset E (ga_url a) (ga_name a) (butlast (app_path E)) use_proxy s3 of
            (Inl e, s4) \<Rightarrow> (Inl e, s4) | (Inr d, s4) \<Rightarrow> replace_app E expected d s4) = (r, s')"
proof (cases "fetch_latest_release E s")
  case (Pair x s1)
  note def = upgrade_app_inner_def installed_def open_release_def
  show thesis
  proof (cases x)
    case (Inl e)
    then show thesis using early assms Pair release_drive [OF Pair] by (auto simp: def split: if_splits option.splits)
  next
    case (Inr release)
    let ?find = "\<lambda>k. find (\<lambda>a. starts_with (ga_name a) k \<and> ends_with (ga_name a) ''.AppImage'') (gr_assets release)"
    show thesis
    proof (cases "\<exists>k a. appimage_asset_keyword E = Some k \<and> ?find k = Some a \<and> ue_linux E
        \<and> \<not> ((case ue_appimage E of Some v \<Rightarrow> v = [] | None \<Rightarrow> True) \<or> \<not> path_exists (dl_drive s) (app_path E))")
      case False
      then show thesis using early assms Pair Inr release_drive [OF Pair] by (auto simp: def split: if_splits option.splits)
    next
      case True
      then obtain k a where k: "appimage_asset_keyword E = Some k" "?find k = Some a" "ue_linux E"
        "\<not> ((case ue_appimage E of Some v \<Rightarrow> v = [] | None \<Rightarrow> True) \<or> \<not> path_exists (dl_drive s) (app_path E))" by blast
      obtain y s2 where y: "fetch_checksum E (gr_assets release) (ga_name a) (report 0 1 s1) = (y, s2)"
        by (cases "fetch_checksum E (gr_assets release) (ga_name a) (report 0 1 s1)")
      have s2: "dl_drive s2 = dl_drive s" using release_drive [OF Pair] checksum_drive [OF y] by (simp add: report_def)
      have a: "a \<in> set (gr_assets release)" "ends_with (ga_name a) ''.AppImage''" using k(2) by (auto simp: find_Some_iff)
      obtain z s3 where z: "on_drive (make_dirs (butlast (app_path E))) s2 = (z, s3)"
        by (cases "on_drive (make_dirs (butlast (app_path E))) s2 :: (string + unit) \<times> _")
      note eq = assms [unfolded upgrade_app_inner_def] Pair Inr k y z
      show thesis
      proof (cases "\<exists>h. y = Inr h \<and> app_path E \<noteq> []")
        case False
        then show thesis using early eq s2 by (cases y) (auto simp: installed_def)
      next
        case True
        then obtain h where h: "y = Inr h" "app_path E \<noteq> []" by blast
        show thesis
        proof (cases z)
          case (Inl e)
          then show thesis using failed [OF s2] eq h by (auto simp: installed_def)
        next
          case (Inr u)
          then show thesis using run [of release s1 a h s2 s3] eq h a by auto
        qed
      qed
    qed
  qed
qed

text \<open>
  C17: Only what was published is installed. An upgrade either ends with the answer that it installed, and then the
  running file holds bytes whose SHA-256 is the one that the checksum file of the latest release names for the
  chosen asset, and is executable; or the running file and its permissions are as before, whatever failed. It relies on
  no asset of the release having the file name of the running program, with or without \<open>.tmp\<close>.
\<close>

theorem upgrade_verified:
  assumes "upgrade_app_inner E use_proxy s = (r, s')"
    and "\<forall>release s1. fetch_latest_release E s = (Inr release, s1) \<longrightarrow> (\<forall>a \<in> set (gr_assets release).
           path_join (butlast (app_path E)) (ga_name a) \<noteq> app_path E \<and> path_join (butlast (app_path E)) (ga_name a @ ''.tmp'') \<noteq> app_path E)"
  shows "r = installed \<and> (\<exists>release s1 a b. fetch_latest_release E s = (Inr release, s1) \<and> a \<in> set (gr_assets release) \<and>
            ends_with (ga_name a) ''.AppImage'' \<and> content (dl_drive s') (app_path E) = Some b \<and>
            published E release (ga_name a) (sha256_hex (ue_prims E) b) \<and> dk_modes (dl_drive s') (app_path E) = 493)
    \<or> r \<noteq> installed \<and> content (dl_drive s') (app_path E) = content (dl_drive s) (app_path E) \<and>
        (content (dl_drive s) (app_path E) \<noteq> None \<longrightarrow> dk_modes (dl_drive s') (app_path E) = dk_modes (dl_drive s) (app_path E))"
proof -
  let ?app = "app_path E" let ?dir = "butlast (app_path E)"
  from assms(1) consider (early) "r \<noteq> installed" "dl_drive s' = dl_drive s"
    | (failed) s2 e where "dl_drive s2 = dl_drive s" "on_drive (make_dirs ?dir) s2 = (Inl e, s')" "r \<noteq> installed"
    | (run) release s1 a expected s2 s3 where "fetch_latest_release E s = (Inr release, s1)" "a \<in> set (gr_assets release)"
        "ends_with (ga_name a) ''.AppImage''" "fetch_checksum E (gr_assets release) (ga_name a) (report 0 1 s1) = (Inr expected, s2)"
        "on_drive (make_dirs ?dir) s2 = (Inr (), s3)"
        "(case download_asset E (ga_url a) (ga_name a) ?dir use_proxy s3 of (Inl e, s4) \<Rightarrow> (Inl e, s4) | (Inr d, s4) \<Rightarrow> replace_app E expected d s4) = (r, s')"
    by (rule upgrade_steps)
  then show ?thesis
  proof cases
    case early
    then show ?thesis by simp
  next
    case failed
    then have "same_outside {} (dl_drive s) (dl_drive s')"
      using quiet_on_drive [OF same_outside_dirs failed(2)] by (simp add: quiet_def)
    with failed(3) show ?thesis by (simp add: same_outside_def)
  next
    case run
    let ?A = "{path_join ?dir (ga_name a @ ''.tmp''), path_join ?dir (ga_name a)}"
    have apart: "?app \<notin> ?A" using assms(2) run(1,2) by auto
    have "same_outside ?A (dl_drive s2) (dl_drive s3)" using quiet_on_drive [OF same_outside_dirs run(5)] by (simp add: quiet_def)
    moreover have "dl_drive s2 = dl_drive s" using release_drive [OF run(1)] checksum_drive [OF run(4)] by (simp add: report_def)
    ultimately have s3: "same_outside ?A (dl_drive s) (dl_drive s3)" by simp
    obtain x s4 where x: "download_asset E (ga_url a) (ga_name a) ?dir use_proxy s3 = (x, s4)"
      by (cases "download_asset E (ga_url a) (ga_name a) ?dir use_proxy s3")
    from same_outside_trans [OF s3 download_asset_keeps(1) [OF x]] have s4: "same_outside ?A (dl_drive s) (dl_drive s4)" .
    show ?thesis
    proof (cases x)
      case (Inl e)
      then show ?thesis using run(6) x s4 apart by (auto simp: same_outside_def installed_def)
    next
      case (Inr d)
      then have d: "d = path_join ?dir (ga_name a)" using download_asset_keeps(2) [OF x] by simp
      have "replace_app E expected d s4 = (r, s')" "d \<noteq> ?app" using run(6) x Inr d apart by auto
      then show ?thesis
      proof (cases rule: replace_app_cases)
        case (1 b)
        with checksum_published [OF run(4)] run(1-3) show ?thesis by blast
      next
        case 2
        then have "same_outside ?A (dl_drive s4) (dl_drive s')" by (auto simp: d same_outside_def)
        with same_outside_trans [OF s4 this] 2(1) apart show ?thesis by (auto simp: same_outside_def)
      qed
    qed
  qed
qed

section \<open>Where the upgrade fails its user\<close>

text \<open>
  The documented way to go without a mirror, an empty setting, makes the address of the checksum file start with a
  slash. A client that takes only absolute addresses refuses it, and no upgrade can succeed.
\<close>

theorem empty_mirror_blocks_upgrade:
  assumes "ac_get (ue_config E) ''GITHUB_MIRROR'' = Some []" and "\<And>url n. \<exists>e. fst (ue_get E (CHR ''/'' # url) n) = Inl e"
  shows "fst (upgrade_app_inner E use_proxy s) \<noteq> installed"
proof
  assume i: "fst (upgrade_app_inner E use_proxy s) = installed"
  then obtain s' where u: "upgrade_app_inner E use_proxy s = (installed, s')" by (cases "upgrade_app_inner E use_proxy s") auto
  have no: "fetch_checksum E assets name t \<noteq> (Inr h, t')" for assets name t h t'
  proof -
    have "mirror_of (ue_config E) = []" using assms(1) by (simp add: mirror_of_def ac_get_str_def)
    moreover have "\<exists>e n. ue_get E (CHR ''/'' # url) (dl_net t) = (Inl e, n)" for url
      using assms(2) [of url "dl_net t"] by (metis prod.collapse)
    ultimately show ?thesis
      by (auto simp: fetch_checksum_def ask_def Let_def split: option.splits sum.splits if_splits prod.splits) (metis Inl_Inr_False fst_conv)
  qed
  show False using u by (cases rule: upgrade_steps) (auto simp: no)
qed

text \<open>
  A small release: the client answers the three kinds of requests, and a hash is a length.
\<close>

definition asset_name_toy :: string where "asset_name_toy = ''homeTier-linux-x86_64-2.AppImage''"

definition update_get_toy :: "bytes \<Rightarrow> unit http_get" where
  "update_get_toy data url n =
    (let ok = (\<lambda>b. Inr \<lparr>rs_status = 200, rs_display = ''200 OK'', rs_length = None, rs_chunks = [Inr b]\<rparr>) in
     (if url = RELEASE_LATEST_URL then ok []
      else if ends_with url ''sums'' then ok (as_bytes (''3  '' @ asset_name_toy))
      else ok data, n))"

definition update_toy :: "bytes \<Rightarrow> string \<Rightarrow> unit update_env" where
  "update_toy data appimage =
    \<lparr>ue_get = update_get_toy data, ue_client = Inr (), ue_text = of_bytes,
     ue_release = \<lambda>t. Inr \<lparr>gr_tag_name = ''v2'', gr_assets = [\<lparr>ga_name = asset_name_toy, ga_url = ''app''\<rparr>, \<lparr>ga_name = ''checksums.txt'', ga_url = ''sums''\<rparr>]\<rparr>,
     ue_lower = id, ue_prims = primitives_toy\<lparr>prim_sha256 := id, prim_hex := \<lambda>b. dec (length b)\<rparr>,
     ue_config = \<lparr>ac_path = [''env''], ac_inner = [], ac_last_modified = None, ac_template = None, ac_template_map = [], ac_template_path = None\<rparr>,
     ue_version = ''1'', ue_linux = True, ue_arch = ''x86_64'', ue_appimage = Some appimage, ue_cwd = []\<rparr>"

definition update_start_toy :: "path \<Rightarrow> unit download" where
  "update_start_toy app =
    \<lparr>dl_net = (), dl_drive = \<lparr>dk_fs = fs_empty\<lparr>fs_data := [app \<mapsto> [9]]\<rparr>, dk_modes = \<lambda>_. 493, dk_mfault = \<lambda>_. None, dk_dirs = []\<rparr>,
     dl_asked = [], dl_paused = 0, dl_progress = []\<rparr>"

theorem upgrade_verified_witness:
  "fst (upgrade_app_inner (update_toy [1, 2, 3] ''/opt/app'') True (update_start_toy [''opt'', ''app''])) = installed \<and>
   (\<exists>release (a :: github_asset) b. content (dl_drive (snd (upgrade_app_inner (update_toy [1, 2, 3] ''/opt/app'') True (update_start_toy [''opt'', ''app''])))) [''opt'', ''app''] = Some b \<and>
      published (update_toy [1, 2, 3] ''/opt/app'') release (ga_name a) (dec (length b)))"
proof -
  let ?E = "update_toy [1, 2, 3] ''/opt/app''" and ?s = "update_start_toy [''opt'', ''app'']"
  obtain r s' where u: "upgrade_app_inner ?E True ?s = (r, s')" by fastforce
  have "fst (upgrade_app_inner ?E True ?s) = installed" by code_simp
  then have r: "r = installed" using u by simp
  have p: "app_path ?E = [''opt'', ''app'']" by code_simp
  have names: "ga_name a \<in> {asset_name_toy, ''checksums.txt''}"
    if "fetch_latest_release ?E ?s = (Inr release, s1)" "a \<in> set (gr_assets release)" for release s1 a
    using that by (auto simp: fetch_latest_release_def update_toy_def split: sum.splits prod.splits if_splits)
  have "path_join [''opt''] n \<noteq> [''opt'', ''app''] \<and> path_join [''opt''] (n @ ''.tmp'') \<noteq> [''opt'', ''app'']" if "n \<in> {asset_name_toy, ''checksums.txt''}" for n
    using that by (auto simp: asset_name_toy_def path_join_plain plain_name_def)
  with names have "\<forall>release s1. fetch_latest_release ?E ?s = (Inr release, s1) \<longrightarrow> (\<forall>a \<in> set (gr_assets release).
      path_join (butlast (app_path ?E)) (ga_name a) \<noteq> app_path ?E \<and> path_join (butlast (app_path ?E)) (ga_name a @ ''.tmp'') \<noteq> app_path ?E)"
    by (simp add: p)
  from upgrade_verified [OF u this] r obtain release and a :: github_asset and b where "content (dl_drive s') (app_path ?E) = Some b"
      "published ?E release (ga_name a) (sha256_hex (ue_prims ?E) b)" by blast
  moreover have "sha256_hex (ue_prims ?E) b = dec (length b)" by (simp add: update_toy_def sha256_hex_def sha256_def)
  ultimately show ?thesis using r u p by auto
qed

text \<open>
  The file is downloaded into the directory of the running program under the name of the asset. When the running program
  has this name, as it has when it was downloaded by hand and is still the latest, the download replaces it before
  the check, and a failed check deletes it.
\<close>

theorem failed_check_deletes_app:
  "\<exists>e s'. upgrade_app_inner (update_toy [1] (''/opt/'' @ asset_name_toy)) True (update_start_toy [''opt'', asset_name_toy]) = (Inl e, s') \<and>
     content (dl_drive (update_start_toy [''opt'', asset_name_toy])) [''opt'', asset_name_toy] = Some [9] \<and>
     content (dl_drive s') [''opt'', asset_name_toy] = None"
proof -
  let ?u = "upgrade_app_inner (update_toy [1] (''/opt/'' @ asset_name_toy)) True (update_start_toy [''opt'', asset_name_toy])"
  have "case ?u of (r, s') \<Rightarrow> isl r \<and> content (dl_drive s') [''opt'', asset_name_toy] = None" by code_simp
  moreover have "content (dl_drive (update_start_toy [''opt'', asset_name_toy])) [''opt'', asset_name_toy] = Some [9]" by code_simp
  ultimately show ?thesis by (cases ?u) (auto simp: isl_def)
qed

end
