(* ===== verification/Core_Install.thy ===== *)
theory Core_Install
  imports Downloads Json Easytier_Manager "HOL-Library.List_Lexorder" "HOL-Library.Char_ord"
begin

text \<open>
  Installing the EasyTier core, the part of \<open>src-tauri/src/easytier/downloader.rs\<close> that works on the drive: versions and
  their paths, archives, the search for the binary, the record of the current version, the binary that comes with
  the application and building from source, in the Unix build. The archive formats, JSON and the order of directory
  listings are parameters.
\<close>

section \<open>Data\<close>

record binary_metadata =
  bm_current_version :: string
  bm_binary_dir :: path

record downloader =
  dw_bin_dir :: path
  dw_current_version_file :: path
  dw_platform :: string
  dw_resource_dir :: "path option"

datatype binary_source = LocalArchive path | LocalBinary path

text \<open>
  An entry of a zip archive: its name, the relative path \<open>enclosed_name\<close> makes of it, and its data. An entry of a tar archive
  unpacks itself.
\<close>

record zip_entry =
  ze_name :: string
  ze_enclosed :: "path option"
  ze_is_dir :: bool
  ze_data :: "string + bytes"

record tar_entry =
  tn_path :: "string + string"
  tn_unpack_in :: "path \<Rightarrow> drive \<Rightarrow> (string + bool) \<times> drive"

record install_env =
  ie_meta :: "binary_metadata json"
  ie_list :: "drive \<Rightarrow> path \<Rightarrow> string list option"
  ie_zip :: "bytes \<Rightarrow> string + (string + zip_entry) list"
  ie_tar :: "bytes \<Rightarrow> string + (string + tar_entry) list"
  ie_temp :: path

text \<open>The six known platforms are named like the others, by system and processor.\<close>

definition detect_platform :: "string \<Rightarrow> string \<Rightarrow> string" where
  "detect_platform os arch = os @ ''-'' @ arch"

definition downloader_new :: "string \<Rightarrow> string \<Rightarrow> path \<Rightarrow> path option \<Rightarrow> downloader" where
  "downloader_new os arch app_data_dir resource_dir =
    (let bin_dir = app_data_dir @ [''bin''] in
     \<lparr>dw_bin_dir = bin_dir, dw_current_version_file = bin_dir @ [''current_version.json''], dw_platform = detect_platform os arch,
      dw_resource_dir = resource_dir\<rparr>)"

section \<open>Versions on the drive\<close>

definition BINARY_NAME :: string where "BINARY_NAME = ''easytier-core''"

definition version_dir :: "downloader \<Rightarrow> string \<Rightarrow> path" where
  "version_dir D version = path_join (dw_bin_dir D) (''easytier-core-'' @ version)"

definition binary_path :: "downloader \<Rightarrow> string \<Rightarrow> path" where
  "binary_path D version = path_join (version_dir D version) (dw_platform D) @ [BINARY_NAME]"

definition current_version :: "install_env \<Rightarrow> downloader \<Rightarrow> drive \<Rightarrow> string option" where
  "current_version I D dk =
    (case fs_read_to_string (dk_fs dk) (dw_current_version_file D) of
       None \<Rightarrow> None
     | Some s \<Rightarrow> (case js_de (ie_meta I) (as_bytes s) of Inl _ \<Rightarrow> None | Inr m \<Rightarrow> Some (bm_current_version m)))"

definition current_binary_path :: "install_env \<Rightarrow> downloader \<Rightarrow> drive \<Rightarrow> path option" where
  "current_binary_path I D dk =
    (case current_version I D dk of
       None \<Rightarrow> None
     | Some version \<Rightarrow> (let p = binary_path D version in if path_exists dk p then Some p else None))"

definition check_update :: "install_env \<Rightarrow> downloader \<Rightarrow> string \<Rightarrow> drive \<Rightarrow> bool" where
  "check_update I D target_version dk \<longleftrightarrow> (case current_version I D dk of Some v \<Rightarrow> v | None \<Rightarrow> []) \<noteq> target_version"

section \<open>Sequences of steps on the drive\<close>

type_synonym 'a on_disk = "drive \<Rightarrow> (string + 'a) \<times> drive"

definition and_then :: "'a on_disk \<Rightarrow> ('a \<Rightarrow> 'b on_disk) \<Rightarrow> 'b on_disk" where
  "and_then m f dk = (case m dk of (Inl e, dk) \<Rightarrow> (Inl e, dk) | (Inr x, dk) \<Rightarrow> f x dk)"

text \<open>\<open>map_err(|e| format!("...: {}", e))\<close>\<close>

definition failing :: "string \<Rightarrow> 'a on_disk \<Rightarrow> 'a on_disk" where
  "failing msg m dk = (case m dk of (Inl e, dk) \<Rightarrow> (Inl (msg @ '': '' @ e), dk) | (Inr x, dk) \<Rightarrow> (Inr x, dk))"

text \<open>\<open>let _ = ...\<close>\<close>

definition ignored :: "'a on_disk \<Rightarrow> unit on_disk" where
  "ignored m dk = (Inr (), snd (m dk))"

definition copy_file :: "path \<Rightarrow> path \<Rightarrow> unit on_disk" where
  "copy_file src dst dk =
    (case fs_read (dk_fs dk) src of
       Inl e \<Rightarrow> (Inl e, dk)
     | Inr b \<Rightarrow>
        (case fs_wfault (dk_fs dk) dst of
           None \<Rightarrow> (let dk' = put_content dst b dk in (Inr (), dk'\<lparr>dk_modes := (dk_modes dk')(dst := dk_modes dk src)\<rparr>))
         | Some (e, None) \<Rightarrow> (Inl e, dk)
         | Some (e, Some c) \<Rightarrow> (Inl e, put_content dst c dk)))"

definition write_file :: "path \<Rightarrow> bytes \<Rightarrow> unit on_disk" where
  "write_file p b dk =
    (case fs_wfault (dk_fs dk) p of
       None \<Rightarrow> (Inr (), put_content p b dk)
     | Some (e, None) \<Rightarrow> (Inl e, dk)
     | Some (e, Some c) \<Rightarrow> (Inl e, put_content p c dk))"

definition set_current_version :: "install_env \<Rightarrow> downloader \<Rightarrow> string \<Rightarrow> unit on_disk" where
  "set_current_version I D version dk =
    (case js_ser (ie_meta I) \<lparr>bm_current_version = version, bm_binary_dir = butlast (binary_path D version)\<rparr> of
       Inl e \<Rightarrow> (Inl (utf8_text [229, 186, 143, 229, 136, 151, 229, 140, 150, 229, 133, 131, 230, 149, 176, 230, 141, 174, 229, 164, 177, 232, 180, 165] @ '': '' @ e), dk)
     | Inr json \<Rightarrow> failing (utf8_text [229, 134, 153, 229, 133, 165, 231, 137, 136, 230, 156, 172, 230, 150, 135, 228, 187, 182, 229, 164, 177, 232, 180, 165]) (write_file (dw_current_version_file D) json) dk)"

section \<open>Archives\<close>

definition extract_entry :: "path \<Rightarrow> zip_entry \<Rightarrow> unit on_disk" where
  "extract_entry target z dk =
    (case ze_enclosed z of
       None \<Rightarrow> (Inl (''invalid zip entry path: '' @ ze_name z), dk)
     | Some enclosed \<Rightarrow>
        (let p = target @ enclosed in
         if ze_is_dir z then failing ''create dir failed'' (make_dirs p) dk
         else and_then (failing ''create dir failed'' (make_dirs (butlast p))) (\<lambda>_.
              and_then (failing ''create file failed'' (file_create p)) (\<lambda>_ dk.
                case ze_data z of
                  Inl e \<Rightarrow> (Inl (''extract zip entry failed: '' @ e), dk)
                | Inr b \<Rightarrow> failing ''extract zip entry failed'' (file_write_all p b) dk)) dk))"

fun extract_entries :: "path \<Rightarrow> (string + zip_entry) list \<Rightarrow> unit on_disk" where
  "extract_entries target [] dk = (Inr (), dk)"
| "extract_entries target (Inl e # es) dk = (Inl (''read zip entry failed: '' @ e), dk)"
| "extract_entries target (Inr z # es) dk =
    (if \<not> contains_str (ze_name z) ''easytier-core'' then extract_entries target es dk
     else and_then (extract_entry target z) (\<lambda>_. extract_entries target es) dk)"

definition extract_zip :: "install_env \<Rightarrow> path \<Rightarrow> path \<Rightarrow> unit on_disk" where
  "extract_zip I archive target dk =
    (case fs_read (dk_fs dk) archive of
       Inl e \<Rightarrow> (Inl (''open archive failed: '' @ e), dk)
     | Inr data \<Rightarrow>
        (case ie_zip I data of
           Inl e \<Rightarrow> (Inl (''open zip failed: '' @ e), dk)
         | Inr entries \<Rightarrow> extract_entries target entries dk))"

fun unpack_entries :: "path \<Rightarrow> (string + tar_entry) list \<Rightarrow> unit on_disk" where
  "unpack_entries target [] dk = (Inr (), dk)"
| "unpack_entries target (Inl e # es) dk = (Inl (''read entry failed: '' @ e), dk)"
| "unpack_entries target (Inr t # es) dk =
    (case tn_path t of
       Inl e \<Rightarrow> (Inl (''read path failed: '' @ e), dk)
     | Inr p \<Rightarrow>
        (if \<not> contains_str p ''easytier-core'' then unpack_entries target es dk
         else and_then (failing ''extract tar.gz entry failed'' (tn_unpack_in t target)) (\<lambda>_. unpack_entries target es) dk))"

definition extract_tar_gz :: "install_env \<Rightarrow> path \<Rightarrow> path \<Rightarrow> unit on_disk" where
  "extract_tar_gz I archive target dk =
    (case fs_read (dk_fs dk) archive of
       Inl e \<Rightarrow> (Inl (''open archive failed: '' @ e), dk)
     | Inr data \<Rightarrow>
        (case ie_tar I data of
           Inl e \<Rightarrow> (Inl (''read entries failed: '' @ e), dk)
         | Inr entries \<Rightarrow> unpack_entries target entries dk))"

text \<open>\<open>Path::extension\<close> of a file name: what follows the last dot, unless that is the first character.\<close>

definition extension_of :: "path \<Rightarrow> string option" where
  "extension_of p =
    (if p = [] then None
     else (case rfind_char (CHR ''.'') (last p) of None \<Rightarrow> None | Some i \<Rightarrow> if i = 0 then None else Some (drop (Suc i) (last p))))"

definition extract_archive :: "install_env \<Rightarrow> (path \<Rightarrow> string) \<Rightarrow> path \<Rightarrow> path \<Rightarrow> unit on_disk" where
  "extract_archive I display archive target dk =
    (if extension_of archive = Some ''tar'' \<or> extension_of archive = Some ''gz'' then extract_tar_gz I archive target dk
     else if extension_of archive = Some ''zip'' then extract_zip I archive target dk
     else (Inl (utf8_text [228, 184, 141, 230, 148, 175, 230, 140, 129, 231, 154, 132, 229, 189, 146, 230, 161, 163, 230, 160, 188, 229, 188, 143] @ '': '' @ display archive), dk))"

text \<open>
  The search goes through the directories in the order of the listings. Directories are finitely deep, so it ends, whatever a
  listing says.
\<close>

definition deepest :: "drive \<Rightarrow> nat" where
  "deepest dk = fold max (map length (dk_dirs dk)) 0"

lemma deepest_bound: "d \<in> set (dk_dirs dk) \<Longrightarrow> length d \<le> deepest dk"
proof -
  have "n \<le> fold max ns (k :: nat)" if "n \<in> set ns \<or> n \<le> k" for n ns k
    using that by (induction ns arbitrary: k) (auto simp: max_def)
  then show "d \<in> set (dk_dirs dk) \<Longrightarrow> length d \<le> deepest dk" by (simp add: deepest_def)
qed

function find_in :: "(drive \<Rightarrow> path \<Rightarrow> string list option) \<Rightarrow> drive \<Rightarrow> string \<Rightarrow> path \<Rightarrow> string list \<Rightarrow> path option" where
  "find_in rd dk name dir [] = None"
| "find_in rd dk name dir (n # ns) =
    (let p = dir @ [n] in
     if p \<in> set (dk_dirs dk) then
       (case (case rd dk p of None \<Rightarrow> None | Some entries \<Rightarrow> find_in rd dk name p entries) of
          Some found \<Rightarrow> Some found
        | None \<Rightarrow> find_in rd dk name dir ns)
     else if n = name then Some p
     else find_in rd dk name dir ns)"
  by pat_completeness auto
termination
proof (relation "measures [\<lambda>(rd, dk, name, dir, ns). Suc (deepest dk) - length dir, \<lambda>(rd, dk, name, dir, ns). length ns]", goal_cases)
  case (2 rd dk name dir n ns x)
  then have "length (dir @ [n]) \<le> deepest dk" using deepest_bound [of "dir @ [n]" dk] by simp
  then show ?case using 2 by (simp add: Suc_diff_le)
qed auto

definition find_binary :: "install_env \<Rightarrow> path \<Rightarrow> string \<Rightarrow> drive \<Rightarrow> path option" where
  "find_binary I dir name dk = (case ie_list I dk dir of None \<Rightarrow> None | Some entries \<Rightarrow> find_in (ie_list I) dk name dir entries)"

section \<open>Installing and removing\<close>

definition extract_dir :: "install_env \<Rightarrow> string \<Rightarrow> path" where
  "extract_dir I version = path_join (ie_temp I) (''easytier-extract-'' @ version)"

definition install_archive :: "install_env \<Rightarrow> (path \<Rightarrow> string) \<Rightarrow> string \<Rightarrow> path \<Rightarrow> path \<Rightarrow> unit on_disk" where
  "install_archive I display version archive_path target_path =
    (let temp_dir = extract_dir I version in
     and_then (ignored (remove_dirs temp_dir)) (\<lambda>_.
     and_then (failing (utf8_text [229, 136, 155, 229, 187, 186, 228, 184, 180, 230, 151, 182, 231, 155, 174, 229, 189, 149, 229, 164, 177, 232, 180, 165]) (make_dirs temp_dir)) (\<lambda>_.
     and_then (extract_archive I display archive_path temp_dir) (\<lambda>_ dk.
       case find_binary I temp_dir BINARY_NAME dk of
         None \<Rightarrow> (Inl (utf8_text [229, 156, 168, 229, 189, 146, 230, 161, 163, 228, 184, 173, 230, 156, 170, 230, 137, 190, 229, 136, 176] @ '' '' @ BINARY_NAME), dk)
       | Some found \<Rightarrow>
          and_then (failing (utf8_text [229, 164, 141, 229, 136, 182, 228, 186, 140, 232, 191, 155, 229, 136, 182, 229, 164, 177, 232, 180, 165]) (copy_file found target_path)) (\<lambda>_.
          and_then (failing (utf8_text [232, 174, 190, 231, 189, 174, 230, 157, 131, 233, 153, 144, 229, 164, 177, 232, 180, 165]) (set_mode target_path 493)) (\<lambda>_.
            ignored (remove_dirs temp_dir))) dk))))"

definition install_binary :: "path \<Rightarrow> path \<Rightarrow> unit on_disk" where
  "install_binary src target_path =
    and_then (failing (utf8_text [229, 164, 141, 229, 136, 182, 228, 186, 140, 232, 191, 155, 229, 136, 182, 229, 164, 177, 232, 180, 165]) (copy_file src target_path)) (\<lambda>_. failing (utf8_text [232, 174, 190, 231, 189, 174, 230, 157, 131, 233, 153, 144, 229, 164, 177, 232, 180, 165]) (set_mode target_path 493))"

definition install_version :: "install_env \<Rightarrow> (path \<Rightarrow> string) \<Rightarrow> downloader \<Rightarrow> string \<Rightarrow> binary_source \<Rightarrow> path on_disk" where
  "install_version I display D version source dk =
    (let target_path = binary_path D version in
     if path_exists dk target_path then (Inr target_path, dk)
     else and_then (failing (utf8_text [229, 136, 155, 229, 187, 186, 231, 155, 174, 229, 189, 149, 229, 164, 177, 232, 180, 165]) (make_dirs (butlast target_path))) (\<lambda>_.
          and_then (case source of
                      LocalArchive archive_path \<Rightarrow> install_archive I display version archive_path target_path
                    | LocalBinary src \<Rightarrow> install_binary src target_path) (\<lambda>_.
          and_then (set_current_version I D version) (\<lambda>_ dk. (Inr target_path, dk)))) dk)"

definition uninstall :: "install_env \<Rightarrow> downloader \<Rightarrow> string \<Rightarrow> unit on_disk" where
  "uninstall I D version =
    and_then (\<lambda>dk. if path_exists dk (version_dir D version) then failing (utf8_text [229, 136, 160, 233, 153, 164, 231, 155, 174, 229, 189, 149, 229, 164, 177, 232, 180, 165]) (remove_dirs (version_dir D version)) dk else (Inr (), dk))
      (\<lambda>_ dk. if current_version I D dk = Some version then (Inr (), remove_at (dw_current_version_file D) dk) else (Inr (), dk))"

definition list_installed :: "install_env \<Rightarrow> downloader \<Rightarrow> drive \<Rightarrow> string list" where
  "list_installed I D dk =
    (case ie_list I dk (dw_bin_dir D) of
       None \<Rightarrow> []
     | Some entries \<Rightarrow>
        sort_key (\<lambda>v. v) (map (drop (length ''easytier-core-''))
          (filter (\<lambda>n. starts_with n ''easytier-core-'' \<and> path_exists dk (path_join (dw_bin_dir D @ [n]) (dw_platform D))) entries)))"

text \<open>The size of everything below a directory, in 64 bits.\<close>

function size_in :: "(drive \<Rightarrow> path \<Rightarrow> string list option) \<Rightarrow> drive \<Rightarrow> path \<Rightarrow> string list \<Rightarrow> u64" where
  "size_in rd dk dir [] = 0"
| "size_in rd dk dir (n # ns) =
    (let p = dir @ [n] in
     (if p \<in> set (dk_dirs dk) then (case rd dk p of None \<Rightarrow> 0 | Some entries \<Rightarrow> size_in rd dk p entries)
      else (case content dk p of Some b \<Rightarrow> word_of_nat (length b) | None \<Rightarrow> 0))
     + size_in rd dk dir ns)"
  by pat_completeness auto
termination
proof (relation "measures [\<lambda>(rd, dk, dir, ns). Suc (deepest dk) - length dir, \<lambda>(rd, dk, dir, ns). length ns]", goal_cases)
  case (2 rd dk dir n ns x)
  then have "length (dir @ [n]) \<le> deepest dk" using deepest_bound [of "dir @ [n]" dk] by simp
  then show ?case using 2 by (simp add: Suc_diff_le)
qed auto

definition disk_usage :: "install_env \<Rightarrow> downloader \<Rightarrow> drive \<Rightarrow> u64" where
  "disk_usage I D dk = (case ie_list I dk (dw_bin_dir D) of None \<Rightarrow> 0 | Some entries \<Rightarrow> size_in (ie_list I) dk (dw_bin_dir D) entries)"

section \<open>The binary that comes with the application\<close>

definition trim_end_matches :: "string \<Rightarrow> string \<Rightarrow> string" where
  "trim_end_matches p s = rev (trim_start_matches (rev p) (rev s))"

definition bundled_version :: "downloader \<Rightarrow> string \<Rightarrow> string option" where
  "bundled_version D name =
    (let zip_name = ''easytier-'' @ dw_platform D @ ''-v'';
         version = trim_start_matches ''v'' (trim_end_matches ''.zip'' (trim_start_matches zip_name name)) in
     if \<not> starts_with name zip_name \<or> \<not> ends_with name ''.zip'' then None else if version = [] then None else Some version)"

definition bundled_dirs :: "path \<Rightarrow> path list" where
  "bundled_dirs resource_dir = [resource_dir @ [''resources'', ''bin''], resource_dir @ [''bin''], resource_dir]"

text \<open>The first archive that fits is the one that is tried.\<close>

fun first_bundled :: "install_env \<Rightarrow> downloader \<Rightarrow> drive \<Rightarrow> path list \<Rightarrow> (string \<times> path) option" where
  "first_bundled I D dk [] = None"
| "first_bundled I D dk (dir # dirs) =
    (case ie_list I dk dir of
       None \<Rightarrow> first_bundled I D dk dirs
     | Some entries \<Rightarrow>
        (case List.map_filter (\<lambda>n. map_option (\<lambda>v. (v, dir @ [n])) (bundled_version D n)) entries of
           [] \<Rightarrow> first_bundled I D dk dirs
         | found # _ \<Rightarrow> Some found))"

definition extract_bundled_binary :: "install_env \<Rightarrow> (path \<Rightarrow> string) \<Rightarrow> downloader \<Rightarrow> path on_disk" where
  "extract_bundled_binary I display D dk =
    (case dw_resource_dir D of
       None \<Rightarrow> (Inl (''resource_dir '' @ utf8_text [228, 184, 186] @ '' None''), dk)
     | Some resource_dir \<Rightarrow>
        (case first_bundled I D dk (bundled_dirs resource_dir) of
           None \<Rightarrow> (Inl (utf8_text [230, 137, 147, 229, 140, 133, 232, 181, 132, 230, 186, 144, 228, 184, 173, 230, 156, 170, 230, 137, 190, 229, 136, 176] @ '' '' @ dw_platform D @ '' '' @ utf8_text [229, 185, 179, 229, 143, 176, 231, 154, 132, 229, 134, 133, 231, 189, 174] @ '' '' @ ''easytier-core''), dk)
         | Some (version, archive) \<Rightarrow> failing (utf8_text [229, 134, 133, 231, 189, 174, 228, 186, 140, 232, 191, 155, 229, 136, 182, 229, 174, 137, 232, 163, 133, 229, 164, 177, 232, 180, 165]) (install_version I display D version (LocalArchive archive)) dk))"

definition ensure_binary :: "install_env \<Rightarrow> (path \<Rightarrow> string) \<Rightarrow> downloader \<Rightarrow> path on_disk" where
  "ensure_binary I display D dk =
    (case current_binary_path I D dk of
       Some p \<Rightarrow> (Inr p, dk)
     | None \<Rightarrow>
        (case extract_bundled_binary I display D dk of
           (Inr p, dk) \<Rightarrow> (Inr p, dk)
         | (Inl _, dk) \<Rightarrow> (Inl (''EasyTier '' @ utf8_text [228, 186, 140, 232, 191, 155, 229, 136, 182, 230, 156, 170, 229, 174, 137, 232, 163, 133, 239, 188, 140, 232, 175, 183, 229, 156, 168, 232, 174, 190, 231, 189, 174, 228, 184, 173, 228, 184, 139, 232, 189, 189]), dk)))"

section \<open>Building from source\<close>

definition cargo_version :: "string \<Rightarrow> string option" where
  "cargo_version text =
    (case find (\<lambda>l. starts_with (trim l) ''version'') (lines text) of
       None \<Rightarrow> None
     | Some l \<Rightarrow> (case split_str ''='' l of _ # v # _ \<Rightarrow> Some (trim (trim_quotes (trim v))) | _ \<Rightarrow> None))"

definition read_text :: "path \<Rightarrow> drive \<Rightarrow> string + string" where
  "read_text p dk =
    (case fs_read (dk_fs dk) p of
       Inl e \<Rightarrow> Inl e
     | Inr b \<Rightarrow> (case from_utf8 b of None \<Rightarrow> Inl ''stream did not contain valid UTF-8'' | Some s \<Rightarrow> Inr s))"

definition build_from_source ::
  "install_env \<Rightarrow> (path \<Rightarrow> string) \<Rightarrow> (path \<Rightarrow> bool on_disk) \<Rightarrow> downloader \<Rightarrow> path \<Rightarrow> string on_disk" where
  "build_from_source I display cargo D source_dir dk =
    (let cargo_toml = source_dir @ [''easytier'', ''Cargo.toml''] in
     if \<not> path_exists dk cargo_toml then (Inl (''EasyTier '' @ utf8_text [229, 186, 147] @ '' Cargo.toml '' @ utf8_text [230, 156, 170, 230, 137, 190, 229, 136, 176] @ '': '' @ display cargo_toml), dk)
     else (case read_text cargo_toml dk of
             Inl e \<Rightarrow> (Inl (utf8_text [232, 175, 187, 229, 143, 150] @ '' Cargo.toml '' @ utf8_text [229, 164, 177, 232, 180, 165] @ '': '' @ e), dk)
           | Inr text \<Rightarrow>
              (case cargo_version text of
                 None \<Rightarrow> (Inl (utf8_text [230, 151, 160, 230, 179, 149, 228, 187, 142] @ '' Cargo.toml '' @ utf8_text [232, 167, 163, 230, 158, 144, 231, 137, 136, 230, 156, 172, 229, 143, 183]), dk)
               | Some version \<Rightarrow>
                  and_then (failing (utf8_text [230, 137, 167, 232, 161, 140] @ '' cargo build '' @ utf8_text [229, 164, 177, 232, 180, 165]) (cargo source_dir)) (\<lambda>ok dk.
                    if \<not> ok then (Inl (''cargo build '' @ utf8_text [231, 188, 150, 232, 175, 145, 229, 164, 177, 232, 180, 165, 239, 188, 140, 232, 175, 183, 230, 163, 128, 230, 159, 165, 231, 188, 150, 232, 175, 145, 233, 148, 153, 232, 175, 175]), dk)
                    else (let built_binary = source_dir @ [''target'', ''release'', BINARY_NAME] in
                          if \<not> path_exists dk built_binary then (Inl (utf8_text [231, 188, 150, 232, 175, 145, 228, 186, 167, 231, 137, 169, 230, 156, 170, 230, 137, 190, 229, 136, 176] @ '': '' @ display built_binary), dk)
                          else and_then (failing (utf8_text [229, 136, 155, 229, 187, 186, 231, 155, 174, 230, 160, 135, 231, 155, 174, 229, 189, 149, 229, 164, 177, 232, 180, 165]) (make_dirs (butlast (binary_path D version)))) (\<lambda>_.
                               and_then (install_binary built_binary (binary_path D version)) (\<lambda>_.
                               and_then (set_current_version I D version) (\<lambda>_ dk. (Inr version, dk)))) dk)) dk)))"

section \<open>What is installed comes from the archive\<close>

text \<open>
  Listings name what exists; \<open>to_string_pretty\<close> writes what \<open>from_str\<close> reads; every file stands in directories that exist.
\<close>

definition install_env_ok :: "install_env \<Rightarrow> bool" where
  "install_env_ok I \<longleftrightarrow>
    (\<forall>dk dir ns. ie_list I dk dir = Some ns \<longrightarrow> (\<forall>n \<in> set ns. path_exists dk (dir @ [n]))) \<and>
    (\<forall>m. \<exists>b. js_ser (ie_meta I) m = Inr b \<and> is_utf8 (of_bytes b) \<and> js_de (ie_meta I) b = Inr m)"

definition drive_ok :: "drive \<Rightarrow> bool" where
  "drive_ok dk \<longleftrightarrow> fs_healthy (dk_fs dk) \<and> (\<forall>p. content dk p \<noteq> None \<longrightarrow> (\<forall>n < length p. take n p \<in> set (dk_dirs dk)))"

lemma and_then_Inr: "and_then m f dk = (Inr y, dk') \<longleftrightarrow> (\<exists>x dk1. m dk = (Inr x, dk1) \<and> f x dk1 = (Inr y, dk'))"
  by (auto simp: and_then_def split: prod.splits sum.splits)

lemma failing_Inr [simp]: "failing msg m dk = (Inr y, dk') \<longleftrightarrow> m dk = (Inr y, dk')"
  by (auto simp: failing_def split: prod.splits sum.splits)

lemma ignored_Inr [simp]: "ignored m dk = (r, dk') \<longleftrightarrow> r = Inr () \<and> dk' = snd (m dk)"
  by (auto simp: ignored_def)

lemma below_append: "below dir p \<longleftrightarrow> (\<exists>rest. p = dir @ rest)"
  unfolding below_def by (metis append_eq_conv_conj append_take_drop_id)

lemma remove_dirs_clears:
  assumes "drive_ok dk" and "below dir p" and "p \<noteq> dir"
  shows "content (snd (remove_dirs dir dk)) p = None"
proof (cases "dir \<in> set (dk_dirs dk)")
  case True
  then show ?thesis using assms by (simp add: remove_dirs_def drive_ok_def fs_healthy_def content_def)
next
  case False
  from assms(2,3) have "length dir < length p" "take (length dir) p = dir" by (auto simp: below_append)
  with assms(1) False have "content dk p = None" unfolding drive_ok_def by metis
  with assms(1) False show ?thesis by (simp add: remove_dirs_def drive_ok_def fs_healthy_def)
qed

lemma remove_dirs_other: "\<not> below dir p \<Longrightarrow> content (snd (remove_dirs dir dk)) p = content dk p"
  by (auto simp: remove_dirs_def content_def split: option.split)

lemma healthy_steps [simp]:
  "fs_healthy (dk_fs (put_content p b dk)) = fs_healthy (dk_fs dk)"
  "fs_healthy (dk_fs (snd (remove_dirs dir dk))) = fs_healthy (dk_fs dk)"
  "fs_healthy (dk_fs (snd (make_dirs dir dk))) = fs_healthy (dk_fs dk)"
  by (auto simp: put_content_def remove_dirs_def make_dirs_def fs_healthy_def split: option.split sum.split)

lemma make_dirs_Inr: "make_dirs dir dk = (Inr x, dk') \<Longrightarrow> content dk' = content dk \<and> content dk dir = None \<and> dk_fs dk' = dk_fs dk \<and> dk_modes dk' = dk_modes dk"
  by (auto simp: make_dirs_def content_def list_ex_iff ancestors_def fs_exists_def fun_eq_iff split: sum.splits if_splits)

text \<open>Every file below a directory is the data of an entry.\<close>

definition from_archive :: "path \<Rightarrow> (string + zip_entry) list \<Rightarrow> drive \<Rightarrow> bool" where
  "from_archive target es dk \<longleftrightarrow>
    (\<forall>p c. below target p \<longrightarrow> content dk p = Some c \<longrightarrow>
       (\<exists>z rel. Inr z \<in> set es \<and> ze_enclosed z = Some rel \<and> p = target @ rel \<and> ze_data z = Inr c))"

lemma extract_entry_from:
  assumes "extract_entry target z dk = (Inr x, dk')" and "Inr z \<in> set es" and "from_archive target es dk" and "fs_healthy (dk_fs dk)"
  shows "from_archive target es dk' \<and> fs_healthy (dk_fs dk')"
proof (cases "ze_enclosed z")
  case (Some rel)
  let ?p = "target @ rel"
  show ?thesis
  proof (cases "ze_is_dir z")
    case True
    then show ?thesis using assms Some make_dirs_Inr [of ?p dk _ dk'] by (auto simp: extract_entry_def from_archive_def)
  next
    case False
    then obtain x1 dk1 x2 dk2 b where m: "make_dirs (butlast ?p) dk = (Inr x1, dk1)" "file_create ?p dk1 = (Inr x2, dk2)"
        "ze_data z = Inr b" "file_write_all ?p b dk2 = (Inr x, dk')"
      using assms(1) Some by (cases "ze_data z") (auto simp: extract_entry_def and_then_Inr Let_def)
    have h: "fs_wfault (dk_fs dk1) ?p = None" using assms(4) make_dirs_Inr [OF m(1)] by (simp add: fs_healthy_def)
    then have dk': "dk' = put_content ?p b (put_content ?p [] dk1)" using m(2,4) by (auto simp: file_create_def file_write_all_def)
    then have "content dk' q = (if q = ?p then Some b else content dk q)" for q using make_dirs_Inr [OF m(1)] by simp
    then show ?thesis using assms(2,3,4) Some m(3) make_dirs_Inr [OF m(1)] by (auto simp: from_archive_def dk')
  qed
qed (use assms in \<open>simp add: extract_entry_def\<close>)

lemma extract_entries_from:
  "extract_entries target rest dk = (Inr x, dk') \<Longrightarrow> set rest \<subseteq> set es \<Longrightarrow> from_archive target es dk \<Longrightarrow> fs_healthy (dk_fs dk) \<Longrightarrow>
    from_archive target es dk' \<and> fs_healthy (dk_fs dk')"
proof (induction target rest dk arbitrary: x dk' rule: extract_entries.induct)
  case (3 target z rest dk)
  show ?case
  proof (cases "contains_str (ze_name z) ''easytier-core''")
    case False
    then show ?thesis using 3 by simp
  next
    case True
    then obtain y dk1 where y: "extract_entry target z dk = (Inr y, dk1)" "extract_entries target rest dk1 = (Inr x, dk')"
      using 3(3) by (auto simp: and_then_Inr)
    from extract_entry_from [OF y(1) _ 3(5,6)] 3(4) have d: "from_archive target es dk1 \<and> fs_healthy (dk_fs dk1)" by auto
    have "\<not> \<not> contains_str (ze_name z) ''easytier-core''" using True by simp
    from 3(2) [OF this y(2)] 3(4) d show ?thesis by auto
  qed
qed auto

lemma find_in_sound:
  assumes "install_env_ok I"
  shows "find_in (ie_list I) dk name dir ns = Some p \<Longrightarrow> \<forall>n \<in> set ns. path_exists dk (dir @ [n]) \<Longrightarrow>
    (\<exists>rest. p = dir @ rest \<and> rest \<noteq> [] \<and> last rest = name) \<and> content dk p \<noteq> None"
proof (induction "ie_list I" dk name dir ns arbitrary: p rule: find_in.induct)
  case (2 dk name dir n ns)
  let ?q = "dir @ [n]"
  show ?case
  proof (cases "?q \<in> set (dk_dirs dk)")
    case True
    show ?thesis
    proof (cases "case ie_list I dk ?q of None \<Rightarrow> None | Some es \<Rightarrow> find_in (ie_list I) dk name ?q es")
      case None
      then show ?thesis using 2(2) [OF refl True] 2(4,5) True by (auto simp: Let_def)
    next
      case (Some found)
      then obtain es where es: "ie_list I dk ?q = Some es" "find_in (ie_list I) dk name ?q es = Some found" by (auto split: option.splits)
      have "\<forall>m \<in> set es. path_exists dk (?q @ [m])" using assms es(1) unfolding install_env_ok_def by blast
      from 2(1) [OF refl True es this] have "(\<exists>rest. found = ?q @ rest \<and> rest \<noteq> [] \<and> last rest = name) \<and> content dk found \<noteq> None" .
      then have "(\<exists>rest. found = dir @ rest \<and> rest \<noteq> [] \<and> last rest = name) \<and> content dk found \<noteq> None" by auto
      then show ?thesis using 2(4) True Some by (simp add: Let_def)
    qed
  next
    case False
    then show ?thesis using 2(3) [OF refl] 2(4,5)
      by (auto simp: Let_def path_exists_def fs_exists_def content_def split: if_splits)
  qed
qed simp

lemma find_binary_sound:
  assumes "install_env_ok I" and "find_binary I dir name dk = Some p"
  obtains rest c where "p = dir @ rest" "rest \<noteq> []" "last rest = name" "content dk p = Some c"
proof -
  obtain ns where ns: "ie_list I dk dir = Some ns" "find_in (ie_list I) dk name dir ns = Some p"
    using assms(2) by (auto simp: find_binary_def split: option.splits)
  then have "\<forall>n \<in> set ns. path_exists dk (dir @ [n])" using assms(1) unfolding install_env_ok_def by blast
  from find_in_sound [OF assms(1) ns(2) this] that show thesis by auto
qed

lemma copy_file_Inr:
  assumes "copy_file src dst dk = (Inr x, dk')"
  shows "content dk' dst = content dk src \<and> fs_healthy (dk_fs dk') = fs_healthy (dk_fs dk)"
  using assms by (auto simp: copy_file_def fs_read_def content_def put_content_def fs_healthy_def Let_def split: sum.splits option.splits)

lemma set_mode_Inr: "set_mode p m dk = (Inr x, dk') \<Longrightarrow> dk' = dk\<lparr>dk_modes := (dk_modes dk)(p := m)\<rparr>"
  by (auto simp: set_mode_def split: option.splits)

text \<open>The extraction directory holds only what the archive has, and the copy is one of its files.\<close>

lemma install_archive_from:
  assumes "install_env_ok I" and "drive_ok dk" and "extension_of a = Some ''zip''" and "content dk a = Some data"
    and "ie_zip I data = Inr entries" and "\<not> below (extract_dir I v) target"
    and "install_archive I display v a target dk = (Inr x, dk')"
  shows "(\<exists>z rel b. Inr z \<in> set entries \<and> ze_enclosed z = Some rel \<and> rel \<noteq> [] \<and> last rel = BINARY_NAME \<and> ze_data z = Inr b \<and>
      content dk' target = Some b) \<and> dk_modes dk' target = 493 \<and> fs_healthy (dk_fs dk')"
proof -
  let ?t = "extract_dir I v" and ?d1 = "snd (remove_dirs (extract_dir I v) dk)"
  obtain u dk2 w dk3 found y dk4 q dk5 where s: "make_dirs ?t ?d1 = (Inr u, dk2)" "extract_archive I display a ?t dk2 = (Inr w, dk3)"
      "find_binary I ?t BINARY_NAME dk3 = Some found" "copy_file found target dk3 = (Inr y, dk4)" "set_mode target 493 dk4 = (Inr q, dk5)"
      "dk' = snd (remove_dirs ?t dk5)"
    using assms(7) by (auto simp: install_archive_def and_then_Inr Let_def split: option.splits)
  have h: "fs_healthy (dk_fs ?d1)" using assms(2) by (simp add: drive_ok_def)
  note m = make_dirs_Inr [OF s(1)]
  have "content dk2 p = None" if "below ?t p" for p
    using that m remove_dirs_clears [OF assms(2) that] by (cases "p = ?t") auto
  then have from2: "from_archive ?t entries dk2" by (auto simp: from_archive_def)
  have h2: "fs_healthy (dk_fs dk2)" using h m by simp
  have "content dk2 a = Some data"
  proof (cases "below ?t a")
    case True
    then have "content dk2 a = None" using \<open>\<And>p. below ?t p \<Longrightarrow> content dk2 p = None\<close> by simp
    then show ?thesis using s(2) assms(3) h2 by (simp add: extract_archive_def extract_zip_def fs_read_def content_def fs_healthy_def)
  next
    case False
    then show ?thesis using m assms(4) remove_dirs_other by metis
  qed
  then have "extract_entries ?t entries dk2 = (Inr w, dk3)"
    using s(2) assms(3,5) h2 by (simp add: extract_archive_def extract_zip_def fs_read_def content_def fs_healthy_def)
  from extract_entries_from [OF this subset_refl from2 h2] have f: "from_archive ?t entries dk3" "fs_healthy (dk_fs dk3)" by auto
  obtain rest c where p: "found = ?t @ rest" "rest \<noteq> []" "last rest = BINARY_NAME" "content dk3 found = Some c"
    using find_binary_sound [OF assms(1) s(3)] .
  then obtain z where z: "Inr z \<in> set entries" "ze_enclosed z = Some rest" "ze_data z = Inr c"
    using f(1) unfolding from_archive_def below_append by blast
  note d4 = copy_file_Inr [OF s(4)] and d5 = set_mode_Inr [OF s(5)]
  have "content dk5 target = Some c" using d4 d5 p(4) by (simp add: content_def)
  then have "content dk' target = Some c" using s(6) remove_dirs_other [OF assms(6)] by simp
  moreover have "dk_modes dk' target = 493" unfolding s(6) d5 by (auto simp: remove_dirs_def split: option.split)
  moreover have "fs_healthy (dk_fs dk')" using s(6) d4 d5 f(2) by simp
  ultimately show ?thesis using z p(2,3) by blast
qed

text \<open>
  C18: What is installed is what the archive holds, and it is what is used from then on. When the installation of a version
  that was not there succeeds, the binary of that version has the bytes of an entry of the zip archive named
  \<open>easytier-core\<close>, is executable, is the current version, and is what the next request for the binary returns without
  installing again.
\<close>

theorem installed_from_archive:
  assumes "install_env_ok I" and "drive_ok dk" and "extension_of a = Some ''zip''" and "content dk a = Some data"
    and "ie_zip I data = Inr entries" and "\<not> below (extract_dir I v) (binary_path D v)" and "dw_current_version_file D \<noteq> binary_path D v"
    and "\<not> path_exists dk (binary_path D v)" and "install_version I display D v (LocalArchive a) dk = (Inr p, dk')"
  shows "p = binary_path D v \<and>
    (\<exists>z rel b. Inr z \<in> set entries \<and> ze_enclosed z = Some rel \<and> rel \<noteq> [] \<and> last rel = BINARY_NAME \<and> ze_data z = Inr b \<and> content dk' p = Some b) \<and>
    dk_modes dk' p = 493 \<and> current_version I D dk' = Some v \<and> ensure_binary I display D dk' = (Inr p, dk')"
proof -
  let ?p = "binary_path D v"
  obtain u dk1 w dk2 y where s: "make_dirs (butlast ?p) dk = (Inr u, dk1)" "install_archive I display v a ?p dk1 = (Inr w, dk2)"
      "set_current_version I D v dk2 = (Inr y, dk')" "p = ?p"
    using assms(8,9) by (auto simp: install_version_def and_then_Inr Let_def)
  note m = make_dirs_Inr [OF s(1)]
  have "set (dk_dirs dk) \<subseteq> set (dk_dirs dk1)" using s(1) by (auto simp: make_dirs_def split: sum.splits if_splits)
  then have "drive_ok dk1" using assms(2) m unfolding drive_ok_def by (metis subsetD)
  moreover have "content dk1 a = Some data" using assms(4) m by simp
  ultimately obtain z rel b where z: "Inr z \<in> set entries" "ze_enclosed z = Some rel" "rel \<noteq> []" "last rel = BINARY_NAME" "ze_data z = Inr b"
      "content dk2 ?p = Some b" and d2: "dk_modes dk2 ?p = 493" "fs_healthy (dk_fs dk2)"
    using install_archive_from [OF assms(1) _ assms(3) _ assms(5,6) s(2)] by blast
  obtain j where j: "js_ser (ie_meta I) \<lparr>bm_current_version = v, bm_binary_dir = butlast ?p\<rparr> = Inr j" "is_utf8 (of_bytes j)"
      "js_de (ie_meta I) j = Inr \<lparr>bm_current_version = v, bm_binary_dir = butlast ?p\<rparr>"
    using assms(1) unfolding install_env_ok_def by blast
  have d': "dk' = put_content (dw_current_version_file D) j dk2"
    using s(3) j(1) d2(2) by (auto simp: set_current_version_def write_file_def fs_healthy_def)
  have "from_utf8 j = Some (of_bytes j)" using from_utf8_as_bytes [OF j(2)] by simp
  then have "fs_read_to_string (dk_fs dk') (dw_current_version_file D) = Some (of_bytes j)"
    using d2(2) by (simp add: d' fs_read_to_string_def fs_read_def put_content_def fs_healthy_def)
  then have cur: "current_version I D dk' = Some v" using j(3) by (simp add: current_version_def)
  have c: "content dk' ?p = Some b" "dk_modes dk' ?p = 493" using z(6) d2(1) assms(7) by (auto simp: d' put_content_def content_def)
  then have "path_exists dk' ?p" by (simp add: path_exists_def fs_exists_def content_def)
  then have "ensure_binary I display D dk' = (Inr ?p, dk')" using cur by (simp add: ensure_binary_def current_binary_path_def Let_def)
  with cur c z s(4) show ?thesis by blast
qed

definition meta_json :: "binary_metadata json" where
  "meta_json =
    nats_json (\<lambda>m. fl_str (bm_current_version m) @ fl_list fl_str (bm_binary_dir m))
      (\<lambda>ns. let (v, r) = rd_str ns; (d, r) = rd_list rd_str r in (\<lparr>bm_current_version = v, bm_binary_dir = d\<rparr>, r))"

definition install_toy :: install_env where
  "install_toy =
    \<lparr>ie_meta = meta_json, ie_list = \<lambda>dk dir. Some (filter (\<lambda>n. path_exists dk (dir @ [n])) [''linux'', ''easytier-core'']),
     ie_zip = \<lambda>d. Inr [Inr \<lparr>ze_name = ''easytier-cli'', ze_enclosed = Some [''easytier-cli''], ze_is_dir = False, ze_data = Inr [1]\<rparr>,
       Inr \<lparr>ze_name = ''linux/easytier-core'', ze_enclosed = Some [''linux'', ''easytier-core''], ze_is_dir = False, ze_data = Inr d\<rparr>],
     ie_tar = \<lambda>d. Inl ''gzip'', ie_temp = [''tmp'']\<rparr>"

lemma install_toy_ok: "install_env_ok install_toy"
proof -
  have "json_ok meta_json" unfolding meta_json_def
    by (rule nats_json_ok) (simp add: rd_list_fl [of rd_str fl_str, of _ "[]", simplified])
  then have "\<exists>b. js_ser meta_json m = Inr b \<and> is_utf8 (of_bytes b) \<and> js_de meta_json b = Inr m" for m by (metis json_okE)
  moreover have "ie_meta install_toy = meta_json" by (simp add: install_toy_def)
  moreover have "path_exists dk (dir @ [n])" if "ie_list install_toy dk dir = Some ns" "n \<in> set ns" for dk dir ns n
    using that by (auto simp: install_toy_def split: if_splits)
  ultimately show ?thesis unfolding install_env_ok_def by metis
qed

definition downloader_toy :: downloader where
  "downloader_toy = downloader_new ''linux'' ''x86_64'' [''data''] None"

definition drive_toy :: drive where
  "drive_toy = \<lparr>dk_fs = fs_empty\<lparr>fs_data := [[''core.zip''] \<mapsto> [7, 8]]\<rparr>, dk_modes = \<lambda>_. 420, dk_mfault = \<lambda>_. None, dk_dirs = [[]]\<rparr>"

lemma drive_toy_ok: "drive_ok drive_toy"
  by (simp add: drive_ok_def drive_toy_def content_def fs_healthy_def fs_empty_def)

theorem installed_from_archive_witness:
  "\<exists>p dk'. install_version install_toy concat downloader_toy ''2.0'' (LocalArchive [''core.zip'']) drive_toy = (Inr p, dk') \<and>
     current_version install_toy downloader_toy dk' = Some ''2.0'' \<and> ensure_binary install_toy concat downloader_toy dk' = (Inr p, dk') \<and>
     dk_modes dk' p = 493"
proof -
  let ?run = "install_version install_toy concat downloader_toy ''2.0'' (LocalArchive [''core.zip'']) drive_toy"
  have "isl (fst ?run) = False" by code_simp
  then obtain p dk' where r: "?run = (Inr p, dk')" by (cases ?run; cases "fst ?run") auto
  have "extension_of [''core.zip''] = Some ''zip''" "content drive_toy [''core.zip''] = Some [7, 8]"
    "\<not> below (extract_dir install_toy ''2.0'') (binary_path downloader_toy ''2.0'')"
    "dw_current_version_file downloader_toy \<noteq> binary_path downloader_toy ''2.0''"
    "\<not> path_exists drive_toy (binary_path downloader_toy ''2.0'')" by code_simp+
  from installed_from_archive [OF install_toy_ok drive_toy_ok this(1,2) _ this(3-5) r] r show ?thesis
    by (auto simp: install_toy_def)
qed

section \<open>Where installing fails its user\<close>

text \<open>
  A version that is on the drive is not made the current one: asking for an older version that was installed before
  succeeds, and the newer one stays in use.
\<close>

theorem reinstall_keeps_version:
  assumes "path_exists dk (binary_path D v)"
  shows "\<exists>p dk'. install_version I display D v source dk = (Inr p, dk') \<and> current_version I D dk' = current_version I D dk"
  using assms by (simp add: install_version_def)

text \<open>A copy that breaks off leaves a part of the binary behind, which the next attempt takes for an installed version.\<close>

theorem broken_copy_accepted:
  assumes "fs_wfault (dk_fs dk) (binary_path D v) = Some (e, Some c)" and "content dk src = Some b" and "fs_rfault (dk_fs dk) src = None"
    and "make_dirs (butlast (binary_path D v)) dk = (Inr u, dk1)" and "\<not> path_exists dk (binary_path D v)"
  shows "\<exists>m dk'. install_version I display D v (LocalBinary src) dk = (Inl m, dk') \<and>
     install_version I display D v (LocalBinary src) dk' = (Inr (binary_path D v), dk') \<and> content dk' (binary_path D v) = Some c"
proof -
  let ?p = "binary_path D v" and ?dk' = "put_content (binary_path D v) c dk1"
  note m = make_dirs_Inr [OF assms(4)]
  have "content dk1 src = Some b" "fs_rfault (dk_fs dk1) src = None" "fs_wfault (dk_fs dk1) ?p = Some (e, Some c)" using m assms(1-3) by simp_all
  then have "copy_file src ?p dk1 = (Inl e, ?dk')" by (simp add: copy_file_def fs_read_def content_def)
  then have "\<exists>m. install_version I display D v (LocalBinary src) dk = (Inl m, ?dk')"
    using assms(4,5) by (simp add: install_version_def install_binary_def and_then_def failing_def)
  moreover have "path_exists ?dk' ?p" by (simp add: path_exists_def fs_exists_def put_content_def)
  then have "install_version I display D v (LocalBinary src) ?dk' = (Inr ?p, ?dk')" by (simp add: install_version_def Let_def)
  ultimately show ?thesis by fastforce
qed

text \<open>A version whose archive could not be opened is listed as installed, because its directory was made first.\<close>

theorem failed_install_listed:
  "\<exists>e dk'. install_version (install_toy\<lparr>ie_list := \<lambda>dk dir. Some (filter (\<lambda>n. path_exists dk (dir @ [n])) [''easytier-core-3''])\<rparr>) concat
      downloader_toy ''3'' (LocalArchive [''missing.zip'']) drive_toy = (Inl e, dk') \<and>
    list_installed (install_toy\<lparr>ie_list := \<lambda>dk dir. Some (filter (\<lambda>n. path_exists dk (dir @ [n])) [''easytier-core-3''])\<rparr>) downloader_toy dk' = [''3'']"
proof -
  let ?I = "install_toy\<lparr>ie_list := \<lambda>dk dir. Some (filter (\<lambda>n. path_exists dk (dir @ [n])) [''easytier-core-3''])\<rparr>"
  let ?run = "install_version ?I concat downloader_toy ''3'' (LocalArchive [''missing.zip'']) drive_toy"
  have "case ?run of (r, dk') \<Rightarrow> isl r \<and> list_installed ?I downloader_toy dk' = [''3'']" by code_simp
  then show ?thesis by (cases ?run) (auto simp: isl_def)
qed

text \<open>The web route asks whether \<open>latest\<close> is newer: it is, for every version a release has.\<close>

theorem latest_always_newer:
  "current_version I D dk \<noteq> Some ''latest'' \<Longrightarrow> check_update I D ''latest'' dk"
  by (auto simp: check_update_def split: option.split)

end
