(* ===== verification/Core_Download.thy ===== *)
theory Core_Download
  imports App_Update Core_Install Daemon_Ipc "HOL-Library.Sorting_Algorithms"
begin

text \<open>
  Fetching the EasyTier core: the releases of \<open>src-tauri/src/easytier/github.rs\<close>, the download of
  \<open>easytier/downloader.rs\<close> and the commands of \<open>commands/easytier.rs\<close>. The list of versions is sorted with the comparison
  of the code, which is shown to be a comparator of the library; the downloads run in the loop of \<open>Downloads\<close>.
\<close>

section \<open>Surroundings\<close>

record 'n core_env =
  co_install :: install_env
  co_display :: "path \<Rightarrow> string"
  co_get :: "'n http_get"
  co_client :: "string + unit"
  co_text :: "bytes \<Rightarrow> string"
  co_releases :: "string \<Rightarrow> string + github_release list"
  co_release :: "string \<Rightarrow> string + github_release"
  co_config :: app_config
  co_ping :: "'n \<Rightarrow> bool \<times> 'n"
  co_switch :: "'n \<Rightarrow> (string + ipc_response) \<times> 'n"

definition github_api :: "app_config \<Rightarrow> string" where
  "github_api conf = ac_get_str conf ''GITHUB_API'' ''https://api.github.com/repos/EasyTier/EasyTier/releases''"

definition core_client :: "'n core_env \<Rightarrow> string + unit" where
  "core_client E = (case co_client E of Inl e \<Rightarrow> Inl (utf8_text [229, 136, 155, 229, 187, 186] @ '' HTTP '' @ utf8_text [229, 174, 162, 230, 136, 183, 231, 171, 175, 229, 164, 177, 232, 180, 165] @ '': '' @ e) | Inr _ \<Rightarrow> Inr ())"

section \<open>Versions\<close>

definition version_numbers :: "string \<Rightarrow> nat list" where
  "version_numbers v = List.map_filter (parse_uint (2 ^ 32 - 1)) (split_str ''.'' v)"

definition numbers_cmp :: "nat list \<Rightarrow> nat list \<Rightarrow> comp" where
  "numbers_cmp pa pb =
    (case find (\<lambda>(x, y). x \<noteq> y) (zip pa pb) of
       Some (x, y) \<Rightarrow> if y < x then Less else Greater
     | None \<Rightarrow> if length pa > length pb then Less else if length pa < length pb then Greater else Equiv)"

definition version_cmp :: "string \<Rightarrow> string \<Rightarrow> comp" where
  "version_cmp a b = numbers_cmp (version_numbers a) (version_numbers b)"

text \<open>It is the descending lexicographic order of the numbers, and so a comparator.\<close>

lemma numbers_cmp_Cons:
  "numbers_cmp (x # xs) (y # ys) = (if x = y then numbers_cmp xs ys else if y < x then Less else Greater)"
  by (cases "x = y") (simp_all add: numbers_cmp_def)

lemma numbers_cmp_lexicographic: "numbers_cmp pa pb = (if pa = pb then Equiv else if pb < pa then Less else Greater)"
proof (induction pa pb rule: list_induct2')
  case (4 x xs y ys)
  then show ?case by (auto simp: numbers_cmp_Cons)
qed (simp_all add: numbers_cmp_def)

lemma version_cmp_numbers:
  "version_cmp a b =
    (if version_numbers a = version_numbers b then Equiv else if version_numbers b < version_numbers a then Less else Greater)"
  unfolding version_cmp_def by (rule numbers_cmp_lexicographic)

lift_definition version_order :: "string comparator" is version_cmp
  by unfold_locales (auto simp: version_cmp_numbers split: if_splits)

lemma compare_versions_numbers:
  "compare version_order a b =
    (if version_numbers a = version_numbers b then Equiv else if version_numbers b < version_numbers a then Less else Greater)"
  unfolding version_cmp_numbers [symmetric] by transfer (rule refl)

lemma not_after: "compare version_order a b \<noteq> Greater \<longleftrightarrow> version_numbers b \<le> version_numbers a"
  by (auto simp: compare_versions_numbers)

definition released_versions :: "github_release list \<Rightarrow> string list" where
  "released_versions releases = map (\<lambda>r. trim_start_matches ''v'' (gr_tag_name r)) (filter (\<lambda>r. starts_with (gr_tag_name r) ''v'') releases)"

definition fetch_available_versions :: "'n core_env \<Rightarrow> 'n download \<Rightarrow> (string + string list) \<times> 'n download" where
  "fetch_available_versions E s =
    (case core_client E of
       Inl e \<Rightarrow> (Inl e, s)
     | Inr _ \<Rightarrow>
        (case ask (co_get E) (github_api (co_config E) @ ''?per_page=20'') s of
           (Inl e, s) \<Rightarrow> (Inl (utf8_text [232, 142, 183, 229, 143, 150, 231, 137, 136, 230, 156, 172, 229, 136, 151, 232, 161, 168, 229, 164, 177, 232, 180, 165] @ '': '' @ e), s)
         | (Inr resp, s) \<Rightarrow>
            (if \<not> status_ok resp then (Inl (''GitHub API '' @ utf8_text [232, 191, 148, 229, 155, 158, 233, 148, 153, 232, 175, 175] @ '': '' @ rs_display resp), s)
             else (case body_bytes resp of
                     Inl e \<Rightarrow> (Inl (utf8_text [232, 175, 187, 229, 143, 150, 229, 147, 141, 229, 186, 148, 229, 164, 177, 232, 180, 165] @ '': '' @ e), s)
                   | Inr b \<Rightarrow> (case co_releases E (co_text E b) of
                                 Inl e \<Rightarrow> (Inl (utf8_text [232, 167, 163, 230, 158, 144, 229, 147, 141, 229, 186, 148, 229, 164, 177, 232, 180, 165] @ '': '' @ e), s)
                               | Inr releases \<Rightarrow> (Inr (Sorting_Algorithms.sort version_order (released_versions releases)), s))))))"

definition download_url :: "app_config \<Rightarrow> string \<Rightarrow> string \<Rightarrow> string" where
  "download_url conf version platform =
    mirror_of conf @ ''/https://github.com/EasyTier/EasyTier/releases/download/v'' @ version @ ''/easytier-'' @ platform @ ''-v'' @ version @ ''.zip''"

section \<open>Checksums\<close>

fun line_checksum :: "string \<Rightarrow> string list \<Rightarrow> string option" where
  "line_checksum platform [] = None"
| "line_checksum platform (line # ls) =
    (case split_whitespace line of
       hash # name # _ \<Rightarrow> if contains_str name platform then Some hash else line_checksum platform ls
     | _ \<Rightarrow> line_checksum platform ls)"

fun asset_checksum :: "'n core_env \<Rightarrow> string \<Rightarrow> github_asset list \<Rightarrow> 'n download \<Rightarrow> (string + string option) \<times> 'n download" where
  "asset_checksum E platform [] s = (Inr None, s)"
| "asset_checksum E platform (a # assets) s =
    (if ga_name a = ''checksums.txt'' \<or> ends_with (ga_name a) ''.sha256'' then
       (case ask (co_get E) (mirror_of (co_config E) @ ''/'' @ ga_url a) s of
          (Inl e, s) \<Rightarrow> (Inl (utf8_text [228, 184, 139, 232, 189, 189, 230, 160, 161, 233, 170, 140, 230, 150, 135, 228, 187, 182, 229, 164, 177, 232, 180, 165] @ '': '' @ e), s)
        | (Inr resp, s) \<Rightarrow>
           (if status_ok resp then
              (case body_bytes resp of
                 Inl e \<Rightarrow> (Inl (utf8_text [232, 175, 187, 229, 143, 150, 230, 160, 161, 233, 170, 140, 230, 150, 135, 228, 187, 182, 229, 164, 177, 232, 180, 165] @ '': '' @ e), s)
               | Inr b \<Rightarrow>
                  (case line_checksum platform (lines (co_text E b)) of
                     Some hash \<Rightarrow> (Inr (Some hash), s)
                   | None \<Rightarrow> asset_checksum E platform assets s))
            else asset_checksum E platform assets s))
     else asset_checksum E platform assets s)"

definition fetch_core_checksum :: "'n core_env \<Rightarrow> string \<Rightarrow> string \<Rightarrow> 'n download \<Rightarrow> (string + string option) \<times> 'n download" where
  "fetch_core_checksum E version platform s =
    (case core_client E of
       Inl e \<Rightarrow> (Inl e, s)
     | Inr _ \<Rightarrow>
        (case ask (co_get E) (github_api (co_config E) @ ''/repos/EasyTier/EasyTier/releases/tags/v'' @ version) s of
           (Inl e, s) \<Rightarrow> (Inl (utf8_text [232, 142, 183, 229, 143, 150] @ '' Release '' @ utf8_text [228, 191, 161, 230, 129, 175, 229, 164, 177, 232, 180, 165] @ '': '' @ e), s)
         | (Inr resp, s) \<Rightarrow>
            (if \<not> status_ok resp then (Inr None, s)
             else (case body_bytes resp of
                     Inl e \<Rightarrow> (Inl (utf8_text [232, 175, 187, 229, 143, 150] @ '' Release '' @ utf8_text [229, 147, 141, 229, 186, 148, 229, 164, 177, 232, 180, 165] @ '': '' @ e), s)
                   | Inr b \<Rightarrow> (case co_release E (co_text E b) of
                                 Inl e \<Rightarrow> (Inl (utf8_text [232, 167, 163, 230, 158, 144] @ '' Release '' @ utf8_text [229, 164, 177, 232, 180, 165] @ '': '' @ e), s)
                               | Inr release \<Rightarrow> asset_checksum E platform (gr_assets release) s)))))"

section \<open>Downloads\<close>

definition core_file :: "string \<Rightarrow> string \<Rightarrow> string" where
  "core_file platform version = ''easytier-'' @ platform @ ''-v'' @ version @ ''.zip''"

definition direct_url :: "string \<Rightarrow> string \<Rightarrow> string" where
  "direct_url platform version = ''https://github.com/EasyTier/EasyTier/releases/download/v'' @ version @ ''/'' @ core_file platform version"

definition mirror_url :: "'n core_env \<Rightarrow> string \<Rightarrow> string \<Rightarrow> string" where
  "mirror_url E platform version = mirror_of (co_config E) @ ''/'' @ direct_url platform version"

definition download_dir :: "'n core_env \<Rightarrow> string \<Rightarrow> path" where
  "download_dir E version = path_join (ie_temp (co_install E)) (''easytier-dl-'' @ version)"

definition discard_dir :: "path \<Rightarrow> 'n download \<Rightarrow> 'n download" where
  "discard_dir dir s = s\<lparr>dl_drive := snd (remove_dirs dir (dl_drive s))\<rparr>"

text \<open>One attempt without progress. Three of its failures go on to the next attempt without a pause.\<close>

definition github_attempt :: "'n core_env \<Rightarrow> downloader \<Rightarrow> string \<Rightarrow> string \<times> string \<times> nat \<Rightarrow> 'n download \<Rightarrow> path turn \<times> 'n download" where
  "github_attempt E D version = (\<lambda>(url, label, attempt) s.
    let temp_dir = download_dir E version; filename = core_file (dw_platform D) version;
        final_path = path_join temp_dir filename; tmp_path = path_join temp_dir (filename @ ''.tmp'') in
    case ask (co_get E) url s of
      (Inl e, s) \<Rightarrow> (Again (label @ '' '' @ utf8_text [228, 184, 139, 232, 189, 189, 229, 164, 177, 232, 180, 165] @ '': '' @ e), pause_after attempt s)
    | (Inr resp, s) \<Rightarrow>
       (if \<not> status_ok resp then (Again (label @ '' '' @ utf8_text [232, 191, 148, 229, 155, 158] @ '' HTTP '' @ rs_display resp), pause_after attempt s)
        else (let s = snd (on_drive (ignored (make_dirs temp_dir)) s) in
              case body_bytes resp of
                Inl e \<Rightarrow> (Again (label @ '' '' @ utf8_text [232, 175, 187, 229, 143, 150, 230, 149, 176, 230, 141, 174, 229, 164, 177, 232, 180, 165] @ '': '' @ e), discard_dir temp_dir s)
              | Inr bytes \<Rightarrow>
                 (if bytes = [] then (Again (label @ '' '' @ utf8_text [228, 184, 139, 232, 189, 189, 230, 150, 135, 228, 187, 182, 228, 184, 186, 231, 169, 186]), discard_dir temp_dir s)
                  else (case on_drive (write_file tmp_path bytes) s of
                          (Inl e, s) \<Rightarrow> (Again (label @ '' '' @ utf8_text [229, 134, 153, 229, 133, 165, 228, 184, 180, 230, 151, 182, 230, 150, 135, 228, 187, 182, 229, 164, 177, 232, 180, 165] @ '': '' @ e), discard_dir temp_dir s)
                        | (Inr _, s) \<Rightarrow>
                           (let s = snd (on_drive (ignored (rename_file tmp_path final_path)) s) in
                            case on_drive (install_version (co_install E) (co_display E) D version (LocalArchive final_path)) s of
                              (Inr p, s) \<Rightarrow> (Return (Inr p), discard_dir temp_dir s)
                            | (Inl e, s) \<Rightarrow> (Again (label @ '' '' @ utf8_text [229, 174, 137, 232, 163, 133, 229, 164, 177, 232, 180, 165] @ '': '' @ e), pause_after attempt (discard_dir temp_dir s))))))))"

definition download_from_github :: "'n core_env \<Rightarrow> downloader \<Rightarrow> string \<Rightarrow> 'n download \<Rightarrow> (string + path) \<times> 'n download" where
  "download_from_github E D version s =
    (case core_client E of
       Inl e \<Rightarrow> (Inl e, s)
     | Inr _ \<Rightarrow>
        retry_sources (github_attempt E D version)
          [(mirror_url E (dw_platform D) version, utf8_text [233, 149, 156, 229, 131, 143]), (direct_url (dw_platform D) version, utf8_text [231, 155, 180, 232, 191, 158])] s)"

text \<open>\<open>EasyTierManager::upgrade\<close> as far as the downloader goes: the source that was given, or a download.\<close>

definition install_or_download :: "'n core_env \<Rightarrow> downloader \<Rightarrow> string \<Rightarrow> binary_source option \<Rightarrow> 'n download \<Rightarrow> (string + path) \<times> 'n download" where
  "install_or_download E D version source s =
    (case source of
       Some src \<Rightarrow> on_drive (install_version (co_install E) (co_display E) D version src) s
     | None \<Rightarrow> download_from_github E D version s)"

section \<open>Commands\<close>

definition get_easytier_version :: "string + ipc_response \<Rightarrow> string + string \<Rightarrow> string + string" where
  "get_easytier_version answer local_version =
    (case answer of
       Inr (IpcOk data) \<Rightarrow>
         (case Option.bind data (\<lambda>v. get_str v ''version'') of Some v \<Rightarrow> Inr v | None \<Rightarrow> Inl (utf8_text [230, 151, 160, 230, 179, 149, 232, 142, 183, 229, 143, 150, 231, 137, 136, 230, 156, 172]))
     | Inr (IpcError message) \<Rightarrow>
         (case local_version of Inr v \<Rightarrow> Inr v | Inl e \<Rightarrow> Inl (message @ ''; '' @ utf8_text [230, 156, 172, 229, 156, 176, 232, 175, 187, 229, 143, 150, 228, 185, 159, 229, 164, 177, 232, 180, 165] @ '': '' @ e))
     | Inl e \<Rightarrow>
         (case local_version of Inr v \<Rightarrow> Inr v | Inl l \<Rightarrow> Inl (utf8_text [232, 191, 158, 230, 142, 165] @ '' daemon '' @ utf8_text [229, 164, 177, 232, 180, 165] @ '': '' @ e @ ''; '' @ utf8_text [230, 156, 172, 229, 156, 176, 232, 175, 187, 229, 143, 150, 228, 185, 159, 229, 164, 177, 232, 180, 165] @ '': '' @ l)))"

definition ipc_outcome :: "string + ipc_response \<Rightarrow> string + unit" where
  "ipc_outcome answer =
    (case answer of
       Inr (IpcOk _) \<Rightarrow> Inr ()
     | Inr (IpcError message) \<Rightarrow> Inl message
     | Inl e \<Rightarrow> Inl (utf8_text [232, 191, 158, 230, 142, 165] @ '' daemon '' @ utf8_text [229, 164, 177, 232, 180, 165] @ '': '' @ e))"

definition daemon_down :: string where
  "daemon_down = ''daemon '' @ utf8_text [230, 156, 170, 232, 191, 144, 232, 161, 140, 230, 136, 150, 230, 151, 160, 230, 179, 149, 232, 191, 158, 230, 142, 165]"

definition upgrade_easytier :: "bool \<Rightarrow> string + ipc_response \<Rightarrow> string + unit" where
  "upgrade_easytier ping answer = (if \<not> ping then Inl daemon_down else ipc_outcome answer)"

definition switch_daemon :: "'n core_env \<Rightarrow> 'n download \<Rightarrow> (string + unit) \<times> 'n download" where
  "switch_daemon E s =
    (let (up, n) = co_ping E (dl_net s) in
     if \<not> up then (Inl daemon_down, s\<lparr>dl_net := n\<rparr>)
     else (let (answer, n) = co_switch E n in (ipc_outcome answer, s\<lparr>dl_net := n\<rparr>)))"

definition progress_attempt :: "'n core_env \<Rightarrow> downloader \<Rightarrow> string \<Rightarrow> string \<times> string \<times> nat \<Rightarrow> 'n download \<Rightarrow> unit turn \<times> 'n download" where
  "progress_attempt E D version = (\<lambda>(url, label, attempt) s.
    let temp_dir = download_dir E version; filename = core_file (dw_platform D) version;
        temp_path = path_join temp_dir filename; tmp_path = path_join temp_dir (filename @ ''.tmp'');
        s = discard_dir temp_dir s in
    case ask (co_get E) url s of
      (Inl e, s) \<Rightarrow> (Again (label @ '' '' @ utf8_text [228, 184, 139, 232, 189, 189, 229, 164, 177, 232, 180, 165] @ '': '' @ e), pause_after attempt s)
    | (Inr resp, s) \<Rightarrow>
       (if \<not> status_ok resp then (Again (label @ '' '' @ utf8_text [232, 191, 148, 229, 155, 158] @ '' HTTP '' @ rs_display resp), pause_after attempt s)
        else (case on_drive (failing (utf8_text [229, 136, 155, 229, 187, 186, 228, 184, 180, 230, 151, 182, 231, 155, 174, 229, 189, 149, 229, 164, 177, 232, 180, 165]) (make_dirs temp_dir)) s of
                (Inl e, s) \<Rightarrow> (Return (Inl e), s)
              | (Inr _, s) \<Rightarrow>
                 (case save_body tmp_path temp_path resp s of
                    (Inl e, s) \<Rightarrow> (Return (Inl e), s)
                  | (Inr _, s) \<Rightarrow>
                     (case on_drive (install_version (co_install E) (co_display E) D version (LocalArchive temp_path)) s of
                        (Inl e, s) \<Rightarrow> (Again (utf8_text [229, 174, 137, 232, 163, 133, 229, 164, 177, 232, 180, 165] @ '': '' @ e), pause_after attempt (discard_dir temp_dir s))
                      | (Inr _, s) \<Rightarrow> (let (r, s) = switch_daemon E (discard_dir temp_dir s) in (Return r, s)))))))"

definition upgrade_easytier_with_progress :: "'n core_env \<Rightarrow> downloader \<Rightarrow> string \<Rightarrow> bool \<Rightarrow> 'n download \<Rightarrow> (string + unit) \<times> 'n download" where
  "upgrade_easytier_with_progress E D version use_proxy s =
    (let direct = (direct_url (dw_platform D) version, utf8_text [231, 155, 180, 232, 191, 158]); proxy = (mirror_url E (dw_platform D) version, utf8_text [228, 187, 163, 231, 144, 134]) in
     case core_client E of
       Inl e \<Rightarrow> (Inl e, s)
     | Inr _ \<Rightarrow> retry_sources (progress_attempt E D version) (if use_proxy then [proxy, direct] else [direct, proxy]) s)"

section \<open>Versions are listed newest first\<close>

text \<open>
  The versions on offer are listed newest first. A list that is returned holds exactly the tags of the releases that
  start with \<open>v\<close>, without it, in descending order of their version numbers, compared number by number, with the longer
  one before its beginnings; tags with the same numbers keep the order of the answer.
\<close>

theorem versions_newest_first:
  assumes "fetch_available_versions E s = (Inr versions, s')"
  shows "\<exists>resp n b releases. co_get E (github_api (co_config E) @ ''?per_page=20'') (dl_net s) = (Inr resp, n) \<and> body_bytes resp = Inr b \<and>
      co_releases E (co_text E b) = Inr releases \<and> mset versions = mset (released_versions releases) \<and>
      sorted_wrt (\<lambda>v w. version_numbers w \<le> version_numbers v) versions \<and>
      (\<forall>ns. filter (\<lambda>v. version_numbers v = ns) versions = filter (\<lambda>v. version_numbers v = ns) (released_versions releases))"
proof -
  obtain resp n b releases where r: "co_get E (github_api (co_config E) @ ''?per_page=20'') (dl_net s) = (Inr resp, n)" "body_bytes resp = Inr b"
      "co_releases E (co_text E b) = Inr releases" and v: "versions = Sorting_Algorithms.sort version_order (released_versions releases)"
    using assms by (auto simp: fetch_available_versions_def ask_def split: sum.splits prod.splits if_splits)
  have "Sorting_Algorithms.sorted version_order versions" by (simp add: v)
  then have "sorted_wrt (\<lambda>v w. version_numbers w \<le> version_numbers v) versions"
    by (induction rule: Sorting_Algorithms.sorted_induct) (auto simp: not_after)
  moreover have "filter (\<lambda>v. version_numbers v = ns) versions = filter (\<lambda>v. version_numbers v = ns) (released_versions releases)" for ns
  proof (cases "\<exists>v \<in> set (released_versions releases). version_numbers v = ns")
    case True
    then obtain x where "version_numbers x = ns" by blast
    then have "(compare version_order x y = Equiv) = (version_numbers y = ns)" for y by (auto simp: compare_versions_numbers)
    then show ?thesis using stable_sort [of version_order x "released_versions releases"] by (simp add: v)
  next
    case False
    then have "\<not> (\<exists>v \<in> set versions. version_numbers v = ns)" by (simp add: v)
    then show ?thesis using False by (simp add: filter_empty_conv)
  qed
  ultimately show ?thesis using r by (auto simp: v)
qed

section \<open>Downloads give up\<close>

lemma on_drive_asks: "on_drive f s = (r, s') \<Longrightarrow> dl_asked s' = dl_asked s \<and> dl_paused s' = dl_paused s"
  by (auto simp: on_drive_def split: prod.splits)

lemma on_drive_snd [simp]: "dl_asked (snd (on_drive f s)) = dl_asked s" "dl_paused (snd (on_drive f s)) = dl_paused s"
  using on_drive_asks [of f s] by (metis prod.collapse)+

lemma discard_asks [simp]: "dl_asked (discard_dir dir s) = dl_asked s" "dl_paused (discard_dir dir s) = dl_paused s"
  by (simp_all add: discard_dir_def)

lemma switch_asks: "switch_daemon E s = (r, s') \<Longrightarrow> dl_asked s' = dl_asked s \<and> dl_paused s' = dl_paused s"
  by (auto simp: switch_daemon_def Let_def split: prod.splits if_splits)

lemma save_asks: "save_body tmp dest resp s = (r, s') \<Longrightarrow> dl_asked s' = dl_asked s \<and> dl_paused s' = dl_paused s"
  using save_quiet [of tmp dest resp s r s'] by (simp add: quiet_def)

lemma pause_asks: "dl_asked (pause_after k s) = dl_asked s"
  "dl_paused (pause_after k s) = dl_paused s + (if k < DOWNLOAD_RETRIES then BASE_DELAY_MS * 2 ^ (k - 1) else 0)"
  by (simp_all add: pause_after_def)

lemma ask_asks: "ask get url s = (r, s') \<Longrightarrow> dl_asked s' = dl_asked s @ [url] \<and> dl_paused s' = dl_paused s"
  by (auto simp: ask_def split: prod.splits)

lemmas step_asks = on_drive_asks switch_asks save_asks ask_asks

lemma github_attempt_asks:
  assumes "github_attempt E D version (url, label, k) s = (t, s')"
  shows "dl_asked s' = dl_asked s @ [url]"
    and "dl_paused s' \<le> dl_paused s + (if k < DOWNLOAD_RETRIES then BASE_DELAY_MS * 2 ^ (k - 1) else 0)"
  using assms by (auto simp: github_attempt_def Let_def pause_asks simp del: One_nat_def split: prod.splits sum.splits if_splits dest!: step_asks)

lemma progress_attempt_asks:
  assumes "progress_attempt E D version (url, label, k) s = (t, s')"
  shows "dl_asked s' = dl_asked s @ [url]"
    and "dl_paused s' \<le> dl_paused s + (if k < DOWNLOAD_RETRIES then BASE_DELAY_MS * 2 ^ (k - 1) else 0)"
  using assms by (auto simp: progress_attempt_def Let_def pause_asks simp del: One_nat_def split: prod.splits sum.splits if_splits dest!: step_asks)

interpretation github: bounded_turns "github_attempt E D version" for E :: "'n core_env" and D version
  by unfold_locales (use github_attempt_asks in fastforce)+

interpretation progress: bounded_turns "progress_attempt E D version" for E :: "'n core_env" and D version
  by unfold_locales (use progress_attempt_asks in fastforce)+


text \<open>The same holds for the download with progress.\<close>

lemma progress_download_gives_up:
  assumes "upgrade_easytier_with_progress E D version use_proxy s = (r, s')"
  shows "(\<exists>asked. dl_asked s' = dl_asked s @ asked \<and> length asked \<le> 6 \<and>
      set asked \<subseteq> {mirror_url E (dw_platform D) version, direct_url (dw_platform D) version}) \<and> dl_paused s' \<le> dl_paused s + 6000"
proof (cases "core_client E")
  case (Inl e)
  then show ?thesis using assms by (auto simp: upgrade_easytier_with_progress_def Let_def)
next
  case (Inr u)
  let ?d = "(direct_url (dw_platform D) version, utf8_text [231, 155, 180, 232, 191, 158])" and ?p = "(mirror_url E (dw_platform D) version, utf8_text [228, 187, 163, 231, 144, 134])"
  have "retry_sources (progress_attempt E D version) (if use_proxy then [?p, ?d] else [?d, ?p]) s = (r, s')"
    using assms Inr by (simp add: upgrade_easytier_with_progress_def Let_def)
  from progress.retry_bounded [OF this] show ?thesis by (auto split: if_splits)
qed

section \<open>A small network\<close>

definition fetch_toy :: "unit core_env" where
  "fetch_toy =
    \<lparr>co_install = install_toy, co_display = concat,
     co_get = \<lambda>url n. (if ends_with url ''.zip'' then Inl ''refused''
       else Inr \<lparr>rs_status = 200, rs_display = ''200 OK'', rs_length = None, rs_chunks = [Inr []]\<rparr>, n),
     co_client = Inr (), co_text = of_bytes,
     co_releases = \<lambda>t. Inr (map (\<lambda>v. \<lparr>gr_tag_name = v, gr_assets = []\<rparr>) [''v2.4'', ''nightly'', ''v2.10'']),
     co_release = \<lambda>t. Inl ''none'', co_config = ue_config (update_toy [] []), co_ping = \<lambda>n. (True, n), co_switch = \<lambda>n. (Inr (IpcOk None), n)\<rparr>"

lemma fetch_toy_refuses:
  assumes "ends_with url ''.zip''"
  shows "github_attempt fetch_toy D v (url, label, k) s =
    (Again (label @ '' '' @ utf8_text [228, 184, 139, 232, 189, 189, 229, 164, 177, 232, 180, 165] @ '': '' @ ''refused''), pause_after k (s\<lparr>dl_asked := dl_asked s @ [url]\<rparr>))"
  using assms by (cases s) (simp add: github_attempt_def ask_def fetch_toy_def)

lemma core_urls_zip: "ends_with (mirror_url E p v) ''.zip''" "ends_with (direct_url p v) ''.zip''"
  by (simp_all add: mirror_url_def direct_url_def core_file_def ends_with_iff)


theorem versions_newest_first_witness:
  "\<exists>versions s'. fetch_available_versions fetch_toy (update_start_toy []) = (Inr versions, s') \<and> mset versions = mset [''2.4'', ''2.10''] \<and>
     sorted_wrt (\<lambda>v w. version_numbers w \<le> version_numbers v) versions"
proof -
  have g: "co_get fetch_toy (github_api (co_config fetch_toy) @ ''?per_page=20'') n =
      (Inr \<lparr>rs_status = 200, rs_display = ''200 OK'', rs_length = None, rs_chunks = [Inr []]\<rparr>, n)" for n
    by (simp add: fetch_toy_def ends_with_def)
  let ?rs = "map (\<lambda>v. \<lparr>gr_tag_name = v, gr_assets = []\<rparr>) [''v2.4'', ''nightly'', ''v2.10'']"
  have c: "core_client fetch_toy = Inr ()" "\<And>t. co_releases fetch_toy t = Inr ?rs" by (simp_all add: core_client_def fetch_toy_def)
  then have "isl (fst (fetch_available_versions fetch_toy (update_start_toy []))) = False"
    by (simp add: fetch_available_versions_def ask_def g status_ok_def body_bytes_def)
  then obtain versions s' where v: "fetch_available_versions fetch_toy (update_start_toy []) = (Inr versions, s')"
    by (cases "fetch_available_versions fetch_toy (update_start_toy [])"; cases "fst (fetch_available_versions fetch_toy (update_start_toy []))") auto
  have t: "released_versions ?rs = [''2.4'', ''2.10'']" by code_simp
  from versions_newest_first [OF v] have "mset versions = mset [''2.4'', ''2.10'']" using t c by auto
  with versions_newest_first [OF v] v show ?thesis by blast
qed

end
