(* ===== verification/Spec2Isabelle.thy ===== *)
theory Spec2Isabelle
  imports App_Config Config_Service Log_Service Url_Rewriter Connect_Path File_Commands Web_Auth Event_Bus Chat Proxy_Server Web_Server Core_Download
begin

text \<open>
  A verification development for homeTier, the desktop application that joins people to private
  networks (``spaces'') built on EasyTier. The Rust sources are under \<open>src/src-tauri/src\<close>; every path
  below is relative to that directory.

  \<^bold>\<open>The program.\<close> A space is an EasyTier network with a name and a secret. The application creates spaces,
  invites others by links, and connects and disconnects them (\<open>space\<close>). It keeps spaces, members, messages,
  files and rules in SQLite (\<open>db\<close>). A daemon with higher privileges runs the EasyTier core and is driven
  over a local socket with framed JSON requests (\<open>daemon\<close>, \<open>easytier\<close>); left-over processes are removed
  at start-up (\<open>cleanup.rs\<close>). Each connected space has small HTTP servers for files and chat (\<open>file\<close>,
  \<open>chat\<close>). Configuration lives in an env file (\<open>config\<close>) and in a versioned store that is served to
  other processes (\<open>config_store\<close>). Logs go through a dispatcher to memory, rolling files and other back
  ends (\<open>log\<close>). Web applications of a space are shown through a rewriting proxy (\<open>proxy\<close>). A web
  server (\<open>server\<close>) offers the same operations to browsers.

  \<^bold>\<open>Conventions.\<close> A Rust string is the list of its UTF-8 bytes, one \<^typ>\<open>char\<close> each; machine integers are
  words of their width; a \<open>Result\<close> is a sum with the error on the left; state is passed explicitly in
  records named after the structs. Time, random numbers, iteration orders of hash maps, directory listings
  and failures of the operating system are arguments, so every theorem holds for all of them. Code outside the
  repository is a record of functions, with its documented behaviour as a named predicate: \<open>primitives_ok\<close>
  (AES-GCM, PBKDF2, SHA-256), \<open>zstd_ok\<close>, \<open>link_lib_ok\<close> (base64, URLs), \<open>json_ok\<close> and \<open>wire_json\<close>
  (serde), \<open>auth_lib_ok\<close> (base64, hexadecimal), \<open>zstd_magic\<close>, \<open>chunked_client\<close> (the HTTP client), \<open>uuid_ok\<close>, \<open>core_ok\<close> (the EasyTier core), \<open>os_ok\<close> (processes and signals). Each is shown to be
  satisfiable by a concrete instance, which the witnesses use.

  \<^bold>\<open>Theories.\<close>
  \<^item> \<open>Prelude\<close>, \<open>Rust_Str\<close>, \<open>Hash_Map\<close>, \<open>Fs\<close>, \<open>Json\<close>, \<open>Json_Value\<close>, \<open>Http_Wire\<close>: result type, bytes, the parts
    of \<open>core::str\<close> in use, hash maps behind the locale \<open>dictionary\<close>, a file system with faults, JSON codecs
    and values, TCP connections as lists of segments and HTTP heads.
  \<^item> \<open>Share_Codec\<close> (\<open>space/share.rs\<close>), \<open>Crypto_Box\<close> (\<open>crypto\<close>, \<open>utils/encrypt.rs\<close>), \<open>Compress\<close>
    (\<open>utils/compress.rs\<close>), \<open>Qr_Link\<close> (\<open>qr\<close>): the invitation formats. Round trips, canonical decoding,
    rejection of truncated input, size bounds; the locale \<open>sealed_box\<close> is the contract of both boxes.
  \<^item> \<open>App_Config\<close> (\<open>config\<close>), \<open>Config_Store\<close>, \<open>Config_Service\<close> (\<open>config_store\<close>): values survive saving and
    restarting, versions only grow, the queue is drained, and the line protocol refines direct calls.
  \<^item> \<open>Log_Backend\<close>, \<open>Log_Service\<close> (\<open>log\<close>): polling misses nothing, rolled files keep every record.
  \<^item> \<open>Network_Config\<close> (\<open>easytier/config.rs\<close>): when the translation to EasyTier succeeds and what it contains.
  \<^item> \<open>Url_Rewriter\<close> (\<open>proxy/rewriter.rs\<close>), \<open>Database\<close> (\<open>db\<close>): rewriting rules; integrity of all tables under
    every statement.
  \<^item> \<open>Easytier_Manager\<close>, \<open>Easytier_Status\<close> (\<open>easytier/mod.rs\<close>, desktop): configuration files, starting, stopping
    and patching networks, status and peer queries, with the panics of the code as outcomes.
  \<^item> \<open>Daemon_Ipc\<close>, \<open>Ipc_Transport\<close>, \<open>Daemon_Run\<close> (\<open>daemon\<close>, \<open>easytier/process.rs\<close>): the seventeen requests, the
    frames with client and server, start-up, port search, announcement and shutdown. Answers are never mixed
    up, whatever fails on the wire.
  \<^item> \<open>Cleanup\<close> (\<open>cleanup.rs\<close>): whom the clean-up may signal, and that PID files of live processes stay.
  \<^item> \<open>Space_Manager\<close>, \<open>Space_Facts\<close> (\<open>space/manager.rs\<close>, desktop): all operations on spaces; invitations say
    what the space is, a created space is connected with what it was created with.
  \<^item> \<open>Connect_Path\<close>: a connect in the application reaches the core, through client, frames, daemon and manager.
  \<^item> \<open>File_Server\<close>, \<open>File_Transfer\<close> (\<open>file/server.rs\<close>, \<open>file/transfer.rs\<close>): requests read from segments, stored and
    returned byte for byte; what is sent is received, and a damaged file is never saved. An upload of a
    streaming client is lost.
  \<^item> \<open>File_Commands\<close> (\<open>file/registry.rs\<close>, \<open>commands/file.rs\<close>): the registry of servers and the commands, over the
    space manager and the database; what was sent is listed; the registry and the manager compete for a port.
  \<^item> \<open>Chat\<close> (\<open>chat\<close>): signatures, which messages get through, what a broadcast reports.
  \<^item> \<open>Web_Auth\<close> (\<open>server/auth.rs\<close>, \<open>auth_layer\<close> in \<open>server/mod.rs\<close>): which requests are forwarded.
  \<^item> \<open>Event_Bus\<close> (\<open>server/event.rs\<close>, \<open>server/ws.rs\<close>): bus and connections as a step relation; events are delivered
    completely, in order and once.
  \<^item> \<open>Cookie_Jar\<close>, \<open>Page_Inject\<close> (\<open>proxy/hometier_protocol.rs\<close>): the jars of the proxy with their table, which stay
    well formed and survive a restart; the relaxed content security policy and the script that is put into a page.
  \<^item> \<open>Http_Forward\<close> (\<open>proxy/plugins/http_forward.rs\<close>): routing by key, query and referrer, merging of cookies,
    retries, redirects, rewriting and downloads; which links come back, and that sessions are kept.
  \<^item> \<open>Ws_Proxy\<close> (\<open>proxy/ws_proxy.rs\<close>): target and handshake of a WebSocket; it never connects to itself, and no
    frame is lost between handshake and tunnel.
  \<^item> \<open>Proxy_Server\<close> (\<open>proxy/plugin.rs\<close>, \<open>proxy/server.rs\<close>, the plug-ins for CORS, frames and tunnels): the chain of
    plug-ins and handlers behind the locale \<open>harmless_chain\<close>, and the connection with the bytes that were peeked.

  \<^item> \<open>App_Commands\<close> (\<open>commands/app.rs\<close>, \<open>network_acls.rs\<close>, \<open>network_port_forwards.rs\<close>, \<open>qr.rs\<close>, \<open>system_apps.rs\<close>):
    applications and rules of a space. A link with applications brings exactly the missing ones to another
    device; an application is changed by its creator only.
  \<^item> \<open>Message_Commands\<close> (\<open>commands/chat.rs\<close>, \<open>commands/signal.rs\<close>): what is sent is stored, sent to the peers and read
    again with a status that says how the delivery went.
  \<^item> \<open>Web_Routes\<close>, \<open>Web_Data\<close> (\<open>server/routes.rs\<close>, \<open>server/assets.rs\<close>): the state of the web server, its answers and
    one definition per handler. What is uploaded is downloaded again, and no file name breaks out of its header.
  \<^item> \<open>Web_Server\<close> (\<open>cmd_router\<close> in \<open>server/routes.rs\<close>, \<open>server/mod.rs\<close>): the table of routes, the matching of paths and
    the request behind the authentication layer. The locale \<open>read_invariant\<close> states what the handlers that read
    leave alone, \<open>table_invariant\<close> extends it by the statements that write; they are interpreted on the integrity
    of the tables and on equality with a fixed database. No sequence of requests breaks the tables, and a
    request without a token changes nothing.

  \<^item> \<open>Downloads\<close>: answers of the HTTP client, files with permissions and directories, and the loop over two sources with three
    attempts each, which the three downloads of the program share. The locale \<open>bounded_turns\<close> is what an attempt promises,
    \<open>framed_turns\<close> extends it by the files it may touch.
  \<^item> \<open>App_Update\<close> (\<open>commands/update_app.rs\<close>): an update is offered exactly for a newer version, and what replaces the
    application has the published checksum.
  \<^item> \<open>Core_Install\<close>, \<open>Core_Download\<close> (\<open>easytier/downloader.rs\<close>, \<open>easytier/github.rs\<close>, \<open>commands/easytier.rs\<close>): what is installed
    comes from the archive and is used from then on; releases are listed newest first; downloads end after six requests.

  \<^bold>\<open>Parameters of the web server.\<close> \<open>decode\<close> is the percent decoding of a path segment, \<open>ext\<close> the handlers for versions,
  updates and upgrades, which reach outside the repository, and \<open>front\<close> the answer for a path of the front end.

  \<^bold>\<open>Bounds.\<close> Loops of the code that end by themselves are functions with termination proofs. Loops with a limit
  take the limit of the code: 7 queries for the virtual address, 50 polls for the daemon, 40 for the core's
  port, 50 and 10 polls for the death of a process, 3 attempts for queries of the core, 3 attempts of the
  proxy with pauses of 2 and 4 seconds, 3 attempts for each of two sources of a download with pauses of 1 and 2 seconds, frames of at most 10 MB, headers of at most 64 KB, 8192 bytes peeked and 4096
  bytes of a WebSocket answer. Loops over a socket end with the bytes that arrive; a handler that would wait
  is a value of its result type.

  \<^bold>\<open>Not modelled.\<close> The mobile variants of the space manager and of the EasyTier launcher (in-process instances);
  voice and screen sharing (media and platform bindings); the handlers of the web server for
  updates and the layers for TLS, CORS and compression; the Tauri commands for configuration, logs, the daemon and the
  window, which forward to the operations above; copying of bytes after a handshake and the texts of
  the scripts the proxy injects (parameters); windows, tray and platform layers; the vendored
  EasyTier sources, which appear as parameters; the TypeScript front end. Scheduling of asynchronous tasks is
  modelled where a property depends on it, by the order of steps, and not otherwise.
\<close>

end
